(* ===== verification/Netsim_Prelude.thy ===== *)
theory Netsim_Prelude
  imports Main "HOL-Library.Word"
begin

text \<open>
  Vocabulary shared by every component: the outcome of a Rust computation as a value
  (\<open>Ok\<close>, an error, a panic of the current thread, an abort of the process), sequencing
  of such outcomes, byte strings, and the generic list lemmas the component theories use.

  A Rust \<^verbatim>\<open>String\<close> is modelled by the bytes of its UTF-8 encoding (\<open>string\<close>, one
  \<open>char\<close> per byte), so that \<^verbatim>\<open>len\<close> is \<open>length\<close> and \<^verbatim>\<open>into_bytes\<close> changes nothing
  but the type. A \<^verbatim>\<open>Vec<u8>\<close> is a list of 8-bit words.
\<close>

section \<open>Names shared by the components\<close>

type_synonym u8 = "8 word"
type_synonym u16 = "16 word"
type_synonym u32 = "32 word"
type_synonym i32 = "32 word"
type_synonym i8 = "8 word"
type_synonym f32 = "32 word"
type_synonym bytes = "u8 list"

named_theorems netsim_simps \<open>evaluation rules of the components\<close>
named_theorems wire_simps \<open>rules for the messages of the wire format\<close>

section \<open>Outcomes\<close>

datatype fault =
    Error string
  | Panic string
  | Abort string

type_synonym 'a result = "fault + 'a"

abbreviation Ok :: "'a \<Rightarrow> 'e + 'a" where
  "Ok \<equiv> Inr"

fun bindE :: "'e + 'a \<Rightarrow> ('a \<Rightarrow> 'e + 'b) \<Rightarrow> 'e + 'b" where
  "bindE (Inl e) f = Inl e"
| "bindE (Inr x) f = f x"

lemma bindE_cong [fundef_cong]:
  "r = r' \<Longrightarrow> (\<And>x. r' = Inr x \<Longrightarrow> f x = g x) \<Longrightarrow> bindE r f = bindE r' g"
  by (cases r') auto

lemma bindE_split:
  "P (bindE r f) \<longleftrightarrow> (\<forall>e. r = Inl e \<longrightarrow> P (Inl e)) \<and> (\<forall>x. r = Inr x \<longrightarrow> P (f x))"
  by (cases r) auto

lemma bindE_assoc [simp]: "bindE (bindE r f) g = bindE r (\<lambda>x. bindE (f x) g)"
  by (cases r) auto

lemma bindE_Inr_iff: "bindE r f = Inr y \<longleftrightarrow> (\<exists>x. r = Inr x \<and> f x = Inr y)"
  by (cases r) auto

lemma bindE_Inl_iff: "bindE r f = Inl e \<longleftrightarrow> r = Inl e \<or> (\<exists>x. r = Inr x \<and> f x = Inl e)"
  by (cases r) auto

lemma bindE_InrE [elim]:
  assumes "bindE r f = Inr y"
  obtains x where "r = Inr x" and "f x = Inr y"
  using assms by (auto simp: bindE_Inr_iff)

text \<open>\<open>map_err\<close> of a \<^verbatim>\<open>Result\<close>: only an \<open>Error\<close> is rewritten, a panic is not.\<close>

fun map_err :: "(string \<Rightarrow> string) \<Rightarrow> 'a result \<Rightarrow> 'a result" where
  "map_err f (Inl (Error e)) = Inl (Error (f e))"
| "map_err f (Inl (Panic e)) = Inl (Panic e)"
| "map_err f (Inl (Abort e)) = Inl (Abort e)"
| "map_err f (Inr x) = Inr x"

lemma map_err_Inr_iff [simp]: "map_err f r = Inr x \<longleftrightarrow> r = Inr x"
  by (cases "(f, r)" rule: map_err.cases) auto

text \<open>\<^verbatim>\<open>Option::ok_or\<close> and \<^verbatim>\<open>Result::unwrap\<close>.\<close>

fun ok_or :: "string \<Rightarrow> 'a option \<Rightarrow> 'a result" where
  "ok_or e None = Inl (Error e)"
| "ok_or e (Some x) = Inr x"

fun unwrap :: "'a result \<Rightarrow> 'a result" where
  "unwrap (Inl (Error e)) = Inl (Panic e)"
| "unwrap (Inl (Panic e)) = Inl (Panic e)"
| "unwrap (Inl (Abort e)) = Inl (Abort e)"
| "unwrap (Inr x) = Inr x"

lemma ok_or_Inr_iff [simp]: "ok_or e v = Inr x \<longleftrightarrow> v = Some x"
  by (cases v) auto

lemma unwrap_Inr_iff [simp]: "unwrap r = Inr x \<longleftrightarrow> r = Inr x"
  by (cases r rule: unwrap.cases) auto

lemma unwrap_never_Error [simp]: "unwrap r \<noteq> Inl (Error e)"
  by (cases r rule: unwrap.cases) auto

section \<open>Bytes and byte strings\<close>

definition as_bytes :: "string \<Rightarrow> bytes" where
  "as_bytes s = map of_char s"

definition of_bytes :: "bytes \<Rightarrow> string" where
  "of_bytes bs = map (\<lambda>b. char_of (unat b)) bs"

lemma unat_of_char [simp]: "unat (of_char c :: u8) = of_char c"
proof -
  have "(of_char c :: nat) < 256"
    by simp
  then have "unat (word_of_nat (of_char c) :: u8) = of_char c"
    by (simp only: unat_of_nat) simp
  then show ?thesis
    by (simp only: of_nat_of_char)
qed

lemma of_char_char_of_unat [simp]: "of_char (char_of (unat (b :: u8))) = b"
proof -
  have "unat b < 256"
    using unsigned_less [of b, where ?'a = nat] by simp
  then have "(of_char (char_of (unat b)) :: nat) = unat b"
    by simp
  then show ?thesis
    by (metis unat_of_char unsigned_word_eqI)
qed

lemma of_bytes_as_bytes [simp]: "of_bytes (as_bytes s) = s"
  by (simp add: of_bytes_def as_bytes_def comp_def map_idI)

lemma as_bytes_of_bytes [simp]: "as_bytes (of_bytes b) = b"
  by (simp add: of_bytes_def as_bytes_def comp_def map_idI)

lemma as_bytes_append [simp]: "as_bytes (s @ t) = as_bytes s @ as_bytes t"
  by (simp add: as_bytes_def)

lemma as_bytes_Nil [simp]: "as_bytes [] = []"
  by (simp add: as_bytes_def)

lemma as_bytes_Cons [simp]: "as_bytes (c # s) = of_char c # as_bytes s"
  by (simp add: as_bytes_def)

lemma of_bytes_append [simp]: "of_bytes (s @ t) = of_bytes s @ of_bytes t"
  by (simp add: of_bytes_def)

lemma of_bytes_Nil [simp]: "of_bytes [] = []"
  by (simp add: of_bytes_def)

lemma length_as_bytes [simp]: "length (as_bytes s) = length s"
  by (simp add: as_bytes_def)

lemma length_of_bytes [simp]: "length (of_bytes s) = length s"
  by (simp add: of_bytes_def)

lemma as_bytes_inject [simp]: "as_bytes s = as_bytes t \<longleftrightarrow> s = t"
  by (metis of_bytes_as_bytes)

lemma unat_u32_of_nat: "n < 2 ^ 32 \<Longrightarrow> unat (of_nat n :: u32) = n"
  by (simp add: unat_of_nat)

section \<open>Lists\<close>

lemma takeWhile_dropWhile_stop:
  "\<forall>x \<in> set xs. P x \<Longrightarrow> \<not> P y \<Longrightarrow> takeWhile P (xs @ y # ys) = xs \<and> dropWhile P (xs @ y # ys) = y # ys"
  by (induction xs) auto

lemma find_append:
  "find P (xs @ ys) = (case find P xs of Some x \<Rightarrow> Some x | None \<Rightarrow> find P ys)"
  by (induction xs) auto

lemma find_SomeD: "find P xs = Some x \<Longrightarrow> x \<in> set xs \<and> P x"
  by (induction xs) (auto split: if_splits)

lemma sum_list_of_nat_word:
  "(\<Sum>x\<leftarrow>xs. of_nat (f x)) = (of_nat (\<Sum>x\<leftarrow>xs. f x) :: 'a::len word)"
  by (induction xs) auto

end
