(* ===== verification/Rust_Strings.thy ===== *)
theory Rust_Strings
  imports Netsim_Prelude
begin

text \<open>
  The operations of Rust's \<^verbatim>\<open>str\<close> and \<^verbatim>\<open>String\<close> that the sources use, on the UTF-8 bytes
  of the string: validation (\<^verbatim>\<open>from_utf8\<close>), Unicode white space, \<^verbatim>\<open>trim\<close>,
  \<^verbatim>\<open>split_whitespace\<close>, \<^verbatim>\<open>split_once\<close>, \<^verbatim>\<open>strip_prefix\<close>, \<^verbatim>\<open>to_ascii_lowercase\<close>, and
  the decimal conversions \<^verbatim>\<open>usize::to_string\<close> and \<^verbatim>\<open>str::parse::<usize>\<close>.
\<close>

section \<open>UTF-8\<close>

definition is_cont :: "u8 \<Rightarrow> bool" where
  "is_cont b \<longleftrightarrow> 0x80 \<le> b \<and> b \<le> 0xBF"

text \<open>
  The length of the well-formed sequence at the head (Unicode, table 3-7), if there is one:
  the lead byte gives the width and the range of the second byte.
\<close>

definition utf8_width :: "u8 \<Rightarrow> nat" where
  "utf8_width b =
     (if b \<le> 0x7F then 1 else if b < 0xC2 then 0 else if b \<le> 0xDF then 2
      else if b \<le> 0xEF then 3 else if b \<le> 0xF4 then 4 else 0)"

definition utf8_second :: "u8 \<Rightarrow> u8 \<Rightarrow> bool" where
  "utf8_second b0 b1 \<longleftrightarrow>
     (if b0 = 0xE0 then 0xA0 \<le> b1 \<and> b1 \<le> 0xBF
      else if b0 = 0xED then 0x80 \<le> b1 \<and> b1 \<le> 0x9F
      else if b0 = 0xF0 then 0x90 \<le> b1 \<and> b1 \<le> 0xBF
      else if b0 = 0xF4 then 0x80 \<le> b1 \<and> b1 \<le> 0x8F
      else is_cont b1)"

definition utf8_head :: "bytes \<Rightarrow> nat option" where
  "utf8_head bs =
     (case bs of [] \<Rightarrow> None
      | b0 # t \<Rightarrow>
        let w = utf8_width b0 in
        if w = 0 \<or> length bs < w then None
        else if w = 1 \<or> utf8_second b0 (t ! 0) \<and> list_all is_cont (take (w - 2) (drop 1 t))
        then Some w else None)"

lemma utf8_head_bounds: "utf8_head bs = Some n \<Longrightarrow> 1 \<le> n \<and> n \<le> length bs"
  by (auto simp: utf8_head_def Let_def split: list.splits if_splits)

function utf8_valid :: "bytes \<Rightarrow> bool" where
  "utf8_valid bs =
     (bs = [] \<or> (case utf8_head bs of None \<Rightarrow> False | Some n \<Rightarrow> utf8_valid (drop n bs)))"
  by pat_completeness auto
termination
  by (relation "measure length") (auto dest!: utf8_head_bounds)

declare utf8_valid.simps [simp del]

lemma utf8_valid_Nil [simp]: "utf8_valid []"
  by (simp add: utf8_valid.simps)

lemma utf8_valid_ascii_Cons [simp]: "b \<le> 0x7F \<Longrightarrow> utf8_valid (b # bs) = utf8_valid bs"
  by (subst utf8_valid.simps) (simp add: utf8_head_def utf8_width_def)

lemma utf8_head_append: "utf8_head bs = Some n \<Longrightarrow> utf8_head (bs @ cs) = Some n"
  by (cases bs) (auto simp: utf8_head_def Let_def nth_append split: if_splits)

lemma utf8_valid_append:
  "utf8_valid bs \<Longrightarrow> utf8_valid (bs @ cs) = utf8_valid cs"
proof (induction bs rule: utf8_valid.induct)
  case (1 bs)
  show ?case
  proof (cases "bs = []")
    case False
    with "1.prems" obtain n where n: "utf8_head bs = Some n" and v: "utf8_valid (drop n bs)"
      by (subst (asm) utf8_valid.simps) (auto split: option.splits)
    then have "utf8_valid (drop n bs @ cs) = utf8_valid cs"
      using "1.IH" False by blast
    moreover have "n \<le> length bs"
      using utf8_head_bounds n by blast
    ultimately show ?thesis
      by (subst utf8_valid.simps) (use False in \<open>simp add: utf8_head_append [OF n]\<close>)
  qed simp
qed

lemma utf8_valid_ascii: "\<forall>b \<in> set bs. b \<le> 0x7F \<Longrightarrow> utf8_valid bs"
  by (induction bs) auto

abbreviation utf8 :: "string \<Rightarrow> bool" where
  "utf8 s \<equiv> utf8_valid (as_bytes s)"

section \<open>White space\<close>

text \<open>
  The number of bytes of the white-space character (Unicode \<^verbatim>\<open>White_Space\<close>) at the head of
  a string, 0 if the first character is not one. A lead byte never occurs inside another
  character, so the test may be made at any byte position.
\<close>

definition ws_ascii :: "nat \<Rightarrow> bool" where
  "ws_ascii b \<longleftrightarrow> 9 \<le> b \<and> b \<le> 13 \<or> b = 32"

definition ws_wide :: "nat list list" where
  "ws_wide =
     [[0xC2, 0x85], [0xC2, 0xA0], [0xE1, 0x9A, 0x80],
      [0xE2, 0x80, 0x80], [0xE2, 0x80, 0x81], [0xE2, 0x80, 0x82], [0xE2, 0x80, 0x83],
      [0xE2, 0x80, 0x84], [0xE2, 0x80, 0x85], [0xE2, 0x80, 0x86], [0xE2, 0x80, 0x87],
      [0xE2, 0x80, 0x88], [0xE2, 0x80, 0x89], [0xE2, 0x80, 0x8A], [0xE2, 0x80, 0xA8],
      [0xE2, 0x80, 0xA9], [0xE2, 0x80, 0xAF], [0xE2, 0x81, 0x9F], [0xE3, 0x80, 0x80]]"

definition ws_len :: "string \<Rightarrow> nat" where
  "ws_len s =
     (case s of [] \<Rightarrow> 0
      | c # t \<Rightarrow>
        if of_char c < (128 :: nat) then (if ws_ascii (of_char c) then 1 else 0)
        else (case find (\<lambda>w. take (length w) (map of_char s) = w) ws_wide of
                None \<Rightarrow> 0 | Some w \<Rightarrow> length w))"

lemma ws_len_Nil [simp]: "ws_len [] = 0"
  by (simp add: ws_len_def)

lemma ws_len_le: "ws_len s \<le> length s"
proof (cases s)
  case (Cons c t)
  have "length w \<le> length s" if "find (\<lambda>w. take (length w) (map of_char s) = w) ws_wide = Some w" for w
    using find_SomeD [OF that] by (metis length_map length_take min.cobounded1)
  with Cons show ?thesis
    by (simp add: ws_len_def split: option.split)
qed simp

lemma ws_len_ascii_ws: "ws_ascii (of_char c) \<Longrightarrow> ws_len (c # s) = 1"
  by (auto simp: ws_len_def ws_ascii_def)

lemma ws_len_ascii_word:
  "(of_char c :: nat) < 128 \<Longrightarrow> \<not> ws_ascii (of_char c) \<Longrightarrow> ws_len (c # s) = 0"
  by (simp add: ws_len_def)

text \<open>An ASCII byte after a string does not complete a white-space character of it.\<close>

lemma nth_in_tl: "1 \<le> i \<Longrightarrow> i < length w \<Longrightarrow> w ! i \<in> set (tl w)"
  by (cases w; cases i) simp_all

lemma ws_wide_tail:
  assumes "w \<in> set ws_wide" "1 \<le> i" "i < length w"
  shows "128 \<le> w ! i"
proof -
  have "list_all (\<lambda>w. list_all (\<lambda>b. 128 \<le> b) (tl w)) ws_wide"
    by (simp add: ws_wide_def)
  with assms(1) nth_in_tl [OF assms(2,3)] show ?thesis
    by (auto simp: list_all_iff)
qed

lemma ws_wide_nonempty: "w \<in> set ws_wide \<Longrightarrow> w \<noteq> []"
  by (auto simp: ws_wide_def)

lemma ws_len_append_ascii:
  assumes "ws_len s = 0" "s \<noteq> []" "of_char c < (128 :: nat)"
  shows "ws_len (s @ c # r) = 0"
proof (rule ccontr)
  assume no: "ws_len (s @ c # r) \<noteq> 0"
  obtain d t where s: "s = d # t"
    using assms(2) by (cases s) auto
  from no assms(1) s have d: "\<not> of_char d < (128 :: nat)"
    by (auto simp: ws_len_def split: if_splits)
  with no s obtain w where w: "w \<in> set ws_wide" "take (length w) (map of_char (s @ c # r)) = w"
    by (auto simp: ws_len_def dest!: find_SomeD split: option.splits)
  show False
  proof (cases "length w \<le> length s")
    case True
    with w have "take (length w) (map of_char s) = w"
      by simp
    then have "find (\<lambda>w. take (length w) (map of_char s) = w) ws_wide \<noteq> None"
      using w(1) by (auto simp: find_None_iff)
    with assms(1) s d show False
      using ws_wide_nonempty by (auto simp: ws_len_def dest!: find_SomeD split: option.splits)
  next
    case False
    then have "w ! length s = of_char c"
      using w(2) by (metis list.simps(9) length_map map_append nth_append_length nth_take not_le)
    with ws_wide_tail [OF w(1), of "length s"] False assms show False
      by (simp add: s)
  qed
qed

text \<open>The number of bytes of the white-space character that ends a string.\<close>

definition ws_suffix :: "string \<Rightarrow> nat" where
  "ws_suffix s =
     (if s \<noteq> [] \<and> ws_len (drop (length s - 1) s) = 1 then 1
      else if 2 \<le> length s \<and> ws_len (drop (length s - 2) s) = 2 then 2
      else if 3 \<le> length s \<and> ws_len (drop (length s - 3) s) = 3 then 3
      else 0)"

lemma ws_suffix_le: "ws_suffix s \<le> length s"
  by (auto simp: ws_suffix_def Suc_le_eq)

function trim_start :: "string \<Rightarrow> string" where
  "trim_start s = (if ws_len s = 0 then s else trim_start (drop (ws_len s) s))"
  by pat_completeness auto
termination
proof (relation "measure length")
  fix s assume "ws_len s \<noteq> 0"
  with ws_len_le [of s] show "(drop (ws_len s) s, s) \<in> measure length"
    by auto
qed simp

function trim_end :: "string \<Rightarrow> string" where
  "trim_end s = (if ws_suffix s = 0 then s else trim_end (take (length s - ws_suffix s) s))"
  by pat_completeness auto
termination
proof (relation "measure length")
  fix s assume "ws_suffix s \<noteq> 0"
  with ws_suffix_le [of s] show "(take (length s - ws_suffix s) s, s) \<in> measure length"
    by auto
qed simp

declare trim_start.simps [simp del] trim_end.simps [simp del]

definition trim :: "string \<Rightarrow> string" where
  "trim s = trim_end (trim_start s)"

definition trimmed :: "string \<Rightarrow> bool" where
  "trimmed s \<longleftrightarrow> ws_len s = 0 \<and> ws_suffix s = 0"

lemma trim_start_id: "ws_len s = 0 \<Longrightarrow> trim_start s = s"
  by (simp add: trim_start.simps)

lemma trim_end_id: "ws_suffix s = 0 \<Longrightarrow> trim_end s = s"
  by (simp add: trim_end.simps)

lemma trim_id: "trimmed s \<Longrightarrow> trim s = s"
  by (simp add: trim_def trimmed_def trim_start_id trim_end_id)

lemma trim_space_trimmed:
  assumes "trimmed s"
  shows "trim (CHR '' '' # s) = s"
proof -
  have "trim_start (CHR '' '' # s) = trim_start s"
    by (subst trim_start.simps) (simp add: ws_len_ascii_ws ws_ascii_def)
  with assms show ?thesis
    by (simp add: trim_def trimmed_def trim_start_id trim_end_id)
qed

text \<open>The result of \<open>trim\<close> has no white space at either end.\<close>

lemma trim_start_no_ws: "ws_len (trim_start s) = 0"
proof (induction s rule: trim_start.induct)
  case (1 s)
  then show ?case
    by (cases "ws_len s = 0") (simp_all add: trim_start.simps [of s])
qed

lemma trim_end_no_ws: "ws_suffix (trim_end s) = 0"
proof (induction s rule: trim_end.induct)
  case (1 s)
  then show ?case
    by (cases "ws_suffix s = 0") (simp_all add: trim_end.simps [of s])
qed

section \<open>Splitting\<close>

text \<open>\<^verbatim>\<open>split_whitespace\<close>: the maximal runs of non-white-space, in order.\<close>

function split_ws :: "string \<Rightarrow> string \<Rightarrow> string list" where
  "split_ws cur [] = (if cur = [] then [] else [rev cur])"
| "split_ws cur (c # s) =
     (if ws_len (c # s) = 0 then split_ws (c # cur) s
      else (if cur = [] then [] else [rev cur]) @ split_ws [] (drop (ws_len (c # s)) (c # s)))"
  by pat_completeness auto
termination
  by (relation "measure (\<lambda>(cur, s). length s)") auto

declare split_ws.simps [simp del]

abbreviation split_whitespace :: "string \<Rightarrow> string list" where
  "split_whitespace \<equiv> split_ws []"

text \<open>A token: not empty, and no white space at any position of it.\<close>

fun no_ws :: "string \<Rightarrow> bool" where
  "no_ws [] = True"
| "no_ws (c # s) = (ws_len (c # s) = 0 \<and> no_ws s)"

lemma split_ws_token:
  assumes "no_ws t" "ws_ascii (of_char c)"
  shows "split_ws cur (t @ c # r) =
     (if cur = [] \<and> t = [] then [] else [rev cur @ t]) @ split_ws [] r"
  using assms(1)
proof (induction t arbitrary: cur)
  case Nil
  show ?case
    using ws_len_ascii_ws [OF assms(2), of r] by (simp add: split_ws.simps)
next
  case (Cons d t)
  then have "ws_len ((d # t) @ c # r) = 0"
    using assms(2) by (intro ws_len_append_ascii) (auto simp: ws_ascii_def)
  with Cons show ?case
    by (simp add: split_ws.simps(2) [of cur d])
qed

lemma split_ws_Nil [simp]: "split_ws [] [] = []"
  by (simp add: split_ws.simps)

lemma split_ws_skip:
  "ws_ascii (of_char c) \<Longrightarrow> split_ws [] (c # r) = split_ws [] r"
  using split_ws_token [of "[]" c "[]" r] by simp

fun split_once :: "char \<Rightarrow> string \<Rightarrow> (string \<times> string) option" where
  "split_once d [] = None"
| "split_once d (c # s) =
     (if c = d then Some ([], s)
      else case split_once d s of None \<Rightarrow> None | Some (a, b) \<Rightarrow> Some (c # a, b))"

lemma split_once_append [simp]: "d \<notin> set s \<Longrightarrow> split_once d (s @ d # t) = Some (s, t)"
  by (induction s) auto

lemma split_once_None_iff: "split_once d s = None \<longleftrightarrow> d \<notin> set s"
  by (induction s) (auto split: option.splits)

lemma split_once_SomeD:
  "split_once d s = Some (a, b) \<Longrightarrow> s = a @ d # b \<and> d \<notin> set a"
proof (induction s arbitrary: a)
  case (Cons c s)
  show ?case
  proof (cases "c = d")
    case False
    with Cons.prems obtain a' where "split_once d s = Some (a', b)" and a: "a = c # a'"
      by (auto split: option.splits)
    with Cons.IH False show ?thesis by simp
  qed (use Cons.prems in simp)
qed simp

lemma split_once_Some_iff:
  "split_once d s = Some (a, b) \<longleftrightarrow> s = a @ d # b \<and> d \<notin> set a"
  using split_once_SomeD [of d s a b] split_once_append [of d a b] by blast

fun strip_prefix :: "char \<Rightarrow> string \<Rightarrow> string option" where
  "strip_prefix d [] = None"
| "strip_prefix d (c # s) = (if c = d then Some s else None)"

section \<open>ASCII case\<close>

definition ascii_lower_char :: "char \<Rightarrow> char" where
  "ascii_lower_char c =
     (let n = of_char c :: nat in if 65 \<le> n \<and> n \<le> 90 then char_of (n + 32) else c)"

definition to_ascii_lowercase :: "string \<Rightarrow> string" where
  "to_ascii_lowercase s = map ascii_lower_char s"

lemma ascii_lower_char_idem [simp]: "ascii_lower_char (ascii_lower_char c) = ascii_lower_char c"
  by (auto simp: ascii_lower_char_def Let_def)

lemma to_ascii_lowercase_idem [simp]:
  "to_ascii_lowercase (to_ascii_lowercase s) = to_ascii_lowercase s"
  by (simp add: to_ascii_lowercase_def comp_def)

section \<open>Decimal numbers\<close>

definition digit_char :: "nat \<Rightarrow> char" where
  "digit_char d = char_of (48 + d)"

fun show_nat :: "nat \<Rightarrow> string" where
  "show_nat n = (if n < 10 then [digit_char n] else show_nat (n div 10) @ [digit_char (n mod 10)])"

declare show_nat.simps [simp del]

definition digit_val :: "char \<Rightarrow> nat option" where
  "digit_val c = (let n = of_char c in if 48 \<le> n \<and> n \<le> 57 then Some (n - 48) else None)"

lemma digit_val_char [simp]: "d < 10 \<Longrightarrow> digit_val (digit_char d) = Some d"
  by (simp add: digit_val_def digit_char_def Let_def)

abbreviation usize_bound :: nat where
  "usize_bound \<equiv> 2 ^ 64"

fun parse_digits :: "nat \<Rightarrow> string \<Rightarrow> nat option" where
  "parse_digits acc [] = Some acc"
| "parse_digits acc (c # s) =
     (case digit_val c of None \<Rightarrow> None
      | Some d \<Rightarrow> if acc * 10 + d < usize_bound then parse_digits (acc * 10 + d) s else None)"

definition parse_usize :: "string \<Rightarrow> nat option" where
  "parse_usize s =
     (case s of [] \<Rightarrow> None
      | c # t \<Rightarrow> if c = CHR ''+'' then (if t = [] then None else parse_digits 0 t)
                 else parse_digits 0 s)"

lemma parse_digits_append:
  "parse_digits acc (s @ t) =
     (case parse_digits acc s of None \<Rightarrow> None | Some n \<Rightarrow> parse_digits n t)"
  by (induction s arbitrary: acc) (auto split: option.splits)

lemma parse_digits_show_nat: "n < usize_bound \<Longrightarrow> parse_digits 0 (show_nat n) = Some n"
proof (induction n rule: show_nat.induct)
  case (1 n)
  show ?case
  proof (cases "n < 10")
    case True
    then show ?thesis by (subst show_nat.simps) simp
  next
    case False
    with 1 have "parse_digits 0 (show_nat (n div 10)) = Some (n div 10)"
      by simp
    moreover have "n div 10 * 10 + n mod 10 = n"
      by simp
    ultimately show ?thesis
      using False "1.prems" by (subst show_nat.simps) (simp add: parse_digits_append)
  qed
qed

lemma show_nat_digits: "c \<in> set (show_nat n) \<Longrightarrow> \<exists>d < 10. c = digit_char d"
proof (induction n rule: show_nat.induct)
  case (1 n)
  from "1.prems" have "c \<in> set (if n < 10 then [digit_char n] else show_nat (n div 10) @ [digit_char (n mod 10)])"
    by (subst (asm) show_nat.simps)
  with "1.IH" show ?case
    by (auto split: if_splits intro: exI [of _ "n mod 10"])
qed

lemma show_nat_nonempty [simp]: "show_nat n \<noteq> []"
  by (subst show_nat.simps) simp

lemma digit_char_code [simp]: "d < 10 \<Longrightarrow> (of_char (digit_char d) :: nat) = 48 + d"
  by (simp add: digit_char_def)

lemma show_nat_codes: "c \<in> set (show_nat n) \<Longrightarrow> 48 \<le> (of_char c :: nat) \<and> (of_char c :: nat) \<le> 57"
  by (auto dest!: show_nat_digits)

lemma parse_usize_show_nat: "n < usize_bound \<Longrightarrow> parse_usize (show_nat n) = Some n"
proof -
  assume n: "n < usize_bound"
  obtain c t where ct: "show_nat n = c # t"
    by (cases "show_nat n") auto
  then have "c \<noteq> CHR ''+''"
    using show_nat_codes [of c n] by auto
  with ct n show ?thesis
    using parse_digits_show_nat [OF n] by (simp add: parse_usize_def)
qed

lemma parse_digits_bound: "parse_digits acc s = Some n \<Longrightarrow> acc < usize_bound \<Longrightarrow> n < usize_bound"
  by (induction s arbitrary: acc) (auto split: option.splits if_splits)

lemma parse_usize_bound: "parse_usize s = Some n \<Longrightarrow> n < usize_bound"
  by (auto simp: parse_usize_def simp del: parse_digits.simps split: list.splits if_splits
      dest: parse_digits_bound)

text \<open>A string of visible ASCII characters is a token, and it is trimmed.\<close>

definition visible :: "string \<Rightarrow> bool" where
  "visible s \<longleftrightarrow> (\<forall>c \<in> set s. 33 \<le> (of_char c :: nat) \<and> (of_char c :: nat) < 128)"

lemma visible_no_ws: "visible s \<Longrightarrow> no_ws s"
  unfolding visible_def by (induction s) (auto intro!: ws_len_ascii_word simp: ws_ascii_def)

lemma visible_ws_len: "visible s \<Longrightarrow> ws_len s = 0"
  unfolding visible_def by (cases s) (auto intro!: ws_len_ascii_word simp: ws_ascii_def)

lemma visible_drop: "visible s \<Longrightarrow> visible (drop n s)"
  unfolding visible_def by (meson in_set_dropD)

lemma visible_trimmed: "visible s \<Longrightarrow> trimmed s"
  by (simp add: trimmed_def ws_suffix_def visible_ws_len visible_drop)

lemma visible_utf8: "visible s \<Longrightarrow> utf8 s"
proof -
  assume "visible s"
  then have "b \<le> 0x7F" if "b \<in> set (as_bytes s)" for b
    using that by (auto simp: visible_def as_bytes_def word_le_nat_alt)
  then show ?thesis
    by (intro utf8_valid_ascii) blast
qed

lemma visible_show_nat: "visible (show_nat n)"
  unfolding visible_def by (auto dest!: show_nat_codes)

end
