(* ===== verification/Http_Request.thy ===== *)
theory Http_Request
  imports Rust_Strings
begin

text \<open>
  \<^verbatim>\<open>rust/netsim-cxx/src/frontend_http_server/http_request.rs\<close>: the header table and the request
  parser of the micro HTTP server. The \<^verbatim>\<open>BufReader\<close> is a \<open>reader\<close>: the bytes that are
  still to come and what happens after them, the end of the stream (\<open>None\<close>) or an I/O error
  with its message. Reading the request line, one header line and the body follow
  \<^verbatim>\<open>read_line\<close>, \<^verbatim>\<open>lines\<close> and \<^verbatim>\<open>read_exact\<close> of \<^verbatim>\<open>std::io\<close>. The parameter \<open>alloc\<close> of the
  parser says which allocation sizes the machine can serve.
\<close>

section \<open>Header table\<close>

record HttpHeaders =
  headers :: "(string \<times> string) list"

definition HttpHeaders_new :: HttpHeaders where
  "HttpHeaders_new = \<lparr>headers = []\<rparr>"

fun get_entry :: "string \<Rightarrow> (string \<times> string) list \<Rightarrow> string option" where
  "get_entry key [] = None"
| "get_entry key ((name, value) # hs) =
     (if to_ascii_lowercase name = key then Some value else get_entry key hs)"

definition HttpHeaders_get :: "HttpHeaders \<Rightarrow> string \<Rightarrow> string option" where
  "HttpHeaders_get h key = get_entry (to_ascii_lowercase key) (headers h)"

definition new_with_headers :: "(string \<times> string) list \<Rightarrow> HttpHeaders" where
  "new_with_headers str_headers = \<lparr>headers = map (\<lambda>(key, value). (key, value)) str_headers\<rparr>"

definition HttpHeaders_iter :: "HttpHeaders \<Rightarrow> (string \<times> string) list" where
  "HttpHeaders_iter h = headers h"

definition add_header :: "HttpHeaders \<Rightarrow> string \<Rightarrow> string \<Rightarrow> HttpHeaders" where
  "add_header h header_key header_value =
     h\<lparr>headers := headers h @ [(header_key, header_value)]\<rparr>"

definition HttpHeaders_eq :: "HttpHeaders \<Rightarrow> (string \<times> string) list \<Rightarrow> bool" where
  "HttpHeaders_eq h other =
     list_all (\<lambda>(a, b). fst a = fst b \<and> snd a = snd b) (zip (headers h) other)"

section \<open>Reading from the stream\<close>

record reader =
  rd_data :: bytes
  rd_err :: "string option"

abbreviation LF :: char where "LF \<equiv> CHR 0x0A"
abbreviation CR :: char where "CR \<equiv> CHR 0x0D"
abbreviation CRLF :: string where "CRLF \<equiv> [CR, LF]"

definition take_line :: "bytes \<Rightarrow> bytes \<times> bytes" where
  "take_line bs =
     (case dropWhile (\<lambda>b. b \<noteq> 10) bs of
        [] \<Rightarrow> (bs, [])
      | n # rest \<Rightarrow> (takeWhile (\<lambda>b. b \<noteq> 10) bs @ [n], rest))"

text \<open>\<^verbatim>\<open>BufRead::read_line\<close> into an empty string.\<close>

definition read_line :: "reader \<Rightarrow> (string \<times> reader) result" where
  "read_line r =
     (let (l, rest) = take_line (rd_data r) in
      case (10 \<in> set l, rd_err r) of
        (False, Some e) \<Rightarrow> Inl (Error e)
      | _ \<Rightarrow>
        if utf8_valid l then Ok (of_bytes l, r\<lparr>rd_data := rest\<rparr>)
        else Inl (Error ''stream did not contain valid UTF-8''))"

text \<open>One step of \<^verbatim>\<open>BufRead::lines\<close>: the line without its line end, \<open>None\<close> at the end.\<close>

definition strip_line_end :: "string \<Rightarrow> string" where
  "strip_line_end s =
     (if s \<noteq> [] \<and> last s = LF then
        (let t = butlast s in if t \<noteq> [] \<and> last t = CR then butlast t else t)
      else s)"

definition next_line :: "reader \<Rightarrow> (string option \<times> reader) result" where
  "next_line r =
     bindE (read_line r) (\<lambda>(s, r').
       if s = [] then Ok (None, r') else Ok (Some (strip_line_end s), r'))"

definition read_exact :: "nat \<Rightarrow> reader \<Rightarrow> (bytes \<times> reader) result" where
  "read_exact n r =
     (if n \<le> length (rd_data r) then Ok (take n (rd_data r), r\<lparr>rd_data := drop n (rd_data r)\<rparr>)
      else case rd_err r of
        Some e \<Rightarrow> Inl (Error e)
      | None \<Rightarrow> Inl (Error ''failed to fill whole buffer''))"

text \<open>\<^verbatim>\<open>Vec::resize\<close> of an empty vector to \<open>n\<close> zero bytes, on a 64-bit machine.\<close>

definition vec_resize :: "(nat \<Rightarrow> bool) \<Rightarrow> nat \<Rightarrow> bytes result" where
  "vec_resize alloc n =
     (if 2 ^ 63 - 1 < n then Inl (Panic ''capacity overflow'')
      else if \<not> alloc n then Inl (Abort ''memory allocation failed'')
      else Ok (replicate n 0))"

section \<open>The parser\<close>

definition parse_request_line :: "reader \<Rightarrow> ((string \<times> string \<times> string) \<times> reader) result" where
  "parse_request_line r =
     bindE (map_err (\<lambda>e. ''Failed to read request line: '' @ e) (read_line r)) (\<lambda>(line, r').
       let parts = split_whitespace line in
       case parts of
         [] \<Rightarrow> Inl (Error ''Invalid request line, missing method'')
       | method # parts \<Rightarrow>
         (case parts of
            [] \<Rightarrow> Inl (Error ''Invalid request line, missing uri'')
          | uri # parts \<Rightarrow>
            (case parts of
               [] \<Rightarrow> Inl (Error ''Invalid request line, missing version'')
             | version # _ \<Rightarrow> Ok ((method, uri, version), r'))))"

lemma take_line_append: "take_line bs = (l, rest) \<Longrightarrow> l @ rest = bs"
proof (cases "dropWhile (\<lambda>b. b \<noteq> 10) bs")
  case (Cons n t)
  moreover assume "take_line bs = (l, rest)"
  ultimately show ?thesis
    using takeWhile_dropWhile_id [of "\<lambda>b. b \<noteq> 10" bs] by (auto simp: take_line_def)
qed (auto simp: take_line_def)

lemma take_line_length: "take_line bs = (l, rest) \<Longrightarrow> length bs = length l + length rest"
  using take_line_append by fastforce

lemma read_line_length:
  "read_line r = Inr (s, r') \<Longrightarrow> length (rd_data r) = length s + length (rd_data r')"
  by (auto simp: read_line_def Let_def split: prod.splits option.splits if_splits bool.splits
      dest!: take_line_length)

lemma next_line_shorter:
  assumes "next_line r = Inr (Some l, r')"
  shows "length (rd_data r') < length (rd_data r)"
proof -
  from assms obtain s where "read_line r = Inr (s, r')" and "s \<noteq> []"
    by (auto simp: next_line_def bindE_Inr_iff split: if_splits)
  from read_line_length [OF this(1)] this(2) show ?thesis
    by (cases s) simp_all
qed

function header_lines :: "HttpHeaders \<Rightarrow> reader \<Rightarrow> (HttpHeaders \<times> reader) result" where
  "header_lines hs r =
     bindE (map_err (\<lambda>e. ''Failed to parse headers: '' @ e) (next_line r)) (\<lambda>(next, r').
       case next of
         None \<Rightarrow> Ok (hs, r')
       | Some line \<Rightarrow>
         (case split_once (CHR '':'') line of
            Some (name, value) \<Rightarrow> header_lines (add_header hs name (trim value)) r'
          | None \<Rightarrow>
            if 1 < length line then Inl (Error (''Invalid header line: '' @ line))
            else Ok (hs, r')))"
  by pat_completeness auto
termination
  by (relation "measure (\<lambda>(hs, r). length (rd_data r))") (auto dest: next_line_shorter)

declare header_lines.simps [simp del]

definition parse_header_section :: "reader \<Rightarrow> (HttpHeaders \<times> reader) result" where
  "parse_header_section r = header_lines HttpHeaders_new r"

definition get_content_length :: "HttpHeaders \<Rightarrow> nat option" where
  "get_content_length hs =
     (case HttpHeaders_get hs ''Content-Length'' of
        Some value \<Rightarrow> (case parse_usize value of Some n \<Rightarrow> Some n | None \<Rightarrow> None)
      | None \<Rightarrow> None)"

record HttpRequest =
  req_method :: string
  uri :: string
  version :: string
  req_headers :: HttpHeaders
  body :: bytes

definition HttpRequest_parse :: "(nat \<Rightarrow> bool) \<Rightarrow> reader \<Rightarrow> (HttpRequest \<times> reader) result" where
  "HttpRequest_parse alloc r =
     bindE (parse_request_line r) (\<lambda>((m, u, v), r1).
     bindE (parse_header_section r1) (\<lambda>(hs, r2).
       case get_content_length hs of
         None \<Rightarrow> Ok (\<lparr>req_method = m, uri = u, version = v, req_headers = hs, body = []\<rparr>, r2)
       | Some len \<Rightarrow>
         bindE (vec_resize alloc len) (\<lambda>_.
         bindE (map_err (\<lambda>e. ''Failed to read body: '' @ e) (read_exact len r2)) (\<lambda>(b, r3).
           Ok (\<lparr>req_method = m, uri = u, version = v, req_headers = hs, body = b\<rparr>, r3)))))"

section \<open>Headers: lookup and update\<close>

lemma get_entry_append:
  "get_entry key (hs @ gs) = (case get_entry key hs of Some v \<Rightarrow> Some v | None \<Rightarrow> get_entry key gs)"
  by (induction hs) auto

lemma get_entry_Some_in: "get_entry key hs = Some v \<Longrightarrow> \<exists>k. (k, v) \<in> set hs \<and> to_ascii_lowercase k = key"
  by (induction hs) (auto split: if_splits)

lemma get_entry_None_iff: "get_entry key hs = None \<longleftrightarrow> (\<forall>(k, v) \<in> set hs. to_ascii_lowercase k \<noteq> key)"
  by (induction key hs rule: get_entry.induct) auto

lemma headers_collapse [simp]: "\<lparr>headers = headers h\<rparr> = h"
  by (cases h) simp

lemma new_with_headers_headers [simp]: "headers (new_with_headers hs) = hs"
  by (simp add: new_with_headers_def map_idI)

section \<open>Lines\<close>

text \<open>The text of a header as a client or the server writes it.\<close>

definition format_header :: "string \<Rightarrow> string \<Rightarrow> string" where
  "format_header name value = name @ '': '' @ value @ CRLF"

text \<open>Headers that survive being written and read again.\<close>

definition valid_header :: "string \<times> string \<Rightarrow> bool" where
  "valid_header h =
     (case h of (name, value) \<Rightarrow>
        CHR '':'' \<notin> set name \<and> LF \<notin> set name \<and> LF \<notin> set value \<and>
        utf8 name \<and> utf8 value \<and> trimmed value)"

lemma LF_in_bytes: "10 \<in> set (as_bytes s) \<longleftrightarrow> LF \<in> set s"
proof -
  have "(10 :: u8) = of_char c \<longleftrightarrow> c = LF" for c
  proof
    assume "(10 :: u8) = of_char c"
    then have "unat (of_char c :: u8) = of_char LF"
      by simp
    then show "c = LF"
      by (metis unat_of_char char_of_char)
  qed simp
  then show ?thesis
    by (simp add: as_bytes_def image_iff)
qed

lemma take_line_LF: "LF \<notin> set l \<Longrightarrow> take_line (as_bytes (l @ [LF]) @ rest) = (as_bytes (l @ [LF]), rest)"
proof -
  assume "LF \<notin> set l"
  then have "\<forall>b \<in> set (as_bytes l). b \<noteq> 10"
    using LF_in_bytes by metis
  from takeWhile_dropWhile_stop [OF this, of 10 rest] show ?thesis
    by (simp add: take_line_def)
qed

lemma read_line_LF:
  assumes "LF \<notin> set l" "utf8 l"
  shows "read_line \<lparr>rd_data = as_bytes (l @ [LF]) @ rest, rd_err = e\<rparr> =
     Ok (l @ [LF], \<lparr>rd_data = rest, rd_err = e\<rparr>)"
proof -
  have "utf8_valid (as_bytes (l @ [LF]))"
    using assms(2) by (simp add: utf8_valid_append)
  moreover have "10 \<in> set (as_bytes (l @ [LF]))"
    by simp
  ultimately show ?thesis
    unfolding read_line_def using take_line_LF [OF assms(1), of rest]
    by (simp add: of_bytes_as_bytes [unfolded as_bytes_def] flip: as_bytes_append as_bytes_Cons)
qed

lemma strip_line_end_CRLF: "strip_line_end (l @ CRLF) = l"
  by (simp add: strip_line_end_def butlast_append)

lemma next_line_CRLF:
  assumes "LF \<notin> set l" "utf8 l"
  shows "next_line \<lparr>rd_data = as_bytes (l @ CRLF) @ rest, rd_err = e\<rparr> =
     Ok (Some l, \<lparr>rd_data = rest, rd_err = e\<rparr>)"
proof -
  have "utf8 (l @ [CR])"
    using assms(2) by (simp add: utf8_valid_append)
  then have "read_line \<lparr>rd_data = as_bytes (l @ CRLF) @ rest, rd_err = e\<rparr> =
     Ok (l @ CRLF, \<lparr>rd_data = rest, rd_err = e\<rparr>)"
    using read_line_LF [of "l @ [CR]"] assms(1) by simp
  then show ?thesis
    by (simp add: next_line_def strip_line_end_CRLF)
qed

section \<open>The header section\<close>

lemma header_lines_empty:
  "header_lines hs \<lparr>rd_data = as_bytes CRLF @ rest, rd_err = e\<rparr> =
     Ok (hs, \<lparr>rd_data = rest, rd_err = e\<rparr>)"
  using next_line_CRLF [of "[]" rest e] by (subst header_lines.simps) simp

lemma header_lines_format:
  assumes "valid_header (name, value)"
  shows "header_lines hs \<lparr>rd_data = as_bytes (format_header name value) @ rest, rd_err = e\<rparr> =
     header_lines (add_header hs name value) \<lparr>rd_data = rest, rd_err = e\<rparr>"
proof -
  let ?l = "name @ CHR '':'' # CHR '' '' # value"
  have "LF \<notin> set ?l" and "utf8 ?l"
    using assms by (auto simp: valid_header_def utf8_valid_append)
  from next_line_CRLF [OF this, of rest e]
  have "next_line \<lparr>rd_data = as_bytes (format_header name value) @ rest, rd_err = e\<rparr> =
     Ok (Some ?l, \<lparr>rd_data = rest, rd_err = e\<rparr>)"
    by (simp add: format_header_def)
  moreover have "trim (CHR '' '' # value) = value" "CHR '':'' \<notin> set name"
    using assms by (auto simp: valid_header_def trim_space_trimmed)
  ultimately show ?thesis
    by (subst header_lines.simps) simp
qed

lemma header_lines_block:
  "\<forall>h \<in> set hs. valid_header h \<Longrightarrow>
   header_lines hs0 \<lparr>rd_data = as_bytes (concat (map (\<lambda>(n, v). format_header n v) hs) @ CRLF) @ rest,
     rd_err = e\<rparr> =
     Ok (\<lparr>headers = headers hs0 @ hs\<rparr>, \<lparr>rd_data = rest, rd_err = e\<rparr>)"
proof (induction hs arbitrary: hs0)
  case Nil
  then show ?case
    using header_lines_empty by simp
next
  case (Cons h hs)
  obtain n v where h: "h = (n, v)"
    by (cases h)
  with Cons.prems have "valid_header (n, v)"
    by simp
  from header_lines_format [OF this] Cons h show ?case
    by (simp add: add_header_def)
qed

text \<open>
  A line of at most one byte that has no colon ends the section (not only the empty line);
  so does the end of the stream.
\<close>

lemma header_lines_short_line:
  assumes "LF \<notin> set l" "utf8 l" "CHR '':'' \<notin> set l"
  shows "header_lines hs \<lparr>rd_data = as_bytes (l @ CRLF) @ rest, rd_err = e\<rparr> =
     (if 1 < length l then Inl (Error (''Invalid header line: '' @ l))
      else Ok (hs, \<lparr>rd_data = rest, rd_err = e\<rparr>))"
  using next_line_CRLF [OF assms(1,2), of rest e] assms(3)
  by (subst header_lines.simps) (simp add: split_once_None_iff [THEN iffD2])

lemma header_lines_eof: "header_lines hs \<lparr>rd_data = [], rd_err = None\<rparr> = Ok (hs, \<lparr>rd_data = [], rd_err = None\<rparr>)"
  by (subst header_lines.simps) (simp add: next_line_def read_line_def take_line_def)

section \<open>Requests\<close>

text \<open>The request as a client writes it, and the requests that can be written so.\<close>

definition request_bytes :: "HttpRequest \<Rightarrow> bytes" where
  "request_bytes q =
     as_bytes (req_method q @ '' '' @ uri q @ '' '' @ version q @ CRLF) @
     as_bytes (concat (map (\<lambda>(n, v). format_header n v) (headers (req_headers q))) @ CRLF) @ body q"

definition token :: "string \<Rightarrow> bool" where
  "token s \<longleftrightarrow> s \<noteq> [] \<and> no_ws s \<and> utf8 s"

definition wf_request :: "HttpRequest \<Rightarrow> bool" where
  "wf_request q \<longleftrightarrow>
     token (req_method q) \<and> token (uri q) \<and> token (version q) \<and>
     list_all valid_header (headers (req_headers q)) \<and>
     (case get_content_length (req_headers q) of
        None \<Rightarrow> body q = []
      | Some n \<Rightarrow> n = length (body q) \<and> n \<le> 2 ^ 63 - 1)"

lemma no_ws_LF: "no_ws s \<Longrightarrow> LF \<notin> set s"
  by (induction s) (auto simp: ws_len_ascii_ws ws_ascii_def)

lemma parse_request_line_ok:
  assumes "token m" "token u" "token v"
  shows "parse_request_line \<lparr>rd_data = as_bytes (m @ '' '' @ u @ '' '' @ v @ CRLF) @ rest, rd_err = e\<rparr> =
     Ok ((m, u, v), \<lparr>rd_data = rest, rd_err = e\<rparr>)"
proof -
  let ?l = "m @ CHR '' '' # u @ CHR '' '' # v @ [CR]"
  have "LF \<notin> set ?l"
    using assms no_ws_LF by (auto simp: token_def)
  moreover have "utf8 ?l"
    using assms by (auto simp: token_def utf8_valid_append)
  ultimately have "read_line \<lparr>rd_data = as_bytes (m @ '' '' @ u @ '' '' @ v @ CRLF) @ rest, rd_err = e\<rparr> =
      Ok (?l @ [LF], \<lparr>rd_data = rest, rd_err = e\<rparr>)"
    using read_line_LF [of ?l rest e] by simp
  moreover have "split_whitespace (?l @ [LF]) = [m, u, v]"
    using assms by (simp add: token_def split_ws_token split_ws_skip ws_ascii_def)
  ultimately show ?thesis
    by (simp add: parse_request_line_def)
qed

lemma parse_header_section_block:
  "\<forall>h \<in> set hs. valid_header h \<Longrightarrow>
   parse_header_section \<lparr>rd_data = as_bytes (concat (map (\<lambda>(n, v). format_header n v) hs) @ CRLF) @ rest,
     rd_err = e\<rparr> =
     Ok (\<lparr>headers = hs\<rparr>, \<lparr>rd_data = rest, rd_err = e\<rparr>)"
  using header_lines_block [of hs HttpHeaders_new rest e]
  by (simp add: parse_header_section_def HttpHeaders_new_def)

lemma parse_request_bytes:
  assumes "wf_request q" "alloc (length (body q))"
  shows "HttpRequest_parse alloc \<lparr>rd_data = request_bytes q @ rest, rd_err = e\<rparr> =
     Ok (q, \<lparr>rd_data = rest, rd_err = e\<rparr>)"
proof -
  let ?hs = "headers (req_headers q)"
  have tok: "token (req_method q)" "token (uri q)" "token (version q)"
    and hs: "\<forall>h \<in> set ?hs. valid_header h"
    using assms(1) by (auto simp: wf_request_def list_all_iff)
  note line = parse_request_line_ok [OF tok, of _ e]
  note block = parse_header_section_block [OF hs, of _ e]
  show ?thesis
  proof (cases "get_content_length (req_headers q)")
    case None
    with assms(1) have "body q = []"
      by (simp add: wf_request_def)
    with None line block show ?thesis
      by (simp add: HttpRequest_parse_def request_bytes_def)
  next
    case (Some n)
    with assms(1) have "n = length (body q)" "n \<le> 2 ^ 63 - 1"
      by (auto simp: wf_request_def)
    with Some line block assms(2) show ?thesis
      by (simp add: HttpRequest_parse_def request_bytes_def vec_resize_def read_exact_def)
  qed
qed

lemma split_ws_nonempty: "t \<in> set (split_ws cur s) \<Longrightarrow> t \<noteq> []"
  by (induction cur s rule: split_ws.induct) (auto simp: split_ws.simps split: if_splits)

lemma parse_request_line_OkE:
  assumes "parse_request_line r = Inr ((m, u, v), r')"
  shows "m \<noteq> [] \<and> u \<noteq> [] \<and> v \<noteq> []"
proof -
  obtain line ps where "split_whitespace line = m # u # v # ps"
    using assms unfolding parse_request_line_def Let_def
    by (auto split: list.splits prod.splits)
  with split_ws_nonempty [of _ "[]" line] show ?thesis
    by auto
qed

lemma read_exact_length: "read_exact n r = Inr (b, r') \<Longrightarrow> length b = n"
  by (auto simp: read_exact_def split: if_splits option.splits)

lemma valid_header_visible:
  "visible n \<Longrightarrow> CHR '':'' \<notin> set n \<Longrightarrow> visible v \<Longrightarrow> valid_header (n, v)"
proof -
  assume "visible n" "CHR '':'' \<notin> set n" "visible v"
  moreover have "LF \<notin> set s" if "visible s" for s
    using that by (auto simp: visible_def)
  ultimately show ?thesis
    by (simp add: valid_header_def visible_utf8 visible_trimmed)
qed

lemma valid_content_type: "visible ct \<Longrightarrow> valid_header (''Content-Type'', ct)"
  by (rule valid_header_visible) (simp_all add: visible_def)

lemma valid_content_length: "valid_header (''Content-Length'', show_nat n)"
  by (rule valid_header_visible) (simp_all add: visible_show_nat, simp add: visible_def)

lemma lower_content_names:
  "to_ascii_lowercase ''Content-Type'' = ''content-type''"
  "to_ascii_lowercase ''Content-Length'' = ''content-length''"
  "to_ascii_lowercase ''content-type'' = ''content-type''"
  by code_simp+

section \<open>Properties\<close>

text \<open>C1: A request written in HTTP/1.1 form is parsed to exactly the method, target, version, headers
  and body it was written from, and the reader is left at the first byte after it, whatever
  follows on the connection.\<close>

theorem request_round_trip:
  assumes "wf_request q" and "alloc (length (body q))"
  shows "HttpRequest_parse alloc \<lparr>rd_data = request_bytes q @ rest, rd_err = e\<rparr> =
     Ok (q, \<lparr>rd_data = rest, rd_err = e\<rparr>)"
  using assms by (rule parse_request_bytes)

definition example_request :: HttpRequest where
  "example_request =
     \<lparr>req_method = ''POST'', uri = ''/get-devices'', version = ''HTTP/1.1'',
      req_headers = new_with_headers [(''Host'', ''localhost:7681''), (''Content-Length'', show_nat 5)],
      body = as_bytes ''hello''\<rparr>"

lemma example_tokens: "token ''POST'' \<and> token ''/get-devices'' \<and> token ''GET'' \<and> token ''HTTP/1.1''"
  by code_simp

lemma example_host: "to_ascii_lowercase ''Host'' = ''host'' \<and> valid_header (''Host'', ''localhost:7681'')"
  by code_simp

lemma example_request_wf: "wf_request example_request"
  using example_tokens example_host valid_content_length [of 5] parse_usize_show_nat [of 5]
  by (simp add: wf_request_def example_request_def get_content_length_def HttpHeaders_get_def lower_content_names)

lemma request_round_trip_witness:
  "HttpRequest_parse (\<lambda>_. True) \<lparr>rd_data = request_bytes example_request @ [71], rd_err = None\<rparr> =
     Ok (example_request, \<lparr>rd_data = [71], rd_err = None\<rparr>)"
  by (rule request_round_trip [OF example_request_wf]) simp

lemma get_entry_found:
  "list_all (\<lambda>(n, _). to_ascii_lowercase n \<noteq> k) pre \<Longrightarrow> to_ascii_lowercase name = k \<Longrightarrow>
   get_entry k (pre @ (name, v) # post) = Some v"
  by (induction pre) auto

lemma get_entry_first:
  "get_entry k hs = Some v \<Longrightarrow>
   \<exists>pre name post. hs = pre @ (name, v) # post \<and> to_ascii_lowercase name = k \<and>
     list_all (\<lambda>(n, _). to_ascii_lowercase n \<noteq> k) pre"
proof (induction k hs rule: get_entry.induct)
  case (2 k n val hs)
  show ?case
  proof (cases "to_ascii_lowercase n = k")
    case True
    with 2 show ?thesis
      by (intro exI [of _ "[]"] exI [of _ n] exI [of _ hs]) simp
  next
    case False
    with 2 obtain pre name post where "hs = pre @ (name, v) # post" "to_ascii_lowercase name = k"
        "list_all (\<lambda>(n, _). to_ascii_lowercase n \<noteq> k) pre"
      by auto
    with False show ?thesis
      by (intro exI [of _ "(n, val) # pre"] exI [of _ name] exI [of _ post]) simp
  qed
qed simp

text \<open>A lookup in the header table ignores the case of ASCII letters, returns the value of the
  first header with that name, and fails exactly when no header has it.\<close>

theorem header_lookup:
  "HttpHeaders_get h key = Some v \<longleftrightarrow>
     (\<exists>pre name post. headers h = pre @ (name, v) # post \<and>
        to_ascii_lowercase name = to_ascii_lowercase key \<and>
        list_all (\<lambda>(k, _). to_ascii_lowercase k \<noteq> to_ascii_lowercase key) pre)"
  unfolding HttpHeaders_get_def
proof (rule iffI)
  assume "\<exists>pre name post. headers h = pre @ (name, v) # post \<and>
      to_ascii_lowercase name = to_ascii_lowercase key \<and>
      list_all (\<lambda>(k, _). to_ascii_lowercase k \<noteq> to_ascii_lowercase key) pre"
  then show "get_entry (to_ascii_lowercase key) (headers h) = Some v"
    by (elim exE conjE) (simp add: get_entry_found)
qed (rule get_entry_first)

text \<open>A Content-Length above the largest size of a vector makes the parser panic before it reads
  a byte of the body, although the value itself is accepted as a number.\<close>

theorem huge_content_length_panics:
  assumes "token m" and "token u" and "token v" and "\<forall>h \<in> set hs. valid_header h"
    and "get_content_length \<lparr>headers = hs\<rparr> = Some n" and "2 ^ 63 - 1 < n"
  shows "HttpRequest_parse alloc \<lparr>rd_data = as_bytes (m @ '' '' @ u @ '' '' @ v @ CRLF) @
       as_bytes (concat (map (\<lambda>(n, v). format_header n v) hs) @ CRLF) @ rest, rd_err = e\<rparr> =
     Inl (Panic ''capacity overflow'')"
  using parse_request_line_ok [OF assms(1-3)] parse_header_section_block [OF assms(4)] assms(5,6)
  by (simp add: HttpRequest_parse_def vec_resize_def)

definition length_headers :: "nat \<Rightarrow> (string \<times> string) list" where
  "length_headers n = [(''Content-Length'', show_nat n)]"

lemma length_headers_valid: "\<forall>h \<in> set (length_headers n). valid_header h"
  by (simp add: length_headers_def valid_content_length)

lemma length_headers_length: "n < usize_bound \<Longrightarrow> get_content_length \<lparr>headers = length_headers n\<rparr> = Some n"
  by (simp add: length_headers_def get_content_length_def HttpHeaders_get_def lower_content_names parse_usize_show_nat)

lemma huge_content_length_panics_witness:
  "HttpRequest_parse (\<lambda>_. True)
     \<lparr>rd_data = as_bytes (''GET'' @ '' '' @ ''/get-devices'' @ '' '' @ ''HTTP/1.1'' @ CRLF) @
       as_bytes (concat (map (\<lambda>(n, v). format_header n v) (length_headers (2 ^ 63))) @ CRLF) @ [], rd_err = None\<rparr> =
     Inl (Panic ''capacity overflow'')"
proof (rule huge_content_length_panics [OF _ _ _ length_headers_valid length_headers_length])
  show "2 ^ 63 < usize_bound" "(2 ^ 63 - 1 :: nat) < 2 ^ 63"
    by simp_all
qed (use example_tokens in simp_all)

lemma parse_huge_length:
  assumes "2 ^ 63 - 1 < n" and "n < usize_bound"
  shows "HttpRequest_parse alloc
     \<lparr>rd_data = as_bytes (''GET'' @ '' '' @ ''/get-devices'' @ '' '' @ ''HTTP/1.1'' @ CRLF) @
       as_bytes (concat (map (\<lambda>(n, v). format_header n v) (length_headers n)) @ CRLF) @ rest, rd_err = e\<rparr> =
     Inl (Panic ''capacity overflow'')"
  using parse_request_line_ok [of "''GET''" "''/get-devices''" "''HTTP/1.1''"] example_tokens
    parse_header_section_block [OF length_headers_valid] length_headers_length [OF assms(2)] assms(1)
  by (simp add: HttpRequest_parse_def vec_resize_def)

text \<open>Without a Content-Length that is a number the body is empty and the bytes after the header
  section stay unread.\<close>

theorem body_needs_content_length:
  assumes "token m" and "token u" and "token v" and "\<forall>h \<in> set hs. valid_header h"
    and "get_content_length \<lparr>headers = hs\<rparr> = None"
  shows "HttpRequest_parse alloc \<lparr>rd_data = as_bytes (m @ '' '' @ u @ '' '' @ v @ CRLF) @
       as_bytes (concat (map (\<lambda>(n, v). format_header n v) hs) @ CRLF) @ rest, rd_err = e\<rparr> =
     Ok (\<lparr>req_method = m, uri = u, version = v, req_headers = \<lparr>headers = hs\<rparr>, body = []\<rparr>,
       \<lparr>rd_data = rest, rd_err = e\<rparr>)"
  using parse_request_line_ok [OF assms(1-3)] parse_header_section_block [OF assms(4)] assms(5)
  by (simp add: HttpRequest_parse_def)

lemma body_needs_content_length_witness:
  "HttpRequest_parse (\<lambda>_. True)
     \<lparr>rd_data = as_bytes (''GET'' @ '' '' @ ''/get-devices'' @ '' '' @ ''HTTP/1.1'' @ CRLF) @
       as_bytes (concat (map (\<lambda>(n, v). format_header n v) [(''Host'', ''localhost:7681'')]) @ CRLF) @
       as_bytes ''Hello World'', rd_err = None\<rparr> =
     Ok (\<lparr>req_method = ''GET'', uri = ''/get-devices'', version = ''HTTP/1.1'',
         req_headers = \<lparr>headers = [(''Host'', ''localhost:7681'')]\<rparr>, body = []\<rparr>,
       \<lparr>rd_data = as_bytes ''Hello World'', rd_err = None\<rparr>)"
proof (rule body_needs_content_length)
  show "get_content_length \<lparr>headers = [(''Host'', ''localhost:7681'')]\<rparr> = None"
    using example_host by (simp add: get_content_length_def HttpHeaders_get_def lower_content_names)
  show "\<forall>h \<in> set [(''Host'', ''localhost:7681'')]. valid_header h"
    using example_host by simp
qed (use example_tokens in simp_all)

text \<open>A header line without a colon is an error if it has more than one byte; a line of at most
  one byte, not only the empty line, ends the header section.\<close>

theorem line_without_colon:
  assumes "LF \<notin> set l" and "utf8 l" and "CHR '':'' \<notin> set l"
  shows "header_lines hs \<lparr>rd_data = as_bytes (l @ CRLF) @ rest, rd_err = e\<rparr> =
     (if 1 < length l then Inl (Error (''Invalid header line: '' @ l))
      else Ok (hs, \<lparr>rd_data = rest, rd_err = e\<rparr>))"
  using assms by (rule header_lines_short_line)

lemma line_without_colon_witness:
  "header_lines HttpHeaders_new \<lparr>rd_data = as_bytes (''x'' @ CRLF) @ [66], rd_err = None\<rparr> =
     Ok (HttpHeaders_new, \<lparr>rd_data = [66], rd_err = None\<rparr>)"
proof -
  have "utf8 ''x''"
    by code_simp
  then show ?thesis
    using line_without_colon [of "''x''" HttpHeaders_new "[66]" None] by simp
qed

end
