(* ===== verification/Http_Response.thy ===== *)
theory Http_Response
  imports Http_Request
begin

text \<open>
  \<^verbatim>\<open>rust/netsim-cxx/src/frontend_http_server/http_response.rs\<close>: the two constructors of a
  response and its serialisation. The \<^verbatim>\<open>Write\<close> target is a \<open>writer\<close>: the bytes it has
  taken, how many more it takes before it fails (\<open>None\<close>: it never fails), and the message
  of that failure. What was taken before a failure stays written.
\<close>

section \<open>Writers\<close>

record writer =
  wr_out :: bytes
  wr_room :: "nat option"
  wr_err :: string

definition write_all :: "bytes \<Rightarrow> writer \<Rightarrow> unit result \<times> writer" where
  "write_all bs w =
     (case wr_room w of
        None \<Rightarrow> (Ok (), w\<lparr>wr_out := wr_out w @ bs\<rparr>)
      | Some n \<Rightarrow>
        if length bs \<le> n
        then (Ok (), w\<lparr>wr_out := wr_out w @ bs, wr_room := Some (n - length bs)\<rparr>)
        else (Inl (Error (wr_err w)), w\<lparr>wr_out := wr_out w @ take n bs, wr_room := Some 0\<rparr>))"

section \<open>Responses\<close>

record HttpResponse =
  status_code :: u16
  resp_headers :: HttpHeaders
  resp_body :: bytes

definition response_buffer :: "HttpResponse \<Rightarrow> bytes" where
  "response_buffer r =
     fold (\<lambda>(name, value) buffer. buffer @ as_bytes (name @ '': '' @ value @ CRLF))
       (HttpHeaders_iter (resp_headers r))
       (as_bytes (''HTTP/1.1 '' @ show_nat (unat (status_code r)) @ CRLF))
     @ as_bytes CRLF @ resp_body r"

definition write_to :: "HttpResponse \<Rightarrow> writer \<Rightarrow> unit result \<times> writer" where
  "write_to r w = write_all (response_buffer r) w"

definition new_200 :: "string \<Rightarrow> bytes \<Rightarrow> HttpResponse" where
  "new_200 content_type b =
     \<lparr>status_code = 200,
      resp_headers = new_with_headers
        [(''Content-Type'', content_type), (''Content-Length'', show_nat (length b))],
      resp_body = b\<rparr>"

definition new_404 :: HttpResponse where
  "new_404 =
     \<lparr>status_code = 404,
      resp_headers = new_with_headers [(''Content-Type'', ''text/plain'')],
      resp_body = as_bytes ''404 Not Found''\<rparr>"

section \<open>What a client reads\<close>

lemma fold_append_concat:
  "fold (\<lambda>x buffer. buffer @ f x) xs b = b @ concat (map f xs)"
  by (induction xs arbitrary: b) auto

lemma as_bytes_concat: "as_bytes (concat (map f xs)) = concat (map (\<lambda>x. as_bytes (f x)) xs)"
  by (induction xs) auto

lemma response_buffer_eq:
  "response_buffer r =
     as_bytes (''HTTP/1.1 '' @ show_nat (unat (status_code r)) @ CRLF) @
     as_bytes (concat (map (\<lambda>(n, v). format_header n v) (headers (resp_headers r))) @ CRLF) @
     resp_body r"
proof -
  have "(\<lambda>(name, value) buffer. buffer @ as_bytes (name @ '': '' @ value @ CRLF)) =
      (\<lambda>x buffer. buffer @ as_bytes (case x of (n, v) \<Rightarrow> format_header n v))"
    by (auto simp: fun_eq_iff format_header_def)
  then show ?thesis
    by (simp add: response_buffer_def HttpHeaders_iter_def fold_append_concat as_bytes_concat)
qed

lemma status_line:
  "read_line \<lparr>rd_data = response_buffer r @ rest, rd_err = e\<rparr> =
     Ok (''HTTP/1.1 '' @ show_nat (unat (status_code r)) @ CRLF,
       \<lparr>rd_data = as_bytes (concat (map (\<lambda>(n, v). format_header n v) (headers (resp_headers r))) @ CRLF) @
          resp_body r @ rest, rd_err = e\<rparr>)"
proof -
  let ?l = "''HTTP/1.1 '' @ show_nat (unat (status_code r)) @ [CR]"
  have "visible (show_nat (unat (status_code r)))"
    by (rule visible_show_nat)
  then have "LF \<notin> set ?l" and "utf8 ?l"
    using visible_utf8 by (auto simp: visible_def utf8_valid_append)
  from read_line_LF [OF this] show ?thesis
    by (simp add: response_buffer_eq)
qed

lemma response_read_back:
  assumes "\<forall>h \<in> set (headers (resp_headers r)). valid_header h"
  shows "bindE (read_line \<lparr>rd_data = response_buffer r @ rest, rd_err = e\<rparr>)
       (\<lambda>(status, rd). bindE (parse_header_section rd) (\<lambda>(hs, rd'). Ok (status, hs, rd'))) =
     Ok (''HTTP/1.1 '' @ show_nat (unat (status_code r)) @ CRLF, resp_headers r,
         \<lparr>rd_data = resp_body r @ rest, rd_err = e\<rparr>)"
  using parse_header_section_block [OF assms, of "resp_body r @ rest" e]
  by (simp add: status_line)

lemma new_200_headers_valid:
  "visible ct \<Longrightarrow> \<forall>h \<in> set (headers (resp_headers (new_200 ct b))). valid_header h"
  by (simp add: new_200_def valid_content_type valid_content_length)

lemma new_404_headers_valid: "\<forall>h \<in> set (headers (resp_headers new_404)). valid_header h"
  by (simp add: new_404_def valid_content_type visible_def)

lemma new_200_content_length:
  "length b < usize_bound \<Longrightarrow> get_content_length (resp_headers (new_200 ct b)) = Some (length b)"
  by (simp add: get_content_length_def HttpHeaders_get_def new_200_def lower_content_names
      parse_usize_show_nat)

lemma new_404_content_length: "get_content_length (resp_headers new_404) = None"
  by (simp add: get_content_length_def HttpHeaders_get_def new_404_def lower_content_names)

text \<open>A failed write leaves a prefix of the response, a successful one all of it.\<close>

lemma write_all_out:
  "write_all bs w = (res, w') \<Longrightarrow>
   \<exists>k. wr_out w' = wr_out w @ take k bs \<and> (res = Ok () \<longrightarrow> take k bs = bs)"
  by (auto simp: write_all_def split: option.splits if_splits) (metis dual_order.refl take_all_iff)+

section \<open>Properties\<close>

text \<open>C34: A client that reads a 200 response gets the status line, the two headers and then exactly
  the body, and the Content-Length it reads is the length of that body.\<close>

theorem response_200_read_back:
  assumes "visible ct" and "length b < usize_bound"
  shows "bindE (read_line \<lparr>rd_data = response_buffer (new_200 ct b) @ rest, rd_err = e\<rparr>)
       (\<lambda>(status, rd). bindE (parse_header_section rd) (\<lambda>(hs, rd').
          Ok (status, HttpHeaders_get hs ''content-type'', get_content_length hs, rd'))) =
     Ok (''HTTP/1.1 200'' @ CRLF, Some ct, Some (length b), \<lparr>rd_data = b @ rest, rd_err = e\<rparr>)"
proof -
  have read: "bindE (read_line \<lparr>rd_data = response_buffer (new_200 ct b) @ rest, rd_err = e\<rparr>)
       (\<lambda>(status, rd). bindE (parse_header_section rd) (\<lambda>(hs, rd'). Ok (status, hs, rd'))) =
     Ok (''HTTP/1.1 '' @ show_nat (unat (status_code (new_200 ct b))) @ CRLF, resp_headers (new_200 ct b),
         \<lparr>rd_data = resp_body (new_200 ct b) @ rest, rd_err = e\<rparr>)"
    using new_200_headers_valid [OF assms(1)] by (rule response_read_back)
  have "show_nat 200 = ''200''"
    by code_simp
  moreover have "HttpHeaders_get (resp_headers (new_200 ct b)) ''content-type'' = Some ct"
    by (simp add: HttpHeaders_get_def new_200_def lower_content_names)
  moreover have "resp_body (new_200 ct b) = b" "unat (status_code (new_200 ct b)) = 200"
    by (simp_all add: new_200_def)
  ultimately show ?thesis
    using read new_200_content_length [OF assms(2), of ct]
    by (auto simp: bindE_Inr_iff split: prod.splits)
qed

lemma response_200_read_back_witness:
  "bindE (read_line \<lparr>rd_data = response_buffer (new_200 ''text/html'' [60, 62]) @ [], rd_err = None\<rparr>)
       (\<lambda>(status, rd). bindE (parse_header_section rd) (\<lambda>(hs, rd').
          Ok (status, HttpHeaders_get hs ''content-type'', get_content_length hs, rd'))) =
     Ok (''HTTP/1.1 200'' @ CRLF, Some ''text/html'', Some 2, \<lparr>rd_data = [60, 62] @ [], rd_err = None\<rparr>)"
proof -
  have "visible ''text/html''"
    by code_simp
  then show ?thesis
    using response_200_read_back [of "''text/html''" "[60, 62]" "[]" None] by simp
qed

end
