(* ===== verification/Http_Router.thy ===== *)
theory Http_Router
  imports Http_Response
begin

text \<open>
  \<^verbatim>\<open>rust/netsim-cxx/src/frontend_http_server/http_router.rs\<close>: an ordered table of patterns and
  handlers. The \<^verbatim>\<open>regex\<close> crate is a parameter, a record of its three operations (a pattern
  is compiled, a text is tested, the groups of a match are taken); the locale
  \<open>regex_engine\<close> states what its documentation promises of the patterns the server uses.
  A handler gets the request and the groups and gives the response, with the lines it
  prints, or a panic.
\<close>

section \<open>The regex crate\<close>

record ('re, 'cap) regex_crate =
  re_new :: "string \<Rightarrow> 're option"
  re_is_match :: "'re \<Rightarrow> string \<Rightarrow> bool"
  re_captures :: "'re \<Rightarrow> string \<Rightarrow> 'cap option"

text \<open>A pattern text without any character that is special in a regular expression.\<close>

definition plain_pattern :: "string \<Rightarrow> bool" where
  "plain_pattern t \<longleftrightarrow> list_all (\<lambda>c. c \<notin> set (CHR 0x5C # ''.+*?()|[]{}^$'')) t"

locale regex_engine =
  fixes R :: "('re, 'cap) regex_crate"
  assumes captures_of_match: "re_is_match R r s \<Longrightarrow> \<exists>c. re_captures R r s = Some c"
    and plain_regex: "plain_pattern t \<Longrightarrow>
      \<exists>r. re_new R (''^'' @ t @ ''$'') = Some r \<and> (\<forall>s. re_is_match R r s \<longleftrightarrow> s = t)"
    and slash_any_regex:
      "\<exists>r. re_new R ''^/(.+)$'' = Some r \<and>
         (\<forall>s. re_is_match R r s \<longleftrightarrow> (\<exists>t. s = CHR ''/'' # t \<and> t \<noteq> [] \<and> LF \<notin> set t))"

section \<open>The router\<close>

type_synonym response = "(HttpResponse \<times> string list) result"
type_synonym 'cap handler = "HttpRequest \<Rightarrow> 'cap \<Rightarrow> response"

record ('re, 'cap) Router =
  routes :: "('re \<times> 'cap handler) list"

definition Router_new :: "('re, 'cap) Router" where
  "Router_new = \<lparr>routes = []\<rparr>"

definition add_route ::
    "('re, 'cap) regex_crate \<Rightarrow> string \<Rightarrow> 'cap handler \<Rightarrow> ('re, 'cap) Router \<Rightarrow> ('re, 'cap) Router result"
  where
  "add_route R u h router =
     (case re_new R (''^'' @ u @ ''$'') of
        None \<Rightarrow> Inl (Panic ''called Result::unwrap() on an Err value'')
      | Some regex \<Rightarrow> Ok (router\<lparr>routes := routes router @ [(regex, h)]\<rparr>))"

fun route_request ::
    "('re, 'cap) regex_crate \<Rightarrow> ('re \<times> 'cap handler) list \<Rightarrow> HttpRequest \<Rightarrow> response" where
  "route_request R [] req = Ok (new_404, [''netsim: HttpRouter unknown uri '' @ uri req])"
| "route_request R ((regex, h) # rs) req =
     (if re_is_match R regex (uri req) then
        (case re_captures R regex (uri req) of
           None \<Rightarrow> Inl (Panic ''called Option::unwrap() on a None value'')
         | Some captures \<Rightarrow> h req captures)
      else route_request R rs req)"

definition handle_request ::
    "('re, 'cap) regex_crate \<Rightarrow> ('re, 'cap) Router \<Rightarrow> HttpRequest \<Rightarrow> response" where
  "handle_request R router req = route_request R (routes router) req"

section \<open>Dispatch\<close>

lemma route_request_skip:
  "\<forall>(re, h) \<in> set pre. \<not> re_is_match R re (uri req) \<Longrightarrow>
   route_request R (pre @ rs) req = route_request R rs req"
  by (induction pre) auto

lemma route_request_none:
  "\<forall>(re, h) \<in> set rs. \<not> re_is_match R re (uri req) \<Longrightarrow>
   route_request R rs req = Ok (new_404, [''netsim: HttpRouter unknown uri '' @ uri req])"
  using route_request_skip [of rs R req "[]"] by simp

lemma add_route_routes:
  "add_route R u h router = Inr router' \<Longrightarrow>
   \<exists>re. re_new R (''^'' @ u @ ''$'') = Some re \<and> routes router' = routes router @ [(re, h)]"
  by (auto simp: add_route_def split: option.splits)

context regex_engine
begin

text \<open>The first route whose pattern matches answers; the unwrap of its groups never fails.\<close>

lemma first_match:
  assumes "\<forall>(re, h) \<in> set pre. \<not> re_is_match R re (uri req)"
    and "re_is_match R regex (uri req)"
  shows "\<exists>c. route_request R (pre @ (regex, h) # post) req = h req c"
proof -
  obtain c where "re_captures R regex (uri req) = Some c"
    using captures_of_match [OF assms(2)] by blast
  with assms(2) have "route_request R (pre @ (regex, h) # post) req = h req c"
    by (simp add: route_request_skip [OF assms(1)])
  then show ?thesis
    by (rule exI)
qed

lemma plain_regexE:
  assumes "plain_pattern t"
  obtains r where "re_new R (''^'' @ t @ ''$'') = Some r" and "\<And>s. re_is_match R r s \<longleftrightarrow> s = t"
  using plain_regex [OF assms] by (elim exE conjE) simp

lemma slash_any_regexE:
  obtains r where "re_new R ''^/(.+)$'' = Some r"
    and "\<And>s. re_is_match R r s \<longleftrightarrow> (\<exists>t. s = CHR ''/'' # t \<and> t \<noteq> [] \<and> LF \<notin> set t)"
  using slash_any_regex by (elim exE conjE) simp

lemma add_plain_route:
  assumes "plain_pattern t"
  shows "\<exists>regex. add_route R t h router = Ok (router\<lparr>routes := routes router @ [(regex, h)]\<rparr>) \<and>
    (\<forall>s. re_is_match R regex s \<longleftrightarrow> s = t)"
  using plain_regex [OF assms] by (auto simp: add_route_def)

lemma add_slash_any_route:
  "\<exists>regex. add_route R ''/(.+)'' h router = Ok (router\<lparr>routes := routes router @ [(regex, h)]\<rparr>) \<and>
    (\<forall>s. re_is_match R regex s \<longleftrightarrow> (\<exists>t. s = CHR ''/'' # t \<and> t \<noteq> [] \<and> LF \<notin> set t))"
  using slash_any_regex by (auto simp: add_route_def)

text \<open>A plain route added to a router answers exactly its own path, if no earlier one does.\<close>

lemma plain_route_answers:
  assumes "plain_pattern t" and "add_route R t h router = Inr router'"
    and "\<forall>(re, g) \<in> set (routes router). \<not> re_is_match R re t"
    and "uri req = t"
  shows "\<exists>c. handle_request R router' req = h req c"
proof -
  obtain regex where add: "add_route R t h router = Ok (router\<lparr>routes := routes router @ [(regex, h)]\<rparr>)"
    and match: "re_is_match R regex t"
    using add_plain_route [OF assms(1), of h router] by blast
  from add assms(2) have "routes router' = routes router @ [(regex, h)]"
    by auto
  with first_match [of "routes router" req regex h "[]"] match assms(3,4) show ?thesis
    by (simp add: handle_request_def)
qed

end

section \<open>An engine for the patterns of the server\<close>

text \<open>
  A small matcher that satisfies the contract: a pattern between \<^verbatim>\<open>^\<close> and \<^verbatim>\<open>$\<close> is a list
  of items (a character, or any character but the line feed), each possibly repeated
  by \<^verbatim>\<open>+\<close>; parentheses mark groups and are skipped. The groups of a match are not used by
  the server; the whole text stands for them.
\<close>

datatype charset = Single char | AnyChar

type_synonym item = "charset \<times> bool"

fun in_charset :: "charset \<Rightarrow> char \<Rightarrow> bool" where
  "in_charset (Single d) c = (c = d)"
| "in_charset AnyChar c = (c \<noteq> LF)"

definition starts_plus :: "string \<Rightarrow> bool" where
  "starts_plus s \<longleftrightarrow> s \<noteq> [] \<and> hd s = CHR ''+''"

fun parse_items :: "string \<Rightarrow> item list" where
  "parse_items [] = []"
| "parse_items (c # s) =
     (if c = CHR ''('' \<or> c = CHR '')'' \<or> c = CHR ''+'' then parse_items s
      else (if c = CHR ''.'' then AnyChar else Single c, starts_plus s) # parse_items s)"

fun match_items :: "item list \<Rightarrow> string \<Rightarrow> bool" where
  "match_items [] s = (s = [])"
| "match_items ((cs, rep) # is) [] = False"
| "match_items ((cs, rep) # is) (c # s) =
     (in_charset cs c \<and> (match_items is s \<or> rep \<and> match_items ((cs, rep) # is) s))"

definition anchored_engine :: "(item list, string) regex_crate" where
  "anchored_engine =
     \<lparr>re_new = (\<lambda>p. if length p \<ge> 2 \<and> hd p = CHR ''^'' \<and> last p = CHR ''$''
                     then Some (parse_items (butlast (tl p))) else None),
      re_is_match = match_items,
      re_captures = (\<lambda>r s. if match_items r s then Some s else None)\<rparr>"

lemma parse_items_plain:
  "plain_pattern t \<Longrightarrow> parse_items t = map (\<lambda>c. (Single c, False)) t"
proof (induction t)
  case (Cons c t)
  then have "\<not> starts_plus t"
    by (cases t) (auto simp: starts_plus_def plain_pattern_def)
  with Cons show ?case
    by (simp add: plain_pattern_def)
qed simp

lemma match_items_plain: "match_items (map (\<lambda>c. (Single c, False)) t) s \<longleftrightarrow> s = t"
proof (induction t arbitrary: s)
  case (Cons c t)
  then show ?case
    by (cases s) auto
qed simp

lemma match_any_plus:
  "match_items [(AnyChar, True)] s \<longleftrightarrow> s \<noteq> [] \<and> LF \<notin> set s"
  by (induction s) auto

interpretation anchored: regex_engine anchored_engine
proof unfold_locales
  fix t
  assume "plain_pattern t"
  then show "\<exists>r. re_new anchored_engine (''^'' @ t @ ''$'') = Some r \<and>
      (\<forall>s. re_is_match anchored_engine r s \<longleftrightarrow> s = t)"
    by (simp add: anchored_engine_def parse_items_plain match_items_plain butlast_append)
next
  have "parse_items ''/(.+)'' = [(Single CHR ''/'', False), (AnyChar, True)]"
    by (simp add: starts_plus_def)
  moreover have "match_items [(Single CHR ''/'', False), (AnyChar, True)] s \<longleftrightarrow>
      (\<exists>t. s = CHR ''/'' # t \<and> t \<noteq> [] \<and> LF \<notin> set t)" for s
    using match_any_plus by (cases s) auto
  ultimately show "\<exists>r. re_new anchored_engine ''^/(.+)$'' = Some r \<and>
      (\<forall>s. re_is_match anchored_engine r s \<longleftrightarrow> (\<exists>t. s = CHR ''/'' # t \<and> t \<noteq> [] \<and> LF \<notin> set t))"
    by (simp add: anchored_engine_def)
qed (simp add: anchored_engine_def)

end
