(* ===== verification/Rust_Paths.thy ===== *)
theory Rust_Paths
  imports Rust_Strings
begin

text \<open>
  \<^verbatim>\<open>std::path\<close> on a Unix machine, as far as the file handler uses it: a path is its text,
  \<^verbatim>\<open>push\<close> replaces the path by an absolute argument and otherwise appends it behind one
  separator, \<^verbatim>\<open>pop\<close> cuts the last component, \<^verbatim>\<open>extension\<close> reads the last component.
\<close>

abbreviation SLASH :: char where "SLASH \<equiv> CHR ''/''"
abbreviation DOT :: char where "DOT \<equiv> CHR ''.''"

definition is_absolute :: "string \<Rightarrow> bool" where
  "is_absolute p \<longleftrightarrow> p \<noteq> [] \<and> hd p = SLASH"

definition path_push :: "string \<Rightarrow> string \<Rightarrow> string" where
  "path_push p q =
     (if is_absolute q then q
      else if p \<noteq> [] \<and> last p \<noteq> SLASH then p @ SLASH # q
      else p @ q)"

text \<open>Trailing separators and \<^verbatim>\<open>.\<close> components do not count as components; the root stays.\<close>

function trim_seps :: "string \<Rightarrow> string" where
  "trim_seps p =
     (if length p \<le> 1 then p
      else if last p = SLASH then trim_seps (butlast p)
      else if last p = DOT \<and> last (butlast p) = SLASH then trim_seps (butlast p)
      else p)"
  by pat_completeness auto
termination
  by (relation "measure length") auto

declare trim_seps.simps [simp del]

definition last_component :: "string \<Rightarrow> string" where
  "last_component p = rev (takeWhile (\<lambda>c. c \<noteq> SLASH) (rev p))"

definition path_parent :: "string \<Rightarrow> string option" where
  "path_parent p =
     (let q = trim_seps p in
      if q = [] \<or> q = [SLASH] then None
      else Some (trim_seps (take (length q - length (last_component q)) q)))"

definition path_pop :: "string \<Rightarrow> string" where
  "path_pop p = (case path_parent p of None \<Rightarrow> p | Some q \<Rightarrow> q)"

definition path_file_name :: "string \<Rightarrow> string option" where
  "path_file_name p =
     (let c = last_component (trim_seps p) in
      if c = [] \<or> c = ''.'' \<or> c = ''..'' then None else Some c)"

definition path_extension :: "string \<Rightarrow> string option" where
  "path_extension p =
     (case path_file_name p of
        None \<Rightarrow> None
      | Some f \<Rightarrow>
        let after = rev (takeWhile (\<lambda>c. c \<noteq> DOT) (rev f)) in
        if length after + 1 < length f then Some after else None)"

section \<open>Facts\<close>

lemma path_push_absolute: "path_push p (SLASH # q) = SLASH # q"
  by (simp add: path_push_def is_absolute_def)

lemma path_push_dir:
  "\<not> is_absolute q \<Longrightarrow> p \<noteq> [] \<Longrightarrow> last p \<noteq> SLASH \<Longrightarrow> path_push p q = p @ SLASH # q"
  by (simp add: path_push_def)

text \<open>A file \<open>dir/stem.ext\<close> has the extension \<open>ext\<close>.\<close>

lemma last_component_append:
  "SLASH \<notin> set c \<Longrightarrow> last_component (p @ SLASH # c) = c"
proof -
  assume "SLASH \<notin> set c"
  then have "takeWhile (\<lambda>x. x \<noteq> SLASH) (rev c @ SLASH # rev p) = rev c"
    using takeWhile_dropWhile_stop [of "rev c" "\<lambda>x. x \<noteq> SLASH" SLASH "rev p"] by auto
  then show ?thesis
    by (simp add: last_component_def)
qed

lemma trim_seps_id: "last p \<noteq> SLASH \<Longrightarrow> last p \<noteq> DOT \<Longrightarrow> trim_seps p = p"
  by (subst trim_seps.simps) simp

lemma path_parent_file:
  assumes "SLASH \<notin> set name" "name \<noteq> []" "last name \<noteq> DOT" "dir \<noteq> []" "last dir \<noteq> SLASH" "last dir \<noteq> DOT"
  shows "path_parent (dir @ SLASH # name) = Some dir"
proof -
  have "last name \<noteq> SLASH"
    using assms(1,2) by (metis last_in_set)
  then have "trim_seps (dir @ SLASH # name) = dir @ SLASH # name"
    using assms(2,3) by (intro trim_seps_id) simp_all
  moreover have "trim_seps (dir @ [SLASH]) = dir"
    using assms(4-6) by (subst trim_seps.simps) (simp add: trim_seps_id butlast_append)
  ultimately show ?thesis
    using assms(2,4)
    by (simp add: path_parent_def last_component_append [OF assms(1)] Let_def append_eq_Cons_conv)
qed

lemma file_name_of_file:
  assumes "SLASH \<notin> set stem" "SLASH \<notin> set ext" "DOT \<notin> set ext" "stem \<noteq> []" "ext \<noteq> []"
  shows "path_file_name (p @ SLASH # stem @ DOT # ext) = Some (stem @ DOT # ext)"
proof -
  have "last (p @ SLASH # stem @ DOT # ext) \<in> set ext"
    using assms(5) by simp
  then have "trim_seps (p @ SLASH # stem @ DOT # ext) = p @ SLASH # stem @ DOT # ext"
    using assms(2,3) by (intro trim_seps_id) auto
  moreover have "last_component (p @ SLASH # stem @ DOT # ext) = stem @ DOT # ext"
    using assms(1,2) by (intro last_component_append) auto
  ultimately show ?thesis
    using assms(4,5) by (auto simp: path_file_name_def Let_def Cons_eq_append_conv append_eq_Cons_conv)
qed

lemma extension_of_file:
  assumes "SLASH \<notin> set stem" "SLASH \<notin> set ext" "DOT \<notin> set ext" "stem \<noteq> []" "ext \<noteq> []"
  shows "path_extension (p @ SLASH # stem @ DOT # ext) = Some ext"
proof -
  have "takeWhile (\<lambda>c. c \<noteq> DOT) (rev ext @ DOT # rev stem) = rev ext"
    using assms(3) takeWhile_dropWhile_stop [of "rev ext" "\<lambda>c. c \<noteq> DOT" DOT "rev stem"] by auto
  then show ?thesis
    using file_name_of_file [OF assms] assms(4) by (simp add: path_extension_def)
qed

end
