(* ===== verification/Http_Server.thy ===== *)
theory Http_Server
  imports Http_Router Rust_Paths
begin

text \<open>
  \<^verbatim>\<open>rust/netsim-cxx/src/frontend_http_server.rs\<close>: the handlers of the four routes and the
  handling of one connection. What the process sees of the outside world is a
  \<open>server_env\<close>: the path of the executable, the file system, the C++ function
  \<^verbatim>\<open>GetDevices\<close> and the conversion of its answer, and the allocator. The lines that the code
  prints are part of the result.
\<close>

record server_env =
  current_exe :: "string result"
  fs_read :: "string \<Rightarrow> bytes option"
  get_devices :: "bytes \<Rightarrow> bytes \<Rightarrow> bytes \<Rightarrow> u32 \<times> bytes"
  cxx_to_string :: "bytes \<Rightarrow> string"
  alloc_ok :: "nat \<Rightarrow> bool"

section \<open>Files\<close>

definition to_content_type :: "string \<Rightarrow> string" where
  "to_content_type file_path =
     (case path_extension file_path of
        None \<Rightarrow> ''application/octet-stream''
      | Some e \<Rightarrow>
        if e = ''html'' then ''text/html''
        else if e = ''txt'' then ''text/plain''
        else if e = ''jpg'' \<or> e = ''jpeg'' then ''image/jpeg''
        else if e = ''png'' then ''image/png''
        else if e = ''js'' then ''application/javascript''
        else if e = ''svg'' then ''image/svg+xml''
        else ''application/octet-stream'')"

definition ui_path :: "string \<Rightarrow> string \<Rightarrow> string" where
  "ui_path exe path =
     (let filepath = path_push (path_pop exe) ''netsim-ui'' in
      case strip_prefix SLASH path of
        Some stripped_path \<Rightarrow> path_push filepath stripped_path
      | None \<Rightarrow> path_push filepath path)"

definition handle_file :: "server_env \<Rightarrow> string \<Rightarrow> string \<Rightarrow> response" where
  "handle_file env meth path =
     (let not_found = Ok (new_404, [''netsim: handle_file with unknown path '' @ path]) in
      if meth = ''GET'' then
        bindE (unwrap (current_exe env)) (\<lambda>exe.
          let filepath = ui_path exe path in
          case fs_read env filepath of
            Some content \<Rightarrow> Ok (new_200 (to_content_type filepath) content, [])
          | None \<Rightarrow> not_found)
      else not_found)"

section \<open>Handlers\<close>

definition handle_index :: "server_env \<Rightarrow> 'cap handler" where
  "handle_index env request capture = handle_file env (req_method request) ''index.html''"

definition handle_static :: "server_env \<Rightarrow> 'cap handler" where
  "handle_static env request capture = handle_file env (req_method request) (uri request)"

definition handle_version :: "'cap handler" where
  "handle_version request capture =
     Ok (new_200 ''text/plain'' (as_bytes (''{version: '' @ CHR 0x22 # ''123b'' @ CHR 0x22 # ''}'')), [])"

definition handle_get_device :: "server_env \<Rightarrow> 'cap handler" where
  "handle_get_device env request capture =
     (let (status, resp) = get_devices env [] [] [] in
      if status = 200 then Ok (new_200 ''text/plain'' (as_bytes (cxx_to_string env resp)), [])
      else Ok (new_404, []))"

section \<open>A connection\<close>

definition build_router :: "('re, 'cap) regex_crate \<Rightarrow> server_env \<Rightarrow> ('re, 'cap) Router result" where
  "build_router R env =
     bindE (add_route R ''/'' (handle_index env) Router_new) (\<lambda>r1.
     bindE (add_route R ''/get-version'' handle_version r1) (\<lambda>r2.
     bindE (add_route R ''/get-devices'' (handle_get_device env) r2) (\<lambda>r3.
     add_route R ''/(.+)'' (handle_static env) r3)))"

definition respond :: "('re, 'cap) regex_crate \<Rightarrow> server_env \<Rightarrow> ('re, 'cap) Router \<Rightarrow> reader \<Rightarrow> response"
  where
  "respond R env router stream =
     (case HttpRequest_parse (alloc_ok env) stream of
        Inr (request, rest) \<Rightarrow> handle_request R router request
      | Inl (Error e) \<Rightarrow> Ok (new_404, [''netsim: parse header failed''])
      | Inl (Panic e) \<Rightarrow> Inl (Panic e)
      | Inl (Abort e) \<Rightarrow> Inl (Abort e))"

definition send_response :: "HttpResponse \<Rightarrow> string list \<Rightarrow> writer \<Rightarrow> string list result \<times> writer" where
  "send_response response out sink =
     (case write_to response sink of
        (Inl (Error e), sink') \<Rightarrow> (Ok (out @ [''netsim: handle_connection error '' @ e]), sink')
      | (Inl f, sink') \<Rightarrow> (Inl f, sink')
      | (Inr _, sink') \<Rightarrow> (Ok out, sink'))"

definition handle_connection ::
    "('re, 'cap) regex_crate \<Rightarrow> server_env \<Rightarrow> reader \<Rightarrow> writer \<Rightarrow> string list result \<times> writer" where
  "handle_connection R env stream sink =
     (case bindE (build_router R env) (\<lambda>router. respond R env router stream) of
        Inl f \<Rightarrow> (Inl f, sink)
      | Inr (response, out) \<Rightarrow> send_response response out sink)"

section \<open>What the server promises\<close>

text \<open>The routing table as a specification, without patterns: which answer belongs to a request.\<close>

definition serve :: "server_env \<Rightarrow> HttpRequest \<Rightarrow> response" where
  "serve env q =
     (if uri q = ''/'' then handle_file env (req_method q) ''index.html''
      else if uri q = ''/get-version'' then handle_version q ()
      else if uri q = ''/get-devices'' then handle_get_device env q ()
      else if is_absolute (uri q) \<and> 1 < length (uri q) \<and> LF \<notin> set (uri q)
      then handle_file env (req_method q) (uri q)
      else Ok (new_404, [''netsim: HttpRouter unknown uri '' @ uri q]))"

lemmas handler_defs = handle_version_def handle_get_device_def handle_index_def handle_static_def

lemma slash_any_iff:
  "(\<exists>t. s = SLASH # t \<and> t \<noteq> [] \<and> LF \<notin> set t) \<longleftrightarrow> is_absolute s \<and> 1 < length s \<and> LF \<notin> set s"
  by (cases s) (auto simp: is_absolute_def)

lemma plain_routes:
  "plain_pattern ''/''" "plain_pattern ''/get-version''" "plain_pattern ''/get-devices''"
  by (simp_all add: plain_pattern_def)

text \<open>
  A connection whose reader is parsed without a panic gets exactly one response: the one of
  the specification, or 404 if the request is malformed.
\<close>

definition answer :: "server_env \<Rightarrow> reader \<Rightarrow> response" where
  "answer env stream =
     (case HttpRequest_parse (alloc_ok env) stream of
        Inr (q, rest) \<Rightarrow> serve env q
      | Inl (Error e) \<Rightarrow> Ok (new_404, [''netsim: parse header failed''])
      | Inl f \<Rightarrow> Inl f)"

context regex_engine
begin

text \<open>The four patterns compile, so the router is always built; its table is this.\<close>

lemma build_routerE:
  obtains r1 r2 r3 r4 where "build_router R env = Ok \<lparr>routes =
       [(r1, handle_index env), (r2, handle_version), (r3, handle_get_device env), (r4, handle_static env)]\<rparr>"
    and "\<And>s. re_is_match R r1 s \<longleftrightarrow> s = ''/''"
    and "\<And>s. re_is_match R r2 s \<longleftrightarrow> s = ''/get-version''"
    and "\<And>s. re_is_match R r3 s \<longleftrightarrow> s = ''/get-devices''"
    and "\<And>s. re_is_match R r4 s \<longleftrightarrow> (\<exists>t. s = SLASH # t \<and> t \<noteq> [] \<and> LF \<notin> set t)"
proof -
  obtain r1 where r1: "re_new R (''^'' @ ''/'' @ ''$'') = Some r1" "\<And>s. re_is_match R r1 s \<longleftrightarrow> s = ''/''"
    by (rule plain_regexE [OF plain_routes(1)]) (rule that)
  obtain r2 where r2: "re_new R (''^'' @ ''/get-version'' @ ''$'') = Some r2"
      "\<And>s. re_is_match R r2 s \<longleftrightarrow> s = ''/get-version''"
    by (rule plain_regexE [OF plain_routes(2)]) (rule that)
  obtain r3 where r3: "re_new R (''^'' @ ''/get-devices'' @ ''$'') = Some r3"
      "\<And>s. re_is_match R r3 s \<longleftrightarrow> s = ''/get-devices''"
    by (rule plain_regexE [OF plain_routes(3)]) (rule that)
  obtain r4 where r4: "re_new R ''^/(.+)$'' = Some r4"
      "\<And>s. re_is_match R r4 s \<longleftrightarrow> (\<exists>t. s = SLASH # t \<and> t \<noteq> [] \<and> LF \<notin> set t)"
    by (rule slash_any_regexE) (rule that)
  have "build_router R env = Ok \<lparr>routes =
       [(r1, handle_index env), (r2, handle_version), (r3, handle_get_device env), (r4, handle_static env)]\<rparr>"
    using r1(1) r2(1) r3(1) r4(1) by (simp add: build_router_def add_route_def Router_new_def)
  from that [OF this r1(2) r2(2) r3(2) r4(2)] show thesis .
qed

text \<open>Every request gets the answer of the specification.\<close>

lemma dispatch:
  assumes "build_router R env = Inr router"
  shows "handle_request R router q = serve env q"
proof -
  obtain r1 r2 r3 r4 where built: "build_router R env = Ok \<lparr>routes =
       [(r1, handle_index env), (r2, handle_version), (r3, handle_get_device env), (r4, handle_static env)]\<rparr>"
    and m: "\<And>s. re_is_match R r1 s \<longleftrightarrow> s = ''/''" "\<And>s. re_is_match R r2 s \<longleftrightarrow> s = ''/get-version''"
      "\<And>s. re_is_match R r3 s \<longleftrightarrow> s = ''/get-devices''"
      "\<And>s. re_is_match R r4 s \<longleftrightarrow> (\<exists>t. s = SLASH # t \<and> t \<noteq> [] \<and> LF \<notin> set t)"
    by (rule build_routerE [of env]) (rule that)
  have router: "routes router =
       [(r1, handle_index env), (r2, handle_version), (r3, handle_get_device env), (r4, handle_static env)]"
    using built assms by simp
  obtain c where c: "re_is_match R r s \<Longrightarrow> re_captures R r s = Some (c r s)" for r s
    using captures_of_match by metis
  note simps = handle_request_def router m slash_any_iff c serve_def handler_defs
  consider "uri q = ''/''" | "uri q = ''/get-version''" | "uri q = ''/get-devices''"
    | "uri q \<notin> {''/'', ''/get-version'', ''/get-devices''}" by blast
  then show ?thesis
    by cases (simp_all add: simps)
qed

lemma connection_answer:
  "handle_connection R env stream sink =
     (case answer env stream of
        Inl f \<Rightarrow> (Inl f, sink)
      | Inr (resp, out) \<Rightarrow> send_response resp out sink)"
proof -
  obtain router where router: "build_router R env = Inr router"
    by (rule build_routerE [of env]) (rule that)
  have "respond R env router stream = answer env stream"
    by (auto simp: respond_def answer_def dispatch [OF router] split: sum.split fault.split)
  with router show ?thesis
    by (simp add: handle_connection_def)
qed

end

section \<open>Facts about the handlers\<close>

lemma send_response_unlimited:
  "wr_room sink = None \<Longrightarrow>
   send_response resp out sink = (Ok out, sink\<lparr>wr_out := wr_out sink @ response_buffer resp\<rparr>)"
  by (simp add: send_response_def write_to_def write_all_def)

lemma send_response_ok: "\<exists>out' sink'. send_response resp out sink = (Ok out', sink')"
  by (auto simp: send_response_def write_to_def write_all_def split: option.splits)

lemma handle_file_status:
  "handle_file env m p = Inr (resp, out) \<Longrightarrow> status_code resp = 200 \<and> m = ''GET'' \<or> resp = new_404"
  by (auto simp: handle_file_def Let_def bindE_Inr_iff new_200_def split: if_splits option.splits)

lemma serve_status:
  "serve env q = Inr (resp, out) \<Longrightarrow> status_code resp = 200 \<or> status_code resp = 404"
  by (auto simp: serve_def handle_version_def handle_get_device_def new_200_def new_404_def
      split: if_splits prod.splits dest!: handle_file_status)

lemma serve_no_panic: "current_exe env = Ok exe \<Longrightarrow> \<exists>resp out. serve env q = Ok (resp, out)"
  by (auto simp: serve_def handle_file_def handle_version_def handle_get_device_def Let_def
      split: option.splits prod.splits)

section \<open>Properties\<close>

text \<open>C2: For every regex engine that keeps the contract, the four routes are registered without a
  panic, and the router answers every request as the routing table \<open>serve\<close> says: the index,
  the version, the devices, the files of the user interface, and 404 for everything else.\<close>

theorem router_implements_serve:
  assumes "regex_engine R"
  shows "\<exists>router. build_router R env = Ok router \<and> (\<forall>q. handle_request R router q = serve env q)"
proof -
  obtain router where "build_router R env = Ok router"
    by (rule regex_engine.build_routerE [OF assms, of env]) (rule that)
  with regex_engine.dispatch [OF assms] show ?thesis
    by simp
qed

definition example_env :: server_env where
  "example_env =
     \<lparr>current_exe = Ok ''/opt/netsim'',
      fs_read = (\<lambda>p. if p = ''/opt/netsim-ui/index.html'' then Some [60, 62]
                     else if p = ''/etc/passwd'' then Some [114] else None),
      get_devices = (\<lambda>_ _ _. (200, [123, 125])),
      cxx_to_string = of_bytes,
      alloc_ok = (\<lambda>n. n < 2 ^ 40)\<rparr>"

lemma router_implements_serve_witness:
  "\<exists>router. build_router anchored_engine example_env = Ok router \<and>
     (\<forall>q. handle_request anchored_engine router q = serve example_env q)"
  using router_implements_serve [OF anchored.regex_engine_axioms] .

text \<open>C3: A connection on which a well-formed request arrives is answered by exactly one response, the
  one of the routing table, written in full; bytes that follow the request do not matter.\<close>

theorem connection_serves_request:
  assumes "regex_engine R" and "wf_request q" and "alloc_ok env (length (body q))"
    and "current_exe env = Ok exe" and "wr_room sink = None"
  shows "\<exists>resp out. serve env q = Ok (resp, out) \<and>
     handle_connection R env \<lparr>rd_data = request_bytes q @ rest, rd_err = e\<rparr> sink =
       (Ok out, sink\<lparr>wr_out := wr_out sink @ response_buffer resp\<rparr>)"
proof -
  obtain resp out where s: "serve env q = Ok (resp, out)"
    using serve_no_panic [OF assms(4)] by blast
  moreover have "answer env \<lparr>rd_data = request_bytes q @ rest, rd_err = e\<rparr> = serve env q"
    using parse_request_bytes [OF assms(2), of "alloc_ok env" rest e] assms(3) by (simp add: answer_def)
  ultimately show ?thesis
    using regex_engine.connection_answer [OF assms(1)] send_response_unlimited [OF assms(5)] by simp
qed

lemma connection_serves_request_witness:
  "\<exists>resp out. serve example_env example_request = Ok (resp, out) \<and>
     handle_connection anchored_engine example_env \<lparr>rd_data = request_bytes example_request @ [], rd_err = None\<rparr>
       \<lparr>wr_out = [], wr_room = None, wr_err = []\<rparr> =
       (Ok out, \<lparr>wr_out = [], wr_room = None, wr_err = []\<rparr>\<lparr>wr_out := [] @ response_buffer resp\<rparr>)"
  using connection_serves_request [OF anchored.regex_engine_axioms example_request_wf,
      of example_env "''/opt/netsim''" "\<lparr>wr_out = [], wr_room = None, wr_err = []\<rparr>" "[]" None]
  by (simp add: example_env_def example_request_def)

text \<open>A connection whose bytes are not a request is answered with the 404 response and a message,
  without a panic.\<close>

theorem malformed_request_404:
  assumes "regex_engine R" and "HttpRequest_parse (alloc_ok env) stream = Inl (Error msg)"
    and "wr_room sink = None"
  shows "handle_connection R env stream sink =
     (Ok [''netsim: parse header failed''], sink\<lparr>wr_out := wr_out sink @ response_buffer new_404\<rparr>)"
  using regex_engine.connection_answer [OF assms(1)] send_response_unlimited [OF assms(3)]
  by (simp add: answer_def assms(2))

lemma malformed_request_404_witness:
  "handle_connection anchored_engine example_env \<lparr>rd_data = [], rd_err = None\<rparr>
       \<lparr>wr_out = [], wr_room = None, wr_err = []\<rparr> =
     (Ok [''netsim: parse header failed''],
      \<lparr>wr_out = [], wr_room = None, wr_err = []\<rparr>\<lparr>wr_out := [] @ response_buffer new_404\<rparr>)"
proof -
  have "HttpRequest_parse (alloc_ok example_env) \<lparr>rd_data = [], rd_err = None\<rparr> =
      Inl (Error ''Invalid request line, missing method'')"
    by (simp add: HttpRequest_parse_def parse_request_line_def read_line_def take_line_def
        split_ws.simps)
  from malformed_request_404 [OF anchored.regex_engine_axioms this,
      of "\<lparr>wr_out = [], wr_room = None, wr_err = []\<rparr>"] show ?thesis
    by simp
qed

text \<open>Every request gets a 200 or a 404 response when the path of the executable can be read; no
  handler panics.\<close>

theorem serve_total:
  assumes "current_exe env = Ok exe"
  shows "\<exists>resp out. serve env q = Ok (resp, out) \<and> (status_code resp = 200 \<or> status_code resp = 404)"
  using serve_no_panic [OF assms, of q] serve_status [of env q] by blast

lemma serve_total_witness:
  "\<exists>resp out. serve example_env example_request = Ok (resp, out) \<and>
     (status_code resp = 200 \<or> status_code resp = 404)"
  by (rule serve_total [of example_env "''/opt/netsim''"]) (simp add: example_env_def)

text \<open>C35: A GET for a target with two slashes leaves the directory of the user interface: the file with
  the absolute path after the first slash is served, wherever the server is installed.\<close>

theorem absolute_target_served:
  assumes "uri q = SLASH # SLASH # p" and "LF \<notin> set p" and "req_method q = ''GET''"
    and "current_exe env = Ok exe" and "fs_read env (SLASH # p) = Some content"
  shows "serve env q = Ok (new_200 (to_content_type (SLASH # p)) content, [])"
  using assms
  by (simp add: serve_def is_absolute_def handle_file_def ui_path_def path_push_absolute Let_def)

definition passwd_request :: HttpRequest where
  "passwd_request = \<lparr>req_method = ''GET'', uri = ''//etc/passwd'', version = ''HTTP/1.1'',
     req_headers = HttpHeaders_new, body = []\<rparr>"

lemma absolute_target_served_witness:
  "serve example_env passwd_request = Ok (new_200 (to_content_type (SLASH # ''etc/passwd'')) [114], [])"
  by (rule absolute_target_served [of _ _ _ "''/opt/netsim''"])
    (simp_all add: passwd_request_def example_env_def)

text \<open>C36: A GET for any other target \<open>/p\<close> reads the file \<open>p\<close> under \<open>netsim-ui\<close> beside the executable: it
  is served with the content type of its name if it can be read, and 404 is the answer if not.\<close>

theorem ui_file_served:
  assumes "uri q = SLASH # p" and "p \<noteq> []" and "\<not> is_absolute p" and "LF \<notin> set p"
    and "uri q \<noteq> ''/get-version''" and "uri q \<noteq> ''/get-devices''" and "req_method q = ''GET''"
    and "current_exe env = Ok (dir @ SLASH # name)" and "SLASH \<notin> set name" and "name \<noteq> []"
    and "last name \<noteq> DOT" and "dir \<noteq> []" and "last dir \<noteq> SLASH" and "last dir \<noteq> DOT"
  shows "serve env q =
     (let file = dir @ ''/netsim-ui/'' @ p in
      case fs_read env file of
        Some content \<Rightarrow> Ok (new_200 (to_content_type file) content, [])
      | None \<Rightarrow> Ok (new_404, [''netsim: handle_file with unknown path '' @ uri q]))"
proof -
  have pop: "path_pop (dir @ SLASH # name) = dir"
    using path_parent_file [OF assms(9-14)] by (simp add: path_pop_def)
  have "path_push dir ''netsim-ui'' = dir @ ''/netsim-ui''"
    using assms(12,13) by (subst path_push_dir) (simp_all add: is_absolute_def)
  moreover have "path_push (dir @ ''/netsim-ui'') p = dir @ ''/netsim-ui/'' @ p"
    using assms(3) by (subst path_push_dir) simp_all
  ultimately have "ui_path (dir @ SLASH # name) (uri q) = dir @ ''/netsim-ui/'' @ p"
    by (simp add: ui_path_def pop assms(1))
  then show ?thesis
    using assms(1-8) by (simp add: serve_def is_absolute_def handle_file_def Let_def split: option.splits)
qed

definition index_request :: HttpRequest where
  "index_request = \<lparr>req_method = ''GET'', uri = ''/index.html'', version = ''HTTP/1.1'',
     req_headers = HttpHeaders_new, body = []\<rparr>"

lemma ui_file_served_witness:
  "serve example_env index_request =
     (let file = ''/opt'' @ ''/netsim-ui/'' @ ''index.html'' in
      case fs_read example_env file of
        Some content \<Rightarrow> Ok (new_200 (to_content_type file) content, [])
      | None \<Rightarrow> Ok (new_404, [''netsim: handle_file with unknown path '' @ uri index_request]))"
  by (rule ui_file_served [where name = "''netsim''"])
    (simp_all add: index_request_def example_env_def is_absolute_def)

text \<open>The content type of a file depends on the extension of its name alone; an extension the table
  does not have gives the type of arbitrary data.\<close>

theorem content_type_of_file:
  assumes "SLASH \<notin> set stem" and "SLASH \<notin> set ext" and "DOT \<notin> set ext" and "stem \<noteq> []" and "ext \<noteq> []"
  shows "to_content_type (p @ SLASH # stem @ DOT # ext) =
     (case map_of [(''html'', ''text/html''), (''txt'', ''text/plain''), (''jpg'', ''image/jpeg''),
          (''jpeg'', ''image/jpeg''), (''png'', ''image/png''), (''js'', ''application/javascript''),
          (''svg'', ''image/svg+xml'')] ext of
        Some ct \<Rightarrow> ct | None \<Rightarrow> ''application/octet-stream'')"
  unfolding to_content_type_def extension_of_file [OF assms] by simp

lemma content_type_of_file_witness:
  "to_content_type (''/ui'' @ SLASH # ''app'' @ DOT # ''js'') =
     (case map_of [(''html'', ''text/html''), (''txt'', ''text/plain''), (''jpg'', ''image/jpeg''),
          (''jpeg'', ''image/jpeg''), (''png'', ''image/png''), (''js'', ''application/javascript''),
          (''svg'', ''image/svg+xml'')] ''js'' of
        Some ct \<Rightarrow> ct | None \<Rightarrow> ''application/octet-stream'')"
  by (rule content_type_of_file) simp_all

end
