(* ===== verification/Thread_Pool.thy ===== *)
theory Thread_Pool
  imports Netsim_Prelude "HOL-Library.Multiset"
begin

text \<open>
  \<^verbatim>\<open>rust/netsim-cxx/src/frontend_http_server/thread_pool.rs\<close>: a pool of worker threads that
  take jobs from one channel whose receiving end they share under a mutex. The threads and
  the thread that owns the pool interleave freely, so the pool is a step relation: one rule
  for each thing a worker can do (get the lock, get a job or the news that the channel is
  closed, return from a job or panic in it) and one for each thing the owner can do (submit
  a job, drop the pool, join the next worker).

  The channel of \<^verbatim>\<open>std::sync::mpsc\<close> is modelled by its buffer and whether the sender is still
  there. The lists \<open>submitted\<close>, \<open>taken\<close>, \<open>completed\<close> and \<open>crashed\<close> record what has
  happened; no rule reads them. A job is a value; the parameter \<open>crash\<close> says which jobs panic.
\<close>

section \<open>The channel\<close>

record 'j channel =
  buf :: "'j list"
  tx_open :: bool

datatype 'j recv_result = Received 'j | Blocked | Disconnected

definition chan_new :: "'j channel" where
  "chan_new = \<lparr>buf = [], tx_open = True\<rparr>"

text \<open>\<^verbatim>\<open>Sender::send\<close> fails exactly when the receiver has been dropped.\<close>

definition chan_send :: "bool \<Rightarrow> 'j \<Rightarrow> 'j channel \<Rightarrow> 'j channel result" where
  "chan_send rx_alive j c =
     (if rx_alive then Ok (c\<lparr>buf := buf c @ [j]\<rparr>) else Inl (Error ''SendError''))"

definition chan_recv :: "'j channel \<Rightarrow> 'j recv_result \<times> 'j channel" where
  "chan_recv c =
     (case buf c of
        j # q \<Rightarrow> (Received j, c\<lparr>buf := q\<rparr>)
      | [] \<Rightarrow> (if tx_open c then Blocked else Disconnected, c))"

definition chan_close :: "'j channel \<Rightarrow> 'j channel" where
  "chan_close c = c\<lparr>tx_open := False\<rparr>"

text \<open>What a user of a channel relies on.\<close>

locale fifo_channel =
  fixes send :: "bool \<Rightarrow> 'j \<Rightarrow> 'c \<Rightarrow> 'c result"
    and recv :: "'c \<Rightarrow> 'j recv_result \<times> 'c"
    and close :: "'c \<Rightarrow> 'c"
    and content :: "'c \<Rightarrow> 'j list"
    and is_open :: "'c \<Rightarrow> bool"
  assumes send_content: "send a j c = Inr c' \<Longrightarrow> content c' = content c @ [j] \<and> is_open c' = is_open c"
    and send_alive: "(\<exists>c'. send a j c = Inr c') \<longleftrightarrow> a"
    and recv_job: "recv c = (Received j, c') \<Longrightarrow> content c = j # content c' \<and> is_open c' = is_open c"
    and recv_blocked: "recv c = (Blocked, c') \<Longrightarrow> content c = [] \<and> is_open c \<and> c' = c"
    and recv_disconnected: "recv c = (Disconnected, c') \<Longrightarrow> content c = [] \<and> \<not> is_open c \<and> c' = c"
    and close_content: "content (close c) = content c \<and> \<not> is_open (close c)"
begin

text \<open>A closed channel never blocks its receiver.\<close>

lemma closed_not_blocked: "\<not> is_open c \<Longrightarrow> recv c \<noteq> (Blocked, c')"
  using recv_blocked by blast

lemma closed_recv_cases:
  assumes "\<not> is_open c"
  obtains j c' where "recv c = (Received j, c')" | "recv c = (Disconnected, c)"
proof -
  obtain r c' where r: "recv c = (r, c')"
    by (cases "recv c")
  show thesis
  proof (cases r)
    case (Received j)
    with r that(1) show thesis by simp
  next
    case Blocked
    with r assms closed_not_blocked show thesis by blast
  next
    case Disconnected
    with r recv_disconnected have "recv c = (Disconnected, c)" by blast
    then show thesis by (rule that(2))
  qed
qed

end

interpretation mpsc: fifo_channel chan_send chan_recv chan_close buf tx_open
  by unfold_locales
    (auto simp: chan_send_def chan_recv_def chan_close_def split: if_splits list.splits)

section \<open>The pool\<close>

datatype 'j wstate = Idle | Receiving | Running 'j | Exited | Panicked

datatype mstate = Serving | Joining nat | Joined | MainPanicked

record 'j pool =
  workers :: "'j wstate list"
  chan :: "'j channel"
  mutex :: "nat option"
  owner :: mstate
  submitted :: "'j list"
  taken :: "'j list"
  completed :: "'j list"
  crashed :: "'j list"

definition ThreadPool_new :: "nat \<Rightarrow> 'j pool result" where
  "ThreadPool_new n =
     (if n > 0 then
        Ok \<lparr>workers = replicate n Idle, chan = chan_new, mutex = None, owner = Serving,
            submitted = [], taken = [], completed = [], crashed = []\<rparr>
      else Inl (Panic ''assertion failed: size > 0''))"

text \<open>A worker that has ended has dropped its share of the receiver.\<close>

definition ended :: "'j wstate \<Rightarrow> bool" where
  "ended w \<longleftrightarrow> w = Exited \<or> w = Panicked"

definition receiver_alive :: "'j pool \<Rightarrow> bool" where
  "receiver_alive p \<longleftrightarrow> (\<exists>w \<in> set (workers p). \<not> ended w)"

definition set_worker :: "nat \<Rightarrow> 'j wstate \<Rightarrow> 'j pool \<Rightarrow> 'j pool" where
  "set_worker i w p = p\<lparr>workers := (workers p)[i := w]\<rparr>"

definition execute :: "'j \<Rightarrow> 'j pool \<Rightarrow> 'j pool" where
  "execute j p =
     (if tx_open (chan p) then
        (case chan_send (receiver_alive p) j (chan p) of
           Inr c \<Rightarrow> p\<lparr>chan := c, submitted := submitted p @ [j]\<rparr>
         | Inl e \<Rightarrow> p\<lparr>owner := MainPanicked\<rparr>)
      else p\<lparr>owner := MainPanicked\<rparr>)"

definition drop_sender :: "'j pool \<Rightarrow> 'j pool" where
  "drop_sender p = p\<lparr>chan := chan_close (chan p), owner := Joining 0\<rparr>"

definition join_worker :: "nat \<Rightarrow> 'j pool \<Rightarrow> 'j pool" where
  "join_worker k p =
     (if k < length (workers p) then
        (if workers p ! k = Panicked then p\<lparr>owner := MainPanicked\<rparr> else p\<lparr>owner := Joining (Suc k)\<rparr>)
      else p\<lparr>owner := Joined\<rparr>)"

inductive pool_step :: "('j \<Rightarrow> bool) \<Rightarrow> 'j pool \<Rightarrow> 'j pool \<Rightarrow> bool" for crash where
  lock: "i < length (workers p) \<Longrightarrow> workers p ! i = Idle \<Longrightarrow> mutex p = None \<Longrightarrow>
     pool_step crash p (set_worker i Receiving (p\<lparr>mutex := Some i\<rparr>))"
| recv: "i < length (workers p) \<Longrightarrow> workers p ! i = Receiving \<Longrightarrow>
     chan_recv (chan p) = (Received j, c) \<Longrightarrow>
     pool_step crash p
       (set_worker i (Running j) (p\<lparr>chan := c, mutex := None, taken := taken p @ [j]\<rparr>))"
| disconnect: "i < length (workers p) \<Longrightarrow> workers p ! i = Receiving \<Longrightarrow>
     chan_recv (chan p) = (Disconnected, c) \<Longrightarrow>
     pool_step crash p (set_worker i Exited (p\<lparr>mutex := None\<rparr>))"
| return: "i < length (workers p) \<Longrightarrow> workers p ! i = Running j \<Longrightarrow> \<not> crash j \<Longrightarrow>
     pool_step crash p (set_worker i Idle (p\<lparr>completed := completed p @ [j]\<rparr>))"
| panic: "i < length (workers p) \<Longrightarrow> workers p ! i = Running j \<Longrightarrow> crash j \<Longrightarrow>
     pool_step crash p (set_worker i Panicked (p\<lparr>crashed := crashed p @ [j]\<rparr>))"
| submit: "owner p = Serving \<Longrightarrow> pool_step crash p (execute j p)"
| drop_pool: "owner p = Serving \<Longrightarrow> pool_step crash p (drop_sender p)"
| join: "owner p = Joining k \<Longrightarrow> (k < length (workers p) \<Longrightarrow> ended (workers p ! k)) \<Longrightarrow>
     pool_step crash p (join_worker k p)"

inductive reachable_pool :: "('j \<Rightarrow> bool) \<Rightarrow> nat \<Rightarrow> 'j pool \<Rightarrow> bool" for crash n where
  start: "ThreadPool_new n = Inr p \<Longrightarrow> reachable_pool crash n p"
| step: "reachable_pool crash n p \<Longrightarrow> pool_step crash p q \<Longrightarrow> reachable_pool crash n q"

section \<open>Invariants\<close>

fun running :: "'j wstate \<Rightarrow> 'j list" where
  "running (Running j) = [j]"
| "running w = []"

definition running_jobs :: "'j pool \<Rightarrow> 'j multiset" where
  "running_jobs p = mset (concat (map running (workers p)))"

definition lock_inv :: "'j pool \<Rightarrow> bool" where
  "lock_inv p \<longleftrightarrow>
     (\<forall>i < length (workers p). workers p ! i = Receiving \<longleftrightarrow> mutex p = Some i) \<and>
     (\<forall>i. mutex p = Some i \<longrightarrow> i < length (workers p))"

definition queue_inv :: "'j pool \<Rightarrow> bool" where
  "queue_inv p \<longleftrightarrow> taken p @ buf (chan p) = submitted p"

definition job_inv :: "('j \<Rightarrow> bool) \<Rightarrow> 'j pool \<Rightarrow> bool" where
  "job_inv crash p \<longleftrightarrow>
     mset (taken p) = mset (completed p) + mset (crashed p) + running_jobs p \<and>
     (\<forall>j \<in> set (completed p). \<not> crash j) \<and> (\<forall>j \<in> set (crashed p). crash j) \<and>
     length (crashed p) = length (filter (\<lambda>w. w = Panicked) (workers p))"

definition exit_inv :: "'j pool \<Rightarrow> bool" where
  "exit_inv p \<longleftrightarrow>
     (Exited \<in> set (workers p) \<longrightarrow> \<not> tx_open (chan p) \<and> buf (chan p) = []) \<and>
     (owner p = Serving \<longrightarrow> tx_open (chan p))"

definition join_inv :: "'j pool \<Rightarrow> bool" where
  "join_inv p \<longleftrightarrow>
     (case owner p of
        Joining k \<Rightarrow> \<not> tx_open (chan p) \<and> k \<le> length (workers p) \<and> (\<forall>i < k. workers p ! i = Exited)
      | Joined \<Rightarrow> \<not> tx_open (chan p) \<and> (\<forall>i < length (workers p). workers p ! i = Exited)
      | _ \<Rightarrow> True)"

definition pool_inv :: "('j \<Rightarrow> bool) \<Rightarrow> 'j pool \<Rightarrow> bool" where
  "pool_inv crash p \<longleftrightarrow> lock_inv p \<and> queue_inv p \<and> job_inv crash p \<and> exit_inv p \<and> join_inv p"

lemmas pool_defs = set_worker_def execute_def drop_sender_def join_worker_def

lemma workers_set_worker [simp]:
  "workers (set_worker i w p) = (workers p)[i := w]"
  "chan (set_worker i w p) = chan p" "mutex (set_worker i w p) = mutex p"
  "owner (set_worker i w p) = owner p" "submitted (set_worker i w p) = submitted p"
  "taken (set_worker i w p) = taken p" "completed (set_worker i w p) = completed p"
  "crashed (set_worker i w p) = crashed p"
  by (simp_all add: set_worker_def)

lemma execute_frame [simp]:
  "workers (execute j p) = workers p" "mutex (execute j p) = mutex p" "taken (execute j p) = taken p"
  "completed (execute j p) = completed p" "crashed (execute j p) = crashed p"
  by (auto simp: execute_def split: sum.split)

lemma drop_sender_frame [simp]:
  "workers (drop_sender p) = workers p" "mutex (drop_sender p) = mutex p"
  "taken (drop_sender p) = taken p" "submitted (drop_sender p) = submitted p"
  "completed (drop_sender p) = completed p" "crashed (drop_sender p) = crashed p"
  "owner (drop_sender p) = Joining 0" "chan (drop_sender p) = chan_close (chan p)"
  by (simp_all add: drop_sender_def)

lemma join_worker_frame [simp]:
  "workers (join_worker k p) = workers p" "mutex (join_worker k p) = mutex p"
  "taken (join_worker k p) = taken p" "submitted (join_worker k p) = submitted p"
  "completed (join_worker k p) = completed p" "crashed (join_worker k p) = crashed p"
  "chan (join_worker k p) = chan p"
  by (auto simp: join_worker_def)

text \<open>The workers are never created or removed, and the running jobs change one at a time.\<close>

lemma pool_step_workers_length: "pool_step crash p q \<Longrightarrow> length (workers q) = length (workers p)"
  by (induction rule: pool_step.induct) simp_all

lemma running_jobs_update:
  assumes "i < length (workers p)"
  shows "running_jobs (set_worker i w p) + mset (running (workers p ! i)) =
     running_jobs p + mset (running w)"
proof -
  have "mset (concat (map running (ws[i := w]))) + mset (running (ws ! i)) =
      mset (concat (map running ws)) + mset (running w)" if "i < length ws" for ws :: "'a wstate list"
    using that
  proof (induction ws arbitrary: i)
    case (Cons v ws)
    then show ?case
      by (cases i) (simp_all add: add.assoc)
  qed simp
  with assms show ?thesis
    by (simp add: running_jobs_def)
qed

lemma panicked_update:
  "i < length ws \<Longrightarrow>
   length (filter (\<lambda>w. w = Panicked) (ws[i := w])) + (if ws ! i = Panicked then 1 else 0) =
   length (filter (\<lambda>w. w = Panicked) ws) + (if w = Panicked then 1 else 0)"
proof (induction ws arbitrary: i)
  case (Cons v ws)
  then show ?case
  proof (cases i)
    case (Suc k)
    with Cons.IH [of k] Cons.prems show ?thesis
      by (cases "v = Panicked") auto
  qed auto
qed simp

lemma Exited_update: "w \<noteq> Exited \<Longrightarrow> Exited \<in> set (ws[i := w]) \<Longrightarrow> Exited \<in> set ws"
  using set_update_subset_insert [of ws i w] by auto

subsection \<open>Every step keeps them\<close>

lemma lock_inv_step: "pool_step crash p q \<Longrightarrow> lock_inv p \<Longrightarrow> lock_inv q"
proof (induction rule: pool_step.induct)
  case (lock i p)
  then show ?case
    by (auto simp: lock_inv_def nth_list_update)
next
  case (recv i p j c)
  then show ?case
    by (auto simp: lock_inv_def nth_list_update)
next
  case (disconnect i p c)
  then show ?case
    by (auto simp: lock_inv_def nth_list_update)
next
  case (return i p j)
  then show ?case
    by (auto simp: lock_inv_def nth_list_update)
next
  case (panic i p j)
  then show ?case
    by (auto simp: lock_inv_def nth_list_update)
qed (simp_all add: lock_inv_def)

lemma queue_inv_step: "pool_step crash p q \<Longrightarrow> queue_inv p \<Longrightarrow> queue_inv q"
proof (induction rule: pool_step.induct)
  case (recv i p j c)
  from mpsc.recv_job [OF recv.hyps(3)] recv.prems show ?case
    by (simp add: queue_inv_def)
next
  case (submit p j)
  then show ?case
    by (auto simp: queue_inv_def execute_def dest: mpsc.send_content split: sum.split)
next
  case (drop_pool p)
  then show ?case
    by (simp add: queue_inv_def mpsc.close_content)
qed (simp_all add: queue_inv_def)

lemma running_jobs_frame:
  "running_jobs (set_worker i w (p\<lparr>mutex := m\<rparr>)) = running_jobs (set_worker i w p)"
  "running_jobs (set_worker i w (p\<lparr>chan := c, mutex := m, taken := t\<rparr>)) = running_jobs (set_worker i w p)"
  "running_jobs (set_worker i w (p\<lparr>completed := t\<rparr>)) = running_jobs (set_worker i w p)"
  "running_jobs (set_worker i w (p\<lparr>crashed := t\<rparr>)) = running_jobs (set_worker i w p)"
  "running_jobs (execute j p) = running_jobs p"
  "running_jobs (drop_sender p) = running_jobs p"
  "running_jobs (join_worker k p) = running_jobs p"
  by (simp_all add: running_jobs_def)

lemma job_inv_step: "pool_step crash p q \<Longrightarrow> job_inv crash p \<Longrightarrow> job_inv crash q"
proof (induction rule: pool_step.induct)
  case (lock i p)
  with running_jobs_update [of i p Receiving] panicked_update [of i "workers p" Receiving]
  show ?case
    by (simp add: job_inv_def running_jobs_frame)
next
  case (recv i p j c)
  with running_jobs_update [of i p "Running j"] panicked_update [of i "workers p" "Running j"]
  show ?case
    by (simp add: job_inv_def running_jobs_frame)
next
  case (disconnect i p c)
  with running_jobs_update [of i p Exited] panicked_update [of i "workers p" Exited]
  show ?case
    by (simp add: job_inv_def running_jobs_frame)
next
  case (return i p j)
  with running_jobs_update [of i p Idle] panicked_update [of i "workers p" Idle]
  show ?case
    by (auto simp: job_inv_def running_jobs_frame)
next
  case (panic i p j)
  with running_jobs_update [of i p Panicked] panicked_update [of i "workers p" Panicked]
  show ?case
    by (auto simp: job_inv_def running_jobs_frame)
qed (simp_all add: job_inv_def running_jobs_frame)

lemma exit_inv_step:
  "pool_step crash p q \<Longrightarrow> exit_inv p \<Longrightarrow> exit_inv q"
proof (induction rule: pool_step.induct)
  case (lock i p)
  then show ?case
    by (auto simp: exit_inv_def dest: Exited_update [rotated])
next
  case (recv i p j c)
  with mpsc.recv_job [OF recv.hyps(3)] show ?case
    by (auto simp: exit_inv_def dest: Exited_update [rotated])
next
  case (disconnect i p c)
  with mpsc.recv_disconnected [OF disconnect.hyps(3)] show ?case
    by (auto simp: exit_inv_def)
next
  case (return i p j)
  then show ?case
    by (auto simp: exit_inv_def dest: Exited_update [rotated])
next
  case (panic i p j)
  then show ?case
    by (auto simp: exit_inv_def dest: Exited_update [rotated])
next
  case (submit p j)
  then show ?case
    by (auto simp: exit_inv_def execute_def dest: mpsc.send_content split: sum.split)
next
  case (drop_pool p)
  then show ?case
    by (auto simp: exit_inv_def mpsc.close_content)
next
  case (join p k)
  then show ?case
    by (auto simp: exit_inv_def join_worker_def)
qed

lemma join_inv_step: "pool_step crash p q \<Longrightarrow> join_inv p \<Longrightarrow> join_inv q"
proof (induction rule: pool_step.induct)
  case (lock i p)
  then show ?case
    by (auto simp: join_inv_def nth_list_update split: mstate.splits)
next
  case (recv i p j c)
  with mpsc.recv_job [OF recv.hyps(3)] show ?case
    by (auto simp: join_inv_def nth_list_update split: mstate.splits)
next
  case (disconnect i p c)
  then show ?case
    by (auto simp: join_inv_def nth_list_update split: mstate.splits)
next
  case (return i p j)
  then show ?case
    by (auto simp: join_inv_def nth_list_update split: mstate.splits)
next
  case (panic i p j)
  then show ?case
    by (auto simp: join_inv_def nth_list_update split: mstate.splits)
next
  case (submit p j)
  then show ?case
    by (auto simp: join_inv_def execute_def split: mstate.splits sum.split)
next
  case (drop_pool p)
  then show ?case
    by (simp add: join_inv_def mpsc.close_content)
next
  case (join p k)
  then show ?case
    by (auto simp: join_inv_def join_worker_def ended_def less_Suc_eq)
qed

lemma pool_inv_step: "pool_step crash p q \<Longrightarrow> pool_inv crash p \<Longrightarrow> pool_inv crash q"
  by (simp add: pool_inv_def lock_inv_step queue_inv_step job_inv_step exit_inv_step join_inv_step)

lemma pool_inv_new: "ThreadPool_new n = Inr p \<Longrightarrow> pool_inv crash p"
proof -
  assume "ThreadPool_new n = Inr p"
  moreover have "concat (map running (replicate n Idle)) = ([] :: 'a list)"
    by (simp add: map_replicate_const concat_replicate_trivial)
  ultimately show ?thesis
    by (auto simp: ThreadPool_new_def pool_inv_def lock_inv_def queue_inv_def job_inv_def exit_inv_def
        join_inv_def running_jobs_def chan_new_def split: if_splits)
qed

lemma reachable_pool_inv: "reachable_pool crash n p \<Longrightarrow> pool_inv crash p"
  by (induction rule: reachable_pool.induct) (auto intro: pool_inv_new pool_inv_step)

lemma reachable_pool_workers: "reachable_pool crash n p \<Longrightarrow> length (workers p) = n"
  by (induction rule: reachable_pool.induct)
    (auto simp: ThreadPool_new_def pool_step_workers_length split: if_splits)

lemma reachable_pool_size: "reachable_pool crash n p \<Longrightarrow> 0 < n"
  by (induction rule: reachable_pool.induct) (simp_all add: ThreadPool_new_def split: if_splits)

lemma Panicked_kept: "ws ! i \<noteq> Panicked \<Longrightarrow> Panicked \<in> set ws \<Longrightarrow> Panicked \<in> set (ws[i := w])"
  by (metis in_set_conv_nth length_list_update nth_list_update_neq)

lemma Panicked_step: "pool_step crash p q \<Longrightarrow> Panicked \<in> set (workers p) \<Longrightarrow> Panicked \<in> set (workers q)"
  by (induction rule: pool_step.induct) (auto intro: Panicked_kept)

text \<open>The owner panics only when a worker has: in \<^verbatim>\<open>execute\<close> when all have, in \<^verbatim>\<open>join\<close> when one has.\<close>

lemma refused_job:
  assumes "pool_inv crash p" and "owner p = Serving" and "workers p \<noteq> []"
    and "owner (execute j p) = MainPanicked"
  shows "Panicked \<in> set (workers p)"
proof -
  have tx: "tx_open (chan p)"
    using assms(1,2) by (simp add: pool_inv_def exit_inv_def)
  with assms(2,4) have "\<not> receiver_alive p"
    by (auto simp: execute_def chan_send_def)
  moreover have "Exited \<notin> set (workers p)"
    using assms(1) tx by (simp add: pool_inv_def exit_inv_def)
  ultimately have "hd (workers p) = Panicked"
    using hd_in_set [OF assms(3)] by (auto simp: receiver_alive_def ended_def)
  with hd_in_set [OF assms(3)] show ?thesis
    by simp
qed

lemma panicked_owner:
  "reachable_pool crash n p \<Longrightarrow> owner p = MainPanicked \<Longrightarrow> Panicked \<in> set (workers p)"
proof (induction rule: reachable_pool.induct)
  case (start p)
  then show ?case
    by (auto simp: ThreadPool_new_def split: if_splits)
next
  case (step p q)
  show ?case
  proof (cases "owner p = MainPanicked")
    case True
    with step show ?thesis
      by (blast intro: Panicked_step)
  next
    case False
    have "workers p \<noteq> []"
      using reachable_pool_workers [OF step.hyps(1)] reachable_pool_size [OF step.hyps(1)] by auto
    with step.hyps(2,1) step.prems False show ?thesis
      by (cases rule: pool_step.cases)
        (auto simp: join_worker_def in_set_conv_nth dest: refused_job [OF reachable_pool_inv] split: if_splits)
  qed
qed

lemma reachable_pool_steps:
  "(pool_step crash ^^ k) p q \<Longrightarrow> reachable_pool crash n p \<Longrightarrow> reachable_pool crash n q"
  by (induction k arbitrary: q) (auto intro: reachable_pool.step)

section \<open>Shutting down\<close>

text \<open>
  Once the owner drops the pool no job can be submitted, and every step brings the end
  nearer: this weight goes down.
\<close>

fun weight :: "'j wstate \<Rightarrow> nat" where
  "weight Idle = 2"
| "weight Receiving = 1"
| "weight (Running j) = 3"
| "weight Exited = 0"
| "weight Panicked = 0"

definition owner_weight :: "'j pool \<Rightarrow> nat" where
  "owner_weight p =
     (case owner p of Joining k \<Rightarrow> Suc (length (workers p) - k) | _ \<Rightarrow> 0)"

definition pool_weight :: "'j pool \<Rightarrow> nat" where
  "pool_weight p =
     3 * length (buf (chan p)) + sum_list (map weight (workers p)) + owner_weight p"

definition closing :: "'j pool \<Rightarrow> bool" where
  "closing p \<longleftrightarrow> (\<exists>k. owner p = Joining k)"

lemma sum_weight_update:
  assumes "i < length ws"
  shows "sum_list (map weight (ws[i := w])) + weight (ws ! i) = sum_list (map weight ws) + weight w"
  using assms
proof (induction ws arbitrary: i)
  case (Cons v ws)
  then show ?case
    by (cases i) (simp_all add: add.assoc)
qed simp

lemma owner_weight_set_worker [simp]:
  "owner_weight (set_worker i w p) = owner_weight p"
  "owner_weight (p\<lparr>chan := c\<rparr>) = owner_weight p" "owner_weight (p\<lparr>mutex := m\<rparr>) = owner_weight p"
  "owner_weight (p\<lparr>taken := t\<rparr>) = owner_weight p" "owner_weight (p\<lparr>completed := t\<rparr>) = owner_weight p"
  "owner_weight (p\<lparr>crashed := t\<rparr>) = owner_weight p"
  by (simp_all add: owner_weight_def split: mstate.split)

lemma pool_step_weight:
  "pool_step crash p q \<Longrightarrow> owner p \<noteq> Serving \<Longrightarrow> pool_weight q < pool_weight p"
proof (induction rule: pool_step.induct)
  case (lock i p)
  with sum_weight_update [of i "workers p" Receiving] show ?case
    by (simp add: pool_weight_def)
next
  case (recv i p j c)
  with sum_weight_update [of i "workers p" "Running j"] mpsc.recv_job [OF recv.hyps(3)] show ?case
    by (simp add: pool_weight_def)
next
  case (disconnect i p c)
  with sum_weight_update [of i "workers p" Exited] show ?case
    by (simp add: pool_weight_def)
next
  case (return i p j)
  with sum_weight_update [of i "workers p" Idle] show ?case
    by (simp add: pool_weight_def)
next
  case (panic i p j)
  with sum_weight_update [of i "workers p" Panicked] show ?case
    by (simp add: pool_weight_def)
next
  case (join p k)
  then show ?case
    by (auto simp: pool_weight_def owner_weight_def join_worker_def)
qed simp_all

text \<open>A pool that is shutting down is never stuck: a worker moves, or the owner joins one.\<close>

lemma closing_progress:
  assumes inv: "pool_inv crash p" and k: "owner p = Joining k"
  shows "\<exists>q. pool_step crash p q"
proof (cases "k < length (workers p) \<longrightarrow> ended (workers p ! k)")
  case True
  then show ?thesis
    using pool_step.join [OF k] by blast
next
  case False
  then have k_len: "k < length (workers p)" and live: "\<not> ended (workers p ! k)"
    by auto
  have closed: "\<not> tx_open (chan p)" and lock: "lock_inv p"
    using inv k by (auto simp: pool_inv_def join_inv_def)
  have receiving: "\<exists>q. pool_step crash p q" if "i < length (workers p)" "workers p ! i = Receiving" for i
    using mpsc.closed_recv_cases [OF closed] pool_step.recv [OF that] pool_step.disconnect [OF that]
    by metis
  show ?thesis
  proof (cases "workers p ! k")
    case Idle
    show ?thesis
    proof (cases "mutex p")
      case None
      with Idle k_len show ?thesis
        using pool_step.lock by blast
    next
      case (Some i)
      with lock receiving show ?thesis
        by (auto simp: lock_inv_def)
    qed
  next
    case Receiving
    with receiving k_len show ?thesis by blast
  next
    case (Running j)
    then show ?thesis
      using pool_step.return [OF k_len Running] pool_step.panic [OF k_len Running] by blast
  qed (use live in \<open>simp_all add: ended_def\<close>)
qed

lemma closing_ends:
  assumes "pool_inv crash p" and "closing p"
  shows "\<exists>q. (pool_step crash)\<^sup>*\<^sup>* p q \<and> (owner q = Joined \<or> owner q = MainPanicked)"
  using assms
proof (induction "pool_weight p" arbitrary: p rule: less_induct)
  case less
  from less.prems(2) obtain k where "owner p = Joining k"
    by (auto simp: closing_def)
  from closing_progress [OF less.prems(1) this] obtain q where q: "pool_step crash p q"
    by blast
  then have inv: "pool_inv crash q"
    using less.prems(1) pool_inv_step by blast
  show ?case
  proof (cases "owner q = Joined \<or> owner q = MainPanicked")
    case True
    with q show ?thesis by blast
  next
    case False
    from q less.prems(2) have "owner q \<noteq> Serving"
      by (cases rule: pool_step.cases) (auto simp: closing_def join_worker_def split: if_splits)
    with False have "closing q"
      by (cases "owner q") (auto simp: closing_def)
    moreover have "pool_weight q < pool_weight p"
      using pool_step_weight [OF q] \<open>owner p = Joining k\<close> by simp
    ultimately obtain r where "(pool_step crash)\<^sup>*\<^sup>* q r" "owner r = Joined \<or> owner r = MainPanicked"
      using less.hyps [OF _ inv] by blast
    with q show ?thesis
      by (meson converse_rtranclp_into_rtranclp)
  qed
qed

text \<open>The pool is joined only after every submitted job has been run to its end.\<close>

lemma joined_complete:
  assumes "pool_inv crash p" "owner p = Joined" "workers p \<noteq> []"
  shows "buf (chan p) = [] \<and> mset (completed p) = mset (submitted p) \<and> crashed p = []"
proof -
  have all: "\<forall>w \<in> set (workers p). w = Exited"
    using assms(1,2) by (auto simp: pool_inv_def join_inv_def in_set_conv_nth)
  then have "Exited \<in> set (workers p)"
    using assms(3) by (cases "workers p") auto
  then have empty: "buf (chan p) = []"
    using assms(1) by (auto simp: pool_inv_def exit_inv_def)
  have "concat (map running (workers p)) = []"
    using all by auto
  moreover have "filter (\<lambda>w. w = Panicked) (workers p) = []"
    using all by (auto simp: filter_empty_conv)
  ultimately show ?thesis
    using assms(1) empty
    by (auto simp: pool_inv_def job_inv_def queue_inv_def running_jobs_def)
qed

section \<open>Panicking jobs\<close>

text \<open>Each panicking job takes one worker with it.\<close>

lemma crash_one:
  assumes p: "reachable_pool crash n p" and j: "crash j"
    and k: "workers p = replicate k Panicked @ replicate (Suc m) Idle"
    and idle: "buf (chan p) = []" "mutex p = None" "owner p = Serving"
  shows "\<exists>q. reachable_pool crash n q \<and> workers q = replicate (Suc k) Panicked @ replicate m Idle \<and>
     buf (chan q) = [] \<and> mutex q = None \<and> owner q = Serving \<and> submitted q = submitted p @ [j]"
proof -
  have open_tx: "tx_open (chan p)"
    using reachable_pool_inv [OF p] idle(3) by (auto simp: pool_inv_def exit_inv_def)
  have alive: "receiver_alive p"
    using k by (auto simp: receiver_alive_def ended_def)
  define p1 where "p1 = execute j p"
  have p1: "workers p1 = workers p" "buf (chan p1) = [j]" "mutex p1 = None" "owner p1 = Serving"
    "submitted p1 = submitted p @ [j]" "tx_open (chan p1)"
    using open_tx alive idle by (simp_all add: p1_def execute_def chan_send_def)
  have "reachable_pool crash n p1"
    unfolding p1_def using p pool_step.submit [OF idle(3)] by (rule reachable_pool.step)
  moreover define p2 where "p2 = set_worker k Receiving (p1\<lparr>mutex := Some k\<rparr>)"
  have "pool_step crash p1 p2"
    unfolding p2_def by (rule pool_step.lock) (simp_all add: p1 k nth_append)
  ultimately have r2: "reachable_pool crash n p2"
    by (rule reachable_pool.step)
  define c where "c = (chan p1)\<lparr>buf := []\<rparr>"
  define p3 where "p3 = set_worker k (Running j) (p2\<lparr>chan := c, mutex := None, taken := taken p2 @ [j]\<rparr>)"
  have "pool_step crash p2 p3"
    unfolding p3_def
    by (rule pool_step.recv) (simp_all add: p2_def p1 k nth_append chan_recv_def c_def)
  with r2 have r3: "reachable_pool crash n p3"
    by (rule reachable_pool.step)
  define p4 where "p4 = set_worker k Panicked (p3\<lparr>crashed := crashed p3 @ [j]\<rparr>)"
  have "pool_step crash p3 p4"
    unfolding p4_def
    by (rule pool_step.panic [where i = k and p = p3 and j = j and crash = crash])
      (simp_all add: p3_def p2_def p1 k j)
  with r3 have "reachable_pool crash n p4"
    by (rule reachable_pool.step)
  moreover have "workers p4 = replicate (Suc k) Panicked @ replicate m Idle"
    by (simp add: p4_def p3_def p2_def p1 k list_update_append)
      (simp add: replicate_app_Cons_same)
  ultimately show ?thesis
    by (intro exI [of _ p4]) (simp add: p4_def p3_def p2_def p1 c_def)
qed

lemma crash_all:
  assumes "crash j" "k \<le> n" "0 < n"
  shows "\<exists>p. reachable_pool crash n p \<and> workers p = replicate k Panicked @ replicate (n - k) Idle \<and>
     buf (chan p) = [] \<and> mutex p = None \<and> owner p = Serving \<and> submitted p = replicate k j"
  using assms(2)
proof (induction k)
  case 0
  obtain p :: "'a pool" where p: "ThreadPool_new n = Inr p"
    using assms(3) by (auto simp: ThreadPool_new_def)
  then have "workers p = replicate n Idle" "buf (chan p) = []" "mutex p = None" "owner p = Serving"
    "submitted p = []"
    using assms(3) by (auto simp: ThreadPool_new_def chan_new_def)
  with reachable_pool.start [OF p, of crash] show ?case
    by (intro exI [of _ p]) simp
next
  case (Suc k)
  then obtain p where p: "reachable_pool crash n p"
    "workers p = replicate k Panicked @ replicate (n - k) Idle"
    "buf (chan p) = []" "mutex p = None" "owner p = Serving" "submitted p = replicate k j"
    by auto
  have n: "n - k = Suc (n - Suc k)"
    using Suc.prems by simp
  from crash_one [of crash n p j k "n - Suc k"] p assms(1) n show ?case
    by (auto simp: replicate_append_same)
qed

lemma crash_pool:
  assumes "crash j" and "0 < n"
  obtains p where "reachable_pool crash n p" and "workers p = replicate n Panicked" and "owner p = Serving"
    and "submitted p = replicate n j" and "\<not> receiver_alive p"
proof -
  obtain p where p: "reachable_pool crash n p" "workers p = replicate n Panicked @ replicate (n - n) Idle"
      "owner p = Serving" "submitted p = replicate n j"
    using crash_all [where crash = crash and j = j and k = n and n = n, OF assms(1) _ assms(2)] by auto
  then have "\<not> receiver_alive p"
    by (simp add: receiver_alive_def ended_def)
  with p show thesis
    by (intro that [of p]) simp_all
qed

lemma dead_pool_submit:
  "\<not> receiver_alive p \<Longrightarrow> owner (execute j p) = MainPanicked"
  by (simp add: execute_def chan_send_def)

section \<open>Properties\<close>

text \<open>A pool of one worker at work, for the examples: a job is a number, odd ones panic.\<close>

definition serving_pool :: "nat pool" where
  "serving_pool =
     \<lparr>workers = [Idle], chan = chan_new, mutex = None, owner = Serving, submitted = [], taken = [],
      completed = [], crashed = []\<rparr>"

lemma serving_pool_reachable: "reachable_pool odd 1 serving_pool"
  by (rule reachable_pool.start) (simp add: ThreadPool_new_def serving_pool_def)

text \<open>The same pool after it was given the job 2 and has run it, and then while it is dropped.\<close>

definition worked_pool :: "nat pool" where
  "worked_pool =
     \<lparr>workers = [Idle], chan = chan_new, mutex = None, owner = Serving, submitted = [2], taken = [2],
      completed = [2], crashed = []\<rparr>"

lemma worked_pool_reachable: "reachable_pool odd 1 worked_pool"
proof -
  let ?p1 = "execute 2 serving_pool"
  let ?p2 = "set_worker 0 Receiving (?p1\<lparr>mutex := Some 0\<rparr>)"
  let ?p3 = "set_worker 0 (Running 2) (?p2\<lparr>chan := chan_new, mutex := None, taken := taken ?p2 @ [2]\<rparr>)"
  note defs = serving_pool_def execute_def chan_new_def chan_send_def chan_recv_def receiver_alive_def
    ended_def set_worker_def worked_pool_def
  have "pool_step odd serving_pool ?p1"
    by (rule pool_step.submit) (simp add: defs)
  with serving_pool_reachable have r1: "reachable_pool odd 1 ?p1"
    by (rule reachable_pool.step)
  have "pool_step odd ?p1 ?p2"
    by (rule pool_step.lock) (simp_all add: defs)
  with r1 have r2: "reachable_pool odd 1 ?p2"
    by (rule reachable_pool.step)
  have "pool_step odd ?p2 ?p3"
    by (rule pool_step.recv) (simp_all add: defs)
  with r2 have r3: "reachable_pool odd 1 ?p3"
    by (rule reachable_pool.step)
  have "pool_step odd ?p3 (set_worker 0 Idle (?p3\<lparr>completed := completed ?p3 @ [2]\<rparr>))"
    by (rule pool_step.return) (simp_all add: defs)
  moreover have "set_worker 0 Idle (?p3\<lparr>completed := completed ?p3 @ [2]\<rparr>) = worked_pool"
    by (simp add: defs)
  ultimately show ?thesis
    using r3 by (metis reachable_pool.step)
qed

definition joining_pool :: "nat pool" where
  "joining_pool = drop_sender worked_pool"

lemma joining_pool_reachable: "reachable_pool odd 1 joining_pool"
  unfolding joining_pool_def
  by (rule reachable_pool.step [OF worked_pool_reachable]) (rule pool_step.drop_pool, simp add: worked_pool_def)

definition joined_pool :: "nat pool" where
  "joined_pool =
     (let p1 = set_worker 0 Receiving (joining_pool\<lparr>mutex := Some 0\<rparr>);
          p2 = set_worker 0 Exited (p1\<lparr>mutex := None\<rparr>)
      in join_worker 1 (join_worker 0 p2))"

lemma joined_pool_reachable: "reachable_pool odd 1 joined_pool"
proof -
  let ?p1 = "set_worker 0 Receiving (joining_pool\<lparr>mutex := Some 0\<rparr>)"
  let ?p2 = "set_worker 0 Exited (?p1\<lparr>mutex := None\<rparr>)"
  note defs = joining_pool_def worked_pool_def chan_new_def chan_recv_def chan_close_def
  have "pool_step odd joining_pool ?p1"
    by (rule pool_step.lock) (simp_all add: defs)
  with joining_pool_reachable have r1: "reachable_pool odd 1 ?p1"
    by (rule reachable_pool.step)
  have "pool_step odd ?p1 ?p2"
    by (rule pool_step.disconnect) (simp_all add: defs)
  with r1 have r2: "reachable_pool odd 1 ?p2"
    by (rule reachable_pool.step)
  have "pool_step odd ?p2 (join_worker 0 ?p2)"
    by (rule pool_step.join) (simp_all add: defs ended_def)
  with r2 have r3: "reachable_pool odd 1 (join_worker 0 ?p2)"
    by (rule reachable_pool.step)
  have "pool_step odd (join_worker 0 ?p2) (join_worker 1 (join_worker 0 ?p2))"
    by (rule pool_step.join) (simp_all add: join_worker_def defs)
  with r3 show ?thesis
    unfolding joined_pool_def Let_def by (rule reachable_pool.step)
qed

text \<open>C19: At most one worker waits on the channel, and it is the one that holds the lock.\<close>

theorem pool_mutual_exclusion:
  assumes "reachable_pool crash n p" and "i < n" and "j < n"
    and "workers p ! i = Receiving" and "workers p ! j = Receiving"
  shows "i = j \<and> mutex p = Some i"
  using assms reachable_pool_inv [OF assms(1)] reachable_pool_workers [OF assms(1)]
  by (auto simp: pool_inv_def lock_inv_def)

lemma pool_mutual_exclusion_witness:
  "let p = set_worker 0 Receiving (serving_pool\<lparr>mutex := Some 0\<rparr>) in (0 :: nat) = 0 \<and> mutex p = Some 0"
proof -
  let ?p = "set_worker 0 Receiving (serving_pool\<lparr>mutex := Some 0\<rparr>)"
  have "pool_step odd serving_pool ?p"
    by (rule pool_step.lock) (simp_all add: serving_pool_def)
  with serving_pool_reachable have "reachable_pool odd 1 ?p"
    by (rule reachable_pool.step)
  from pool_mutual_exclusion [OF this, of 0 0] show ?thesis
    by (simp add: serving_pool_def)
qed



text \<open>C5: Every taken job is run exactly once: it is running, or it returned, or it panicked; and each
  panic has ended one worker.\<close>

theorem pool_jobs_once:
  assumes "reachable_pool crash n p"
  shows "mset (taken p) = mset (completed p) + mset (crashed p) + running_jobs p \<and>
     list_all (\<lambda>j. \<not> crash j) (completed p) \<and> list_all crash (crashed p) \<and>
     length (crashed p) = length (filter (\<lambda>w. w = Panicked) (workers p))"
  using reachable_pool_inv [OF assms] by (simp add: pool_inv_def job_inv_def list_all_iff)

lemma pool_jobs_once_witness:
  "mset (taken joined_pool) = mset (completed joined_pool) + mset (crashed joined_pool) + running_jobs joined_pool \<and>
     list_all (\<lambda>j. \<not> odd j) (completed joined_pool) \<and> list_all odd (crashed joined_pool) \<and>
     length (crashed joined_pool) = length (filter (\<lambda>w. w = Panicked) (workers joined_pool))"
  by (rule pool_jobs_once [OF joined_pool_reachable])

text \<open>C6: When dropping the pool has returned, every job that was ever submitted has been run to its
  end, none has panicked and the channel is empty.\<close>

theorem pool_shutdown_complete:
  assumes "reachable_pool crash n p" and "owner p = Joined"
  shows "buf (chan p) = [] \<and> mset (completed p) = mset (submitted p) \<and> crashed p = []"
proof -
  have "workers p \<noteq> []"
    using reachable_pool_workers [OF assms(1)] reachable_pool_size [OF assms(1)] by auto
  with joined_complete [OF reachable_pool_inv [OF assms(1)] assms(2)] show ?thesis
    by simp
qed

lemma pool_shutdown_complete_witness:
  "buf (chan joined_pool) = [] \<and> mset (completed joined_pool) = mset (submitted joined_pool) \<and>
     crashed joined_pool = []"
  by (rule pool_shutdown_complete [OF joined_pool_reachable])
    (simp add: joined_pool_def joining_pool_def worked_pool_def Let_def join_worker_def)

text \<open>C7: Dropping the pool takes finitely many steps under every interleaving (the weight bounds their
  number), and the pool cannot be stuck before all workers are joined or the owner panics
  because a worker has.\<close>

theorem pool_shutdown_terminates:
  assumes "reachable_pool crash n p" and "closing p" and "(pool_step crash ^^ k) p q"
  shows "k \<le> pool_weight p \<and>
     ((\<exists>r. pool_step crash q r) \<or> owner q = Joined \<or>
      owner q = MainPanicked \<and> Panicked \<in> set (workers q))"
proof -
  have "pool_inv crash q \<and> owner q \<noteq> Serving \<and> pool_weight q + k \<le> pool_weight p"
    using assms(3)
  proof (induction k arbitrary: q)
    case 0
    then show ?case
      using assms(1,2) reachable_pool_inv by (auto simp: closing_def)
  next
    case (Suc k)
    then obtain r where r: "(pool_step crash ^^ k) p r" "pool_step crash r q"
      by auto
    from Suc.IH [OF r(1)] have inv: "pool_inv crash r" "owner r \<noteq> Serving" "pool_weight r + k \<le> pool_weight p"
      by auto
    moreover have "owner q \<noteq> Serving"
      using r(2) inv(2) by (cases rule: pool_step.cases) (auto simp: join_worker_def split: if_splits)
    ultimately show ?case
      using pool_inv_step [OF r(2) inv(1)] pool_step_weight [OF r(2) inv(2)] by simp
  qed
  then show ?thesis
    using closing_progress [of crash q] panicked_owner [OF reachable_pool_steps [OF assms(3,1)]]
    by (cases "owner q") auto
qed

lemma pool_shutdown_terminates_witness:
  "0 \<le> pool_weight joining_pool \<and>
     ((\<exists>r. pool_step odd joining_pool r) \<or> owner joining_pool = Joined \<or>
      owner joining_pool = MainPanicked \<and> Panicked \<in> set (workers joining_pool))"
proof -
  have "closing joining_pool"
    by (simp add: closing_def joining_pool_def)
  then show ?thesis
    using pool_shutdown_terminates [OF joining_pool_reachable, of 0 joining_pool] by simp
qed

text \<open>Workers are not replaced: as many panicking jobs as the pool has workers leave a pool without
  workers that looks as if it served, and submitting the next job panics in the owner.\<close>

theorem pool_killed_by_panics:
  assumes "crash j" and "0 < n"
  shows "\<exists>p. reachable_pool crash n p \<and> submitted p = replicate n j \<and> workers p = replicate n Panicked \<and>
     owner p = Serving \<and> owner (execute j' p) = MainPanicked"
proof -
  obtain p where p: "reachable_pool crash n p" "workers p = replicate n Panicked" "owner p = Serving"
      "submitted p = replicate n j" and dead: "\<not> receiver_alive p"
    using assms by (rule crash_pool)
  from p dead_pool_submit [OF dead] show ?thesis
    by (intro exI [of _ p]) simp
qed

lemma pool_killed_by_panics_witness:
  "\<exists>p. reachable_pool odd 4 p \<and> submitted p = replicate 4 (1 :: nat) \<and> workers p = replicate 4 Panicked \<and>
     owner p = Serving \<and> owner (execute 2 p) = MainPanicked"
  by (rule pool_killed_by_panics) simp_all

end
