(* ===== verification/Server_Main.thy ===== *)
theory Server_Main
  imports Http_Server Thread_Pool
begin

text \<open>
  \<open>run_frontend_http_server\<close> of \<^verbatim>\<open>rust/netsim-cxx/src/frontend_http_server.rs\<close>: the loop that hands
  each accepted connection to a pool of four workers. A job is a connection (what can be read
  from it and written to it); running it is \<open>handle_connection\<close>, and the job panics when that
  does. A panic of the loop itself unwinds into the C++ caller: theory \<open>Cxx_Bridge\<close> goes on from
  there. An abort ends the process and has no further states.
\<close>

type_synonym connection = "reader \<times> writer"

definition connection_panics ::
    "('re, 'cap) regex_crate \<Rightarrow> server_env \<Rightarrow> connection \<Rightarrow> bool" where
  "connection_panics R env conn =
     (case fst (handle_connection R env (fst conn) (snd conn)) of Inl (Panic _) \<Rightarrow> True | _ \<Rightarrow> False)"

text \<open>One round of the loop: \<open>None\<close> is an error of \<^verbatim>\<open>accept\<close>, which the loop unwraps.\<close>

fun accept_stream :: "connection option \<Rightarrow> connection pool \<Rightarrow> connection pool" where
  "accept_stream None p = p\<lparr>owner := MainPanicked\<rparr>"
| "accept_stream (Some conn) p = execute conn p"

text \<open>
  The states of the server: it starts with four workers once the port is bound, workers and
  the loop take turns in any order. The iterator of incoming connections has no end, so the
  pool is not dropped while the server runs.
\<close>

inductive server_run ::
    "('re, 'cap) regex_crate \<Rightarrow> server_env \<Rightarrow> connection pool \<Rightarrow> bool" for R env where
  bind: "ThreadPool_new 4 = Inr p \<Longrightarrow> server_run R env p"
| accept: "server_run R env p \<Longrightarrow> owner p = Serving \<Longrightarrow> server_run R env (accept_stream conn p)"
| worker: "server_run R env p \<Longrightarrow> owner p = Serving \<Longrightarrow> pool_step (connection_panics R env) p q \<Longrightarrow>
     owner q = Serving \<Longrightarrow> server_run R env q"

inductive_cases pool_step_cases: "pool_step crash p q"

text \<open>While it serves, the server is a pool in use.\<close>

lemma server_run_pool:
  "server_run R env p \<Longrightarrow> owner p = Serving \<Longrightarrow> reachable_pool (connection_panics R env) 4 p"
proof (induction rule: server_run.induct)
  case (bind p)
  then show ?case
    by (blast intro: reachable_pool.start)
next
  case (accept p conn)
  then show ?case
    by (cases conn) (auto intro: reachable_pool.step pool_step.submit)
next
  case (worker p q)
  then show ?case
    by (blast intro: reachable_pool.step)
qed

lemma server_run_owner: "server_run R env p \<Longrightarrow> owner p = Serving \<or> owner p = MainPanicked"
proof (induction rule: server_run.induct)
  case (accept p conn)
  then show ?case
    by (cases conn) (auto simp: execute_def split: sum.split)
qed (auto simp: ThreadPool_new_def split: if_splits)

text \<open>A run of a pool in use is a run of the server.\<close>

lemma pool_server_run:
  "reachable_pool (connection_panics R env) 4 p \<Longrightarrow> owner p = Serving \<Longrightarrow> server_run R env p"
proof (induction rule: reachable_pool.induct)
  case (step p q)
  have "owner p = Serving"
    using step.hyps(2) step.prems by (cases rule: pool_step.cases) (auto simp: join_worker_def split: if_splits)
  with step show ?case
    by (blast intro: server_run.worker)
qed (rule server_run.bind)

lemma no_panics_keep_serving:
  assumes "server_run R env p" and "owner p = Serving"
    and "\<forall>conn \<in> set (submitted p). \<not> connection_panics R env conn"
  shows "length (workers p) = 4 \<and> Panicked \<notin> set (workers p) \<and> Exited \<notin> set (workers p) \<and>
     owner (accept_stream (Some conn) p) = Serving"
proof -
  have p: "reachable_pool (connection_panics R env) 4 p"
    using assms(1,2) by (rule server_run_pool)
  have inv: "pool_inv (connection_panics R env) p"
    using p by (rule reachable_pool_inv)
  have len: "length (workers p) = 4"
    using p by (rule reachable_pool_workers)
  have "set (crashed p) \<subseteq> set (taken p)"
    using inv by (metis job_inv_def mset_subset_eq_add_left mset_subset_eq_add_right pool_inv_def
        set_mset_mono set_mset_mset subset_mset.order_trans)
  moreover have "set (taken p) \<subseteq> set (submitted p)"
    using inv by (simp add: pool_inv_def queue_inv_def set_append [symmetric] del: set_append)
      (metis set_append Un_upper1)
  ultimately have "crashed p = []"
    using inv assms(3) by (cases "crashed p") (auto simp: pool_inv_def job_inv_def)
  then have "filter (\<lambda>w. w = Panicked) (workers p) = []"
    using inv by (simp add: pool_inv_def job_inv_def)
  then have np: "Panicked \<notin> set (workers p)"
    by (auto simp: filter_empty_conv)
  have open_tx: "tx_open (chan p)" and ne: "Exited \<notin> set (workers p)"
    using inv assms(2) by (auto simp: pool_inv_def exit_inv_def)
  have "workers p \<noteq> []"
    using len by auto
  then have "receiver_alive p"
    using np ne by (cases "workers p") (auto simp: receiver_alive_def ended_def)
  with open_tx assms(2) have "owner (accept_stream (Some conn) p) = Serving"
    by (simp add: execute_def chan_send_def)
  with len np ne show ?thesis
    by simp
qed

section \<open>Properties\<close>


definition fresh_server :: "connection pool" where
  "fresh_server =
     \<lparr>workers = replicate 4 Idle, chan = chan_new, mutex = None, owner = Serving, submitted = [], taken = [],
      completed = [], crashed = []\<rparr>"

lemma fresh_server_run: "server_run R env fresh_server"
  by (rule server_run.bind) (simp add: ThreadPool_new_def fresh_server_def)


text \<open>What a client sends to announce a body of \<open>n\<close> bytes, followed by whatever it likes.\<close>

definition announcing :: "nat \<Rightarrow> bytes \<Rightarrow> reader" where
  "announcing n rest =
     \<lparr>rd_data = as_bytes (''GET'' @ '' '' @ ''/get-devices'' @ '' '' @ ''HTTP/1.1'' @ CRLF) @
        as_bytes (concat (map (\<lambda>(n, v). format_header n v) (length_headers n)) @ CRLF) @ rest, rd_err = None\<rparr>"

text \<open>Four connections that announce a body of \<open>2 ^ 63\<close> bytes end the four workers; the next
  connection, whatever it carries, ends the server.\<close>

lemma killed_server:
  assumes "regex_engine R"
  shows "\<exists>p. server_run R env p \<and> owner p = Serving \<and> workers p = replicate 4 Panicked \<and>
     submitted p = replicate 4 (announcing (2 ^ 63) rest, sink) \<and>
     (\<forall>conn. owner (accept_stream conn p) = MainPanicked)"
proof -
  have "HttpRequest_parse (alloc_ok env) (announcing (2 ^ 63) rest) = Inl (Panic ''capacity overflow'')"
    unfolding announcing_def by (rule parse_huge_length) simp_all
  then have "connection_panics R env (announcing (2 ^ 63) rest, sink)"
    using regex_engine.connection_answer [OF assms, of env "announcing (2 ^ 63) rest" sink]
    by (simp add: connection_panics_def answer_def)
  then obtain p where p: "reachable_pool (connection_panics R env) 4 p" "workers p = replicate 4 Panicked"
      "owner p = Serving" "submitted p = replicate 4 (announcing (2 ^ 63) rest, sink)"
    and dead: "\<not> receiver_alive p"
    using zero_less_numeral by (rule crash_pool)
  have "owner (accept_stream conn p) = MainPanicked" for conn
    using dead_pool_submit [OF dead] by (cases conn) auto
  with p pool_server_run [OF p(1,3)] show ?thesis
    by (intro exI [of _ p]) simp
qed

end
