(* ===== verification/Pool_Liveness.thy ===== *)
theory Pool_Liveness
  imports Thread_Pool
begin

text \<open>
  Progress of the pool of \<^verbatim>\<open>thread_pool.rs\<close> while it serves. A run is an infinite sequence of
  states in which at each point a thread takes a step or nothing happens. The scheduler is fair
  if the workers, taken together, are not kept from a step for ever; it need not be fair to
  one worker, nor must the owner ever pause.
\<close>

section \<open>Runs\<close>

text \<open>The steps of the workers are the ones that change the state of a worker.\<close>

definition worker_step :: "('j \<Rightarrow> bool) \<Rightarrow> 'j pool \<Rightarrow> 'j pool \<Rightarrow> bool" where
  "worker_step crash p q \<longleftrightarrow> pool_step crash p q \<and> workers q \<noteq> workers p"

definition pool_run :: "('j \<Rightarrow> bool) \<Rightarrow> nat \<Rightarrow> (nat \<Rightarrow> 'j pool) \<Rightarrow> bool" where
  "pool_run crash n \<sigma> \<longleftrightarrow>
     reachable_pool crash n (\<sigma> 0) \<and> (\<forall>i. \<sigma> (Suc i) = \<sigma> i \<or> pool_step crash (\<sigma> i) (\<sigma> (Suc i)))"

definition workers_fair :: "('j \<Rightarrow> bool) \<Rightarrow> (nat \<Rightarrow> 'j pool) \<Rightarrow> bool" where
  "workers_fair crash \<sigma> \<longleftrightarrow>
     (\<forall>i. (\<forall>j \<ge> i. \<exists>q. worker_step crash (\<sigma> j) q) \<longrightarrow> (\<exists>j \<ge> i. worker_step crash (\<sigma> j) (\<sigma> (Suc j))))"

lemma run_reachable: "pool_run crash n \<sigma> \<Longrightarrow> reachable_pool crash n (\<sigma> i)"
proof (induction i)
  case (Suc i)
  then have "\<sigma> (Suc i) = \<sigma> i \<or> pool_step crash (\<sigma> i) (\<sigma> (Suc i))" and "reachable_pool crash n (\<sigma> i)"
    by (simp_all add: pool_run_def)
  then show ?case
    by (metis reachable_pool.step)
qed (simp add: pool_run_def)

lemma step_grows:
  "pool_step crash p q \<Longrightarrow> (\<exists>xs. submitted q = submitted p @ xs) \<and> (\<exists>ys. taken q = taken p @ ys)"
  by (induction rule: pool_step.induct) (auto simp: pool_defs split: sum.split)

lemma run_grows:
  assumes "pool_run crash n \<sigma>" and "i \<le> j"
  shows "(\<exists>xs. submitted (\<sigma> j) = submitted (\<sigma> i) @ xs) \<and> (\<exists>ys. taken (\<sigma> j) = taken (\<sigma> i) @ ys)"
  using assms(2)
proof (induction rule: dec_induct)
  case (step m)
  have "\<sigma> (Suc m) = \<sigma> m \<or> pool_step crash (\<sigma> m) (\<sigma> (Suc m))"
    using assms(1) by (simp add: pool_run_def)
  with step.IH step_grows [of crash "\<sigma> m" "\<sigma> (Suc m)"] show ?case
    by auto
qed simp

section \<open>A worker can move while a job waits\<close>

lemma worker_enabled:
  assumes inv: "pool_inv crash p" and job: "buf (chan p) \<noteq> []" and alive: "w \<in> set (workers p)" "w \<noteq> Panicked"
  shows "\<exists>q. worker_step crash p q"
proof -
  have changed: "worker_step crash p q" if "pool_step crash p q" "workers q = (workers p)[i := v]"
      "i < length (workers p)" "v \<noteq> workers p ! i" for q i v
    using that unfolding worker_step_def by (metis nth_list_update_eq)
  have receiving: ?thesis if i: "i < length (workers p)" "workers p ! i = Receiving" for i
  proof -
    obtain j c where "chan_recv (chan p) = (Received j, c)"
      using job by (cases "buf (chan p)") (auto simp: chan_recv_def)
    from pool_step.recv [OF i this] show ?thesis
      using changed [OF _ _ i(1), of _ "Running j"] i(2) by fastforce
  qed
  obtain i where i: "i < length (workers p)" "workers p ! i = w"
    using alive(1) by (auto simp: in_set_conv_nth)
  show ?thesis
  proof (cases w)
    case Idle
    show ?thesis
    proof (cases "mutex p")
      case None
      from pool_step.lock [OF i(1) _ this] show ?thesis
        using changed [OF _ _ i(1), of _ Receiving] i(2) Idle by fastforce
    next
      case (Some k)
      then show ?thesis
        using inv receiving by (auto simp: pool_inv_def lock_inv_def)
    qed
  next
    case Receiving
    with receiving i show ?thesis
      by blast
  next
    case (Running j)
    with i have r: "workers p ! i = Running j"
      by simp
    show ?thesis
    proof (cases "crash j")
      case True
      have "pool_step crash p (set_worker i Panicked (p\<lparr>crashed := crashed p @ [j]\<rparr>))"
        using i(1) r True by (rule pool_step.panic)
      then show ?thesis
        using changed [OF _ _ i(1), of _ Panicked] r by fastforce
    next
      case False
      have "pool_step crash p (set_worker i Idle (p\<lparr>completed := completed p @ [j]\<rparr>))"
        using i(1) r False by (rule pool_step.return)
      then show ?thesis
        using changed [OF _ _ i(1), of _ Idle] r by fastforce
    qed
  next
    case Exited
    then have "Exited \<in> set (workers p)"
      using alive(1) by simp
    with inv job show ?thesis
      by (simp add: pool_inv_def exit_inv_def)
  qed (use alive(2) in simp)
qed

section \<open>How far a job is from being taken\<close>

definition to_go :: "nat \<Rightarrow> 'j pool \<Rightarrow> nat" where
  "to_go k p = 3 * (Suc k - length (taken p)) + sum_list (map weight (workers p))"

lemma step_to_go:
  "pool_step crash p q \<Longrightarrow> length (taken p) \<le> k \<Longrightarrow>
     to_go k q < to_go k p \<or> workers q = workers p \<and> to_go k q = to_go k p"
proof (induction rule: pool_step.induct)
  case (lock i p)
  with sum_weight_update [of i "workers p" Receiving] show ?case
    by (simp add: to_go_def)
next
  case (recv i p j c)
  with sum_weight_update [of i "workers p" "Running j"] show ?case
    by (simp add: to_go_def Suc_diff_le)
next
  case (disconnect i p c)
  with sum_weight_update [of i "workers p" Exited] show ?case
    by (simp add: to_go_def)
next
  case (return i p j)
  with sum_weight_update [of i "workers p" Idle] show ?case
    by (simp add: to_go_def)
next
  case (panic i p j)
  with sum_weight_update [of i "workers p" Panicked] show ?case
    by (simp add: to_go_def)
qed (simp_all add: to_go_def)

lemma run_to_go:
  assumes "pool_run crash n \<sigma>" and "length (taken (\<sigma> i)) \<le> k"
  shows "to_go k (\<sigma> (Suc i)) \<le> to_go k (\<sigma> i)"
    and "worker_step crash (\<sigma> i) (\<sigma> (Suc i)) \<Longrightarrow> to_go k (\<sigma> (Suc i)) < to_go k (\<sigma> i)"
proof -
  have "\<sigma> (Suc i) = \<sigma> i \<or> pool_step crash (\<sigma> i) (\<sigma> (Suc i))"
    using assms(1) by (simp add: pool_run_def)
  then show "to_go k (\<sigma> (Suc i)) \<le> to_go k (\<sigma> i)"
    using step_to_go [of crash "\<sigma> i" "\<sigma> (Suc i)" k] assms(2) by auto
  show "to_go k (\<sigma> (Suc i)) < to_go k (\<sigma> i)" if "worker_step crash (\<sigma> i) (\<sigma> (Suc i))"
    using step_to_go [of crash "\<sigma> i" "\<sigma> (Suc i)" k] assms(2) that by (auto simp: worker_step_def)
qed

lemma run_to_go_mono:
  assumes "pool_run crash n \<sigma>" and "i \<le> j" and "length (taken (\<sigma> j)) \<le> k"
  shows "to_go k (\<sigma> j) \<le> to_go k (\<sigma> i)"
  using assms(2,3)
proof (induction rule: dec_induct)
  case (step m)
  then have "length (taken (\<sigma> m)) \<le> k"
    using run_grows [OF assms(1), of m "Suc m"] by auto
  with step run_to_go(1) [OF assms(1)] show ?case
    by (meson order_trans)
qed simp

lemma job_is_taken:
  assumes "pool_run crash n \<sigma>" and "workers_fair crash \<sigma>" and "k < length (submitted (\<sigma> i))"
  shows "\<exists>j \<ge> i. k < length (taken (\<sigma> j)) \<or> list_all (\<lambda>w. w = Panicked) (workers (\<sigma> j))"
  using assms(3)
proof (induction "to_go k (\<sigma> i)" arbitrary: i rule: less_induct)
  case less
  show ?case
  proof (rule ccontr)
    assume "\<not> ?case"
    then have wait: "length (taken (\<sigma> j)) \<le> k" and live: "\<exists>w \<in> set (workers (\<sigma> j)). w \<noteq> Panicked"
      if "i \<le> j" for j
      using that by (auto simp: list_all_iff not_less)
    have sub: "k < length (submitted (\<sigma> j))" if "i \<le> j" for j
      using run_grows [OF assms(1) that] less.prems by auto
    have "\<exists>q. worker_step crash (\<sigma> j) q" if "i \<le> j" for j
    proof -
      have inv: "pool_inv crash (\<sigma> j)"
        using run_reachable [OF assms(1)] by (rule reachable_pool_inv)
      then have "taken (\<sigma> j) @ buf (chan (\<sigma> j)) = submitted (\<sigma> j)"
        by (simp add: pool_inv_def queue_inv_def)
      then have "buf (chan (\<sigma> j)) \<noteq> []"
        using wait [OF that] sub [OF that] by auto
      with inv live [OF that] show ?thesis
        using worker_enabled by blast
    qed
    then obtain j where j: "i \<le> j" "worker_step crash (\<sigma> j) (\<sigma> (Suc j))"
      using assms(2) unfolding workers_fair_def by blast
    have "to_go k (\<sigma> (Suc j)) < to_go k (\<sigma> i)"
      using run_to_go(2) [OF assms(1) wait [OF j(1)] j(2)] run_to_go_mono [OF assms(1) j(1) wait [OF j(1)]]
      by simp
    from less.hyps [OF this sub] j(1) obtain l where "Suc j \<le> l"
      "k < length (taken (\<sigma> l)) \<or> list_all (\<lambda>w. w = Panicked) (workers (\<sigma> l))"
      by auto
    with \<open>\<not> ?case\<close> j(1) show False
      by (meson Suc_leD order_trans)
  qed
qed

lemma taken_in_order:
  assumes "pool_run crash n \<sigma>" and "i \<le> j" and "k < length (submitted (\<sigma> i))" and "k < length (taken (\<sigma> j))"
  shows "taken (\<sigma> j) ! k = submitted (\<sigma> i) ! k"
proof -
  have "taken (\<sigma> j) @ buf (chan (\<sigma> j)) = submitted (\<sigma> j)"
    using reachable_pool_inv [OF run_reachable [OF assms(1), of j]] by (simp add: pool_inv_def queue_inv_def)
  moreover obtain xs where "submitted (\<sigma> j) = submitted (\<sigma> i) @ xs"
    using run_grows [OF assms(1,2)] by blast
  ultimately show ?thesis
    using assms(3,4) by (metis nth_append)
qed

section \<open>A job that is taken is run to its end\<close>

text \<open>No job keeps its worker for ever: the jobs end and the scheduler lets each worker end its job.\<close>

definition jobs_end :: "(nat \<Rightarrow> 'j pool) \<Rightarrow> bool" where
  "jobs_end \<sigma> \<longleftrightarrow>
     (\<forall>i w job. w < length (workers (\<sigma> i)) \<longrightarrow> workers (\<sigma> i) ! w = Running job \<longrightarrow>
        (\<exists>j \<ge> i. workers (\<sigma> j) ! w \<noteq> Running job))"

lemma taking_step:
  assumes "pool_step crash p q" and "length (taken p) \<le> k" and "k < length (taken q)"
  obtains w where "w < length (workers q)" and "workers q ! w = Running (taken q ! k)"
  using assms by (cases rule: pool_step.cases) (auto simp: pool_defs less_Suc_eq split: sum.splits if_splits)

lemma ending_step:
  assumes "pool_step crash p q" and "w < length (workers p)" and "workers p ! w = Running job"
    and "workers q ! w \<noteq> Running job"
  shows "job \<in> set (completed q) \<or> crash job"
  using assms
  by (cases rule: pool_step.cases)
    (auto simp: pool_defs nth_list_update split: sum.splits if_splits)

lemma completed_grows:
  assumes "pool_run crash n \<sigma>" and "i \<le> j"
  shows "set (completed (\<sigma> i)) \<subseteq> set (completed (\<sigma> j))"
  using assms(2)
proof (induction rule: dec_induct)
  case (step m)
  have "pool_step crash p q \<Longrightarrow> set (completed p) \<subseteq> set (completed q)" for p q
    by (induction rule: pool_step.induct) (auto simp: pool_defs split: sum.split)
  moreover have "\<sigma> (Suc m) = \<sigma> m \<or> pool_step crash (\<sigma> m) (\<sigma> (Suc m))"
    using assms(1) by (simp add: pool_run_def)
  ultimately have "set (completed (\<sigma> m)) \<subseteq> set (completed (\<sigma> (Suc m)))"
    by auto
  with step.IH show ?case
    by blast
qed simp

lemma run_step: "pool_run crash n \<sigma> \<Longrightarrow> \<sigma> (Suc i) = \<sigma> i \<or> pool_step crash (\<sigma> i) (\<sigma> (Suc i))"
  by (simp add: pool_run_def)

lemma running_job_ends:
  assumes run: "pool_run crash n \<sigma>" and ends: "jobs_end \<sigma>"
    and w: "w < length (workers (\<sigma> i))" "workers (\<sigma> i) ! w = Running job"
  shows "\<exists>j \<ge> i. job \<in> set (completed (\<sigma> j)) \<or> crash job"
proof -
  have "\<exists>j. i \<le> j \<and> workers (\<sigma> j) ! w \<noteq> Running job"
    using ends w unfolding jobs_end_def by blast
  then obtain j where j: "i \<le> j" "workers (\<sigma> j) ! w \<noteq> Running job"
    and before: "\<And>m. m < j \<Longrightarrow> \<not> (i \<le> m \<and> workers (\<sigma> m) ! w \<noteq> Running job)"
    using exists_least_iff [of "\<lambda>j. i \<le> j \<and> workers (\<sigma> j) ! w \<noteq> Running job"] by blast
  with w(2) obtain m where m: "j = Suc m" "i \<le> m"
    by (cases j) (auto simp: le_Suc_eq)
  have still: "workers (\<sigma> m) ! w = Running job"
    using before [of m] m by simp
  have "length (workers (\<sigma> m)) = length (workers (\<sigma> i))"
    using reachable_pool_workers [OF run_reachable [OF run]] by metis
  with w(1) still j m run_step [OF run, of m] have "job \<in> set (completed (\<sigma> j)) \<or> crash job"
    using ending_step [of crash "\<sigma> m" "\<sigma> j" w job] by auto
  with j show ?thesis
    by blast
qed

lemma taken_job_ends:
  assumes run: "pool_run crash n \<sigma>" and ends: "jobs_end \<sigma>" and start: "taken (\<sigma> 0) = []"
    and k: "k < length (taken (\<sigma> i))"
  shows "\<exists>j \<ge> i. taken (\<sigma> i) ! k \<in> set (completed (\<sigma> j)) \<or> crash (taken (\<sigma> i) ! k)"
proof -
  obtain m where m: "k < length (taken (\<sigma> m))" and least: "\<And>l. l < m \<Longrightarrow> \<not> k < length (taken (\<sigma> l))"
    using k exists_least_iff [of "\<lambda>m. k < length (taken (\<sigma> m))"] by blast
  have le: "m \<le> i"
    using least [of i] k by (metis not_le)
  obtain l where l: "m = Suc l"
    using m start by (cases m) auto
  have short: "length (taken (\<sigma> l)) \<le> k"
    using least [of l] l by simp
  with m l run_step [OF run, of l] have "pool_step crash (\<sigma> l) (\<sigma> m)"
    by auto
  then obtain w where "w < length (workers (\<sigma> m))" "workers (\<sigma> m) ! w = Running (taken (\<sigma> m) ! k)"
    using short m by (rule taking_step)
  from running_job_ends [OF run ends this] obtain j where
    j: "m \<le> j" "taken (\<sigma> m) ! k \<in> set (completed (\<sigma> j)) \<or> crash (taken (\<sigma> m) ! k)"
    by blast
  moreover have "taken (\<sigma> i) ! k = taken (\<sigma> m) ! k"
    using run_grows [OF run le] m by (auto simp: nth_append)
  moreover have "set (completed (\<sigma> j)) \<subseteq> set (completed (\<sigma> (max i j)))"
    using completed_grows [OF run] by simp
  ultimately show ?thesis
    by (metis max.cobounded1 subset_eq)
qed

section \<open>Property\<close>

text \<open>C8: Every job is taken: under a scheduler that is fair to the workers as a group, and however many
  jobs keep coming, a job that was submitted is some time taken by a worker, in its turn, unless
  every worker has died of a panic.\<close>

theorem pool_takes_every_job:
  assumes "pool_run crash n \<sigma>" and "workers_fair crash \<sigma>" and "k < length (submitted (\<sigma> i))"
  shows "\<exists>j \<ge> i. k < length (taken (\<sigma> j)) \<and> taken (\<sigma> j) ! k = submitted (\<sigma> i) ! k \<or>
     list_all (\<lambda>w. w = Panicked) (workers (\<sigma> j))"
proof -
  obtain j where j: "i \<le> j" "k < length (taken (\<sigma> j)) \<or> list_all (\<lambda>w. w = Panicked) (workers (\<sigma> j))"
    using job_is_taken [OF assms] by blast
  with taken_in_order [OF assms(1) j(1) assms(3)] show ?thesis
    by blast
qed

text \<open>A run of the pool of one worker: the job 2 is submitted, taken and run, then the worker waits.\<close>

definition example_run :: "nat \<Rightarrow> nat pool" where
  "example_run i =
     (let p1 = execute 2 serving_pool;
          p2 = set_worker 0 Receiving (p1\<lparr>mutex := Some 0\<rparr>);
          p3 = set_worker 0 (Running 2) (p2\<lparr>chan := chan_new, mutex := None, taken := [2]\<rparr>);
          p5 = set_worker 0 Receiving (worked_pool\<lparr>mutex := Some 0\<rparr>)
      in if i = 0 then p1 else if i = 1 then p2 else if i = 2 then p3 else if i = 3 then worked_pool else p5)"

lemmas example_run_defs = example_run_def serving_pool_def worked_pool_def Let_def execute_def set_worker_def
  chan_send_def chan_new_def receiver_alive_def ended_def

lemma example_run_steps:
  assumes "i < 4"
  shows "worker_step odd (example_run i) (example_run (Suc i))"
proof -
  have s0: "pool_step odd (example_run 0) (set_worker 0 Receiving (example_run 0\<lparr>mutex := Some 0\<rparr>))"
    by (rule pool_step.lock) (simp_all add: example_run_defs)
  have s1: "pool_step odd (example_run 1)
      (set_worker 0 (Running 2) (example_run 1\<lparr>chan := chan_new, mutex := None, taken := taken (example_run 1) @ [2]\<rparr>))"
    by (rule pool_step.recv) (simp_all add: example_run_defs chan_recv_def)
  have s2: "pool_step odd (example_run 2)
      (set_worker 0 Idle (example_run 2\<lparr>completed := completed (example_run 2) @ [2]\<rparr>))"
    by (rule pool_step.return) (simp_all add: example_run_defs)
  have s3: "pool_step odd (example_run 3) (set_worker 0 Receiving (example_run 3\<lparr>mutex := Some 0\<rparr>))"
    by (rule pool_step.lock) (simp_all add: example_run_defs)
  from assms consider "i = 0" | "i = 1" | "i = 2" | "i = 3"
    by linarith
  then show ?thesis
  proof cases
    case 1
    with s0 show ?thesis
      by (simp add: worker_step_def example_run_defs)
  next
    case 2
    with s1 show ?thesis
      by (simp add: worker_step_def example_run_defs)
  next
    case 3
    with s2 show ?thesis
      by (simp add: worker_step_def example_run_defs)
  next
    case 4
    with s3 show ?thesis
      by (simp add: worker_step_def example_run_defs)
  qed
qed

lemma example_run_stops: "\<not> worker_step odd (example_run 4) q"
proof
  assume "worker_step odd (example_run 4) q"
  then have "pool_step odd (example_run 4) q" "workers q \<noteq> workers (example_run 4)"
    by (simp_all add: worker_step_def)
  then show False
    by (cases rule: pool_step.cases) (auto simp: example_run_defs chan_recv_def)
qed

lemma example_run_ok: "pool_run odd 1 example_run \<and> workers_fair odd example_run"
proof -
  have "reachable_pool odd 1 (execute 2 serving_pool)"
    using serving_pool_reachable
    by (rule reachable_pool.step) (rule pool_step.submit, simp add: serving_pool_def)
  then have start: "reachable_pool odd 1 (example_run 0)"
    by (simp add: example_run_def Let_def)
  have rest: "example_run i = example_run 4" if "4 \<le> i" for i
    using that by (simp add: example_run_def)
  have "example_run (Suc i) = example_run i \<or> pool_step odd (example_run i) (example_run (Suc i))" for i
    using example_run_steps [of i] rest [of i] rest [of "Suc i"] by (cases "i < 4") (simp_all add: worker_step_def)
  moreover have "\<exists>j \<ge> i. \<not> (\<exists>q. worker_step odd (example_run j) q)" for i
    using example_run_stops rest [of "max 4 i"] by (intro exI [of _ "max 4 i"]) simp
  ultimately show ?thesis
    using start unfolding pool_run_def workers_fair_def by blast
qed

lemma pool_takes_every_job_witness:
  "\<exists>j \<ge> 0. 0 < length (taken (example_run j)) \<and> taken (example_run j) ! 0 = submitted (example_run 0) ! 0 \<or>
     list_all (\<lambda>w. w = Panicked) (workers (example_run j))"
  by (rule pool_takes_every_job [OF conjunct1 [OF example_run_ok] conjunct2 [OF example_run_ok]])
    (simp add: example_run_defs)

end
