(* ===== verification/Server_Liveness.thy ===== *)
theory Server_Liveness
  imports Server_Main Pool_Liveness
begin

text \<open>
  Progress of the server: an infinite trace of \<open>run_frontend_http_server\<close> in which \<^verbatim>\<open>accept\<close> never
  fails is a run of its pool as long as the loop lives, and the loop lives as long as no
  connection panics.
\<close>

definition server_trace ::
    "('re, 'cap) regex_crate \<Rightarrow> server_env \<Rightarrow> (nat \<Rightarrow> connection pool) \<Rightarrow> bool" where
  "server_trace R env \<sigma> \<longleftrightarrow>
     ThreadPool_new 4 = Inr (\<sigma> 0) \<and>
     (\<forall>i. \<sigma> (Suc i) = \<sigma> i \<or>
          (\<exists>conn. \<sigma> (Suc i) = accept_stream (Some conn) (\<sigma> i)) \<or>
          pool_step (connection_panics R env) (\<sigma> i) (\<sigma> (Suc i)) \<and> owner (\<sigma> (Suc i)) = Serving)"

lemma server_trace_serves:
  assumes "server_trace R env \<sigma>" and "\<forall>i. \<forall>conn \<in> set (submitted (\<sigma> i)). \<not> connection_panics R env conn"
  shows "owner (\<sigma> i) = Serving \<and> server_run R env (\<sigma> i)"
proof (induction i)
  case 0
  have "ThreadPool_new 4 = Inr (\<sigma> 0)"
    using assms(1) by (simp add: server_trace_def)
  then show ?case
    by (cases "\<sigma> 0") (auto intro: server_run.bind simp: ThreadPool_new_def split: if_splits)
next
  case (Suc i)
  then have now: "owner (\<sigma> i) = Serving" "server_run R env (\<sigma> i)"
    by simp_all
  from assms(1) consider
      "\<sigma> (Suc i) = \<sigma> i"
    | conn where "\<sigma> (Suc i) = accept_stream (Some conn) (\<sigma> i)"
    | "pool_step (connection_panics R env) (\<sigma> i) (\<sigma> (Suc i))" "owner (\<sigma> (Suc i)) = Serving"
    unfolding server_trace_def by blast
  then show ?case
  proof cases
    case 2
    moreover have "owner (accept_stream (Some conn) (\<sigma> i)) = Serving"
      using no_panics_keep_serving [OF now(2,1) spec [OF assms(2)]] by blast
    ultimately show ?thesis
      using server_run.accept [OF now(2,1), of "Some conn"] by simp
  qed (use now in \<open>auto intro: server_run.worker\<close>)
qed

lemma server_trace_run:
  assumes "server_trace R env \<sigma>" and "\<forall>i. \<forall>conn \<in> set (submitted (\<sigma> i)). \<not> connection_panics R env conn"
  shows "pool_run (connection_panics R env) 4 \<sigma>"
proof -
  have "\<sigma> (Suc i) = \<sigma> i \<or> pool_step (connection_panics R env) (\<sigma> i) (\<sigma> (Suc i))" for i
  proof -
    have "owner (\<sigma> i) = Serving"
      using server_trace_serves [OF assms] by simp
    with assms(1) show ?thesis
      unfolding server_trace_def by (metis accept_stream.simps(2) pool_step.submit)
  qed
  moreover have "reachable_pool (connection_panics R env) 4 (\<sigma> 0)"
    using server_trace_serves [OF assms, of 0] by (simp add: server_run_pool)
  ultimately show ?thesis
    by (simp add: pool_run_def)
qed

lemma connection_is_taken:
  assumes "server_trace R env \<sigma>" and "workers_fair (connection_panics R env) \<sigma>"
    and "\<forall>i. \<forall>conn \<in> set (submitted (\<sigma> i)). \<not> connection_panics R env conn"
    and "k < length (submitted (\<sigma> i))"
  shows "\<exists>j \<ge> i. k < length (taken (\<sigma> j)) \<and> taken (\<sigma> j) ! k = submitted (\<sigma> i) ! k"
proof -
  note run = server_trace_run [OF assms(1,3)]
  obtain j where j: "i \<le> j" "k < length (taken (\<sigma> j)) \<or> list_all (\<lambda>w. w = Panicked) (workers (\<sigma> j))"
    using job_is_taken [OF run assms(2,4)] by blast
  have "length (workers (\<sigma> j)) = 4 \<and> Panicked \<notin> set (workers (\<sigma> j))"
    using no_panics_keep_serving [OF conjunct2 conjunct1, OF server_trace_serves server_trace_serves,
        OF assms(1,3) assms(1,3)] assms(3) by blast
  then have "\<not> list_all (\<lambda>w. w = Panicked) (workers (\<sigma> j))"
    by (cases "workers (\<sigma> j)") auto
  with j show ?thesis
    using taken_in_order [OF run j(1)] assms(4) by blast
qed

section \<open>Property\<close>


section \<open>Example\<close>

text \<open>One connection that closes at once: it is accepted, taken and answered, then the worker waits.\<close>

definition hung_up :: connection where
  "hung_up = (\<lparr>rd_data = [], rd_err = None\<rparr>, \<lparr>wr_out = [], wr_room = None, wr_err = []\<rparr>)"

lemma hung_up_answered: "\<not> connection_panics anchored_engine example_env hung_up"
proof -
  have "HttpRequest_parse (alloc_ok example_env) \<lparr>rd_data = [], rd_err = None\<rparr> =
      Inl (Error ''Invalid request line, missing method'')"
    by (simp add: HttpRequest_parse_def parse_request_line_def read_line_def take_line_def split_ws.simps)
  then show ?thesis
    by (simp add: connection_panics_def hung_up_def anchored.connection_answer answer_def
        send_response_unlimited)
qed

definition example_trace :: "nat \<Rightarrow> connection pool" where
  "example_trace i =
     (let p1 = execute hung_up fresh_server;
          p2 = set_worker 0 Receiving (p1\<lparr>mutex := Some 0\<rparr>);
          p3 = set_worker 0 (Running hung_up) (p2\<lparr>chan := chan_new, mutex := None, taken := [hung_up]\<rparr>);
          p4 = set_worker 0 Idle (p3\<lparr>completed := [hung_up]\<rparr>);
          p5 = set_worker 0 Receiving (p4\<lparr>mutex := Some 0\<rparr>)
      in if i = 0 then fresh_server else if i = 1 then p1 else if i = 2 then p2 else if i = 3 then p3
         else if i = 4 then p4 else p5)"

lemmas example_trace_defs = example_trace_def fresh_server_def Let_def execute_def set_worker_def
  chan_send_def chan_new_def receiver_alive_def ended_def

abbreviation example_panics :: "connection \<Rightarrow> bool" where
  "example_panics \<equiv> connection_panics anchored_engine example_env"

lemma replicate_4: "replicate 4 x = [x, x, x, x]"
  by (simp add: numeral_eq_Suc)

lemma example_trace_steps:
  "example_trace 1 = accept_stream (Some hung_up) (example_trace 0)"
  "pool_step example_panics (example_trace 1) (example_trace 2)"
  "pool_step example_panics (example_trace 2) (example_trace 3)"
  "pool_step example_panics (example_trace 3) (example_trace 4)"
  "pool_step example_panics (example_trace 4) (example_trace 5)"
proof -
  show "example_trace 1 = accept_stream (Some hung_up) (example_trace 0)"
    by (simp add: example_trace_def Let_def)
  have "pool_step example_panics (example_trace 1) (set_worker 0 Receiving (example_trace 1\<lparr>mutex := Some 0\<rparr>))"
    by (rule pool_step.lock) (simp_all add: example_trace_defs replicate_4)
  then show "pool_step example_panics (example_trace 1) (example_trace 2)"
    by (simp add: example_trace_def Let_def)
  have "pool_step example_panics (example_trace 2)
      (set_worker 0 (Running hung_up) (example_trace 2\<lparr>chan := chan_new, mutex := None, taken := taken (example_trace 2) @ [hung_up]\<rparr>))"
    by (rule pool_step.recv) (simp_all add: example_trace_defs chan_recv_def replicate_4)
  moreover have "taken (example_trace 2) = []"
    by (simp add: example_trace_defs replicate_4)
  ultimately show "pool_step example_panics (example_trace 2) (example_trace 3)"
    by (simp add: example_trace_def Let_def)
  have "pool_step example_panics (example_trace 3)
      (set_worker 0 Idle (example_trace 3\<lparr>completed := completed (example_trace 3) @ [hung_up]\<rparr>))"
    by (rule pool_step.return) (simp_all add: example_trace_defs hung_up_answered replicate_4)
  moreover have "completed (example_trace 3) = []"
    by (simp add: example_trace_defs replicate_4)
  ultimately show "pool_step example_panics (example_trace 3) (example_trace 4)"
    by (simp add: example_trace_def Let_def)
  have "pool_step example_panics (example_trace 4) (set_worker 0 Receiving (example_trace 4\<lparr>mutex := Some 0\<rparr>))"
    by (rule pool_step.lock) (simp_all add: example_trace_defs replicate_4)
  then show "pool_step example_panics (example_trace 4) (example_trace 5)"
    by (simp add: example_trace_def Let_def)
qed

lemma example_trace_rest: "5 \<le> i \<Longrightarrow> example_trace i = example_trace 5"
  by (simp add: example_trace_def)

lemma example_trace_submitted: "set (submitted (example_trace i)) \<subseteq> {hung_up}"
  by (simp add: example_trace_defs replicate_4)

lemma example_trace_owner: "owner (example_trace i) = Serving"
  by (simp add: example_trace_defs replicate_4)

lemma example_trace_stops: "\<not> worker_step example_panics (example_trace 5) q"
proof
  assume "worker_step example_panics (example_trace 5) q"
  then have "pool_step example_panics (example_trace 5) q" "workers q \<noteq> workers (example_trace 5)"
    by (simp_all add: worker_step_def)
  moreover have "workers (example_trace 5) = [Receiving, Idle, Idle, Idle]" "mutex (example_trace 5) = Some 0"
      "chan (example_trace 5) = chan_new" "owner (example_trace 5) = Serving"
    by (simp_all add: example_trace_defs replicate_4)
  ultimately show False
    by (cases rule: pool_step.cases) (auto simp: chan_recv_def chan_new_def less_Suc_eq)
qed

lemma example_trace_ok:
  "server_trace anchored_engine example_env example_trace \<and> workers_fair example_panics example_trace"
proof -
  have step: "example_trace (Suc i) = example_trace i \<or>
      (\<exists>conn. example_trace (Suc i) = accept_stream (Some conn) (example_trace i)) \<or>
      pool_step example_panics (example_trace i) (example_trace (Suc i)) \<and> owner (example_trace (Suc i)) = Serving" for i
  proof (cases "5 \<le> i")
    case True
    then show ?thesis
      using example_trace_rest [of i] example_trace_rest [of "Suc i"] by simp
  next
    case False
    then consider "i = 0" | "i = 1" | "i = 2" | "i = 3" | "i = 4"
      by linarith
    then show ?thesis
    proof cases
      case 1
      then show ?thesis
        using example_trace_steps(1) unfolding One_nat_def by blast
    qed (use example_trace_steps(2-5) example_trace_owner in \<open>simp_all add: numeral_eq_Suc\<close>)
  qed
  have "\<exists>j \<ge> i. \<not> (\<exists>q. worker_step example_panics (example_trace j) q)" for i
    using example_trace_stops example_trace_rest [of "max 5 i"] by (intro exI [of _ "max 5 i"]) simp
  then have "workers_fair example_panics example_trace"
    unfolding workers_fair_def by blast
  moreover have "ThreadPool_new 4 = Inr (example_trace 0)"
    by (simp add: example_trace_def ThreadPool_new_def fresh_server_def)
  ultimately show ?thesis
    using step by (simp add: server_trace_def)
qed

lemma example_trace_ends: "jobs_end example_trace"
proof -
  have waits: "workers (example_trace (max 5 i)) ! w \<noteq> Running job"
    if "w < length (workers (example_trace i))" for i w job
  proof -
    have "length (workers (example_trace i)) = 4"
      by (simp add: example_trace_defs)
    moreover have "workers (example_trace 5) = [Receiving, Idle, Idle, Idle]"
      by (simp add: example_trace_defs replicate_4)
    ultimately show ?thesis
      using that example_trace_rest [of "max 5 i"] by (auto simp: numeral_eq_Suc less_Suc_eq)
  qed
  then show ?thesis
    unfolding jobs_end_def by (meson max.cobounded2)
qed


end
