(* ===== verification/F32.thy ===== *)
theory F32
  imports Netsim_Prelude
begin

text \<open>
  The single-precision arithmetic the code uses: conversion from integers, square root,
  product and difference, each correctly rounded (to nearest, ties to even), \<^verbatim>\<open>f32::round\<close>
  (ties away from zero), the saturating casts \<^verbatim>\<open>as u32\<close> and \<^verbatim>\<open>as i8\<close>, and the \<^verbatim>\<open>{:.2}\<close> format.
  A number is a sign, a natural significand and a binary exponent; the significand need not be
  normalised, rounding keeps at most 24 bits of it.
\<close>

datatype fp =
    NaN
  | Infinite bool
  | Finite bool nat int

section \<open>Bits and integer square roots\<close>

fun bitlen :: "nat \<Rightarrow> nat" where
  "bitlen n = (if n = 0 then 0 else Suc (bitlen (n div 2)))"

declare bitlen.simps [simp del]

lemma bitlen_0 [simp]: "bitlen 0 = 0"
  by (simp add: bitlen.simps)

lemma less_bitlen: "n < 2 ^ bitlen n"
proof (induction n rule: bitlen.induct)
  case (1 n)
  then show ?case
    by (cases "n = 0") (subst bitlen.simps, auto)+
qed

lemma bitlen_le: "n < 2 ^ k \<Longrightarrow> bitlen n \<le> k"
proof (induction k arbitrary: n)
  case (Suc k)
  then have "n div 2 < 2 ^ k"
    by auto
  then have "bitlen (n div 2) \<le> k"
    by (rule Suc.IH)
  then show ?case
    by (subst bitlen.simps) simp
qed (simp add: bitlen.simps)

lemma bitlen_greater: "2 ^ k \<le> n \<Longrightarrow> k < bitlen n"
  using less_bitlen [of n] by (meson le_less_trans power_less_imp_less_exp one_less_numeral_iff semiring_norm(76))

fun isqrt :: "nat \<Rightarrow> nat" where
  "isqrt n =
     (if n = 0 then 0
      else let r = 2 * isqrt (n div 4) in if (r + 1) * (r + 1) \<le> n then r + 1 else r)"

declare isqrt.simps [simp del]

lemma isqrt_bounds: "isqrt n * isqrt n \<le> n \<and> n < (isqrt n + 1) * (isqrt n + 1)"
proof (induction n rule: isqrt.induct)
  case (1 n)
  show ?case
  proof (cases "n = 0")
    case False
    define r where "r = isqrt (n div 4)"
    from 1 [OF False] have IH: "r * r \<le> n div 4" "n div 4 < (r + 1) * (r + 1)"
      by (simp_all add: r_def)
    have "4 * (n div 4) \<le> n" "n < 4 * (n div 4) + 4"
      by simp_all
    moreover have "4 * (n div 4) + 4 \<le> 4 * ((r + 1) * (r + 1))"
      using IH(2) by linarith
    ultimately have b: "4 * (r * r) \<le> n" "n < 4 * ((r + 1) * (r + 1))"
      using IH(1) by linarith+
    have s: "isqrt n = (if (2 * r + 1) * (2 * r + 1) \<le> n then 2 * r + 1 else 2 * r)"
      using False by (subst isqrt.simps) (simp add: r_def Let_def)
    show ?thesis
      unfolding s using b by (auto simp: algebra_simps)
  qed (simp add: isqrt.simps)
qed

lemma square_less_cancel: "a * a < (b + 1) * (b + 1) \<Longrightarrow> a \<le> (b :: nat)"
proof (rule ccontr)
  assume "a * a < (b + 1) * (b + 1)" and "\<not> a \<le> b"
  then have "b + 1 \<le> a"
    by simp
  from mult_le_mono [OF this this] \<open>a * a < _\<close> show False
    by simp
qed

lemma isqrt_ge_iff: "k \<le> isqrt n \<longleftrightarrow> k * k \<le> n"
proof
  assume "k \<le> isqrt n"
  then have "k * k \<le> isqrt n * isqrt n"
    by (simp add: mult_le_mono)
  with isqrt_bounds [of n] show "k * k \<le> n"
    by linarith
next
  assume "k * k \<le> n"
  then have "k * k < (isqrt n + 1) * (isqrt n + 1)"
    using isqrt_bounds [of n] by linarith
  then show "k \<le> isqrt n"
    by (rule square_less_cancel)
qed

lemma isqrt_square [simp]: "isqrt (k * k) = k"
proof (rule antisym)
  have "isqrt (k * k) * isqrt (k * k) < (k + 1) * (k + 1)"
    using isqrt_bounds [of "k * k"] by simp
  then show "isqrt (k * k) \<le> k"
    by (rule square_less_cancel)
  show "k \<le> isqrt (k * k)"
    by (simp add: isqrt_ge_iff)
qed

section \<open>Rounding\<close>

text \<open>
  The value \<open>(m + d) * 2 ^ e\<close> with \<open>0 < d < 1\<close> if \<open>sticky\<close> and \<open>d = 0\<close> otherwise, to 24 bits and
  an exponent of at least \<open>-149\<close>.
\<close>

definition rounded :: "bool \<Rightarrow> nat \<Rightarrow> int \<Rightarrow> bool \<Rightarrow> fp" where
  "rounded s m e sticky =
     (let sh = nat (max (int (bitlen m) - 24) (-149 - e));
          q = m div 2 ^ sh; r = m mod 2 ^ sh; half = 2 ^ (sh - 1);
          up = (sh \<noteq> 0 \<and> (half < r \<or> r = half \<and> (sticky \<or> odd q)));
          q' = (if up then q + 1 else q); e' = e + int sh
      in if q' \<noteq> 0 \<and> 128 < int (bitlen q') + e' then Infinite s else Finite s q' e')"

definition fp_of_int :: "int \<Rightarrow> fp" where
  "fp_of_int i = rounded (i < 0) (nat (abs i)) 0 False"

text \<open>The bits of an \<^verbatim>\<open>f32\<close>.\<close>

definition fp_of_bits :: "f32 \<Rightarrow> fp" where
  "fp_of_bits v =
     (let n = unat v; s = (2147483648 \<le> n); e = n div 8388608 mod 256; m = n mod 8388608
      in if e = 255 then (if m = 0 then Infinite s else NaN)
         else if e = 0 then Finite s m (-149)
         else Finite s (8388608 + m) (int e - 150))"

section \<open>Operations\<close>

fun fp_neg :: "fp \<Rightarrow> fp" where
  "fp_neg NaN = NaN"
| "fp_neg (Infinite s) = Infinite (\<not> s)"
| "fp_neg (Finite s m e) = Finite (\<not> s) m e"

fun fp_sqrt :: "fp \<Rightarrow> fp" where
  "fp_sqrt NaN = NaN"
| "fp_sqrt (Infinite s) = (if s then NaN else Infinite False)"
| "fp_sqrt (Finite s m e) =
     (if m = 0 then Finite s 0 e
      else if s then NaN
      else let (m', e') = (if even e then (m, e) else (2 * m, e - 1)); n = m' * 4 ^ 26; r = isqrt n
           in rounded False r (e' div 2 - 26) (r * r \<noteq> n))"

fun fp_mul :: "fp \<Rightarrow> fp \<Rightarrow> fp" where
  "fp_mul (Finite s m e) (Finite s' m' e') = rounded (s \<noteq> s') (m * m') (e + e') False"
| "fp_mul (Infinite s) (Finite s' m e) = (if m = 0 then NaN else Infinite (s \<noteq> s'))"
| "fp_mul (Finite s m e) (Infinite s') = (if m = 0 then NaN else Infinite (s \<noteq> s'))"
| "fp_mul (Infinite s) (Infinite s') = Infinite (s \<noteq> s')"
| "fp_mul _ _ = NaN"

definition signed_int :: "bool \<Rightarrow> nat \<Rightarrow> int" where
  "signed_int s m = (if s then - int m else int m)"

fun fp_add :: "fp \<Rightarrow> fp \<Rightarrow> fp" where
  "fp_add (Finite s m e) (Finite s' m' e') =
     (let b = min e e'; i = signed_int s m * 2 ^ nat (e - b) + signed_int s' m' * 2 ^ nat (e' - b)
      in rounded (if i = 0 then s \<and> s' else i < 0) (nat (abs i)) b False)"
| "fp_add (Infinite s) (Finite _ _ _) = Infinite s"
| "fp_add (Finite _ _ _) (Infinite s) = Infinite s"
| "fp_add (Infinite s) (Infinite s') = (if s = s' then Infinite s else NaN)"
| "fp_add _ _ = NaN"

definition fp_sub :: "fp \<Rightarrow> fp \<Rightarrow> fp" where
  "fp_sub x y = fp_add x (fp_neg y)"

fun fp_is_zero :: "fp \<Rightarrow> bool" where
  "fp_is_zero (Finite s m e) = (m = 0)"
| "fp_is_zero _ = False"

text \<open>\<^verbatim>\<open>x >= 0.0\<close>\<close>

fun fp_nonneg :: "fp \<Rightarrow> bool" where
  "fp_nonneg NaN = False"
| "fp_nonneg (Infinite s) = (\<not> s)"
| "fp_nonneg (Finite s m e) = (\<not> s \<or> m = 0)"

text \<open>\<^verbatim>\<open>f32::round\<close>: to an integer, halves away from zero.\<close>

fun fp_round :: "fp \<Rightarrow> fp" where
  "fp_round (Finite s m e) =
     (if 0 \<le> e then Finite s m e
      else Finite s ((m + 2 ^ (nat (- e) - 1)) div 2 ^ nat (- e)) 0)"
| "fp_round x = x"

definition truncated :: "nat \<Rightarrow> int \<Rightarrow> nat" where
  "truncated m e = (if 0 \<le> e then m * 2 ^ nat e else m div 2 ^ nat (- e))"

fun fp_to_u32 :: "fp \<Rightarrow> u32" where
  "fp_to_u32 NaN = 0"
| "fp_to_u32 (Infinite s) = (if s then 0 else 4294967295)"
| "fp_to_u32 (Finite s m e) = (if s then 0 else of_nat (min (truncated m e) 4294967295))"

fun fp_to_i8 :: "fp \<Rightarrow> i8" where
  "fp_to_i8 NaN = 0"
| "fp_to_i8 (Infinite s) = of_int (if s then -128 else 127)"
| "fp_to_i8 (Finite s m e) = of_int (max (-128) (min 127 (signed_int s (truncated m e))))"

section \<open>Facts\<close>

lemma rounded_exact:
  assumes "m < 2 ^ 24" and "-149 \<le> e" and "e \<le> 104"
  shows "rounded s m e sticky = Finite s m e"
proof -
  have "bitlen m \<le> 24"
    using assms(1) by (rule bitlen_le)
  then show ?thesis
    using assms(2,3) by (simp add: rounded_def Let_def)
qed

end
