(* ===== verification/F32_Order.thy ===== *)
theory F32_Order
  imports F32 Complex_Main
begin

text \<open>
  The rounding of \<open>F32\<close> against the real numbers: \<open>rounded\<close> is the nearest number with the spacing
  of its binade, ties to even. From this follow the error of one operation, and that every
  operation is monotone in the order \<open>fp_le\<close> of the code's \<open><=\<close>.
\<close>

section \<open>Rounding a real number to an integer\<close>

definition rne :: "real \<Rightarrow> int" where
  "rne t =
     (let q = \<lfloor>t\<rfloor>; f = t - of_int q in if 1 / 2 < f \<or> f = 1 / 2 \<and> odd q then q + 1 else q)"

lemma rne_of_int [simp]: "rne (of_int i) = i"
  by (simp add: rne_def)

lemma rne_error: "abs (of_int (rne t) - t) \<le> 1 / 2"
proof -
  have "of_int \<lfloor>t\<rfloor> \<le> t" "t < of_int \<lfloor>t\<rfloor> + 1"
    by linarith+
  then show ?thesis
    by (auto simp: rne_def Let_def abs_le_iff)
qed

lemma rne_mono: "t \<le> u \<Longrightarrow> rne t \<le> rne u"
proof -
  assume le: "t \<le> u"
  then have f: "\<lfloor>t\<rfloor> \<le> \<lfloor>u\<rfloor>"
    by (rule floor_mono)
  show ?thesis
  proof (cases "\<lfloor>t\<rfloor> = \<lfloor>u\<rfloor>")
    case True
    with le show ?thesis
      by (auto simp: rne_def Let_def)
  next
    case False
    with f have "\<lfloor>t\<rfloor> + 1 \<le> \<lfloor>u\<rfloor>"
      by simp
    moreover have "rne t \<le> \<lfloor>t\<rfloor> + 1" "\<lfloor>u\<rfloor> \<le> rne u"
      by (auto simp: rne_def Let_def)
    ultimately show ?thesis
      by simp
  qed
qed

lemma rne_ge: "of_int i \<le> t \<Longrightarrow> i \<le> rne t"
  using rne_mono [of "of_int i" t] by simp

lemma rne_le: "t \<le> of_int i \<Longrightarrow> rne t \<le> i"
  using rne_mono [of t "of_int i"] by simp

section \<open>The spacing of a number\<close>

lemma powi_le_iff [simp]: "(2 :: real) powi m \<le> 2 powi n \<longleftrightarrow> m \<le> n"
  using power_int_increasing [of m n "2 :: real"] power_int_strict_increasing [of n m "2 :: real"]
  by (cases "m \<le> n") auto

lemma powi_less_iff [simp]: "(2 :: real) powi m < 2 powi n \<longleftrightarrow> m < n"
  by (simp only: not_le [symmetric] powi_le_iff)

definition spacing :: "real \<Rightarrow> int \<Rightarrow> bool" where
  "spacing x E \<longleftrightarrow> -149 \<le> E \<and> x < 2 powi (E + 24) \<and> (E = -149 \<or> 2 powi (E + 23) \<le> x)"

definition nearest :: "real \<Rightarrow> int \<Rightarrow> real" where
  "nearest x E = of_int (rne (x / 2 powi E)) * 2 powi E"

lemma nearest_mono:
  assumes "x \<le> y" and "spacing x E" and "spacing y F" and "0 \<le> x"
  shows "nearest x E \<le> nearest y F"
proof (cases "F \<le> E")
  case True
  have "E = F"
  proof (rule ccontr)
    assume "E \<noteq> F"
    with True have "F + 24 \<le> E + 23" "E \<noteq> -149"
      using assms(3) unfolding spacing_def by linarith+
    have "y < 2 powi (F + 24)"
      using assms(3) by (simp add: spacing_def)
    also have "\<dots> \<le> 2 powi (E + 23)"
      using \<open>F + 24 \<le> E + 23\<close> by simp
    also have "\<dots> \<le> x"
      using assms(2) \<open>E \<noteq> -149\<close> by (simp add: spacing_def)
    finally show False
      using assms(1) by simp
  qed
  with assms(1) show ?thesis
    by (auto simp: nearest_def intro!: mult_right_mono rne_mono divide_right_mono)
next
  case False
  then have F: "F \<noteq> -149" "E + 24 \<le> F + 23"
    using assms(2) by (auto simp: spacing_def)
  have "x / 2 powi E \<le> of_int (2 ^ 24)"
    using assms(2) by (simp add: spacing_def power_int_add divide_simps)
  then have "rne (x / 2 powi E) \<le> 2 ^ 24"
    by (rule rne_le)
  then have "nearest x E \<le> of_int (2 ^ 24) * 2 powi E"
    unfolding nearest_def by (intro mult_right_mono) (simp_all only: of_int_le_iff zero_le_power_int)
  also have "\<dots> = 2 powi (E + 24)"
    by (simp add: power_int_add)
  also have "\<dots> \<le> 2 powi (F + 23)"
    using F(2) by (rule power_int_increasing) simp
  also have "\<dots> = of_int (2 ^ 23) * 2 powi F"
    by (simp add: power_int_add)
  also have "\<dots> \<le> nearest y F"
  proof -
    have "of_int (2 ^ 23) \<le> y / 2 powi F"
      using assms(3) F(1) by (simp add: spacing_def power_int_add divide_simps)
    then have "2 ^ 23 \<le> rne (y / 2 powi F)"
      by (rule rne_ge)
    then show ?thesis
      unfolding nearest_def by (intro mult_right_mono) (simp_all only: of_int_le_iff zero_le_power_int)
  qed
  finally show ?thesis .
qed

lemma nearest_error: "abs (nearest x E - x) \<le> 2 powi E / 2"
proof -
  have "nearest x E - x = (of_int (rne (x / 2 powi E)) - x / 2 powi E) * 2 powi E"
    by (simp add: nearest_def algebra_simps)
  then have "abs (nearest x E - x) = abs (of_int (rne (x / 2 powi E)) - x / 2 powi E) * 2 powi E"
    by (simp add: abs_mult)
  also have "\<dots> \<le> 1 / 2 * 2 powi E"
    using rne_error by (rule mult_right_mono) simp
  finally show ?thesis
    by simp
qed

lemma nearest_nonneg: "0 \<le> x \<Longrightarrow> 0 \<le> nearest x E"
  using rne_ge [of 0 "x / 2 powi E"] by (simp add: nearest_def)

section \<open>\<open>rounded\<close> is the nearest number\<close>

lemma bitlen_bounds:
  assumes "m \<noteq> 0"
  shows "2 ^ (bitlen m - 1) \<le> m" and "m < 2 ^ bitlen m"
proof -
  have "0 < bitlen m"
    using assms less_bitlen [of m] by (cases "bitlen m") auto
  then show "2 ^ (bitlen m - 1) \<le> m"
    using bitlen_le [of m "bitlen m - 1"] by (cases "m < 2 ^ (bitlen m - 1)") auto
qed (rule less_bitlen)

lemma bitlen_real:
  assumes "m \<noteq> 0" and "real m \<le> t" and "t < real m + 1"
  shows "2 powi (int (bitlen m) - 1) \<le> t" and "t < 2 powi int (bitlen m)"
proof -
  have L: "0 < bitlen m"
    using assms(1) less_bitlen [of m] by (cases "bitlen m") auto
  have "real (2 ^ (bitlen m - 1)) \<le> real m" "real (Suc m) \<le> real (2 ^ bitlen m)"
    using bitlen_bounds [OF assms(1)] by (simp_all only: of_nat_le_iff Suc_le_eq)
  moreover have "(2 :: real) powi (int (bitlen m) - 1) = real (2 ^ (bitlen m - 1))"
    using L by (simp add: power_int_def nat_diff_distrib)
  moreover have "(2 :: real) powi int (bitlen m) = real (2 ^ bitlen m)"
    by simp
  ultimately show "2 powi (int (bitlen m) - 1) \<le> t" "t < 2 powi int (bitlen m)"
    using order_trans [OF _ assms(2)] less_le_trans [OF assms(3)] by (simp_all only: of_nat_Suc add.commute)
qed

lemma spacing_unique:
  assumes "spacing x E" and "2 powi (k - 1) \<le> x" and "x < 2 powi k"
  shows "E = max (k - 24) (-149)"
proof -
  have "(2 :: real) powi (k - 1) < 2 powi (E + 24)"
    using assms(2) by (rule le_less_trans) (use assms(1) in \<open>simp add: spacing_def\<close>)
  then have "k - 1 < E + 24"
    unfolding powi_less_iff .
  moreover have "E + 23 < k" if "E \<noteq> -149"
  proof -
    have "(2 :: real) powi (E + 23) < 2 powi k"
      using assms(1) that assms(3) by (auto simp: spacing_def simp del: powi_less_iff intro: le_less_trans)
    then show ?thesis
      unfolding powi_less_iff .
  qed
  ultimately show ?thesis
    using assms(1) unfolding spacing_def by linarith
qed

lemma overflow_iff:
  "q \<noteq> 0 \<and> 128 < int (bitlen q) + E \<longleftrightarrow> 2 powi 128 \<le> real q * 2 powi E"
proof (cases "q = 0")
  case False
  have b: "2 powi (int (bitlen q) - 1) \<le> real q" "real q < 2 powi int (bitlen q)"
    using bitlen_real [OF False, of "real q"] by simp_all
  have e: "(2 :: real) powi 128 = 2 powi (128 - E) * 2 powi E"
    by (simp flip: power_int_add)
  show ?thesis
  proof (cases "128 < int (bitlen q) + E")
    case True
    then have "(2 :: real) powi (128 - E) \<le> 2 powi (int (bitlen q) - 1)"
      by simp
    with b(1) have "2 powi (128 - E) \<le> real q"
      by (rule order_trans [rotated])
    with True False show ?thesis
      unfolding e by (simp add: mult_right_mono)
  next
    case F: False
    then have "(2 :: real) powi int (bitlen q) \<le> 2 powi (128 - E)"
      unfolding powi_le_iff by linarith
    with b(2) have "real q < 2 powi (128 - E)"
      by (rule less_le_trans)
    with F show ?thesis
      unfolding e by (simp add: not_le mult_strict_right_mono)
  qed
qed simp

text \<open>
  \<open>t\<close> is the exact significand: \<open>m\<close> itself, or a number strictly between \<open>m\<close> and \<open>m + 1\<close>
  that \<open>sticky\<close> stands for.
\<close>

lemma rne_div:
  assumes "real m \<le> t" and "t < real m + 1" and "sticky \<longleftrightarrow> t \<noteq> real m" and "sticky \<Longrightarrow> sh \<noteq> 0"
  shows "rne (t / 2 ^ sh) =
    int (m div 2 ^ sh + (if sh \<noteq> 0 \<and> (2 ^ (sh - 1) < m mod 2 ^ sh \<or>
      m mod 2 ^ sh = 2 ^ (sh - 1) \<and> (sticky \<or> odd (m div 2 ^ sh))) then 1 else 0))"
proof -
  define q r d where "q = m div 2 ^ sh" and "r = m mod 2 ^ sh" and "d = t - real m"
  have "m = q * 2 ^ sh + r"
    unfolding q_def r_def by (rule div_mult_mod_eq [symmetric])
  then have m: "real m = real q * 2 ^ sh + real r"
    by (metis of_nat_add of_nat_mult of_nat_numeral of_nat_power)
  have "r < 2 ^ sh"
    by (simp add: r_def)
  then have "real (Suc r) \<le> real (2 ^ sh)"
    by (simp only: of_nat_le_iff Suc_le_eq)
  then have r: "real r + 1 \<le> 2 ^ sh"
    by simp
  have d: "0 \<le> d" "d < 1" "sticky \<longleftrightarrow> d \<noteq> 0"
    using assms by (simp_all add: d_def)
  have t: "t / 2 ^ sh = real q + (real r + d) / 2 ^ sh"
    by (simp add: d_def m field_simps)
  have f: "0 \<le> (real r + d) / 2 ^ sh" "(real r + d) / 2 ^ sh < 1"
    using r d by simp_all
  then have q: "\<lfloor>t / 2 ^ sh\<rfloor> = int q"
    unfolding t by (simp add: floor_unique)
  have up: "1 / 2 < (real r + d) / 2 ^ sh \<or> (real r + d) / 2 ^ sh = 1 / 2 \<and> odd q \<longleftrightarrow>
      sh \<noteq> 0 \<and> (2 ^ (sh - 1) < r \<or> r = 2 ^ (sh - 1) \<and> (sticky \<or> odd q))"
  proof (cases sh)
    case 0
    then have "r = 0"
      by (simp add: r_def)
    with 0 show ?thesis
      using assms(4) d(3) by auto
  next
    case (Suc k)
    have eq: "1 / 2 < (real r + d) / 2 ^ sh \<longleftrightarrow> 2 ^ k < real r + d"
      "(real r + d) / 2 ^ sh = 1 / 2 \<longleftrightarrow> real r + d = 2 ^ k"
      by (auto simp: Suc field_simps)
    consider "2 ^ k + 1 \<le> r" | "r = 2 ^ k" | "r + 1 \<le> 2 ^ k"
      by linarith
    then show ?thesis
    proof cases
      case 1
      then have "real (2 ^ k + 1) \<le> real r" "2 ^ k < r"
        by (simp_all only: of_nat_le_iff)
      with d show ?thesis
        unfolding eq by (simp add: Suc)
    next
      case 2
      with d show ?thesis
        unfolding eq by (auto simp: Suc)
    next
      case 3
      then have "real (r + 1) \<le> real (2 ^ k)" "\<not> 2 ^ k < r" "r \<noteq> 2 ^ k"
        by (simp_all only: of_nat_le_iff)
      with d show ?thesis
        unfolding eq by (simp add: Suc)
    qed
  qed
  have n: "rne (t / 2 ^ sh) = (if 1 / 2 < (real r + d) / 2 ^ sh \<or> (real r + d) / 2 ^ sh = 1 / 2 \<and> odd q
      then int q + 1 else int q)"
    unfolding rne_def Let_def q unfolding t by simp
  show ?thesis
    unfolding n up q_def [symmetric] r_def [symmetric] by simp
qed

lemma rounded_nearest:
  assumes "real m \<le> t" and "t < real m + 1" and "sticky \<longleftrightarrow> t \<noteq> real m" and "sticky \<Longrightarrow> 24 < bitlen m"
    and "spacing (t * 2 powi e) E"
  obtains q e' where "real q * 2 powi e' = nearest (t * 2 powi e) E"
    and "rounded s m e sticky =
      (if 2 powi 128 \<le> nearest (t * 2 powi e) E then Infinite s else Finite s q e')"
proof -
  define sh where "sh = nat (max (int (bitlen m) - 24) (-149 - e))"
  define q where "q = m div 2 ^ sh + (if sh \<noteq> 0 \<and> (2 ^ (sh - 1) < m mod 2 ^ sh \<or>
      m mod 2 ^ sh = 2 ^ (sh - 1) \<and> (sticky \<or> odd (m div 2 ^ sh))) then 1 else 0)"
  have sh: "sticky \<Longrightarrow> sh \<noteq> 0"
    using assms(4) by (simp add: sh_def)
  have q: "rne (t / 2 ^ sh) = int q"
    unfolding q_def using assms(1-3) sh by (rule rne_div)
  have r: "rounded s m e sticky =
      (if q \<noteq> 0 \<and> 128 < int (bitlen q) + (e + int sh) then Infinite s else Finite s q (e + int sh))"
  proof -
    have "(if sh \<noteq> 0 \<and> (2 ^ (sh - 1) < m mod 2 ^ sh \<or>
        m mod 2 ^ sh = 2 ^ (sh - 1) \<and> (sticky \<or> odd (m div 2 ^ sh))) then m div 2 ^ sh + 1 else m div 2 ^ sh) = q"
      by (simp add: q_def)
    then show ?thesis
      unfolding rounded_def Let_def sh_def [symmetric] by (simp only:)
  qed
  have v: "real q * 2 powi (e + int sh) = nearest (t * 2 powi e) E"
  proof (cases "m = 0")
    case True
    with assms(3,4) have "t = 0"
      by auto
    moreover from this have "q = 0"
      using q by (metis div_0 of_int_0 of_nat_0_eq_iff rne_of_int)
    ultimately show ?thesis
      using rne_of_int [of 0] by (simp add: nearest_def)
  next
    case False
    have "2 powi (int (bitlen m) + e - 1) \<le> t * 2 powi e"
    proof -
      have "2 powi (int (bitlen m) - 1) * 2 powi e \<le> t * 2 powi e"
        using bitlen_real(1) [OF False assms(1,2)] by (rule mult_right_mono) simp
      then show ?thesis
        by (simp flip: power_int_add add: algebra_simps)
    qed
    moreover have "t * 2 powi e < 2 powi (int (bitlen m) + e)"
    proof -
      have "t * 2 powi e < 2 powi int (bitlen m) * 2 powi e"
        using bitlen_real(2) [OF False assms(1,2)] by (rule mult_strict_right_mono) simp
      then show ?thesis
        by (simp add: power_int_add)
    qed
    ultimately have E: "E = max (int (bitlen m) + e - 24) (-149)"
      by (rule spacing_unique [OF assms(5)])
    show ?thesis
    proof (cases "e \<le> E")
      case True
      then have e: "e + int sh = E"
        using E by (auto simp: sh_def)
      have "t * 2 powi e / 2 powi E = t / 2 ^ sh"
        unfolding e [symmetric] by (simp add: power_int_add)
      then show ?thesis
        unfolding nearest_def e by (simp add: q)
    next
      case False
      then have s: "sh = 0"
        using E by (auto simp: sh_def)
      then have t: "t = real m"
        using sh assms(3) by blast
      have "q = m"
        by (simp add: q_def s)
      moreover have e: "(2 :: real) powi e = 2 ^ nat (e - E) * 2 powi E"
        using False by (simp flip: power_int_add power_int_of_nat)
      moreover have "t * 2 powi e / 2 powi E = of_int (int m * 2 ^ nat (e - E))"
        unfolding e by (simp add: t)
      ultimately show ?thesis
        unfolding nearest_def by (simp only: rne_of_int) (simp add: s)
    qed
  qed
  show ?thesis
    by (rule that [OF v]) (simp only: r overflow_iff v)
qed

lemma spacing_exists:
  assumes "real m \<le> t" and "t < real m + 1" and "m = 0 \<Longrightarrow> t = 0"
  obtains E where "spacing (t * 2 powi e) E" and "m = 0 \<or> E = max (int (bitlen m) + e - 24) (-149)"
proof (cases "m = 0")
  case True
  with assms(3) that [of "-149"] show ?thesis
    by (simp add: spacing_def)
next
  case False
  define E where "E = max (int (bitlen m) + e - 24) (-149)"
  have "t * 2 powi e < 2 powi int (bitlen m) * 2 powi e"
    using bitlen_real(2) [OF False assms(1,2)] by (rule mult_strict_right_mono) simp
  also have "\<dots> = 2 powi (int (bitlen m) + e)"
    by (simp add: power_int_add)
  also have "\<dots> \<le> 2 powi (E + 24)"
    unfolding powi_le_iff E_def by simp
  finally have "t * 2 powi e < 2 powi (E + 24)" .
  moreover have "2 powi (E + 23) \<le> t * 2 powi e" if "E \<noteq> -149"
  proof -
    have "E + 23 = int (bitlen m) - 1 + e"
      using that by (auto simp: E_def)
    then have "(2 :: real) powi (E + 23) = 2 powi (int (bitlen m) - 1) * 2 powi e"
      by (simp only: power_int_add [OF disjI1 [OF numeral_neq_zero]])
    also have "\<dots> \<le> t * 2 powi e"
      using bitlen_real(1) [OF False assms(1,2)] by (rule mult_right_mono) simp
    finally show ?thesis .
  qed
  moreover have "-149 \<le> E"
    by (simp add: E_def)
  ultimately have "spacing (t * 2 powi e) E"
    unfolding spacing_def by blast
  then show ?thesis
    by (rule that) (simp add: E_def)
qed

section \<open>Order\<close>

text \<open>\<^verbatim>\<open>x <= y\<close>; it is false when one of the two is not a number.\<close>

fun fp_le :: "fp \<Rightarrow> fp \<Rightarrow> bool" where
  "fp_le (Finite s m e) (Finite s' m' e') =
     (let b = min e e' in signed_int s m * 2 ^ nat (e - b) \<le> signed_int s' m' * 2 ^ nat (e' - b))"
| "fp_le (Infinite s) (Infinite s') = (s \<or> \<not> s')"
| "fp_le (Infinite s) (Finite _ _ _) = s"
| "fp_le (Finite _ _ _) (Infinite s) = (\<not> s)"
| "fp_le _ _ = False"

definition num :: "bool \<Rightarrow> nat \<Rightarrow> int \<Rightarrow> real" where
  "num s m e = of_int (signed_int s m) * 2 powi e"

lemma num_shift: "b \<le> e \<Longrightarrow> num s m e = of_int (signed_int s m * 2 ^ nat (e - b)) * 2 powi b"
proof -
  assume "b \<le> e"
  then have "(2 :: real) powi e = 2 ^ nat (e - b) * 2 powi b"
    by (simp flip: power_int_add power_int_of_nat)
  then show ?thesis
    by (simp add: num_def)
qed

lemma fp_le_Finite: "fp_le (Finite s m e) (Finite s' m' e') \<longleftrightarrow> num s m e \<le> num s' m' e'"
proof -
  define b where "b = min e e'"
  have "num s m e \<le> num s' m' e' \<longleftrightarrow>
      of_int (signed_int s m * 2 ^ nat (e - b)) * 2 powi b \<le> (of_int (signed_int s' m' * 2 ^ nat (e' - b)) * 2 powi b :: real)"
    unfolding b_def by (subst (1 2) num_shift [of b, unfolded b_def]) auto
  also have "\<dots> \<longleftrightarrow> signed_int s m * 2 ^ nat (e - b) \<le> signed_int s' m' * 2 ^ nat (e' - b)"
    by (simp only: mult_le_cancel_right_pos zero_less_power_int zero_less_numeral of_int_le_iff)
  finally show ?thesis
    by (simp add: b_def Let_def)
qed

lemma num_sign: "num s m e = (if s then - (real m * 2 powi e) else real m * 2 powi e)"
  by (simp add: num_def signed_int_def)

lemma opposite_signs:
  assumes "num False m e \<le> num True m' e'"
  shows "m = 0" and "m' = 0"
proof -
  have "real m * 2 powi e \<le> - (real m' * 2 powi e')"
    using assms by (simp only: num_sign if_True if_False)
  moreover have "0 \<le> real m * 2 powi e" "0 \<le> real m' * 2 powi e'"
    by simp_all
  ultimately have "real m * 2 powi e = 0" "real m' * 2 powi e' = 0"
    by linarith+
  then show "m = 0" and "m' = 0"
    by simp_all
qed

lemma rounded_le:
  assumes "num s m e \<le> num s' m' e'"
  shows "fp_le (rounded s m e False) (rounded s' m' e' False)"
proof -
  obtain E where E: "spacing (real m * 2 powi e) E"
    by (rule spacing_exists [of m "real m" e]) auto
  obtain E' where E': "spacing (real m' * 2 powi e') E'"
    by (rule spacing_exists [of m' "real m'" e']) auto
  define N N' where "N = nearest (real m * 2 powi e) E" and "N' = nearest (real m' * 2 powi e') E'"
  obtain q f where r: "real q * 2 powi f = N"
    "rounded s m e False = (if 2 powi 128 \<le> N then Infinite s else Finite s q f)"
    unfolding N_def by (rule rounded_nearest [OF _ _ _ _ E, where sticky = False and s = s]) auto
  obtain q' f' where r': "real q' * 2 powi f' = N'"
    "rounded s' m' e' False = (if 2 powi 128 \<le> N' then Infinite s' else Finite s' q' f')"
    unfolding N'_def by (rule rounded_nearest [OF _ _ _ _ E', where sticky = False and s = s']) auto
  have x: "0 \<le> real m * 2 powi e" "0 \<le> real m' * 2 powi e'"
    by simp_all
  have N: "0 \<le> N" "0 \<le> N'"
    unfolding N_def N'_def by (simp_all add: nearest_nonneg)
  have v: "num t q f = (if t then - N else N)" "num t q' f' = (if t then - N' else N')" for t
    by (simp_all add: num_sign r(1) r'(1))
  consider "\<not> s" "\<not> s'" "N \<le> N'" | "s" "s'" "N' \<le> N" | "s" "\<not> s'" | "\<not> s" "s'" "N = 0" "N' = 0"
  proof (cases s; cases s')
    assume "\<not> s" "\<not> s'"
    moreover from this have "N \<le> N'"
      using assms x unfolding N_def N'_def by (intro nearest_mono [OF _ E E']) (simp_all add: num_sign)
    ultimately show ?thesis
      using that(1) by blast
  next
    assume "s" "s'"
    moreover from this have "N' \<le> N"
      using assms x unfolding N_def N'_def by (intro nearest_mono [OF _ E' E]) (simp_all add: num_sign)
    ultimately show ?thesis
      using that(2) by blast
  next
    assume "\<not> s" "s'"
    moreover from this have "m = 0" "m' = 0"
      using opposite_signs [of m e m' e'] assms by simp_all
    then have "N = 0" "N' = 0"
      unfolding N_def N'_def nearest_def using rne_of_int [of 0] by simp_all
    ultimately show ?thesis
      using that(4) by blast
  qed (use that(3) in blast)
  then show ?thesis
    unfolding r(2) r'(2)
    by cases (use N in \<open>auto simp: fp_le_Finite v simp del: fp_le.simps(1)\<close>)
qed

lemma rounded_not_NaN: "fp_le (Infinite True) (rounded s m e False)" "fp_le (rounded s m e False) (Infinite False)"
  by (simp_all add: rounded_def Let_def)

section \<open>Monotone operations\<close>

lemma fp_neg_le: "fp_le a b \<Longrightarrow> fp_le (fp_neg b) (fp_neg a)"
  by (cases a; cases b) (auto simp: fp_le_Finite num_sign simp del: fp_le.simps(1))

lemma fp_mul_le:
  assumes "c \<noteq> 0" and "fp_le a b"
  shows "fp_le (fp_mul (Finite False c k) a) (fp_mul (Finite False c k) b)"
proof (cases a; cases b)
  fix s m e s' m' e'
  assume ab: "a = Finite s m e" "b = Finite s' m' e'"
  have "num s (c * m) (k + e) = real c * 2 powi k * num s m e" for s m e
    by (simp add: num_sign power_int_add)
  moreover have "real c * 2 powi k * num s m e \<le> real c * 2 powi k * num s' m' e'"
    using assms(2) by (intro mult_left_mono) (simp_all add: ab fp_le_Finite del: fp_le.simps(1))
  ultimately show ?thesis
    by (simp add: ab rounded_le)
qed (use assms in \<open>auto simp: rounded_not_NaN\<close>)

lemma fp_add_rounded:
  obtains sg n b where "fp_add (Finite s m e) (Finite s' m' e') = rounded sg n b False"
    and "num sg n b = num s m e + num s' m' e'"
proof -
  define b where "b = min e e'"
  define i where "i = signed_int s m * 2 ^ nat (e - b) + signed_int s' m' * 2 ^ nat (e' - b)"
  define sg where "sg = (if i = 0 then s \<and> s' else i < 0)"
  have "b \<le> e" "b \<le> e'"
    by (simp_all add: b_def)
  then have "num s m e + num s' m' e' = of_int i * 2 powi b"
    by (simp only: num_shift [of b e] num_shift [of b e'] i_def of_int_add distrib_right)
  moreover have "signed_int sg (nat (abs i)) = i"
    by (auto simp: signed_int_def sg_def)
  ultimately have "num sg (nat (abs i)) b = num s m e + num s' m' e'"
    by (simp only: num_def)
  moreover have "fp_add (Finite s m e) (Finite s' m' e') = rounded sg (nat (abs i)) b False"
    unfolding sg_def i_def b_def by (simp only: fp_add.simps Let_def)
  ultimately show ?thesis
    using that by blast
qed

lemma fp_add_le:
  assumes "fp_le a b"
  shows "fp_le (fp_add (Finite s m e) a) (fp_add (Finite s m e) b)"
    and "fp_le (fp_add a (Finite s m e)) (fp_add b (Finite s m e))"
proof -
  have nan: "fp_le (Infinite True) (fp_add (Finite s m e) (Finite s' m' e'))"
    "fp_le (fp_add (Finite s m e) (Finite s' m' e')) (Infinite False)" for s m e s' m' e'
    by (rule fp_add_rounded [of s m e s' m' e'], simp add: rounded_not_NaN)+
  have "fp_le (fp_add (Finite s m e) a) (fp_add (Finite s m e) b) \<and>
    fp_le (fp_add a (Finite s m e)) (fp_add b (Finite s m e))"
  proof (cases a; cases b)
    fix t n f t' n' f'
    assume ab: "a = Finite t n f" "b = Finite t' n' f'"
    then have le: "num t n f \<le> num t' n' f'"
      using assms by (simp only: fp_le_Finite)
    show ?thesis
      unfolding ab
      by (rule fp_add_rounded [of s m e t n f], rule fp_add_rounded [of s m e t' n' f'],
        rule fp_add_rounded [of t n f s m e], rule fp_add_rounded [of t' n' f' s m e])
        (use le in \<open>simp add: rounded_le\<close>)
  qed (use assms nan in \<open>auto simp del: fp_add.simps(1)\<close>)
  then show "fp_le (fp_add (Finite s m e) a) (fp_add (Finite s m e) b)"
    and "fp_le (fp_add a (Finite s m e)) (fp_add b (Finite s m e))"
    by simp_all
qed

lemma truncated_floor: "int (truncated m e) = \<lfloor>real m * 2 powi e\<rfloor>"
proof (cases "0 \<le> e")
  case True
  then have "real m * 2 powi e = of_int (int (m * 2 ^ nat e))"
    by (simp add: power_int_def)
  then show ?thesis
    using True by (simp only: floor_of_int truncated_def if_True)
next
  case False
  then have "real m * 2 powi e = real m / real (2 ^ nat (- e))"
    by (simp add: power_int_def field_simps)
  then show ?thesis
    using False by (simp only: floor_divide_of_nat_eq truncated_def if_False)
qed

lemma signed_truncated_mono:
  assumes "num s m e \<le> num s' m' e'"
  shows "signed_int s (truncated m e) \<le> signed_int s' (truncated m' e')"
proof (cases s; cases s')
  assume s: "\<not> s" "s'"
  then have "m = 0" "m' = 0"
    using opposite_signs [of m e m' e'] assms by simp_all
  with s show ?thesis
    by (simp add: signed_int_def truncated_def)
next
  assume "s" "\<not> s'"
  then show ?thesis
    by (simp add: signed_int_def)
qed (use assms in \<open>simp_all add: signed_int_def truncated_floor num_sign floor_mono\<close>)

lemma sint_i8:
  assumes "-128 \<le> k" and "k \<le> 127"
  shows "sint (of_int k :: i8) = k"
proof -
  have "signed_take_bit 7 k = k"
    by (rule signed_take_bit_int_eq_self) (use assms in simp_all)
  then show ?thesis
    by (simp add: signed_of_int)
qed

lemma fp_to_i8_mono: "fp_le a b \<Longrightarrow> sint (fp_to_i8 a) \<le> sint (fp_to_i8 b)"
proof (cases a; cases b)
  fix s m e s' m' e'
  assume "fp_le a b" and ab: "a = Finite s m e" "b = Finite s' m' e'"
  then have "signed_int s (truncated m e) \<le> signed_int s' (truncated m' e')"
    by (intro signed_truncated_mono) (simp only: fp_le_Finite)
  then show ?thesis
    unfolding ab fp_to_i8.simps by (subst (1 2) sint_i8) auto
qed (auto simp: sint_i8 sint_i8 [of 127, simplified] sint_i8 [of "-128", simplified])

section \<open>The order of the bits\<close>

lemma bits_le:
  assumes "n \<le> n'" and "n' < 0x7F800000"
  defines "sig \<equiv> \<lambda>k. (if k div 8388608 = 0 then k mod 8388608 else 8388608 + k mod 8388608 :: nat)"
    and "ex \<equiv> \<lambda>k. (if k div 8388608 = 0 then -149 else int (k div 8388608) - 150)"
  shows "num False (sig n) (ex n) \<le> num False (sig n') (ex n')"
proof (cases "n div 8388608 = n' div 8388608")
  case True
  moreover from this have "n mod 8388608 \<le> n' mod 8388608"
    using assms(1) div_mult_mod_eq [of n 8388608] div_mult_mod_eq [of n' 8388608] True by linarith
  ultimately show ?thesis
    using assms(1) by (simp add: num_sign sig_def ex_def)
next
  case False
  moreover have "n div 8388608 \<le> n' div 8388608"
    using assms(1) by (rule div_le_mono)
  ultimately have lt: "n div 8388608 < n' div 8388608"
    by simp
  define k where "k = ex n' - ex n"
  have k: "0 \<le> k" "ex n' = k + ex n"
    using lt by (auto simp: k_def ex_def)
  have "sig n \<le> 8388608 * 2 ^ nat k"
  proof (cases "n div 8388608 = 0")
    case True
    then have "sig n \<le> 8388608"
      by (simp add: sig_def)
    also have "\<dots> \<le> 8388608 * 2 ^ nat k"
      by simp
    finally show ?thesis .
  next
    case nz: False
    then have "1 \<le> nat k"
      using lt by (auto simp: k_def ex_def)
    then have "(2 :: nat) ^ 1 \<le> 2 ^ nat k"
      by (intro power_increasing) simp_all
    moreover have "sig n \<le> 8388608 * 2 ^ 1"
      using nz by (simp add: sig_def)
    ultimately show ?thesis
      by (meson le_trans mult_le_mono2)
  qed
  then have "real (sig n) \<le> real (8388608 * 2 ^ nat k)"
    by (simp only: of_nat_le_iff)
  also have "\<dots> = 8388608 * 2 powi k"
    using k(1) by (simp add: power_int_def)
  also have "\<dots> \<le> real (sig n') * 2 powi k"
    using lt by (intro mult_right_mono) (simp_all add: sig_def)
  finally have "real (sig n) * 2 powi ex n \<le> real (sig n') * 2 powi k * 2 powi ex n"
    by (rule mult_right_mono) simp
  then show ?thesis
    by (simp add: num_sign k(2) power_int_add)
qed

lemma fp_of_bits_finite:
  assumes "unat x < 0x7F800000"
  shows "fp_of_bits x =
    Finite False (if unat x div 8388608 = 0 then unat x mod 8388608 else 8388608 + unat x mod 8388608)
      (if unat x div 8388608 = 0 then -149 else int (unat x div 8388608) - 150)"
proof -
  have "unat x div 8388608 < 255"
    using assms by (simp add: div_less_iff_less_mult)
  then show ?thesis
    using assms by (simp add: fp_of_bits_def Let_def)
qed

lemma fp_of_bits_le:
  assumes "x \<le> y" and "y \<le> 0x7F800000"
  shows "fp_le (fp_of_bits x) (fp_of_bits y)"
proof -
  have le: "unat x \<le> unat y" "unat y \<le> 0x7F800000"
    using assms by (simp_all add: word_le_nat_alt)
  have inf: "fp_of_bits 0x7F800000 = Infinite False"
    by (simp add: fp_of_bits_def)
  show ?thesis
  proof (cases "y = 0x7F800000")
    case True
    show ?thesis
    proof (cases "x = 0x7F800000")
      case False
      then have "unat x \<noteq> 0x7F800000"
        by (simp add: word_unat_eq_iff)
      with le have "unat x < 0x7F800000"
        by simp
      then show ?thesis
        by (simp add: True inf fp_of_bits_finite)
    qed (simp add: True inf)
  next
    case False
    then have "unat y \<noteq> 0x7F800000"
      by (simp add: word_unat_eq_iff)
    with le have fin: "unat y < 0x7F800000" "unat x < 0x7F800000"
      by simp_all
    show ?thesis
      unfolding fp_of_bits_finite [OF fin(1)] fp_of_bits_finite [OF fin(2)] fp_le_Finite
      using le(1) fin(1) by (rule bits_le)
  qed
qed

section \<open>Square roots\<close>

lemma isqrt_real:
  "real (isqrt n) \<le> sqrt (real n)" "sqrt (real n) < real (isqrt n) + 1"
  "isqrt n * isqrt n \<noteq> n \<longleftrightarrow> sqrt (real n) \<noteq> real (isqrt n)"
proof -
  have "real (isqrt n * isqrt n) \<le> real n" "real n < real ((isqrt n + 1) * (isqrt n + 1))"
    using isqrt_bounds [of n] by (simp_all only: of_nat_le_iff of_nat_less_iff)
  then show "real (isqrt n) \<le> sqrt (real n)" "sqrt (real n) < real (isqrt n) + 1"
    by (intro real_le_rsqrt real_less_lsqrt; simp add: power2_eq_square algebra_simps)+
  show "isqrt n * isqrt n \<noteq> n \<longleftrightarrow> sqrt (real n) \<noteq> real (isqrt n)"
  proof
    assume *: "isqrt n * isqrt n \<noteq> n"
    show "sqrt (real n) \<noteq> real (isqrt n)"
    proof
      assume "sqrt (real n) = real (isqrt n)"
      then have "real n = real (isqrt n) * real (isqrt n)"
        by (metis abs_of_nat real_sqrt_mult_self)
      then have "n = isqrt n * isqrt n"
        by (metis of_nat_eq_iff of_nat_mult)
      with * show False
        by simp
    qed
  next
    assume "sqrt (real n) \<noteq> real (isqrt n)"
    then show "isqrt n * isqrt n \<noteq> n"
      by (metis abs_of_nat of_nat_mult real_sqrt_abs2)
  qed
qed

lemma sqrt_nearest:
  assumes "m \<noteq> 0"
  obtains q f E where "spacing (sqrt (real m * 2 powi e)) E"
    and "real q * 2 powi f = nearest (sqrt (real m * 2 powi e)) E"
    and "fp_sqrt (Finite False m e) =
      (if 2 powi 128 \<le> nearest (sqrt (real m * 2 powi e)) E then Infinite False else Finite False q f)"
proof -
  define m' e' where "m' = (if even e then m else 2 * m)" and "e' = (if even e then e else e - 1)"
  define n where "n = m' * 4 ^ 26"
  have m': "1 \<le> m'" and even: "even e'"
    using assms by (simp_all add: m'_def e'_def)
  have "2 ^ 26 \<le> isqrt n"
    unfolding isqrt_ge_iff n_def using m' by simp
  then have len: "24 < bitlen (isqrt n)"
    using bitlen_greater [of 26 "isqrt n"] by simp
  have val: "sqrt (real n) * 2 powi (e' div 2 - 26) = sqrt (real m * 2 powi e)"
  proof -
    have two: "(2 :: real) powi e = 2 * 2 powi (e - 1)"
      using power_int_add [of "2 :: real" 1 "e - 1"] by simp
    have "real m' * 2 powi e' = real m * 2 powi e"
    proof (cases "even e")
      case False
      then show ?thesis
        unfolding two by (simp add: m'_def e'_def)
    qed (simp add: m'_def e'_def)
    moreover have "(2 :: real) powi e' = (2 powi (e' div 2)) * (2 powi (e' div 2))"
    proof -
      have "e' = e' div 2 + e' div 2"
        using even by auto
      then show ?thesis
        by (metis power_int_add zero_neq_numeral)
    qed
    ultimately have "real m * 2 powi e = real m' * (2 powi (e' div 2) * 2 powi (e' div 2))"
      by simp
    then have "sqrt (real m * 2 powi e) = sqrt (real m') * 2 powi (e' div 2)"
      by (simp only: real_sqrt_mult real_sqrt_mult_self) simp
    moreover have "sqrt (real n) = sqrt (real m') * 2 ^ 26"
      by (simp add: n_def real_sqrt_mult real_sqrt_power)
    ultimately show ?thesis
      by (simp add: power_int_diff)
  qed
  obtain E where E: "spacing (sqrt (real n) * 2 powi (e' div 2 - 26)) E"
    by (rule spacing_exists [OF isqrt_real(1,2) [of n]]) (use len in auto)
  obtain q f where "real q * 2 powi f = nearest (sqrt (real n) * 2 powi (e' div 2 - 26)) E"
    and "rounded False (isqrt n) (e' div 2 - 26) (isqrt n * isqrt n \<noteq> n) =
      (if 2 powi 128 \<le> nearest (sqrt (real n) * 2 powi (e' div 2 - 26)) E then Infinite False else Finite False q f)"
    by (rule rounded_nearest [OF isqrt_real(1-3) [of n] len E])
  moreover have "fp_sqrt (Finite False m e) = rounded False (isqrt n) (e' div 2 - 26) (isqrt n * isqrt n \<noteq> n)"
    using assms by (simp add: Let_def n_def m'_def e'_def)
  ultimately show ?thesis
    using that E unfolding val by metis
qed

text \<open>\<^verbatim>\<open>x.round() as u32\<close>\<close>

lemma round_to_u32:
  "fp_to_u32 (fp_round (Finite False q f)) = of_nat (min (nat \<lfloor>real q * 2 powi f + 1 / 2\<rfloor>) 4294967295)"
proof (cases "0 \<le> f")
  case True
  then have "real q * 2 powi f = of_int (int (q * 2 ^ nat f))"
    by (simp add: power_int_def)
  moreover have "\<lfloor>of_int i + 1 / 2 :: real\<rfloor> = i" for i
    by linarith
  ultimately have "nat \<lfloor>real q * 2 powi f + 1 / 2\<rfloor> = q * 2 ^ nat f"
    by (simp only: nat_int)
  then show ?thesis
    using True by (simp add: truncated_def)
next
  case False
  define k where "k = nat (- f)"
  obtain j where k: "k = Suc j"
    using False by (cases k) (auto simp: k_def)
  have "(2 :: real) powi f = 1 / 2 ^ k"
    using False by (simp add: power_int_def k_def field_simps)
  then have "real q * 2 powi f + 1 / 2 = real (q + 2 ^ (k - 1)) / real (2 ^ k)"
    by (simp add: k field_simps)
  then have "\<lfloor>real q * 2 powi f + 1 / 2\<rfloor> = int ((q + 2 ^ (k - 1)) div 2 ^ k)"
    by (simp only: floor_divide_of_nat_eq)
  then show ?thesis
    using False by (simp add: truncated_def k_def)
qed

lemma sqrt_close:
  assumes "0 < x" and "0 \<le> a" and "abs (a - x) \<le> x * c"
  shows "abs (sqrt a - sqrt x) \<le> sqrt x * c"
proof -
  have s: "0 < sqrt x" "0 \<le> sqrt a"
    using assms(1) assms(2) by simp_all
  have "a - x = (sqrt a - sqrt x) * (sqrt a + sqrt x)"
    using assms(1) assms(2) by (simp add: algebra_simps)
  then have "abs (sqrt a - sqrt x) * (sqrt a + sqrt x) \<le> x * c"
    using assms(3) s by (simp add: abs_mult)
  moreover have "abs (sqrt a - sqrt x) * sqrt x \<le> abs (sqrt a - sqrt x) * (sqrt a + sqrt x)"
    using s by (intro mult_left_mono) simp_all
  moreover have "x * c = sqrt x * c * sqrt x"
    using assms(1) by simp
  ultimately have "abs (sqrt a - sqrt x) * sqrt x \<le> sqrt x * c * sqrt x"
    by linarith
  with s(1) show ?thesis
    by (simp only: mult_le_cancel_right_pos)
qed

text \<open>The root of a 31-bit number as the code computes it is the nearest integer, up to a hundredth.\<close>

lemma root_accurate:
  assumes "n < 2 ^ 31"
  obtains d where "fp_to_u32 (fp_round (fp_sqrt (fp_of_int (int n)))) = of_nat d"
    and "abs (real d - sqrt (real n)) < 51 / 100"
proof (cases "n = 0")
  case True
  show ?thesis
    by (rule that [of 0]) (simp_all add: True fp_of_int_def rounded_exact truncated_def)
next
  case False
  obtain E where E: "spacing (real n * 2 powi 0) E" "E = max (int (bitlen n) - 24) (-149)"
    by (rule spacing_exists [of n "real n" 0]) (use False in auto)
  define a where "a = nearest (real n) E"
  obtain q f where a: "real q * 2 powi f = a"
    "rounded False n 0 False = (if 2 powi 128 \<le> a then Infinite False else Finite False q f)"
    unfolding a_def
    by (rule rounded_nearest [OF _ _ _ _ E(1), where sticky = False and s = False]) auto
  have n: "1 \<le> real n" "real n \<le> 2 ^ 31"
    using False assms by simp_all
  have "bitlen n \<noteq> 0"
    using False less_bitlen [of n] by (cases "bitlen n") auto
  then have "int (bitlen n) - 1 = E + 23"
    using E(2) by simp
  then have "(2 :: real) powi E = 2 powi (int (bitlen n) - 1) / 2 ^ 23"
    by (simp only: power_int_add zero_neq_numeral [symmetric] simp_thms) simp
  also have "\<dots> \<le> real n / 2 ^ 23"
    using bitlen_real(1) [OF False, of "real n"] by (simp add: divide_right_mono)
  finally have err: "abs (a - real n) \<le> real n * (1 / 2 ^ 24)"
    using nearest_error [of "real n" E] by (simp add: a_def)
  then have "a - real n \<le> real n / 16777216" "real n - a \<le> real n / 16777216"
    by (simp_all only: abs_le_iff) simp_all
  then have "real n / 2 \<le> a" "a \<le> 2 * real n"
    using n(1) by linarith+
  with n have a_bounds: "0 < a" "a < 2 ^ 34"
    by simp_all
  then have int: "fp_of_int (int n) = Finite False q f"
    using a by (auto simp: fp_of_int_def)
  have "q \<noteq> 0"
    using a(1) a_bounds(1) by (cases "q = 0") auto
  have root: "sqrt (real n) \<le> 65536"
    using n by (intro real_le_lsqrt) simp_all
  then have close: "abs (sqrt a - sqrt (real n)) \<le> 65536 * (1 / 2 ^ 24)"
    using sqrt_close [OF _ _ err] n(1) a_bounds(1)
    by (intro order_trans [OF _ mult_right_mono [OF root, of "1 / 2 ^ 24"]]) simp_all
  obtain q' f' F where F: "spacing (sqrt a) F" "real q' * 2 powi f' = nearest (sqrt a) F"
    "fp_sqrt (Finite False q f) = (if 2 powi 128 \<le> nearest (sqrt a) F then Infinite False else Finite False q' f')"
    by (rule sqrt_nearest [OF \<open>q \<noteq> 0\<close>, of f, unfolded a(1)])
  define v where "v = nearest (sqrt a) F"
  have "sqrt a < 2 powi 17"
    by (rule real_less_lsqrt) (use a_bounds in simp_all)
  then have "F \<noteq> -149 \<Longrightarrow> (2 :: real) powi (F + 23) < 2 powi 17"
    using F(1) unfolding spacing_def by linarith
  then have "F \<le> -7"
    unfolding powi_less_iff by linarith
  then have "(2 :: real) powi F \<le> 2 powi (-7)"
    unfolding powi_le_iff .
  then have "abs (v - sqrt a) \<le> 1 / 2 ^ 8"
    using nearest_error [of "sqrt a" F] by (simp add: v_def power_int_minus)
  moreover have "abs (v - sqrt (real n)) \<le> abs (v - sqrt a) + abs (sqrt a - sqrt (real n))"
    using abs_triangle_ineq [of "v - sqrt a" "sqrt a - sqrt (real n)"] by simp
  ultimately have v: "abs (v - sqrt (real n)) < 1 / 100"
    using close by simp
  then have v': "v - sqrt (real n) < 1 / 100" "sqrt (real n) - v < 1 / 100"
    unfolding abs_less_iff by linarith+
  have "0 \<le> v"
    unfolding v_def using a_bounds by (intro nearest_nonneg) simp
  have "v < 131072"
    using v'(1) root by linarith
  then have "fp_sqrt (fp_of_int (int n)) = Finite False q' f'"
    using F(3) by (simp add: int v_def)
  then have r: "fp_to_u32 (fp_round (fp_sqrt (fp_of_int (int n)))) = of_nat (min (nat \<lfloor>v + 1 / 2\<rfloor>) 4294967295)"
    by (simp only: round_to_u32 F(2) v_def)
  have fl: "0 \<le> \<lfloor>v + 1 / 2\<rfloor>" "\<lfloor>v + 1 / 2\<rfloor> \<le> 131072"
    using \<open>0 \<le> v\<close> \<open>v < 131072\<close> by linarith+
  then have "min (nat \<lfloor>v + 1 / 2\<rfloor>) 4294967295 = nat \<lfloor>v + 1 / 2\<rfloor>"
    by (intro min.absorb1) linarith
  moreover have "abs (real (nat \<lfloor>v + 1 / 2\<rfloor>) - sqrt (real n)) < 51 / 100"
  proof -
    have "real (nat \<lfloor>v + 1 / 2\<rfloor>) = of_int \<lfloor>v + 1 / 2\<rfloor>"
      using fl(1) by simp
    then show ?thesis
      unfolding abs_less_iff using v' by linarith
  qed
  ultimately show ?thesis
    using that r by simp
qed

end
