(* ===== verification/Ranging.thy ===== *)
theory Ranging
  imports F32_Order
begin

text \<open>
  \<^verbatim>\<open>rust/netsim-cxx/src/ranging.rs\<close>: the signal strength at a distance in the free-space model.
  \<^verbatim>\<open>f32::log10\<close>, whose precision Rust leaves to the platform, is the argument \<open>log10\<close>.
\<close>

text \<open>\<^verbatim>\<open>const PATH_LOSS_AT_1M: f32 = 40.20\<close>, the nearest single-precision number.\<close>

definition PATH_LOSS_AT_1M :: fp where
  "PATH_LOSS_AT_1M = fp_of_bits 0x4220CCCD"

definition distance_to_rssi :: "(fp \<Rightarrow> fp) \<Rightarrow> i8 \<Rightarrow> f32 \<Rightarrow> i8 result" where
  "distance_to_rssi log10 tx_power distance =
     (let d = fp_of_bits distance
      in if \<not> fp_nonneg d then Inl (Panic ''assertion failed: distance >= 0.0'')
         else if fp_is_zero d then Ok tx_power
         else Ok (fp_to_i8
           (fp_sub (fp_sub (fp_of_int (sint tx_power)) (fp_mul (Finite False 20 0) (log10 d)))
             PATH_LOSS_AT_1M)))"

section \<open>The path loss over whole decades\<close>

lemma path_loss: "PATH_LOSS_AT_1M = Finite False 10538189 (-18)"
  by (simp add: PATH_LOSS_AT_1M_def fp_of_bits_def Let_def)

text \<open>Rounding to 24 bits does not change the integer part when the fraction is not near 1.\<close>

lemma truncated_rounded:
  assumes "m < 2 ^ 31" and "m mod 2 ^ 18 < 2 ^ 18 - 2 ^ 7"
  shows "\<exists>q e. rounded s m (-18) sticky = Finite s q e \<and> truncated q e = m div 2 ^ 18"
proof -
  define sh where "sh = bitlen m - 24"
  define q where "q = m div 2 ^ sh"
  define up where "up \<longleftrightarrow> sh \<noteq> 0 \<and> (2 ^ (sh - 1) < m mod 2 ^ sh \<or>
    m mod 2 ^ sh = 2 ^ (sh - 1) \<and> (sticky \<or> odd q))"
  define q' where "q' = (if up then q + 1 else q)"
  have "bitlen m \<le> 31"
    using assms(1) by (rule bitlen_le)
  then have sh: "sh \<le> 7"
    by (simp add: sh_def)
  have s: "nat (max (int (bitlen m) - 24) (-149 - (-18))) = sh"
    using sh by (auto simp: sh_def)
  have "q \<le> m"
    by (simp add: q_def)
  then have "q' < 2 ^ 32"
    using assms(1) by (simp add: q'_def)
  then have "bitlen q' \<le> 32"
    by (rule bitlen_le)
  then have r: "rounded s m (-18) sticky = Finite s q' (int sh - 18)"
    using sh unfolding rounded_def Let_def s q_def [symmetric] up_def [symmetric] q'_def [symmetric]
    by simp
  have split: "(2 :: nat) ^ 18 = 2 ^ (18 - sh) * 2 ^ sh"
    unfolding power_add [symmetric] using sh by simp
  define i where "i = m div 2 ^ 18"
  have "i * 2 ^ (18 - sh) \<le> q"
    unfolding q_def i_def less_eq_div_iff_mult_less_eq [OF zero_less_power [OF zero_less_numeral]]
      mult.assoc split [symmetric] by simp
  moreover have "q + 1 < (i + 1) * 2 ^ (18 - sh)"
  proof -
    have "(2 :: nat) ^ sh \<le> 2 ^ 7"
      using sh by (intro power_increasing) auto
    then have "i * 2 ^ 18 + m mod 2 ^ 18 + 2 ^ sh < (i + 1) * 2 ^ 18"
      using assms(2) by simp
    then have "m + 2 ^ sh < (i + 1) * 2 ^ 18"
      unfolding i_def by (simp only: div_mult_mod_eq)
    moreover have "(q + 1) * 2 ^ sh = m div 2 ^ sh * 2 ^ sh + 2 ^ sh"
      by (simp add: q_def)
    moreover have "m div 2 ^ sh * 2 ^ sh \<le> m"
      by (rule div_times_less_eq_dividend)
    ultimately have "(q + 1) * 2 ^ sh < (i + 1) * 2 ^ 18"
      by linarith
    then have "(q + 1) * 2 ^ sh < (i + 1) * 2 ^ (18 - sh) * 2 ^ sh"
      unfolding split by (simp only: mult.assoc)
    then show ?thesis
      by (simp only: mult_less_cancel2)
  qed
  ultimately have b: "i * 2 ^ (18 - sh) \<le> q'" "q' < (i + 1) * 2 ^ (18 - sh)"
    by (auto simp: q'_def)
  have "q' div 2 ^ (18 - sh) = i"
    using b by (intro div_nat_eqI) (simp_all add: mult.commute)
  moreover have "nat (18 - int sh) = 18 - sh"
    using sh by simp
  ultimately have "truncated q' (int sh - 18) = i"
    using sh by (simp add: truncated_def)
  with r show ?thesis
    by (auto simp: i_def)
qed

text \<open>\<open>j - 40.20\<close> for a whole number \<open>j\<close> of dB, cut to an integer.\<close>

lemma minus_path_loss:
  assumes "abs j \<le> 4096"
  shows "fp_to_i8 (fp_sub (Finite (j < 0) (nat (abs j)) 0) PATH_LOSS_AT_1M) =
    of_int (max (-128) (min 127 (if 40 < j then j - 41 else j - 40)))"
proof -
  define m where "m = nat (abs (j * 262144 - 10538189))"
  have "signed_int (j < 0) (nat (abs j)) = j"
    by (simp add: signed_int_def)
  then have sub: "fp_sub (Finite (j < 0) (nat (abs j)) 0) PATH_LOSS_AT_1M =
      rounded (j * 262144 - 10538189 < 0) m (-18) False"
    by (auto simp: fp_sub_def path_loss Let_def m_def signed_int_def)
  have m: "m = (if 40 < j then nat (j - 41) * 262144 + 209715 else nat (40 - j) * 262144 + 52429)"
    unfolding m_def by (auto simp: nat_mult_distrib nat_add_distrib)
  then have "m div 2 ^ 18 = (if 40 < j then nat (j - 41) else nat (40 - j))"
    "m mod 2 ^ 18 < 2 ^ 18 - 2 ^ 7" "m < 2 ^ 31"
    using assms by auto
  then obtain q e where "rounded (j * 262144 - 10538189 < 0) m (-18) False =
      Finite (j * 262144 - 10538189 < 0) q e"
    "truncated q e = (if 40 < j then nat (j - 41) else nat (40 - j))"
    using truncated_rounded [of m "j * 262144 - 10538189 < 0" False] by auto
  then show ?thesis
    by (auto simp: sub signed_int_def)
qed

section \<open>Properties\<close>

lemma fp_of_small_int: "abs i < 2 ^ 24 \<Longrightarrow> fp_of_int i = Finite (i < 0) (nat (abs i)) 0"
  by (simp add: fp_of_int_def rounded_exact)

text \<open>At a distance of \<open>10 ^ k\<close> metres the signal is the transmit power less 20 dB for each decade
  and 40.20 dB, cut to an integer towards zero and to the range of an \<open>i8\<close>.\<close>

theorem rssi_at_decades:
  assumes "fp_nonneg (fp_of_bits x)" and "\<not> fp_is_zero (fp_of_bits x)"
    and "log10 (fp_of_bits x) = fp_of_int k" and "abs k \<le> 45"
  shows "distance_to_rssi log10 tx x =
     (let j = sint tx - 20 * k
      in Ok (of_int (max (-128) (min 127 (if 40 < j then j - 41 else j - 40)))))"
proof -
  have tx: "-128 \<le> sint tx" "sint tx < 128"
    using sint_ge [of tx] sint_lt [of tx] by simp_all
  define j where "j = sint tx - 20 * k"
  have j: "abs j \<le> 4096"
    using tx assms(4) by (simp add: j_def)
  have loss: "fp_mul (Finite False 20 0) (fp_of_int k) = Finite (k < 0) (20 * nat (abs k)) 0"
    using assms(4) by (simp add: fp_of_small_int rounded_exact)
  have "fp_sub (fp_of_int (sint tx)) (fp_mul (Finite False 20 0) (fp_of_int k)) = Finite (j < 0) (nat (abs j)) 0"
  proof -
    have "signed_int (\<not> k < 0) (20 * nat (abs k)) = - 20 * k"
      by (simp add: signed_int_def)
    moreover have "signed_int (sint tx < 0) (nat (abs (sint tx))) = sint tx"
      by (simp add: signed_int_def)
    moreover have "fp_of_int (sint tx) = Finite (sint tx < 0) (nat (abs (sint tx))) 0"
      using tx by (intro fp_of_small_int) simp
    ultimately have "fp_sub (fp_of_int (sint tx)) (fp_mul (Finite False 20 0) (fp_of_int k)) =
        rounded (if j = 0 then sint tx < 0 \<and> \<not> k < 0 else j < 0) (nat (abs j)) 0 False"
      by (simp add: fp_sub_def loss Let_def j_def)
    moreover have "j = 0 \<Longrightarrow> \<not> (sint tx < 0 \<and> \<not> k < 0)"
      by (auto simp: j_def)
    ultimately show ?thesis
      using j by (auto simp: rounded_exact)
  qed
  then show ?thesis
    using assms(1,2) minus_path_loss [OF j] by (simp add: distance_to_rssi_def assms(3) Let_def j_def)
qed

lemma rssi_at_decades_witness:
  "distance_to_rssi (\<lambda>_. fp_of_int 1) 4 0x41200000 =
     (let j = sint (4 :: i8) - 20 * 1
      in Ok (of_int (max (-128) (min 127 (if 40 < j then j - 41 else j - 40)))))"
  by (rule rssi_at_decades) (simp_all add: fp_of_bits_def Let_def)

section \<open>Which distances are accepted\<close>

lemma bits_split:
  obtains s e m where "unat (x :: f32) = (if s then 2147483648 else 0) + e * 8388608 + m"
    and "e < 256" and "m < 8388608"
    and "fp_of_bits x = (if e = 255 then (if m = 0 then Infinite s else NaN)
      else if e = 0 then Finite s m (-149) else Finite s (8388608 + m) (int e - 150))"
proof -
  define n e m where "n = unat x" and "e = n div 8388608 mod 256" and "m = n mod 8388608"
  have "n < 4294967296"
    using unsigned_less [of x, where ?'a = nat] by (simp add: n_def)
  then have "n div 2147483648 < 2"
    by (simp add: div_less_iff_less_mult)
  then have top: "n div 2147483648 = 0 \<or> n div 2147483648 = 1"
    by linarith
  have "n div 8388608 = n div 2147483648 * 256 + e"
    unfolding e_def using div_mult_mod_eq [of "n div 8388608" 256] by (simp add: div_mult2_eq [symmetric])
  then have "n = n div 2147483648 * 2147483648 + e * 8388608 + m"
    unfolding m_def using div_mult_mod_eq [of n 8388608] by linarith
  moreover have "e < 256" "m < 8388608"
    by (simp_all add: e_def m_def)
  ultimately have "n = (if 2147483648 \<le> n then 2147483648 else 0) + e * 8388608 + m"
    using top by auto
  then show ?thesis
    using that [of "2147483648 \<le> n" e m] \<open>e < 256\<close> \<open>m < 8388608\<close>
    by (simp add: fp_of_bits_def Let_def n_def e_def m_def)
qed

lemma bits_zero_iff: "fp_is_zero (fp_of_bits x) \<longleftrightarrow> x = 0 \<or> x = 0x80000000"
  by (rule bits_split [of x]) (auto simp: word_unat_eq_iff split: if_splits)

lemma bits_nonneg_iff: "fp_nonneg (fp_of_bits x) \<longleftrightarrow> x \<le> 0x7F800000 \<or> x = 0x80000000"
  by (rule bits_split [of x]) (auto simp: word_unat_eq_iff word_le_nat_alt split: if_splits)

text \<open>The distances that are accepted are the zeros of either sign and the positive numbers up to
  infinity; every other bit pattern (negative numbers and what is not a number) panics. At the
  zeros the answer is the transmit power itself, with no path loss.\<close>

theorem rssi_domain:
  "if 0x7F800000 < x \<and> x \<noteq> 0x80000000
   then distance_to_rssi log10 tx x = Inl (Panic ''assertion failed: distance >= 0.0'')
   else if x = 0 \<or> x = 0x80000000 then distance_to_rssi log10 tx x = Ok tx
   else \<exists>r. distance_to_rssi log10 tx x = Ok r"
  by (auto simp: distance_to_rssi_def Let_def bits_zero_iff bits_nonneg_iff)

section \<open>The order of distances\<close>

lemma rssi_antimono:
  assumes "fp_le u v"
  shows "sint (fp_to_i8 (fp_sub (fp_sub (fp_of_int (sint tx)) (fp_mul (Finite False 20 0) v)) PATH_LOSS_AT_1M)) \<le>
    sint (fp_to_i8 (fp_sub (fp_sub (fp_of_int (sint (tx :: i8))) (fp_mul (Finite False 20 0) u)) PATH_LOSS_AT_1M))"
proof -
  have "-128 \<le> sint tx" "sint tx < 128"
    using sint_ge [of tx] sint_lt [of tx] by simp_all
  then have tx: "fp_of_int (sint tx) = Finite (sint tx < 0) (nat (abs (sint tx))) 0"
    by (intro fp_of_small_int) simp
  show ?thesis
    unfolding tx fp_sub_def path_loss fp_neg.simps
    by (intro fp_to_i8_mono fp_add_le fp_neg_le fp_mul_le assms) simp
qed

text \<open>C25: The signal never gets stronger with the distance: whatever monotone function the platform
  computes for the logarithm, of two positive distances the farther one gives at most the signal
  of the nearer one, infinity included.\<close>

theorem farther_is_weaker:
  assumes "\<And>u v. fp_le u v \<Longrightarrow> fp_nonneg u \<Longrightarrow> fp_le (log10 u) (log10 v)"
    and "0 < x" and "x \<le> y" and "y \<le> 0x7F800000"
  shows "\<exists>near far. distance_to_rssi log10 tx x = Ok near \<and> distance_to_rssi log10 tx y = Ok far \<and>
     sint far \<le> sint near"
proof -
  have x: "x \<le> 0x7F800000" "x \<noteq> 0" "x \<noteq> 0x80000000" "y \<noteq> 0" "y \<noteq> 0x80000000"
    using assms(2-4) by (auto simp: word_le_nat_alt word_less_nat_alt)
  have "fp_le (log10 (fp_of_bits x)) (log10 (fp_of_bits y))"
    using assms(1) fp_of_bits_le [OF assms(3,4)] x(1) by (simp add: bits_nonneg_iff)
  from rssi_antimono [OF this, of tx] show ?thesis
    using x assms(4) by (simp add: distance_to_rssi_def Let_def bits_zero_iff bits_nonneg_iff)
qed

lemma farther_is_weaker_witness:
  "\<exists>near far. distance_to_rssi (\<lambda>u. u) (-10) 0x3F800000 = Ok near \<and>
     distance_to_rssi (\<lambda>u. u) (-10) 0x40000000 = Ok far \<and> sint far \<le> sint near"
  by (rule farther_is_weaker) simp_all

end
