(* ===== verification/Cxx_Bridge.thy ===== *)
theory Cxx_Bridge
  imports Server_Main Ranging
begin

text \<open>
  What a panic means to the C++ program: the exports of \<^verbatim>\<open>rust/netsim-cxx/src/lib.rs\<close>. A function that panics
  behind the bridge does not return to C++; \<^verbatim>\<open>cxx\<close> documents that the process is aborted. On the way to
  the bridge the panic of the accept loop drops the pool: the code of \<open>drop\<close> runs once more, but now a panic in it is the second
  one, at which the standard library aborts the process.
\<close>

section \<open>Calls from C++\<close>

datatype fate = Unwinding | Aborted string

definition ffi_abort :: fate where
  "ffi_abort = Aborted ''panic in ffi function''"

definition double_panic :: fate where
  "double_panic = Aborted ''thread panicked while processing panic. aborting.''"

fun exported :: "'a result \<Rightarrow> fate + 'a" where
  "exported (Inl e) = Inl (case e of Abort reason \<Rightarrow> Aborted reason | _ \<Rightarrow> ffi_abort)"
| "exported (Inr x) = Inr x"

definition DistanceToRssi :: "(fp \<Rightarrow> fp) \<Rightarrow> i8 \<Rightarrow> f32 \<Rightarrow> fate + i8" where
  "DistanceToRssi log10 tx_power distance = exported (distance_to_rssi log10 tx_power distance)"

text \<open>The first lines of \<open>run_frontend_http_server\<close>, before the loop: a port that is taken ends the process.\<close>

definition RunFrontendHttpServer :: "bool \<Rightarrow> fate + connection pool" where
  "RunFrontendHttpServer bound =
     exported (if bound then ThreadPool_new 4 else Inl (Panic ''called `Result::unwrap()` on an `Err` value''))"

text \<open>A distance that is negative or not a number ends the process, every other one is answered.\<close>

theorem distance_from_cxx:
  "if distance \<le> 0x7F800000 \<or> distance = 0x80000000 then \<exists>r. DistanceToRssi log10 tx_power distance = Inr r
   else DistanceToRssi log10 tx_power distance = Inl ffi_abort"
  by (auto simp: DistanceToRssi_def distance_to_rssi_def Let_def bits_zero_iff bits_nonneg_iff)

section \<open>The end of the accept loop\<close>

text \<open>
  The pool while the panic unwinds: the steps are those of a pool that is being dropped. When the owner has joined all
  workers the panic reaches the bridge; the \<^verbatim>\<open>unwrap\<close> of a failed \<^verbatim>\<open>join\<close> is the second panic.
\<close>

fun fate_of :: "mstate \<Rightarrow> fate" where
  "fate_of Joined = ffi_abort"
| "fate_of MainPanicked = double_panic"
| "fate_of _ = Unwinding"

inductive unwind_step :: "('j \<Rightarrow> bool) \<Rightarrow> 'j pool \<times> fate \<Rightarrow> 'j pool \<times> fate \<Rightarrow> bool" for crash where
  unwind: "owner p = Joining k \<Longrightarrow> pool_step crash p q \<Longrightarrow> unwind_step crash (p, Unwinding) (q, fate_of (owner q))"

inductive_simps unwind_step_iff: "unwind_step crash (p, f) s"

text \<open>\<open>RunFrontendHttpServer\<close> from the panic of its loop on: an error of \<^verbatim>\<open>accept\<close>, or a job nobody can take.\<close>

inductive loop_panicked ::
    "('re, 'cap) regex_crate \<Rightarrow> server_env \<Rightarrow> connection pool \<times> fate \<Rightarrow> bool" for R env where
  panic: "server_run R env p \<Longrightarrow> owner p = Serving \<Longrightarrow> owner (accept_stream conn p) = MainPanicked \<Longrightarrow>
     loop_panicked R env (drop_sender (accept_stream conn p), Unwinding)"
| step: "loop_panicked R env s \<Longrightarrow> unwind_step (connection_panics R env) s s' \<Longrightarrow> loop_panicked R env s'"

lemma panicked_accept:
  assumes "owner p = Serving" and "owner (accept_stream conn p) = MainPanicked"
  shows "drop_sender (accept_stream conn p) = drop_sender p"
  using assms by (cases conn) (auto simp: execute_def drop_sender_def split: sum.splits if_splits)

text \<open>An unwinding pool is a pool that is dropped.\<close>

lemma loop_panicked_pool:
  "loop_panicked R env s \<Longrightarrow> reachable_pool (connection_panics R env) 4 (fst s) \<and>
     (snd s = Unwinding \<longrightarrow> closing (fst s)) \<and> snd s = fate_of (owner (fst s))"
proof (induction rule: loop_panicked.induct)
  case (panic p conn)
  then have "reachable_pool (connection_panics R env) 4 (drop_sender p)"
    using server_run_pool reachable_pool.step pool_step.drop_pool by metis
  then show ?case
    by (simp add: panicked_accept [OF panic(2,3)] closing_def)
next
  case (step s s')
  from step.hyps(2) obtain p k q where s: "s = (p, Unwinding)" "s' = (q, fate_of (owner q))" "owner p = Joining k"
      "pool_step (connection_panics R env) p q"
    by (cases rule: unwind_step.cases) auto
  have "owner q \<noteq> Serving"
    using s(4,3) by (cases rule: pool_step.cases) (auto simp: join_worker_def split: if_splits)
  then have "fate_of (owner q) = Unwinding \<longrightarrow> closing q"
    by (cases "owner q") (auto simp: closing_def ffi_abort_def double_panic_def)
  with s step.IH show ?case
    by (auto intro: reachable_pool.step)
qed

lemma loop_panicked_steps:
  "(unwind_step (connection_panics R env) ^^ k) s s' \<Longrightarrow> loop_panicked R env s \<Longrightarrow>
    loop_panicked R env s' \<and> pool_weight (fst s') + k \<le> pool_weight (fst s)"
proof (induction k arbitrary: s')
  case (Suc k)
  then obtain r where r: "(unwind_step (connection_panics R env) ^^ k) s r" "unwind_step (connection_panics R env) r s'"
    by auto
  then have "pool_weight (fst s') < pool_weight (fst r)"
    using pool_step_weight [of "connection_panics R env" "fst r" "fst s'"] by (auto simp: unwind_step.simps)
  with Suc.IH [OF r(1) Suc.prems(2)] loop_panicked.step [OF _ r(2)] show ?case
    by auto
qed simp

text \<open>A state that is not an abort has a next step.\<close>

lemma loop_panicked_progress:
  assumes "loop_panicked R env s"
  shows "(\<exists>s'. unwind_step (connection_panics R env) s s') \<or> snd s = ffi_abort \<or> snd s = double_panic"
proof (cases "snd s = Unwinding")
  case True
  then obtain k where k: "owner (fst s) = Joining k"
    using loop_panicked_pool [OF assms] by (auto simp: closing_def)
  obtain q where "pool_step (connection_panics R env) (fst s) q"
    using closing_progress [OF reachable_pool_inv k] loop_panicked_pool [OF assms] by blast
  then show ?thesis
    using unwind_step.unwind [OF k] True by (metis prod.collapse)
next
  case False
  then show ?thesis
    using loop_panicked_pool [OF assms] by (cases "owner (fst s)") simp_all
qed

lemma fate_iff [simp]:
  "ffi_abort \<noteq> double_panic" "ffi_abort \<noteq> Unwinding" "double_panic \<noteq> Unwinding"
  "double_panic \<noteq> ffi_abort" "Unwinding \<noteq> ffi_abort" "Unwinding \<noteq> double_panic"
  "fate_of m = ffi_abort \<longleftrightarrow> m = Joined" "fate_of m = double_panic \<longleftrightarrow> m = MainPanicked"
  by (cases m; simp add: ffi_abort_def double_panic_def)+

lemma panicked_submitted:
  assumes "pool_inv crash p" and "Panicked \<in> set (workers p)"
  shows "\<exists>j \<in> set (submitted p). crash j"
proof -
  have "filter (\<lambda>w. w = Panicked) (workers p) \<noteq> []"
    using assms(2) by (auto simp: filter_empty_conv)
  then obtain j where j: "j \<in> set (crashed p)"
    using assms(1) by (cases "crashed p") (auto simp: pool_inv_def job_inv_def)
  then have "j \<in># mset (taken p)"
    using assms(1) by (simp add: pool_inv_def job_inv_def)
  then have "j \<in> set (submitted p)"
    using assms(1) by (auto simp: pool_inv_def queue_inv_def) (metis UnI1 set_append)
  with j assms(1) show ?thesis
    by (auto simp: pool_inv_def job_inv_def)
qed

lemma dead_pool_aborts:
  assumes "workers p = replicate n Panicked" and "0 < n" and "owner p = Joining 0"
  shows "{s. unwind_step crash (p, Unwinding) s} = {(join_worker 0 p, double_panic)}"
proof -
  have "pool_step crash p q \<longleftrightarrow> q = join_worker 0 p" for q
    using assms pool_step.join [of p 0 crash] by (auto simp: pool_step.simps ended_def)
  moreover have "owner (join_worker 0 p) = MainPanicked"
    using assms by (simp add: join_worker_def)
  ultimately show ?thesis
    using assms(3) by (auto simp: unwind_step_iff)
qed

lemma killed_server_aborts:
  assumes "regex_engine R"
  shows "\<exists>p. server_run R env p \<and> owner p = Serving \<and> submitted p = replicate 4 (announcing (2 ^ 63) rest, sink) \<and>
    (\<forall>conn. loop_panicked R env (drop_sender (accept_stream conn p), Unwinding) \<and>
      (\<exists>q. {s. unwind_step (connection_panics R env) (drop_sender (accept_stream conn p), Unwinding) s} = {(q, double_panic)}))"
proof -
  obtain p where p: "server_run R env p" "owner p = Serving" "workers p = replicate 4 Panicked"
      "submitted p = replicate 4 (announcing (2 ^ 63) rest, sink)" "\<And>conn. owner (accept_stream conn p) = MainPanicked"
    using killed_server [OF assms] by blast
  have "\<exists>q. {s. unwind_step (connection_panics R env) (drop_sender p, Unwinding) s} = {(q, double_panic)}"
    using dead_pool_aborts [of "drop_sender p" 4] p(3) by auto
  moreover have "loop_panicked R env (drop_sender p, Unwinding)"
    using loop_panicked.panic [OF p(1,2,5)] panicked_accept [OF p(2,5)] by metis
  ultimately show ?thesis
    using p by (intro exI [of _ p]) (simp add: panicked_accept)
qed

section \<open>Properties\<close>


text \<open>C16: The panic gets as far as the bridge only when every connection that was accepted has been handled without
  a panic; a second panic on the way comes from a connection whose handler panicked.\<close>

theorem abort_after_answers:
  assumes "loop_panicked R env (p, f)"
  shows "if f = ffi_abort then mset (completed p) = mset (submitted p) \<and> crashed p = []
    else f = double_panic \<longrightarrow> (\<exists>conn \<in> set (submitted p). connection_panics R env conn)"
proof -
  have p: "reachable_pool (connection_panics R env) 4 p" "f = fate_of (owner p)"
    using loop_panicked_pool [OF assms] by simp_all
  have inv: "pool_inv (connection_panics R env) p" and ne: "workers p \<noteq> []"
    using reachable_pool_inv [OF p(1)] reachable_pool_workers [OF p(1)] by auto
  show ?thesis
    using joined_complete [OF inv _ ne] panicked_owner [OF p(1)] panicked_submitted [OF inv] p(2) by auto
qed

text \<open>C14: The five connections that stop the server abort the process: after four of them have announced a body of
  \<open>2 ^ 63\<close> bytes, whatever \<^verbatim>\<open>accept\<close> gives next makes the loop panic, and the next step can only be that joining the
  first worker makes the second panic.\<close>

theorem process_aborted_by_content_length:
  assumes "regex_engine R"
  shows "\<exists>p. server_run R env p \<and> owner p = Serving \<and> submitted p = replicate 4 (announcing (2 ^ 63) rest, sink) \<and>
    (\<forall>conn. loop_panicked R env (drop_sender (accept_stream conn p), Unwinding) \<and>
      (\<exists>q. {s. unwind_step (connection_panics R env) (drop_sender (accept_stream conn p), Unwinding) s} = {(q, double_panic)}))"
  using killed_server_aborts [OF assms, of env rest sink] by blast

section \<open>Witnesses\<close>

text \<open>An error of \<^verbatim>\<open>accept\<close> stops a server at rest.\<close>

lemma accept_error_panics: "loop_panicked anchored_engine example_env (drop_sender fresh_server, Unwinding)"
  using loop_panicked.panic [OF fresh_server_run, of None] panicked_accept [of fresh_server None]
  by (simp add: fresh_server_def drop_sender_def)


lemma aborted_server: "\<exists>p. loop_panicked anchored_engine example_env (p, double_panic)"
  using killed_server_aborts [OF anchored.regex_engine_axioms] loop_panicked.step by blast

lemma abort_after_answers_witness:
  "\<exists>p conn. conn \<in> set (submitted p) \<and> loop_panicked anchored_engine example_env (p, double_panic) \<and>
    connection_panics anchored_engine example_env conn"
proof -
  obtain p where "loop_panicked anchored_engine example_env (p, double_panic)"
    using aborted_server by blast
  with abort_after_answers [OF this] show ?thesis
    by auto
qed

lemma process_aborted_by_content_length_witness:
  "\<exists>p. server_run anchored_engine example_env p \<and> owner p = Serving \<and>
    submitted p = replicate 4 (announcing (2 ^ 63) [], \<lparr>wr_out = [], wr_room = None, wr_err = []\<rparr>) \<and>
    loop_panicked anchored_engine example_env (drop_sender (accept_stream None p), Unwinding)"
  using process_aborted_by_content_length [OF anchored.regex_engine_axioms, of example_env "[]"] by blast

end
