(* ===== verification/Pb_Runtime.thy ===== *)
theory Pb_Runtime
  imports Rust_Strings
begin

text \<open>
  The interface between the generated message code (\<^verbatim>\<open>rust/*-proto/src/*.rs\<close>) and the
  \<^verbatim>\<open>protobuf\<close> crate it calls. The crate is not part of the repository: \<open>protobuf_rt\<close> is a
  record of the functions the generated code uses, and the locale \<open>protobuf_runtime\<close> states
  what their documentation promises (a written field is read back, the size functions
  give the number of bytes written, a reader never invents input).

  An input stream is the list of the bytes that are left inside the current message, an
  output stream the list of bytes written. The type \<open>'u\<close> is the crate's \<^verbatim>\<open>UnknownFields\<close>.

  The second half of the theory is the part every generated message shares: the loop of
  \<^verbatim>\<open>merge_from\<close>, the embedding of a message in another one, and the contract \<open>pb_message\<close>
  of a message type with the facts that follow from it.
\<close>

section \<open>The crate\<close>

datatype wire_type =
    WireTypeVarint
  | WireTypeFixed64
  | WireTypeLengthDelimited
  | WireTypeStartGroup
  | WireTypeEndGroup
  | WireTypeFixed32

datatype pb_error =
    UnexpectedWireType wire_type
  | MessageNotInitialized
  | RuntimeError string
  | SizeMismatch
  | NoProgress

type_synonym 'a reads = "pb_error + 'a \<times> bytes"

text \<open>
  \<open>rt_message\<close> and \<open>rt_message_into\<close> stand for the part of \<^verbatim>\<open>read_message\<close>,
  \<^verbatim>\<open>read_singular_message_into\<close> and \<^verbatim>\<open>read_repeated_message_into\<close> that does not depend on the
  message type: they give the bytes of the embedded message. \<open>rt_keeps_value\<close> says whether
  \<^verbatim>\<open>read_singular_message_into\<close> merges into a value that is already there or starts anew.
  \<open>rt_enum_into\<close> gets the domain of \<^verbatim>\<open>from_i32\<close> and gives the number to store, or \<open>None\<close>
  when the number went to the unknown fields.
\<close>

record 'u protobuf_rt =
  rt_tag :: "bytes \<Rightarrow> (nat \<times> wire_type) reads"
  rt_bool :: "bytes \<Rightarrow> bool reads"
  rt_float :: "bytes \<Rightarrow> f32 reads"
  rt_int32 :: "bytes \<Rightarrow> i32 reads"
  rt_string :: "bytes \<Rightarrow> string reads"
  rt_bytes :: "bytes \<Rightarrow> bytes reads"
  rt_message :: "bytes \<Rightarrow> bytes reads"
  rt_string_into :: "wire_type \<Rightarrow> bytes \<Rightarrow> string reads"
  rt_repeated_string_into :: "wire_type \<Rightarrow> bytes \<Rightarrow> string reads"
  rt_bytes_into :: "wire_type \<Rightarrow> bytes \<Rightarrow> bytes reads"
  rt_enum_into :: "(i32 \<Rightarrow> bool) \<Rightarrow> wire_type \<Rightarrow> nat \<Rightarrow> bytes \<Rightarrow> 'u \<Rightarrow> (i32 option \<times> 'u) reads"
  rt_message_into :: "wire_type \<Rightarrow> bytes \<Rightarrow> bytes reads"
  rt_keeps_value :: bool
  rt_unknown :: "nat \<Rightarrow> wire_type \<Rightarrow> bytes \<Rightarrow> 'u \<Rightarrow> 'u reads"
  uf_new :: 'u
  uf_size :: "'u \<Rightarrow> u32"
  os_unknown :: "'u \<Rightarrow> bytes"
  os_tag :: "nat \<Rightarrow> wire_type \<Rightarrow> bytes"
  os_varint32 :: "u32 \<Rightarrow> bytes"
  os_bool :: "nat \<Rightarrow> bool \<Rightarrow> bytes"
  os_float :: "nat \<Rightarrow> f32 \<Rightarrow> bytes"
  os_int32 :: "nat \<Rightarrow> i32 \<Rightarrow> bytes"
  os_enum :: "nat \<Rightarrow> i32 \<Rightarrow> bytes"
  os_string :: "nat \<Rightarrow> string \<Rightarrow> bytes"
  os_bytes :: "nat \<Rightarrow> bytes \<Rightarrow> bytes"
  sz_string :: "nat \<Rightarrow> string \<Rightarrow> u32"
  sz_bytes :: "nat \<Rightarrow> bytes \<Rightarrow> u32"
  sz_enum :: "nat \<Rightarrow> i32 \<Rightarrow> u32"
  sz_int32 :: "nat \<Rightarrow> i32 \<Rightarrow> u32"
  sz_varint32 :: "u32 \<Rightarrow> u32"

text \<open>A float is its bit pattern; the code compares it with 0, which both zeros equal.\<close>

definition f32_is_zero :: "f32 \<Rightarrow> bool" where
  "f32_is_zero v \<longleftrightarrow> v = 0 \<or> v = 0x80000000"

definition canon_f32 :: "f32 \<Rightarrow> f32" where
  "canon_f32 v = (if f32_is_zero v then 0 else v)"

text \<open>Field numbers up to 15: the numbers the messages use, whose tags are one byte.\<close>

definition small_field :: "nat \<Rightarrow> bool" where
  "small_field f \<longleftrightarrow> 1 \<le> f \<and> f \<le> 15"

text \<open>A result that leaves at least \<open>k\<close> bytes less, or a proper error.\<close>

definition takes :: "nat \<Rightarrow> bytes \<Rightarrow> 'a reads \<Rightarrow> bool" where
  "takes k is r \<longleftrightarrow>
     (case r of Inl e \<Rightarrow> e \<noteq> NoProgress | Inr (v, is') \<Rightarrow> length is' + k \<le> length is)"

locale protobuf_runtime =
  fixes W :: "'u protobuf_rt"
  assumes tag_length: "small_field f \<Longrightarrow> length (os_tag W f wt) = 1"
    and bool_law: "small_field f \<Longrightarrow>
      \<exists>x. rt_tag W (os_bool W f b @ r) = Inr ((f, WireTypeVarint), x) \<and> rt_bool W x = Inr (b, r)"
    and float_law: "small_field f \<Longrightarrow>
      \<exists>x. rt_tag W (os_float W f v @ r) = Inr ((f, WireTypeFixed32), x) \<and> rt_float W x = Inr (v, r)"
    and int32_law: "small_field f \<Longrightarrow>
      \<exists>x. rt_tag W (os_int32 W f i @ r) = Inr ((f, WireTypeVarint), x) \<and> rt_int32 W x = Inr (i, r)"
    and string_law: "small_field f \<Longrightarrow> utf8 s \<Longrightarrow> length (os_string W f s) < 2 ^ 32 \<Longrightarrow>
      \<exists>x. rt_tag W (os_string W f s @ r) = Inr ((f, WireTypeLengthDelimited), x) \<and>
        rt_string W x = Inr (s, r) \<and>
        rt_string_into W WireTypeLengthDelimited x = Inr (s, r) \<and>
        rt_repeated_string_into W WireTypeLengthDelimited x = Inr (s, r)"
    and bytes_law: "small_field f \<Longrightarrow> length (os_bytes W f bs) < 2 ^ 32 \<Longrightarrow>
      \<exists>x. rt_tag W (os_bytes W f bs @ r) = Inr ((f, WireTypeLengthDelimited), x) \<and>
        rt_bytes W x = Inr (bs, r) \<and> rt_bytes_into W WireTypeLengthDelimited x = Inr (bs, r)"
    and enum_law: "small_field f \<Longrightarrow> known i \<Longrightarrow>
      \<exists>x. rt_tag W (os_enum W f i @ r) = Inr ((f, WireTypeVarint), x) \<and>
        rt_enum_into W known WireTypeVarint f x u = Inr ((Some i, u), r)"
    and message_law: "small_field f \<Longrightarrow> length bs = unat n \<Longrightarrow>
      \<exists>x. rt_tag W (os_tag W f WireTypeLengthDelimited @ os_varint32 W n @ bs @ r) =
          Inr ((f, WireTypeLengthDelimited), x) \<and>
        rt_message W x = Inr (bs, r) \<and>
        rt_message_into W WireTypeLengthDelimited x = Inr (bs, r)"
    and size_laws: "small_field f \<Longrightarrow> length (os_bool W f b) = 2"
      "small_field f \<Longrightarrow> length (os_float W f v) = 5"
      "sz_string W f s = of_nat (length (os_string W f s))"
      "sz_bytes W f bs = of_nat (length (os_bytes W f bs))"
      "sz_enum W f i = of_nat (length (os_enum W f i))"
      "sz_int32 W f i = of_nat (length (os_int32 W f i))"
      "sz_varint32 W n = of_nat (length (os_varint32 W n))"
      "uf_size W u = of_nat (length (os_unknown W u))"
    and unknown_none: "os_unknown W (uf_new W) = []"
    and takes_laws: "takes 1 is (rt_tag W is)"
      "takes 0 is (rt_bool W is)" "takes 0 is (rt_float W is)" "takes 0 is (rt_int32 W is)"
      "takes 0 is (rt_string W is)" "takes 0 is (rt_bytes W is)" "takes 0 is (rt_message W is)"
      "takes 0 is (rt_string_into W wt is)" "takes 0 is (rt_repeated_string_into W wt is)"
      "takes 0 is (rt_bytes_into W wt is)" "takes 0 is (rt_enum_into W known wt f is u)"
      "takes 0 is (rt_message_into W wt is)" "takes 0 is (rt_unknown W f wt is u)"

section \<open>The parts every message shares\<close>

record 'u pb_special =
  unknown_fields :: 'u
  cached_size :: u32

text \<open>
  \<^verbatim>\<open>while !is.eof()? { let (field_number, wire_type) = is.read_tag_unpack()?; match .. }\<close>.
  The body is a step; a step that consumed nothing would repeat for ever, which is the
  value \<open>NoProgress\<close>.
\<close>

function merge_loop :: "('m \<Rightarrow> bytes \<Rightarrow> 'm reads) \<Rightarrow> 'm \<Rightarrow> bytes \<Rightarrow> pb_error + 'm" where
  "merge_loop step m is =
     (if is = [] then Ok m
      else bindE (step m is) (\<lambda>(m', is').
        if length is' < length is then merge_loop step m' is' else Inl NoProgress))"
  by pat_completeness auto
termination
  by (relation "measure (\<lambda>(step, m, is). length is)") auto

declare merge_loop.simps [simp del]

text \<open>\<^verbatim>\<open>if wire_type != expected { return Err(unexpected_wire_type(wire_type)); }\<close>\<close>

definition expect_wire :: "wire_type \<Rightarrow> wire_type \<Rightarrow> 'a reads \<Rightarrow> 'a reads" where
  "expect_wire expected wt r = (if wt \<noteq> expected then Inl (UnexpectedWireType wt) else r)"

text \<open>
  \<^verbatim>\<open>read_proto3_enum_with_unknown_fields_into\<close> for an enumeration with the conversion \<open>from_i32\<close>:
  a number outside the enumeration leaves the target as it is.
\<close>

definition read_enum_into ::
    "'u protobuf_rt \<Rightarrow> (i32 \<Rightarrow> 'e option) \<Rightarrow> wire_type \<Rightarrow> bytes \<Rightarrow> 'e \<Rightarrow> nat \<Rightarrow> 'u \<Rightarrow> ('e \<times> 'u) reads" where
  "read_enum_into W from_i32 wt is target f u =
     bindE (rt_enum_into W (\<lambda>i. from_i32 i \<noteq> None) wt f is u) (\<lambda>((i, u'), is').
     Ok ((case Option.bind i from_i32 of Some e \<Rightarrow> e | None \<Rightarrow> target, u'), is'))"

text \<open>Reading an embedded message of a type with the operations \<open>new\<close>, \<open>merge\<close>, \<open>initialized\<close>.\<close>

definition read_message ::
    "'u protobuf_rt \<Rightarrow> 'm \<Rightarrow> ('m \<Rightarrow> bytes \<Rightarrow> pb_error + 'm) \<Rightarrow> ('m \<Rightarrow> bool) \<Rightarrow> bytes \<Rightarrow> 'm reads" where
  "read_message W new merge initialized is =
     bindE (rt_message W is) (\<lambda>(b, is').
     bindE (merge new b) (\<lambda>m. if initialized m then Ok (m, is') else Inl MessageNotInitialized))"

definition read_singular_message_into ::
    "'u protobuf_rt \<Rightarrow> 'm \<Rightarrow> ('m \<Rightarrow> bytes \<Rightarrow> pb_error + 'm) \<Rightarrow> wire_type \<Rightarrow> bytes \<Rightarrow> 'm option \<Rightarrow> 'm option reads"
  where
  "read_singular_message_into W new merge wt is target =
     bindE (rt_message_into W wt is) (\<lambda>(b, is').
     bindE (merge (case target of Some m \<Rightarrow> if rt_keeps_value W then m else new | None \<Rightarrow> new) b)
       (\<lambda>m. Ok (Some m, is')))"

definition read_repeated_message_into ::
    "'u protobuf_rt \<Rightarrow> 'm \<Rightarrow> ('m \<Rightarrow> bytes \<Rightarrow> pb_error + 'm) \<Rightarrow> wire_type \<Rightarrow> bytes \<Rightarrow> 'm list \<Rightarrow> 'm list reads"
  where
  "read_repeated_message_into W new merge wt is target =
     bindE (rt_message_into W wt is) (\<lambda>(b, is').
     bindE (merge new b) (\<lambda>m. Ok (target @ [m], is')))"

text \<open>
  The size and the bytes of an embedded message: a one-byte tag, the length, the message.
  \<^verbatim>\<open>compute_size\<close> stores the size in the message (\<open>cs\<close> gives the size and the message with
  its sizes stored), writing uses the stored size.
\<close>

definition embedded_size :: "'u protobuf_rt \<Rightarrow> ('m \<Rightarrow> u32 \<times> 'm) \<Rightarrow> 'm \<Rightarrow> u32 \<times> 'm" where
  "embedded_size W cs v = (let (len, v') = cs v in (1 + sz_varint32 W len + len, v'))"

fun optional_size :: "'u protobuf_rt \<Rightarrow> ('m \<Rightarrow> u32 \<times> 'm) \<Rightarrow> 'm option \<Rightarrow> u32 \<times> 'm option" where
  "optional_size W cs None = (0, None)"
| "optional_size W cs (Some v) = (let (n, v') = embedded_size W cs v in (n, Some v'))"

fun repeated_size :: "'u protobuf_rt \<Rightarrow> ('m \<Rightarrow> u32 \<times> 'm) \<Rightarrow> 'm list \<Rightarrow> u32 \<times> 'm list" where
  "repeated_size W cs [] = (0, [])"
| "repeated_size W cs (v # vs) =
     (let (n, v') = embedded_size W cs v; (k, vs') = repeated_size W cs vs in (n + k, v' # vs'))"

definition os_message ::
    "'u protobuf_rt \<Rightarrow> nat \<Rightarrow> ('m \<Rightarrow> u32) \<Rightarrow> ('m \<Rightarrow> bytes) \<Rightarrow> 'm \<Rightarrow> bytes" where
  "os_message W f cached wr v =
     os_tag W f WireTypeLengthDelimited @ os_varint32 W (cached v) @ wr v"

fun os_optional ::
    "'u protobuf_rt \<Rightarrow> nat \<Rightarrow> ('m \<Rightarrow> u32) \<Rightarrow> ('m \<Rightarrow> bytes) \<Rightarrow> 'm option \<Rightarrow> bytes" where
  "os_optional W f cached wr None = []"
| "os_optional W f cached wr (Some v) = os_message W f cached wr v"

fun os_repeated ::
    "'u protobuf_rt \<Rightarrow> nat \<Rightarrow> ('m \<Rightarrow> u32) \<Rightarrow> ('m \<Rightarrow> bytes) \<Rightarrow> 'm list \<Rightarrow> bytes" where
  "os_repeated W f cached wr [] = []"
| "os_repeated W f cached wr (v # vs) = os_message W f cached wr v @ os_repeated W f cached wr vs"

text \<open>
  \<^verbatim>\<open>Message::write_to_bytes\<close> and \<^verbatim>\<open>Message::parse_from_bytes\<close>: sizes first, then the bytes,
  which must fill the computed size; a new message into which the bytes are merged.
\<close>

definition write_to_bytes ::
    "('m \<Rightarrow> bool) \<Rightarrow> ('m \<Rightarrow> u32 \<times> 'm) \<Rightarrow> ('m \<Rightarrow> bytes) \<Rightarrow> 'm \<Rightarrow> pb_error + bytes" where
  "write_to_bytes initialized cs wr m =
     (if \<not> initialized m then Inl MessageNotInitialized
      else let (n, m') = cs m; b = wr m' in if length b = unat n then Ok b else Inl SizeMismatch)"

definition parse_from_bytes ::
    "'m \<Rightarrow> ('m \<Rightarrow> bool) \<Rightarrow> ('m \<Rightarrow> bytes \<Rightarrow> pb_error + 'm) \<Rightarrow> bytes \<Rightarrow> pb_error + 'm" where
  "parse_from_bytes new initialized merge b =
     bindE (merge new b) (\<lambda>m. if initialized m then Ok m else Inl MessageNotInitialized)"

section \<open>The loop\<close>

lemma merge_loop_Nil [simp]: "merge_loop step m [] = Ok m"
  by (simp add: merge_loop.simps)

lemma merge_loop_step:
  "step m is = Inr (m', is') \<Longrightarrow> length is' < length is \<Longrightarrow> merge_loop step m is = merge_loop step m' is'"
  by (subst merge_loop.simps) auto

lemma merge_loop_error: "is \<noteq> [] \<Longrightarrow> step m is = Inl e \<Longrightarrow> merge_loop step m is = Inl e"
  by (subst merge_loop.simps) auto

lemma takesI [intro]: "takes 0 is (Inr (v, is))"
  by (simp add: takes_def)

lemma takes_weaken: "takes k is r \<Longrightarrow> j \<le> k \<Longrightarrow> takes j is r"
  by (auto simp: takes_def split: sum.splits prod.splits)

lemma takes_bind:
  assumes "takes k is r" and "\<And>v is'. r = Inr (v, is') \<Longrightarrow> takes 0 is' (g v is')"
  shows "takes k is (bindE r (\<lambda>(v, is'). g v is'))"
proof (cases r)
  case (Inr p)
  obtain v is' where p: "p = (v, is')"
    by (cases p)
  with Inr assms have "takes 0 is' (g v is')" "length is' + k \<le> length is"
    by (auto simp: takes_def)
  then show ?thesis
    by (auto simp: Inr p takes_def split: sum.splits)
qed (use assms in \<open>simp add: takes_def\<close>)

lemma takes_map:
  "takes 0 is r \<Longrightarrow> takes 0 is (bindE r (\<lambda>(v, is'). Ok (g v, is')))"
  by (rule takes_bind) auto

lemma takes_expect: "takes k is r \<Longrightarrow> takes k is (expect_wire expected wt r)"
  by (simp add: expect_wire_def takes_def)

lemma takes_if: "takes k is a \<Longrightarrow> takes k is b \<Longrightarrow> takes k is (if c then a else b)"
  by simp

lemma merge_loop_progress:
  assumes "\<And>m is. is \<noteq> [] \<Longrightarrow> takes 1 is (step m is)"
  shows "merge_loop step m is \<noteq> Inl NoProgress"
proof (induction "length is" arbitrary: m "is" rule: less_induct)
  case less
  show ?case
  proof (cases "is = []")
    case False
    with assms have t: "takes 1 is (step m is)" .
    show ?thesis
    proof (cases "step m is")
      case (Inl e)
      with False t show ?thesis
        by (simp add: merge_loop_error takes_def)
    next
      case (Inr p)
      obtain m' is' where p: "p = (m', is')"
        by (cases p)
      with Inr t have "length is' < length is"
        by (simp add: takes_def)
      with Inr p less show ?thesis
        by (simp add: merge_loop_step)
    qed
  qed simp
qed


section \<open>What a second encoding does to a field\<close>

text \<open>
  The bytes of a message say nothing of a field that has its default, so reading them leaves the value
  that is there. The list of a repeated field grows; an embedded message is merged into the one that is there, or
  into a new one, depending on the version of the crate.
\<close>

definition join_scalar :: "'a \<Rightarrow> 'a \<Rightarrow> 'a \<Rightarrow> 'a" where
  "join_scalar d a b = (if b = d then a else b)"

definition join_float :: "f32 \<Rightarrow> f32 \<Rightarrow> f32" where
  "join_float a b = (if f32_is_zero b then a else b)"

definition join_optional :: "'u protobuf_rt \<Rightarrow> 'm \<Rightarrow> ('m \<Rightarrow> 'm \<Rightarrow> 'm) \<Rightarrow> 'm option \<Rightarrow> 'm option \<Rightarrow> 'm option" where
  "join_optional W new join a b =
     (case b of None \<Rightarrow> a
      | Some v \<Rightarrow> Some (join (case a of Some u \<Rightarrow> if rt_keeps_value W then u else new | None \<Rightarrow> new) v))"

definition join_oneof :: "('o \<Rightarrow> 'o) \<Rightarrow> 'o option \<Rightarrow> 'o option \<Rightarrow> 'o option" where
  "join_oneof canon a b = (case b of None \<Rightarrow> a | Some v \<Rightarrow> Some (canon v))"

lemma join_fresh [simp]:
  "join_scalar d d b = b" "join_float 0 x = canon_f32 x" "join_oneof canon None y = map_option canon y"
  by (auto simp: join_scalar_def join_float_def canon_f32_def join_oneof_def split: option.split)

section \<open>Bytes a loop turns into a field\<close>

text \<open>
  \<open>consumes step m w m'\<close>: with the bytes \<open>w\<close> in front, the loop goes from \<open>m\<close> to \<open>m'\<close> and
  continues with what follows. A message is read back by composing this for its fields.
\<close>

definition consumes :: "('m \<Rightarrow> bytes \<Rightarrow> 'm reads) \<Rightarrow> 'm \<Rightarrow> bytes \<Rightarrow> 'm \<Rightarrow> bool" where
  "consumes step m w m' \<longleftrightarrow> (\<forall>r. merge_loop step m (w @ r) = merge_loop step m' r)"

lemma consumes_merge: "consumes step m w m' \<Longrightarrow> merge_loop step m w = Ok m'"
  unfolding consumes_def using merge_loop_Nil [of step m'] by (metis append_Nil2)

lemma consumes_finish: "w = [] \<Longrightarrow> m = m' \<Longrightarrow> consumes step m w m'"
  by (simp add: consumes_def)

lemma consumes_append:
  "consumes step m w m' \<Longrightarrow> consumes step m' w' m'' \<Longrightarrow> consumes step m (w @ w') m''"
  by (simp add: consumes_def)

lemma consumes_if:
  "(c \<Longrightarrow> consumes step m w m') \<Longrightarrow> (\<not> c \<Longrightarrow> m' = m) \<Longrightarrow> consumes step m (if c then w else []) m'"
  by (auto simp: consumes_def)

lemma consumesI:
  assumes "\<And>r. \<exists>x. rt_tag W (w @ r) = Inr (t, x) \<and> g x = Inr (m', r)"
    and "\<And>b x. rt_tag W b = Inr (t, x) \<Longrightarrow> step m b = g x" and "w \<noteq> []"
  shows "consumes step m w m'"
  unfolding consumes_def
proof
  fix r
  from assms(1) [of r] assms(2) have "step m (w @ r) = Inr (m', r)"
    by metis
  with assms(3) show "merge_loop step m (w @ r) = merge_loop step m' r"
    by (intro merge_loop_step) auto
qed

context protobuf_runtime
begin

lemma tag_consumes_input: "rt_tag W (w @ r) = Inr (t, x) \<Longrightarrow> length x < length w + length r"
  using takes_laws(1) [of "w @ r"] by (auto simp: takes_def)

lemma consumes_float:
  assumes "small_field f"
    and "\<And>b x. rt_tag W b = Inr ((f, WireTypeFixed32), x) \<Longrightarrow>
      step m b = bindE (rt_float W x) (\<lambda>(t, is). Ok (upd t, is))"
    and "upd t = m"
  shows "consumes step m (if \<not> f32_is_zero v then os_float W f v else []) (upd (join_float t v))"
proof (rule consumes_if)
  show "consumes step m (os_float W f v) (upd (join_float t v))" if nz: "\<not> f32_is_zero v"
  proof (rule consumesI [where W = W and t = "(f, WireTypeFixed32)" and g = "\<lambda>x. bindE (rt_float W x) (\<lambda>(t, is). Ok (upd t, is))"])
    show "step m b = bindE (rt_float W x) (\<lambda>(t, is). Ok (upd t, is))" if "rt_tag W b = Inr ((f, WireTypeFixed32), x)" for b x
      using that by (rule assms(2))
    show "\<exists>x. rt_tag W (os_float W f v @ r) = Inr ((f, WireTypeFixed32), x) \<and>
        bindE (rt_float W x) (\<lambda>(t, is). Ok (upd t, is)) = Inr (upd (join_float t v), r)" for r
      using float_law [OF assms(1), of v r] nz by (auto simp: join_float_def)
    show "os_float W f v \<noteq> []"
      using size_laws(2) [OF assms(1), of v] by auto
  qed
qed (use assms(3) in \<open>simp add: join_float_def\<close>)

lemma consumes_bool:
  assumes "small_field f"
    and "\<And>b x. rt_tag W b = Inr ((f, WireTypeVarint), x) \<Longrightarrow>
      step m b = bindE (rt_bool W x) (\<lambda>(t, is). Ok (upd t, is))"
    and "upd t = m"
  shows "consumes step m (if v then os_bool W f v else []) (upd (join_scalar False t v))"
proof (rule consumes_if)
  show "consumes step m (os_bool W f v) (upd (join_scalar False t v))" if "v"
  proof (rule consumesI [where W = W and t = "(f, WireTypeVarint)" and g = "\<lambda>x. bindE (rt_bool W x) (\<lambda>(t, is). Ok (upd t, is))"])
    show "step m b = bindE (rt_bool W x) (\<lambda>(t, is). Ok (upd t, is))" if "rt_tag W b = Inr ((f, WireTypeVarint), x)" for b x
      using that by (rule assms(2))
    show "\<exists>x. rt_tag W (os_bool W f v @ r) = Inr ((f, WireTypeVarint), x) \<and>
        bindE (rt_bool W x) (\<lambda>(t, is). Ok (upd t, is)) = Inr (upd (join_scalar False t v), r)" for r
      using bool_law [OF assms(1), of v r] that by (auto simp: join_scalar_def)
    show "os_bool W f v \<noteq> []"
      using size_laws(1) [OF assms(1), of v] by auto
  qed
qed (use assms(3) in \<open>simp add: join_scalar_def\<close>)

lemma consumes_int32:
  assumes "small_field f"
    and "\<And>b x. rt_tag W b = Inr ((f, WireTypeVarint), x) \<Longrightarrow>
      step m b = bindE (rt_int32 W x) (\<lambda>(t, is). Ok (upd t, is))"
    and "upd t = m"
  shows "consumes step m (if v \<noteq> 0 then os_int32 W f v else []) (upd (join_scalar 0 t v))"
proof (rule consumes_if)
  show "consumes step m (os_int32 W f v) (upd (join_scalar 0 t v))" if "v \<noteq> 0"
  proof (rule consumesI [where W = W and t = "(f, WireTypeVarint)" and g = "\<lambda>x. bindE (rt_int32 W x) (\<lambda>(t, is). Ok (upd t, is))"])
    show "step m b = bindE (rt_int32 W x) (\<lambda>(t, is). Ok (upd t, is))" if "rt_tag W b = Inr ((f, WireTypeVarint), x)" for b x
      using that by (rule assms(2))
    show "\<exists>x. rt_tag W (os_int32 W f v @ r) = Inr ((f, WireTypeVarint), x) \<and>
        bindE (rt_int32 W x) (\<lambda>(t, is). Ok (upd t, is)) = Inr (upd (join_scalar 0 t v), r)" for r
      using int32_law [OF assms(1), of v r] that by (auto simp: join_scalar_def)
    show "os_int32 W f v \<noteq> []"
      using int32_law [OF assms(1), of v "[]"] tag_consumes_input [of "os_int32 W f v" "[]"] by fastforce
  qed
qed (use assms(3) in \<open>simp add: join_scalar_def\<close>)

lemma os_string_not_Nil: "small_field f \<Longrightarrow> utf8 s \<Longrightarrow> os_string W f s \<noteq> []"
  using string_law [of f s "[]"] tag_consumes_input [of "os_string W f s" "[]"] by fastforce

lemma os_bytes_not_Nil: "small_field f \<Longrightarrow> os_bytes W f s \<noteq> []"
  using bytes_law [of f s "[]"] tag_consumes_input [of "os_bytes W f s" "[]"] by fastforce

lemma os_enum_not_Nil: "small_field f \<Longrightarrow> os_enum W f i \<noteq> []"
  using enum_law [of f "\<lambda>_. True" i "[]"] tag_consumes_input [of "os_enum W f i" "[]"] by fastforce

lemma consumes_one_string:
  assumes "small_field f" and "utf8 v" and "length (os_string W f v) < 2 ^ 32"
    and "\<And>b x. rt_tag W b = Inr ((f, WireTypeLengthDelimited), x) \<Longrightarrow>
      step m b = bindE (rt_string_into W WireTypeLengthDelimited x) (\<lambda>(t, is). Ok (upd t, is))"
  shows "consumes step m (os_string W f v) (upd v)"
proof (rule consumesI [where W = W and t = "(f, WireTypeLengthDelimited)" and g = "\<lambda>x. bindE (rt_string_into W WireTypeLengthDelimited x) (\<lambda>(t, is). Ok (upd t, is))"])
  show "step m b = bindE (rt_string_into W WireTypeLengthDelimited x) (\<lambda>(t, is). Ok (upd t, is))" if "rt_tag W b = Inr ((f, WireTypeLengthDelimited), x)" for b x
    using that by (rule assms(4))
  show "\<exists>x. rt_tag W (os_string W f v @ r) = Inr ((f, WireTypeLengthDelimited), x) \<and>
      bindE (rt_string_into W WireTypeLengthDelimited x) (\<lambda>(t, is). Ok (upd t, is)) = Inr (upd v, r)" for r
    using string_law [OF assms(1-3), of r] by auto
qed (use assms os_string_not_Nil in blast)

lemma consumes_string:
  assumes "small_field f" and "utf8 v"
    and "length (if v \<noteq> [] then os_string W f v else []) < 2 ^ 32"
    and "\<And>b x. rt_tag W b = Inr ((f, WireTypeLengthDelimited), x) \<Longrightarrow>
      step m b = bindE (rt_string_into W WireTypeLengthDelimited x) (\<lambda>(t, is). Ok (upd t, is))"
    and "upd t = m"
  shows "consumes step m (if v \<noteq> [] then os_string W f v else []) (upd (join_scalar [] t v))"
  using consumes_one_string [of f v step m upd] assms by (intro consumes_if) (auto simp: join_scalar_def)

lemma consumes_enum:
  assumes "small_field f" and "\<And>e. conv (value e) = Some e"
    and "\<And>b x. rt_tag W b = Inr ((f, WireTypeVarint), x) \<Longrightarrow>
      step m b = bindE (read_enum_into W conv WireTypeVarint x t f u) (\<lambda>((t, u), is). Ok (upd t u, is))"
    and "upd t u = m"
  shows "consumes step m (if v \<noteq> d then os_enum W f (value v) else []) (upd (join_scalar d t v) u)"
proof (rule consumes_if)
  show "consumes step m (os_enum W f (value v)) (upd (join_scalar d t v) u)" if "v \<noteq> d"
  proof (rule consumesI [where W = W and t = "(f, WireTypeVarint)" and g = "\<lambda>x. bindE (read_enum_into W conv WireTypeVarint x t f u) (\<lambda>((t, u), is). Ok (upd t u, is))"])
    show "step m b = bindE (read_enum_into W conv WireTypeVarint x t f u) (\<lambda>((t, u), is). Ok (upd t u, is))" if "rt_tag W b = Inr ((f, WireTypeVarint), x)" for b x
      using that by (rule assms(3))
    show "\<exists>x. rt_tag W (os_enum W f (value v) @ r) = Inr ((f, WireTypeVarint), x) \<and>
        bindE (read_enum_into W conv WireTypeVarint x t f u) (\<lambda>((t, u), is). Ok (upd t u, is)) =
        Inr (upd (join_scalar d t v) u, r)" for r
      using enum_law [OF assms(1), of "\<lambda>i. conv i \<noteq> None" "value v" r u] that
      by (auto simp: read_enum_into_def assms(2) join_scalar_def)
  qed (use assms os_enum_not_Nil in auto)
qed (use assms(4) in \<open>simp add: join_scalar_def\<close>)

lemma consumes_bytes:
  assumes "small_field f" and "length (if v \<noteq> [] then os_bytes W f v else []) < 2 ^ 32"
    and "\<And>b x. rt_tag W b = Inr ((f, WireTypeLengthDelimited), x) \<Longrightarrow>
      step m b = bindE (rt_bytes_into W WireTypeLengthDelimited x) (\<lambda>(t, is). Ok (upd t, is))"
    and "upd t = m"
  shows "consumes step m (if v \<noteq> [] then os_bytes W f v else []) (upd (join_scalar [] t v))"
proof (rule consumes_if)
  show "consumes step m (os_bytes W f v) (upd (join_scalar [] t v))" if "v \<noteq> []"
  proof (rule consumesI [where W = W and t = "(f, WireTypeLengthDelimited)" and
      g = "\<lambda>x. bindE (rt_bytes_into W WireTypeLengthDelimited x) (\<lambda>(t, is). Ok (upd t, is))"])
    show "\<exists>x. rt_tag W (os_bytes W f v @ r) = Inr ((f, WireTypeLengthDelimited), x) \<and>
        bindE (rt_bytes_into W WireTypeLengthDelimited x) (\<lambda>(t, is). Ok (upd t, is)) = Inr (upd (join_scalar [] t v), r)" for r
      using bytes_law [OF assms(1), of v r] assms(2) that by (auto simp: join_scalar_def)
  qed (use assms os_bytes_not_Nil in auto)
qed (use assms(4) in \<open>simp add: join_scalar_def\<close>)

lemma consumes_read_bytes:
  assumes "small_field f" and "length (os_bytes W f v) < 2 ^ 32"
    and "\<And>b x. rt_tag W b = Inr ((f, WireTypeLengthDelimited), x) \<Longrightarrow>
      step m b = bindE (rt_bytes W x) (\<lambda>(t, is). Ok (upd t, is))"
  shows "consumes step m (os_bytes W f v) (upd v)"
proof (rule consumesI [where W = W and t = "(f, WireTypeLengthDelimited)" and
    g = "\<lambda>x. bindE (rt_bytes W x) (\<lambda>(t, is). Ok (upd t, is))"])
  show "\<exists>x. rt_tag W (os_bytes W f v @ r) = Inr ((f, WireTypeLengthDelimited), x) \<and>
      bindE (rt_bytes W x) (\<lambda>(t, is). Ok (upd t, is)) = Inr (upd v, r)" for r
    using bytes_law [OF assms(1,2), of r] by auto
qed (use assms os_bytes_not_Nil in auto)

lemma consumes_read_string:
  assumes "small_field f" and "utf8 v" and "length (os_string W f v) < 2 ^ 32"
    and "\<And>b x. rt_tag W b = Inr ((f, WireTypeLengthDelimited), x) \<Longrightarrow>
      step m b = bindE (rt_string W x) (\<lambda>(t, is). Ok (upd t, is))"
  shows "consumes step m (os_string W f v) (upd v)"
proof (rule consumesI [where W = W and t = "(f, WireTypeLengthDelimited)" and
    g = "\<lambda>x. bindE (rt_string W x) (\<lambda>(t, is). Ok (upd t, is))"])
  show "\<exists>x. rt_tag W (os_string W f v @ r) = Inr ((f, WireTypeLengthDelimited), x) \<and>
      bindE (rt_string W x) (\<lambda>(t, is). Ok (upd t, is)) = Inr (upd v, r)" for r
    using string_law [OF assms(1-3), of r] by auto
qed (use assms os_string_not_Nil in auto)

lemma consumes_repeated_string:
  assumes "small_field f"
    and "\<And>vs b x. rt_tag W b = Inr ((f, WireTypeLengthDelimited), x) \<Longrightarrow>
      step (upd vs) b = bindE (rt_repeated_string_into W WireTypeLengthDelimited x) (\<lambda>(t, is). Ok (upd (vs @ [t]), is))"
  shows "\<forall>s \<in> set vs. utf8 s \<Longrightarrow> length (concat (map (os_string W f) vs)) < 2 ^ 32 \<Longrightarrow>
    consumes step (upd us) (concat (map (os_string W f) vs)) (upd (us @ vs))"
proof (induction vs arbitrary: us)
  case (Cons v vs)
  have "consumes step (upd us) (os_string W f v) (upd (us @ [v]))"
  proof (rule consumesI [where W = W and t = "(f, WireTypeLengthDelimited)" and
      g = "\<lambda>x. bindE (rt_repeated_string_into W WireTypeLengthDelimited x) (\<lambda>(t, is). Ok (upd (us @ [t]), is))"])
    show "\<exists>x. rt_tag W (os_string W f v @ r) = Inr ((f, WireTypeLengthDelimited), x) \<and>
        bindE (rt_repeated_string_into W WireTypeLengthDelimited x) (\<lambda>(t, is). Ok (upd (us @ [t]), is)) =
        Inr (upd (us @ [v]), r)" for r
      using string_law [OF assms(1), of v r] Cons.prems by auto
  qed (use assms Cons.prems os_string_not_Nil in auto)
  from consumes_append [OF this Cons.IH [of "us @ [v]"]] Cons.prems show ?case
    by simp
qed (simp add: consumes_finish)

lemma takes_read_enum: "takes 0 is (read_enum_into W from_i32 wt is target f u)"
  unfolding read_enum_into_def
  by (auto intro!: takes_bind takes_laws split: prod.splits)

end

section \<open>Sizes and lengths along the fields\<close>

lemma size_chain:
  "(if c then n + a else n) = n + (if c then a else (0 :: u32))"
  "(if c then n else n + a) = n + (if c then 0 else (a :: u32))"
  "length (if c then w else w') = (if c then length w else length w')"
  "of_nat (if c then k else l) = (if c then of_nat k else of_nat l :: u32)"
  by simp_all

lemma length_first: "length (a @ b) < (n :: nat) \<Longrightarrow> length a < n"
  by simp

lemma length_rest: "length (a @ b) < (n :: nat) \<Longrightarrow> length b < n"
  by simp

section \<open>What every message type promises\<close>

text \<open>
  The operations of a generated message type and their contract: the size is the number of
  bytes written (modulo \<open>2 ^ 32\<close>) and is stored, a message whose bytes fit in an \<open>u32\<close> is
  read back up to \<open>canon\<close> (the sign of a zero float and the stored sizes are not
  transmitted), and the reader never stalls. \<open>pb_message\<close> is what a field of message type
  relies on; each generated type is shown to satisfy it.
\<close>

locale pb_message = protobuf_runtime W for W :: "'u protobuf_rt" +
  fixes new :: 'm
    and initialized :: "'m \<Rightarrow> bool"
    and compute_size :: "'m \<Rightarrow> u32 \<times> 'm"
    and wr :: "'m \<Rightarrow> bytes"
    and cached :: "'m \<Rightarrow> u32"
    and merge :: "'m \<Rightarrow> bytes \<Rightarrow> pb_error + 'm"
    and wf :: "'m \<Rightarrow> bool"
    and canon :: "'m \<Rightarrow> 'm"
    and join :: "'m \<Rightarrow> 'm \<Rightarrow> 'm"
  assumes size_exact: "fst (compute_size m) = of_nat (length (wr (snd (compute_size m))))"
    and size_cached: "cached (snd (compute_size m)) = fst (compute_size m)"
    and all_initialized: "initialized m"
    and joins: "wf m \<Longrightarrow> length (wr (snd (compute_size m))) < 2 ^ 32 \<Longrightarrow>
      merge a (wr (snd (compute_size m)) @ r) = merge (join a m) r"
    and join_new: "wf m \<Longrightarrow> join new m = canon m"
    and merge_Nil: "merge m [] = Inr m"
    and no_stall: "merge m is \<noteq> Inl NoProgress"
begin

lemma merges_written:
  "wf m \<Longrightarrow> length (wr (snd (compute_size m))) < 2 ^ 32 \<Longrightarrow> merge a (wr (snd (compute_size m))) = Inr (join a m)"
  using joins [of m a "[]"] by (simp add: merge_Nil)

lemma reads_back:
  "wf m \<Longrightarrow> length (wr (snd (compute_size m))) < 2 ^ 32 \<Longrightarrow> merge new (wr (snd (compute_size m))) = Inr (canon m)"
  by (simp add: merges_written join_new)

lemma embedded_size_exact:
  "small_field f \<Longrightarrow>
    fst (embedded_size W compute_size v) =
    of_nat (length (os_message W f cached wr (snd (embedded_size W compute_size v))))"
  using size_exact [of v]
  by (simp add: embedded_size_def os_message_def case_prod_beta size_cached size_laws(7) tag_length)

lemma optional_size_exact:
  "small_field f \<Longrightarrow>
    fst (optional_size W compute_size v) =
    of_nat (length (os_optional W f cached wr (snd (optional_size W compute_size v))))"
  by (cases v) (simp_all add: case_prod_beta embedded_size_exact [symmetric])

lemma repeated_size_exact:
  "small_field f \<Longrightarrow>
    fst (repeated_size W compute_size vs) =
    of_nat (length (os_repeated W f cached wr (snd (repeated_size W compute_size vs))))"
  by (induction vs) (simp_all add: case_prod_beta embedded_size_exact [symmetric])

text \<open>The stored size is the length of what follows, as long as it fits.\<close>

lemma embedded_law:
  assumes "small_field f" and "wf v"
    and "length (os_message W f cached wr (snd (embedded_size W compute_size v))) < 2 ^ 32"
  obtains b where "\<And>a. merge a b = Inr (join a v)"
    and "\<And>r. \<exists>x. rt_tag W (os_message W f cached wr (snd (embedded_size W compute_size v)) @ r) =
          Inr ((f, WireTypeLengthDelimited), x) \<and>
        rt_message W x = Inr (b, r) \<and> rt_message_into W WireTypeLengthDelimited x = Inr (b, r)"
proof
  let ?b = "wr (snd (compute_size v))"
  have len: "length ?b < 2 ^ 32"
    using assms(3) by (simp add: embedded_size_def os_message_def case_prod_beta)
  then have "unat (fst (compute_size v)) = length ?b"
    by (simp add: size_exact unat_u32_of_nat)
  then show "\<exists>x. rt_tag W (os_message W f cached wr (snd (embedded_size W compute_size v)) @ r) =
          Inr ((f, WireTypeLengthDelimited), x) \<and>
        rt_message W x = Inr (?b, r) \<and> rt_message_into W WireTypeLengthDelimited x = Inr (?b, r)" for r
    using message_law [OF assms(1), of ?b "fst (compute_size v)" r]
    by (simp add: embedded_size_def os_message_def case_prod_beta size_cached)
  show "merge a ?b = Inr (join a v)" for a
    using merges_written assms(2) len by simp
qed

lemma os_message_not_Nil: "small_field f \<Longrightarrow> os_message W f cached wr v \<noteq> []"
  using tag_length [of f WireTypeLengthDelimited] by (auto simp: os_message_def)

lemma consumes_message:
  assumes "small_field f" and "wf v"
    and "length (os_message W f cached wr (snd (embedded_size W compute_size v))) < 2 ^ 32"
    and "\<And>b x. rt_tag W b = Inr ((f, WireTypeLengthDelimited), x) \<Longrightarrow>
      step m b = bindE (read_message W new merge initialized x) (\<lambda>(t, is). Ok (upd t, is))"
  shows "consumes step m (os_message W f cached wr (snd (embedded_size W compute_size v))) (upd (canon v))"
proof -
  obtain b where b: "\<And>a. merge a b = Inr (join a v)"
    and law: "\<And>r. \<exists>x. rt_tag W (os_message W f cached wr (snd (embedded_size W compute_size v)) @ r) =
          Inr ((f, WireTypeLengthDelimited), x) \<and>
        rt_message W x = Inr (b, r) \<and> rt_message_into W WireTypeLengthDelimited x = Inr (b, r)"
    by (rule embedded_law [OF assms(1-3)]) (rule that)
  show ?thesis
  proof (rule consumesI [where W = W and t = "(f, WireTypeLengthDelimited)" and
      g = "\<lambda>x. bindE (read_message W new merge initialized x) (\<lambda>(t, is). Ok (upd t, is))"])
    show "\<exists>x. rt_tag W (os_message W f cached wr (snd (embedded_size W compute_size v)) @ r) =
          Inr ((f, WireTypeLengthDelimited), x) \<and>
        bindE (read_message W new merge initialized x) (\<lambda>(t, is). Ok (upd t, is)) = Inr (upd (canon v), r)" for r
      using law [of r] by (auto simp: read_message_def b all_initialized join_new [OF assms(2)])
  qed (use assms os_message_not_Nil in auto)
qed

lemma consumes_optional:
  assumes "small_field f" and "pred_option wf v"
    and "length (os_optional W f cached wr (snd (optional_size W compute_size v))) < 2 ^ 32"
    and "\<And>b x. rt_tag W b = Inr ((f, WireTypeLengthDelimited), x) \<Longrightarrow>
      step m b = bindE (read_singular_message_into W new merge WireTypeLengthDelimited x t)
        (\<lambda>(y, is). Ok (upd y, is))"
    and "upd t = m"
  shows "consumes step m (os_optional W f cached wr (snd (optional_size W compute_size v)))
    (upd (join_optional W new join t v))"
proof (cases v)
  case (Some u)
  have len: "length (os_message W f cached wr (snd (embedded_size W compute_size u))) < 2 ^ 32"
    using assms(3) by (simp add: Some case_prod_beta)
  obtain b where b: "\<And>a. merge a b = Inr (join a u)"
    and law: "\<And>r. \<exists>x. rt_tag W (os_message W f cached wr (snd (embedded_size W compute_size u)) @ r) =
          Inr ((f, WireTypeLengthDelimited), x) \<and>
        rt_message W x = Inr (b, r) \<and> rt_message_into W WireTypeLengthDelimited x = Inr (b, r)"
    using embedded_law [OF assms(1) _ len] assms(2) by (auto simp: Some)
  have "consumes step m (os_message W f cached wr (snd (embedded_size W compute_size u))) (upd (join_optional W new join t (Some u)))"
  proof (rule consumesI [where W = W and t = "(f, WireTypeLengthDelimited)" and
      g = "\<lambda>x. bindE (read_singular_message_into W new merge WireTypeLengthDelimited x t)
        (\<lambda>(y, is). Ok (upd y, is))"])
    show "\<exists>x. rt_tag W (os_message W f cached wr (snd (embedded_size W compute_size u)) @ r) =
          Inr ((f, WireTypeLengthDelimited), x) \<and>
        bindE (read_singular_message_into W new merge WireTypeLengthDelimited x t)
          (\<lambda>(y, is). Ok (upd y, is)) = Inr (upd (join_optional W new join t (Some u)), r)" for r
      using law [of r] by (auto simp: read_singular_message_into_def b join_optional_def)
  qed (use assms os_message_not_Nil in auto)
  then show ?thesis
    by (simp add: Some case_prod_beta)
qed (use assms(5) in \<open>simp add: consumes_finish join_optional_def\<close>)

lemma consumes_repeated:
  assumes "small_field f"
    and step: "\<And>vs b x. rt_tag W b = Inr ((f, WireTypeLengthDelimited), x) \<Longrightarrow>
      step (upd vs) b = bindE (read_repeated_message_into W new merge WireTypeLengthDelimited x vs)
        (\<lambda>(t, is). Ok (upd t, is))"
  shows "list_all wf vs \<Longrightarrow>
    length (os_repeated W f cached wr (snd (repeated_size W compute_size vs))) < 2 ^ 32 \<Longrightarrow>
    consumes step (upd us) (os_repeated W f cached wr (snd (repeated_size W compute_size vs)))
      (upd (us @ map canon vs))"
proof (induction vs arbitrary: us)
  case (Cons v vs)
  have len: "length (os_message W f cached wr (snd (embedded_size W compute_size v))) < 2 ^ 32"
    using Cons.prems(2) by (simp add: case_prod_beta)
  obtain b where b: "\<And>a. merge a b = Inr (join a v)"
    and law: "\<And>r. \<exists>x. rt_tag W (os_message W f cached wr (snd (embedded_size W compute_size v)) @ r) =
          Inr ((f, WireTypeLengthDelimited), x) \<and>
        rt_message W x = Inr (b, r) \<and> rt_message_into W WireTypeLengthDelimited x = Inr (b, r)"
    using embedded_law [OF assms(1) _ len] Cons.prems(1) by auto
  have "consumes step (upd us) (os_message W f cached wr (snd (embedded_size W compute_size v)))
      (upd (us @ [canon v]))"
  proof (rule consumesI [where W = W and t = "(f, WireTypeLengthDelimited)" and
      g = "\<lambda>x. bindE (read_repeated_message_into W new merge WireTypeLengthDelimited x us)
        (\<lambda>(t, is). Ok (upd t, is))"])
    show "\<exists>x. rt_tag W (os_message W f cached wr (snd (embedded_size W compute_size v)) @ r) =
          Inr ((f, WireTypeLengthDelimited), x) \<and>
        bindE (read_repeated_message_into W new merge WireTypeLengthDelimited x us)
          (\<lambda>(t, is). Ok (upd t, is)) = Inr (upd (us @ [canon v]), r)" for r
      using law [of r] Cons.prems(1) by (auto simp: read_repeated_message_into_def b join_new)
  qed (use assms os_message_not_Nil in auto)
  from consumes_append [OF this Cons.IH [of "us @ [canon v]"]] Cons.prems show ?case
    by (simp add: case_prod_beta)
qed (simp add: consumes_finish)

lemma join_optional_None: "pred_option wf b \<Longrightarrow> join_optional W new join None b = map_option canon b"
  by (cases b) (simp_all add: join_optional_def join_new)

text \<open>Reading an embedded message consumes no more than the bytes that are there and reports
  every failure.\<close>

lemma takes_merge_embedded:
  assumes "takes 0 is r" and "\<And>b is' m. takes 0 is' (h b is' m)"
  shows "takes 0 is (bindE r (\<lambda>(b, is'). bindE (merge (g b) b) (h b is')))"
  using assms(1)
proof (rule takes_bind)
  fix b is'
  show "takes 0 is' (bindE (merge (g b) b) (h b is'))"
    using assms(2) [of is' b] no_stall [of "g b" b] by (cases "merge (g b) b") (auto simp: takes_def)
qed

lemma takes_read_message: "takes 0 is (read_message W new merge initialized is)"
  unfolding read_message_def
  by (rule takes_merge_embedded [where g = "\<lambda>_. new"]) (auto simp: takes_laws all_initialized)

lemma takes_singular_message: "takes 0 is (read_singular_message_into W new merge wt is target)"
  unfolding read_singular_message_into_def
  by (rule takes_merge_embedded) (auto simp: takes_laws)

lemma takes_repeated_message: "takes 0 is (read_repeated_message_into W new merge wt is target)"
  unfolding read_repeated_message_into_def
  by (rule takes_merge_embedded [where g = "\<lambda>_. new"]) (auto simp: takes_laws)

text \<open>\<^verbatim>\<open>write_to_bytes\<close> then \<^verbatim>\<open>parse_from_bytes\<close>, the pair a client and the server use.\<close>

lemma write_to_bytes_eq:
  "length (wr (snd (compute_size m))) < 2 ^ 32 \<Longrightarrow>
    write_to_bytes initialized compute_size wr m = Inr (wr (snd (compute_size m)))"
  using size_exact [of m]
  by (simp add: write_to_bytes_def all_initialized case_prod_beta unat_u32_of_nat)

lemma write_to_bytes_InrD:
  "write_to_bytes initialized compute_size wr m = Inr b \<Longrightarrow>
    b = wr (snd (compute_size m)) \<and> length b < 2 ^ 32"
  using unsigned_less [of "fst (compute_size m)", where ?'a = nat]
  by (auto simp: write_to_bytes_def all_initialized case_prod_beta Let_def split: if_splits)

lemma parse_merges: "parse_from_bytes new initialized merge b = merge new b"
  by (cases "merge new b") (simp_all add: parse_from_bytes_def all_initialized)

lemma parse_written:
  assumes "wf m" and "write_to_bytes initialized compute_size wr m = Inr b"
  shows "parse_from_bytes new initialized merge b = Inr (canon m)"
proof -
  have b: "b = wr (snd (compute_size m))" and "length b < 2 ^ 32"
    using write_to_bytes_InrD [OF assms(2)] by auto
  then show ?thesis
    using reads_back [OF assms(1)] by (simp add: parse_merges)
qed

lemma round_trip:
  assumes "wf m" and "length (wr (snd (compute_size m))) < 2 ^ 32"
  shows "\<exists>b. write_to_bytes initialized compute_size wr m = Inr b \<and>
    parse_from_bytes new initialized merge b = Inr (canon m)"
  using write_to_bytes_eq [OF assms(2)] parse_written [OF assms(1)] by blast

lemma written_length:
  "write_to_bytes initialized compute_size wr m = Inr b \<Longrightarrow> length (wr (snd (compute_size m))) < 2 ^ 32"
  using write_to_bytes_InrD by blast

end

section \<open>Fields with presence\<close>

text \<open>
  The accessors of a field that may be absent (an optional message, an alternative of a
  \<^verbatim>\<open>oneof\<close>): \<open>mut\<close> applies a function through the \<^verbatim>\<open>&mut\<close> the code hands out. In the code
  \<open>mut\<close> and \<open>take\<close> end in \<^verbatim>\<open>unwrap\<close> or in a \<^verbatim>\<open>panic!()\<close> arm; the laws say these are not
  reached.
\<close>

locale presence_field =
  fixes dflt :: 'v
    and has :: "'m \<Rightarrow> bool"
    and get :: "'m \<Rightarrow> 'v"
    and put :: "'v \<Rightarrow> 'm \<Rightarrow> 'm"
    and clear :: "'m \<Rightarrow> 'm"
    and mut :: "('v \<Rightarrow> 'v) \<Rightarrow> 'm \<Rightarrow> 'm result"
    and takev :: "'m \<Rightarrow> ('v \<times> 'm) result"
  assumes has_set: "has (put v m)"
    and has_clear: "\<not> has (clear m)"
    and get_set: "get (put v m) = v"
    and get_absent: "\<not> has m \<Longrightarrow> get m = dflt"
    and set_set: "put v (put w m) = put v m"
    and clear_set: "clear (put v m) = clear m"
    and mut_spec: "mut g m = Inr (put (g (get m)) m)"
    and take_spec: "takev m = Inr (get m, if has m then clear m else m)"
begin

lemma mut_mut: "bindE (mut g m) (mut h) = mut (\<lambda>v. h (g v)) m"
  by (simp add: mut_spec get_set set_set)

lemma mut_after_clear: "mut g (clear (put v m)) = mut g (clear m)"
  by (simp add: clear_set)

lemma take_set: "takev (put v m) = Inr (v, clear m)"
  by (simp add: take_spec has_set get_set clear_set)

lemma take_twice: "bindE (takev m) (\<lambda>(v, m'). takev m') = Inr (dflt, if has m then clear m else m)"
  by (simp add: take_spec has_clear get_absent)

end

end
