(* ===== verification/Pb_Model.thy ===== *)
theory Pb_Model
  imports Pb_Runtime
begin

text \<open>
  The messages of \<^verbatim>\<open>rust/frontend-proto/src/model.rs\<close>: the scene, its devices and their chips.
  The types are the structs and enums of the file; a record has the fields of its struct under
  the struct's name, after the two special fields of \<open>pb_special\<close>. For every type the theory has
  the accessors (\<open>get\<close>, \<open>clear\<close>, \<open>set\<close>, \<open>has\<close>, \<open>mut\<close>, \<open>take\<close>; what a caller does through the \<^verbatim>\<open>&mut\<close>
  that \<open>mut\<close> returns is its argument \<open>g\<close>), the body and the loop of \<^verbatim>\<open>merge_from\<close>, \<^verbatim>\<open>compute_size\<close>
  with the sizes it stores, \<^verbatim>\<open>write_to_with_cached_sizes\<close> and \<^verbatim>\<open>clear\<close>. The reflection tables are in
  theory \<open>Pb_Reflect\<close>, the glue for dynamic types is in \<open>Pb_Object\<close>.

  Each type is shown to satisfy \<open>pb_message\<close> for every runtime that keeps the laws of
  \<open>protobuf_runtime\<close>, its fields with presence satisfy \<open>presence_field\<close>.
\<close>

section \<open>Enumerations\<close>

datatype PhyKind =
    PhyKind_NONE
  | PhyKind_BLUETOOTH_CLASSIC
  | PhyKind_BLUETOOTH_LOW_ENERGY
  | PhyKind_WIFI
  | PhyKind_UWB
  | PhyKind_WIFI_RTT

fun PhyKind_value :: "PhyKind \<Rightarrow> i32" where
  "PhyKind_value PhyKind_NONE = 0"
| "PhyKind_value PhyKind_BLUETOOTH_CLASSIC = 1"
| "PhyKind_value PhyKind_BLUETOOTH_LOW_ENERGY = 2"
| "PhyKind_value PhyKind_WIFI = 3"
| "PhyKind_value PhyKind_UWB = 4"
| "PhyKind_value PhyKind_WIFI_RTT = 5"

definition PhyKind_from_i32 :: "i32 \<Rightarrow> PhyKind option" where
  "PhyKind_from_i32 value =
     (if value = 0 then Some PhyKind_NONE
      else if value = 1 then Some PhyKind_BLUETOOTH_CLASSIC
      else if value = 2 then Some PhyKind_BLUETOOTH_LOW_ENERGY
      else if value = 3 then Some PhyKind_WIFI
      else if value = 4 then Some PhyKind_UWB
      else if value = 5 then Some PhyKind_WIFI_RTT
      else None)"

definition PhyKind_values :: "PhyKind list" where
  "PhyKind_values =
     [PhyKind_NONE, PhyKind_BLUETOOTH_CLASSIC, PhyKind_BLUETOOTH_LOW_ENERGY, PhyKind_WIFI, PhyKind_UWB, PhyKind_WIFI_RTT]"

definition PhyKind_default :: PhyKind where
  "PhyKind_default = PhyKind_NONE"

lemma PhyKind_from_value [simp]: "PhyKind_from_i32 (PhyKind_value e) = Some e"
  by (cases e) (simp_all add: PhyKind_from_i32_def)

lemma PhyKind_value_from: "PhyKind_from_i32 i = Some e \<Longrightarrow> PhyKind_value e = i"
  by (auto simp: PhyKind_from_i32_def split: if_splits)

lemma PhyKind_values_complete: "distinct PhyKind_values \<and> set PhyKind_values = UNIV"
  using PhyKind.exhaust by (auto simp: PhyKind_values_def)

datatype State =
    State_UNKNOWN
  | State_ON
  | State_OFF

fun State_value :: "State \<Rightarrow> i32" where
  "State_value State_UNKNOWN = 0"
| "State_value State_ON = 1"
| "State_value State_OFF = 2"

definition State_from_i32 :: "i32 \<Rightarrow> State option" where
  "State_from_i32 value =
     (if value = 0 then Some State_UNKNOWN
      else if value = 1 then Some State_ON
      else if value = 2 then Some State_OFF
      else None)"

definition State_values :: "State list" where
  "State_values =
     [State_UNKNOWN, State_ON, State_OFF]"

definition State_default :: State where
  "State_default = State_UNKNOWN"

lemma State_from_value [simp]: "State_from_i32 (State_value e) = Some e"
  by (cases e) (simp_all add: State_from_i32_def)

lemma State_value_from: "State_from_i32 i = Some e \<Longrightarrow> State_value e = i"
  by (auto simp: State_from_i32_def split: if_splits)

lemma State_values_complete: "distinct State_values \<and> set State_values = UNIV"
  using State.exhaust by (auto simp: State_values_def)

section \<open>\<^verbatim>\<open>Position\<close>\<close>

record 'u Position = "'u pb_special" +
  Position_x :: f32
  Position_y :: f32
  Position_z :: f32

definition Position_new :: "'u protobuf_rt \<Rightarrow> 'u Position" where
  "Position_new W =
     \<lparr>unknown_fields = uf_new W, cached_size = 0,
      Position_x = 0, Position_y = 0, Position_z = 0\<rparr>"

definition Position_get_x :: "'u Position \<Rightarrow> f32" where "Position_get_x m = Position_x m"
definition Position_clear_x :: "'u Position \<Rightarrow> 'u Position" where
  "Position_clear_x m = m\<lparr>Position_x := 0\<rparr>"
definition Position_set_x :: "f32 \<Rightarrow> 'u Position \<Rightarrow> 'u Position" where
  "Position_set_x v m = m\<lparr>Position_x := v\<rparr>"
definition Position_get_y :: "'u Position \<Rightarrow> f32" where "Position_get_y m = Position_y m"
definition Position_clear_y :: "'u Position \<Rightarrow> 'u Position" where
  "Position_clear_y m = m\<lparr>Position_y := 0\<rparr>"
definition Position_set_y :: "f32 \<Rightarrow> 'u Position \<Rightarrow> 'u Position" where
  "Position_set_y v m = m\<lparr>Position_y := v\<rparr>"
definition Position_get_z :: "'u Position \<Rightarrow> f32" where "Position_get_z m = Position_z m"
definition Position_clear_z :: "'u Position \<Rightarrow> 'u Position" where
  "Position_clear_z m = m\<lparr>Position_z := 0\<rparr>"
definition Position_set_z :: "f32 \<Rightarrow> 'u Position \<Rightarrow> 'u Position" where
  "Position_set_z v m = m\<lparr>Position_z := v\<rparr>"

definition Position_is_initialized :: "'u Position \<Rightarrow> bool" where
  "Position_is_initialized m = True"

definition Position_merge_step :: "'u protobuf_rt \<Rightarrow> 'u Position \<Rightarrow> bytes \<Rightarrow> 'u Position reads" where
  "Position_merge_step W m is =
     bindE (rt_tag W is) (\<lambda>((field_number, wire_type), is).
       if field_number = 1 then
         expect_wire WireTypeFixed32 wire_type
          (bindE (rt_float W is) (\<lambda>(tmp, is). Ok (m\<lparr>Position_x := tmp\<rparr>, is)))
       else if field_number = 2 then
         expect_wire WireTypeFixed32 wire_type
          (bindE (rt_float W is) (\<lambda>(tmp, is). Ok (m\<lparr>Position_y := tmp\<rparr>, is)))
       else if field_number = 3 then
         expect_wire WireTypeFixed32 wire_type
          (bindE (rt_float W is) (\<lambda>(tmp, is). Ok (m\<lparr>Position_z := tmp\<rparr>, is)))
       else bindE (rt_unknown W field_number wire_type is (unknown_fields m))
         (\<lambda>(u, is). Ok (m\<lparr>unknown_fields := u\<rparr>, is)))"

definition Position_merge_from :: "'u protobuf_rt \<Rightarrow> 'u Position \<Rightarrow> bytes \<Rightarrow> pb_error + 'u Position" where
  "Position_merge_from W = merge_loop (Position_merge_step W)"

definition Position_compute_size :: "'u protobuf_rt \<Rightarrow> 'u Position \<Rightarrow> u32 \<times> 'u Position" where
  "Position_compute_size W m =
     (let my_size = 0;
          my_size = (if \<not> f32_is_zero (Position_x m) then my_size + 5 else my_size);
          my_size = (if \<not> f32_is_zero (Position_y m) then my_size + 5 else my_size);
          my_size = (if \<not> f32_is_zero (Position_z m) then my_size + 5 else my_size);
          my_size = my_size + uf_size W (unknown_fields m)
      in (my_size, m\<lparr>cached_size := my_size\<rparr>))"

definition Position_write_to_with_cached_sizes :: "'u protobuf_rt \<Rightarrow> 'u Position \<Rightarrow> bytes" where
  "Position_write_to_with_cached_sizes W m =
     (if \<not> f32_is_zero (Position_x m) then os_float W 1 (Position_x m) else []) @
     (if \<not> f32_is_zero (Position_y m) then os_float W 2 (Position_y m) else []) @
     (if \<not> f32_is_zero (Position_z m) then os_float W 3 (Position_z m) else []) @
     os_unknown W (unknown_fields m)"

definition Position_get_cached_size :: "'u Position \<Rightarrow> u32" where
  "Position_get_cached_size m = cached_size m"

definition Position_clear :: "'u protobuf_rt \<Rightarrow> 'u Position \<Rightarrow> 'u Position" where
  "Position_clear W m = m\<lparr>Position_x := 0, Position_y := 0, Position_z := 0, unknown_fields := uf_new W\<rparr>"

text \<open>Values Rust can hold, without unknown fields, and what a reader gets back.\<close>

definition Position_wf :: "'u protobuf_rt \<Rightarrow> 'u Position \<Rightarrow> bool" where
  "Position_wf W m \<longleftrightarrow>
     unknown_fields m = uf_new W"

definition Position_canon :: "'u Position \<Rightarrow> 'u Position" where
  "Position_canon m = m\<lparr>cached_size := 0, Position_x := canon_f32 (Position_x m), Position_y := canon_f32 (Position_y m), Position_z := canon_f32 (Position_z m)\<rparr>"

text \<open>The message after an encoding of \<open>m\<close> has been read into it.\<close>

definition Position_join :: "'u protobuf_rt \<Rightarrow> 'u Position \<Rightarrow> 'u Position \<Rightarrow> 'u Position" where
  "Position_join W a m = a\<lparr>Position_x := join_float (Position_x a) (Position_x m),
     Position_y := join_float (Position_y a) (Position_y m),
     Position_z := join_float (Position_z a) (Position_z m)\<rparr>"

context protobuf_runtime
begin

lemma Position_sized:
  "snd (Position_compute_size W m) =
     m\<lparr>cached_size := fst (Position_compute_size W m)\<rparr>"
  by (simp add: Position_compute_size_def Let_def case_prod_beta)

lemma Position_size_exact:
  "fst (Position_compute_size W m) = of_nat (length (Position_write_to_with_cached_sizes W (snd (Position_compute_size W m))))"
  by (simp add: Position_compute_size_def Position_sized Position_write_to_with_cached_sizes_def Let_def case_prod_beta size_chain size_laws
      small_field_def)

lemma Position_takes: "takes 1 is (Position_merge_step W m is)"
  unfolding Position_merge_step_def
  by (rule takes_bind, rule takes_laws) (auto intro!: takes_bind takes_expect takes_laws split: prod.splits)

lemma Position_joins:
  assumes wf: "Position_wf W m" and len: "length (Position_write_to_with_cached_sizes W (snd (Position_compute_size W m))) < 2 ^ 32"
  shows "consumes (Position_merge_step W) a (Position_write_to_with_cached_sizes W (snd (Position_compute_size W m))) (Position_join W a m)"
proof -
  let ?s = "\<lambda>v1 v2 v3. \<lparr>unknown_fields = unknown_fields a, cached_size = cached_size a, Position_x = v1, Position_y = v2, Position_z = v3\<rparr>"
  have w: "Position_write_to_with_cached_sizes W (snd (Position_compute_size W m)) =
    (if \<not> f32_is_zero (Position_x m) then os_float W 1 (Position_x m) else []) @
    (if \<not> f32_is_zero (Position_y m) then os_float W 2 (Position_y m) else []) @
    (if \<not> f32_is_zero (Position_z m) then os_float W 3 (Position_z m) else [])"
    using wf by (simp add: Position_sized Position_write_to_with_cached_sizes_def Position_wf_def unknown_none)
  have 1: "consumes (Position_merge_step W) (?s (Position_x a) (Position_y a) (Position_z a))
    ((if \<not> f32_is_zero (Position_x m) then os_float W 1 (Position_x m) else []))
    (?s (join_float (Position_x a) (Position_x m)) (Position_y a) (Position_z a))"
    by (rule consumes_float [where upd = "\<lambda>v. ?s v (Position_y a) (Position_z a)"]) (simp_all add: Position_merge_step_def expect_wire_def small_field_def)
  have 2: "consumes (Position_merge_step W) (?s (join_float (Position_x a) (Position_x m)) (Position_y a) (Position_z a))
    ((if \<not> f32_is_zero (Position_y m) then os_float W 2 (Position_y m) else []))
    (?s (join_float (Position_x a) (Position_x m)) (join_float (Position_y a) (Position_y m)) (Position_z a))"
    by (rule consumes_float [where upd = "\<lambda>v. ?s (join_float (Position_x a) (Position_x m)) v (Position_z a)"]) (simp_all add: Position_merge_step_def expect_wire_def small_field_def)
  have 3: "consumes (Position_merge_step W) (?s (join_float (Position_x a) (Position_x m)) (join_float (Position_y a) (Position_y m)) (Position_z a))
    ((if \<not> f32_is_zero (Position_z m) then os_float W 3 (Position_z m) else []))
    (?s (join_float (Position_x a) (Position_x m)) (join_float (Position_y a) (Position_y m)) (join_float (Position_z a) (Position_z m)))"
    by (rule consumes_float [where upd = "\<lambda>v. ?s (join_float (Position_x a) (Position_x m)) (join_float (Position_y a) (Position_y m)) v"]) (simp_all add: Position_merge_step_def expect_wire_def small_field_def)
  note all = consumes_append [OF 1 consumes_append [OF 2 3]]
  have start: "?s (Position_x a) (Position_y a) (Position_z a) = a"
    by (cases a) simp
  have joined: "?s (join_float (Position_x a) (Position_x m)) (join_float (Position_y a) (Position_y m)) (join_float (Position_z a) (Position_z m)) = Position_join W a m"
    by (cases a) (simp add: Position_join_def)
  show ?thesis
    unfolding w by (rule all [unfolded start joined])
qed

end

sublocale protobuf_runtime < Position: pb_message W "Position_new W" Position_is_initialized "Position_compute_size W"
    "Position_write_to_with_cached_sizes W" Position_get_cached_size "Position_merge_from W" "Position_wf W" Position_canon "Position_join W"
proof unfold_locales
  show "fst (Position_compute_size W m) = of_nat (length (Position_write_to_with_cached_sizes W (snd (Position_compute_size W m))))" for m
    by (rule Position_size_exact)
  show "Position_get_cached_size (snd (Position_compute_size W m)) = fst (Position_compute_size W m)" for m
    by (simp add: Position_get_cached_size_def Position_sized)
  show "Position_is_initialized m" for m :: "'u Position"
    by (simp add: Position_is_initialized_def list_all_iff)
  show "Position_merge_from W a (Position_write_to_with_cached_sizes W (snd (Position_compute_size W m)) @ r) = Position_merge_from W (Position_join W a m) r"
    if "Position_wf W m" "length (Position_write_to_with_cached_sizes W (snd (Position_compute_size W m))) < 2 ^ 32" for a m r
    using Position_joins [OF that] by (simp add: consumes_def Position_merge_from_def)
  show "Position_join W (Position_new W) m = Position_canon m" if "Position_wf W m" for m
    using that by (cases m) (simp add: Position_join_def Position_new_def Position_canon_def Position_wf_def)
  show "Position_merge_from W m [] = Inr m" for m
    by (simp add: Position_merge_from_def)
  show "Position_merge_from W m is \<noteq> Inl NoProgress" for m "is"
    unfolding Position_merge_from_def by (rule merge_loop_progress) (rule Position_takes)
qed

section \<open>\<^verbatim>\<open>Orientation\<close>\<close>

record 'u Orientation = "'u pb_special" +
  Orientation_yaw :: f32
  Orientation_pitch :: f32
  Orientation_roll :: f32

definition Orientation_new :: "'u protobuf_rt \<Rightarrow> 'u Orientation" where
  "Orientation_new W =
     \<lparr>unknown_fields = uf_new W, cached_size = 0,
      Orientation_yaw = 0, Orientation_pitch = 0, Orientation_roll = 0\<rparr>"

definition Orientation_get_yaw :: "'u Orientation \<Rightarrow> f32" where
  "Orientation_get_yaw m = Orientation_yaw m"
definition Orientation_clear_yaw :: "'u Orientation \<Rightarrow> 'u Orientation" where
  "Orientation_clear_yaw m = m\<lparr>Orientation_yaw := 0\<rparr>"
definition Orientation_set_yaw :: "f32 \<Rightarrow> 'u Orientation \<Rightarrow> 'u Orientation" where
  "Orientation_set_yaw v m = m\<lparr>Orientation_yaw := v\<rparr>"
definition Orientation_get_pitch :: "'u Orientation \<Rightarrow> f32" where
  "Orientation_get_pitch m = Orientation_pitch m"
definition Orientation_clear_pitch :: "'u Orientation \<Rightarrow> 'u Orientation" where
  "Orientation_clear_pitch m = m\<lparr>Orientation_pitch := 0\<rparr>"
definition Orientation_set_pitch :: "f32 \<Rightarrow> 'u Orientation \<Rightarrow> 'u Orientation" where
  "Orientation_set_pitch v m = m\<lparr>Orientation_pitch := v\<rparr>"
definition Orientation_get_roll :: "'u Orientation \<Rightarrow> f32" where
  "Orientation_get_roll m = Orientation_roll m"
definition Orientation_clear_roll :: "'u Orientation \<Rightarrow> 'u Orientation" where
  "Orientation_clear_roll m = m\<lparr>Orientation_roll := 0\<rparr>"
definition Orientation_set_roll :: "f32 \<Rightarrow> 'u Orientation \<Rightarrow> 'u Orientation" where
  "Orientation_set_roll v m = m\<lparr>Orientation_roll := v\<rparr>"

definition Orientation_is_initialized :: "'u Orientation \<Rightarrow> bool" where
  "Orientation_is_initialized m = True"

definition Orientation_merge_step :: "'u protobuf_rt \<Rightarrow> 'u Orientation \<Rightarrow> bytes \<Rightarrow> 'u Orientation reads" where
  "Orientation_merge_step W m is =
     bindE (rt_tag W is) (\<lambda>((field_number, wire_type), is).
       if field_number = 1 then
         expect_wire WireTypeFixed32 wire_type
          (bindE (rt_float W is) (\<lambda>(tmp, is). Ok (m\<lparr>Orientation_yaw := tmp\<rparr>, is)))
       else if field_number = 2 then
         expect_wire WireTypeFixed32 wire_type
          (bindE (rt_float W is) (\<lambda>(tmp, is). Ok (m\<lparr>Orientation_pitch := tmp\<rparr>, is)))
       else if field_number = 3 then
         expect_wire WireTypeFixed32 wire_type
          (bindE (rt_float W is) (\<lambda>(tmp, is). Ok (m\<lparr>Orientation_roll := tmp\<rparr>, is)))
       else bindE (rt_unknown W field_number wire_type is (unknown_fields m))
         (\<lambda>(u, is). Ok (m\<lparr>unknown_fields := u\<rparr>, is)))"

definition Orientation_merge_from :: "'u protobuf_rt \<Rightarrow> 'u Orientation \<Rightarrow> bytes \<Rightarrow> pb_error + 'u Orientation" where
  "Orientation_merge_from W = merge_loop (Orientation_merge_step W)"

definition Orientation_compute_size :: "'u protobuf_rt \<Rightarrow> 'u Orientation \<Rightarrow> u32 \<times> 'u Orientation" where
  "Orientation_compute_size W m =
     (let my_size = 0;
          my_size = (if \<not> f32_is_zero (Orientation_yaw m) then my_size + 5 else my_size);
          my_size = (if \<not> f32_is_zero (Orientation_pitch m) then my_size + 5 else my_size);
          my_size = (if \<not> f32_is_zero (Orientation_roll m) then my_size + 5 else my_size);
          my_size = my_size + uf_size W (unknown_fields m)
      in (my_size, m\<lparr>cached_size := my_size\<rparr>))"

definition Orientation_write_to_with_cached_sizes :: "'u protobuf_rt \<Rightarrow> 'u Orientation \<Rightarrow> bytes" where
  "Orientation_write_to_with_cached_sizes W m =
     (if \<not> f32_is_zero (Orientation_yaw m) then os_float W 1 (Orientation_yaw m) else []) @
     (if \<not> f32_is_zero (Orientation_pitch m) then os_float W 2 (Orientation_pitch m) else []) @
     (if \<not> f32_is_zero (Orientation_roll m) then os_float W 3 (Orientation_roll m) else []) @
     os_unknown W (unknown_fields m)"

definition Orientation_get_cached_size :: "'u Orientation \<Rightarrow> u32" where
  "Orientation_get_cached_size m = cached_size m"

definition Orientation_clear :: "'u protobuf_rt \<Rightarrow> 'u Orientation \<Rightarrow> 'u Orientation" where
  "Orientation_clear W m = m\<lparr>Orientation_yaw := 0, Orientation_pitch := 0, Orientation_roll := 0, unknown_fields := uf_new W\<rparr>"

text \<open>Values Rust can hold, without unknown fields, and what a reader gets back.\<close>

definition Orientation_wf :: "'u protobuf_rt \<Rightarrow> 'u Orientation \<Rightarrow> bool" where
  "Orientation_wf W m \<longleftrightarrow>
     unknown_fields m = uf_new W"

definition Orientation_canon :: "'u Orientation \<Rightarrow> 'u Orientation" where
  "Orientation_canon m = m\<lparr>cached_size := 0, Orientation_yaw := canon_f32 (Orientation_yaw m), Orientation_pitch := canon_f32 (Orientation_pitch m), Orientation_roll := canon_f32 (Orientation_roll m)\<rparr>"

text \<open>The message after an encoding of \<open>m\<close> has been read into it.\<close>

definition Orientation_join :: "'u protobuf_rt \<Rightarrow> 'u Orientation \<Rightarrow> 'u Orientation \<Rightarrow> 'u Orientation" where
  "Orientation_join W a m = a\<lparr>Orientation_yaw := join_float (Orientation_yaw a) (Orientation_yaw m),
     Orientation_pitch := join_float (Orientation_pitch a) (Orientation_pitch m),
     Orientation_roll := join_float (Orientation_roll a) (Orientation_roll m)\<rparr>"

context protobuf_runtime
begin

lemma Orientation_sized:
  "snd (Orientation_compute_size W m) =
     m\<lparr>cached_size := fst (Orientation_compute_size W m)\<rparr>"
  by (simp add: Orientation_compute_size_def Let_def case_prod_beta)

lemma Orientation_size_exact:
  "fst (Orientation_compute_size W m) = of_nat (length (Orientation_write_to_with_cached_sizes W (snd (Orientation_compute_size W m))))"
  by (simp add: Orientation_compute_size_def Orientation_sized Orientation_write_to_with_cached_sizes_def Let_def case_prod_beta size_chain size_laws
      small_field_def)

lemma Orientation_takes: "takes 1 is (Orientation_merge_step W m is)"
  unfolding Orientation_merge_step_def
  by (rule takes_bind, rule takes_laws) (auto intro!: takes_bind takes_expect takes_laws split: prod.splits)

lemma Orientation_joins:
  assumes wf: "Orientation_wf W m" and len: "length (Orientation_write_to_with_cached_sizes W (snd (Orientation_compute_size W m))) < 2 ^ 32"
  shows "consumes (Orientation_merge_step W) a (Orientation_write_to_with_cached_sizes W (snd (Orientation_compute_size W m))) (Orientation_join W a m)"
proof -
  let ?s = "\<lambda>v1 v2 v3. \<lparr>unknown_fields = unknown_fields a, cached_size = cached_size a, Orientation_yaw = v1, Orientation_pitch = v2, Orientation_roll = v3\<rparr>"
  have w: "Orientation_write_to_with_cached_sizes W (snd (Orientation_compute_size W m)) =
    (if \<not> f32_is_zero (Orientation_yaw m) then os_float W 1 (Orientation_yaw m) else []) @
    (if \<not> f32_is_zero (Orientation_pitch m) then os_float W 2 (Orientation_pitch m) else []) @
    (if \<not> f32_is_zero (Orientation_roll m) then os_float W 3 (Orientation_roll m) else [])"
    using wf by (simp add: Orientation_sized Orientation_write_to_with_cached_sizes_def Orientation_wf_def unknown_none)
  have 1: "consumes (Orientation_merge_step W) (?s (Orientation_yaw a) (Orientation_pitch a) (Orientation_roll a))
    ((if \<not> f32_is_zero (Orientation_yaw m) then os_float W 1 (Orientation_yaw m) else []))
    (?s (join_float (Orientation_yaw a) (Orientation_yaw m)) (Orientation_pitch a) (Orientation_roll a))"
    by (rule consumes_float [where upd = "\<lambda>v. ?s v (Orientation_pitch a) (Orientation_roll a)"]) (simp_all add: Orientation_merge_step_def expect_wire_def small_field_def)
  have 2: "consumes (Orientation_merge_step W) (?s (join_float (Orientation_yaw a) (Orientation_yaw m)) (Orientation_pitch a) (Orientation_roll a))
    ((if \<not> f32_is_zero (Orientation_pitch m) then os_float W 2 (Orientation_pitch m) else []))
    (?s (join_float (Orientation_yaw a) (Orientation_yaw m)) (join_float (Orientation_pitch a) (Orientation_pitch m)) (Orientation_roll a))"
    by (rule consumes_float [where upd = "\<lambda>v. ?s (join_float (Orientation_yaw a) (Orientation_yaw m)) v (Orientation_roll a)"]) (simp_all add: Orientation_merge_step_def expect_wire_def small_field_def)
  have 3: "consumes (Orientation_merge_step W) (?s (join_float (Orientation_yaw a) (Orientation_yaw m)) (join_float (Orientation_pitch a) (Orientation_pitch m)) (Orientation_roll a))
    ((if \<not> f32_is_zero (Orientation_roll m) then os_float W 3 (Orientation_roll m) else []))
    (?s (join_float (Orientation_yaw a) (Orientation_yaw m)) (join_float (Orientation_pitch a) (Orientation_pitch m)) (join_float (Orientation_roll a) (Orientation_roll m)))"
    by (rule consumes_float [where upd = "\<lambda>v. ?s (join_float (Orientation_yaw a) (Orientation_yaw m)) (join_float (Orientation_pitch a) (Orientation_pitch m)) v"]) (simp_all add: Orientation_merge_step_def expect_wire_def small_field_def)
  note all = consumes_append [OF 1 consumes_append [OF 2 3]]
  have start: "?s (Orientation_yaw a) (Orientation_pitch a) (Orientation_roll a) = a"
    by (cases a) simp
  have joined: "?s (join_float (Orientation_yaw a) (Orientation_yaw m)) (join_float (Orientation_pitch a) (Orientation_pitch m)) (join_float (Orientation_roll a) (Orientation_roll m)) = Orientation_join W a m"
    by (cases a) (simp add: Orientation_join_def)
  show ?thesis
    unfolding w by (rule all [unfolded start joined])
qed

end

sublocale protobuf_runtime < Orientation: pb_message W "Orientation_new W" Orientation_is_initialized "Orientation_compute_size W"
    "Orientation_write_to_with_cached_sizes W" Orientation_get_cached_size "Orientation_merge_from W" "Orientation_wf W" Orientation_canon "Orientation_join W"
proof unfold_locales
  show "fst (Orientation_compute_size W m) = of_nat (length (Orientation_write_to_with_cached_sizes W (snd (Orientation_compute_size W m))))" for m
    by (rule Orientation_size_exact)
  show "Orientation_get_cached_size (snd (Orientation_compute_size W m)) = fst (Orientation_compute_size W m)" for m
    by (simp add: Orientation_get_cached_size_def Orientation_sized)
  show "Orientation_is_initialized m" for m :: "'u Orientation"
    by (simp add: Orientation_is_initialized_def list_all_iff)
  show "Orientation_merge_from W a (Orientation_write_to_with_cached_sizes W (snd (Orientation_compute_size W m)) @ r) = Orientation_merge_from W (Orientation_join W a m) r"
    if "Orientation_wf W m" "length (Orientation_write_to_with_cached_sizes W (snd (Orientation_compute_size W m))) < 2 ^ 32" for a m r
    using Orientation_joins [OF that] by (simp add: consumes_def Orientation_merge_from_def)
  show "Orientation_join W (Orientation_new W) m = Orientation_canon m" if "Orientation_wf W m" for m
    using that by (cases m) (simp add: Orientation_join_def Orientation_new_def Orientation_canon_def Orientation_wf_def)
  show "Orientation_merge_from W m [] = Inr m" for m
    by (simp add: Orientation_merge_from_def)
  show "Orientation_merge_from W m is \<noteq> Inl NoProgress" for m "is"
    unfolding Orientation_merge_from_def by (rule merge_loop_progress) (rule Orientation_takes)
qed

section \<open>\<^verbatim>\<open>Chip_Radio\<close>\<close>

record 'u Chip_Radio = "'u pb_special" +
  Chip_Radio_state :: State
  Chip_Radio_range :: f32
  Chip_Radio_tx_count :: i32
  Chip_Radio_rx_count :: i32

definition Chip_Radio_new :: "'u protobuf_rt \<Rightarrow> 'u Chip_Radio" where
  "Chip_Radio_new W =
     \<lparr>unknown_fields = uf_new W, cached_size = 0,
      Chip_Radio_state = State_UNKNOWN, Chip_Radio_range = 0, Chip_Radio_tx_count = 0, Chip_Radio_rx_count = 0\<rparr>"

definition Chip_Radio_get_state :: "'u Chip_Radio \<Rightarrow> State" where
  "Chip_Radio_get_state m = Chip_Radio_state m"
definition Chip_Radio_clear_state :: "'u Chip_Radio \<Rightarrow> 'u Chip_Radio" where
  "Chip_Radio_clear_state m = m\<lparr>Chip_Radio_state := State_UNKNOWN\<rparr>"
definition Chip_Radio_set_state :: "State \<Rightarrow> 'u Chip_Radio \<Rightarrow> 'u Chip_Radio" where
  "Chip_Radio_set_state v m = m\<lparr>Chip_Radio_state := v\<rparr>"
definition Chip_Radio_get_range :: "'u Chip_Radio \<Rightarrow> f32" where
  "Chip_Radio_get_range m = Chip_Radio_range m"
definition Chip_Radio_clear_range :: "'u Chip_Radio \<Rightarrow> 'u Chip_Radio" where
  "Chip_Radio_clear_range m = m\<lparr>Chip_Radio_range := 0\<rparr>"
definition Chip_Radio_set_range :: "f32 \<Rightarrow> 'u Chip_Radio \<Rightarrow> 'u Chip_Radio" where
  "Chip_Radio_set_range v m = m\<lparr>Chip_Radio_range := v\<rparr>"
definition Chip_Radio_get_tx_count :: "'u Chip_Radio \<Rightarrow> i32" where
  "Chip_Radio_get_tx_count m = Chip_Radio_tx_count m"
definition Chip_Radio_clear_tx_count :: "'u Chip_Radio \<Rightarrow> 'u Chip_Radio" where
  "Chip_Radio_clear_tx_count m = m\<lparr>Chip_Radio_tx_count := 0\<rparr>"
definition Chip_Radio_set_tx_count :: "i32 \<Rightarrow> 'u Chip_Radio \<Rightarrow> 'u Chip_Radio" where
  "Chip_Radio_set_tx_count v m = m\<lparr>Chip_Radio_tx_count := v\<rparr>"
definition Chip_Radio_get_rx_count :: "'u Chip_Radio \<Rightarrow> i32" where
  "Chip_Radio_get_rx_count m = Chip_Radio_rx_count m"
definition Chip_Radio_clear_rx_count :: "'u Chip_Radio \<Rightarrow> 'u Chip_Radio" where
  "Chip_Radio_clear_rx_count m = m\<lparr>Chip_Radio_rx_count := 0\<rparr>"
definition Chip_Radio_set_rx_count :: "i32 \<Rightarrow> 'u Chip_Radio \<Rightarrow> 'u Chip_Radio" where
  "Chip_Radio_set_rx_count v m = m\<lparr>Chip_Radio_rx_count := v\<rparr>"

definition Chip_Radio_is_initialized :: "'u Chip_Radio \<Rightarrow> bool" where
  "Chip_Radio_is_initialized m = True"

definition Chip_Radio_merge_step :: "'u protobuf_rt \<Rightarrow> 'u Chip_Radio \<Rightarrow> bytes \<Rightarrow> 'u Chip_Radio reads" where
  "Chip_Radio_merge_step W m is =
     bindE (rt_tag W is) (\<lambda>((field_number, wire_type), is).
       if field_number = 1 then
         bindE (read_enum_into W State_from_i32 wire_type is (Chip_Radio_state m) 1 (unknown_fields m))
          (\<lambda>((v, u), is). Ok (m\<lparr>Chip_Radio_state := v, unknown_fields := u\<rparr>, is))
       else if field_number = 2 then
         expect_wire WireTypeFixed32 wire_type
          (bindE (rt_float W is) (\<lambda>(tmp, is). Ok (m\<lparr>Chip_Radio_range := tmp\<rparr>, is)))
       else if field_number = 3 then
         expect_wire WireTypeVarint wire_type
          (bindE (rt_int32 W is) (\<lambda>(tmp, is). Ok (m\<lparr>Chip_Radio_tx_count := tmp\<rparr>, is)))
       else if field_number = 4 then
         expect_wire WireTypeVarint wire_type
          (bindE (rt_int32 W is) (\<lambda>(tmp, is). Ok (m\<lparr>Chip_Radio_rx_count := tmp\<rparr>, is)))
       else bindE (rt_unknown W field_number wire_type is (unknown_fields m))
         (\<lambda>(u, is). Ok (m\<lparr>unknown_fields := u\<rparr>, is)))"

definition Chip_Radio_merge_from :: "'u protobuf_rt \<Rightarrow> 'u Chip_Radio \<Rightarrow> bytes \<Rightarrow> pb_error + 'u Chip_Radio" where
  "Chip_Radio_merge_from W = merge_loop (Chip_Radio_merge_step W)"

definition Chip_Radio_compute_size :: "'u protobuf_rt \<Rightarrow> 'u Chip_Radio \<Rightarrow> u32 \<times> 'u Chip_Radio" where
  "Chip_Radio_compute_size W m =
     (let my_size = 0;
          my_size = (if Chip_Radio_state m \<noteq> State_UNKNOWN then my_size + sz_enum W 1 (State_value (Chip_Radio_state m)) else my_size);
          my_size = (if \<not> f32_is_zero (Chip_Radio_range m) then my_size + 5 else my_size);
          my_size = (if Chip_Radio_tx_count m \<noteq> 0 then my_size + sz_int32 W 3 (Chip_Radio_tx_count m) else my_size);
          my_size = (if Chip_Radio_rx_count m \<noteq> 0 then my_size + sz_int32 W 4 (Chip_Radio_rx_count m) else my_size);
          my_size = my_size + uf_size W (unknown_fields m)
      in (my_size, m\<lparr>cached_size := my_size\<rparr>))"

definition Chip_Radio_write_to_with_cached_sizes :: "'u protobuf_rt \<Rightarrow> 'u Chip_Radio \<Rightarrow> bytes" where
  "Chip_Radio_write_to_with_cached_sizes W m =
     (if Chip_Radio_state m \<noteq> State_UNKNOWN then os_enum W 1 (State_value (Chip_Radio_state m)) else []) @
     (if \<not> f32_is_zero (Chip_Radio_range m) then os_float W 2 (Chip_Radio_range m) else []) @
     (if Chip_Radio_tx_count m \<noteq> 0 then os_int32 W 3 (Chip_Radio_tx_count m) else []) @
     (if Chip_Radio_rx_count m \<noteq> 0 then os_int32 W 4 (Chip_Radio_rx_count m) else []) @
     os_unknown W (unknown_fields m)"

definition Chip_Radio_get_cached_size :: "'u Chip_Radio \<Rightarrow> u32" where
  "Chip_Radio_get_cached_size m = cached_size m"

definition Chip_Radio_clear :: "'u protobuf_rt \<Rightarrow> 'u Chip_Radio \<Rightarrow> 'u Chip_Radio" where
  "Chip_Radio_clear W m = m\<lparr>Chip_Radio_state := State_UNKNOWN, Chip_Radio_range := 0, Chip_Radio_tx_count := 0, Chip_Radio_rx_count := 0, unknown_fields := uf_new W\<rparr>"

text \<open>Values Rust can hold, without unknown fields, and what a reader gets back.\<close>

definition Chip_Radio_wf :: "'u protobuf_rt \<Rightarrow> 'u Chip_Radio \<Rightarrow> bool" where
  "Chip_Radio_wf W m \<longleftrightarrow>
     unknown_fields m = uf_new W"

definition Chip_Radio_canon :: "'u Chip_Radio \<Rightarrow> 'u Chip_Radio" where
  "Chip_Radio_canon m = m\<lparr>cached_size := 0, Chip_Radio_range := canon_f32 (Chip_Radio_range m)\<rparr>"

text \<open>The message after an encoding of \<open>m\<close> has been read into it.\<close>

definition Chip_Radio_join :: "'u protobuf_rt \<Rightarrow> 'u Chip_Radio \<Rightarrow> 'u Chip_Radio \<Rightarrow> 'u Chip_Radio" where
  "Chip_Radio_join W a m = a\<lparr>Chip_Radio_state := join_scalar State_UNKNOWN (Chip_Radio_state a) (Chip_Radio_state m),
     Chip_Radio_range := join_float (Chip_Radio_range a) (Chip_Radio_range m),
     Chip_Radio_tx_count := join_scalar 0 (Chip_Radio_tx_count a) (Chip_Radio_tx_count m),
     Chip_Radio_rx_count := join_scalar 0 (Chip_Radio_rx_count a) (Chip_Radio_rx_count m)\<rparr>"

context protobuf_runtime
begin

lemma Chip_Radio_sized:
  "snd (Chip_Radio_compute_size W m) =
     m\<lparr>cached_size := fst (Chip_Radio_compute_size W m)\<rparr>"
  by (simp add: Chip_Radio_compute_size_def Let_def case_prod_beta)

lemma Chip_Radio_size_exact:
  "fst (Chip_Radio_compute_size W m) = of_nat (length (Chip_Radio_write_to_with_cached_sizes W (snd (Chip_Radio_compute_size W m))))"
  by (simp add: Chip_Radio_compute_size_def Chip_Radio_sized Chip_Radio_write_to_with_cached_sizes_def Let_def case_prod_beta size_chain size_laws
      small_field_def)

lemma Chip_Radio_takes: "takes 1 is (Chip_Radio_merge_step W m is)"
  unfolding Chip_Radio_merge_step_def
  by (rule takes_bind, rule takes_laws) (auto intro!: takes_bind takes_expect takes_laws takes_read_enum split: prod.splits)

lemma Chip_Radio_joins:
  assumes wf: "Chip_Radio_wf W m" and len: "length (Chip_Radio_write_to_with_cached_sizes W (snd (Chip_Radio_compute_size W m))) < 2 ^ 32"
  shows "consumes (Chip_Radio_merge_step W) a (Chip_Radio_write_to_with_cached_sizes W (snd (Chip_Radio_compute_size W m))) (Chip_Radio_join W a m)"
proof -
  let ?s = "\<lambda>v1 v2 v3 v4. \<lparr>unknown_fields = unknown_fields a, cached_size = cached_size a, Chip_Radio_state = v1, Chip_Radio_range = v2, Chip_Radio_tx_count = v3, Chip_Radio_rx_count = v4\<rparr>"
  have w: "Chip_Radio_write_to_with_cached_sizes W (snd (Chip_Radio_compute_size W m)) =
    (if Chip_Radio_state m \<noteq> State_UNKNOWN then os_enum W 1 (State_value (Chip_Radio_state m)) else []) @
    (if \<not> f32_is_zero (Chip_Radio_range m) then os_float W 2 (Chip_Radio_range m) else []) @
    (if Chip_Radio_tx_count m \<noteq> 0 then os_int32 W 3 (Chip_Radio_tx_count m) else []) @
    (if Chip_Radio_rx_count m \<noteq> 0 then os_int32 W 4 (Chip_Radio_rx_count m) else [])"
    using wf by (simp add: Chip_Radio_sized Chip_Radio_write_to_with_cached_sizes_def Chip_Radio_wf_def unknown_none)
  have 1: "consumes (Chip_Radio_merge_step W) (?s (Chip_Radio_state a) (Chip_Radio_range a) (Chip_Radio_tx_count a) (Chip_Radio_rx_count a))
    ((if Chip_Radio_state m \<noteq> State_UNKNOWN then os_enum W 1 (State_value (Chip_Radio_state m)) else []))
    (?s (join_scalar State_UNKNOWN (Chip_Radio_state a) (Chip_Radio_state m)) (Chip_Radio_range a) (Chip_Radio_tx_count a) (Chip_Radio_rx_count a))"
    by (rule consumes_enum [where upd = "\<lambda>v u. \<lparr>unknown_fields = u, cached_size = cached_size a, Chip_Radio_state = v, Chip_Radio_range = (Chip_Radio_range a), Chip_Radio_tx_count = (Chip_Radio_tx_count a), Chip_Radio_rx_count = (Chip_Radio_rx_count a)\<rparr>" and t = "Chip_Radio_state a"
        and conv = State_from_i32 and u = "unknown_fields a"])
      (simp_all add: Chip_Radio_merge_step_def expect_wire_def small_field_def)
  have 2: "consumes (Chip_Radio_merge_step W) (?s (join_scalar State_UNKNOWN (Chip_Radio_state a) (Chip_Radio_state m)) (Chip_Radio_range a) (Chip_Radio_tx_count a) (Chip_Radio_rx_count a))
    ((if \<not> f32_is_zero (Chip_Radio_range m) then os_float W 2 (Chip_Radio_range m) else []))
    (?s (join_scalar State_UNKNOWN (Chip_Radio_state a) (Chip_Radio_state m)) (join_float (Chip_Radio_range a) (Chip_Radio_range m)) (Chip_Radio_tx_count a) (Chip_Radio_rx_count a))"
    by (rule consumes_float [where upd = "\<lambda>v. ?s (join_scalar State_UNKNOWN (Chip_Radio_state a) (Chip_Radio_state m)) v (Chip_Radio_tx_count a) (Chip_Radio_rx_count a)"]) (simp_all add: Chip_Radio_merge_step_def expect_wire_def small_field_def)
  have 3: "consumes (Chip_Radio_merge_step W) (?s (join_scalar State_UNKNOWN (Chip_Radio_state a) (Chip_Radio_state m)) (join_float (Chip_Radio_range a) (Chip_Radio_range m)) (Chip_Radio_tx_count a) (Chip_Radio_rx_count a))
    ((if Chip_Radio_tx_count m \<noteq> 0 then os_int32 W 3 (Chip_Radio_tx_count m) else []))
    (?s (join_scalar State_UNKNOWN (Chip_Radio_state a) (Chip_Radio_state m)) (join_float (Chip_Radio_range a) (Chip_Radio_range m)) (join_scalar 0 (Chip_Radio_tx_count a) (Chip_Radio_tx_count m)) (Chip_Radio_rx_count a))"
    by (rule consumes_int32 [where upd = "\<lambda>v. ?s (join_scalar State_UNKNOWN (Chip_Radio_state a) (Chip_Radio_state m)) (join_float (Chip_Radio_range a) (Chip_Radio_range m)) v (Chip_Radio_rx_count a)"]) (simp_all add: Chip_Radio_merge_step_def expect_wire_def small_field_def)
  have 4: "consumes (Chip_Radio_merge_step W) (?s (join_scalar State_UNKNOWN (Chip_Radio_state a) (Chip_Radio_state m)) (join_float (Chip_Radio_range a) (Chip_Radio_range m)) (join_scalar 0 (Chip_Radio_tx_count a) (Chip_Radio_tx_count m)) (Chip_Radio_rx_count a))
    ((if Chip_Radio_rx_count m \<noteq> 0 then os_int32 W 4 (Chip_Radio_rx_count m) else []))
    (?s (join_scalar State_UNKNOWN (Chip_Radio_state a) (Chip_Radio_state m)) (join_float (Chip_Radio_range a) (Chip_Radio_range m)) (join_scalar 0 (Chip_Radio_tx_count a) (Chip_Radio_tx_count m)) (join_scalar 0 (Chip_Radio_rx_count a) (Chip_Radio_rx_count m)))"
    by (rule consumes_int32 [where upd = "\<lambda>v. ?s (join_scalar State_UNKNOWN (Chip_Radio_state a) (Chip_Radio_state m)) (join_float (Chip_Radio_range a) (Chip_Radio_range m)) (join_scalar 0 (Chip_Radio_tx_count a) (Chip_Radio_tx_count m)) v"]) (simp_all add: Chip_Radio_merge_step_def expect_wire_def small_field_def)
  note all = consumes_append [OF 1 consumes_append [OF 2 consumes_append [OF 3 4]]]
  have start: "?s (Chip_Radio_state a) (Chip_Radio_range a) (Chip_Radio_tx_count a) (Chip_Radio_rx_count a) = a"
    by (cases a) simp
  have joined: "?s (join_scalar State_UNKNOWN (Chip_Radio_state a) (Chip_Radio_state m)) (join_float (Chip_Radio_range a) (Chip_Radio_range m)) (join_scalar 0 (Chip_Radio_tx_count a) (Chip_Radio_tx_count m)) (join_scalar 0 (Chip_Radio_rx_count a) (Chip_Radio_rx_count m)) = Chip_Radio_join W a m"
    by (cases a) (simp add: Chip_Radio_join_def)
  show ?thesis
    unfolding w by (rule all [unfolded start joined])
qed

end

sublocale protobuf_runtime < Chip_Radio: pb_message W "Chip_Radio_new W" Chip_Radio_is_initialized "Chip_Radio_compute_size W"
    "Chip_Radio_write_to_with_cached_sizes W" Chip_Radio_get_cached_size "Chip_Radio_merge_from W" "Chip_Radio_wf W" Chip_Radio_canon "Chip_Radio_join W"
proof unfold_locales
  show "fst (Chip_Radio_compute_size W m) = of_nat (length (Chip_Radio_write_to_with_cached_sizes W (snd (Chip_Radio_compute_size W m))))" for m
    by (rule Chip_Radio_size_exact)
  show "Chip_Radio_get_cached_size (snd (Chip_Radio_compute_size W m)) = fst (Chip_Radio_compute_size W m)" for m
    by (simp add: Chip_Radio_get_cached_size_def Chip_Radio_sized)
  show "Chip_Radio_is_initialized m" for m :: "'u Chip_Radio"
    by (simp add: Chip_Radio_is_initialized_def list_all_iff)
  show "Chip_Radio_merge_from W a (Chip_Radio_write_to_with_cached_sizes W (snd (Chip_Radio_compute_size W m)) @ r) = Chip_Radio_merge_from W (Chip_Radio_join W a m) r"
    if "Chip_Radio_wf W m" "length (Chip_Radio_write_to_with_cached_sizes W (snd (Chip_Radio_compute_size W m))) < 2 ^ 32" for a m r
    using Chip_Radio_joins [OF that] by (simp add: consumes_def Chip_Radio_merge_from_def)
  show "Chip_Radio_join W (Chip_Radio_new W) m = Chip_Radio_canon m" if "Chip_Radio_wf W m" for m
    using that by (cases m) (simp add: Chip_Radio_join_def Chip_Radio_new_def Chip_Radio_canon_def Chip_Radio_wf_def)
  show "Chip_Radio_merge_from W m [] = Inr m" for m
    by (simp add: Chip_Radio_merge_from_def)
  show "Chip_Radio_merge_from W m is \<noteq> Inl NoProgress" for m "is"
    unfolding Chip_Radio_merge_from_def by (rule merge_loop_progress) (rule Chip_Radio_takes)
qed

section \<open>\<^verbatim>\<open>Chip_Bluetooth\<close>\<close>

record 'u Chip_Bluetooth = "'u pb_special" +
  Chip_Bluetooth_low_energy :: "'u Chip_Radio option"
  Chip_Bluetooth_classic :: "'u Chip_Radio option"

definition Chip_Bluetooth_new :: "'u protobuf_rt \<Rightarrow> 'u Chip_Bluetooth" where
  "Chip_Bluetooth_new W =
     \<lparr>unknown_fields = uf_new W, cached_size = 0,
      Chip_Bluetooth_low_energy = None, Chip_Bluetooth_classic = None\<rparr>"

definition Chip_Bluetooth_get_low_energy :: "'u protobuf_rt \<Rightarrow> 'u Chip_Bluetooth \<Rightarrow> 'u Chip_Radio" where
  "Chip_Bluetooth_get_low_energy W m = (case Chip_Bluetooth_low_energy m of Some v \<Rightarrow> v | None \<Rightarrow> Chip_Radio_new W)"
definition Chip_Bluetooth_clear_low_energy :: "'u Chip_Bluetooth \<Rightarrow> 'u Chip_Bluetooth" where
  "Chip_Bluetooth_clear_low_energy m = m\<lparr>Chip_Bluetooth_low_energy := None\<rparr>"
definition Chip_Bluetooth_has_low_energy :: "'u Chip_Bluetooth \<Rightarrow> bool" where
  "Chip_Bluetooth_has_low_energy m = (Chip_Bluetooth_low_energy m \<noteq> None)"
definition Chip_Bluetooth_set_low_energy :: "'u Chip_Radio \<Rightarrow> 'u Chip_Bluetooth \<Rightarrow> 'u Chip_Bluetooth" where
  "Chip_Bluetooth_set_low_energy v m = m\<lparr>Chip_Bluetooth_low_energy := Some v\<rparr>"
definition Chip_Bluetooth_mut_low_energy :: "'u protobuf_rt \<Rightarrow> ('u Chip_Radio \<Rightarrow> 'u Chip_Radio) \<Rightarrow> 'u Chip_Bluetooth \<Rightarrow> 'u Chip_Bluetooth result" where
  "Chip_Bluetooth_mut_low_energy W g m =
     (let m = (if Chip_Bluetooth_low_energy m = None then m\<lparr>Chip_Bluetooth_low_energy := Some (Chip_Radio_new W)\<rparr> else m)
      in case Chip_Bluetooth_low_energy m of Some v \<Rightarrow> Ok (m\<lparr>Chip_Bluetooth_low_energy := Some (g v)\<rparr>) | None \<Rightarrow> Inl (Panic ''unwrap''))"
definition Chip_Bluetooth_take_low_energy :: "'u protobuf_rt \<Rightarrow> 'u Chip_Bluetooth \<Rightarrow> ('u Chip_Radio \<times> 'u Chip_Bluetooth) result" where
  "Chip_Bluetooth_take_low_energy W m =
     Ok (case Chip_Bluetooth_low_energy m of Some v \<Rightarrow> v | None \<Rightarrow> Chip_Radio_new W, m\<lparr>Chip_Bluetooth_low_energy := None\<rparr>)"
definition Chip_Bluetooth_get_classic :: "'u protobuf_rt \<Rightarrow> 'u Chip_Bluetooth \<Rightarrow> 'u Chip_Radio" where
  "Chip_Bluetooth_get_classic W m = (case Chip_Bluetooth_classic m of Some v \<Rightarrow> v | None \<Rightarrow> Chip_Radio_new W)"
definition Chip_Bluetooth_clear_classic :: "'u Chip_Bluetooth \<Rightarrow> 'u Chip_Bluetooth" where
  "Chip_Bluetooth_clear_classic m = m\<lparr>Chip_Bluetooth_classic := None\<rparr>"
definition Chip_Bluetooth_has_classic :: "'u Chip_Bluetooth \<Rightarrow> bool" where
  "Chip_Bluetooth_has_classic m = (Chip_Bluetooth_classic m \<noteq> None)"
definition Chip_Bluetooth_set_classic :: "'u Chip_Radio \<Rightarrow> 'u Chip_Bluetooth \<Rightarrow> 'u Chip_Bluetooth" where
  "Chip_Bluetooth_set_classic v m = m\<lparr>Chip_Bluetooth_classic := Some v\<rparr>"
definition Chip_Bluetooth_mut_classic :: "'u protobuf_rt \<Rightarrow> ('u Chip_Radio \<Rightarrow> 'u Chip_Radio) \<Rightarrow> 'u Chip_Bluetooth \<Rightarrow> 'u Chip_Bluetooth result" where
  "Chip_Bluetooth_mut_classic W g m =
     (let m = (if Chip_Bluetooth_classic m = None then m\<lparr>Chip_Bluetooth_classic := Some (Chip_Radio_new W)\<rparr> else m)
      in case Chip_Bluetooth_classic m of Some v \<Rightarrow> Ok (m\<lparr>Chip_Bluetooth_classic := Some (g v)\<rparr>) | None \<Rightarrow> Inl (Panic ''unwrap''))"
definition Chip_Bluetooth_take_classic :: "'u protobuf_rt \<Rightarrow> 'u Chip_Bluetooth \<Rightarrow> ('u Chip_Radio \<times> 'u Chip_Bluetooth) result" where
  "Chip_Bluetooth_take_classic W m =
     Ok (case Chip_Bluetooth_classic m of Some v \<Rightarrow> v | None \<Rightarrow> Chip_Radio_new W, m\<lparr>Chip_Bluetooth_classic := None\<rparr>)"

interpretation Chip_Bluetooth_low_energy: presence_field "Chip_Radio_new W" Chip_Bluetooth_has_low_energy "Chip_Bluetooth_get_low_energy W" Chip_Bluetooth_set_low_energy
    Chip_Bluetooth_clear_low_energy "Chip_Bluetooth_mut_low_energy W" "Chip_Bluetooth_take_low_energy W" for W
  by unfold_locales
    (auto simp: Chip_Bluetooth_get_low_energy_def Chip_Bluetooth_clear_low_energy_def Chip_Bluetooth_has_low_energy_def Chip_Bluetooth_set_low_energy_def Chip_Bluetooth_mut_low_energy_def Chip_Bluetooth_take_low_energy_def
      split: option.splits)

interpretation Chip_Bluetooth_classic: presence_field "Chip_Radio_new W" Chip_Bluetooth_has_classic "Chip_Bluetooth_get_classic W" Chip_Bluetooth_set_classic
    Chip_Bluetooth_clear_classic "Chip_Bluetooth_mut_classic W" "Chip_Bluetooth_take_classic W" for W
  by unfold_locales
    (auto simp: Chip_Bluetooth_get_classic_def Chip_Bluetooth_clear_classic_def Chip_Bluetooth_has_classic_def Chip_Bluetooth_set_classic_def Chip_Bluetooth_mut_classic_def Chip_Bluetooth_take_classic_def
      split: option.splits)

definition Chip_Bluetooth_is_initialized :: "'u Chip_Bluetooth \<Rightarrow> bool" where
  "Chip_Bluetooth_is_initialized m =
     ((case Chip_Bluetooth_low_energy m of Some v \<Rightarrow> Chip_Radio_is_initialized v | None \<Rightarrow> True) \<and>
      (case Chip_Bluetooth_classic m of Some v \<Rightarrow> Chip_Radio_is_initialized v | None \<Rightarrow> True))"

definition Chip_Bluetooth_merge_step :: "'u protobuf_rt \<Rightarrow> 'u Chip_Bluetooth \<Rightarrow> bytes \<Rightarrow> 'u Chip_Bluetooth reads" where
  "Chip_Bluetooth_merge_step W m is =
     bindE (rt_tag W is) (\<lambda>((field_number, wire_type), is).
       if field_number = 1 then
         bindE (read_singular_message_into W (Chip_Radio_new W) (Chip_Radio_merge_from W) wire_type is (Chip_Bluetooth_low_energy m))
          (\<lambda>(v, is). Ok (m\<lparr>Chip_Bluetooth_low_energy := v\<rparr>, is))
       else if field_number = 2 then
         bindE (read_singular_message_into W (Chip_Radio_new W) (Chip_Radio_merge_from W) wire_type is (Chip_Bluetooth_classic m))
          (\<lambda>(v, is). Ok (m\<lparr>Chip_Bluetooth_classic := v\<rparr>, is))
       else bindE (rt_unknown W field_number wire_type is (unknown_fields m))
         (\<lambda>(u, is). Ok (m\<lparr>unknown_fields := u\<rparr>, is)))"

definition Chip_Bluetooth_merge_from :: "'u protobuf_rt \<Rightarrow> 'u Chip_Bluetooth \<Rightarrow> bytes \<Rightarrow> pb_error + 'u Chip_Bluetooth" where
  "Chip_Bluetooth_merge_from W = merge_loop (Chip_Bluetooth_merge_step W)"

definition Chip_Bluetooth_compute_size :: "'u protobuf_rt \<Rightarrow> 'u Chip_Bluetooth \<Rightarrow> u32 \<times> 'u Chip_Bluetooth" where
  "Chip_Bluetooth_compute_size W m =
     (let my_size = 0;
          (n, low_energy) = optional_size W (Chip_Radio_compute_size W) (Chip_Bluetooth_low_energy m); my_size = my_size + n;
          (n, classic) = optional_size W (Chip_Radio_compute_size W) (Chip_Bluetooth_classic m); my_size = my_size + n;
          my_size = my_size + uf_size W (unknown_fields m)
      in (my_size, m\<lparr>Chip_Bluetooth_low_energy := low_energy, Chip_Bluetooth_classic := classic, cached_size := my_size\<rparr>))"

definition Chip_Bluetooth_write_to_with_cached_sizes :: "'u protobuf_rt \<Rightarrow> 'u Chip_Bluetooth \<Rightarrow> bytes" where
  "Chip_Bluetooth_write_to_with_cached_sizes W m =
     os_optional W 1 Chip_Radio_get_cached_size (Chip_Radio_write_to_with_cached_sizes W) (Chip_Bluetooth_low_energy m) @
     os_optional W 2 Chip_Radio_get_cached_size (Chip_Radio_write_to_with_cached_sizes W) (Chip_Bluetooth_classic m) @
     os_unknown W (unknown_fields m)"

definition Chip_Bluetooth_get_cached_size :: "'u Chip_Bluetooth \<Rightarrow> u32" where
  "Chip_Bluetooth_get_cached_size m = cached_size m"

definition Chip_Bluetooth_clear :: "'u protobuf_rt \<Rightarrow> 'u Chip_Bluetooth \<Rightarrow> 'u Chip_Bluetooth" where
  "Chip_Bluetooth_clear W m = m\<lparr>Chip_Bluetooth_low_energy := None, Chip_Bluetooth_classic := None, unknown_fields := uf_new W\<rparr>"

text \<open>Values Rust can hold, without unknown fields, and what a reader gets back.\<close>

definition Chip_Bluetooth_wf :: "'u protobuf_rt \<Rightarrow> 'u Chip_Bluetooth \<Rightarrow> bool" where
  "Chip_Bluetooth_wf W m \<longleftrightarrow>
     unknown_fields m = uf_new W \<and>
     pred_option (Chip_Radio_wf W) (Chip_Bluetooth_low_energy m) \<and>
     pred_option (Chip_Radio_wf W) (Chip_Bluetooth_classic m)"

definition Chip_Bluetooth_canon :: "'u Chip_Bluetooth \<Rightarrow> 'u Chip_Bluetooth" where
  "Chip_Bluetooth_canon m = m\<lparr>cached_size := 0, Chip_Bluetooth_low_energy := map_option Chip_Radio_canon (Chip_Bluetooth_low_energy m), Chip_Bluetooth_classic := map_option Chip_Radio_canon (Chip_Bluetooth_classic m)\<rparr>"

text \<open>The message after an encoding of \<open>m\<close> has been read into it.\<close>

definition Chip_Bluetooth_join :: "'u protobuf_rt \<Rightarrow> 'u Chip_Bluetooth \<Rightarrow> 'u Chip_Bluetooth \<Rightarrow> 'u Chip_Bluetooth" where
  "Chip_Bluetooth_join W a m = a\<lparr>Chip_Bluetooth_low_energy := join_optional W (Chip_Radio_new W) (Chip_Radio_join W) (Chip_Bluetooth_low_energy a) (Chip_Bluetooth_low_energy m),
     Chip_Bluetooth_classic := join_optional W (Chip_Radio_new W) (Chip_Radio_join W) (Chip_Bluetooth_classic a) (Chip_Bluetooth_classic m)\<rparr>"

context protobuf_runtime
begin

lemma Chip_Bluetooth_sized:
  "snd (Chip_Bluetooth_compute_size W m) =
     m\<lparr>Chip_Bluetooth_low_energy := snd (optional_size W (Chip_Radio_compute_size W) (Chip_Bluetooth_low_energy m)), Chip_Bluetooth_classic := snd (optional_size W (Chip_Radio_compute_size W) (Chip_Bluetooth_classic m)), cached_size := fst (Chip_Bluetooth_compute_size W m)\<rparr>"
  by (simp add: Chip_Bluetooth_compute_size_def Let_def case_prod_beta)

lemma Chip_Bluetooth_size_exact:
  "fst (Chip_Bluetooth_compute_size W m) = of_nat (length (Chip_Bluetooth_write_to_with_cached_sizes W (snd (Chip_Bluetooth_compute_size W m))))"
  by (simp add: Chip_Bluetooth_compute_size_def Chip_Bluetooth_sized Chip_Bluetooth_write_to_with_cached_sizes_def Let_def case_prod_beta size_chain size_laws
      small_field_def Chip_Radio.optional_size_exact [symmetric])

lemma Chip_Bluetooth_takes: "takes 1 is (Chip_Bluetooth_merge_step W m is)"
  unfolding Chip_Bluetooth_merge_step_def
  by (rule takes_bind, rule takes_laws) (auto intro!: takes_bind takes_expect takes_laws Chip_Radio.takes_singular_message split: prod.splits)

lemma Chip_Bluetooth_joins:
  assumes wf: "Chip_Bluetooth_wf W m" and len: "length (Chip_Bluetooth_write_to_with_cached_sizes W (snd (Chip_Bluetooth_compute_size W m))) < 2 ^ 32"
  shows "consumes (Chip_Bluetooth_merge_step W) a (Chip_Bluetooth_write_to_with_cached_sizes W (snd (Chip_Bluetooth_compute_size W m))) (Chip_Bluetooth_join W a m)"
proof -
  let ?s = "\<lambda>v1 v2. \<lparr>unknown_fields = unknown_fields a, cached_size = cached_size a, Chip_Bluetooth_low_energy = v1, Chip_Bluetooth_classic = v2\<rparr>"
  have w: "Chip_Bluetooth_write_to_with_cached_sizes W (snd (Chip_Bluetooth_compute_size W m)) =
    os_optional W 1 Chip_Radio_get_cached_size (Chip_Radio_write_to_with_cached_sizes W) (snd (optional_size W (Chip_Radio_compute_size W) (Chip_Bluetooth_low_energy m))) @
    os_optional W 2 Chip_Radio_get_cached_size (Chip_Radio_write_to_with_cached_sizes W) (snd (optional_size W (Chip_Radio_compute_size W) (Chip_Bluetooth_classic m)))"
    using wf by (simp add: Chip_Bluetooth_sized Chip_Bluetooth_write_to_with_cached_sizes_def Chip_Bluetooth_wf_def unknown_none)
  note l1 = len [unfolded w]
  note l2 = length_rest [OF l1]
  have 1: "consumes (Chip_Bluetooth_merge_step W) (?s (Chip_Bluetooth_low_energy a) (Chip_Bluetooth_classic a))
    (os_optional W 1 Chip_Radio_get_cached_size (Chip_Radio_write_to_with_cached_sizes W) (snd (optional_size W (Chip_Radio_compute_size W) (Chip_Bluetooth_low_energy m))))
    (?s (join_optional W (Chip_Radio_new W) (Chip_Radio_join W) (Chip_Bluetooth_low_energy a) (Chip_Bluetooth_low_energy m)) (Chip_Bluetooth_classic a))"
    by (rule Chip_Radio.consumes_optional [where upd = "\<lambda>v. ?s v (Chip_Bluetooth_classic a)"])
      (use wf length_first [OF l1] in \<open>simp_all add: Chip_Bluetooth_merge_step_def expect_wire_def small_field_def Chip_Bluetooth_wf_def Chip_Radio_merge_from_def\<close>)
  have 2: "consumes (Chip_Bluetooth_merge_step W) (?s (join_optional W (Chip_Radio_new W) (Chip_Radio_join W) (Chip_Bluetooth_low_energy a) (Chip_Bluetooth_low_energy m)) (Chip_Bluetooth_classic a))
    (os_optional W 2 Chip_Radio_get_cached_size (Chip_Radio_write_to_with_cached_sizes W) (snd (optional_size W (Chip_Radio_compute_size W) (Chip_Bluetooth_classic m))))
    (?s (join_optional W (Chip_Radio_new W) (Chip_Radio_join W) (Chip_Bluetooth_low_energy a) (Chip_Bluetooth_low_energy m)) (join_optional W (Chip_Radio_new W) (Chip_Radio_join W) (Chip_Bluetooth_classic a) (Chip_Bluetooth_classic m)))"
    by (rule Chip_Radio.consumes_optional [where upd = "\<lambda>v. ?s (join_optional W (Chip_Radio_new W) (Chip_Radio_join W) (Chip_Bluetooth_low_energy a) (Chip_Bluetooth_low_energy m)) v"])
      (use wf l2 in \<open>simp_all add: Chip_Bluetooth_merge_step_def expect_wire_def small_field_def Chip_Bluetooth_wf_def Chip_Radio_merge_from_def\<close>)
  note all = consumes_append [OF 1 2]
  have start: "?s (Chip_Bluetooth_low_energy a) (Chip_Bluetooth_classic a) = a"
    by (cases a) simp
  have joined: "?s (join_optional W (Chip_Radio_new W) (Chip_Radio_join W) (Chip_Bluetooth_low_energy a) (Chip_Bluetooth_low_energy m)) (join_optional W (Chip_Radio_new W) (Chip_Radio_join W) (Chip_Bluetooth_classic a) (Chip_Bluetooth_classic m)) = Chip_Bluetooth_join W a m"
    by (cases a) (simp add: Chip_Bluetooth_join_def)
  show ?thesis
    unfolding w by (rule all [unfolded start joined])
qed

end

sublocale protobuf_runtime < Chip_Bluetooth: pb_message W "Chip_Bluetooth_new W" Chip_Bluetooth_is_initialized "Chip_Bluetooth_compute_size W"
    "Chip_Bluetooth_write_to_with_cached_sizes W" Chip_Bluetooth_get_cached_size "Chip_Bluetooth_merge_from W" "Chip_Bluetooth_wf W" Chip_Bluetooth_canon "Chip_Bluetooth_join W"
proof unfold_locales
  show "fst (Chip_Bluetooth_compute_size W m) = of_nat (length (Chip_Bluetooth_write_to_with_cached_sizes W (snd (Chip_Bluetooth_compute_size W m))))" for m
    by (rule Chip_Bluetooth_size_exact)
  show "Chip_Bluetooth_get_cached_size (snd (Chip_Bluetooth_compute_size W m)) = fst (Chip_Bluetooth_compute_size W m)" for m
    by (simp add: Chip_Bluetooth_get_cached_size_def Chip_Bluetooth_sized)
  show "Chip_Bluetooth_is_initialized m" for m :: "'u Chip_Bluetooth"
    by (simp add: Chip_Bluetooth_is_initialized_def list_all_iff Chip_Radio.all_initialized split: option.splits)
  show "Chip_Bluetooth_merge_from W a (Chip_Bluetooth_write_to_with_cached_sizes W (snd (Chip_Bluetooth_compute_size W m)) @ r) = Chip_Bluetooth_merge_from W (Chip_Bluetooth_join W a m) r"
    if "Chip_Bluetooth_wf W m" "length (Chip_Bluetooth_write_to_with_cached_sizes W (snd (Chip_Bluetooth_compute_size W m))) < 2 ^ 32" for a m r
    using Chip_Bluetooth_joins [OF that] by (simp add: consumes_def Chip_Bluetooth_merge_from_def)
  show "Chip_Bluetooth_join W (Chip_Bluetooth_new W) m = Chip_Bluetooth_canon m" if "Chip_Bluetooth_wf W m" for m
    using that by (cases m) (simp add: Chip_Bluetooth_join_def Chip_Bluetooth_new_def Chip_Bluetooth_canon_def Chip_Bluetooth_wf_def Chip_Radio.join_optional_None)
  show "Chip_Bluetooth_merge_from W m [] = Inr m" for m
    by (simp add: Chip_Bluetooth_merge_from_def)
  show "Chip_Bluetooth_merge_from W m is \<noteq> Inl NoProgress" for m "is"
    unfolding Chip_Bluetooth_merge_from_def by (rule merge_loop_progress) (rule Chip_Bluetooth_takes)
qed

section \<open>\<^verbatim>\<open>Chip\<close>\<close>

datatype 'u Chip_oneof_chip =
    Chip_oneof_chip_bt "'u Chip_Bluetooth"
  | Chip_oneof_chip_uwb "'u Chip_Radio"
  | Chip_oneof_chip_wifi "'u Chip_Radio"

record 'u Chip = "'u pb_special" +
  Chip_chip_id :: string
  Chip_manufacturer :: string
  Chip_model :: string
  Chip_capture :: State
  Chip_chip :: "'u Chip_oneof_chip option"

definition Chip_new :: "'u protobuf_rt \<Rightarrow> 'u Chip" where
  "Chip_new W =
     \<lparr>unknown_fields = uf_new W, cached_size = 0,
      Chip_chip_id = [], Chip_manufacturer = [], Chip_model = [], Chip_capture = State_UNKNOWN, Chip_chip = None\<rparr>"

definition Chip_get_chip_id :: "'u Chip \<Rightarrow> string" where "Chip_get_chip_id m = Chip_chip_id m"
definition Chip_clear_chip_id :: "'u Chip \<Rightarrow> 'u Chip" where
  "Chip_clear_chip_id m = m\<lparr>Chip_chip_id := []\<rparr>"
definition Chip_set_chip_id :: "string \<Rightarrow> 'u Chip \<Rightarrow> 'u Chip" where
  "Chip_set_chip_id v m = m\<lparr>Chip_chip_id := v\<rparr>"
definition Chip_mut_chip_id :: "(string \<Rightarrow> string) \<Rightarrow> 'u Chip \<Rightarrow> 'u Chip" where
  "Chip_mut_chip_id g m = m\<lparr>Chip_chip_id := g (Chip_chip_id m)\<rparr>"
definition Chip_take_chip_id :: "'u Chip \<Rightarrow> string \<times> 'u Chip" where
  "Chip_take_chip_id m = (Chip_chip_id m, m\<lparr>Chip_chip_id := []\<rparr>)"
definition Chip_get_manufacturer :: "'u Chip \<Rightarrow> string" where
  "Chip_get_manufacturer m = Chip_manufacturer m"
definition Chip_clear_manufacturer :: "'u Chip \<Rightarrow> 'u Chip" where
  "Chip_clear_manufacturer m = m\<lparr>Chip_manufacturer := []\<rparr>"
definition Chip_set_manufacturer :: "string \<Rightarrow> 'u Chip \<Rightarrow> 'u Chip" where
  "Chip_set_manufacturer v m = m\<lparr>Chip_manufacturer := v\<rparr>"
definition Chip_mut_manufacturer :: "(string \<Rightarrow> string) \<Rightarrow> 'u Chip \<Rightarrow> 'u Chip" where
  "Chip_mut_manufacturer g m = m\<lparr>Chip_manufacturer := g (Chip_manufacturer m)\<rparr>"
definition Chip_take_manufacturer :: "'u Chip \<Rightarrow> string \<times> 'u Chip" where
  "Chip_take_manufacturer m = (Chip_manufacturer m, m\<lparr>Chip_manufacturer := []\<rparr>)"
definition Chip_get_model :: "'u Chip \<Rightarrow> string" where "Chip_get_model m = Chip_model m"
definition Chip_clear_model :: "'u Chip \<Rightarrow> 'u Chip" where
  "Chip_clear_model m = m\<lparr>Chip_model := []\<rparr>"
definition Chip_set_model :: "string \<Rightarrow> 'u Chip \<Rightarrow> 'u Chip" where
  "Chip_set_model v m = m\<lparr>Chip_model := v\<rparr>"
definition Chip_mut_model :: "(string \<Rightarrow> string) \<Rightarrow> 'u Chip \<Rightarrow> 'u Chip" where
  "Chip_mut_model g m = m\<lparr>Chip_model := g (Chip_model m)\<rparr>"
definition Chip_take_model :: "'u Chip \<Rightarrow> string \<times> 'u Chip" where
  "Chip_take_model m = (Chip_model m, m\<lparr>Chip_model := []\<rparr>)"
definition Chip_get_capture :: "'u Chip \<Rightarrow> State" where "Chip_get_capture m = Chip_capture m"
definition Chip_clear_capture :: "'u Chip \<Rightarrow> 'u Chip" where
  "Chip_clear_capture m = m\<lparr>Chip_capture := State_UNKNOWN\<rparr>"
definition Chip_set_capture :: "State \<Rightarrow> 'u Chip \<Rightarrow> 'u Chip" where
  "Chip_set_capture v m = m\<lparr>Chip_capture := v\<rparr>"
definition Chip_get_bt :: "'u protobuf_rt \<Rightarrow> 'u Chip \<Rightarrow> 'u Chip_Bluetooth" where
  "Chip_get_bt W m = (case Chip_chip m of Some (Chip_oneof_chip_bt v) \<Rightarrow> v | _ \<Rightarrow> Chip_Bluetooth_new W)"
definition Chip_clear_bt :: "'u Chip \<Rightarrow> 'u Chip" where
  "Chip_clear_bt m = m\<lparr>Chip_chip := None\<rparr>"
definition Chip_has_bt :: "'u Chip \<Rightarrow> bool" where
  "Chip_has_bt m = (case Chip_chip m of Some (Chip_oneof_chip_bt _) \<Rightarrow> True | _ \<Rightarrow> False)"
definition Chip_set_bt :: "'u Chip_Bluetooth \<Rightarrow> 'u Chip \<Rightarrow> 'u Chip" where
  "Chip_set_bt v m = m\<lparr>Chip_chip := Some (Chip_oneof_chip_bt v)\<rparr>"
definition Chip_mut_bt :: "'u protobuf_rt \<Rightarrow> ('u Chip_Bluetooth \<Rightarrow> 'u Chip_Bluetooth) \<Rightarrow> 'u Chip \<Rightarrow> 'u Chip result" where
  "Chip_mut_bt W g m =
     (let m = (case Chip_chip m of Some (Chip_oneof_chip_bt _) \<Rightarrow> m | _ \<Rightarrow> m\<lparr>Chip_chip := Some (Chip_oneof_chip_bt (Chip_Bluetooth_new W))\<rparr>)
      in case Chip_chip m of Some (Chip_oneof_chip_bt v) \<Rightarrow> Ok (m\<lparr>Chip_chip := Some (Chip_oneof_chip_bt (g v))\<rparr>) | _ \<Rightarrow> Inl (Panic ''explicit panic''))"
definition Chip_take_bt :: "'u protobuf_rt \<Rightarrow> 'u Chip \<Rightarrow> ('u Chip_Bluetooth \<times> 'u Chip) result" where
  "Chip_take_bt W m =
     (if Chip_has_bt m
      then (case Chip_chip m of Some (Chip_oneof_chip_bt v) \<Rightarrow> Ok (v, m\<lparr>Chip_chip := None\<rparr>) | _ \<Rightarrow> Inl (Panic ''explicit panic''))
      else Ok (Chip_Bluetooth_new W, m))"
definition Chip_get_uwb :: "'u protobuf_rt \<Rightarrow> 'u Chip \<Rightarrow> 'u Chip_Radio" where
  "Chip_get_uwb W m = (case Chip_chip m of Some (Chip_oneof_chip_uwb v) \<Rightarrow> v | _ \<Rightarrow> Chip_Radio_new W)"
definition Chip_clear_uwb :: "'u Chip \<Rightarrow> 'u Chip" where
  "Chip_clear_uwb m = m\<lparr>Chip_chip := None\<rparr>"
definition Chip_has_uwb :: "'u Chip \<Rightarrow> bool" where
  "Chip_has_uwb m = (case Chip_chip m of Some (Chip_oneof_chip_uwb _) \<Rightarrow> True | _ \<Rightarrow> False)"
definition Chip_set_uwb :: "'u Chip_Radio \<Rightarrow> 'u Chip \<Rightarrow> 'u Chip" where
  "Chip_set_uwb v m = m\<lparr>Chip_chip := Some (Chip_oneof_chip_uwb v)\<rparr>"
definition Chip_mut_uwb :: "'u protobuf_rt \<Rightarrow> ('u Chip_Radio \<Rightarrow> 'u Chip_Radio) \<Rightarrow> 'u Chip \<Rightarrow> 'u Chip result" where
  "Chip_mut_uwb W g m =
     (let m = (case Chip_chip m of Some (Chip_oneof_chip_uwb _) \<Rightarrow> m | _ \<Rightarrow> m\<lparr>Chip_chip := Some (Chip_oneof_chip_uwb (Chip_Radio_new W))\<rparr>)
      in case Chip_chip m of Some (Chip_oneof_chip_uwb v) \<Rightarrow> Ok (m\<lparr>Chip_chip := Some (Chip_oneof_chip_uwb (g v))\<rparr>) | _ \<Rightarrow> Inl (Panic ''explicit panic''))"
definition Chip_take_uwb :: "'u protobuf_rt \<Rightarrow> 'u Chip \<Rightarrow> ('u Chip_Radio \<times> 'u Chip) result" where
  "Chip_take_uwb W m =
     (if Chip_has_uwb m
      then (case Chip_chip m of Some (Chip_oneof_chip_uwb v) \<Rightarrow> Ok (v, m\<lparr>Chip_chip := None\<rparr>) | _ \<Rightarrow> Inl (Panic ''explicit panic''))
      else Ok (Chip_Radio_new W, m))"
definition Chip_get_wifi :: "'u protobuf_rt \<Rightarrow> 'u Chip \<Rightarrow> 'u Chip_Radio" where
  "Chip_get_wifi W m = (case Chip_chip m of Some (Chip_oneof_chip_wifi v) \<Rightarrow> v | _ \<Rightarrow> Chip_Radio_new W)"
definition Chip_clear_wifi :: "'u Chip \<Rightarrow> 'u Chip" where
  "Chip_clear_wifi m = m\<lparr>Chip_chip := None\<rparr>"
definition Chip_has_wifi :: "'u Chip \<Rightarrow> bool" where
  "Chip_has_wifi m = (case Chip_chip m of Some (Chip_oneof_chip_wifi _) \<Rightarrow> True | _ \<Rightarrow> False)"
definition Chip_set_wifi :: "'u Chip_Radio \<Rightarrow> 'u Chip \<Rightarrow> 'u Chip" where
  "Chip_set_wifi v m = m\<lparr>Chip_chip := Some (Chip_oneof_chip_wifi v)\<rparr>"
definition Chip_mut_wifi :: "'u protobuf_rt \<Rightarrow> ('u Chip_Radio \<Rightarrow> 'u Chip_Radio) \<Rightarrow> 'u Chip \<Rightarrow> 'u Chip result" where
  "Chip_mut_wifi W g m =
     (let m = (case Chip_chip m of Some (Chip_oneof_chip_wifi _) \<Rightarrow> m | _ \<Rightarrow> m\<lparr>Chip_chip := Some (Chip_oneof_chip_wifi (Chip_Radio_new W))\<rparr>)
      in case Chip_chip m of Some (Chip_oneof_chip_wifi v) \<Rightarrow> Ok (m\<lparr>Chip_chip := Some (Chip_oneof_chip_wifi (g v))\<rparr>) | _ \<Rightarrow> Inl (Panic ''explicit panic''))"
definition Chip_take_wifi :: "'u protobuf_rt \<Rightarrow> 'u Chip \<Rightarrow> ('u Chip_Radio \<times> 'u Chip) result" where
  "Chip_take_wifi W m =
     (if Chip_has_wifi m
      then (case Chip_chip m of Some (Chip_oneof_chip_wifi v) \<Rightarrow> Ok (v, m\<lparr>Chip_chip := None\<rparr>) | _ \<Rightarrow> Inl (Panic ''explicit panic''))
      else Ok (Chip_Radio_new W, m))"

interpretation Chip_bt: presence_field "Chip_Bluetooth_new W" Chip_has_bt "Chip_get_bt W" Chip_set_bt
    Chip_clear_bt "Chip_mut_bt W" "Chip_take_bt W" for W
  by unfold_locales
    (auto simp: Chip_get_bt_def Chip_clear_bt_def Chip_has_bt_def Chip_set_bt_def Chip_mut_bt_def Chip_take_bt_def
      split: option.splits Chip_oneof_chip.splits)

interpretation Chip_uwb: presence_field "Chip_Radio_new W" Chip_has_uwb "Chip_get_uwb W" Chip_set_uwb
    Chip_clear_uwb "Chip_mut_uwb W" "Chip_take_uwb W" for W
  by unfold_locales
    (auto simp: Chip_get_uwb_def Chip_clear_uwb_def Chip_has_uwb_def Chip_set_uwb_def Chip_mut_uwb_def Chip_take_uwb_def
      split: option.splits Chip_oneof_chip.splits)

interpretation Chip_wifi: presence_field "Chip_Radio_new W" Chip_has_wifi "Chip_get_wifi W" Chip_set_wifi
    Chip_clear_wifi "Chip_mut_wifi W" "Chip_take_wifi W" for W
  by unfold_locales
    (auto simp: Chip_get_wifi_def Chip_clear_wifi_def Chip_has_wifi_def Chip_set_wifi_def Chip_mut_wifi_def Chip_take_wifi_def
      split: option.splits Chip_oneof_chip.splits)

definition Chip_is_initialized :: "'u Chip \<Rightarrow> bool" where
  "Chip_is_initialized m =
     ((case Chip_chip m of Some (Chip_oneof_chip_bt v) \<Rightarrow> Chip_Bluetooth_is_initialized v | _ \<Rightarrow> True) \<and>
      (case Chip_chip m of Some (Chip_oneof_chip_uwb v) \<Rightarrow> Chip_Radio_is_initialized v | _ \<Rightarrow> True) \<and>
      (case Chip_chip m of Some (Chip_oneof_chip_wifi v) \<Rightarrow> Chip_Radio_is_initialized v | _ \<Rightarrow> True))"

definition Chip_merge_step :: "'u protobuf_rt \<Rightarrow> 'u Chip \<Rightarrow> bytes \<Rightarrow> 'u Chip reads" where
  "Chip_merge_step W m is =
     bindE (rt_tag W is) (\<lambda>((field_number, wire_type), is).
       if field_number = 1 then
         bindE (rt_string_into W wire_type is) (\<lambda>(s, is). Ok (m\<lparr>Chip_chip_id := s\<rparr>, is))
       else if field_number = 2 then
         bindE (rt_string_into W wire_type is) (\<lambda>(s, is). Ok (m\<lparr>Chip_manufacturer := s\<rparr>, is))
       else if field_number = 3 then
         bindE (rt_string_into W wire_type is) (\<lambda>(s, is). Ok (m\<lparr>Chip_model := s\<rparr>, is))
       else if field_number = 4 then
         bindE (read_enum_into W State_from_i32 wire_type is (Chip_capture m) 4 (unknown_fields m))
          (\<lambda>((v, u), is). Ok (m\<lparr>Chip_capture := v, unknown_fields := u\<rparr>, is))
       else if field_number = 5 then
         expect_wire WireTypeLengthDelimited wire_type
          (bindE (read_message W (Chip_Bluetooth_new W) (Chip_Bluetooth_merge_from W) Chip_Bluetooth_is_initialized is) (\<lambda>(v, is). Ok (m\<lparr>Chip_chip := Some (Chip_oneof_chip_bt v)\<rparr>, is)))
       else if field_number = 6 then
         expect_wire WireTypeLengthDelimited wire_type
          (bindE (read_message W (Chip_Radio_new W) (Chip_Radio_merge_from W) Chip_Radio_is_initialized is) (\<lambda>(v, is). Ok (m\<lparr>Chip_chip := Some (Chip_oneof_chip_uwb v)\<rparr>, is)))
       else if field_number = 7 then
         expect_wire WireTypeLengthDelimited wire_type
          (bindE (read_message W (Chip_Radio_new W) (Chip_Radio_merge_from W) Chip_Radio_is_initialized is) (\<lambda>(v, is). Ok (m\<lparr>Chip_chip := Some (Chip_oneof_chip_wifi v)\<rparr>, is)))
       else bindE (rt_unknown W field_number wire_type is (unknown_fields m))
         (\<lambda>(u, is). Ok (m\<lparr>unknown_fields := u\<rparr>, is)))"

definition Chip_merge_from :: "'u protobuf_rt \<Rightarrow> 'u Chip \<Rightarrow> bytes \<Rightarrow> pb_error + 'u Chip" where
  "Chip_merge_from W = merge_loop (Chip_merge_step W)"

fun Chip_oneof_chip_size :: "'u protobuf_rt \<Rightarrow> 'u Chip_oneof_chip \<Rightarrow> u32 \<times> 'u Chip_oneof_chip" where
  "Chip_oneof_chip_size W (Chip_oneof_chip_bt v) =
     (let (n, v) = embedded_size W (Chip_Bluetooth_compute_size W) v in (n, Chip_oneof_chip_bt v))"
| "Chip_oneof_chip_size W (Chip_oneof_chip_uwb v) =
     (let (n, v) = embedded_size W (Chip_Radio_compute_size W) v in (n, Chip_oneof_chip_uwb v))"
| "Chip_oneof_chip_size W (Chip_oneof_chip_wifi v) =
     (let (n, v) = embedded_size W (Chip_Radio_compute_size W) v in (n, Chip_oneof_chip_wifi v))"

fun Chip_oneof_chip_write :: "'u protobuf_rt \<Rightarrow> 'u Chip_oneof_chip \<Rightarrow> bytes" where
  "Chip_oneof_chip_write W (Chip_oneof_chip_bt v) =
     os_message W 5 Chip_Bluetooth_get_cached_size (Chip_Bluetooth_write_to_with_cached_sizes W) v"
| "Chip_oneof_chip_write W (Chip_oneof_chip_uwb v) =
     os_message W 6 Chip_Radio_get_cached_size (Chip_Radio_write_to_with_cached_sizes W) v"
| "Chip_oneof_chip_write W (Chip_oneof_chip_wifi v) =
     os_message W 7 Chip_Radio_get_cached_size (Chip_Radio_write_to_with_cached_sizes W) v"

definition Chip_compute_size :: "'u protobuf_rt \<Rightarrow> 'u Chip \<Rightarrow> u32 \<times> 'u Chip" where
  "Chip_compute_size W m =
     (let my_size = 0;
          my_size = (if Chip_chip_id m \<noteq> [] then my_size + sz_string W 1 (Chip_chip_id m) else my_size);
          my_size = (if Chip_manufacturer m \<noteq> [] then my_size + sz_string W 2 (Chip_manufacturer m) else my_size);
          my_size = (if Chip_model m \<noteq> [] then my_size + sz_string W 3 (Chip_model m) else my_size);
          my_size = (if Chip_capture m \<noteq> State_UNKNOWN then my_size + sz_enum W 4 (State_value (Chip_capture m)) else my_size);
          (n, chip) = (case Chip_chip m of None \<Rightarrow> (0, None) | Some v \<Rightarrow> let (n, v) = Chip_oneof_chip_size W v in (n, Some v)); my_size = my_size + n;
          my_size = my_size + uf_size W (unknown_fields m)
      in (my_size, m\<lparr>Chip_chip := chip, cached_size := my_size\<rparr>))"

definition Chip_write_to_with_cached_sizes :: "'u protobuf_rt \<Rightarrow> 'u Chip \<Rightarrow> bytes" where
  "Chip_write_to_with_cached_sizes W m =
     (if Chip_chip_id m \<noteq> [] then os_string W 1 (Chip_chip_id m) else []) @
     (if Chip_manufacturer m \<noteq> [] then os_string W 2 (Chip_manufacturer m) else []) @
     (if Chip_model m \<noteq> [] then os_string W 3 (Chip_model m) else []) @
     (if Chip_capture m \<noteq> State_UNKNOWN then os_enum W 4 (State_value (Chip_capture m)) else []) @
     (case Chip_chip m of None \<Rightarrow> [] | Some v \<Rightarrow> Chip_oneof_chip_write W v) @
     os_unknown W (unknown_fields m)"

definition Chip_get_cached_size :: "'u Chip \<Rightarrow> u32" where "Chip_get_cached_size m = cached_size m"

definition Chip_clear :: "'u protobuf_rt \<Rightarrow> 'u Chip \<Rightarrow> 'u Chip" where
  "Chip_clear W m = m\<lparr>Chip_chip_id := [], Chip_manufacturer := [], Chip_model := [], Chip_capture := State_UNKNOWN, Chip_chip := None, unknown_fields := uf_new W\<rparr>"

text \<open>Values Rust can hold, without unknown fields, and what a reader gets back.\<close>

fun Chip_oneof_chip_wf :: "'u protobuf_rt \<Rightarrow> 'u Chip_oneof_chip \<Rightarrow> bool" where
  "Chip_oneof_chip_wf W (Chip_oneof_chip_bt v) = Chip_Bluetooth_wf W v"
| "Chip_oneof_chip_wf W (Chip_oneof_chip_uwb v) = Chip_Radio_wf W v"
| "Chip_oneof_chip_wf W (Chip_oneof_chip_wifi v) = Chip_Radio_wf W v"

fun Chip_oneof_chip_canon :: "'u Chip_oneof_chip \<Rightarrow> 'u Chip_oneof_chip" where
  "Chip_oneof_chip_canon (Chip_oneof_chip_bt v) = Chip_oneof_chip_bt (Chip_Bluetooth_canon v)"
| "Chip_oneof_chip_canon (Chip_oneof_chip_uwb v) = Chip_oneof_chip_uwb (Chip_Radio_canon v)"
| "Chip_oneof_chip_canon (Chip_oneof_chip_wifi v) = Chip_oneof_chip_wifi (Chip_Radio_canon v)"

definition Chip_wf :: "'u protobuf_rt \<Rightarrow> 'u Chip \<Rightarrow> bool" where
  "Chip_wf W m \<longleftrightarrow>
     unknown_fields m = uf_new W \<and>
     utf8 (Chip_chip_id m) \<and>
     utf8 (Chip_manufacturer m) \<and>
     utf8 (Chip_model m) \<and>
     pred_option (Chip_oneof_chip_wf W) (Chip_chip m)"

definition Chip_canon :: "'u Chip \<Rightarrow> 'u Chip" where
  "Chip_canon m = m\<lparr>cached_size := 0, Chip_chip := map_option Chip_oneof_chip_canon (Chip_chip m)\<rparr>"

text \<open>The message after an encoding of \<open>m\<close> has been read into it.\<close>

definition Chip_join :: "'u protobuf_rt \<Rightarrow> 'u Chip \<Rightarrow> 'u Chip \<Rightarrow> 'u Chip" where
  "Chip_join W a m = a\<lparr>Chip_chip_id := join_scalar [] (Chip_chip_id a) (Chip_chip_id m),
     Chip_manufacturer := join_scalar [] (Chip_manufacturer a) (Chip_manufacturer m),
     Chip_model := join_scalar [] (Chip_model a) (Chip_model m),
     Chip_capture := join_scalar State_UNKNOWN (Chip_capture a) (Chip_capture m),
     Chip_chip := join_oneof Chip_oneof_chip_canon (Chip_chip a) (Chip_chip m)\<rparr>"

context protobuf_runtime
begin

lemma Chip_oneof_chip_size_exact:
  "fst (Chip_oneof_chip_size W v) = of_nat (length (Chip_oneof_chip_write W (snd (Chip_oneof_chip_size W v))))"
  by (cases v) (simp_all add: case_prod_beta size_laws small_field_def Chip_Bluetooth.embedded_size_exact [symmetric] Chip_Radio.embedded_size_exact [symmetric] Chip_Radio.embedded_size_exact [symmetric])

lemma Chip_sized:
  "snd (Chip_compute_size W m) =
     m\<lparr>Chip_chip := snd ((case Chip_chip m of None \<Rightarrow> (0, None) | Some v \<Rightarrow> let (n, v) = Chip_oneof_chip_size W v in (n, Some v))), cached_size := fst (Chip_compute_size W m)\<rparr>"
  by (simp add: Chip_compute_size_def Let_def case_prod_beta)

lemma Chip_size_exact:
  "fst (Chip_compute_size W m) = of_nat (length (Chip_write_to_with_cached_sizes W (snd (Chip_compute_size W m))))"
  by (cases "Chip_chip m")
    (simp_all add: Chip_compute_size_def Chip_sized Chip_write_to_with_cached_sizes_def Let_def case_prod_beta size_chain size_laws
      small_field_def  Chip_oneof_chip_size_exact)

lemma Chip_takes: "takes 1 is (Chip_merge_step W m is)"
  unfolding Chip_merge_step_def
  by (rule takes_bind, rule takes_laws) (auto intro!: takes_bind takes_expect takes_laws Chip_Bluetooth.takes_read_message Chip_Radio.takes_read_message takes_read_enum split: prod.splits)

lemma Chip_joins:
  assumes wf: "Chip_wf W m" and len: "length (Chip_write_to_with_cached_sizes W (snd (Chip_compute_size W m))) < 2 ^ 32"
  shows "consumes (Chip_merge_step W) a (Chip_write_to_with_cached_sizes W (snd (Chip_compute_size W m))) (Chip_join W a m)"
proof -
  let ?s = "\<lambda>v1 v2 v3 v4 v5. \<lparr>unknown_fields = unknown_fields a, cached_size = cached_size a, Chip_chip_id = v1, Chip_manufacturer = v2, Chip_model = v3, Chip_capture = v4, Chip_chip = v5\<rparr>"
  have w: "Chip_write_to_with_cached_sizes W (snd (Chip_compute_size W m)) =
    (if Chip_chip_id m \<noteq> [] then os_string W 1 (Chip_chip_id m) else []) @
    (if Chip_manufacturer m \<noteq> [] then os_string W 2 (Chip_manufacturer m) else []) @
    (if Chip_model m \<noteq> [] then os_string W 3 (Chip_model m) else []) @
    (if Chip_capture m \<noteq> State_UNKNOWN then os_enum W 4 (State_value (Chip_capture m)) else []) @
    (case Chip_chip m of None \<Rightarrow> [] | Some v \<Rightarrow> Chip_oneof_chip_write W (snd (Chip_oneof_chip_size W v)))"
    using wf by (simp add: Chip_sized Chip_write_to_with_cached_sizes_def Chip_wf_def unknown_none case_prod_beta split: option.splits)
  note l1 = len [unfolded w]
  note l2 = length_rest [OF l1]
  note l3 = length_rest [OF l2]
  note l4 = length_rest [OF l3]
  note l5 = length_rest [OF l4]
  have 1: "consumes (Chip_merge_step W) (?s (Chip_chip_id a) (Chip_manufacturer a) (Chip_model a) (Chip_capture a) (Chip_chip a))
    ((if Chip_chip_id m \<noteq> [] then os_string W 1 (Chip_chip_id m) else []))
    (?s (join_scalar [] (Chip_chip_id a) (Chip_chip_id m)) (Chip_manufacturer a) (Chip_model a) (Chip_capture a) (Chip_chip a))"
    by (rule consumes_string [where upd = "\<lambda>v. ?s v (Chip_manufacturer a) (Chip_model a) (Chip_capture a) (Chip_chip a)"])
      (use wf length_first [OF l1] in \<open>simp_all add: Chip_merge_step_def expect_wire_def small_field_def Chip_wf_def\<close>)
  have 2: "consumes (Chip_merge_step W) (?s (join_scalar [] (Chip_chip_id a) (Chip_chip_id m)) (Chip_manufacturer a) (Chip_model a) (Chip_capture a) (Chip_chip a))
    ((if Chip_manufacturer m \<noteq> [] then os_string W 2 (Chip_manufacturer m) else []))
    (?s (join_scalar [] (Chip_chip_id a) (Chip_chip_id m)) (join_scalar [] (Chip_manufacturer a) (Chip_manufacturer m)) (Chip_model a) (Chip_capture a) (Chip_chip a))"
    by (rule consumes_string [where upd = "\<lambda>v. ?s (join_scalar [] (Chip_chip_id a) (Chip_chip_id m)) v (Chip_model a) (Chip_capture a) (Chip_chip a)"])
      (use wf length_first [OF l2] in \<open>simp_all add: Chip_merge_step_def expect_wire_def small_field_def Chip_wf_def\<close>)
  have 3: "consumes (Chip_merge_step W) (?s (join_scalar [] (Chip_chip_id a) (Chip_chip_id m)) (join_scalar [] (Chip_manufacturer a) (Chip_manufacturer m)) (Chip_model a) (Chip_capture a) (Chip_chip a))
    ((if Chip_model m \<noteq> [] then os_string W 3 (Chip_model m) else []))
    (?s (join_scalar [] (Chip_chip_id a) (Chip_chip_id m)) (join_scalar [] (Chip_manufacturer a) (Chip_manufacturer m)) (join_scalar [] (Chip_model a) (Chip_model m)) (Chip_capture a) (Chip_chip a))"
    by (rule consumes_string [where upd = "\<lambda>v. ?s (join_scalar [] (Chip_chip_id a) (Chip_chip_id m)) (join_scalar [] (Chip_manufacturer a) (Chip_manufacturer m)) v (Chip_capture a) (Chip_chip a)"])
      (use wf length_first [OF l3] in \<open>simp_all add: Chip_merge_step_def expect_wire_def small_field_def Chip_wf_def\<close>)
  have 4: "consumes (Chip_merge_step W) (?s (join_scalar [] (Chip_chip_id a) (Chip_chip_id m)) (join_scalar [] (Chip_manufacturer a) (Chip_manufacturer m)) (join_scalar [] (Chip_model a) (Chip_model m)) (Chip_capture a) (Chip_chip a))
    ((if Chip_capture m \<noteq> State_UNKNOWN then os_enum W 4 (State_value (Chip_capture m)) else []))
    (?s (join_scalar [] (Chip_chip_id a) (Chip_chip_id m)) (join_scalar [] (Chip_manufacturer a) (Chip_manufacturer m)) (join_scalar [] (Chip_model a) (Chip_model m)) (join_scalar State_UNKNOWN (Chip_capture a) (Chip_capture m)) (Chip_chip a))"
    by (rule consumes_enum [where upd = "\<lambda>v u. \<lparr>unknown_fields = u, cached_size = cached_size a, Chip_chip_id = (join_scalar [] (Chip_chip_id a) (Chip_chip_id m)), Chip_manufacturer = (join_scalar [] (Chip_manufacturer a) (Chip_manufacturer m)), Chip_model = (join_scalar [] (Chip_model a) (Chip_model m)), Chip_capture = v, Chip_chip = (Chip_chip a)\<rparr>" and t = "Chip_capture a"
        and conv = State_from_i32 and u = "unknown_fields a"])
      (simp_all add: Chip_merge_step_def expect_wire_def small_field_def)
  have 5: "consumes (Chip_merge_step W) (?s (join_scalar [] (Chip_chip_id a) (Chip_chip_id m)) (join_scalar [] (Chip_manufacturer a) (Chip_manufacturer m)) (join_scalar [] (Chip_model a) (Chip_model m)) (join_scalar State_UNKNOWN (Chip_capture a) (Chip_capture m)) (Chip_chip a))
    ((case Chip_chip m of None \<Rightarrow> [] | Some v \<Rightarrow> Chip_oneof_chip_write W (snd (Chip_oneof_chip_size W v))))
    (?s (join_scalar [] (Chip_chip_id a) (Chip_chip_id m)) (join_scalar [] (Chip_manufacturer a) (Chip_manufacturer m)) (join_scalar [] (Chip_model a) (Chip_model m)) (join_scalar State_UNKNOWN (Chip_capture a) (Chip_capture m)) (join_oneof Chip_oneof_chip_canon (Chip_chip a) (Chip_chip m)))"
  proof (cases "Chip_chip m")
    case (Some v)
    note l = l5 [unfolded Some option.case]
    show ?thesis
    proof (cases v)
      case (Chip_oneof_chip_bt u)
      have "consumes (Chip_merge_step W) (?s (join_scalar [] (Chip_chip_id a) (Chip_chip_id m)) (join_scalar [] (Chip_manufacturer a) (Chip_manufacturer m)) (join_scalar [] (Chip_model a) (Chip_model m)) (join_scalar State_UNKNOWN (Chip_capture a) (Chip_capture m)) (Chip_chip a))
        (os_message W 5 Chip_Bluetooth_get_cached_size (Chip_Bluetooth_write_to_with_cached_sizes W)
          (snd (embedded_size W (Chip_Bluetooth_compute_size W) u)))
        (?s (join_scalar [] (Chip_chip_id a) (Chip_chip_id m)) (join_scalar [] (Chip_manufacturer a) (Chip_manufacturer m)) (join_scalar [] (Chip_model a) (Chip_model m)) (join_scalar State_UNKNOWN (Chip_capture a) (Chip_capture m)) (Some (Chip_oneof_chip_bt (Chip_Bluetooth_canon u))))"
        by (rule Chip_Bluetooth.consumes_message [where upd = "\<lambda>v. ?s (join_scalar [] (Chip_chip_id a) (Chip_chip_id m)) (join_scalar [] (Chip_manufacturer a) (Chip_manufacturer m)) (join_scalar [] (Chip_model a) (Chip_model m)) (join_scalar State_UNKNOWN (Chip_capture a) (Chip_capture m)) (Some (Chip_oneof_chip_bt v))" and v = u and f = 5])
          (use wf l in \<open>simp_all add: Chip_merge_step_def expect_wire_def small_field_def Chip_wf_def Some Chip_oneof_chip_bt case_prod_beta\<close>)
      then show ?thesis
        by (simp add: Some Chip_oneof_chip_bt case_prod_beta join_oneof_def)
    next
      case (Chip_oneof_chip_uwb u)
      have "consumes (Chip_merge_step W) (?s (join_scalar [] (Chip_chip_id a) (Chip_chip_id m)) (join_scalar [] (Chip_manufacturer a) (Chip_manufacturer m)) (join_scalar [] (Chip_model a) (Chip_model m)) (join_scalar State_UNKNOWN (Chip_capture a) (Chip_capture m)) (Chip_chip a))
        (os_message W 6 Chip_Radio_get_cached_size (Chip_Radio_write_to_with_cached_sizes W)
          (snd (embedded_size W (Chip_Radio_compute_size W) u)))
        (?s (join_scalar [] (Chip_chip_id a) (Chip_chip_id m)) (join_scalar [] (Chip_manufacturer a) (Chip_manufacturer m)) (join_scalar [] (Chip_model a) (Chip_model m)) (join_scalar State_UNKNOWN (Chip_capture a) (Chip_capture m)) (Some (Chip_oneof_chip_uwb (Chip_Radio_canon u))))"
        by (rule Chip_Radio.consumes_message [where upd = "\<lambda>v. ?s (join_scalar [] (Chip_chip_id a) (Chip_chip_id m)) (join_scalar [] (Chip_manufacturer a) (Chip_manufacturer m)) (join_scalar [] (Chip_model a) (Chip_model m)) (join_scalar State_UNKNOWN (Chip_capture a) (Chip_capture m)) (Some (Chip_oneof_chip_uwb v))" and v = u and f = 6])
          (use wf l in \<open>simp_all add: Chip_merge_step_def expect_wire_def small_field_def Chip_wf_def Some Chip_oneof_chip_uwb case_prod_beta\<close>)
      then show ?thesis
        by (simp add: Some Chip_oneof_chip_uwb case_prod_beta join_oneof_def)
    next
      case (Chip_oneof_chip_wifi u)
      have "consumes (Chip_merge_step W) (?s (join_scalar [] (Chip_chip_id a) (Chip_chip_id m)) (join_scalar [] (Chip_manufacturer a) (Chip_manufacturer m)) (join_scalar [] (Chip_model a) (Chip_model m)) (join_scalar State_UNKNOWN (Chip_capture a) (Chip_capture m)) (Chip_chip a))
        (os_message W 7 Chip_Radio_get_cached_size (Chip_Radio_write_to_with_cached_sizes W)
          (snd (embedded_size W (Chip_Radio_compute_size W) u)))
        (?s (join_scalar [] (Chip_chip_id a) (Chip_chip_id m)) (join_scalar [] (Chip_manufacturer a) (Chip_manufacturer m)) (join_scalar [] (Chip_model a) (Chip_model m)) (join_scalar State_UNKNOWN (Chip_capture a) (Chip_capture m)) (Some (Chip_oneof_chip_wifi (Chip_Radio_canon u))))"
        by (rule Chip_Radio.consumes_message [where upd = "\<lambda>v. ?s (join_scalar [] (Chip_chip_id a) (Chip_chip_id m)) (join_scalar [] (Chip_manufacturer a) (Chip_manufacturer m)) (join_scalar [] (Chip_model a) (Chip_model m)) (join_scalar State_UNKNOWN (Chip_capture a) (Chip_capture m)) (Some (Chip_oneof_chip_wifi v))" and v = u and f = 7])
          (use wf l in \<open>simp_all add: Chip_merge_step_def expect_wire_def small_field_def Chip_wf_def Some Chip_oneof_chip_wifi case_prod_beta\<close>)
      then show ?thesis
        by (simp add: Some Chip_oneof_chip_wifi case_prod_beta join_oneof_def)
    qed
  qed (simp add: consumes_finish join_oneof_def)
  note all = consumes_append [OF 1 consumes_append [OF 2 consumes_append [OF 3 consumes_append [OF 4 5]]]]
  have start: "?s (Chip_chip_id a) (Chip_manufacturer a) (Chip_model a) (Chip_capture a) (Chip_chip a) = a"
    by (cases a) simp
  have joined: "?s (join_scalar [] (Chip_chip_id a) (Chip_chip_id m)) (join_scalar [] (Chip_manufacturer a) (Chip_manufacturer m)) (join_scalar [] (Chip_model a) (Chip_model m)) (join_scalar State_UNKNOWN (Chip_capture a) (Chip_capture m)) (join_oneof Chip_oneof_chip_canon (Chip_chip a) (Chip_chip m)) = Chip_join W a m"
    by (cases a) (simp add: Chip_join_def)
  show ?thesis
    unfolding w by (rule all [unfolded start joined])
qed

end

sublocale protobuf_runtime < Chip: pb_message W "Chip_new W" Chip_is_initialized "Chip_compute_size W"
    "Chip_write_to_with_cached_sizes W" Chip_get_cached_size "Chip_merge_from W" "Chip_wf W" Chip_canon "Chip_join W"
proof unfold_locales
  show "fst (Chip_compute_size W m) = of_nat (length (Chip_write_to_with_cached_sizes W (snd (Chip_compute_size W m))))" for m
    by (rule Chip_size_exact)
  show "Chip_get_cached_size (snd (Chip_compute_size W m)) = fst (Chip_compute_size W m)" for m
    by (simp add: Chip_get_cached_size_def Chip_sized)
  show "Chip_is_initialized m" for m :: "'u Chip"
    by (simp add: Chip_is_initialized_def list_all_iff Chip_Bluetooth.all_initialized Chip_Radio.all_initialized split: option.splits Chip_oneof_chip.splits)
  show "Chip_merge_from W a (Chip_write_to_with_cached_sizes W (snd (Chip_compute_size W m)) @ r) = Chip_merge_from W (Chip_join W a m) r"
    if "Chip_wf W m" "length (Chip_write_to_with_cached_sizes W (snd (Chip_compute_size W m))) < 2 ^ 32" for a m r
    using Chip_joins [OF that] by (simp add: consumes_def Chip_merge_from_def)
  show "Chip_join W (Chip_new W) m = Chip_canon m" if "Chip_wf W m" for m
    using that by (cases m) (simp add: Chip_join_def Chip_new_def Chip_canon_def Chip_wf_def)
  show "Chip_merge_from W m [] = Inr m" for m
    by (simp add: Chip_merge_from_def)
  show "Chip_merge_from W m is \<noteq> Inl NoProgress" for m "is"
    unfolding Chip_merge_from_def by (rule merge_loop_progress) (rule Chip_takes)
qed

section \<open>\<^verbatim>\<open>Device\<close>\<close>

record 'u Device = "'u pb_special" +
  Device_device_serial :: string
  Device_name :: string
  Device_visible :: bool
  Device_position :: "'u Position option"
  Device_orientation :: "'u Orientation option"
  Device_chips :: "'u Chip list"

definition Device_new :: "'u protobuf_rt \<Rightarrow> 'u Device" where
  "Device_new W =
     \<lparr>unknown_fields = uf_new W, cached_size = 0,
      Device_device_serial = [], Device_name = [], Device_visible = False, Device_position = None, Device_orientation = None, Device_chips = []\<rparr>"

definition Device_get_device_serial :: "'u Device \<Rightarrow> string" where
  "Device_get_device_serial m = Device_device_serial m"
definition Device_clear_device_serial :: "'u Device \<Rightarrow> 'u Device" where
  "Device_clear_device_serial m = m\<lparr>Device_device_serial := []\<rparr>"
definition Device_set_device_serial :: "string \<Rightarrow> 'u Device \<Rightarrow> 'u Device" where
  "Device_set_device_serial v m = m\<lparr>Device_device_serial := v\<rparr>"
definition Device_mut_device_serial :: "(string \<Rightarrow> string) \<Rightarrow> 'u Device \<Rightarrow> 'u Device" where
  "Device_mut_device_serial g m = m\<lparr>Device_device_serial := g (Device_device_serial m)\<rparr>"
definition Device_take_device_serial :: "'u Device \<Rightarrow> string \<times> 'u Device" where
  "Device_take_device_serial m = (Device_device_serial m, m\<lparr>Device_device_serial := []\<rparr>)"
definition Device_get_name :: "'u Device \<Rightarrow> string" where "Device_get_name m = Device_name m"
definition Device_clear_name :: "'u Device \<Rightarrow> 'u Device" where
  "Device_clear_name m = m\<lparr>Device_name := []\<rparr>"
definition Device_set_name :: "string \<Rightarrow> 'u Device \<Rightarrow> 'u Device" where
  "Device_set_name v m = m\<lparr>Device_name := v\<rparr>"
definition Device_mut_name :: "(string \<Rightarrow> string) \<Rightarrow> 'u Device \<Rightarrow> 'u Device" where
  "Device_mut_name g m = m\<lparr>Device_name := g (Device_name m)\<rparr>"
definition Device_take_name :: "'u Device \<Rightarrow> string \<times> 'u Device" where
  "Device_take_name m = (Device_name m, m\<lparr>Device_name := []\<rparr>)"
definition Device_get_visible :: "'u Device \<Rightarrow> bool" where
  "Device_get_visible m = Device_visible m"
definition Device_clear_visible :: "'u Device \<Rightarrow> 'u Device" where
  "Device_clear_visible m = m\<lparr>Device_visible := False\<rparr>"
definition Device_set_visible :: "bool \<Rightarrow> 'u Device \<Rightarrow> 'u Device" where
  "Device_set_visible v m = m\<lparr>Device_visible := v\<rparr>"
definition Device_get_position :: "'u protobuf_rt \<Rightarrow> 'u Device \<Rightarrow> 'u Position" where
  "Device_get_position W m = (case Device_position m of Some v \<Rightarrow> v | None \<Rightarrow> Position_new W)"
definition Device_clear_position :: "'u Device \<Rightarrow> 'u Device" where
  "Device_clear_position m = m\<lparr>Device_position := None\<rparr>"
definition Device_has_position :: "'u Device \<Rightarrow> bool" where
  "Device_has_position m = (Device_position m \<noteq> None)"
definition Device_set_position :: "'u Position \<Rightarrow> 'u Device \<Rightarrow> 'u Device" where
  "Device_set_position v m = m\<lparr>Device_position := Some v\<rparr>"
definition Device_mut_position :: "'u protobuf_rt \<Rightarrow> ('u Position \<Rightarrow> 'u Position) \<Rightarrow> 'u Device \<Rightarrow> 'u Device result" where
  "Device_mut_position W g m =
     (let m = (if Device_position m = None then m\<lparr>Device_position := Some (Position_new W)\<rparr> else m)
      in case Device_position m of Some v \<Rightarrow> Ok (m\<lparr>Device_position := Some (g v)\<rparr>) | None \<Rightarrow> Inl (Panic ''unwrap''))"
definition Device_take_position :: "'u protobuf_rt \<Rightarrow> 'u Device \<Rightarrow> ('u Position \<times> 'u Device) result" where
  "Device_take_position W m =
     Ok (case Device_position m of Some v \<Rightarrow> v | None \<Rightarrow> Position_new W, m\<lparr>Device_position := None\<rparr>)"
definition Device_get_orientation :: "'u protobuf_rt \<Rightarrow> 'u Device \<Rightarrow> 'u Orientation" where
  "Device_get_orientation W m = (case Device_orientation m of Some v \<Rightarrow> v | None \<Rightarrow> Orientation_new W)"
definition Device_clear_orientation :: "'u Device \<Rightarrow> 'u Device" where
  "Device_clear_orientation m = m\<lparr>Device_orientation := None\<rparr>"
definition Device_has_orientation :: "'u Device \<Rightarrow> bool" where
  "Device_has_orientation m = (Device_orientation m \<noteq> None)"
definition Device_set_orientation :: "'u Orientation \<Rightarrow> 'u Device \<Rightarrow> 'u Device" where
  "Device_set_orientation v m = m\<lparr>Device_orientation := Some v\<rparr>"
definition Device_mut_orientation :: "'u protobuf_rt \<Rightarrow> ('u Orientation \<Rightarrow> 'u Orientation) \<Rightarrow> 'u Device \<Rightarrow> 'u Device result" where
  "Device_mut_orientation W g m =
     (let m = (if Device_orientation m = None then m\<lparr>Device_orientation := Some (Orientation_new W)\<rparr> else m)
      in case Device_orientation m of Some v \<Rightarrow> Ok (m\<lparr>Device_orientation := Some (g v)\<rparr>) | None \<Rightarrow> Inl (Panic ''unwrap''))"
definition Device_take_orientation :: "'u protobuf_rt \<Rightarrow> 'u Device \<Rightarrow> ('u Orientation \<times> 'u Device) result" where
  "Device_take_orientation W m =
     Ok (case Device_orientation m of Some v \<Rightarrow> v | None \<Rightarrow> Orientation_new W, m\<lparr>Device_orientation := None\<rparr>)"
definition Device_get_chips :: "'u Device \<Rightarrow> 'u Chip list" where
  "Device_get_chips m = Device_chips m"
definition Device_clear_chips :: "'u Device \<Rightarrow> 'u Device" where
  "Device_clear_chips m = m\<lparr>Device_chips := []\<rparr>"
definition Device_set_chips :: "'u Chip list \<Rightarrow> 'u Device \<Rightarrow> 'u Device" where
  "Device_set_chips v m = m\<lparr>Device_chips := v\<rparr>"
definition Device_mut_chips :: "('u Chip list \<Rightarrow> 'u Chip list) \<Rightarrow> 'u Device \<Rightarrow> 'u Device" where
  "Device_mut_chips g m = m\<lparr>Device_chips := g (Device_chips m)\<rparr>"
definition Device_take_chips :: "'u Device \<Rightarrow> 'u Chip list \<times> 'u Device" where
  "Device_take_chips m = (Device_chips m, m\<lparr>Device_chips := []\<rparr>)"

interpretation Device_position: presence_field "Position_new W" Device_has_position "Device_get_position W" Device_set_position
    Device_clear_position "Device_mut_position W" "Device_take_position W" for W
  by unfold_locales
    (auto simp: Device_get_position_def Device_clear_position_def Device_has_position_def Device_set_position_def Device_mut_position_def Device_take_position_def
      split: option.splits)

interpretation Device_orientation: presence_field "Orientation_new W" Device_has_orientation "Device_get_orientation W" Device_set_orientation
    Device_clear_orientation "Device_mut_orientation W" "Device_take_orientation W" for W
  by unfold_locales
    (auto simp: Device_get_orientation_def Device_clear_orientation_def Device_has_orientation_def Device_set_orientation_def Device_mut_orientation_def Device_take_orientation_def
      split: option.splits)

definition Device_is_initialized :: "'u Device \<Rightarrow> bool" where
  "Device_is_initialized m =
     ((case Device_position m of Some v \<Rightarrow> Position_is_initialized v | None \<Rightarrow> True) \<and>
      (case Device_orientation m of Some v \<Rightarrow> Orientation_is_initialized v | None \<Rightarrow> True) \<and>
      list_all Chip_is_initialized (Device_chips m))"

definition Device_merge_step :: "'u protobuf_rt \<Rightarrow> 'u Device \<Rightarrow> bytes \<Rightarrow> 'u Device reads" where
  "Device_merge_step W m is =
     bindE (rt_tag W is) (\<lambda>((field_number, wire_type), is).
       if field_number = 1 then
         bindE (rt_string_into W wire_type is) (\<lambda>(s, is). Ok (m\<lparr>Device_device_serial := s\<rparr>, is))
       else if field_number = 2 then
         bindE (rt_string_into W wire_type is) (\<lambda>(s, is). Ok (m\<lparr>Device_name := s\<rparr>, is))
       else if field_number = 3 then
         expect_wire WireTypeVarint wire_type
          (bindE (rt_bool W is) (\<lambda>(tmp, is). Ok (m\<lparr>Device_visible := tmp\<rparr>, is)))
       else if field_number = 4 then
         bindE (read_singular_message_into W (Position_new W) (Position_merge_from W) wire_type is (Device_position m))
          (\<lambda>(v, is). Ok (m\<lparr>Device_position := v\<rparr>, is))
       else if field_number = 5 then
         bindE (read_singular_message_into W (Orientation_new W) (Orientation_merge_from W) wire_type is (Device_orientation m))
          (\<lambda>(v, is). Ok (m\<lparr>Device_orientation := v\<rparr>, is))
       else if field_number = 6 then
         bindE (read_repeated_message_into W (Chip_new W) (Chip_merge_from W) wire_type is (Device_chips m))
          (\<lambda>(v, is). Ok (m\<lparr>Device_chips := v\<rparr>, is))
       else bindE (rt_unknown W field_number wire_type is (unknown_fields m))
         (\<lambda>(u, is). Ok (m\<lparr>unknown_fields := u\<rparr>, is)))"

definition Device_merge_from :: "'u protobuf_rt \<Rightarrow> 'u Device \<Rightarrow> bytes \<Rightarrow> pb_error + 'u Device" where
  "Device_merge_from W = merge_loop (Device_merge_step W)"

definition Device_compute_size :: "'u protobuf_rt \<Rightarrow> 'u Device \<Rightarrow> u32 \<times> 'u Device" where
  "Device_compute_size W m =
     (let my_size = 0;
          my_size = (if Device_device_serial m \<noteq> [] then my_size + sz_string W 1 (Device_device_serial m) else my_size);
          my_size = (if Device_name m \<noteq> [] then my_size + sz_string W 2 (Device_name m) else my_size);
          my_size = (if Device_visible m then my_size + 2 else my_size);
          (n, position) = optional_size W (Position_compute_size W) (Device_position m); my_size = my_size + n;
          (n, orientation) = optional_size W (Orientation_compute_size W) (Device_orientation m); my_size = my_size + n;
          (n, chips) = repeated_size W (Chip_compute_size W) (Device_chips m); my_size = my_size + n;
          my_size = my_size + uf_size W (unknown_fields m)
      in (my_size, m\<lparr>Device_position := position, Device_orientation := orientation, Device_chips := chips, cached_size := my_size\<rparr>))"

definition Device_write_to_with_cached_sizes :: "'u protobuf_rt \<Rightarrow> 'u Device \<Rightarrow> bytes" where
  "Device_write_to_with_cached_sizes W m =
     (if Device_device_serial m \<noteq> [] then os_string W 1 (Device_device_serial m) else []) @
     (if Device_name m \<noteq> [] then os_string W 2 (Device_name m) else []) @
     (if Device_visible m then os_bool W 3 (Device_visible m) else []) @
     os_optional W 4 Position_get_cached_size (Position_write_to_with_cached_sizes W) (Device_position m) @
     os_optional W 5 Orientation_get_cached_size (Orientation_write_to_with_cached_sizes W) (Device_orientation m) @
     os_repeated W 6 Chip_get_cached_size (Chip_write_to_with_cached_sizes W) (Device_chips m) @
     os_unknown W (unknown_fields m)"

definition Device_get_cached_size :: "'u Device \<Rightarrow> u32" where
  "Device_get_cached_size m = cached_size m"

definition Device_clear :: "'u protobuf_rt \<Rightarrow> 'u Device \<Rightarrow> 'u Device" where
  "Device_clear W m = m\<lparr>Device_device_serial := [], Device_name := [], Device_visible := False, Device_position := None, Device_orientation := None, Device_chips := [], unknown_fields := uf_new W\<rparr>"

text \<open>Values Rust can hold, without unknown fields, and what a reader gets back.\<close>

definition Device_wf :: "'u protobuf_rt \<Rightarrow> 'u Device \<Rightarrow> bool" where
  "Device_wf W m \<longleftrightarrow>
     unknown_fields m = uf_new W \<and>
     utf8 (Device_device_serial m) \<and>
     utf8 (Device_name m) \<and>
     pred_option (Position_wf W) (Device_position m) \<and>
     pred_option (Orientation_wf W) (Device_orientation m) \<and>
     list_all (Chip_wf W) (Device_chips m)"

definition Device_canon :: "'u Device \<Rightarrow> 'u Device" where
  "Device_canon m = m\<lparr>cached_size := 0, Device_position := map_option Position_canon (Device_position m), Device_orientation := map_option Orientation_canon (Device_orientation m), Device_chips := map Chip_canon (Device_chips m)\<rparr>"

text \<open>The message after an encoding of \<open>m\<close> has been read into it.\<close>

definition Device_join :: "'u protobuf_rt \<Rightarrow> 'u Device \<Rightarrow> 'u Device \<Rightarrow> 'u Device" where
  "Device_join W a m = a\<lparr>Device_device_serial := join_scalar [] (Device_device_serial a) (Device_device_serial m),
     Device_name := join_scalar [] (Device_name a) (Device_name m),
     Device_visible := join_scalar False (Device_visible a) (Device_visible m),
     Device_position := join_optional W (Position_new W) (Position_join W) (Device_position a) (Device_position m),
     Device_orientation := join_optional W (Orientation_new W) (Orientation_join W) (Device_orientation a) (Device_orientation m),
     Device_chips := Device_chips a @ map Chip_canon (Device_chips m)\<rparr>"

context protobuf_runtime
begin

lemma Device_sized:
  "snd (Device_compute_size W m) =
     m\<lparr>Device_position := snd (optional_size W (Position_compute_size W) (Device_position m)), Device_orientation := snd (optional_size W (Orientation_compute_size W) (Device_orientation m)), Device_chips := snd (repeated_size W (Chip_compute_size W) (Device_chips m)), cached_size := fst (Device_compute_size W m)\<rparr>"
  by (simp add: Device_compute_size_def Let_def case_prod_beta)

lemma Device_size_exact:
  "fst (Device_compute_size W m) = of_nat (length (Device_write_to_with_cached_sizes W (snd (Device_compute_size W m))))"
  by (simp add: Device_compute_size_def Device_sized Device_write_to_with_cached_sizes_def Let_def case_prod_beta size_chain size_laws
      small_field_def Chip.repeated_size_exact [symmetric] Orientation.optional_size_exact [symmetric] Position.optional_size_exact [symmetric])

lemma Device_takes: "takes 1 is (Device_merge_step W m is)"
  unfolding Device_merge_step_def
  by (rule takes_bind, rule takes_laws) (auto intro!: takes_bind takes_expect takes_laws Chip.takes_repeated_message Orientation.takes_singular_message Position.takes_singular_message split: prod.splits)

lemma Device_joins:
  assumes wf: "Device_wf W m" and len: "length (Device_write_to_with_cached_sizes W (snd (Device_compute_size W m))) < 2 ^ 32"
  shows "consumes (Device_merge_step W) a (Device_write_to_with_cached_sizes W (snd (Device_compute_size W m))) (Device_join W a m)"
proof -
  let ?s = "\<lambda>v1 v2 v3 v4 v5 v6. \<lparr>unknown_fields = unknown_fields a, cached_size = cached_size a, Device_device_serial = v1, Device_name = v2, Device_visible = v3, Device_position = v4, Device_orientation = v5, Device_chips = v6\<rparr>"
  have w: "Device_write_to_with_cached_sizes W (snd (Device_compute_size W m)) =
    (if Device_device_serial m \<noteq> [] then os_string W 1 (Device_device_serial m) else []) @
    (if Device_name m \<noteq> [] then os_string W 2 (Device_name m) else []) @
    (if Device_visible m then os_bool W 3 (Device_visible m) else []) @
    os_optional W 4 Position_get_cached_size (Position_write_to_with_cached_sizes W) (snd (optional_size W (Position_compute_size W) (Device_position m))) @
    os_optional W 5 Orientation_get_cached_size (Orientation_write_to_with_cached_sizes W) (snd (optional_size W (Orientation_compute_size W) (Device_orientation m))) @
    os_repeated W 6 Chip_get_cached_size (Chip_write_to_with_cached_sizes W) (snd (repeated_size W (Chip_compute_size W) (Device_chips m)))"
    using wf by (simp add: Device_sized Device_write_to_with_cached_sizes_def Device_wf_def unknown_none)
  note l1 = len [unfolded w]
  note l2 = length_rest [OF l1]
  note l3 = length_rest [OF l2]
  note l4 = length_rest [OF l3]
  note l5 = length_rest [OF l4]
  note l6 = length_rest [OF l5]
  have 1: "consumes (Device_merge_step W) (?s (Device_device_serial a) (Device_name a) (Device_visible a) (Device_position a) (Device_orientation a) (Device_chips a))
    ((if Device_device_serial m \<noteq> [] then os_string W 1 (Device_device_serial m) else []))
    (?s (join_scalar [] (Device_device_serial a) (Device_device_serial m)) (Device_name a) (Device_visible a) (Device_position a) (Device_orientation a) (Device_chips a))"
    by (rule consumes_string [where upd = "\<lambda>v. ?s v (Device_name a) (Device_visible a) (Device_position a) (Device_orientation a) (Device_chips a)"])
      (use wf length_first [OF l1] in \<open>simp_all add: Device_merge_step_def expect_wire_def small_field_def Device_wf_def\<close>)
  have 2: "consumes (Device_merge_step W) (?s (join_scalar [] (Device_device_serial a) (Device_device_serial m)) (Device_name a) (Device_visible a) (Device_position a) (Device_orientation a) (Device_chips a))
    ((if Device_name m \<noteq> [] then os_string W 2 (Device_name m) else []))
    (?s (join_scalar [] (Device_device_serial a) (Device_device_serial m)) (join_scalar [] (Device_name a) (Device_name m)) (Device_visible a) (Device_position a) (Device_orientation a) (Device_chips a))"
    by (rule consumes_string [where upd = "\<lambda>v. ?s (join_scalar [] (Device_device_serial a) (Device_device_serial m)) v (Device_visible a) (Device_position a) (Device_orientation a) (Device_chips a)"])
      (use wf length_first [OF l2] in \<open>simp_all add: Device_merge_step_def expect_wire_def small_field_def Device_wf_def\<close>)
  have 3: "consumes (Device_merge_step W) (?s (join_scalar [] (Device_device_serial a) (Device_device_serial m)) (join_scalar [] (Device_name a) (Device_name m)) (Device_visible a) (Device_position a) (Device_orientation a) (Device_chips a))
    ((if Device_visible m then os_bool W 3 (Device_visible m) else []))
    (?s (join_scalar [] (Device_device_serial a) (Device_device_serial m)) (join_scalar [] (Device_name a) (Device_name m)) (join_scalar False (Device_visible a) (Device_visible m)) (Device_position a) (Device_orientation a) (Device_chips a))"
    by (rule consumes_bool [where upd = "\<lambda>v. ?s (join_scalar [] (Device_device_serial a) (Device_device_serial m)) (join_scalar [] (Device_name a) (Device_name m)) v (Device_position a) (Device_orientation a) (Device_chips a)"]) (simp_all add: Device_merge_step_def expect_wire_def small_field_def)
  have 4: "consumes (Device_merge_step W) (?s (join_scalar [] (Device_device_serial a) (Device_device_serial m)) (join_scalar [] (Device_name a) (Device_name m)) (join_scalar False (Device_visible a) (Device_visible m)) (Device_position a) (Device_orientation a) (Device_chips a))
    (os_optional W 4 Position_get_cached_size (Position_write_to_with_cached_sizes W) (snd (optional_size W (Position_compute_size W) (Device_position m))))
    (?s (join_scalar [] (Device_device_serial a) (Device_device_serial m)) (join_scalar [] (Device_name a) (Device_name m)) (join_scalar False (Device_visible a) (Device_visible m)) (join_optional W (Position_new W) (Position_join W) (Device_position a) (Device_position m)) (Device_orientation a) (Device_chips a))"
    by (rule Position.consumes_optional [where upd = "\<lambda>v. ?s (join_scalar [] (Device_device_serial a) (Device_device_serial m)) (join_scalar [] (Device_name a) (Device_name m)) (join_scalar False (Device_visible a) (Device_visible m)) v (Device_orientation a) (Device_chips a)"])
      (use wf length_first [OF l4] in \<open>simp_all add: Device_merge_step_def expect_wire_def small_field_def Device_wf_def Position_merge_from_def\<close>)
  have 5: "consumes (Device_merge_step W) (?s (join_scalar [] (Device_device_serial a) (Device_device_serial m)) (join_scalar [] (Device_name a) (Device_name m)) (join_scalar False (Device_visible a) (Device_visible m)) (join_optional W (Position_new W) (Position_join W) (Device_position a) (Device_position m)) (Device_orientation a) (Device_chips a))
    (os_optional W 5 Orientation_get_cached_size (Orientation_write_to_with_cached_sizes W) (snd (optional_size W (Orientation_compute_size W) (Device_orientation m))))
    (?s (join_scalar [] (Device_device_serial a) (Device_device_serial m)) (join_scalar [] (Device_name a) (Device_name m)) (join_scalar False (Device_visible a) (Device_visible m)) (join_optional W (Position_new W) (Position_join W) (Device_position a) (Device_position m)) (join_optional W (Orientation_new W) (Orientation_join W) (Device_orientation a) (Device_orientation m)) (Device_chips a))"
    by (rule Orientation.consumes_optional [where upd = "\<lambda>v. ?s (join_scalar [] (Device_device_serial a) (Device_device_serial m)) (join_scalar [] (Device_name a) (Device_name m)) (join_scalar False (Device_visible a) (Device_visible m)) (join_optional W (Position_new W) (Position_join W) (Device_position a) (Device_position m)) v (Device_chips a)"])
      (use wf length_first [OF l5] in \<open>simp_all add: Device_merge_step_def expect_wire_def small_field_def Device_wf_def Orientation_merge_from_def\<close>)
  have 6: "consumes (Device_merge_step W) (?s (join_scalar [] (Device_device_serial a) (Device_device_serial m)) (join_scalar [] (Device_name a) (Device_name m)) (join_scalar False (Device_visible a) (Device_visible m)) (join_optional W (Position_new W) (Position_join W) (Device_position a) (Device_position m)) (join_optional W (Orientation_new W) (Orientation_join W) (Device_orientation a) (Device_orientation m)) (Device_chips a))
    (os_repeated W 6 Chip_get_cached_size (Chip_write_to_with_cached_sizes W) (snd (repeated_size W (Chip_compute_size W) (Device_chips m))))
    (?s (join_scalar [] (Device_device_serial a) (Device_device_serial m)) (join_scalar [] (Device_name a) (Device_name m)) (join_scalar False (Device_visible a) (Device_visible m)) (join_optional W (Position_new W) (Position_join W) (Device_position a) (Device_position m)) (join_optional W (Orientation_new W) (Orientation_join W) (Device_orientation a) (Device_orientation m)) (Device_chips a @ map Chip_canon (Device_chips m)))"
    by (rule Chip.consumes_repeated [where upd = "\<lambda>v. ?s (join_scalar [] (Device_device_serial a) (Device_device_serial m)) (join_scalar [] (Device_name a) (Device_name m)) (join_scalar False (Device_visible a) (Device_visible m)) (join_optional W (Position_new W) (Position_join W) (Device_position a) (Device_position m)) (join_optional W (Orientation_new W) (Orientation_join W) (Device_orientation a) (Device_orientation m)) v"])
      (use wf l6 in \<open>simp_all add: Device_merge_step_def expect_wire_def small_field_def Device_wf_def Chip_merge_from_def\<close>)
  note all = consumes_append [OF 1 consumes_append [OF 2 consumes_append [OF 3 consumes_append [OF 4 consumes_append [OF 5 6]]]]]
  have start: "?s (Device_device_serial a) (Device_name a) (Device_visible a) (Device_position a) (Device_orientation a) (Device_chips a) = a"
    by (cases a) simp
  have joined: "?s (join_scalar [] (Device_device_serial a) (Device_device_serial m)) (join_scalar [] (Device_name a) (Device_name m)) (join_scalar False (Device_visible a) (Device_visible m)) (join_optional W (Position_new W) (Position_join W) (Device_position a) (Device_position m)) (join_optional W (Orientation_new W) (Orientation_join W) (Device_orientation a) (Device_orientation m)) (Device_chips a @ map Chip_canon (Device_chips m)) = Device_join W a m"
    by (cases a) (simp add: Device_join_def)
  show ?thesis
    unfolding w by (rule all [unfolded start joined])
qed

end

sublocale protobuf_runtime < Device: pb_message W "Device_new W" Device_is_initialized "Device_compute_size W"
    "Device_write_to_with_cached_sizes W" Device_get_cached_size "Device_merge_from W" "Device_wf W" Device_canon "Device_join W"
proof unfold_locales
  show "fst (Device_compute_size W m) = of_nat (length (Device_write_to_with_cached_sizes W (snd (Device_compute_size W m))))" for m
    by (rule Device_size_exact)
  show "Device_get_cached_size (snd (Device_compute_size W m)) = fst (Device_compute_size W m)" for m
    by (simp add: Device_get_cached_size_def Device_sized)
  show "Device_is_initialized m" for m :: "'u Device"
    by (simp add: Device_is_initialized_def list_all_iff Chip.all_initialized Orientation.all_initialized Position.all_initialized split: option.splits)
  show "Device_merge_from W a (Device_write_to_with_cached_sizes W (snd (Device_compute_size W m)) @ r) = Device_merge_from W (Device_join W a m) r"
    if "Device_wf W m" "length (Device_write_to_with_cached_sizes W (snd (Device_compute_size W m))) < 2 ^ 32" for a m r
    using Device_joins [OF that] by (simp add: consumes_def Device_merge_from_def)
  show "Device_join W (Device_new W) m = Device_canon m" if "Device_wf W m" for m
    using that by (cases m) (simp add: Device_join_def Device_new_def Device_canon_def Device_wf_def Orientation.join_optional_None Position.join_optional_None)
  show "Device_merge_from W m [] = Inr m" for m
    by (simp add: Device_merge_from_def)
  show "Device_merge_from W m is \<noteq> Inl NoProgress" for m "is"
    unfolding Device_merge_from_def by (rule merge_loop_progress) (rule Device_takes)
qed

section \<open>\<^verbatim>\<open>Scene\<close>\<close>

record 'u Scene = "'u pb_special" +
  Scene_devices :: "'u Device list"

definition Scene_new :: "'u protobuf_rt \<Rightarrow> 'u Scene" where
  "Scene_new W =
     \<lparr>unknown_fields = uf_new W, cached_size = 0,
      Scene_devices = []\<rparr>"

definition Scene_get_devices :: "'u Scene \<Rightarrow> 'u Device list" where
  "Scene_get_devices m = Scene_devices m"
definition Scene_clear_devices :: "'u Scene \<Rightarrow> 'u Scene" where
  "Scene_clear_devices m = m\<lparr>Scene_devices := []\<rparr>"
definition Scene_set_devices :: "'u Device list \<Rightarrow> 'u Scene \<Rightarrow> 'u Scene" where
  "Scene_set_devices v m = m\<lparr>Scene_devices := v\<rparr>"
definition Scene_mut_devices :: "('u Device list \<Rightarrow> 'u Device list) \<Rightarrow> 'u Scene \<Rightarrow> 'u Scene" where
  "Scene_mut_devices g m = m\<lparr>Scene_devices := g (Scene_devices m)\<rparr>"
definition Scene_take_devices :: "'u Scene \<Rightarrow> 'u Device list \<times> 'u Scene" where
  "Scene_take_devices m = (Scene_devices m, m\<lparr>Scene_devices := []\<rparr>)"

definition Scene_is_initialized :: "'u Scene \<Rightarrow> bool" where
  "Scene_is_initialized m =
     (list_all Device_is_initialized (Scene_devices m))"

definition Scene_merge_step :: "'u protobuf_rt \<Rightarrow> 'u Scene \<Rightarrow> bytes \<Rightarrow> 'u Scene reads" where
  "Scene_merge_step W m is =
     bindE (rt_tag W is) (\<lambda>((field_number, wire_type), is).
       if field_number = 1 then
         bindE (read_repeated_message_into W (Device_new W) (Device_merge_from W) wire_type is (Scene_devices m))
          (\<lambda>(v, is). Ok (m\<lparr>Scene_devices := v\<rparr>, is))
       else bindE (rt_unknown W field_number wire_type is (unknown_fields m))
         (\<lambda>(u, is). Ok (m\<lparr>unknown_fields := u\<rparr>, is)))"

definition Scene_merge_from :: "'u protobuf_rt \<Rightarrow> 'u Scene \<Rightarrow> bytes \<Rightarrow> pb_error + 'u Scene" where
  "Scene_merge_from W = merge_loop (Scene_merge_step W)"

definition Scene_compute_size :: "'u protobuf_rt \<Rightarrow> 'u Scene \<Rightarrow> u32 \<times> 'u Scene" where
  "Scene_compute_size W m =
     (let my_size = 0;
          (n, devices) = repeated_size W (Device_compute_size W) (Scene_devices m); my_size = my_size + n;
          my_size = my_size + uf_size W (unknown_fields m)
      in (my_size, m\<lparr>Scene_devices := devices, cached_size := my_size\<rparr>))"

definition Scene_write_to_with_cached_sizes :: "'u protobuf_rt \<Rightarrow> 'u Scene \<Rightarrow> bytes" where
  "Scene_write_to_with_cached_sizes W m =
     os_repeated W 1 Device_get_cached_size (Device_write_to_with_cached_sizes W) (Scene_devices m) @
     os_unknown W (unknown_fields m)"

definition Scene_get_cached_size :: "'u Scene \<Rightarrow> u32" where
  "Scene_get_cached_size m = cached_size m"

definition Scene_clear :: "'u protobuf_rt \<Rightarrow> 'u Scene \<Rightarrow> 'u Scene" where
  "Scene_clear W m = m\<lparr>Scene_devices := [], unknown_fields := uf_new W\<rparr>"

text \<open>Values Rust can hold, without unknown fields, and what a reader gets back.\<close>

definition Scene_wf :: "'u protobuf_rt \<Rightarrow> 'u Scene \<Rightarrow> bool" where
  "Scene_wf W m \<longleftrightarrow>
     unknown_fields m = uf_new W \<and>
     list_all (Device_wf W) (Scene_devices m)"

definition Scene_canon :: "'u Scene \<Rightarrow> 'u Scene" where
  "Scene_canon m = m\<lparr>cached_size := 0, Scene_devices := map Device_canon (Scene_devices m)\<rparr>"

text \<open>The message after an encoding of \<open>m\<close> has been read into it.\<close>

definition Scene_join :: "'u protobuf_rt \<Rightarrow> 'u Scene \<Rightarrow> 'u Scene \<Rightarrow> 'u Scene" where
  "Scene_join W a m = a\<lparr>Scene_devices := Scene_devices a @ map Device_canon (Scene_devices m)\<rparr>"

context protobuf_runtime
begin

lemma Scene_sized:
  "snd (Scene_compute_size W m) =
     m\<lparr>Scene_devices := snd (repeated_size W (Device_compute_size W) (Scene_devices m)), cached_size := fst (Scene_compute_size W m)\<rparr>"
  by (simp add: Scene_compute_size_def Let_def case_prod_beta)

lemma Scene_size_exact:
  "fst (Scene_compute_size W m) = of_nat (length (Scene_write_to_with_cached_sizes W (snd (Scene_compute_size W m))))"
  by (simp add: Scene_compute_size_def Scene_sized Scene_write_to_with_cached_sizes_def Let_def case_prod_beta size_chain size_laws
      small_field_def Device.repeated_size_exact [symmetric])

lemma Scene_takes: "takes 1 is (Scene_merge_step W m is)"
  unfolding Scene_merge_step_def
  by (rule takes_bind, rule takes_laws) (auto intro!: takes_bind takes_expect takes_laws Device.takes_repeated_message split: prod.splits)

lemma Scene_joins:
  assumes wf: "Scene_wf W m" and len: "length (Scene_write_to_with_cached_sizes W (snd (Scene_compute_size W m))) < 2 ^ 32"
  shows "consumes (Scene_merge_step W) a (Scene_write_to_with_cached_sizes W (snd (Scene_compute_size W m))) (Scene_join W a m)"
proof -
  let ?s = "\<lambda>v1. \<lparr>unknown_fields = unknown_fields a, cached_size = cached_size a, Scene_devices = v1\<rparr>"
  have w: "Scene_write_to_with_cached_sizes W (snd (Scene_compute_size W m)) =
    os_repeated W 1 Device_get_cached_size (Device_write_to_with_cached_sizes W) (snd (repeated_size W (Device_compute_size W) (Scene_devices m)))"
    using wf by (simp add: Scene_sized Scene_write_to_with_cached_sizes_def Scene_wf_def unknown_none)
  note l1 = len [unfolded w]
  have 1: "consumes (Scene_merge_step W) (?s (Scene_devices a))
    (os_repeated W 1 Device_get_cached_size (Device_write_to_with_cached_sizes W) (snd (repeated_size W (Device_compute_size W) (Scene_devices m))))
    (?s (Scene_devices a @ map Device_canon (Scene_devices m)))"
    by (rule Device.consumes_repeated [where upd = "\<lambda>v. ?s v"])
      (use wf l1 in \<open>simp_all add: Scene_merge_step_def expect_wire_def small_field_def Scene_wf_def Device_merge_from_def\<close>)
  note all = 1
  have start: "?s (Scene_devices a) = a"
    by (cases a) simp
  have joined: "?s (Scene_devices a @ map Device_canon (Scene_devices m)) = Scene_join W a m"
    by (cases a) (simp add: Scene_join_def)
  show ?thesis
    unfolding w by (rule all [unfolded start joined])
qed

end

sublocale protobuf_runtime < Scene: pb_message W "Scene_new W" Scene_is_initialized "Scene_compute_size W"
    "Scene_write_to_with_cached_sizes W" Scene_get_cached_size "Scene_merge_from W" "Scene_wf W" Scene_canon "Scene_join W"
proof unfold_locales
  show "fst (Scene_compute_size W m) = of_nat (length (Scene_write_to_with_cached_sizes W (snd (Scene_compute_size W m))))" for m
    by (rule Scene_size_exact)
  show "Scene_get_cached_size (snd (Scene_compute_size W m)) = fst (Scene_compute_size W m)" for m
    by (simp add: Scene_get_cached_size_def Scene_sized)
  show "Scene_is_initialized m" for m :: "'u Scene"
    by (simp add: Scene_is_initialized_def list_all_iff Device.all_initialized split: option.splits)
  show "Scene_merge_from W a (Scene_write_to_with_cached_sizes W (snd (Scene_compute_size W m)) @ r) = Scene_merge_from W (Scene_join W a m) r"
    if "Scene_wf W m" "length (Scene_write_to_with_cached_sizes W (snd (Scene_compute_size W m))) < 2 ^ 32" for a m r
    using Scene_joins [OF that] by (simp add: consumes_def Scene_merge_from_def)
  show "Scene_join W (Scene_new W) m = Scene_canon m" if "Scene_wf W m" for m
    using that by (cases m) (simp add: Scene_join_def Scene_new_def Scene_canon_def Scene_wf_def)
  show "Scene_merge_from W m [] = Inr m" for m
    by (simp add: Scene_merge_from_def)
  show "Scene_merge_from W m is \<noteq> Inl NoProgress" for m "is"
    unfolding Scene_merge_from_def by (rule merge_loop_progress) (rule Scene_takes)
qed

end
