(* ===== verification/Pb_Frontend.thy ===== *)
theory Pb_Frontend
  imports Pb_Model
begin

text \<open>
  The messages of \<^verbatim>\<open>rust/frontend-proto/src/frontend.rs\<close>: the requests and responses of the frontend
  service. The layout is that of \<open>Pb_Model\<close>.
\<close>

section \<open>\<^verbatim>\<open>VersionResponse\<close>\<close>

record 'u VersionResponse = "'u pb_special" +
  VersionResponse_version :: string

definition VersionResponse_new :: "'u protobuf_rt \<Rightarrow> 'u VersionResponse" where
  "VersionResponse_new W =
     \<lparr>unknown_fields = uf_new W, cached_size = 0,
      VersionResponse_version = []\<rparr>"

definition VersionResponse_get_version :: "'u VersionResponse \<Rightarrow> string" where
  "VersionResponse_get_version m = VersionResponse_version m"
definition VersionResponse_clear_version :: "'u VersionResponse \<Rightarrow> 'u VersionResponse" where
  "VersionResponse_clear_version m = m\<lparr>VersionResponse_version := []\<rparr>"
definition VersionResponse_set_version :: "string \<Rightarrow> 'u VersionResponse \<Rightarrow> 'u VersionResponse" where
  "VersionResponse_set_version v m = m\<lparr>VersionResponse_version := v\<rparr>"
definition VersionResponse_mut_version :: "(string \<Rightarrow> string) \<Rightarrow> 'u VersionResponse \<Rightarrow> 'u VersionResponse" where
  "VersionResponse_mut_version g m = m\<lparr>VersionResponse_version := g (VersionResponse_version m)\<rparr>"
definition VersionResponse_take_version :: "'u VersionResponse \<Rightarrow> string \<times> 'u VersionResponse" where
  "VersionResponse_take_version m = (VersionResponse_version m, m\<lparr>VersionResponse_version := []\<rparr>)"

definition VersionResponse_is_initialized :: "'u VersionResponse \<Rightarrow> bool" where
  "VersionResponse_is_initialized m = True"

definition VersionResponse_merge_step :: "'u protobuf_rt \<Rightarrow> 'u VersionResponse \<Rightarrow> bytes \<Rightarrow> 'u VersionResponse reads" where
  "VersionResponse_merge_step W m is =
     bindE (rt_tag W is) (\<lambda>((field_number, wire_type), is).
       if field_number = 1 then
         bindE (rt_string_into W wire_type is) (\<lambda>(s, is). Ok (m\<lparr>VersionResponse_version := s\<rparr>, is))
       else bindE (rt_unknown W field_number wire_type is (unknown_fields m))
         (\<lambda>(u, is). Ok (m\<lparr>unknown_fields := u\<rparr>, is)))"

definition VersionResponse_merge_from :: "'u protobuf_rt \<Rightarrow> 'u VersionResponse \<Rightarrow> bytes \<Rightarrow> pb_error + 'u VersionResponse" where
  "VersionResponse_merge_from W = merge_loop (VersionResponse_merge_step W)"

definition VersionResponse_compute_size :: "'u protobuf_rt \<Rightarrow> 'u VersionResponse \<Rightarrow> u32 \<times> 'u VersionResponse" where
  "VersionResponse_compute_size W m =
     (let my_size = 0;
          my_size = (if VersionResponse_version m \<noteq> [] then my_size + sz_string W 1 (VersionResponse_version m) else my_size);
          my_size = my_size + uf_size W (unknown_fields m)
      in (my_size, m\<lparr>cached_size := my_size\<rparr>))"

definition VersionResponse_write_to_with_cached_sizes :: "'u protobuf_rt \<Rightarrow> 'u VersionResponse \<Rightarrow> bytes" where
  "VersionResponse_write_to_with_cached_sizes W m =
     (if VersionResponse_version m \<noteq> [] then os_string W 1 (VersionResponse_version m) else []) @
     os_unknown W (unknown_fields m)"

definition VersionResponse_get_cached_size :: "'u VersionResponse \<Rightarrow> u32" where
  "VersionResponse_get_cached_size m = cached_size m"

definition VersionResponse_clear :: "'u protobuf_rt \<Rightarrow> 'u VersionResponse \<Rightarrow> 'u VersionResponse" where
  "VersionResponse_clear W m = m\<lparr>VersionResponse_version := [], unknown_fields := uf_new W\<rparr>"

text \<open>Values Rust can hold, without unknown fields, and what a reader gets back.\<close>

definition VersionResponse_wf :: "'u protobuf_rt \<Rightarrow> 'u VersionResponse \<Rightarrow> bool" where
  "VersionResponse_wf W m \<longleftrightarrow>
     unknown_fields m = uf_new W \<and>
     utf8 (VersionResponse_version m)"

definition VersionResponse_canon :: "'u VersionResponse \<Rightarrow> 'u VersionResponse" where
  "VersionResponse_canon m = m\<lparr>cached_size := 0\<rparr>"

text \<open>The message after an encoding of \<open>m\<close> has been read into it.\<close>

definition VersionResponse_join :: "'u protobuf_rt \<Rightarrow> 'u VersionResponse \<Rightarrow> 'u VersionResponse \<Rightarrow> 'u VersionResponse" where
  "VersionResponse_join W a m = a\<lparr>VersionResponse_version := join_scalar [] (VersionResponse_version a) (VersionResponse_version m)\<rparr>"

context protobuf_runtime
begin

lemma VersionResponse_sized:
  "snd (VersionResponse_compute_size W m) =
     m\<lparr>cached_size := fst (VersionResponse_compute_size W m)\<rparr>"
  by (simp add: VersionResponse_compute_size_def Let_def case_prod_beta)

lemma VersionResponse_size_exact:
  "fst (VersionResponse_compute_size W m) = of_nat (length (VersionResponse_write_to_with_cached_sizes W (snd (VersionResponse_compute_size W m))))"
  by (simp add: VersionResponse_compute_size_def VersionResponse_sized VersionResponse_write_to_with_cached_sizes_def Let_def case_prod_beta size_chain size_laws
      small_field_def)

lemma VersionResponse_takes: "takes 1 is (VersionResponse_merge_step W m is)"
  unfolding VersionResponse_merge_step_def
  by (rule takes_bind, rule takes_laws) (auto intro!: takes_bind takes_expect takes_laws split: prod.splits)

lemma VersionResponse_joins:
  assumes wf: "VersionResponse_wf W m" and len: "length (VersionResponse_write_to_with_cached_sizes W (snd (VersionResponse_compute_size W m))) < 2 ^ 32"
  shows "consumes (VersionResponse_merge_step W) a (VersionResponse_write_to_with_cached_sizes W (snd (VersionResponse_compute_size W m))) (VersionResponse_join W a m)"
proof -
  let ?s = "\<lambda>v1. \<lparr>unknown_fields = unknown_fields a, cached_size = cached_size a, VersionResponse_version = v1\<rparr>"
  have w: "VersionResponse_write_to_with_cached_sizes W (snd (VersionResponse_compute_size W m)) =
    (if VersionResponse_version m \<noteq> [] then os_string W 1 (VersionResponse_version m) else [])"
    using wf by (simp add: VersionResponse_sized VersionResponse_write_to_with_cached_sizes_def VersionResponse_wf_def unknown_none)
  note l1 = len [unfolded w]
  have 1: "consumes (VersionResponse_merge_step W) (?s (VersionResponse_version a))
    ((if VersionResponse_version m \<noteq> [] then os_string W 1 (VersionResponse_version m) else []))
    (?s (join_scalar [] (VersionResponse_version a) (VersionResponse_version m)))"
    by (rule consumes_string [where upd = "\<lambda>v. ?s v"])
      (use wf l1 in \<open>simp_all add: VersionResponse_merge_step_def expect_wire_def small_field_def VersionResponse_wf_def\<close>)
  note all = 1
  have start: "?s (VersionResponse_version a) = a"
    by (cases a) simp
  have joined: "?s (join_scalar [] (VersionResponse_version a) (VersionResponse_version m)) = VersionResponse_join W a m"
    by (cases a) (simp add: VersionResponse_join_def)
  show ?thesis
    unfolding w by (rule all [unfolded start joined])
qed

end

sublocale protobuf_runtime < VersionResponse: pb_message W "VersionResponse_new W" VersionResponse_is_initialized "VersionResponse_compute_size W"
    "VersionResponse_write_to_with_cached_sizes W" VersionResponse_get_cached_size "VersionResponse_merge_from W" "VersionResponse_wf W" VersionResponse_canon "VersionResponse_join W"
proof unfold_locales
  show "fst (VersionResponse_compute_size W m) = of_nat (length (VersionResponse_write_to_with_cached_sizes W (snd (VersionResponse_compute_size W m))))" for m
    by (rule VersionResponse_size_exact)
  show "VersionResponse_get_cached_size (snd (VersionResponse_compute_size W m)) = fst (VersionResponse_compute_size W m)" for m
    by (simp add: VersionResponse_get_cached_size_def VersionResponse_sized)
  show "VersionResponse_is_initialized m" for m :: "'u VersionResponse"
    by (simp add: VersionResponse_is_initialized_def list_all_iff)
  show "VersionResponse_merge_from W a (VersionResponse_write_to_with_cached_sizes W (snd (VersionResponse_compute_size W m)) @ r) = VersionResponse_merge_from W (VersionResponse_join W a m) r"
    if "VersionResponse_wf W m" "length (VersionResponse_write_to_with_cached_sizes W (snd (VersionResponse_compute_size W m))) < 2 ^ 32" for a m r
    using VersionResponse_joins [OF that] by (simp add: consumes_def VersionResponse_merge_from_def)
  show "VersionResponse_join W (VersionResponse_new W) m = VersionResponse_canon m" if "VersionResponse_wf W m" for m
    using that by (cases m) (simp add: VersionResponse_join_def VersionResponse_new_def VersionResponse_canon_def VersionResponse_wf_def)
  show "VersionResponse_merge_from W m [] = Inr m" for m
    by (simp add: VersionResponse_merge_from_def)
  show "VersionResponse_merge_from W m is \<noteq> Inl NoProgress" for m "is"
    unfolding VersionResponse_merge_from_def by (rule merge_loop_progress) (rule VersionResponse_takes)
qed

section \<open>\<^verbatim>\<open>SetLinkLossRequest\<close>\<close>

record 'u SetLinkLossRequest = "'u pb_special" +
  SetLinkLossRequest_device_serial :: string
  SetLinkLossRequest_other_device :: string
  SetLinkLossRequest_radio :: PhyKind
  SetLinkLossRequest_link_loss :: f32

definition SetLinkLossRequest_new :: "'u protobuf_rt \<Rightarrow> 'u SetLinkLossRequest" where
  "SetLinkLossRequest_new W =
     \<lparr>unknown_fields = uf_new W, cached_size = 0,
      SetLinkLossRequest_device_serial = [], SetLinkLossRequest_other_device = [], SetLinkLossRequest_radio = PhyKind_NONE, SetLinkLossRequest_link_loss = 0\<rparr>"

definition SetLinkLossRequest_get_device_serial :: "'u SetLinkLossRequest \<Rightarrow> string" where
  "SetLinkLossRequest_get_device_serial m = SetLinkLossRequest_device_serial m"
definition SetLinkLossRequest_clear_device_serial :: "'u SetLinkLossRequest \<Rightarrow> 'u SetLinkLossRequest" where
  "SetLinkLossRequest_clear_device_serial m = m\<lparr>SetLinkLossRequest_device_serial := []\<rparr>"
definition SetLinkLossRequest_set_device_serial :: "string \<Rightarrow> 'u SetLinkLossRequest \<Rightarrow> 'u SetLinkLossRequest" where
  "SetLinkLossRequest_set_device_serial v m = m\<lparr>SetLinkLossRequest_device_serial := v\<rparr>"
definition SetLinkLossRequest_mut_device_serial :: "(string \<Rightarrow> string) \<Rightarrow> 'u SetLinkLossRequest \<Rightarrow> 'u SetLinkLossRequest" where
  "SetLinkLossRequest_mut_device_serial g m = m\<lparr>SetLinkLossRequest_device_serial := g (SetLinkLossRequest_device_serial m)\<rparr>"
definition SetLinkLossRequest_take_device_serial :: "'u SetLinkLossRequest \<Rightarrow> string \<times> 'u SetLinkLossRequest" where
  "SetLinkLossRequest_take_device_serial m = (SetLinkLossRequest_device_serial m, m\<lparr>SetLinkLossRequest_device_serial := []\<rparr>)"
definition SetLinkLossRequest_get_other_device :: "'u SetLinkLossRequest \<Rightarrow> string" where
  "SetLinkLossRequest_get_other_device m = SetLinkLossRequest_other_device m"
definition SetLinkLossRequest_clear_other_device :: "'u SetLinkLossRequest \<Rightarrow> 'u SetLinkLossRequest" where
  "SetLinkLossRequest_clear_other_device m = m\<lparr>SetLinkLossRequest_other_device := []\<rparr>"
definition SetLinkLossRequest_set_other_device :: "string \<Rightarrow> 'u SetLinkLossRequest \<Rightarrow> 'u SetLinkLossRequest" where
  "SetLinkLossRequest_set_other_device v m = m\<lparr>SetLinkLossRequest_other_device := v\<rparr>"
definition SetLinkLossRequest_mut_other_device :: "(string \<Rightarrow> string) \<Rightarrow> 'u SetLinkLossRequest \<Rightarrow> 'u SetLinkLossRequest" where
  "SetLinkLossRequest_mut_other_device g m = m\<lparr>SetLinkLossRequest_other_device := g (SetLinkLossRequest_other_device m)\<rparr>"
definition SetLinkLossRequest_take_other_device :: "'u SetLinkLossRequest \<Rightarrow> string \<times> 'u SetLinkLossRequest" where
  "SetLinkLossRequest_take_other_device m = (SetLinkLossRequest_other_device m, m\<lparr>SetLinkLossRequest_other_device := []\<rparr>)"
definition SetLinkLossRequest_get_radio :: "'u SetLinkLossRequest \<Rightarrow> PhyKind" where
  "SetLinkLossRequest_get_radio m = SetLinkLossRequest_radio m"
definition SetLinkLossRequest_clear_radio :: "'u SetLinkLossRequest \<Rightarrow> 'u SetLinkLossRequest" where
  "SetLinkLossRequest_clear_radio m = m\<lparr>SetLinkLossRequest_radio := PhyKind_NONE\<rparr>"
definition SetLinkLossRequest_set_radio :: "PhyKind \<Rightarrow> 'u SetLinkLossRequest \<Rightarrow> 'u SetLinkLossRequest" where
  "SetLinkLossRequest_set_radio v m = m\<lparr>SetLinkLossRequest_radio := v\<rparr>"
definition SetLinkLossRequest_get_link_loss :: "'u SetLinkLossRequest \<Rightarrow> f32" where
  "SetLinkLossRequest_get_link_loss m = SetLinkLossRequest_link_loss m"
definition SetLinkLossRequest_clear_link_loss :: "'u SetLinkLossRequest \<Rightarrow> 'u SetLinkLossRequest" where
  "SetLinkLossRequest_clear_link_loss m = m\<lparr>SetLinkLossRequest_link_loss := 0\<rparr>"
definition SetLinkLossRequest_set_link_loss :: "f32 \<Rightarrow> 'u SetLinkLossRequest \<Rightarrow> 'u SetLinkLossRequest" where
  "SetLinkLossRequest_set_link_loss v m = m\<lparr>SetLinkLossRequest_link_loss := v\<rparr>"

definition SetLinkLossRequest_is_initialized :: "'u SetLinkLossRequest \<Rightarrow> bool" where
  "SetLinkLossRequest_is_initialized m = True"

definition SetLinkLossRequest_merge_step :: "'u protobuf_rt \<Rightarrow> 'u SetLinkLossRequest \<Rightarrow> bytes \<Rightarrow> 'u SetLinkLossRequest reads" where
  "SetLinkLossRequest_merge_step W m is =
     bindE (rt_tag W is) (\<lambda>((field_number, wire_type), is).
       if field_number = 1 then
         bindE (rt_string_into W wire_type is) (\<lambda>(s, is). Ok (m\<lparr>SetLinkLossRequest_device_serial := s\<rparr>, is))
       else if field_number = 2 then
         bindE (rt_string_into W wire_type is) (\<lambda>(s, is). Ok (m\<lparr>SetLinkLossRequest_other_device := s\<rparr>, is))
       else if field_number = 3 then
         bindE (read_enum_into W PhyKind_from_i32 wire_type is (SetLinkLossRequest_radio m) 3 (unknown_fields m))
          (\<lambda>((v, u), is). Ok (m\<lparr>SetLinkLossRequest_radio := v, unknown_fields := u\<rparr>, is))
       else if field_number = 4 then
         expect_wire WireTypeFixed32 wire_type
          (bindE (rt_float W is) (\<lambda>(tmp, is). Ok (m\<lparr>SetLinkLossRequest_link_loss := tmp\<rparr>, is)))
       else bindE (rt_unknown W field_number wire_type is (unknown_fields m))
         (\<lambda>(u, is). Ok (m\<lparr>unknown_fields := u\<rparr>, is)))"

definition SetLinkLossRequest_merge_from :: "'u protobuf_rt \<Rightarrow> 'u SetLinkLossRequest \<Rightarrow> bytes \<Rightarrow> pb_error + 'u SetLinkLossRequest" where
  "SetLinkLossRequest_merge_from W = merge_loop (SetLinkLossRequest_merge_step W)"

definition SetLinkLossRequest_compute_size :: "'u protobuf_rt \<Rightarrow> 'u SetLinkLossRequest \<Rightarrow> u32 \<times> 'u SetLinkLossRequest" where
  "SetLinkLossRequest_compute_size W m =
     (let my_size = 0;
          my_size = (if SetLinkLossRequest_device_serial m \<noteq> [] then my_size + sz_string W 1 (SetLinkLossRequest_device_serial m) else my_size);
          my_size = (if SetLinkLossRequest_other_device m \<noteq> [] then my_size + sz_string W 2 (SetLinkLossRequest_other_device m) else my_size);
          my_size = (if SetLinkLossRequest_radio m \<noteq> PhyKind_NONE then my_size + sz_enum W 3 (PhyKind_value (SetLinkLossRequest_radio m)) else my_size);
          my_size = (if \<not> f32_is_zero (SetLinkLossRequest_link_loss m) then my_size + 5 else my_size);
          my_size = my_size + uf_size W (unknown_fields m)
      in (my_size, m\<lparr>cached_size := my_size\<rparr>))"

definition SetLinkLossRequest_write_to_with_cached_sizes :: "'u protobuf_rt \<Rightarrow> 'u SetLinkLossRequest \<Rightarrow> bytes" where
  "SetLinkLossRequest_write_to_with_cached_sizes W m =
     (if SetLinkLossRequest_device_serial m \<noteq> [] then os_string W 1 (SetLinkLossRequest_device_serial m) else []) @
     (if SetLinkLossRequest_other_device m \<noteq> [] then os_string W 2 (SetLinkLossRequest_other_device m) else []) @
     (if SetLinkLossRequest_radio m \<noteq> PhyKind_NONE then os_enum W 3 (PhyKind_value (SetLinkLossRequest_radio m)) else []) @
     (if \<not> f32_is_zero (SetLinkLossRequest_link_loss m) then os_float W 4 (SetLinkLossRequest_link_loss m) else []) @
     os_unknown W (unknown_fields m)"

definition SetLinkLossRequest_get_cached_size :: "'u SetLinkLossRequest \<Rightarrow> u32" where
  "SetLinkLossRequest_get_cached_size m = cached_size m"

definition SetLinkLossRequest_clear :: "'u protobuf_rt \<Rightarrow> 'u SetLinkLossRequest \<Rightarrow> 'u SetLinkLossRequest" where
  "SetLinkLossRequest_clear W m = m\<lparr>SetLinkLossRequest_device_serial := [], SetLinkLossRequest_other_device := [], SetLinkLossRequest_radio := PhyKind_NONE, SetLinkLossRequest_link_loss := 0, unknown_fields := uf_new W\<rparr>"

text \<open>Values Rust can hold, without unknown fields, and what a reader gets back.\<close>

definition SetLinkLossRequest_wf :: "'u protobuf_rt \<Rightarrow> 'u SetLinkLossRequest \<Rightarrow> bool" where
  "SetLinkLossRequest_wf W m \<longleftrightarrow>
     unknown_fields m = uf_new W \<and>
     utf8 (SetLinkLossRequest_device_serial m) \<and>
     utf8 (SetLinkLossRequest_other_device m)"

definition SetLinkLossRequest_canon :: "'u SetLinkLossRequest \<Rightarrow> 'u SetLinkLossRequest" where
  "SetLinkLossRequest_canon m = m\<lparr>cached_size := 0, SetLinkLossRequest_link_loss := canon_f32 (SetLinkLossRequest_link_loss m)\<rparr>"

text \<open>The message after an encoding of \<open>m\<close> has been read into it.\<close>

definition SetLinkLossRequest_join :: "'u protobuf_rt \<Rightarrow> 'u SetLinkLossRequest \<Rightarrow> 'u SetLinkLossRequest \<Rightarrow> 'u SetLinkLossRequest" where
  "SetLinkLossRequest_join W a m = a\<lparr>SetLinkLossRequest_device_serial := join_scalar [] (SetLinkLossRequest_device_serial a) (SetLinkLossRequest_device_serial m),
     SetLinkLossRequest_other_device := join_scalar [] (SetLinkLossRequest_other_device a) (SetLinkLossRequest_other_device m),
     SetLinkLossRequest_radio := join_scalar PhyKind_NONE (SetLinkLossRequest_radio a) (SetLinkLossRequest_radio m),
     SetLinkLossRequest_link_loss := join_float (SetLinkLossRequest_link_loss a) (SetLinkLossRequest_link_loss m)\<rparr>"

context protobuf_runtime
begin

lemma SetLinkLossRequest_sized:
  "snd (SetLinkLossRequest_compute_size W m) =
     m\<lparr>cached_size := fst (SetLinkLossRequest_compute_size W m)\<rparr>"
  by (simp add: SetLinkLossRequest_compute_size_def Let_def case_prod_beta)

lemma SetLinkLossRequest_size_exact:
  "fst (SetLinkLossRequest_compute_size W m) = of_nat (length (SetLinkLossRequest_write_to_with_cached_sizes W (snd (SetLinkLossRequest_compute_size W m))))"
  by (simp add: SetLinkLossRequest_compute_size_def SetLinkLossRequest_sized SetLinkLossRequest_write_to_with_cached_sizes_def Let_def case_prod_beta size_chain size_laws
      small_field_def)

lemma SetLinkLossRequest_takes: "takes 1 is (SetLinkLossRequest_merge_step W m is)"
  unfolding SetLinkLossRequest_merge_step_def
  by (rule takes_bind, rule takes_laws) (auto intro!: takes_bind takes_expect takes_laws takes_read_enum split: prod.splits)

lemma SetLinkLossRequest_joins:
  assumes wf: "SetLinkLossRequest_wf W m" and len: "length (SetLinkLossRequest_write_to_with_cached_sizes W (snd (SetLinkLossRequest_compute_size W m))) < 2 ^ 32"
  shows "consumes (SetLinkLossRequest_merge_step W) a (SetLinkLossRequest_write_to_with_cached_sizes W (snd (SetLinkLossRequest_compute_size W m))) (SetLinkLossRequest_join W a m)"
proof -
  let ?s = "\<lambda>v1 v2 v3 v4. \<lparr>unknown_fields = unknown_fields a, cached_size = cached_size a, SetLinkLossRequest_device_serial = v1, SetLinkLossRequest_other_device = v2, SetLinkLossRequest_radio = v3, SetLinkLossRequest_link_loss = v4\<rparr>"
  have w: "SetLinkLossRequest_write_to_with_cached_sizes W (snd (SetLinkLossRequest_compute_size W m)) =
    (if SetLinkLossRequest_device_serial m \<noteq> [] then os_string W 1 (SetLinkLossRequest_device_serial m) else []) @
    (if SetLinkLossRequest_other_device m \<noteq> [] then os_string W 2 (SetLinkLossRequest_other_device m) else []) @
    (if SetLinkLossRequest_radio m \<noteq> PhyKind_NONE then os_enum W 3 (PhyKind_value (SetLinkLossRequest_radio m)) else []) @
    (if \<not> f32_is_zero (SetLinkLossRequest_link_loss m) then os_float W 4 (SetLinkLossRequest_link_loss m) else [])"
    using wf by (simp add: SetLinkLossRequest_sized SetLinkLossRequest_write_to_with_cached_sizes_def SetLinkLossRequest_wf_def unknown_none)
  note l1 = len [unfolded w]
  note l2 = length_rest [OF l1]
  note l3 = length_rest [OF l2]
  note l4 = length_rest [OF l3]
  have 1: "consumes (SetLinkLossRequest_merge_step W) (?s (SetLinkLossRequest_device_serial a) (SetLinkLossRequest_other_device a) (SetLinkLossRequest_radio a) (SetLinkLossRequest_link_loss a))
    ((if SetLinkLossRequest_device_serial m \<noteq> [] then os_string W 1 (SetLinkLossRequest_device_serial m) else []))
    (?s (join_scalar [] (SetLinkLossRequest_device_serial a) (SetLinkLossRequest_device_serial m)) (SetLinkLossRequest_other_device a) (SetLinkLossRequest_radio a) (SetLinkLossRequest_link_loss a))"
    by (rule consumes_string [where upd = "\<lambda>v. ?s v (SetLinkLossRequest_other_device a) (SetLinkLossRequest_radio a) (SetLinkLossRequest_link_loss a)"])
      (use wf length_first [OF l1] in \<open>simp_all add: SetLinkLossRequest_merge_step_def expect_wire_def small_field_def SetLinkLossRequest_wf_def\<close>)
  have 2: "consumes (SetLinkLossRequest_merge_step W) (?s (join_scalar [] (SetLinkLossRequest_device_serial a) (SetLinkLossRequest_device_serial m)) (SetLinkLossRequest_other_device a) (SetLinkLossRequest_radio a) (SetLinkLossRequest_link_loss a))
    ((if SetLinkLossRequest_other_device m \<noteq> [] then os_string W 2 (SetLinkLossRequest_other_device m) else []))
    (?s (join_scalar [] (SetLinkLossRequest_device_serial a) (SetLinkLossRequest_device_serial m)) (join_scalar [] (SetLinkLossRequest_other_device a) (SetLinkLossRequest_other_device m)) (SetLinkLossRequest_radio a) (SetLinkLossRequest_link_loss a))"
    by (rule consumes_string [where upd = "\<lambda>v. ?s (join_scalar [] (SetLinkLossRequest_device_serial a) (SetLinkLossRequest_device_serial m)) v (SetLinkLossRequest_radio a) (SetLinkLossRequest_link_loss a)"])
      (use wf length_first [OF l2] in \<open>simp_all add: SetLinkLossRequest_merge_step_def expect_wire_def small_field_def SetLinkLossRequest_wf_def\<close>)
  have 3: "consumes (SetLinkLossRequest_merge_step W) (?s (join_scalar [] (SetLinkLossRequest_device_serial a) (SetLinkLossRequest_device_serial m)) (join_scalar [] (SetLinkLossRequest_other_device a) (SetLinkLossRequest_other_device m)) (SetLinkLossRequest_radio a) (SetLinkLossRequest_link_loss a))
    ((if SetLinkLossRequest_radio m \<noteq> PhyKind_NONE then os_enum W 3 (PhyKind_value (SetLinkLossRequest_radio m)) else []))
    (?s (join_scalar [] (SetLinkLossRequest_device_serial a) (SetLinkLossRequest_device_serial m)) (join_scalar [] (SetLinkLossRequest_other_device a) (SetLinkLossRequest_other_device m)) (join_scalar PhyKind_NONE (SetLinkLossRequest_radio a) (SetLinkLossRequest_radio m)) (SetLinkLossRequest_link_loss a))"
    by (rule consumes_enum [where upd = "\<lambda>v u. \<lparr>unknown_fields = u, cached_size = cached_size a, SetLinkLossRequest_device_serial = (join_scalar [] (SetLinkLossRequest_device_serial a) (SetLinkLossRequest_device_serial m)), SetLinkLossRequest_other_device = (join_scalar [] (SetLinkLossRequest_other_device a) (SetLinkLossRequest_other_device m)), SetLinkLossRequest_radio = v, SetLinkLossRequest_link_loss = (SetLinkLossRequest_link_loss a)\<rparr>" and t = "SetLinkLossRequest_radio a"
        and conv = PhyKind_from_i32 and u = "unknown_fields a"])
      (simp_all add: SetLinkLossRequest_merge_step_def expect_wire_def small_field_def)
  have 4: "consumes (SetLinkLossRequest_merge_step W) (?s (join_scalar [] (SetLinkLossRequest_device_serial a) (SetLinkLossRequest_device_serial m)) (join_scalar [] (SetLinkLossRequest_other_device a) (SetLinkLossRequest_other_device m)) (join_scalar PhyKind_NONE (SetLinkLossRequest_radio a) (SetLinkLossRequest_radio m)) (SetLinkLossRequest_link_loss a))
    ((if \<not> f32_is_zero (SetLinkLossRequest_link_loss m) then os_float W 4 (SetLinkLossRequest_link_loss m) else []))
    (?s (join_scalar [] (SetLinkLossRequest_device_serial a) (SetLinkLossRequest_device_serial m)) (join_scalar [] (SetLinkLossRequest_other_device a) (SetLinkLossRequest_other_device m)) (join_scalar PhyKind_NONE (SetLinkLossRequest_radio a) (SetLinkLossRequest_radio m)) (join_float (SetLinkLossRequest_link_loss a) (SetLinkLossRequest_link_loss m)))"
    by (rule consumes_float [where upd = "\<lambda>v. ?s (join_scalar [] (SetLinkLossRequest_device_serial a) (SetLinkLossRequest_device_serial m)) (join_scalar [] (SetLinkLossRequest_other_device a) (SetLinkLossRequest_other_device m)) (join_scalar PhyKind_NONE (SetLinkLossRequest_radio a) (SetLinkLossRequest_radio m)) v"]) (simp_all add: SetLinkLossRequest_merge_step_def expect_wire_def small_field_def)
  note all = consumes_append [OF 1 consumes_append [OF 2 consumes_append [OF 3 4]]]
  have start: "?s (SetLinkLossRequest_device_serial a) (SetLinkLossRequest_other_device a) (SetLinkLossRequest_radio a) (SetLinkLossRequest_link_loss a) = a"
    by (cases a) simp
  have joined: "?s (join_scalar [] (SetLinkLossRequest_device_serial a) (SetLinkLossRequest_device_serial m)) (join_scalar [] (SetLinkLossRequest_other_device a) (SetLinkLossRequest_other_device m)) (join_scalar PhyKind_NONE (SetLinkLossRequest_radio a) (SetLinkLossRequest_radio m)) (join_float (SetLinkLossRequest_link_loss a) (SetLinkLossRequest_link_loss m)) = SetLinkLossRequest_join W a m"
    by (cases a) (simp add: SetLinkLossRequest_join_def)
  show ?thesis
    unfolding w by (rule all [unfolded start joined])
qed

end

sublocale protobuf_runtime < SetLinkLossRequest: pb_message W "SetLinkLossRequest_new W" SetLinkLossRequest_is_initialized "SetLinkLossRequest_compute_size W"
    "SetLinkLossRequest_write_to_with_cached_sizes W" SetLinkLossRequest_get_cached_size "SetLinkLossRequest_merge_from W" "SetLinkLossRequest_wf W" SetLinkLossRequest_canon "SetLinkLossRequest_join W"
proof unfold_locales
  show "fst (SetLinkLossRequest_compute_size W m) = of_nat (length (SetLinkLossRequest_write_to_with_cached_sizes W (snd (SetLinkLossRequest_compute_size W m))))" for m
    by (rule SetLinkLossRequest_size_exact)
  show "SetLinkLossRequest_get_cached_size (snd (SetLinkLossRequest_compute_size W m)) = fst (SetLinkLossRequest_compute_size W m)" for m
    by (simp add: SetLinkLossRequest_get_cached_size_def SetLinkLossRequest_sized)
  show "SetLinkLossRequest_is_initialized m" for m :: "'u SetLinkLossRequest"
    by (simp add: SetLinkLossRequest_is_initialized_def list_all_iff)
  show "SetLinkLossRequest_merge_from W a (SetLinkLossRequest_write_to_with_cached_sizes W (snd (SetLinkLossRequest_compute_size W m)) @ r) = SetLinkLossRequest_merge_from W (SetLinkLossRequest_join W a m) r"
    if "SetLinkLossRequest_wf W m" "length (SetLinkLossRequest_write_to_with_cached_sizes W (snd (SetLinkLossRequest_compute_size W m))) < 2 ^ 32" for a m r
    using SetLinkLossRequest_joins [OF that] by (simp add: consumes_def SetLinkLossRequest_merge_from_def)
  show "SetLinkLossRequest_join W (SetLinkLossRequest_new W) m = SetLinkLossRequest_canon m" if "SetLinkLossRequest_wf W m" for m
    using that by (cases m) (simp add: SetLinkLossRequest_join_def SetLinkLossRequest_new_def SetLinkLossRequest_canon_def SetLinkLossRequest_wf_def)
  show "SetLinkLossRequest_merge_from W m [] = Inr m" for m
    by (simp add: SetLinkLossRequest_merge_from_def)
  show "SetLinkLossRequest_merge_from W m is \<noteq> Inl NoProgress" for m "is"
    unfolding SetLinkLossRequest_merge_from_def by (rule merge_loop_progress) (rule SetLinkLossRequest_takes)
qed

section \<open>\<^verbatim>\<open>UpdateDeviceRequest\<close>\<close>

record 'u UpdateDeviceRequest = "'u pb_special" +
  UpdateDeviceRequest_device :: "'u Device option"

definition UpdateDeviceRequest_new :: "'u protobuf_rt \<Rightarrow> 'u UpdateDeviceRequest" where
  "UpdateDeviceRequest_new W =
     \<lparr>unknown_fields = uf_new W, cached_size = 0,
      UpdateDeviceRequest_device = None\<rparr>"

definition UpdateDeviceRequest_get_device :: "'u protobuf_rt \<Rightarrow> 'u UpdateDeviceRequest \<Rightarrow> 'u Device" where
  "UpdateDeviceRequest_get_device W m = (case UpdateDeviceRequest_device m of Some v \<Rightarrow> v | None \<Rightarrow> Device_new W)"
definition UpdateDeviceRequest_clear_device :: "'u UpdateDeviceRequest \<Rightarrow> 'u UpdateDeviceRequest" where
  "UpdateDeviceRequest_clear_device m = m\<lparr>UpdateDeviceRequest_device := None\<rparr>"
definition UpdateDeviceRequest_has_device :: "'u UpdateDeviceRequest \<Rightarrow> bool" where
  "UpdateDeviceRequest_has_device m = (UpdateDeviceRequest_device m \<noteq> None)"
definition UpdateDeviceRequest_set_device :: "'u Device \<Rightarrow> 'u UpdateDeviceRequest \<Rightarrow> 'u UpdateDeviceRequest" where
  "UpdateDeviceRequest_set_device v m = m\<lparr>UpdateDeviceRequest_device := Some v\<rparr>"
definition UpdateDeviceRequest_mut_device :: "'u protobuf_rt \<Rightarrow> ('u Device \<Rightarrow> 'u Device) \<Rightarrow> 'u UpdateDeviceRequest \<Rightarrow> 'u UpdateDeviceRequest result" where
  "UpdateDeviceRequest_mut_device W g m =
     (let m = (if UpdateDeviceRequest_device m = None then m\<lparr>UpdateDeviceRequest_device := Some (Device_new W)\<rparr> else m)
      in case UpdateDeviceRequest_device m of Some v \<Rightarrow> Ok (m\<lparr>UpdateDeviceRequest_device := Some (g v)\<rparr>) | None \<Rightarrow> Inl (Panic ''unwrap''))"
definition UpdateDeviceRequest_take_device :: "'u protobuf_rt \<Rightarrow> 'u UpdateDeviceRequest \<Rightarrow> ('u Device \<times> 'u UpdateDeviceRequest) result" where
  "UpdateDeviceRequest_take_device W m =
     Ok (case UpdateDeviceRequest_device m of Some v \<Rightarrow> v | None \<Rightarrow> Device_new W, m\<lparr>UpdateDeviceRequest_device := None\<rparr>)"

interpretation UpdateDeviceRequest_device: presence_field "Device_new W" UpdateDeviceRequest_has_device "UpdateDeviceRequest_get_device W" UpdateDeviceRequest_set_device
    UpdateDeviceRequest_clear_device "UpdateDeviceRequest_mut_device W" "UpdateDeviceRequest_take_device W" for W
  by unfold_locales
    (auto simp: UpdateDeviceRequest_get_device_def UpdateDeviceRequest_clear_device_def UpdateDeviceRequest_has_device_def UpdateDeviceRequest_set_device_def UpdateDeviceRequest_mut_device_def UpdateDeviceRequest_take_device_def
      split: option.splits)

definition UpdateDeviceRequest_is_initialized :: "'u UpdateDeviceRequest \<Rightarrow> bool" where
  "UpdateDeviceRequest_is_initialized m =
     ((case UpdateDeviceRequest_device m of Some v \<Rightarrow> Device_is_initialized v | None \<Rightarrow> True))"

definition UpdateDeviceRequest_merge_step :: "'u protobuf_rt \<Rightarrow> 'u UpdateDeviceRequest \<Rightarrow> bytes \<Rightarrow> 'u UpdateDeviceRequest reads" where
  "UpdateDeviceRequest_merge_step W m is =
     bindE (rt_tag W is) (\<lambda>((field_number, wire_type), is).
       if field_number = 2 then
         bindE (read_singular_message_into W (Device_new W) (Device_merge_from W) wire_type is (UpdateDeviceRequest_device m))
          (\<lambda>(v, is). Ok (m\<lparr>UpdateDeviceRequest_device := v\<rparr>, is))
       else bindE (rt_unknown W field_number wire_type is (unknown_fields m))
         (\<lambda>(u, is). Ok (m\<lparr>unknown_fields := u\<rparr>, is)))"

definition UpdateDeviceRequest_merge_from :: "'u protobuf_rt \<Rightarrow> 'u UpdateDeviceRequest \<Rightarrow> bytes \<Rightarrow> pb_error + 'u UpdateDeviceRequest" where
  "UpdateDeviceRequest_merge_from W = merge_loop (UpdateDeviceRequest_merge_step W)"

definition UpdateDeviceRequest_compute_size :: "'u protobuf_rt \<Rightarrow> 'u UpdateDeviceRequest \<Rightarrow> u32 \<times> 'u UpdateDeviceRequest" where
  "UpdateDeviceRequest_compute_size W m =
     (let my_size = 0;
          (n, device) = optional_size W (Device_compute_size W) (UpdateDeviceRequest_device m); my_size = my_size + n;
          my_size = my_size + uf_size W (unknown_fields m)
      in (my_size, m\<lparr>UpdateDeviceRequest_device := device, cached_size := my_size\<rparr>))"

definition UpdateDeviceRequest_write_to_with_cached_sizes :: "'u protobuf_rt \<Rightarrow> 'u UpdateDeviceRequest \<Rightarrow> bytes" where
  "UpdateDeviceRequest_write_to_with_cached_sizes W m =
     os_optional W 2 Device_get_cached_size (Device_write_to_with_cached_sizes W) (UpdateDeviceRequest_device m) @
     os_unknown W (unknown_fields m)"

definition UpdateDeviceRequest_get_cached_size :: "'u UpdateDeviceRequest \<Rightarrow> u32" where
  "UpdateDeviceRequest_get_cached_size m = cached_size m"

definition UpdateDeviceRequest_clear :: "'u protobuf_rt \<Rightarrow> 'u UpdateDeviceRequest \<Rightarrow> 'u UpdateDeviceRequest" where
  "UpdateDeviceRequest_clear W m = m\<lparr>UpdateDeviceRequest_device := None, unknown_fields := uf_new W\<rparr>"

text \<open>Values Rust can hold, without unknown fields, and what a reader gets back.\<close>

definition UpdateDeviceRequest_wf :: "'u protobuf_rt \<Rightarrow> 'u UpdateDeviceRequest \<Rightarrow> bool" where
  "UpdateDeviceRequest_wf W m \<longleftrightarrow>
     unknown_fields m = uf_new W \<and>
     pred_option (Device_wf W) (UpdateDeviceRequest_device m)"

definition UpdateDeviceRequest_canon :: "'u UpdateDeviceRequest \<Rightarrow> 'u UpdateDeviceRequest" where
  "UpdateDeviceRequest_canon m = m\<lparr>cached_size := 0, UpdateDeviceRequest_device := map_option Device_canon (UpdateDeviceRequest_device m)\<rparr>"

text \<open>The message after an encoding of \<open>m\<close> has been read into it.\<close>

definition UpdateDeviceRequest_join :: "'u protobuf_rt \<Rightarrow> 'u UpdateDeviceRequest \<Rightarrow> 'u UpdateDeviceRequest \<Rightarrow> 'u UpdateDeviceRequest" where
  "UpdateDeviceRequest_join W a m = a\<lparr>UpdateDeviceRequest_device := join_optional W (Device_new W) (Device_join W) (UpdateDeviceRequest_device a) (UpdateDeviceRequest_device m)\<rparr>"

context protobuf_runtime
begin

lemma UpdateDeviceRequest_sized:
  "snd (UpdateDeviceRequest_compute_size W m) =
     m\<lparr>UpdateDeviceRequest_device := snd (optional_size W (Device_compute_size W) (UpdateDeviceRequest_device m)), cached_size := fst (UpdateDeviceRequest_compute_size W m)\<rparr>"
  by (simp add: UpdateDeviceRequest_compute_size_def Let_def case_prod_beta)

lemma UpdateDeviceRequest_size_exact:
  "fst (UpdateDeviceRequest_compute_size W m) = of_nat (length (UpdateDeviceRequest_write_to_with_cached_sizes W (snd (UpdateDeviceRequest_compute_size W m))))"
  by (simp add: UpdateDeviceRequest_compute_size_def UpdateDeviceRequest_sized UpdateDeviceRequest_write_to_with_cached_sizes_def Let_def case_prod_beta size_chain size_laws
      small_field_def Device.optional_size_exact [symmetric])

lemma UpdateDeviceRequest_takes: "takes 1 is (UpdateDeviceRequest_merge_step W m is)"
  unfolding UpdateDeviceRequest_merge_step_def
  by (rule takes_bind, rule takes_laws) (auto intro!: takes_bind takes_expect takes_laws Device.takes_singular_message split: prod.splits)

lemma UpdateDeviceRequest_joins:
  assumes wf: "UpdateDeviceRequest_wf W m" and len: "length (UpdateDeviceRequest_write_to_with_cached_sizes W (snd (UpdateDeviceRequest_compute_size W m))) < 2 ^ 32"
  shows "consumes (UpdateDeviceRequest_merge_step W) a (UpdateDeviceRequest_write_to_with_cached_sizes W (snd (UpdateDeviceRequest_compute_size W m))) (UpdateDeviceRequest_join W a m)"
proof -
  let ?s = "\<lambda>v1. \<lparr>unknown_fields = unknown_fields a, cached_size = cached_size a, UpdateDeviceRequest_device = v1\<rparr>"
  have w: "UpdateDeviceRequest_write_to_with_cached_sizes W (snd (UpdateDeviceRequest_compute_size W m)) =
    os_optional W 2 Device_get_cached_size (Device_write_to_with_cached_sizes W) (snd (optional_size W (Device_compute_size W) (UpdateDeviceRequest_device m)))"
    using wf by (simp add: UpdateDeviceRequest_sized UpdateDeviceRequest_write_to_with_cached_sizes_def UpdateDeviceRequest_wf_def unknown_none)
  note l1 = len [unfolded w]
  have 1: "consumes (UpdateDeviceRequest_merge_step W) (?s (UpdateDeviceRequest_device a))
    (os_optional W 2 Device_get_cached_size (Device_write_to_with_cached_sizes W) (snd (optional_size W (Device_compute_size W) (UpdateDeviceRequest_device m))))
    (?s (join_optional W (Device_new W) (Device_join W) (UpdateDeviceRequest_device a) (UpdateDeviceRequest_device m)))"
    by (rule Device.consumes_optional [where upd = "\<lambda>v. ?s v"])
      (use wf l1 in \<open>simp_all add: UpdateDeviceRequest_merge_step_def expect_wire_def small_field_def UpdateDeviceRequest_wf_def Device_merge_from_def\<close>)
  note all = 1
  have start: "?s (UpdateDeviceRequest_device a) = a"
    by (cases a) simp
  have joined: "?s (join_optional W (Device_new W) (Device_join W) (UpdateDeviceRequest_device a) (UpdateDeviceRequest_device m)) = UpdateDeviceRequest_join W a m"
    by (cases a) (simp add: UpdateDeviceRequest_join_def)
  show ?thesis
    unfolding w by (rule all [unfolded start joined])
qed

end

sublocale protobuf_runtime < UpdateDeviceRequest: pb_message W "UpdateDeviceRequest_new W" UpdateDeviceRequest_is_initialized "UpdateDeviceRequest_compute_size W"
    "UpdateDeviceRequest_write_to_with_cached_sizes W" UpdateDeviceRequest_get_cached_size "UpdateDeviceRequest_merge_from W" "UpdateDeviceRequest_wf W" UpdateDeviceRequest_canon "UpdateDeviceRequest_join W"
proof unfold_locales
  show "fst (UpdateDeviceRequest_compute_size W m) = of_nat (length (UpdateDeviceRequest_write_to_with_cached_sizes W (snd (UpdateDeviceRequest_compute_size W m))))" for m
    by (rule UpdateDeviceRequest_size_exact)
  show "UpdateDeviceRequest_get_cached_size (snd (UpdateDeviceRequest_compute_size W m)) = fst (UpdateDeviceRequest_compute_size W m)" for m
    by (simp add: UpdateDeviceRequest_get_cached_size_def UpdateDeviceRequest_sized)
  show "UpdateDeviceRequest_is_initialized m" for m :: "'u UpdateDeviceRequest"
    by (simp add: UpdateDeviceRequest_is_initialized_def list_all_iff Device.all_initialized split: option.splits)
  show "UpdateDeviceRequest_merge_from W a (UpdateDeviceRequest_write_to_with_cached_sizes W (snd (UpdateDeviceRequest_compute_size W m)) @ r) = UpdateDeviceRequest_merge_from W (UpdateDeviceRequest_join W a m) r"
    if "UpdateDeviceRequest_wf W m" "length (UpdateDeviceRequest_write_to_with_cached_sizes W (snd (UpdateDeviceRequest_compute_size W m))) < 2 ^ 32" for a m r
    using UpdateDeviceRequest_joins [OF that] by (simp add: consumes_def UpdateDeviceRequest_merge_from_def)
  show "UpdateDeviceRequest_join W (UpdateDeviceRequest_new W) m = UpdateDeviceRequest_canon m" if "UpdateDeviceRequest_wf W m" for m
    using that by (cases m) (simp add: UpdateDeviceRequest_join_def UpdateDeviceRequest_new_def UpdateDeviceRequest_canon_def UpdateDeviceRequest_wf_def Device.join_optional_None)
  show "UpdateDeviceRequest_merge_from W m [] = Inr m" for m
    by (simp add: UpdateDeviceRequest_merge_from_def)
  show "UpdateDeviceRequest_merge_from W m is \<noteq> Inl NoProgress" for m "is"
    unfolding UpdateDeviceRequest_merge_from_def by (rule merge_loop_progress) (rule UpdateDeviceRequest_takes)
qed

section \<open>\<^verbatim>\<open>Updates\<close>\<close>

record 'u Updates = "'u pb_special" +
  Updates_devices :: "'u Device list"

definition Updates_new :: "'u protobuf_rt \<Rightarrow> 'u Updates" where
  "Updates_new W =
     \<lparr>unknown_fields = uf_new W, cached_size = 0,
      Updates_devices = []\<rparr>"

definition Updates_get_devices :: "'u Updates \<Rightarrow> 'u Device list" where
  "Updates_get_devices m = Updates_devices m"
definition Updates_clear_devices :: "'u Updates \<Rightarrow> 'u Updates" where
  "Updates_clear_devices m = m\<lparr>Updates_devices := []\<rparr>"
definition Updates_set_devices :: "'u Device list \<Rightarrow> 'u Updates \<Rightarrow> 'u Updates" where
  "Updates_set_devices v m = m\<lparr>Updates_devices := v\<rparr>"
definition Updates_mut_devices :: "('u Device list \<Rightarrow> 'u Device list) \<Rightarrow> 'u Updates \<Rightarrow> 'u Updates" where
  "Updates_mut_devices g m = m\<lparr>Updates_devices := g (Updates_devices m)\<rparr>"
definition Updates_take_devices :: "'u Updates \<Rightarrow> 'u Device list \<times> 'u Updates" where
  "Updates_take_devices m = (Updates_devices m, m\<lparr>Updates_devices := []\<rparr>)"

definition Updates_is_initialized :: "'u Updates \<Rightarrow> bool" where
  "Updates_is_initialized m =
     (list_all Device_is_initialized (Updates_devices m))"

definition Updates_merge_step :: "'u protobuf_rt \<Rightarrow> 'u Updates \<Rightarrow> bytes \<Rightarrow> 'u Updates reads" where
  "Updates_merge_step W m is =
     bindE (rt_tag W is) (\<lambda>((field_number, wire_type), is).
       if field_number = 1 then
         bindE (read_repeated_message_into W (Device_new W) (Device_merge_from W) wire_type is (Updates_devices m))
          (\<lambda>(v, is). Ok (m\<lparr>Updates_devices := v\<rparr>, is))
       else bindE (rt_unknown W field_number wire_type is (unknown_fields m))
         (\<lambda>(u, is). Ok (m\<lparr>unknown_fields := u\<rparr>, is)))"

definition Updates_merge_from :: "'u protobuf_rt \<Rightarrow> 'u Updates \<Rightarrow> bytes \<Rightarrow> pb_error + 'u Updates" where
  "Updates_merge_from W = merge_loop (Updates_merge_step W)"

definition Updates_compute_size :: "'u protobuf_rt \<Rightarrow> 'u Updates \<Rightarrow> u32 \<times> 'u Updates" where
  "Updates_compute_size W m =
     (let my_size = 0;
          (n, devices) = repeated_size W (Device_compute_size W) (Updates_devices m); my_size = my_size + n;
          my_size = my_size + uf_size W (unknown_fields m)
      in (my_size, m\<lparr>Updates_devices := devices, cached_size := my_size\<rparr>))"

definition Updates_write_to_with_cached_sizes :: "'u protobuf_rt \<Rightarrow> 'u Updates \<Rightarrow> bytes" where
  "Updates_write_to_with_cached_sizes W m =
     os_repeated W 1 Device_get_cached_size (Device_write_to_with_cached_sizes W) (Updates_devices m) @
     os_unknown W (unknown_fields m)"

definition Updates_get_cached_size :: "'u Updates \<Rightarrow> u32" where
  "Updates_get_cached_size m = cached_size m"

definition Updates_clear :: "'u protobuf_rt \<Rightarrow> 'u Updates \<Rightarrow> 'u Updates" where
  "Updates_clear W m = m\<lparr>Updates_devices := [], unknown_fields := uf_new W\<rparr>"

text \<open>Values Rust can hold, without unknown fields, and what a reader gets back.\<close>

definition Updates_wf :: "'u protobuf_rt \<Rightarrow> 'u Updates \<Rightarrow> bool" where
  "Updates_wf W m \<longleftrightarrow>
     unknown_fields m = uf_new W \<and>
     list_all (Device_wf W) (Updates_devices m)"

definition Updates_canon :: "'u Updates \<Rightarrow> 'u Updates" where
  "Updates_canon m = m\<lparr>cached_size := 0, Updates_devices := map Device_canon (Updates_devices m)\<rparr>"

text \<open>The message after an encoding of \<open>m\<close> has been read into it.\<close>

definition Updates_join :: "'u protobuf_rt \<Rightarrow> 'u Updates \<Rightarrow> 'u Updates \<Rightarrow> 'u Updates" where
  "Updates_join W a m = a\<lparr>Updates_devices := Updates_devices a @ map Device_canon (Updates_devices m)\<rparr>"

context protobuf_runtime
begin

lemma Updates_sized:
  "snd (Updates_compute_size W m) =
     m\<lparr>Updates_devices := snd (repeated_size W (Device_compute_size W) (Updates_devices m)), cached_size := fst (Updates_compute_size W m)\<rparr>"
  by (simp add: Updates_compute_size_def Let_def case_prod_beta)

lemma Updates_size_exact:
  "fst (Updates_compute_size W m) = of_nat (length (Updates_write_to_with_cached_sizes W (snd (Updates_compute_size W m))))"
  by (simp add: Updates_compute_size_def Updates_sized Updates_write_to_with_cached_sizes_def Let_def case_prod_beta size_chain size_laws
      small_field_def Device.repeated_size_exact [symmetric])

lemma Updates_takes: "takes 1 is (Updates_merge_step W m is)"
  unfolding Updates_merge_step_def
  by (rule takes_bind, rule takes_laws) (auto intro!: takes_bind takes_expect takes_laws Device.takes_repeated_message split: prod.splits)

lemma Updates_joins:
  assumes wf: "Updates_wf W m" and len: "length (Updates_write_to_with_cached_sizes W (snd (Updates_compute_size W m))) < 2 ^ 32"
  shows "consumes (Updates_merge_step W) a (Updates_write_to_with_cached_sizes W (snd (Updates_compute_size W m))) (Updates_join W a m)"
proof -
  let ?s = "\<lambda>v1. \<lparr>unknown_fields = unknown_fields a, cached_size = cached_size a, Updates_devices = v1\<rparr>"
  have w: "Updates_write_to_with_cached_sizes W (snd (Updates_compute_size W m)) =
    os_repeated W 1 Device_get_cached_size (Device_write_to_with_cached_sizes W) (snd (repeated_size W (Device_compute_size W) (Updates_devices m)))"
    using wf by (simp add: Updates_sized Updates_write_to_with_cached_sizes_def Updates_wf_def unknown_none)
  note l1 = len [unfolded w]
  have 1: "consumes (Updates_merge_step W) (?s (Updates_devices a))
    (os_repeated W 1 Device_get_cached_size (Device_write_to_with_cached_sizes W) (snd (repeated_size W (Device_compute_size W) (Updates_devices m))))
    (?s (Updates_devices a @ map Device_canon (Updates_devices m)))"
    by (rule Device.consumes_repeated [where upd = "\<lambda>v. ?s v"])
      (use wf l1 in \<open>simp_all add: Updates_merge_step_def expect_wire_def small_field_def Updates_wf_def Device_merge_from_def\<close>)
  note all = 1
  have start: "?s (Updates_devices a) = a"
    by (cases a) simp
  have joined: "?s (Updates_devices a @ map Device_canon (Updates_devices m)) = Updates_join W a m"
    by (cases a) (simp add: Updates_join_def)
  show ?thesis
    unfolding w by (rule all [unfolded start joined])
qed

end

sublocale protobuf_runtime < Updates: pb_message W "Updates_new W" Updates_is_initialized "Updates_compute_size W"
    "Updates_write_to_with_cached_sizes W" Updates_get_cached_size "Updates_merge_from W" "Updates_wf W" Updates_canon "Updates_join W"
proof unfold_locales
  show "fst (Updates_compute_size W m) = of_nat (length (Updates_write_to_with_cached_sizes W (snd (Updates_compute_size W m))))" for m
    by (rule Updates_size_exact)
  show "Updates_get_cached_size (snd (Updates_compute_size W m)) = fst (Updates_compute_size W m)" for m
    by (simp add: Updates_get_cached_size_def Updates_sized)
  show "Updates_is_initialized m" for m :: "'u Updates"
    by (simp add: Updates_is_initialized_def list_all_iff Device.all_initialized split: option.splits)
  show "Updates_merge_from W a (Updates_write_to_with_cached_sizes W (snd (Updates_compute_size W m)) @ r) = Updates_merge_from W (Updates_join W a m) r"
    if "Updates_wf W m" "length (Updates_write_to_with_cached_sizes W (snd (Updates_compute_size W m))) < 2 ^ 32" for a m r
    using Updates_joins [OF that] by (simp add: consumes_def Updates_merge_from_def)
  show "Updates_join W (Updates_new W) m = Updates_canon m" if "Updates_wf W m" for m
    using that by (cases m) (simp add: Updates_join_def Updates_new_def Updates_canon_def Updates_wf_def)
  show "Updates_merge_from W m [] = Inr m" for m
    by (simp add: Updates_merge_from_def)
  show "Updates_merge_from W m is \<noteq> Inl NoProgress" for m "is"
    unfolding Updates_merge_from_def by (rule merge_loop_progress) (rule Updates_takes)
qed

section \<open>\<^verbatim>\<open>GetDevicesResponse\<close>\<close>

record 'u GetDevicesResponse = "'u pb_special" +
  GetDevicesResponse_devices :: "'u Device list"

definition GetDevicesResponse_new :: "'u protobuf_rt \<Rightarrow> 'u GetDevicesResponse" where
  "GetDevicesResponse_new W =
     \<lparr>unknown_fields = uf_new W, cached_size = 0,
      GetDevicesResponse_devices = []\<rparr>"

definition GetDevicesResponse_get_devices :: "'u GetDevicesResponse \<Rightarrow> 'u Device list" where
  "GetDevicesResponse_get_devices m = GetDevicesResponse_devices m"
definition GetDevicesResponse_clear_devices :: "'u GetDevicesResponse \<Rightarrow> 'u GetDevicesResponse" where
  "GetDevicesResponse_clear_devices m = m\<lparr>GetDevicesResponse_devices := []\<rparr>"
definition GetDevicesResponse_set_devices :: "'u Device list \<Rightarrow> 'u GetDevicesResponse \<Rightarrow> 'u GetDevicesResponse" where
  "GetDevicesResponse_set_devices v m = m\<lparr>GetDevicesResponse_devices := v\<rparr>"
definition GetDevicesResponse_mut_devices :: "('u Device list \<Rightarrow> 'u Device list) \<Rightarrow> 'u GetDevicesResponse \<Rightarrow> 'u GetDevicesResponse" where
  "GetDevicesResponse_mut_devices g m = m\<lparr>GetDevicesResponse_devices := g (GetDevicesResponse_devices m)\<rparr>"
definition GetDevicesResponse_take_devices :: "'u GetDevicesResponse \<Rightarrow> 'u Device list \<times> 'u GetDevicesResponse" where
  "GetDevicesResponse_take_devices m = (GetDevicesResponse_devices m, m\<lparr>GetDevicesResponse_devices := []\<rparr>)"

definition GetDevicesResponse_is_initialized :: "'u GetDevicesResponse \<Rightarrow> bool" where
  "GetDevicesResponse_is_initialized m =
     (list_all Device_is_initialized (GetDevicesResponse_devices m))"

definition GetDevicesResponse_merge_step :: "'u protobuf_rt \<Rightarrow> 'u GetDevicesResponse \<Rightarrow> bytes \<Rightarrow> 'u GetDevicesResponse reads" where
  "GetDevicesResponse_merge_step W m is =
     bindE (rt_tag W is) (\<lambda>((field_number, wire_type), is).
       if field_number = 1 then
         bindE (read_repeated_message_into W (Device_new W) (Device_merge_from W) wire_type is (GetDevicesResponse_devices m))
          (\<lambda>(v, is). Ok (m\<lparr>GetDevicesResponse_devices := v\<rparr>, is))
       else bindE (rt_unknown W field_number wire_type is (unknown_fields m))
         (\<lambda>(u, is). Ok (m\<lparr>unknown_fields := u\<rparr>, is)))"

definition GetDevicesResponse_merge_from :: "'u protobuf_rt \<Rightarrow> 'u GetDevicesResponse \<Rightarrow> bytes \<Rightarrow> pb_error + 'u GetDevicesResponse" where
  "GetDevicesResponse_merge_from W = merge_loop (GetDevicesResponse_merge_step W)"

definition GetDevicesResponse_compute_size :: "'u protobuf_rt \<Rightarrow> 'u GetDevicesResponse \<Rightarrow> u32 \<times> 'u GetDevicesResponse" where
  "GetDevicesResponse_compute_size W m =
     (let my_size = 0;
          (n, devices) = repeated_size W (Device_compute_size W) (GetDevicesResponse_devices m); my_size = my_size + n;
          my_size = my_size + uf_size W (unknown_fields m)
      in (my_size, m\<lparr>GetDevicesResponse_devices := devices, cached_size := my_size\<rparr>))"

definition GetDevicesResponse_write_to_with_cached_sizes :: "'u protobuf_rt \<Rightarrow> 'u GetDevicesResponse \<Rightarrow> bytes" where
  "GetDevicesResponse_write_to_with_cached_sizes W m =
     os_repeated W 1 Device_get_cached_size (Device_write_to_with_cached_sizes W) (GetDevicesResponse_devices m) @
     os_unknown W (unknown_fields m)"

definition GetDevicesResponse_get_cached_size :: "'u GetDevicesResponse \<Rightarrow> u32" where
  "GetDevicesResponse_get_cached_size m = cached_size m"

definition GetDevicesResponse_clear :: "'u protobuf_rt \<Rightarrow> 'u GetDevicesResponse \<Rightarrow> 'u GetDevicesResponse" where
  "GetDevicesResponse_clear W m = m\<lparr>GetDevicesResponse_devices := [], unknown_fields := uf_new W\<rparr>"

text \<open>Values Rust can hold, without unknown fields, and what a reader gets back.\<close>

definition GetDevicesResponse_wf :: "'u protobuf_rt \<Rightarrow> 'u GetDevicesResponse \<Rightarrow> bool" where
  "GetDevicesResponse_wf W m \<longleftrightarrow>
     unknown_fields m = uf_new W \<and>
     list_all (Device_wf W) (GetDevicesResponse_devices m)"

definition GetDevicesResponse_canon :: "'u GetDevicesResponse \<Rightarrow> 'u GetDevicesResponse" where
  "GetDevicesResponse_canon m = m\<lparr>cached_size := 0, GetDevicesResponse_devices := map Device_canon (GetDevicesResponse_devices m)\<rparr>"

text \<open>The message after an encoding of \<open>m\<close> has been read into it.\<close>

definition GetDevicesResponse_join :: "'u protobuf_rt \<Rightarrow> 'u GetDevicesResponse \<Rightarrow> 'u GetDevicesResponse \<Rightarrow> 'u GetDevicesResponse" where
  "GetDevicesResponse_join W a m = a\<lparr>GetDevicesResponse_devices := GetDevicesResponse_devices a @ map Device_canon (GetDevicesResponse_devices m)\<rparr>"

context protobuf_runtime
begin

lemma GetDevicesResponse_sized:
  "snd (GetDevicesResponse_compute_size W m) =
     m\<lparr>GetDevicesResponse_devices := snd (repeated_size W (Device_compute_size W) (GetDevicesResponse_devices m)), cached_size := fst (GetDevicesResponse_compute_size W m)\<rparr>"
  by (simp add: GetDevicesResponse_compute_size_def Let_def case_prod_beta)

lemma GetDevicesResponse_size_exact:
  "fst (GetDevicesResponse_compute_size W m) = of_nat (length (GetDevicesResponse_write_to_with_cached_sizes W (snd (GetDevicesResponse_compute_size W m))))"
  by (simp add: GetDevicesResponse_compute_size_def GetDevicesResponse_sized GetDevicesResponse_write_to_with_cached_sizes_def Let_def case_prod_beta size_chain size_laws
      small_field_def Device.repeated_size_exact [symmetric])

lemma GetDevicesResponse_takes: "takes 1 is (GetDevicesResponse_merge_step W m is)"
  unfolding GetDevicesResponse_merge_step_def
  by (rule takes_bind, rule takes_laws) (auto intro!: takes_bind takes_expect takes_laws Device.takes_repeated_message split: prod.splits)

lemma GetDevicesResponse_joins:
  assumes wf: "GetDevicesResponse_wf W m" and len: "length (GetDevicesResponse_write_to_with_cached_sizes W (snd (GetDevicesResponse_compute_size W m))) < 2 ^ 32"
  shows "consumes (GetDevicesResponse_merge_step W) a (GetDevicesResponse_write_to_with_cached_sizes W (snd (GetDevicesResponse_compute_size W m))) (GetDevicesResponse_join W a m)"
proof -
  let ?s = "\<lambda>v1. \<lparr>unknown_fields = unknown_fields a, cached_size = cached_size a, GetDevicesResponse_devices = v1\<rparr>"
  have w: "GetDevicesResponse_write_to_with_cached_sizes W (snd (GetDevicesResponse_compute_size W m)) =
    os_repeated W 1 Device_get_cached_size (Device_write_to_with_cached_sizes W) (snd (repeated_size W (Device_compute_size W) (GetDevicesResponse_devices m)))"
    using wf by (simp add: GetDevicesResponse_sized GetDevicesResponse_write_to_with_cached_sizes_def GetDevicesResponse_wf_def unknown_none)
  note l1 = len [unfolded w]
  have 1: "consumes (GetDevicesResponse_merge_step W) (?s (GetDevicesResponse_devices a))
    (os_repeated W 1 Device_get_cached_size (Device_write_to_with_cached_sizes W) (snd (repeated_size W (Device_compute_size W) (GetDevicesResponse_devices m))))
    (?s (GetDevicesResponse_devices a @ map Device_canon (GetDevicesResponse_devices m)))"
    by (rule Device.consumes_repeated [where upd = "\<lambda>v. ?s v"])
      (use wf l1 in \<open>simp_all add: GetDevicesResponse_merge_step_def expect_wire_def small_field_def GetDevicesResponse_wf_def Device_merge_from_def\<close>)
  note all = 1
  have start: "?s (GetDevicesResponse_devices a) = a"
    by (cases a) simp
  have joined: "?s (GetDevicesResponse_devices a @ map Device_canon (GetDevicesResponse_devices m)) = GetDevicesResponse_join W a m"
    by (cases a) (simp add: GetDevicesResponse_join_def)
  show ?thesis
    unfolding w by (rule all [unfolded start joined])
qed

end

sublocale protobuf_runtime < GetDevicesResponse: pb_message W "GetDevicesResponse_new W" GetDevicesResponse_is_initialized "GetDevicesResponse_compute_size W"
    "GetDevicesResponse_write_to_with_cached_sizes W" GetDevicesResponse_get_cached_size "GetDevicesResponse_merge_from W" "GetDevicesResponse_wf W" GetDevicesResponse_canon "GetDevicesResponse_join W"
proof unfold_locales
  show "fst (GetDevicesResponse_compute_size W m) = of_nat (length (GetDevicesResponse_write_to_with_cached_sizes W (snd (GetDevicesResponse_compute_size W m))))" for m
    by (rule GetDevicesResponse_size_exact)
  show "GetDevicesResponse_get_cached_size (snd (GetDevicesResponse_compute_size W m)) = fst (GetDevicesResponse_compute_size W m)" for m
    by (simp add: GetDevicesResponse_get_cached_size_def GetDevicesResponse_sized)
  show "GetDevicesResponse_is_initialized m" for m :: "'u GetDevicesResponse"
    by (simp add: GetDevicesResponse_is_initialized_def list_all_iff Device.all_initialized split: option.splits)
  show "GetDevicesResponse_merge_from W a (GetDevicesResponse_write_to_with_cached_sizes W (snd (GetDevicesResponse_compute_size W m)) @ r) = GetDevicesResponse_merge_from W (GetDevicesResponse_join W a m) r"
    if "GetDevicesResponse_wf W m" "length (GetDevicesResponse_write_to_with_cached_sizes W (snd (GetDevicesResponse_compute_size W m))) < 2 ^ 32" for a m r
    using GetDevicesResponse_joins [OF that] by (simp add: consumes_def GetDevicesResponse_merge_from_def)
  show "GetDevicesResponse_join W (GetDevicesResponse_new W) m = GetDevicesResponse_canon m" if "GetDevicesResponse_wf W m" for m
    using that by (cases m) (simp add: GetDevicesResponse_join_def GetDevicesResponse_new_def GetDevicesResponse_canon_def GetDevicesResponse_wf_def)
  show "GetDevicesResponse_merge_from W m [] = Inr m" for m
    by (simp add: GetDevicesResponse_merge_from_def)
  show "GetDevicesResponse_merge_from W m is \<noteq> Inl NoProgress" for m "is"
    unfolding GetDevicesResponse_merge_from_def by (rule merge_loop_progress) (rule GetDevicesResponse_takes)
qed

section \<open>\<^verbatim>\<open>NetCatStream\<close>\<close>

record 'u NetCatStream = "'u pb_special" +
  NetCatStream_result :: "string list"

definition NetCatStream_new :: "'u protobuf_rt \<Rightarrow> 'u NetCatStream" where
  "NetCatStream_new W =
     \<lparr>unknown_fields = uf_new W, cached_size = 0,
      NetCatStream_result = []\<rparr>"

definition NetCatStream_get_result :: "'u NetCatStream \<Rightarrow> string list" where
  "NetCatStream_get_result m = NetCatStream_result m"
definition NetCatStream_clear_result :: "'u NetCatStream \<Rightarrow> 'u NetCatStream" where
  "NetCatStream_clear_result m = m\<lparr>NetCatStream_result := []\<rparr>"
definition NetCatStream_set_result :: "string list \<Rightarrow> 'u NetCatStream \<Rightarrow> 'u NetCatStream" where
  "NetCatStream_set_result v m = m\<lparr>NetCatStream_result := v\<rparr>"
definition NetCatStream_mut_result :: "(string list \<Rightarrow> string list) \<Rightarrow> 'u NetCatStream \<Rightarrow> 'u NetCatStream" where
  "NetCatStream_mut_result g m = m\<lparr>NetCatStream_result := g (NetCatStream_result m)\<rparr>"
definition NetCatStream_take_result :: "'u NetCatStream \<Rightarrow> string list \<times> 'u NetCatStream" where
  "NetCatStream_take_result m = (NetCatStream_result m, m\<lparr>NetCatStream_result := []\<rparr>)"

definition NetCatStream_is_initialized :: "'u NetCatStream \<Rightarrow> bool" where
  "NetCatStream_is_initialized m = True"

definition NetCatStream_merge_step :: "'u protobuf_rt \<Rightarrow> 'u NetCatStream \<Rightarrow> bytes \<Rightarrow> 'u NetCatStream reads" where
  "NetCatStream_merge_step W m is =
     bindE (rt_tag W is) (\<lambda>((field_number, wire_type), is).
       if field_number = 1 then
         bindE (rt_repeated_string_into W wire_type is)
          (\<lambda>(s, is). Ok (m\<lparr>NetCatStream_result := NetCatStream_result m @ [s]\<rparr>, is))
       else bindE (rt_unknown W field_number wire_type is (unknown_fields m))
         (\<lambda>(u, is). Ok (m\<lparr>unknown_fields := u\<rparr>, is)))"

definition NetCatStream_merge_from :: "'u protobuf_rt \<Rightarrow> 'u NetCatStream \<Rightarrow> bytes \<Rightarrow> pb_error + 'u NetCatStream" where
  "NetCatStream_merge_from W = merge_loop (NetCatStream_merge_step W)"

definition NetCatStream_compute_size :: "'u protobuf_rt \<Rightarrow> 'u NetCatStream \<Rightarrow> u32 \<times> 'u NetCatStream" where
  "NetCatStream_compute_size W m =
     (let my_size = 0;
          my_size = my_size + (\<Sum>value\<leftarrow>NetCatStream_result m. sz_string W 1 value);
          my_size = my_size + uf_size W (unknown_fields m)
      in (my_size, m\<lparr>cached_size := my_size\<rparr>))"

definition NetCatStream_write_to_with_cached_sizes :: "'u protobuf_rt \<Rightarrow> 'u NetCatStream \<Rightarrow> bytes" where
  "NetCatStream_write_to_with_cached_sizes W m =
     concat (map (os_string W 1) (NetCatStream_result m)) @
     os_unknown W (unknown_fields m)"

definition NetCatStream_get_cached_size :: "'u NetCatStream \<Rightarrow> u32" where
  "NetCatStream_get_cached_size m = cached_size m"

definition NetCatStream_clear :: "'u protobuf_rt \<Rightarrow> 'u NetCatStream \<Rightarrow> 'u NetCatStream" where
  "NetCatStream_clear W m = m\<lparr>NetCatStream_result := [], unknown_fields := uf_new W\<rparr>"

text \<open>Values Rust can hold, without unknown fields, and what a reader gets back.\<close>

definition NetCatStream_wf :: "'u protobuf_rt \<Rightarrow> 'u NetCatStream \<Rightarrow> bool" where
  "NetCatStream_wf W m \<longleftrightarrow>
     unknown_fields m = uf_new W \<and>
     (\<forall>s \<in> set (NetCatStream_result m). utf8 s)"

definition NetCatStream_canon :: "'u NetCatStream \<Rightarrow> 'u NetCatStream" where
  "NetCatStream_canon m = m\<lparr>cached_size := 0\<rparr>"

text \<open>The message after an encoding of \<open>m\<close> has been read into it.\<close>

definition NetCatStream_join :: "'u protobuf_rt \<Rightarrow> 'u NetCatStream \<Rightarrow> 'u NetCatStream \<Rightarrow> 'u NetCatStream" where
  "NetCatStream_join W a m = a\<lparr>NetCatStream_result := NetCatStream_result a @ NetCatStream_result m\<rparr>"

context protobuf_runtime
begin

lemma NetCatStream_sized:
  "snd (NetCatStream_compute_size W m) =
     m\<lparr>cached_size := fst (NetCatStream_compute_size W m)\<rparr>"
  by (simp add: NetCatStream_compute_size_def Let_def case_prod_beta)

lemma NetCatStream_size_exact:
  "fst (NetCatStream_compute_size W m) = of_nat (length (NetCatStream_write_to_with_cached_sizes W (snd (NetCatStream_compute_size W m))))"
  by (simp add: NetCatStream_compute_size_def NetCatStream_sized NetCatStream_write_to_with_cached_sizes_def Let_def case_prod_beta size_chain size_laws
      small_field_def  sum_list_of_nat_word length_concat comp_def)

lemma NetCatStream_takes: "takes 1 is (NetCatStream_merge_step W m is)"
  unfolding NetCatStream_merge_step_def
  by (rule takes_bind, rule takes_laws) (auto intro!: takes_bind takes_expect takes_laws split: prod.splits)

lemma NetCatStream_joins:
  assumes wf: "NetCatStream_wf W m" and len: "length (NetCatStream_write_to_with_cached_sizes W (snd (NetCatStream_compute_size W m))) < 2 ^ 32"
  shows "consumes (NetCatStream_merge_step W) a (NetCatStream_write_to_with_cached_sizes W (snd (NetCatStream_compute_size W m))) (NetCatStream_join W a m)"
proof -
  let ?s = "\<lambda>v1. \<lparr>unknown_fields = unknown_fields a, cached_size = cached_size a, NetCatStream_result = v1\<rparr>"
  have w: "NetCatStream_write_to_with_cached_sizes W (snd (NetCatStream_compute_size W m)) =
    concat (map (os_string W 1) (NetCatStream_result m))"
    using wf by (simp add: NetCatStream_sized NetCatStream_write_to_with_cached_sizes_def NetCatStream_wf_def unknown_none)
  note l1 = len [unfolded w]
  have 1: "consumes (NetCatStream_merge_step W) (?s (NetCatStream_result a))
    (concat (map (os_string W 1) (NetCatStream_result m)))
    (?s (NetCatStream_result a @ NetCatStream_result m))"
    by (rule consumes_repeated_string [where upd = "\<lambda>v. ?s v"])
      (use wf l1 in \<open>simp_all add: NetCatStream_merge_step_def expect_wire_def small_field_def NetCatStream_wf_def\<close>)
  note all = 1
  have start: "?s (NetCatStream_result a) = a"
    by (cases a) simp
  have joined: "?s (NetCatStream_result a @ NetCatStream_result m) = NetCatStream_join W a m"
    by (cases a) (simp add: NetCatStream_join_def)
  show ?thesis
    unfolding w by (rule all [unfolded start joined])
qed

end

sublocale protobuf_runtime < NetCatStream: pb_message W "NetCatStream_new W" NetCatStream_is_initialized "NetCatStream_compute_size W"
    "NetCatStream_write_to_with_cached_sizes W" NetCatStream_get_cached_size "NetCatStream_merge_from W" "NetCatStream_wf W" NetCatStream_canon "NetCatStream_join W"
proof unfold_locales
  show "fst (NetCatStream_compute_size W m) = of_nat (length (NetCatStream_write_to_with_cached_sizes W (snd (NetCatStream_compute_size W m))))" for m
    by (rule NetCatStream_size_exact)
  show "NetCatStream_get_cached_size (snd (NetCatStream_compute_size W m)) = fst (NetCatStream_compute_size W m)" for m
    by (simp add: NetCatStream_get_cached_size_def NetCatStream_sized)
  show "NetCatStream_is_initialized m" for m :: "'u NetCatStream"
    by (simp add: NetCatStream_is_initialized_def list_all_iff)
  show "NetCatStream_merge_from W a (NetCatStream_write_to_with_cached_sizes W (snd (NetCatStream_compute_size W m)) @ r) = NetCatStream_merge_from W (NetCatStream_join W a m) r"
    if "NetCatStream_wf W m" "length (NetCatStream_write_to_with_cached_sizes W (snd (NetCatStream_compute_size W m))) < 2 ^ 32" for a m r
    using NetCatStream_joins [OF that] by (simp add: consumes_def NetCatStream_merge_from_def)
  show "NetCatStream_join W (NetCatStream_new W) m = NetCatStream_canon m" if "NetCatStream_wf W m" for m
    using that by (cases m) (simp add: NetCatStream_join_def NetCatStream_new_def NetCatStream_canon_def NetCatStream_wf_def)
  show "NetCatStream_merge_from W m [] = Inr m" for m
    by (simp add: NetCatStream_merge_from_def)
  show "NetCatStream_merge_from W m is \<noteq> Inl NoProgress" for m "is"
    unfolding NetCatStream_merge_from_def by (rule merge_loop_progress) (rule NetCatStream_takes)
qed

section \<open>\<^verbatim>\<open>SetPacketCaptureRequest\<close>\<close>

record 'u SetPacketCaptureRequest = "'u pb_special" +
  SetPacketCaptureRequest_capture :: bool
  SetPacketCaptureRequest_device_serial :: string

definition SetPacketCaptureRequest_new :: "'u protobuf_rt \<Rightarrow> 'u SetPacketCaptureRequest" where
  "SetPacketCaptureRequest_new W =
     \<lparr>unknown_fields = uf_new W, cached_size = 0,
      SetPacketCaptureRequest_capture = False, SetPacketCaptureRequest_device_serial = []\<rparr>"

definition SetPacketCaptureRequest_get_capture :: "'u SetPacketCaptureRequest \<Rightarrow> bool" where
  "SetPacketCaptureRequest_get_capture m = SetPacketCaptureRequest_capture m"
definition SetPacketCaptureRequest_clear_capture :: "'u SetPacketCaptureRequest \<Rightarrow> 'u SetPacketCaptureRequest" where
  "SetPacketCaptureRequest_clear_capture m = m\<lparr>SetPacketCaptureRequest_capture := False\<rparr>"
definition SetPacketCaptureRequest_set_capture :: "bool \<Rightarrow> 'u SetPacketCaptureRequest \<Rightarrow> 'u SetPacketCaptureRequest" where
  "SetPacketCaptureRequest_set_capture v m = m\<lparr>SetPacketCaptureRequest_capture := v\<rparr>"
definition SetPacketCaptureRequest_get_device_serial :: "'u SetPacketCaptureRequest \<Rightarrow> string" where
  "SetPacketCaptureRequest_get_device_serial m = SetPacketCaptureRequest_device_serial m"
definition SetPacketCaptureRequest_clear_device_serial :: "'u SetPacketCaptureRequest \<Rightarrow> 'u SetPacketCaptureRequest" where
  "SetPacketCaptureRequest_clear_device_serial m = m\<lparr>SetPacketCaptureRequest_device_serial := []\<rparr>"
definition SetPacketCaptureRequest_set_device_serial :: "string \<Rightarrow> 'u SetPacketCaptureRequest \<Rightarrow> 'u SetPacketCaptureRequest" where
  "SetPacketCaptureRequest_set_device_serial v m = m\<lparr>SetPacketCaptureRequest_device_serial := v\<rparr>"
definition SetPacketCaptureRequest_mut_device_serial :: "(string \<Rightarrow> string) \<Rightarrow> 'u SetPacketCaptureRequest \<Rightarrow> 'u SetPacketCaptureRequest" where
  "SetPacketCaptureRequest_mut_device_serial g m = m\<lparr>SetPacketCaptureRequest_device_serial := g (SetPacketCaptureRequest_device_serial m)\<rparr>"
definition SetPacketCaptureRequest_take_device_serial :: "'u SetPacketCaptureRequest \<Rightarrow> string \<times> 'u SetPacketCaptureRequest" where
  "SetPacketCaptureRequest_take_device_serial m = (SetPacketCaptureRequest_device_serial m, m\<lparr>SetPacketCaptureRequest_device_serial := []\<rparr>)"

definition SetPacketCaptureRequest_is_initialized :: "'u SetPacketCaptureRequest \<Rightarrow> bool" where
  "SetPacketCaptureRequest_is_initialized m = True"

definition SetPacketCaptureRequest_merge_step :: "'u protobuf_rt \<Rightarrow> 'u SetPacketCaptureRequest \<Rightarrow> bytes \<Rightarrow> 'u SetPacketCaptureRequest reads" where
  "SetPacketCaptureRequest_merge_step W m is =
     bindE (rt_tag W is) (\<lambda>((field_number, wire_type), is).
       if field_number = 1 then
         expect_wire WireTypeVarint wire_type
          (bindE (rt_bool W is) (\<lambda>(tmp, is). Ok (m\<lparr>SetPacketCaptureRequest_capture := tmp\<rparr>, is)))
       else if field_number = 2 then
         bindE (rt_string_into W wire_type is) (\<lambda>(s, is). Ok (m\<lparr>SetPacketCaptureRequest_device_serial := s\<rparr>, is))
       else bindE (rt_unknown W field_number wire_type is (unknown_fields m))
         (\<lambda>(u, is). Ok (m\<lparr>unknown_fields := u\<rparr>, is)))"

definition SetPacketCaptureRequest_merge_from :: "'u protobuf_rt \<Rightarrow> 'u SetPacketCaptureRequest \<Rightarrow> bytes \<Rightarrow> pb_error + 'u SetPacketCaptureRequest" where
  "SetPacketCaptureRequest_merge_from W = merge_loop (SetPacketCaptureRequest_merge_step W)"

definition SetPacketCaptureRequest_compute_size :: "'u protobuf_rt \<Rightarrow> 'u SetPacketCaptureRequest \<Rightarrow> u32 \<times> 'u SetPacketCaptureRequest" where
  "SetPacketCaptureRequest_compute_size W m =
     (let my_size = 0;
          my_size = (if SetPacketCaptureRequest_capture m then my_size + 2 else my_size);
          my_size = (if SetPacketCaptureRequest_device_serial m \<noteq> [] then my_size + sz_string W 2 (SetPacketCaptureRequest_device_serial m) else my_size);
          my_size = my_size + uf_size W (unknown_fields m)
      in (my_size, m\<lparr>cached_size := my_size\<rparr>))"

definition SetPacketCaptureRequest_write_to_with_cached_sizes :: "'u protobuf_rt \<Rightarrow> 'u SetPacketCaptureRequest \<Rightarrow> bytes" where
  "SetPacketCaptureRequest_write_to_with_cached_sizes W m =
     (if SetPacketCaptureRequest_capture m then os_bool W 1 (SetPacketCaptureRequest_capture m) else []) @
     (if SetPacketCaptureRequest_device_serial m \<noteq> [] then os_string W 2 (SetPacketCaptureRequest_device_serial m) else []) @
     os_unknown W (unknown_fields m)"

definition SetPacketCaptureRequest_get_cached_size :: "'u SetPacketCaptureRequest \<Rightarrow> u32" where
  "SetPacketCaptureRequest_get_cached_size m = cached_size m"

definition SetPacketCaptureRequest_clear :: "'u protobuf_rt \<Rightarrow> 'u SetPacketCaptureRequest \<Rightarrow> 'u SetPacketCaptureRequest" where
  "SetPacketCaptureRequest_clear W m = m\<lparr>SetPacketCaptureRequest_capture := False, SetPacketCaptureRequest_device_serial := [], unknown_fields := uf_new W\<rparr>"

text \<open>Values Rust can hold, without unknown fields, and what a reader gets back.\<close>

definition SetPacketCaptureRequest_wf :: "'u protobuf_rt \<Rightarrow> 'u SetPacketCaptureRequest \<Rightarrow> bool" where
  "SetPacketCaptureRequest_wf W m \<longleftrightarrow>
     unknown_fields m = uf_new W \<and>
     utf8 (SetPacketCaptureRequest_device_serial m)"

definition SetPacketCaptureRequest_canon :: "'u SetPacketCaptureRequest \<Rightarrow> 'u SetPacketCaptureRequest" where
  "SetPacketCaptureRequest_canon m = m\<lparr>cached_size := 0\<rparr>"

text \<open>The message after an encoding of \<open>m\<close> has been read into it.\<close>

definition SetPacketCaptureRequest_join :: "'u protobuf_rt \<Rightarrow> 'u SetPacketCaptureRequest \<Rightarrow> 'u SetPacketCaptureRequest \<Rightarrow> 'u SetPacketCaptureRequest" where
  "SetPacketCaptureRequest_join W a m = a\<lparr>SetPacketCaptureRequest_capture := join_scalar False (SetPacketCaptureRequest_capture a) (SetPacketCaptureRequest_capture m),
     SetPacketCaptureRequest_device_serial := join_scalar [] (SetPacketCaptureRequest_device_serial a) (SetPacketCaptureRequest_device_serial m)\<rparr>"

context protobuf_runtime
begin

lemma SetPacketCaptureRequest_sized:
  "snd (SetPacketCaptureRequest_compute_size W m) =
     m\<lparr>cached_size := fst (SetPacketCaptureRequest_compute_size W m)\<rparr>"
  by (simp add: SetPacketCaptureRequest_compute_size_def Let_def case_prod_beta)

lemma SetPacketCaptureRequest_size_exact:
  "fst (SetPacketCaptureRequest_compute_size W m) = of_nat (length (SetPacketCaptureRequest_write_to_with_cached_sizes W (snd (SetPacketCaptureRequest_compute_size W m))))"
  by (simp add: SetPacketCaptureRequest_compute_size_def SetPacketCaptureRequest_sized SetPacketCaptureRequest_write_to_with_cached_sizes_def Let_def case_prod_beta size_chain size_laws
      small_field_def)

lemma SetPacketCaptureRequest_takes: "takes 1 is (SetPacketCaptureRequest_merge_step W m is)"
  unfolding SetPacketCaptureRequest_merge_step_def
  by (rule takes_bind, rule takes_laws) (auto intro!: takes_bind takes_expect takes_laws split: prod.splits)

lemma SetPacketCaptureRequest_joins:
  assumes wf: "SetPacketCaptureRequest_wf W m" and len: "length (SetPacketCaptureRequest_write_to_with_cached_sizes W (snd (SetPacketCaptureRequest_compute_size W m))) < 2 ^ 32"
  shows "consumes (SetPacketCaptureRequest_merge_step W) a (SetPacketCaptureRequest_write_to_with_cached_sizes W (snd (SetPacketCaptureRequest_compute_size W m))) (SetPacketCaptureRequest_join W a m)"
proof -
  let ?s = "\<lambda>v1 v2. \<lparr>unknown_fields = unknown_fields a, cached_size = cached_size a, SetPacketCaptureRequest_capture = v1, SetPacketCaptureRequest_device_serial = v2\<rparr>"
  have w: "SetPacketCaptureRequest_write_to_with_cached_sizes W (snd (SetPacketCaptureRequest_compute_size W m)) =
    (if SetPacketCaptureRequest_capture m then os_bool W 1 (SetPacketCaptureRequest_capture m) else []) @
    (if SetPacketCaptureRequest_device_serial m \<noteq> [] then os_string W 2 (SetPacketCaptureRequest_device_serial m) else [])"
    using wf by (simp add: SetPacketCaptureRequest_sized SetPacketCaptureRequest_write_to_with_cached_sizes_def SetPacketCaptureRequest_wf_def unknown_none)
  note l1 = len [unfolded w]
  note l2 = length_rest [OF l1]
  have 1: "consumes (SetPacketCaptureRequest_merge_step W) (?s (SetPacketCaptureRequest_capture a) (SetPacketCaptureRequest_device_serial a))
    ((if SetPacketCaptureRequest_capture m then os_bool W 1 (SetPacketCaptureRequest_capture m) else []))
    (?s (join_scalar False (SetPacketCaptureRequest_capture a) (SetPacketCaptureRequest_capture m)) (SetPacketCaptureRequest_device_serial a))"
    by (rule consumes_bool [where upd = "\<lambda>v. ?s v (SetPacketCaptureRequest_device_serial a)"]) (simp_all add: SetPacketCaptureRequest_merge_step_def expect_wire_def small_field_def)
  have 2: "consumes (SetPacketCaptureRequest_merge_step W) (?s (join_scalar False (SetPacketCaptureRequest_capture a) (SetPacketCaptureRequest_capture m)) (SetPacketCaptureRequest_device_serial a))
    ((if SetPacketCaptureRequest_device_serial m \<noteq> [] then os_string W 2 (SetPacketCaptureRequest_device_serial m) else []))
    (?s (join_scalar False (SetPacketCaptureRequest_capture a) (SetPacketCaptureRequest_capture m)) (join_scalar [] (SetPacketCaptureRequest_device_serial a) (SetPacketCaptureRequest_device_serial m)))"
    by (rule consumes_string [where upd = "\<lambda>v. ?s (join_scalar False (SetPacketCaptureRequest_capture a) (SetPacketCaptureRequest_capture m)) v"])
      (use wf l2 in \<open>simp_all add: SetPacketCaptureRequest_merge_step_def expect_wire_def small_field_def SetPacketCaptureRequest_wf_def\<close>)
  note all = consumes_append [OF 1 2]
  have start: "?s (SetPacketCaptureRequest_capture a) (SetPacketCaptureRequest_device_serial a) = a"
    by (cases a) simp
  have joined: "?s (join_scalar False (SetPacketCaptureRequest_capture a) (SetPacketCaptureRequest_capture m)) (join_scalar [] (SetPacketCaptureRequest_device_serial a) (SetPacketCaptureRequest_device_serial m)) = SetPacketCaptureRequest_join W a m"
    by (cases a) (simp add: SetPacketCaptureRequest_join_def)
  show ?thesis
    unfolding w by (rule all [unfolded start joined])
qed

end

sublocale protobuf_runtime < SetPacketCaptureRequest: pb_message W "SetPacketCaptureRequest_new W" SetPacketCaptureRequest_is_initialized "SetPacketCaptureRequest_compute_size W"
    "SetPacketCaptureRequest_write_to_with_cached_sizes W" SetPacketCaptureRequest_get_cached_size "SetPacketCaptureRequest_merge_from W" "SetPacketCaptureRequest_wf W" SetPacketCaptureRequest_canon "SetPacketCaptureRequest_join W"
proof unfold_locales
  show "fst (SetPacketCaptureRequest_compute_size W m) = of_nat (length (SetPacketCaptureRequest_write_to_with_cached_sizes W (snd (SetPacketCaptureRequest_compute_size W m))))" for m
    by (rule SetPacketCaptureRequest_size_exact)
  show "SetPacketCaptureRequest_get_cached_size (snd (SetPacketCaptureRequest_compute_size W m)) = fst (SetPacketCaptureRequest_compute_size W m)" for m
    by (simp add: SetPacketCaptureRequest_get_cached_size_def SetPacketCaptureRequest_sized)
  show "SetPacketCaptureRequest_is_initialized m" for m :: "'u SetPacketCaptureRequest"
    by (simp add: SetPacketCaptureRequest_is_initialized_def list_all_iff)
  show "SetPacketCaptureRequest_merge_from W a (SetPacketCaptureRequest_write_to_with_cached_sizes W (snd (SetPacketCaptureRequest_compute_size W m)) @ r) = SetPacketCaptureRequest_merge_from W (SetPacketCaptureRequest_join W a m) r"
    if "SetPacketCaptureRequest_wf W m" "length (SetPacketCaptureRequest_write_to_with_cached_sizes W (snd (SetPacketCaptureRequest_compute_size W m))) < 2 ^ 32" for a m r
    using SetPacketCaptureRequest_joins [OF that] by (simp add: consumes_def SetPacketCaptureRequest_merge_from_def)
  show "SetPacketCaptureRequest_join W (SetPacketCaptureRequest_new W) m = SetPacketCaptureRequest_canon m" if "SetPacketCaptureRequest_wf W m" for m
    using that by (cases m) (simp add: SetPacketCaptureRequest_join_def SetPacketCaptureRequest_new_def SetPacketCaptureRequest_canon_def SetPacketCaptureRequest_wf_def)
  show "SetPacketCaptureRequest_merge_from W m [] = Inr m" for m
    by (simp add: SetPacketCaptureRequest_merge_from_def)
  show "SetPacketCaptureRequest_merge_from W m is \<noteq> Inl NoProgress" for m "is"
    unfolding SetPacketCaptureRequest_merge_from_def by (rule merge_loop_progress) (rule SetPacketCaptureRequest_takes)
qed

end
