(* ===== verification/Pb_Startup.thy ===== *)
theory Pb_Startup
  imports Pb_Model
begin

text \<open>
  The messages of \<^verbatim>\<open>rust/backend-proto/src/startup.rs\<close>: what an emulator says about its chips when
  it starts. The file's \<^verbatim>\<open>Chip\<close> is \<open>Startup_Chip\<close> here, since \<open>Pb_Model\<close> has a \<open>Chip\<close> too. The
  layout is that of \<open>Pb_Model\<close>.
\<close>

section \<open>Enumerations\<close>

datatype Chip_ChipKind =
    Chip_ChipKind_UNSPECIFIED
  | Chip_ChipKind_BLUETOOTH
  | Chip_ChipKind_WIFI
  | Chip_ChipKind_UWB

fun Chip_ChipKind_value :: "Chip_ChipKind \<Rightarrow> i32" where
  "Chip_ChipKind_value Chip_ChipKind_UNSPECIFIED = 0"
| "Chip_ChipKind_value Chip_ChipKind_BLUETOOTH = 1"
| "Chip_ChipKind_value Chip_ChipKind_WIFI = 2"
| "Chip_ChipKind_value Chip_ChipKind_UWB = 3"

definition Chip_ChipKind_from_i32 :: "i32 \<Rightarrow> Chip_ChipKind option" where
  "Chip_ChipKind_from_i32 value =
     (if value = 0 then Some Chip_ChipKind_UNSPECIFIED
      else if value = 1 then Some Chip_ChipKind_BLUETOOTH
      else if value = 2 then Some Chip_ChipKind_WIFI
      else if value = 3 then Some Chip_ChipKind_UWB
      else None)"

definition Chip_ChipKind_values :: "Chip_ChipKind list" where
  "Chip_ChipKind_values =
     [Chip_ChipKind_UNSPECIFIED, Chip_ChipKind_BLUETOOTH, Chip_ChipKind_WIFI, Chip_ChipKind_UWB]"

definition Chip_ChipKind_default :: Chip_ChipKind where
  "Chip_ChipKind_default = Chip_ChipKind_UNSPECIFIED"

lemma Chip_ChipKind_from_value [simp]: "Chip_ChipKind_from_i32 (Chip_ChipKind_value e) = Some e"
  by (cases e) (simp_all add: Chip_ChipKind_from_i32_def)

lemma Chip_ChipKind_value_from: "Chip_ChipKind_from_i32 i = Some e \<Longrightarrow> Chip_ChipKind_value e = i"
  by (auto simp: Chip_ChipKind_from_i32_def split: if_splits)

lemma Chip_ChipKind_values_complete: "distinct Chip_ChipKind_values \<and> set Chip_ChipKind_values = UNIV"
  using Chip_ChipKind.exhaust by (auto simp: Chip_ChipKind_values_def)

section \<open>\<^verbatim>\<open>Chip\<close>\<close>

record 'u Startup_Chip = "'u pb_special" +
  Startup_Chip_kind :: Chip_ChipKind
  Startup_Chip_id :: string
  Startup_Chip_manufacturer :: string
  Startup_Chip_model :: string
  Startup_Chip_fd_in :: i32
  Startup_Chip_fd_out :: i32
  Startup_Chip_loopback :: bool

definition Startup_Chip_new :: "'u protobuf_rt \<Rightarrow> 'u Startup_Chip" where
  "Startup_Chip_new W =
     \<lparr>unknown_fields = uf_new W, cached_size = 0,
      Startup_Chip_kind = Chip_ChipKind_UNSPECIFIED, Startup_Chip_id = [], Startup_Chip_manufacturer = [], Startup_Chip_model = [], Startup_Chip_fd_in = 0, Startup_Chip_fd_out = 0, Startup_Chip_loopback = False\<rparr>"

definition Startup_Chip_get_kind :: "'u Startup_Chip \<Rightarrow> Chip_ChipKind" where
  "Startup_Chip_get_kind m = Startup_Chip_kind m"
definition Startup_Chip_clear_kind :: "'u Startup_Chip \<Rightarrow> 'u Startup_Chip" where
  "Startup_Chip_clear_kind m = m\<lparr>Startup_Chip_kind := Chip_ChipKind_UNSPECIFIED\<rparr>"
definition Startup_Chip_set_kind :: "Chip_ChipKind \<Rightarrow> 'u Startup_Chip \<Rightarrow> 'u Startup_Chip" where
  "Startup_Chip_set_kind v m = m\<lparr>Startup_Chip_kind := v\<rparr>"
definition Startup_Chip_get_id :: "'u Startup_Chip \<Rightarrow> string" where
  "Startup_Chip_get_id m = Startup_Chip_id m"
definition Startup_Chip_clear_id :: "'u Startup_Chip \<Rightarrow> 'u Startup_Chip" where
  "Startup_Chip_clear_id m = m\<lparr>Startup_Chip_id := []\<rparr>"
definition Startup_Chip_set_id :: "string \<Rightarrow> 'u Startup_Chip \<Rightarrow> 'u Startup_Chip" where
  "Startup_Chip_set_id v m = m\<lparr>Startup_Chip_id := v\<rparr>"
definition Startup_Chip_mut_id :: "(string \<Rightarrow> string) \<Rightarrow> 'u Startup_Chip \<Rightarrow> 'u Startup_Chip" where
  "Startup_Chip_mut_id g m = m\<lparr>Startup_Chip_id := g (Startup_Chip_id m)\<rparr>"
definition Startup_Chip_take_id :: "'u Startup_Chip \<Rightarrow> string \<times> 'u Startup_Chip" where
  "Startup_Chip_take_id m = (Startup_Chip_id m, m\<lparr>Startup_Chip_id := []\<rparr>)"
definition Startup_Chip_get_manufacturer :: "'u Startup_Chip \<Rightarrow> string" where
  "Startup_Chip_get_manufacturer m = Startup_Chip_manufacturer m"
definition Startup_Chip_clear_manufacturer :: "'u Startup_Chip \<Rightarrow> 'u Startup_Chip" where
  "Startup_Chip_clear_manufacturer m = m\<lparr>Startup_Chip_manufacturer := []\<rparr>"
definition Startup_Chip_set_manufacturer :: "string \<Rightarrow> 'u Startup_Chip \<Rightarrow> 'u Startup_Chip" where
  "Startup_Chip_set_manufacturer v m = m\<lparr>Startup_Chip_manufacturer := v\<rparr>"
definition Startup_Chip_mut_manufacturer :: "(string \<Rightarrow> string) \<Rightarrow> 'u Startup_Chip \<Rightarrow> 'u Startup_Chip" where
  "Startup_Chip_mut_manufacturer g m = m\<lparr>Startup_Chip_manufacturer := g (Startup_Chip_manufacturer m)\<rparr>"
definition Startup_Chip_take_manufacturer :: "'u Startup_Chip \<Rightarrow> string \<times> 'u Startup_Chip" where
  "Startup_Chip_take_manufacturer m = (Startup_Chip_manufacturer m, m\<lparr>Startup_Chip_manufacturer := []\<rparr>)"
definition Startup_Chip_get_model :: "'u Startup_Chip \<Rightarrow> string" where
  "Startup_Chip_get_model m = Startup_Chip_model m"
definition Startup_Chip_clear_model :: "'u Startup_Chip \<Rightarrow> 'u Startup_Chip" where
  "Startup_Chip_clear_model m = m\<lparr>Startup_Chip_model := []\<rparr>"
definition Startup_Chip_set_model :: "string \<Rightarrow> 'u Startup_Chip \<Rightarrow> 'u Startup_Chip" where
  "Startup_Chip_set_model v m = m\<lparr>Startup_Chip_model := v\<rparr>"
definition Startup_Chip_mut_model :: "(string \<Rightarrow> string) \<Rightarrow> 'u Startup_Chip \<Rightarrow> 'u Startup_Chip" where
  "Startup_Chip_mut_model g m = m\<lparr>Startup_Chip_model := g (Startup_Chip_model m)\<rparr>"
definition Startup_Chip_take_model :: "'u Startup_Chip \<Rightarrow> string \<times> 'u Startup_Chip" where
  "Startup_Chip_take_model m = (Startup_Chip_model m, m\<lparr>Startup_Chip_model := []\<rparr>)"
definition Startup_Chip_get_fd_in :: "'u Startup_Chip \<Rightarrow> i32" where
  "Startup_Chip_get_fd_in m = Startup_Chip_fd_in m"
definition Startup_Chip_clear_fd_in :: "'u Startup_Chip \<Rightarrow> 'u Startup_Chip" where
  "Startup_Chip_clear_fd_in m = m\<lparr>Startup_Chip_fd_in := 0\<rparr>"
definition Startup_Chip_set_fd_in :: "i32 \<Rightarrow> 'u Startup_Chip \<Rightarrow> 'u Startup_Chip" where
  "Startup_Chip_set_fd_in v m = m\<lparr>Startup_Chip_fd_in := v\<rparr>"
definition Startup_Chip_get_fd_out :: "'u Startup_Chip \<Rightarrow> i32" where
  "Startup_Chip_get_fd_out m = Startup_Chip_fd_out m"
definition Startup_Chip_clear_fd_out :: "'u Startup_Chip \<Rightarrow> 'u Startup_Chip" where
  "Startup_Chip_clear_fd_out m = m\<lparr>Startup_Chip_fd_out := 0\<rparr>"
definition Startup_Chip_set_fd_out :: "i32 \<Rightarrow> 'u Startup_Chip \<Rightarrow> 'u Startup_Chip" where
  "Startup_Chip_set_fd_out v m = m\<lparr>Startup_Chip_fd_out := v\<rparr>"
definition Startup_Chip_get_loopback :: "'u Startup_Chip \<Rightarrow> bool" where
  "Startup_Chip_get_loopback m = Startup_Chip_loopback m"
definition Startup_Chip_clear_loopback :: "'u Startup_Chip \<Rightarrow> 'u Startup_Chip" where
  "Startup_Chip_clear_loopback m = m\<lparr>Startup_Chip_loopback := False\<rparr>"
definition Startup_Chip_set_loopback :: "bool \<Rightarrow> 'u Startup_Chip \<Rightarrow> 'u Startup_Chip" where
  "Startup_Chip_set_loopback v m = m\<lparr>Startup_Chip_loopback := v\<rparr>"

definition Startup_Chip_is_initialized :: "'u Startup_Chip \<Rightarrow> bool" where
  "Startup_Chip_is_initialized m = True"

definition Startup_Chip_merge_step :: "'u protobuf_rt \<Rightarrow> 'u Startup_Chip \<Rightarrow> bytes \<Rightarrow> 'u Startup_Chip reads" where
  "Startup_Chip_merge_step W m is =
     bindE (rt_tag W is) (\<lambda>((field_number, wire_type), is).
       if field_number = 1 then
         bindE (read_enum_into W Chip_ChipKind_from_i32 wire_type is (Startup_Chip_kind m) 1 (unknown_fields m))
          (\<lambda>((v, u), is). Ok (m\<lparr>Startup_Chip_kind := v, unknown_fields := u\<rparr>, is))
       else if field_number = 2 then
         bindE (rt_string_into W wire_type is) (\<lambda>(s, is). Ok (m\<lparr>Startup_Chip_id := s\<rparr>, is))
       else if field_number = 3 then
         bindE (rt_string_into W wire_type is) (\<lambda>(s, is). Ok (m\<lparr>Startup_Chip_manufacturer := s\<rparr>, is))
       else if field_number = 4 then
         bindE (rt_string_into W wire_type is) (\<lambda>(s, is). Ok (m\<lparr>Startup_Chip_model := s\<rparr>, is))
       else if field_number = 5 then
         expect_wire WireTypeVarint wire_type
          (bindE (rt_int32 W is) (\<lambda>(tmp, is). Ok (m\<lparr>Startup_Chip_fd_in := tmp\<rparr>, is)))
       else if field_number = 6 then
         expect_wire WireTypeVarint wire_type
          (bindE (rt_int32 W is) (\<lambda>(tmp, is). Ok (m\<lparr>Startup_Chip_fd_out := tmp\<rparr>, is)))
       else if field_number = 7 then
         expect_wire WireTypeVarint wire_type
          (bindE (rt_bool W is) (\<lambda>(tmp, is). Ok (m\<lparr>Startup_Chip_loopback := tmp\<rparr>, is)))
       else bindE (rt_unknown W field_number wire_type is (unknown_fields m))
         (\<lambda>(u, is). Ok (m\<lparr>unknown_fields := u\<rparr>, is)))"

definition Startup_Chip_merge_from :: "'u protobuf_rt \<Rightarrow> 'u Startup_Chip \<Rightarrow> bytes \<Rightarrow> pb_error + 'u Startup_Chip" where
  "Startup_Chip_merge_from W = merge_loop (Startup_Chip_merge_step W)"

definition Startup_Chip_compute_size :: "'u protobuf_rt \<Rightarrow> 'u Startup_Chip \<Rightarrow> u32 \<times> 'u Startup_Chip" where
  "Startup_Chip_compute_size W m =
     (let my_size = 0;
          my_size = (if Startup_Chip_kind m \<noteq> Chip_ChipKind_UNSPECIFIED then my_size + sz_enum W 1 (Chip_ChipKind_value (Startup_Chip_kind m)) else my_size);
          my_size = (if Startup_Chip_id m \<noteq> [] then my_size + sz_string W 2 (Startup_Chip_id m) else my_size);
          my_size = (if Startup_Chip_manufacturer m \<noteq> [] then my_size + sz_string W 3 (Startup_Chip_manufacturer m) else my_size);
          my_size = (if Startup_Chip_model m \<noteq> [] then my_size + sz_string W 4 (Startup_Chip_model m) else my_size);
          my_size = (if Startup_Chip_fd_in m \<noteq> 0 then my_size + sz_int32 W 5 (Startup_Chip_fd_in m) else my_size);
          my_size = (if Startup_Chip_fd_out m \<noteq> 0 then my_size + sz_int32 W 6 (Startup_Chip_fd_out m) else my_size);
          my_size = (if Startup_Chip_loopback m then my_size + 2 else my_size);
          my_size = my_size + uf_size W (unknown_fields m)
      in (my_size, m\<lparr>cached_size := my_size\<rparr>))"

definition Startup_Chip_write_to_with_cached_sizes :: "'u protobuf_rt \<Rightarrow> 'u Startup_Chip \<Rightarrow> bytes" where
  "Startup_Chip_write_to_with_cached_sizes W m =
     (if Startup_Chip_kind m \<noteq> Chip_ChipKind_UNSPECIFIED then os_enum W 1 (Chip_ChipKind_value (Startup_Chip_kind m)) else []) @
     (if Startup_Chip_id m \<noteq> [] then os_string W 2 (Startup_Chip_id m) else []) @
     (if Startup_Chip_manufacturer m \<noteq> [] then os_string W 3 (Startup_Chip_manufacturer m) else []) @
     (if Startup_Chip_model m \<noteq> [] then os_string W 4 (Startup_Chip_model m) else []) @
     (if Startup_Chip_fd_in m \<noteq> 0 then os_int32 W 5 (Startup_Chip_fd_in m) else []) @
     (if Startup_Chip_fd_out m \<noteq> 0 then os_int32 W 6 (Startup_Chip_fd_out m) else []) @
     (if Startup_Chip_loopback m then os_bool W 7 (Startup_Chip_loopback m) else []) @
     os_unknown W (unknown_fields m)"

definition Startup_Chip_get_cached_size :: "'u Startup_Chip \<Rightarrow> u32" where
  "Startup_Chip_get_cached_size m = cached_size m"

definition Startup_Chip_clear :: "'u protobuf_rt \<Rightarrow> 'u Startup_Chip \<Rightarrow> 'u Startup_Chip" where
  "Startup_Chip_clear W m = m\<lparr>Startup_Chip_kind := Chip_ChipKind_UNSPECIFIED, Startup_Chip_id := [], Startup_Chip_manufacturer := [], Startup_Chip_model := [], Startup_Chip_fd_in := 0, Startup_Chip_fd_out := 0, Startup_Chip_loopback := False, unknown_fields := uf_new W\<rparr>"

text \<open>Values Rust can hold, without unknown fields, and what a reader gets back.\<close>

definition Startup_Chip_wf :: "'u protobuf_rt \<Rightarrow> 'u Startup_Chip \<Rightarrow> bool" where
  "Startup_Chip_wf W m \<longleftrightarrow>
     unknown_fields m = uf_new W \<and>
     utf8 (Startup_Chip_id m) \<and>
     utf8 (Startup_Chip_manufacturer m) \<and>
     utf8 (Startup_Chip_model m)"

definition Startup_Chip_canon :: "'u Startup_Chip \<Rightarrow> 'u Startup_Chip" where
  "Startup_Chip_canon m = m\<lparr>cached_size := 0\<rparr>"

text \<open>The message after an encoding of \<open>m\<close> has been read into it.\<close>

definition Startup_Chip_join :: "'u protobuf_rt \<Rightarrow> 'u Startup_Chip \<Rightarrow> 'u Startup_Chip \<Rightarrow> 'u Startup_Chip" where
  "Startup_Chip_join W a m = a\<lparr>Startup_Chip_kind := join_scalar Chip_ChipKind_UNSPECIFIED (Startup_Chip_kind a) (Startup_Chip_kind m),
     Startup_Chip_id := join_scalar [] (Startup_Chip_id a) (Startup_Chip_id m),
     Startup_Chip_manufacturer := join_scalar [] (Startup_Chip_manufacturer a) (Startup_Chip_manufacturer m),
     Startup_Chip_model := join_scalar [] (Startup_Chip_model a) (Startup_Chip_model m),
     Startup_Chip_fd_in := join_scalar 0 (Startup_Chip_fd_in a) (Startup_Chip_fd_in m),
     Startup_Chip_fd_out := join_scalar 0 (Startup_Chip_fd_out a) (Startup_Chip_fd_out m),
     Startup_Chip_loopback := join_scalar False (Startup_Chip_loopback a) (Startup_Chip_loopback m)\<rparr>"

context protobuf_runtime
begin

lemma Startup_Chip_sized:
  "snd (Startup_Chip_compute_size W m) =
     m\<lparr>cached_size := fst (Startup_Chip_compute_size W m)\<rparr>"
  by (simp add: Startup_Chip_compute_size_def Let_def case_prod_beta)

lemma Startup_Chip_size_exact:
  "fst (Startup_Chip_compute_size W m) = of_nat (length (Startup_Chip_write_to_with_cached_sizes W (snd (Startup_Chip_compute_size W m))))"
  by (simp add: Startup_Chip_compute_size_def Startup_Chip_sized Startup_Chip_write_to_with_cached_sizes_def Let_def case_prod_beta size_chain size_laws
      small_field_def)

lemma Startup_Chip_takes: "takes 1 is (Startup_Chip_merge_step W m is)"
  unfolding Startup_Chip_merge_step_def
  by (rule takes_bind, rule takes_laws) (auto intro!: takes_bind takes_expect takes_laws takes_read_enum split: prod.splits)

lemma Startup_Chip_joins:
  assumes wf: "Startup_Chip_wf W m" and len: "length (Startup_Chip_write_to_with_cached_sizes W (snd (Startup_Chip_compute_size W m))) < 2 ^ 32"
  shows "consumes (Startup_Chip_merge_step W) a (Startup_Chip_write_to_with_cached_sizes W (snd (Startup_Chip_compute_size W m))) (Startup_Chip_join W a m)"
proof -
  let ?s = "\<lambda>v1 v2 v3 v4 v5 v6 v7. \<lparr>unknown_fields = unknown_fields a, cached_size = cached_size a, Startup_Chip_kind = v1, Startup_Chip_id = v2, Startup_Chip_manufacturer = v3, Startup_Chip_model = v4, Startup_Chip_fd_in = v5, Startup_Chip_fd_out = v6, Startup_Chip_loopback = v7\<rparr>"
  have w: "Startup_Chip_write_to_with_cached_sizes W (snd (Startup_Chip_compute_size W m)) =
    (if Startup_Chip_kind m \<noteq> Chip_ChipKind_UNSPECIFIED then os_enum W 1 (Chip_ChipKind_value (Startup_Chip_kind m)) else []) @
    (if Startup_Chip_id m \<noteq> [] then os_string W 2 (Startup_Chip_id m) else []) @
    (if Startup_Chip_manufacturer m \<noteq> [] then os_string W 3 (Startup_Chip_manufacturer m) else []) @
    (if Startup_Chip_model m \<noteq> [] then os_string W 4 (Startup_Chip_model m) else []) @
    (if Startup_Chip_fd_in m \<noteq> 0 then os_int32 W 5 (Startup_Chip_fd_in m) else []) @
    (if Startup_Chip_fd_out m \<noteq> 0 then os_int32 W 6 (Startup_Chip_fd_out m) else []) @
    (if Startup_Chip_loopback m then os_bool W 7 (Startup_Chip_loopback m) else [])"
    using wf by (simp add: Startup_Chip_sized Startup_Chip_write_to_with_cached_sizes_def Startup_Chip_wf_def unknown_none)
  note l1 = len [unfolded w]
  note l2 = length_rest [OF l1]
  note l3 = length_rest [OF l2]
  note l4 = length_rest [OF l3]
  note l5 = length_rest [OF l4]
  note l6 = length_rest [OF l5]
  note l7 = length_rest [OF l6]
  have 1: "consumes (Startup_Chip_merge_step W) (?s (Startup_Chip_kind a) (Startup_Chip_id a) (Startup_Chip_manufacturer a) (Startup_Chip_model a) (Startup_Chip_fd_in a) (Startup_Chip_fd_out a) (Startup_Chip_loopback a))
    ((if Startup_Chip_kind m \<noteq> Chip_ChipKind_UNSPECIFIED then os_enum W 1 (Chip_ChipKind_value (Startup_Chip_kind m)) else []))
    (?s (join_scalar Chip_ChipKind_UNSPECIFIED (Startup_Chip_kind a) (Startup_Chip_kind m)) (Startup_Chip_id a) (Startup_Chip_manufacturer a) (Startup_Chip_model a) (Startup_Chip_fd_in a) (Startup_Chip_fd_out a) (Startup_Chip_loopback a))"
    by (rule consumes_enum [where upd = "\<lambda>v u. \<lparr>unknown_fields = u, cached_size = cached_size a, Startup_Chip_kind = v, Startup_Chip_id = (Startup_Chip_id a), Startup_Chip_manufacturer = (Startup_Chip_manufacturer a), Startup_Chip_model = (Startup_Chip_model a), Startup_Chip_fd_in = (Startup_Chip_fd_in a), Startup_Chip_fd_out = (Startup_Chip_fd_out a), Startup_Chip_loopback = (Startup_Chip_loopback a)\<rparr>" and t = "Startup_Chip_kind a"
        and conv = Chip_ChipKind_from_i32 and u = "unknown_fields a"])
      (simp_all add: Startup_Chip_merge_step_def expect_wire_def small_field_def)
  have 2: "consumes (Startup_Chip_merge_step W) (?s (join_scalar Chip_ChipKind_UNSPECIFIED (Startup_Chip_kind a) (Startup_Chip_kind m)) (Startup_Chip_id a) (Startup_Chip_manufacturer a) (Startup_Chip_model a) (Startup_Chip_fd_in a) (Startup_Chip_fd_out a) (Startup_Chip_loopback a))
    ((if Startup_Chip_id m \<noteq> [] then os_string W 2 (Startup_Chip_id m) else []))
    (?s (join_scalar Chip_ChipKind_UNSPECIFIED (Startup_Chip_kind a) (Startup_Chip_kind m)) (join_scalar [] (Startup_Chip_id a) (Startup_Chip_id m)) (Startup_Chip_manufacturer a) (Startup_Chip_model a) (Startup_Chip_fd_in a) (Startup_Chip_fd_out a) (Startup_Chip_loopback a))"
    by (rule consumes_string [where upd = "\<lambda>v. ?s (join_scalar Chip_ChipKind_UNSPECIFIED (Startup_Chip_kind a) (Startup_Chip_kind m)) v (Startup_Chip_manufacturer a) (Startup_Chip_model a) (Startup_Chip_fd_in a) (Startup_Chip_fd_out a) (Startup_Chip_loopback a)"])
      (use wf length_first [OF l2] in \<open>simp_all add: Startup_Chip_merge_step_def expect_wire_def small_field_def Startup_Chip_wf_def\<close>)
  have 3: "consumes (Startup_Chip_merge_step W) (?s (join_scalar Chip_ChipKind_UNSPECIFIED (Startup_Chip_kind a) (Startup_Chip_kind m)) (join_scalar [] (Startup_Chip_id a) (Startup_Chip_id m)) (Startup_Chip_manufacturer a) (Startup_Chip_model a) (Startup_Chip_fd_in a) (Startup_Chip_fd_out a) (Startup_Chip_loopback a))
    ((if Startup_Chip_manufacturer m \<noteq> [] then os_string W 3 (Startup_Chip_manufacturer m) else []))
    (?s (join_scalar Chip_ChipKind_UNSPECIFIED (Startup_Chip_kind a) (Startup_Chip_kind m)) (join_scalar [] (Startup_Chip_id a) (Startup_Chip_id m)) (join_scalar [] (Startup_Chip_manufacturer a) (Startup_Chip_manufacturer m)) (Startup_Chip_model a) (Startup_Chip_fd_in a) (Startup_Chip_fd_out a) (Startup_Chip_loopback a))"
    by (rule consumes_string [where upd = "\<lambda>v. ?s (join_scalar Chip_ChipKind_UNSPECIFIED (Startup_Chip_kind a) (Startup_Chip_kind m)) (join_scalar [] (Startup_Chip_id a) (Startup_Chip_id m)) v (Startup_Chip_model a) (Startup_Chip_fd_in a) (Startup_Chip_fd_out a) (Startup_Chip_loopback a)"])
      (use wf length_first [OF l3] in \<open>simp_all add: Startup_Chip_merge_step_def expect_wire_def small_field_def Startup_Chip_wf_def\<close>)
  have 4: "consumes (Startup_Chip_merge_step W) (?s (join_scalar Chip_ChipKind_UNSPECIFIED (Startup_Chip_kind a) (Startup_Chip_kind m)) (join_scalar [] (Startup_Chip_id a) (Startup_Chip_id m)) (join_scalar [] (Startup_Chip_manufacturer a) (Startup_Chip_manufacturer m)) (Startup_Chip_model a) (Startup_Chip_fd_in a) (Startup_Chip_fd_out a) (Startup_Chip_loopback a))
    ((if Startup_Chip_model m \<noteq> [] then os_string W 4 (Startup_Chip_model m) else []))
    (?s (join_scalar Chip_ChipKind_UNSPECIFIED (Startup_Chip_kind a) (Startup_Chip_kind m)) (join_scalar [] (Startup_Chip_id a) (Startup_Chip_id m)) (join_scalar [] (Startup_Chip_manufacturer a) (Startup_Chip_manufacturer m)) (join_scalar [] (Startup_Chip_model a) (Startup_Chip_model m)) (Startup_Chip_fd_in a) (Startup_Chip_fd_out a) (Startup_Chip_loopback a))"
    by (rule consumes_string [where upd = "\<lambda>v. ?s (join_scalar Chip_ChipKind_UNSPECIFIED (Startup_Chip_kind a) (Startup_Chip_kind m)) (join_scalar [] (Startup_Chip_id a) (Startup_Chip_id m)) (join_scalar [] (Startup_Chip_manufacturer a) (Startup_Chip_manufacturer m)) v (Startup_Chip_fd_in a) (Startup_Chip_fd_out a) (Startup_Chip_loopback a)"])
      (use wf length_first [OF l4] in \<open>simp_all add: Startup_Chip_merge_step_def expect_wire_def small_field_def Startup_Chip_wf_def\<close>)
  have 5: "consumes (Startup_Chip_merge_step W) (?s (join_scalar Chip_ChipKind_UNSPECIFIED (Startup_Chip_kind a) (Startup_Chip_kind m)) (join_scalar [] (Startup_Chip_id a) (Startup_Chip_id m)) (join_scalar [] (Startup_Chip_manufacturer a) (Startup_Chip_manufacturer m)) (join_scalar [] (Startup_Chip_model a) (Startup_Chip_model m)) (Startup_Chip_fd_in a) (Startup_Chip_fd_out a) (Startup_Chip_loopback a))
    ((if Startup_Chip_fd_in m \<noteq> 0 then os_int32 W 5 (Startup_Chip_fd_in m) else []))
    (?s (join_scalar Chip_ChipKind_UNSPECIFIED (Startup_Chip_kind a) (Startup_Chip_kind m)) (join_scalar [] (Startup_Chip_id a) (Startup_Chip_id m)) (join_scalar [] (Startup_Chip_manufacturer a) (Startup_Chip_manufacturer m)) (join_scalar [] (Startup_Chip_model a) (Startup_Chip_model m)) (join_scalar 0 (Startup_Chip_fd_in a) (Startup_Chip_fd_in m)) (Startup_Chip_fd_out a) (Startup_Chip_loopback a))"
    by (rule consumes_int32 [where upd = "\<lambda>v. ?s (join_scalar Chip_ChipKind_UNSPECIFIED (Startup_Chip_kind a) (Startup_Chip_kind m)) (join_scalar [] (Startup_Chip_id a) (Startup_Chip_id m)) (join_scalar [] (Startup_Chip_manufacturer a) (Startup_Chip_manufacturer m)) (join_scalar [] (Startup_Chip_model a) (Startup_Chip_model m)) v (Startup_Chip_fd_out a) (Startup_Chip_loopback a)"]) (simp_all add: Startup_Chip_merge_step_def expect_wire_def small_field_def)
  have 6: "consumes (Startup_Chip_merge_step W) (?s (join_scalar Chip_ChipKind_UNSPECIFIED (Startup_Chip_kind a) (Startup_Chip_kind m)) (join_scalar [] (Startup_Chip_id a) (Startup_Chip_id m)) (join_scalar [] (Startup_Chip_manufacturer a) (Startup_Chip_manufacturer m)) (join_scalar [] (Startup_Chip_model a) (Startup_Chip_model m)) (join_scalar 0 (Startup_Chip_fd_in a) (Startup_Chip_fd_in m)) (Startup_Chip_fd_out a) (Startup_Chip_loopback a))
    ((if Startup_Chip_fd_out m \<noteq> 0 then os_int32 W 6 (Startup_Chip_fd_out m) else []))
    (?s (join_scalar Chip_ChipKind_UNSPECIFIED (Startup_Chip_kind a) (Startup_Chip_kind m)) (join_scalar [] (Startup_Chip_id a) (Startup_Chip_id m)) (join_scalar [] (Startup_Chip_manufacturer a) (Startup_Chip_manufacturer m)) (join_scalar [] (Startup_Chip_model a) (Startup_Chip_model m)) (join_scalar 0 (Startup_Chip_fd_in a) (Startup_Chip_fd_in m)) (join_scalar 0 (Startup_Chip_fd_out a) (Startup_Chip_fd_out m)) (Startup_Chip_loopback a))"
    by (rule consumes_int32 [where upd = "\<lambda>v. ?s (join_scalar Chip_ChipKind_UNSPECIFIED (Startup_Chip_kind a) (Startup_Chip_kind m)) (join_scalar [] (Startup_Chip_id a) (Startup_Chip_id m)) (join_scalar [] (Startup_Chip_manufacturer a) (Startup_Chip_manufacturer m)) (join_scalar [] (Startup_Chip_model a) (Startup_Chip_model m)) (join_scalar 0 (Startup_Chip_fd_in a) (Startup_Chip_fd_in m)) v (Startup_Chip_loopback a)"]) (simp_all add: Startup_Chip_merge_step_def expect_wire_def small_field_def)
  have 7: "consumes (Startup_Chip_merge_step W) (?s (join_scalar Chip_ChipKind_UNSPECIFIED (Startup_Chip_kind a) (Startup_Chip_kind m)) (join_scalar [] (Startup_Chip_id a) (Startup_Chip_id m)) (join_scalar [] (Startup_Chip_manufacturer a) (Startup_Chip_manufacturer m)) (join_scalar [] (Startup_Chip_model a) (Startup_Chip_model m)) (join_scalar 0 (Startup_Chip_fd_in a) (Startup_Chip_fd_in m)) (join_scalar 0 (Startup_Chip_fd_out a) (Startup_Chip_fd_out m)) (Startup_Chip_loopback a))
    ((if Startup_Chip_loopback m then os_bool W 7 (Startup_Chip_loopback m) else []))
    (?s (join_scalar Chip_ChipKind_UNSPECIFIED (Startup_Chip_kind a) (Startup_Chip_kind m)) (join_scalar [] (Startup_Chip_id a) (Startup_Chip_id m)) (join_scalar [] (Startup_Chip_manufacturer a) (Startup_Chip_manufacturer m)) (join_scalar [] (Startup_Chip_model a) (Startup_Chip_model m)) (join_scalar 0 (Startup_Chip_fd_in a) (Startup_Chip_fd_in m)) (join_scalar 0 (Startup_Chip_fd_out a) (Startup_Chip_fd_out m)) (join_scalar False (Startup_Chip_loopback a) (Startup_Chip_loopback m)))"
    by (rule consumes_bool [where upd = "\<lambda>v. ?s (join_scalar Chip_ChipKind_UNSPECIFIED (Startup_Chip_kind a) (Startup_Chip_kind m)) (join_scalar [] (Startup_Chip_id a) (Startup_Chip_id m)) (join_scalar [] (Startup_Chip_manufacturer a) (Startup_Chip_manufacturer m)) (join_scalar [] (Startup_Chip_model a) (Startup_Chip_model m)) (join_scalar 0 (Startup_Chip_fd_in a) (Startup_Chip_fd_in m)) (join_scalar 0 (Startup_Chip_fd_out a) (Startup_Chip_fd_out m)) v"]) (simp_all add: Startup_Chip_merge_step_def expect_wire_def small_field_def)
  note all = consumes_append [OF 1 consumes_append [OF 2 consumes_append [OF 3 consumes_append [OF 4 consumes_append [OF 5 consumes_append [OF 6 7]]]]]]
  have start: "?s (Startup_Chip_kind a) (Startup_Chip_id a) (Startup_Chip_manufacturer a) (Startup_Chip_model a) (Startup_Chip_fd_in a) (Startup_Chip_fd_out a) (Startup_Chip_loopback a) = a"
    by (cases a) simp
  have joined: "?s (join_scalar Chip_ChipKind_UNSPECIFIED (Startup_Chip_kind a) (Startup_Chip_kind m)) (join_scalar [] (Startup_Chip_id a) (Startup_Chip_id m)) (join_scalar [] (Startup_Chip_manufacturer a) (Startup_Chip_manufacturer m)) (join_scalar [] (Startup_Chip_model a) (Startup_Chip_model m)) (join_scalar 0 (Startup_Chip_fd_in a) (Startup_Chip_fd_in m)) (join_scalar 0 (Startup_Chip_fd_out a) (Startup_Chip_fd_out m)) (join_scalar False (Startup_Chip_loopback a) (Startup_Chip_loopback m)) = Startup_Chip_join W a m"
    by (cases a) (simp add: Startup_Chip_join_def)
  show ?thesis
    unfolding w by (rule all [unfolded start joined])
qed

end

sublocale protobuf_runtime < Startup_Chip: pb_message W "Startup_Chip_new W" Startup_Chip_is_initialized "Startup_Chip_compute_size W"
    "Startup_Chip_write_to_with_cached_sizes W" Startup_Chip_get_cached_size "Startup_Chip_merge_from W" "Startup_Chip_wf W" Startup_Chip_canon "Startup_Chip_join W"
proof unfold_locales
  show "fst (Startup_Chip_compute_size W m) = of_nat (length (Startup_Chip_write_to_with_cached_sizes W (snd (Startup_Chip_compute_size W m))))" for m
    by (rule Startup_Chip_size_exact)
  show "Startup_Chip_get_cached_size (snd (Startup_Chip_compute_size W m)) = fst (Startup_Chip_compute_size W m)" for m
    by (simp add: Startup_Chip_get_cached_size_def Startup_Chip_sized)
  show "Startup_Chip_is_initialized m" for m :: "'u Startup_Chip"
    by (simp add: Startup_Chip_is_initialized_def list_all_iff)
  show "Startup_Chip_merge_from W a (Startup_Chip_write_to_with_cached_sizes W (snd (Startup_Chip_compute_size W m)) @ r) = Startup_Chip_merge_from W (Startup_Chip_join W a m) r"
    if "Startup_Chip_wf W m" "length (Startup_Chip_write_to_with_cached_sizes W (snd (Startup_Chip_compute_size W m))) < 2 ^ 32" for a m r
    using Startup_Chip_joins [OF that] by (simp add: consumes_def Startup_Chip_merge_from_def)
  show "Startup_Chip_join W (Startup_Chip_new W) m = Startup_Chip_canon m" if "Startup_Chip_wf W m" for m
    using that by (cases m) (simp add: Startup_Chip_join_def Startup_Chip_new_def Startup_Chip_canon_def Startup_Chip_wf_def)
  show "Startup_Chip_merge_from W m [] = Inr m" for m
    by (simp add: Startup_Chip_merge_from_def)
  show "Startup_Chip_merge_from W m is \<noteq> Inl NoProgress" for m "is"
    unfolding Startup_Chip_merge_from_def by (rule merge_loop_progress) (rule Startup_Chip_takes)
qed

section \<open>\<^verbatim>\<open>StartupInfo_Device\<close>\<close>

record 'u StartupInfo_Device = "'u pb_special" +
  StartupInfo_Device_serial :: string
  StartupInfo_Device_chips :: "'u Startup_Chip list"

definition StartupInfo_Device_new :: "'u protobuf_rt \<Rightarrow> 'u StartupInfo_Device" where
  "StartupInfo_Device_new W =
     \<lparr>unknown_fields = uf_new W, cached_size = 0,
      StartupInfo_Device_serial = [], StartupInfo_Device_chips = []\<rparr>"

definition StartupInfo_Device_get_serial :: "'u StartupInfo_Device \<Rightarrow> string" where
  "StartupInfo_Device_get_serial m = StartupInfo_Device_serial m"
definition StartupInfo_Device_clear_serial :: "'u StartupInfo_Device \<Rightarrow> 'u StartupInfo_Device" where
  "StartupInfo_Device_clear_serial m = m\<lparr>StartupInfo_Device_serial := []\<rparr>"
definition StartupInfo_Device_set_serial :: "string \<Rightarrow> 'u StartupInfo_Device \<Rightarrow> 'u StartupInfo_Device" where
  "StartupInfo_Device_set_serial v m = m\<lparr>StartupInfo_Device_serial := v\<rparr>"
definition StartupInfo_Device_mut_serial :: "(string \<Rightarrow> string) \<Rightarrow> 'u StartupInfo_Device \<Rightarrow> 'u StartupInfo_Device" where
  "StartupInfo_Device_mut_serial g m = m\<lparr>StartupInfo_Device_serial := g (StartupInfo_Device_serial m)\<rparr>"
definition StartupInfo_Device_take_serial :: "'u StartupInfo_Device \<Rightarrow> string \<times> 'u StartupInfo_Device" where
  "StartupInfo_Device_take_serial m = (StartupInfo_Device_serial m, m\<lparr>StartupInfo_Device_serial := []\<rparr>)"
definition StartupInfo_Device_get_chips :: "'u StartupInfo_Device \<Rightarrow> 'u Startup_Chip list" where
  "StartupInfo_Device_get_chips m = StartupInfo_Device_chips m"
definition StartupInfo_Device_clear_chips :: "'u StartupInfo_Device \<Rightarrow> 'u StartupInfo_Device" where
  "StartupInfo_Device_clear_chips m = m\<lparr>StartupInfo_Device_chips := []\<rparr>"
definition StartupInfo_Device_set_chips :: "'u Startup_Chip list \<Rightarrow> 'u StartupInfo_Device \<Rightarrow> 'u StartupInfo_Device" where
  "StartupInfo_Device_set_chips v m = m\<lparr>StartupInfo_Device_chips := v\<rparr>"
definition StartupInfo_Device_mut_chips :: "('u Startup_Chip list \<Rightarrow> 'u Startup_Chip list) \<Rightarrow> 'u StartupInfo_Device \<Rightarrow> 'u StartupInfo_Device" where
  "StartupInfo_Device_mut_chips g m = m\<lparr>StartupInfo_Device_chips := g (StartupInfo_Device_chips m)\<rparr>"
definition StartupInfo_Device_take_chips :: "'u StartupInfo_Device \<Rightarrow> 'u Startup_Chip list \<times> 'u StartupInfo_Device" where
  "StartupInfo_Device_take_chips m = (StartupInfo_Device_chips m, m\<lparr>StartupInfo_Device_chips := []\<rparr>)"

definition StartupInfo_Device_is_initialized :: "'u StartupInfo_Device \<Rightarrow> bool" where
  "StartupInfo_Device_is_initialized m =
     (list_all Startup_Chip_is_initialized (StartupInfo_Device_chips m))"

definition StartupInfo_Device_merge_step :: "'u protobuf_rt \<Rightarrow> 'u StartupInfo_Device \<Rightarrow> bytes \<Rightarrow> 'u StartupInfo_Device reads" where
  "StartupInfo_Device_merge_step W m is =
     bindE (rt_tag W is) (\<lambda>((field_number, wire_type), is).
       if field_number = 1 then
         bindE (rt_string_into W wire_type is) (\<lambda>(s, is). Ok (m\<lparr>StartupInfo_Device_serial := s\<rparr>, is))
       else if field_number = 2 then
         bindE (read_repeated_message_into W (Startup_Chip_new W) (Startup_Chip_merge_from W) wire_type is (StartupInfo_Device_chips m))
          (\<lambda>(v, is). Ok (m\<lparr>StartupInfo_Device_chips := v\<rparr>, is))
       else bindE (rt_unknown W field_number wire_type is (unknown_fields m))
         (\<lambda>(u, is). Ok (m\<lparr>unknown_fields := u\<rparr>, is)))"

definition StartupInfo_Device_merge_from :: "'u protobuf_rt \<Rightarrow> 'u StartupInfo_Device \<Rightarrow> bytes \<Rightarrow> pb_error + 'u StartupInfo_Device" where
  "StartupInfo_Device_merge_from W = merge_loop (StartupInfo_Device_merge_step W)"

definition StartupInfo_Device_compute_size :: "'u protobuf_rt \<Rightarrow> 'u StartupInfo_Device \<Rightarrow> u32 \<times> 'u StartupInfo_Device" where
  "StartupInfo_Device_compute_size W m =
     (let my_size = 0;
          my_size = (if StartupInfo_Device_serial m \<noteq> [] then my_size + sz_string W 1 (StartupInfo_Device_serial m) else my_size);
          (n, chips) = repeated_size W (Startup_Chip_compute_size W) (StartupInfo_Device_chips m); my_size = my_size + n;
          my_size = my_size + uf_size W (unknown_fields m)
      in (my_size, m\<lparr>StartupInfo_Device_chips := chips, cached_size := my_size\<rparr>))"

definition StartupInfo_Device_write_to_with_cached_sizes :: "'u protobuf_rt \<Rightarrow> 'u StartupInfo_Device \<Rightarrow> bytes" where
  "StartupInfo_Device_write_to_with_cached_sizes W m =
     (if StartupInfo_Device_serial m \<noteq> [] then os_string W 1 (StartupInfo_Device_serial m) else []) @
     os_repeated W 2 Startup_Chip_get_cached_size (Startup_Chip_write_to_with_cached_sizes W) (StartupInfo_Device_chips m) @
     os_unknown W (unknown_fields m)"

definition StartupInfo_Device_get_cached_size :: "'u StartupInfo_Device \<Rightarrow> u32" where
  "StartupInfo_Device_get_cached_size m = cached_size m"

definition StartupInfo_Device_clear :: "'u protobuf_rt \<Rightarrow> 'u StartupInfo_Device \<Rightarrow> 'u StartupInfo_Device" where
  "StartupInfo_Device_clear W m = m\<lparr>StartupInfo_Device_serial := [], StartupInfo_Device_chips := [], unknown_fields := uf_new W\<rparr>"

text \<open>Values Rust can hold, without unknown fields, and what a reader gets back.\<close>

definition StartupInfo_Device_wf :: "'u protobuf_rt \<Rightarrow> 'u StartupInfo_Device \<Rightarrow> bool" where
  "StartupInfo_Device_wf W m \<longleftrightarrow>
     unknown_fields m = uf_new W \<and>
     utf8 (StartupInfo_Device_serial m) \<and>
     list_all (Startup_Chip_wf W) (StartupInfo_Device_chips m)"

definition StartupInfo_Device_canon :: "'u StartupInfo_Device \<Rightarrow> 'u StartupInfo_Device" where
  "StartupInfo_Device_canon m = m\<lparr>cached_size := 0, StartupInfo_Device_chips := map Startup_Chip_canon (StartupInfo_Device_chips m)\<rparr>"

text \<open>The message after an encoding of \<open>m\<close> has been read into it.\<close>

definition StartupInfo_Device_join :: "'u protobuf_rt \<Rightarrow> 'u StartupInfo_Device \<Rightarrow> 'u StartupInfo_Device \<Rightarrow> 'u StartupInfo_Device" where
  "StartupInfo_Device_join W a m = a\<lparr>StartupInfo_Device_serial := join_scalar [] (StartupInfo_Device_serial a) (StartupInfo_Device_serial m),
     StartupInfo_Device_chips := StartupInfo_Device_chips a @ map Startup_Chip_canon (StartupInfo_Device_chips m)\<rparr>"

context protobuf_runtime
begin

lemma StartupInfo_Device_sized:
  "snd (StartupInfo_Device_compute_size W m) =
     m\<lparr>StartupInfo_Device_chips := snd (repeated_size W (Startup_Chip_compute_size W) (StartupInfo_Device_chips m)), cached_size := fst (StartupInfo_Device_compute_size W m)\<rparr>"
  by (simp add: StartupInfo_Device_compute_size_def Let_def case_prod_beta)

lemma StartupInfo_Device_size_exact:
  "fst (StartupInfo_Device_compute_size W m) = of_nat (length (StartupInfo_Device_write_to_with_cached_sizes W (snd (StartupInfo_Device_compute_size W m))))"
  by (simp add: StartupInfo_Device_compute_size_def StartupInfo_Device_sized StartupInfo_Device_write_to_with_cached_sizes_def Let_def case_prod_beta size_chain size_laws
      small_field_def Startup_Chip.repeated_size_exact [symmetric])

lemma StartupInfo_Device_takes: "takes 1 is (StartupInfo_Device_merge_step W m is)"
  unfolding StartupInfo_Device_merge_step_def
  by (rule takes_bind, rule takes_laws) (auto intro!: takes_bind takes_expect takes_laws Startup_Chip.takes_repeated_message split: prod.splits)

lemma StartupInfo_Device_joins:
  assumes wf: "StartupInfo_Device_wf W m" and len: "length (StartupInfo_Device_write_to_with_cached_sizes W (snd (StartupInfo_Device_compute_size W m))) < 2 ^ 32"
  shows "consumes (StartupInfo_Device_merge_step W) a (StartupInfo_Device_write_to_with_cached_sizes W (snd (StartupInfo_Device_compute_size W m))) (StartupInfo_Device_join W a m)"
proof -
  let ?s = "\<lambda>v1 v2. \<lparr>unknown_fields = unknown_fields a, cached_size = cached_size a, StartupInfo_Device_serial = v1, StartupInfo_Device_chips = v2\<rparr>"
  have w: "StartupInfo_Device_write_to_with_cached_sizes W (snd (StartupInfo_Device_compute_size W m)) =
    (if StartupInfo_Device_serial m \<noteq> [] then os_string W 1 (StartupInfo_Device_serial m) else []) @
    os_repeated W 2 Startup_Chip_get_cached_size (Startup_Chip_write_to_with_cached_sizes W) (snd (repeated_size W (Startup_Chip_compute_size W) (StartupInfo_Device_chips m)))"
    using wf by (simp add: StartupInfo_Device_sized StartupInfo_Device_write_to_with_cached_sizes_def StartupInfo_Device_wf_def unknown_none)
  note l1 = len [unfolded w]
  note l2 = length_rest [OF l1]
  have 1: "consumes (StartupInfo_Device_merge_step W) (?s (StartupInfo_Device_serial a) (StartupInfo_Device_chips a))
    ((if StartupInfo_Device_serial m \<noteq> [] then os_string W 1 (StartupInfo_Device_serial m) else []))
    (?s (join_scalar [] (StartupInfo_Device_serial a) (StartupInfo_Device_serial m)) (StartupInfo_Device_chips a))"
    by (rule consumes_string [where upd = "\<lambda>v. ?s v (StartupInfo_Device_chips a)"])
      (use wf length_first [OF l1] in \<open>simp_all add: StartupInfo_Device_merge_step_def expect_wire_def small_field_def StartupInfo_Device_wf_def\<close>)
  have 2: "consumes (StartupInfo_Device_merge_step W) (?s (join_scalar [] (StartupInfo_Device_serial a) (StartupInfo_Device_serial m)) (StartupInfo_Device_chips a))
    (os_repeated W 2 Startup_Chip_get_cached_size (Startup_Chip_write_to_with_cached_sizes W) (snd (repeated_size W (Startup_Chip_compute_size W) (StartupInfo_Device_chips m))))
    (?s (join_scalar [] (StartupInfo_Device_serial a) (StartupInfo_Device_serial m)) (StartupInfo_Device_chips a @ map Startup_Chip_canon (StartupInfo_Device_chips m)))"
    by (rule Startup_Chip.consumes_repeated [where upd = "\<lambda>v. ?s (join_scalar [] (StartupInfo_Device_serial a) (StartupInfo_Device_serial m)) v"])
      (use wf l2 in \<open>simp_all add: StartupInfo_Device_merge_step_def expect_wire_def small_field_def StartupInfo_Device_wf_def Startup_Chip_merge_from_def\<close>)
  note all = consumes_append [OF 1 2]
  have start: "?s (StartupInfo_Device_serial a) (StartupInfo_Device_chips a) = a"
    by (cases a) simp
  have joined: "?s (join_scalar [] (StartupInfo_Device_serial a) (StartupInfo_Device_serial m)) (StartupInfo_Device_chips a @ map Startup_Chip_canon (StartupInfo_Device_chips m)) = StartupInfo_Device_join W a m"
    by (cases a) (simp add: StartupInfo_Device_join_def)
  show ?thesis
    unfolding w by (rule all [unfolded start joined])
qed

end

sublocale protobuf_runtime < StartupInfo_Device: pb_message W "StartupInfo_Device_new W" StartupInfo_Device_is_initialized "StartupInfo_Device_compute_size W"
    "StartupInfo_Device_write_to_with_cached_sizes W" StartupInfo_Device_get_cached_size "StartupInfo_Device_merge_from W" "StartupInfo_Device_wf W" StartupInfo_Device_canon "StartupInfo_Device_join W"
proof unfold_locales
  show "fst (StartupInfo_Device_compute_size W m) = of_nat (length (StartupInfo_Device_write_to_with_cached_sizes W (snd (StartupInfo_Device_compute_size W m))))" for m
    by (rule StartupInfo_Device_size_exact)
  show "StartupInfo_Device_get_cached_size (snd (StartupInfo_Device_compute_size W m)) = fst (StartupInfo_Device_compute_size W m)" for m
    by (simp add: StartupInfo_Device_get_cached_size_def StartupInfo_Device_sized)
  show "StartupInfo_Device_is_initialized m" for m :: "'u StartupInfo_Device"
    by (simp add: StartupInfo_Device_is_initialized_def list_all_iff Startup_Chip.all_initialized split: option.splits)
  show "StartupInfo_Device_merge_from W a (StartupInfo_Device_write_to_with_cached_sizes W (snd (StartupInfo_Device_compute_size W m)) @ r) = StartupInfo_Device_merge_from W (StartupInfo_Device_join W a m) r"
    if "StartupInfo_Device_wf W m" "length (StartupInfo_Device_write_to_with_cached_sizes W (snd (StartupInfo_Device_compute_size W m))) < 2 ^ 32" for a m r
    using StartupInfo_Device_joins [OF that] by (simp add: consumes_def StartupInfo_Device_merge_from_def)
  show "StartupInfo_Device_join W (StartupInfo_Device_new W) m = StartupInfo_Device_canon m" if "StartupInfo_Device_wf W m" for m
    using that by (cases m) (simp add: StartupInfo_Device_join_def StartupInfo_Device_new_def StartupInfo_Device_canon_def StartupInfo_Device_wf_def)
  show "StartupInfo_Device_merge_from W m [] = Inr m" for m
    by (simp add: StartupInfo_Device_merge_from_def)
  show "StartupInfo_Device_merge_from W m is \<noteq> Inl NoProgress" for m "is"
    unfolding StartupInfo_Device_merge_from_def by (rule merge_loop_progress) (rule StartupInfo_Device_takes)
qed

section \<open>\<^verbatim>\<open>StartupInfo\<close>\<close>

record 'u StartupInfo = "'u pb_special" +
  StartupInfo_devices :: "'u StartupInfo_Device list"

definition StartupInfo_new :: "'u protobuf_rt \<Rightarrow> 'u StartupInfo" where
  "StartupInfo_new W =
     \<lparr>unknown_fields = uf_new W, cached_size = 0,
      StartupInfo_devices = []\<rparr>"

definition StartupInfo_get_devices :: "'u StartupInfo \<Rightarrow> 'u StartupInfo_Device list" where
  "StartupInfo_get_devices m = StartupInfo_devices m"
definition StartupInfo_clear_devices :: "'u StartupInfo \<Rightarrow> 'u StartupInfo" where
  "StartupInfo_clear_devices m = m\<lparr>StartupInfo_devices := []\<rparr>"
definition StartupInfo_set_devices :: "'u StartupInfo_Device list \<Rightarrow> 'u StartupInfo \<Rightarrow> 'u StartupInfo" where
  "StartupInfo_set_devices v m = m\<lparr>StartupInfo_devices := v\<rparr>"
definition StartupInfo_mut_devices :: "('u StartupInfo_Device list \<Rightarrow> 'u StartupInfo_Device list) \<Rightarrow> 'u StartupInfo \<Rightarrow> 'u StartupInfo" where
  "StartupInfo_mut_devices g m = m\<lparr>StartupInfo_devices := g (StartupInfo_devices m)\<rparr>"
definition StartupInfo_take_devices :: "'u StartupInfo \<Rightarrow> 'u StartupInfo_Device list \<times> 'u StartupInfo" where
  "StartupInfo_take_devices m = (StartupInfo_devices m, m\<lparr>StartupInfo_devices := []\<rparr>)"

definition StartupInfo_is_initialized :: "'u StartupInfo \<Rightarrow> bool" where
  "StartupInfo_is_initialized m =
     (list_all StartupInfo_Device_is_initialized (StartupInfo_devices m))"

definition StartupInfo_merge_step :: "'u protobuf_rt \<Rightarrow> 'u StartupInfo \<Rightarrow> bytes \<Rightarrow> 'u StartupInfo reads" where
  "StartupInfo_merge_step W m is =
     bindE (rt_tag W is) (\<lambda>((field_number, wire_type), is).
       if field_number = 1 then
         bindE (read_repeated_message_into W (StartupInfo_Device_new W) (StartupInfo_Device_merge_from W) wire_type is (StartupInfo_devices m))
          (\<lambda>(v, is). Ok (m\<lparr>StartupInfo_devices := v\<rparr>, is))
       else bindE (rt_unknown W field_number wire_type is (unknown_fields m))
         (\<lambda>(u, is). Ok (m\<lparr>unknown_fields := u\<rparr>, is)))"

definition StartupInfo_merge_from :: "'u protobuf_rt \<Rightarrow> 'u StartupInfo \<Rightarrow> bytes \<Rightarrow> pb_error + 'u StartupInfo" where
  "StartupInfo_merge_from W = merge_loop (StartupInfo_merge_step W)"

definition StartupInfo_compute_size :: "'u protobuf_rt \<Rightarrow> 'u StartupInfo \<Rightarrow> u32 \<times> 'u StartupInfo" where
  "StartupInfo_compute_size W m =
     (let my_size = 0;
          (n, devices) = repeated_size W (StartupInfo_Device_compute_size W) (StartupInfo_devices m); my_size = my_size + n;
          my_size = my_size + uf_size W (unknown_fields m)
      in (my_size, m\<lparr>StartupInfo_devices := devices, cached_size := my_size\<rparr>))"

definition StartupInfo_write_to_with_cached_sizes :: "'u protobuf_rt \<Rightarrow> 'u StartupInfo \<Rightarrow> bytes" where
  "StartupInfo_write_to_with_cached_sizes W m =
     os_repeated W 1 StartupInfo_Device_get_cached_size (StartupInfo_Device_write_to_with_cached_sizes W) (StartupInfo_devices m) @
     os_unknown W (unknown_fields m)"

definition StartupInfo_get_cached_size :: "'u StartupInfo \<Rightarrow> u32" where
  "StartupInfo_get_cached_size m = cached_size m"

definition StartupInfo_clear :: "'u protobuf_rt \<Rightarrow> 'u StartupInfo \<Rightarrow> 'u StartupInfo" where
  "StartupInfo_clear W m = m\<lparr>StartupInfo_devices := [], unknown_fields := uf_new W\<rparr>"

text \<open>Values Rust can hold, without unknown fields, and what a reader gets back.\<close>

definition StartupInfo_wf :: "'u protobuf_rt \<Rightarrow> 'u StartupInfo \<Rightarrow> bool" where
  "StartupInfo_wf W m \<longleftrightarrow>
     unknown_fields m = uf_new W \<and>
     list_all (StartupInfo_Device_wf W) (StartupInfo_devices m)"

definition StartupInfo_canon :: "'u StartupInfo \<Rightarrow> 'u StartupInfo" where
  "StartupInfo_canon m = m\<lparr>cached_size := 0, StartupInfo_devices := map StartupInfo_Device_canon (StartupInfo_devices m)\<rparr>"

text \<open>The message after an encoding of \<open>m\<close> has been read into it.\<close>

definition StartupInfo_join :: "'u protobuf_rt \<Rightarrow> 'u StartupInfo \<Rightarrow> 'u StartupInfo \<Rightarrow> 'u StartupInfo" where
  "StartupInfo_join W a m = a\<lparr>StartupInfo_devices := StartupInfo_devices a @ map StartupInfo_Device_canon (StartupInfo_devices m)\<rparr>"

context protobuf_runtime
begin

lemma StartupInfo_sized:
  "snd (StartupInfo_compute_size W m) =
     m\<lparr>StartupInfo_devices := snd (repeated_size W (StartupInfo_Device_compute_size W) (StartupInfo_devices m)), cached_size := fst (StartupInfo_compute_size W m)\<rparr>"
  by (simp add: StartupInfo_compute_size_def Let_def case_prod_beta)

lemma StartupInfo_size_exact:
  "fst (StartupInfo_compute_size W m) = of_nat (length (StartupInfo_write_to_with_cached_sizes W (snd (StartupInfo_compute_size W m))))"
  by (simp add: StartupInfo_compute_size_def StartupInfo_sized StartupInfo_write_to_with_cached_sizes_def Let_def case_prod_beta size_chain size_laws
      small_field_def StartupInfo_Device.repeated_size_exact [symmetric])

lemma StartupInfo_takes: "takes 1 is (StartupInfo_merge_step W m is)"
  unfolding StartupInfo_merge_step_def
  by (rule takes_bind, rule takes_laws) (auto intro!: takes_bind takes_expect takes_laws StartupInfo_Device.takes_repeated_message split: prod.splits)

lemma StartupInfo_joins:
  assumes wf: "StartupInfo_wf W m" and len: "length (StartupInfo_write_to_with_cached_sizes W (snd (StartupInfo_compute_size W m))) < 2 ^ 32"
  shows "consumes (StartupInfo_merge_step W) a (StartupInfo_write_to_with_cached_sizes W (snd (StartupInfo_compute_size W m))) (StartupInfo_join W a m)"
proof -
  let ?s = "\<lambda>v1. \<lparr>unknown_fields = unknown_fields a, cached_size = cached_size a, StartupInfo_devices = v1\<rparr>"
  have w: "StartupInfo_write_to_with_cached_sizes W (snd (StartupInfo_compute_size W m)) =
    os_repeated W 1 StartupInfo_Device_get_cached_size (StartupInfo_Device_write_to_with_cached_sizes W) (snd (repeated_size W (StartupInfo_Device_compute_size W) (StartupInfo_devices m)))"
    using wf by (simp add: StartupInfo_sized StartupInfo_write_to_with_cached_sizes_def StartupInfo_wf_def unknown_none)
  note l1 = len [unfolded w]
  have 1: "consumes (StartupInfo_merge_step W) (?s (StartupInfo_devices a))
    (os_repeated W 1 StartupInfo_Device_get_cached_size (StartupInfo_Device_write_to_with_cached_sizes W) (snd (repeated_size W (StartupInfo_Device_compute_size W) (StartupInfo_devices m))))
    (?s (StartupInfo_devices a @ map StartupInfo_Device_canon (StartupInfo_devices m)))"
    by (rule StartupInfo_Device.consumes_repeated [where upd = "\<lambda>v. ?s v"])
      (use wf l1 in \<open>simp_all add: StartupInfo_merge_step_def expect_wire_def small_field_def StartupInfo_wf_def StartupInfo_Device_merge_from_def\<close>)
  note all = 1
  have start: "?s (StartupInfo_devices a) = a"
    by (cases a) simp
  have joined: "?s (StartupInfo_devices a @ map StartupInfo_Device_canon (StartupInfo_devices m)) = StartupInfo_join W a m"
    by (cases a) (simp add: StartupInfo_join_def)
  show ?thesis
    unfolding w by (rule all [unfolded start joined])
qed

end

sublocale protobuf_runtime < StartupInfo: pb_message W "StartupInfo_new W" StartupInfo_is_initialized "StartupInfo_compute_size W"
    "StartupInfo_write_to_with_cached_sizes W" StartupInfo_get_cached_size "StartupInfo_merge_from W" "StartupInfo_wf W" StartupInfo_canon "StartupInfo_join W"
proof unfold_locales
  show "fst (StartupInfo_compute_size W m) = of_nat (length (StartupInfo_write_to_with_cached_sizes W (snd (StartupInfo_compute_size W m))))" for m
    by (rule StartupInfo_size_exact)
  show "StartupInfo_get_cached_size (snd (StartupInfo_compute_size W m)) = fst (StartupInfo_compute_size W m)" for m
    by (simp add: StartupInfo_get_cached_size_def StartupInfo_sized)
  show "StartupInfo_is_initialized m" for m :: "'u StartupInfo"
    by (simp add: StartupInfo_is_initialized_def list_all_iff StartupInfo_Device.all_initialized split: option.splits)
  show "StartupInfo_merge_from W a (StartupInfo_write_to_with_cached_sizes W (snd (StartupInfo_compute_size W m)) @ r) = StartupInfo_merge_from W (StartupInfo_join W a m) r"
    if "StartupInfo_wf W m" "length (StartupInfo_write_to_with_cached_sizes W (snd (StartupInfo_compute_size W m))) < 2 ^ 32" for a m r
    using StartupInfo_joins [OF that] by (simp add: consumes_def StartupInfo_merge_from_def)
  show "StartupInfo_join W (StartupInfo_new W) m = StartupInfo_canon m" if "StartupInfo_wf W m" for m
    using that by (cases m) (simp add: StartupInfo_join_def StartupInfo_new_def StartupInfo_canon_def StartupInfo_wf_def)
  show "StartupInfo_merge_from W m [] = Inr m" for m
    by (simp add: StartupInfo_merge_from_def)
  show "StartupInfo_merge_from W m is \<noteq> Inl NoProgress" for m "is"
    unfolding StartupInfo_merge_from_def by (rule merge_loop_progress) (rule StartupInfo_takes)
qed

section \<open>\<^verbatim>\<open>ChipInfo\<close>\<close>

record 'u ChipInfo = "'u pb_special" +
  ChipInfo_serial :: string
  ChipInfo_chip :: "'u Startup_Chip option"

definition ChipInfo_new :: "'u protobuf_rt \<Rightarrow> 'u ChipInfo" where
  "ChipInfo_new W =
     \<lparr>unknown_fields = uf_new W, cached_size = 0,
      ChipInfo_serial = [], ChipInfo_chip = None\<rparr>"

definition ChipInfo_get_serial :: "'u ChipInfo \<Rightarrow> string" where
  "ChipInfo_get_serial m = ChipInfo_serial m"
definition ChipInfo_clear_serial :: "'u ChipInfo \<Rightarrow> 'u ChipInfo" where
  "ChipInfo_clear_serial m = m\<lparr>ChipInfo_serial := []\<rparr>"
definition ChipInfo_set_serial :: "string \<Rightarrow> 'u ChipInfo \<Rightarrow> 'u ChipInfo" where
  "ChipInfo_set_serial v m = m\<lparr>ChipInfo_serial := v\<rparr>"
definition ChipInfo_mut_serial :: "(string \<Rightarrow> string) \<Rightarrow> 'u ChipInfo \<Rightarrow> 'u ChipInfo" where
  "ChipInfo_mut_serial g m = m\<lparr>ChipInfo_serial := g (ChipInfo_serial m)\<rparr>"
definition ChipInfo_take_serial :: "'u ChipInfo \<Rightarrow> string \<times> 'u ChipInfo" where
  "ChipInfo_take_serial m = (ChipInfo_serial m, m\<lparr>ChipInfo_serial := []\<rparr>)"
definition ChipInfo_get_chip :: "'u protobuf_rt \<Rightarrow> 'u ChipInfo \<Rightarrow> 'u Startup_Chip" where
  "ChipInfo_get_chip W m = (case ChipInfo_chip m of Some v \<Rightarrow> v | None \<Rightarrow> Startup_Chip_new W)"
definition ChipInfo_clear_chip :: "'u ChipInfo \<Rightarrow> 'u ChipInfo" where
  "ChipInfo_clear_chip m = m\<lparr>ChipInfo_chip := None\<rparr>"
definition ChipInfo_has_chip :: "'u ChipInfo \<Rightarrow> bool" where
  "ChipInfo_has_chip m = (ChipInfo_chip m \<noteq> None)"
definition ChipInfo_set_chip :: "'u Startup_Chip \<Rightarrow> 'u ChipInfo \<Rightarrow> 'u ChipInfo" where
  "ChipInfo_set_chip v m = m\<lparr>ChipInfo_chip := Some v\<rparr>"
definition ChipInfo_mut_chip :: "'u protobuf_rt \<Rightarrow> ('u Startup_Chip \<Rightarrow> 'u Startup_Chip) \<Rightarrow> 'u ChipInfo \<Rightarrow> 'u ChipInfo result" where
  "ChipInfo_mut_chip W g m =
     (let m = (if ChipInfo_chip m = None then m\<lparr>ChipInfo_chip := Some (Startup_Chip_new W)\<rparr> else m)
      in case ChipInfo_chip m of Some v \<Rightarrow> Ok (m\<lparr>ChipInfo_chip := Some (g v)\<rparr>) | None \<Rightarrow> Inl (Panic ''unwrap''))"
definition ChipInfo_take_chip :: "'u protobuf_rt \<Rightarrow> 'u ChipInfo \<Rightarrow> ('u Startup_Chip \<times> 'u ChipInfo) result" where
  "ChipInfo_take_chip W m =
     Ok (case ChipInfo_chip m of Some v \<Rightarrow> v | None \<Rightarrow> Startup_Chip_new W, m\<lparr>ChipInfo_chip := None\<rparr>)"

interpretation ChipInfo_chip: presence_field "Startup_Chip_new W" ChipInfo_has_chip "ChipInfo_get_chip W" ChipInfo_set_chip
    ChipInfo_clear_chip "ChipInfo_mut_chip W" "ChipInfo_take_chip W" for W
  by unfold_locales
    (auto simp: ChipInfo_get_chip_def ChipInfo_clear_chip_def ChipInfo_has_chip_def ChipInfo_set_chip_def ChipInfo_mut_chip_def ChipInfo_take_chip_def
      split: option.splits)

definition ChipInfo_is_initialized :: "'u ChipInfo \<Rightarrow> bool" where
  "ChipInfo_is_initialized m =
     ((case ChipInfo_chip m of Some v \<Rightarrow> Startup_Chip_is_initialized v | None \<Rightarrow> True))"

definition ChipInfo_merge_step :: "'u protobuf_rt \<Rightarrow> 'u ChipInfo \<Rightarrow> bytes \<Rightarrow> 'u ChipInfo reads" where
  "ChipInfo_merge_step W m is =
     bindE (rt_tag W is) (\<lambda>((field_number, wire_type), is).
       if field_number = 1 then
         bindE (rt_string_into W wire_type is) (\<lambda>(s, is). Ok (m\<lparr>ChipInfo_serial := s\<rparr>, is))
       else if field_number = 2 then
         bindE (read_singular_message_into W (Startup_Chip_new W) (Startup_Chip_merge_from W) wire_type is (ChipInfo_chip m))
          (\<lambda>(v, is). Ok (m\<lparr>ChipInfo_chip := v\<rparr>, is))
       else bindE (rt_unknown W field_number wire_type is (unknown_fields m))
         (\<lambda>(u, is). Ok (m\<lparr>unknown_fields := u\<rparr>, is)))"

definition ChipInfo_merge_from :: "'u protobuf_rt \<Rightarrow> 'u ChipInfo \<Rightarrow> bytes \<Rightarrow> pb_error + 'u ChipInfo" where
  "ChipInfo_merge_from W = merge_loop (ChipInfo_merge_step W)"

definition ChipInfo_compute_size :: "'u protobuf_rt \<Rightarrow> 'u ChipInfo \<Rightarrow> u32 \<times> 'u ChipInfo" where
  "ChipInfo_compute_size W m =
     (let my_size = 0;
          my_size = (if ChipInfo_serial m \<noteq> [] then my_size + sz_string W 1 (ChipInfo_serial m) else my_size);
          (n, chip) = optional_size W (Startup_Chip_compute_size W) (ChipInfo_chip m); my_size = my_size + n;
          my_size = my_size + uf_size W (unknown_fields m)
      in (my_size, m\<lparr>ChipInfo_chip := chip, cached_size := my_size\<rparr>))"

definition ChipInfo_write_to_with_cached_sizes :: "'u protobuf_rt \<Rightarrow> 'u ChipInfo \<Rightarrow> bytes" where
  "ChipInfo_write_to_with_cached_sizes W m =
     (if ChipInfo_serial m \<noteq> [] then os_string W 1 (ChipInfo_serial m) else []) @
     os_optional W 2 Startup_Chip_get_cached_size (Startup_Chip_write_to_with_cached_sizes W) (ChipInfo_chip m) @
     os_unknown W (unknown_fields m)"

definition ChipInfo_get_cached_size :: "'u ChipInfo \<Rightarrow> u32" where
  "ChipInfo_get_cached_size m = cached_size m"

definition ChipInfo_clear :: "'u protobuf_rt \<Rightarrow> 'u ChipInfo \<Rightarrow> 'u ChipInfo" where
  "ChipInfo_clear W m = m\<lparr>ChipInfo_serial := [], ChipInfo_chip := None, unknown_fields := uf_new W\<rparr>"

text \<open>Values Rust can hold, without unknown fields, and what a reader gets back.\<close>

definition ChipInfo_wf :: "'u protobuf_rt \<Rightarrow> 'u ChipInfo \<Rightarrow> bool" where
  "ChipInfo_wf W m \<longleftrightarrow>
     unknown_fields m = uf_new W \<and>
     utf8 (ChipInfo_serial m) \<and>
     pred_option (Startup_Chip_wf W) (ChipInfo_chip m)"

definition ChipInfo_canon :: "'u ChipInfo \<Rightarrow> 'u ChipInfo" where
  "ChipInfo_canon m = m\<lparr>cached_size := 0, ChipInfo_chip := map_option Startup_Chip_canon (ChipInfo_chip m)\<rparr>"

text \<open>The message after an encoding of \<open>m\<close> has been read into it.\<close>

definition ChipInfo_join :: "'u protobuf_rt \<Rightarrow> 'u ChipInfo \<Rightarrow> 'u ChipInfo \<Rightarrow> 'u ChipInfo" where
  "ChipInfo_join W a m = a\<lparr>ChipInfo_serial := join_scalar [] (ChipInfo_serial a) (ChipInfo_serial m),
     ChipInfo_chip := join_optional W (Startup_Chip_new W) (Startup_Chip_join W) (ChipInfo_chip a) (ChipInfo_chip m)\<rparr>"

context protobuf_runtime
begin

lemma ChipInfo_sized:
  "snd (ChipInfo_compute_size W m) =
     m\<lparr>ChipInfo_chip := snd (optional_size W (Startup_Chip_compute_size W) (ChipInfo_chip m)), cached_size := fst (ChipInfo_compute_size W m)\<rparr>"
  by (simp add: ChipInfo_compute_size_def Let_def case_prod_beta)

lemma ChipInfo_size_exact:
  "fst (ChipInfo_compute_size W m) = of_nat (length (ChipInfo_write_to_with_cached_sizes W (snd (ChipInfo_compute_size W m))))"
  by (simp add: ChipInfo_compute_size_def ChipInfo_sized ChipInfo_write_to_with_cached_sizes_def Let_def case_prod_beta size_chain size_laws
      small_field_def Startup_Chip.optional_size_exact [symmetric])

lemma ChipInfo_takes: "takes 1 is (ChipInfo_merge_step W m is)"
  unfolding ChipInfo_merge_step_def
  by (rule takes_bind, rule takes_laws) (auto intro!: takes_bind takes_expect takes_laws Startup_Chip.takes_singular_message split: prod.splits)

lemma ChipInfo_joins:
  assumes wf: "ChipInfo_wf W m" and len: "length (ChipInfo_write_to_with_cached_sizes W (snd (ChipInfo_compute_size W m))) < 2 ^ 32"
  shows "consumes (ChipInfo_merge_step W) a (ChipInfo_write_to_with_cached_sizes W (snd (ChipInfo_compute_size W m))) (ChipInfo_join W a m)"
proof -
  let ?s = "\<lambda>v1 v2. \<lparr>unknown_fields = unknown_fields a, cached_size = cached_size a, ChipInfo_serial = v1, ChipInfo_chip = v2\<rparr>"
  have w: "ChipInfo_write_to_with_cached_sizes W (snd (ChipInfo_compute_size W m)) =
    (if ChipInfo_serial m \<noteq> [] then os_string W 1 (ChipInfo_serial m) else []) @
    os_optional W 2 Startup_Chip_get_cached_size (Startup_Chip_write_to_with_cached_sizes W) (snd (optional_size W (Startup_Chip_compute_size W) (ChipInfo_chip m)))"
    using wf by (simp add: ChipInfo_sized ChipInfo_write_to_with_cached_sizes_def ChipInfo_wf_def unknown_none)
  note l1 = len [unfolded w]
  note l2 = length_rest [OF l1]
  have 1: "consumes (ChipInfo_merge_step W) (?s (ChipInfo_serial a) (ChipInfo_chip a))
    ((if ChipInfo_serial m \<noteq> [] then os_string W 1 (ChipInfo_serial m) else []))
    (?s (join_scalar [] (ChipInfo_serial a) (ChipInfo_serial m)) (ChipInfo_chip a))"
    by (rule consumes_string [where upd = "\<lambda>v. ?s v (ChipInfo_chip a)"])
      (use wf length_first [OF l1] in \<open>simp_all add: ChipInfo_merge_step_def expect_wire_def small_field_def ChipInfo_wf_def\<close>)
  have 2: "consumes (ChipInfo_merge_step W) (?s (join_scalar [] (ChipInfo_serial a) (ChipInfo_serial m)) (ChipInfo_chip a))
    (os_optional W 2 Startup_Chip_get_cached_size (Startup_Chip_write_to_with_cached_sizes W) (snd (optional_size W (Startup_Chip_compute_size W) (ChipInfo_chip m))))
    (?s (join_scalar [] (ChipInfo_serial a) (ChipInfo_serial m)) (join_optional W (Startup_Chip_new W) (Startup_Chip_join W) (ChipInfo_chip a) (ChipInfo_chip m)))"
    by (rule Startup_Chip.consumes_optional [where upd = "\<lambda>v. ?s (join_scalar [] (ChipInfo_serial a) (ChipInfo_serial m)) v"])
      (use wf l2 in \<open>simp_all add: ChipInfo_merge_step_def expect_wire_def small_field_def ChipInfo_wf_def Startup_Chip_merge_from_def\<close>)
  note all = consumes_append [OF 1 2]
  have start: "?s (ChipInfo_serial a) (ChipInfo_chip a) = a"
    by (cases a) simp
  have joined: "?s (join_scalar [] (ChipInfo_serial a) (ChipInfo_serial m)) (join_optional W (Startup_Chip_new W) (Startup_Chip_join W) (ChipInfo_chip a) (ChipInfo_chip m)) = ChipInfo_join W a m"
    by (cases a) (simp add: ChipInfo_join_def)
  show ?thesis
    unfolding w by (rule all [unfolded start joined])
qed

end

sublocale protobuf_runtime < ChipInfo: pb_message W "ChipInfo_new W" ChipInfo_is_initialized "ChipInfo_compute_size W"
    "ChipInfo_write_to_with_cached_sizes W" ChipInfo_get_cached_size "ChipInfo_merge_from W" "ChipInfo_wf W" ChipInfo_canon "ChipInfo_join W"
proof unfold_locales
  show "fst (ChipInfo_compute_size W m) = of_nat (length (ChipInfo_write_to_with_cached_sizes W (snd (ChipInfo_compute_size W m))))" for m
    by (rule ChipInfo_size_exact)
  show "ChipInfo_get_cached_size (snd (ChipInfo_compute_size W m)) = fst (ChipInfo_compute_size W m)" for m
    by (simp add: ChipInfo_get_cached_size_def ChipInfo_sized)
  show "ChipInfo_is_initialized m" for m :: "'u ChipInfo"
    by (simp add: ChipInfo_is_initialized_def list_all_iff Startup_Chip.all_initialized split: option.splits)
  show "ChipInfo_merge_from W a (ChipInfo_write_to_with_cached_sizes W (snd (ChipInfo_compute_size W m)) @ r) = ChipInfo_merge_from W (ChipInfo_join W a m) r"
    if "ChipInfo_wf W m" "length (ChipInfo_write_to_with_cached_sizes W (snd (ChipInfo_compute_size W m))) < 2 ^ 32" for a m r
    using ChipInfo_joins [OF that] by (simp add: consumes_def ChipInfo_merge_from_def)
  show "ChipInfo_join W (ChipInfo_new W) m = ChipInfo_canon m" if "ChipInfo_wf W m" for m
    using that by (cases m) (simp add: ChipInfo_join_def ChipInfo_new_def ChipInfo_canon_def ChipInfo_wf_def Startup_Chip.join_optional_None)
  show "ChipInfo_merge_from W m [] = Inr m" for m
    by (simp add: ChipInfo_merge_from_def)
  show "ChipInfo_merge_from W m is \<noteq> Inl NoProgress" for m "is"
    unfolding ChipInfo_merge_from_def by (rule merge_loop_progress) (rule ChipInfo_takes)
qed

end
