(* ===== verification/Pb_Packet.thy ===== *)
theory Pb_Packet
  imports Pb_Startup
begin

text \<open>
  The messages of \<^verbatim>\<open>rust/backend-proto/src/hci_packet.rs\<close> and \<^verbatim>\<open>packet_streamer.rs\<close>: the packets
  exchanged between a chip and the simulator, and the two sides of the stream. The layout is
  that of \<open>Pb_Model\<close>.
\<close>

section \<open>Enumerations\<close>

datatype HCIPacket_PacketType =
    HCIPacket_PacketType_PACKET_TYPE_UNSPECIFIED
  | HCIPacket_PacketType_PACKET_TYPE_HCI_COMMAND
  | HCIPacket_PacketType_PACKET_TYPE_ACL
  | HCIPacket_PacketType_PACKET_TYPE_SCO
  | HCIPacket_PacketType_PACKET_TYPE_EVENT
  | HCIPacket_PacketType_PACKET_TYPE_ISO

fun HCIPacket_PacketType_value :: "HCIPacket_PacketType \<Rightarrow> i32" where
  "HCIPacket_PacketType_value HCIPacket_PacketType_PACKET_TYPE_UNSPECIFIED = 0"
| "HCIPacket_PacketType_value HCIPacket_PacketType_PACKET_TYPE_HCI_COMMAND = 1"
| "HCIPacket_PacketType_value HCIPacket_PacketType_PACKET_TYPE_ACL = 2"
| "HCIPacket_PacketType_value HCIPacket_PacketType_PACKET_TYPE_SCO = 3"
| "HCIPacket_PacketType_value HCIPacket_PacketType_PACKET_TYPE_EVENT = 4"
| "HCIPacket_PacketType_value HCIPacket_PacketType_PACKET_TYPE_ISO = 5"

definition HCIPacket_PacketType_from_i32 :: "i32 \<Rightarrow> HCIPacket_PacketType option" where
  "HCIPacket_PacketType_from_i32 value =
     (if value = 0 then Some HCIPacket_PacketType_PACKET_TYPE_UNSPECIFIED
      else if value = 1 then Some HCIPacket_PacketType_PACKET_TYPE_HCI_COMMAND
      else if value = 2 then Some HCIPacket_PacketType_PACKET_TYPE_ACL
      else if value = 3 then Some HCIPacket_PacketType_PACKET_TYPE_SCO
      else if value = 4 then Some HCIPacket_PacketType_PACKET_TYPE_EVENT
      else if value = 5 then Some HCIPacket_PacketType_PACKET_TYPE_ISO
      else None)"

definition HCIPacket_PacketType_values :: "HCIPacket_PacketType list" where
  "HCIPacket_PacketType_values =
     [HCIPacket_PacketType_PACKET_TYPE_UNSPECIFIED, HCIPacket_PacketType_PACKET_TYPE_HCI_COMMAND, HCIPacket_PacketType_PACKET_TYPE_ACL, HCIPacket_PacketType_PACKET_TYPE_SCO, HCIPacket_PacketType_PACKET_TYPE_EVENT, HCIPacket_PacketType_PACKET_TYPE_ISO]"

definition HCIPacket_PacketType_default :: HCIPacket_PacketType where
  "HCIPacket_PacketType_default = HCIPacket_PacketType_PACKET_TYPE_UNSPECIFIED"

lemma HCIPacket_PacketType_from_value [simp]: "HCIPacket_PacketType_from_i32 (HCIPacket_PacketType_value e) = Some e"
  by (cases e) (simp_all add: HCIPacket_PacketType_from_i32_def)

lemma HCIPacket_PacketType_value_from: "HCIPacket_PacketType_from_i32 i = Some e \<Longrightarrow> HCIPacket_PacketType_value e = i"
  by (auto simp: HCIPacket_PacketType_from_i32_def split: if_splits)

lemma HCIPacket_PacketType_values_complete: "distinct HCIPacket_PacketType_values \<and> set HCIPacket_PacketType_values = UNIV"
  using HCIPacket_PacketType.exhaust by (auto simp: HCIPacket_PacketType_values_def)

section \<open>\<^verbatim>\<open>HCIPacket\<close>\<close>

record 'u HCIPacket = "'u pb_special" +
  HCIPacket_field_type :: HCIPacket_PacketType
  HCIPacket_packet :: bytes

definition HCIPacket_new :: "'u protobuf_rt \<Rightarrow> 'u HCIPacket" where
  "HCIPacket_new W =
     \<lparr>unknown_fields = uf_new W, cached_size = 0,
      HCIPacket_field_type = HCIPacket_PacketType_PACKET_TYPE_UNSPECIFIED, HCIPacket_packet = []\<rparr>"

definition HCIPacket_get_field_type :: "'u HCIPacket \<Rightarrow> HCIPacket_PacketType" where
  "HCIPacket_get_field_type m = HCIPacket_field_type m"
definition HCIPacket_clear_field_type :: "'u HCIPacket \<Rightarrow> 'u HCIPacket" where
  "HCIPacket_clear_field_type m = m\<lparr>HCIPacket_field_type := HCIPacket_PacketType_PACKET_TYPE_UNSPECIFIED\<rparr>"
definition HCIPacket_set_field_type :: "HCIPacket_PacketType \<Rightarrow> 'u HCIPacket \<Rightarrow> 'u HCIPacket" where
  "HCIPacket_set_field_type v m = m\<lparr>HCIPacket_field_type := v\<rparr>"
definition HCIPacket_get_packet :: "'u HCIPacket \<Rightarrow> bytes" where
  "HCIPacket_get_packet m = HCIPacket_packet m"
definition HCIPacket_clear_packet :: "'u HCIPacket \<Rightarrow> 'u HCIPacket" where
  "HCIPacket_clear_packet m = m\<lparr>HCIPacket_packet := []\<rparr>"
definition HCIPacket_set_packet :: "bytes \<Rightarrow> 'u HCIPacket \<Rightarrow> 'u HCIPacket" where
  "HCIPacket_set_packet v m = m\<lparr>HCIPacket_packet := v\<rparr>"
definition HCIPacket_mut_packet :: "(bytes \<Rightarrow> bytes) \<Rightarrow> 'u HCIPacket \<Rightarrow> 'u HCIPacket" where
  "HCIPacket_mut_packet g m = m\<lparr>HCIPacket_packet := g (HCIPacket_packet m)\<rparr>"
definition HCIPacket_take_packet :: "'u HCIPacket \<Rightarrow> bytes \<times> 'u HCIPacket" where
  "HCIPacket_take_packet m = (HCIPacket_packet m, m\<lparr>HCIPacket_packet := []\<rparr>)"

definition HCIPacket_is_initialized :: "'u HCIPacket \<Rightarrow> bool" where
  "HCIPacket_is_initialized m = True"

definition HCIPacket_merge_step :: "'u protobuf_rt \<Rightarrow> 'u HCIPacket \<Rightarrow> bytes \<Rightarrow> 'u HCIPacket reads" where
  "HCIPacket_merge_step W m is =
     bindE (rt_tag W is) (\<lambda>((field_number, wire_type), is).
       if field_number = 1 then
         bindE (read_enum_into W HCIPacket_PacketType_from_i32 wire_type is (HCIPacket_field_type m) 1 (unknown_fields m))
          (\<lambda>((v, u), is). Ok (m\<lparr>HCIPacket_field_type := v, unknown_fields := u\<rparr>, is))
       else if field_number = 2 then
         bindE (rt_bytes_into W wire_type is) (\<lambda>(s, is). Ok (m\<lparr>HCIPacket_packet := s\<rparr>, is))
       else bindE (rt_unknown W field_number wire_type is (unknown_fields m))
         (\<lambda>(u, is). Ok (m\<lparr>unknown_fields := u\<rparr>, is)))"

definition HCIPacket_merge_from :: "'u protobuf_rt \<Rightarrow> 'u HCIPacket \<Rightarrow> bytes \<Rightarrow> pb_error + 'u HCIPacket" where
  "HCIPacket_merge_from W = merge_loop (HCIPacket_merge_step W)"

definition HCIPacket_compute_size :: "'u protobuf_rt \<Rightarrow> 'u HCIPacket \<Rightarrow> u32 \<times> 'u HCIPacket" where
  "HCIPacket_compute_size W m =
     (let my_size = 0;
          my_size = (if HCIPacket_field_type m \<noteq> HCIPacket_PacketType_PACKET_TYPE_UNSPECIFIED then my_size + sz_enum W 1 (HCIPacket_PacketType_value (HCIPacket_field_type m)) else my_size);
          my_size = (if HCIPacket_packet m \<noteq> [] then my_size + sz_bytes W 2 (HCIPacket_packet m) else my_size);
          my_size = my_size + uf_size W (unknown_fields m)
      in (my_size, m\<lparr>cached_size := my_size\<rparr>))"

definition HCIPacket_write_to_with_cached_sizes :: "'u protobuf_rt \<Rightarrow> 'u HCIPacket \<Rightarrow> bytes" where
  "HCIPacket_write_to_with_cached_sizes W m =
     (if HCIPacket_field_type m \<noteq> HCIPacket_PacketType_PACKET_TYPE_UNSPECIFIED then os_enum W 1 (HCIPacket_PacketType_value (HCIPacket_field_type m)) else []) @
     (if HCIPacket_packet m \<noteq> [] then os_bytes W 2 (HCIPacket_packet m) else []) @
     os_unknown W (unknown_fields m)"

definition HCIPacket_get_cached_size :: "'u HCIPacket \<Rightarrow> u32" where
  "HCIPacket_get_cached_size m = cached_size m"

definition HCIPacket_clear :: "'u protobuf_rt \<Rightarrow> 'u HCIPacket \<Rightarrow> 'u HCIPacket" where
  "HCIPacket_clear W m = m\<lparr>HCIPacket_field_type := HCIPacket_PacketType_PACKET_TYPE_UNSPECIFIED, HCIPacket_packet := [], unknown_fields := uf_new W\<rparr>"

text \<open>Values Rust can hold, without unknown fields, and what a reader gets back.\<close>

definition HCIPacket_wf :: "'u protobuf_rt \<Rightarrow> 'u HCIPacket \<Rightarrow> bool" where
  "HCIPacket_wf W m \<longleftrightarrow>
     unknown_fields m = uf_new W"

definition HCIPacket_canon :: "'u HCIPacket \<Rightarrow> 'u HCIPacket" where
  "HCIPacket_canon m = m\<lparr>cached_size := 0\<rparr>"

text \<open>The message after an encoding of \<open>m\<close> has been read into it.\<close>

definition HCIPacket_join :: "'u protobuf_rt \<Rightarrow> 'u HCIPacket \<Rightarrow> 'u HCIPacket \<Rightarrow> 'u HCIPacket" where
  "HCIPacket_join W a m = a\<lparr>HCIPacket_field_type := join_scalar HCIPacket_PacketType_PACKET_TYPE_UNSPECIFIED (HCIPacket_field_type a) (HCIPacket_field_type m),
     HCIPacket_packet := join_scalar [] (HCIPacket_packet a) (HCIPacket_packet m)\<rparr>"

context protobuf_runtime
begin

lemma HCIPacket_sized:
  "snd (HCIPacket_compute_size W m) =
     m\<lparr>cached_size := fst (HCIPacket_compute_size W m)\<rparr>"
  by (simp add: HCIPacket_compute_size_def Let_def case_prod_beta)

lemma HCIPacket_size_exact:
  "fst (HCIPacket_compute_size W m) = of_nat (length (HCIPacket_write_to_with_cached_sizes W (snd (HCIPacket_compute_size W m))))"
  by (simp add: HCIPacket_compute_size_def HCIPacket_sized HCIPacket_write_to_with_cached_sizes_def Let_def case_prod_beta size_chain size_laws
      small_field_def)

lemma HCIPacket_takes: "takes 1 is (HCIPacket_merge_step W m is)"
  unfolding HCIPacket_merge_step_def
  by (rule takes_bind, rule takes_laws) (auto intro!: takes_bind takes_expect takes_laws takes_read_enum split: prod.splits)

lemma HCIPacket_joins:
  assumes wf: "HCIPacket_wf W m" and len: "length (HCIPacket_write_to_with_cached_sizes W (snd (HCIPacket_compute_size W m))) < 2 ^ 32"
  shows "consumes (HCIPacket_merge_step W) a (HCIPacket_write_to_with_cached_sizes W (snd (HCIPacket_compute_size W m))) (HCIPacket_join W a m)"
proof -
  let ?s = "\<lambda>v1 v2. \<lparr>unknown_fields = unknown_fields a, cached_size = cached_size a, HCIPacket_field_type = v1, HCIPacket_packet = v2\<rparr>"
  have w: "HCIPacket_write_to_with_cached_sizes W (snd (HCIPacket_compute_size W m)) =
    (if HCIPacket_field_type m \<noteq> HCIPacket_PacketType_PACKET_TYPE_UNSPECIFIED then os_enum W 1 (HCIPacket_PacketType_value (HCIPacket_field_type m)) else []) @
    (if HCIPacket_packet m \<noteq> [] then os_bytes W 2 (HCIPacket_packet m) else [])"
    using wf by (simp add: HCIPacket_sized HCIPacket_write_to_with_cached_sizes_def HCIPacket_wf_def unknown_none)
  note l1 = len [unfolded w]
  note l2 = length_rest [OF l1]
  have 1: "consumes (HCIPacket_merge_step W) (?s (HCIPacket_field_type a) (HCIPacket_packet a))
    ((if HCIPacket_field_type m \<noteq> HCIPacket_PacketType_PACKET_TYPE_UNSPECIFIED then os_enum W 1 (HCIPacket_PacketType_value (HCIPacket_field_type m)) else []))
    (?s (join_scalar HCIPacket_PacketType_PACKET_TYPE_UNSPECIFIED (HCIPacket_field_type a) (HCIPacket_field_type m)) (HCIPacket_packet a))"
    by (rule consumes_enum [where upd = "\<lambda>v u. \<lparr>unknown_fields = u, cached_size = cached_size a, HCIPacket_field_type = v, HCIPacket_packet = (HCIPacket_packet a)\<rparr>" and t = "HCIPacket_field_type a"
        and conv = HCIPacket_PacketType_from_i32 and u = "unknown_fields a"])
      (simp_all add: HCIPacket_merge_step_def expect_wire_def small_field_def)
  have 2: "consumes (HCIPacket_merge_step W) (?s (join_scalar HCIPacket_PacketType_PACKET_TYPE_UNSPECIFIED (HCIPacket_field_type a) (HCIPacket_field_type m)) (HCIPacket_packet a))
    ((if HCIPacket_packet m \<noteq> [] then os_bytes W 2 (HCIPacket_packet m) else []))
    (?s (join_scalar HCIPacket_PacketType_PACKET_TYPE_UNSPECIFIED (HCIPacket_field_type a) (HCIPacket_field_type m)) (join_scalar [] (HCIPacket_packet a) (HCIPacket_packet m)))"
    by (rule consumes_bytes [where upd = "\<lambda>v. ?s (join_scalar HCIPacket_PacketType_PACKET_TYPE_UNSPECIFIED (HCIPacket_field_type a) (HCIPacket_field_type m)) v"])
      (use wf l2 in \<open>simp_all add: HCIPacket_merge_step_def expect_wire_def small_field_def HCIPacket_wf_def\<close>)
  note all = consumes_append [OF 1 2]
  have start: "?s (HCIPacket_field_type a) (HCIPacket_packet a) = a"
    by (cases a) simp
  have joined: "?s (join_scalar HCIPacket_PacketType_PACKET_TYPE_UNSPECIFIED (HCIPacket_field_type a) (HCIPacket_field_type m)) (join_scalar [] (HCIPacket_packet a) (HCIPacket_packet m)) = HCIPacket_join W a m"
    by (cases a) (simp add: HCIPacket_join_def)
  show ?thesis
    unfolding w by (rule all [unfolded start joined])
qed

end

sublocale protobuf_runtime < HCIPacket: pb_message W "HCIPacket_new W" HCIPacket_is_initialized "HCIPacket_compute_size W"
    "HCIPacket_write_to_with_cached_sizes W" HCIPacket_get_cached_size "HCIPacket_merge_from W" "HCIPacket_wf W" HCIPacket_canon "HCIPacket_join W"
proof unfold_locales
  show "fst (HCIPacket_compute_size W m) = of_nat (length (HCIPacket_write_to_with_cached_sizes W (snd (HCIPacket_compute_size W m))))" for m
    by (rule HCIPacket_size_exact)
  show "HCIPacket_get_cached_size (snd (HCIPacket_compute_size W m)) = fst (HCIPacket_compute_size W m)" for m
    by (simp add: HCIPacket_get_cached_size_def HCIPacket_sized)
  show "HCIPacket_is_initialized m" for m :: "'u HCIPacket"
    by (simp add: HCIPacket_is_initialized_def list_all_iff)
  show "HCIPacket_merge_from W a (HCIPacket_write_to_with_cached_sizes W (snd (HCIPacket_compute_size W m)) @ r) = HCIPacket_merge_from W (HCIPacket_join W a m) r"
    if "HCIPacket_wf W m" "length (HCIPacket_write_to_with_cached_sizes W (snd (HCIPacket_compute_size W m))) < 2 ^ 32" for a m r
    using HCIPacket_joins [OF that] by (simp add: consumes_def HCIPacket_merge_from_def)
  show "HCIPacket_join W (HCIPacket_new W) m = HCIPacket_canon m" if "HCIPacket_wf W m" for m
    using that by (cases m) (simp add: HCIPacket_join_def HCIPacket_new_def HCIPacket_canon_def HCIPacket_wf_def)
  show "HCIPacket_merge_from W m [] = Inr m" for m
    by (simp add: HCIPacket_merge_from_def)
  show "HCIPacket_merge_from W m is \<noteq> Inl NoProgress" for m "is"
    unfolding HCIPacket_merge_from_def by (rule merge_loop_progress) (rule HCIPacket_takes)
qed

section \<open>\<^verbatim>\<open>StreamPacketsRequest\<close>\<close>

datatype 'u StreamPacketsRequest_oneof_request_type =
    StreamPacketsRequest_oneof_request_type_initial_info "'u ChipInfo"
  | StreamPacketsRequest_oneof_request_type_hci_packet "'u HCIPacket"
  | StreamPacketsRequest_oneof_request_type_packet bytes

record 'u StreamPacketsRequest = "'u pb_special" +
  StreamPacketsRequest_request_type :: "'u StreamPacketsRequest_oneof_request_type option"

definition StreamPacketsRequest_new :: "'u protobuf_rt \<Rightarrow> 'u StreamPacketsRequest" where
  "StreamPacketsRequest_new W =
     \<lparr>unknown_fields = uf_new W, cached_size = 0,
      StreamPacketsRequest_request_type = None\<rparr>"

definition StreamPacketsRequest_get_initial_info :: "'u protobuf_rt \<Rightarrow> 'u StreamPacketsRequest \<Rightarrow> 'u ChipInfo" where
  "StreamPacketsRequest_get_initial_info W m = (case StreamPacketsRequest_request_type m of Some (StreamPacketsRequest_oneof_request_type_initial_info v) \<Rightarrow> v | _ \<Rightarrow> ChipInfo_new W)"
definition StreamPacketsRequest_clear_initial_info :: "'u StreamPacketsRequest \<Rightarrow> 'u StreamPacketsRequest" where
  "StreamPacketsRequest_clear_initial_info m = m\<lparr>StreamPacketsRequest_request_type := None\<rparr>"
definition StreamPacketsRequest_has_initial_info :: "'u StreamPacketsRequest \<Rightarrow> bool" where
  "StreamPacketsRequest_has_initial_info m = (case StreamPacketsRequest_request_type m of Some (StreamPacketsRequest_oneof_request_type_initial_info _) \<Rightarrow> True | _ \<Rightarrow> False)"
definition StreamPacketsRequest_set_initial_info :: "'u ChipInfo \<Rightarrow> 'u StreamPacketsRequest \<Rightarrow> 'u StreamPacketsRequest" where
  "StreamPacketsRequest_set_initial_info v m = m\<lparr>StreamPacketsRequest_request_type := Some (StreamPacketsRequest_oneof_request_type_initial_info v)\<rparr>"
definition StreamPacketsRequest_mut_initial_info :: "'u protobuf_rt \<Rightarrow> ('u ChipInfo \<Rightarrow> 'u ChipInfo) \<Rightarrow> 'u StreamPacketsRequest \<Rightarrow> 'u StreamPacketsRequest result" where
  "StreamPacketsRequest_mut_initial_info W g m =
     (let m = (case StreamPacketsRequest_request_type m of Some (StreamPacketsRequest_oneof_request_type_initial_info _) \<Rightarrow> m | _ \<Rightarrow> m\<lparr>StreamPacketsRequest_request_type := Some (StreamPacketsRequest_oneof_request_type_initial_info (ChipInfo_new W))\<rparr>)
      in case StreamPacketsRequest_request_type m of Some (StreamPacketsRequest_oneof_request_type_initial_info v) \<Rightarrow> Ok (m\<lparr>StreamPacketsRequest_request_type := Some (StreamPacketsRequest_oneof_request_type_initial_info (g v))\<rparr>) | _ \<Rightarrow> Inl (Panic ''explicit panic''))"
definition StreamPacketsRequest_take_initial_info :: "'u protobuf_rt \<Rightarrow> 'u StreamPacketsRequest \<Rightarrow> ('u ChipInfo \<times> 'u StreamPacketsRequest) result" where
  "StreamPacketsRequest_take_initial_info W m =
     (if StreamPacketsRequest_has_initial_info m
      then (case StreamPacketsRequest_request_type m of Some (StreamPacketsRequest_oneof_request_type_initial_info v) \<Rightarrow> Ok (v, m\<lparr>StreamPacketsRequest_request_type := None\<rparr>) | _ \<Rightarrow> Inl (Panic ''explicit panic''))
      else Ok (ChipInfo_new W, m))"
definition StreamPacketsRequest_get_hci_packet :: "'u protobuf_rt \<Rightarrow> 'u StreamPacketsRequest \<Rightarrow> 'u HCIPacket" where
  "StreamPacketsRequest_get_hci_packet W m = (case StreamPacketsRequest_request_type m of Some (StreamPacketsRequest_oneof_request_type_hci_packet v) \<Rightarrow> v | _ \<Rightarrow> HCIPacket_new W)"
definition StreamPacketsRequest_clear_hci_packet :: "'u StreamPacketsRequest \<Rightarrow> 'u StreamPacketsRequest" where
  "StreamPacketsRequest_clear_hci_packet m = m\<lparr>StreamPacketsRequest_request_type := None\<rparr>"
definition StreamPacketsRequest_has_hci_packet :: "'u StreamPacketsRequest \<Rightarrow> bool" where
  "StreamPacketsRequest_has_hci_packet m = (case StreamPacketsRequest_request_type m of Some (StreamPacketsRequest_oneof_request_type_hci_packet _) \<Rightarrow> True | _ \<Rightarrow> False)"
definition StreamPacketsRequest_set_hci_packet :: "'u HCIPacket \<Rightarrow> 'u StreamPacketsRequest \<Rightarrow> 'u StreamPacketsRequest" where
  "StreamPacketsRequest_set_hci_packet v m = m\<lparr>StreamPacketsRequest_request_type := Some (StreamPacketsRequest_oneof_request_type_hci_packet v)\<rparr>"
definition StreamPacketsRequest_mut_hci_packet :: "'u protobuf_rt \<Rightarrow> ('u HCIPacket \<Rightarrow> 'u HCIPacket) \<Rightarrow> 'u StreamPacketsRequest \<Rightarrow> 'u StreamPacketsRequest result" where
  "StreamPacketsRequest_mut_hci_packet W g m =
     (let m = (case StreamPacketsRequest_request_type m of Some (StreamPacketsRequest_oneof_request_type_hci_packet _) \<Rightarrow> m | _ \<Rightarrow> m\<lparr>StreamPacketsRequest_request_type := Some (StreamPacketsRequest_oneof_request_type_hci_packet (HCIPacket_new W))\<rparr>)
      in case StreamPacketsRequest_request_type m of Some (StreamPacketsRequest_oneof_request_type_hci_packet v) \<Rightarrow> Ok (m\<lparr>StreamPacketsRequest_request_type := Some (StreamPacketsRequest_oneof_request_type_hci_packet (g v))\<rparr>) | _ \<Rightarrow> Inl (Panic ''explicit panic''))"
definition StreamPacketsRequest_take_hci_packet :: "'u protobuf_rt \<Rightarrow> 'u StreamPacketsRequest \<Rightarrow> ('u HCIPacket \<times> 'u StreamPacketsRequest) result" where
  "StreamPacketsRequest_take_hci_packet W m =
     (if StreamPacketsRequest_has_hci_packet m
      then (case StreamPacketsRequest_request_type m of Some (StreamPacketsRequest_oneof_request_type_hci_packet v) \<Rightarrow> Ok (v, m\<lparr>StreamPacketsRequest_request_type := None\<rparr>) | _ \<Rightarrow> Inl (Panic ''explicit panic''))
      else Ok (HCIPacket_new W, m))"
definition StreamPacketsRequest_get_packet :: "'u StreamPacketsRequest \<Rightarrow> bytes" where
  "StreamPacketsRequest_get_packet m = (case StreamPacketsRequest_request_type m of Some (StreamPacketsRequest_oneof_request_type_packet v) \<Rightarrow> v | _ \<Rightarrow> [])"
definition StreamPacketsRequest_clear_packet :: "'u StreamPacketsRequest \<Rightarrow> 'u StreamPacketsRequest" where
  "StreamPacketsRequest_clear_packet m = m\<lparr>StreamPacketsRequest_request_type := None\<rparr>"
definition StreamPacketsRequest_has_packet :: "'u StreamPacketsRequest \<Rightarrow> bool" where
  "StreamPacketsRequest_has_packet m = (case StreamPacketsRequest_request_type m of Some (StreamPacketsRequest_oneof_request_type_packet _) \<Rightarrow> True | _ \<Rightarrow> False)"
definition StreamPacketsRequest_set_packet :: "bytes \<Rightarrow> 'u StreamPacketsRequest \<Rightarrow> 'u StreamPacketsRequest" where
  "StreamPacketsRequest_set_packet v m = m\<lparr>StreamPacketsRequest_request_type := Some (StreamPacketsRequest_oneof_request_type_packet v)\<rparr>"
definition StreamPacketsRequest_mut_packet :: "(bytes \<Rightarrow> bytes) \<Rightarrow> 'u StreamPacketsRequest \<Rightarrow> 'u StreamPacketsRequest result" where
  "StreamPacketsRequest_mut_packet g m =
     (let m = (case StreamPacketsRequest_request_type m of Some (StreamPacketsRequest_oneof_request_type_packet _) \<Rightarrow> m | _ \<Rightarrow> m\<lparr>StreamPacketsRequest_request_type := Some (StreamPacketsRequest_oneof_request_type_packet [])\<rparr>)
      in case StreamPacketsRequest_request_type m of Some (StreamPacketsRequest_oneof_request_type_packet v) \<Rightarrow> Ok (m\<lparr>StreamPacketsRequest_request_type := Some (StreamPacketsRequest_oneof_request_type_packet (g v))\<rparr>) | _ \<Rightarrow> Inl (Panic ''explicit panic''))"
definition StreamPacketsRequest_take_packet :: "'u StreamPacketsRequest \<Rightarrow> (bytes \<times> 'u StreamPacketsRequest) result" where
  "StreamPacketsRequest_take_packet m =
     (if StreamPacketsRequest_has_packet m
      then (case StreamPacketsRequest_request_type m of Some (StreamPacketsRequest_oneof_request_type_packet v) \<Rightarrow> Ok (v, m\<lparr>StreamPacketsRequest_request_type := None\<rparr>) | _ \<Rightarrow> Inl (Panic ''explicit panic''))
      else Ok ([], m))"

interpretation StreamPacketsRequest_initial_info: presence_field "ChipInfo_new W" StreamPacketsRequest_has_initial_info "StreamPacketsRequest_get_initial_info W" StreamPacketsRequest_set_initial_info
    StreamPacketsRequest_clear_initial_info "StreamPacketsRequest_mut_initial_info W" "StreamPacketsRequest_take_initial_info W" for W
  by unfold_locales
    (auto simp: StreamPacketsRequest_get_initial_info_def StreamPacketsRequest_clear_initial_info_def StreamPacketsRequest_has_initial_info_def StreamPacketsRequest_set_initial_info_def StreamPacketsRequest_mut_initial_info_def StreamPacketsRequest_take_initial_info_def
      split: option.splits StreamPacketsRequest_oneof_request_type.splits)

interpretation StreamPacketsRequest_hci_packet: presence_field "HCIPacket_new W" StreamPacketsRequest_has_hci_packet "StreamPacketsRequest_get_hci_packet W" StreamPacketsRequest_set_hci_packet
    StreamPacketsRequest_clear_hci_packet "StreamPacketsRequest_mut_hci_packet W" "StreamPacketsRequest_take_hci_packet W" for W
  by unfold_locales
    (auto simp: StreamPacketsRequest_get_hci_packet_def StreamPacketsRequest_clear_hci_packet_def StreamPacketsRequest_has_hci_packet_def StreamPacketsRequest_set_hci_packet_def StreamPacketsRequest_mut_hci_packet_def StreamPacketsRequest_take_hci_packet_def
      split: option.splits StreamPacketsRequest_oneof_request_type.splits)

interpretation StreamPacketsRequest_packet: presence_field "[]" StreamPacketsRequest_has_packet StreamPacketsRequest_get_packet StreamPacketsRequest_set_packet
    StreamPacketsRequest_clear_packet StreamPacketsRequest_mut_packet StreamPacketsRequest_take_packet
  by unfold_locales
    (auto simp: StreamPacketsRequest_get_packet_def StreamPacketsRequest_clear_packet_def StreamPacketsRequest_has_packet_def StreamPacketsRequest_set_packet_def StreamPacketsRequest_mut_packet_def StreamPacketsRequest_take_packet_def
      split: option.splits StreamPacketsRequest_oneof_request_type.splits)

definition StreamPacketsRequest_is_initialized :: "'u StreamPacketsRequest \<Rightarrow> bool" where
  "StreamPacketsRequest_is_initialized m =
     ((case StreamPacketsRequest_request_type m of Some (StreamPacketsRequest_oneof_request_type_initial_info v) \<Rightarrow> ChipInfo_is_initialized v | _ \<Rightarrow> True) \<and>
      (case StreamPacketsRequest_request_type m of Some (StreamPacketsRequest_oneof_request_type_hci_packet v) \<Rightarrow> HCIPacket_is_initialized v | _ \<Rightarrow> True))"

definition StreamPacketsRequest_merge_step :: "'u protobuf_rt \<Rightarrow> 'u StreamPacketsRequest \<Rightarrow> bytes \<Rightarrow> 'u StreamPacketsRequest reads" where
  "StreamPacketsRequest_merge_step W m is =
     bindE (rt_tag W is) (\<lambda>((field_number, wire_type), is).
       if field_number = 1 then
         expect_wire WireTypeLengthDelimited wire_type
          (bindE (read_message W (ChipInfo_new W) (ChipInfo_merge_from W) ChipInfo_is_initialized is) (\<lambda>(v, is). Ok (m\<lparr>StreamPacketsRequest_request_type := Some (StreamPacketsRequest_oneof_request_type_initial_info v)\<rparr>, is)))
       else if field_number = 2 then
         expect_wire WireTypeLengthDelimited wire_type
          (bindE (read_message W (HCIPacket_new W) (HCIPacket_merge_from W) HCIPacket_is_initialized is) (\<lambda>(v, is). Ok (m\<lparr>StreamPacketsRequest_request_type := Some (StreamPacketsRequest_oneof_request_type_hci_packet v)\<rparr>, is)))
       else if field_number = 3 then
         expect_wire WireTypeLengthDelimited wire_type
          (bindE (rt_bytes W is) (\<lambda>(v, is). Ok (m\<lparr>StreamPacketsRequest_request_type := Some (StreamPacketsRequest_oneof_request_type_packet v)\<rparr>, is)))
       else bindE (rt_unknown W field_number wire_type is (unknown_fields m))
         (\<lambda>(u, is). Ok (m\<lparr>unknown_fields := u\<rparr>, is)))"

definition StreamPacketsRequest_merge_from :: "'u protobuf_rt \<Rightarrow> 'u StreamPacketsRequest \<Rightarrow> bytes \<Rightarrow> pb_error + 'u StreamPacketsRequest" where
  "StreamPacketsRequest_merge_from W = merge_loop (StreamPacketsRequest_merge_step W)"

fun StreamPacketsRequest_oneof_request_type_size :: "'u protobuf_rt \<Rightarrow> 'u StreamPacketsRequest_oneof_request_type \<Rightarrow> u32 \<times> 'u StreamPacketsRequest_oneof_request_type" where
  "StreamPacketsRequest_oneof_request_type_size W (StreamPacketsRequest_oneof_request_type_initial_info v) =
     (let (n, v) = embedded_size W (ChipInfo_compute_size W) v in (n, StreamPacketsRequest_oneof_request_type_initial_info v))"
| "StreamPacketsRequest_oneof_request_type_size W (StreamPacketsRequest_oneof_request_type_hci_packet v) =
     (let (n, v) = embedded_size W (HCIPacket_compute_size W) v in (n, StreamPacketsRequest_oneof_request_type_hci_packet v))"
| "StreamPacketsRequest_oneof_request_type_size W (StreamPacketsRequest_oneof_request_type_packet v) = (sz_bytes W 3 v, StreamPacketsRequest_oneof_request_type_packet v)"

fun StreamPacketsRequest_oneof_request_type_write :: "'u protobuf_rt \<Rightarrow> 'u StreamPacketsRequest_oneof_request_type \<Rightarrow> bytes" where
  "StreamPacketsRequest_oneof_request_type_write W (StreamPacketsRequest_oneof_request_type_initial_info v) =
     os_message W 1 ChipInfo_get_cached_size (ChipInfo_write_to_with_cached_sizes W) v"
| "StreamPacketsRequest_oneof_request_type_write W (StreamPacketsRequest_oneof_request_type_hci_packet v) =
     os_message W 2 HCIPacket_get_cached_size (HCIPacket_write_to_with_cached_sizes W) v"
| "StreamPacketsRequest_oneof_request_type_write W (StreamPacketsRequest_oneof_request_type_packet v) = os_bytes W 3 v"

definition StreamPacketsRequest_compute_size :: "'u protobuf_rt \<Rightarrow> 'u StreamPacketsRequest \<Rightarrow> u32 \<times> 'u StreamPacketsRequest" where
  "StreamPacketsRequest_compute_size W m =
     (let my_size = 0;
          (n, request_type) = (case StreamPacketsRequest_request_type m of None \<Rightarrow> (0, None) | Some v \<Rightarrow> let (n, v) = StreamPacketsRequest_oneof_request_type_size W v in (n, Some v)); my_size = my_size + n;
          my_size = my_size + uf_size W (unknown_fields m)
      in (my_size, m\<lparr>StreamPacketsRequest_request_type := request_type, cached_size := my_size\<rparr>))"

definition StreamPacketsRequest_write_to_with_cached_sizes :: "'u protobuf_rt \<Rightarrow> 'u StreamPacketsRequest \<Rightarrow> bytes" where
  "StreamPacketsRequest_write_to_with_cached_sizes W m =
     (case StreamPacketsRequest_request_type m of None \<Rightarrow> [] | Some v \<Rightarrow> StreamPacketsRequest_oneof_request_type_write W v) @
     os_unknown W (unknown_fields m)"

definition StreamPacketsRequest_get_cached_size :: "'u StreamPacketsRequest \<Rightarrow> u32" where
  "StreamPacketsRequest_get_cached_size m = cached_size m"

definition StreamPacketsRequest_clear :: "'u protobuf_rt \<Rightarrow> 'u StreamPacketsRequest \<Rightarrow> 'u StreamPacketsRequest" where
  "StreamPacketsRequest_clear W m = m\<lparr>StreamPacketsRequest_request_type := None, unknown_fields := uf_new W\<rparr>"

text \<open>Values Rust can hold, without unknown fields, and what a reader gets back.\<close>

fun StreamPacketsRequest_oneof_request_type_wf :: "'u protobuf_rt \<Rightarrow> 'u StreamPacketsRequest_oneof_request_type \<Rightarrow> bool" where
  "StreamPacketsRequest_oneof_request_type_wf W (StreamPacketsRequest_oneof_request_type_initial_info v) = ChipInfo_wf W v"
| "StreamPacketsRequest_oneof_request_type_wf W (StreamPacketsRequest_oneof_request_type_hci_packet v) = HCIPacket_wf W v"
| "StreamPacketsRequest_oneof_request_type_wf W (StreamPacketsRequest_oneof_request_type_packet v) = True"

fun StreamPacketsRequest_oneof_request_type_canon :: "'u StreamPacketsRequest_oneof_request_type \<Rightarrow> 'u StreamPacketsRequest_oneof_request_type" where
  "StreamPacketsRequest_oneof_request_type_canon (StreamPacketsRequest_oneof_request_type_initial_info v) = StreamPacketsRequest_oneof_request_type_initial_info (ChipInfo_canon v)"
| "StreamPacketsRequest_oneof_request_type_canon (StreamPacketsRequest_oneof_request_type_hci_packet v) = StreamPacketsRequest_oneof_request_type_hci_packet (HCIPacket_canon v)"
| "StreamPacketsRequest_oneof_request_type_canon (StreamPacketsRequest_oneof_request_type_packet v) = StreamPacketsRequest_oneof_request_type_packet v"

definition StreamPacketsRequest_wf :: "'u protobuf_rt \<Rightarrow> 'u StreamPacketsRequest \<Rightarrow> bool" where
  "StreamPacketsRequest_wf W m \<longleftrightarrow>
     unknown_fields m = uf_new W \<and>
     pred_option (StreamPacketsRequest_oneof_request_type_wf W) (StreamPacketsRequest_request_type m)"

definition StreamPacketsRequest_canon :: "'u StreamPacketsRequest \<Rightarrow> 'u StreamPacketsRequest" where
  "StreamPacketsRequest_canon m = m\<lparr>cached_size := 0, StreamPacketsRequest_request_type := map_option StreamPacketsRequest_oneof_request_type_canon (StreamPacketsRequest_request_type m)\<rparr>"

text \<open>The message after an encoding of \<open>m\<close> has been read into it.\<close>

definition StreamPacketsRequest_join :: "'u protobuf_rt \<Rightarrow> 'u StreamPacketsRequest \<Rightarrow> 'u StreamPacketsRequest \<Rightarrow> 'u StreamPacketsRequest" where
  "StreamPacketsRequest_join W a m = a\<lparr>StreamPacketsRequest_request_type := join_oneof StreamPacketsRequest_oneof_request_type_canon (StreamPacketsRequest_request_type a) (StreamPacketsRequest_request_type m)\<rparr>"

context protobuf_runtime
begin

lemma StreamPacketsRequest_oneof_request_type_size_exact:
  "fst (StreamPacketsRequest_oneof_request_type_size W v) = of_nat (length (StreamPacketsRequest_oneof_request_type_write W (snd (StreamPacketsRequest_oneof_request_type_size W v))))"
  by (cases v) (simp_all add: case_prod_beta size_laws small_field_def ChipInfo.embedded_size_exact [symmetric] HCIPacket.embedded_size_exact [symmetric])

lemma StreamPacketsRequest_sized:
  "snd (StreamPacketsRequest_compute_size W m) =
     m\<lparr>StreamPacketsRequest_request_type := snd ((case StreamPacketsRequest_request_type m of None \<Rightarrow> (0, None) | Some v \<Rightarrow> let (n, v) = StreamPacketsRequest_oneof_request_type_size W v in (n, Some v))), cached_size := fst (StreamPacketsRequest_compute_size W m)\<rparr>"
  by (simp add: StreamPacketsRequest_compute_size_def Let_def case_prod_beta)

lemma StreamPacketsRequest_size_exact:
  "fst (StreamPacketsRequest_compute_size W m) = of_nat (length (StreamPacketsRequest_write_to_with_cached_sizes W (snd (StreamPacketsRequest_compute_size W m))))"
  by (cases "StreamPacketsRequest_request_type m")
    (simp_all add: StreamPacketsRequest_compute_size_def StreamPacketsRequest_sized StreamPacketsRequest_write_to_with_cached_sizes_def Let_def case_prod_beta size_chain size_laws
      small_field_def  StreamPacketsRequest_oneof_request_type_size_exact)

lemma StreamPacketsRequest_takes: "takes 1 is (StreamPacketsRequest_merge_step W m is)"
  unfolding StreamPacketsRequest_merge_step_def
  by (rule takes_bind, rule takes_laws) (auto intro!: takes_bind takes_expect takes_laws ChipInfo.takes_read_message HCIPacket.takes_read_message split: prod.splits)

lemma StreamPacketsRequest_joins:
  assumes wf: "StreamPacketsRequest_wf W m" and len: "length (StreamPacketsRequest_write_to_with_cached_sizes W (snd (StreamPacketsRequest_compute_size W m))) < 2 ^ 32"
  shows "consumes (StreamPacketsRequest_merge_step W) a (StreamPacketsRequest_write_to_with_cached_sizes W (snd (StreamPacketsRequest_compute_size W m))) (StreamPacketsRequest_join W a m)"
proof -
  let ?s = "\<lambda>v1. \<lparr>unknown_fields = unknown_fields a, cached_size = cached_size a, StreamPacketsRequest_request_type = v1\<rparr>"
  have w: "StreamPacketsRequest_write_to_with_cached_sizes W (snd (StreamPacketsRequest_compute_size W m)) =
    (case StreamPacketsRequest_request_type m of None \<Rightarrow> [] | Some v \<Rightarrow> StreamPacketsRequest_oneof_request_type_write W (snd (StreamPacketsRequest_oneof_request_type_size W v)))"
    using wf by (simp add: StreamPacketsRequest_sized StreamPacketsRequest_write_to_with_cached_sizes_def StreamPacketsRequest_wf_def unknown_none case_prod_beta split: option.splits)
  note l1 = len [unfolded w]
  have 1: "consumes (StreamPacketsRequest_merge_step W) (?s (StreamPacketsRequest_request_type a))
    ((case StreamPacketsRequest_request_type m of None \<Rightarrow> [] | Some v \<Rightarrow> StreamPacketsRequest_oneof_request_type_write W (snd (StreamPacketsRequest_oneof_request_type_size W v))))
    (?s (join_oneof StreamPacketsRequest_oneof_request_type_canon (StreamPacketsRequest_request_type a) (StreamPacketsRequest_request_type m)))"
  proof (cases "StreamPacketsRequest_request_type m")
    case (Some v)
    note l = l1 [unfolded Some option.case]
    show ?thesis
    proof (cases v)
      case (StreamPacketsRequest_oneof_request_type_initial_info u)
      have "consumes (StreamPacketsRequest_merge_step W) (?s (StreamPacketsRequest_request_type a))
        (os_message W 1 ChipInfo_get_cached_size (ChipInfo_write_to_with_cached_sizes W)
          (snd (embedded_size W (ChipInfo_compute_size W) u)))
        (?s (Some (StreamPacketsRequest_oneof_request_type_initial_info (ChipInfo_canon u))))"
        by (rule ChipInfo.consumes_message [where upd = "\<lambda>v. ?s (Some (StreamPacketsRequest_oneof_request_type_initial_info v))" and v = u and f = 1])
          (use wf l in \<open>simp_all add: StreamPacketsRequest_merge_step_def expect_wire_def small_field_def StreamPacketsRequest_wf_def Some StreamPacketsRequest_oneof_request_type_initial_info case_prod_beta\<close>)
      then show ?thesis
        by (simp add: Some StreamPacketsRequest_oneof_request_type_initial_info case_prod_beta join_oneof_def)
    next
      case (StreamPacketsRequest_oneof_request_type_hci_packet u)
      have "consumes (StreamPacketsRequest_merge_step W) (?s (StreamPacketsRequest_request_type a))
        (os_message W 2 HCIPacket_get_cached_size (HCIPacket_write_to_with_cached_sizes W)
          (snd (embedded_size W (HCIPacket_compute_size W) u)))
        (?s (Some (StreamPacketsRequest_oneof_request_type_hci_packet (HCIPacket_canon u))))"
        by (rule HCIPacket.consumes_message [where upd = "\<lambda>v. ?s (Some (StreamPacketsRequest_oneof_request_type_hci_packet v))" and v = u and f = 2])
          (use wf l in \<open>simp_all add: StreamPacketsRequest_merge_step_def expect_wire_def small_field_def StreamPacketsRequest_wf_def Some StreamPacketsRequest_oneof_request_type_hci_packet case_prod_beta\<close>)
      then show ?thesis
        by (simp add: Some StreamPacketsRequest_oneof_request_type_hci_packet case_prod_beta join_oneof_def)
    next
      case (StreamPacketsRequest_oneof_request_type_packet u)
      have "consumes (StreamPacketsRequest_merge_step W) (?s (StreamPacketsRequest_request_type a))
        (os_bytes W 3 u)
        (?s (Some (StreamPacketsRequest_oneof_request_type_packet u)))"
        by (rule consumes_read_bytes [where upd = "\<lambda>v. ?s (Some (StreamPacketsRequest_oneof_request_type_packet v))" and v = u and f = 3])
          (use wf l in \<open>simp_all add: StreamPacketsRequest_merge_step_def expect_wire_def small_field_def StreamPacketsRequest_wf_def Some StreamPacketsRequest_oneof_request_type_packet case_prod_beta\<close>)
      then show ?thesis
        by (simp add: Some StreamPacketsRequest_oneof_request_type_packet case_prod_beta join_oneof_def)
    qed
  qed (simp add: consumes_finish join_oneof_def)
  note all = 1
  have start: "?s (StreamPacketsRequest_request_type a) = a"
    by (cases a) simp
  have joined: "?s (join_oneof StreamPacketsRequest_oneof_request_type_canon (StreamPacketsRequest_request_type a) (StreamPacketsRequest_request_type m)) = StreamPacketsRequest_join W a m"
    by (cases a) (simp add: StreamPacketsRequest_join_def)
  show ?thesis
    unfolding w by (rule all [unfolded start joined])
qed

end

sublocale protobuf_runtime < StreamPacketsRequest: pb_message W "StreamPacketsRequest_new W" StreamPacketsRequest_is_initialized "StreamPacketsRequest_compute_size W"
    "StreamPacketsRequest_write_to_with_cached_sizes W" StreamPacketsRequest_get_cached_size "StreamPacketsRequest_merge_from W" "StreamPacketsRequest_wf W" StreamPacketsRequest_canon "StreamPacketsRequest_join W"
proof unfold_locales
  show "fst (StreamPacketsRequest_compute_size W m) = of_nat (length (StreamPacketsRequest_write_to_with_cached_sizes W (snd (StreamPacketsRequest_compute_size W m))))" for m
    by (rule StreamPacketsRequest_size_exact)
  show "StreamPacketsRequest_get_cached_size (snd (StreamPacketsRequest_compute_size W m)) = fst (StreamPacketsRequest_compute_size W m)" for m
    by (simp add: StreamPacketsRequest_get_cached_size_def StreamPacketsRequest_sized)
  show "StreamPacketsRequest_is_initialized m" for m :: "'u StreamPacketsRequest"
    by (simp add: StreamPacketsRequest_is_initialized_def list_all_iff ChipInfo.all_initialized HCIPacket.all_initialized split: option.splits StreamPacketsRequest_oneof_request_type.splits)
  show "StreamPacketsRequest_merge_from W a (StreamPacketsRequest_write_to_with_cached_sizes W (snd (StreamPacketsRequest_compute_size W m)) @ r) = StreamPacketsRequest_merge_from W (StreamPacketsRequest_join W a m) r"
    if "StreamPacketsRequest_wf W m" "length (StreamPacketsRequest_write_to_with_cached_sizes W (snd (StreamPacketsRequest_compute_size W m))) < 2 ^ 32" for a m r
    using StreamPacketsRequest_joins [OF that] by (simp add: consumes_def StreamPacketsRequest_merge_from_def)
  show "StreamPacketsRequest_join W (StreamPacketsRequest_new W) m = StreamPacketsRequest_canon m" if "StreamPacketsRequest_wf W m" for m
    using that by (cases m) (simp add: StreamPacketsRequest_join_def StreamPacketsRequest_new_def StreamPacketsRequest_canon_def StreamPacketsRequest_wf_def)
  show "StreamPacketsRequest_merge_from W m [] = Inr m" for m
    by (simp add: StreamPacketsRequest_merge_from_def)
  show "StreamPacketsRequest_merge_from W m is \<noteq> Inl NoProgress" for m "is"
    unfolding StreamPacketsRequest_merge_from_def by (rule merge_loop_progress) (rule StreamPacketsRequest_takes)
qed

section \<open>\<^verbatim>\<open>StreamPacketsResponse\<close>\<close>

datatype 'u StreamPacketsResponse_oneof_response_type =
    StreamPacketsResponse_oneof_response_type_error string
  | StreamPacketsResponse_oneof_response_type_hci_packet "'u HCIPacket"
  | StreamPacketsResponse_oneof_response_type_packet bytes

record 'u StreamPacketsResponse = "'u pb_special" +
  StreamPacketsResponse_response_type :: "'u StreamPacketsResponse_oneof_response_type option"

definition StreamPacketsResponse_new :: "'u protobuf_rt \<Rightarrow> 'u StreamPacketsResponse" where
  "StreamPacketsResponse_new W =
     \<lparr>unknown_fields = uf_new W, cached_size = 0,
      StreamPacketsResponse_response_type = None\<rparr>"

definition StreamPacketsResponse_get_error :: "'u StreamPacketsResponse \<Rightarrow> string" where
  "StreamPacketsResponse_get_error m = (case StreamPacketsResponse_response_type m of Some (StreamPacketsResponse_oneof_response_type_error v) \<Rightarrow> v | _ \<Rightarrow> [])"
definition StreamPacketsResponse_clear_error :: "'u StreamPacketsResponse \<Rightarrow> 'u StreamPacketsResponse" where
  "StreamPacketsResponse_clear_error m = m\<lparr>StreamPacketsResponse_response_type := None\<rparr>"
definition StreamPacketsResponse_has_error :: "'u StreamPacketsResponse \<Rightarrow> bool" where
  "StreamPacketsResponse_has_error m = (case StreamPacketsResponse_response_type m of Some (StreamPacketsResponse_oneof_response_type_error _) \<Rightarrow> True | _ \<Rightarrow> False)"
definition StreamPacketsResponse_set_error :: "string \<Rightarrow> 'u StreamPacketsResponse \<Rightarrow> 'u StreamPacketsResponse" where
  "StreamPacketsResponse_set_error v m = m\<lparr>StreamPacketsResponse_response_type := Some (StreamPacketsResponse_oneof_response_type_error v)\<rparr>"
definition StreamPacketsResponse_mut_error :: "(string \<Rightarrow> string) \<Rightarrow> 'u StreamPacketsResponse \<Rightarrow> 'u StreamPacketsResponse result" where
  "StreamPacketsResponse_mut_error g m =
     (let m = (case StreamPacketsResponse_response_type m of Some (StreamPacketsResponse_oneof_response_type_error _) \<Rightarrow> m | _ \<Rightarrow> m\<lparr>StreamPacketsResponse_response_type := Some (StreamPacketsResponse_oneof_response_type_error [])\<rparr>)
      in case StreamPacketsResponse_response_type m of Some (StreamPacketsResponse_oneof_response_type_error v) \<Rightarrow> Ok (m\<lparr>StreamPacketsResponse_response_type := Some (StreamPacketsResponse_oneof_response_type_error (g v))\<rparr>) | _ \<Rightarrow> Inl (Panic ''explicit panic''))"
definition StreamPacketsResponse_take_error :: "'u StreamPacketsResponse \<Rightarrow> (string \<times> 'u StreamPacketsResponse) result" where
  "StreamPacketsResponse_take_error m =
     (if StreamPacketsResponse_has_error m
      then (case StreamPacketsResponse_response_type m of Some (StreamPacketsResponse_oneof_response_type_error v) \<Rightarrow> Ok (v, m\<lparr>StreamPacketsResponse_response_type := None\<rparr>) | _ \<Rightarrow> Inl (Panic ''explicit panic''))
      else Ok ([], m))"
definition StreamPacketsResponse_get_hci_packet :: "'u protobuf_rt \<Rightarrow> 'u StreamPacketsResponse \<Rightarrow> 'u HCIPacket" where
  "StreamPacketsResponse_get_hci_packet W m = (case StreamPacketsResponse_response_type m of Some (StreamPacketsResponse_oneof_response_type_hci_packet v) \<Rightarrow> v | _ \<Rightarrow> HCIPacket_new W)"
definition StreamPacketsResponse_clear_hci_packet :: "'u StreamPacketsResponse \<Rightarrow> 'u StreamPacketsResponse" where
  "StreamPacketsResponse_clear_hci_packet m = m\<lparr>StreamPacketsResponse_response_type := None\<rparr>"
definition StreamPacketsResponse_has_hci_packet :: "'u StreamPacketsResponse \<Rightarrow> bool" where
  "StreamPacketsResponse_has_hci_packet m = (case StreamPacketsResponse_response_type m of Some (StreamPacketsResponse_oneof_response_type_hci_packet _) \<Rightarrow> True | _ \<Rightarrow> False)"
definition StreamPacketsResponse_set_hci_packet :: "'u HCIPacket \<Rightarrow> 'u StreamPacketsResponse \<Rightarrow> 'u StreamPacketsResponse" where
  "StreamPacketsResponse_set_hci_packet v m = m\<lparr>StreamPacketsResponse_response_type := Some (StreamPacketsResponse_oneof_response_type_hci_packet v)\<rparr>"
definition StreamPacketsResponse_mut_hci_packet :: "'u protobuf_rt \<Rightarrow> ('u HCIPacket \<Rightarrow> 'u HCIPacket) \<Rightarrow> 'u StreamPacketsResponse \<Rightarrow> 'u StreamPacketsResponse result" where
  "StreamPacketsResponse_mut_hci_packet W g m =
     (let m = (case StreamPacketsResponse_response_type m of Some (StreamPacketsResponse_oneof_response_type_hci_packet _) \<Rightarrow> m | _ \<Rightarrow> m\<lparr>StreamPacketsResponse_response_type := Some (StreamPacketsResponse_oneof_response_type_hci_packet (HCIPacket_new W))\<rparr>)
      in case StreamPacketsResponse_response_type m of Some (StreamPacketsResponse_oneof_response_type_hci_packet v) \<Rightarrow> Ok (m\<lparr>StreamPacketsResponse_response_type := Some (StreamPacketsResponse_oneof_response_type_hci_packet (g v))\<rparr>) | _ \<Rightarrow> Inl (Panic ''explicit panic''))"
definition StreamPacketsResponse_take_hci_packet :: "'u protobuf_rt \<Rightarrow> 'u StreamPacketsResponse \<Rightarrow> ('u HCIPacket \<times> 'u StreamPacketsResponse) result" where
  "StreamPacketsResponse_take_hci_packet W m =
     (if StreamPacketsResponse_has_hci_packet m
      then (case StreamPacketsResponse_response_type m of Some (StreamPacketsResponse_oneof_response_type_hci_packet v) \<Rightarrow> Ok (v, m\<lparr>StreamPacketsResponse_response_type := None\<rparr>) | _ \<Rightarrow> Inl (Panic ''explicit panic''))
      else Ok (HCIPacket_new W, m))"
definition StreamPacketsResponse_get_packet :: "'u StreamPacketsResponse \<Rightarrow> bytes" where
  "StreamPacketsResponse_get_packet m = (case StreamPacketsResponse_response_type m of Some (StreamPacketsResponse_oneof_response_type_packet v) \<Rightarrow> v | _ \<Rightarrow> [])"
definition StreamPacketsResponse_clear_packet :: "'u StreamPacketsResponse \<Rightarrow> 'u StreamPacketsResponse" where
  "StreamPacketsResponse_clear_packet m = m\<lparr>StreamPacketsResponse_response_type := None\<rparr>"
definition StreamPacketsResponse_has_packet :: "'u StreamPacketsResponse \<Rightarrow> bool" where
  "StreamPacketsResponse_has_packet m = (case StreamPacketsResponse_response_type m of Some (StreamPacketsResponse_oneof_response_type_packet _) \<Rightarrow> True | _ \<Rightarrow> False)"
definition StreamPacketsResponse_set_packet :: "bytes \<Rightarrow> 'u StreamPacketsResponse \<Rightarrow> 'u StreamPacketsResponse" where
  "StreamPacketsResponse_set_packet v m = m\<lparr>StreamPacketsResponse_response_type := Some (StreamPacketsResponse_oneof_response_type_packet v)\<rparr>"
definition StreamPacketsResponse_mut_packet :: "(bytes \<Rightarrow> bytes) \<Rightarrow> 'u StreamPacketsResponse \<Rightarrow> 'u StreamPacketsResponse result" where
  "StreamPacketsResponse_mut_packet g m =
     (let m = (case StreamPacketsResponse_response_type m of Some (StreamPacketsResponse_oneof_response_type_packet _) \<Rightarrow> m | _ \<Rightarrow> m\<lparr>StreamPacketsResponse_response_type := Some (StreamPacketsResponse_oneof_response_type_packet [])\<rparr>)
      in case StreamPacketsResponse_response_type m of Some (StreamPacketsResponse_oneof_response_type_packet v) \<Rightarrow> Ok (m\<lparr>StreamPacketsResponse_response_type := Some (StreamPacketsResponse_oneof_response_type_packet (g v))\<rparr>) | _ \<Rightarrow> Inl (Panic ''explicit panic''))"
definition StreamPacketsResponse_take_packet :: "'u StreamPacketsResponse \<Rightarrow> (bytes \<times> 'u StreamPacketsResponse) result" where
  "StreamPacketsResponse_take_packet m =
     (if StreamPacketsResponse_has_packet m
      then (case StreamPacketsResponse_response_type m of Some (StreamPacketsResponse_oneof_response_type_packet v) \<Rightarrow> Ok (v, m\<lparr>StreamPacketsResponse_response_type := None\<rparr>) | _ \<Rightarrow> Inl (Panic ''explicit panic''))
      else Ok ([], m))"

interpretation StreamPacketsResponse_error: presence_field "[]" StreamPacketsResponse_has_error StreamPacketsResponse_get_error StreamPacketsResponse_set_error
    StreamPacketsResponse_clear_error StreamPacketsResponse_mut_error StreamPacketsResponse_take_error
  by unfold_locales
    (auto simp: StreamPacketsResponse_get_error_def StreamPacketsResponse_clear_error_def StreamPacketsResponse_has_error_def StreamPacketsResponse_set_error_def StreamPacketsResponse_mut_error_def StreamPacketsResponse_take_error_def
      split: option.splits StreamPacketsResponse_oneof_response_type.splits)

interpretation StreamPacketsResponse_hci_packet: presence_field "HCIPacket_new W" StreamPacketsResponse_has_hci_packet "StreamPacketsResponse_get_hci_packet W" StreamPacketsResponse_set_hci_packet
    StreamPacketsResponse_clear_hci_packet "StreamPacketsResponse_mut_hci_packet W" "StreamPacketsResponse_take_hci_packet W" for W
  by unfold_locales
    (auto simp: StreamPacketsResponse_get_hci_packet_def StreamPacketsResponse_clear_hci_packet_def StreamPacketsResponse_has_hci_packet_def StreamPacketsResponse_set_hci_packet_def StreamPacketsResponse_mut_hci_packet_def StreamPacketsResponse_take_hci_packet_def
      split: option.splits StreamPacketsResponse_oneof_response_type.splits)

interpretation StreamPacketsResponse_packet: presence_field "[]" StreamPacketsResponse_has_packet StreamPacketsResponse_get_packet StreamPacketsResponse_set_packet
    StreamPacketsResponse_clear_packet StreamPacketsResponse_mut_packet StreamPacketsResponse_take_packet
  by unfold_locales
    (auto simp: StreamPacketsResponse_get_packet_def StreamPacketsResponse_clear_packet_def StreamPacketsResponse_has_packet_def StreamPacketsResponse_set_packet_def StreamPacketsResponse_mut_packet_def StreamPacketsResponse_take_packet_def
      split: option.splits StreamPacketsResponse_oneof_response_type.splits)

definition StreamPacketsResponse_is_initialized :: "'u StreamPacketsResponse \<Rightarrow> bool" where
  "StreamPacketsResponse_is_initialized m =
     ((case StreamPacketsResponse_response_type m of Some (StreamPacketsResponse_oneof_response_type_hci_packet v) \<Rightarrow> HCIPacket_is_initialized v | _ \<Rightarrow> True))"

definition StreamPacketsResponse_merge_step :: "'u protobuf_rt \<Rightarrow> 'u StreamPacketsResponse \<Rightarrow> bytes \<Rightarrow> 'u StreamPacketsResponse reads" where
  "StreamPacketsResponse_merge_step W m is =
     bindE (rt_tag W is) (\<lambda>((field_number, wire_type), is).
       if field_number = 1 then
         expect_wire WireTypeLengthDelimited wire_type
          (bindE (rt_string W is) (\<lambda>(v, is). Ok (m\<lparr>StreamPacketsResponse_response_type := Some (StreamPacketsResponse_oneof_response_type_error v)\<rparr>, is)))
       else if field_number = 2 then
         expect_wire WireTypeLengthDelimited wire_type
          (bindE (read_message W (HCIPacket_new W) (HCIPacket_merge_from W) HCIPacket_is_initialized is) (\<lambda>(v, is). Ok (m\<lparr>StreamPacketsResponse_response_type := Some (StreamPacketsResponse_oneof_response_type_hci_packet v)\<rparr>, is)))
       else if field_number = 3 then
         expect_wire WireTypeLengthDelimited wire_type
          (bindE (rt_bytes W is) (\<lambda>(v, is). Ok (m\<lparr>StreamPacketsResponse_response_type := Some (StreamPacketsResponse_oneof_response_type_packet v)\<rparr>, is)))
       else bindE (rt_unknown W field_number wire_type is (unknown_fields m))
         (\<lambda>(u, is). Ok (m\<lparr>unknown_fields := u\<rparr>, is)))"

definition StreamPacketsResponse_merge_from :: "'u protobuf_rt \<Rightarrow> 'u StreamPacketsResponse \<Rightarrow> bytes \<Rightarrow> pb_error + 'u StreamPacketsResponse" where
  "StreamPacketsResponse_merge_from W = merge_loop (StreamPacketsResponse_merge_step W)"

fun StreamPacketsResponse_oneof_response_type_size :: "'u protobuf_rt \<Rightarrow> 'u StreamPacketsResponse_oneof_response_type \<Rightarrow> u32 \<times> 'u StreamPacketsResponse_oneof_response_type" where
  "StreamPacketsResponse_oneof_response_type_size W (StreamPacketsResponse_oneof_response_type_error v) = (sz_string W 1 v, StreamPacketsResponse_oneof_response_type_error v)"
| "StreamPacketsResponse_oneof_response_type_size W (StreamPacketsResponse_oneof_response_type_hci_packet v) =
     (let (n, v) = embedded_size W (HCIPacket_compute_size W) v in (n, StreamPacketsResponse_oneof_response_type_hci_packet v))"
| "StreamPacketsResponse_oneof_response_type_size W (StreamPacketsResponse_oneof_response_type_packet v) = (sz_bytes W 3 v, StreamPacketsResponse_oneof_response_type_packet v)"

fun StreamPacketsResponse_oneof_response_type_write :: "'u protobuf_rt \<Rightarrow> 'u StreamPacketsResponse_oneof_response_type \<Rightarrow> bytes" where
  "StreamPacketsResponse_oneof_response_type_write W (StreamPacketsResponse_oneof_response_type_error v) = os_string W 1 v"
| "StreamPacketsResponse_oneof_response_type_write W (StreamPacketsResponse_oneof_response_type_hci_packet v) =
     os_message W 2 HCIPacket_get_cached_size (HCIPacket_write_to_with_cached_sizes W) v"
| "StreamPacketsResponse_oneof_response_type_write W (StreamPacketsResponse_oneof_response_type_packet v) = os_bytes W 3 v"

definition StreamPacketsResponse_compute_size :: "'u protobuf_rt \<Rightarrow> 'u StreamPacketsResponse \<Rightarrow> u32 \<times> 'u StreamPacketsResponse" where
  "StreamPacketsResponse_compute_size W m =
     (let my_size = 0;
          (n, response_type) = (case StreamPacketsResponse_response_type m of None \<Rightarrow> (0, None) | Some v \<Rightarrow> let (n, v) = StreamPacketsResponse_oneof_response_type_size W v in (n, Some v)); my_size = my_size + n;
          my_size = my_size + uf_size W (unknown_fields m)
      in (my_size, m\<lparr>StreamPacketsResponse_response_type := response_type, cached_size := my_size\<rparr>))"

definition StreamPacketsResponse_write_to_with_cached_sizes :: "'u protobuf_rt \<Rightarrow> 'u StreamPacketsResponse \<Rightarrow> bytes" where
  "StreamPacketsResponse_write_to_with_cached_sizes W m =
     (case StreamPacketsResponse_response_type m of None \<Rightarrow> [] | Some v \<Rightarrow> StreamPacketsResponse_oneof_response_type_write W v) @
     os_unknown W (unknown_fields m)"

definition StreamPacketsResponse_get_cached_size :: "'u StreamPacketsResponse \<Rightarrow> u32" where
  "StreamPacketsResponse_get_cached_size m = cached_size m"

definition StreamPacketsResponse_clear :: "'u protobuf_rt \<Rightarrow> 'u StreamPacketsResponse \<Rightarrow> 'u StreamPacketsResponse" where
  "StreamPacketsResponse_clear W m = m\<lparr>StreamPacketsResponse_response_type := None, unknown_fields := uf_new W\<rparr>"

text \<open>Values Rust can hold, without unknown fields, and what a reader gets back.\<close>

fun StreamPacketsResponse_oneof_response_type_wf :: "'u protobuf_rt \<Rightarrow> 'u StreamPacketsResponse_oneof_response_type \<Rightarrow> bool" where
  "StreamPacketsResponse_oneof_response_type_wf W (StreamPacketsResponse_oneof_response_type_error v) = utf8 v"
| "StreamPacketsResponse_oneof_response_type_wf W (StreamPacketsResponse_oneof_response_type_hci_packet v) = HCIPacket_wf W v"
| "StreamPacketsResponse_oneof_response_type_wf W (StreamPacketsResponse_oneof_response_type_packet v) = True"

fun StreamPacketsResponse_oneof_response_type_canon :: "'u StreamPacketsResponse_oneof_response_type \<Rightarrow> 'u StreamPacketsResponse_oneof_response_type" where
  "StreamPacketsResponse_oneof_response_type_canon (StreamPacketsResponse_oneof_response_type_error v) = StreamPacketsResponse_oneof_response_type_error v"
| "StreamPacketsResponse_oneof_response_type_canon (StreamPacketsResponse_oneof_response_type_hci_packet v) = StreamPacketsResponse_oneof_response_type_hci_packet (HCIPacket_canon v)"
| "StreamPacketsResponse_oneof_response_type_canon (StreamPacketsResponse_oneof_response_type_packet v) = StreamPacketsResponse_oneof_response_type_packet v"

definition StreamPacketsResponse_wf :: "'u protobuf_rt \<Rightarrow> 'u StreamPacketsResponse \<Rightarrow> bool" where
  "StreamPacketsResponse_wf W m \<longleftrightarrow>
     unknown_fields m = uf_new W \<and>
     pred_option (StreamPacketsResponse_oneof_response_type_wf W) (StreamPacketsResponse_response_type m)"

definition StreamPacketsResponse_canon :: "'u StreamPacketsResponse \<Rightarrow> 'u StreamPacketsResponse" where
  "StreamPacketsResponse_canon m = m\<lparr>cached_size := 0, StreamPacketsResponse_response_type := map_option StreamPacketsResponse_oneof_response_type_canon (StreamPacketsResponse_response_type m)\<rparr>"

text \<open>The message after an encoding of \<open>m\<close> has been read into it.\<close>

definition StreamPacketsResponse_join :: "'u protobuf_rt \<Rightarrow> 'u StreamPacketsResponse \<Rightarrow> 'u StreamPacketsResponse \<Rightarrow> 'u StreamPacketsResponse" where
  "StreamPacketsResponse_join W a m = a\<lparr>StreamPacketsResponse_response_type := join_oneof StreamPacketsResponse_oneof_response_type_canon (StreamPacketsResponse_response_type a) (StreamPacketsResponse_response_type m)\<rparr>"

context protobuf_runtime
begin

lemma StreamPacketsResponse_oneof_response_type_size_exact:
  "fst (StreamPacketsResponse_oneof_response_type_size W v) = of_nat (length (StreamPacketsResponse_oneof_response_type_write W (snd (StreamPacketsResponse_oneof_response_type_size W v))))"
  by (cases v) (simp_all add: case_prod_beta size_laws small_field_def HCIPacket.embedded_size_exact [symmetric])

lemma StreamPacketsResponse_sized:
  "snd (StreamPacketsResponse_compute_size W m) =
     m\<lparr>StreamPacketsResponse_response_type := snd ((case StreamPacketsResponse_response_type m of None \<Rightarrow> (0, None) | Some v \<Rightarrow> let (n, v) = StreamPacketsResponse_oneof_response_type_size W v in (n, Some v))), cached_size := fst (StreamPacketsResponse_compute_size W m)\<rparr>"
  by (simp add: StreamPacketsResponse_compute_size_def Let_def case_prod_beta)

lemma StreamPacketsResponse_size_exact:
  "fst (StreamPacketsResponse_compute_size W m) = of_nat (length (StreamPacketsResponse_write_to_with_cached_sizes W (snd (StreamPacketsResponse_compute_size W m))))"
  by (cases "StreamPacketsResponse_response_type m")
    (simp_all add: StreamPacketsResponse_compute_size_def StreamPacketsResponse_sized StreamPacketsResponse_write_to_with_cached_sizes_def Let_def case_prod_beta size_chain size_laws
      small_field_def  StreamPacketsResponse_oneof_response_type_size_exact)

lemma StreamPacketsResponse_takes: "takes 1 is (StreamPacketsResponse_merge_step W m is)"
  unfolding StreamPacketsResponse_merge_step_def
  by (rule takes_bind, rule takes_laws) (auto intro!: takes_bind takes_expect takes_laws HCIPacket.takes_read_message split: prod.splits)

lemma StreamPacketsResponse_joins:
  assumes wf: "StreamPacketsResponse_wf W m" and len: "length (StreamPacketsResponse_write_to_with_cached_sizes W (snd (StreamPacketsResponse_compute_size W m))) < 2 ^ 32"
  shows "consumes (StreamPacketsResponse_merge_step W) a (StreamPacketsResponse_write_to_with_cached_sizes W (snd (StreamPacketsResponse_compute_size W m))) (StreamPacketsResponse_join W a m)"
proof -
  let ?s = "\<lambda>v1. \<lparr>unknown_fields = unknown_fields a, cached_size = cached_size a, StreamPacketsResponse_response_type = v1\<rparr>"
  have w: "StreamPacketsResponse_write_to_with_cached_sizes W (snd (StreamPacketsResponse_compute_size W m)) =
    (case StreamPacketsResponse_response_type m of None \<Rightarrow> [] | Some v \<Rightarrow> StreamPacketsResponse_oneof_response_type_write W (snd (StreamPacketsResponse_oneof_response_type_size W v)))"
    using wf by (simp add: StreamPacketsResponse_sized StreamPacketsResponse_write_to_with_cached_sizes_def StreamPacketsResponse_wf_def unknown_none case_prod_beta split: option.splits)
  note l1 = len [unfolded w]
  have 1: "consumes (StreamPacketsResponse_merge_step W) (?s (StreamPacketsResponse_response_type a))
    ((case StreamPacketsResponse_response_type m of None \<Rightarrow> [] | Some v \<Rightarrow> StreamPacketsResponse_oneof_response_type_write W (snd (StreamPacketsResponse_oneof_response_type_size W v))))
    (?s (join_oneof StreamPacketsResponse_oneof_response_type_canon (StreamPacketsResponse_response_type a) (StreamPacketsResponse_response_type m)))"
  proof (cases "StreamPacketsResponse_response_type m")
    case (Some v)
    note l = l1 [unfolded Some option.case]
    show ?thesis
    proof (cases v)
      case (StreamPacketsResponse_oneof_response_type_error u)
      have "consumes (StreamPacketsResponse_merge_step W) (?s (StreamPacketsResponse_response_type a))
        (os_string W 1 u)
        (?s (Some (StreamPacketsResponse_oneof_response_type_error u)))"
        by (rule consumes_read_string [where upd = "\<lambda>v. ?s (Some (StreamPacketsResponse_oneof_response_type_error v))" and v = u and f = 1])
          (use wf l in \<open>simp_all add: StreamPacketsResponse_merge_step_def expect_wire_def small_field_def StreamPacketsResponse_wf_def Some StreamPacketsResponse_oneof_response_type_error case_prod_beta\<close>)
      then show ?thesis
        by (simp add: Some StreamPacketsResponse_oneof_response_type_error case_prod_beta join_oneof_def)
    next
      case (StreamPacketsResponse_oneof_response_type_hci_packet u)
      have "consumes (StreamPacketsResponse_merge_step W) (?s (StreamPacketsResponse_response_type a))
        (os_message W 2 HCIPacket_get_cached_size (HCIPacket_write_to_with_cached_sizes W)
          (snd (embedded_size W (HCIPacket_compute_size W) u)))
        (?s (Some (StreamPacketsResponse_oneof_response_type_hci_packet (HCIPacket_canon u))))"
        by (rule HCIPacket.consumes_message [where upd = "\<lambda>v. ?s (Some (StreamPacketsResponse_oneof_response_type_hci_packet v))" and v = u and f = 2])
          (use wf l in \<open>simp_all add: StreamPacketsResponse_merge_step_def expect_wire_def small_field_def StreamPacketsResponse_wf_def Some StreamPacketsResponse_oneof_response_type_hci_packet case_prod_beta\<close>)
      then show ?thesis
        by (simp add: Some StreamPacketsResponse_oneof_response_type_hci_packet case_prod_beta join_oneof_def)
    next
      case (StreamPacketsResponse_oneof_response_type_packet u)
      have "consumes (StreamPacketsResponse_merge_step W) (?s (StreamPacketsResponse_response_type a))
        (os_bytes W 3 u)
        (?s (Some (StreamPacketsResponse_oneof_response_type_packet u)))"
        by (rule consumes_read_bytes [where upd = "\<lambda>v. ?s (Some (StreamPacketsResponse_oneof_response_type_packet v))" and v = u and f = 3])
          (use wf l in \<open>simp_all add: StreamPacketsResponse_merge_step_def expect_wire_def small_field_def StreamPacketsResponse_wf_def Some StreamPacketsResponse_oneof_response_type_packet case_prod_beta\<close>)
      then show ?thesis
        by (simp add: Some StreamPacketsResponse_oneof_response_type_packet case_prod_beta join_oneof_def)
    qed
  qed (simp add: consumes_finish join_oneof_def)
  note all = 1
  have start: "?s (StreamPacketsResponse_response_type a) = a"
    by (cases a) simp
  have joined: "?s (join_oneof StreamPacketsResponse_oneof_response_type_canon (StreamPacketsResponse_response_type a) (StreamPacketsResponse_response_type m)) = StreamPacketsResponse_join W a m"
    by (cases a) (simp add: StreamPacketsResponse_join_def)
  show ?thesis
    unfolding w by (rule all [unfolded start joined])
qed

end

sublocale protobuf_runtime < StreamPacketsResponse: pb_message W "StreamPacketsResponse_new W" StreamPacketsResponse_is_initialized "StreamPacketsResponse_compute_size W"
    "StreamPacketsResponse_write_to_with_cached_sizes W" StreamPacketsResponse_get_cached_size "StreamPacketsResponse_merge_from W" "StreamPacketsResponse_wf W" StreamPacketsResponse_canon "StreamPacketsResponse_join W"
proof unfold_locales
  show "fst (StreamPacketsResponse_compute_size W m) = of_nat (length (StreamPacketsResponse_write_to_with_cached_sizes W (snd (StreamPacketsResponse_compute_size W m))))" for m
    by (rule StreamPacketsResponse_size_exact)
  show "StreamPacketsResponse_get_cached_size (snd (StreamPacketsResponse_compute_size W m)) = fst (StreamPacketsResponse_compute_size W m)" for m
    by (simp add: StreamPacketsResponse_get_cached_size_def StreamPacketsResponse_sized)
  show "StreamPacketsResponse_is_initialized m" for m :: "'u StreamPacketsResponse"
    by (simp add: StreamPacketsResponse_is_initialized_def list_all_iff HCIPacket.all_initialized split: option.splits StreamPacketsResponse_oneof_response_type.splits)
  show "StreamPacketsResponse_merge_from W a (StreamPacketsResponse_write_to_with_cached_sizes W (snd (StreamPacketsResponse_compute_size W m)) @ r) = StreamPacketsResponse_merge_from W (StreamPacketsResponse_join W a m) r"
    if "StreamPacketsResponse_wf W m" "length (StreamPacketsResponse_write_to_with_cached_sizes W (snd (StreamPacketsResponse_compute_size W m))) < 2 ^ 32" for a m r
    using StreamPacketsResponse_joins [OF that] by (simp add: consumes_def StreamPacketsResponse_merge_from_def)
  show "StreamPacketsResponse_join W (StreamPacketsResponse_new W) m = StreamPacketsResponse_canon m" if "StreamPacketsResponse_wf W m" for m
    using that by (cases m) (simp add: StreamPacketsResponse_join_def StreamPacketsResponse_new_def StreamPacketsResponse_canon_def StreamPacketsResponse_wf_def)
  show "StreamPacketsResponse_merge_from W m [] = Inr m" for m
    by (simp add: StreamPacketsResponse_merge_from_def)
  show "StreamPacketsResponse_merge_from W m is \<noteq> Inl NoProgress" for m "is"
    unfolding StreamPacketsResponse_merge_from_def by (rule merge_loop_progress) (rule StreamPacketsResponse_takes)
qed

end
