(* ===== verification/Pb_Wire.thy ===== *)
theory Pb_Wire
  imports Pb_Frontend Pb_Packet
begin

text \<open>
  A concrete runtime for the messages: the protobuf encoding (base-128 varints, one tag per
  field, little-endian 32-bit values, length-delimited strings and messages; unknown fields
  are kept as the bytes they came in). It is not the crate's code. It shows that the laws of
  \<open>protobuf_runtime\<close> hold together, and lets statements about messages be evaluated.
\<close>

section \<open>Varints\<close>

fun varint :: "nat \<Rightarrow> bytes" where
  "varint n = (if n < 128 then [of_nat n] else of_nat (128 + n mod 128) # varint (n div 128))"

declare varint.simps [simp del]

fun read_varint :: "nat \<Rightarrow> bytes \<Rightarrow> nat reads" where
  "read_varint 0 is = Inl (RuntimeError ''incorrect varint'')"
| "read_varint (Suc k) [] = Inl (RuntimeError ''unexpected EOF'')"
| "read_varint (Suc k) (b # bs) =
     (if unat b < 128 then Ok (unat b, bs)
      else bindE (read_varint k bs) (\<lambda>(n, r). Ok ((unat b - 128) + 128 * n, r)))"

lemma unat_byte: "n < 256 \<Longrightarrow> unat (of_nat n :: u8) = n"
  by (simp add: unat_of_nat)

lemma read_varint_varint: "n < 128 ^ Suc k \<Longrightarrow> read_varint (Suc k) (varint n @ r) = Ok (n, r)"
proof (induction k arbitrary: n)
  case 0
  then show ?case
    by (subst varint.simps) (simp add: unat_byte)
next
  case (Suc k)
  show ?case
  proof (cases "n < 128")
    case True
    then show ?thesis
      by (subst varint.simps) (simp add: unat_byte)
  next
    case False
    have "n div 128 < 128 ^ Suc k"
      using Suc.prems by (simp add: div_less_iff_less_mult mult.commute)
    then have "read_varint (Suc k) (varint (n div 128) @ r) = Ok (n div 128, r)"
      by (rule Suc.IH)
    moreover have "unat (of_nat (128 + n mod 128) :: u8) = 128 + n mod 128"
      by (intro unat_byte) simp
    ultimately show ?thesis
      using False by (subst varint.simps) (simp del: of_nat_add)
  qed
qed

lemma read_varint_10: "n < 2 ^ 70 \<Longrightarrow> read_varint 10 (varint n @ r) = Ok (n, r)"
  using read_varint_varint [of n 9 r] by (simp del: read_varint.simps)

lemma read_varint_takes: "takes 1 is (read_varint k is)"
  by (induction k "is" rule: read_varint.induct)
    (auto simp: takes_def split: bindE_split sum.splits prod.splits)

section \<open>Fields\<close>

fun wire_number :: "wire_type \<Rightarrow> nat" where
  "wire_number WireTypeVarint = 0"
| "wire_number WireTypeFixed64 = 1"
| "wire_number WireTypeLengthDelimited = 2"
| "wire_number WireTypeStartGroup = 3"
| "wire_number WireTypeEndGroup = 4"
| "wire_number WireTypeFixed32 = 5"

definition wire_of :: "nat \<Rightarrow> wire_type option" where
  "wire_of n =
     (if n = 0 then Some WireTypeVarint else if n = 1 then Some WireTypeFixed64
      else if n = 2 then Some WireTypeLengthDelimited else if n = 3 then Some WireTypeStartGroup
      else if n = 4 then Some WireTypeEndGroup else if n = 5 then Some WireTypeFixed32 else None)"

definition tag :: "nat \<Rightarrow> wire_type \<Rightarrow> bytes" where
  "tag f wt = varint (8 * f + wire_number wt)"

definition read_tag :: "bytes \<Rightarrow> (nat \<times> wire_type) reads" where
  "read_tag is = bindE (read_varint 10 is) (\<lambda>(n, r).
     case wire_of (n mod 8) of
       Some wt \<Rightarrow> if n div 8 = 0 then Inl (RuntimeError ''incorrect tag'') else Ok ((n div 8, wt), r)
     | None \<Rightarrow> Inl (RuntimeError ''incorrect tag''))"

definition read_float :: "bytes \<Rightarrow> f32 reads" where
  "read_float is = (case is of
     a # b # c # d # r \<Rightarrow> Ok (of_nat (unat a + 256 * unat b + 65536 * unat c + 16777216 * unat d), r)
   | _ \<Rightarrow> Inl (RuntimeError ''unexpected EOF''))"

definition float_bytes :: "f32 \<Rightarrow> bytes" where
  "float_bytes v = (let n = unat v in
     [of_nat (n mod 256), of_nat (n div 256 mod 256), of_nat (n div 65536 mod 256), of_nat (n div 16777216)])"

definition read_int32 :: "bytes \<Rightarrow> i32 reads" where
  "read_int32 is = bindE (read_varint 10 is) (\<lambda>(n, r). Ok (of_nat n, r))"

definition int32_bytes :: "i32 \<Rightarrow> bytes" where
  "int32_bytes i = varint (unat (scast i :: 64 word))"

definition delimited :: "bytes \<Rightarrow> bytes" where
  "delimited b = varint (length b) @ b"

definition read_delimited :: "bytes \<Rightarrow> bytes reads" where
  "read_delimited is = bindE (read_varint 10 is) (\<lambda>(n, r).
     if n \<le> length r then Ok (take n r, drop n r) else Inl (RuntimeError ''unexpected EOF''))"

definition read_string :: "bytes \<Rightarrow> string reads" where
  "read_string is = bindE (read_delimited is) (\<lambda>(b, r).
     if utf8 (of_bytes b) then Ok (of_bytes b, r) else Inl (RuntimeError ''invalid UTF-8''))"

definition skip_value :: "wire_type \<Rightarrow> bytes \<Rightarrow> bytes reads" where
  "skip_value wt is = (case wt of
     WireTypeVarint \<Rightarrow> bindE (read_varint 10 is) (\<lambda>(n, r). Ok (varint n, r))
   | WireTypeFixed32 \<Rightarrow> if length is < 4 then Inl (RuntimeError ''unexpected EOF'') else Ok (take 4 is, drop 4 is)
   | WireTypeFixed64 \<Rightarrow> if length is < 8 then Inl (RuntimeError ''unexpected EOF'') else Ok (take 8 is, drop 8 is)
   | WireTypeLengthDelimited \<Rightarrow> bindE (read_delimited is) (\<lambda>(b, r). Ok (delimited b, r))
   | _ \<Rightarrow> Inl (UnexpectedWireType wt))"

definition std_wire :: "bytes protobuf_rt" where
  "std_wire =
     \<lparr>rt_tag = read_tag,
      rt_bool = (\<lambda>is. bindE (read_varint 10 is) (\<lambda>(n, r). Ok (n \<noteq> 0, r))),
      rt_float = read_float,
      rt_int32 = read_int32,
      rt_string = read_string,
      rt_bytes = read_delimited,
      rt_message = read_delimited,
      rt_string_into = (\<lambda>wt is. expect_wire WireTypeLengthDelimited wt (read_string is)),
      rt_repeated_string_into = (\<lambda>wt is. expect_wire WireTypeLengthDelimited wt (read_string is)),
      rt_bytes_into = (\<lambda>wt is. expect_wire WireTypeLengthDelimited wt (read_delimited is)),
      rt_enum_into = (\<lambda>known wt f is u. expect_wire WireTypeVarint wt
        (bindE (read_int32 is) (\<lambda>(i, r).
          Ok (if known i then (Some i, u) else (None, u @ tag f wt @ int32_bytes i), r)))),
      rt_message_into = (\<lambda>wt is. expect_wire WireTypeLengthDelimited wt (read_delimited is)),
      rt_keeps_value = False,
      rt_unknown = (\<lambda>f wt is u. bindE (skip_value wt is) (\<lambda>(b, r). Ok (u @ tag f wt @ b, r))),
      uf_new = [],
      uf_size = (\<lambda>u. of_nat (length u)),
      os_unknown = (\<lambda>u. u),
      os_tag = tag,
      os_varint32 = (\<lambda>n. varint (unat n)),
      os_bool = (\<lambda>f b. tag f WireTypeVarint @ varint (if b then 1 else 0)),
      os_float = (\<lambda>f v. tag f WireTypeFixed32 @ float_bytes v),
      os_int32 = (\<lambda>f i. tag f WireTypeVarint @ int32_bytes i),
      os_enum = (\<lambda>f i. tag f WireTypeVarint @ int32_bytes i),
      os_string = (\<lambda>f s. tag f WireTypeLengthDelimited @ delimited (as_bytes s)),
      os_bytes = (\<lambda>f b. tag f WireTypeLengthDelimited @ delimited b),
      sz_string = (\<lambda>f s. of_nat (length (tag f WireTypeLengthDelimited @ delimited (as_bytes s)))),
      sz_bytes = (\<lambda>f b. of_nat (length (tag f WireTypeLengthDelimited @ delimited b))),
      sz_enum = (\<lambda>f i. of_nat (length (tag f WireTypeVarint @ int32_bytes i))),
      sz_int32 = (\<lambda>f i. of_nat (length (tag f WireTypeVarint @ int32_bytes i))),
      sz_varint32 = (\<lambda>n. of_nat (length (varint (unat n))))\<rparr>"

section \<open>The laws\<close>

lemma wire_of_number [simp]: "wire_of (wire_number wt) = Some wt"
  by (cases wt) (simp_all add: wire_of_def)

lemma wire_number_less: "wire_number wt < 8"
  by (cases wt) simp_all

lemma read_tag_tag: "small_field f \<Longrightarrow> read_tag (tag f wt @ r) = Ok ((f, wt), r)"
proof -
  assume f: "small_field f"
  then have "8 * f + wire_number wt < 2 ^ 70"
    using wire_number_less [of wt] by (simp add: small_field_def)
  moreover have "(8 * f + wire_number wt) mod 8 = wire_number wt" "(8 * f + wire_number wt) div 8 = f"
    using wire_number_less [of wt] by (simp_all add: mod_less div_less)
  ultimately show ?thesis
    using f by (simp add: read_tag_def tag_def read_varint_10 small_field_def)
qed

lemma varint_small: "n < 128 \<Longrightarrow> length (varint n) = 1"
  by (subst varint.simps) simp

lemma length_tag: "small_field f \<Longrightarrow> length (tag f wt) = 1"
  using wire_number_less [of wt] by (simp add: tag_def varint_small small_field_def)

lemma base_256:
  "n mod 256 + 256 * (n div 256 mod 256) + 65536 * (n div 65536 mod 256) + 16777216 * (n div 16777216) = (n :: nat)"
proof -
  have digit: "m = m mod 256 + 256 * (m div 256)" for m :: nat
    by simp
  have "n div 256 div 256 = n div 65536" "n div 65536 div 256 = n div 16777216"
    by (simp_all add: div_mult2_eq [symmetric])
  with digit [of n] digit [of "n div 256"] digit [of "n div 65536"] show ?thesis
    by linarith
qed

lemma read_float_bytes: "read_float (float_bytes v @ r) = Ok (v, r)"
proof -
  have "unat v < 2 ^ 32"
    using unsigned_less [of v, where ?'a = nat] by simp
  then have "unat v div 16777216 < 256"
    by (simp add: div_less_iff_less_mult)
  then have "unat (of_nat (unat v div 16777216) :: u8) = unat v div 16777216"
    by (rule unat_byte)
  then have "read_float (float_bytes v @ r) =
      Ok (of_nat (unat v mod 256 + 256 * (unat v div 256 mod 256) + 65536 * (unat v div 65536 mod 256) +
        16777216 * (unat v div 16777216)), r)"
    by (simp add: read_float_def float_bytes_def Let_def unat_byte del: of_nat_add of_nat_mult)
  then show ?thesis
    unfolding base_256 by simp
qed

lemma read_int32_bytes: "read_int32 (int32_bytes i @ r) = Ok (i, r)"
proof -
  have "unat (scast i :: 64 word) < 2 ^ 70"
    using unsigned_less [of "scast i :: 64 word", where ?'a = nat] by simp
  then have "read_varint 10 (int32_bytes i @ r) = Ok (unat (scast i :: 64 word), r)"
    by (simp only: int32_bytes_def read_varint_10)
  moreover have "of_nat (unat (scast i :: 64 word)) = (ucast (scast i :: 64 word) :: i32)"
    by (simp add: unsigned_of_nat)
  moreover have "ucast (scast i :: 64 word) = i"
    by (rule bit_word_eqI) (simp add: bit_simps)
  ultimately show ?thesis
    by (simp add: read_int32_def del: read_varint.simps)
qed

lemma read_delimited_delimited:
  "length b < 2 ^ 32 \<Longrightarrow> read_delimited (delimited b @ r) = Ok (b, r)"
  by (simp add: read_delimited_def delimited_def read_varint_10 del: read_varint.simps)

lemma read_delimited_takes: "takes 0 is (read_delimited is)"
  unfolding read_delimited_def
  by (rule takes_bind, rule takes_weaken, rule read_varint_takes) (auto simp: takes_def)

lemma read_string_takes: "takes 0 is (read_string is)"
  unfolding read_string_def
  by (rule takes_bind, rule read_delimited_takes) (auto simp: takes_def)

lemma read_int32_takes: "takes 0 is (read_int32 is)"
  unfolding read_int32_def
  by (rule takes_bind, rule takes_weaken, rule read_varint_takes) (auto simp: takes_def)

lemma skip_value_takes: "takes 0 is (skip_value wt is)"
  unfolding skip_value_def using takes_weaken [OF read_varint_takes, of 0 "is" 10] read_delimited_takes [of "is"]
  by (cases wt) (auto simp: takes_def split: sum.splits)

interpretation std: protobuf_runtime std_wire
proof unfold_locales
  fix f :: nat and r :: bytes
  assume f: "small_field f"
  show "length (os_tag std_wire f wt) = 1" for wt
    using f by (simp add: std_wire_def length_tag)
  show "\<exists>x. rt_tag std_wire (os_bool std_wire f b @ r) = Inr ((f, WireTypeVarint), x) \<and>
      rt_bool std_wire x = Inr (b, r)" for b
    using f by (simp add: std_wire_def read_tag_tag read_varint_10 del: read_varint.simps)
  show "\<exists>x. rt_tag std_wire (os_float std_wire f v @ r) = Inr ((f, WireTypeFixed32), x) \<and>
      rt_float std_wire x = Inr (v, r)" for v
    using f by (simp add: std_wire_def read_tag_tag read_float_bytes)
  show "\<exists>x. rt_tag std_wire (os_int32 std_wire f i @ r) = Inr ((f, WireTypeVarint), x) \<and>
      rt_int32 std_wire x = Inr (i, r)" for i
    using f by (simp add: std_wire_def read_tag_tag read_int32_bytes)
  show "\<exists>x. rt_tag std_wire (os_enum std_wire f i @ r) = Inr ((f, WireTypeVarint), x) \<and>
      rt_enum_into std_wire known WireTypeVarint f x u = Inr ((Some i, u), r)" if "known i" for i known u
    using f that by (simp add: std_wire_def read_tag_tag read_int32_bytes expect_wire_def)
  show "\<exists>x. rt_tag std_wire (os_string std_wire f s @ r) = Inr ((f, WireTypeLengthDelimited), x) \<and>
      rt_string std_wire x = Inr (s, r) \<and>
      rt_string_into std_wire WireTypeLengthDelimited x = Inr (s, r) \<and>
      rt_repeated_string_into std_wire WireTypeLengthDelimited x = Inr (s, r)"
    if "utf8 s" "length (os_string std_wire f s) < 2 ^ 32" for s
  proof -
    have "length (as_bytes s) < 2 ^ 32"
      using that by (simp add: std_wire_def delimited_def)
    then have "read_string (delimited (as_bytes s) @ r) = Ok (s, r)"
      using that by (simp add: read_string_def read_delimited_delimited)
    then show ?thesis
      using f by (simp add: std_wire_def read_tag_tag expect_wire_def)
  qed
  show "\<exists>x. rt_tag std_wire (os_bytes std_wire f b @ r) = Inr ((f, WireTypeLengthDelimited), x) \<and>
      rt_bytes std_wire x = Inr (b, r) \<and> rt_bytes_into std_wire WireTypeLengthDelimited x = Inr (b, r)"
    if "length (os_bytes std_wire f b) < 2 ^ 32" for b
  proof -
    have "length b < 2 ^ 32"
      using that by (simp add: std_wire_def delimited_def)
    then show ?thesis
      using f by (simp add: std_wire_def read_tag_tag read_delimited_delimited expect_wire_def)
  qed
  show "\<exists>x. rt_tag std_wire (os_tag std_wire f WireTypeLengthDelimited @ os_varint32 std_wire n @ bs @ r) =
        Inr ((f, WireTypeLengthDelimited), x) \<and>
      rt_message std_wire x = Inr (bs, r) \<and>
      rt_message_into std_wire WireTypeLengthDelimited x = Inr (bs, r)"
    if "length bs = unat n" for bs n
  proof -
    have "length bs < 2 ^ 32"
      using that unsigned_less [of n, where ?'a = nat] by simp
    then have "read_delimited (varint (unat n) @ bs @ r) = Ok (bs, r)"
      using read_delimited_delimited [of bs r] that by (simp add: delimited_def)
    then show ?thesis
      using f by (simp add: std_wire_def read_tag_tag expect_wire_def)
  qed
  show "length (os_bool std_wire f b) = 2" for b
    using f by (simp add: std_wire_def length_tag varint_small)
  show "length (os_float std_wire f v) = 5" for v
    using f by (simp add: std_wire_def length_tag float_bytes_def Let_def)
next
  fix "is" :: bytes
  have v: "takes 0 is (read_varint 10 is)"
    by (rule takes_weaken, rule read_varint_takes) simp
  show "takes 1 is (rt_tag std_wire is)"
    unfolding std_wire_def read_tag_def protobuf_rt.simps
    by (rule takes_bind, rule read_varint_takes) (auto simp: takes_def split: option.splits)
  show "takes 0 is (rt_bool std_wire is)"
    unfolding std_wire_def protobuf_rt.simps by (rule takes_map [OF v])
  show "takes 0 is (rt_float std_wire is)"
    by (auto simp: std_wire_def read_float_def takes_def split: list.splits)
  show "takes 0 is (rt_enum_into std_wire known wt f is u)" for known wt f u
    unfolding std_wire_def protobuf_rt.simps
    by (rule takes_expect, rule takes_map, rule read_int32_takes)
  show "takes 0 is (rt_unknown std_wire f wt is u)" for f wt u
    unfolding std_wire_def protobuf_rt.simps by (rule takes_map, rule skip_value_takes)
qed (simp_all add: std_wire_def read_int32_takes read_string_takes read_delimited_takes takes_expect)

section \<open>Evaluation\<close>

lemma varint_one_byte: "n < 128 \<Longrightarrow> varint n = [of_nat n]"
  by (subst varint.simps) simp

lemma varint_more: "128 \<le> n \<Longrightarrow> varint n = of_nat (128 + n mod 128) # varint (n div 128)"
  by (subst varint.simps) simp

lemmas wire_eval = std_wire_def varint_one_byte varint_more tag_def delimited_def int32_bytes_def
  float_bytes_def Let_def write_to_bytes_def embedded_size_def os_message_def f32_is_zero_def size_chain(1,2)

end
