(* ===== verification/Pb_Valid.thy ===== *)
theory Pb_Valid
  imports Pb_Wire
begin

text \<open>
  Type safety of reading. A Rust \<^verbatim>\<open>String\<close> is valid UTF-8; in the model a string is any list of
  bytes, so what the type promises is a predicate: \<open>C_valid\<close> of a message says that all strings in
  it, at any depth, are valid. \<open>string_runtime\<close> adds to the laws of the crate that it checks the
  strings it reads, and under it every reader keeps \<open>C_valid\<close>, whatever the bytes are.
\<close>

locale string_runtime = protobuf_runtime +
  assumes string_valid: "rt_string W is = Inr (s, r) \<Longrightarrow> utf8 s"
    and string_into_valid: "rt_string_into W wt is = Inr (s, r) \<Longrightarrow> utf8 s"
    and repeated_string_into_valid: "rt_repeated_string_into W wt is = Inr (s, r) \<Longrightarrow> utf8 s"

text \<open>A predicate that every pass of the loop keeps holds at its end.\<close>

lemma merge_loop_keeps:
  assumes "\<And>m is m' is'. P m \<Longrightarrow> step m is = Inr (m', is') \<Longrightarrow> P m'"
  shows "P m \<Longrightarrow> merge_loop step m is = Inr m' \<Longrightarrow> P m'"
proof (induction "length is" arbitrary: m "is" rule: less_induct)
  case less
  show ?case
  proof (cases "is = []")
    case False
    with less.prems(2) obtain m1 is1 where "step m is = Inr (m1, is1)" "length is1 < length is"
      "merge_loop step m1 is1 = Inr m'"
      by (subst (asm) merge_loop.simps) (auto simp: bindE_Inr_iff split: if_splits)
    with assms less show ?thesis
      by blast
  qed (use less.prems in simp)
qed

text \<open>The three ways to read an embedded message keep what its reader keeps.\<close>

lemma read_message_keeps:
  assumes "read_message W new merge ini is = Inr (v, r)" and "P new"
    and "\<And>m b m'. P m \<Longrightarrow> merge m b = Inr m' \<Longrightarrow> P m'"
  shows "P v"
  using assms by (auto simp: read_message_def bindE_Inr_iff split: if_splits)

lemma read_singular_keeps:
  assumes "read_singular_message_into W new merge wt is old = Inr (v, r)" and "P new"
    and "\<And>m b m'. P m \<Longrightarrow> merge m b = Inr m' \<Longrightarrow> P m'" and "pred_option P old"
  shows "pred_option P v"
  using assms by (cases old) (fastforce simp: read_singular_message_into_def bindE_Inr_iff split: if_splits)+

lemma read_repeated_keeps:
  assumes "read_repeated_message_into W new merge wt is old = Inr (v, r)" and "P new"
    and "\<And>m b m'. P m \<Longrightarrow> merge m b = Inr m' \<Longrightarrow> P m'" and "list_all P old"
  shows "list_all P v"
  using assms by (auto simp: read_repeated_message_into_def bindE_Inr_iff)

lemma expect_wire_Inr: "expect_wire a b r = Inr x \<longleftrightarrow> a = b \<and> r = Inr x"
  by (auto simp: expect_wire_def)

lemma parse_from_bytes_keeps:
  assumes "parse_from_bytes new ini merge b = Inr m" and "P new"
    and "\<And>m b m'. P m \<Longrightarrow> merge m b = Inr m' \<Longrightarrow> P m'"
  shows "P m"
  using assms by (auto simp: parse_from_bytes_def bindE_Inr_iff split: if_splits)

section \<open>The predicates\<close>

definition Chip_valid :: "'u Chip \<Rightarrow> bool" where
  "Chip_valid m \<longleftrightarrow> utf8 (Chip_chip_id m) \<and>
     utf8 (Chip_manufacturer m) \<and>
     utf8 (Chip_model m)"

definition Device_valid :: "'u Device \<Rightarrow> bool" where
  "Device_valid m \<longleftrightarrow> utf8 (Device_device_serial m) \<and>
     utf8 (Device_name m) \<and>
     list_all Chip_valid (Device_chips m)"

definition Scene_valid :: "'u Scene \<Rightarrow> bool" where
  "Scene_valid m \<longleftrightarrow> list_all Device_valid (Scene_devices m)"

definition VersionResponse_valid :: "'u VersionResponse \<Rightarrow> bool" where
  "VersionResponse_valid m \<longleftrightarrow> utf8 (VersionResponse_version m)"

definition SetLinkLossRequest_valid :: "'u SetLinkLossRequest \<Rightarrow> bool" where
  "SetLinkLossRequest_valid m \<longleftrightarrow> utf8 (SetLinkLossRequest_device_serial m) \<and>
     utf8 (SetLinkLossRequest_other_device m)"

definition UpdateDeviceRequest_valid :: "'u UpdateDeviceRequest \<Rightarrow> bool" where
  "UpdateDeviceRequest_valid m \<longleftrightarrow> pred_option Device_valid (UpdateDeviceRequest_device m)"

definition Updates_valid :: "'u Updates \<Rightarrow> bool" where
  "Updates_valid m \<longleftrightarrow> list_all Device_valid (Updates_devices m)"

definition GetDevicesResponse_valid :: "'u GetDevicesResponse \<Rightarrow> bool" where
  "GetDevicesResponse_valid m \<longleftrightarrow> list_all Device_valid (GetDevicesResponse_devices m)"

definition NetCatStream_valid :: "'u NetCatStream \<Rightarrow> bool" where
  "NetCatStream_valid m \<longleftrightarrow> list_all utf8 (NetCatStream_result m)"

definition SetPacketCaptureRequest_valid :: "'u SetPacketCaptureRequest \<Rightarrow> bool" where
  "SetPacketCaptureRequest_valid m \<longleftrightarrow> utf8 (SetPacketCaptureRequest_device_serial m)"

definition Startup_Chip_valid :: "'u Startup_Chip \<Rightarrow> bool" where
  "Startup_Chip_valid m \<longleftrightarrow> utf8 (Startup_Chip_id m) \<and>
     utf8 (Startup_Chip_manufacturer m) \<and>
     utf8 (Startup_Chip_model m)"

definition StartupInfo_Device_valid :: "'u StartupInfo_Device \<Rightarrow> bool" where
  "StartupInfo_Device_valid m \<longleftrightarrow> utf8 (StartupInfo_Device_serial m) \<and>
     list_all Startup_Chip_valid (StartupInfo_Device_chips m)"

definition StartupInfo_valid :: "'u StartupInfo \<Rightarrow> bool" where
  "StartupInfo_valid m \<longleftrightarrow> list_all StartupInfo_Device_valid (StartupInfo_devices m)"

definition ChipInfo_valid :: "'u ChipInfo \<Rightarrow> bool" where
  "ChipInfo_valid m \<longleftrightarrow> utf8 (ChipInfo_serial m) \<and>
     pred_option Startup_Chip_valid (ChipInfo_chip m)"

definition StreamPacketsRequest_valid :: "'u StreamPacketsRequest \<Rightarrow> bool" where
  "StreamPacketsRequest_valid m \<longleftrightarrow> (case StreamPacketsRequest_request_type m of Some (StreamPacketsRequest_oneof_request_type_initial_info v) \<Rightarrow> ChipInfo_valid v | _ \<Rightarrow> True)"

definition StreamPacketsResponse_valid :: "'u StreamPacketsResponse \<Rightarrow> bool" where
  "StreamPacketsResponse_valid m \<longleftrightarrow> (case StreamPacketsResponse_response_type m of Some (StreamPacketsResponse_oneof_response_type_error v) \<Rightarrow> utf8 v | _ \<Rightarrow> True)"

section \<open>The readers keep them\<close>

context string_runtime
begin

lemma Chip_new_valid: "Chip_valid (Chip_new W)"
  by (simp add: Chip_valid_def Chip_new_def)

lemma Chip_step_keeps: "Chip_valid m \<Longrightarrow> Chip_merge_step W m is = Inr (m', is') \<Longrightarrow> Chip_valid m'"
  unfolding Chip_merge_step_def Chip_valid_def
  by (auto simp: bindE_Inr_iff expect_wire_Inr split: if_splits
      intro: string_valid string_into_valid repeated_string_into_valid)

lemma Chip_keeps: "Chip_valid m \<Longrightarrow> Chip_merge_from W m is = Inr m' \<Longrightarrow> Chip_valid m'"
  unfolding Chip_merge_from_def by (rule merge_loop_keeps [where P = Chip_valid]) (rule Chip_step_keeps)

lemmas Chip_parse_valid = parse_from_bytes_keeps [where P = Chip_valid and merge = "Chip_merge_from W", OF _ Chip_new_valid Chip_keeps]

lemma Device_new_valid: "Device_valid (Device_new W)"
  by (simp add: Device_valid_def Device_new_def)

lemma Device_step_keeps: "Device_valid m \<Longrightarrow> Device_merge_step W m is = Inr (m', is') \<Longrightarrow> Device_valid m'"
  unfolding Device_merge_step_def Device_valid_def
  by (auto simp: bindE_Inr_iff expect_wire_Inr split: if_splits
      intro: string_valid string_into_valid repeated_string_into_valid
        read_repeated_keeps [where P = Chip_valid, OF _ Chip_new_valid Chip_keeps])

lemma Device_keeps: "Device_valid m \<Longrightarrow> Device_merge_from W m is = Inr m' \<Longrightarrow> Device_valid m'"
  unfolding Device_merge_from_def by (rule merge_loop_keeps [where P = Device_valid]) (rule Device_step_keeps)

lemmas Device_parse_valid = parse_from_bytes_keeps [where P = Device_valid and merge = "Device_merge_from W", OF _ Device_new_valid Device_keeps]

lemma Scene_new_valid: "Scene_valid (Scene_new W)"
  by (simp add: Scene_valid_def Scene_new_def)

lemma Scene_step_keeps: "Scene_valid m \<Longrightarrow> Scene_merge_step W m is = Inr (m', is') \<Longrightarrow> Scene_valid m'"
  unfolding Scene_merge_step_def Scene_valid_def
  by (auto simp: bindE_Inr_iff expect_wire_Inr split: if_splits
      intro: string_valid string_into_valid repeated_string_into_valid
        read_repeated_keeps [where P = Device_valid, OF _ Device_new_valid Device_keeps])

lemma Scene_keeps: "Scene_valid m \<Longrightarrow> Scene_merge_from W m is = Inr m' \<Longrightarrow> Scene_valid m'"
  unfolding Scene_merge_from_def by (rule merge_loop_keeps [where P = Scene_valid]) (rule Scene_step_keeps)

lemmas Scene_parse_valid = parse_from_bytes_keeps [where P = Scene_valid and merge = "Scene_merge_from W", OF _ Scene_new_valid Scene_keeps]

lemma VersionResponse_new_valid: "VersionResponse_valid (VersionResponse_new W)"
  by (simp add: VersionResponse_valid_def VersionResponse_new_def)

lemma VersionResponse_step_keeps: "VersionResponse_valid m \<Longrightarrow> VersionResponse_merge_step W m is = Inr (m', is') \<Longrightarrow> VersionResponse_valid m'"
  unfolding VersionResponse_merge_step_def VersionResponse_valid_def
  by (auto simp: bindE_Inr_iff expect_wire_Inr split: if_splits
      intro: string_valid string_into_valid repeated_string_into_valid)

lemma VersionResponse_keeps: "VersionResponse_valid m \<Longrightarrow> VersionResponse_merge_from W m is = Inr m' \<Longrightarrow> VersionResponse_valid m'"
  unfolding VersionResponse_merge_from_def by (rule merge_loop_keeps [where P = VersionResponse_valid]) (rule VersionResponse_step_keeps)

lemmas VersionResponse_parse_valid = parse_from_bytes_keeps [where P = VersionResponse_valid and merge = "VersionResponse_merge_from W", OF _ VersionResponse_new_valid VersionResponse_keeps]

lemma SetLinkLossRequest_new_valid: "SetLinkLossRequest_valid (SetLinkLossRequest_new W)"
  by (simp add: SetLinkLossRequest_valid_def SetLinkLossRequest_new_def)

lemma SetLinkLossRequest_step_keeps: "SetLinkLossRequest_valid m \<Longrightarrow> SetLinkLossRequest_merge_step W m is = Inr (m', is') \<Longrightarrow> SetLinkLossRequest_valid m'"
  unfolding SetLinkLossRequest_merge_step_def SetLinkLossRequest_valid_def
  by (auto simp: bindE_Inr_iff expect_wire_Inr split: if_splits
      intro: string_valid string_into_valid repeated_string_into_valid)

lemma SetLinkLossRequest_keeps: "SetLinkLossRequest_valid m \<Longrightarrow> SetLinkLossRequest_merge_from W m is = Inr m' \<Longrightarrow> SetLinkLossRequest_valid m'"
  unfolding SetLinkLossRequest_merge_from_def by (rule merge_loop_keeps [where P = SetLinkLossRequest_valid]) (rule SetLinkLossRequest_step_keeps)

lemmas SetLinkLossRequest_parse_valid = parse_from_bytes_keeps [where P = SetLinkLossRequest_valid and merge = "SetLinkLossRequest_merge_from W", OF _ SetLinkLossRequest_new_valid SetLinkLossRequest_keeps]

lemma UpdateDeviceRequest_new_valid: "UpdateDeviceRequest_valid (UpdateDeviceRequest_new W)"
  by (simp add: UpdateDeviceRequest_valid_def UpdateDeviceRequest_new_def)

lemma UpdateDeviceRequest_step_keeps: "UpdateDeviceRequest_valid m \<Longrightarrow> UpdateDeviceRequest_merge_step W m is = Inr (m', is') \<Longrightarrow> UpdateDeviceRequest_valid m'"
  unfolding UpdateDeviceRequest_merge_step_def UpdateDeviceRequest_valid_def
  by (auto simp: bindE_Inr_iff expect_wire_Inr split: if_splits
      intro: string_valid string_into_valid repeated_string_into_valid
        read_singular_keeps [where P = Device_valid, OF _ Device_new_valid Device_keeps])

lemma UpdateDeviceRequest_keeps: "UpdateDeviceRequest_valid m \<Longrightarrow> UpdateDeviceRequest_merge_from W m is = Inr m' \<Longrightarrow> UpdateDeviceRequest_valid m'"
  unfolding UpdateDeviceRequest_merge_from_def by (rule merge_loop_keeps [where P = UpdateDeviceRequest_valid]) (rule UpdateDeviceRequest_step_keeps)

lemmas UpdateDeviceRequest_parse_valid = parse_from_bytes_keeps [where P = UpdateDeviceRequest_valid and merge = "UpdateDeviceRequest_merge_from W", OF _ UpdateDeviceRequest_new_valid UpdateDeviceRequest_keeps]

lemma Updates_new_valid: "Updates_valid (Updates_new W)"
  by (simp add: Updates_valid_def Updates_new_def)

lemma Updates_step_keeps: "Updates_valid m \<Longrightarrow> Updates_merge_step W m is = Inr (m', is') \<Longrightarrow> Updates_valid m'"
  unfolding Updates_merge_step_def Updates_valid_def
  by (auto simp: bindE_Inr_iff expect_wire_Inr split: if_splits
      intro: string_valid string_into_valid repeated_string_into_valid
        read_repeated_keeps [where P = Device_valid, OF _ Device_new_valid Device_keeps])

lemma Updates_keeps: "Updates_valid m \<Longrightarrow> Updates_merge_from W m is = Inr m' \<Longrightarrow> Updates_valid m'"
  unfolding Updates_merge_from_def by (rule merge_loop_keeps [where P = Updates_valid]) (rule Updates_step_keeps)

lemmas Updates_parse_valid = parse_from_bytes_keeps [where P = Updates_valid and merge = "Updates_merge_from W", OF _ Updates_new_valid Updates_keeps]

lemma GetDevicesResponse_new_valid: "GetDevicesResponse_valid (GetDevicesResponse_new W)"
  by (simp add: GetDevicesResponse_valid_def GetDevicesResponse_new_def)

lemma GetDevicesResponse_step_keeps: "GetDevicesResponse_valid m \<Longrightarrow> GetDevicesResponse_merge_step W m is = Inr (m', is') \<Longrightarrow> GetDevicesResponse_valid m'"
  unfolding GetDevicesResponse_merge_step_def GetDevicesResponse_valid_def
  by (auto simp: bindE_Inr_iff expect_wire_Inr split: if_splits
      intro: string_valid string_into_valid repeated_string_into_valid
        read_repeated_keeps [where P = Device_valid, OF _ Device_new_valid Device_keeps])

lemma GetDevicesResponse_keeps: "GetDevicesResponse_valid m \<Longrightarrow> GetDevicesResponse_merge_from W m is = Inr m' \<Longrightarrow> GetDevicesResponse_valid m'"
  unfolding GetDevicesResponse_merge_from_def by (rule merge_loop_keeps [where P = GetDevicesResponse_valid]) (rule GetDevicesResponse_step_keeps)

lemmas GetDevicesResponse_parse_valid = parse_from_bytes_keeps [where P = GetDevicesResponse_valid and merge = "GetDevicesResponse_merge_from W", OF _ GetDevicesResponse_new_valid GetDevicesResponse_keeps]

lemma NetCatStream_new_valid: "NetCatStream_valid (NetCatStream_new W)"
  by (simp add: NetCatStream_valid_def NetCatStream_new_def)

lemma NetCatStream_step_keeps: "NetCatStream_valid m \<Longrightarrow> NetCatStream_merge_step W m is = Inr (m', is') \<Longrightarrow> NetCatStream_valid m'"
  unfolding NetCatStream_merge_step_def NetCatStream_valid_def
  by (auto simp: bindE_Inr_iff expect_wire_Inr split: if_splits
      intro: string_valid string_into_valid repeated_string_into_valid)

lemma NetCatStream_keeps: "NetCatStream_valid m \<Longrightarrow> NetCatStream_merge_from W m is = Inr m' \<Longrightarrow> NetCatStream_valid m'"
  unfolding NetCatStream_merge_from_def by (rule merge_loop_keeps [where P = NetCatStream_valid]) (rule NetCatStream_step_keeps)

lemmas NetCatStream_parse_valid = parse_from_bytes_keeps [where P = NetCatStream_valid and merge = "NetCatStream_merge_from W", OF _ NetCatStream_new_valid NetCatStream_keeps]

lemma SetPacketCaptureRequest_new_valid: "SetPacketCaptureRequest_valid (SetPacketCaptureRequest_new W)"
  by (simp add: SetPacketCaptureRequest_valid_def SetPacketCaptureRequest_new_def)

lemma SetPacketCaptureRequest_step_keeps: "SetPacketCaptureRequest_valid m \<Longrightarrow> SetPacketCaptureRequest_merge_step W m is = Inr (m', is') \<Longrightarrow> SetPacketCaptureRequest_valid m'"
  unfolding SetPacketCaptureRequest_merge_step_def SetPacketCaptureRequest_valid_def
  by (auto simp: bindE_Inr_iff expect_wire_Inr split: if_splits
      intro: string_valid string_into_valid repeated_string_into_valid)

lemma SetPacketCaptureRequest_keeps: "SetPacketCaptureRequest_valid m \<Longrightarrow> SetPacketCaptureRequest_merge_from W m is = Inr m' \<Longrightarrow> SetPacketCaptureRequest_valid m'"
  unfolding SetPacketCaptureRequest_merge_from_def by (rule merge_loop_keeps [where P = SetPacketCaptureRequest_valid]) (rule SetPacketCaptureRequest_step_keeps)

lemmas SetPacketCaptureRequest_parse_valid = parse_from_bytes_keeps [where P = SetPacketCaptureRequest_valid and merge = "SetPacketCaptureRequest_merge_from W", OF _ SetPacketCaptureRequest_new_valid SetPacketCaptureRequest_keeps]

lemma Startup_Chip_new_valid: "Startup_Chip_valid (Startup_Chip_new W)"
  by (simp add: Startup_Chip_valid_def Startup_Chip_new_def)

lemma Startup_Chip_step_keeps: "Startup_Chip_valid m \<Longrightarrow> Startup_Chip_merge_step W m is = Inr (m', is') \<Longrightarrow> Startup_Chip_valid m'"
  unfolding Startup_Chip_merge_step_def Startup_Chip_valid_def
  by (auto simp: bindE_Inr_iff expect_wire_Inr split: if_splits
      intro: string_valid string_into_valid repeated_string_into_valid)

lemma Startup_Chip_keeps: "Startup_Chip_valid m \<Longrightarrow> Startup_Chip_merge_from W m is = Inr m' \<Longrightarrow> Startup_Chip_valid m'"
  unfolding Startup_Chip_merge_from_def by (rule merge_loop_keeps [where P = Startup_Chip_valid]) (rule Startup_Chip_step_keeps)

lemmas Startup_Chip_parse_valid = parse_from_bytes_keeps [where P = Startup_Chip_valid and merge = "Startup_Chip_merge_from W", OF _ Startup_Chip_new_valid Startup_Chip_keeps]

lemma StartupInfo_Device_new_valid: "StartupInfo_Device_valid (StartupInfo_Device_new W)"
  by (simp add: StartupInfo_Device_valid_def StartupInfo_Device_new_def)

lemma StartupInfo_Device_step_keeps: "StartupInfo_Device_valid m \<Longrightarrow> StartupInfo_Device_merge_step W m is = Inr (m', is') \<Longrightarrow> StartupInfo_Device_valid m'"
  unfolding StartupInfo_Device_merge_step_def StartupInfo_Device_valid_def
  by (auto simp: bindE_Inr_iff expect_wire_Inr split: if_splits
      intro: string_valid string_into_valid repeated_string_into_valid
        read_repeated_keeps [where P = Startup_Chip_valid, OF _ Startup_Chip_new_valid Startup_Chip_keeps])

lemma StartupInfo_Device_keeps: "StartupInfo_Device_valid m \<Longrightarrow> StartupInfo_Device_merge_from W m is = Inr m' \<Longrightarrow> StartupInfo_Device_valid m'"
  unfolding StartupInfo_Device_merge_from_def by (rule merge_loop_keeps [where P = StartupInfo_Device_valid]) (rule StartupInfo_Device_step_keeps)

lemmas StartupInfo_Device_parse_valid = parse_from_bytes_keeps [where P = StartupInfo_Device_valid and merge = "StartupInfo_Device_merge_from W", OF _ StartupInfo_Device_new_valid StartupInfo_Device_keeps]

lemma StartupInfo_new_valid: "StartupInfo_valid (StartupInfo_new W)"
  by (simp add: StartupInfo_valid_def StartupInfo_new_def)

lemma StartupInfo_step_keeps: "StartupInfo_valid m \<Longrightarrow> StartupInfo_merge_step W m is = Inr (m', is') \<Longrightarrow> StartupInfo_valid m'"
  unfolding StartupInfo_merge_step_def StartupInfo_valid_def
  by (auto simp: bindE_Inr_iff expect_wire_Inr split: if_splits
      intro: string_valid string_into_valid repeated_string_into_valid
        read_repeated_keeps [where P = StartupInfo_Device_valid, OF _ StartupInfo_Device_new_valid StartupInfo_Device_keeps])

lemma StartupInfo_keeps: "StartupInfo_valid m \<Longrightarrow> StartupInfo_merge_from W m is = Inr m' \<Longrightarrow> StartupInfo_valid m'"
  unfolding StartupInfo_merge_from_def by (rule merge_loop_keeps [where P = StartupInfo_valid]) (rule StartupInfo_step_keeps)

lemmas StartupInfo_parse_valid = parse_from_bytes_keeps [where P = StartupInfo_valid and merge = "StartupInfo_merge_from W", OF _ StartupInfo_new_valid StartupInfo_keeps]

lemma ChipInfo_new_valid: "ChipInfo_valid (ChipInfo_new W)"
  by (simp add: ChipInfo_valid_def ChipInfo_new_def)

lemma ChipInfo_step_keeps: "ChipInfo_valid m \<Longrightarrow> ChipInfo_merge_step W m is = Inr (m', is') \<Longrightarrow> ChipInfo_valid m'"
  unfolding ChipInfo_merge_step_def ChipInfo_valid_def
  by (auto simp: bindE_Inr_iff expect_wire_Inr split: if_splits
      intro: string_valid string_into_valid repeated_string_into_valid
        read_singular_keeps [where P = Startup_Chip_valid, OF _ Startup_Chip_new_valid Startup_Chip_keeps])

lemma ChipInfo_keeps: "ChipInfo_valid m \<Longrightarrow> ChipInfo_merge_from W m is = Inr m' \<Longrightarrow> ChipInfo_valid m'"
  unfolding ChipInfo_merge_from_def by (rule merge_loop_keeps [where P = ChipInfo_valid]) (rule ChipInfo_step_keeps)

lemmas ChipInfo_parse_valid = parse_from_bytes_keeps [where P = ChipInfo_valid and merge = "ChipInfo_merge_from W", OF _ ChipInfo_new_valid ChipInfo_keeps]

lemma StreamPacketsRequest_new_valid: "StreamPacketsRequest_valid (StreamPacketsRequest_new W)"
  by (simp add: StreamPacketsRequest_valid_def StreamPacketsRequest_new_def)

lemma StreamPacketsRequest_step_keeps: "StreamPacketsRequest_valid m \<Longrightarrow> StreamPacketsRequest_merge_step W m is = Inr (m', is') \<Longrightarrow> StreamPacketsRequest_valid m'"
  unfolding StreamPacketsRequest_merge_step_def StreamPacketsRequest_valid_def
  by (auto simp: bindE_Inr_iff expect_wire_Inr split: if_splits
      intro: string_valid string_into_valid repeated_string_into_valid
        read_message_keeps [where P = ChipInfo_valid, OF _ ChipInfo_new_valid ChipInfo_keeps])

lemma StreamPacketsRequest_keeps: "StreamPacketsRequest_valid m \<Longrightarrow> StreamPacketsRequest_merge_from W m is = Inr m' \<Longrightarrow> StreamPacketsRequest_valid m'"
  unfolding StreamPacketsRequest_merge_from_def by (rule merge_loop_keeps [where P = StreamPacketsRequest_valid]) (rule StreamPacketsRequest_step_keeps)

lemmas StreamPacketsRequest_parse_valid = parse_from_bytes_keeps [where P = StreamPacketsRequest_valid and merge = "StreamPacketsRequest_merge_from W", OF _ StreamPacketsRequest_new_valid StreamPacketsRequest_keeps]

lemma StreamPacketsResponse_new_valid: "StreamPacketsResponse_valid (StreamPacketsResponse_new W)"
  by (simp add: StreamPacketsResponse_valid_def StreamPacketsResponse_new_def)

lemma StreamPacketsResponse_step_keeps: "StreamPacketsResponse_valid m \<Longrightarrow> StreamPacketsResponse_merge_step W m is = Inr (m', is') \<Longrightarrow> StreamPacketsResponse_valid m'"
  unfolding StreamPacketsResponse_merge_step_def StreamPacketsResponse_valid_def
  by (auto simp: bindE_Inr_iff expect_wire_Inr split: if_splits
      intro: string_valid string_into_valid repeated_string_into_valid)

lemma StreamPacketsResponse_keeps: "StreamPacketsResponse_valid m \<Longrightarrow> StreamPacketsResponse_merge_from W m is = Inr m' \<Longrightarrow> StreamPacketsResponse_valid m'"
  unfolding StreamPacketsResponse_merge_from_def by (rule merge_loop_keeps [where P = StreamPacketsResponse_valid]) (rule StreamPacketsResponse_step_keeps)

lemmas StreamPacketsResponse_parse_valid = parse_from_bytes_keeps [where P = StreamPacketsResponse_valid and merge = "StreamPacketsResponse_merge_from W", OF _ StreamPacketsResponse_new_valid StreamPacketsResponse_keeps]

end

section \<open>The concrete runtime\<close>

interpretation std_strings: string_runtime std_wire
  by unfold_locales
    (auto simp: std_wire_def read_string_def expect_wire_Inr bindE_Inr_iff split: if_splits)

end
