(* ===== verification/Pb_Concat.thy ===== *)
theory Pb_Concat
  imports Pb_Wire
begin

text \<open>
  Concatenation is merging. The readers of the crate work on a stream: what they read from some bytes
  they also read when more bytes follow, and they leave those unread (\<open>stream_runtime\<close>). Then
  the loop of every message, given two byte strings one behind the other, does what it does with
  the first and goes on with the second from the message so far (\<open>concatenates\<close>).
\<close>

definition streams :: "(bytes \<Rightarrow> 'a reads) \<Rightarrow> bool" where
  "streams rd \<longleftrightarrow> (\<forall>is v r t. rd is = Inr (v, r) \<longrightarrow> rd (is @ t) = Inr (v, r @ t))"

locale stream_runtime = protobuf_runtime +
  assumes reader_streams: "streams (rt_tag W)" "streams (rt_bool W)" "streams (rt_float W)" "streams (rt_int32 W)"
    "streams (rt_string W)" "streams (rt_bytes W)" "streams (rt_message W)"
    "streams (rt_string_into W wt)" "streams (rt_repeated_string_into W wt)" "streams (rt_bytes_into W wt)"
    "streams (\<lambda>is. rt_enum_into W known wt f is u)" "streams (rt_message_into W wt)"
    "streams (\<lambda>is. rt_unknown W f wt is u)"

definition concatenates :: "('m \<Rightarrow> bytes \<Rightarrow> pb_error + 'm) \<Rightarrow> bool" where
  "concatenates merge \<longleftrightarrow> (\<forall>m a m' b. merge m a = Inr m' \<longrightarrow> merge m (a @ b) = merge m' b)"

section \<open>Composing readers\<close>

lemma streamsD: "streams rd \<Longrightarrow> rd is = Inr (v, r) \<Longrightarrow> rd (is @ t) = Inr (v, r @ t)"
  by (simp add: streams_def)

lemma streams_Ok: "streams (\<lambda>is. Ok (v, is))"
  by (simp add: streams_def)

lemma streams_Inl: "streams (\<lambda>is. Inl e)"
  by (simp add: streams_def)

lemma streams_bind:
  assumes "streams rd" and "\<And>v. streams (g v)"
  shows "streams (\<lambda>is. bindE (rd is) (\<lambda>(v, is). g v is))"
  unfolding streams_def
proof (intro allI impI)
  fix "is" v r t
  assume "bindE (rd is) (\<lambda>(v, is). g v is) = Inr (v, r)"
  then obtain x s where "rd is = Inr (x, s)" "g x s = Inr (v, r)"
    by (auto simp: bindE_Inr_iff)
  then have "rd (is @ t) = Inr (x, s @ t)" "g x (s @ t) = Inr (v, r @ t)"
    using assms by (blast intro: streamsD)+
  then show "bindE (rd (is @ t)) (\<lambda>(v, is). g v is) = Inr (v, r @ t)"
    by simp
qed

lemma streams_if: "streams r1 \<Longrightarrow> streams r2 \<Longrightarrow> streams (\<lambda>is. if c then r1 is else r2 is)"
  by (cases c) simp_all

lemma streams_expect: "streams rd \<Longrightarrow> streams (\<lambda>is. expect_wire a b (rd is))"
  by (cases "a = b") (simp_all add: expect_wire_def streams_Inl)

lemma streams_enum: "streams (\<lambda>is. rt_enum_into W (\<lambda>i. from i \<noteq> None) wt f is u) \<Longrightarrow>
    streams (\<lambda>is. read_enum_into W from wt is old f u)"
  unfolding read_enum_into_def
  by (auto simp: streams_def bindE_Inr_iff)

lemma streams_message: "streams (rt_message W) \<Longrightarrow> streams (read_message W new merge ini)"
  by (auto simp: streams_def read_message_def bindE_Inr_iff split: if_splits)

lemma streams_singular:
  "streams (rt_message_into W wt) \<Longrightarrow> streams (\<lambda>is. read_singular_message_into W new merge wt is old)"
  by (auto simp: streams_def read_singular_message_into_def bindE_Inr_iff)

lemma streams_repeated:
  "streams (rt_message_into W wt) \<Longrightarrow> streams (\<lambda>is. read_repeated_message_into W new merge wt is old)"
  by (auto simp: streams_def read_repeated_message_into_def bindE_Inr_iff)

text \<open>A pass that streams makes a loop that concatenates.\<close>

lemma merge_loop_concatenates:
  assumes "\<And>m. streams (step m)"
  shows "concatenates (merge_loop step)"
proof -
  have "merge_loop step m a = Inr m' \<Longrightarrow> merge_loop step m (a @ b) = merge_loop step m' b" for m a m' b
  proof (induction "length a" arbitrary: m a rule: less_induct)
    case less
    show ?case
    proof (cases "a = []")
      case False
      with less.prems obtain m1 a1 where s: "step m a = Inr (m1, a1)" "length a1 < length a"
        "merge_loop step m1 a1 = Inr m'"
        by (subst (asm) merge_loop.simps) (auto simp: bindE_Inr_iff split: if_splits)
      have "step m (a @ b) = Inr (m1, a1 @ b)"
        using assms s(1) by (rule streamsD)
      then have "merge_loop step m (a @ b) = merge_loop step m1 (a1 @ b)"
        using s(2) by (intro merge_loop_step) simp_all
      with less.hyps s(2,3) show ?thesis
        by simp
    qed (use less.prems in simp)
  qed
  then show ?thesis
    by (simp add: concatenates_def)
qed

section \<open>The messages\<close>

context stream_runtime
begin

lemmas stream_rules = streams_Ok streams_if streams_expect streams_enum streams_message streams_singular
  streams_repeated reader_streams

lemma Position_concatenates: "concatenates (Position_merge_from W)"
  unfolding Position_merge_from_def Position_merge_step_def case_prod_beta'
  by (rule merge_loop_concatenates) (intro streams_bind [unfolded case_prod_beta'] stream_rules)

lemma Orientation_concatenates: "concatenates (Orientation_merge_from W)"
  unfolding Orientation_merge_from_def Orientation_merge_step_def case_prod_beta'
  by (rule merge_loop_concatenates) (intro streams_bind [unfolded case_prod_beta'] stream_rules)

lemma Chip_concatenates: "concatenates (Chip_merge_from W)"
  unfolding Chip_merge_from_def Chip_merge_step_def case_prod_beta'
  by (rule merge_loop_concatenates) (intro streams_bind [unfolded case_prod_beta'] stream_rules)

lemma Chip_Radio_concatenates: "concatenates (Chip_Radio_merge_from W)"
  unfolding Chip_Radio_merge_from_def Chip_Radio_merge_step_def case_prod_beta'
  by (rule merge_loop_concatenates) (intro streams_bind [unfolded case_prod_beta'] stream_rules)

lemma Chip_Bluetooth_concatenates: "concatenates (Chip_Bluetooth_merge_from W)"
  unfolding Chip_Bluetooth_merge_from_def Chip_Bluetooth_merge_step_def case_prod_beta'
  by (rule merge_loop_concatenates) (intro streams_bind [unfolded case_prod_beta'] stream_rules)

lemma Device_concatenates: "concatenates (Device_merge_from W)"
  unfolding Device_merge_from_def Device_merge_step_def case_prod_beta'
  by (rule merge_loop_concatenates) (intro streams_bind [unfolded case_prod_beta'] stream_rules)

lemma Scene_concatenates: "concatenates (Scene_merge_from W)"
  unfolding Scene_merge_from_def Scene_merge_step_def case_prod_beta'
  by (rule merge_loop_concatenates) (intro streams_bind [unfolded case_prod_beta'] stream_rules)

lemma VersionResponse_concatenates: "concatenates (VersionResponse_merge_from W)"
  unfolding VersionResponse_merge_from_def VersionResponse_merge_step_def case_prod_beta'
  by (rule merge_loop_concatenates) (intro streams_bind [unfolded case_prod_beta'] stream_rules)

lemma SetLinkLossRequest_concatenates: "concatenates (SetLinkLossRequest_merge_from W)"
  unfolding SetLinkLossRequest_merge_from_def SetLinkLossRequest_merge_step_def case_prod_beta'
  by (rule merge_loop_concatenates) (intro streams_bind [unfolded case_prod_beta'] stream_rules)

lemma UpdateDeviceRequest_concatenates: "concatenates (UpdateDeviceRequest_merge_from W)"
  unfolding UpdateDeviceRequest_merge_from_def UpdateDeviceRequest_merge_step_def case_prod_beta'
  by (rule merge_loop_concatenates) (intro streams_bind [unfolded case_prod_beta'] stream_rules)

lemma Updates_concatenates: "concatenates (Updates_merge_from W)"
  unfolding Updates_merge_from_def Updates_merge_step_def case_prod_beta'
  by (rule merge_loop_concatenates) (intro streams_bind [unfolded case_prod_beta'] stream_rules)

lemma GetDevicesResponse_concatenates: "concatenates (GetDevicesResponse_merge_from W)"
  unfolding GetDevicesResponse_merge_from_def GetDevicesResponse_merge_step_def case_prod_beta'
  by (rule merge_loop_concatenates) (intro streams_bind [unfolded case_prod_beta'] stream_rules)

lemma NetCatStream_concatenates: "concatenates (NetCatStream_merge_from W)"
  unfolding NetCatStream_merge_from_def NetCatStream_merge_step_def case_prod_beta'
  by (rule merge_loop_concatenates) (intro streams_bind [unfolded case_prod_beta'] stream_rules)

lemma SetPacketCaptureRequest_concatenates: "concatenates (SetPacketCaptureRequest_merge_from W)"
  unfolding SetPacketCaptureRequest_merge_from_def SetPacketCaptureRequest_merge_step_def case_prod_beta'
  by (rule merge_loop_concatenates) (intro streams_bind [unfolded case_prod_beta'] stream_rules)

lemma StartupInfo_concatenates: "concatenates (StartupInfo_merge_from W)"
  unfolding StartupInfo_merge_from_def StartupInfo_merge_step_def case_prod_beta'
  by (rule merge_loop_concatenates) (intro streams_bind [unfolded case_prod_beta'] stream_rules)

lemma StartupInfo_Device_concatenates: "concatenates (StartupInfo_Device_merge_from W)"
  unfolding StartupInfo_Device_merge_from_def StartupInfo_Device_merge_step_def case_prod_beta'
  by (rule merge_loop_concatenates) (intro streams_bind [unfolded case_prod_beta'] stream_rules)

lemma ChipInfo_concatenates: "concatenates (ChipInfo_merge_from W)"
  unfolding ChipInfo_merge_from_def ChipInfo_merge_step_def case_prod_beta'
  by (rule merge_loop_concatenates) (intro streams_bind [unfolded case_prod_beta'] stream_rules)

lemma Startup_Chip_concatenates: "concatenates (Startup_Chip_merge_from W)"
  unfolding Startup_Chip_merge_from_def Startup_Chip_merge_step_def case_prod_beta'
  by (rule merge_loop_concatenates) (intro streams_bind [unfolded case_prod_beta'] stream_rules)

lemma HCIPacket_concatenates: "concatenates (HCIPacket_merge_from W)"
  unfolding HCIPacket_merge_from_def HCIPacket_merge_step_def case_prod_beta'
  by (rule merge_loop_concatenates) (intro streams_bind [unfolded case_prod_beta'] stream_rules)

lemma StreamPacketsRequest_concatenates: "concatenates (StreamPacketsRequest_merge_from W)"
  unfolding StreamPacketsRequest_merge_from_def StreamPacketsRequest_merge_step_def case_prod_beta'
  by (rule merge_loop_concatenates) (intro streams_bind [unfolded case_prod_beta'] stream_rules)

lemma StreamPacketsResponse_concatenates: "concatenates (StreamPacketsResponse_merge_from W)"
  unfolding StreamPacketsResponse_merge_from_def StreamPacketsResponse_merge_step_def case_prod_beta'
  by (rule merge_loop_concatenates) (intro streams_bind [unfolded case_prod_beta'] stream_rules)

end

section \<open>The concrete runtime\<close>

lemma read_varint_streams: "streams (read_varint k)"
proof -
  have "read_varint k is = Inr (v, r) \<Longrightarrow> read_varint k (is @ t) = Inr (v, r @ t)" for "is" v r t
    by (induction k "is" arbitrary: v r rule: read_varint.induct) (auto simp: bindE_Inr_iff split: if_splits)
  then show ?thesis
    by (simp add: streams_def)
qed

lemma wire_readers_stream:
  "streams read_tag" "streams read_float" "streams read_int32" "streams read_delimited" "streams read_string"
  "streams (skip_value wt)"
proof -
  note v = read_varint_streams [of 10]
  show "streams read_tag"
    unfolding read_tag_def by (intro streams_bind v) (auto simp: streams_def split: option.splits if_splits)
  show "streams read_float"
    by (auto simp: streams_def read_float_def split: list.splits)
  show "streams read_int32"
    unfolding read_int32_def by (intro streams_bind v streams_Ok)
  show d: "streams read_delimited"
    unfolding read_delimited_def by (intro streams_bind v) (auto simp: streams_def)
  show "streams read_string"
    unfolding read_string_def by (intro streams_bind d) (auto simp: streams_def)
  have "streams (\<lambda>is. bindE (read_varint 10 is) (\<lambda>(n, r). Ok (varint n, r)))"
      "streams (\<lambda>is. bindE (read_delimited is) (\<lambda>(b, r). Ok (delimited b, r)))"
    by (intro streams_bind v d streams_Ok)+
  then show "streams (skip_value wt)"
    unfolding skip_value_def by (cases wt) (auto simp: streams_def)
qed

interpretation std_stream: stream_runtime std_wire
proof unfold_locales
  show "streams (rt_tag std_wire)" "streams (rt_float std_wire)" "streams (rt_int32 std_wire)"
      "streams (rt_string std_wire)" "streams (rt_bytes std_wire)" "streams (rt_message std_wire)"
    by (simp_all add: std_wire_def wire_readers_stream)
  show "streams (rt_bool std_wire)"
    unfolding std_wire_def protobuf_rt.simps by (intro streams_bind read_varint_streams streams_Ok)
  show "streams (rt_string_into std_wire wt)" "streams (rt_repeated_string_into std_wire wt)"
      "streams (rt_bytes_into std_wire wt)" "streams (rt_message_into std_wire wt)" for wt
    by (simp_all add: std_wire_def streams_expect wire_readers_stream)
  show "streams (\<lambda>is. rt_enum_into std_wire known wt f is u)" for known wt f u
    unfolding std_wire_def protobuf_rt.simps
    by (intro streams_expect streams_bind wire_readers_stream streams_Ok)
  show "streams (\<lambda>is. rt_unknown std_wire f wt is u)" for f wt u
    unfolding std_wire_def protobuf_rt.simps by (intro streams_bind wire_readers_stream streams_Ok)
qed

end
