(* ===== verification/Message_Properties.thy ===== *)
theory Message_Properties
  imports Pb_Valid Pb_Concat
begin

text \<open>
  What holds of the generated messages, stated for the types that are sent on their own: the
  scene, the update request, the startup information and the two sides of the packet stream.
  Each statement is for every runtime that keeps the laws of \<open>protobuf_runtime\<close>; the examples
  use the encoding of \<open>Pb_Wire\<close>.
\<close>

lemmas scene_eval = Scene_new_def Device_new_def Position_new_def Orientation_new_def Chip_new_def
  Scene_is_initialized_def Device_is_initialized_def Position_is_initialized_def Chip_is_initialized_def
  Orientation_is_initialized_def
  Scene_compute_size_def Scene_write_to_with_cached_sizes_def Device_compute_size_def
  Device_write_to_with_cached_sizes_def Position_compute_size_def Position_write_to_with_cached_sizes_def
  Orientation_compute_size_def Orientation_write_to_with_cached_sizes_def Chip_compute_size_def
  Chip_write_to_with_cached_sizes_def Chip_Radio_new_def Chip_Radio_is_initialized_def
  Chip_Radio_compute_size_def Chip_Radio_write_to_with_cached_sizes_def
  Device_get_cached_size_def Position_get_cached_size_def Orientation_get_cached_size_def
  Chip_get_cached_size_def Chip_Radio_get_cached_size_def
  UpdateDeviceRequest_new_def UpdateDeviceRequest_is_initialized_def UpdateDeviceRequest_compute_size_def
  UpdateDeviceRequest_write_to_with_cached_sizes_def

lemmas stream_eval = StartupInfo_new_def StartupInfo_Device_new_def ChipInfo_new_def Startup_Chip_new_def
  HCIPacket_new_def StreamPacketsRequest_new_def StreamPacketsResponse_new_def
  StartupInfo_is_initialized_def StartupInfo_Device_is_initialized_def ChipInfo_is_initialized_def
  Startup_Chip_is_initialized_def HCIPacket_is_initialized_def StreamPacketsRequest_is_initialized_def
  StreamPacketsResponse_is_initialized_def
  StartupInfo_compute_size_def StartupInfo_Device_compute_size_def ChipInfo_compute_size_def
  Startup_Chip_compute_size_def HCIPacket_compute_size_def StreamPacketsRequest_compute_size_def
  StreamPacketsResponse_compute_size_def
  StartupInfo_write_to_with_cached_sizes_def StartupInfo_Device_write_to_with_cached_sizes_def
  ChipInfo_write_to_with_cached_sizes_def Startup_Chip_write_to_with_cached_sizes_def
  HCIPacket_write_to_with_cached_sizes_def StreamPacketsRequest_write_to_with_cached_sizes_def
  StreamPacketsResponse_write_to_with_cached_sizes_def
  StartupInfo_Device_get_cached_size_def ChipInfo_get_cached_size_def Startup_Chip_get_cached_size_def
  HCIPacket_get_cached_size_def

text \<open>Examples\<close>

definition example_scene :: "bytes Scene" where
  "example_scene = (Scene_new std_wire)\<lparr>Scene_devices := [(Device_new std_wire)\<lparr>Device_name := ''a'',
     Device_visible := True, Device_position := Some ((Position_new std_wire)\<lparr>Position_x := 0x3F800000\<rparr>)\<rparr>]\<rparr>"

definition example_update :: "bytes UpdateDeviceRequest" where
  "example_update = (UpdateDeviceRequest_new std_wire)\<lparr>UpdateDeviceRequest_device := Some ((Device_new std_wire)\<lparr>
     Device_device_serial := ''b'', Device_chips := [(Chip_new std_wire)\<lparr>Chip_capture := State_ON,
       Chip_chip := Some (Chip_oneof_chip_uwb ((Chip_Radio_new std_wire)\<lparr>Chip_Radio_tx_count := 5\<rparr>))\<rparr>]\<rparr>)\<rparr>"

definition example_startup :: "bytes StartupInfo" where
  "example_startup = (StartupInfo_new std_wire)\<lparr>StartupInfo_devices := [(StartupInfo_Device_new std_wire)\<lparr>
     StartupInfo_Device_serial := ''c'', StartupInfo_Device_chips := [(Startup_Chip_new std_wire)\<lparr>
       Startup_Chip_kind := Chip_ChipKind_UWB, Startup_Chip_fd_in := 300, Startup_Chip_loopback := True\<rparr>]\<rparr>]\<rparr>"

definition example_stream_request :: "bytes StreamPacketsRequest" where
  "example_stream_request = (StreamPacketsRequest_new std_wire)\<lparr>StreamPacketsRequest_request_type :=
     Some (StreamPacketsRequest_oneof_request_type_hci_packet ((HCIPacket_new std_wire)\<lparr>
       HCIPacket_field_type := HCIPacket_PacketType_PACKET_TYPE_EVENT, HCIPacket_packet := [14, 4]\<rparr>))\<rparr>"

definition example_stream_response :: "bytes StreamPacketsResponse" where
  "example_stream_response = (StreamPacketsResponse_new std_wire)\<lparr>StreamPacketsResponse_response_type :=
     Some (StreamPacketsResponse_oneof_response_type_error ''no'')\<rparr>"

lemma example_scene_bytes:
  "write_to_bytes Scene_is_initialized (Scene_compute_size std_wire)
     (Scene_write_to_with_cached_sizes std_wire) example_scene = Inr [10, 12, 18, 1, 97, 24, 1, 34, 5, 13, 0, 0, 128, 63]"
  by (simp add: example_scene_def scene_eval wire_eval)

lemma example_scene_wf: "Scene_wf std_wire example_scene"
proof -
  have "utf8 ''a''"
    by code_simp
  then show ?thesis
    by (simp add: example_scene_def scene_eval Scene_wf_def Device_wf_def Position_wf_def)
qed

lemma example_update_bytes:
  "write_to_bytes UpdateDeviceRequest_is_initialized (UpdateDeviceRequest_compute_size std_wire)
     (UpdateDeviceRequest_write_to_with_cached_sizes std_wire) example_update = Inr [18, 11, 10, 1, 98, 50, 6, 32, 1, 50, 2, 24, 5]"
  by (simp add: example_update_def scene_eval wire_eval)

lemma example_update_wf: "UpdateDeviceRequest_wf std_wire example_update"
proof -
  have "utf8 ''b''"
    by code_simp
  then show ?thesis
    by (simp add: example_update_def scene_eval UpdateDeviceRequest_wf_def Device_wf_def Chip_wf_def Chip_Radio_wf_def)
qed

lemma example_startup_bytes:
  "write_to_bytes StartupInfo_is_initialized (StartupInfo_compute_size std_wire)
     (StartupInfo_write_to_with_cached_sizes std_wire) example_startup = Inr [10, 12, 10, 1, 99, 18, 7, 8, 3, 40, 172, 2, 56, 1]"
  by (simp add: example_startup_def stream_eval wire_eval)

lemma example_startup_wf: "StartupInfo_wf std_wire example_startup"
proof -
  have "utf8 ''c''"
    by code_simp
  then show ?thesis
    by (simp add: example_startup_def stream_eval StartupInfo_wf_def StartupInfo_Device_wf_def Startup_Chip_wf_def)
qed

lemma example_stream_request_bytes:
  "write_to_bytes StreamPacketsRequest_is_initialized (StreamPacketsRequest_compute_size std_wire)
     (StreamPacketsRequest_write_to_with_cached_sizes std_wire) example_stream_request = Inr [18, 6, 8, 4, 18, 2, 14, 4]"
  by (simp add: example_stream_request_def stream_eval wire_eval)

lemma example_stream_request_wf: "StreamPacketsRequest_wf std_wire example_stream_request"
  by (simp add: example_stream_request_def stream_eval StreamPacketsRequest_wf_def HCIPacket_wf_def)

lemma example_stream_response_bytes:
  "write_to_bytes StreamPacketsResponse_is_initialized (StreamPacketsResponse_compute_size std_wire)
     (StreamPacketsResponse_write_to_with_cached_sizes std_wire) example_stream_response = Inr [10, 2, 110, 111]"
  by (simp add: example_stream_response_def stream_eval wire_eval)

lemma example_stream_response_wf: "StreamPacketsResponse_wf std_wire example_stream_response"
proof -
  have "utf8 ''no''"
    by code_simp
  then show ?thesis
    by (simp add: example_stream_response_def stream_eval StreamPacketsResponse_wf_def)
qed

text \<open>The contract of the types, for the runtime of the context.\<close>

context protobuf_runtime
begin

lemmas Scene_round_trip = Scene.round_trip and Scene_written = Scene.written_length
lemmas UpdateDeviceRequest_round_trip = UpdateDeviceRequest.round_trip and UpdateDeviceRequest_written = UpdateDeviceRequest.written_length
lemmas StartupInfo_round_trip = StartupInfo.round_trip and StartupInfo_written = StartupInfo.written_length
lemmas StreamPacketsRequest_round_trip = StreamPacketsRequest.round_trip and StreamPacketsRequest_written = StreamPacketsRequest.written_length
lemmas StreamPacketsResponse_round_trip = StreamPacketsResponse.round_trip and StreamPacketsResponse_written = StreamPacketsResponse.written_length
lemmas Scene_size = Scene.size_exact Scene.size_cached
lemmas Device_size = Device.size_exact Device.size_cached
lemmas Scene_ends = Scene.no_stall

end

section \<open>Properties\<close>

text \<open>C10: A scene, with its devices, their chips and their positions, that fits in the 32 bits of a size is
  written without an error and read back from its bytes as it was, up to the sign of zero coordinates and the stored sizes.\<close>

theorem scene_round_trip:
  assumes "protobuf_runtime W" and "Scene_wf W m"
    and "length (Scene_write_to_with_cached_sizes W (snd (Scene_compute_size W m))) < 2 ^ 32"
  shows "\<exists>b. write_to_bytes Scene_is_initialized (Scene_compute_size W)
      (Scene_write_to_with_cached_sizes W) m = Inr b \<and>
    parse_from_bytes (Scene_new W) Scene_is_initialized (Scene_merge_from W) b = Inr (Scene_canon m)"
  using assms(2,3) by (rule protobuf_runtime.Scene_round_trip [OF assms(1)])

lemma scene_round_trip_witness:
  "\<exists>b. write_to_bytes Scene_is_initialized (Scene_compute_size std_wire)
      (Scene_write_to_with_cached_sizes std_wire) example_scene = Inr b \<and>
    parse_from_bytes (Scene_new std_wire) Scene_is_initialized (Scene_merge_from std_wire) b =
      Inr (Scene_canon example_scene)"
  by (rule scene_round_trip [OF std.protobuf_runtime_axioms example_scene_wf
    protobuf_runtime.Scene_written [OF std.protobuf_runtime_axioms example_scene_bytes]])

text \<open>An update request, with any part of a device in it, that fits in the 32 bits of a size
  is written without an error and read back from its bytes as it was, up to the sign of zero coordinates and the stored sizes.\<close>

theorem update_round_trip:
  assumes "protobuf_runtime W" and "UpdateDeviceRequest_wf W m"
    and "length (UpdateDeviceRequest_write_to_with_cached_sizes W (snd (UpdateDeviceRequest_compute_size W m))) < 2 ^ 32"
  shows "\<exists>b. write_to_bytes UpdateDeviceRequest_is_initialized (UpdateDeviceRequest_compute_size W)
      (UpdateDeviceRequest_write_to_with_cached_sizes W) m = Inr b \<and>
    parse_from_bytes (UpdateDeviceRequest_new W) UpdateDeviceRequest_is_initialized (UpdateDeviceRequest_merge_from W) b = Inr (UpdateDeviceRequest_canon m)"
  using assms(2,3) by (rule protobuf_runtime.UpdateDeviceRequest_round_trip [OF assms(1)])

lemma update_round_trip_witness:
  "\<exists>b. write_to_bytes UpdateDeviceRequest_is_initialized (UpdateDeviceRequest_compute_size std_wire)
      (UpdateDeviceRequest_write_to_with_cached_sizes std_wire) example_update = Inr b \<and>
    parse_from_bytes (UpdateDeviceRequest_new std_wire) UpdateDeviceRequest_is_initialized (UpdateDeviceRequest_merge_from std_wire) b =
      Inr (UpdateDeviceRequest_canon example_update)"
  by (rule update_round_trip [OF std.protobuf_runtime_axioms example_update_wf
    protobuf_runtime.UpdateDeviceRequest_written [OF std.protobuf_runtime_axioms example_update_bytes]])

text \<open>The startup information, with every device and chip, is written without an error and
  read back from its bytes as it was.\<close>

theorem startup_round_trip:
  assumes "protobuf_runtime W" and "StartupInfo_wf W m"
    and "length (StartupInfo_write_to_with_cached_sizes W (snd (StartupInfo_compute_size W m))) < 2 ^ 32"
  shows "\<exists>b. write_to_bytes StartupInfo_is_initialized (StartupInfo_compute_size W)
      (StartupInfo_write_to_with_cached_sizes W) m = Inr b \<and>
    parse_from_bytes (StartupInfo_new W) StartupInfo_is_initialized (StartupInfo_merge_from W) b = Inr (StartupInfo_canon m)"
  using assms(2,3) by (rule protobuf_runtime.StartupInfo_round_trip [OF assms(1)])

lemma startup_round_trip_witness:
  "\<exists>b. write_to_bytes StartupInfo_is_initialized (StartupInfo_compute_size std_wire)
      (StartupInfo_write_to_with_cached_sizes std_wire) example_startup = Inr b \<and>
    parse_from_bytes (StartupInfo_new std_wire) StartupInfo_is_initialized (StartupInfo_merge_from std_wire) b =
      Inr (StartupInfo_canon example_startup)"
  by (rule startup_round_trip [OF std.protobuf_runtime_axioms example_startup_wf
    protobuf_runtime.StartupInfo_written [OF std.protobuf_runtime_axioms example_startup_bytes]])



text \<open>Concatenation is merging: for each message, bytes that one reading accepts, followed by other bytes,
  are read as reading the other bytes into the message that the first gave. So a message may be sent in
  parts, a later value of a field replaces an earlier one, and repeated fields are joined.\<close>

theorem messages_concatenate:
  assumes "stream_runtime W"
  shows "concatenates (Position_merge_from W) \<and>
    concatenates (Orientation_merge_from W) \<and>
    concatenates (Chip_merge_from W) \<and>
    concatenates (Chip_Radio_merge_from W) \<and>
    concatenates (Chip_Bluetooth_merge_from W) \<and>
    concatenates (Device_merge_from W) \<and>
    concatenates (Scene_merge_from W) \<and>
    concatenates (VersionResponse_merge_from W) \<and>
    concatenates (SetLinkLossRequest_merge_from W) \<and>
    concatenates (UpdateDeviceRequest_merge_from W) \<and>
    concatenates (Updates_merge_from W) \<and>
    concatenates (GetDevicesResponse_merge_from W) \<and>
    concatenates (NetCatStream_merge_from W) \<and>
    concatenates (SetPacketCaptureRequest_merge_from W) \<and>
    concatenates (StartupInfo_merge_from W) \<and>
    concatenates (StartupInfo_Device_merge_from W) \<and>
    concatenates (ChipInfo_merge_from W) \<and>
    concatenates (Startup_Chip_merge_from W) \<and>
    concatenates (HCIPacket_merge_from W) \<and>
    concatenates (StreamPacketsRequest_merge_from W) \<and>
    concatenates (StreamPacketsResponse_merge_from W)"
  by (intro conjI)
    (rule stream_runtime.Position_concatenates [OF assms]
      stream_runtime.Orientation_concatenates [OF assms]
      stream_runtime.Chip_concatenates [OF assms]
      stream_runtime.Chip_Radio_concatenates [OF assms]
      stream_runtime.Chip_Bluetooth_concatenates [OF assms]
      stream_runtime.Device_concatenates [OF assms]
      stream_runtime.Scene_concatenates [OF assms]
      stream_runtime.VersionResponse_concatenates [OF assms]
      stream_runtime.SetLinkLossRequest_concatenates [OF assms]
      stream_runtime.UpdateDeviceRequest_concatenates [OF assms]
      stream_runtime.Updates_concatenates [OF assms]
      stream_runtime.GetDevicesResponse_concatenates [OF assms]
      stream_runtime.NetCatStream_concatenates [OF assms]
      stream_runtime.SetPacketCaptureRequest_concatenates [OF assms]
      stream_runtime.StartupInfo_concatenates [OF assms]
      stream_runtime.StartupInfo_Device_concatenates [OF assms]
      stream_runtime.ChipInfo_concatenates [OF assms]
      stream_runtime.Startup_Chip_concatenates [OF assms]
      stream_runtime.HCIPacket_concatenates [OF assms]
      stream_runtime.StreamPacketsRequest_concatenates [OF assms]
      stream_runtime.StreamPacketsResponse_concatenates [OF assms])+

lemma read_varint_one: "unat b < 128 \<Longrightarrow> read_varint 10 (b # bs) = Inr (unat b, bs)"
  by (simp add: numeral_eq_Suc)

lemma example_parts:
  "Scene_merge_from std_wire (Scene_new std_wire) [10, 0] =
     Inr ((Scene_new std_wire)\<lparr>Scene_devices := [Device_new std_wire]\<rparr>)"
  by (simp add: Scene_merge_from_def merge_loop.simps Scene_merge_step_def std_wire_def read_tag_def read_varint_one
      read_repeated_message_into_def read_delimited_def expect_wire_def wire_of_def Device_merge_from_def Scene_new_def
      del: read_varint.simps)

lemma messages_concatenate_witness:
  "Scene_merge_from std_wire (Scene_new std_wire) ([10, 0] @ [10, 0]) =
     Scene_merge_from std_wire ((Scene_new std_wire)\<lparr>Scene_devices := [Device_new std_wire]\<rparr>) [10, 0]"
  using messages_concatenate [OF std_stream.stream_runtime_axioms] example_parts
  by (simp only: concatenates_def)

text \<open>A message of the packet stream to the simulator is written without an error and read back with the
  alternative it was written with (the chip, a packet of a known type, or bare bytes) and its content.\<close>

theorem stream_request_round_trip:
  assumes "protobuf_runtime W" and "StreamPacketsRequest_wf W m"
    and "length (StreamPacketsRequest_write_to_with_cached_sizes W (snd (StreamPacketsRequest_compute_size W m))) < 2 ^ 32"
  shows "\<exists>b. write_to_bytes StreamPacketsRequest_is_initialized (StreamPacketsRequest_compute_size W)
      (StreamPacketsRequest_write_to_with_cached_sizes W) m = Inr b \<and>
    parse_from_bytes (StreamPacketsRequest_new W) StreamPacketsRequest_is_initialized (StreamPacketsRequest_merge_from W) b = Inr (StreamPacketsRequest_canon m)"
  using assms(2,3) by (rule protobuf_runtime.StreamPacketsRequest_round_trip [OF assms(1)])

lemma stream_request_round_trip_witness:
  "\<exists>b. write_to_bytes StreamPacketsRequest_is_initialized (StreamPacketsRequest_compute_size std_wire)
      (StreamPacketsRequest_write_to_with_cached_sizes std_wire) example_stream_request = Inr b \<and>
    parse_from_bytes (StreamPacketsRequest_new std_wire) StreamPacketsRequest_is_initialized (StreamPacketsRequest_merge_from std_wire) b =
      Inr (StreamPacketsRequest_canon example_stream_request)"
  by (rule stream_request_round_trip [OF std.protobuf_runtime_axioms example_stream_request_wf
    protobuf_runtime.StreamPacketsRequest_written [OF std.protobuf_runtime_axioms example_stream_request_bytes]])

text \<open>A message of the packet stream from the simulator is written without an error and read back with the
  alternative it was written with (an error text, a packet, or bare bytes) and its content.\<close>

theorem stream_response_round_trip:
  assumes "protobuf_runtime W" and "StreamPacketsResponse_wf W m"
    and "length (StreamPacketsResponse_write_to_with_cached_sizes W (snd (StreamPacketsResponse_compute_size W m))) < 2 ^ 32"
  shows "\<exists>b. write_to_bytes StreamPacketsResponse_is_initialized (StreamPacketsResponse_compute_size W)
      (StreamPacketsResponse_write_to_with_cached_sizes W) m = Inr b \<and>
    parse_from_bytes (StreamPacketsResponse_new W) StreamPacketsResponse_is_initialized (StreamPacketsResponse_merge_from W) b = Inr (StreamPacketsResponse_canon m)"
  using assms(2,3) by (rule protobuf_runtime.StreamPacketsResponse_round_trip [OF assms(1)])

lemma stream_response_round_trip_witness:
  "\<exists>b. write_to_bytes StreamPacketsResponse_is_initialized (StreamPacketsResponse_compute_size std_wire)
      (StreamPacketsResponse_write_to_with_cached_sizes std_wire) example_stream_response = Inr b \<and>
    parse_from_bytes (StreamPacketsResponse_new std_wire) StreamPacketsResponse_is_initialized (StreamPacketsResponse_merge_from std_wire) b =
      Inr (StreamPacketsResponse_canon example_stream_response)"
  by (rule stream_response_round_trip [OF std.protobuf_runtime_axioms example_stream_response_wf
    protobuf_runtime.StreamPacketsResponse_written [OF std.protobuf_runtime_axioms example_stream_response_bytes]])

text \<open>C26: The size that is computed for a scene before it is written is the number of bytes that are
  then written, modulo \<open>2 ^ 32\<close>, and it is the size stored in the message; the same holds of every
  device in it.\<close>

theorem scene_size_exact:
  assumes "protobuf_runtime W"
  shows "let (n, m') = Scene_compute_size W m
     in n = of_nat (length (Scene_write_to_with_cached_sizes W m')) \<and> Scene_get_cached_size m' = n \<and>
       list_all (\<lambda>d. Device_get_cached_size d = of_nat (length (Device_write_to_with_cached_sizes W d)))
         (Scene_devices m')"
proof -
  have dev: "list_all (\<lambda>d. Device_get_cached_size d = of_nat (length (Device_write_to_with_cached_sizes W d)))
      (snd (repeated_size W (Device_compute_size W) ds))" for ds
    using protobuf_runtime.Device_size [OF assms]
    by (induction ds) (simp_all add: embedded_size_def case_prod_beta)
  show ?thesis
    using protobuf_runtime.Scene_size [OF assms, of m]
      protobuf_runtime.Scene_sized [OF assms, of m] dev [of "Scene_devices m"]
    by (simp add: case_prod_beta)
qed

lemma scene_size_exact_witness:
  "let (n, m') = Scene_compute_size std_wire example_scene
     in n = of_nat (length (Scene_write_to_with_cached_sizes std_wire m')) \<and> Scene_get_cached_size m' = n \<and>
       list_all (\<lambda>d. Device_get_cached_size d = of_nat (length (Device_write_to_with_cached_sizes std_wire d)))
         (Scene_devices m')"
  by (rule scene_size_exact [OF std.protobuf_runtime_axioms])



text \<open>A chip has at most one kind: setting one alternative of the field replaces the others, reading
  an absent alternative gives the empty value, and changing a chip through a reference to an
  alternative it does not have turns it into that alternative.\<close>

theorem chip_has_one_kind:
  "\<not> (Chip_has_bt m \<and> Chip_has_uwb m) \<and> \<not> (Chip_has_bt m \<and> Chip_has_wifi m) \<and>
     \<not> (Chip_has_uwb m \<and> Chip_has_wifi m) \<and>
     Chip_get_bt W (Chip_set_wifi w m) = Chip_Bluetooth_new W \<and>
     Chip_mut_bt W g (Chip_set_wifi w m) = Ok (Chip_set_bt (g (Chip_Bluetooth_new W)) m) \<and>
     Chip_take_bt W (Chip_set_bt b m) = Ok (b, Chip_clear_bt m)"
proof -
  have "Chip_set_bt v (Chip_set_wifi w m) = Chip_set_bt v m" for v
    by (simp add: Chip_set_bt_def Chip_set_wifi_def)
  moreover have "\<not> Chip_has_bt (Chip_set_wifi w m)"
    by (simp add: Chip_has_bt_def Chip_set_wifi_def)
  ultimately show ?thesis
    by (simp add: Chip_bt.mut_spec Chip_bt.get_absent Chip_bt.take_set)
      (auto simp: Chip_has_bt_def Chip_has_uwb_def Chip_has_wifi_def split: option.splits Chip_oneof_chip.splits)
qed

text \<open>The numbers of an enumeration and its values correspond one to one; a number outside the
  enumeration is no value. This holds of the four enumerations.\<close>

theorem enum_numbers:
  "(State_from_i32 i = Some a \<longleftrightarrow> i = State_value a) \<and>
     (PhyKind_from_i32 i = Some b \<longleftrightarrow> i = PhyKind_value b) \<and>
     (Chip_ChipKind_from_i32 i = Some c \<longleftrightarrow> i = Chip_ChipKind_value c) \<and>
     (HCIPacket_PacketType_from_i32 i = Some d \<longleftrightarrow> i = HCIPacket_PacketType_value d)"
  using State_value_from [of i a] PhyKind_value_from [of i b] Chip_ChipKind_value_from [of i c]
    HCIPacket_PacketType_value_from [of i d]
  by (auto simp del: State_value.simps PhyKind_value.simps)

end
