(* ===== verification/Pb_Schema.thy ===== *)
theory Pb_Schema
  imports Netsim_Prelude
begin

text \<open>
  The descriptions of the messages that the generated files carry as bytes
  (\<^verbatim>\<open>file_descriptor_proto_data\<close>), and what they say. The bytes are a \<^verbatim>\<open>FileDescriptorProto\<close>, a
  message of the protobuf language itself whose layout is public: \<open>decode_file\<close> reads out of it the
  package, the messages with their fields (number, type, whether repeated, the \<^verbatim>\<open>oneof\<close> it is in)
  and the enumerations. Services, options and JSON names are passed over.

  The five lemmas whose names end in \<open>_decoded\<close> evaluate the reading on the five files.
\<close>

section \<open>Schemas\<close>

datatype field_type =
    TFloat
  | TInt32
  | TBool
  | TString
  | TBytes
  | TEnum string
  | TMessage string

record field_schema =
  fs_name :: string
  fs_number :: nat
  fs_repeated :: bool
  fs_type :: field_type
  fs_oneof :: "string option"

record message_schema =
  ms_name :: string
  ms_fields :: "field_schema list"

record enum_schema =
  es_name :: string
  es_values :: "(string \<times> int) list"

record file_schema =
  fd_package :: string
  fd_messages :: "message_schema list"
  fd_enums :: "enum_schema list"

definition find_message :: "file_schema \<Rightarrow> string \<Rightarrow> message_schema option" where
  "find_message F name = find (\<lambda>M. ms_name M = name) (fd_messages F)"

definition find_enum :: "file_schema \<Rightarrow> string \<Rightarrow> enum_schema option" where
  "find_enum F name = find (\<lambda>E. es_name E = name) (fd_enums F)"

section \<open>Reading a description\<close>

text \<open>
  The two shapes of a value that a description uses, numbers and blocks; a block is a text or
  again a description.
\<close>

datatype raw =
    Number int
  | Block string

fun varint_of :: "string \<Rightarrow> (int \<times> string) option" where
  "varint_of [] = None"
| "varint_of (c # cs) =
     (let b = of_char c in
      if b < 128 then Some (b, cs)
      else case varint_of cs of None \<Rightarrow> None | Some (n, r) \<Rightarrow> Some (b - 128 + 128 * n, r))"

function split_at :: "int \<Rightarrow> string \<Rightarrow> (string \<times> string) option" where
  "split_at n s =
     (if n \<le> 0 then Some ([], s)
      else case s of [] \<Rightarrow> None
           | c # cs \<Rightarrow> (case split_at (n - 1) cs of None \<Rightarrow> None | Some (a, r) \<Rightarrow> Some (c # a, r)))"
  by pat_completeness auto
termination
  by (relation "measure (\<lambda>(n, s). length s)") auto

declare split_at.simps [simp del]

lemma varint_of_shorter: "varint_of s = Some (n, r) \<Longrightarrow> length r < length s"
  by (induction s arbitrary: n r) (fastforce simp: Let_def split: if_splits option.splits)+

lemma split_at_shorter: "split_at n s = Some (a, r) \<Longrightarrow> length a + length r = length s"
proof (induction s arbitrary: n a r)
  case (Cons c cs)
  then show ?case
    by (subst (asm) (2) split_at.simps) (auto split: if_splits option.splits)
qed (auto simp: split_at.simps split: if_splits)

definition raw_field :: "string \<Rightarrow> ((int \<times> raw) \<times> string) option" where
  "raw_field s =
     (case varint_of s of None \<Rightarrow> None
      | Some (key, s) \<Rightarrow>
         (case varint_of s of None \<Rightarrow> None
          | Some (n, s) \<Rightarrow>
             if key mod 8 = 0 then Some ((key div 8, Number n), s)
             else if key mod 8 = 2 then
               (case split_at n s of None \<Rightarrow> None | Some (a, r) \<Rightarrow> Some ((key div 8, Block a), r))
             else None))"

lemma raw_field_shorter: "raw_field s = Some (f, r) \<Longrightarrow> length r < length s"
  by (auto simp: raw_field_def split: option.splits prod.splits if_splits
      dest!: varint_of_shorter split_at_shorter)

function raw_fields :: "string \<Rightarrow> (int \<times> raw) list option" where
  "raw_fields s =
     (if s = [] then Some []
      else case raw_field s of None \<Rightarrow> None
           | Some (f, r) \<Rightarrow> (case raw_fields r of None \<Rightarrow> None | Some fs \<Rightarrow> Some (f # fs)))"
  by pat_completeness auto
termination
  by (relation "measure length") (auto dest: raw_field_shorter)

declare raw_fields.simps [simp del]

fun blocks :: "int \<Rightarrow> (int \<times> raw) list \<Rightarrow> string list" where
  "blocks f [] = []"
| "blocks f ((g, Block b) # fs) = (if f = g then b # blocks f fs else blocks f fs)"
| "blocks f ((g, Number n) # fs) = blocks f fs"

fun number :: "int \<Rightarrow> (int \<times> raw) list \<Rightarrow> int option" where
  "number f [] = None"
| "number f ((g, Number n) # fs) = (if f = g then Some n else number f fs)"
| "number f ((g, Block b) # fs) = number f fs"

fun block :: "int \<Rightarrow> (int \<times> raw) list \<Rightarrow> string option" where
  "block f [] = None"
| "block f ((g, Block b) # fs) = (if f = g then Some b else block f fs)"
| "block f ((g, Number n) # fs) = block f fs"

text \<open>The numbers of the types in \<^verbatim>\<open>FieldDescriptorProto\<close>; of those the files use.\<close>

definition type_of_number :: "int \<Rightarrow> string option \<Rightarrow> field_type option" where
  "type_of_number n name =
     (if n = 2 then Some TFloat
      else if n = 5 then Some TInt32
      else if n = 8 then Some TBool
      else if n = 9 then Some TString
      else if n = 12 then Some TBytes
      else if n = 11 then map_option TMessage name
      else if n = 14 then map_option TEnum name
      else None)"

fun traverse :: "('a \<Rightarrow> 'b option) \<Rightarrow> 'a list \<Rightarrow> 'b list option" where
  "traverse f [] = Some []"
| "traverse f (x # xs) =
     (case f x of None \<Rightarrow> None
      | Some y \<Rightarrow> (case traverse f xs of None \<Rightarrow> None | Some ys \<Rightarrow> Some (y # ys)))"

definition oneof_name :: "string list \<Rightarrow> int option \<Rightarrow> string option" where
  "oneof_name oneofs i = (case i of None \<Rightarrow> None | Some i \<Rightarrow> Some (oneofs ! nat i))"

definition field_of :: "string list \<Rightarrow> string \<Rightarrow> field_schema option" where
  "field_of oneofs s =
     (case raw_fields s of None \<Rightarrow> None
      | Some fs \<Rightarrow>
         (case (block 1 fs, number 3 fs, number 4 fs, number 5 fs) of
            (Some name, Some n, Some label, Some t) \<Rightarrow>
              (case type_of_number t (block 6 fs) of None \<Rightarrow> None
               | Some ty \<Rightarrow>
                  Some \<lparr>fs_name = name, fs_number = nat n, fs_repeated = (label = 3), fs_type = ty,
                    fs_oneof = oneof_name oneofs (number 9 fs)\<rparr>)
          | _ \<Rightarrow> None))"

definition enum_value :: "string \<Rightarrow> (string \<times> int) option" where
  "enum_value s =
     (case raw_fields s of None \<Rightarrow> None
      | Some fs \<Rightarrow> (case (block 1 fs, number 2 fs) of (Some name, Some n) \<Rightarrow> Some (name, n) | _ \<Rightarrow> None))"

definition enum_of :: "string \<Rightarrow> string \<Rightarrow> enum_schema option" where
  "enum_of prefix s =
     (case raw_fields s of None \<Rightarrow> None
      | Some fs \<Rightarrow>
         (case (block 1 fs, traverse enum_value (blocks 2 fs)) of
            (Some name, Some vs) \<Rightarrow> Some \<lparr>es_name = prefix @ name, es_values = vs\<rparr>
          | _ \<Rightarrow> None))"

text \<open>
  A message gives itself, the messages and the enumerations declared in it; the files nest
  messages one level deep.
\<close>

fun messages_of :: "nat \<Rightarrow> string \<Rightarrow> string \<Rightarrow> (message_schema list \<times> enum_schema list) option" where
  "messages_of 0 prefix s = None"
| "messages_of (Suc depth) prefix s =
     (case raw_fields s of None \<Rightarrow> None
      | Some fs \<Rightarrow>
         (case block 1 fs of None \<Rightarrow> None
          | Some name \<Rightarrow>
             (let inside = prefix @ name @ ''.'' in
              case (traverse (\<lambda>d. Option.bind (raw_fields d) (block 1)) (blocks 8 fs)) of None \<Rightarrow> None
              | Some oneofs \<Rightarrow>
                 (case (traverse (field_of oneofs) (blocks 2 fs),
                        traverse (messages_of depth inside) (blocks 3 fs),
                        traverse (enum_of inside) (blocks 4 fs)) of
                    (Some own, Some nested, Some enums) \<Rightarrow>
                      Some (\<lparr>ms_name = prefix @ name, ms_fields = own\<rparr> # concat (map fst nested),
                            enums @ concat (map snd nested))
                  | _ \<Rightarrow> None))))"

definition decode_file :: "string \<Rightarrow> file_schema option" where
  "decode_file s =
     (case raw_fields s of None \<Rightarrow> None
      | Some fs \<Rightarrow>
         (case (block 2 fs, traverse (messages_of 2 []) (blocks 4 fs), traverse (enum_of []) (blocks 5 fs)) of
            (Some package, Some ms, Some es) \<Rightarrow>
              Some \<lparr>fd_package = package, fd_messages = concat (map fst ms),
                    fd_enums = es @ concat (map snd ms)\<rparr>
          | _ \<Rightarrow> None))"

text \<open>A description is read block by block; the blocks of a file are named, so that each is evaluated once.\<close>

lemma raw_fields_Nil [simp]: "raw_fields [] = Some []"
  by (simp add: raw_fields.simps)

lemma raw_fields_step:
  assumes "raw_field s = Some (f, r)"
  shows "raw_fields s = map_option (\<lambda>fs. f # fs) (raw_fields r)"
proof -
  have "s \<noteq> []"
    using assms by (auto simp: raw_field_def)
  with assms show ?thesis
    by (subst raw_fields.simps) (simp split: option.split)
qed

section \<open>The five files\<close>


definition model_file_descriptor_proto_data :: bytes where
  "model_file_descriptor_proto_data = as_bytes (
     [CHR 0x0A, CHR 0x0B] @ ''model.proto'' @ [CHR 0x12, CHR 0x0C] @ ''netsim.model'' @ [CHR 0x22] @ ''4'' @ [CHR 0x0A, CHR 0x08] @ ''Position'' @ [CHR 0x12, CHR 0x0C, CHR 0x0A, CHR 0x01] @ ''x'' @
     [CHR 0x18, CHR 0x01] @ '' '' @ [CHR 0x01] @ ''('' @ [CHR 0x02] @ ''R'' @ [CHR 0x01] @ ''x'' @ [CHR 0x12, CHR 0x0C, CHR 0x0A, CHR 0x01] @ ''y'' @ [CHR 0x18, CHR 0x02] @ '' '' @ [CHR 0x01] @ ''('' @ [CHR 0x02] @ ''R'' @ [CHR 0x01] @ ''y'' @
     [CHR 0x12, CHR 0x0C, CHR 0x0A, CHR 0x01] @ ''z'' @ [CHR 0x18, CHR 0x03] @ '' '' @ [CHR 0x01] @ ''('' @ [CHR 0x02] @ ''R'' @ [CHR 0x01] @ ''z'' @ [CHR 0x22] @ ''I'' @ [CHR 0x0A, CHR 0x0B] @ ''Orientation'' @ [CHR 0x12, CHR 0x10, CHR 0x0A] @
     [CHR 0x03] @ ''yaw'' @ [CHR 0x18, CHR 0x01] @ '' '' @ [CHR 0x01] @ ''('' @ [CHR 0x02] @ ''R'' @ [CHR 0x03] @ ''yaw'' @ [CHR 0x12, CHR 0x14, CHR 0x0A, CHR 0x05] @ ''pitch'' @ [CHR 0x18, CHR 0x02] @ '' '' @ [CHR 0x01] @ ''('' @
     [CHR 0x02] @ ''R'' @ [CHR 0x05] @ ''pitch'' @ [CHR 0x12, CHR 0x12, CHR 0x0A, CHR 0x04] @ ''roll'' @ [CHR 0x18, CHR 0x03] @ '' '' @ [CHR 0x01] @ ''('' @ [CHR 0x02] @ ''R'' @ [CHR 0x04] @ ''roll'' @ [CHR 0x22, CHR 0x98, CHR 0x04] @
     [CHR 0x0A, CHR 0x04] @ ''Chip'' @ [CHR 0x12, CHR 0x17, CHR 0x0A, CHR 0x07] @ ''chip_id'' @ [CHR 0x18, CHR 0x01] @ '' '' @ [CHR 0x01] @ ''('' @ [CHR 0x09] @ ''R'' @ [CHR 0x06] @ ''chipId'' @ [CHR 0x12, CHR 0x22, CHR 0x0A] @
     [CHR 0x0C] @ ''manufacturer'' @ [CHR 0x18, CHR 0x02] @ '' '' @ [CHR 0x01] @ ''('' @ [CHR 0x09] @ ''R'' @ [CHR 0x0C] @ ''manufacturer'' @ [CHR 0x12, CHR 0x14, CHR 0x0A, CHR 0x05] @ ''model'' @
     [CHR 0x18, CHR 0x03] @ '' '' @ [CHR 0x01] @ ''('' @ [CHR 0x09] @ ''R'' @ [CHR 0x05] @ ''model'' @ [CHR 0x12] @ ''-'' @ [CHR 0x0A, CHR 0x07] @ ''capture'' @ [CHR 0x18, CHR 0x04] @ '' '' @ [CHR 0x01] @ ''('' @ [CHR 0x0E] @ ''2'' @
     [CHR 0x13] @ ''.netsim.model.StateR'' @ [CHR 0x07] @ ''capture'' @ [CHR 0x12] @ ''.'' @ [CHR 0x0A, CHR 0x02] @ ''bt'' @ [CHR 0x18, CHR 0x05] @ '' '' @ [CHR 0x01] @ ''('' @ [CHR 0x0B] @ ''2'' @
     [CHR 0x1C] @ ''.netsim.model.Chip.BluetoothH'' @ [CHR 0x00] @ ''R'' @ [CHR 0x02] @ ''bt'' @ [CHR 0x12] @ '','' @ [CHR 0x0A, CHR 0x03] @ ''uwb'' @ [CHR 0x18, CHR 0x06] @ '' '' @ [CHR 0x01] @
     ''('' @ [CHR 0x0B] @ ''2'' @ [CHR 0x18] @ ''.netsim.model.Chip.RadioH'' @ [CHR 0x00] @ ''R'' @ [CHR 0x03] @ ''uwb'' @ [CHR 0x12] @ ''.'' @ [CHR 0x0A, CHR 0x04] @ ''wifi'' @ [CHR 0x18, CHR 0x07] @ '' '' @
     [CHR 0x01] @ ''('' @ [CHR 0x0B] @ ''2'' @ [CHR 0x18] @ ''.netsim.model.Chip.RadioH'' @ [CHR 0x00] @ ''R'' @ [CHR 0x04] @ ''wifi'' @ [CHR 0x1A] @ ''~'' @ [CHR 0x0A, CHR 0x05] @ ''Radio'' @ [CHR 0x12] @ '')'' @
     [CHR 0x0A, CHR 0x05] @ ''state'' @ [CHR 0x18, CHR 0x01] @ '' '' @ [CHR 0x01] @ ''('' @ [CHR 0x0E] @ ''2'' @ [CHR 0x13] @ ''.netsim.model.StateR'' @ [CHR 0x05] @ ''state'' @ [CHR 0x12] @
     [CHR 0x14, CHR 0x0A, CHR 0x05] @ ''range'' @ [CHR 0x18, CHR 0x02] @ '' '' @ [CHR 0x01] @ ''('' @ [CHR 0x02] @ ''R'' @ [CHR 0x05] @ ''range'' @ [CHR 0x12, CHR 0x19, CHR 0x0A, CHR 0x08] @ ''tx_count'' @ [CHR 0x18] @
     [CHR 0x03] @ '' '' @ [CHR 0x01] @ ''('' @ [CHR 0x05] @ ''R'' @ [CHR 0x07] @ ''txCount'' @ [CHR 0x12, CHR 0x19, CHR 0x0A, CHR 0x08] @ ''rx_count'' @ [CHR 0x18, CHR 0x04] @ '' '' @ [CHR 0x01] @ ''('' @ [CHR 0x05] @
     ''R'' @ [CHR 0x07] @ ''rxCount'' @ [CHR 0x1A] @ ''x'' @ [CHR 0x0A, CHR 0x09] @ ''Bluetooth'' @ [CHR 0x12] @ ''7'' @ [CHR 0x0A, CHR 0x0A] @ ''low_energy'' @ [CHR 0x18, CHR 0x01] @ '' '' @ [CHR 0x01] @ ''('' @ [CHR 0x0B] @ ''2'' @
     [CHR 0x18] @ ''.netsim.model.Chip.RadioR'' @ [CHR 0x09] @ ''lowEnergy'' @ [CHR 0x12] @ ''2'' @ [CHR 0x0A, CHR 0x07] @ ''classic'' @ [CHR 0x18, CHR 0x02] @ '' '' @
     [CHR 0x01] @ ''('' @ [CHR 0x0B] @ ''2'' @ [CHR 0x18] @ ''.netsim.model.Chip.RadioR'' @ [CHR 0x07] @ ''classicB'' @ [CHR 0x06, CHR 0x0A, CHR 0x04] @ ''chip'' @ [CHR 0x22, CHR 0xF6] @
     [CHR 0x01, CHR 0x0A, CHR 0x06] @ ''Device'' @ [CHR 0x12] @ ''#'' @ [CHR 0x0A, CHR 0x0D] @ ''device_serial'' @ [CHR 0x18, CHR 0x01] @ '' '' @ [CHR 0x01] @ ''('' @ [CHR 0x09] @ ''R'' @ [CHR 0x0C] @ ''deviceSeri'' @
     ''al'' @ [CHR 0x12, CHR 0x12, CHR 0x0A, CHR 0x04] @ ''name'' @ [CHR 0x18, CHR 0x02] @ '' '' @ [CHR 0x01] @ ''('' @ [CHR 0x09] @ ''R'' @ [CHR 0x04] @ ''name'' @ [CHR 0x12, CHR 0x18, CHR 0x0A, CHR 0x07] @ ''visible'' @
     [CHR 0x18, CHR 0x03] @ '' '' @ [CHR 0x01] @ ''('' @ [CHR 0x08] @ ''R'' @ [CHR 0x07] @ ''visible'' @ [CHR 0x12] @ ''2'' @ [CHR 0x0A, CHR 0x08] @ ''position'' @ [CHR 0x18, CHR 0x04] @ '' '' @ [CHR 0x01] @ ''('' @
     [CHR 0x0B] @ ''2'' @ [CHR 0x16] @ ''.netsim.model.PositionR'' @ [CHR 0x08] @ ''position'' @ [CHR 0x12] @ '';'' @ [CHR 0x0A, CHR 0x0B] @ ''orientation'' @ [CHR 0x18] @
     [CHR 0x05] @ '' '' @ [CHR 0x01] @ ''('' @ [CHR 0x0B] @ ''2'' @ [CHR 0x19] @ ''.netsim.model.OrientationR'' @ [CHR 0x0B] @ ''orientation'' @ [CHR 0x12] @ ''('' @ [CHR 0x0A] @
     [CHR 0x05] @ ''chips'' @ [CHR 0x18, CHR 0x06] @ '' '' @ [CHR 0x03] @ ''('' @ [CHR 0x0B] @ ''2'' @ [CHR 0x12] @ ''.netsim.model.ChipR'' @ [CHR 0x05] @ ''chips'' @ [CHR 0x22] @ ''7'' @ [CHR 0x0A, CHR 0x05] @
     ''Scene'' @ [CHR 0x12] @ ''.'' @ [CHR 0x0A, CHR 0x07] @ ''devices'' @ [CHR 0x18, CHR 0x01] @ '' '' @ [CHR 0x03] @ ''('' @ [CHR 0x0B] @ ''2'' @ [CHR 0x14] @ ''.netsim.model.DeviceR'' @
     [CHR 0x07] @ ''devices*e'' @ [CHR 0x0A, CHR 0x07] @ ''PhyKind'' @ [CHR 0x12, CHR 0x08, CHR 0x0A, CHR 0x04] @ ''NONE'' @ [CHR 0x10, CHR 0x00, CHR 0x12, CHR 0x15, CHR 0x0A, CHR 0x11] @ ''BLUETOOT'' @
     ''H_CLASSIC'' @ [CHR 0x10, CHR 0x01, CHR 0x12, CHR 0x18, CHR 0x0A, CHR 0x14] @ ''BLUETOOTH_LOW_ENERGY'' @ [CHR 0x10, CHR 0x02, CHR 0x12, CHR 0x08, CHR 0x0A] @
     [CHR 0x04] @ ''WIFI'' @ [CHR 0x10, CHR 0x03, CHR 0x12, CHR 0x07, CHR 0x0A, CHR 0x03] @ ''UWB'' @ [CHR 0x10, CHR 0x04, CHR 0x12, CHR 0x0C, CHR 0x0A, CHR 0x08] @ ''WIFI_RTT'' @ [CHR 0x10, CHR 0x05] @ ''*'' @
     ''%'' @ [CHR 0x0A, CHR 0x05] @ ''State'' @ [CHR 0x12, CHR 0x0B, CHR 0x0A, CHR 0x07] @ ''UNKNOWN'' @ [CHR 0x10, CHR 0x00, CHR 0x12, CHR 0x06, CHR 0x0A, CHR 0x02] @ ''ON'' @ [CHR 0x10, CHR 0x01, CHR 0x12, CHR 0x07] @
     [CHR 0x0A, CHR 0x03] @ ''OFF'' @ [CHR 0x10, CHR 0x02] @ ''b'' @ [CHR 0x06] @ ''proto3'')"

definition model_Position_schema :: message_schema where
  "model_Position_schema = \<lparr>ms_name = ''Position'', ms_fields =
     [\<lparr>fs_name = ''x'', fs_number = 1, fs_repeated = False, fs_type = TFloat, fs_oneof = None\<rparr>,
      \<lparr>fs_name = ''y'', fs_number = 2, fs_repeated = False, fs_type = TFloat, fs_oneof = None\<rparr>,
      \<lparr>fs_name = ''z'', fs_number = 3, fs_repeated = False, fs_type = TFloat, fs_oneof = None\<rparr>]\<rparr>"

definition model_Orientation_schema :: message_schema where
  "model_Orientation_schema = \<lparr>ms_name = ''Orientation'', ms_fields =
     [\<lparr>fs_name = ''yaw'', fs_number = 1, fs_repeated = False, fs_type = TFloat, fs_oneof = None\<rparr>,
      \<lparr>fs_name = ''pitch'', fs_number = 2, fs_repeated = False, fs_type = TFloat, fs_oneof = None\<rparr>,
      \<lparr>fs_name = ''roll'', fs_number = 3, fs_repeated = False, fs_type = TFloat, fs_oneof = None\<rparr>]\<rparr>"

definition model_Chip_schema :: message_schema where
  "model_Chip_schema = \<lparr>ms_name = ''Chip'', ms_fields =
     [\<lparr>fs_name = ''chip_id'', fs_number = 1, fs_repeated = False, fs_type = TString, fs_oneof = None\<rparr>,
      \<lparr>fs_name = ''manufacturer'', fs_number = 2, fs_repeated = False, fs_type = TString, fs_oneof = None\<rparr>,
      \<lparr>fs_name = ''model'', fs_number = 3, fs_repeated = False, fs_type = TString, fs_oneof = None\<rparr>,
      \<lparr>fs_name = ''capture'', fs_number = 4, fs_repeated = False, fs_type = TEnum ''.netsim.model.State'', fs_oneof = None\<rparr>,
      \<lparr>fs_name = ''bt'', fs_number = 5, fs_repeated = False, fs_type = TMessage ''.netsim.model.Chip.Bluetooth'', fs_oneof = Some ''chip''\<rparr>,
      \<lparr>fs_name = ''uwb'', fs_number = 6, fs_repeated = False, fs_type = TMessage ''.netsim.model.Chip.Radio'', fs_oneof = Some ''chip''\<rparr>,
      \<lparr>fs_name = ''wifi'', fs_number = 7, fs_repeated = False, fs_type = TMessage ''.netsim.model.Chip.Radio'', fs_oneof = Some ''chip''\<rparr>]\<rparr>"

definition model_Chip_Radio_schema :: message_schema where
  "model_Chip_Radio_schema = \<lparr>ms_name = ''Chip.Radio'', ms_fields =
     [\<lparr>fs_name = ''state'', fs_number = 1, fs_repeated = False, fs_type = TEnum ''.netsim.model.State'', fs_oneof = None\<rparr>,
      \<lparr>fs_name = ''range'', fs_number = 2, fs_repeated = False, fs_type = TFloat, fs_oneof = None\<rparr>,
      \<lparr>fs_name = ''tx_count'', fs_number = 3, fs_repeated = False, fs_type = TInt32, fs_oneof = None\<rparr>,
      \<lparr>fs_name = ''rx_count'', fs_number = 4, fs_repeated = False, fs_type = TInt32, fs_oneof = None\<rparr>]\<rparr>"

definition model_Chip_Bluetooth_schema :: message_schema where
  "model_Chip_Bluetooth_schema = \<lparr>ms_name = ''Chip.Bluetooth'', ms_fields =
     [\<lparr>fs_name = ''low_energy'', fs_number = 1, fs_repeated = False, fs_type = TMessage ''.netsim.model.Chip.Radio'', fs_oneof = None\<rparr>,
      \<lparr>fs_name = ''classic'', fs_number = 2, fs_repeated = False, fs_type = TMessage ''.netsim.model.Chip.Radio'', fs_oneof = None\<rparr>]\<rparr>"

definition model_Device_schema :: message_schema where
  "model_Device_schema = \<lparr>ms_name = ''Device'', ms_fields =
     [\<lparr>fs_name = ''device_serial'', fs_number = 1, fs_repeated = False, fs_type = TString, fs_oneof = None\<rparr>,
      \<lparr>fs_name = ''name'', fs_number = 2, fs_repeated = False, fs_type = TString, fs_oneof = None\<rparr>,
      \<lparr>fs_name = ''visible'', fs_number = 3, fs_repeated = False, fs_type = TBool, fs_oneof = None\<rparr>,
      \<lparr>fs_name = ''position'', fs_number = 4, fs_repeated = False, fs_type = TMessage ''.netsim.model.Position'', fs_oneof = None\<rparr>,
      \<lparr>fs_name = ''orientation'', fs_number = 5, fs_repeated = False, fs_type = TMessage ''.netsim.model.Orientation'', fs_oneof = None\<rparr>,
      \<lparr>fs_name = ''chips'', fs_number = 6, fs_repeated = True, fs_type = TMessage ''.netsim.model.Chip'', fs_oneof = None\<rparr>]\<rparr>"

definition model_Scene_schema :: message_schema where
  "model_Scene_schema = \<lparr>ms_name = ''Scene'', ms_fields =
     [\<lparr>fs_name = ''devices'', fs_number = 1, fs_repeated = True, fs_type = TMessage ''.netsim.model.Device'', fs_oneof = None\<rparr>]\<rparr>"

definition model_PhyKind_enum :: enum_schema where
  "model_PhyKind_enum = \<lparr>es_name = ''PhyKind'', es_values =
     [(''NONE'', 0), (''BLUETOOTH_CLASSIC'', 1), (''BLUETOOTH_LOW_ENERGY'', 2), (''WIFI'', 3), (''UWB'', 4), (''WIFI_RTT'', 5)]\<rparr>"

definition model_State_enum :: enum_schema where
  "model_State_enum = \<lparr>es_name = ''State'', es_values =
     [(''UNKNOWN'', 0), (''ON'', 1), (''OFF'', 2)]\<rparr>"

definition model_schema :: file_schema where
  "model_schema = \<lparr>fd_package = ''netsim.model'',
     fd_messages = [model_Position_schema, model_Orientation_schema, model_Chip_schema, model_Chip_Radio_schema, model_Chip_Bluetooth_schema, model_Device_schema, model_Scene_schema],
     fd_enums = [model_PhyKind_enum, model_State_enum]\<rparr>"

text \<open>The blocks of \<^verbatim>\<open>model.proto\<close>.\<close>

definition model_part1 :: string where
  "model_part1 =
     ''model.proto''"

definition model_part2 :: string where
  "model_part2 =
     ''netsim.model''"

definition model_part3 :: string where
  "model_part3 =
     [CHR 0x0A, CHR 0x08] @ ''Position'' @ [CHR 0x12, CHR 0x0C, CHR 0x0A, CHR 0x01] @ ''x'' @ [CHR 0x18, CHR 0x01] @ '' '' @ [CHR 0x01] @ ''('' @ [CHR 0x02] @ ''R'' @ [CHR 0x01] @ ''x'' @ [CHR 0x12, CHR 0x0C, CHR 0x0A, CHR 0x01] @ ''y'' @ [CHR 0x18, CHR 0x02] @ '' '' @ [CHR 0x01] @ ''('' @ [CHR 0x02] @ ''R'' @ [CHR 0x01] @ ''y'' @ [CHR 0x12, CHR 0x0C, CHR 0x0A, CHR 0x01] @ ''z'' @ [CHR 0x18, CHR 0x03] @ '' '' @ [CHR 0x01] @ ''('' @ [CHR 0x02] @ ''R'' @ [CHR 0x01] @ ''z''"

definition model_part4 :: string where
  "model_part4 =
     [CHR 0x0A, CHR 0x0B] @ ''Orientation'' @ [CHR 0x12, CHR 0x10, CHR 0x0A, CHR 0x03] @ ''yaw'' @ [CHR 0x18, CHR 0x01] @ '' '' @ [CHR 0x01] @ ''('' @ [CHR 0x02] @ ''R'' @ [CHR 0x03] @ ''yaw'' @ [CHR 0x12, CHR 0x14, CHR 0x0A, CHR 0x05] @ ''pitch'' @ [CHR 0x18, CHR 0x02] @ '' '' @ [CHR 0x01] @ ''('' @ [CHR 0x02] @ ''R'' @ [CHR 0x05] @ ''pitch'' @ [CHR 0x12, CHR 0x12, CHR 0x0A, CHR 0x04] @ ''rol'' @
     ''l'' @ [CHR 0x18, CHR 0x03] @ '' '' @ [CHR 0x01] @ ''('' @ [CHR 0x02] @ ''R'' @ [CHR 0x04] @ ''roll''"

definition model_part5 :: string where
  "model_part5 =
     [CHR 0x0A, CHR 0x04] @ ''Chip'' @ [CHR 0x12, CHR 0x17, CHR 0x0A, CHR 0x07] @ ''chip_id'' @ [CHR 0x18, CHR 0x01] @ '' '' @ [CHR 0x01] @ ''('' @ [CHR 0x09] @ ''R'' @ [CHR 0x06] @ ''chipId'' @ [CHR 0x12, CHR 0x22, CHR 0x0A, CHR 0x0C] @ ''manufacturer'' @ [CHR 0x18, CHR 0x02] @ '' '' @ [CHR 0x01] @ ''('' @ [CHR 0x09] @ ''R'' @ [CHR 0x0C] @ ''manuf'' @
     ''acturer'' @ [CHR 0x12, CHR 0x14, CHR 0x0A, CHR 0x05] @ ''model'' @ [CHR 0x18, CHR 0x03] @ '' '' @ [CHR 0x01] @ ''('' @ [CHR 0x09] @ ''R'' @ [CHR 0x05] @ ''model'' @ [CHR 0x12] @ ''-'' @ [CHR 0x0A, CHR 0x07] @ ''capture'' @ [CHR 0x18, CHR 0x04] @ '' '' @ [CHR 0x01] @ ''('' @ [CHR 0x0E] @ ''2'' @ [CHR 0x13] @ ''.netsim.mode'' @
     ''l.StateR'' @ [CHR 0x07] @ ''capture'' @ [CHR 0x12] @ ''.'' @ [CHR 0x0A, CHR 0x02] @ ''bt'' @ [CHR 0x18, CHR 0x05] @ '' '' @ [CHR 0x01] @ ''('' @ [CHR 0x0B] @ ''2'' @ [CHR 0x1C] @ ''.netsim.model.Chip.BluetoothH'' @ [CHR 0x00] @
     ''R'' @ [CHR 0x02] @ ''bt'' @ [CHR 0x12] @ '','' @ [CHR 0x0A, CHR 0x03] @ ''uwb'' @ [CHR 0x18, CHR 0x06] @ '' '' @ [CHR 0x01] @ ''('' @ [CHR 0x0B] @ ''2'' @ [CHR 0x18] @ ''.netsim.model.Chip.RadioH'' @ [CHR 0x00] @ ''R'' @ [CHR 0x03] @ ''uwb'' @ [CHR 0x12] @ ''.'' @ [CHR 0x0A, CHR 0x04] @ ''wifi'' @ [CHR 0x18, CHR 0x07] @
     '' '' @ [CHR 0x01] @ ''('' @ [CHR 0x0B] @ ''2'' @ [CHR 0x18] @ ''.netsim.model.Chip.RadioH'' @ [CHR 0x00] @ ''R'' @ [CHR 0x04] @ ''wifi'' @ [CHR 0x1A] @ ''~'' @ [CHR 0x0A, CHR 0x05] @ ''Radio'' @ [CHR 0x12] @ '')'' @ [CHR 0x0A, CHR 0x05] @ ''state'' @ [CHR 0x18, CHR 0x01] @ '' '' @ [CHR 0x01] @
     ''('' @ [CHR 0x0E] @ ''2'' @ [CHR 0x13] @ ''.netsim.model.StateR'' @ [CHR 0x05] @ ''state'' @ [CHR 0x12, CHR 0x14, CHR 0x0A, CHR 0x05] @ ''range'' @ [CHR 0x18, CHR 0x02] @ '' '' @ [CHR 0x01] @ ''('' @ [CHR 0x02] @ ''R'' @ [CHR 0x05] @ ''range'' @ [CHR 0x12, CHR 0x19, CHR 0x0A, CHR 0x08] @ ''tx_c'' @
     ''ount'' @ [CHR 0x18, CHR 0x03] @ '' '' @ [CHR 0x01] @ ''('' @ [CHR 0x05] @ ''R'' @ [CHR 0x07] @ ''txCount'' @ [CHR 0x12, CHR 0x19, CHR 0x0A, CHR 0x08] @ ''rx_count'' @ [CHR 0x18, CHR 0x04] @ '' '' @ [CHR 0x01] @ ''('' @ [CHR 0x05] @ ''R'' @ [CHR 0x07] @ ''rxCount'' @ [CHR 0x1A] @ ''x'' @ [CHR 0x0A, CHR 0x09] @ ''Bluetooth'' @ [CHR 0x12] @
     ''7'' @ [CHR 0x0A, CHR 0x0A] @ ''low_energy'' @ [CHR 0x18, CHR 0x01] @ '' '' @ [CHR 0x01] @ ''('' @ [CHR 0x0B] @ ''2'' @ [CHR 0x18] @ ''.netsim.model.Chip.RadioR'' @ [CHR 0x09] @ ''lowEnergy'' @ [CHR 0x12] @ ''2'' @ [CHR 0x0A, CHR 0x07] @
     ''classic'' @ [CHR 0x18, CHR 0x02] @ '' '' @ [CHR 0x01] @ ''('' @ [CHR 0x0B] @ ''2'' @ [CHR 0x18] @ ''.netsim.model.Chip.RadioR'' @ [CHR 0x07] @ ''classicB'' @ [CHR 0x06, CHR 0x0A, CHR 0x04] @ ''chip''"

definition model_part6 :: string where
  "model_part6 =
     [CHR 0x0A, CHR 0x06] @ ''Device'' @ [CHR 0x12] @ ''#'' @ [CHR 0x0A, CHR 0x0D] @ ''device_serial'' @ [CHR 0x18, CHR 0x01] @ '' '' @ [CHR 0x01] @ ''('' @ [CHR 0x09] @ ''R'' @ [CHR 0x0C] @ ''deviceSerial'' @ [CHR 0x12, CHR 0x12, CHR 0x0A, CHR 0x04] @ ''name'' @ [CHR 0x18, CHR 0x02] @ '' '' @ [CHR 0x01] @ ''('' @ [CHR 0x09] @ ''R'' @
     [CHR 0x04] @ ''name'' @ [CHR 0x12, CHR 0x18, CHR 0x0A, CHR 0x07] @ ''visible'' @ [CHR 0x18, CHR 0x03] @ '' '' @ [CHR 0x01] @ ''('' @ [CHR 0x08] @ ''R'' @ [CHR 0x07] @ ''visible'' @ [CHR 0x12] @ ''2'' @ [CHR 0x0A, CHR 0x08] @ ''position'' @ [CHR 0x18, CHR 0x04] @ '' '' @ [CHR 0x01] @ ''('' @ [CHR 0x0B] @ ''2'' @ [CHR 0x16] @ ''.netsim.m'' @
     ''odel.PositionR'' @ [CHR 0x08] @ ''position'' @ [CHR 0x12] @ '';'' @ [CHR 0x0A, CHR 0x0B] @ ''orientation'' @ [CHR 0x18, CHR 0x05] @ '' '' @ [CHR 0x01] @ ''('' @ [CHR 0x0B] @ ''2'' @ [CHR 0x19] @ ''.netsim.model.'' @
     ''OrientationR'' @ [CHR 0x0B] @ ''orientation'' @ [CHR 0x12] @ ''('' @ [CHR 0x0A, CHR 0x05] @ ''chips'' @ [CHR 0x18, CHR 0x06] @ '' '' @ [CHR 0x03] @ ''('' @ [CHR 0x0B] @ ''2'' @ [CHR 0x12] @ ''.netsim.model.ChipR'' @
     [CHR 0x05] @ ''chips''"

definition model_part7 :: string where
  "model_part7 =
     [CHR 0x0A, CHR 0x05] @ ''Scene'' @ [CHR 0x12] @ ''.'' @ [CHR 0x0A, CHR 0x07] @ ''devices'' @ [CHR 0x18, CHR 0x01] @ '' '' @ [CHR 0x03] @ ''('' @ [CHR 0x0B] @ ''2'' @ [CHR 0x14] @ ''.netsim.model.DeviceR'' @ [CHR 0x07] @ ''devices''"

definition model_part8 :: string where
  "model_part8 =
     [CHR 0x0A, CHR 0x07] @ ''PhyKind'' @ [CHR 0x12, CHR 0x08, CHR 0x0A, CHR 0x04] @ ''NONE'' @ [CHR 0x10, CHR 0x00, CHR 0x12, CHR 0x15, CHR 0x0A, CHR 0x11] @ ''BLUETOOTH_CLASSIC'' @ [CHR 0x10, CHR 0x01, CHR 0x12, CHR 0x18, CHR 0x0A, CHR 0x14] @ ''BLUETOOTH_LOW_'' @
     ''ENERGY'' @ [CHR 0x10, CHR 0x02, CHR 0x12, CHR 0x08, CHR 0x0A, CHR 0x04] @ ''WIFI'' @ [CHR 0x10, CHR 0x03, CHR 0x12, CHR 0x07, CHR 0x0A, CHR 0x03] @ ''UWB'' @ [CHR 0x10, CHR 0x04, CHR 0x12, CHR 0x0C, CHR 0x0A, CHR 0x08] @ ''WIFI_RTT'' @ [CHR 0x10, CHR 0x05]"

definition model_part9 :: string where
  "model_part9 =
     [CHR 0x0A, CHR 0x05] @ ''State'' @ [CHR 0x12, CHR 0x0B, CHR 0x0A, CHR 0x07] @ ''UNKNOWN'' @ [CHR 0x10, CHR 0x00, CHR 0x12, CHR 0x06, CHR 0x0A, CHR 0x02] @ ''ON'' @ [CHR 0x10, CHR 0x01, CHR 0x12, CHR 0x07, CHR 0x0A, CHR 0x03] @ ''OFF'' @ [CHR 0x10, CHR 0x02]"

definition model_part10 :: string where
  "model_part10 =
     ''proto3''"

lemma model_parts:
  "of_bytes model_file_descriptor_proto_data =
     [CHR 0x0A, CHR 0x0B] @ model_part1 @
     [CHR 0x12, CHR 0x0C] @ model_part2 @
     [CHR 0x22] @ ''4'' @ model_part3 @
     [CHR 0x22] @ ''I'' @ model_part4 @
     [CHR 0x22, CHR 0x98, CHR 0x04] @ model_part5 @
     [CHR 0x22, CHR 0xF6, CHR 0x01] @ model_part6 @
     [CHR 0x22] @ ''7'' @ model_part7 @
     ''*e'' @ model_part8 @
     ''*%'' @ model_part9 @
     ''b'' @ [CHR 0x06] @ model_part10"
  unfolding model_file_descriptor_proto_data_def of_bytes_as_bytes
    model_part1_def model_part2_def model_part3_def model_part4_def model_part5_def model_part6_def model_part7_def model_part8_def model_part9_def model_part10_def
  by (simp only: append.simps append_assoc)

lemma model_raw:
  "raw_field (CHR 0x0A # CHR 0x0B # model_part1 @ r) = Some ((1, Block model_part1), r)"
  "raw_field (CHR 0x12 # CHR 0x0C # model_part2 @ r) = Some ((2, Block model_part2), r)"
  "raw_field (CHR 0x22 # CHR 0x34 # model_part3 @ r) = Some ((4, Block model_part3), r)"
  "raw_field (CHR 0x22 # CHR 0x49 # model_part4 @ r) = Some ((4, Block model_part4), r)"
  "raw_field (CHR 0x22 # CHR 0x98 # CHR 0x04 # model_part5 @ r) = Some ((4, Block model_part5), r)"
  "raw_field (CHR 0x22 # CHR 0xF6 # CHR 0x01 # model_part6 @ r) = Some ((4, Block model_part6), r)"
  "raw_field (CHR 0x22 # CHR 0x37 # model_part7 @ r) = Some ((4, Block model_part7), r)"
  "raw_field (CHR 0x2A # CHR 0x65 # model_part8 @ r) = Some ((5, Block model_part8), r)"
  "raw_field (CHR 0x2A # CHR 0x25 # model_part9 @ r) = Some ((5, Block model_part9), r)"
  "raw_field (CHR 0x62 # CHR 0x06 # model_part10 @ r) = Some ((12, Block model_part10), r)"
  unfolding model_part1_def model_part2_def model_part3_def model_part4_def model_part5_def model_part6_def model_part7_def model_part8_def model_part9_def model_part10_def by code_simp+

lemma model_raw_fields:
  "raw_fields (of_bytes model_file_descriptor_proto_data) =
     Some [(1, Block model_part1), (2, Block model_part2), (4, Block model_part3), (4, Block model_part4), (4, Block model_part5), (4, Block model_part6), (4, Block model_part7), (5, Block model_part8), (5, Block model_part9), (12, Block model_part10)]"
  unfolding model_parts
  by (simp add: model_raw [THEN raw_fields_step] model_raw [where r = "[]", simplified, THEN raw_fields_step])

lemma model_part2_package: "model_part2 = ''netsim.model''"
  by (simp add: model_part2_def)

lemma model_part3_message: "messages_of 2 [] model_part3 = Some ([model_Position_schema], [])"
  unfolding model_part3_def model_Position_schema_def by code_simp

lemma model_part4_message: "messages_of 2 [] model_part4 = Some ([model_Orientation_schema], [])"
  unfolding model_part4_def model_Orientation_schema_def by code_simp

lemma model_part5_message: "messages_of 2 [] model_part5 = Some ([model_Chip_schema, model_Chip_Radio_schema, model_Chip_Bluetooth_schema], [])"
  unfolding model_part5_def model_Chip_schema_def model_Chip_Radio_schema_def model_Chip_Bluetooth_schema_def by code_simp

lemma model_part6_message: "messages_of 2 [] model_part6 = Some ([model_Device_schema], [])"
  unfolding model_part6_def model_Device_schema_def by code_simp

lemma model_part7_message: "messages_of 2 [] model_part7 = Some ([model_Scene_schema], [])"
  unfolding model_part7_def model_Scene_schema_def by code_simp

lemma model_part8_enum: "enum_of [] model_part8 = Some model_PhyKind_enum"
  unfolding model_part8_def model_PhyKind_enum_def by code_simp

lemma model_part9_enum: "enum_of [] model_part9 = Some model_State_enum"
  unfolding model_part9_def model_State_enum_def by code_simp

lemma model_decoded: "decode_file (of_bytes model_file_descriptor_proto_data) = Some model_schema"
  by (simp add: decode_file_def model_raw_fields model_schema_def model_part2_package model_part3_message model_part4_message model_part5_message model_part6_message model_part7_message model_part8_enum model_part9_enum)

definition frontend_file_descriptor_proto_data :: bytes where
  "frontend_file_descriptor_proto_data = as_bytes (
     [CHR 0x0A, CHR 0x0E] @ ''frontend.proto'' @ [CHR 0x12, CHR 0x0F] @ ''netsim.frontend'' @ [CHR 0x1A, CHR 0x1B] @ ''google/protobuf/empty'' @
     ''.proto'' @ [CHR 0x1A, CHR 0x0B] @ ''model.proto'' @ [CHR 0x22] @ ''+'' @ [CHR 0x0A, CHR 0x0F] @ ''VersionResponse'' @ [CHR 0x12, CHR 0x18, CHR 0x0A, CHR 0x07] @ ''version'' @
     [CHR 0x18, CHR 0x01] @ '' '' @ [CHR 0x01] @ ''('' @ [CHR 0x09] @ ''R'' @ [CHR 0x07] @ ''version'' @ [CHR 0x22, CHR 0xA6, CHR 0x01, CHR 0x0A, CHR 0x12] @ ''SetLinkLossRequest'' @ [CHR 0x12] @ ''#'' @ [CHR 0x0A] @
     [CHR 0x0D] @ ''device_serial'' @ [CHR 0x18, CHR 0x01] @ '' '' @ [CHR 0x01] @ ''('' @ [CHR 0x09] @ ''R'' @ [CHR 0x0C] @ ''deviceSerial'' @ [CHR 0x12] @ ''!'' @ [CHR 0x0A, CHR 0x0C] @ ''other_devi'' @
     ''ce'' @ [CHR 0x18, CHR 0x02] @ '' '' @ [CHR 0x01] @ ''('' @ [CHR 0x09] @ ''R'' @ [CHR 0x0B] @ ''otherDevice'' @ [CHR 0x12] @ ''+'' @ [CHR 0x0A, CHR 0x05] @ ''radio'' @ [CHR 0x18, CHR 0x03] @ '' '' @ [CHR 0x01] @ ''('' @
     [CHR 0x0E] @ ''2'' @ [CHR 0x15] @ ''.netsim.model.PhyKindR'' @ [CHR 0x05] @ ''radio'' @ [CHR 0x12, CHR 0x1B, CHR 0x0A, CHR 0x09] @ ''link_loss'' @ [CHR 0x18, CHR 0x04] @
     '' '' @ [CHR 0x01] @ ''('' @ [CHR 0x02] @ ''R'' @ [CHR 0x08] @ ''linkLoss'' @ [CHR 0x22] @ ''C'' @ [CHR 0x0A, CHR 0x13] @ ''UpdateDeviceRequest'' @ [CHR 0x12] @ '','' @ [CHR 0x0A, CHR 0x06] @ ''device'' @
     [CHR 0x18, CHR 0x02] @ '' '' @ [CHR 0x01] @ ''('' @ [CHR 0x0B] @ ''2'' @ [CHR 0x14] @ ''.netsim.model.DeviceR'' @ [CHR 0x06] @ ''device'' @ [CHR 0x22] @ ''9'' @ [CHR 0x0A, CHR 0x07] @ ''Update'' @
     ''s'' @ [CHR 0x12] @ ''.'' @ [CHR 0x0A, CHR 0x07] @ ''devices'' @ [CHR 0x18, CHR 0x01] @ '' '' @ [CHR 0x03] @ ''('' @ [CHR 0x0B] @ ''2'' @ [CHR 0x14] @ ''.netsim.model.DeviceR'' @ [CHR 0x07] @ ''de'' @
     ''vices'' @ [CHR 0x22] @ ''D'' @ [CHR 0x0A, CHR 0x12] @ ''GetDevicesResponse'' @ [CHR 0x12] @ ''.'' @ [CHR 0x0A, CHR 0x07] @ ''devices'' @ [CHR 0x18, CHR 0x01] @ '' '' @ [CHR 0x03] @ ''('' @ [CHR 0x0B] @ ''2'' @
     [CHR 0x14] @ ''.netsim.model.DeviceR'' @ [CHR 0x07] @ ''devices'' @ [CHR 0x22] @ ''&'' @ [CHR 0x0A, CHR 0x0C] @ ''NetCatStream'' @ [CHR 0x12, CHR 0x16, CHR 0x0A, CHR 0x06] @ ''r'' @
     ''esult'' @ [CHR 0x18, CHR 0x01] @ '' '' @ [CHR 0x03] @ ''('' @ [CHR 0x09] @ ''R'' @ [CHR 0x06] @ ''result'' @ [CHR 0x22] @ ''X'' @ [CHR 0x0A, CHR 0x17] @ ''SetPacketCaptureRequest'' @ [CHR 0x12] @
     [CHR 0x18, CHR 0x0A, CHR 0x07] @ ''capture'' @ [CHR 0x18, CHR 0x01] @ '' '' @ [CHR 0x01] @ ''('' @ [CHR 0x08] @ ''R'' @ [CHR 0x07] @ ''capture'' @ [CHR 0x12] @ ''#'' @ [CHR 0x0A, CHR 0x0D] @ ''device_serial'' @
     [CHR 0x18, CHR 0x02] @ '' '' @ [CHR 0x01] @ ''('' @ [CHR 0x09] @ ''R'' @ [CHR 0x0C] @ ''deviceSerial2'' @ [CHR 0xD7, CHR 0x04, CHR 0x0A, CHR 0x0F] @ ''FrontendService'' @ [CHR 0x12] @ ''F'' @
     [CHR 0x0A, CHR 0x0A] @ ''GetVersion'' @ [CHR 0x12, CHR 0x16] @ ''.google.protobuf.Empty'' @ [CHR 0x1A] @ '' .netsim.frontend.Ver'' @
     ''sionResponse'' @ [CHR 0x12] @ ''E'' @ [CHR 0x0A, CHR 0x0F] @ ''RegisterUpdates'' @ [CHR 0x12, CHR 0x16] @ ''.google.protobuf.Empty'' @ [CHR 0x1A] @
     [CHR 0x18] @ ''.netsim.frontend.Updates0'' @ [CHR 0x01, CHR 0x12] @ ''I'' @ [CHR 0x0A, CHR 0x0A] @ ''GetDevices'' @ [CHR 0x12, CHR 0x16] @ ''.google.prot'' @
     ''obuf.Empty'' @ [CHR 0x1A] @ ''#.netsim.frontend.GetDevicesResponse'' @ [CHR 0x12] @ ''L'' @ [CHR 0x0A, CHR 0x0C] @ ''UpdateDevic'' @
     ''e'' @ [CHR 0x12] @ ''$.netsim.frontend.UpdateDeviceRequest'' @ [CHR 0x1A, CHR 0x16] @ ''.google.protobuf.Empty'' @
     [CHR 0x12] @ ''T'' @ [CHR 0x0A, CHR 0x10] @ ''SetPacketCapture'' @ [CHR 0x12] @ ''(.netsim.frontend.SetPacketCaptureRequest'' @
     [CHR 0x1A, CHR 0x16] @ ''.google.protobuf.Empty'' @ [CHR 0x12] @ ''7'' @ [CHR 0x0A, CHR 0x05] @ ''Reset'' @ [CHR 0x12, CHR 0x16] @ ''.google.protobuf.E'' @
     ''mpty'' @ [CHR 0x1A, CHR 0x16] @ ''.google.protobuf.Empty'' @ [CHR 0x12] @ ''J'' @ [CHR 0x0A, CHR 0x0B] @ ''SetLinkLoss'' @ [CHR 0x12] @ ''#.netsim.fro'' @
     ''ntend.SetLinkLossRequest'' @ [CHR 0x1A, CHR 0x16] @ ''.google.protobuf.Empty'' @ [CHR 0x12] @ ''A'' @ [CHR 0x0A, CHR 0x06] @ ''NetCat'' @
     [CHR 0x12, CHR 0x16] @ ''.google.protobuf.Empty'' @ [CHR 0x1A, CHR 0x1D] @ ''.netsim.frontend.NetCatStream0'' @ [CHR 0x01] @
     ''b'' @ [CHR 0x06] @ ''proto3'')"

definition frontend_VersionResponse_schema :: message_schema where
  "frontend_VersionResponse_schema = \<lparr>ms_name = ''VersionResponse'', ms_fields =
     [\<lparr>fs_name = ''version'', fs_number = 1, fs_repeated = False, fs_type = TString, fs_oneof = None\<rparr>]\<rparr>"

definition frontend_SetLinkLossRequest_schema :: message_schema where
  "frontend_SetLinkLossRequest_schema = \<lparr>ms_name = ''SetLinkLossRequest'', ms_fields =
     [\<lparr>fs_name = ''device_serial'', fs_number = 1, fs_repeated = False, fs_type = TString, fs_oneof = None\<rparr>,
      \<lparr>fs_name = ''other_device'', fs_number = 2, fs_repeated = False, fs_type = TString, fs_oneof = None\<rparr>,
      \<lparr>fs_name = ''radio'', fs_number = 3, fs_repeated = False, fs_type = TEnum ''.netsim.model.PhyKind'', fs_oneof = None\<rparr>,
      \<lparr>fs_name = ''link_loss'', fs_number = 4, fs_repeated = False, fs_type = TFloat, fs_oneof = None\<rparr>]\<rparr>"

definition frontend_UpdateDeviceRequest_schema :: message_schema where
  "frontend_UpdateDeviceRequest_schema = \<lparr>ms_name = ''UpdateDeviceRequest'', ms_fields =
     [\<lparr>fs_name = ''device'', fs_number = 2, fs_repeated = False, fs_type = TMessage ''.netsim.model.Device'', fs_oneof = None\<rparr>]\<rparr>"

definition frontend_Updates_schema :: message_schema where
  "frontend_Updates_schema = \<lparr>ms_name = ''Updates'', ms_fields =
     [\<lparr>fs_name = ''devices'', fs_number = 1, fs_repeated = True, fs_type = TMessage ''.netsim.model.Device'', fs_oneof = None\<rparr>]\<rparr>"

definition frontend_GetDevicesResponse_schema :: message_schema where
  "frontend_GetDevicesResponse_schema = \<lparr>ms_name = ''GetDevicesResponse'', ms_fields =
     [\<lparr>fs_name = ''devices'', fs_number = 1, fs_repeated = True, fs_type = TMessage ''.netsim.model.Device'', fs_oneof = None\<rparr>]\<rparr>"

definition frontend_NetCatStream_schema :: message_schema where
  "frontend_NetCatStream_schema = \<lparr>ms_name = ''NetCatStream'', ms_fields =
     [\<lparr>fs_name = ''result'', fs_number = 1, fs_repeated = True, fs_type = TString, fs_oneof = None\<rparr>]\<rparr>"

definition frontend_SetPacketCaptureRequest_schema :: message_schema where
  "frontend_SetPacketCaptureRequest_schema = \<lparr>ms_name = ''SetPacketCaptureRequest'', ms_fields =
     [\<lparr>fs_name = ''capture'', fs_number = 1, fs_repeated = False, fs_type = TBool, fs_oneof = None\<rparr>,
      \<lparr>fs_name = ''device_serial'', fs_number = 2, fs_repeated = False, fs_type = TString, fs_oneof = None\<rparr>]\<rparr>"

definition frontend_schema :: file_schema where
  "frontend_schema = \<lparr>fd_package = ''netsim.frontend'',
     fd_messages = [frontend_VersionResponse_schema, frontend_SetLinkLossRequest_schema, frontend_UpdateDeviceRequest_schema, frontend_Updates_schema, frontend_GetDevicesResponse_schema, frontend_NetCatStream_schema, frontend_SetPacketCaptureRequest_schema],
     fd_enums = []\<rparr>"

text \<open>The blocks of \<^verbatim>\<open>frontend.proto\<close>.\<close>

definition frontend_part1 :: string where
  "frontend_part1 =
     ''frontend.proto''"

definition frontend_part2 :: string where
  "frontend_part2 =
     ''netsim.frontend''"

definition frontend_part3 :: string where
  "frontend_part3 =
     ''google/protobuf/empty.proto''"

definition frontend_part4 :: string where
  "frontend_part4 =
     ''model.proto''"

definition frontend_part5 :: string where
  "frontend_part5 =
     [CHR 0x0A, CHR 0x0F] @ ''VersionResponse'' @ [CHR 0x12, CHR 0x18, CHR 0x0A, CHR 0x07] @ ''version'' @ [CHR 0x18, CHR 0x01] @ '' '' @ [CHR 0x01] @ ''('' @ [CHR 0x09] @ ''R'' @ [CHR 0x07] @ ''version''"

definition frontend_part6 :: string where
  "frontend_part6 =
     [CHR 0x0A, CHR 0x12] @ ''SetLinkLossRequest'' @ [CHR 0x12] @ ''#'' @ [CHR 0x0A, CHR 0x0D] @ ''device_serial'' @ [CHR 0x18, CHR 0x01] @ '' '' @ [CHR 0x01] @ ''('' @ [CHR 0x09] @ ''R'' @ [CHR 0x0C] @ ''deviceSerial'' @ [CHR 0x12] @ ''!'' @ [CHR 0x0A] @
     [CHR 0x0C] @ ''other_device'' @ [CHR 0x18, CHR 0x02] @ '' '' @ [CHR 0x01] @ ''('' @ [CHR 0x09] @ ''R'' @ [CHR 0x0B] @ ''otherDevice'' @ [CHR 0x12] @ ''+'' @ [CHR 0x0A, CHR 0x05] @ ''radio'' @ [CHR 0x18, CHR 0x03] @ '' '' @ [CHR 0x01] @ ''('' @ [CHR 0x0E] @ ''2'' @ [CHR 0x15] @ ''.netsim.mod'' @
     ''el.PhyKindR'' @ [CHR 0x05] @ ''radio'' @ [CHR 0x12, CHR 0x1B, CHR 0x0A, CHR 0x09] @ ''link_loss'' @ [CHR 0x18, CHR 0x04] @ '' '' @ [CHR 0x01] @ ''('' @ [CHR 0x02] @ ''R'' @ [CHR 0x08] @ ''linkLoss''"

definition frontend_part7 :: string where
  "frontend_part7 =
     [CHR 0x0A, CHR 0x13] @ ''UpdateDeviceRequest'' @ [CHR 0x12] @ '','' @ [CHR 0x0A, CHR 0x06] @ ''device'' @ [CHR 0x18, CHR 0x02] @ '' '' @ [CHR 0x01] @ ''('' @ [CHR 0x0B] @ ''2'' @ [CHR 0x14] @ ''.netsim.model.DeviceR'' @
     [CHR 0x06] @ ''device''"

definition frontend_part8 :: string where
  "frontend_part8 =
     [CHR 0x0A, CHR 0x07] @ ''Updates'' @ [CHR 0x12] @ ''.'' @ [CHR 0x0A, CHR 0x07] @ ''devices'' @ [CHR 0x18, CHR 0x01] @ '' '' @ [CHR 0x03] @ ''('' @ [CHR 0x0B] @ ''2'' @ [CHR 0x14] @ ''.netsim.model.DeviceR'' @ [CHR 0x07] @ ''devices''"

definition frontend_part9 :: string where
  "frontend_part9 =
     [CHR 0x0A, CHR 0x12] @ ''GetDevicesResponse'' @ [CHR 0x12] @ ''.'' @ [CHR 0x0A, CHR 0x07] @ ''devices'' @ [CHR 0x18, CHR 0x01] @ '' '' @ [CHR 0x03] @ ''('' @ [CHR 0x0B] @ ''2'' @ [CHR 0x14] @ ''.netsim.model.DeviceR'' @
     [CHR 0x07] @ ''devices''"

definition frontend_part10 :: string where
  "frontend_part10 =
     [CHR 0x0A, CHR 0x0C] @ ''NetCatStream'' @ [CHR 0x12, CHR 0x16, CHR 0x0A, CHR 0x06] @ ''result'' @ [CHR 0x18, CHR 0x01] @ '' '' @ [CHR 0x03] @ ''('' @ [CHR 0x09] @ ''R'' @ [CHR 0x06] @ ''result''"

definition frontend_part11 :: string where
  "frontend_part11 =
     [CHR 0x0A, CHR 0x17] @ ''SetPacketCaptureRequest'' @ [CHR 0x12, CHR 0x18, CHR 0x0A, CHR 0x07] @ ''capture'' @ [CHR 0x18, CHR 0x01] @ '' '' @ [CHR 0x01] @ ''('' @ [CHR 0x08] @ ''R'' @ [CHR 0x07] @ ''capture'' @ [CHR 0x12] @ ''#'' @ [CHR 0x0A, CHR 0x0D] @ ''devic'' @
     ''e_serial'' @ [CHR 0x18, CHR 0x02] @ '' '' @ [CHR 0x01] @ ''('' @ [CHR 0x09] @ ''R'' @ [CHR 0x0C] @ ''deviceSerial''"

definition frontend_part12 :: string where
  "frontend_part12 =
     [CHR 0x0A, CHR 0x0F] @ ''FrontendService'' @ [CHR 0x12] @ ''F'' @ [CHR 0x0A, CHR 0x0A] @ ''GetVersion'' @ [CHR 0x12, CHR 0x16] @ ''.google.protobuf.Empty'' @ [CHR 0x1A] @ '' .ne'' @
     ''tsim.frontend.VersionResponse'' @ [CHR 0x12] @ ''E'' @ [CHR 0x0A, CHR 0x0F] @ ''RegisterUpdates'' @ [CHR 0x12, CHR 0x16] @ ''.google.pr'' @
     ''otobuf.Empty'' @ [CHR 0x1A, CHR 0x18] @ ''.netsim.frontend.Updates0'' @ [CHR 0x01, CHR 0x12] @ ''I'' @ [CHR 0x0A, CHR 0x0A] @ ''GetDevices'' @ [CHR 0x12, CHR 0x16] @ ''.goo'' @
     ''gle.protobuf.Empty'' @ [CHR 0x1A] @ ''#.netsim.frontend.GetDevicesResponse'' @ [CHR 0x12] @ ''L'' @ [CHR 0x0A, CHR 0x0C] @ ''U'' @
     ''pdateDevice'' @ [CHR 0x12] @ ''$.netsim.frontend.UpdateDeviceRequest'' @ [CHR 0x1A, CHR 0x16] @ ''.google.p'' @
     ''rotobuf.Empty'' @ [CHR 0x12] @ ''T'' @ [CHR 0x0A, CHR 0x10] @ ''SetPacketCapture'' @ [CHR 0x12] @ ''(.netsim.frontend.SetPacke'' @
     ''tCaptureRequest'' @ [CHR 0x1A, CHR 0x16] @ ''.google.protobuf.Empty'' @ [CHR 0x12] @ ''7'' @ [CHR 0x0A, CHR 0x05] @ ''Reset'' @ [CHR 0x12, CHR 0x16] @ ''.google.pr'' @
     ''otobuf.Empty'' @ [CHR 0x1A, CHR 0x16] @ ''.google.protobuf.Empty'' @ [CHR 0x12] @ ''J'' @ [CHR 0x0A, CHR 0x0B] @ ''SetLinkLoss'' @ [CHR 0x12] @ ''#.netsim'' @
     ''.frontend.SetLinkLossRequest'' @ [CHR 0x1A, CHR 0x16] @ ''.google.protobuf.Empty'' @ [CHR 0x12] @ ''A'' @ [CHR 0x0A, CHR 0x06] @ ''NetC'' @
     ''at'' @ [CHR 0x12, CHR 0x16] @ ''.google.protobuf.Empty'' @ [CHR 0x1A, CHR 0x1D] @ ''.netsim.frontend.NetCatStream0'' @ [CHR 0x01]"

definition frontend_part13 :: string where
  "frontend_part13 =
     ''proto3''"

lemma frontend_parts:
  "of_bytes frontend_file_descriptor_proto_data =
     [CHR 0x0A, CHR 0x0E] @ frontend_part1 @
     [CHR 0x12, CHR 0x0F] @ frontend_part2 @
     [CHR 0x1A, CHR 0x1B] @ frontend_part3 @
     [CHR 0x1A, CHR 0x0B] @ frontend_part4 @
     [CHR 0x22] @ ''+'' @ frontend_part5 @
     [CHR 0x22, CHR 0xA6, CHR 0x01] @ frontend_part6 @
     [CHR 0x22] @ ''C'' @ frontend_part7 @
     [CHR 0x22] @ ''9'' @ frontend_part8 @
     [CHR 0x22] @ ''D'' @ frontend_part9 @
     [CHR 0x22] @ ''&'' @ frontend_part10 @
     [CHR 0x22] @ ''X'' @ frontend_part11 @
     ''2'' @ [CHR 0xD7, CHR 0x04] @ frontend_part12 @
     ''b'' @ [CHR 0x06] @ frontend_part13"
  unfolding frontend_file_descriptor_proto_data_def of_bytes_as_bytes
    frontend_part1_def frontend_part2_def frontend_part3_def frontend_part4_def frontend_part5_def frontend_part6_def frontend_part7_def frontend_part8_def frontend_part9_def frontend_part10_def frontend_part11_def frontend_part12_def frontend_part13_def
  by (simp only: append.simps append_assoc)

lemma frontend_raw:
  "raw_field (CHR 0x0A # CHR 0x0E # frontend_part1 @ r) = Some ((1, Block frontend_part1), r)"
  "raw_field (CHR 0x12 # CHR 0x0F # frontend_part2 @ r) = Some ((2, Block frontend_part2), r)"
  "raw_field (CHR 0x1A # CHR 0x1B # frontend_part3 @ r) = Some ((3, Block frontend_part3), r)"
  "raw_field (CHR 0x1A # CHR 0x0B # frontend_part4 @ r) = Some ((3, Block frontend_part4), r)"
  "raw_field (CHR 0x22 # CHR 0x2B # frontend_part5 @ r) = Some ((4, Block frontend_part5), r)"
  "raw_field (CHR 0x22 # CHR 0xA6 # CHR 0x01 # frontend_part6 @ r) = Some ((4, Block frontend_part6), r)"
  "raw_field (CHR 0x22 # CHR 0x43 # frontend_part7 @ r) = Some ((4, Block frontend_part7), r)"
  "raw_field (CHR 0x22 # CHR 0x39 # frontend_part8 @ r) = Some ((4, Block frontend_part8), r)"
  "raw_field (CHR 0x22 # CHR 0x44 # frontend_part9 @ r) = Some ((4, Block frontend_part9), r)"
  "raw_field (CHR 0x22 # CHR 0x26 # frontend_part10 @ r) = Some ((4, Block frontend_part10), r)"
  "raw_field (CHR 0x22 # CHR 0x58 # frontend_part11 @ r) = Some ((4, Block frontend_part11), r)"
  "raw_field (CHR 0x32 # CHR 0xD7 # CHR 0x04 # frontend_part12 @ r) = Some ((6, Block frontend_part12), r)"
  "raw_field (CHR 0x62 # CHR 0x06 # frontend_part13 @ r) = Some ((12, Block frontend_part13), r)"
  unfolding frontend_part1_def frontend_part2_def frontend_part3_def frontend_part4_def frontend_part5_def frontend_part6_def frontend_part7_def frontend_part8_def frontend_part9_def frontend_part10_def frontend_part11_def frontend_part12_def frontend_part13_def by code_simp+

lemma frontend_raw_fields:
  "raw_fields (of_bytes frontend_file_descriptor_proto_data) =
     Some [(1, Block frontend_part1), (2, Block frontend_part2), (3, Block frontend_part3), (3, Block frontend_part4), (4, Block frontend_part5), (4, Block frontend_part6), (4, Block frontend_part7), (4, Block frontend_part8), (4, Block frontend_part9), (4, Block frontend_part10), (4, Block frontend_part11), (6, Block frontend_part12), (12, Block frontend_part13)]"
  unfolding frontend_parts
  by (simp add: frontend_raw [THEN raw_fields_step] frontend_raw [where r = "[]", simplified, THEN raw_fields_step])

lemma frontend_part2_package: "frontend_part2 = ''netsim.frontend''"
  by (simp add: frontend_part2_def)

lemma frontend_part5_message: "messages_of 2 [] frontend_part5 = Some ([frontend_VersionResponse_schema], [])"
  unfolding frontend_part5_def frontend_VersionResponse_schema_def by code_simp

lemma frontend_part6_message: "messages_of 2 [] frontend_part6 = Some ([frontend_SetLinkLossRequest_schema], [])"
  unfolding frontend_part6_def frontend_SetLinkLossRequest_schema_def by code_simp

lemma frontend_part7_message: "messages_of 2 [] frontend_part7 = Some ([frontend_UpdateDeviceRequest_schema], [])"
  unfolding frontend_part7_def frontend_UpdateDeviceRequest_schema_def by code_simp

lemma frontend_part8_message: "messages_of 2 [] frontend_part8 = Some ([frontend_Updates_schema], [])"
  unfolding frontend_part8_def frontend_Updates_schema_def by code_simp

lemma frontend_part9_message: "messages_of 2 [] frontend_part9 = Some ([frontend_GetDevicesResponse_schema], [])"
  unfolding frontend_part9_def frontend_GetDevicesResponse_schema_def by code_simp

lemma frontend_part10_message: "messages_of 2 [] frontend_part10 = Some ([frontend_NetCatStream_schema], [])"
  unfolding frontend_part10_def frontend_NetCatStream_schema_def by code_simp

lemma frontend_part11_message: "messages_of 2 [] frontend_part11 = Some ([frontend_SetPacketCaptureRequest_schema], [])"
  unfolding frontend_part11_def frontend_SetPacketCaptureRequest_schema_def by code_simp

lemma frontend_decoded: "decode_file (of_bytes frontend_file_descriptor_proto_data) = Some frontend_schema"
  by (simp add: decode_file_def frontend_raw_fields frontend_schema_def frontend_part2_package frontend_part5_message frontend_part6_message frontend_part7_message frontend_part8_message frontend_part9_message frontend_part10_message frontend_part11_message)

definition startup_file_descriptor_proto_data :: bytes where
  "startup_file_descriptor_proto_data = as_bytes (
     [CHR 0x0A, CHR 0x0D] @ ''startup.proto'' @ [CHR 0x12, CHR 0x0E] @ ''netsim.startup'' @ [CHR 0x22, CHR 0x99, CHR 0x01, CHR 0x0A, CHR 0x0B] @ ''StartupInfo'' @ [CHR 0x12] @ ''<'' @
     [CHR 0x0A, CHR 0x07] @ ''devices'' @ [CHR 0x18, CHR 0x01] @ '' '' @ [CHR 0x03] @ ''('' @ [CHR 0x0B] @ ''2'' @ [CHR 0x22] @ ''.netsim.startup.StartupInfo.DeviceR'' @
     [CHR 0x07] @ ''devices'' @ [CHR 0x1A] @ ''L'' @ [CHR 0x0A, CHR 0x06] @ ''Device'' @ [CHR 0x12, CHR 0x16, CHR 0x0A, CHR 0x06] @ ''serial'' @ [CHR 0x18, CHR 0x01] @ '' '' @ [CHR 0x01] @ ''('' @ [CHR 0x09] @ ''R'' @ [CHR 0x06] @
     ''serial'' @ [CHR 0x12] @ ''*'' @ [CHR 0x0A, CHR 0x05] @ ''chips'' @ [CHR 0x18, CHR 0x02] @ '' '' @ [CHR 0x03] @ ''('' @ [CHR 0x0B] @ ''2'' @ [CHR 0x14] @ ''.netsim.startup.ChipR'' @
     [CHR 0x05] @ ''chips'' @ [CHR 0x22] @ ''L'' @ [CHR 0x0A, CHR 0x08] @ ''ChipInfo'' @ [CHR 0x12, CHR 0x16, CHR 0x0A, CHR 0x06] @ ''serial'' @ [CHR 0x18, CHR 0x01] @ '' '' @ [CHR 0x01] @ ''('' @ [CHR 0x09] @ ''R'' @ [CHR 0x06] @ ''se'' @
     ''rial'' @ [CHR 0x12] @ ''('' @ [CHR 0x0A, CHR 0x04] @ ''chip'' @ [CHR 0x18, CHR 0x02] @ '' '' @ [CHR 0x01] @ ''('' @ [CHR 0x0B] @ ''2'' @ [CHR 0x14] @ ''.netsim.startup.ChipR'' @ [CHR 0x04] @ ''ch'' @
     ''ip'' @ [CHR 0x22, CHR 0x8A, CHR 0x02, CHR 0x0A, CHR 0x04] @ ''Chip'' @ [CHR 0x12] @ ''1'' @ [CHR 0x0A, CHR 0x04] @ ''kind'' @ [CHR 0x18, CHR 0x01] @ '' '' @ [CHR 0x01] @ ''('' @ [CHR 0x0E] @ ''2'' @ [CHR 0x1D] @ ''.netsim.s'' @
     ''tartup.Chip.ChipKindR'' @ [CHR 0x04] @ ''kind'' @ [CHR 0x12, CHR 0x0E, CHR 0x0A, CHR 0x02] @ ''id'' @ [CHR 0x18, CHR 0x02] @ '' '' @ [CHR 0x01] @ ''('' @ [CHR 0x09] @ ''R'' @ [CHR 0x02] @ ''id'' @
     [CHR 0x12, CHR 0x22, CHR 0x0A, CHR 0x0C] @ ''manufacturer'' @ [CHR 0x18, CHR 0x03] @ '' '' @ [CHR 0x01] @ ''('' @ [CHR 0x09] @ ''R'' @ [CHR 0x0C] @ ''manufacturer'' @ [CHR 0x12, CHR 0x14, CHR 0x0A] @
     [CHR 0x05] @ ''model'' @ [CHR 0x18, CHR 0x04] @ '' '' @ [CHR 0x01] @ ''('' @ [CHR 0x09] @ ''R'' @ [CHR 0x05] @ ''model'' @ [CHR 0x12, CHR 0x13, CHR 0x0A, CHR 0x05] @ ''fd_in'' @ [CHR 0x18, CHR 0x05] @ '' '' @
     [CHR 0x01] @ ''('' @ [CHR 0x05] @ ''R'' @ [CHR 0x04] @ ''fdIn'' @ [CHR 0x12, CHR 0x15, CHR 0x0A, CHR 0x06] @ ''fd_out'' @ [CHR 0x18, CHR 0x06] @ '' '' @ [CHR 0x01] @ ''('' @ [CHR 0x05] @ ''R'' @ [CHR 0x05] @ ''fdOut'' @
     [CHR 0x12, CHR 0x1A, CHR 0x0A, CHR 0x08] @ ''loopback'' @ [CHR 0x18, CHR 0x07] @ '' '' @ [CHR 0x01] @ ''('' @ [CHR 0x08] @ ''R'' @ [CHR 0x08] @ ''loopback'' @ [CHR 0x22] @ ''='' @ [CHR 0x0A, CHR 0x08] @ ''ChipKin'' @
     ''d'' @ [CHR 0x12, CHR 0x0F, CHR 0x0A, CHR 0x0B] @ ''UNSPECIFIED'' @ [CHR 0x10, CHR 0x00, CHR 0x12, CHR 0x0D, CHR 0x0A, CHR 0x09] @ ''BLUETOOTH'' @ [CHR 0x10, CHR 0x01, CHR 0x12, CHR 0x08, CHR 0x0A] @
     [CHR 0x04] @ ''WIFI'' @ [CHR 0x10, CHR 0x02, CHR 0x12, CHR 0x07, CHR 0x0A, CHR 0x03] @ ''UWB'' @ [CHR 0x10, CHR 0x03] @ ''b'' @ [CHR 0x06] @ ''proto3'')"

definition startup_StartupInfo_schema :: message_schema where
  "startup_StartupInfo_schema = \<lparr>ms_name = ''StartupInfo'', ms_fields =
     [\<lparr>fs_name = ''devices'', fs_number = 1, fs_repeated = True, fs_type = TMessage ''.netsim.startup.StartupInfo.Device'', fs_oneof = None\<rparr>]\<rparr>"

definition startup_StartupInfo_Device_schema :: message_schema where
  "startup_StartupInfo_Device_schema = \<lparr>ms_name = ''StartupInfo.Device'', ms_fields =
     [\<lparr>fs_name = ''serial'', fs_number = 1, fs_repeated = False, fs_type = TString, fs_oneof = None\<rparr>,
      \<lparr>fs_name = ''chips'', fs_number = 2, fs_repeated = True, fs_type = TMessage ''.netsim.startup.Chip'', fs_oneof = None\<rparr>]\<rparr>"

definition startup_ChipInfo_schema :: message_schema where
  "startup_ChipInfo_schema = \<lparr>ms_name = ''ChipInfo'', ms_fields =
     [\<lparr>fs_name = ''serial'', fs_number = 1, fs_repeated = False, fs_type = TString, fs_oneof = None\<rparr>,
      \<lparr>fs_name = ''chip'', fs_number = 2, fs_repeated = False, fs_type = TMessage ''.netsim.startup.Chip'', fs_oneof = None\<rparr>]\<rparr>"

definition startup_Chip_schema :: message_schema where
  "startup_Chip_schema = \<lparr>ms_name = ''Chip'', ms_fields =
     [\<lparr>fs_name = ''kind'', fs_number = 1, fs_repeated = False, fs_type = TEnum ''.netsim.startup.Chip.ChipKind'', fs_oneof = None\<rparr>,
      \<lparr>fs_name = ''id'', fs_number = 2, fs_repeated = False, fs_type = TString, fs_oneof = None\<rparr>,
      \<lparr>fs_name = ''manufacturer'', fs_number = 3, fs_repeated = False, fs_type = TString, fs_oneof = None\<rparr>,
      \<lparr>fs_name = ''model'', fs_number = 4, fs_repeated = False, fs_type = TString, fs_oneof = None\<rparr>,
      \<lparr>fs_name = ''fd_in'', fs_number = 5, fs_repeated = False, fs_type = TInt32, fs_oneof = None\<rparr>,
      \<lparr>fs_name = ''fd_out'', fs_number = 6, fs_repeated = False, fs_type = TInt32, fs_oneof = None\<rparr>,
      \<lparr>fs_name = ''loopback'', fs_number = 7, fs_repeated = False, fs_type = TBool, fs_oneof = None\<rparr>]\<rparr>"

definition startup_Chip_ChipKind_enum :: enum_schema where
  "startup_Chip_ChipKind_enum = \<lparr>es_name = ''Chip.ChipKind'', es_values =
     [(''UNSPECIFIED'', 0), (''BLUETOOTH'', 1), (''WIFI'', 2), (''UWB'', 3)]\<rparr>"

definition startup_schema :: file_schema where
  "startup_schema = \<lparr>fd_package = ''netsim.startup'',
     fd_messages = [startup_StartupInfo_schema, startup_StartupInfo_Device_schema, startup_ChipInfo_schema, startup_Chip_schema],
     fd_enums = [startup_Chip_ChipKind_enum]\<rparr>"

text \<open>The blocks of \<^verbatim>\<open>startup.proto\<close>.\<close>

definition startup_part1 :: string where
  "startup_part1 =
     ''startup.proto''"

definition startup_part2 :: string where
  "startup_part2 =
     ''netsim.startup''"

definition startup_part3 :: string where
  "startup_part3 =
     [CHR 0x0A, CHR 0x0B] @ ''StartupInfo'' @ [CHR 0x12] @ ''<'' @ [CHR 0x0A, CHR 0x07] @ ''devices'' @ [CHR 0x18, CHR 0x01] @ '' '' @ [CHR 0x03] @ ''('' @ [CHR 0x0B] @ ''2'' @ [CHR 0x22] @ ''.netsim.startup.StartupInfo.'' @
     ''DeviceR'' @ [CHR 0x07] @ ''devices'' @ [CHR 0x1A] @ ''L'' @ [CHR 0x0A, CHR 0x06] @ ''Device'' @ [CHR 0x12, CHR 0x16, CHR 0x0A, CHR 0x06] @ ''serial'' @ [CHR 0x18, CHR 0x01] @ '' '' @ [CHR 0x01] @ ''('' @ [CHR 0x09] @ ''R'' @ [CHR 0x06] @ ''serial'' @ [CHR 0x12] @ ''*'' @ [CHR 0x0A, CHR 0x05] @ ''chips'' @ [CHR 0x18, CHR 0x02] @
     '' '' @ [CHR 0x03] @ ''('' @ [CHR 0x0B] @ ''2'' @ [CHR 0x14] @ ''.netsim.startup.ChipR'' @ [CHR 0x05] @ ''chips''"

definition startup_part4 :: string where
  "startup_part4 =
     [CHR 0x0A, CHR 0x08] @ ''ChipInfo'' @ [CHR 0x12, CHR 0x16, CHR 0x0A, CHR 0x06] @ ''serial'' @ [CHR 0x18, CHR 0x01] @ '' '' @ [CHR 0x01] @ ''('' @ [CHR 0x09] @ ''R'' @ [CHR 0x06] @ ''serial'' @ [CHR 0x12] @ ''('' @ [CHR 0x0A, CHR 0x04] @ ''chip'' @ [CHR 0x18, CHR 0x02] @ '' '' @ [CHR 0x01] @ ''('' @ [CHR 0x0B] @ ''2'' @ [CHR 0x14] @ ''.netsim.st'' @
     ''artup.ChipR'' @ [CHR 0x04] @ ''chip''"

definition startup_part5 :: string where
  "startup_part5 =
     [CHR 0x0A, CHR 0x04] @ ''Chip'' @ [CHR 0x12] @ ''1'' @ [CHR 0x0A, CHR 0x04] @ ''kind'' @ [CHR 0x18, CHR 0x01] @ '' '' @ [CHR 0x01] @ ''('' @ [CHR 0x0E] @ ''2'' @ [CHR 0x1D] @ ''.netsim.startup.Chip.ChipKindR'' @ [CHR 0x04] @ ''kind'' @ [CHR 0x12, CHR 0x0E, CHR 0x0A] @
     [CHR 0x02] @ ''id'' @ [CHR 0x18, CHR 0x02] @ '' '' @ [CHR 0x01] @ ''('' @ [CHR 0x09] @ ''R'' @ [CHR 0x02] @ ''id'' @ [CHR 0x12, CHR 0x22, CHR 0x0A, CHR 0x0C] @ ''manufacturer'' @ [CHR 0x18, CHR 0x03] @ '' '' @ [CHR 0x01] @ ''('' @ [CHR 0x09] @ ''R'' @ [CHR 0x0C] @ ''manufacturer'' @ [CHR 0x12, CHR 0x14, CHR 0x0A, CHR 0x05] @ ''model'' @ [CHR 0x18, CHR 0x04] @
     '' '' @ [CHR 0x01] @ ''('' @ [CHR 0x09] @ ''R'' @ [CHR 0x05] @ ''model'' @ [CHR 0x12, CHR 0x13, CHR 0x0A, CHR 0x05] @ ''fd_in'' @ [CHR 0x18, CHR 0x05] @ '' '' @ [CHR 0x01] @ ''('' @ [CHR 0x05] @ ''R'' @ [CHR 0x04] @ ''fdIn'' @ [CHR 0x12, CHR 0x15, CHR 0x0A, CHR 0x06] @ ''fd_out'' @ [CHR 0x18, CHR 0x06] @ '' '' @ [CHR 0x01] @ ''('' @ [CHR 0x05] @ ''R'' @ [CHR 0x05] @ ''fdOut'' @ [CHR 0x12, CHR 0x1A, CHR 0x0A, CHR 0x08] @ ''l'' @
     ''oopback'' @ [CHR 0x18, CHR 0x07] @ '' '' @ [CHR 0x01] @ ''('' @ [CHR 0x08] @ ''R'' @ [CHR 0x08] @ ''loopback'' @ [CHR 0x22] @ ''='' @ [CHR 0x0A, CHR 0x08] @ ''ChipKind'' @ [CHR 0x12, CHR 0x0F, CHR 0x0A, CHR 0x0B] @ ''UNSPECIFIED'' @ [CHR 0x10, CHR 0x00, CHR 0x12, CHR 0x0D, CHR 0x0A, CHR 0x09] @ ''BLUE'' @
     ''TOOTH'' @ [CHR 0x10, CHR 0x01, CHR 0x12, CHR 0x08, CHR 0x0A, CHR 0x04] @ ''WIFI'' @ [CHR 0x10, CHR 0x02, CHR 0x12, CHR 0x07, CHR 0x0A, CHR 0x03] @ ''UWB'' @ [CHR 0x10, CHR 0x03]"

definition startup_part6 :: string where
  "startup_part6 =
     ''proto3''"

lemma startup_parts:
  "of_bytes startup_file_descriptor_proto_data =
     [CHR 0x0A, CHR 0x0D] @ startup_part1 @
     [CHR 0x12, CHR 0x0E] @ startup_part2 @
     [CHR 0x22, CHR 0x99, CHR 0x01] @ startup_part3 @
     [CHR 0x22] @ ''L'' @ startup_part4 @
     [CHR 0x22, CHR 0x8A, CHR 0x02] @ startup_part5 @
     ''b'' @ [CHR 0x06] @ startup_part6"
  unfolding startup_file_descriptor_proto_data_def of_bytes_as_bytes
    startup_part1_def startup_part2_def startup_part3_def startup_part4_def startup_part5_def startup_part6_def
  by (simp only: append.simps append_assoc)

lemma startup_raw:
  "raw_field (CHR 0x0A # CHR 0x0D # startup_part1 @ r) = Some ((1, Block startup_part1), r)"
  "raw_field (CHR 0x12 # CHR 0x0E # startup_part2 @ r) = Some ((2, Block startup_part2), r)"
  "raw_field (CHR 0x22 # CHR 0x99 # CHR 0x01 # startup_part3 @ r) = Some ((4, Block startup_part3), r)"
  "raw_field (CHR 0x22 # CHR 0x4C # startup_part4 @ r) = Some ((4, Block startup_part4), r)"
  "raw_field (CHR 0x22 # CHR 0x8A # CHR 0x02 # startup_part5 @ r) = Some ((4, Block startup_part5), r)"
  "raw_field (CHR 0x62 # CHR 0x06 # startup_part6 @ r) = Some ((12, Block startup_part6), r)"
  unfolding startup_part1_def startup_part2_def startup_part3_def startup_part4_def startup_part5_def startup_part6_def by code_simp+

lemma startup_raw_fields:
  "raw_fields (of_bytes startup_file_descriptor_proto_data) =
     Some [(1, Block startup_part1), (2, Block startup_part2), (4, Block startup_part3), (4, Block startup_part4), (4, Block startup_part5), (12, Block startup_part6)]"
  unfolding startup_parts
  by (simp add: startup_raw [THEN raw_fields_step] startup_raw [where r = "[]", simplified, THEN raw_fields_step])

lemma startup_part2_package: "startup_part2 = ''netsim.startup''"
  by (simp add: startup_part2_def)

lemma startup_part3_message: "messages_of 2 [] startup_part3 = Some ([startup_StartupInfo_schema, startup_StartupInfo_Device_schema], [])"
  unfolding startup_part3_def startup_StartupInfo_schema_def startup_StartupInfo_Device_schema_def by code_simp

lemma startup_part4_message: "messages_of 2 [] startup_part4 = Some ([startup_ChipInfo_schema], [])"
  unfolding startup_part4_def startup_ChipInfo_schema_def by code_simp

lemma startup_part5_message: "messages_of 2 [] startup_part5 = Some ([startup_Chip_schema], [startup_Chip_ChipKind_enum])"
  unfolding startup_part5_def startup_Chip_schema_def startup_Chip_ChipKind_enum_def by code_simp

lemma startup_decoded: "decode_file (of_bytes startup_file_descriptor_proto_data) = Some startup_schema"
  by (simp add: decode_file_def startup_raw_fields startup_schema_def startup_part2_package startup_part3_message startup_part4_message startup_part5_message)

definition hci_packet_file_descriptor_proto_data :: bytes where
  "hci_packet_file_descriptor_proto_data = as_bytes (
     [CHR 0x0A, CHR 0x10] @ ''hci_packet.proto'' @ [CHR 0x12, CHR 0x0D] @ ''netsim.packet'' @ [CHR 0x22, CHR 0xFB, CHR 0x01, CHR 0x0A, CHR 0x09] @ ''HCIPacket'' @ [CHR 0x12] @ ''7'' @ [CHR 0x0A] @
     [CHR 0x04] @ ''type'' @ [CHR 0x18, CHR 0x01] @ '' '' @ [CHR 0x01] @ ''('' @ [CHR 0x0E] @ ''2#.netsim.packet.HCIPacket.PacketTypeR'' @ [CHR 0x04] @ ''t'' @
     ''ype'' @ [CHR 0x12, CHR 0x16, CHR 0x0A, CHR 0x06] @ ''packet'' @ [CHR 0x18, CHR 0x02] @ '' '' @ [CHR 0x01] @ ''('' @ [CHR 0x0C] @ ''R'' @ [CHR 0x06] @ ''packet'' @ [CHR 0x22, CHR 0x9C, CHR 0x01, CHR 0x0A, CHR 0x0A] @ ''Pac'' @
     ''ketType'' @ [CHR 0x12, CHR 0x1B, CHR 0x0A, CHR 0x17] @ ''PACKET_TYPE_UNSPECIFIED'' @ [CHR 0x10, CHR 0x00, CHR 0x12, CHR 0x1B, CHR 0x0A, CHR 0x17] @ ''PACKET_T'' @
     ''YPE_HCI_COMMAND'' @ [CHR 0x10, CHR 0x01, CHR 0x12, CHR 0x13, CHR 0x0A, CHR 0x0F] @ ''PACKET_TYPE_ACL'' @ [CHR 0x10, CHR 0x02, CHR 0x12, CHR 0x13, CHR 0x0A] @
     [CHR 0x0F] @ ''PACKET_TYPE_SCO'' @ [CHR 0x10, CHR 0x03, CHR 0x12, CHR 0x15, CHR 0x0A, CHR 0x11] @ ''PACKET_TYPE_EVENT'' @ [CHR 0x10, CHR 0x04, CHR 0x12] @
     [CHR 0x13, CHR 0x0A, CHR 0x0F] @ ''PACKET_TYPE_ISO'' @ [CHR 0x10, CHR 0x05] @ ''BJ'' @ [CHR 0x0A, CHR 0x1F] @ ''com.android.emulation.bluetooth'' @
     ''P'' @ [CHR 0x01, CHR 0xF8, CHR 0x01, CHR 0x01, CHR 0xA2, CHR 0x02, CHR 0x03] @ ''AEB'' @ [CHR 0xAA, CHR 0x02, CHR 0x1B] @ ''Android.Emulation.Bluetoothb'' @
     [CHR 0x06] @ ''proto3'')"

definition hci_packet_HCIPacket_schema :: message_schema where
  "hci_packet_HCIPacket_schema = \<lparr>ms_name = ''HCIPacket'', ms_fields =
     [\<lparr>fs_name = ''type'', fs_number = 1, fs_repeated = False, fs_type = TEnum ''.netsim.packet.HCIPacket.PacketType'', fs_oneof = None\<rparr>,
      \<lparr>fs_name = ''packet'', fs_number = 2, fs_repeated = False, fs_type = TBytes, fs_oneof = None\<rparr>]\<rparr>"

definition hci_packet_HCIPacket_PacketType_enum :: enum_schema where
  "hci_packet_HCIPacket_PacketType_enum = \<lparr>es_name = ''HCIPacket.PacketType'', es_values =
     [(''PACKET_TYPE_UNSPECIFIED'', 0), (''PACKET_TYPE_HCI_COMMAND'', 1), (''PACKET_TYPE_ACL'', 2), (''PACKET_TYPE_SCO'', 3), (''PACKET_TYPE_EVENT'', 4), (''PACKET_TYPE_ISO'', 5)]\<rparr>"

definition hci_packet_schema :: file_schema where
  "hci_packet_schema = \<lparr>fd_package = ''netsim.packet'',
     fd_messages = [hci_packet_HCIPacket_schema],
     fd_enums = [hci_packet_HCIPacket_PacketType_enum]\<rparr>"

text \<open>The blocks of \<^verbatim>\<open>hci_packet.proto\<close>.\<close>

definition hci_packet_part1 :: string where
  "hci_packet_part1 =
     ''hci_packet.proto''"

definition hci_packet_part2 :: string where
  "hci_packet_part2 =
     ''netsim.packet''"

definition hci_packet_part3 :: string where
  "hci_packet_part3 =
     [CHR 0x0A, CHR 0x09] @ ''HCIPacket'' @ [CHR 0x12] @ ''7'' @ [CHR 0x0A, CHR 0x04] @ ''type'' @ [CHR 0x18, CHR 0x01] @ '' '' @ [CHR 0x01] @ ''('' @ [CHR 0x0E] @ ''2#.netsim.packet.HCIPacket.PacketTy'' @
     ''peR'' @ [CHR 0x04] @ ''type'' @ [CHR 0x12, CHR 0x16, CHR 0x0A, CHR 0x06] @ ''packet'' @ [CHR 0x18, CHR 0x02] @ '' '' @ [CHR 0x01] @ ''('' @ [CHR 0x0C] @ ''R'' @ [CHR 0x06] @ ''packet'' @ [CHR 0x22, CHR 0x9C, CHR 0x01, CHR 0x0A, CHR 0x0A] @ ''PacketType'' @ [CHR 0x12, CHR 0x1B, CHR 0x0A, CHR 0x17] @ ''PACKET_TY'' @
     ''PE_UNSPECIFIED'' @ [CHR 0x10, CHR 0x00, CHR 0x12, CHR 0x1B, CHR 0x0A, CHR 0x17] @ ''PACKET_TYPE_HCI_COMMAND'' @ [CHR 0x10, CHR 0x01, CHR 0x12, CHR 0x13, CHR 0x0A, CHR 0x0F] @ ''PACKET_TYPE'' @
     ''_ACL'' @ [CHR 0x10, CHR 0x02, CHR 0x12, CHR 0x13, CHR 0x0A, CHR 0x0F] @ ''PACKET_TYPE_SCO'' @ [CHR 0x10, CHR 0x03, CHR 0x12, CHR 0x15, CHR 0x0A, CHR 0x11] @ ''PACKET_TYPE_EVENT'' @ [CHR 0x10, CHR 0x04, CHR 0x12, CHR 0x13, CHR 0x0A, CHR 0x0F] @ ''PACKET'' @
     ''_TYPE_ISO'' @ [CHR 0x10, CHR 0x05]"

definition hci_packet_part4 :: string where
  "hci_packet_part4 =
     [CHR 0x0A, CHR 0x1F] @ ''com.android.emulation.bluetoothP'' @ [CHR 0x01, CHR 0xF8, CHR 0x01, CHR 0x01, CHR 0xA2, CHR 0x02, CHR 0x03] @ ''AEB'' @ [CHR 0xAA, CHR 0x02, CHR 0x1B] @ ''Android.Emula'' @
     ''tion.Bluetooth''"

definition hci_packet_part5 :: string where
  "hci_packet_part5 =
     ''proto3''"

lemma hci_packet_parts:
  "of_bytes hci_packet_file_descriptor_proto_data =
     [CHR 0x0A, CHR 0x10] @ hci_packet_part1 @
     [CHR 0x12, CHR 0x0D] @ hci_packet_part2 @
     [CHR 0x22, CHR 0xFB, CHR 0x01] @ hci_packet_part3 @
     ''BJ'' @ hci_packet_part4 @
     ''b'' @ [CHR 0x06] @ hci_packet_part5"
  unfolding hci_packet_file_descriptor_proto_data_def of_bytes_as_bytes
    hci_packet_part1_def hci_packet_part2_def hci_packet_part3_def hci_packet_part4_def hci_packet_part5_def
  by (simp only: append.simps append_assoc)

lemma hci_packet_raw:
  "raw_field (CHR 0x0A # CHR 0x10 # hci_packet_part1 @ r) = Some ((1, Block hci_packet_part1), r)"
  "raw_field (CHR 0x12 # CHR 0x0D # hci_packet_part2 @ r) = Some ((2, Block hci_packet_part2), r)"
  "raw_field (CHR 0x22 # CHR 0xFB # CHR 0x01 # hci_packet_part3 @ r) = Some ((4, Block hci_packet_part3), r)"
  "raw_field (CHR 0x42 # CHR 0x4A # hci_packet_part4 @ r) = Some ((8, Block hci_packet_part4), r)"
  "raw_field (CHR 0x62 # CHR 0x06 # hci_packet_part5 @ r) = Some ((12, Block hci_packet_part5), r)"
  unfolding hci_packet_part1_def hci_packet_part2_def hci_packet_part3_def hci_packet_part4_def hci_packet_part5_def by code_simp+

lemma hci_packet_raw_fields:
  "raw_fields (of_bytes hci_packet_file_descriptor_proto_data) =
     Some [(1, Block hci_packet_part1), (2, Block hci_packet_part2), (4, Block hci_packet_part3), (8, Block hci_packet_part4), (12, Block hci_packet_part5)]"
  unfolding hci_packet_parts
  by (simp add: hci_packet_raw [THEN raw_fields_step] hci_packet_raw [where r = "[]", simplified, THEN raw_fields_step])

lemma hci_packet_part2_package: "hci_packet_part2 = ''netsim.packet''"
  by (simp add: hci_packet_part2_def)

lemma hci_packet_part3_message: "messages_of 2 [] hci_packet_part3 = Some ([hci_packet_HCIPacket_schema], [hci_packet_HCIPacket_PacketType_enum])"
  unfolding hci_packet_part3_def hci_packet_HCIPacket_schema_def hci_packet_HCIPacket_PacketType_enum_def by code_simp

lemma hci_packet_decoded: "decode_file (of_bytes hci_packet_file_descriptor_proto_data) = Some hci_packet_schema"
  by (simp add: decode_file_def hci_packet_raw_fields hci_packet_schema_def hci_packet_part2_package hci_packet_part3_message)

definition packet_streamer_file_descriptor_proto_data :: bytes where
  "packet_streamer_file_descriptor_proto_data = as_bytes (
     [CHR 0x0A, CHR 0x15] @ ''packet_streamer.proto'' @ [CHR 0x12, CHR 0x0D] @ ''netsim.packet'' @ [CHR 0x1A, CHR 0x10] @ ''hci_packet.proto'' @
     [CHR 0x1A, CHR 0x0D] @ ''startup.proto'' @ [CHR 0x22, CHR 0xBA, CHR 0x01, CHR 0x0A, CHR 0x14] @ ''StreamPacketsRequest'' @ [CHR 0x12] @ ''='' @ [CHR 0x0A, CHR 0x0C] @ ''initia'' @
     ''l_info'' @ [CHR 0x18, CHR 0x01] @ '' '' @ [CHR 0x01] @ ''('' @ [CHR 0x0B] @ ''2'' @ [CHR 0x18] @ ''.netsim.startup.ChipInfoH'' @ [CHR 0x00] @ ''R'' @ [CHR 0x0B] @ ''initialI'' @
     ''nfo'' @ [CHR 0x12] @ ''9'' @ [CHR 0x0A, CHR 0x0A] @ ''hci_packet'' @ [CHR 0x18, CHR 0x02] @ '' '' @ [CHR 0x01] @ ''('' @ [CHR 0x0B] @ ''2'' @ [CHR 0x18] @ ''.netsim.packet.HCIPacket'' @
     ''H'' @ [CHR 0x00] @ ''R'' @ [CHR 0x09] @ ''hciPacket'' @ [CHR 0x12, CHR 0x18, CHR 0x0A, CHR 0x06] @ ''packet'' @ [CHR 0x18, CHR 0x03] @ '' '' @ [CHR 0x01] @ ''('' @ [CHR 0x0C] @ ''H'' @ [CHR 0x00] @ ''R'' @ [CHR 0x06] @ ''packetB'' @
     [CHR 0x0E, CHR 0x0A, CHR 0x0C] @ ''request_type'' @ [CHR 0x22, CHR 0x95, CHR 0x01, CHR 0x0A, CHR 0x15] @ ''StreamPacketsResponse'' @ [CHR 0x12, CHR 0x16, CHR 0x0A] @
     [CHR 0x05] @ ''error'' @ [CHR 0x18, CHR 0x01] @ '' '' @ [CHR 0x01] @ ''('' @ [CHR 0x09] @ ''H'' @ [CHR 0x00] @ ''R'' @ [CHR 0x05] @ ''error'' @ [CHR 0x12] @ ''9'' @ [CHR 0x0A, CHR 0x0A] @ ''hci_packet'' @ [CHR 0x18, CHR 0x02] @ '' '' @
     [CHR 0x01] @ ''('' @ [CHR 0x0B] @ ''2'' @ [CHR 0x18] @ ''.netsim.packet.HCIPacketH'' @ [CHR 0x00] @ ''R'' @ [CHR 0x09] @ ''hciPacket'' @ [CHR 0x12, CHR 0x18, CHR 0x0A, CHR 0x06] @ ''packe'' @
     ''t'' @ [CHR 0x18, CHR 0x03] @ '' '' @ [CHR 0x01] @ ''('' @ [CHR 0x0C] @ ''H'' @ [CHR 0x00] @ ''R'' @ [CHR 0x06] @ ''packetB'' @ [CHR 0x0F, CHR 0x0A, CHR 0x0D] @ ''response_type2p'' @ [CHR 0x0A, CHR 0x0E] @ ''Packet'' @
     ''Streamer'' @ [CHR 0x12] @ ''^'' @ [CHR 0x0A, CHR 0x0D] @ ''StreamPackets'' @ [CHR 0x12] @ ''#.netsim.packet.StreamPacketsRequest'' @
     [CHR 0x1A] @ ''$.netsim.packet.StreamPacketsResponse('' @ [CHR 0x01] @ ''0'' @ [CHR 0x01] @ ''b'' @ [CHR 0x06] @ ''proto3'')"

definition packet_streamer_StreamPacketsRequest_schema :: message_schema where
  "packet_streamer_StreamPacketsRequest_schema = \<lparr>ms_name = ''StreamPacketsRequest'', ms_fields =
     [\<lparr>fs_name = ''initial_info'', fs_number = 1, fs_repeated = False, fs_type = TMessage ''.netsim.startup.ChipInfo'', fs_oneof = Some ''request_type''\<rparr>,
      \<lparr>fs_name = ''hci_packet'', fs_number = 2, fs_repeated = False, fs_type = TMessage ''.netsim.packet.HCIPacket'', fs_oneof = Some ''request_type''\<rparr>,
      \<lparr>fs_name = ''packet'', fs_number = 3, fs_repeated = False, fs_type = TBytes, fs_oneof = Some ''request_type''\<rparr>]\<rparr>"

definition packet_streamer_StreamPacketsResponse_schema :: message_schema where
  "packet_streamer_StreamPacketsResponse_schema = \<lparr>ms_name = ''StreamPacketsResponse'', ms_fields =
     [\<lparr>fs_name = ''error'', fs_number = 1, fs_repeated = False, fs_type = TString, fs_oneof = Some ''response_type''\<rparr>,
      \<lparr>fs_name = ''hci_packet'', fs_number = 2, fs_repeated = False, fs_type = TMessage ''.netsim.packet.HCIPacket'', fs_oneof = Some ''response_type''\<rparr>,
      \<lparr>fs_name = ''packet'', fs_number = 3, fs_repeated = False, fs_type = TBytes, fs_oneof = Some ''response_type''\<rparr>]\<rparr>"

definition packet_streamer_schema :: file_schema where
  "packet_streamer_schema = \<lparr>fd_package = ''netsim.packet'',
     fd_messages = [packet_streamer_StreamPacketsRequest_schema, packet_streamer_StreamPacketsResponse_schema],
     fd_enums = []\<rparr>"

text \<open>The blocks of \<^verbatim>\<open>packet_streamer.proto\<close>.\<close>

definition packet_streamer_part1 :: string where
  "packet_streamer_part1 =
     ''packet_streamer.proto''"

definition packet_streamer_part2 :: string where
  "packet_streamer_part2 =
     ''netsim.packet''"

definition packet_streamer_part3 :: string where
  "packet_streamer_part3 =
     ''hci_packet.proto''"

definition packet_streamer_part4 :: string where
  "packet_streamer_part4 =
     ''startup.proto''"

definition packet_streamer_part5 :: string where
  "packet_streamer_part5 =
     [CHR 0x0A, CHR 0x14] @ ''StreamPacketsRequest'' @ [CHR 0x12] @ ''='' @ [CHR 0x0A, CHR 0x0C] @ ''initial_info'' @ [CHR 0x18, CHR 0x01] @ '' '' @ [CHR 0x01] @ ''('' @ [CHR 0x0B] @ ''2'' @ [CHR 0x18] @ ''.netsim.startu'' @
     ''p.ChipInfoH'' @ [CHR 0x00] @ ''R'' @ [CHR 0x0B] @ ''initialInfo'' @ [CHR 0x12] @ ''9'' @ [CHR 0x0A, CHR 0x0A] @ ''hci_packet'' @ [CHR 0x18, CHR 0x02] @ '' '' @ [CHR 0x01] @ ''('' @ [CHR 0x0B] @ ''2'' @ [CHR 0x18] @ ''.netsim.packe'' @
     ''t.HCIPacketH'' @ [CHR 0x00] @ ''R'' @ [CHR 0x09] @ ''hciPacket'' @ [CHR 0x12, CHR 0x18, CHR 0x0A, CHR 0x06] @ ''packet'' @ [CHR 0x18, CHR 0x03] @ '' '' @ [CHR 0x01] @ ''('' @ [CHR 0x0C] @ ''H'' @ [CHR 0x00] @ ''R'' @ [CHR 0x06] @ ''packetB'' @ [CHR 0x0E, CHR 0x0A, CHR 0x0C] @ ''reques'' @
     ''t_type''"

definition packet_streamer_part6 :: string where
  "packet_streamer_part6 =
     [CHR 0x0A, CHR 0x15] @ ''StreamPacketsResponse'' @ [CHR 0x12, CHR 0x16, CHR 0x0A, CHR 0x05] @ ''error'' @ [CHR 0x18, CHR 0x01] @ '' '' @ [CHR 0x01] @ ''('' @ [CHR 0x09] @ ''H'' @ [CHR 0x00] @ ''R'' @ [CHR 0x05] @ ''error'' @ [CHR 0x12] @ ''9'' @ [CHR 0x0A, CHR 0x0A] @ ''hci_packe'' @
     ''t'' @ [CHR 0x18, CHR 0x02] @ '' '' @ [CHR 0x01] @ ''('' @ [CHR 0x0B] @ ''2'' @ [CHR 0x18] @ ''.netsim.packet.HCIPacketH'' @ [CHR 0x00] @ ''R'' @ [CHR 0x09] @ ''hciPacket'' @ [CHR 0x12, CHR 0x18, CHR 0x0A, CHR 0x06] @ ''packet'' @ [CHR 0x18, CHR 0x03] @ '' '' @ [CHR 0x01] @
     ''('' @ [CHR 0x0C] @ ''H'' @ [CHR 0x00] @ ''R'' @ [CHR 0x06] @ ''packetB'' @ [CHR 0x0F, CHR 0x0A, CHR 0x0D] @ ''response_type''"

definition packet_streamer_part7 :: string where
  "packet_streamer_part7 =
     [CHR 0x0A, CHR 0x0E] @ ''PacketStreamer'' @ [CHR 0x12] @ ''^'' @ [CHR 0x0A, CHR 0x0D] @ ''StreamPackets'' @ [CHR 0x12] @ ''#.netsim.packet.StreamPack'' @
     ''etsRequest'' @ [CHR 0x1A] @ ''$.netsim.packet.StreamPacketsResponse('' @ [CHR 0x01] @ ''0'' @ [CHR 0x01]"

definition packet_streamer_part8 :: string where
  "packet_streamer_part8 =
     ''proto3''"

lemma packet_streamer_parts:
  "of_bytes packet_streamer_file_descriptor_proto_data =
     [CHR 0x0A, CHR 0x15] @ packet_streamer_part1 @
     [CHR 0x12, CHR 0x0D] @ packet_streamer_part2 @
     [CHR 0x1A, CHR 0x10] @ packet_streamer_part3 @
     [CHR 0x1A, CHR 0x0D] @ packet_streamer_part4 @
     [CHR 0x22, CHR 0xBA, CHR 0x01] @ packet_streamer_part5 @
     [CHR 0x22, CHR 0x95, CHR 0x01] @ packet_streamer_part6 @
     ''2p'' @ packet_streamer_part7 @
     ''b'' @ [CHR 0x06] @ packet_streamer_part8"
  unfolding packet_streamer_file_descriptor_proto_data_def of_bytes_as_bytes
    packet_streamer_part1_def packet_streamer_part2_def packet_streamer_part3_def packet_streamer_part4_def packet_streamer_part5_def packet_streamer_part6_def packet_streamer_part7_def packet_streamer_part8_def
  by (simp only: append.simps append_assoc)

lemma packet_streamer_raw:
  "raw_field (CHR 0x0A # CHR 0x15 # packet_streamer_part1 @ r) = Some ((1, Block packet_streamer_part1), r)"
  "raw_field (CHR 0x12 # CHR 0x0D # packet_streamer_part2 @ r) = Some ((2, Block packet_streamer_part2), r)"
  "raw_field (CHR 0x1A # CHR 0x10 # packet_streamer_part3 @ r) = Some ((3, Block packet_streamer_part3), r)"
  "raw_field (CHR 0x1A # CHR 0x0D # packet_streamer_part4 @ r) = Some ((3, Block packet_streamer_part4), r)"
  "raw_field (CHR 0x22 # CHR 0xBA # CHR 0x01 # packet_streamer_part5 @ r) = Some ((4, Block packet_streamer_part5), r)"
  "raw_field (CHR 0x22 # CHR 0x95 # CHR 0x01 # packet_streamer_part6 @ r) = Some ((4, Block packet_streamer_part6), r)"
  "raw_field (CHR 0x32 # CHR 0x70 # packet_streamer_part7 @ r) = Some ((6, Block packet_streamer_part7), r)"
  "raw_field (CHR 0x62 # CHR 0x06 # packet_streamer_part8 @ r) = Some ((12, Block packet_streamer_part8), r)"
  unfolding packet_streamer_part1_def packet_streamer_part2_def packet_streamer_part3_def packet_streamer_part4_def packet_streamer_part5_def packet_streamer_part6_def packet_streamer_part7_def packet_streamer_part8_def by code_simp+

lemma packet_streamer_raw_fields:
  "raw_fields (of_bytes packet_streamer_file_descriptor_proto_data) =
     Some [(1, Block packet_streamer_part1), (2, Block packet_streamer_part2), (3, Block packet_streamer_part3), (3, Block packet_streamer_part4), (4, Block packet_streamer_part5), (4, Block packet_streamer_part6), (6, Block packet_streamer_part7), (12, Block packet_streamer_part8)]"
  unfolding packet_streamer_parts
  by (simp add: packet_streamer_raw [THEN raw_fields_step] packet_streamer_raw [where r = "[]", simplified, THEN raw_fields_step])

lemma packet_streamer_part2_package: "packet_streamer_part2 = ''netsim.packet''"
  by (simp add: packet_streamer_part2_def)

lemma packet_streamer_part5_message: "messages_of 2 [] packet_streamer_part5 = Some ([packet_streamer_StreamPacketsRequest_schema], [])"
  unfolding packet_streamer_part5_def packet_streamer_StreamPacketsRequest_schema_def by code_simp

lemma packet_streamer_part6_message: "messages_of 2 [] packet_streamer_part6 = Some ([packet_streamer_StreamPacketsResponse_schema], [])"
  unfolding packet_streamer_part6_def packet_streamer_StreamPacketsResponse_schema_def by code_simp

lemma packet_streamer_decoded: "decode_file (of_bytes packet_streamer_file_descriptor_proto_data) = Some packet_streamer_schema"
  by (simp add: decode_file_def packet_streamer_raw_fields packet_streamer_schema_def packet_streamer_part2_package packet_streamer_part5_message packet_streamer_part6_message)

end
