(* ===== verification/Pb_Reflect.thy ===== *)
theory Pb_Reflect
  imports Pb_Frontend Pb_Packet Pb_Schema
begin

text \<open>
  The reflection tables of the generated files: \<^verbatim>\<open>descriptor_static\<close> of the messages and of the
  enumerations. The constructors of \<^verbatim>\<open>protobuf::reflect::accessor\<close> are those of the datatype
  \<open>field_accessor\<close>; the Rust closures \<^verbatim>\<open>|m| &m.x\<close> and \<^verbatim>\<open>|m| &mut m.x\<close> are a function that reads
  the field and one that stores into it. As the entries of a table have fields of different types,
  what they read and store is wrapped in \<open>pb_value\<close>; storing a value of another type, which Rust
  rejects when it compiles, changes nothing. An enumeration inside \<open>pb_value\<close> is its number.

  A descriptor holds the bytes of its file (\<^verbatim>\<open>file_descriptor_proto()\<close> is their parse, which the
  crate does); \<open>described\<close> looks the message up in them.
\<close>

section \<open>Types and values\<close>

text \<open>The types that stand as a parameter of an accessor in one of the tables.\<close>

datatype message_type =
    MT_Position
  | MT_Orientation
  | MT_Chip
  | MT_Chip_Radio
  | MT_Chip_Bluetooth
  | MT_Device
  | MT_StartupInfo_Device
  | MT_ChipInfo
  | MT_Startup_Chip
  | MT_HCIPacket

datatype enum_type =
    ET_PhyKind
  | ET_State
  | ET_Chip_ChipKind
  | ET_HCIPacket_PacketType

datatype pb_type =
    ProtobufTypeFloat
  | ProtobufTypeInt32
  | ProtobufTypeBool
  | ProtobufTypeString
  | ProtobufTypeBytes
  | ProtobufTypeEnum enum_type
  | ProtobufTypeMessage message_type

datatype 'u pb_value =
    V_Float f32
  | V_Int32 i32
  | V_Bool bool
  | V_String string
  | V_Bytes bytes
  | V_Enum i32
  | V_Position "'u Position"
  | V_Orientation "'u Orientation"
  | V_Chip "'u Chip"
  | V_Chip_Radio "'u Chip_Radio"
  | V_Chip_Bluetooth "'u Chip_Bluetooth"
  | V_Device "'u Device"
  | V_StartupInfo_Device "'u StartupInfo_Device"
  | V_ChipInfo "'u ChipInfo"
  | V_Startup_Chip "'u Startup_Chip"
  | V_HCIPacket "'u HCIPacket"

text \<open>The Rust value of a given type inside a value; the numbers of an enumeration through its \<^verbatim>\<open>from_i32\<close>.\<close>

definition to_Float :: "'u pb_value \<Rightarrow> f32 option" where
  "to_Float v = (case v of V_Float x \<Rightarrow> Some x | _ \<Rightarrow> None)"

definition to_Int32 :: "'u pb_value \<Rightarrow> i32 option" where
  "to_Int32 v = (case v of V_Int32 x \<Rightarrow> Some x | _ \<Rightarrow> None)"

definition to_Bool :: "'u pb_value \<Rightarrow> bool option" where
  "to_Bool v = (case v of V_Bool x \<Rightarrow> Some x | _ \<Rightarrow> None)"

definition to_String :: "'u pb_value \<Rightarrow> string option" where
  "to_String v = (case v of V_String x \<Rightarrow> Some x | _ \<Rightarrow> None)"

definition to_Bytes :: "'u pb_value \<Rightarrow> bytes option" where
  "to_Bytes v = (case v of V_Bytes x \<Rightarrow> Some x | _ \<Rightarrow> None)"

definition to_Position :: "'u pb_value \<Rightarrow> ('u Position) option" where
  "to_Position v = (case v of V_Position x \<Rightarrow> Some x | _ \<Rightarrow> None)"

definition to_Orientation :: "'u pb_value \<Rightarrow> ('u Orientation) option" where
  "to_Orientation v = (case v of V_Orientation x \<Rightarrow> Some x | _ \<Rightarrow> None)"

definition to_Chip :: "'u pb_value \<Rightarrow> ('u Chip) option" where
  "to_Chip v = (case v of V_Chip x \<Rightarrow> Some x | _ \<Rightarrow> None)"

definition to_Chip_Radio :: "'u pb_value \<Rightarrow> ('u Chip_Radio) option" where
  "to_Chip_Radio v = (case v of V_Chip_Radio x \<Rightarrow> Some x | _ \<Rightarrow> None)"

definition to_Chip_Bluetooth :: "'u pb_value \<Rightarrow> ('u Chip_Bluetooth) option" where
  "to_Chip_Bluetooth v = (case v of V_Chip_Bluetooth x \<Rightarrow> Some x | _ \<Rightarrow> None)"

definition to_Device :: "'u pb_value \<Rightarrow> ('u Device) option" where
  "to_Device v = (case v of V_Device x \<Rightarrow> Some x | _ \<Rightarrow> None)"

definition to_StartupInfo_Device :: "'u pb_value \<Rightarrow> ('u StartupInfo_Device) option" where
  "to_StartupInfo_Device v = (case v of V_StartupInfo_Device x \<Rightarrow> Some x | _ \<Rightarrow> None)"

definition to_ChipInfo :: "'u pb_value \<Rightarrow> ('u ChipInfo) option" where
  "to_ChipInfo v = (case v of V_ChipInfo x \<Rightarrow> Some x | _ \<Rightarrow> None)"

definition to_Startup_Chip :: "'u pb_value \<Rightarrow> ('u Startup_Chip) option" where
  "to_Startup_Chip v = (case v of V_Startup_Chip x \<Rightarrow> Some x | _ \<Rightarrow> None)"

definition to_HCIPacket :: "'u pb_value \<Rightarrow> ('u HCIPacket) option" where
  "to_HCIPacket v = (case v of V_HCIPacket x \<Rightarrow> Some x | _ \<Rightarrow> None)"

definition to_PhyKind :: "'u pb_value \<Rightarrow> PhyKind option" where
  "to_PhyKind v = (case v of V_Enum i \<Rightarrow> PhyKind_from_i32 i | _ \<Rightarrow> None)"

definition to_State :: "'u pb_value \<Rightarrow> State option" where
  "to_State v = (case v of V_Enum i \<Rightarrow> State_from_i32 i | _ \<Rightarrow> None)"

definition to_Chip_ChipKind :: "'u pb_value \<Rightarrow> Chip_ChipKind option" where
  "to_Chip_ChipKind v = (case v of V_Enum i \<Rightarrow> Chip_ChipKind_from_i32 i | _ \<Rightarrow> None)"

definition to_HCIPacket_PacketType :: "'u pb_value \<Rightarrow> HCIPacket_PacketType option" where
  "to_HCIPacket_PacketType v = (case v of V_Enum i \<Rightarrow> HCIPacket_PacketType_from_i32 i | _ \<Rightarrow> None)"

lemma to_value [simp]:
  "to_Float (V_Float x_Float) = Some x_Float"
  "to_Int32 (V_Int32 x_Int32) = Some x_Int32"
  "to_Bool (V_Bool x_Bool) = Some x_Bool"
  "to_String (V_String x_String) = Some x_String"
  "to_Bytes (V_Bytes x_Bytes) = Some x_Bytes"
  "to_Position (V_Position x_Position) = Some x_Position"
  "to_Orientation (V_Orientation x_Orientation) = Some x_Orientation"
  "to_Chip (V_Chip x_Chip) = Some x_Chip"
  "to_Chip_Radio (V_Chip_Radio x_Chip_Radio) = Some x_Chip_Radio"
  "to_Chip_Bluetooth (V_Chip_Bluetooth x_Chip_Bluetooth) = Some x_Chip_Bluetooth"
  "to_Device (V_Device x_Device) = Some x_Device"
  "to_StartupInfo_Device (V_StartupInfo_Device x_StartupInfo_Device) = Some x_StartupInfo_Device"
  "to_ChipInfo (V_ChipInfo x_ChipInfo) = Some x_ChipInfo"
  "to_Startup_Chip (V_Startup_Chip x_Startup_Chip) = Some x_Startup_Chip"
  "to_HCIPacket (V_HCIPacket x_HCIPacket) = Some x_HCIPacket"
  "to_PhyKind (V_Enum i) = PhyKind_from_i32 i"
  "to_State (V_Enum i) = State_from_i32 i"
  "to_Chip_ChipKind (V_Enum i) = Chip_ChipKind_from_i32 i"
  "to_HCIPacket_PacketType (V_Enum i) = HCIPacket_PacketType_from_i32 i"
  by (simp_all add: to_Float_def to_Int32_def to_Bool_def to_String_def to_Bytes_def to_Position_def to_Orientation_def to_Chip_def to_Chip_Radio_def to_Chip_Bluetooth_def to_Device_def to_StartupInfo_Device_def to_ChipInfo_def to_Startup_Chip_def to_HCIPacket_def to_PhyKind_def to_State_def to_Chip_ChipKind_def to_HCIPacket_PacketType_def)

definition to_option :: "('v \<Rightarrow> 'x option) \<Rightarrow> 'v option \<Rightarrow> 'x option option" where
  "to_option p v = (case v of None \<Rightarrow> Some None | Some w \<Rightarrow> map_option Some (p w))"

text \<open>Storing through a mutable borrow.\<close>

definition borrow :: "('v \<Rightarrow> 'x option) \<Rightarrow> ('x \<Rightarrow> 'm \<Rightarrow> 'm) \<Rightarrow> 'v \<Rightarrow> 'm \<Rightarrow> 'm" where
  "borrow p st v m = (case p v of Some x \<Rightarrow> st x m | None \<Rightarrow> m)"

section \<open>Accessors and descriptors\<close>

datatype ('u, 'm) field_accessor =
    make_simple_field_accessor pb_type string "'m \<Rightarrow> 'u pb_value" "'u pb_value \<Rightarrow> 'm \<Rightarrow> 'm"
  | make_singular_ptr_field_accessor pb_type string
      "'m \<Rightarrow> 'u pb_value option" "'u pb_value option \<Rightarrow> 'm \<Rightarrow> 'm"
  | make_repeated_field_accessor pb_type string
      "'m \<Rightarrow> 'u pb_value list" "'u pb_value list \<Rightarrow> 'm \<Rightarrow> 'm"
  | make_singular_message_accessor message_type string "'m \<Rightarrow> bool" "'m \<Rightarrow> 'u pb_value"
  | make_singular_string_accessor string "'m \<Rightarrow> bool" "'m \<Rightarrow> 'u pb_value"
  | make_singular_bytes_accessor string "'m \<Rightarrow> bool" "'m \<Rightarrow> 'u pb_value"

record ('u, 'm) message_descriptor =
  md_name :: string
  md_fields :: "('u, 'm) field_accessor list"
  md_file :: bytes

record enum_descriptor =
  ed_name :: string
  ed_type :: enum_type
  ed_file :: bytes

datatype field_kind =
    Simple
  | SingularPtr
  | RepeatedField
  | Present

fun acc_name :: "('u, 'm) field_accessor \<Rightarrow> string" where
  "acc_name (make_simple_field_accessor t n g p) = n"
| "acc_name (make_singular_ptr_field_accessor t n g' p') = n"
| "acc_name (make_repeated_field_accessor t n g'' p'') = n"
| "acc_name (make_singular_message_accessor mt n h g) = n"
| "acc_name (make_singular_string_accessor n h g) = n"
| "acc_name (make_singular_bytes_accessor n h g) = n"

fun acc_type :: "('u, 'm) field_accessor \<Rightarrow> pb_type" where
  "acc_type (make_simple_field_accessor t n g p) = t"
| "acc_type (make_singular_ptr_field_accessor t n g' p') = t"
| "acc_type (make_repeated_field_accessor t n g'' p'') = t"
| "acc_type (make_singular_message_accessor mt n h g) = ProtobufTypeMessage mt"
| "acc_type (make_singular_string_accessor n h g) = ProtobufTypeString"
| "acc_type (make_singular_bytes_accessor n h g) = ProtobufTypeBytes"

fun acc_kind :: "('u, 'm) field_accessor \<Rightarrow> field_kind" where
  "acc_kind (make_simple_field_accessor t n g p) = Simple"
| "acc_kind (make_singular_ptr_field_accessor t n g' p') = SingularPtr"
| "acc_kind (make_repeated_field_accessor t n g'' p'') = RepeatedField"
| "acc_kind (make_singular_message_accessor mt n h g) = Present"
| "acc_kind (make_singular_string_accessor n h g) = Present"
| "acc_kind (make_singular_bytes_accessor n h g) = Present"

text \<open>What a table entry reads: one value, a value that may be absent, or a list.\<close>

datatype 'u field_value =
    One "'u pb_value"
  | Maybe "'u pb_value option"
  | Many "'u pb_value list"

fun acc_value :: "('u, 'm) field_accessor \<Rightarrow> 'm \<Rightarrow> 'u field_value" where
  "acc_value (make_simple_field_accessor t n g p) m = One (g m)"
| "acc_value (make_singular_ptr_field_accessor t n g' p') m = Maybe (g' m)"
| "acc_value (make_repeated_field_accessor t n g'' p'') m = Many (g'' m)"
| "acc_value (make_singular_message_accessor mt n h g) m = Maybe (if h m then Some (g m) else None)"
| "acc_value (make_singular_string_accessor n h g) m = Maybe (if h m then Some (g m) else None)"
| "acc_value (make_singular_bytes_accessor n h g) m = Maybe (if h m then Some (g m) else None)"

text \<open>Storing through a table entry; the entries of a \<^verbatim>\<open>oneof\<close> can only be read.\<close>

fun acc_store :: "('u, 'm) field_accessor \<Rightarrow> 'u field_value \<Rightarrow> 'm \<Rightarrow> 'm" where
  "acc_store (make_simple_field_accessor t n g p) (One v) m = p v m"
| "acc_store (make_singular_ptr_field_accessor t n g' p') (Maybe v) m = p' v m"
| "acc_store (make_repeated_field_accessor t n g'' p'') (Many v) m = p'' v m"
| "acc_store a v m = m"

definition described :: "('u, 'm) message_descriptor \<Rightarrow> message_schema option" where
  "described D =
     Option.bind (decode_file (of_bytes (md_file D))) (\<lambda>F. find_message F (md_name D))"

definition enum_described :: "enum_descriptor \<Rightarrow> enum_schema option" where
  "enum_described D = Option.bind (decode_file (of_bytes (ed_file D))) (\<lambda>F. find_enum F (ed_name D))"

section \<open>The enumerations\<close>

definition PhyKind_descriptor_static :: enum_descriptor where
  "PhyKind_descriptor_static =
     \<lparr>ed_name = ''PhyKind'', ed_type = ET_PhyKind, ed_file = model_file_descriptor_proto_data\<rparr>"

definition State_descriptor_static :: enum_descriptor where
  "State_descriptor_static =
     \<lparr>ed_name = ''State'', ed_type = ET_State, ed_file = model_file_descriptor_proto_data\<rparr>"

definition Chip_ChipKind_descriptor_static :: enum_descriptor where
  "Chip_ChipKind_descriptor_static =
     \<lparr>ed_name = ''Chip.ChipKind'', ed_type = ET_Chip_ChipKind, ed_file = startup_file_descriptor_proto_data\<rparr>"

definition HCIPacket_PacketType_descriptor_static :: enum_descriptor where
  "HCIPacket_PacketType_descriptor_static =
     \<lparr>ed_name = ''HCIPacket.PacketType'', ed_type = ET_HCIPacket_PacketType, ed_file = hci_packet_file_descriptor_proto_data\<rparr>"

section \<open>The messages\<close>

definition Position_descriptor_static :: "('u, 'u Position) message_descriptor" where
  "Position_descriptor_static =
     \<lparr>md_name = ''Position'', md_fields =
      [make_simple_field_accessor ProtobufTypeFloat ''x''
        (\<lambda>m. V_Float (Position_x m))
        (borrow to_Float (\<lambda>x m. m\<lparr>Position_x := x\<rparr>)),
       make_simple_field_accessor ProtobufTypeFloat ''y''
        (\<lambda>m. V_Float (Position_y m))
        (borrow to_Float (\<lambda>x m. m\<lparr>Position_y := x\<rparr>)),
       make_simple_field_accessor ProtobufTypeFloat ''z''
        (\<lambda>m. V_Float (Position_z m))
        (borrow to_Float (\<lambda>x m. m\<lparr>Position_z := x\<rparr>))],
      md_file = model_file_descriptor_proto_data\<rparr>"

definition Orientation_descriptor_static :: "('u, 'u Orientation) message_descriptor" where
  "Orientation_descriptor_static =
     \<lparr>md_name = ''Orientation'', md_fields =
      [make_simple_field_accessor ProtobufTypeFloat ''yaw''
        (\<lambda>m. V_Float (Orientation_yaw m))
        (borrow to_Float (\<lambda>x m. m\<lparr>Orientation_yaw := x\<rparr>)),
       make_simple_field_accessor ProtobufTypeFloat ''pitch''
        (\<lambda>m. V_Float (Orientation_pitch m))
        (borrow to_Float (\<lambda>x m. m\<lparr>Orientation_pitch := x\<rparr>)),
       make_simple_field_accessor ProtobufTypeFloat ''roll''
        (\<lambda>m. V_Float (Orientation_roll m))
        (borrow to_Float (\<lambda>x m. m\<lparr>Orientation_roll := x\<rparr>))],
      md_file = model_file_descriptor_proto_data\<rparr>"

definition Chip_descriptor_static :: "'u protobuf_rt \<Rightarrow> ('u, 'u Chip) message_descriptor" where
  "Chip_descriptor_static W =
     \<lparr>md_name = ''Chip'', md_fields =
      [make_simple_field_accessor ProtobufTypeString ''chip_id''
        (\<lambda>m. V_String (Chip_chip_id m))
        (borrow to_String (\<lambda>x m. m\<lparr>Chip_chip_id := x\<rparr>)),
       make_simple_field_accessor ProtobufTypeString ''manufacturer''
        (\<lambda>m. V_String (Chip_manufacturer m))
        (borrow to_String (\<lambda>x m. m\<lparr>Chip_manufacturer := x\<rparr>)),
       make_simple_field_accessor ProtobufTypeString ''model''
        (\<lambda>m. V_String (Chip_model m))
        (borrow to_String (\<lambda>x m. m\<lparr>Chip_model := x\<rparr>)),
       make_simple_field_accessor (ProtobufTypeEnum ET_State) ''capture''
        (\<lambda>m. V_Enum (State_value (Chip_capture m)))
        (borrow to_State (\<lambda>x m. m\<lparr>Chip_capture := x\<rparr>)),
       make_singular_message_accessor MT_Chip_Bluetooth ''bt''
        Chip_has_bt (\<lambda>m. V_Chip_Bluetooth (Chip_get_bt W m)),
       make_singular_message_accessor MT_Chip_Radio ''uwb''
        Chip_has_uwb (\<lambda>m. V_Chip_Radio (Chip_get_uwb W m)),
       make_singular_message_accessor MT_Chip_Radio ''wifi''
        Chip_has_wifi (\<lambda>m. V_Chip_Radio (Chip_get_wifi W m))],
      md_file = model_file_descriptor_proto_data\<rparr>"

definition Chip_Radio_descriptor_static :: "('u, 'u Chip_Radio) message_descriptor" where
  "Chip_Radio_descriptor_static =
     \<lparr>md_name = ''Chip.Radio'', md_fields =
      [make_simple_field_accessor (ProtobufTypeEnum ET_State) ''state''
        (\<lambda>m. V_Enum (State_value (Chip_Radio_state m)))
        (borrow to_State (\<lambda>x m. m\<lparr>Chip_Radio_state := x\<rparr>)),
       make_simple_field_accessor ProtobufTypeFloat ''range''
        (\<lambda>m. V_Float (Chip_Radio_range m))
        (borrow to_Float (\<lambda>x m. m\<lparr>Chip_Radio_range := x\<rparr>)),
       make_simple_field_accessor ProtobufTypeInt32 ''tx_count''
        (\<lambda>m. V_Int32 (Chip_Radio_tx_count m))
        (borrow to_Int32 (\<lambda>x m. m\<lparr>Chip_Radio_tx_count := x\<rparr>)),
       make_simple_field_accessor ProtobufTypeInt32 ''rx_count''
        (\<lambda>m. V_Int32 (Chip_Radio_rx_count m))
        (borrow to_Int32 (\<lambda>x m. m\<lparr>Chip_Radio_rx_count := x\<rparr>))],
      md_file = model_file_descriptor_proto_data\<rparr>"

definition Chip_Bluetooth_descriptor_static :: "('u, 'u Chip_Bluetooth) message_descriptor" where
  "Chip_Bluetooth_descriptor_static =
     \<lparr>md_name = ''Chip.Bluetooth'', md_fields =
      [make_singular_ptr_field_accessor (ProtobufTypeMessage MT_Chip_Radio) ''low_energy''
        (\<lambda>m. map_option V_Chip_Radio (Chip_Bluetooth_low_energy m))
        (borrow (to_option to_Chip_Radio) (\<lambda>x m. m\<lparr>Chip_Bluetooth_low_energy := x\<rparr>)),
       make_singular_ptr_field_accessor (ProtobufTypeMessage MT_Chip_Radio) ''classic''
        (\<lambda>m. map_option V_Chip_Radio (Chip_Bluetooth_classic m))
        (borrow (to_option to_Chip_Radio) (\<lambda>x m. m\<lparr>Chip_Bluetooth_classic := x\<rparr>))],
      md_file = model_file_descriptor_proto_data\<rparr>"

definition Device_descriptor_static :: "('u, 'u Device) message_descriptor" where
  "Device_descriptor_static =
     \<lparr>md_name = ''Device'', md_fields =
      [make_simple_field_accessor ProtobufTypeString ''device_serial''
        (\<lambda>m. V_String (Device_device_serial m))
        (borrow to_String (\<lambda>x m. m\<lparr>Device_device_serial := x\<rparr>)),
       make_simple_field_accessor ProtobufTypeString ''name''
        (\<lambda>m. V_String (Device_name m))
        (borrow to_String (\<lambda>x m. m\<lparr>Device_name := x\<rparr>)),
       make_simple_field_accessor ProtobufTypeBool ''visible''
        (\<lambda>m. V_Bool (Device_visible m))
        (borrow to_Bool (\<lambda>x m. m\<lparr>Device_visible := x\<rparr>)),
       make_singular_ptr_field_accessor (ProtobufTypeMessage MT_Position) ''position''
        (\<lambda>m. map_option V_Position (Device_position m))
        (borrow (to_option to_Position) (\<lambda>x m. m\<lparr>Device_position := x\<rparr>)),
       make_singular_ptr_field_accessor (ProtobufTypeMessage MT_Orientation) ''orientation''
        (\<lambda>m. map_option V_Orientation (Device_orientation m))
        (borrow (to_option to_Orientation) (\<lambda>x m. m\<lparr>Device_orientation := x\<rparr>)),
       make_repeated_field_accessor (ProtobufTypeMessage MT_Chip) ''chips''
        (\<lambda>m. map V_Chip (Device_chips m))
        (borrow (traverse to_Chip) (\<lambda>x m. m\<lparr>Device_chips := x\<rparr>))],
      md_file = model_file_descriptor_proto_data\<rparr>"

definition Scene_descriptor_static :: "('u, 'u Scene) message_descriptor" where
  "Scene_descriptor_static =
     \<lparr>md_name = ''Scene'', md_fields =
      [make_repeated_field_accessor (ProtobufTypeMessage MT_Device) ''devices''
        (\<lambda>m. map V_Device (Scene_devices m))
        (borrow (traverse to_Device) (\<lambda>x m. m\<lparr>Scene_devices := x\<rparr>))],
      md_file = model_file_descriptor_proto_data\<rparr>"

definition VersionResponse_descriptor_static :: "('u, 'u VersionResponse) message_descriptor" where
  "VersionResponse_descriptor_static =
     \<lparr>md_name = ''VersionResponse'', md_fields =
      [make_simple_field_accessor ProtobufTypeString ''version''
        (\<lambda>m. V_String (VersionResponse_version m))
        (borrow to_String (\<lambda>x m. m\<lparr>VersionResponse_version := x\<rparr>))],
      md_file = frontend_file_descriptor_proto_data\<rparr>"

definition SetLinkLossRequest_descriptor_static :: "('u, 'u SetLinkLossRequest) message_descriptor" where
  "SetLinkLossRequest_descriptor_static =
     \<lparr>md_name = ''SetLinkLossRequest'', md_fields =
      [make_simple_field_accessor ProtobufTypeString ''device_serial''
        (\<lambda>m. V_String (SetLinkLossRequest_device_serial m))
        (borrow to_String (\<lambda>x m. m\<lparr>SetLinkLossRequest_device_serial := x\<rparr>)),
       make_simple_field_accessor ProtobufTypeString ''other_device''
        (\<lambda>m. V_String (SetLinkLossRequest_other_device m))
        (borrow to_String (\<lambda>x m. m\<lparr>SetLinkLossRequest_other_device := x\<rparr>)),
       make_simple_field_accessor (ProtobufTypeEnum ET_PhyKind) ''radio''
        (\<lambda>m. V_Enum (PhyKind_value (SetLinkLossRequest_radio m)))
        (borrow to_PhyKind (\<lambda>x m. m\<lparr>SetLinkLossRequest_radio := x\<rparr>)),
       make_simple_field_accessor ProtobufTypeFloat ''link_loss''
        (\<lambda>m. V_Float (SetLinkLossRequest_link_loss m))
        (borrow to_Float (\<lambda>x m. m\<lparr>SetLinkLossRequest_link_loss := x\<rparr>))],
      md_file = frontend_file_descriptor_proto_data\<rparr>"

definition UpdateDeviceRequest_descriptor_static :: "('u, 'u UpdateDeviceRequest) message_descriptor" where
  "UpdateDeviceRequest_descriptor_static =
     \<lparr>md_name = ''UpdateDeviceRequest'', md_fields =
      [make_singular_ptr_field_accessor (ProtobufTypeMessage MT_Device) ''device''
        (\<lambda>m. map_option V_Device (UpdateDeviceRequest_device m))
        (borrow (to_option to_Device) (\<lambda>x m. m\<lparr>UpdateDeviceRequest_device := x\<rparr>))],
      md_file = frontend_file_descriptor_proto_data\<rparr>"

definition Updates_descriptor_static :: "('u, 'u Updates) message_descriptor" where
  "Updates_descriptor_static =
     \<lparr>md_name = ''Updates'', md_fields =
      [make_repeated_field_accessor (ProtobufTypeMessage MT_Device) ''devices''
        (\<lambda>m. map V_Device (Updates_devices m))
        (borrow (traverse to_Device) (\<lambda>x m. m\<lparr>Updates_devices := x\<rparr>))],
      md_file = frontend_file_descriptor_proto_data\<rparr>"

definition GetDevicesResponse_descriptor_static :: "('u, 'u GetDevicesResponse) message_descriptor" where
  "GetDevicesResponse_descriptor_static =
     \<lparr>md_name = ''GetDevicesResponse'', md_fields =
      [make_repeated_field_accessor (ProtobufTypeMessage MT_Device) ''devices''
        (\<lambda>m. map V_Device (GetDevicesResponse_devices m))
        (borrow (traverse to_Device) (\<lambda>x m. m\<lparr>GetDevicesResponse_devices := x\<rparr>))],
      md_file = frontend_file_descriptor_proto_data\<rparr>"

definition NetCatStream_descriptor_static :: "('u, 'u NetCatStream) message_descriptor" where
  "NetCatStream_descriptor_static =
     \<lparr>md_name = ''NetCatStream'', md_fields =
      [make_repeated_field_accessor ProtobufTypeString ''result''
        (\<lambda>m. map V_String (NetCatStream_result m))
        (borrow (traverse to_String) (\<lambda>x m. m\<lparr>NetCatStream_result := x\<rparr>))],
      md_file = frontend_file_descriptor_proto_data\<rparr>"

definition SetPacketCaptureRequest_descriptor_static :: "('u, 'u SetPacketCaptureRequest) message_descriptor" where
  "SetPacketCaptureRequest_descriptor_static =
     \<lparr>md_name = ''SetPacketCaptureRequest'', md_fields =
      [make_simple_field_accessor ProtobufTypeBool ''capture''
        (\<lambda>m. V_Bool (SetPacketCaptureRequest_capture m))
        (borrow to_Bool (\<lambda>x m. m\<lparr>SetPacketCaptureRequest_capture := x\<rparr>)),
       make_simple_field_accessor ProtobufTypeString ''device_serial''
        (\<lambda>m. V_String (SetPacketCaptureRequest_device_serial m))
        (borrow to_String (\<lambda>x m. m\<lparr>SetPacketCaptureRequest_device_serial := x\<rparr>))],
      md_file = frontend_file_descriptor_proto_data\<rparr>"

definition StartupInfo_descriptor_static :: "('u, 'u StartupInfo) message_descriptor" where
  "StartupInfo_descriptor_static =
     \<lparr>md_name = ''StartupInfo'', md_fields =
      [make_repeated_field_accessor (ProtobufTypeMessage MT_StartupInfo_Device) ''devices''
        (\<lambda>m. map V_StartupInfo_Device (StartupInfo_devices m))
        (borrow (traverse to_StartupInfo_Device) (\<lambda>x m. m\<lparr>StartupInfo_devices := x\<rparr>))],
      md_file = startup_file_descriptor_proto_data\<rparr>"

definition StartupInfo_Device_descriptor_static :: "('u, 'u StartupInfo_Device) message_descriptor" where
  "StartupInfo_Device_descriptor_static =
     \<lparr>md_name = ''StartupInfo.Device'', md_fields =
      [make_simple_field_accessor ProtobufTypeString ''serial''
        (\<lambda>m. V_String (StartupInfo_Device_serial m))
        (borrow to_String (\<lambda>x m. m\<lparr>StartupInfo_Device_serial := x\<rparr>)),
       make_repeated_field_accessor (ProtobufTypeMessage MT_Startup_Chip) ''chips''
        (\<lambda>m. map V_Startup_Chip (StartupInfo_Device_chips m))
        (borrow (traverse to_Startup_Chip) (\<lambda>x m. m\<lparr>StartupInfo_Device_chips := x\<rparr>))],
      md_file = startup_file_descriptor_proto_data\<rparr>"

definition ChipInfo_descriptor_static :: "('u, 'u ChipInfo) message_descriptor" where
  "ChipInfo_descriptor_static =
     \<lparr>md_name = ''ChipInfo'', md_fields =
      [make_simple_field_accessor ProtobufTypeString ''serial''
        (\<lambda>m. V_String (ChipInfo_serial m))
        (borrow to_String (\<lambda>x m. m\<lparr>ChipInfo_serial := x\<rparr>)),
       make_singular_ptr_field_accessor (ProtobufTypeMessage MT_Startup_Chip) ''chip''
        (\<lambda>m. map_option V_Startup_Chip (ChipInfo_chip m))
        (borrow (to_option to_Startup_Chip) (\<lambda>x m. m\<lparr>ChipInfo_chip := x\<rparr>))],
      md_file = startup_file_descriptor_proto_data\<rparr>"

definition Startup_Chip_descriptor_static :: "('u, 'u Startup_Chip) message_descriptor" where
  "Startup_Chip_descriptor_static =
     \<lparr>md_name = ''Chip'', md_fields =
      [make_simple_field_accessor (ProtobufTypeEnum ET_Chip_ChipKind) ''kind''
        (\<lambda>m. V_Enum (Chip_ChipKind_value (Startup_Chip_kind m)))
        (borrow to_Chip_ChipKind (\<lambda>x m. m\<lparr>Startup_Chip_kind := x\<rparr>)),
       make_simple_field_accessor ProtobufTypeString ''id''
        (\<lambda>m. V_String (Startup_Chip_id m))
        (borrow to_String (\<lambda>x m. m\<lparr>Startup_Chip_id := x\<rparr>)),
       make_simple_field_accessor ProtobufTypeString ''manufacturer''
        (\<lambda>m. V_String (Startup_Chip_manufacturer m))
        (borrow to_String (\<lambda>x m. m\<lparr>Startup_Chip_manufacturer := x\<rparr>)),
       make_simple_field_accessor ProtobufTypeString ''model''
        (\<lambda>m. V_String (Startup_Chip_model m))
        (borrow to_String (\<lambda>x m. m\<lparr>Startup_Chip_model := x\<rparr>)),
       make_simple_field_accessor ProtobufTypeInt32 ''fd_in''
        (\<lambda>m. V_Int32 (Startup_Chip_fd_in m))
        (borrow to_Int32 (\<lambda>x m. m\<lparr>Startup_Chip_fd_in := x\<rparr>)),
       make_simple_field_accessor ProtobufTypeInt32 ''fd_out''
        (\<lambda>m. V_Int32 (Startup_Chip_fd_out m))
        (borrow to_Int32 (\<lambda>x m. m\<lparr>Startup_Chip_fd_out := x\<rparr>)),
       make_simple_field_accessor ProtobufTypeBool ''loopback''
        (\<lambda>m. V_Bool (Startup_Chip_loopback m))
        (borrow to_Bool (\<lambda>x m. m\<lparr>Startup_Chip_loopback := x\<rparr>))],
      md_file = startup_file_descriptor_proto_data\<rparr>"

definition HCIPacket_descriptor_static :: "('u, 'u HCIPacket) message_descriptor" where
  "HCIPacket_descriptor_static =
     \<lparr>md_name = ''HCIPacket'', md_fields =
      [make_simple_field_accessor (ProtobufTypeEnum ET_HCIPacket_PacketType) ''type''
        (\<lambda>m. V_Enum (HCIPacket_PacketType_value (HCIPacket_field_type m)))
        (borrow to_HCIPacket_PacketType (\<lambda>x m. m\<lparr>HCIPacket_field_type := x\<rparr>)),
       make_simple_field_accessor ProtobufTypeBytes ''packet''
        (\<lambda>m. V_Bytes (HCIPacket_packet m))
        (borrow to_Bytes (\<lambda>x m. m\<lparr>HCIPacket_packet := x\<rparr>))],
      md_file = hci_packet_file_descriptor_proto_data\<rparr>"

definition StreamPacketsRequest_descriptor_static :: "'u protobuf_rt \<Rightarrow> ('u, 'u StreamPacketsRequest) message_descriptor" where
  "StreamPacketsRequest_descriptor_static W =
     \<lparr>md_name = ''StreamPacketsRequest'', md_fields =
      [make_singular_message_accessor MT_ChipInfo ''initial_info''
        StreamPacketsRequest_has_initial_info (\<lambda>m. V_ChipInfo (StreamPacketsRequest_get_initial_info W m)),
       make_singular_message_accessor MT_HCIPacket ''hci_packet''
        StreamPacketsRequest_has_hci_packet (\<lambda>m. V_HCIPacket (StreamPacketsRequest_get_hci_packet W m)),
       make_singular_bytes_accessor ''packet''
        StreamPacketsRequest_has_packet (\<lambda>m. V_Bytes (StreamPacketsRequest_get_packet m))],
      md_file = packet_streamer_file_descriptor_proto_data\<rparr>"

definition StreamPacketsResponse_descriptor_static :: "'u protobuf_rt \<Rightarrow> ('u, 'u StreamPacketsResponse) message_descriptor" where
  "StreamPacketsResponse_descriptor_static W =
     \<lparr>md_name = ''StreamPacketsResponse'', md_fields =
      [make_singular_string_accessor ''error''
        StreamPacketsResponse_has_error (\<lambda>m. V_String (StreamPacketsResponse_get_error m)),
       make_singular_message_accessor MT_HCIPacket ''hci_packet''
        StreamPacketsResponse_has_hci_packet (\<lambda>m. V_HCIPacket (StreamPacketsResponse_get_hci_packet W m)),
       make_singular_bytes_accessor ''packet''
        StreamPacketsResponse_has_packet (\<lambda>m. V_Bytes (StreamPacketsResponse_get_packet m))],
      md_file = packet_streamer_file_descriptor_proto_data\<rparr>"

end
