(* ===== verification/Pb_Object.thy ===== *)
theory Pb_Object
  imports Pb_Reflect
begin

text \<open>
  The part of the generated files that makes a message a dynamic object: the remaining methods
  of \<^verbatim>\<open>impl Message\<close> (\<^verbatim>\<open>as_any\<close>, \<^verbatim>\<open>into_any\<close>, \<^verbatim>\<open>descriptor\<close>, \<^verbatim>\<open>get_unknown_fields\<close>,
  \<^verbatim>\<open>default_instance\<close>), and \<^verbatim>\<open>Default for &M\<close>, \<^verbatim>\<open>Debug\<close>, \<^verbatim>\<open>ProtobufValue\<close>.

  A \<^verbatim>\<open>dyn Any\<close> or \<^verbatim>\<open>dyn Message\<close> of these files is a \<open>message_object\<close>: a message together with
  its type, which is the constructor. A mutable borrow of a field or of the object itself is a
  function that changes it; a \<^verbatim>\<open>&mut dyn Any\<close> cannot change the type, so a function that gives an
  object of another type changes nothing. Parameters are \<^verbatim>\<open>text_format::fmt\<close> of the \<^verbatim>\<open>protobuf\<close> crate and
  its lazily initialised statics \<^verbatim>\<open>LazyV2\<close>: the function \<open>get_lazy\<close> gets the initialiser and the cell.
\<close>

section \<open>Objects\<close>


datatype 'u message_object =
    Obj_Position "'u Position"
  | Obj_Orientation "'u Orientation"
  | Obj_Chip "'u Chip"
  | Obj_Chip_Radio "'u Chip_Radio"
  | Obj_Chip_Bluetooth "'u Chip_Bluetooth"
  | Obj_Device "'u Device"
  | Obj_Scene "'u Scene"
  | Obj_VersionResponse "'u VersionResponse"
  | Obj_SetLinkLossRequest "'u SetLinkLossRequest"
  | Obj_UpdateDeviceRequest "'u UpdateDeviceRequest"
  | Obj_Updates "'u Updates"
  | Obj_GetDevicesResponse "'u GetDevicesResponse"
  | Obj_NetCatStream "'u NetCatStream"
  | Obj_SetPacketCaptureRequest "'u SetPacketCaptureRequest"
  | Obj_StartupInfo "'u StartupInfo"
  | Obj_StartupInfo_Device "'u StartupInfo_Device"
  | Obj_ChipInfo "'u ChipInfo"
  | Obj_Startup_Chip "'u Startup_Chip"
  | Obj_HCIPacket "'u HCIPacket"
  | Obj_StreamPacketsRequest "'u StreamPacketsRequest"
  | Obj_StreamPacketsResponse "'u StreamPacketsResponse"

datatype type_id =
    TypeId_Position
  | TypeId_Orientation
  | TypeId_Chip
  | TypeId_Chip_Radio
  | TypeId_Chip_Bluetooth
  | TypeId_Device
  | TypeId_Scene
  | TypeId_VersionResponse
  | TypeId_SetLinkLossRequest
  | TypeId_UpdateDeviceRequest
  | TypeId_Updates
  | TypeId_GetDevicesResponse
  | TypeId_NetCatStream
  | TypeId_SetPacketCaptureRequest
  | TypeId_StartupInfo
  | TypeId_StartupInfo_Device
  | TypeId_ChipInfo
  | TypeId_Startup_Chip
  | TypeId_HCIPacket
  | TypeId_StreamPacketsRequest
  | TypeId_StreamPacketsResponse

fun any_type_id :: "'u message_object \<Rightarrow> type_id" where
  "any_type_id (Obj_Position m) = TypeId_Position"
| "any_type_id (Obj_Orientation m) = TypeId_Orientation"
| "any_type_id (Obj_Chip m) = TypeId_Chip"
| "any_type_id (Obj_Chip_Radio m) = TypeId_Chip_Radio"
| "any_type_id (Obj_Chip_Bluetooth m) = TypeId_Chip_Bluetooth"
| "any_type_id (Obj_Device m) = TypeId_Device"
| "any_type_id (Obj_Scene m) = TypeId_Scene"
| "any_type_id (Obj_VersionResponse m) = TypeId_VersionResponse"
| "any_type_id (Obj_SetLinkLossRequest m) = TypeId_SetLinkLossRequest"
| "any_type_id (Obj_UpdateDeviceRequest m) = TypeId_UpdateDeviceRequest"
| "any_type_id (Obj_Updates m) = TypeId_Updates"
| "any_type_id (Obj_GetDevicesResponse m) = TypeId_GetDevicesResponse"
| "any_type_id (Obj_NetCatStream m) = TypeId_NetCatStream"
| "any_type_id (Obj_SetPacketCaptureRequest m) = TypeId_SetPacketCaptureRequest"
| "any_type_id (Obj_StartupInfo m) = TypeId_StartupInfo"
| "any_type_id (Obj_StartupInfo_Device m) = TypeId_StartupInfo_Device"
| "any_type_id (Obj_ChipInfo m) = TypeId_ChipInfo"
| "any_type_id (Obj_Startup_Chip m) = TypeId_Startup_Chip"
| "any_type_id (Obj_HCIPacket m) = TypeId_HCIPacket"
| "any_type_id (Obj_StreamPacketsRequest m) = TypeId_StreamPacketsRequest"
| "any_type_id (Obj_StreamPacketsResponse m) = TypeId_StreamPacketsResponse"

text \<open>\<^verbatim>\<open>downcast_ref\<close> of the standard library, for each message type.\<close>

definition downcast_Position :: "'u message_object \<Rightarrow> 'u Position option" where
  "downcast_Position a = (case a of Obj_Position m \<Rightarrow> Some m | _ \<Rightarrow> None)"

definition downcast_Orientation :: "'u message_object \<Rightarrow> 'u Orientation option" where
  "downcast_Orientation a = (case a of Obj_Orientation m \<Rightarrow> Some m | _ \<Rightarrow> None)"

definition downcast_Chip :: "'u message_object \<Rightarrow> 'u Chip option" where
  "downcast_Chip a = (case a of Obj_Chip m \<Rightarrow> Some m | _ \<Rightarrow> None)"

definition downcast_Chip_Radio :: "'u message_object \<Rightarrow> 'u Chip_Radio option" where
  "downcast_Chip_Radio a = (case a of Obj_Chip_Radio m \<Rightarrow> Some m | _ \<Rightarrow> None)"

definition downcast_Chip_Bluetooth :: "'u message_object \<Rightarrow> 'u Chip_Bluetooth option" where
  "downcast_Chip_Bluetooth a = (case a of Obj_Chip_Bluetooth m \<Rightarrow> Some m | _ \<Rightarrow> None)"

definition downcast_Device :: "'u message_object \<Rightarrow> 'u Device option" where
  "downcast_Device a = (case a of Obj_Device m \<Rightarrow> Some m | _ \<Rightarrow> None)"

definition downcast_Scene :: "'u message_object \<Rightarrow> 'u Scene option" where
  "downcast_Scene a = (case a of Obj_Scene m \<Rightarrow> Some m | _ \<Rightarrow> None)"

definition downcast_VersionResponse :: "'u message_object \<Rightarrow> 'u VersionResponse option" where
  "downcast_VersionResponse a = (case a of Obj_VersionResponse m \<Rightarrow> Some m | _ \<Rightarrow> None)"

definition downcast_SetLinkLossRequest :: "'u message_object \<Rightarrow> 'u SetLinkLossRequest option" where
  "downcast_SetLinkLossRequest a = (case a of Obj_SetLinkLossRequest m \<Rightarrow> Some m | _ \<Rightarrow> None)"

definition downcast_UpdateDeviceRequest :: "'u message_object \<Rightarrow> 'u UpdateDeviceRequest option" where
  "downcast_UpdateDeviceRequest a = (case a of Obj_UpdateDeviceRequest m \<Rightarrow> Some m | _ \<Rightarrow> None)"

definition downcast_Updates :: "'u message_object \<Rightarrow> 'u Updates option" where
  "downcast_Updates a = (case a of Obj_Updates m \<Rightarrow> Some m | _ \<Rightarrow> None)"

definition downcast_GetDevicesResponse :: "'u message_object \<Rightarrow> 'u GetDevicesResponse option" where
  "downcast_GetDevicesResponse a = (case a of Obj_GetDevicesResponse m \<Rightarrow> Some m | _ \<Rightarrow> None)"

definition downcast_NetCatStream :: "'u message_object \<Rightarrow> 'u NetCatStream option" where
  "downcast_NetCatStream a = (case a of Obj_NetCatStream m \<Rightarrow> Some m | _ \<Rightarrow> None)"

definition downcast_SetPacketCaptureRequest :: "'u message_object \<Rightarrow> 'u SetPacketCaptureRequest option" where
  "downcast_SetPacketCaptureRequest a = (case a of Obj_SetPacketCaptureRequest m \<Rightarrow> Some m | _ \<Rightarrow> None)"

definition downcast_StartupInfo :: "'u message_object \<Rightarrow> 'u StartupInfo option" where
  "downcast_StartupInfo a = (case a of Obj_StartupInfo m \<Rightarrow> Some m | _ \<Rightarrow> None)"

definition downcast_StartupInfo_Device :: "'u message_object \<Rightarrow> 'u StartupInfo_Device option" where
  "downcast_StartupInfo_Device a = (case a of Obj_StartupInfo_Device m \<Rightarrow> Some m | _ \<Rightarrow> None)"

definition downcast_ChipInfo :: "'u message_object \<Rightarrow> 'u ChipInfo option" where
  "downcast_ChipInfo a = (case a of Obj_ChipInfo m \<Rightarrow> Some m | _ \<Rightarrow> None)"

definition downcast_Startup_Chip :: "'u message_object \<Rightarrow> 'u Startup_Chip option" where
  "downcast_Startup_Chip a = (case a of Obj_Startup_Chip m \<Rightarrow> Some m | _ \<Rightarrow> None)"

definition downcast_HCIPacket :: "'u message_object \<Rightarrow> 'u HCIPacket option" where
  "downcast_HCIPacket a = (case a of Obj_HCIPacket m \<Rightarrow> Some m | _ \<Rightarrow> None)"

definition downcast_StreamPacketsRequest :: "'u message_object \<Rightarrow> 'u StreamPacketsRequest option" where
  "downcast_StreamPacketsRequest a = (case a of Obj_StreamPacketsRequest m \<Rightarrow> Some m | _ \<Rightarrow> None)"

definition downcast_StreamPacketsResponse :: "'u message_object \<Rightarrow> 'u StreamPacketsResponse option" where
  "downcast_StreamPacketsResponse a = (case a of Obj_StreamPacketsResponse m \<Rightarrow> Some m | _ \<Rightarrow> None)"

text \<open>
  \<^verbatim>\<open>ReflectValueRef\<close>: a message, or a value of an enumeration, which \<^verbatim>\<open>ProtobufEnum::descriptor\<close> identifies by
  the descriptor of the enumeration and the number.
\<close>

datatype 'u reflect_value_ref =
    ReflectValueRef_Message "'u message_object"
  | ReflectValueRef_Enum enum_descriptor i32

section \<open>Statics\<close>

text \<open>
  \<^verbatim>\<open>LazyV2<T>\<close>: the first \<^verbatim>\<open>get\<close> runs its initialiser and keeps the value, the later ones give the value that
  is kept. \<open>content\<close> is what a cell keeps.
\<close>

type_synonym ('t, 'c) lazy_get = "(unit \<Rightarrow> 't) \<Rightarrow> 'c \<Rightarrow> 't \<times> 'c"

locale lazy_static =
  fixes get_lazy :: "('t, 'c) lazy_get"
    and content :: "'c \<Rightarrow> 't option"
  assumes first: "content c = None \<Longrightarrow> fst (get_lazy f c) = f () \<and> content (snd (get_lazy f c)) = Some (f ())"
    and later: "content c = Some v \<Longrightarrow> fst (get_lazy f c) = v \<and> content (snd (get_lazy f c)) = Some v"
begin

text \<open>A static that only one initialiser is used with.\<close>

definition holds :: "(unit \<Rightarrow> 't) \<Rightarrow> 'c \<Rightarrow> bool" where
  "holds f c \<longleftrightarrow> content c = None \<or> content c = Some (f ())"

lemma holds_get: "holds f c \<Longrightarrow> fst (get_lazy f c) = f () \<and> holds f (snd (get_lazy f c))"
  using first later unfolding holds_def by blast

text \<open>Every use of a static sees the same value.\<close>

primrec uses :: "(unit \<Rightarrow> 't) \<Rightarrow> nat \<Rightarrow> 'c \<Rightarrow> 't list" where
  "uses f 0 c = []"
| "uses f (Suc n) c = (case get_lazy f c of (v, c') \<Rightarrow> v # uses f n c')"

lemma uses_same: "holds f c \<Longrightarrow> uses f n c = replicate n (f ())"
proof (induction n arbitrary: c)
  case (Suc n)
  then show ?case
    using holds_get [OF Suc.prems] by (cases "get_lazy f c") simp
qed simp

end

text \<open>A cell that is empty or full keeps the contract.\<close>

definition cell_get :: "('t, 't option) lazy_get" where
  "cell_get f c = (case c of None \<Rightarrow> (f (), Some (f ())) | Some v \<Rightarrow> (v, c))"

interpretation cell: lazy_static cell_get "\<lambda>c. c"
  by unfold_locales (simp_all add: cell_get_def)

section \<open>The contract of the casts\<close>

text \<open>
  \<open>as_any\<close>, \<open>as_any_mut\<close> and \<open>into_any\<close> of a message type, \<open>downcast\<close> of the standard library and the type
  identifier. The client lemmas: a cast succeeds exactly on the objects of its type and gives back the
  message, and a change through the mutable object arrives in the message.
\<close>

locale dynamic_casts =
  fixes as_any :: "'m \<Rightarrow> 'u message_object"
    and into_any :: "'m \<Rightarrow> 'u message_object"
    and as_any_mut :: "('u message_object \<Rightarrow> 'u message_object) \<Rightarrow> 'm \<Rightarrow> 'm"
    and downcast :: "'u message_object \<Rightarrow> 'm option"
    and tid :: type_id
  assumes down_up: "downcast (as_any m) = Some m"
    and up_down: "downcast a = Some m \<Longrightarrow> a = as_any m"
    and typed: "downcast a \<noteq> None \<longleftrightarrow> any_type_id a = tid"
    and into: "into_any m = as_any m"
    and borrowed: "as_any_mut g m = (case downcast (g (as_any m)) of Some m' \<Rightarrow> m' | None \<Rightarrow> m)"
begin

lemma downcast_iff: "downcast a = Some m \<longleftrightarrow> a = as_any m"
  using down_up up_down by auto

lemma type_iff: "any_type_id a = tid \<longleftrightarrow> (\<exists>m. a = into_any m)"
  using typed [of a] by (auto simp: downcast_iff into)

lemma change_through_any: "as_any_mut (\<lambda>a. case downcast a of Some x \<Rightarrow> as_any (h x) | None \<Rightarrow> a) m = h m"
  by (simp add: borrowed down_up)

end


section \<open>\<^verbatim>\<open>Position\<close>\<close>

definition Position_get_unknown_fields :: "'u Position \<Rightarrow> 'u" where
  "Position_get_unknown_fields m = unknown_fields m"
definition Position_mut_unknown_fields :: "('u \<Rightarrow> 'u) \<Rightarrow> 'u Position \<Rightarrow> 'u Position" where
  "Position_mut_unknown_fields g m = m\<lparr>unknown_fields := g (unknown_fields m)\<rparr>"
definition Position_as_any :: "'u Position \<Rightarrow> 'u message_object" where
  "Position_as_any m = Obj_Position m"
definition Position_as_any_mut :: "('u message_object \<Rightarrow> 'u message_object) \<Rightarrow> 'u Position \<Rightarrow> 'u Position" where
  "Position_as_any_mut g m = (case downcast_Position (g (Obj_Position m)) of Some m' \<Rightarrow> m' | None \<Rightarrow> m)"
definition Position_into_any :: "'u Position \<Rightarrow> 'u message_object" where
  "Position_into_any m = Obj_Position m"
definition Position_descriptor :: "'u protobuf_rt \<Rightarrow> 'u Position \<Rightarrow> ('u, 'u Position) message_descriptor" where
  "Position_descriptor W m = Position_descriptor_static"
definition Position_Message_new :: "'u protobuf_rt \<Rightarrow> 'u Position" where
  "Position_Message_new W = Position_new W"
definition Position_default_instance :: "'u protobuf_rt \<Rightarrow> ('u Position, 'c) lazy_get \<Rightarrow> 'c \<Rightarrow> 'u Position \<times> 'c" where
  "Position_default_instance W get_lazy instance = get_lazy (\<lambda>_. Position_new W) instance"
definition Position_ref_default :: "'u protobuf_rt \<Rightarrow> ('u Position, 'c) lazy_get \<Rightarrow> 'c \<Rightarrow> 'u Position \<times> 'c" where
  "Position_ref_default W get_lazy instance = Position_default_instance W get_lazy instance"
definition Position_fmt :: "('u message_object \<Rightarrow> 'f \<Rightarrow> 'f result) \<Rightarrow> 'u Position \<Rightarrow> 'f \<Rightarrow> 'f result" where
  "Position_fmt text_format m f = text_format (Obj_Position m) f"
definition Position_as_ref :: "'u Position \<Rightarrow> 'u reflect_value_ref" where
  "Position_as_ref m = ReflectValueRef_Message (Obj_Position m)"

lemma Position_default_instance_new:
  "lazy_static g k \<Longrightarrow> lazy_static.holds k (\<lambda>_. Position_new W) c \<Longrightarrow>
    fst (Position_ref_default W g c) = Position_new W \<and> lazy_static.holds k (\<lambda>_. Position_new W) (snd (Position_ref_default W g c))"
  by (simp add: Position_ref_default_def Position_default_instance_def lazy_static.holds_get)

interpretation Position_casts: dynamic_casts Position_as_any Position_into_any Position_as_any_mut downcast_Position TypeId_Position
  by unfold_locales (auto simp: Position_as_any_def Position_into_any_def Position_as_any_mut_def downcast_Position_def split: message_object.splits)

section \<open>\<^verbatim>\<open>Orientation\<close>\<close>

definition Orientation_get_unknown_fields :: "'u Orientation \<Rightarrow> 'u" where
  "Orientation_get_unknown_fields m = unknown_fields m"
definition Orientation_mut_unknown_fields :: "('u \<Rightarrow> 'u) \<Rightarrow> 'u Orientation \<Rightarrow> 'u Orientation" where
  "Orientation_mut_unknown_fields g m = m\<lparr>unknown_fields := g (unknown_fields m)\<rparr>"
definition Orientation_as_any :: "'u Orientation \<Rightarrow> 'u message_object" where
  "Orientation_as_any m = Obj_Orientation m"
definition Orientation_as_any_mut :: "('u message_object \<Rightarrow> 'u message_object) \<Rightarrow> 'u Orientation \<Rightarrow> 'u Orientation" where
  "Orientation_as_any_mut g m = (case downcast_Orientation (g (Obj_Orientation m)) of Some m' \<Rightarrow> m' | None \<Rightarrow> m)"
definition Orientation_into_any :: "'u Orientation \<Rightarrow> 'u message_object" where
  "Orientation_into_any m = Obj_Orientation m"
definition Orientation_descriptor :: "'u protobuf_rt \<Rightarrow> 'u Orientation \<Rightarrow> ('u, 'u Orientation) message_descriptor" where
  "Orientation_descriptor W m = Orientation_descriptor_static"
definition Orientation_Message_new :: "'u protobuf_rt \<Rightarrow> 'u Orientation" where
  "Orientation_Message_new W = Orientation_new W"
definition Orientation_default_instance :: "'u protobuf_rt \<Rightarrow> ('u Orientation, 'c) lazy_get \<Rightarrow> 'c \<Rightarrow> 'u Orientation \<times> 'c" where
  "Orientation_default_instance W get_lazy instance = get_lazy (\<lambda>_. Orientation_new W) instance"
definition Orientation_ref_default :: "'u protobuf_rt \<Rightarrow> ('u Orientation, 'c) lazy_get \<Rightarrow> 'c \<Rightarrow> 'u Orientation \<times> 'c" where
  "Orientation_ref_default W get_lazy instance = Orientation_default_instance W get_lazy instance"
definition Orientation_fmt :: "('u message_object \<Rightarrow> 'f \<Rightarrow> 'f result) \<Rightarrow> 'u Orientation \<Rightarrow> 'f \<Rightarrow> 'f result" where
  "Orientation_fmt text_format m f = text_format (Obj_Orientation m) f"
definition Orientation_as_ref :: "'u Orientation \<Rightarrow> 'u reflect_value_ref" where
  "Orientation_as_ref m = ReflectValueRef_Message (Obj_Orientation m)"

lemma Orientation_default_instance_new:
  "lazy_static g k \<Longrightarrow> lazy_static.holds k (\<lambda>_. Orientation_new W) c \<Longrightarrow>
    fst (Orientation_ref_default W g c) = Orientation_new W \<and> lazy_static.holds k (\<lambda>_. Orientation_new W) (snd (Orientation_ref_default W g c))"
  by (simp add: Orientation_ref_default_def Orientation_default_instance_def lazy_static.holds_get)

interpretation Orientation_casts: dynamic_casts Orientation_as_any Orientation_into_any Orientation_as_any_mut downcast_Orientation TypeId_Orientation
  by unfold_locales (auto simp: Orientation_as_any_def Orientation_into_any_def Orientation_as_any_mut_def downcast_Orientation_def split: message_object.splits)

section \<open>\<^verbatim>\<open>Chip\<close>\<close>

definition Chip_get_unknown_fields :: "'u Chip \<Rightarrow> 'u" where
  "Chip_get_unknown_fields m = unknown_fields m"
definition Chip_mut_unknown_fields :: "('u \<Rightarrow> 'u) \<Rightarrow> 'u Chip \<Rightarrow> 'u Chip" where
  "Chip_mut_unknown_fields g m = m\<lparr>unknown_fields := g (unknown_fields m)\<rparr>"
definition Chip_as_any :: "'u Chip \<Rightarrow> 'u message_object" where
  "Chip_as_any m = Obj_Chip m"
definition Chip_as_any_mut :: "('u message_object \<Rightarrow> 'u message_object) \<Rightarrow> 'u Chip \<Rightarrow> 'u Chip" where
  "Chip_as_any_mut g m = (case downcast_Chip (g (Obj_Chip m)) of Some m' \<Rightarrow> m' | None \<Rightarrow> m)"
definition Chip_into_any :: "'u Chip \<Rightarrow> 'u message_object" where
  "Chip_into_any m = Obj_Chip m"
definition Chip_descriptor :: "'u protobuf_rt \<Rightarrow> 'u Chip \<Rightarrow> ('u, 'u Chip) message_descriptor" where
  "Chip_descriptor W m = Chip_descriptor_static W"
definition Chip_Message_new :: "'u protobuf_rt \<Rightarrow> 'u Chip" where
  "Chip_Message_new W = Chip_new W"
definition Chip_default_instance :: "'u protobuf_rt \<Rightarrow> ('u Chip, 'c) lazy_get \<Rightarrow> 'c \<Rightarrow> 'u Chip \<times> 'c" where
  "Chip_default_instance W get_lazy instance = get_lazy (\<lambda>_. Chip_new W) instance"
definition Chip_ref_default :: "'u protobuf_rt \<Rightarrow> ('u Chip, 'c) lazy_get \<Rightarrow> 'c \<Rightarrow> 'u Chip \<times> 'c" where
  "Chip_ref_default W get_lazy instance = Chip_default_instance W get_lazy instance"
definition Chip_fmt :: "('u message_object \<Rightarrow> 'f \<Rightarrow> 'f result) \<Rightarrow> 'u Chip \<Rightarrow> 'f \<Rightarrow> 'f result" where
  "Chip_fmt text_format m f = text_format (Obj_Chip m) f"
definition Chip_as_ref :: "'u Chip \<Rightarrow> 'u reflect_value_ref" where
  "Chip_as_ref m = ReflectValueRef_Message (Obj_Chip m)"

lemma Chip_default_instance_new:
  "lazy_static g k \<Longrightarrow> lazy_static.holds k (\<lambda>_. Chip_new W) c \<Longrightarrow>
    fst (Chip_ref_default W g c) = Chip_new W \<and> lazy_static.holds k (\<lambda>_. Chip_new W) (snd (Chip_ref_default W g c))"
  by (simp add: Chip_ref_default_def Chip_default_instance_def lazy_static.holds_get)

interpretation Chip_casts: dynamic_casts Chip_as_any Chip_into_any Chip_as_any_mut downcast_Chip TypeId_Chip
  by unfold_locales (auto simp: Chip_as_any_def Chip_into_any_def Chip_as_any_mut_def downcast_Chip_def split: message_object.splits)

section \<open>\<^verbatim>\<open>Chip_Radio\<close>\<close>

definition Chip_Radio_get_unknown_fields :: "'u Chip_Radio \<Rightarrow> 'u" where
  "Chip_Radio_get_unknown_fields m = unknown_fields m"
definition Chip_Radio_mut_unknown_fields :: "('u \<Rightarrow> 'u) \<Rightarrow> 'u Chip_Radio \<Rightarrow> 'u Chip_Radio" where
  "Chip_Radio_mut_unknown_fields g m = m\<lparr>unknown_fields := g (unknown_fields m)\<rparr>"
definition Chip_Radio_as_any :: "'u Chip_Radio \<Rightarrow> 'u message_object" where
  "Chip_Radio_as_any m = Obj_Chip_Radio m"
definition Chip_Radio_as_any_mut :: "('u message_object \<Rightarrow> 'u message_object) \<Rightarrow> 'u Chip_Radio \<Rightarrow> 'u Chip_Radio" where
  "Chip_Radio_as_any_mut g m = (case downcast_Chip_Radio (g (Obj_Chip_Radio m)) of Some m' \<Rightarrow> m' | None \<Rightarrow> m)"
definition Chip_Radio_into_any :: "'u Chip_Radio \<Rightarrow> 'u message_object" where
  "Chip_Radio_into_any m = Obj_Chip_Radio m"
definition Chip_Radio_descriptor :: "'u protobuf_rt \<Rightarrow> 'u Chip_Radio \<Rightarrow> ('u, 'u Chip_Radio) message_descriptor" where
  "Chip_Radio_descriptor W m = Chip_Radio_descriptor_static"
definition Chip_Radio_Message_new :: "'u protobuf_rt \<Rightarrow> 'u Chip_Radio" where
  "Chip_Radio_Message_new W = Chip_Radio_new W"
definition Chip_Radio_default_instance :: "'u protobuf_rt \<Rightarrow> ('u Chip_Radio, 'c) lazy_get \<Rightarrow> 'c \<Rightarrow> 'u Chip_Radio \<times> 'c" where
  "Chip_Radio_default_instance W get_lazy instance = get_lazy (\<lambda>_. Chip_Radio_new W) instance"
definition Chip_Radio_ref_default :: "'u protobuf_rt \<Rightarrow> ('u Chip_Radio, 'c) lazy_get \<Rightarrow> 'c \<Rightarrow> 'u Chip_Radio \<times> 'c" where
  "Chip_Radio_ref_default W get_lazy instance = Chip_Radio_default_instance W get_lazy instance"
definition Chip_Radio_fmt :: "('u message_object \<Rightarrow> 'f \<Rightarrow> 'f result) \<Rightarrow> 'u Chip_Radio \<Rightarrow> 'f \<Rightarrow> 'f result" where
  "Chip_Radio_fmt text_format m f = text_format (Obj_Chip_Radio m) f"
definition Chip_Radio_as_ref :: "'u Chip_Radio \<Rightarrow> 'u reflect_value_ref" where
  "Chip_Radio_as_ref m = ReflectValueRef_Message (Obj_Chip_Radio m)"

lemma Chip_Radio_default_instance_new:
  "lazy_static g k \<Longrightarrow> lazy_static.holds k (\<lambda>_. Chip_Radio_new W) c \<Longrightarrow>
    fst (Chip_Radio_ref_default W g c) = Chip_Radio_new W \<and> lazy_static.holds k (\<lambda>_. Chip_Radio_new W) (snd (Chip_Radio_ref_default W g c))"
  by (simp add: Chip_Radio_ref_default_def Chip_Radio_default_instance_def lazy_static.holds_get)

interpretation Chip_Radio_casts: dynamic_casts Chip_Radio_as_any Chip_Radio_into_any Chip_Radio_as_any_mut downcast_Chip_Radio TypeId_Chip_Radio
  by unfold_locales (auto simp: Chip_Radio_as_any_def Chip_Radio_into_any_def Chip_Radio_as_any_mut_def downcast_Chip_Radio_def split: message_object.splits)

section \<open>\<^verbatim>\<open>Chip_Bluetooth\<close>\<close>

definition Chip_Bluetooth_get_unknown_fields :: "'u Chip_Bluetooth \<Rightarrow> 'u" where
  "Chip_Bluetooth_get_unknown_fields m = unknown_fields m"
definition Chip_Bluetooth_mut_unknown_fields :: "('u \<Rightarrow> 'u) \<Rightarrow> 'u Chip_Bluetooth \<Rightarrow> 'u Chip_Bluetooth" where
  "Chip_Bluetooth_mut_unknown_fields g m = m\<lparr>unknown_fields := g (unknown_fields m)\<rparr>"
definition Chip_Bluetooth_as_any :: "'u Chip_Bluetooth \<Rightarrow> 'u message_object" where
  "Chip_Bluetooth_as_any m = Obj_Chip_Bluetooth m"
definition Chip_Bluetooth_as_any_mut :: "('u message_object \<Rightarrow> 'u message_object) \<Rightarrow> 'u Chip_Bluetooth \<Rightarrow> 'u Chip_Bluetooth" where
  "Chip_Bluetooth_as_any_mut g m = (case downcast_Chip_Bluetooth (g (Obj_Chip_Bluetooth m)) of Some m' \<Rightarrow> m' | None \<Rightarrow> m)"
definition Chip_Bluetooth_into_any :: "'u Chip_Bluetooth \<Rightarrow> 'u message_object" where
  "Chip_Bluetooth_into_any m = Obj_Chip_Bluetooth m"
definition Chip_Bluetooth_descriptor :: "'u protobuf_rt \<Rightarrow> 'u Chip_Bluetooth \<Rightarrow> ('u, 'u Chip_Bluetooth) message_descriptor" where
  "Chip_Bluetooth_descriptor W m = Chip_Bluetooth_descriptor_static"
definition Chip_Bluetooth_Message_new :: "'u protobuf_rt \<Rightarrow> 'u Chip_Bluetooth" where
  "Chip_Bluetooth_Message_new W = Chip_Bluetooth_new W"
definition Chip_Bluetooth_default_instance :: "'u protobuf_rt \<Rightarrow> ('u Chip_Bluetooth, 'c) lazy_get \<Rightarrow> 'c \<Rightarrow> 'u Chip_Bluetooth \<times> 'c" where
  "Chip_Bluetooth_default_instance W get_lazy instance = get_lazy (\<lambda>_. Chip_Bluetooth_new W) instance"
definition Chip_Bluetooth_ref_default :: "'u protobuf_rt \<Rightarrow> ('u Chip_Bluetooth, 'c) lazy_get \<Rightarrow> 'c \<Rightarrow> 'u Chip_Bluetooth \<times> 'c" where
  "Chip_Bluetooth_ref_default W get_lazy instance = Chip_Bluetooth_default_instance W get_lazy instance"
definition Chip_Bluetooth_fmt :: "('u message_object \<Rightarrow> 'f \<Rightarrow> 'f result) \<Rightarrow> 'u Chip_Bluetooth \<Rightarrow> 'f \<Rightarrow> 'f result" where
  "Chip_Bluetooth_fmt text_format m f = text_format (Obj_Chip_Bluetooth m) f"
definition Chip_Bluetooth_as_ref :: "'u Chip_Bluetooth \<Rightarrow> 'u reflect_value_ref" where
  "Chip_Bluetooth_as_ref m = ReflectValueRef_Message (Obj_Chip_Bluetooth m)"

lemma Chip_Bluetooth_default_instance_new:
  "lazy_static g k \<Longrightarrow> lazy_static.holds k (\<lambda>_. Chip_Bluetooth_new W) c \<Longrightarrow>
    fst (Chip_Bluetooth_ref_default W g c) = Chip_Bluetooth_new W \<and> lazy_static.holds k (\<lambda>_. Chip_Bluetooth_new W) (snd (Chip_Bluetooth_ref_default W g c))"
  by (simp add: Chip_Bluetooth_ref_default_def Chip_Bluetooth_default_instance_def lazy_static.holds_get)

interpretation Chip_Bluetooth_casts: dynamic_casts Chip_Bluetooth_as_any Chip_Bluetooth_into_any Chip_Bluetooth_as_any_mut downcast_Chip_Bluetooth TypeId_Chip_Bluetooth
  by unfold_locales (auto simp: Chip_Bluetooth_as_any_def Chip_Bluetooth_into_any_def Chip_Bluetooth_as_any_mut_def downcast_Chip_Bluetooth_def split: message_object.splits)

section \<open>\<^verbatim>\<open>Device\<close>\<close>

definition Device_get_unknown_fields :: "'u Device \<Rightarrow> 'u" where
  "Device_get_unknown_fields m = unknown_fields m"
definition Device_mut_unknown_fields :: "('u \<Rightarrow> 'u) \<Rightarrow> 'u Device \<Rightarrow> 'u Device" where
  "Device_mut_unknown_fields g m = m\<lparr>unknown_fields := g (unknown_fields m)\<rparr>"
definition Device_as_any :: "'u Device \<Rightarrow> 'u message_object" where
  "Device_as_any m = Obj_Device m"
definition Device_as_any_mut :: "('u message_object \<Rightarrow> 'u message_object) \<Rightarrow> 'u Device \<Rightarrow> 'u Device" where
  "Device_as_any_mut g m = (case downcast_Device (g (Obj_Device m)) of Some m' \<Rightarrow> m' | None \<Rightarrow> m)"
definition Device_into_any :: "'u Device \<Rightarrow> 'u message_object" where
  "Device_into_any m = Obj_Device m"
definition Device_descriptor :: "'u protobuf_rt \<Rightarrow> 'u Device \<Rightarrow> ('u, 'u Device) message_descriptor" where
  "Device_descriptor W m = Device_descriptor_static"
definition Device_Message_new :: "'u protobuf_rt \<Rightarrow> 'u Device" where
  "Device_Message_new W = Device_new W"
definition Device_default_instance :: "'u protobuf_rt \<Rightarrow> ('u Device, 'c) lazy_get \<Rightarrow> 'c \<Rightarrow> 'u Device \<times> 'c" where
  "Device_default_instance W get_lazy instance = get_lazy (\<lambda>_. Device_new W) instance"
definition Device_ref_default :: "'u protobuf_rt \<Rightarrow> ('u Device, 'c) lazy_get \<Rightarrow> 'c \<Rightarrow> 'u Device \<times> 'c" where
  "Device_ref_default W get_lazy instance = Device_default_instance W get_lazy instance"
definition Device_fmt :: "('u message_object \<Rightarrow> 'f \<Rightarrow> 'f result) \<Rightarrow> 'u Device \<Rightarrow> 'f \<Rightarrow> 'f result" where
  "Device_fmt text_format m f = text_format (Obj_Device m) f"
definition Device_as_ref :: "'u Device \<Rightarrow> 'u reflect_value_ref" where
  "Device_as_ref m = ReflectValueRef_Message (Obj_Device m)"

lemma Device_default_instance_new:
  "lazy_static g k \<Longrightarrow> lazy_static.holds k (\<lambda>_. Device_new W) c \<Longrightarrow>
    fst (Device_ref_default W g c) = Device_new W \<and> lazy_static.holds k (\<lambda>_. Device_new W) (snd (Device_ref_default W g c))"
  by (simp add: Device_ref_default_def Device_default_instance_def lazy_static.holds_get)

interpretation Device_casts: dynamic_casts Device_as_any Device_into_any Device_as_any_mut downcast_Device TypeId_Device
  by unfold_locales (auto simp: Device_as_any_def Device_into_any_def Device_as_any_mut_def downcast_Device_def split: message_object.splits)

section \<open>\<^verbatim>\<open>Scene\<close>\<close>

definition Scene_get_unknown_fields :: "'u Scene \<Rightarrow> 'u" where
  "Scene_get_unknown_fields m = unknown_fields m"
definition Scene_mut_unknown_fields :: "('u \<Rightarrow> 'u) \<Rightarrow> 'u Scene \<Rightarrow> 'u Scene" where
  "Scene_mut_unknown_fields g m = m\<lparr>unknown_fields := g (unknown_fields m)\<rparr>"
definition Scene_as_any :: "'u Scene \<Rightarrow> 'u message_object" where
  "Scene_as_any m = Obj_Scene m"
definition Scene_as_any_mut :: "('u message_object \<Rightarrow> 'u message_object) \<Rightarrow> 'u Scene \<Rightarrow> 'u Scene" where
  "Scene_as_any_mut g m = (case downcast_Scene (g (Obj_Scene m)) of Some m' \<Rightarrow> m' | None \<Rightarrow> m)"
definition Scene_into_any :: "'u Scene \<Rightarrow> 'u message_object" where
  "Scene_into_any m = Obj_Scene m"
definition Scene_descriptor :: "'u protobuf_rt \<Rightarrow> 'u Scene \<Rightarrow> ('u, 'u Scene) message_descriptor" where
  "Scene_descriptor W m = Scene_descriptor_static"
definition Scene_Message_new :: "'u protobuf_rt \<Rightarrow> 'u Scene" where
  "Scene_Message_new W = Scene_new W"
definition Scene_default_instance :: "'u protobuf_rt \<Rightarrow> ('u Scene, 'c) lazy_get \<Rightarrow> 'c \<Rightarrow> 'u Scene \<times> 'c" where
  "Scene_default_instance W get_lazy instance = get_lazy (\<lambda>_. Scene_new W) instance"
definition Scene_ref_default :: "'u protobuf_rt \<Rightarrow> ('u Scene, 'c) lazy_get \<Rightarrow> 'c \<Rightarrow> 'u Scene \<times> 'c" where
  "Scene_ref_default W get_lazy instance = Scene_default_instance W get_lazy instance"
definition Scene_fmt :: "('u message_object \<Rightarrow> 'f \<Rightarrow> 'f result) \<Rightarrow> 'u Scene \<Rightarrow> 'f \<Rightarrow> 'f result" where
  "Scene_fmt text_format m f = text_format (Obj_Scene m) f"
definition Scene_as_ref :: "'u Scene \<Rightarrow> 'u reflect_value_ref" where
  "Scene_as_ref m = ReflectValueRef_Message (Obj_Scene m)"

lemma Scene_default_instance_new:
  "lazy_static g k \<Longrightarrow> lazy_static.holds k (\<lambda>_. Scene_new W) c \<Longrightarrow>
    fst (Scene_ref_default W g c) = Scene_new W \<and> lazy_static.holds k (\<lambda>_. Scene_new W) (snd (Scene_ref_default W g c))"
  by (simp add: Scene_ref_default_def Scene_default_instance_def lazy_static.holds_get)

interpretation Scene_casts: dynamic_casts Scene_as_any Scene_into_any Scene_as_any_mut downcast_Scene TypeId_Scene
  by unfold_locales (auto simp: Scene_as_any_def Scene_into_any_def Scene_as_any_mut_def downcast_Scene_def split: message_object.splits)

section \<open>\<^verbatim>\<open>VersionResponse\<close>\<close>

definition VersionResponse_get_unknown_fields :: "'u VersionResponse \<Rightarrow> 'u" where
  "VersionResponse_get_unknown_fields m = unknown_fields m"
definition VersionResponse_mut_unknown_fields :: "('u \<Rightarrow> 'u) \<Rightarrow> 'u VersionResponse \<Rightarrow> 'u VersionResponse" where
  "VersionResponse_mut_unknown_fields g m = m\<lparr>unknown_fields := g (unknown_fields m)\<rparr>"
definition VersionResponse_as_any :: "'u VersionResponse \<Rightarrow> 'u message_object" where
  "VersionResponse_as_any m = Obj_VersionResponse m"
definition VersionResponse_as_any_mut :: "('u message_object \<Rightarrow> 'u message_object) \<Rightarrow> 'u VersionResponse \<Rightarrow> 'u VersionResponse" where
  "VersionResponse_as_any_mut g m = (case downcast_VersionResponse (g (Obj_VersionResponse m)) of Some m' \<Rightarrow> m' | None \<Rightarrow> m)"
definition VersionResponse_into_any :: "'u VersionResponse \<Rightarrow> 'u message_object" where
  "VersionResponse_into_any m = Obj_VersionResponse m"
definition VersionResponse_descriptor :: "'u protobuf_rt \<Rightarrow> 'u VersionResponse \<Rightarrow> ('u, 'u VersionResponse) message_descriptor" where
  "VersionResponse_descriptor W m = VersionResponse_descriptor_static"
definition VersionResponse_Message_new :: "'u protobuf_rt \<Rightarrow> 'u VersionResponse" where
  "VersionResponse_Message_new W = VersionResponse_new W"
definition VersionResponse_default_instance :: "'u protobuf_rt \<Rightarrow> ('u VersionResponse, 'c) lazy_get \<Rightarrow> 'c \<Rightarrow> 'u VersionResponse \<times> 'c" where
  "VersionResponse_default_instance W get_lazy instance = get_lazy (\<lambda>_. VersionResponse_new W) instance"
definition VersionResponse_ref_default :: "'u protobuf_rt \<Rightarrow> ('u VersionResponse, 'c) lazy_get \<Rightarrow> 'c \<Rightarrow> 'u VersionResponse \<times> 'c" where
  "VersionResponse_ref_default W get_lazy instance = VersionResponse_default_instance W get_lazy instance"
definition VersionResponse_fmt :: "('u message_object \<Rightarrow> 'f \<Rightarrow> 'f result) \<Rightarrow> 'u VersionResponse \<Rightarrow> 'f \<Rightarrow> 'f result" where
  "VersionResponse_fmt text_format m f = text_format (Obj_VersionResponse m) f"
definition VersionResponse_as_ref :: "'u VersionResponse \<Rightarrow> 'u reflect_value_ref" where
  "VersionResponse_as_ref m = ReflectValueRef_Message (Obj_VersionResponse m)"

lemma VersionResponse_default_instance_new:
  "lazy_static g k \<Longrightarrow> lazy_static.holds k (\<lambda>_. VersionResponse_new W) c \<Longrightarrow>
    fst (VersionResponse_ref_default W g c) = VersionResponse_new W \<and> lazy_static.holds k (\<lambda>_. VersionResponse_new W) (snd (VersionResponse_ref_default W g c))"
  by (simp add: VersionResponse_ref_default_def VersionResponse_default_instance_def lazy_static.holds_get)

interpretation VersionResponse_casts: dynamic_casts VersionResponse_as_any VersionResponse_into_any VersionResponse_as_any_mut downcast_VersionResponse TypeId_VersionResponse
  by unfold_locales (auto simp: VersionResponse_as_any_def VersionResponse_into_any_def VersionResponse_as_any_mut_def downcast_VersionResponse_def split: message_object.splits)

section \<open>\<^verbatim>\<open>SetLinkLossRequest\<close>\<close>

definition SetLinkLossRequest_get_unknown_fields :: "'u SetLinkLossRequest \<Rightarrow> 'u" where
  "SetLinkLossRequest_get_unknown_fields m = unknown_fields m"
definition SetLinkLossRequest_mut_unknown_fields :: "('u \<Rightarrow> 'u) \<Rightarrow> 'u SetLinkLossRequest \<Rightarrow> 'u SetLinkLossRequest" where
  "SetLinkLossRequest_mut_unknown_fields g m = m\<lparr>unknown_fields := g (unknown_fields m)\<rparr>"
definition SetLinkLossRequest_as_any :: "'u SetLinkLossRequest \<Rightarrow> 'u message_object" where
  "SetLinkLossRequest_as_any m = Obj_SetLinkLossRequest m"
definition SetLinkLossRequest_as_any_mut :: "('u message_object \<Rightarrow> 'u message_object) \<Rightarrow> 'u SetLinkLossRequest \<Rightarrow> 'u SetLinkLossRequest" where
  "SetLinkLossRequest_as_any_mut g m = (case downcast_SetLinkLossRequest (g (Obj_SetLinkLossRequest m)) of Some m' \<Rightarrow> m' | None \<Rightarrow> m)"
definition SetLinkLossRequest_into_any :: "'u SetLinkLossRequest \<Rightarrow> 'u message_object" where
  "SetLinkLossRequest_into_any m = Obj_SetLinkLossRequest m"
definition SetLinkLossRequest_descriptor :: "'u protobuf_rt \<Rightarrow> 'u SetLinkLossRequest \<Rightarrow> ('u, 'u SetLinkLossRequest) message_descriptor" where
  "SetLinkLossRequest_descriptor W m = SetLinkLossRequest_descriptor_static"
definition SetLinkLossRequest_Message_new :: "'u protobuf_rt \<Rightarrow> 'u SetLinkLossRequest" where
  "SetLinkLossRequest_Message_new W = SetLinkLossRequest_new W"
definition SetLinkLossRequest_default_instance :: "'u protobuf_rt \<Rightarrow> ('u SetLinkLossRequest, 'c) lazy_get \<Rightarrow> 'c \<Rightarrow> 'u SetLinkLossRequest \<times> 'c" where
  "SetLinkLossRequest_default_instance W get_lazy instance = get_lazy (\<lambda>_. SetLinkLossRequest_new W) instance"
definition SetLinkLossRequest_ref_default :: "'u protobuf_rt \<Rightarrow> ('u SetLinkLossRequest, 'c) lazy_get \<Rightarrow> 'c \<Rightarrow> 'u SetLinkLossRequest \<times> 'c" where
  "SetLinkLossRequest_ref_default W get_lazy instance = SetLinkLossRequest_default_instance W get_lazy instance"
definition SetLinkLossRequest_fmt :: "('u message_object \<Rightarrow> 'f \<Rightarrow> 'f result) \<Rightarrow> 'u SetLinkLossRequest \<Rightarrow> 'f \<Rightarrow> 'f result" where
  "SetLinkLossRequest_fmt text_format m f = text_format (Obj_SetLinkLossRequest m) f"
definition SetLinkLossRequest_as_ref :: "'u SetLinkLossRequest \<Rightarrow> 'u reflect_value_ref" where
  "SetLinkLossRequest_as_ref m = ReflectValueRef_Message (Obj_SetLinkLossRequest m)"

lemma SetLinkLossRequest_default_instance_new:
  "lazy_static g k \<Longrightarrow> lazy_static.holds k (\<lambda>_. SetLinkLossRequest_new W) c \<Longrightarrow>
    fst (SetLinkLossRequest_ref_default W g c) = SetLinkLossRequest_new W \<and> lazy_static.holds k (\<lambda>_. SetLinkLossRequest_new W) (snd (SetLinkLossRequest_ref_default W g c))"
  by (simp add: SetLinkLossRequest_ref_default_def SetLinkLossRequest_default_instance_def lazy_static.holds_get)

interpretation SetLinkLossRequest_casts: dynamic_casts SetLinkLossRequest_as_any SetLinkLossRequest_into_any SetLinkLossRequest_as_any_mut downcast_SetLinkLossRequest TypeId_SetLinkLossRequest
  by unfold_locales (auto simp: SetLinkLossRequest_as_any_def SetLinkLossRequest_into_any_def SetLinkLossRequest_as_any_mut_def downcast_SetLinkLossRequest_def split: message_object.splits)

section \<open>\<^verbatim>\<open>UpdateDeviceRequest\<close>\<close>

definition UpdateDeviceRequest_get_unknown_fields :: "'u UpdateDeviceRequest \<Rightarrow> 'u" where
  "UpdateDeviceRequest_get_unknown_fields m = unknown_fields m"
definition UpdateDeviceRequest_mut_unknown_fields :: "('u \<Rightarrow> 'u) \<Rightarrow> 'u UpdateDeviceRequest \<Rightarrow> 'u UpdateDeviceRequest" where
  "UpdateDeviceRequest_mut_unknown_fields g m = m\<lparr>unknown_fields := g (unknown_fields m)\<rparr>"
definition UpdateDeviceRequest_as_any :: "'u UpdateDeviceRequest \<Rightarrow> 'u message_object" where
  "UpdateDeviceRequest_as_any m = Obj_UpdateDeviceRequest m"
definition UpdateDeviceRequest_as_any_mut :: "('u message_object \<Rightarrow> 'u message_object) \<Rightarrow> 'u UpdateDeviceRequest \<Rightarrow> 'u UpdateDeviceRequest" where
  "UpdateDeviceRequest_as_any_mut g m = (case downcast_UpdateDeviceRequest (g (Obj_UpdateDeviceRequest m)) of Some m' \<Rightarrow> m' | None \<Rightarrow> m)"
definition UpdateDeviceRequest_into_any :: "'u UpdateDeviceRequest \<Rightarrow> 'u message_object" where
  "UpdateDeviceRequest_into_any m = Obj_UpdateDeviceRequest m"
definition UpdateDeviceRequest_descriptor :: "'u protobuf_rt \<Rightarrow> 'u UpdateDeviceRequest \<Rightarrow> ('u, 'u UpdateDeviceRequest) message_descriptor" where
  "UpdateDeviceRequest_descriptor W m = UpdateDeviceRequest_descriptor_static"
definition UpdateDeviceRequest_Message_new :: "'u protobuf_rt \<Rightarrow> 'u UpdateDeviceRequest" where
  "UpdateDeviceRequest_Message_new W = UpdateDeviceRequest_new W"
definition UpdateDeviceRequest_default_instance :: "'u protobuf_rt \<Rightarrow> ('u UpdateDeviceRequest, 'c) lazy_get \<Rightarrow> 'c \<Rightarrow> 'u UpdateDeviceRequest \<times> 'c" where
  "UpdateDeviceRequest_default_instance W get_lazy instance = get_lazy (\<lambda>_. UpdateDeviceRequest_new W) instance"
definition UpdateDeviceRequest_ref_default :: "'u protobuf_rt \<Rightarrow> ('u UpdateDeviceRequest, 'c) lazy_get \<Rightarrow> 'c \<Rightarrow> 'u UpdateDeviceRequest \<times> 'c" where
  "UpdateDeviceRequest_ref_default W get_lazy instance = UpdateDeviceRequest_default_instance W get_lazy instance"
definition UpdateDeviceRequest_fmt :: "('u message_object \<Rightarrow> 'f \<Rightarrow> 'f result) \<Rightarrow> 'u UpdateDeviceRequest \<Rightarrow> 'f \<Rightarrow> 'f result" where
  "UpdateDeviceRequest_fmt text_format m f = text_format (Obj_UpdateDeviceRequest m) f"
definition UpdateDeviceRequest_as_ref :: "'u UpdateDeviceRequest \<Rightarrow> 'u reflect_value_ref" where
  "UpdateDeviceRequest_as_ref m = ReflectValueRef_Message (Obj_UpdateDeviceRequest m)"

lemma UpdateDeviceRequest_default_instance_new:
  "lazy_static g k \<Longrightarrow> lazy_static.holds k (\<lambda>_. UpdateDeviceRequest_new W) c \<Longrightarrow>
    fst (UpdateDeviceRequest_ref_default W g c) = UpdateDeviceRequest_new W \<and> lazy_static.holds k (\<lambda>_. UpdateDeviceRequest_new W) (snd (UpdateDeviceRequest_ref_default W g c))"
  by (simp add: UpdateDeviceRequest_ref_default_def UpdateDeviceRequest_default_instance_def lazy_static.holds_get)

interpretation UpdateDeviceRequest_casts: dynamic_casts UpdateDeviceRequest_as_any UpdateDeviceRequest_into_any UpdateDeviceRequest_as_any_mut downcast_UpdateDeviceRequest TypeId_UpdateDeviceRequest
  by unfold_locales (auto simp: UpdateDeviceRequest_as_any_def UpdateDeviceRequest_into_any_def UpdateDeviceRequest_as_any_mut_def downcast_UpdateDeviceRequest_def split: message_object.splits)

section \<open>\<^verbatim>\<open>Updates\<close>\<close>

definition Updates_get_unknown_fields :: "'u Updates \<Rightarrow> 'u" where
  "Updates_get_unknown_fields m = unknown_fields m"
definition Updates_mut_unknown_fields :: "('u \<Rightarrow> 'u) \<Rightarrow> 'u Updates \<Rightarrow> 'u Updates" where
  "Updates_mut_unknown_fields g m = m\<lparr>unknown_fields := g (unknown_fields m)\<rparr>"
definition Updates_as_any :: "'u Updates \<Rightarrow> 'u message_object" where
  "Updates_as_any m = Obj_Updates m"
definition Updates_as_any_mut :: "('u message_object \<Rightarrow> 'u message_object) \<Rightarrow> 'u Updates \<Rightarrow> 'u Updates" where
  "Updates_as_any_mut g m = (case downcast_Updates (g (Obj_Updates m)) of Some m' \<Rightarrow> m' | None \<Rightarrow> m)"
definition Updates_into_any :: "'u Updates \<Rightarrow> 'u message_object" where
  "Updates_into_any m = Obj_Updates m"
definition Updates_descriptor :: "'u protobuf_rt \<Rightarrow> 'u Updates \<Rightarrow> ('u, 'u Updates) message_descriptor" where
  "Updates_descriptor W m = Updates_descriptor_static"
definition Updates_Message_new :: "'u protobuf_rt \<Rightarrow> 'u Updates" where
  "Updates_Message_new W = Updates_new W"
definition Updates_default_instance :: "'u protobuf_rt \<Rightarrow> ('u Updates, 'c) lazy_get \<Rightarrow> 'c \<Rightarrow> 'u Updates \<times> 'c" where
  "Updates_default_instance W get_lazy instance = get_lazy (\<lambda>_. Updates_new W) instance"
definition Updates_ref_default :: "'u protobuf_rt \<Rightarrow> ('u Updates, 'c) lazy_get \<Rightarrow> 'c \<Rightarrow> 'u Updates \<times> 'c" where
  "Updates_ref_default W get_lazy instance = Updates_default_instance W get_lazy instance"
definition Updates_fmt :: "('u message_object \<Rightarrow> 'f \<Rightarrow> 'f result) \<Rightarrow> 'u Updates \<Rightarrow> 'f \<Rightarrow> 'f result" where
  "Updates_fmt text_format m f = text_format (Obj_Updates m) f"
definition Updates_as_ref :: "'u Updates \<Rightarrow> 'u reflect_value_ref" where
  "Updates_as_ref m = ReflectValueRef_Message (Obj_Updates m)"

lemma Updates_default_instance_new:
  "lazy_static g k \<Longrightarrow> lazy_static.holds k (\<lambda>_. Updates_new W) c \<Longrightarrow>
    fst (Updates_ref_default W g c) = Updates_new W \<and> lazy_static.holds k (\<lambda>_. Updates_new W) (snd (Updates_ref_default W g c))"
  by (simp add: Updates_ref_default_def Updates_default_instance_def lazy_static.holds_get)

interpretation Updates_casts: dynamic_casts Updates_as_any Updates_into_any Updates_as_any_mut downcast_Updates TypeId_Updates
  by unfold_locales (auto simp: Updates_as_any_def Updates_into_any_def Updates_as_any_mut_def downcast_Updates_def split: message_object.splits)

section \<open>\<^verbatim>\<open>GetDevicesResponse\<close>\<close>

definition GetDevicesResponse_get_unknown_fields :: "'u GetDevicesResponse \<Rightarrow> 'u" where
  "GetDevicesResponse_get_unknown_fields m = unknown_fields m"
definition GetDevicesResponse_mut_unknown_fields :: "('u \<Rightarrow> 'u) \<Rightarrow> 'u GetDevicesResponse \<Rightarrow> 'u GetDevicesResponse" where
  "GetDevicesResponse_mut_unknown_fields g m = m\<lparr>unknown_fields := g (unknown_fields m)\<rparr>"
definition GetDevicesResponse_as_any :: "'u GetDevicesResponse \<Rightarrow> 'u message_object" where
  "GetDevicesResponse_as_any m = Obj_GetDevicesResponse m"
definition GetDevicesResponse_as_any_mut :: "('u message_object \<Rightarrow> 'u message_object) \<Rightarrow> 'u GetDevicesResponse \<Rightarrow> 'u GetDevicesResponse" where
  "GetDevicesResponse_as_any_mut g m = (case downcast_GetDevicesResponse (g (Obj_GetDevicesResponse m)) of Some m' \<Rightarrow> m' | None \<Rightarrow> m)"
definition GetDevicesResponse_into_any :: "'u GetDevicesResponse \<Rightarrow> 'u message_object" where
  "GetDevicesResponse_into_any m = Obj_GetDevicesResponse m"
definition GetDevicesResponse_descriptor :: "'u protobuf_rt \<Rightarrow> 'u GetDevicesResponse \<Rightarrow> ('u, 'u GetDevicesResponse) message_descriptor" where
  "GetDevicesResponse_descriptor W m = GetDevicesResponse_descriptor_static"
definition GetDevicesResponse_Message_new :: "'u protobuf_rt \<Rightarrow> 'u GetDevicesResponse" where
  "GetDevicesResponse_Message_new W = GetDevicesResponse_new W"
definition GetDevicesResponse_default_instance :: "'u protobuf_rt \<Rightarrow> ('u GetDevicesResponse, 'c) lazy_get \<Rightarrow> 'c \<Rightarrow> 'u GetDevicesResponse \<times> 'c" where
  "GetDevicesResponse_default_instance W get_lazy instance = get_lazy (\<lambda>_. GetDevicesResponse_new W) instance"
definition GetDevicesResponse_ref_default :: "'u protobuf_rt \<Rightarrow> ('u GetDevicesResponse, 'c) lazy_get \<Rightarrow> 'c \<Rightarrow> 'u GetDevicesResponse \<times> 'c" where
  "GetDevicesResponse_ref_default W get_lazy instance = GetDevicesResponse_default_instance W get_lazy instance"
definition GetDevicesResponse_fmt :: "('u message_object \<Rightarrow> 'f \<Rightarrow> 'f result) \<Rightarrow> 'u GetDevicesResponse \<Rightarrow> 'f \<Rightarrow> 'f result" where
  "GetDevicesResponse_fmt text_format m f = text_format (Obj_GetDevicesResponse m) f"
definition GetDevicesResponse_as_ref :: "'u GetDevicesResponse \<Rightarrow> 'u reflect_value_ref" where
  "GetDevicesResponse_as_ref m = ReflectValueRef_Message (Obj_GetDevicesResponse m)"

lemma GetDevicesResponse_default_instance_new:
  "lazy_static g k \<Longrightarrow> lazy_static.holds k (\<lambda>_. GetDevicesResponse_new W) c \<Longrightarrow>
    fst (GetDevicesResponse_ref_default W g c) = GetDevicesResponse_new W \<and> lazy_static.holds k (\<lambda>_. GetDevicesResponse_new W) (snd (GetDevicesResponse_ref_default W g c))"
  by (simp add: GetDevicesResponse_ref_default_def GetDevicesResponse_default_instance_def lazy_static.holds_get)

interpretation GetDevicesResponse_casts: dynamic_casts GetDevicesResponse_as_any GetDevicesResponse_into_any GetDevicesResponse_as_any_mut downcast_GetDevicesResponse TypeId_GetDevicesResponse
  by unfold_locales (auto simp: GetDevicesResponse_as_any_def GetDevicesResponse_into_any_def GetDevicesResponse_as_any_mut_def downcast_GetDevicesResponse_def split: message_object.splits)

section \<open>\<^verbatim>\<open>NetCatStream\<close>\<close>

definition NetCatStream_get_unknown_fields :: "'u NetCatStream \<Rightarrow> 'u" where
  "NetCatStream_get_unknown_fields m = unknown_fields m"
definition NetCatStream_mut_unknown_fields :: "('u \<Rightarrow> 'u) \<Rightarrow> 'u NetCatStream \<Rightarrow> 'u NetCatStream" where
  "NetCatStream_mut_unknown_fields g m = m\<lparr>unknown_fields := g (unknown_fields m)\<rparr>"
definition NetCatStream_as_any :: "'u NetCatStream \<Rightarrow> 'u message_object" where
  "NetCatStream_as_any m = Obj_NetCatStream m"
definition NetCatStream_as_any_mut :: "('u message_object \<Rightarrow> 'u message_object) \<Rightarrow> 'u NetCatStream \<Rightarrow> 'u NetCatStream" where
  "NetCatStream_as_any_mut g m = (case downcast_NetCatStream (g (Obj_NetCatStream m)) of Some m' \<Rightarrow> m' | None \<Rightarrow> m)"
definition NetCatStream_into_any :: "'u NetCatStream \<Rightarrow> 'u message_object" where
  "NetCatStream_into_any m = Obj_NetCatStream m"
definition NetCatStream_descriptor :: "'u protobuf_rt \<Rightarrow> 'u NetCatStream \<Rightarrow> ('u, 'u NetCatStream) message_descriptor" where
  "NetCatStream_descriptor W m = NetCatStream_descriptor_static"
definition NetCatStream_Message_new :: "'u protobuf_rt \<Rightarrow> 'u NetCatStream" where
  "NetCatStream_Message_new W = NetCatStream_new W"
definition NetCatStream_default_instance :: "'u protobuf_rt \<Rightarrow> ('u NetCatStream, 'c) lazy_get \<Rightarrow> 'c \<Rightarrow> 'u NetCatStream \<times> 'c" where
  "NetCatStream_default_instance W get_lazy instance = get_lazy (\<lambda>_. NetCatStream_new W) instance"
definition NetCatStream_ref_default :: "'u protobuf_rt \<Rightarrow> ('u NetCatStream, 'c) lazy_get \<Rightarrow> 'c \<Rightarrow> 'u NetCatStream \<times> 'c" where
  "NetCatStream_ref_default W get_lazy instance = NetCatStream_default_instance W get_lazy instance"
definition NetCatStream_fmt :: "('u message_object \<Rightarrow> 'f \<Rightarrow> 'f result) \<Rightarrow> 'u NetCatStream \<Rightarrow> 'f \<Rightarrow> 'f result" where
  "NetCatStream_fmt text_format m f = text_format (Obj_NetCatStream m) f"
definition NetCatStream_as_ref :: "'u NetCatStream \<Rightarrow> 'u reflect_value_ref" where
  "NetCatStream_as_ref m = ReflectValueRef_Message (Obj_NetCatStream m)"

lemma NetCatStream_default_instance_new:
  "lazy_static g k \<Longrightarrow> lazy_static.holds k (\<lambda>_. NetCatStream_new W) c \<Longrightarrow>
    fst (NetCatStream_ref_default W g c) = NetCatStream_new W \<and> lazy_static.holds k (\<lambda>_. NetCatStream_new W) (snd (NetCatStream_ref_default W g c))"
  by (simp add: NetCatStream_ref_default_def NetCatStream_default_instance_def lazy_static.holds_get)

interpretation NetCatStream_casts: dynamic_casts NetCatStream_as_any NetCatStream_into_any NetCatStream_as_any_mut downcast_NetCatStream TypeId_NetCatStream
  by unfold_locales (auto simp: NetCatStream_as_any_def NetCatStream_into_any_def NetCatStream_as_any_mut_def downcast_NetCatStream_def split: message_object.splits)

section \<open>\<^verbatim>\<open>SetPacketCaptureRequest\<close>\<close>

definition SetPacketCaptureRequest_get_unknown_fields :: "'u SetPacketCaptureRequest \<Rightarrow> 'u" where
  "SetPacketCaptureRequest_get_unknown_fields m = unknown_fields m"
definition SetPacketCaptureRequest_mut_unknown_fields :: "('u \<Rightarrow> 'u) \<Rightarrow> 'u SetPacketCaptureRequest \<Rightarrow> 'u SetPacketCaptureRequest" where
  "SetPacketCaptureRequest_mut_unknown_fields g m = m\<lparr>unknown_fields := g (unknown_fields m)\<rparr>"
definition SetPacketCaptureRequest_as_any :: "'u SetPacketCaptureRequest \<Rightarrow> 'u message_object" where
  "SetPacketCaptureRequest_as_any m = Obj_SetPacketCaptureRequest m"
definition SetPacketCaptureRequest_as_any_mut :: "('u message_object \<Rightarrow> 'u message_object) \<Rightarrow> 'u SetPacketCaptureRequest \<Rightarrow> 'u SetPacketCaptureRequest" where
  "SetPacketCaptureRequest_as_any_mut g m = (case downcast_SetPacketCaptureRequest (g (Obj_SetPacketCaptureRequest m)) of Some m' \<Rightarrow> m' | None \<Rightarrow> m)"
definition SetPacketCaptureRequest_into_any :: "'u SetPacketCaptureRequest \<Rightarrow> 'u message_object" where
  "SetPacketCaptureRequest_into_any m = Obj_SetPacketCaptureRequest m"
definition SetPacketCaptureRequest_descriptor :: "'u protobuf_rt \<Rightarrow> 'u SetPacketCaptureRequest \<Rightarrow> ('u, 'u SetPacketCaptureRequest) message_descriptor" where
  "SetPacketCaptureRequest_descriptor W m = SetPacketCaptureRequest_descriptor_static"
definition SetPacketCaptureRequest_Message_new :: "'u protobuf_rt \<Rightarrow> 'u SetPacketCaptureRequest" where
  "SetPacketCaptureRequest_Message_new W = SetPacketCaptureRequest_new W"
definition SetPacketCaptureRequest_default_instance :: "'u protobuf_rt \<Rightarrow> ('u SetPacketCaptureRequest, 'c) lazy_get \<Rightarrow> 'c \<Rightarrow> 'u SetPacketCaptureRequest \<times> 'c" where
  "SetPacketCaptureRequest_default_instance W get_lazy instance = get_lazy (\<lambda>_. SetPacketCaptureRequest_new W) instance"
definition SetPacketCaptureRequest_ref_default :: "'u protobuf_rt \<Rightarrow> ('u SetPacketCaptureRequest, 'c) lazy_get \<Rightarrow> 'c \<Rightarrow> 'u SetPacketCaptureRequest \<times> 'c" where
  "SetPacketCaptureRequest_ref_default W get_lazy instance = SetPacketCaptureRequest_default_instance W get_lazy instance"
definition SetPacketCaptureRequest_fmt :: "('u message_object \<Rightarrow> 'f \<Rightarrow> 'f result) \<Rightarrow> 'u SetPacketCaptureRequest \<Rightarrow> 'f \<Rightarrow> 'f result" where
  "SetPacketCaptureRequest_fmt text_format m f = text_format (Obj_SetPacketCaptureRequest m) f"
definition SetPacketCaptureRequest_as_ref :: "'u SetPacketCaptureRequest \<Rightarrow> 'u reflect_value_ref" where
  "SetPacketCaptureRequest_as_ref m = ReflectValueRef_Message (Obj_SetPacketCaptureRequest m)"

lemma SetPacketCaptureRequest_default_instance_new:
  "lazy_static g k \<Longrightarrow> lazy_static.holds k (\<lambda>_. SetPacketCaptureRequest_new W) c \<Longrightarrow>
    fst (SetPacketCaptureRequest_ref_default W g c) = SetPacketCaptureRequest_new W \<and> lazy_static.holds k (\<lambda>_. SetPacketCaptureRequest_new W) (snd (SetPacketCaptureRequest_ref_default W g c))"
  by (simp add: SetPacketCaptureRequest_ref_default_def SetPacketCaptureRequest_default_instance_def lazy_static.holds_get)

interpretation SetPacketCaptureRequest_casts: dynamic_casts SetPacketCaptureRequest_as_any SetPacketCaptureRequest_into_any SetPacketCaptureRequest_as_any_mut downcast_SetPacketCaptureRequest TypeId_SetPacketCaptureRequest
  by unfold_locales (auto simp: SetPacketCaptureRequest_as_any_def SetPacketCaptureRequest_into_any_def SetPacketCaptureRequest_as_any_mut_def downcast_SetPacketCaptureRequest_def split: message_object.splits)

section \<open>\<^verbatim>\<open>StartupInfo\<close>\<close>

definition StartupInfo_get_unknown_fields :: "'u StartupInfo \<Rightarrow> 'u" where
  "StartupInfo_get_unknown_fields m = unknown_fields m"
definition StartupInfo_mut_unknown_fields :: "('u \<Rightarrow> 'u) \<Rightarrow> 'u StartupInfo \<Rightarrow> 'u StartupInfo" where
  "StartupInfo_mut_unknown_fields g m = m\<lparr>unknown_fields := g (unknown_fields m)\<rparr>"
definition StartupInfo_as_any :: "'u StartupInfo \<Rightarrow> 'u message_object" where
  "StartupInfo_as_any m = Obj_StartupInfo m"
definition StartupInfo_as_any_mut :: "('u message_object \<Rightarrow> 'u message_object) \<Rightarrow> 'u StartupInfo \<Rightarrow> 'u StartupInfo" where
  "StartupInfo_as_any_mut g m = (case downcast_StartupInfo (g (Obj_StartupInfo m)) of Some m' \<Rightarrow> m' | None \<Rightarrow> m)"
definition StartupInfo_into_any :: "'u StartupInfo \<Rightarrow> 'u message_object" where
  "StartupInfo_into_any m = Obj_StartupInfo m"
definition StartupInfo_descriptor :: "'u protobuf_rt \<Rightarrow> 'u StartupInfo \<Rightarrow> ('u, 'u StartupInfo) message_descriptor" where
  "StartupInfo_descriptor W m = StartupInfo_descriptor_static"
definition StartupInfo_Message_new :: "'u protobuf_rt \<Rightarrow> 'u StartupInfo" where
  "StartupInfo_Message_new W = StartupInfo_new W"
definition StartupInfo_default_instance :: "'u protobuf_rt \<Rightarrow> ('u StartupInfo, 'c) lazy_get \<Rightarrow> 'c \<Rightarrow> 'u StartupInfo \<times> 'c" where
  "StartupInfo_default_instance W get_lazy instance = get_lazy (\<lambda>_. StartupInfo_new W) instance"
definition StartupInfo_ref_default :: "'u protobuf_rt \<Rightarrow> ('u StartupInfo, 'c) lazy_get \<Rightarrow> 'c \<Rightarrow> 'u StartupInfo \<times> 'c" where
  "StartupInfo_ref_default W get_lazy instance = StartupInfo_default_instance W get_lazy instance"
definition StartupInfo_fmt :: "('u message_object \<Rightarrow> 'f \<Rightarrow> 'f result) \<Rightarrow> 'u StartupInfo \<Rightarrow> 'f \<Rightarrow> 'f result" where
  "StartupInfo_fmt text_format m f = text_format (Obj_StartupInfo m) f"
definition StartupInfo_as_ref :: "'u StartupInfo \<Rightarrow> 'u reflect_value_ref" where
  "StartupInfo_as_ref m = ReflectValueRef_Message (Obj_StartupInfo m)"

lemma StartupInfo_default_instance_new:
  "lazy_static g k \<Longrightarrow> lazy_static.holds k (\<lambda>_. StartupInfo_new W) c \<Longrightarrow>
    fst (StartupInfo_ref_default W g c) = StartupInfo_new W \<and> lazy_static.holds k (\<lambda>_. StartupInfo_new W) (snd (StartupInfo_ref_default W g c))"
  by (simp add: StartupInfo_ref_default_def StartupInfo_default_instance_def lazy_static.holds_get)

interpretation StartupInfo_casts: dynamic_casts StartupInfo_as_any StartupInfo_into_any StartupInfo_as_any_mut downcast_StartupInfo TypeId_StartupInfo
  by unfold_locales (auto simp: StartupInfo_as_any_def StartupInfo_into_any_def StartupInfo_as_any_mut_def downcast_StartupInfo_def split: message_object.splits)

section \<open>\<^verbatim>\<open>StartupInfo_Device\<close>\<close>

definition StartupInfo_Device_get_unknown_fields :: "'u StartupInfo_Device \<Rightarrow> 'u" where
  "StartupInfo_Device_get_unknown_fields m = unknown_fields m"
definition StartupInfo_Device_mut_unknown_fields :: "('u \<Rightarrow> 'u) \<Rightarrow> 'u StartupInfo_Device \<Rightarrow> 'u StartupInfo_Device" where
  "StartupInfo_Device_mut_unknown_fields g m = m\<lparr>unknown_fields := g (unknown_fields m)\<rparr>"
definition StartupInfo_Device_as_any :: "'u StartupInfo_Device \<Rightarrow> 'u message_object" where
  "StartupInfo_Device_as_any m = Obj_StartupInfo_Device m"
definition StartupInfo_Device_as_any_mut :: "('u message_object \<Rightarrow> 'u message_object) \<Rightarrow> 'u StartupInfo_Device \<Rightarrow> 'u StartupInfo_Device" where
  "StartupInfo_Device_as_any_mut g m = (case downcast_StartupInfo_Device (g (Obj_StartupInfo_Device m)) of Some m' \<Rightarrow> m' | None \<Rightarrow> m)"
definition StartupInfo_Device_into_any :: "'u StartupInfo_Device \<Rightarrow> 'u message_object" where
  "StartupInfo_Device_into_any m = Obj_StartupInfo_Device m"
definition StartupInfo_Device_descriptor :: "'u protobuf_rt \<Rightarrow> 'u StartupInfo_Device \<Rightarrow> ('u, 'u StartupInfo_Device) message_descriptor" where
  "StartupInfo_Device_descriptor W m = StartupInfo_Device_descriptor_static"
definition StartupInfo_Device_Message_new :: "'u protobuf_rt \<Rightarrow> 'u StartupInfo_Device" where
  "StartupInfo_Device_Message_new W = StartupInfo_Device_new W"
definition StartupInfo_Device_default_instance :: "'u protobuf_rt \<Rightarrow> ('u StartupInfo_Device, 'c) lazy_get \<Rightarrow> 'c \<Rightarrow> 'u StartupInfo_Device \<times> 'c" where
  "StartupInfo_Device_default_instance W get_lazy instance = get_lazy (\<lambda>_. StartupInfo_Device_new W) instance"
definition StartupInfo_Device_ref_default :: "'u protobuf_rt \<Rightarrow> ('u StartupInfo_Device, 'c) lazy_get \<Rightarrow> 'c \<Rightarrow> 'u StartupInfo_Device \<times> 'c" where
  "StartupInfo_Device_ref_default W get_lazy instance = StartupInfo_Device_default_instance W get_lazy instance"
definition StartupInfo_Device_fmt :: "('u message_object \<Rightarrow> 'f \<Rightarrow> 'f result) \<Rightarrow> 'u StartupInfo_Device \<Rightarrow> 'f \<Rightarrow> 'f result" where
  "StartupInfo_Device_fmt text_format m f = text_format (Obj_StartupInfo_Device m) f"
definition StartupInfo_Device_as_ref :: "'u StartupInfo_Device \<Rightarrow> 'u reflect_value_ref" where
  "StartupInfo_Device_as_ref m = ReflectValueRef_Message (Obj_StartupInfo_Device m)"

lemma StartupInfo_Device_default_instance_new:
  "lazy_static g k \<Longrightarrow> lazy_static.holds k (\<lambda>_. StartupInfo_Device_new W) c \<Longrightarrow>
    fst (StartupInfo_Device_ref_default W g c) = StartupInfo_Device_new W \<and> lazy_static.holds k (\<lambda>_. StartupInfo_Device_new W) (snd (StartupInfo_Device_ref_default W g c))"
  by (simp add: StartupInfo_Device_ref_default_def StartupInfo_Device_default_instance_def lazy_static.holds_get)

interpretation StartupInfo_Device_casts: dynamic_casts StartupInfo_Device_as_any StartupInfo_Device_into_any StartupInfo_Device_as_any_mut downcast_StartupInfo_Device TypeId_StartupInfo_Device
  by unfold_locales (auto simp: StartupInfo_Device_as_any_def StartupInfo_Device_into_any_def StartupInfo_Device_as_any_mut_def downcast_StartupInfo_Device_def split: message_object.splits)

section \<open>\<^verbatim>\<open>ChipInfo\<close>\<close>

definition ChipInfo_get_unknown_fields :: "'u ChipInfo \<Rightarrow> 'u" where
  "ChipInfo_get_unknown_fields m = unknown_fields m"
definition ChipInfo_mut_unknown_fields :: "('u \<Rightarrow> 'u) \<Rightarrow> 'u ChipInfo \<Rightarrow> 'u ChipInfo" where
  "ChipInfo_mut_unknown_fields g m = m\<lparr>unknown_fields := g (unknown_fields m)\<rparr>"
definition ChipInfo_as_any :: "'u ChipInfo \<Rightarrow> 'u message_object" where
  "ChipInfo_as_any m = Obj_ChipInfo m"
definition ChipInfo_as_any_mut :: "('u message_object \<Rightarrow> 'u message_object) \<Rightarrow> 'u ChipInfo \<Rightarrow> 'u ChipInfo" where
  "ChipInfo_as_any_mut g m = (case downcast_ChipInfo (g (Obj_ChipInfo m)) of Some m' \<Rightarrow> m' | None \<Rightarrow> m)"
definition ChipInfo_into_any :: "'u ChipInfo \<Rightarrow> 'u message_object" where
  "ChipInfo_into_any m = Obj_ChipInfo m"
definition ChipInfo_descriptor :: "'u protobuf_rt \<Rightarrow> 'u ChipInfo \<Rightarrow> ('u, 'u ChipInfo) message_descriptor" where
  "ChipInfo_descriptor W m = ChipInfo_descriptor_static"
definition ChipInfo_Message_new :: "'u protobuf_rt \<Rightarrow> 'u ChipInfo" where
  "ChipInfo_Message_new W = ChipInfo_new W"
definition ChipInfo_default_instance :: "'u protobuf_rt \<Rightarrow> ('u ChipInfo, 'c) lazy_get \<Rightarrow> 'c \<Rightarrow> 'u ChipInfo \<times> 'c" where
  "ChipInfo_default_instance W get_lazy instance = get_lazy (\<lambda>_. ChipInfo_new W) instance"
definition ChipInfo_ref_default :: "'u protobuf_rt \<Rightarrow> ('u ChipInfo, 'c) lazy_get \<Rightarrow> 'c \<Rightarrow> 'u ChipInfo \<times> 'c" where
  "ChipInfo_ref_default W get_lazy instance = ChipInfo_default_instance W get_lazy instance"
definition ChipInfo_fmt :: "('u message_object \<Rightarrow> 'f \<Rightarrow> 'f result) \<Rightarrow> 'u ChipInfo \<Rightarrow> 'f \<Rightarrow> 'f result" where
  "ChipInfo_fmt text_format m f = text_format (Obj_ChipInfo m) f"
definition ChipInfo_as_ref :: "'u ChipInfo \<Rightarrow> 'u reflect_value_ref" where
  "ChipInfo_as_ref m = ReflectValueRef_Message (Obj_ChipInfo m)"

lemma ChipInfo_default_instance_new:
  "lazy_static g k \<Longrightarrow> lazy_static.holds k (\<lambda>_. ChipInfo_new W) c \<Longrightarrow>
    fst (ChipInfo_ref_default W g c) = ChipInfo_new W \<and> lazy_static.holds k (\<lambda>_. ChipInfo_new W) (snd (ChipInfo_ref_default W g c))"
  by (simp add: ChipInfo_ref_default_def ChipInfo_default_instance_def lazy_static.holds_get)

interpretation ChipInfo_casts: dynamic_casts ChipInfo_as_any ChipInfo_into_any ChipInfo_as_any_mut downcast_ChipInfo TypeId_ChipInfo
  by unfold_locales (auto simp: ChipInfo_as_any_def ChipInfo_into_any_def ChipInfo_as_any_mut_def downcast_ChipInfo_def split: message_object.splits)

section \<open>\<^verbatim>\<open>Startup_Chip\<close>\<close>

definition Startup_Chip_get_unknown_fields :: "'u Startup_Chip \<Rightarrow> 'u" where
  "Startup_Chip_get_unknown_fields m = unknown_fields m"
definition Startup_Chip_mut_unknown_fields :: "('u \<Rightarrow> 'u) \<Rightarrow> 'u Startup_Chip \<Rightarrow> 'u Startup_Chip" where
  "Startup_Chip_mut_unknown_fields g m = m\<lparr>unknown_fields := g (unknown_fields m)\<rparr>"
definition Startup_Chip_as_any :: "'u Startup_Chip \<Rightarrow> 'u message_object" where
  "Startup_Chip_as_any m = Obj_Startup_Chip m"
definition Startup_Chip_as_any_mut :: "('u message_object \<Rightarrow> 'u message_object) \<Rightarrow> 'u Startup_Chip \<Rightarrow> 'u Startup_Chip" where
  "Startup_Chip_as_any_mut g m = (case downcast_Startup_Chip (g (Obj_Startup_Chip m)) of Some m' \<Rightarrow> m' | None \<Rightarrow> m)"
definition Startup_Chip_into_any :: "'u Startup_Chip \<Rightarrow> 'u message_object" where
  "Startup_Chip_into_any m = Obj_Startup_Chip m"
definition Startup_Chip_descriptor :: "'u protobuf_rt \<Rightarrow> 'u Startup_Chip \<Rightarrow> ('u, 'u Startup_Chip) message_descriptor" where
  "Startup_Chip_descriptor W m = Startup_Chip_descriptor_static"
definition Startup_Chip_Message_new :: "'u protobuf_rt \<Rightarrow> 'u Startup_Chip" where
  "Startup_Chip_Message_new W = Startup_Chip_new W"
definition Startup_Chip_default_instance :: "'u protobuf_rt \<Rightarrow> ('u Startup_Chip, 'c) lazy_get \<Rightarrow> 'c \<Rightarrow> 'u Startup_Chip \<times> 'c" where
  "Startup_Chip_default_instance W get_lazy instance = get_lazy (\<lambda>_. Startup_Chip_new W) instance"
definition Startup_Chip_ref_default :: "'u protobuf_rt \<Rightarrow> ('u Startup_Chip, 'c) lazy_get \<Rightarrow> 'c \<Rightarrow> 'u Startup_Chip \<times> 'c" where
  "Startup_Chip_ref_default W get_lazy instance = Startup_Chip_default_instance W get_lazy instance"
definition Startup_Chip_fmt :: "('u message_object \<Rightarrow> 'f \<Rightarrow> 'f result) \<Rightarrow> 'u Startup_Chip \<Rightarrow> 'f \<Rightarrow> 'f result" where
  "Startup_Chip_fmt text_format m f = text_format (Obj_Startup_Chip m) f"
definition Startup_Chip_as_ref :: "'u Startup_Chip \<Rightarrow> 'u reflect_value_ref" where
  "Startup_Chip_as_ref m = ReflectValueRef_Message (Obj_Startup_Chip m)"

lemma Startup_Chip_default_instance_new:
  "lazy_static g k \<Longrightarrow> lazy_static.holds k (\<lambda>_. Startup_Chip_new W) c \<Longrightarrow>
    fst (Startup_Chip_ref_default W g c) = Startup_Chip_new W \<and> lazy_static.holds k (\<lambda>_. Startup_Chip_new W) (snd (Startup_Chip_ref_default W g c))"
  by (simp add: Startup_Chip_ref_default_def Startup_Chip_default_instance_def lazy_static.holds_get)

interpretation Startup_Chip_casts: dynamic_casts Startup_Chip_as_any Startup_Chip_into_any Startup_Chip_as_any_mut downcast_Startup_Chip TypeId_Startup_Chip
  by unfold_locales (auto simp: Startup_Chip_as_any_def Startup_Chip_into_any_def Startup_Chip_as_any_mut_def downcast_Startup_Chip_def split: message_object.splits)

section \<open>\<^verbatim>\<open>HCIPacket\<close>\<close>

definition HCIPacket_get_unknown_fields :: "'u HCIPacket \<Rightarrow> 'u" where
  "HCIPacket_get_unknown_fields m = unknown_fields m"
definition HCIPacket_mut_unknown_fields :: "('u \<Rightarrow> 'u) \<Rightarrow> 'u HCIPacket \<Rightarrow> 'u HCIPacket" where
  "HCIPacket_mut_unknown_fields g m = m\<lparr>unknown_fields := g (unknown_fields m)\<rparr>"
definition HCIPacket_as_any :: "'u HCIPacket \<Rightarrow> 'u message_object" where
  "HCIPacket_as_any m = Obj_HCIPacket m"
definition HCIPacket_as_any_mut :: "('u message_object \<Rightarrow> 'u message_object) \<Rightarrow> 'u HCIPacket \<Rightarrow> 'u HCIPacket" where
  "HCIPacket_as_any_mut g m = (case downcast_HCIPacket (g (Obj_HCIPacket m)) of Some m' \<Rightarrow> m' | None \<Rightarrow> m)"
definition HCIPacket_into_any :: "'u HCIPacket \<Rightarrow> 'u message_object" where
  "HCIPacket_into_any m = Obj_HCIPacket m"
definition HCIPacket_descriptor :: "'u protobuf_rt \<Rightarrow> 'u HCIPacket \<Rightarrow> ('u, 'u HCIPacket) message_descriptor" where
  "HCIPacket_descriptor W m = HCIPacket_descriptor_static"
definition HCIPacket_Message_new :: "'u protobuf_rt \<Rightarrow> 'u HCIPacket" where
  "HCIPacket_Message_new W = HCIPacket_new W"
definition HCIPacket_default_instance :: "'u protobuf_rt \<Rightarrow> ('u HCIPacket, 'c) lazy_get \<Rightarrow> 'c \<Rightarrow> 'u HCIPacket \<times> 'c" where
  "HCIPacket_default_instance W get_lazy instance = get_lazy (\<lambda>_. HCIPacket_new W) instance"
definition HCIPacket_ref_default :: "'u protobuf_rt \<Rightarrow> ('u HCIPacket, 'c) lazy_get \<Rightarrow> 'c \<Rightarrow> 'u HCIPacket \<times> 'c" where
  "HCIPacket_ref_default W get_lazy instance = HCIPacket_default_instance W get_lazy instance"
definition HCIPacket_fmt :: "('u message_object \<Rightarrow> 'f \<Rightarrow> 'f result) \<Rightarrow> 'u HCIPacket \<Rightarrow> 'f \<Rightarrow> 'f result" where
  "HCIPacket_fmt text_format m f = text_format (Obj_HCIPacket m) f"
definition HCIPacket_as_ref :: "'u HCIPacket \<Rightarrow> 'u reflect_value_ref" where
  "HCIPacket_as_ref m = ReflectValueRef_Message (Obj_HCIPacket m)"

lemma HCIPacket_default_instance_new:
  "lazy_static g k \<Longrightarrow> lazy_static.holds k (\<lambda>_. HCIPacket_new W) c \<Longrightarrow>
    fst (HCIPacket_ref_default W g c) = HCIPacket_new W \<and> lazy_static.holds k (\<lambda>_. HCIPacket_new W) (snd (HCIPacket_ref_default W g c))"
  by (simp add: HCIPacket_ref_default_def HCIPacket_default_instance_def lazy_static.holds_get)

interpretation HCIPacket_casts: dynamic_casts HCIPacket_as_any HCIPacket_into_any HCIPacket_as_any_mut downcast_HCIPacket TypeId_HCIPacket
  by unfold_locales (auto simp: HCIPacket_as_any_def HCIPacket_into_any_def HCIPacket_as_any_mut_def downcast_HCIPacket_def split: message_object.splits)

section \<open>\<^verbatim>\<open>StreamPacketsRequest\<close>\<close>

definition StreamPacketsRequest_get_unknown_fields :: "'u StreamPacketsRequest \<Rightarrow> 'u" where
  "StreamPacketsRequest_get_unknown_fields m = unknown_fields m"
definition StreamPacketsRequest_mut_unknown_fields :: "('u \<Rightarrow> 'u) \<Rightarrow> 'u StreamPacketsRequest \<Rightarrow> 'u StreamPacketsRequest" where
  "StreamPacketsRequest_mut_unknown_fields g m = m\<lparr>unknown_fields := g (unknown_fields m)\<rparr>"
definition StreamPacketsRequest_as_any :: "'u StreamPacketsRequest \<Rightarrow> 'u message_object" where
  "StreamPacketsRequest_as_any m = Obj_StreamPacketsRequest m"
definition StreamPacketsRequest_as_any_mut :: "('u message_object \<Rightarrow> 'u message_object) \<Rightarrow> 'u StreamPacketsRequest \<Rightarrow> 'u StreamPacketsRequest" where
  "StreamPacketsRequest_as_any_mut g m = (case downcast_StreamPacketsRequest (g (Obj_StreamPacketsRequest m)) of Some m' \<Rightarrow> m' | None \<Rightarrow> m)"
definition StreamPacketsRequest_into_any :: "'u StreamPacketsRequest \<Rightarrow> 'u message_object" where
  "StreamPacketsRequest_into_any m = Obj_StreamPacketsRequest m"
definition StreamPacketsRequest_descriptor :: "'u protobuf_rt \<Rightarrow> 'u StreamPacketsRequest \<Rightarrow> ('u, 'u StreamPacketsRequest) message_descriptor" where
  "StreamPacketsRequest_descriptor W m = StreamPacketsRequest_descriptor_static W"
definition StreamPacketsRequest_Message_new :: "'u protobuf_rt \<Rightarrow> 'u StreamPacketsRequest" where
  "StreamPacketsRequest_Message_new W = StreamPacketsRequest_new W"
definition StreamPacketsRequest_default_instance :: "'u protobuf_rt \<Rightarrow> ('u StreamPacketsRequest, 'c) lazy_get \<Rightarrow> 'c \<Rightarrow> 'u StreamPacketsRequest \<times> 'c" where
  "StreamPacketsRequest_default_instance W get_lazy instance = get_lazy (\<lambda>_. StreamPacketsRequest_new W) instance"
definition StreamPacketsRequest_ref_default :: "'u protobuf_rt \<Rightarrow> ('u StreamPacketsRequest, 'c) lazy_get \<Rightarrow> 'c \<Rightarrow> 'u StreamPacketsRequest \<times> 'c" where
  "StreamPacketsRequest_ref_default W get_lazy instance = StreamPacketsRequest_default_instance W get_lazy instance"
definition StreamPacketsRequest_fmt :: "('u message_object \<Rightarrow> 'f \<Rightarrow> 'f result) \<Rightarrow> 'u StreamPacketsRequest \<Rightarrow> 'f \<Rightarrow> 'f result" where
  "StreamPacketsRequest_fmt text_format m f = text_format (Obj_StreamPacketsRequest m) f"
definition StreamPacketsRequest_as_ref :: "'u StreamPacketsRequest \<Rightarrow> 'u reflect_value_ref" where
  "StreamPacketsRequest_as_ref m = ReflectValueRef_Message (Obj_StreamPacketsRequest m)"

lemma StreamPacketsRequest_default_instance_new:
  "lazy_static g k \<Longrightarrow> lazy_static.holds k (\<lambda>_. StreamPacketsRequest_new W) c \<Longrightarrow>
    fst (StreamPacketsRequest_ref_default W g c) = StreamPacketsRequest_new W \<and> lazy_static.holds k (\<lambda>_. StreamPacketsRequest_new W) (snd (StreamPacketsRequest_ref_default W g c))"
  by (simp add: StreamPacketsRequest_ref_default_def StreamPacketsRequest_default_instance_def lazy_static.holds_get)

interpretation StreamPacketsRequest_casts: dynamic_casts StreamPacketsRequest_as_any StreamPacketsRequest_into_any StreamPacketsRequest_as_any_mut downcast_StreamPacketsRequest TypeId_StreamPacketsRequest
  by unfold_locales (auto simp: StreamPacketsRequest_as_any_def StreamPacketsRequest_into_any_def StreamPacketsRequest_as_any_mut_def downcast_StreamPacketsRequest_def split: message_object.splits)

section \<open>\<^verbatim>\<open>StreamPacketsResponse\<close>\<close>

definition StreamPacketsResponse_get_unknown_fields :: "'u StreamPacketsResponse \<Rightarrow> 'u" where
  "StreamPacketsResponse_get_unknown_fields m = unknown_fields m"
definition StreamPacketsResponse_mut_unknown_fields :: "('u \<Rightarrow> 'u) \<Rightarrow> 'u StreamPacketsResponse \<Rightarrow> 'u StreamPacketsResponse" where
  "StreamPacketsResponse_mut_unknown_fields g m = m\<lparr>unknown_fields := g (unknown_fields m)\<rparr>"
definition StreamPacketsResponse_as_any :: "'u StreamPacketsResponse \<Rightarrow> 'u message_object" where
  "StreamPacketsResponse_as_any m = Obj_StreamPacketsResponse m"
definition StreamPacketsResponse_as_any_mut :: "('u message_object \<Rightarrow> 'u message_object) \<Rightarrow> 'u StreamPacketsResponse \<Rightarrow> 'u StreamPacketsResponse" where
  "StreamPacketsResponse_as_any_mut g m = (case downcast_StreamPacketsResponse (g (Obj_StreamPacketsResponse m)) of Some m' \<Rightarrow> m' | None \<Rightarrow> m)"
definition StreamPacketsResponse_into_any :: "'u StreamPacketsResponse \<Rightarrow> 'u message_object" where
  "StreamPacketsResponse_into_any m = Obj_StreamPacketsResponse m"
definition StreamPacketsResponse_descriptor :: "'u protobuf_rt \<Rightarrow> 'u StreamPacketsResponse \<Rightarrow> ('u, 'u StreamPacketsResponse) message_descriptor" where
  "StreamPacketsResponse_descriptor W m = StreamPacketsResponse_descriptor_static W"
definition StreamPacketsResponse_Message_new :: "'u protobuf_rt \<Rightarrow> 'u StreamPacketsResponse" where
  "StreamPacketsResponse_Message_new W = StreamPacketsResponse_new W"
definition StreamPacketsResponse_default_instance :: "'u protobuf_rt \<Rightarrow> ('u StreamPacketsResponse, 'c) lazy_get \<Rightarrow> 'c \<Rightarrow> 'u StreamPacketsResponse \<times> 'c" where
  "StreamPacketsResponse_default_instance W get_lazy instance = get_lazy (\<lambda>_. StreamPacketsResponse_new W) instance"
definition StreamPacketsResponse_ref_default :: "'u protobuf_rt \<Rightarrow> ('u StreamPacketsResponse, 'c) lazy_get \<Rightarrow> 'c \<Rightarrow> 'u StreamPacketsResponse \<times> 'c" where
  "StreamPacketsResponse_ref_default W get_lazy instance = StreamPacketsResponse_default_instance W get_lazy instance"
definition StreamPacketsResponse_fmt :: "('u message_object \<Rightarrow> 'f \<Rightarrow> 'f result) \<Rightarrow> 'u StreamPacketsResponse \<Rightarrow> 'f \<Rightarrow> 'f result" where
  "StreamPacketsResponse_fmt text_format m f = text_format (Obj_StreamPacketsResponse m) f"
definition StreamPacketsResponse_as_ref :: "'u StreamPacketsResponse \<Rightarrow> 'u reflect_value_ref" where
  "StreamPacketsResponse_as_ref m = ReflectValueRef_Message (Obj_StreamPacketsResponse m)"

lemma StreamPacketsResponse_default_instance_new:
  "lazy_static g k \<Longrightarrow> lazy_static.holds k (\<lambda>_. StreamPacketsResponse_new W) c \<Longrightarrow>
    fst (StreamPacketsResponse_ref_default W g c) = StreamPacketsResponse_new W \<and> lazy_static.holds k (\<lambda>_. StreamPacketsResponse_new W) (snd (StreamPacketsResponse_ref_default W g c))"
  by (simp add: StreamPacketsResponse_ref_default_def StreamPacketsResponse_default_instance_def lazy_static.holds_get)

interpretation StreamPacketsResponse_casts: dynamic_casts StreamPacketsResponse_as_any StreamPacketsResponse_into_any StreamPacketsResponse_as_any_mut downcast_StreamPacketsResponse TypeId_StreamPacketsResponse
  by unfold_locales (auto simp: StreamPacketsResponse_as_any_def StreamPacketsResponse_into_any_def StreamPacketsResponse_as_any_mut_def downcast_StreamPacketsResponse_def split: message_object.splits)

section \<open>The enumerations\<close>

definition PhyKind_as_ref :: "PhyKind \<Rightarrow> 'u reflect_value_ref" where
  "PhyKind_as_ref e = ReflectValueRef_Enum PhyKind_descriptor_static (PhyKind_value e)"
definition State_as_ref :: "State \<Rightarrow> 'u reflect_value_ref" where
  "State_as_ref e = ReflectValueRef_Enum State_descriptor_static (State_value e)"
definition Chip_ChipKind_as_ref :: "Chip_ChipKind \<Rightarrow> 'u reflect_value_ref" where
  "Chip_ChipKind_as_ref e = ReflectValueRef_Enum Chip_ChipKind_descriptor_static (Chip_ChipKind_value e)"
definition HCIPacket_PacketType_as_ref :: "HCIPacket_PacketType \<Rightarrow> 'u reflect_value_ref" where
  "HCIPacket_PacketType_as_ref e = ReflectValueRef_Enum HCIPacket_PacketType_descriptor_static (HCIPacket_PacketType_value e)"

end
