(* ===== verification/Pb_Equal.thy ===== *)
theory Pb_Equal
  imports Pb_Packet Pb_Frontend Pb_Wire
begin

text \<open>
  The derived comparison \<^verbatim>\<open>#[derive(PartialEq)]\<close> of the messages: \<open>C_eq\<close> compares the fields in the order
  of the struct, as Rust compares their types: floats are equal as numbers (the zeros are equal, a
  NaN equals nothing), an absent message equals an absent one, lists are equal entry by entry. The
  last two fields are types of the \<^verbatim>\<open>protobuf\<close> crate, whose comparisons are the parameter \<open>Q\<close>.

  For messages without unknown fields \<open>C_eq\<close> is equality of what is transmitted: \<open>equal_message\<close> adds to
  the contract of a message that it is equality up to \<open>C_canon\<close> where no NaN occurs, and that
  the size and the bytes depend on \<open>C_canon\<close> only. From it follows that messages are equal exactly if their
  bytes are.
\<close>

section \<open>Comparison of the field types\<close>

definition f32_nan :: "f32 \<Rightarrow> bool" where
  "f32_nan v \<longleftrightarrow> 0x7F800000 < take_bit 31 v"

definition f32_eq :: "f32 \<Rightarrow> f32 \<Rightarrow> bool" where
  "f32_eq a b \<longleftrightarrow> \<not> f32_nan a \<and> \<not> f32_nan b \<and> (a = b \<or> f32_is_zero a \<and> f32_is_zero b)"

lemma f32_nan_zero [simp]: "f32_is_zero v \<Longrightarrow> \<not> f32_nan v"
  by (auto simp: f32_is_zero_def f32_nan_def)

lemma f32_eq_canon: "f32_eq a b \<longleftrightarrow> \<not> f32_nan a \<and> canon_f32 a = canon_f32 b"
  by (auto simp: f32_eq_def canon_f32_def f32_is_zero_def f32_nan_def)

lemma canon_f32_zero [simp]: "f32_is_zero (canon_f32 v) = f32_is_zero v"
  by (auto simp: canon_f32_def f32_is_zero_def)

lemma canon_f32_idem [simp]: "canon_f32 (canon_f32 v) = canon_f32 v"
  by (auto simp: canon_f32_def f32_is_zero_def)

lemma canon_f32_nonzero: "\<not> f32_is_zero v \<Longrightarrow> canon_f32 v = v"
  by (simp add: canon_f32_def)

record 'u crate_eq =
  eq_unknown :: "'u \<Rightarrow> 'u \<Rightarrow> bool"
  eq_cached :: "u32 \<Rightarrow> u32 \<Rightarrow> bool"

text \<open>The crate: unknown fields that are empty are equal, and the stored size never makes a difference.\<close>

locale message_equality = protobuf_runtime W for W :: "'u protobuf_rt" +
  fixes Q :: "'u crate_eq"
  assumes none_unknown: "eq_unknown Q (uf_new W) (uf_new W)"
    and sizes_ignored: "eq_cached Q c d"

section \<open>The contract\<close>

locale equal_message = pb_message +
  fixes eq :: "'a \<Rightarrow> 'a \<Rightarrow> bool"
    and nan_free :: "'a \<Rightarrow> bool"
  assumes eq_canon: "wf a \<Longrightarrow> wf b \<Longrightarrow> eq a b \<longleftrightarrow> nan_free a \<and> canon a = canon b"
    and canon_size: "fst (compute_size (canon a)) = fst (compute_size a)"
    and canon_bytes: "wr (snd (compute_size (canon a))) = wr (snd (compute_size a))"
    and canon_wf: "wf a \<Longrightarrow> wf (canon a)"
    and canon_idem: "canon (canon a) = canon a"
begin

lemma optional_wf:
  "pred_option wf x \<Longrightarrow> pred_option wf (map_option canon x)"
  "map_option canon (map_option canon x) = map_option canon x"
  by (cases x; simp add: canon_wf canon_idem)+

lemma repeated_wf:
  "list_all wf xs \<Longrightarrow> list_all wf (map canon xs)"
  "map (canon \<circ> canon) xs = map canon xs"
  by (induction xs) (simp_all add: canon_wf canon_idem)

lemma embedded_canon:
  "fst (embedded_size W compute_size (canon v)) = fst (embedded_size W compute_size v)"
  "os_message W f cached wr (snd (embedded_size W compute_size (canon v))) =
    os_message W f cached wr (snd (embedded_size W compute_size v))"
  by (simp_all add: embedded_size_def os_message_def case_prod_beta canon_size canon_bytes size_cached)

lemma optional_canon:
  "fst (optional_size W compute_size (map_option canon v)) = fst (optional_size W compute_size v)"
  "os_optional W f cached wr (snd (optional_size W compute_size (map_option canon v))) =
    os_optional W f cached wr (snd (optional_size W compute_size v))"
  by (cases v; simp add: case_prod_beta embedded_canon)+

lemma repeated_canon:
  "fst (repeated_size W compute_size (map canon vs)) = fst (repeated_size W compute_size vs)"
  "os_repeated W f cached wr (snd (repeated_size W compute_size (map canon vs))) =
    os_repeated W f cached wr (snd (repeated_size W compute_size vs))"
  by (induction vs) (simp_all add: case_prod_beta embedded_canon)

lemma optional_eq:
  "pred_option wf x \<Longrightarrow> pred_option wf y \<Longrightarrow>
    rel_option eq x y \<longleftrightarrow> pred_option nan_free x \<and> map_option canon x = map_option canon y"
  by (cases x; cases y) (simp_all add: eq_canon)

lemma repeated_eq:
  "list_all wf xs \<Longrightarrow> list_all wf ys \<Longrightarrow>
    list_all2 eq xs ys \<longleftrightarrow> list_all nan_free xs \<and> map canon xs = map canon ys"
proof (induction xs arbitrary: ys)
  case (Cons x xs)
  then show ?case
    by (cases ys) (auto simp: eq_canon)
qed auto

text \<open>Messages are equal exactly if they are written alike.\<close>

lemma eq_iff_bytes:
  assumes "wf a" "wf b" "length (wr (snd (compute_size a))) < 2 ^ 32"
  shows "eq a b \<longleftrightarrow> nan_free a \<and> wr (snd (compute_size a)) = wr (snd (compute_size b))"
proof
  assume "eq a b"
  then show "nan_free a \<and> wr (snd (compute_size a)) = wr (snd (compute_size b))"
    using eq_canon [OF assms(1,2)] canon_bytes by metis
next
  assume r: "nan_free a \<and> wr (snd (compute_size a)) = wr (snd (compute_size b))"
  then have "canon a = canon b"
    using reads_back [OF assms(1,3)] reads_back [OF assms(2)] assms(3) by simp
  with r show "eq a b"
    by (simp add: eq_canon assms)
qed

text \<open>What is read back is written as the same bytes, and equals the original unless there is a NaN.\<close>

lemma round_trip_equal:
  assumes "wf a" "length (wr (snd (compute_size a))) < 2 ^ 32"
  shows "write_to_bytes initialized compute_size wr a = Inr (wr (snd (compute_size a)))"
    and "parse_from_bytes new initialized merge (wr (snd (compute_size a))) = Inr (canon a)"
    and "write_to_bytes initialized compute_size wr (canon a) = Inr (wr (snd (compute_size a)))"
    and "eq a (canon a) \<longleftrightarrow> nan_free a"
  using write_to_bytes_eq [of a] write_to_bytes_eq [of "canon a"] parse_written [of a] assms
  by (simp_all add: canon_bytes eq_canon canon_wf canon_idem)

end

section \<open>The derived comparisons\<close>

definition Position_eq :: "'u crate_eq \<Rightarrow> 'u Position \<Rightarrow> 'u Position \<Rightarrow> bool" where
  "Position_eq Q a b \<longleftrightarrow>
     f32_eq (Position_x a) (Position_x b) \<and>
     f32_eq (Position_y a) (Position_y b) \<and>
     f32_eq (Position_z a) (Position_z b) \<and>
     eq_unknown Q (unknown_fields a) (unknown_fields b) \<and>
     eq_cached Q (cached_size a) (cached_size b)"

definition Position_nan_free :: "'u Position \<Rightarrow> bool" where
  "Position_nan_free a \<longleftrightarrow>
     \<not> f32_nan (Position_x a) \<and>
     \<not> f32_nan (Position_y a) \<and>
     \<not> f32_nan (Position_z a)"

definition Orientation_eq :: "'u crate_eq \<Rightarrow> 'u Orientation \<Rightarrow> 'u Orientation \<Rightarrow> bool" where
  "Orientation_eq Q a b \<longleftrightarrow>
     f32_eq (Orientation_yaw a) (Orientation_yaw b) \<and>
     f32_eq (Orientation_pitch a) (Orientation_pitch b) \<and>
     f32_eq (Orientation_roll a) (Orientation_roll b) \<and>
     eq_unknown Q (unknown_fields a) (unknown_fields b) \<and>
     eq_cached Q (cached_size a) (cached_size b)"

definition Orientation_nan_free :: "'u Orientation \<Rightarrow> bool" where
  "Orientation_nan_free a \<longleftrightarrow>
     \<not> f32_nan (Orientation_yaw a) \<and>
     \<not> f32_nan (Orientation_pitch a) \<and>
     \<not> f32_nan (Orientation_roll a)"

definition Chip_Radio_eq :: "'u crate_eq \<Rightarrow> 'u Chip_Radio \<Rightarrow> 'u Chip_Radio \<Rightarrow> bool" where
  "Chip_Radio_eq Q a b \<longleftrightarrow>
     Chip_Radio_state a = Chip_Radio_state b \<and>
     f32_eq (Chip_Radio_range a) (Chip_Radio_range b) \<and>
     Chip_Radio_tx_count a = Chip_Radio_tx_count b \<and>
     Chip_Radio_rx_count a = Chip_Radio_rx_count b \<and>
     eq_unknown Q (unknown_fields a) (unknown_fields b) \<and>
     eq_cached Q (cached_size a) (cached_size b)"

definition Chip_Radio_nan_free :: "'u Chip_Radio \<Rightarrow> bool" where
  "Chip_Radio_nan_free a \<longleftrightarrow>
     \<not> f32_nan (Chip_Radio_range a)"

definition Chip_Bluetooth_eq :: "'u crate_eq \<Rightarrow> 'u Chip_Bluetooth \<Rightarrow> 'u Chip_Bluetooth \<Rightarrow> bool" where
  "Chip_Bluetooth_eq Q a b \<longleftrightarrow>
     rel_option (Chip_Radio_eq Q) (Chip_Bluetooth_low_energy a) (Chip_Bluetooth_low_energy b) \<and>
     rel_option (Chip_Radio_eq Q) (Chip_Bluetooth_classic a) (Chip_Bluetooth_classic b) \<and>
     eq_unknown Q (unknown_fields a) (unknown_fields b) \<and>
     eq_cached Q (cached_size a) (cached_size b)"

definition Chip_Bluetooth_nan_free :: "'u Chip_Bluetooth \<Rightarrow> bool" where
  "Chip_Bluetooth_nan_free a \<longleftrightarrow>
     pred_option Chip_Radio_nan_free (Chip_Bluetooth_low_energy a) \<and>
     pred_option Chip_Radio_nan_free (Chip_Bluetooth_classic a)"

fun Chip_oneof_chip_eq :: "'u crate_eq \<Rightarrow> 'u Chip_oneof_chip \<Rightarrow> 'u Chip_oneof_chip \<Rightarrow> bool" where
  "Chip_oneof_chip_eq Q (Chip_oneof_chip_bt x) (Chip_oneof_chip_bt y) \<longleftrightarrow> Chip_Bluetooth_eq Q x y"
| "Chip_oneof_chip_eq Q (Chip_oneof_chip_uwb x) (Chip_oneof_chip_uwb y) \<longleftrightarrow> Chip_Radio_eq Q x y"
| "Chip_oneof_chip_eq Q (Chip_oneof_chip_wifi x) (Chip_oneof_chip_wifi y) \<longleftrightarrow> Chip_Radio_eq Q x y"
| "Chip_oneof_chip_eq Q _ _ \<longleftrightarrow> False"

fun Chip_oneof_chip_nan_free :: "'u Chip_oneof_chip \<Rightarrow> bool" where
  "Chip_oneof_chip_nan_free (Chip_oneof_chip_bt x) \<longleftrightarrow> Chip_Bluetooth_nan_free x"
| "Chip_oneof_chip_nan_free (Chip_oneof_chip_uwb x) \<longleftrightarrow> Chip_Radio_nan_free x"
| "Chip_oneof_chip_nan_free (Chip_oneof_chip_wifi x) \<longleftrightarrow> Chip_Radio_nan_free x"

definition Chip_eq :: "'u crate_eq \<Rightarrow> 'u Chip \<Rightarrow> 'u Chip \<Rightarrow> bool" where
  "Chip_eq Q a b \<longleftrightarrow>
     Chip_chip_id a = Chip_chip_id b \<and>
     Chip_manufacturer a = Chip_manufacturer b \<and>
     Chip_model a = Chip_model b \<and>
     Chip_capture a = Chip_capture b \<and>
     rel_option (Chip_oneof_chip_eq Q) (Chip_chip a) (Chip_chip b) \<and>
     eq_unknown Q (unknown_fields a) (unknown_fields b) \<and>
     eq_cached Q (cached_size a) (cached_size b)"

definition Chip_nan_free :: "'u Chip \<Rightarrow> bool" where
  "Chip_nan_free a \<longleftrightarrow>
     pred_option Chip_oneof_chip_nan_free (Chip_chip a)"

definition Device_eq :: "'u crate_eq \<Rightarrow> 'u Device \<Rightarrow> 'u Device \<Rightarrow> bool" where
  "Device_eq Q a b \<longleftrightarrow>
     Device_device_serial a = Device_device_serial b \<and>
     Device_name a = Device_name b \<and>
     Device_visible a = Device_visible b \<and>
     rel_option (Position_eq Q) (Device_position a) (Device_position b) \<and>
     rel_option (Orientation_eq Q) (Device_orientation a) (Device_orientation b) \<and>
     list_all2 (Chip_eq Q) (Device_chips a) (Device_chips b) \<and>
     eq_unknown Q (unknown_fields a) (unknown_fields b) \<and>
     eq_cached Q (cached_size a) (cached_size b)"

definition Device_nan_free :: "'u Device \<Rightarrow> bool" where
  "Device_nan_free a \<longleftrightarrow>
     pred_option Position_nan_free (Device_position a) \<and>
     pred_option Orientation_nan_free (Device_orientation a) \<and>
     list_all Chip_nan_free (Device_chips a)"

definition Scene_eq :: "'u crate_eq \<Rightarrow> 'u Scene \<Rightarrow> 'u Scene \<Rightarrow> bool" where
  "Scene_eq Q a b \<longleftrightarrow>
     list_all2 (Device_eq Q) (Scene_devices a) (Scene_devices b) \<and>
     eq_unknown Q (unknown_fields a) (unknown_fields b) \<and>
     eq_cached Q (cached_size a) (cached_size b)"

definition Scene_nan_free :: "'u Scene \<Rightarrow> bool" where
  "Scene_nan_free a \<longleftrightarrow>
     list_all Device_nan_free (Scene_devices a)"

definition VersionResponse_eq :: "'u crate_eq \<Rightarrow> 'u VersionResponse \<Rightarrow> 'u VersionResponse \<Rightarrow> bool" where
  "VersionResponse_eq Q a b \<longleftrightarrow>
     VersionResponse_version a = VersionResponse_version b \<and>
     eq_unknown Q (unknown_fields a) (unknown_fields b) \<and>
     eq_cached Q (cached_size a) (cached_size b)"

definition SetLinkLossRequest_eq :: "'u crate_eq \<Rightarrow> 'u SetLinkLossRequest \<Rightarrow> 'u SetLinkLossRequest \<Rightarrow> bool" where
  "SetLinkLossRequest_eq Q a b \<longleftrightarrow>
     SetLinkLossRequest_device_serial a = SetLinkLossRequest_device_serial b \<and>
     SetLinkLossRequest_other_device a = SetLinkLossRequest_other_device b \<and>
     SetLinkLossRequest_radio a = SetLinkLossRequest_radio b \<and>
     f32_eq (SetLinkLossRequest_link_loss a) (SetLinkLossRequest_link_loss b) \<and>
     eq_unknown Q (unknown_fields a) (unknown_fields b) \<and>
     eq_cached Q (cached_size a) (cached_size b)"

definition SetLinkLossRequest_nan_free :: "'u SetLinkLossRequest \<Rightarrow> bool" where
  "SetLinkLossRequest_nan_free a \<longleftrightarrow>
     \<not> f32_nan (SetLinkLossRequest_link_loss a)"

definition UpdateDeviceRequest_eq :: "'u crate_eq \<Rightarrow> 'u UpdateDeviceRequest \<Rightarrow> 'u UpdateDeviceRequest \<Rightarrow> bool" where
  "UpdateDeviceRequest_eq Q a b \<longleftrightarrow>
     rel_option (Device_eq Q) (UpdateDeviceRequest_device a) (UpdateDeviceRequest_device b) \<and>
     eq_unknown Q (unknown_fields a) (unknown_fields b) \<and>
     eq_cached Q (cached_size a) (cached_size b)"

definition UpdateDeviceRequest_nan_free :: "'u UpdateDeviceRequest \<Rightarrow> bool" where
  "UpdateDeviceRequest_nan_free a \<longleftrightarrow>
     pred_option Device_nan_free (UpdateDeviceRequest_device a)"

definition Updates_eq :: "'u crate_eq \<Rightarrow> 'u Updates \<Rightarrow> 'u Updates \<Rightarrow> bool" where
  "Updates_eq Q a b \<longleftrightarrow>
     list_all2 (Device_eq Q) (Updates_devices a) (Updates_devices b) \<and>
     eq_unknown Q (unknown_fields a) (unknown_fields b) \<and>
     eq_cached Q (cached_size a) (cached_size b)"

definition Updates_nan_free :: "'u Updates \<Rightarrow> bool" where
  "Updates_nan_free a \<longleftrightarrow>
     list_all Device_nan_free (Updates_devices a)"

definition GetDevicesResponse_eq :: "'u crate_eq \<Rightarrow> 'u GetDevicesResponse \<Rightarrow> 'u GetDevicesResponse \<Rightarrow> bool" where
  "GetDevicesResponse_eq Q a b \<longleftrightarrow>
     list_all2 (Device_eq Q) (GetDevicesResponse_devices a) (GetDevicesResponse_devices b) \<and>
     eq_unknown Q (unknown_fields a) (unknown_fields b) \<and>
     eq_cached Q (cached_size a) (cached_size b)"

definition GetDevicesResponse_nan_free :: "'u GetDevicesResponse \<Rightarrow> bool" where
  "GetDevicesResponse_nan_free a \<longleftrightarrow>
     list_all Device_nan_free (GetDevicesResponse_devices a)"

definition NetCatStream_eq :: "'u crate_eq \<Rightarrow> 'u NetCatStream \<Rightarrow> 'u NetCatStream \<Rightarrow> bool" where
  "NetCatStream_eq Q a b \<longleftrightarrow>
     NetCatStream_result a = NetCatStream_result b \<and>
     eq_unknown Q (unknown_fields a) (unknown_fields b) \<and>
     eq_cached Q (cached_size a) (cached_size b)"

definition SetPacketCaptureRequest_eq :: "'u crate_eq \<Rightarrow> 'u SetPacketCaptureRequest \<Rightarrow> 'u SetPacketCaptureRequest \<Rightarrow> bool" where
  "SetPacketCaptureRequest_eq Q a b \<longleftrightarrow>
     SetPacketCaptureRequest_capture a = SetPacketCaptureRequest_capture b \<and>
     SetPacketCaptureRequest_device_serial a = SetPacketCaptureRequest_device_serial b \<and>
     eq_unknown Q (unknown_fields a) (unknown_fields b) \<and>
     eq_cached Q (cached_size a) (cached_size b)"

definition Startup_Chip_eq :: "'u crate_eq \<Rightarrow> 'u Startup_Chip \<Rightarrow> 'u Startup_Chip \<Rightarrow> bool" where
  "Startup_Chip_eq Q a b \<longleftrightarrow>
     Startup_Chip_kind a = Startup_Chip_kind b \<and>
     Startup_Chip_id a = Startup_Chip_id b \<and>
     Startup_Chip_manufacturer a = Startup_Chip_manufacturer b \<and>
     Startup_Chip_model a = Startup_Chip_model b \<and>
     Startup_Chip_fd_in a = Startup_Chip_fd_in b \<and>
     Startup_Chip_fd_out a = Startup_Chip_fd_out b \<and>
     Startup_Chip_loopback a = Startup_Chip_loopback b \<and>
     eq_unknown Q (unknown_fields a) (unknown_fields b) \<and>
     eq_cached Q (cached_size a) (cached_size b)"

definition StartupInfo_Device_eq :: "'u crate_eq \<Rightarrow> 'u StartupInfo_Device \<Rightarrow> 'u StartupInfo_Device \<Rightarrow> bool" where
  "StartupInfo_Device_eq Q a b \<longleftrightarrow>
     StartupInfo_Device_serial a = StartupInfo_Device_serial b \<and>
     list_all2 (Startup_Chip_eq Q) (StartupInfo_Device_chips a) (StartupInfo_Device_chips b) \<and>
     eq_unknown Q (unknown_fields a) (unknown_fields b) \<and>
     eq_cached Q (cached_size a) (cached_size b)"

definition StartupInfo_eq :: "'u crate_eq \<Rightarrow> 'u StartupInfo \<Rightarrow> 'u StartupInfo \<Rightarrow> bool" where
  "StartupInfo_eq Q a b \<longleftrightarrow>
     list_all2 (StartupInfo_Device_eq Q) (StartupInfo_devices a) (StartupInfo_devices b) \<and>
     eq_unknown Q (unknown_fields a) (unknown_fields b) \<and>
     eq_cached Q (cached_size a) (cached_size b)"

definition ChipInfo_eq :: "'u crate_eq \<Rightarrow> 'u ChipInfo \<Rightarrow> 'u ChipInfo \<Rightarrow> bool" where
  "ChipInfo_eq Q a b \<longleftrightarrow>
     ChipInfo_serial a = ChipInfo_serial b \<and>
     rel_option (Startup_Chip_eq Q) (ChipInfo_chip a) (ChipInfo_chip b) \<and>
     eq_unknown Q (unknown_fields a) (unknown_fields b) \<and>
     eq_cached Q (cached_size a) (cached_size b)"

definition HCIPacket_eq :: "'u crate_eq \<Rightarrow> 'u HCIPacket \<Rightarrow> 'u HCIPacket \<Rightarrow> bool" where
  "HCIPacket_eq Q a b \<longleftrightarrow>
     HCIPacket_field_type a = HCIPacket_field_type b \<and>
     HCIPacket_packet a = HCIPacket_packet b \<and>
     eq_unknown Q (unknown_fields a) (unknown_fields b) \<and>
     eq_cached Q (cached_size a) (cached_size b)"

fun StreamPacketsRequest_oneof_request_type_eq :: "'u crate_eq \<Rightarrow> 'u StreamPacketsRequest_oneof_request_type \<Rightarrow> 'u StreamPacketsRequest_oneof_request_type \<Rightarrow> bool" where
  "StreamPacketsRequest_oneof_request_type_eq Q (StreamPacketsRequest_oneof_request_type_initial_info x) (StreamPacketsRequest_oneof_request_type_initial_info y) \<longleftrightarrow> ChipInfo_eq Q x y"
| "StreamPacketsRequest_oneof_request_type_eq Q (StreamPacketsRequest_oneof_request_type_hci_packet x) (StreamPacketsRequest_oneof_request_type_hci_packet y) \<longleftrightarrow> HCIPacket_eq Q x y"
| "StreamPacketsRequest_oneof_request_type_eq Q (StreamPacketsRequest_oneof_request_type_packet x) (StreamPacketsRequest_oneof_request_type_packet y) \<longleftrightarrow> x = y"
| "StreamPacketsRequest_oneof_request_type_eq Q _ _ \<longleftrightarrow> False"

definition StreamPacketsRequest_eq :: "'u crate_eq \<Rightarrow> 'u StreamPacketsRequest \<Rightarrow> 'u StreamPacketsRequest \<Rightarrow> bool" where
  "StreamPacketsRequest_eq Q a b \<longleftrightarrow>
     rel_option (StreamPacketsRequest_oneof_request_type_eq Q) (StreamPacketsRequest_request_type a) (StreamPacketsRequest_request_type b) \<and>
     eq_unknown Q (unknown_fields a) (unknown_fields b) \<and>
     eq_cached Q (cached_size a) (cached_size b)"

fun StreamPacketsResponse_oneof_response_type_eq :: "'u crate_eq \<Rightarrow> 'u StreamPacketsResponse_oneof_response_type \<Rightarrow> 'u StreamPacketsResponse_oneof_response_type \<Rightarrow> bool" where
  "StreamPacketsResponse_oneof_response_type_eq Q (StreamPacketsResponse_oneof_response_type_error x) (StreamPacketsResponse_oneof_response_type_error y) \<longleftrightarrow> x = y"
| "StreamPacketsResponse_oneof_response_type_eq Q (StreamPacketsResponse_oneof_response_type_hci_packet x) (StreamPacketsResponse_oneof_response_type_hci_packet y) \<longleftrightarrow> HCIPacket_eq Q x y"
| "StreamPacketsResponse_oneof_response_type_eq Q (StreamPacketsResponse_oneof_response_type_packet x) (StreamPacketsResponse_oneof_response_type_packet y) \<longleftrightarrow> x = y"
| "StreamPacketsResponse_oneof_response_type_eq Q _ _ \<longleftrightarrow> False"

definition StreamPacketsResponse_eq :: "'u crate_eq \<Rightarrow> 'u StreamPacketsResponse \<Rightarrow> 'u StreamPacketsResponse \<Rightarrow> bool" where
  "StreamPacketsResponse_eq Q a b \<longleftrightarrow>
     rel_option (StreamPacketsResponse_oneof_response_type_eq Q) (StreamPacketsResponse_response_type a) (StreamPacketsResponse_response_type b) \<and>
     eq_unknown Q (unknown_fields a) (unknown_fields b) \<and>
     eq_cached Q (cached_size a) (cached_size b)"

section \<open>The messages keep the contract\<close>

context message_equality
begin

lemma Position_canon_size: "fst (Position_compute_size W (Position_canon m)) = fst (Position_compute_size W m)"
  by (simp add: Position_compute_size_def Position_canon_def Let_def case_prod_beta canon_f32_nonzero )

lemma Position_canon_bytes:
  "Position_write_to_with_cached_sizes W (snd (Position_compute_size W (Position_canon m))) =
    Position_write_to_with_cached_sizes W (snd (Position_compute_size W m))"
  by (simp add: Position_write_to_with_cached_sizes_def Position_sized Position_canon_def Let_def case_prod_beta canon_f32_nonzero )

lemma Position_eq_canon: "Position_wf W a \<Longrightarrow> Position_wf W b \<Longrightarrow> Position_eq Q a b \<longleftrightarrow> Position_nan_free a \<and> Position_canon a = Position_canon b"
  by (cases a; cases b)
    (auto simp add: Position_eq_def Position_nan_free_def Position_canon_def Position_wf_def f32_eq_canon none_unknown sizes_ignored list.pred_True option.pred_True )

lemma Position_canon_wf: "Position_wf W a \<Longrightarrow> Position_wf W (Position_canon a)"
  by (simp add: Position_wf_def Position_canon_def )

lemma Position_canon_idem: "Position_canon (Position_canon a) = Position_canon (a :: 'u Position)"
  by (cases a) (simp add: Position_canon_def )

end

sublocale message_equality < Position_eq: equal_message W "Position_new W" Position_is_initialized "Position_compute_size W"
    "Position_write_to_with_cached_sizes W" Position_get_cached_size "Position_merge_from W" "Position_wf W" Position_canon "Position_join W" "Position_eq Q" "Position_nan_free"
  by unfold_locales (simp_all add: Position_eq_canon Position_canon_size Position_canon_bytes Position_canon_wf Position_canon_idem)

context message_equality
begin

lemma Orientation_canon_size: "fst (Orientation_compute_size W (Orientation_canon m)) = fst (Orientation_compute_size W m)"
  by (simp add: Orientation_compute_size_def Orientation_canon_def Let_def case_prod_beta canon_f32_nonzero )

lemma Orientation_canon_bytes:
  "Orientation_write_to_with_cached_sizes W (snd (Orientation_compute_size W (Orientation_canon m))) =
    Orientation_write_to_with_cached_sizes W (snd (Orientation_compute_size W m))"
  by (simp add: Orientation_write_to_with_cached_sizes_def Orientation_sized Orientation_canon_def Let_def case_prod_beta canon_f32_nonzero )

lemma Orientation_eq_canon: "Orientation_wf W a \<Longrightarrow> Orientation_wf W b \<Longrightarrow> Orientation_eq Q a b \<longleftrightarrow> Orientation_nan_free a \<and> Orientation_canon a = Orientation_canon b"
  by (cases a; cases b)
    (auto simp add: Orientation_eq_def Orientation_nan_free_def Orientation_canon_def Orientation_wf_def f32_eq_canon none_unknown sizes_ignored list.pred_True option.pred_True )

lemma Orientation_canon_wf: "Orientation_wf W a \<Longrightarrow> Orientation_wf W (Orientation_canon a)"
  by (simp add: Orientation_wf_def Orientation_canon_def )

lemma Orientation_canon_idem: "Orientation_canon (Orientation_canon a) = Orientation_canon (a :: 'u Orientation)"
  by (cases a) (simp add: Orientation_canon_def )

end

sublocale message_equality < Orientation_eq: equal_message W "Orientation_new W" Orientation_is_initialized "Orientation_compute_size W"
    "Orientation_write_to_with_cached_sizes W" Orientation_get_cached_size "Orientation_merge_from W" "Orientation_wf W" Orientation_canon "Orientation_join W" "Orientation_eq Q" "Orientation_nan_free"
  by unfold_locales (simp_all add: Orientation_eq_canon Orientation_canon_size Orientation_canon_bytes Orientation_canon_wf Orientation_canon_idem)

context message_equality
begin

lemma Chip_Radio_canon_size: "fst (Chip_Radio_compute_size W (Chip_Radio_canon m)) = fst (Chip_Radio_compute_size W m)"
  by (simp add: Chip_Radio_compute_size_def Chip_Radio_canon_def Let_def case_prod_beta canon_f32_nonzero )

lemma Chip_Radio_canon_bytes:
  "Chip_Radio_write_to_with_cached_sizes W (snd (Chip_Radio_compute_size W (Chip_Radio_canon m))) =
    Chip_Radio_write_to_with_cached_sizes W (snd (Chip_Radio_compute_size W m))"
  by (simp add: Chip_Radio_write_to_with_cached_sizes_def Chip_Radio_sized Chip_Radio_canon_def Let_def case_prod_beta canon_f32_nonzero )

lemma Chip_Radio_eq_canon: "Chip_Radio_wf W a \<Longrightarrow> Chip_Radio_wf W b \<Longrightarrow> Chip_Radio_eq Q a b \<longleftrightarrow> Chip_Radio_nan_free a \<and> Chip_Radio_canon a = Chip_Radio_canon b"
  by (cases a; cases b)
    (auto simp add: Chip_Radio_eq_def Chip_Radio_nan_free_def Chip_Radio_canon_def Chip_Radio_wf_def f32_eq_canon none_unknown sizes_ignored list.pred_True option.pred_True )

lemma Chip_Radio_canon_wf: "Chip_Radio_wf W a \<Longrightarrow> Chip_Radio_wf W (Chip_Radio_canon a)"
  by (simp add: Chip_Radio_wf_def Chip_Radio_canon_def )

lemma Chip_Radio_canon_idem: "Chip_Radio_canon (Chip_Radio_canon a) = Chip_Radio_canon (a :: 'u Chip_Radio)"
  by (cases a) (simp add: Chip_Radio_canon_def )

end

sublocale message_equality < Chip_Radio_eq: equal_message W "Chip_Radio_new W" Chip_Radio_is_initialized "Chip_Radio_compute_size W"
    "Chip_Radio_write_to_with_cached_sizes W" Chip_Radio_get_cached_size "Chip_Radio_merge_from W" "Chip_Radio_wf W" Chip_Radio_canon "Chip_Radio_join W" "Chip_Radio_eq Q" "Chip_Radio_nan_free"
  by unfold_locales (simp_all add: Chip_Radio_eq_canon Chip_Radio_canon_size Chip_Radio_canon_bytes Chip_Radio_canon_wf Chip_Radio_canon_idem)

context message_equality
begin

lemma Chip_Bluetooth_canon_size: "fst (Chip_Bluetooth_compute_size W (Chip_Bluetooth_canon m)) = fst (Chip_Bluetooth_compute_size W m)"
  by (simp add: Chip_Bluetooth_compute_size_def Chip_Bluetooth_canon_def Let_def case_prod_beta canon_f32_nonzero Chip_Radio_eq.optional_canon Chip_Radio_eq.repeated_canon)

lemma Chip_Bluetooth_canon_bytes:
  "Chip_Bluetooth_write_to_with_cached_sizes W (snd (Chip_Bluetooth_compute_size W (Chip_Bluetooth_canon m))) =
    Chip_Bluetooth_write_to_with_cached_sizes W (snd (Chip_Bluetooth_compute_size W m))"
  by (simp add: Chip_Bluetooth_write_to_with_cached_sizes_def Chip_Bluetooth_sized Chip_Bluetooth_canon_def Let_def case_prod_beta canon_f32_nonzero Chip_Radio_eq.optional_canon Chip_Radio_eq.repeated_canon)

lemma Chip_Bluetooth_eq_canon: "Chip_Bluetooth_wf W a \<Longrightarrow> Chip_Bluetooth_wf W b \<Longrightarrow> Chip_Bluetooth_eq Q a b \<longleftrightarrow> Chip_Bluetooth_nan_free a \<and> Chip_Bluetooth_canon a = Chip_Bluetooth_canon b"
  by (cases a; cases b)
    (auto simp add: Chip_Bluetooth_eq_def Chip_Bluetooth_nan_free_def Chip_Bluetooth_canon_def Chip_Bluetooth_wf_def f32_eq_canon none_unknown sizes_ignored list.pred_True option.pred_True Chip_Radio_eq.optional_eq Chip_Radio_eq.repeated_eq)

lemma Chip_Bluetooth_canon_wf: "Chip_Bluetooth_wf W a \<Longrightarrow> Chip_Bluetooth_wf W (Chip_Bluetooth_canon a)"
  by (simp add: Chip_Bluetooth_wf_def Chip_Bluetooth_canon_def Chip_Radio_eq.optional_wf Chip_Radio_eq.repeated_wf)

lemma Chip_Bluetooth_canon_idem: "Chip_Bluetooth_canon (Chip_Bluetooth_canon a) = Chip_Bluetooth_canon (a :: 'u Chip_Bluetooth)"
  by (cases a) (simp add: Chip_Bluetooth_canon_def Chip_Radio_eq.canon_idem Chip_Radio_eq.optional_wf Chip_Radio_eq.repeated_wf)

end

sublocale message_equality < Chip_Bluetooth_eq: equal_message W "Chip_Bluetooth_new W" Chip_Bluetooth_is_initialized "Chip_Bluetooth_compute_size W"
    "Chip_Bluetooth_write_to_with_cached_sizes W" Chip_Bluetooth_get_cached_size "Chip_Bluetooth_merge_from W" "Chip_Bluetooth_wf W" Chip_Bluetooth_canon "Chip_Bluetooth_join W" "Chip_Bluetooth_eq Q" "Chip_Bluetooth_nan_free"
  by unfold_locales (simp_all add: Chip_Bluetooth_eq_canon Chip_Bluetooth_canon_size Chip_Bluetooth_canon_bytes Chip_Bluetooth_canon_wf Chip_Bluetooth_canon_idem)

context message_equality
begin

lemma Chip_oneof_chip_canon_size:
  "fst (Chip_oneof_chip_size W (Chip_oneof_chip_canon v)) = fst (Chip_oneof_chip_size W v)"
  "Chip_oneof_chip_write W (snd (Chip_oneof_chip_size W (Chip_oneof_chip_canon v))) = Chip_oneof_chip_write W (snd (Chip_oneof_chip_size W v))"
  by (cases v; simp add: case_prod_beta Chip_Bluetooth_eq.embedded_canon Chip_Radio_eq.embedded_canon)+

lemma Chip_oneof_chip_eq_canon:
  "Chip_oneof_chip_wf W x \<Longrightarrow> Chip_oneof_chip_wf W y \<Longrightarrow> Chip_oneof_chip_eq Q x y \<longleftrightarrow> Chip_oneof_chip_nan_free x \<and> Chip_oneof_chip_canon x = Chip_oneof_chip_canon y"
  by (cases x; cases y) (simp_all add: Chip_Bluetooth_eq.eq_canon Chip_Radio_eq.eq_canon)

lemma Chip_oneof_chip_optional_eq:
  "pred_option (Chip_oneof_chip_wf W) x \<Longrightarrow> pred_option (Chip_oneof_chip_wf W) y \<Longrightarrow>
    rel_option (Chip_oneof_chip_eq Q) x y \<longleftrightarrow> pred_option Chip_oneof_chip_nan_free x \<and> map_option Chip_oneof_chip_canon x = map_option Chip_oneof_chip_canon y"
  by (cases x; cases y) (simp_all add: Chip_oneof_chip_eq_canon)

lemma Chip_oneof_chip_wf_canon:
  "Chip_oneof_chip_wf W v \<Longrightarrow> Chip_oneof_chip_wf W (Chip_oneof_chip_canon v)"
  "Chip_oneof_chip_canon (Chip_oneof_chip_canon v) = Chip_oneof_chip_canon v"
  by (cases v; simp add: Chip_Bluetooth_eq.canon_wf Chip_Bluetooth_eq.canon_idem Chip_Radio_eq.canon_wf Chip_Radio_eq.canon_idem)+

lemma Chip_oneof_chip_optional_wf:
  "pred_option (Chip_oneof_chip_wf W) x \<Longrightarrow> pred_option (Chip_oneof_chip_wf W) (map_option Chip_oneof_chip_canon x)"
  "map_option Chip_oneof_chip_canon (map_option Chip_oneof_chip_canon x) = map_option Chip_oneof_chip_canon x"
  by (cases x; simp add: Chip_oneof_chip_wf_canon)+

lemma Chip_canon_size: "fst (Chip_compute_size W (Chip_canon m)) = fst (Chip_compute_size W m)"
  by (cases "Chip_chip m")
    (simp_all add: Chip_compute_size_def Chip_canon_def Let_def case_prod_beta canon_f32_nonzero Chip_Bluetooth_eq.optional_canon Chip_Bluetooth_eq.repeated_canon Chip_Radio_eq.optional_canon Chip_Radio_eq.repeated_canon Chip_oneof_chip_canon_size)

lemma Chip_canon_bytes:
  "Chip_write_to_with_cached_sizes W (snd (Chip_compute_size W (Chip_canon m))) =
    Chip_write_to_with_cached_sizes W (snd (Chip_compute_size W m))"
  by (cases "Chip_chip m")
    (simp_all add: Chip_write_to_with_cached_sizes_def Chip_sized Chip_canon_def Let_def case_prod_beta canon_f32_nonzero Chip_Bluetooth_eq.optional_canon Chip_Bluetooth_eq.repeated_canon Chip_Radio_eq.optional_canon Chip_Radio_eq.repeated_canon Chip_oneof_chip_canon_size)

lemma Chip_eq_canon: "Chip_wf W a \<Longrightarrow> Chip_wf W b \<Longrightarrow> Chip_eq Q a b \<longleftrightarrow> Chip_nan_free a \<and> Chip_canon a = Chip_canon b"
  by (cases a; cases b)
    (auto simp add: Chip_eq_def Chip_nan_free_def Chip_canon_def Chip_wf_def f32_eq_canon none_unknown sizes_ignored list.pred_True option.pred_True Chip_Bluetooth_eq.optional_eq Chip_Bluetooth_eq.repeated_eq Chip_Radio_eq.optional_eq Chip_Radio_eq.repeated_eq Chip_oneof_chip_optional_eq)

lemma Chip_canon_wf: "Chip_wf W a \<Longrightarrow> Chip_wf W (Chip_canon a)"
  by (simp add: Chip_wf_def Chip_canon_def Chip_Bluetooth_eq.optional_wf Chip_Bluetooth_eq.repeated_wf Chip_Radio_eq.optional_wf Chip_Radio_eq.repeated_wf Chip_oneof_chip_optional_wf)

lemma Chip_canon_idem: "Chip_canon (Chip_canon a) = Chip_canon (a :: 'u Chip)"
  by (cases a) (simp add: Chip_canon_def Chip_Bluetooth_eq.canon_idem Chip_Bluetooth_eq.optional_wf Chip_Bluetooth_eq.repeated_wf Chip_Radio_eq.canon_idem Chip_Radio_eq.optional_wf Chip_Radio_eq.repeated_wf Chip_oneof_chip_optional_wf)

end

sublocale message_equality < Chip_eq: equal_message W "Chip_new W" Chip_is_initialized "Chip_compute_size W"
    "Chip_write_to_with_cached_sizes W" Chip_get_cached_size "Chip_merge_from W" "Chip_wf W" Chip_canon "Chip_join W" "Chip_eq Q" "Chip_nan_free"
  by unfold_locales (simp_all add: Chip_eq_canon Chip_canon_size Chip_canon_bytes Chip_canon_wf Chip_canon_idem)

context message_equality
begin

lemma Device_canon_size: "fst (Device_compute_size W (Device_canon m)) = fst (Device_compute_size W m)"
  by (simp add: Device_compute_size_def Device_canon_def Let_def case_prod_beta canon_f32_nonzero Chip_eq.optional_canon Chip_eq.repeated_canon Orientation_eq.optional_canon Orientation_eq.repeated_canon Position_eq.optional_canon Position_eq.repeated_canon)

lemma Device_canon_bytes:
  "Device_write_to_with_cached_sizes W (snd (Device_compute_size W (Device_canon m))) =
    Device_write_to_with_cached_sizes W (snd (Device_compute_size W m))"
  by (simp add: Device_write_to_with_cached_sizes_def Device_sized Device_canon_def Let_def case_prod_beta canon_f32_nonzero Chip_eq.optional_canon Chip_eq.repeated_canon Orientation_eq.optional_canon Orientation_eq.repeated_canon Position_eq.optional_canon Position_eq.repeated_canon)

lemma Device_eq_canon: "Device_wf W a \<Longrightarrow> Device_wf W b \<Longrightarrow> Device_eq Q a b \<longleftrightarrow> Device_nan_free a \<and> Device_canon a = Device_canon b"
  by (cases a; cases b)
    (auto simp add: Device_eq_def Device_nan_free_def Device_canon_def Device_wf_def f32_eq_canon none_unknown sizes_ignored list.pred_True option.pred_True Chip_eq.optional_eq Chip_eq.repeated_eq Orientation_eq.optional_eq Orientation_eq.repeated_eq Position_eq.optional_eq Position_eq.repeated_eq)

lemma Device_canon_wf: "Device_wf W a \<Longrightarrow> Device_wf W (Device_canon a)"
  by (simp add: Device_wf_def Device_canon_def Chip_eq.optional_wf Chip_eq.repeated_wf Orientation_eq.optional_wf Orientation_eq.repeated_wf Position_eq.optional_wf Position_eq.repeated_wf)

lemma Device_canon_idem: "Device_canon (Device_canon a) = Device_canon (a :: 'u Device)"
  by (cases a) (simp add: Device_canon_def Chip_eq.canon_idem Chip_eq.optional_wf Chip_eq.repeated_wf Orientation_eq.canon_idem Orientation_eq.optional_wf Orientation_eq.repeated_wf Position_eq.canon_idem Position_eq.optional_wf Position_eq.repeated_wf)

end

sublocale message_equality < Device_eq: equal_message W "Device_new W" Device_is_initialized "Device_compute_size W"
    "Device_write_to_with_cached_sizes W" Device_get_cached_size "Device_merge_from W" "Device_wf W" Device_canon "Device_join W" "Device_eq Q" "Device_nan_free"
  by unfold_locales (simp_all add: Device_eq_canon Device_canon_size Device_canon_bytes Device_canon_wf Device_canon_idem)

context message_equality
begin

lemma Scene_canon_size: "fst (Scene_compute_size W (Scene_canon m)) = fst (Scene_compute_size W m)"
  by (simp add: Scene_compute_size_def Scene_canon_def Let_def case_prod_beta canon_f32_nonzero Device_eq.optional_canon Device_eq.repeated_canon)

lemma Scene_canon_bytes:
  "Scene_write_to_with_cached_sizes W (snd (Scene_compute_size W (Scene_canon m))) =
    Scene_write_to_with_cached_sizes W (snd (Scene_compute_size W m))"
  by (simp add: Scene_write_to_with_cached_sizes_def Scene_sized Scene_canon_def Let_def case_prod_beta canon_f32_nonzero Device_eq.optional_canon Device_eq.repeated_canon)

lemma Scene_eq_canon: "Scene_wf W a \<Longrightarrow> Scene_wf W b \<Longrightarrow> Scene_eq Q a b \<longleftrightarrow> Scene_nan_free a \<and> Scene_canon a = Scene_canon b"
  by (cases a; cases b)
    (auto simp add: Scene_eq_def Scene_nan_free_def Scene_canon_def Scene_wf_def f32_eq_canon none_unknown sizes_ignored list.pred_True option.pred_True Device_eq.optional_eq Device_eq.repeated_eq)

lemma Scene_canon_wf: "Scene_wf W a \<Longrightarrow> Scene_wf W (Scene_canon a)"
  by (simp add: Scene_wf_def Scene_canon_def Device_eq.optional_wf Device_eq.repeated_wf)

lemma Scene_canon_idem: "Scene_canon (Scene_canon a) = Scene_canon (a :: 'u Scene)"
  by (cases a) (simp add: Scene_canon_def Device_eq.canon_idem Device_eq.optional_wf Device_eq.repeated_wf)

end

sublocale message_equality < Scene_eq: equal_message W "Scene_new W" Scene_is_initialized "Scene_compute_size W"
    "Scene_write_to_with_cached_sizes W" Scene_get_cached_size "Scene_merge_from W" "Scene_wf W" Scene_canon "Scene_join W" "Scene_eq Q" "Scene_nan_free"
  by unfold_locales (simp_all add: Scene_eq_canon Scene_canon_size Scene_canon_bytes Scene_canon_wf Scene_canon_idem)

context message_equality
begin

lemma VersionResponse_canon_size: "fst (VersionResponse_compute_size W (VersionResponse_canon m)) = fst (VersionResponse_compute_size W m)"
  by (simp add: VersionResponse_compute_size_def VersionResponse_canon_def Let_def case_prod_beta canon_f32_nonzero )

lemma VersionResponse_canon_bytes:
  "VersionResponse_write_to_with_cached_sizes W (snd (VersionResponse_compute_size W (VersionResponse_canon m))) =
    VersionResponse_write_to_with_cached_sizes W (snd (VersionResponse_compute_size W m))"
  by (simp add: VersionResponse_write_to_with_cached_sizes_def VersionResponse_sized VersionResponse_canon_def Let_def case_prod_beta canon_f32_nonzero )

lemma VersionResponse_eq_canon: "VersionResponse_wf W a \<Longrightarrow> VersionResponse_wf W b \<Longrightarrow> VersionResponse_eq Q a b \<longleftrightarrow> True \<and> VersionResponse_canon a = VersionResponse_canon b"
  by (cases a; cases b)
    (auto simp add: VersionResponse_eq_def  VersionResponse_canon_def VersionResponse_wf_def f32_eq_canon none_unknown sizes_ignored list.pred_True option.pred_True )

lemma VersionResponse_canon_wf: "VersionResponse_wf W a \<Longrightarrow> VersionResponse_wf W (VersionResponse_canon a)"
  by (simp add: VersionResponse_wf_def VersionResponse_canon_def )

lemma VersionResponse_canon_idem: "VersionResponse_canon (VersionResponse_canon a) = VersionResponse_canon (a :: 'u VersionResponse)"
  by (cases a) (simp add: VersionResponse_canon_def )

end

sublocale message_equality < VersionResponse_eq: equal_message W "VersionResponse_new W" VersionResponse_is_initialized "VersionResponse_compute_size W"
    "VersionResponse_write_to_with_cached_sizes W" VersionResponse_get_cached_size "VersionResponse_merge_from W" "VersionResponse_wf W" VersionResponse_canon "VersionResponse_join W" "VersionResponse_eq Q" "\<lambda>_. True"
  by unfold_locales (simp_all add: VersionResponse_eq_canon VersionResponse_canon_size VersionResponse_canon_bytes VersionResponse_canon_wf VersionResponse_canon_idem)

context message_equality
begin

lemma SetLinkLossRequest_canon_size: "fst (SetLinkLossRequest_compute_size W (SetLinkLossRequest_canon m)) = fst (SetLinkLossRequest_compute_size W m)"
  by (simp add: SetLinkLossRequest_compute_size_def SetLinkLossRequest_canon_def Let_def case_prod_beta canon_f32_nonzero )

lemma SetLinkLossRequest_canon_bytes:
  "SetLinkLossRequest_write_to_with_cached_sizes W (snd (SetLinkLossRequest_compute_size W (SetLinkLossRequest_canon m))) =
    SetLinkLossRequest_write_to_with_cached_sizes W (snd (SetLinkLossRequest_compute_size W m))"
  by (simp add: SetLinkLossRequest_write_to_with_cached_sizes_def SetLinkLossRequest_sized SetLinkLossRequest_canon_def Let_def case_prod_beta canon_f32_nonzero )

lemma SetLinkLossRequest_eq_canon: "SetLinkLossRequest_wf W a \<Longrightarrow> SetLinkLossRequest_wf W b \<Longrightarrow> SetLinkLossRequest_eq Q a b \<longleftrightarrow> SetLinkLossRequest_nan_free a \<and> SetLinkLossRequest_canon a = SetLinkLossRequest_canon b"
  by (cases a; cases b)
    (auto simp add: SetLinkLossRequest_eq_def SetLinkLossRequest_nan_free_def SetLinkLossRequest_canon_def SetLinkLossRequest_wf_def f32_eq_canon none_unknown sizes_ignored list.pred_True option.pred_True )

lemma SetLinkLossRequest_canon_wf: "SetLinkLossRequest_wf W a \<Longrightarrow> SetLinkLossRequest_wf W (SetLinkLossRequest_canon a)"
  by (simp add: SetLinkLossRequest_wf_def SetLinkLossRequest_canon_def )

lemma SetLinkLossRequest_canon_idem: "SetLinkLossRequest_canon (SetLinkLossRequest_canon a) = SetLinkLossRequest_canon (a :: 'u SetLinkLossRequest)"
  by (cases a) (simp add: SetLinkLossRequest_canon_def )

end

sublocale message_equality < SetLinkLossRequest_eq: equal_message W "SetLinkLossRequest_new W" SetLinkLossRequest_is_initialized "SetLinkLossRequest_compute_size W"
    "SetLinkLossRequest_write_to_with_cached_sizes W" SetLinkLossRequest_get_cached_size "SetLinkLossRequest_merge_from W" "SetLinkLossRequest_wf W" SetLinkLossRequest_canon "SetLinkLossRequest_join W" "SetLinkLossRequest_eq Q" "SetLinkLossRequest_nan_free"
  by unfold_locales (simp_all add: SetLinkLossRequest_eq_canon SetLinkLossRequest_canon_size SetLinkLossRequest_canon_bytes SetLinkLossRequest_canon_wf SetLinkLossRequest_canon_idem)

context message_equality
begin

lemma UpdateDeviceRequest_canon_size: "fst (UpdateDeviceRequest_compute_size W (UpdateDeviceRequest_canon m)) = fst (UpdateDeviceRequest_compute_size W m)"
  by (simp add: UpdateDeviceRequest_compute_size_def UpdateDeviceRequest_canon_def Let_def case_prod_beta canon_f32_nonzero Device_eq.optional_canon Device_eq.repeated_canon)

lemma UpdateDeviceRequest_canon_bytes:
  "UpdateDeviceRequest_write_to_with_cached_sizes W (snd (UpdateDeviceRequest_compute_size W (UpdateDeviceRequest_canon m))) =
    UpdateDeviceRequest_write_to_with_cached_sizes W (snd (UpdateDeviceRequest_compute_size W m))"
  by (simp add: UpdateDeviceRequest_write_to_with_cached_sizes_def UpdateDeviceRequest_sized UpdateDeviceRequest_canon_def Let_def case_prod_beta canon_f32_nonzero Device_eq.optional_canon Device_eq.repeated_canon)

lemma UpdateDeviceRequest_eq_canon: "UpdateDeviceRequest_wf W a \<Longrightarrow> UpdateDeviceRequest_wf W b \<Longrightarrow> UpdateDeviceRequest_eq Q a b \<longleftrightarrow> UpdateDeviceRequest_nan_free a \<and> UpdateDeviceRequest_canon a = UpdateDeviceRequest_canon b"
  by (cases a; cases b)
    (auto simp add: UpdateDeviceRequest_eq_def UpdateDeviceRequest_nan_free_def UpdateDeviceRequest_canon_def UpdateDeviceRequest_wf_def f32_eq_canon none_unknown sizes_ignored list.pred_True option.pred_True Device_eq.optional_eq Device_eq.repeated_eq)

lemma UpdateDeviceRequest_canon_wf: "UpdateDeviceRequest_wf W a \<Longrightarrow> UpdateDeviceRequest_wf W (UpdateDeviceRequest_canon a)"
  by (simp add: UpdateDeviceRequest_wf_def UpdateDeviceRequest_canon_def Device_eq.optional_wf Device_eq.repeated_wf)

lemma UpdateDeviceRequest_canon_idem: "UpdateDeviceRequest_canon (UpdateDeviceRequest_canon a) = UpdateDeviceRequest_canon (a :: 'u UpdateDeviceRequest)"
  by (cases a) (simp add: UpdateDeviceRequest_canon_def Device_eq.canon_idem Device_eq.optional_wf Device_eq.repeated_wf)

end

sublocale message_equality < UpdateDeviceRequest_eq: equal_message W "UpdateDeviceRequest_new W" UpdateDeviceRequest_is_initialized "UpdateDeviceRequest_compute_size W"
    "UpdateDeviceRequest_write_to_with_cached_sizes W" UpdateDeviceRequest_get_cached_size "UpdateDeviceRequest_merge_from W" "UpdateDeviceRequest_wf W" UpdateDeviceRequest_canon "UpdateDeviceRequest_join W" "UpdateDeviceRequest_eq Q" "UpdateDeviceRequest_nan_free"
  by unfold_locales (simp_all add: UpdateDeviceRequest_eq_canon UpdateDeviceRequest_canon_size UpdateDeviceRequest_canon_bytes UpdateDeviceRequest_canon_wf UpdateDeviceRequest_canon_idem)

context message_equality
begin

lemma Updates_canon_size: "fst (Updates_compute_size W (Updates_canon m)) = fst (Updates_compute_size W m)"
  by (simp add: Updates_compute_size_def Updates_canon_def Let_def case_prod_beta canon_f32_nonzero Device_eq.optional_canon Device_eq.repeated_canon)

lemma Updates_canon_bytes:
  "Updates_write_to_with_cached_sizes W (snd (Updates_compute_size W (Updates_canon m))) =
    Updates_write_to_with_cached_sizes W (snd (Updates_compute_size W m))"
  by (simp add: Updates_write_to_with_cached_sizes_def Updates_sized Updates_canon_def Let_def case_prod_beta canon_f32_nonzero Device_eq.optional_canon Device_eq.repeated_canon)

lemma Updates_eq_canon: "Updates_wf W a \<Longrightarrow> Updates_wf W b \<Longrightarrow> Updates_eq Q a b \<longleftrightarrow> Updates_nan_free a \<and> Updates_canon a = Updates_canon b"
  by (cases a; cases b)
    (auto simp add: Updates_eq_def Updates_nan_free_def Updates_canon_def Updates_wf_def f32_eq_canon none_unknown sizes_ignored list.pred_True option.pred_True Device_eq.optional_eq Device_eq.repeated_eq)

lemma Updates_canon_wf: "Updates_wf W a \<Longrightarrow> Updates_wf W (Updates_canon a)"
  by (simp add: Updates_wf_def Updates_canon_def Device_eq.optional_wf Device_eq.repeated_wf)

lemma Updates_canon_idem: "Updates_canon (Updates_canon a) = Updates_canon (a :: 'u Updates)"
  by (cases a) (simp add: Updates_canon_def Device_eq.canon_idem Device_eq.optional_wf Device_eq.repeated_wf)

end

sublocale message_equality < Updates_eq: equal_message W "Updates_new W" Updates_is_initialized "Updates_compute_size W"
    "Updates_write_to_with_cached_sizes W" Updates_get_cached_size "Updates_merge_from W" "Updates_wf W" Updates_canon "Updates_join W" "Updates_eq Q" "Updates_nan_free"
  by unfold_locales (simp_all add: Updates_eq_canon Updates_canon_size Updates_canon_bytes Updates_canon_wf Updates_canon_idem)

context message_equality
begin

lemma GetDevicesResponse_canon_size: "fst (GetDevicesResponse_compute_size W (GetDevicesResponse_canon m)) = fst (GetDevicesResponse_compute_size W m)"
  by (simp add: GetDevicesResponse_compute_size_def GetDevicesResponse_canon_def Let_def case_prod_beta canon_f32_nonzero Device_eq.optional_canon Device_eq.repeated_canon)

lemma GetDevicesResponse_canon_bytes:
  "GetDevicesResponse_write_to_with_cached_sizes W (snd (GetDevicesResponse_compute_size W (GetDevicesResponse_canon m))) =
    GetDevicesResponse_write_to_with_cached_sizes W (snd (GetDevicesResponse_compute_size W m))"
  by (simp add: GetDevicesResponse_write_to_with_cached_sizes_def GetDevicesResponse_sized GetDevicesResponse_canon_def Let_def case_prod_beta canon_f32_nonzero Device_eq.optional_canon Device_eq.repeated_canon)

lemma GetDevicesResponse_eq_canon: "GetDevicesResponse_wf W a \<Longrightarrow> GetDevicesResponse_wf W b \<Longrightarrow> GetDevicesResponse_eq Q a b \<longleftrightarrow> GetDevicesResponse_nan_free a \<and> GetDevicesResponse_canon a = GetDevicesResponse_canon b"
  by (cases a; cases b)
    (auto simp add: GetDevicesResponse_eq_def GetDevicesResponse_nan_free_def GetDevicesResponse_canon_def GetDevicesResponse_wf_def f32_eq_canon none_unknown sizes_ignored list.pred_True option.pred_True Device_eq.optional_eq Device_eq.repeated_eq)

lemma GetDevicesResponse_canon_wf: "GetDevicesResponse_wf W a \<Longrightarrow> GetDevicesResponse_wf W (GetDevicesResponse_canon a)"
  by (simp add: GetDevicesResponse_wf_def GetDevicesResponse_canon_def Device_eq.optional_wf Device_eq.repeated_wf)

lemma GetDevicesResponse_canon_idem: "GetDevicesResponse_canon (GetDevicesResponse_canon a) = GetDevicesResponse_canon (a :: 'u GetDevicesResponse)"
  by (cases a) (simp add: GetDevicesResponse_canon_def Device_eq.canon_idem Device_eq.optional_wf Device_eq.repeated_wf)

end

sublocale message_equality < GetDevicesResponse_eq: equal_message W "GetDevicesResponse_new W" GetDevicesResponse_is_initialized "GetDevicesResponse_compute_size W"
    "GetDevicesResponse_write_to_with_cached_sizes W" GetDevicesResponse_get_cached_size "GetDevicesResponse_merge_from W" "GetDevicesResponse_wf W" GetDevicesResponse_canon "GetDevicesResponse_join W" "GetDevicesResponse_eq Q" "GetDevicesResponse_nan_free"
  by unfold_locales (simp_all add: GetDevicesResponse_eq_canon GetDevicesResponse_canon_size GetDevicesResponse_canon_bytes GetDevicesResponse_canon_wf GetDevicesResponse_canon_idem)

context message_equality
begin

lemma NetCatStream_canon_size: "fst (NetCatStream_compute_size W (NetCatStream_canon m)) = fst (NetCatStream_compute_size W m)"
  by (simp add: NetCatStream_compute_size_def NetCatStream_canon_def Let_def case_prod_beta canon_f32_nonzero )

lemma NetCatStream_canon_bytes:
  "NetCatStream_write_to_with_cached_sizes W (snd (NetCatStream_compute_size W (NetCatStream_canon m))) =
    NetCatStream_write_to_with_cached_sizes W (snd (NetCatStream_compute_size W m))"
  by (simp add: NetCatStream_write_to_with_cached_sizes_def NetCatStream_sized NetCatStream_canon_def Let_def case_prod_beta canon_f32_nonzero )

lemma NetCatStream_eq_canon: "NetCatStream_wf W a \<Longrightarrow> NetCatStream_wf W b \<Longrightarrow> NetCatStream_eq Q a b \<longleftrightarrow> True \<and> NetCatStream_canon a = NetCatStream_canon b"
  by (cases a; cases b)
    (auto simp add: NetCatStream_eq_def  NetCatStream_canon_def NetCatStream_wf_def f32_eq_canon none_unknown sizes_ignored list.pred_True option.pred_True )

lemma NetCatStream_canon_wf: "NetCatStream_wf W a \<Longrightarrow> NetCatStream_wf W (NetCatStream_canon a)"
  by (simp add: NetCatStream_wf_def NetCatStream_canon_def )

lemma NetCatStream_canon_idem: "NetCatStream_canon (NetCatStream_canon a) = NetCatStream_canon (a :: 'u NetCatStream)"
  by (cases a) (simp add: NetCatStream_canon_def )

end

sublocale message_equality < NetCatStream_eq: equal_message W "NetCatStream_new W" NetCatStream_is_initialized "NetCatStream_compute_size W"
    "NetCatStream_write_to_with_cached_sizes W" NetCatStream_get_cached_size "NetCatStream_merge_from W" "NetCatStream_wf W" NetCatStream_canon "NetCatStream_join W" "NetCatStream_eq Q" "\<lambda>_. True"
  by unfold_locales (simp_all add: NetCatStream_eq_canon NetCatStream_canon_size NetCatStream_canon_bytes NetCatStream_canon_wf NetCatStream_canon_idem)

context message_equality
begin

lemma SetPacketCaptureRequest_canon_size: "fst (SetPacketCaptureRequest_compute_size W (SetPacketCaptureRequest_canon m)) = fst (SetPacketCaptureRequest_compute_size W m)"
  by (simp add: SetPacketCaptureRequest_compute_size_def SetPacketCaptureRequest_canon_def Let_def case_prod_beta canon_f32_nonzero )

lemma SetPacketCaptureRequest_canon_bytes:
  "SetPacketCaptureRequest_write_to_with_cached_sizes W (snd (SetPacketCaptureRequest_compute_size W (SetPacketCaptureRequest_canon m))) =
    SetPacketCaptureRequest_write_to_with_cached_sizes W (snd (SetPacketCaptureRequest_compute_size W m))"
  by (simp add: SetPacketCaptureRequest_write_to_with_cached_sizes_def SetPacketCaptureRequest_sized SetPacketCaptureRequest_canon_def Let_def case_prod_beta canon_f32_nonzero )

lemma SetPacketCaptureRequest_eq_canon: "SetPacketCaptureRequest_wf W a \<Longrightarrow> SetPacketCaptureRequest_wf W b \<Longrightarrow> SetPacketCaptureRequest_eq Q a b \<longleftrightarrow> True \<and> SetPacketCaptureRequest_canon a = SetPacketCaptureRequest_canon b"
  by (cases a; cases b)
    (auto simp add: SetPacketCaptureRequest_eq_def  SetPacketCaptureRequest_canon_def SetPacketCaptureRequest_wf_def f32_eq_canon none_unknown sizes_ignored list.pred_True option.pred_True )

lemma SetPacketCaptureRequest_canon_wf: "SetPacketCaptureRequest_wf W a \<Longrightarrow> SetPacketCaptureRequest_wf W (SetPacketCaptureRequest_canon a)"
  by (simp add: SetPacketCaptureRequest_wf_def SetPacketCaptureRequest_canon_def )

lemma SetPacketCaptureRequest_canon_idem: "SetPacketCaptureRequest_canon (SetPacketCaptureRequest_canon a) = SetPacketCaptureRequest_canon (a :: 'u SetPacketCaptureRequest)"
  by (cases a) (simp add: SetPacketCaptureRequest_canon_def )

end

sublocale message_equality < SetPacketCaptureRequest_eq: equal_message W "SetPacketCaptureRequest_new W" SetPacketCaptureRequest_is_initialized "SetPacketCaptureRequest_compute_size W"
    "SetPacketCaptureRequest_write_to_with_cached_sizes W" SetPacketCaptureRequest_get_cached_size "SetPacketCaptureRequest_merge_from W" "SetPacketCaptureRequest_wf W" SetPacketCaptureRequest_canon "SetPacketCaptureRequest_join W" "SetPacketCaptureRequest_eq Q" "\<lambda>_. True"
  by unfold_locales (simp_all add: SetPacketCaptureRequest_eq_canon SetPacketCaptureRequest_canon_size SetPacketCaptureRequest_canon_bytes SetPacketCaptureRequest_canon_wf SetPacketCaptureRequest_canon_idem)

context message_equality
begin

lemma Startup_Chip_canon_size: "fst (Startup_Chip_compute_size W (Startup_Chip_canon m)) = fst (Startup_Chip_compute_size W m)"
  by (simp add: Startup_Chip_compute_size_def Startup_Chip_canon_def Let_def case_prod_beta canon_f32_nonzero )

lemma Startup_Chip_canon_bytes:
  "Startup_Chip_write_to_with_cached_sizes W (snd (Startup_Chip_compute_size W (Startup_Chip_canon m))) =
    Startup_Chip_write_to_with_cached_sizes W (snd (Startup_Chip_compute_size W m))"
  by (simp add: Startup_Chip_write_to_with_cached_sizes_def Startup_Chip_sized Startup_Chip_canon_def Let_def case_prod_beta canon_f32_nonzero )

lemma Startup_Chip_eq_canon: "Startup_Chip_wf W a \<Longrightarrow> Startup_Chip_wf W b \<Longrightarrow> Startup_Chip_eq Q a b \<longleftrightarrow> True \<and> Startup_Chip_canon a = Startup_Chip_canon b"
  by (cases a; cases b)
    (auto simp add: Startup_Chip_eq_def  Startup_Chip_canon_def Startup_Chip_wf_def f32_eq_canon none_unknown sizes_ignored list.pred_True option.pred_True )

lemma Startup_Chip_canon_wf: "Startup_Chip_wf W a \<Longrightarrow> Startup_Chip_wf W (Startup_Chip_canon a)"
  by (simp add: Startup_Chip_wf_def Startup_Chip_canon_def )

lemma Startup_Chip_canon_idem: "Startup_Chip_canon (Startup_Chip_canon a) = Startup_Chip_canon (a :: 'u Startup_Chip)"
  by (cases a) (simp add: Startup_Chip_canon_def )

end

sublocale message_equality < Startup_Chip_eq: equal_message W "Startup_Chip_new W" Startup_Chip_is_initialized "Startup_Chip_compute_size W"
    "Startup_Chip_write_to_with_cached_sizes W" Startup_Chip_get_cached_size "Startup_Chip_merge_from W" "Startup_Chip_wf W" Startup_Chip_canon "Startup_Chip_join W" "Startup_Chip_eq Q" "\<lambda>_. True"
  by unfold_locales (simp_all add: Startup_Chip_eq_canon Startup_Chip_canon_size Startup_Chip_canon_bytes Startup_Chip_canon_wf Startup_Chip_canon_idem)

context message_equality
begin

lemma StartupInfo_Device_canon_size: "fst (StartupInfo_Device_compute_size W (StartupInfo_Device_canon m)) = fst (StartupInfo_Device_compute_size W m)"
  by (simp add: StartupInfo_Device_compute_size_def StartupInfo_Device_canon_def Let_def case_prod_beta canon_f32_nonzero Startup_Chip_eq.optional_canon Startup_Chip_eq.repeated_canon)

lemma StartupInfo_Device_canon_bytes:
  "StartupInfo_Device_write_to_with_cached_sizes W (snd (StartupInfo_Device_compute_size W (StartupInfo_Device_canon m))) =
    StartupInfo_Device_write_to_with_cached_sizes W (snd (StartupInfo_Device_compute_size W m))"
  by (simp add: StartupInfo_Device_write_to_with_cached_sizes_def StartupInfo_Device_sized StartupInfo_Device_canon_def Let_def case_prod_beta canon_f32_nonzero Startup_Chip_eq.optional_canon Startup_Chip_eq.repeated_canon)

lemma StartupInfo_Device_eq_canon: "StartupInfo_Device_wf W a \<Longrightarrow> StartupInfo_Device_wf W b \<Longrightarrow> StartupInfo_Device_eq Q a b \<longleftrightarrow> True \<and> StartupInfo_Device_canon a = StartupInfo_Device_canon b"
  by (cases a; cases b)
    (auto simp add: StartupInfo_Device_eq_def  StartupInfo_Device_canon_def StartupInfo_Device_wf_def f32_eq_canon none_unknown sizes_ignored list.pred_True option.pred_True Startup_Chip_eq.optional_eq Startup_Chip_eq.repeated_eq)

lemma StartupInfo_Device_canon_wf: "StartupInfo_Device_wf W a \<Longrightarrow> StartupInfo_Device_wf W (StartupInfo_Device_canon a)"
  by (simp add: StartupInfo_Device_wf_def StartupInfo_Device_canon_def Startup_Chip_eq.optional_wf Startup_Chip_eq.repeated_wf)

lemma StartupInfo_Device_canon_idem: "StartupInfo_Device_canon (StartupInfo_Device_canon a) = StartupInfo_Device_canon (a :: 'u StartupInfo_Device)"
  by (cases a) (simp add: StartupInfo_Device_canon_def Startup_Chip_eq.canon_idem Startup_Chip_eq.optional_wf Startup_Chip_eq.repeated_wf)

end

sublocale message_equality < StartupInfo_Device_eq: equal_message W "StartupInfo_Device_new W" StartupInfo_Device_is_initialized "StartupInfo_Device_compute_size W"
    "StartupInfo_Device_write_to_with_cached_sizes W" StartupInfo_Device_get_cached_size "StartupInfo_Device_merge_from W" "StartupInfo_Device_wf W" StartupInfo_Device_canon "StartupInfo_Device_join W" "StartupInfo_Device_eq Q" "\<lambda>_. True"
  by unfold_locales (simp_all add: StartupInfo_Device_eq_canon StartupInfo_Device_canon_size StartupInfo_Device_canon_bytes StartupInfo_Device_canon_wf StartupInfo_Device_canon_idem)

context message_equality
begin

lemma StartupInfo_canon_size: "fst (StartupInfo_compute_size W (StartupInfo_canon m)) = fst (StartupInfo_compute_size W m)"
  by (simp add: StartupInfo_compute_size_def StartupInfo_canon_def Let_def case_prod_beta canon_f32_nonzero StartupInfo_Device_eq.optional_canon StartupInfo_Device_eq.repeated_canon)

lemma StartupInfo_canon_bytes:
  "StartupInfo_write_to_with_cached_sizes W (snd (StartupInfo_compute_size W (StartupInfo_canon m))) =
    StartupInfo_write_to_with_cached_sizes W (snd (StartupInfo_compute_size W m))"
  by (simp add: StartupInfo_write_to_with_cached_sizes_def StartupInfo_sized StartupInfo_canon_def Let_def case_prod_beta canon_f32_nonzero StartupInfo_Device_eq.optional_canon StartupInfo_Device_eq.repeated_canon)

lemma StartupInfo_eq_canon: "StartupInfo_wf W a \<Longrightarrow> StartupInfo_wf W b \<Longrightarrow> StartupInfo_eq Q a b \<longleftrightarrow> True \<and> StartupInfo_canon a = StartupInfo_canon b"
  by (cases a; cases b)
    (auto simp add: StartupInfo_eq_def  StartupInfo_canon_def StartupInfo_wf_def f32_eq_canon none_unknown sizes_ignored list.pred_True option.pred_True StartupInfo_Device_eq.optional_eq StartupInfo_Device_eq.repeated_eq)

lemma StartupInfo_canon_wf: "StartupInfo_wf W a \<Longrightarrow> StartupInfo_wf W (StartupInfo_canon a)"
  by (simp add: StartupInfo_wf_def StartupInfo_canon_def StartupInfo_Device_eq.optional_wf StartupInfo_Device_eq.repeated_wf)

lemma StartupInfo_canon_idem: "StartupInfo_canon (StartupInfo_canon a) = StartupInfo_canon (a :: 'u StartupInfo)"
  by (cases a) (simp add: StartupInfo_canon_def StartupInfo_Device_eq.canon_idem StartupInfo_Device_eq.optional_wf StartupInfo_Device_eq.repeated_wf)

end

sublocale message_equality < StartupInfo_eq: equal_message W "StartupInfo_new W" StartupInfo_is_initialized "StartupInfo_compute_size W"
    "StartupInfo_write_to_with_cached_sizes W" StartupInfo_get_cached_size "StartupInfo_merge_from W" "StartupInfo_wf W" StartupInfo_canon "StartupInfo_join W" "StartupInfo_eq Q" "\<lambda>_. True"
  by unfold_locales (simp_all add: StartupInfo_eq_canon StartupInfo_canon_size StartupInfo_canon_bytes StartupInfo_canon_wf StartupInfo_canon_idem)

context message_equality
begin

lemma ChipInfo_canon_size: "fst (ChipInfo_compute_size W (ChipInfo_canon m)) = fst (ChipInfo_compute_size W m)"
  by (simp add: ChipInfo_compute_size_def ChipInfo_canon_def Let_def case_prod_beta canon_f32_nonzero Startup_Chip_eq.optional_canon Startup_Chip_eq.repeated_canon)

lemma ChipInfo_canon_bytes:
  "ChipInfo_write_to_with_cached_sizes W (snd (ChipInfo_compute_size W (ChipInfo_canon m))) =
    ChipInfo_write_to_with_cached_sizes W (snd (ChipInfo_compute_size W m))"
  by (simp add: ChipInfo_write_to_with_cached_sizes_def ChipInfo_sized ChipInfo_canon_def Let_def case_prod_beta canon_f32_nonzero Startup_Chip_eq.optional_canon Startup_Chip_eq.repeated_canon)

lemma ChipInfo_eq_canon: "ChipInfo_wf W a \<Longrightarrow> ChipInfo_wf W b \<Longrightarrow> ChipInfo_eq Q a b \<longleftrightarrow> True \<and> ChipInfo_canon a = ChipInfo_canon b"
  by (cases a; cases b)
    (auto simp add: ChipInfo_eq_def  ChipInfo_canon_def ChipInfo_wf_def f32_eq_canon none_unknown sizes_ignored list.pred_True option.pred_True Startup_Chip_eq.optional_eq Startup_Chip_eq.repeated_eq)

lemma ChipInfo_canon_wf: "ChipInfo_wf W a \<Longrightarrow> ChipInfo_wf W (ChipInfo_canon a)"
  by (simp add: ChipInfo_wf_def ChipInfo_canon_def Startup_Chip_eq.optional_wf Startup_Chip_eq.repeated_wf)

lemma ChipInfo_canon_idem: "ChipInfo_canon (ChipInfo_canon a) = ChipInfo_canon (a :: 'u ChipInfo)"
  by (cases a) (simp add: ChipInfo_canon_def Startup_Chip_eq.canon_idem Startup_Chip_eq.optional_wf Startup_Chip_eq.repeated_wf)

end

sublocale message_equality < ChipInfo_eq: equal_message W "ChipInfo_new W" ChipInfo_is_initialized "ChipInfo_compute_size W"
    "ChipInfo_write_to_with_cached_sizes W" ChipInfo_get_cached_size "ChipInfo_merge_from W" "ChipInfo_wf W" ChipInfo_canon "ChipInfo_join W" "ChipInfo_eq Q" "\<lambda>_. True"
  by unfold_locales (simp_all add: ChipInfo_eq_canon ChipInfo_canon_size ChipInfo_canon_bytes ChipInfo_canon_wf ChipInfo_canon_idem)

context message_equality
begin

lemma HCIPacket_canon_size: "fst (HCIPacket_compute_size W (HCIPacket_canon m)) = fst (HCIPacket_compute_size W m)"
  by (simp add: HCIPacket_compute_size_def HCIPacket_canon_def Let_def case_prod_beta canon_f32_nonzero )

lemma HCIPacket_canon_bytes:
  "HCIPacket_write_to_with_cached_sizes W (snd (HCIPacket_compute_size W (HCIPacket_canon m))) =
    HCIPacket_write_to_with_cached_sizes W (snd (HCIPacket_compute_size W m))"
  by (simp add: HCIPacket_write_to_with_cached_sizes_def HCIPacket_sized HCIPacket_canon_def Let_def case_prod_beta canon_f32_nonzero )

lemma HCIPacket_eq_canon: "HCIPacket_wf W a \<Longrightarrow> HCIPacket_wf W b \<Longrightarrow> HCIPacket_eq Q a b \<longleftrightarrow> True \<and> HCIPacket_canon a = HCIPacket_canon b"
  by (cases a; cases b)
    (auto simp add: HCIPacket_eq_def  HCIPacket_canon_def HCIPacket_wf_def f32_eq_canon none_unknown sizes_ignored list.pred_True option.pred_True )

lemma HCIPacket_canon_wf: "HCIPacket_wf W a \<Longrightarrow> HCIPacket_wf W (HCIPacket_canon a)"
  by (simp add: HCIPacket_wf_def HCIPacket_canon_def )

lemma HCIPacket_canon_idem: "HCIPacket_canon (HCIPacket_canon a) = HCIPacket_canon (a :: 'u HCIPacket)"
  by (cases a) (simp add: HCIPacket_canon_def )

end

sublocale message_equality < HCIPacket_eq: equal_message W "HCIPacket_new W" HCIPacket_is_initialized "HCIPacket_compute_size W"
    "HCIPacket_write_to_with_cached_sizes W" HCIPacket_get_cached_size "HCIPacket_merge_from W" "HCIPacket_wf W" HCIPacket_canon "HCIPacket_join W" "HCIPacket_eq Q" "\<lambda>_. True"
  by unfold_locales (simp_all add: HCIPacket_eq_canon HCIPacket_canon_size HCIPacket_canon_bytes HCIPacket_canon_wf HCIPacket_canon_idem)

context message_equality
begin

lemma StreamPacketsRequest_oneof_request_type_canon_size:
  "fst (StreamPacketsRequest_oneof_request_type_size W (StreamPacketsRequest_oneof_request_type_canon v)) = fst (StreamPacketsRequest_oneof_request_type_size W v)"
  "StreamPacketsRequest_oneof_request_type_write W (snd (StreamPacketsRequest_oneof_request_type_size W (StreamPacketsRequest_oneof_request_type_canon v))) = StreamPacketsRequest_oneof_request_type_write W (snd (StreamPacketsRequest_oneof_request_type_size W v))"
  by (cases v; simp add: case_prod_beta ChipInfo_eq.embedded_canon HCIPacket_eq.embedded_canon)+

lemma StreamPacketsRequest_oneof_request_type_eq_canon:
  "StreamPacketsRequest_oneof_request_type_wf W x \<Longrightarrow> StreamPacketsRequest_oneof_request_type_wf W y \<Longrightarrow> StreamPacketsRequest_oneof_request_type_eq Q x y \<longleftrightarrow> (\<lambda>_. True) x \<and> StreamPacketsRequest_oneof_request_type_canon x = StreamPacketsRequest_oneof_request_type_canon y"
  by (cases x; cases y) (simp_all add: ChipInfo_eq.eq_canon HCIPacket_eq.eq_canon)

lemma StreamPacketsRequest_oneof_request_type_optional_eq:
  "pred_option (StreamPacketsRequest_oneof_request_type_wf W) x \<Longrightarrow> pred_option (StreamPacketsRequest_oneof_request_type_wf W) y \<Longrightarrow>
    rel_option (StreamPacketsRequest_oneof_request_type_eq Q) x y \<longleftrightarrow> pred_option (\<lambda>_. True) x \<and> map_option StreamPacketsRequest_oneof_request_type_canon x = map_option StreamPacketsRequest_oneof_request_type_canon y"
  by (cases x; cases y) (simp_all add: StreamPacketsRequest_oneof_request_type_eq_canon)

lemma StreamPacketsRequest_oneof_request_type_wf_canon:
  "StreamPacketsRequest_oneof_request_type_wf W v \<Longrightarrow> StreamPacketsRequest_oneof_request_type_wf W (StreamPacketsRequest_oneof_request_type_canon v)"
  "StreamPacketsRequest_oneof_request_type_canon (StreamPacketsRequest_oneof_request_type_canon v) = StreamPacketsRequest_oneof_request_type_canon v"
  by (cases v; simp add: ChipInfo_eq.canon_wf ChipInfo_eq.canon_idem HCIPacket_eq.canon_wf HCIPacket_eq.canon_idem)+

lemma StreamPacketsRequest_oneof_request_type_optional_wf:
  "pred_option (StreamPacketsRequest_oneof_request_type_wf W) x \<Longrightarrow> pred_option (StreamPacketsRequest_oneof_request_type_wf W) (map_option StreamPacketsRequest_oneof_request_type_canon x)"
  "map_option StreamPacketsRequest_oneof_request_type_canon (map_option StreamPacketsRequest_oneof_request_type_canon x) = map_option StreamPacketsRequest_oneof_request_type_canon x"
  by (cases x; simp add: StreamPacketsRequest_oneof_request_type_wf_canon)+

lemma StreamPacketsRequest_canon_size: "fst (StreamPacketsRequest_compute_size W (StreamPacketsRequest_canon m)) = fst (StreamPacketsRequest_compute_size W m)"
  by (cases "StreamPacketsRequest_request_type m")
    (simp_all add: StreamPacketsRequest_compute_size_def StreamPacketsRequest_canon_def Let_def case_prod_beta canon_f32_nonzero ChipInfo_eq.optional_canon ChipInfo_eq.repeated_canon HCIPacket_eq.optional_canon HCIPacket_eq.repeated_canon StreamPacketsRequest_oneof_request_type_canon_size)

lemma StreamPacketsRequest_canon_bytes:
  "StreamPacketsRequest_write_to_with_cached_sizes W (snd (StreamPacketsRequest_compute_size W (StreamPacketsRequest_canon m))) =
    StreamPacketsRequest_write_to_with_cached_sizes W (snd (StreamPacketsRequest_compute_size W m))"
  by (cases "StreamPacketsRequest_request_type m")
    (simp_all add: StreamPacketsRequest_write_to_with_cached_sizes_def StreamPacketsRequest_sized StreamPacketsRequest_canon_def Let_def case_prod_beta canon_f32_nonzero ChipInfo_eq.optional_canon ChipInfo_eq.repeated_canon HCIPacket_eq.optional_canon HCIPacket_eq.repeated_canon StreamPacketsRequest_oneof_request_type_canon_size)

lemma StreamPacketsRequest_eq_canon: "StreamPacketsRequest_wf W a \<Longrightarrow> StreamPacketsRequest_wf W b \<Longrightarrow> StreamPacketsRequest_eq Q a b \<longleftrightarrow> True \<and> StreamPacketsRequest_canon a = StreamPacketsRequest_canon b"
  by (cases a; cases b)
    (auto simp add: StreamPacketsRequest_eq_def  StreamPacketsRequest_canon_def StreamPacketsRequest_wf_def f32_eq_canon none_unknown sizes_ignored list.pred_True option.pred_True ChipInfo_eq.optional_eq ChipInfo_eq.repeated_eq HCIPacket_eq.optional_eq HCIPacket_eq.repeated_eq StreamPacketsRequest_oneof_request_type_optional_eq)

lemma StreamPacketsRequest_canon_wf: "StreamPacketsRequest_wf W a \<Longrightarrow> StreamPacketsRequest_wf W (StreamPacketsRequest_canon a)"
  by (simp add: StreamPacketsRequest_wf_def StreamPacketsRequest_canon_def ChipInfo_eq.optional_wf ChipInfo_eq.repeated_wf HCIPacket_eq.optional_wf HCIPacket_eq.repeated_wf StreamPacketsRequest_oneof_request_type_optional_wf)

lemma StreamPacketsRequest_canon_idem: "StreamPacketsRequest_canon (StreamPacketsRequest_canon a) = StreamPacketsRequest_canon (a :: 'u StreamPacketsRequest)"
  by (cases a) (simp add: StreamPacketsRequest_canon_def ChipInfo_eq.canon_idem ChipInfo_eq.optional_wf ChipInfo_eq.repeated_wf HCIPacket_eq.canon_idem HCIPacket_eq.optional_wf HCIPacket_eq.repeated_wf StreamPacketsRequest_oneof_request_type_optional_wf)

end

sublocale message_equality < StreamPacketsRequest_eq: equal_message W "StreamPacketsRequest_new W" StreamPacketsRequest_is_initialized "StreamPacketsRequest_compute_size W"
    "StreamPacketsRequest_write_to_with_cached_sizes W" StreamPacketsRequest_get_cached_size "StreamPacketsRequest_merge_from W" "StreamPacketsRequest_wf W" StreamPacketsRequest_canon "StreamPacketsRequest_join W" "StreamPacketsRequest_eq Q" "\<lambda>_. True"
  by unfold_locales (simp_all add: StreamPacketsRequest_eq_canon StreamPacketsRequest_canon_size StreamPacketsRequest_canon_bytes StreamPacketsRequest_canon_wf StreamPacketsRequest_canon_idem)

context message_equality
begin

lemma StreamPacketsResponse_oneof_response_type_canon_size:
  "fst (StreamPacketsResponse_oneof_response_type_size W (StreamPacketsResponse_oneof_response_type_canon v)) = fst (StreamPacketsResponse_oneof_response_type_size W v)"
  "StreamPacketsResponse_oneof_response_type_write W (snd (StreamPacketsResponse_oneof_response_type_size W (StreamPacketsResponse_oneof_response_type_canon v))) = StreamPacketsResponse_oneof_response_type_write W (snd (StreamPacketsResponse_oneof_response_type_size W v))"
  by (cases v; simp add: case_prod_beta HCIPacket_eq.embedded_canon)+

lemma StreamPacketsResponse_oneof_response_type_eq_canon:
  "StreamPacketsResponse_oneof_response_type_wf W x \<Longrightarrow> StreamPacketsResponse_oneof_response_type_wf W y \<Longrightarrow> StreamPacketsResponse_oneof_response_type_eq Q x y \<longleftrightarrow> (\<lambda>_. True) x \<and> StreamPacketsResponse_oneof_response_type_canon x = StreamPacketsResponse_oneof_response_type_canon y"
  by (cases x; cases y) (simp_all add: HCIPacket_eq.eq_canon)

lemma StreamPacketsResponse_oneof_response_type_optional_eq:
  "pred_option (StreamPacketsResponse_oneof_response_type_wf W) x \<Longrightarrow> pred_option (StreamPacketsResponse_oneof_response_type_wf W) y \<Longrightarrow>
    rel_option (StreamPacketsResponse_oneof_response_type_eq Q) x y \<longleftrightarrow> pred_option (\<lambda>_. True) x \<and> map_option StreamPacketsResponse_oneof_response_type_canon x = map_option StreamPacketsResponse_oneof_response_type_canon y"
  by (cases x; cases y) (simp_all add: StreamPacketsResponse_oneof_response_type_eq_canon)

lemma StreamPacketsResponse_oneof_response_type_wf_canon:
  "StreamPacketsResponse_oneof_response_type_wf W v \<Longrightarrow> StreamPacketsResponse_oneof_response_type_wf W (StreamPacketsResponse_oneof_response_type_canon v)"
  "StreamPacketsResponse_oneof_response_type_canon (StreamPacketsResponse_oneof_response_type_canon v) = StreamPacketsResponse_oneof_response_type_canon v"
  by (cases v; simp add: HCIPacket_eq.canon_wf HCIPacket_eq.canon_idem)+

lemma StreamPacketsResponse_oneof_response_type_optional_wf:
  "pred_option (StreamPacketsResponse_oneof_response_type_wf W) x \<Longrightarrow> pred_option (StreamPacketsResponse_oneof_response_type_wf W) (map_option StreamPacketsResponse_oneof_response_type_canon x)"
  "map_option StreamPacketsResponse_oneof_response_type_canon (map_option StreamPacketsResponse_oneof_response_type_canon x) = map_option StreamPacketsResponse_oneof_response_type_canon x"
  by (cases x; simp add: StreamPacketsResponse_oneof_response_type_wf_canon)+

lemma StreamPacketsResponse_canon_size: "fst (StreamPacketsResponse_compute_size W (StreamPacketsResponse_canon m)) = fst (StreamPacketsResponse_compute_size W m)"
  by (cases "StreamPacketsResponse_response_type m")
    (simp_all add: StreamPacketsResponse_compute_size_def StreamPacketsResponse_canon_def Let_def case_prod_beta canon_f32_nonzero HCIPacket_eq.optional_canon HCIPacket_eq.repeated_canon StreamPacketsResponse_oneof_response_type_canon_size)

lemma StreamPacketsResponse_canon_bytes:
  "StreamPacketsResponse_write_to_with_cached_sizes W (snd (StreamPacketsResponse_compute_size W (StreamPacketsResponse_canon m))) =
    StreamPacketsResponse_write_to_with_cached_sizes W (snd (StreamPacketsResponse_compute_size W m))"
  by (cases "StreamPacketsResponse_response_type m")
    (simp_all add: StreamPacketsResponse_write_to_with_cached_sizes_def StreamPacketsResponse_sized StreamPacketsResponse_canon_def Let_def case_prod_beta canon_f32_nonzero HCIPacket_eq.optional_canon HCIPacket_eq.repeated_canon StreamPacketsResponse_oneof_response_type_canon_size)

lemma StreamPacketsResponse_eq_canon: "StreamPacketsResponse_wf W a \<Longrightarrow> StreamPacketsResponse_wf W b \<Longrightarrow> StreamPacketsResponse_eq Q a b \<longleftrightarrow> True \<and> StreamPacketsResponse_canon a = StreamPacketsResponse_canon b"
  by (cases a; cases b)
    (auto simp add: StreamPacketsResponse_eq_def  StreamPacketsResponse_canon_def StreamPacketsResponse_wf_def f32_eq_canon none_unknown sizes_ignored list.pred_True option.pred_True HCIPacket_eq.optional_eq HCIPacket_eq.repeated_eq StreamPacketsResponse_oneof_response_type_optional_eq)

lemma StreamPacketsResponse_canon_wf: "StreamPacketsResponse_wf W a \<Longrightarrow> StreamPacketsResponse_wf W (StreamPacketsResponse_canon a)"
  by (simp add: StreamPacketsResponse_wf_def StreamPacketsResponse_canon_def HCIPacket_eq.optional_wf HCIPacket_eq.repeated_wf StreamPacketsResponse_oneof_response_type_optional_wf)

lemma StreamPacketsResponse_canon_idem: "StreamPacketsResponse_canon (StreamPacketsResponse_canon a) = StreamPacketsResponse_canon (a :: 'u StreamPacketsResponse)"
  by (cases a) (simp add: StreamPacketsResponse_canon_def HCIPacket_eq.canon_idem HCIPacket_eq.optional_wf HCIPacket_eq.repeated_wf StreamPacketsResponse_oneof_response_type_optional_wf)

end

sublocale message_equality < StreamPacketsResponse_eq: equal_message W "StreamPacketsResponse_new W" StreamPacketsResponse_is_initialized "StreamPacketsResponse_compute_size W"
    "StreamPacketsResponse_write_to_with_cached_sizes W" StreamPacketsResponse_get_cached_size "StreamPacketsResponse_merge_from W" "StreamPacketsResponse_wf W" StreamPacketsResponse_canon "StreamPacketsResponse_join W" "StreamPacketsResponse_eq Q" "\<lambda>_. True"
  by unfold_locales (simp_all add: StreamPacketsResponse_eq_canon StreamPacketsResponse_canon_size StreamPacketsResponse_canon_bytes StreamPacketsResponse_canon_wf StreamPacketsResponse_canon_idem)

section \<open>A crate that compares so\<close>

definition std_eq :: "'u crate_eq" where
  "std_eq = \<lparr>eq_unknown = (=), eq_cached = (\<lambda>_ _. True)\<rparr>"

interpretation std_equality: message_equality std_wire std_eq
  by unfold_locales (simp_all add: std_eq_def)

end
