(* ===== verification/Pb_Dynamic.thy ===== *)
theory Pb_Dynamic
  imports Pb_Reflect
begin

text \<open>
  Reading, writing and sizes by table. A reflection table and the description of the message in the bytes
  of its file give for every field its number, kind and type (\<open>layout\<close>). \<open>dyn_step\<close>, \<open>dyn_write\<close>
  and \<open>dyn_size\<close> read, write and measure a message as the list of its field values with nothing but this layout, for every
  message in the same way. The generated code of each message does the same as the table
  (\<open>reads_by_table\<close> for one pass, \<open>merges_by_table\<close> for all bytes, \<open>writes_by_table\<close>,
  \<open>sizes_by_table\<close>), where \<open>snapshot\<close> takes the field values of a message
  through its accessors.
\<close>

section \<open>Tables and descriptions\<close>

definition full_name :: "('u, 'm) message_descriptor \<Rightarrow> string" where
  "full_name D =
     (case decode_file (of_bytes (md_file D)) of None \<Rightarrow> []
      | Some F \<Rightarrow> ''.'' @ fd_package F @ ''.'' @ md_name D)"

definition enum_full_name :: "enum_descriptor \<Rightarrow> string" where
  "enum_full_name D =
     (case decode_file (of_bytes (ed_file D)) of None \<Rightarrow> []
      | Some F \<Rightarrow> ''.'' @ fd_package F @ ''.'' @ ed_name D)"

text \<open>The name of a Rust type in the descriptions, from the descriptor of the type.\<close>

definition message_name :: "'u protobuf_rt \<Rightarrow> message_type \<Rightarrow> string" where
  "message_name W t =
     (case t of
        MT_Position \<Rightarrow> full_name (Position_descriptor_static :: ('u, 'u Position) message_descriptor)
      | MT_Orientation \<Rightarrow> full_name (Orientation_descriptor_static :: ('u, 'u Orientation) message_descriptor)
      | MT_Chip \<Rightarrow> full_name (Chip_descriptor_static W)
      | MT_Chip_Radio \<Rightarrow> full_name (Chip_Radio_descriptor_static :: ('u, 'u Chip_Radio) message_descriptor)
      | MT_Chip_Bluetooth \<Rightarrow> full_name (Chip_Bluetooth_descriptor_static :: ('u, 'u Chip_Bluetooth) message_descriptor)
      | MT_Device \<Rightarrow> full_name (Device_descriptor_static :: ('u, 'u Device) message_descriptor)
      | MT_StartupInfo_Device \<Rightarrow> full_name (StartupInfo_Device_descriptor_static :: ('u, 'u StartupInfo_Device) message_descriptor)
      | MT_ChipInfo \<Rightarrow> full_name (ChipInfo_descriptor_static :: ('u, 'u ChipInfo) message_descriptor)
      | MT_Startup_Chip \<Rightarrow> full_name (Startup_Chip_descriptor_static :: ('u, 'u Startup_Chip) message_descriptor)
      | MT_HCIPacket \<Rightarrow> full_name (HCIPacket_descriptor_static :: ('u, 'u HCIPacket) message_descriptor))"

definition enum_name :: "enum_type \<Rightarrow> string" where
  "enum_name e =
     (case e of
        ET_PhyKind \<Rightarrow> enum_full_name PhyKind_descriptor_static
      | ET_State \<Rightarrow> enum_full_name State_descriptor_static
      | ET_Chip_ChipKind \<Rightarrow> enum_full_name Chip_ChipKind_descriptor_static
      | ET_HCIPacket_PacketType \<Rightarrow> enum_full_name HCIPacket_PacketType_descriptor_static)"

fun schema_type :: "'u protobuf_rt \<Rightarrow> pb_type \<Rightarrow> field_type" where
  "schema_type W ProtobufTypeFloat = TFloat"
| "schema_type W ProtobufTypeInt32 = TInt32"
| "schema_type W ProtobufTypeBool = TBool"
| "schema_type W ProtobufTypeString = TString"
| "schema_type W ProtobufTypeBytes = TBytes"
| "schema_type W (ProtobufTypeEnum e) = TEnum (enum_name e)"
| "schema_type W (ProtobufTypeMessage t) = TMessage (message_name W t)"

text \<open>The accessor a description asks for.\<close>

definition schema_kind :: "field_schema \<Rightarrow> field_kind" where
  "schema_kind f =
     (if fs_repeated f then RepeatedField
      else if fs_oneof f \<noteq> None then Present
      else (case fs_type f of TMessage t \<Rightarrow> SingularPtr | _ \<Rightarrow> Simple))"

definition table_matches :: "'u protobuf_rt \<Rightarrow> ('u, 'm) message_descriptor \<Rightarrow> bool" where
  "table_matches W D =
     (case described D of None \<Rightarrow> False
      | Some M \<Rightarrow>
          map (\<lambda>a. (acc_name a, schema_type W (acc_type a), acc_kind a)) (md_fields D) =
          map (\<lambda>f. (fs_name f, fs_type f, schema_kind f)) (ms_fields M))"

definition enum_matches :: "enum_descriptor \<Rightarrow> i32 list \<Rightarrow> bool" where
  "enum_matches D numbers =
     (case enum_described D of None \<Rightarrow> False
      | Some E \<Rightarrow> map (\<lambda>(name, n). word_of_int n) (es_values E) = numbers)"

section \<open>Messages as field values\<close>

record dyn_field =
  df_number :: nat
  df_oneof :: "string option"
  df_kind :: field_kind
  df_type :: pb_type

definition layout :: "('u, 'm) message_descriptor \<Rightarrow> dyn_field list" where
  "layout D =
     (case described D of None \<Rightarrow> []
      | Some M \<Rightarrow>
          map (\<lambda>(f, a). \<lparr>df_number = fs_number f, df_oneof = fs_oneof f, df_kind = acc_kind a, df_type = acc_type a\<rparr>)
            (zip (ms_fields M) (md_fields D)))"

type_synonym 'u dyn_message = "'u field_value list \<times> 'u"

definition snapshot ::
    "('u, ('u, 'z) pb_special_scheme) message_descriptor \<Rightarrow> ('u, 'z) pb_special_scheme \<Rightarrow> 'u dyn_message" where
  "snapshot D m = (map (\<lambda>a. acc_value a m) (md_fields D), unknown_fields m)"

text \<open>The operations of the trait \<^verbatim>\<open>Message\<close> for a type that stands in a table.\<close>

record 'u message_ops =
  op_new :: "'u pb_value"
  op_merge :: "'u pb_value \<Rightarrow> bytes \<Rightarrow> pb_error + 'u pb_value"
  op_initialized :: "'u pb_value \<Rightarrow> bool"
  op_size :: "'u pb_value \<Rightarrow> u32"
  op_cached :: "'u pb_value \<Rightarrow> u32"
  op_write :: "'u pb_value \<Rightarrow> bytes"

definition wrong_type :: pb_error where
  "wrong_type = RuntimeError ''value of another type''"

definition message_trait ::
    "('m \<Rightarrow> 'u pb_value) \<Rightarrow> ('u pb_value \<Rightarrow> 'm option) \<Rightarrow> 'm \<Rightarrow> ('m \<Rightarrow> bytes \<Rightarrow> pb_error + 'm) \<Rightarrow>
      ('m \<Rightarrow> bool) \<Rightarrow> ('m \<Rightarrow> u32 \<times> 'm) \<Rightarrow> ('m \<Rightarrow> u32) \<Rightarrow> ('m \<Rightarrow> bytes) \<Rightarrow> 'u message_ops" where
  "message_trait wrp unw new merge initialized compute cached write =
     \<lparr>op_new = wrp new,
      op_merge = (\<lambda>v b. case unw v of None \<Rightarrow> Inl wrong_type | Some m \<Rightarrow> bindE (merge m b) (\<lambda>m. Ok (wrp m))),
      op_initialized = (\<lambda>v. case unw v of None \<Rightarrow> False | Some m \<Rightarrow> initialized m),
      op_size = (\<lambda>v. case unw v of None \<Rightarrow> 0 | Some m \<Rightarrow> fst (compute m)),
      op_cached = (\<lambda>v. case unw v of None \<Rightarrow> 0 | Some m \<Rightarrow> cached m),
      op_write = (\<lambda>v. case unw v of None \<Rightarrow> [] | Some m \<Rightarrow> write m)\<rparr>"

definition message_of :: "'u protobuf_rt \<Rightarrow> message_type \<Rightarrow> 'u message_ops" where
  "message_of W t =
     (case t of
        MT_Position \<Rightarrow> message_trait V_Position to_Position (Position_new W) (Position_merge_from W)
          Position_is_initialized (Position_compute_size W) Position_get_cached_size (Position_write_to_with_cached_sizes W)
      | MT_Orientation \<Rightarrow> message_trait V_Orientation to_Orientation (Orientation_new W) (Orientation_merge_from W)
          Orientation_is_initialized (Orientation_compute_size W) Orientation_get_cached_size (Orientation_write_to_with_cached_sizes W)
      | MT_Chip \<Rightarrow> message_trait V_Chip to_Chip (Chip_new W) (Chip_merge_from W)
          Chip_is_initialized (Chip_compute_size W) Chip_get_cached_size (Chip_write_to_with_cached_sizes W)
      | MT_Chip_Radio \<Rightarrow> message_trait V_Chip_Radio to_Chip_Radio (Chip_Radio_new W) (Chip_Radio_merge_from W)
          Chip_Radio_is_initialized (Chip_Radio_compute_size W) Chip_Radio_get_cached_size (Chip_Radio_write_to_with_cached_sizes W)
      | MT_Chip_Bluetooth \<Rightarrow> message_trait V_Chip_Bluetooth to_Chip_Bluetooth (Chip_Bluetooth_new W) (Chip_Bluetooth_merge_from W)
          Chip_Bluetooth_is_initialized (Chip_Bluetooth_compute_size W) Chip_Bluetooth_get_cached_size (Chip_Bluetooth_write_to_with_cached_sizes W)
      | MT_Device \<Rightarrow> message_trait V_Device to_Device (Device_new W) (Device_merge_from W)
          Device_is_initialized (Device_compute_size W) Device_get_cached_size (Device_write_to_with_cached_sizes W)
      | MT_StartupInfo_Device \<Rightarrow> message_trait V_StartupInfo_Device to_StartupInfo_Device (StartupInfo_Device_new W) (StartupInfo_Device_merge_from W)
          StartupInfo_Device_is_initialized (StartupInfo_Device_compute_size W) StartupInfo_Device_get_cached_size (StartupInfo_Device_write_to_with_cached_sizes W)
      | MT_ChipInfo \<Rightarrow> message_trait V_ChipInfo to_ChipInfo (ChipInfo_new W) (ChipInfo_merge_from W)
          ChipInfo_is_initialized (ChipInfo_compute_size W) ChipInfo_get_cached_size (ChipInfo_write_to_with_cached_sizes W)
      | MT_Startup_Chip \<Rightarrow> message_trait V_Startup_Chip to_Startup_Chip (Startup_Chip_new W) (Startup_Chip_merge_from W)
          Startup_Chip_is_initialized (Startup_Chip_compute_size W) Startup_Chip_get_cached_size (Startup_Chip_write_to_with_cached_sizes W)
      | MT_HCIPacket \<Rightarrow> message_trait V_HCIPacket to_HCIPacket (HCIPacket_new W) (HCIPacket_merge_from W)
          HCIPacket_is_initialized (HCIPacket_compute_size W) HCIPacket_get_cached_size (HCIPacket_write_to_with_cached_sizes W))"

definition enum_known :: "enum_type \<Rightarrow> i32 \<Rightarrow> bool" where
  "enum_known e =
     (case e of
        ET_PhyKind \<Rightarrow> (\<lambda>i. PhyKind_from_i32 i \<noteq> None)
      | ET_State \<Rightarrow> (\<lambda>i. State_from_i32 i \<noteq> None)
      | ET_Chip_ChipKind \<Rightarrow> (\<lambda>i. Chip_ChipKind_from_i32 i \<noteq> None)
      | ET_HCIPacket_PacketType \<Rightarrow> (\<lambda>i. HCIPacket_PacketType_from_i32 i \<noteq> None))"

section \<open>Reading by table\<close>

definition read_simple ::
    "'u protobuf_rt \<Rightarrow> nat \<Rightarrow> pb_type \<Rightarrow> wire_type \<Rightarrow> bytes \<Rightarrow> 'u pb_value \<Rightarrow> 'u \<Rightarrow> ('u pb_value \<times> 'u) reads" where
  "read_simple W n ty wt is old u =
     (case ty of
        ProtobufTypeFloat \<Rightarrow> expect_wire WireTypeFixed32 wt (bindE (rt_float W is) (\<lambda>(x, is). Ok ((V_Float x, u), is)))
      | ProtobufTypeInt32 \<Rightarrow> expect_wire WireTypeVarint wt (bindE (rt_int32 W is) (\<lambda>(x, is). Ok ((V_Int32 x, u), is)))
      | ProtobufTypeBool \<Rightarrow> expect_wire WireTypeVarint wt (bindE (rt_bool W is) (\<lambda>(x, is). Ok ((V_Bool x, u), is)))
      | ProtobufTypeString \<Rightarrow> bindE (rt_string_into W wt is) (\<lambda>(x, is). Ok ((V_String x, u), is))
      | ProtobufTypeBytes \<Rightarrow> bindE (rt_bytes_into W wt is) (\<lambda>(x, is). Ok ((V_Bytes x, u), is))
      | ProtobufTypeEnum e \<Rightarrow>
          bindE (rt_enum_into W (enum_known e) wt n is u) (\<lambda>((i, u), is).
            Ok ((case i of None \<Rightarrow> old | Some i \<Rightarrow> if enum_known e i then V_Enum i else old, u), is))
      | ProtobufTypeMessage t \<Rightarrow> Inl wrong_type)"

definition read_ptr ::
    "'u protobuf_rt \<Rightarrow> pb_type \<Rightarrow> wire_type \<Rightarrow> bytes \<Rightarrow> 'u pb_value option \<Rightarrow> 'u pb_value option reads" where
  "read_ptr W ty wt is old =
     (case ty of
        ProtobufTypeMessage t \<Rightarrow>
          read_singular_message_into W (op_new (message_of W t)) (op_merge (message_of W t)) wt is old
      | _ \<Rightarrow> Inl wrong_type)"

definition read_repeated ::
    "'u protobuf_rt \<Rightarrow> pb_type \<Rightarrow> wire_type \<Rightarrow> bytes \<Rightarrow> 'u pb_value list \<Rightarrow> 'u pb_value list reads" where
  "read_repeated W ty wt is old =
     (case ty of
        ProtobufTypeMessage t \<Rightarrow>
          read_repeated_message_into W (op_new (message_of W t)) (op_merge (message_of W t)) wt is old
      | ProtobufTypeString \<Rightarrow> bindE (rt_repeated_string_into W wt is) (\<lambda>(x, is). Ok (old @ [V_String x], is))
      | _ \<Rightarrow> Inl wrong_type)"

definition read_present :: "'u protobuf_rt \<Rightarrow> pb_type \<Rightarrow> wire_type \<Rightarrow> bytes \<Rightarrow> 'u pb_value reads" where
  "read_present W ty wt is =
     expect_wire WireTypeLengthDelimited wt
       (case ty of
          ProtobufTypeMessage t \<Rightarrow>
            read_message W (op_new (message_of W t)) (op_merge (message_of W t)) (op_initialized (message_of W t)) is
        | ProtobufTypeString \<Rightarrow> bindE (rt_string W is) (\<lambda>(x, is). Ok (V_String x, is))
        | ProtobufTypeBytes \<Rightarrow> bindE (rt_bytes W is) (\<lambda>(x, is). Ok (V_Bytes x, is))
        | _ \<Rightarrow> Inl wrong_type)"

fun read_field ::
    "'u protobuf_rt \<Rightarrow> dyn_field \<Rightarrow> wire_type \<Rightarrow> bytes \<Rightarrow> 'u field_value \<Rightarrow> 'u \<Rightarrow> ('u field_value \<times> 'u) reads" where
  "read_field W f wt is (One old) u =
     bindE (read_simple W (df_number f) (df_type f) wt is old u) (\<lambda>((v, u), is). Ok ((One v, u), is))"
| "read_field W f wt is (Many old) u =
     bindE (read_repeated W (df_type f) wt is old) (\<lambda>(v, is). Ok ((Many v, u), is))"
| "read_field W f wt is (Maybe old) u =
     (if df_kind f = Present
      then bindE (read_present W (df_type f) wt is) (\<lambda>(v, is). Ok ((Maybe (Some v), u), is))
      else bindE (read_ptr W (df_type f) wt is old) (\<lambda>(v, is). Ok ((Maybe v, u), is)))"

text \<open>Storing a field; a field of a \<^verbatim>\<open>oneof\<close> ends the presence of the others in it.\<close>

definition store_field ::
    "dyn_field \<Rightarrow> 'u field_value \<Rightarrow> dyn_field list \<Rightarrow> 'u field_value list \<Rightarrow> 'u field_value list" where
  "store_field f v L vs =
     map (\<lambda>(g, x).
       if df_number g = df_number f then v
       else if df_oneof f \<noteq> None \<and> df_oneof g = df_oneof f then Maybe None
       else x) (zip L vs)"

definition find_field :: "nat \<Rightarrow> dyn_field list \<Rightarrow> 'u field_value list \<Rightarrow> (dyn_field \<times> 'u field_value) option" where
  "find_field n L vs = find (\<lambda>(f, x). df_number f = n) (zip L vs)"

definition dyn_step :: "'u protobuf_rt \<Rightarrow> dyn_field list \<Rightarrow> 'u dyn_message \<Rightarrow> bytes \<Rightarrow> 'u dyn_message reads" where
  "dyn_step W L d is =
     (case d of (vs, u) \<Rightarrow>
        bindE (rt_tag W is) (\<lambda>((n, wt), is).
          case find_field n L vs of
            None \<Rightarrow> bindE (rt_unknown W n wt is u) (\<lambda>(u, is). Ok ((vs, u), is))
          | Some (f, old) \<Rightarrow>
              bindE (read_field W f wt is old u) (\<lambda>((v, u), is). Ok ((store_field f v L vs, u), is))))"

definition dyn_merge :: "'u protobuf_rt \<Rightarrow> dyn_field list \<Rightarrow> 'u dyn_message \<Rightarrow> bytes \<Rightarrow> pb_error + 'u dyn_message" where
  "dyn_merge W L = merge_loop (dyn_step W L)"

section \<open>Writing by table\<close>

definition write_simple :: "'u protobuf_rt \<Rightarrow> nat \<Rightarrow> 'u pb_value \<Rightarrow> bytes" where
  "write_simple W n v =
     (case v of
        V_Float x \<Rightarrow> if f32_is_zero x then [] else os_float W n x
      | V_Int32 x \<Rightarrow> if x = 0 then [] else os_int32 W n x
      | V_Bool x \<Rightarrow> if x then os_bool W n x else []
      | V_String x \<Rightarrow> if x = [] then [] else os_string W n x
      | V_Bytes x \<Rightarrow> if x = [] then [] else os_bytes W n x
      | V_Enum i \<Rightarrow> if i = 0 then [] else os_enum W n i
      | _ \<Rightarrow> [])"

definition write_value :: "'u protobuf_rt \<Rightarrow> nat \<Rightarrow> pb_type \<Rightarrow> 'u pb_value \<Rightarrow> bytes" where
  "write_value W n ty v =
     (case ty of
        ProtobufTypeMessage t \<Rightarrow> os_message W n (op_cached (message_of W t)) (op_write (message_of W t)) v
      | _ \<Rightarrow> (case v of V_String x \<Rightarrow> os_string W n x | V_Bytes x \<Rightarrow> os_bytes W n x | _ \<Rightarrow> []))"

fun write_field :: "'u protobuf_rt \<Rightarrow> dyn_field \<times> 'u field_value \<Rightarrow> bytes" where
  "write_field W (f, One v) = write_simple W (df_number f) v"
| "write_field W (f, Maybe None) = []"
| "write_field W (f, Maybe (Some v)) = write_value W (df_number f) (df_type f) v"
| "write_field W (f, Many vs) = concat (map (write_value W (df_number f) (df_type f)) vs)"

definition dyn_write :: "'u protobuf_rt \<Rightarrow> dyn_field list \<Rightarrow> 'u dyn_message \<Rightarrow> bytes" where
  "dyn_write W L d = (case d of (vs, u) \<Rightarrow> concat (map (write_field W) (zip L vs)) @ os_unknown W u)"

section \<open>Sizes by table\<close>

definition size_simple :: "'u protobuf_rt \<Rightarrow> nat \<Rightarrow> 'u pb_value \<Rightarrow> u32" where
  "size_simple W n v =
     (case v of
        V_Float x \<Rightarrow> if f32_is_zero x then 0 else 5
      | V_Int32 x \<Rightarrow> if x = 0 then 0 else sz_int32 W n x
      | V_Bool x \<Rightarrow> if x then 2 else 0
      | V_String x \<Rightarrow> if x = [] then 0 else sz_string W n x
      | V_Bytes x \<Rightarrow> if x = [] then 0 else sz_bytes W n x
      | V_Enum i \<Rightarrow> if i = 0 then 0 else sz_enum W n i
      | _ \<Rightarrow> 0)"

definition size_value :: "'u protobuf_rt \<Rightarrow> nat \<Rightarrow> pb_type \<Rightarrow> 'u pb_value \<Rightarrow> u32" where
  "size_value W n ty v =
     (case ty of
        ProtobufTypeMessage t \<Rightarrow> (let len = op_size (message_of W t) v in 1 + sz_varint32 W len + len)
      | _ \<Rightarrow> (case v of V_String x \<Rightarrow> sz_string W n x | V_Bytes x \<Rightarrow> sz_bytes W n x | _ \<Rightarrow> 0))"

fun size_field :: "'u protobuf_rt \<Rightarrow> dyn_field \<times> 'u field_value \<Rightarrow> u32" where
  "size_field W (f, One v) = size_simple W (df_number f) v"
| "size_field W (f, Maybe None) = 0"
| "size_field W (f, Maybe (Some v)) = size_value W (df_number f) (df_type f) v"
| "size_field W (f, Many vs) = sum_list (map (size_value W (df_number f) (df_type f)) vs)"

definition dyn_size :: "'u protobuf_rt \<Rightarrow> dyn_field list \<Rightarrow> 'u dyn_message \<Rightarrow> u32" where
  "dyn_size W L d = (case d of (vs, u) \<Rightarrow> sum_list (map (size_field W) (zip L vs)) + uf_size W u)"

section \<open>Values of a new message\<close>

definition default_value :: "dyn_field \<Rightarrow> 'u field_value" where
  "default_value f =
     (case df_kind f of
        RepeatedField \<Rightarrow> Many []
      | Simple \<Rightarrow> One (case df_type f of
            ProtobufTypeFloat \<Rightarrow> V_Float 0
          | ProtobufTypeInt32 \<Rightarrow> V_Int32 0
          | ProtobufTypeBool \<Rightarrow> V_Bool False
          | ProtobufTypeString \<Rightarrow> V_String []
          | ProtobufTypeBytes \<Rightarrow> V_Bytes []
          | _ \<Rightarrow> V_Enum 0)
      | _ \<Rightarrow> Maybe None)"

section \<open>What the generated code has to do\<close>

definition reads_by_table ::
    "'u protobuf_rt \<Rightarrow> ('u, ('u, 'z) pb_special_scheme) message_descriptor \<Rightarrow>
      (('u, 'z) pb_special_scheme \<Rightarrow> bytes \<Rightarrow> ('u, 'z) pb_special_scheme reads) \<Rightarrow> bool" where
  "reads_by_table W D step \<longleftrightarrow>
     (\<forall>m is. bindE (step m is) (\<lambda>(m', is'). Ok (snapshot D m', is')) = dyn_step W (layout D) (snapshot D m) is)"

definition merges_by_table ::
    "'u protobuf_rt \<Rightarrow> ('u, ('u, 'z) pb_special_scheme) message_descriptor \<Rightarrow>
      (('u, 'z) pb_special_scheme \<Rightarrow> bytes \<Rightarrow> pb_error + ('u, 'z) pb_special_scheme) \<Rightarrow> bool" where
  "merges_by_table W D merge \<longleftrightarrow>
     (\<forall>m b. bindE (merge m b) (\<lambda>m'. Ok (snapshot D m')) = dyn_merge W (layout D) (snapshot D m) b)"

definition writes_by_table ::
    "'u protobuf_rt \<Rightarrow> ('u, ('u, 'z) pb_special_scheme) message_descriptor \<Rightarrow>
      (('u, 'z) pb_special_scheme \<Rightarrow> bytes) \<Rightarrow> bool" where
  "writes_by_table W D write \<longleftrightarrow> (\<forall>m. write m = dyn_write W (layout D) (snapshot D m))"

definition sizes_by_table ::
    "'u protobuf_rt \<Rightarrow> ('u, ('u, 'z) pb_special_scheme) message_descriptor \<Rightarrow>
      (('u, 'z) pb_special_scheme \<Rightarrow> u32 \<times> ('u, 'z) pb_special_scheme) \<Rightarrow> bool" where
  "sizes_by_table W D compute \<longleftrightarrow> (\<forall>m. fst (compute m) = dyn_size W (layout D) (snapshot D m))"

definition starts_by_table ::
    "'u protobuf_rt \<Rightarrow> ('u, ('u, 'z) pb_special_scheme) message_descriptor \<Rightarrow>
      ('u, 'z) pb_special_scheme \<Rightarrow> (('u, 'z) pb_special_scheme \<Rightarrow> ('u, 'z) pb_special_scheme) \<Rightarrow> bool" where
  "starts_by_table W D new clear \<longleftrightarrow>
     snapshot D new = (map default_value (layout D), uf_new W) \<and>
     (\<forall>m. snapshot D (clear m) = (map default_value (layout D), uf_new W))"

section \<open>The shared part of the proofs\<close>

text \<open>A message inside a value is read and written as the message itself.\<close>

lemma read_message_trait [simp]:
  assumes "\<And>x. unw (wrp x) = Some x"
  shows "read_message W (op_new (message_trait wrp unw new merge ini s c w))
      (op_merge (message_trait wrp unw new merge ini s c w)) (op_initialized (message_trait wrp unw new merge ini s c w)) is =
    bindE (read_message W new merge ini is) (\<lambda>(m, is). Ok (wrp m, is))"
  using assms unfolding read_message_def message_trait_def
  by (auto simp: case_prod_beta' intro!: arg_cong [where f = "bindE _"] split: bindE_split)

lemma read_singular_trait [simp]:
  assumes "\<And>x. unw (wrp x) = Some x"
  shows "read_singular_message_into W (op_new (message_trait wrp unw new merge ini s c w))
      (op_merge (message_trait wrp unw new merge ini s c w)) wt is (map_option wrp old) =
    bindE (read_singular_message_into W new merge wt is old) (\<lambda>(m, is). Ok (map_option wrp m, is))"
  using assms unfolding read_singular_message_into_def message_trait_def
  by (cases old) (simp_all add: case_prod_beta')

lemma read_repeated_trait [simp]:
  assumes "\<And>x. unw (wrp x) = Some x"
  shows "read_repeated_message_into W (op_new (message_trait wrp unw new merge ini s c w))
      (op_merge (message_trait wrp unw new merge ini s c w)) wt is (map wrp old) =
    bindE (read_repeated_message_into W new merge wt is old) (\<lambda>(m, is). Ok (map wrp m, is))"
  using assms unfolding read_repeated_message_into_def message_trait_def
  by (simp add: case_prod_beta')

lemma os_message_trait [simp]:
  assumes "\<And>x. unw (wrp x) = Some x"
  shows "os_message W n (op_cached (message_trait wrp unw new merge ini s c w))
      (op_write (message_trait wrp unw new merge ini s c w)) (wrp m) = os_message W n c w m"
  using assms by (simp add: os_message_def message_trait_def)

lemma op_size_trait [simp]:
  assumes "\<And>x. unw (wrp x) = Some x"
  shows "op_size (message_trait wrp unw new merge ini s c w) (wrp m) = fst (s m)"
  using assms by (simp add: message_trait_def)

lemma embedded_size_fst: "fst (embedded_size W cs v) = 1 + sz_varint32 W (fst (cs v)) + fst (cs v)"
  by (simp add: embedded_size_def case_prod_beta)

lemma optional_size_fst:
  "fst (optional_size W cs x) = (case x of None \<Rightarrow> 0 | Some v \<Rightarrow> 1 + sz_varint32 W (fst (cs v)) + fst (cs v))"
  by (cases x) (simp_all add: case_prod_beta embedded_size_fst)

lemma repeated_size_fst:
  "fst (repeated_size W cs xs) = sum_list (map (\<lambda>v. 1 + sz_varint32 W (fst (cs v)) + fst (cs v)) xs)"
  by (induction xs) (simp_all add: case_prod_beta embedded_size_fst)

lemma add_if: "(if c then a + s else a) = a + (if c then s else (0 :: u32))"
  by simp

lemma os_optional_map: "os_optional W n c w x = (case x of None \<Rightarrow> [] | Some m \<Rightarrow> os_message W n c w m)"
  by (cases x) simp_all

lemma os_repeated_map: "os_repeated W n c w xs = concat (map (os_message W n c w) xs)"
  by (induction xs) simp_all

lemma bindE_expect [simp]: "bindE (expect_wire a b r) f = expect_wire a b (bindE r f)"
  by (simp add: expect_wire_def)

lemma reads_by_tableI:
  assumes "\<And>is e m. rt_tag W is = Inl e \<Longrightarrow> step m is = Inl e"
    and "\<And>m is n wt is'. rt_tag W is = Ok ((n, wt), is') \<Longrightarrow>
      bindE (step m is) (\<lambda>(m', is'). Ok (snapshot D m', is')) =
      (case find_field n (layout D) (map (\<lambda>a. acc_value a m) (md_fields D)) of
         None \<Rightarrow> bindE (rt_unknown W n wt is' (unknown_fields m))
           (\<lambda>(u, is). Ok ((map (\<lambda>a. acc_value a m) (md_fields D), u), is))
       | Some (f, old) \<Rightarrow>
           bindE (read_field W f wt is' old (unknown_fields m))
             (\<lambda>((v, u), is). Ok ((store_field f v (layout D) (map (\<lambda>a. acc_value a m) (md_fields D)), u), is)))"
  shows "reads_by_table W D step"
  unfolding reads_by_table_def
proof (intro allI)
  fix m "is"
  show "bindE (step m is) (\<lambda>(m', is'). Ok (snapshot D m', is')) = dyn_step W (layout D) (snapshot D m) is"
  proof (cases "rt_tag W is")
    case (Inl e)
    with assms(1) show ?thesis
      by (simp add: dyn_step_def snapshot_def)
  next
    case (Inr p)
    obtain n wt is' where "p = ((n, wt), is')"
      by (cases p) auto
    with Inr assms(2) show ?thesis
      by (simp add: dyn_step_def snapshot_def)
  qed
qed

text \<open>Passes that agree make loops that agree.\<close>

lemma merges_by_tableI:
  assumes "reads_by_table W D step"
  shows "merges_by_table W D (merge_loop step)"
proof -
  have "bindE (merge_loop step m b) (\<lambda>m'. Ok (snapshot D m')) = merge_loop (dyn_step W (layout D)) (snapshot D m) b" for m b
  proof (induction "length b" arbitrary: m b rule: less_induct)
    case less
    have step: "dyn_step W (layout D) (snapshot D m) b = bindE (step m b) (\<lambda>(m', b'). Ok (snapshot D m', b'))"
      using assms by (simp add: reads_by_table_def)
    show ?case
      by (subst (1 2) merge_loop.simps)
        (auto simp: step less split: bindE_split intro!: arg_cong [where f = "bindE _"])
  qed
  then show ?thesis
    by (simp add: merges_by_table_def dyn_merge_def)
qed

lemmas table_read =
  find_field_def store_field_def read_simple_def read_ptr_def read_repeated_def read_present_def
  read_enum_into_def snapshot_def case_prod_beta'

lemmas table_size =
  dyn_size_def snapshot_def size_simple_def size_value_def embedded_size_fst optional_size_fst repeated_size_fst
  add_if Let_def case_prod_beta comp_def

lemmas table_write =
  dyn_write_def snapshot_def write_simple_def write_value_def os_optional_map os_repeated_map

lemma message_of_simps [simp]:
  "message_of W MT_Position = message_trait V_Position to_Position (Position_new W) (Position_merge_from W)
     Position_is_initialized (Position_compute_size W) Position_get_cached_size (Position_write_to_with_cached_sizes W)"
  "message_of W MT_Orientation = message_trait V_Orientation to_Orientation (Orientation_new W) (Orientation_merge_from W)
     Orientation_is_initialized (Orientation_compute_size W) Orientation_get_cached_size (Orientation_write_to_with_cached_sizes W)"
  "message_of W MT_Chip = message_trait V_Chip to_Chip (Chip_new W) (Chip_merge_from W)
     Chip_is_initialized (Chip_compute_size W) Chip_get_cached_size (Chip_write_to_with_cached_sizes W)"
  "message_of W MT_Chip_Radio = message_trait V_Chip_Radio to_Chip_Radio (Chip_Radio_new W) (Chip_Radio_merge_from W)
     Chip_Radio_is_initialized (Chip_Radio_compute_size W) Chip_Radio_get_cached_size (Chip_Radio_write_to_with_cached_sizes W)"
  "message_of W MT_Chip_Bluetooth = message_trait V_Chip_Bluetooth to_Chip_Bluetooth (Chip_Bluetooth_new W) (Chip_Bluetooth_merge_from W)
     Chip_Bluetooth_is_initialized (Chip_Bluetooth_compute_size W) Chip_Bluetooth_get_cached_size (Chip_Bluetooth_write_to_with_cached_sizes W)"
  "message_of W MT_Device = message_trait V_Device to_Device (Device_new W) (Device_merge_from W)
     Device_is_initialized (Device_compute_size W) Device_get_cached_size (Device_write_to_with_cached_sizes W)"
  "message_of W MT_StartupInfo_Device = message_trait V_StartupInfo_Device to_StartupInfo_Device (StartupInfo_Device_new W) (StartupInfo_Device_merge_from W)
     StartupInfo_Device_is_initialized (StartupInfo_Device_compute_size W) StartupInfo_Device_get_cached_size (StartupInfo_Device_write_to_with_cached_sizes W)"
  "message_of W MT_ChipInfo = message_trait V_ChipInfo to_ChipInfo (ChipInfo_new W) (ChipInfo_merge_from W)
     ChipInfo_is_initialized (ChipInfo_compute_size W) ChipInfo_get_cached_size (ChipInfo_write_to_with_cached_sizes W)"
  "message_of W MT_Startup_Chip = message_trait V_Startup_Chip to_Startup_Chip (Startup_Chip_new W) (Startup_Chip_merge_from W)
     Startup_Chip_is_initialized (Startup_Chip_compute_size W) Startup_Chip_get_cached_size (Startup_Chip_write_to_with_cached_sizes W)"
  "message_of W MT_HCIPacket = message_trait V_HCIPacket to_HCIPacket (HCIPacket_new W) (HCIPacket_merge_from W)
     HCIPacket_is_initialized (HCIPacket_compute_size W) HCIPacket_get_cached_size (HCIPacket_write_to_with_cached_sizes W)"
  by (simp_all add: message_of_def)

lemma enum_known_simps [simp]:
  "enum_known ET_PhyKind = (\<lambda>i. PhyKind_from_i32 i \<noteq> None)"
  "enum_known ET_State = (\<lambda>i. State_from_i32 i \<noteq> None)"
  "enum_known ET_Chip_ChipKind = (\<lambda>i. Chip_ChipKind_from_i32 i \<noteq> None)"
  "enum_known ET_HCIPacket_PacketType = (\<lambda>i. HCIPacket_PacketType_from_i32 i \<noteq> None)"
  by (simp_all add: enum_known_def)

text \<open>An enumeration is its number; the first number is 0, which is not written.\<close>

lemma enum_value [simp]:
  "V_Enum (PhyKind_value (case Option.bind i PhyKind_from_i32 of None \<Rightarrow> old_PhyKind | Some e \<Rightarrow> e)) =
     (case i of None \<Rightarrow> V_Enum (PhyKind_value old_PhyKind) | Some i \<Rightarrow> if enum_known ET_PhyKind i then V_Enum i else V_Enum (PhyKind_value old_PhyKind))"
  "V_Enum (State_value (case Option.bind i State_from_i32 of None \<Rightarrow> old_State | Some e \<Rightarrow> e)) =
     (case i of None \<Rightarrow> V_Enum (State_value old_State) | Some i \<Rightarrow> if enum_known ET_State i then V_Enum i else V_Enum (State_value old_State))"
  "V_Enum (Chip_ChipKind_value (case Option.bind i Chip_ChipKind_from_i32 of None \<Rightarrow> old_Chip_ChipKind | Some e \<Rightarrow> e)) =
     (case i of None \<Rightarrow> V_Enum (Chip_ChipKind_value old_Chip_ChipKind) | Some i \<Rightarrow> if enum_known ET_Chip_ChipKind i then V_Enum i else V_Enum (Chip_ChipKind_value old_Chip_ChipKind))"
  "V_Enum (HCIPacket_PacketType_value (case Option.bind i HCIPacket_PacketType_from_i32 of None \<Rightarrow> old_HCIPacket_PacketType | Some e \<Rightarrow> e)) =
     (case i of None \<Rightarrow> V_Enum (HCIPacket_PacketType_value old_HCIPacket_PacketType) | Some i \<Rightarrow> if enum_known ET_HCIPacket_PacketType i then V_Enum i else V_Enum (HCIPacket_PacketType_value old_HCIPacket_PacketType))"
  by (auto dest: PhyKind_value_from State_value_from Chip_ChipKind_value_from HCIPacket_PacketType_value_from split: option.split)

lemma enum_zero [simp]:
  "PhyKind_value e_PhyKind = 0 \<longleftrightarrow> e_PhyKind = PhyKind_NONE"
  "State_value e_State = 0 \<longleftrightarrow> e_State = State_UNKNOWN"
  "Chip_ChipKind_value e_Chip_ChipKind = 0 \<longleftrightarrow> e_Chip_ChipKind = Chip_ChipKind_UNSPECIFIED"
  "HCIPacket_PacketType_value e_HCIPacket_PacketType = 0 \<longleftrightarrow> e_HCIPacket_PacketType = HCIPacket_PacketType_PACKET_TYPE_UNSPECIFIED"
  by (cases e_PhyKind; cases e_State; cases e_Chip_ChipKind; cases e_HCIPacket_PacketType; simp)+

section \<open>The messages\<close>

lemma model_schema_names:
  "ms_name model_Position_schema = ''Position''"
  "ms_name model_Orientation_schema = ''Orientation''"
  "ms_name model_Chip_schema = ''Chip''"
  "ms_name model_Chip_Radio_schema = ''Chip.Radio''"
  "ms_name model_Chip_Bluetooth_schema = ''Chip.Bluetooth''"
  "ms_name model_Device_schema = ''Device''"
  "ms_name model_Scene_schema = ''Scene''"
  by (simp_all add: model_Position_schema_def model_Orientation_schema_def model_Chip_schema_def model_Chip_Radio_schema_def model_Chip_Bluetooth_schema_def model_Device_schema_def model_Scene_schema_def)

lemma frontend_schema_names:
  "ms_name frontend_VersionResponse_schema = ''VersionResponse''"
  "ms_name frontend_SetLinkLossRequest_schema = ''SetLinkLossRequest''"
  "ms_name frontend_UpdateDeviceRequest_schema = ''UpdateDeviceRequest''"
  "ms_name frontend_Updates_schema = ''Updates''"
  "ms_name frontend_GetDevicesResponse_schema = ''GetDevicesResponse''"
  "ms_name frontend_NetCatStream_schema = ''NetCatStream''"
  "ms_name frontend_SetPacketCaptureRequest_schema = ''SetPacketCaptureRequest''"
  by (simp_all add: frontend_VersionResponse_schema_def frontend_SetLinkLossRequest_schema_def frontend_UpdateDeviceRequest_schema_def frontend_Updates_schema_def frontend_GetDevicesResponse_schema_def frontend_NetCatStream_schema_def frontend_SetPacketCaptureRequest_schema_def)

lemma startup_schema_names:
  "ms_name startup_StartupInfo_schema = ''StartupInfo''"
  "ms_name startup_StartupInfo_Device_schema = ''StartupInfo.Device''"
  "ms_name startup_ChipInfo_schema = ''ChipInfo''"
  "ms_name startup_Chip_schema = ''Chip''"
  by (simp_all add: startup_StartupInfo_schema_def startup_StartupInfo_Device_schema_def startup_ChipInfo_schema_def startup_Chip_schema_def)

lemma hci_packet_schema_names:
  "ms_name hci_packet_HCIPacket_schema = ''HCIPacket''"
  by (simp_all add: hci_packet_HCIPacket_schema_def)

lemma packet_streamer_schema_names:
  "ms_name packet_streamer_StreamPacketsRequest_schema = ''StreamPacketsRequest''"
  "ms_name packet_streamer_StreamPacketsResponse_schema = ''StreamPacketsResponse''"
  by (simp_all add: packet_streamer_StreamPacketsRequest_schema_def packet_streamer_StreamPacketsResponse_schema_def)

lemma Position_described: "described Position_descriptor_static = Some model_Position_schema"
  by (simp add: described_def Position_descriptor_static_def model_decoded find_message_def model_schema_def model_schema_names)

lemma Position_layout:
  "layout Position_descriptor_static =
     [\<lparr>df_number = 1, df_oneof = None, df_kind = Simple, df_type = ProtobufTypeFloat\<rparr>,
      \<lparr>df_number = 2, df_oneof = None, df_kind = Simple, df_type = ProtobufTypeFloat\<rparr>,
      \<lparr>df_number = 3, df_oneof = None, df_kind = Simple, df_type = ProtobufTypeFloat\<rparr>]"
  unfolding layout_def Position_described by (simp add: model_Position_schema_def Position_descriptor_static_def)

lemma Position_values:
  "map (\<lambda>a. acc_value a m) (md_fields Position_descriptor_static) =
     [One (V_Float (Position_x m)),
      One (V_Float (Position_y m)),
      One (V_Float (Position_z m))]"
  by (simp add: Position_descriptor_static_def )

lemma Position_reads: "reads_by_table W Position_descriptor_static (Position_merge_step W)"
proof (rule reads_by_tableI, goal_cases)
  case (1 "is" e m)
  then show ?case
    by (simp add: Position_merge_step_def)
next
  case (2 m "is" n wt is')
  consider "n = 1" | "n = 2" | "n = 3" | "n \<noteq> 1 \<and> n \<noteq> 2 \<and> n \<noteq> 3"
    by blast
  then show ?case
    by cases (simp_all add: 2 Position_merge_step_def Position_layout Position_values table_read)
qed

lemma Position_merges: "merges_by_table W Position_descriptor_static (Position_merge_from W)"
  unfolding Position_merge_from_def by (rule merges_by_tableI) (rule Position_reads)

lemma Position_writes: "writes_by_table W Position_descriptor_static (Position_write_to_with_cached_sizes W)"
  unfolding writes_by_table_def Position_write_to_with_cached_sizes_def
  by (simp add: Position_layout Position_values table_write comp_def option.case_distrib split: option.split)

lemma Position_sizes: "sizes_by_table W Position_descriptor_static (Position_compute_size W)"
  unfolding sizes_by_table_def Position_compute_size_def
  by (simp add: Position_layout Position_values table_size option.case_distrib split: option.split)

lemma Position_starts: "starts_by_table W Position_descriptor_static (Position_new W) (Position_clear W)"
  by (simp add: starts_by_table_def Position_layout Position_values snapshot_def default_value_def Position_new_def Position_clear_def)

lemma Orientation_described: "described Orientation_descriptor_static = Some model_Orientation_schema"
  by (simp add: described_def Orientation_descriptor_static_def model_decoded find_message_def model_schema_def model_schema_names)

lemma Orientation_layout:
  "layout Orientation_descriptor_static =
     [\<lparr>df_number = 1, df_oneof = None, df_kind = Simple, df_type = ProtobufTypeFloat\<rparr>,
      \<lparr>df_number = 2, df_oneof = None, df_kind = Simple, df_type = ProtobufTypeFloat\<rparr>,
      \<lparr>df_number = 3, df_oneof = None, df_kind = Simple, df_type = ProtobufTypeFloat\<rparr>]"
  unfolding layout_def Orientation_described by (simp add: model_Orientation_schema_def Orientation_descriptor_static_def)

lemma Orientation_values:
  "map (\<lambda>a. acc_value a m) (md_fields Orientation_descriptor_static) =
     [One (V_Float (Orientation_yaw m)),
      One (V_Float (Orientation_pitch m)),
      One (V_Float (Orientation_roll m))]"
  by (simp add: Orientation_descriptor_static_def )

lemma Orientation_reads: "reads_by_table W Orientation_descriptor_static (Orientation_merge_step W)"
proof (rule reads_by_tableI, goal_cases)
  case (1 "is" e m)
  then show ?case
    by (simp add: Orientation_merge_step_def)
next
  case (2 m "is" n wt is')
  consider "n = 1" | "n = 2" | "n = 3" | "n \<noteq> 1 \<and> n \<noteq> 2 \<and> n \<noteq> 3"
    by blast
  then show ?case
    by cases (simp_all add: 2 Orientation_merge_step_def Orientation_layout Orientation_values table_read)
qed

lemma Orientation_merges: "merges_by_table W Orientation_descriptor_static (Orientation_merge_from W)"
  unfolding Orientation_merge_from_def by (rule merges_by_tableI) (rule Orientation_reads)

lemma Orientation_writes: "writes_by_table W Orientation_descriptor_static (Orientation_write_to_with_cached_sizes W)"
  unfolding writes_by_table_def Orientation_write_to_with_cached_sizes_def
  by (simp add: Orientation_layout Orientation_values table_write comp_def option.case_distrib split: option.split)

lemma Orientation_sizes: "sizes_by_table W Orientation_descriptor_static (Orientation_compute_size W)"
  unfolding sizes_by_table_def Orientation_compute_size_def
  by (simp add: Orientation_layout Orientation_values table_size option.case_distrib split: option.split)

lemma Orientation_starts: "starts_by_table W Orientation_descriptor_static (Orientation_new W) (Orientation_clear W)"
  by (simp add: starts_by_table_def Orientation_layout Orientation_values snapshot_def default_value_def Orientation_new_def Orientation_clear_def)

lemma Chip_described: "described (Chip_descriptor_static W) = Some model_Chip_schema"
  by (simp add: described_def Chip_descriptor_static_def model_decoded find_message_def model_schema_def model_schema_names)

lemma Chip_layout:
  "layout (Chip_descriptor_static W) =
     [\<lparr>df_number = 1, df_oneof = None, df_kind = Simple, df_type = ProtobufTypeString\<rparr>,
      \<lparr>df_number = 2, df_oneof = None, df_kind = Simple, df_type = ProtobufTypeString\<rparr>,
      \<lparr>df_number = 3, df_oneof = None, df_kind = Simple, df_type = ProtobufTypeString\<rparr>,
      \<lparr>df_number = 4, df_oneof = None, df_kind = Simple, df_type = ProtobufTypeEnum ET_State\<rparr>,
      \<lparr>df_number = 5, df_oneof = Some ''chip'', df_kind = Present, df_type = ProtobufTypeMessage MT_Chip_Bluetooth\<rparr>,
      \<lparr>df_number = 6, df_oneof = Some ''chip'', df_kind = Present, df_type = ProtobufTypeMessage MT_Chip_Radio\<rparr>,
      \<lparr>df_number = 7, df_oneof = Some ''chip'', df_kind = Present, df_type = ProtobufTypeMessage MT_Chip_Radio\<rparr>]"
  unfolding layout_def Chip_described by (simp add: model_Chip_schema_def Chip_descriptor_static_def)

lemma Chip_values:
  "map (\<lambda>a. acc_value a m) (md_fields (Chip_descriptor_static W)) =
     [One (V_String (Chip_chip_id m)),
      One (V_String (Chip_manufacturer m)),
      One (V_String (Chip_model m)),
      One (V_Enum (State_value (Chip_capture m))),
      Maybe (case Chip_chip m of Some (Chip_oneof_chip_bt v) \<Rightarrow> Some (V_Chip_Bluetooth v) | _ \<Rightarrow> None),
      Maybe (case Chip_chip m of Some (Chip_oneof_chip_uwb v) \<Rightarrow> Some (V_Chip_Radio v) | _ \<Rightarrow> None),
      Maybe (case Chip_chip m of Some (Chip_oneof_chip_wifi v) \<Rightarrow> Some (V_Chip_Radio v) | _ \<Rightarrow> None)]"
  by (simp add: Chip_descriptor_static_def Chip_has_bt_def Chip_get_bt_def Chip_has_uwb_def Chip_get_uwb_def Chip_has_wifi_def Chip_get_wifi_def split: option.split Chip_oneof_chip.split)

lemma Chip_reads: "reads_by_table W (Chip_descriptor_static W) (Chip_merge_step W)"
proof (rule reads_by_tableI, goal_cases)
  case (1 "is" e m)
  then show ?case
    by (simp add: Chip_merge_step_def)
next
  case (2 m "is" n wt is')
  consider "n = 1" | "n = 2" | "n = 3" | "n = 4" | "n = 5" | "n = 6" | "n = 7" | "n \<noteq> 1 \<and> n \<noteq> 2 \<and> n \<noteq> 3 \<and> n \<noteq> 4 \<and> n \<noteq> 5 \<and> n \<noteq> 6 \<and> n \<noteq> 7"
    by blast
  then show ?case
    by cases (simp_all add: 2 Chip_merge_step_def Chip_layout Chip_values table_read)
qed

lemma Chip_merges: "merges_by_table W (Chip_descriptor_static W) (Chip_merge_from W)"
  unfolding Chip_merge_from_def by (rule merges_by_tableI) (rule Chip_reads)

lemma Chip_writes: "writes_by_table W (Chip_descriptor_static W) (Chip_write_to_with_cached_sizes W)"
  unfolding writes_by_table_def Chip_write_to_with_cached_sizes_def
  by (simp add: Chip_layout Chip_values table_write comp_def option.case_distrib split: option.split Chip_oneof_chip.split)

lemma Chip_sizes: "sizes_by_table W (Chip_descriptor_static W) (Chip_compute_size W)"
  unfolding sizes_by_table_def Chip_compute_size_def
  by (simp add: Chip_layout Chip_values table_size option.case_distrib split: option.split Chip_oneof_chip.split)

lemma Chip_starts: "starts_by_table W (Chip_descriptor_static W) (Chip_new W) (Chip_clear W)"
  by (simp add: starts_by_table_def Chip_layout Chip_values snapshot_def default_value_def Chip_new_def Chip_clear_def)

lemma Chip_Radio_described: "described Chip_Radio_descriptor_static = Some model_Chip_Radio_schema"
  by (simp add: described_def Chip_Radio_descriptor_static_def model_decoded find_message_def model_schema_def model_schema_names)

lemma Chip_Radio_layout:
  "layout Chip_Radio_descriptor_static =
     [\<lparr>df_number = 1, df_oneof = None, df_kind = Simple, df_type = ProtobufTypeEnum ET_State\<rparr>,
      \<lparr>df_number = 2, df_oneof = None, df_kind = Simple, df_type = ProtobufTypeFloat\<rparr>,
      \<lparr>df_number = 3, df_oneof = None, df_kind = Simple, df_type = ProtobufTypeInt32\<rparr>,
      \<lparr>df_number = 4, df_oneof = None, df_kind = Simple, df_type = ProtobufTypeInt32\<rparr>]"
  unfolding layout_def Chip_Radio_described by (simp add: model_Chip_Radio_schema_def Chip_Radio_descriptor_static_def)

lemma Chip_Radio_values:
  "map (\<lambda>a. acc_value a m) (md_fields Chip_Radio_descriptor_static) =
     [One (V_Enum (State_value (Chip_Radio_state m))),
      One (V_Float (Chip_Radio_range m)),
      One (V_Int32 (Chip_Radio_tx_count m)),
      One (V_Int32 (Chip_Radio_rx_count m))]"
  by (simp add: Chip_Radio_descriptor_static_def )

lemma Chip_Radio_reads: "reads_by_table W Chip_Radio_descriptor_static (Chip_Radio_merge_step W)"
proof (rule reads_by_tableI, goal_cases)
  case (1 "is" e m)
  then show ?case
    by (simp add: Chip_Radio_merge_step_def)
next
  case (2 m "is" n wt is')
  consider "n = 1" | "n = 2" | "n = 3" | "n = 4" | "n \<noteq> 1 \<and> n \<noteq> 2 \<and> n \<noteq> 3 \<and> n \<noteq> 4"
    by blast
  then show ?case
    by cases (simp_all add: 2 Chip_Radio_merge_step_def Chip_Radio_layout Chip_Radio_values table_read)
qed

lemma Chip_Radio_merges: "merges_by_table W Chip_Radio_descriptor_static (Chip_Radio_merge_from W)"
  unfolding Chip_Radio_merge_from_def by (rule merges_by_tableI) (rule Chip_Radio_reads)

lemma Chip_Radio_writes: "writes_by_table W Chip_Radio_descriptor_static (Chip_Radio_write_to_with_cached_sizes W)"
  unfolding writes_by_table_def Chip_Radio_write_to_with_cached_sizes_def
  by (simp add: Chip_Radio_layout Chip_Radio_values table_write comp_def option.case_distrib split: option.split)

lemma Chip_Radio_sizes: "sizes_by_table W Chip_Radio_descriptor_static (Chip_Radio_compute_size W)"
  unfolding sizes_by_table_def Chip_Radio_compute_size_def
  by (simp add: Chip_Radio_layout Chip_Radio_values table_size option.case_distrib split: option.split)

lemma Chip_Radio_starts: "starts_by_table W Chip_Radio_descriptor_static (Chip_Radio_new W) (Chip_Radio_clear W)"
  by (simp add: starts_by_table_def Chip_Radio_layout Chip_Radio_values snapshot_def default_value_def Chip_Radio_new_def Chip_Radio_clear_def)

lemma Chip_Bluetooth_described: "described Chip_Bluetooth_descriptor_static = Some model_Chip_Bluetooth_schema"
  by (simp add: described_def Chip_Bluetooth_descriptor_static_def model_decoded find_message_def model_schema_def model_schema_names)

lemma Chip_Bluetooth_layout:
  "layout Chip_Bluetooth_descriptor_static =
     [\<lparr>df_number = 1, df_oneof = None, df_kind = SingularPtr, df_type = ProtobufTypeMessage MT_Chip_Radio\<rparr>,
      \<lparr>df_number = 2, df_oneof = None, df_kind = SingularPtr, df_type = ProtobufTypeMessage MT_Chip_Radio\<rparr>]"
  unfolding layout_def Chip_Bluetooth_described by (simp add: model_Chip_Bluetooth_schema_def Chip_Bluetooth_descriptor_static_def)

lemma Chip_Bluetooth_values:
  "map (\<lambda>a. acc_value a m) (md_fields Chip_Bluetooth_descriptor_static) =
     [Maybe (map_option V_Chip_Radio (Chip_Bluetooth_low_energy m)),
      Maybe (map_option V_Chip_Radio (Chip_Bluetooth_classic m))]"
  by (simp add: Chip_Bluetooth_descriptor_static_def )

lemma Chip_Bluetooth_reads: "reads_by_table W Chip_Bluetooth_descriptor_static (Chip_Bluetooth_merge_step W)"
proof (rule reads_by_tableI, goal_cases)
  case (1 "is" e m)
  then show ?case
    by (simp add: Chip_Bluetooth_merge_step_def)
next
  case (2 m "is" n wt is')
  consider "n = 1" | "n = 2" | "n \<noteq> 1 \<and> n \<noteq> 2"
    by blast
  then show ?case
    by cases (simp_all add: 2 Chip_Bluetooth_merge_step_def Chip_Bluetooth_layout Chip_Bluetooth_values table_read)
qed

lemma Chip_Bluetooth_merges: "merges_by_table W Chip_Bluetooth_descriptor_static (Chip_Bluetooth_merge_from W)"
  unfolding Chip_Bluetooth_merge_from_def by (rule merges_by_tableI) (rule Chip_Bluetooth_reads)

lemma Chip_Bluetooth_writes: "writes_by_table W Chip_Bluetooth_descriptor_static (Chip_Bluetooth_write_to_with_cached_sizes W)"
  unfolding writes_by_table_def Chip_Bluetooth_write_to_with_cached_sizes_def
  by (simp add: Chip_Bluetooth_layout Chip_Bluetooth_values table_write comp_def option.case_distrib split: option.split)

lemma Chip_Bluetooth_sizes: "sizes_by_table W Chip_Bluetooth_descriptor_static (Chip_Bluetooth_compute_size W)"
  unfolding sizes_by_table_def Chip_Bluetooth_compute_size_def
  by (simp add: Chip_Bluetooth_layout Chip_Bluetooth_values table_size option.case_distrib split: option.split)

lemma Chip_Bluetooth_starts: "starts_by_table W Chip_Bluetooth_descriptor_static (Chip_Bluetooth_new W) (Chip_Bluetooth_clear W)"
  by (simp add: starts_by_table_def Chip_Bluetooth_layout Chip_Bluetooth_values snapshot_def default_value_def Chip_Bluetooth_new_def Chip_Bluetooth_clear_def)

lemma Device_described: "described Device_descriptor_static = Some model_Device_schema"
  by (simp add: described_def Device_descriptor_static_def model_decoded find_message_def model_schema_def model_schema_names)

lemma Device_layout:
  "layout Device_descriptor_static =
     [\<lparr>df_number = 1, df_oneof = None, df_kind = Simple, df_type = ProtobufTypeString\<rparr>,
      \<lparr>df_number = 2, df_oneof = None, df_kind = Simple, df_type = ProtobufTypeString\<rparr>,
      \<lparr>df_number = 3, df_oneof = None, df_kind = Simple, df_type = ProtobufTypeBool\<rparr>,
      \<lparr>df_number = 4, df_oneof = None, df_kind = SingularPtr, df_type = ProtobufTypeMessage MT_Position\<rparr>,
      \<lparr>df_number = 5, df_oneof = None, df_kind = SingularPtr, df_type = ProtobufTypeMessage MT_Orientation\<rparr>,
      \<lparr>df_number = 6, df_oneof = None, df_kind = RepeatedField, df_type = ProtobufTypeMessage MT_Chip\<rparr>]"
  unfolding layout_def Device_described by (simp add: model_Device_schema_def Device_descriptor_static_def)

lemma Device_values:
  "map (\<lambda>a. acc_value a m) (md_fields Device_descriptor_static) =
     [One (V_String (Device_device_serial m)),
      One (V_String (Device_name m)),
      One (V_Bool (Device_visible m)),
      Maybe (map_option V_Position (Device_position m)),
      Maybe (map_option V_Orientation (Device_orientation m)),
      Many (map V_Chip (Device_chips m))]"
  by (simp add: Device_descriptor_static_def )

lemma Device_reads: "reads_by_table W Device_descriptor_static (Device_merge_step W)"
proof (rule reads_by_tableI, goal_cases)
  case (1 "is" e m)
  then show ?case
    by (simp add: Device_merge_step_def)
next
  case (2 m "is" n wt is')
  consider "n = 1" | "n = 2" | "n = 3" | "n = 4" | "n = 5" | "n = 6" | "n \<noteq> 1 \<and> n \<noteq> 2 \<and> n \<noteq> 3 \<and> n \<noteq> 4 \<and> n \<noteq> 5 \<and> n \<noteq> 6"
    by blast
  then show ?case
    by cases (simp_all add: 2 Device_merge_step_def Device_layout Device_values table_read)
qed

lemma Device_merges: "merges_by_table W Device_descriptor_static (Device_merge_from W)"
  unfolding Device_merge_from_def by (rule merges_by_tableI) (rule Device_reads)

lemma Device_writes: "writes_by_table W Device_descriptor_static (Device_write_to_with_cached_sizes W)"
  unfolding writes_by_table_def Device_write_to_with_cached_sizes_def
  by (simp add: Device_layout Device_values table_write comp_def option.case_distrib split: option.split)

lemma Device_sizes: "sizes_by_table W Device_descriptor_static (Device_compute_size W)"
  unfolding sizes_by_table_def Device_compute_size_def
  by (simp add: Device_layout Device_values table_size option.case_distrib split: option.split)

lemma Device_starts: "starts_by_table W Device_descriptor_static (Device_new W) (Device_clear W)"
  by (simp add: starts_by_table_def Device_layout Device_values snapshot_def default_value_def Device_new_def Device_clear_def)

lemma Scene_described: "described Scene_descriptor_static = Some model_Scene_schema"
  by (simp add: described_def Scene_descriptor_static_def model_decoded find_message_def model_schema_def model_schema_names)

lemma Scene_layout:
  "layout Scene_descriptor_static =
     [\<lparr>df_number = 1, df_oneof = None, df_kind = RepeatedField, df_type = ProtobufTypeMessage MT_Device\<rparr>]"
  unfolding layout_def Scene_described by (simp add: model_Scene_schema_def Scene_descriptor_static_def)

lemma Scene_values:
  "map (\<lambda>a. acc_value a m) (md_fields Scene_descriptor_static) =
     [Many (map V_Device (Scene_devices m))]"
  by (simp add: Scene_descriptor_static_def )

lemma Scene_reads: "reads_by_table W Scene_descriptor_static (Scene_merge_step W)"
proof (rule reads_by_tableI, goal_cases)
  case (1 "is" e m)
  then show ?case
    by (simp add: Scene_merge_step_def)
next
  case (2 m "is" n wt is')
  consider "n = 1" | "n \<noteq> 1"
    by blast
  then show ?case
    by cases (simp_all add: 2 Scene_merge_step_def Scene_layout Scene_values table_read)
qed

lemma Scene_merges: "merges_by_table W Scene_descriptor_static (Scene_merge_from W)"
  unfolding Scene_merge_from_def by (rule merges_by_tableI) (rule Scene_reads)

lemma Scene_writes: "writes_by_table W Scene_descriptor_static (Scene_write_to_with_cached_sizes W)"
  unfolding writes_by_table_def Scene_write_to_with_cached_sizes_def
  by (simp add: Scene_layout Scene_values table_write comp_def option.case_distrib split: option.split)

lemma Scene_sizes: "sizes_by_table W Scene_descriptor_static (Scene_compute_size W)"
  unfolding sizes_by_table_def Scene_compute_size_def
  by (simp add: Scene_layout Scene_values table_size option.case_distrib split: option.split)

lemma Scene_starts: "starts_by_table W Scene_descriptor_static (Scene_new W) (Scene_clear W)"
  by (simp add: starts_by_table_def Scene_layout Scene_values snapshot_def default_value_def Scene_new_def Scene_clear_def)

lemma VersionResponse_described: "described VersionResponse_descriptor_static = Some frontend_VersionResponse_schema"
  by (simp add: described_def VersionResponse_descriptor_static_def frontend_decoded find_message_def frontend_schema_def frontend_schema_names)

lemma VersionResponse_layout:
  "layout VersionResponse_descriptor_static =
     [\<lparr>df_number = 1, df_oneof = None, df_kind = Simple, df_type = ProtobufTypeString\<rparr>]"
  unfolding layout_def VersionResponse_described by (simp add: frontend_VersionResponse_schema_def VersionResponse_descriptor_static_def)

lemma VersionResponse_values:
  "map (\<lambda>a. acc_value a m) (md_fields VersionResponse_descriptor_static) =
     [One (V_String (VersionResponse_version m))]"
  by (simp add: VersionResponse_descriptor_static_def )

lemma VersionResponse_reads: "reads_by_table W VersionResponse_descriptor_static (VersionResponse_merge_step W)"
proof (rule reads_by_tableI, goal_cases)
  case (1 "is" e m)
  then show ?case
    by (simp add: VersionResponse_merge_step_def)
next
  case (2 m "is" n wt is')
  consider "n = 1" | "n \<noteq> 1"
    by blast
  then show ?case
    by cases (simp_all add: 2 VersionResponse_merge_step_def VersionResponse_layout VersionResponse_values table_read)
qed

lemma VersionResponse_merges: "merges_by_table W VersionResponse_descriptor_static (VersionResponse_merge_from W)"
  unfolding VersionResponse_merge_from_def by (rule merges_by_tableI) (rule VersionResponse_reads)

lemma VersionResponse_writes: "writes_by_table W VersionResponse_descriptor_static (VersionResponse_write_to_with_cached_sizes W)"
  unfolding writes_by_table_def VersionResponse_write_to_with_cached_sizes_def
  by (simp add: VersionResponse_layout VersionResponse_values table_write comp_def option.case_distrib split: option.split)

lemma VersionResponse_sizes: "sizes_by_table W VersionResponse_descriptor_static (VersionResponse_compute_size W)"
  unfolding sizes_by_table_def VersionResponse_compute_size_def
  by (simp add: VersionResponse_layout VersionResponse_values table_size option.case_distrib split: option.split)

lemma VersionResponse_starts: "starts_by_table W VersionResponse_descriptor_static (VersionResponse_new W) (VersionResponse_clear W)"
  by (simp add: starts_by_table_def VersionResponse_layout VersionResponse_values snapshot_def default_value_def VersionResponse_new_def VersionResponse_clear_def)

lemma SetLinkLossRequest_described: "described SetLinkLossRequest_descriptor_static = Some frontend_SetLinkLossRequest_schema"
  by (simp add: described_def SetLinkLossRequest_descriptor_static_def frontend_decoded find_message_def frontend_schema_def frontend_schema_names)

lemma SetLinkLossRequest_layout:
  "layout SetLinkLossRequest_descriptor_static =
     [\<lparr>df_number = 1, df_oneof = None, df_kind = Simple, df_type = ProtobufTypeString\<rparr>,
      \<lparr>df_number = 2, df_oneof = None, df_kind = Simple, df_type = ProtobufTypeString\<rparr>,
      \<lparr>df_number = 3, df_oneof = None, df_kind = Simple, df_type = ProtobufTypeEnum ET_PhyKind\<rparr>,
      \<lparr>df_number = 4, df_oneof = None, df_kind = Simple, df_type = ProtobufTypeFloat\<rparr>]"
  unfolding layout_def SetLinkLossRequest_described by (simp add: frontend_SetLinkLossRequest_schema_def SetLinkLossRequest_descriptor_static_def)

lemma SetLinkLossRequest_values:
  "map (\<lambda>a. acc_value a m) (md_fields SetLinkLossRequest_descriptor_static) =
     [One (V_String (SetLinkLossRequest_device_serial m)),
      One (V_String (SetLinkLossRequest_other_device m)),
      One (V_Enum (PhyKind_value (SetLinkLossRequest_radio m))),
      One (V_Float (SetLinkLossRequest_link_loss m))]"
  by (simp add: SetLinkLossRequest_descriptor_static_def )

lemma SetLinkLossRequest_reads: "reads_by_table W SetLinkLossRequest_descriptor_static (SetLinkLossRequest_merge_step W)"
proof (rule reads_by_tableI, goal_cases)
  case (1 "is" e m)
  then show ?case
    by (simp add: SetLinkLossRequest_merge_step_def)
next
  case (2 m "is" n wt is')
  consider "n = 1" | "n = 2" | "n = 3" | "n = 4" | "n \<noteq> 1 \<and> n \<noteq> 2 \<and> n \<noteq> 3 \<and> n \<noteq> 4"
    by blast
  then show ?case
    by cases (simp_all add: 2 SetLinkLossRequest_merge_step_def SetLinkLossRequest_layout SetLinkLossRequest_values table_read)
qed

lemma SetLinkLossRequest_merges: "merges_by_table W SetLinkLossRequest_descriptor_static (SetLinkLossRequest_merge_from W)"
  unfolding SetLinkLossRequest_merge_from_def by (rule merges_by_tableI) (rule SetLinkLossRequest_reads)

lemma SetLinkLossRequest_writes: "writes_by_table W SetLinkLossRequest_descriptor_static (SetLinkLossRequest_write_to_with_cached_sizes W)"
  unfolding writes_by_table_def SetLinkLossRequest_write_to_with_cached_sizes_def
  by (simp add: SetLinkLossRequest_layout SetLinkLossRequest_values table_write comp_def option.case_distrib split: option.split)

lemma SetLinkLossRequest_sizes: "sizes_by_table W SetLinkLossRequest_descriptor_static (SetLinkLossRequest_compute_size W)"
  unfolding sizes_by_table_def SetLinkLossRequest_compute_size_def
  by (simp add: SetLinkLossRequest_layout SetLinkLossRequest_values table_size option.case_distrib split: option.split)

lemma SetLinkLossRequest_starts: "starts_by_table W SetLinkLossRequest_descriptor_static (SetLinkLossRequest_new W) (SetLinkLossRequest_clear W)"
  by (simp add: starts_by_table_def SetLinkLossRequest_layout SetLinkLossRequest_values snapshot_def default_value_def SetLinkLossRequest_new_def SetLinkLossRequest_clear_def)

lemma UpdateDeviceRequest_described: "described UpdateDeviceRequest_descriptor_static = Some frontend_UpdateDeviceRequest_schema"
  by (simp add: described_def UpdateDeviceRequest_descriptor_static_def frontend_decoded find_message_def frontend_schema_def frontend_schema_names)

lemma UpdateDeviceRequest_layout:
  "layout UpdateDeviceRequest_descriptor_static =
     [\<lparr>df_number = 2, df_oneof = None, df_kind = SingularPtr, df_type = ProtobufTypeMessage MT_Device\<rparr>]"
  unfolding layout_def UpdateDeviceRequest_described by (simp add: frontend_UpdateDeviceRequest_schema_def UpdateDeviceRequest_descriptor_static_def)

lemma UpdateDeviceRequest_values:
  "map (\<lambda>a. acc_value a m) (md_fields UpdateDeviceRequest_descriptor_static) =
     [Maybe (map_option V_Device (UpdateDeviceRequest_device m))]"
  by (simp add: UpdateDeviceRequest_descriptor_static_def )

lemma UpdateDeviceRequest_reads: "reads_by_table W UpdateDeviceRequest_descriptor_static (UpdateDeviceRequest_merge_step W)"
proof (rule reads_by_tableI, goal_cases)
  case (1 "is" e m)
  then show ?case
    by (simp add: UpdateDeviceRequest_merge_step_def)
next
  case (2 m "is" n wt is')
  consider "n = 2" | "n \<noteq> 2"
    by blast
  then show ?case
    by cases (simp_all add: 2 UpdateDeviceRequest_merge_step_def UpdateDeviceRequest_layout UpdateDeviceRequest_values table_read)
qed

lemma UpdateDeviceRequest_merges: "merges_by_table W UpdateDeviceRequest_descriptor_static (UpdateDeviceRequest_merge_from W)"
  unfolding UpdateDeviceRequest_merge_from_def by (rule merges_by_tableI) (rule UpdateDeviceRequest_reads)

lemma UpdateDeviceRequest_writes: "writes_by_table W UpdateDeviceRequest_descriptor_static (UpdateDeviceRequest_write_to_with_cached_sizes W)"
  unfolding writes_by_table_def UpdateDeviceRequest_write_to_with_cached_sizes_def
  by (simp add: UpdateDeviceRequest_layout UpdateDeviceRequest_values table_write comp_def option.case_distrib split: option.split)

lemma UpdateDeviceRequest_sizes: "sizes_by_table W UpdateDeviceRequest_descriptor_static (UpdateDeviceRequest_compute_size W)"
  unfolding sizes_by_table_def UpdateDeviceRequest_compute_size_def
  by (simp add: UpdateDeviceRequest_layout UpdateDeviceRequest_values table_size option.case_distrib split: option.split)

lemma UpdateDeviceRequest_starts: "starts_by_table W UpdateDeviceRequest_descriptor_static (UpdateDeviceRequest_new W) (UpdateDeviceRequest_clear W)"
  by (simp add: starts_by_table_def UpdateDeviceRequest_layout UpdateDeviceRequest_values snapshot_def default_value_def UpdateDeviceRequest_new_def UpdateDeviceRequest_clear_def)

lemma Updates_described: "described Updates_descriptor_static = Some frontend_Updates_schema"
  by (simp add: described_def Updates_descriptor_static_def frontend_decoded find_message_def frontend_schema_def frontend_schema_names)

lemma Updates_layout:
  "layout Updates_descriptor_static =
     [\<lparr>df_number = 1, df_oneof = None, df_kind = RepeatedField, df_type = ProtobufTypeMessage MT_Device\<rparr>]"
  unfolding layout_def Updates_described by (simp add: frontend_Updates_schema_def Updates_descriptor_static_def)

lemma Updates_values:
  "map (\<lambda>a. acc_value a m) (md_fields Updates_descriptor_static) =
     [Many (map V_Device (Updates_devices m))]"
  by (simp add: Updates_descriptor_static_def )

lemma Updates_reads: "reads_by_table W Updates_descriptor_static (Updates_merge_step W)"
proof (rule reads_by_tableI, goal_cases)
  case (1 "is" e m)
  then show ?case
    by (simp add: Updates_merge_step_def)
next
  case (2 m "is" n wt is')
  consider "n = 1" | "n \<noteq> 1"
    by blast
  then show ?case
    by cases (simp_all add: 2 Updates_merge_step_def Updates_layout Updates_values table_read)
qed

lemma Updates_merges: "merges_by_table W Updates_descriptor_static (Updates_merge_from W)"
  unfolding Updates_merge_from_def by (rule merges_by_tableI) (rule Updates_reads)

lemma Updates_writes: "writes_by_table W Updates_descriptor_static (Updates_write_to_with_cached_sizes W)"
  unfolding writes_by_table_def Updates_write_to_with_cached_sizes_def
  by (simp add: Updates_layout Updates_values table_write comp_def option.case_distrib split: option.split)

lemma Updates_sizes: "sizes_by_table W Updates_descriptor_static (Updates_compute_size W)"
  unfolding sizes_by_table_def Updates_compute_size_def
  by (simp add: Updates_layout Updates_values table_size option.case_distrib split: option.split)

lemma Updates_starts: "starts_by_table W Updates_descriptor_static (Updates_new W) (Updates_clear W)"
  by (simp add: starts_by_table_def Updates_layout Updates_values snapshot_def default_value_def Updates_new_def Updates_clear_def)

lemma GetDevicesResponse_described: "described GetDevicesResponse_descriptor_static = Some frontend_GetDevicesResponse_schema"
  by (simp add: described_def GetDevicesResponse_descriptor_static_def frontend_decoded find_message_def frontend_schema_def frontend_schema_names)

lemma GetDevicesResponse_layout:
  "layout GetDevicesResponse_descriptor_static =
     [\<lparr>df_number = 1, df_oneof = None, df_kind = RepeatedField, df_type = ProtobufTypeMessage MT_Device\<rparr>]"
  unfolding layout_def GetDevicesResponse_described by (simp add: frontend_GetDevicesResponse_schema_def GetDevicesResponse_descriptor_static_def)

lemma GetDevicesResponse_values:
  "map (\<lambda>a. acc_value a m) (md_fields GetDevicesResponse_descriptor_static) =
     [Many (map V_Device (GetDevicesResponse_devices m))]"
  by (simp add: GetDevicesResponse_descriptor_static_def )

lemma GetDevicesResponse_reads: "reads_by_table W GetDevicesResponse_descriptor_static (GetDevicesResponse_merge_step W)"
proof (rule reads_by_tableI, goal_cases)
  case (1 "is" e m)
  then show ?case
    by (simp add: GetDevicesResponse_merge_step_def)
next
  case (2 m "is" n wt is')
  consider "n = 1" | "n \<noteq> 1"
    by blast
  then show ?case
    by cases (simp_all add: 2 GetDevicesResponse_merge_step_def GetDevicesResponse_layout GetDevicesResponse_values table_read)
qed

lemma GetDevicesResponse_merges: "merges_by_table W GetDevicesResponse_descriptor_static (GetDevicesResponse_merge_from W)"
  unfolding GetDevicesResponse_merge_from_def by (rule merges_by_tableI) (rule GetDevicesResponse_reads)

lemma GetDevicesResponse_writes: "writes_by_table W GetDevicesResponse_descriptor_static (GetDevicesResponse_write_to_with_cached_sizes W)"
  unfolding writes_by_table_def GetDevicesResponse_write_to_with_cached_sizes_def
  by (simp add: GetDevicesResponse_layout GetDevicesResponse_values table_write comp_def option.case_distrib split: option.split)

lemma GetDevicesResponse_sizes: "sizes_by_table W GetDevicesResponse_descriptor_static (GetDevicesResponse_compute_size W)"
  unfolding sizes_by_table_def GetDevicesResponse_compute_size_def
  by (simp add: GetDevicesResponse_layout GetDevicesResponse_values table_size option.case_distrib split: option.split)

lemma GetDevicesResponse_starts: "starts_by_table W GetDevicesResponse_descriptor_static (GetDevicesResponse_new W) (GetDevicesResponse_clear W)"
  by (simp add: starts_by_table_def GetDevicesResponse_layout GetDevicesResponse_values snapshot_def default_value_def GetDevicesResponse_new_def GetDevicesResponse_clear_def)

lemma NetCatStream_described: "described NetCatStream_descriptor_static = Some frontend_NetCatStream_schema"
  by (simp add: described_def NetCatStream_descriptor_static_def frontend_decoded find_message_def frontend_schema_def frontend_schema_names)

lemma NetCatStream_layout:
  "layout NetCatStream_descriptor_static =
     [\<lparr>df_number = 1, df_oneof = None, df_kind = RepeatedField, df_type = ProtobufTypeString\<rparr>]"
  unfolding layout_def NetCatStream_described by (simp add: frontend_NetCatStream_schema_def NetCatStream_descriptor_static_def)

lemma NetCatStream_values:
  "map (\<lambda>a. acc_value a m) (md_fields NetCatStream_descriptor_static) =
     [Many (map V_String (NetCatStream_result m))]"
  by (simp add: NetCatStream_descriptor_static_def )

lemma NetCatStream_reads: "reads_by_table W NetCatStream_descriptor_static (NetCatStream_merge_step W)"
proof (rule reads_by_tableI, goal_cases)
  case (1 "is" e m)
  then show ?case
    by (simp add: NetCatStream_merge_step_def)
next
  case (2 m "is" n wt is')
  consider "n = 1" | "n \<noteq> 1"
    by blast
  then show ?case
    by cases (simp_all add: 2 NetCatStream_merge_step_def NetCatStream_layout NetCatStream_values table_read)
qed

lemma NetCatStream_merges: "merges_by_table W NetCatStream_descriptor_static (NetCatStream_merge_from W)"
  unfolding NetCatStream_merge_from_def by (rule merges_by_tableI) (rule NetCatStream_reads)

lemma NetCatStream_writes: "writes_by_table W NetCatStream_descriptor_static (NetCatStream_write_to_with_cached_sizes W)"
  unfolding writes_by_table_def NetCatStream_write_to_with_cached_sizes_def
  by (simp add: NetCatStream_layout NetCatStream_values table_write comp_def option.case_distrib split: option.split)

lemma NetCatStream_sizes: "sizes_by_table W NetCatStream_descriptor_static (NetCatStream_compute_size W)"
  unfolding sizes_by_table_def NetCatStream_compute_size_def
  by (simp add: NetCatStream_layout NetCatStream_values table_size option.case_distrib split: option.split)

lemma NetCatStream_starts: "starts_by_table W NetCatStream_descriptor_static (NetCatStream_new W) (NetCatStream_clear W)"
  by (simp add: starts_by_table_def NetCatStream_layout NetCatStream_values snapshot_def default_value_def NetCatStream_new_def NetCatStream_clear_def)

lemma SetPacketCaptureRequest_described: "described SetPacketCaptureRequest_descriptor_static = Some frontend_SetPacketCaptureRequest_schema"
  by (simp add: described_def SetPacketCaptureRequest_descriptor_static_def frontend_decoded find_message_def frontend_schema_def frontend_schema_names)

lemma SetPacketCaptureRequest_layout:
  "layout SetPacketCaptureRequest_descriptor_static =
     [\<lparr>df_number = 1, df_oneof = None, df_kind = Simple, df_type = ProtobufTypeBool\<rparr>,
      \<lparr>df_number = 2, df_oneof = None, df_kind = Simple, df_type = ProtobufTypeString\<rparr>]"
  unfolding layout_def SetPacketCaptureRequest_described by (simp add: frontend_SetPacketCaptureRequest_schema_def SetPacketCaptureRequest_descriptor_static_def)

lemma SetPacketCaptureRequest_values:
  "map (\<lambda>a. acc_value a m) (md_fields SetPacketCaptureRequest_descriptor_static) =
     [One (V_Bool (SetPacketCaptureRequest_capture m)),
      One (V_String (SetPacketCaptureRequest_device_serial m))]"
  by (simp add: SetPacketCaptureRequest_descriptor_static_def )

lemma SetPacketCaptureRequest_reads: "reads_by_table W SetPacketCaptureRequest_descriptor_static (SetPacketCaptureRequest_merge_step W)"
proof (rule reads_by_tableI, goal_cases)
  case (1 "is" e m)
  then show ?case
    by (simp add: SetPacketCaptureRequest_merge_step_def)
next
  case (2 m "is" n wt is')
  consider "n = 1" | "n = 2" | "n \<noteq> 1 \<and> n \<noteq> 2"
    by blast
  then show ?case
    by cases (simp_all add: 2 SetPacketCaptureRequest_merge_step_def SetPacketCaptureRequest_layout SetPacketCaptureRequest_values table_read)
qed

lemma SetPacketCaptureRequest_merges: "merges_by_table W SetPacketCaptureRequest_descriptor_static (SetPacketCaptureRequest_merge_from W)"
  unfolding SetPacketCaptureRequest_merge_from_def by (rule merges_by_tableI) (rule SetPacketCaptureRequest_reads)

lemma SetPacketCaptureRequest_writes: "writes_by_table W SetPacketCaptureRequest_descriptor_static (SetPacketCaptureRequest_write_to_with_cached_sizes W)"
  unfolding writes_by_table_def SetPacketCaptureRequest_write_to_with_cached_sizes_def
  by (simp add: SetPacketCaptureRequest_layout SetPacketCaptureRequest_values table_write comp_def option.case_distrib split: option.split)

lemma SetPacketCaptureRequest_sizes: "sizes_by_table W SetPacketCaptureRequest_descriptor_static (SetPacketCaptureRequest_compute_size W)"
  unfolding sizes_by_table_def SetPacketCaptureRequest_compute_size_def
  by (simp add: SetPacketCaptureRequest_layout SetPacketCaptureRequest_values table_size option.case_distrib split: option.split)

lemma SetPacketCaptureRequest_starts: "starts_by_table W SetPacketCaptureRequest_descriptor_static (SetPacketCaptureRequest_new W) (SetPacketCaptureRequest_clear W)"
  by (simp add: starts_by_table_def SetPacketCaptureRequest_layout SetPacketCaptureRequest_values snapshot_def default_value_def SetPacketCaptureRequest_new_def SetPacketCaptureRequest_clear_def)

lemma StartupInfo_described: "described StartupInfo_descriptor_static = Some startup_StartupInfo_schema"
  by (simp add: described_def StartupInfo_descriptor_static_def startup_decoded find_message_def startup_schema_def startup_schema_names)

lemma StartupInfo_layout:
  "layout StartupInfo_descriptor_static =
     [\<lparr>df_number = 1, df_oneof = None, df_kind = RepeatedField, df_type = ProtobufTypeMessage MT_StartupInfo_Device\<rparr>]"
  unfolding layout_def StartupInfo_described by (simp add: startup_StartupInfo_schema_def StartupInfo_descriptor_static_def)

lemma StartupInfo_values:
  "map (\<lambda>a. acc_value a m) (md_fields StartupInfo_descriptor_static) =
     [Many (map V_StartupInfo_Device (StartupInfo_devices m))]"
  by (simp add: StartupInfo_descriptor_static_def )

lemma StartupInfo_reads: "reads_by_table W StartupInfo_descriptor_static (StartupInfo_merge_step W)"
proof (rule reads_by_tableI, goal_cases)
  case (1 "is" e m)
  then show ?case
    by (simp add: StartupInfo_merge_step_def)
next
  case (2 m "is" n wt is')
  consider "n = 1" | "n \<noteq> 1"
    by blast
  then show ?case
    by cases (simp_all add: 2 StartupInfo_merge_step_def StartupInfo_layout StartupInfo_values table_read)
qed

lemma StartupInfo_merges: "merges_by_table W StartupInfo_descriptor_static (StartupInfo_merge_from W)"
  unfolding StartupInfo_merge_from_def by (rule merges_by_tableI) (rule StartupInfo_reads)

lemma StartupInfo_writes: "writes_by_table W StartupInfo_descriptor_static (StartupInfo_write_to_with_cached_sizes W)"
  unfolding writes_by_table_def StartupInfo_write_to_with_cached_sizes_def
  by (simp add: StartupInfo_layout StartupInfo_values table_write comp_def option.case_distrib split: option.split)

lemma StartupInfo_sizes: "sizes_by_table W StartupInfo_descriptor_static (StartupInfo_compute_size W)"
  unfolding sizes_by_table_def StartupInfo_compute_size_def
  by (simp add: StartupInfo_layout StartupInfo_values table_size option.case_distrib split: option.split)

lemma StartupInfo_starts: "starts_by_table W StartupInfo_descriptor_static (StartupInfo_new W) (StartupInfo_clear W)"
  by (simp add: starts_by_table_def StartupInfo_layout StartupInfo_values snapshot_def default_value_def StartupInfo_new_def StartupInfo_clear_def)

lemma StartupInfo_Device_described: "described StartupInfo_Device_descriptor_static = Some startup_StartupInfo_Device_schema"
  by (simp add: described_def StartupInfo_Device_descriptor_static_def startup_decoded find_message_def startup_schema_def startup_schema_names)

lemma StartupInfo_Device_layout:
  "layout StartupInfo_Device_descriptor_static =
     [\<lparr>df_number = 1, df_oneof = None, df_kind = Simple, df_type = ProtobufTypeString\<rparr>,
      \<lparr>df_number = 2, df_oneof = None, df_kind = RepeatedField, df_type = ProtobufTypeMessage MT_Startup_Chip\<rparr>]"
  unfolding layout_def StartupInfo_Device_described by (simp add: startup_StartupInfo_Device_schema_def StartupInfo_Device_descriptor_static_def)

lemma StartupInfo_Device_values:
  "map (\<lambda>a. acc_value a m) (md_fields StartupInfo_Device_descriptor_static) =
     [One (V_String (StartupInfo_Device_serial m)),
      Many (map V_Startup_Chip (StartupInfo_Device_chips m))]"
  by (simp add: StartupInfo_Device_descriptor_static_def )

lemma StartupInfo_Device_reads: "reads_by_table W StartupInfo_Device_descriptor_static (StartupInfo_Device_merge_step W)"
proof (rule reads_by_tableI, goal_cases)
  case (1 "is" e m)
  then show ?case
    by (simp add: StartupInfo_Device_merge_step_def)
next
  case (2 m "is" n wt is')
  consider "n = 1" | "n = 2" | "n \<noteq> 1 \<and> n \<noteq> 2"
    by blast
  then show ?case
    by cases (simp_all add: 2 StartupInfo_Device_merge_step_def StartupInfo_Device_layout StartupInfo_Device_values table_read)
qed

lemma StartupInfo_Device_merges: "merges_by_table W StartupInfo_Device_descriptor_static (StartupInfo_Device_merge_from W)"
  unfolding StartupInfo_Device_merge_from_def by (rule merges_by_tableI) (rule StartupInfo_Device_reads)

lemma StartupInfo_Device_writes: "writes_by_table W StartupInfo_Device_descriptor_static (StartupInfo_Device_write_to_with_cached_sizes W)"
  unfolding writes_by_table_def StartupInfo_Device_write_to_with_cached_sizes_def
  by (simp add: StartupInfo_Device_layout StartupInfo_Device_values table_write comp_def option.case_distrib split: option.split)

lemma StartupInfo_Device_sizes: "sizes_by_table W StartupInfo_Device_descriptor_static (StartupInfo_Device_compute_size W)"
  unfolding sizes_by_table_def StartupInfo_Device_compute_size_def
  by (simp add: StartupInfo_Device_layout StartupInfo_Device_values table_size option.case_distrib split: option.split)

lemma StartupInfo_Device_starts: "starts_by_table W StartupInfo_Device_descriptor_static (StartupInfo_Device_new W) (StartupInfo_Device_clear W)"
  by (simp add: starts_by_table_def StartupInfo_Device_layout StartupInfo_Device_values snapshot_def default_value_def StartupInfo_Device_new_def StartupInfo_Device_clear_def)

lemma ChipInfo_described: "described ChipInfo_descriptor_static = Some startup_ChipInfo_schema"
  by (simp add: described_def ChipInfo_descriptor_static_def startup_decoded find_message_def startup_schema_def startup_schema_names)

lemma ChipInfo_layout:
  "layout ChipInfo_descriptor_static =
     [\<lparr>df_number = 1, df_oneof = None, df_kind = Simple, df_type = ProtobufTypeString\<rparr>,
      \<lparr>df_number = 2, df_oneof = None, df_kind = SingularPtr, df_type = ProtobufTypeMessage MT_Startup_Chip\<rparr>]"
  unfolding layout_def ChipInfo_described by (simp add: startup_ChipInfo_schema_def ChipInfo_descriptor_static_def)

lemma ChipInfo_values:
  "map (\<lambda>a. acc_value a m) (md_fields ChipInfo_descriptor_static) =
     [One (V_String (ChipInfo_serial m)),
      Maybe (map_option V_Startup_Chip (ChipInfo_chip m))]"
  by (simp add: ChipInfo_descriptor_static_def )

lemma ChipInfo_reads: "reads_by_table W ChipInfo_descriptor_static (ChipInfo_merge_step W)"
proof (rule reads_by_tableI, goal_cases)
  case (1 "is" e m)
  then show ?case
    by (simp add: ChipInfo_merge_step_def)
next
  case (2 m "is" n wt is')
  consider "n = 1" | "n = 2" | "n \<noteq> 1 \<and> n \<noteq> 2"
    by blast
  then show ?case
    by cases (simp_all add: 2 ChipInfo_merge_step_def ChipInfo_layout ChipInfo_values table_read)
qed

lemma ChipInfo_merges: "merges_by_table W ChipInfo_descriptor_static (ChipInfo_merge_from W)"
  unfolding ChipInfo_merge_from_def by (rule merges_by_tableI) (rule ChipInfo_reads)

lemma ChipInfo_writes: "writes_by_table W ChipInfo_descriptor_static (ChipInfo_write_to_with_cached_sizes W)"
  unfolding writes_by_table_def ChipInfo_write_to_with_cached_sizes_def
  by (simp add: ChipInfo_layout ChipInfo_values table_write comp_def option.case_distrib split: option.split)

lemma ChipInfo_sizes: "sizes_by_table W ChipInfo_descriptor_static (ChipInfo_compute_size W)"
  unfolding sizes_by_table_def ChipInfo_compute_size_def
  by (simp add: ChipInfo_layout ChipInfo_values table_size option.case_distrib split: option.split)

lemma ChipInfo_starts: "starts_by_table W ChipInfo_descriptor_static (ChipInfo_new W) (ChipInfo_clear W)"
  by (simp add: starts_by_table_def ChipInfo_layout ChipInfo_values snapshot_def default_value_def ChipInfo_new_def ChipInfo_clear_def)

lemma Startup_Chip_described: "described Startup_Chip_descriptor_static = Some startup_Chip_schema"
  by (simp add: described_def Startup_Chip_descriptor_static_def startup_decoded find_message_def startup_schema_def startup_schema_names)

lemma Startup_Chip_layout:
  "layout Startup_Chip_descriptor_static =
     [\<lparr>df_number = 1, df_oneof = None, df_kind = Simple, df_type = ProtobufTypeEnum ET_Chip_ChipKind\<rparr>,
      \<lparr>df_number = 2, df_oneof = None, df_kind = Simple, df_type = ProtobufTypeString\<rparr>,
      \<lparr>df_number = 3, df_oneof = None, df_kind = Simple, df_type = ProtobufTypeString\<rparr>,
      \<lparr>df_number = 4, df_oneof = None, df_kind = Simple, df_type = ProtobufTypeString\<rparr>,
      \<lparr>df_number = 5, df_oneof = None, df_kind = Simple, df_type = ProtobufTypeInt32\<rparr>,
      \<lparr>df_number = 6, df_oneof = None, df_kind = Simple, df_type = ProtobufTypeInt32\<rparr>,
      \<lparr>df_number = 7, df_oneof = None, df_kind = Simple, df_type = ProtobufTypeBool\<rparr>]"
  unfolding layout_def Startup_Chip_described by (simp add: startup_Chip_schema_def Startup_Chip_descriptor_static_def)

lemma Startup_Chip_values:
  "map (\<lambda>a. acc_value a m) (md_fields Startup_Chip_descriptor_static) =
     [One (V_Enum (Chip_ChipKind_value (Startup_Chip_kind m))),
      One (V_String (Startup_Chip_id m)),
      One (V_String (Startup_Chip_manufacturer m)),
      One (V_String (Startup_Chip_model m)),
      One (V_Int32 (Startup_Chip_fd_in m)),
      One (V_Int32 (Startup_Chip_fd_out m)),
      One (V_Bool (Startup_Chip_loopback m))]"
  by (simp add: Startup_Chip_descriptor_static_def )

lemma Startup_Chip_reads: "reads_by_table W Startup_Chip_descriptor_static (Startup_Chip_merge_step W)"
proof (rule reads_by_tableI, goal_cases)
  case (1 "is" e m)
  then show ?case
    by (simp add: Startup_Chip_merge_step_def)
next
  case (2 m "is" n wt is')
  consider "n = 1" | "n = 2" | "n = 3" | "n = 4" | "n = 5" | "n = 6" | "n = 7" | "n \<noteq> 1 \<and> n \<noteq> 2 \<and> n \<noteq> 3 \<and> n \<noteq> 4 \<and> n \<noteq> 5 \<and> n \<noteq> 6 \<and> n \<noteq> 7"
    by blast
  then show ?case
    by cases (simp_all add: 2 Startup_Chip_merge_step_def Startup_Chip_layout Startup_Chip_values table_read)
qed

lemma Startup_Chip_merges: "merges_by_table W Startup_Chip_descriptor_static (Startup_Chip_merge_from W)"
  unfolding Startup_Chip_merge_from_def by (rule merges_by_tableI) (rule Startup_Chip_reads)

lemma Startup_Chip_writes: "writes_by_table W Startup_Chip_descriptor_static (Startup_Chip_write_to_with_cached_sizes W)"
  unfolding writes_by_table_def Startup_Chip_write_to_with_cached_sizes_def
  by (simp add: Startup_Chip_layout Startup_Chip_values table_write comp_def option.case_distrib split: option.split)

lemma Startup_Chip_sizes: "sizes_by_table W Startup_Chip_descriptor_static (Startup_Chip_compute_size W)"
  unfolding sizes_by_table_def Startup_Chip_compute_size_def
  by (simp add: Startup_Chip_layout Startup_Chip_values table_size option.case_distrib split: option.split)

lemma Startup_Chip_starts: "starts_by_table W Startup_Chip_descriptor_static (Startup_Chip_new W) (Startup_Chip_clear W)"
  by (simp add: starts_by_table_def Startup_Chip_layout Startup_Chip_values snapshot_def default_value_def Startup_Chip_new_def Startup_Chip_clear_def)

lemma HCIPacket_described: "described HCIPacket_descriptor_static = Some hci_packet_HCIPacket_schema"
  by (simp add: described_def HCIPacket_descriptor_static_def hci_packet_decoded find_message_def hci_packet_schema_def hci_packet_schema_names)

lemma HCIPacket_layout:
  "layout HCIPacket_descriptor_static =
     [\<lparr>df_number = 1, df_oneof = None, df_kind = Simple, df_type = ProtobufTypeEnum ET_HCIPacket_PacketType\<rparr>,
      \<lparr>df_number = 2, df_oneof = None, df_kind = Simple, df_type = ProtobufTypeBytes\<rparr>]"
  unfolding layout_def HCIPacket_described by (simp add: hci_packet_HCIPacket_schema_def HCIPacket_descriptor_static_def)

lemma HCIPacket_values:
  "map (\<lambda>a. acc_value a m) (md_fields HCIPacket_descriptor_static) =
     [One (V_Enum (HCIPacket_PacketType_value (HCIPacket_field_type m))),
      One (V_Bytes (HCIPacket_packet m))]"
  by (simp add: HCIPacket_descriptor_static_def )

lemma HCIPacket_reads: "reads_by_table W HCIPacket_descriptor_static (HCIPacket_merge_step W)"
proof (rule reads_by_tableI, goal_cases)
  case (1 "is" e m)
  then show ?case
    by (simp add: HCIPacket_merge_step_def)
next
  case (2 m "is" n wt is')
  consider "n = 1" | "n = 2" | "n \<noteq> 1 \<and> n \<noteq> 2"
    by blast
  then show ?case
    by cases (simp_all add: 2 HCIPacket_merge_step_def HCIPacket_layout HCIPacket_values table_read)
qed

lemma HCIPacket_merges: "merges_by_table W HCIPacket_descriptor_static (HCIPacket_merge_from W)"
  unfolding HCIPacket_merge_from_def by (rule merges_by_tableI) (rule HCIPacket_reads)

lemma HCIPacket_writes: "writes_by_table W HCIPacket_descriptor_static (HCIPacket_write_to_with_cached_sizes W)"
  unfolding writes_by_table_def HCIPacket_write_to_with_cached_sizes_def
  by (simp add: HCIPacket_layout HCIPacket_values table_write comp_def option.case_distrib split: option.split)

lemma HCIPacket_sizes: "sizes_by_table W HCIPacket_descriptor_static (HCIPacket_compute_size W)"
  unfolding sizes_by_table_def HCIPacket_compute_size_def
  by (simp add: HCIPacket_layout HCIPacket_values table_size option.case_distrib split: option.split)

lemma HCIPacket_starts: "starts_by_table W HCIPacket_descriptor_static (HCIPacket_new W) (HCIPacket_clear W)"
  by (simp add: starts_by_table_def HCIPacket_layout HCIPacket_values snapshot_def default_value_def HCIPacket_new_def HCIPacket_clear_def)

lemma StreamPacketsRequest_described: "described (StreamPacketsRequest_descriptor_static W) = Some packet_streamer_StreamPacketsRequest_schema"
  by (simp add: described_def StreamPacketsRequest_descriptor_static_def packet_streamer_decoded find_message_def packet_streamer_schema_def packet_streamer_schema_names)

lemma StreamPacketsRequest_layout:
  "layout (StreamPacketsRequest_descriptor_static W) =
     [\<lparr>df_number = 1, df_oneof = Some ''request_type'', df_kind = Present, df_type = ProtobufTypeMessage MT_ChipInfo\<rparr>,
      \<lparr>df_number = 2, df_oneof = Some ''request_type'', df_kind = Present, df_type = ProtobufTypeMessage MT_HCIPacket\<rparr>,
      \<lparr>df_number = 3, df_oneof = Some ''request_type'', df_kind = Present, df_type = ProtobufTypeBytes\<rparr>]"
  unfolding layout_def StreamPacketsRequest_described by (simp add: packet_streamer_StreamPacketsRequest_schema_def StreamPacketsRequest_descriptor_static_def)

lemma StreamPacketsRequest_values:
  "map (\<lambda>a. acc_value a m) (md_fields (StreamPacketsRequest_descriptor_static W)) =
     [Maybe (case StreamPacketsRequest_request_type m of Some (StreamPacketsRequest_oneof_request_type_initial_info v) \<Rightarrow> Some (V_ChipInfo v) | _ \<Rightarrow> None),
      Maybe (case StreamPacketsRequest_request_type m of Some (StreamPacketsRequest_oneof_request_type_hci_packet v) \<Rightarrow> Some (V_HCIPacket v) | _ \<Rightarrow> None),
      Maybe (case StreamPacketsRequest_request_type m of Some (StreamPacketsRequest_oneof_request_type_packet v) \<Rightarrow> Some (V_Bytes v) | _ \<Rightarrow> None)]"
  by (simp add: StreamPacketsRequest_descriptor_static_def StreamPacketsRequest_has_initial_info_def StreamPacketsRequest_get_initial_info_def StreamPacketsRequest_has_hci_packet_def StreamPacketsRequest_get_hci_packet_def StreamPacketsRequest_has_packet_def StreamPacketsRequest_get_packet_def split: option.split StreamPacketsRequest_oneof_request_type.split)

lemma StreamPacketsRequest_reads: "reads_by_table W (StreamPacketsRequest_descriptor_static W) (StreamPacketsRequest_merge_step W)"
proof (rule reads_by_tableI, goal_cases)
  case (1 "is" e m)
  then show ?case
    by (simp add: StreamPacketsRequest_merge_step_def)
next
  case (2 m "is" n wt is')
  consider "n = 1" | "n = 2" | "n = 3" | "n \<noteq> 1 \<and> n \<noteq> 2 \<and> n \<noteq> 3"
    by blast
  then show ?case
    by cases (simp_all add: 2 StreamPacketsRequest_merge_step_def StreamPacketsRequest_layout StreamPacketsRequest_values table_read)
qed

lemma StreamPacketsRequest_merges: "merges_by_table W (StreamPacketsRequest_descriptor_static W) (StreamPacketsRequest_merge_from W)"
  unfolding StreamPacketsRequest_merge_from_def by (rule merges_by_tableI) (rule StreamPacketsRequest_reads)

lemma StreamPacketsRequest_writes: "writes_by_table W (StreamPacketsRequest_descriptor_static W) (StreamPacketsRequest_write_to_with_cached_sizes W)"
  unfolding writes_by_table_def StreamPacketsRequest_write_to_with_cached_sizes_def
  by (simp add: StreamPacketsRequest_layout StreamPacketsRequest_values table_write comp_def option.case_distrib split: option.split StreamPacketsRequest_oneof_request_type.split)

lemma StreamPacketsRequest_sizes: "sizes_by_table W (StreamPacketsRequest_descriptor_static W) (StreamPacketsRequest_compute_size W)"
  unfolding sizes_by_table_def StreamPacketsRequest_compute_size_def
  by (simp add: StreamPacketsRequest_layout StreamPacketsRequest_values table_size option.case_distrib split: option.split StreamPacketsRequest_oneof_request_type.split)

lemma StreamPacketsRequest_starts: "starts_by_table W (StreamPacketsRequest_descriptor_static W) (StreamPacketsRequest_new W) (StreamPacketsRequest_clear W)"
  by (simp add: starts_by_table_def StreamPacketsRequest_layout StreamPacketsRequest_values snapshot_def default_value_def StreamPacketsRequest_new_def StreamPacketsRequest_clear_def)

lemma StreamPacketsResponse_described: "described (StreamPacketsResponse_descriptor_static W) = Some packet_streamer_StreamPacketsResponse_schema"
  by (simp add: described_def StreamPacketsResponse_descriptor_static_def packet_streamer_decoded find_message_def packet_streamer_schema_def packet_streamer_schema_names)

lemma StreamPacketsResponse_layout:
  "layout (StreamPacketsResponse_descriptor_static W) =
     [\<lparr>df_number = 1, df_oneof = Some ''response_type'', df_kind = Present, df_type = ProtobufTypeString\<rparr>,
      \<lparr>df_number = 2, df_oneof = Some ''response_type'', df_kind = Present, df_type = ProtobufTypeMessage MT_HCIPacket\<rparr>,
      \<lparr>df_number = 3, df_oneof = Some ''response_type'', df_kind = Present, df_type = ProtobufTypeBytes\<rparr>]"
  unfolding layout_def StreamPacketsResponse_described by (simp add: packet_streamer_StreamPacketsResponse_schema_def StreamPacketsResponse_descriptor_static_def)

lemma StreamPacketsResponse_values:
  "map (\<lambda>a. acc_value a m) (md_fields (StreamPacketsResponse_descriptor_static W)) =
     [Maybe (case StreamPacketsResponse_response_type m of Some (StreamPacketsResponse_oneof_response_type_error v) \<Rightarrow> Some (V_String v) | _ \<Rightarrow> None),
      Maybe (case StreamPacketsResponse_response_type m of Some (StreamPacketsResponse_oneof_response_type_hci_packet v) \<Rightarrow> Some (V_HCIPacket v) | _ \<Rightarrow> None),
      Maybe (case StreamPacketsResponse_response_type m of Some (StreamPacketsResponse_oneof_response_type_packet v) \<Rightarrow> Some (V_Bytes v) | _ \<Rightarrow> None)]"
  by (simp add: StreamPacketsResponse_descriptor_static_def StreamPacketsResponse_has_error_def StreamPacketsResponse_get_error_def StreamPacketsResponse_has_hci_packet_def StreamPacketsResponse_get_hci_packet_def StreamPacketsResponse_has_packet_def StreamPacketsResponse_get_packet_def split: option.split StreamPacketsResponse_oneof_response_type.split)

lemma StreamPacketsResponse_reads: "reads_by_table W (StreamPacketsResponse_descriptor_static W) (StreamPacketsResponse_merge_step W)"
proof (rule reads_by_tableI, goal_cases)
  case (1 "is" e m)
  then show ?case
    by (simp add: StreamPacketsResponse_merge_step_def)
next
  case (2 m "is" n wt is')
  consider "n = 1" | "n = 2" | "n = 3" | "n \<noteq> 1 \<and> n \<noteq> 2 \<and> n \<noteq> 3"
    by blast
  then show ?case
    by cases (simp_all add: 2 StreamPacketsResponse_merge_step_def StreamPacketsResponse_layout StreamPacketsResponse_values table_read)
qed

lemma StreamPacketsResponse_merges: "merges_by_table W (StreamPacketsResponse_descriptor_static W) (StreamPacketsResponse_merge_from W)"
  unfolding StreamPacketsResponse_merge_from_def by (rule merges_by_tableI) (rule StreamPacketsResponse_reads)

lemma StreamPacketsResponse_writes: "writes_by_table W (StreamPacketsResponse_descriptor_static W) (StreamPacketsResponse_write_to_with_cached_sizes W)"
  unfolding writes_by_table_def StreamPacketsResponse_write_to_with_cached_sizes_def
  by (simp add: StreamPacketsResponse_layout StreamPacketsResponse_values table_write comp_def option.case_distrib split: option.split StreamPacketsResponse_oneof_response_type.split)

lemma StreamPacketsResponse_sizes: "sizes_by_table W (StreamPacketsResponse_descriptor_static W) (StreamPacketsResponse_compute_size W)"
  unfolding sizes_by_table_def StreamPacketsResponse_compute_size_def
  by (simp add: StreamPacketsResponse_layout StreamPacketsResponse_values table_size option.case_distrib split: option.split StreamPacketsResponse_oneof_response_type.split)

lemma StreamPacketsResponse_starts: "starts_by_table W (StreamPacketsResponse_descriptor_static W) (StreamPacketsResponse_new W) (StreamPacketsResponse_clear W)"
  by (simp add: starts_by_table_def StreamPacketsResponse_layout StreamPacketsResponse_values snapshot_def default_value_def StreamPacketsResponse_new_def StreamPacketsResponse_clear_def)

end
