(* ===== verification/Table_Properties.thy ===== *)
theory Table_Properties
  imports Pb_Dynamic Pb_Wire
begin

text \<open>
  What holds of the reflection tables of all messages: they say what the descriptions in the
  files say, and the generated code reads, writes and starts as the tables do. The statements
  have one line for each of the 21 messages.
\<close>

section \<open>Storing through a table\<close>

text \<open>The values of a type.\<close>

definition fits_message :: "message_type \<Rightarrow> 'u pb_value \<Rightarrow> bool" where
  "fits_message t v =
     (case t of
        MT_Position \<Rightarrow> to_Position v \<noteq> None
      | MT_Orientation \<Rightarrow> to_Orientation v \<noteq> None
      | MT_Chip \<Rightarrow> to_Chip v \<noteq> None
      | MT_Chip_Radio \<Rightarrow> to_Chip_Radio v \<noteq> None
      | MT_Chip_Bluetooth \<Rightarrow> to_Chip_Bluetooth v \<noteq> None
      | MT_Device \<Rightarrow> to_Device v \<noteq> None
      | MT_StartupInfo_Device \<Rightarrow> to_StartupInfo_Device v \<noteq> None
      | MT_ChipInfo \<Rightarrow> to_ChipInfo v \<noteq> None
      | MT_Startup_Chip \<Rightarrow> to_Startup_Chip v \<noteq> None
      | MT_HCIPacket \<Rightarrow> to_HCIPacket v \<noteq> None)"

definition fits :: "pb_type \<Rightarrow> 'u pb_value \<Rightarrow> bool" where
  "fits ty v =
     (case ty of
        ProtobufTypeFloat \<Rightarrow> to_Float v \<noteq> None
      | ProtobufTypeInt32 \<Rightarrow> to_Int32 v \<noteq> None
      | ProtobufTypeBool \<Rightarrow> to_Bool v \<noteq> None
      | ProtobufTypeString \<Rightarrow> to_String v \<noteq> None
      | ProtobufTypeBytes \<Rightarrow> to_Bytes v \<noteq> None
      | ProtobufTypeEnum e \<Rightarrow> (case v of V_Enum i \<Rightarrow> enum_known e i | _ \<Rightarrow> False)
      | ProtobufTypeMessage t \<Rightarrow> fits_message t v)"

fun storable :: "('u, 'm) field_accessor \<Rightarrow> 'u field_value \<Rightarrow> bool" where
  "storable (make_simple_field_accessor t n g p) (One v) = fits t v"
| "storable (make_singular_ptr_field_accessor t n g' p') (Maybe v) = pred_option (fits t) v"
| "storable (make_repeated_field_accessor t n g'' p'') (Many vs) = list_all (fits t) vs"
| "storable a v = False"

definition stores_by_table :: "('u, ('u, 'z) pb_special_scheme) message_descriptor \<Rightarrow> bool" where
  "stores_by_table D \<longleftrightarrow>
     (\<forall>i < length (md_fields D). \<forall>v m. storable (md_fields D ! i) v \<longrightarrow>
        snapshot D (acc_store (md_fields D ! i) v m) = ((fst (snapshot D m))[i := v], unknown_fields m))"


lemma fits_iff [simp]:
  "fits ProtobufTypeFloat = (\<lambda>v. \<exists>x. v = V_Float x)"
  "fits ProtobufTypeInt32 = (\<lambda>v. \<exists>x. v = V_Int32 x)"
  "fits ProtobufTypeBool = (\<lambda>v. \<exists>x. v = V_Bool x)"
  "fits ProtobufTypeString = (\<lambda>v. \<exists>x. v = V_String x)"
  "fits ProtobufTypeBytes = (\<lambda>v. \<exists>x. v = V_Bytes x)"
  "fits (ProtobufTypeMessage MT_Position) = (\<lambda>v. \<exists>x. v = V_Position x)"
  "fits (ProtobufTypeMessage MT_Orientation) = (\<lambda>v. \<exists>x. v = V_Orientation x)"
  "fits (ProtobufTypeMessage MT_Chip) = (\<lambda>v. \<exists>x. v = V_Chip x)"
  "fits (ProtobufTypeMessage MT_Chip_Radio) = (\<lambda>v. \<exists>x. v = V_Chip_Radio x)"
  "fits (ProtobufTypeMessage MT_Chip_Bluetooth) = (\<lambda>v. \<exists>x. v = V_Chip_Bluetooth x)"
  "fits (ProtobufTypeMessage MT_Device) = (\<lambda>v. \<exists>x. v = V_Device x)"
  "fits (ProtobufTypeMessage MT_StartupInfo_Device) = (\<lambda>v. \<exists>x. v = V_StartupInfo_Device x)"
  "fits (ProtobufTypeMessage MT_ChipInfo) = (\<lambda>v. \<exists>x. v = V_ChipInfo x)"
  "fits (ProtobufTypeMessage MT_Startup_Chip) = (\<lambda>v. \<exists>x. v = V_Startup_Chip x)"
  "fits (ProtobufTypeMessage MT_HCIPacket) = (\<lambda>v. \<exists>x. v = V_HCIPacket x)"
  "fits (ProtobufTypeEnum ET_PhyKind) = (\<lambda>v. \<exists>x. v = V_Enum (PhyKind_value x))"
  "fits (ProtobufTypeEnum ET_State) = (\<lambda>v. \<exists>x. v = V_Enum (State_value x))"
  "fits (ProtobufTypeEnum ET_Chip_ChipKind) = (\<lambda>v. \<exists>x. v = V_Enum (Chip_ChipKind_value x))"
  "fits (ProtobufTypeEnum ET_HCIPacket_PacketType) = (\<lambda>v. \<exists>x. v = V_Enum (HCIPacket_PacketType_value x))"
  by (rule ext, case_tac v; force simp: fits_def fits_message_def to_Float_def to_Int32_def to_Bool_def to_String_def to_Bytes_def to_Position_def to_Orientation_def to_Chip_def to_Chip_Radio_def to_Chip_Bluetooth_def to_Device_def to_StartupInfo_Device_def to_ChipInfo_def to_Startup_Chip_def to_HCIPacket_def
    dest: PhyKind_value_from [symmetric] State_value_from [symmetric] Chip_ChipKind_value_from [symmetric] HCIPacket_PacketType_value_from [symmetric])+

lemma pred_option_wrapped: "pred_option (\<lambda>v. \<exists>x. v = f x) w \<longleftrightarrow> (\<exists>y. w = map_option f y)"
  by (cases w) (auto simp: eq_commute [of "Some _"])

lemma list_all_wrapped: "list_all (\<lambda>v. \<exists>x. v = f x) vs \<longleftrightarrow> (\<exists>xs. vs = map f xs)"
  by (induction vs) (auto simp: Cons_eq_map_conv)

lemma traverse_map: "(\<And>x. p (f x) = Some x) \<Longrightarrow> traverse p (map f xs) = Some xs"
  by (induction xs) simp_all

lemma to_option_map: "(\<And>x. p (f x) = Some x) \<Longrightarrow> to_option p (map_option f y) = Some y"
  by (cases y) (simp_all add: to_option_def)

lemma storable_iff:
  "storable (make_simple_field_accessor t n g p) v \<longleftrightarrow> (\<exists>x. v = One x \<and> fits t x)"
  "storable (make_singular_ptr_field_accessor t n g' p') v \<longleftrightarrow> (\<exists>x. v = Maybe x \<and> pred_option (fits t) x)"
  "storable (make_repeated_field_accessor t n g'' p'') v \<longleftrightarrow> (\<exists>x. v = Many x \<and> list_all (fits t) x)"
  "\<not> storable (make_singular_message_accessor mt n h g) v"
  "\<not> storable (make_singular_string_accessor n h g) v"
  "\<not> storable (make_singular_bytes_accessor n h g) v"
  by (cases v; simp)+

lemmas table_store = snapshot_def storable_iff pred_option_wrapped list_all_wrapped traverse_map to_option_map
  borrow_def less_Suc_eq all_conj_distrib


lemma Position_stores: "stores_by_table Position_descriptor_static"
  unfolding stores_by_table_def Position_descriptor_static_def
  by (auto simp: table_store )

lemma Orientation_stores: "stores_by_table Orientation_descriptor_static"
  unfolding stores_by_table_def Orientation_descriptor_static_def
  by (auto simp: table_store )

lemma Chip_stores: "stores_by_table (Chip_descriptor_static W)"
  unfolding stores_by_table_def Chip_descriptor_static_def
  by (auto simp: table_store Chip_has_bt_def Chip_get_bt_def Chip_has_uwb_def Chip_get_uwb_def Chip_has_wifi_def Chip_get_wifi_def)

lemma Chip_Radio_stores: "stores_by_table Chip_Radio_descriptor_static"
  unfolding stores_by_table_def Chip_Radio_descriptor_static_def
  by (auto simp: table_store )

lemma Chip_Bluetooth_stores: "stores_by_table Chip_Bluetooth_descriptor_static"
  unfolding stores_by_table_def Chip_Bluetooth_descriptor_static_def
  by (auto simp: table_store )

lemma Device_stores: "stores_by_table Device_descriptor_static"
  unfolding stores_by_table_def Device_descriptor_static_def
  by (auto simp: table_store )

lemma Scene_stores: "stores_by_table Scene_descriptor_static"
  unfolding stores_by_table_def Scene_descriptor_static_def
  by (auto simp: table_store )

lemma VersionResponse_stores: "stores_by_table VersionResponse_descriptor_static"
  unfolding stores_by_table_def VersionResponse_descriptor_static_def
  by (auto simp: table_store )

lemma SetLinkLossRequest_stores: "stores_by_table SetLinkLossRequest_descriptor_static"
  unfolding stores_by_table_def SetLinkLossRequest_descriptor_static_def
  by (auto simp: table_store )

lemma UpdateDeviceRequest_stores: "stores_by_table UpdateDeviceRequest_descriptor_static"
  unfolding stores_by_table_def UpdateDeviceRequest_descriptor_static_def
  by (auto simp: table_store )

lemma Updates_stores: "stores_by_table Updates_descriptor_static"
  unfolding stores_by_table_def Updates_descriptor_static_def
  by (auto simp: table_store )

lemma GetDevicesResponse_stores: "stores_by_table GetDevicesResponse_descriptor_static"
  unfolding stores_by_table_def GetDevicesResponse_descriptor_static_def
  by (auto simp: table_store )

lemma NetCatStream_stores: "stores_by_table NetCatStream_descriptor_static"
  unfolding stores_by_table_def NetCatStream_descriptor_static_def
  by (auto simp: table_store )

lemma SetPacketCaptureRequest_stores: "stores_by_table SetPacketCaptureRequest_descriptor_static"
  unfolding stores_by_table_def SetPacketCaptureRequest_descriptor_static_def
  by (auto simp: table_store )

lemma StartupInfo_stores: "stores_by_table StartupInfo_descriptor_static"
  unfolding stores_by_table_def StartupInfo_descriptor_static_def
  by (auto simp: table_store )

lemma StartupInfo_Device_stores: "stores_by_table StartupInfo_Device_descriptor_static"
  unfolding stores_by_table_def StartupInfo_Device_descriptor_static_def
  by (auto simp: table_store )

lemma ChipInfo_stores: "stores_by_table ChipInfo_descriptor_static"
  unfolding stores_by_table_def ChipInfo_descriptor_static_def
  by (auto simp: table_store )

lemma Startup_Chip_stores: "stores_by_table Startup_Chip_descriptor_static"
  unfolding stores_by_table_def Startup_Chip_descriptor_static_def
  by (auto simp: table_store )

lemma HCIPacket_stores: "stores_by_table HCIPacket_descriptor_static"
  unfolding stores_by_table_def HCIPacket_descriptor_static_def
  by (auto simp: table_store )

lemma StreamPacketsRequest_stores: "stores_by_table (StreamPacketsRequest_descriptor_static W)"
  unfolding stores_by_table_def StreamPacketsRequest_descriptor_static_def
  by (auto simp: table_store StreamPacketsRequest_has_initial_info_def StreamPacketsRequest_get_initial_info_def StreamPacketsRequest_has_hci_packet_def StreamPacketsRequest_get_hci_packet_def StreamPacketsRequest_has_packet_def StreamPacketsRequest_get_packet_def)

lemma StreamPacketsResponse_stores: "stores_by_table (StreamPacketsResponse_descriptor_static W)"
  unfolding stores_by_table_def StreamPacketsResponse_descriptor_static_def
  by (auto simp: table_store StreamPacketsResponse_has_error_def StreamPacketsResponse_get_error_def StreamPacketsResponse_has_hci_packet_def StreamPacketsResponse_get_hci_packet_def StreamPacketsResponse_has_packet_def StreamPacketsResponse_get_packet_def)

section \<open>Tables and files\<close>

lemma message_names:
  "message_name W MT_Position = ''.netsim.model.Position''"
  "message_name W MT_Orientation = ''.netsim.model.Orientation''"
  "message_name W MT_Chip = ''.netsim.model.Chip''"
  "message_name W MT_Chip_Radio = ''.netsim.model.Chip.Radio''"
  "message_name W MT_Chip_Bluetooth = ''.netsim.model.Chip.Bluetooth''"
  "message_name W MT_Device = ''.netsim.model.Device''"
  "message_name W MT_StartupInfo_Device = ''.netsim.startup.StartupInfo.Device''"
  "message_name W MT_ChipInfo = ''.netsim.startup.ChipInfo''"
  "message_name W MT_Startup_Chip = ''.netsim.startup.Chip''"
  "message_name W MT_HCIPacket = ''.netsim.packet.HCIPacket''"
  by (simp_all add: message_name_def full_name_def Position_descriptor_static_def Orientation_descriptor_static_def Chip_descriptor_static_def Chip_Radio_descriptor_static_def Chip_Bluetooth_descriptor_static_def Device_descriptor_static_def StartupInfo_Device_descriptor_static_def ChipInfo_descriptor_static_def Startup_Chip_descriptor_static_def HCIPacket_descriptor_static_def model_decoded model_schema_def frontend_decoded frontend_schema_def startup_decoded startup_schema_def hci_packet_decoded hci_packet_schema_def packet_streamer_decoded packet_streamer_schema_def)

lemma enum_names:
  "enum_name ET_PhyKind = ''.netsim.model.PhyKind''"
  "enum_name ET_State = ''.netsim.model.State''"
  "enum_name ET_Chip_ChipKind = ''.netsim.startup.Chip.ChipKind''"
  "enum_name ET_HCIPacket_PacketType = ''.netsim.packet.HCIPacket.PacketType''"
  by (simp_all add: enum_name_def enum_full_name_def PhyKind_descriptor_static_def State_descriptor_static_def Chip_ChipKind_descriptor_static_def HCIPacket_PacketType_descriptor_static_def model_decoded model_schema_def frontend_decoded frontend_schema_def startup_decoded startup_schema_def hci_packet_decoded hci_packet_schema_def packet_streamer_decoded packet_streamer_schema_def)

lemma Position_matches: "table_matches W Position_descriptor_static"
  unfolding table_matches_def Position_described
  by (simp add: model_Position_schema_def Position_descriptor_static_def schema_kind_def message_names enum_names)

lemma Orientation_matches: "table_matches W Orientation_descriptor_static"
  unfolding table_matches_def Orientation_described
  by (simp add: model_Orientation_schema_def Orientation_descriptor_static_def schema_kind_def message_names enum_names)

lemma Chip_matches: "table_matches W (Chip_descriptor_static W)"
  unfolding table_matches_def Chip_described
  by (simp add: model_Chip_schema_def Chip_descriptor_static_def schema_kind_def message_names enum_names)

lemma Chip_Radio_matches: "table_matches W Chip_Radio_descriptor_static"
  unfolding table_matches_def Chip_Radio_described
  by (simp add: model_Chip_Radio_schema_def Chip_Radio_descriptor_static_def schema_kind_def message_names enum_names)

lemma Chip_Bluetooth_matches: "table_matches W Chip_Bluetooth_descriptor_static"
  unfolding table_matches_def Chip_Bluetooth_described
  by (simp add: model_Chip_Bluetooth_schema_def Chip_Bluetooth_descriptor_static_def schema_kind_def message_names enum_names)

lemma Device_matches: "table_matches W Device_descriptor_static"
  unfolding table_matches_def Device_described
  by (simp add: model_Device_schema_def Device_descriptor_static_def schema_kind_def message_names enum_names)

lemma Scene_matches: "table_matches W Scene_descriptor_static"
  unfolding table_matches_def Scene_described
  by (simp add: model_Scene_schema_def Scene_descriptor_static_def schema_kind_def message_names enum_names)

lemma VersionResponse_matches: "table_matches W VersionResponse_descriptor_static"
  unfolding table_matches_def VersionResponse_described
  by (simp add: frontend_VersionResponse_schema_def VersionResponse_descriptor_static_def schema_kind_def message_names enum_names)

lemma SetLinkLossRequest_matches: "table_matches W SetLinkLossRequest_descriptor_static"
  unfolding table_matches_def SetLinkLossRequest_described
  by (simp add: frontend_SetLinkLossRequest_schema_def SetLinkLossRequest_descriptor_static_def schema_kind_def message_names enum_names)

lemma UpdateDeviceRequest_matches: "table_matches W UpdateDeviceRequest_descriptor_static"
  unfolding table_matches_def UpdateDeviceRequest_described
  by (simp add: frontend_UpdateDeviceRequest_schema_def UpdateDeviceRequest_descriptor_static_def schema_kind_def message_names enum_names)

lemma Updates_matches: "table_matches W Updates_descriptor_static"
  unfolding table_matches_def Updates_described
  by (simp add: frontend_Updates_schema_def Updates_descriptor_static_def schema_kind_def message_names enum_names)

lemma GetDevicesResponse_matches: "table_matches W GetDevicesResponse_descriptor_static"
  unfolding table_matches_def GetDevicesResponse_described
  by (simp add: frontend_GetDevicesResponse_schema_def GetDevicesResponse_descriptor_static_def schema_kind_def message_names enum_names)

lemma NetCatStream_matches: "table_matches W NetCatStream_descriptor_static"
  unfolding table_matches_def NetCatStream_described
  by (simp add: frontend_NetCatStream_schema_def NetCatStream_descriptor_static_def schema_kind_def message_names enum_names)

lemma SetPacketCaptureRequest_matches: "table_matches W SetPacketCaptureRequest_descriptor_static"
  unfolding table_matches_def SetPacketCaptureRequest_described
  by (simp add: frontend_SetPacketCaptureRequest_schema_def SetPacketCaptureRequest_descriptor_static_def schema_kind_def message_names enum_names)

lemma StartupInfo_matches: "table_matches W StartupInfo_descriptor_static"
  unfolding table_matches_def StartupInfo_described
  by (simp add: startup_StartupInfo_schema_def StartupInfo_descriptor_static_def schema_kind_def message_names enum_names)

lemma StartupInfo_Device_matches: "table_matches W StartupInfo_Device_descriptor_static"
  unfolding table_matches_def StartupInfo_Device_described
  by (simp add: startup_StartupInfo_Device_schema_def StartupInfo_Device_descriptor_static_def schema_kind_def message_names enum_names)

lemma ChipInfo_matches: "table_matches W ChipInfo_descriptor_static"
  unfolding table_matches_def ChipInfo_described
  by (simp add: startup_ChipInfo_schema_def ChipInfo_descriptor_static_def schema_kind_def message_names enum_names)

lemma Startup_Chip_matches: "table_matches W Startup_Chip_descriptor_static"
  unfolding table_matches_def Startup_Chip_described
  by (simp add: startup_Chip_schema_def Startup_Chip_descriptor_static_def schema_kind_def message_names enum_names)

lemma HCIPacket_matches: "table_matches W HCIPacket_descriptor_static"
  unfolding table_matches_def HCIPacket_described
  by (simp add: hci_packet_HCIPacket_schema_def HCIPacket_descriptor_static_def schema_kind_def message_names enum_names)

lemma StreamPacketsRequest_matches: "table_matches W (StreamPacketsRequest_descriptor_static W)"
  unfolding table_matches_def StreamPacketsRequest_described
  by (simp add: packet_streamer_StreamPacketsRequest_schema_def StreamPacketsRequest_descriptor_static_def schema_kind_def message_names enum_names)

lemma StreamPacketsResponse_matches: "table_matches W (StreamPacketsResponse_descriptor_static W)"
  unfolding table_matches_def StreamPacketsResponse_described
  by (simp add: packet_streamer_StreamPacketsResponse_schema_def StreamPacketsResponse_descriptor_static_def schema_kind_def message_names enum_names)

lemma PhyKind_matches: "enum_matches PhyKind_descriptor_static (map PhyKind_value PhyKind_values)"
  by (simp add: enum_matches_def enum_described_def PhyKind_descriptor_static_def find_enum_def PhyKind_values_def
      model_decoded model_schema_def frontend_decoded frontend_schema_def startup_decoded startup_schema_def hci_packet_decoded hci_packet_schema_def packet_streamer_decoded packet_streamer_schema_def model_PhyKind_enum_def model_State_enum_def)

lemma State_matches: "enum_matches State_descriptor_static (map State_value State_values)"
  by (simp add: enum_matches_def enum_described_def State_descriptor_static_def find_enum_def State_values_def
      model_decoded model_schema_def frontend_decoded frontend_schema_def startup_decoded startup_schema_def hci_packet_decoded hci_packet_schema_def packet_streamer_decoded packet_streamer_schema_def model_PhyKind_enum_def model_State_enum_def)

lemma Chip_ChipKind_matches: "enum_matches Chip_ChipKind_descriptor_static (map Chip_ChipKind_value Chip_ChipKind_values)"
  by (simp add: enum_matches_def enum_described_def Chip_ChipKind_descriptor_static_def find_enum_def Chip_ChipKind_values_def
      model_decoded model_schema_def frontend_decoded frontend_schema_def startup_decoded startup_schema_def hci_packet_decoded hci_packet_schema_def packet_streamer_decoded packet_streamer_schema_def startup_Chip_ChipKind_enum_def)

lemma HCIPacket_PacketType_matches: "enum_matches HCIPacket_PacketType_descriptor_static (map HCIPacket_PacketType_value HCIPacket_PacketType_values)"
  by (simp add: enum_matches_def enum_described_def HCIPacket_PacketType_descriptor_static_def find_enum_def HCIPacket_PacketType_values_def
      model_decoded model_schema_def frontend_decoded frontend_schema_def startup_decoded startup_schema_def hci_packet_decoded hci_packet_schema_def packet_streamer_decoded packet_streamer_schema_def hci_packet_HCIPacket_PacketType_enum_def)

lemmas matches = Position_matches Orientation_matches Chip_matches Chip_Radio_matches Chip_Bluetooth_matches Device_matches Scene_matches VersionResponse_matches SetLinkLossRequest_matches UpdateDeviceRequest_matches Updates_matches GetDevicesResponse_matches NetCatStream_matches SetPacketCaptureRequest_matches StartupInfo_matches StartupInfo_Device_matches ChipInfo_matches Startup_Chip_matches HCIPacket_matches StreamPacketsRequest_matches StreamPacketsResponse_matches PhyKind_matches State_matches Chip_ChipKind_matches HCIPacket_PacketType_matches

section \<open>The properties\<close>

text \<open>C13: The reflection tables agree with the file descriptions: for each of the 21 messages
  \<open>descriptor_static\<close> lists the fields of the description that the embedded bytes of its file contain,
  in the same order, with the same names and types, and with the accessor that the description's label
  and \<open>oneof\<close> ask for; the numbers of the four enumerations are those of the descriptions.\<close>

theorem tables_match_files:
  "table_matches W Position_descriptor_static \<and>
    table_matches W Orientation_descriptor_static \<and>
    table_matches W (Chip_descriptor_static W) \<and>
    table_matches W Chip_Radio_descriptor_static \<and>
    table_matches W Chip_Bluetooth_descriptor_static \<and>
    table_matches W Device_descriptor_static \<and>
    table_matches W Scene_descriptor_static \<and>
    table_matches W VersionResponse_descriptor_static \<and>
    table_matches W SetLinkLossRequest_descriptor_static \<and>
    table_matches W UpdateDeviceRequest_descriptor_static \<and>
    table_matches W Updates_descriptor_static \<and>
    table_matches W GetDevicesResponse_descriptor_static \<and>
    table_matches W NetCatStream_descriptor_static \<and>
    table_matches W SetPacketCaptureRequest_descriptor_static \<and>
    table_matches W StartupInfo_descriptor_static \<and>
    table_matches W StartupInfo_Device_descriptor_static \<and>
    table_matches W ChipInfo_descriptor_static \<and>
    table_matches W Startup_Chip_descriptor_static \<and>
    table_matches W HCIPacket_descriptor_static \<and>
    table_matches W (StreamPacketsRequest_descriptor_static W) \<and>
    table_matches W (StreamPacketsResponse_descriptor_static W) \<and>
    enum_matches PhyKind_descriptor_static (map PhyKind_value PhyKind_values) \<and>
    enum_matches State_descriptor_static (map State_value State_values) \<and>
    enum_matches Chip_ChipKind_descriptor_static (map Chip_ChipKind_value Chip_ChipKind_values) \<and>
    enum_matches HCIPacket_PacketType_descriptor_static (map HCIPacket_PacketType_value HCIPacket_PacketType_values)"
  by (intro conjI) (simp_all add: matches)

text \<open>Reading is reading by table: for each message \<open>merge_from\<close> of any bytes into any message,
  seen through the accessors, is the work of one reader that knows only the field numbers, types and
  labels of the description. A number that is in the description changes that field alone (and ends the other
  members of its \<open>oneof\<close>), any other number goes to the unknown fields, and errors are the same.\<close>

theorem messages_read_by_table:
  "merges_by_table W Position_descriptor_static (Position_merge_from W) \<and>
    merges_by_table W Orientation_descriptor_static (Orientation_merge_from W) \<and>
    merges_by_table W (Chip_descriptor_static W) (Chip_merge_from W) \<and>
    merges_by_table W Chip_Radio_descriptor_static (Chip_Radio_merge_from W) \<and>
    merges_by_table W Chip_Bluetooth_descriptor_static (Chip_Bluetooth_merge_from W) \<and>
    merges_by_table W Device_descriptor_static (Device_merge_from W) \<and>
    merges_by_table W Scene_descriptor_static (Scene_merge_from W) \<and>
    merges_by_table W VersionResponse_descriptor_static (VersionResponse_merge_from W) \<and>
    merges_by_table W SetLinkLossRequest_descriptor_static (SetLinkLossRequest_merge_from W) \<and>
    merges_by_table W UpdateDeviceRequest_descriptor_static (UpdateDeviceRequest_merge_from W) \<and>
    merges_by_table W Updates_descriptor_static (Updates_merge_from W) \<and>
    merges_by_table W GetDevicesResponse_descriptor_static (GetDevicesResponse_merge_from W) \<and>
    merges_by_table W NetCatStream_descriptor_static (NetCatStream_merge_from W) \<and>
    merges_by_table W SetPacketCaptureRequest_descriptor_static (SetPacketCaptureRequest_merge_from W) \<and>
    merges_by_table W StartupInfo_descriptor_static (StartupInfo_merge_from W) \<and>
    merges_by_table W StartupInfo_Device_descriptor_static (StartupInfo_Device_merge_from W) \<and>
    merges_by_table W ChipInfo_descriptor_static (ChipInfo_merge_from W) \<and>
    merges_by_table W Startup_Chip_descriptor_static (Startup_Chip_merge_from W) \<and>
    merges_by_table W HCIPacket_descriptor_static (HCIPacket_merge_from W) \<and>
    merges_by_table W (StreamPacketsRequest_descriptor_static W) (StreamPacketsRequest_merge_from W) \<and>
    merges_by_table W (StreamPacketsResponse_descriptor_static W) (StreamPacketsResponse_merge_from W)"
  by (intro conjI) (rule Position_merges Orientation_merges Chip_merges Chip_Radio_merges Chip_Bluetooth_merges Device_merges Scene_merges VersionResponse_merges SetLinkLossRequest_merges UpdateDeviceRequest_merges Updates_merges GetDevicesResponse_merges NetCatStream_merges SetPacketCaptureRequest_merges StartupInfo_merges StartupInfo_Device_merges ChipInfo_merges Startup_Chip_merges HCIPacket_merges StreamPacketsRequest_merges StreamPacketsResponse_merges)+

text \<open>Writing is writing by table: for each message the bytes written are those that one writer
  makes of the values the accessors give, in the order of the table: no bytes for a zero, empty or
  absent value, otherwise the number of the description and the value, then the unknown fields. The
  size computed before is the size by the same table.\<close>

theorem messages_written_by_table:
  "writes_by_table W Position_descriptor_static (Position_write_to_with_cached_sizes W) \<and>
    sizes_by_table W Position_descriptor_static (Position_compute_size W) \<and>
    writes_by_table W Orientation_descriptor_static (Orientation_write_to_with_cached_sizes W) \<and>
    sizes_by_table W Orientation_descriptor_static (Orientation_compute_size W) \<and>
    writes_by_table W (Chip_descriptor_static W) (Chip_write_to_with_cached_sizes W) \<and>
    sizes_by_table W (Chip_descriptor_static W) (Chip_compute_size W) \<and>
    writes_by_table W Chip_Radio_descriptor_static (Chip_Radio_write_to_with_cached_sizes W) \<and>
    sizes_by_table W Chip_Radio_descriptor_static (Chip_Radio_compute_size W) \<and>
    writes_by_table W Chip_Bluetooth_descriptor_static (Chip_Bluetooth_write_to_with_cached_sizes W) \<and>
    sizes_by_table W Chip_Bluetooth_descriptor_static (Chip_Bluetooth_compute_size W) \<and>
    writes_by_table W Device_descriptor_static (Device_write_to_with_cached_sizes W) \<and>
    sizes_by_table W Device_descriptor_static (Device_compute_size W) \<and>
    writes_by_table W Scene_descriptor_static (Scene_write_to_with_cached_sizes W) \<and>
    sizes_by_table W Scene_descriptor_static (Scene_compute_size W) \<and>
    writes_by_table W VersionResponse_descriptor_static (VersionResponse_write_to_with_cached_sizes W) \<and>
    sizes_by_table W VersionResponse_descriptor_static (VersionResponse_compute_size W) \<and>
    writes_by_table W SetLinkLossRequest_descriptor_static (SetLinkLossRequest_write_to_with_cached_sizes W) \<and>
    sizes_by_table W SetLinkLossRequest_descriptor_static (SetLinkLossRequest_compute_size W) \<and>
    writes_by_table W UpdateDeviceRequest_descriptor_static (UpdateDeviceRequest_write_to_with_cached_sizes W) \<and>
    sizes_by_table W UpdateDeviceRequest_descriptor_static (UpdateDeviceRequest_compute_size W) \<and>
    writes_by_table W Updates_descriptor_static (Updates_write_to_with_cached_sizes W) \<and>
    sizes_by_table W Updates_descriptor_static (Updates_compute_size W) \<and>
    writes_by_table W GetDevicesResponse_descriptor_static (GetDevicesResponse_write_to_with_cached_sizes W) \<and>
    sizes_by_table W GetDevicesResponse_descriptor_static (GetDevicesResponse_compute_size W) \<and>
    writes_by_table W NetCatStream_descriptor_static (NetCatStream_write_to_with_cached_sizes W) \<and>
    sizes_by_table W NetCatStream_descriptor_static (NetCatStream_compute_size W) \<and>
    writes_by_table W SetPacketCaptureRequest_descriptor_static (SetPacketCaptureRequest_write_to_with_cached_sizes W) \<and>
    sizes_by_table W SetPacketCaptureRequest_descriptor_static (SetPacketCaptureRequest_compute_size W) \<and>
    writes_by_table W StartupInfo_descriptor_static (StartupInfo_write_to_with_cached_sizes W) \<and>
    sizes_by_table W StartupInfo_descriptor_static (StartupInfo_compute_size W) \<and>
    writes_by_table W StartupInfo_Device_descriptor_static (StartupInfo_Device_write_to_with_cached_sizes W) \<and>
    sizes_by_table W StartupInfo_Device_descriptor_static (StartupInfo_Device_compute_size W) \<and>
    writes_by_table W ChipInfo_descriptor_static (ChipInfo_write_to_with_cached_sizes W) \<and>
    sizes_by_table W ChipInfo_descriptor_static (ChipInfo_compute_size W) \<and>
    writes_by_table W Startup_Chip_descriptor_static (Startup_Chip_write_to_with_cached_sizes W) \<and>
    sizes_by_table W Startup_Chip_descriptor_static (Startup_Chip_compute_size W) \<and>
    writes_by_table W HCIPacket_descriptor_static (HCIPacket_write_to_with_cached_sizes W) \<and>
    sizes_by_table W HCIPacket_descriptor_static (HCIPacket_compute_size W) \<and>
    writes_by_table W (StreamPacketsRequest_descriptor_static W) (StreamPacketsRequest_write_to_with_cached_sizes W) \<and>
    sizes_by_table W (StreamPacketsRequest_descriptor_static W) (StreamPacketsRequest_compute_size W) \<and>
    writes_by_table W (StreamPacketsResponse_descriptor_static W) (StreamPacketsResponse_write_to_with_cached_sizes W) \<and>
    sizes_by_table W (StreamPacketsResponse_descriptor_static W) (StreamPacketsResponse_compute_size W)"
  by (intro conjI) (rule Position_writes Position_sizes Orientation_writes Orientation_sizes Chip_writes Chip_sizes Chip_Radio_writes Chip_Radio_sizes Chip_Bluetooth_writes Chip_Bluetooth_sizes Device_writes Device_sizes Scene_writes Scene_sizes VersionResponse_writes VersionResponse_sizes SetLinkLossRequest_writes SetLinkLossRequest_sizes UpdateDeviceRequest_writes UpdateDeviceRequest_sizes Updates_writes Updates_sizes GetDevicesResponse_writes GetDevicesResponse_sizes NetCatStream_writes NetCatStream_sizes SetPacketCaptureRequest_writes SetPacketCaptureRequest_sizes StartupInfo_writes StartupInfo_sizes StartupInfo_Device_writes StartupInfo_Device_sizes ChipInfo_writes ChipInfo_sizes Startup_Chip_writes Startup_Chip_sizes HCIPacket_writes HCIPacket_sizes StreamPacketsRequest_writes StreamPacketsRequest_sizes StreamPacketsResponse_writes StreamPacketsResponse_sizes)+

text \<open>A new message and a cleared message show, through the accessors, the value that the type
  and label of every field start with, and no unknown fields.\<close>

theorem messages_start_by_table:
  "starts_by_table W Position_descriptor_static (Position_new W) (Position_clear W) \<and>
    starts_by_table W Orientation_descriptor_static (Orientation_new W) (Orientation_clear W) \<and>
    starts_by_table W (Chip_descriptor_static W) (Chip_new W) (Chip_clear W) \<and>
    starts_by_table W Chip_Radio_descriptor_static (Chip_Radio_new W) (Chip_Radio_clear W) \<and>
    starts_by_table W Chip_Bluetooth_descriptor_static (Chip_Bluetooth_new W) (Chip_Bluetooth_clear W) \<and>
    starts_by_table W Device_descriptor_static (Device_new W) (Device_clear W) \<and>
    starts_by_table W Scene_descriptor_static (Scene_new W) (Scene_clear W) \<and>
    starts_by_table W VersionResponse_descriptor_static (VersionResponse_new W) (VersionResponse_clear W) \<and>
    starts_by_table W SetLinkLossRequest_descriptor_static (SetLinkLossRequest_new W) (SetLinkLossRequest_clear W) \<and>
    starts_by_table W UpdateDeviceRequest_descriptor_static (UpdateDeviceRequest_new W) (UpdateDeviceRequest_clear W) \<and>
    starts_by_table W Updates_descriptor_static (Updates_new W) (Updates_clear W) \<and>
    starts_by_table W GetDevicesResponse_descriptor_static (GetDevicesResponse_new W) (GetDevicesResponse_clear W) \<and>
    starts_by_table W NetCatStream_descriptor_static (NetCatStream_new W) (NetCatStream_clear W) \<and>
    starts_by_table W SetPacketCaptureRequest_descriptor_static (SetPacketCaptureRequest_new W) (SetPacketCaptureRequest_clear W) \<and>
    starts_by_table W StartupInfo_descriptor_static (StartupInfo_new W) (StartupInfo_clear W) \<and>
    starts_by_table W StartupInfo_Device_descriptor_static (StartupInfo_Device_new W) (StartupInfo_Device_clear W) \<and>
    starts_by_table W ChipInfo_descriptor_static (ChipInfo_new W) (ChipInfo_clear W) \<and>
    starts_by_table W Startup_Chip_descriptor_static (Startup_Chip_new W) (Startup_Chip_clear W) \<and>
    starts_by_table W HCIPacket_descriptor_static (HCIPacket_new W) (HCIPacket_clear W) \<and>
    starts_by_table W (StreamPacketsRequest_descriptor_static W) (StreamPacketsRequest_new W) (StreamPacketsRequest_clear W) \<and>
    starts_by_table W (StreamPacketsResponse_descriptor_static W) (StreamPacketsResponse_new W) (StreamPacketsResponse_clear W)"
  by (intro conjI) (rule Position_starts Orientation_starts Chip_starts Chip_Radio_starts Chip_Bluetooth_starts Device_starts Scene_starts VersionResponse_starts SetLinkLossRequest_starts UpdateDeviceRequest_starts Updates_starts GetDevicesResponse_starts NetCatStream_starts SetPacketCaptureRequest_starts StartupInfo_starts StartupInfo_Device_starts ChipInfo_starts Startup_Chip_starts HCIPacket_starts StreamPacketsRequest_starts StreamPacketsResponse_starts)+

text \<open>The mutable half of an accessor borrows its own field: storing a value of the field's type
  through an entry of a table makes the entry read that value, and no other entry and not the unknown
  fields change.\<close>

theorem messages_stored_by_table:
  "stores_by_table Position_descriptor_static \<and>
    stores_by_table Orientation_descriptor_static \<and>
    stores_by_table (Chip_descriptor_static W) \<and>
    stores_by_table Chip_Radio_descriptor_static \<and>
    stores_by_table Chip_Bluetooth_descriptor_static \<and>
    stores_by_table Device_descriptor_static \<and>
    stores_by_table Scene_descriptor_static \<and>
    stores_by_table VersionResponse_descriptor_static \<and>
    stores_by_table SetLinkLossRequest_descriptor_static \<and>
    stores_by_table UpdateDeviceRequest_descriptor_static \<and>
    stores_by_table Updates_descriptor_static \<and>
    stores_by_table GetDevicesResponse_descriptor_static \<and>
    stores_by_table NetCatStream_descriptor_static \<and>
    stores_by_table SetPacketCaptureRequest_descriptor_static \<and>
    stores_by_table StartupInfo_descriptor_static \<and>
    stores_by_table StartupInfo_Device_descriptor_static \<and>
    stores_by_table ChipInfo_descriptor_static \<and>
    stores_by_table Startup_Chip_descriptor_static \<and>
    stores_by_table HCIPacket_descriptor_static \<and>
    stores_by_table (StreamPacketsRequest_descriptor_static W) \<and>
    stores_by_table (StreamPacketsResponse_descriptor_static W)"
  by (intro conjI) (rule Position_stores Orientation_stores Chip_stores Chip_Radio_stores Chip_Bluetooth_stores Device_stores Scene_stores VersionResponse_stores SetLinkLossRequest_stores UpdateDeviceRequest_stores Updates_stores GetDevicesResponse_stores NetCatStream_stores SetPacketCaptureRequest_stores StartupInfo_stores StartupInfo_Device_stores ChipInfo_stores Startup_Chip_stores HCIPacket_stores StreamPacketsRequest_stores StreamPacketsResponse_stores)+

end
