(* ===== verification/Object_Properties.thy ===== *)
theory Object_Properties
  imports Pb_Object Pb_Equal Table_Properties
begin

text \<open>
  What holds of every \<^verbatim>\<open>dyn Message\<close> of the generated files. The functions \<open>object_\<close> are the calls through the
  trait object: the method of the type that the object has. \<open>object_values\<close> and \<open>object_layout\<close> see an
  object only through the table that its own \<^verbatim>\<open>descriptor()\<close> gives.
\<close>

section \<open>Calls through a trait object\<close>


fun object_descriptor_name :: "'u protobuf_rt \<Rightarrow> 'u message_object \<Rightarrow> string" where
  "object_descriptor_name W (Obj_Position m) = full_name (Position_descriptor W m)"
| "object_descriptor_name W (Obj_Orientation m) = full_name (Orientation_descriptor W m)"
| "object_descriptor_name W (Obj_Chip m) = full_name (Chip_descriptor W m)"
| "object_descriptor_name W (Obj_Chip_Radio m) = full_name (Chip_Radio_descriptor W m)"
| "object_descriptor_name W (Obj_Chip_Bluetooth m) = full_name (Chip_Bluetooth_descriptor W m)"
| "object_descriptor_name W (Obj_Device m) = full_name (Device_descriptor W m)"
| "object_descriptor_name W (Obj_Scene m) = full_name (Scene_descriptor W m)"
| "object_descriptor_name W (Obj_VersionResponse m) = full_name (VersionResponse_descriptor W m)"
| "object_descriptor_name W (Obj_SetLinkLossRequest m) = full_name (SetLinkLossRequest_descriptor W m)"
| "object_descriptor_name W (Obj_UpdateDeviceRequest m) = full_name (UpdateDeviceRequest_descriptor W m)"
| "object_descriptor_name W (Obj_Updates m) = full_name (Updates_descriptor W m)"
| "object_descriptor_name W (Obj_GetDevicesResponse m) = full_name (GetDevicesResponse_descriptor W m)"
| "object_descriptor_name W (Obj_NetCatStream m) = full_name (NetCatStream_descriptor W m)"
| "object_descriptor_name W (Obj_SetPacketCaptureRequest m) = full_name (SetPacketCaptureRequest_descriptor W m)"
| "object_descriptor_name W (Obj_StartupInfo m) = full_name (StartupInfo_descriptor W m)"
| "object_descriptor_name W (Obj_StartupInfo_Device m) = full_name (StartupInfo_Device_descriptor W m)"
| "object_descriptor_name W (Obj_ChipInfo m) = full_name (ChipInfo_descriptor W m)"
| "object_descriptor_name W (Obj_Startup_Chip m) = full_name (Startup_Chip_descriptor W m)"
| "object_descriptor_name W (Obj_HCIPacket m) = full_name (HCIPacket_descriptor W m)"
| "object_descriptor_name W (Obj_StreamPacketsRequest m) = full_name (StreamPacketsRequest_descriptor W m)"
| "object_descriptor_name W (Obj_StreamPacketsResponse m) = full_name (StreamPacketsResponse_descriptor W m)"

fun object_layout :: "'u protobuf_rt \<Rightarrow> 'u message_object \<Rightarrow> dyn_field list" where
  "object_layout W (Obj_Position m) = layout (Position_descriptor W m)"
| "object_layout W (Obj_Orientation m) = layout (Orientation_descriptor W m)"
| "object_layout W (Obj_Chip m) = layout (Chip_descriptor W m)"
| "object_layout W (Obj_Chip_Radio m) = layout (Chip_Radio_descriptor W m)"
| "object_layout W (Obj_Chip_Bluetooth m) = layout (Chip_Bluetooth_descriptor W m)"
| "object_layout W (Obj_Device m) = layout (Device_descriptor W m)"
| "object_layout W (Obj_Scene m) = layout (Scene_descriptor W m)"
| "object_layout W (Obj_VersionResponse m) = layout (VersionResponse_descriptor W m)"
| "object_layout W (Obj_SetLinkLossRequest m) = layout (SetLinkLossRequest_descriptor W m)"
| "object_layout W (Obj_UpdateDeviceRequest m) = layout (UpdateDeviceRequest_descriptor W m)"
| "object_layout W (Obj_Updates m) = layout (Updates_descriptor W m)"
| "object_layout W (Obj_GetDevicesResponse m) = layout (GetDevicesResponse_descriptor W m)"
| "object_layout W (Obj_NetCatStream m) = layout (NetCatStream_descriptor W m)"
| "object_layout W (Obj_SetPacketCaptureRequest m) = layout (SetPacketCaptureRequest_descriptor W m)"
| "object_layout W (Obj_StartupInfo m) = layout (StartupInfo_descriptor W m)"
| "object_layout W (Obj_StartupInfo_Device m) = layout (StartupInfo_Device_descriptor W m)"
| "object_layout W (Obj_ChipInfo m) = layout (ChipInfo_descriptor W m)"
| "object_layout W (Obj_Startup_Chip m) = layout (Startup_Chip_descriptor W m)"
| "object_layout W (Obj_HCIPacket m) = layout (HCIPacket_descriptor W m)"
| "object_layout W (Obj_StreamPacketsRequest m) = layout (StreamPacketsRequest_descriptor W m)"
| "object_layout W (Obj_StreamPacketsResponse m) = layout (StreamPacketsResponse_descriptor W m)"

fun object_values :: "'u protobuf_rt \<Rightarrow> 'u message_object \<Rightarrow> 'u dyn_message" where
  "object_values W (Obj_Position m) = snapshot (Position_descriptor W m) m"
| "object_values W (Obj_Orientation m) = snapshot (Orientation_descriptor W m) m"
| "object_values W (Obj_Chip m) = snapshot (Chip_descriptor W m) m"
| "object_values W (Obj_Chip_Radio m) = snapshot (Chip_Radio_descriptor W m) m"
| "object_values W (Obj_Chip_Bluetooth m) = snapshot (Chip_Bluetooth_descriptor W m) m"
| "object_values W (Obj_Device m) = snapshot (Device_descriptor W m) m"
| "object_values W (Obj_Scene m) = snapshot (Scene_descriptor W m) m"
| "object_values W (Obj_VersionResponse m) = snapshot (VersionResponse_descriptor W m) m"
| "object_values W (Obj_SetLinkLossRequest m) = snapshot (SetLinkLossRequest_descriptor W m) m"
| "object_values W (Obj_UpdateDeviceRequest m) = snapshot (UpdateDeviceRequest_descriptor W m) m"
| "object_values W (Obj_Updates m) = snapshot (Updates_descriptor W m) m"
| "object_values W (Obj_GetDevicesResponse m) = snapshot (GetDevicesResponse_descriptor W m) m"
| "object_values W (Obj_NetCatStream m) = snapshot (NetCatStream_descriptor W m) m"
| "object_values W (Obj_SetPacketCaptureRequest m) = snapshot (SetPacketCaptureRequest_descriptor W m) m"
| "object_values W (Obj_StartupInfo m) = snapshot (StartupInfo_descriptor W m) m"
| "object_values W (Obj_StartupInfo_Device m) = snapshot (StartupInfo_Device_descriptor W m) m"
| "object_values W (Obj_ChipInfo m) = snapshot (ChipInfo_descriptor W m) m"
| "object_values W (Obj_Startup_Chip m) = snapshot (Startup_Chip_descriptor W m) m"
| "object_values W (Obj_HCIPacket m) = snapshot (HCIPacket_descriptor W m) m"
| "object_values W (Obj_StreamPacketsRequest m) = snapshot (StreamPacketsRequest_descriptor W m) m"
| "object_values W (Obj_StreamPacketsResponse m) = snapshot (StreamPacketsResponse_descriptor W m) m"

fun object_merge_from :: "'u protobuf_rt \<Rightarrow> 'u message_object \<Rightarrow> bytes \<Rightarrow> pb_error + 'u message_object" where
  "object_merge_from W (Obj_Position m) b = bindE (Position_merge_from W m b) (\<lambda>m. Ok (Position_as_any m))"
| "object_merge_from W (Obj_Orientation m) b = bindE (Orientation_merge_from W m b) (\<lambda>m. Ok (Orientation_as_any m))"
| "object_merge_from W (Obj_Chip m) b = bindE (Chip_merge_from W m b) (\<lambda>m. Ok (Chip_as_any m))"
| "object_merge_from W (Obj_Chip_Radio m) b = bindE (Chip_Radio_merge_from W m b) (\<lambda>m. Ok (Chip_Radio_as_any m))"
| "object_merge_from W (Obj_Chip_Bluetooth m) b = bindE (Chip_Bluetooth_merge_from W m b) (\<lambda>m. Ok (Chip_Bluetooth_as_any m))"
| "object_merge_from W (Obj_Device m) b = bindE (Device_merge_from W m b) (\<lambda>m. Ok (Device_as_any m))"
| "object_merge_from W (Obj_Scene m) b = bindE (Scene_merge_from W m b) (\<lambda>m. Ok (Scene_as_any m))"
| "object_merge_from W (Obj_VersionResponse m) b = bindE (VersionResponse_merge_from W m b) (\<lambda>m. Ok (VersionResponse_as_any m))"
| "object_merge_from W (Obj_SetLinkLossRequest m) b = bindE (SetLinkLossRequest_merge_from W m b) (\<lambda>m. Ok (SetLinkLossRequest_as_any m))"
| "object_merge_from W (Obj_UpdateDeviceRequest m) b = bindE (UpdateDeviceRequest_merge_from W m b) (\<lambda>m. Ok (UpdateDeviceRequest_as_any m))"
| "object_merge_from W (Obj_Updates m) b = bindE (Updates_merge_from W m b) (\<lambda>m. Ok (Updates_as_any m))"
| "object_merge_from W (Obj_GetDevicesResponse m) b = bindE (GetDevicesResponse_merge_from W m b) (\<lambda>m. Ok (GetDevicesResponse_as_any m))"
| "object_merge_from W (Obj_NetCatStream m) b = bindE (NetCatStream_merge_from W m b) (\<lambda>m. Ok (NetCatStream_as_any m))"
| "object_merge_from W (Obj_SetPacketCaptureRequest m) b = bindE (SetPacketCaptureRequest_merge_from W m b) (\<lambda>m. Ok (SetPacketCaptureRequest_as_any m))"
| "object_merge_from W (Obj_StartupInfo m) b = bindE (StartupInfo_merge_from W m b) (\<lambda>m. Ok (StartupInfo_as_any m))"
| "object_merge_from W (Obj_StartupInfo_Device m) b = bindE (StartupInfo_Device_merge_from W m b) (\<lambda>m. Ok (StartupInfo_Device_as_any m))"
| "object_merge_from W (Obj_ChipInfo m) b = bindE (ChipInfo_merge_from W m b) (\<lambda>m. Ok (ChipInfo_as_any m))"
| "object_merge_from W (Obj_Startup_Chip m) b = bindE (Startup_Chip_merge_from W m b) (\<lambda>m. Ok (Startup_Chip_as_any m))"
| "object_merge_from W (Obj_HCIPacket m) b = bindE (HCIPacket_merge_from W m b) (\<lambda>m. Ok (HCIPacket_as_any m))"
| "object_merge_from W (Obj_StreamPacketsRequest m) b = bindE (StreamPacketsRequest_merge_from W m b) (\<lambda>m. Ok (StreamPacketsRequest_as_any m))"
| "object_merge_from W (Obj_StreamPacketsResponse m) b = bindE (StreamPacketsResponse_merge_from W m b) (\<lambda>m. Ok (StreamPacketsResponse_as_any m))"

fun object_write :: "'u protobuf_rt \<Rightarrow> 'u message_object \<Rightarrow> bytes" where
  "object_write W (Obj_Position m) = Position_write_to_with_cached_sizes W m"
| "object_write W (Obj_Orientation m) = Orientation_write_to_with_cached_sizes W m"
| "object_write W (Obj_Chip m) = Chip_write_to_with_cached_sizes W m"
| "object_write W (Obj_Chip_Radio m) = Chip_Radio_write_to_with_cached_sizes W m"
| "object_write W (Obj_Chip_Bluetooth m) = Chip_Bluetooth_write_to_with_cached_sizes W m"
| "object_write W (Obj_Device m) = Device_write_to_with_cached_sizes W m"
| "object_write W (Obj_Scene m) = Scene_write_to_with_cached_sizes W m"
| "object_write W (Obj_VersionResponse m) = VersionResponse_write_to_with_cached_sizes W m"
| "object_write W (Obj_SetLinkLossRequest m) = SetLinkLossRequest_write_to_with_cached_sizes W m"
| "object_write W (Obj_UpdateDeviceRequest m) = UpdateDeviceRequest_write_to_with_cached_sizes W m"
| "object_write W (Obj_Updates m) = Updates_write_to_with_cached_sizes W m"
| "object_write W (Obj_GetDevicesResponse m) = GetDevicesResponse_write_to_with_cached_sizes W m"
| "object_write W (Obj_NetCatStream m) = NetCatStream_write_to_with_cached_sizes W m"
| "object_write W (Obj_SetPacketCaptureRequest m) = SetPacketCaptureRequest_write_to_with_cached_sizes W m"
| "object_write W (Obj_StartupInfo m) = StartupInfo_write_to_with_cached_sizes W m"
| "object_write W (Obj_StartupInfo_Device m) = StartupInfo_Device_write_to_with_cached_sizes W m"
| "object_write W (Obj_ChipInfo m) = ChipInfo_write_to_with_cached_sizes W m"
| "object_write W (Obj_Startup_Chip m) = Startup_Chip_write_to_with_cached_sizes W m"
| "object_write W (Obj_HCIPacket m) = HCIPacket_write_to_with_cached_sizes W m"
| "object_write W (Obj_StreamPacketsRequest m) = StreamPacketsRequest_write_to_with_cached_sizes W m"
| "object_write W (Obj_StreamPacketsResponse m) = StreamPacketsResponse_write_to_with_cached_sizes W m"

fun object_compute_size :: "'u protobuf_rt \<Rightarrow> 'u message_object \<Rightarrow> u32 \<times> 'u message_object" where
  "object_compute_size W (Obj_Position m) = (case Position_compute_size W m of (n, m) \<Rightarrow> (n, Position_as_any m))"
| "object_compute_size W (Obj_Orientation m) = (case Orientation_compute_size W m of (n, m) \<Rightarrow> (n, Orientation_as_any m))"
| "object_compute_size W (Obj_Chip m) = (case Chip_compute_size W m of (n, m) \<Rightarrow> (n, Chip_as_any m))"
| "object_compute_size W (Obj_Chip_Radio m) = (case Chip_Radio_compute_size W m of (n, m) \<Rightarrow> (n, Chip_Radio_as_any m))"
| "object_compute_size W (Obj_Chip_Bluetooth m) = (case Chip_Bluetooth_compute_size W m of (n, m) \<Rightarrow> (n, Chip_Bluetooth_as_any m))"
| "object_compute_size W (Obj_Device m) = (case Device_compute_size W m of (n, m) \<Rightarrow> (n, Device_as_any m))"
| "object_compute_size W (Obj_Scene m) = (case Scene_compute_size W m of (n, m) \<Rightarrow> (n, Scene_as_any m))"
| "object_compute_size W (Obj_VersionResponse m) = (case VersionResponse_compute_size W m of (n, m) \<Rightarrow> (n, VersionResponse_as_any m))"
| "object_compute_size W (Obj_SetLinkLossRequest m) = (case SetLinkLossRequest_compute_size W m of (n, m) \<Rightarrow> (n, SetLinkLossRequest_as_any m))"
| "object_compute_size W (Obj_UpdateDeviceRequest m) = (case UpdateDeviceRequest_compute_size W m of (n, m) \<Rightarrow> (n, UpdateDeviceRequest_as_any m))"
| "object_compute_size W (Obj_Updates m) = (case Updates_compute_size W m of (n, m) \<Rightarrow> (n, Updates_as_any m))"
| "object_compute_size W (Obj_GetDevicesResponse m) = (case GetDevicesResponse_compute_size W m of (n, m) \<Rightarrow> (n, GetDevicesResponse_as_any m))"
| "object_compute_size W (Obj_NetCatStream m) = (case NetCatStream_compute_size W m of (n, m) \<Rightarrow> (n, NetCatStream_as_any m))"
| "object_compute_size W (Obj_SetPacketCaptureRequest m) = (case SetPacketCaptureRequest_compute_size W m of (n, m) \<Rightarrow> (n, SetPacketCaptureRequest_as_any m))"
| "object_compute_size W (Obj_StartupInfo m) = (case StartupInfo_compute_size W m of (n, m) \<Rightarrow> (n, StartupInfo_as_any m))"
| "object_compute_size W (Obj_StartupInfo_Device m) = (case StartupInfo_Device_compute_size W m of (n, m) \<Rightarrow> (n, StartupInfo_Device_as_any m))"
| "object_compute_size W (Obj_ChipInfo m) = (case ChipInfo_compute_size W m of (n, m) \<Rightarrow> (n, ChipInfo_as_any m))"
| "object_compute_size W (Obj_Startup_Chip m) = (case Startup_Chip_compute_size W m of (n, m) \<Rightarrow> (n, Startup_Chip_as_any m))"
| "object_compute_size W (Obj_HCIPacket m) = (case HCIPacket_compute_size W m of (n, m) \<Rightarrow> (n, HCIPacket_as_any m))"
| "object_compute_size W (Obj_StreamPacketsRequest m) = (case StreamPacketsRequest_compute_size W m of (n, m) \<Rightarrow> (n, StreamPacketsRequest_as_any m))"
| "object_compute_size W (Obj_StreamPacketsResponse m) = (case StreamPacketsResponse_compute_size W m of (n, m) \<Rightarrow> (n, StreamPacketsResponse_as_any m))"

fun object_clear :: "'u protobuf_rt \<Rightarrow> 'u message_object \<Rightarrow> 'u message_object" where
  "object_clear W (Obj_Position m) = Position_as_any (Position_clear W m)"
| "object_clear W (Obj_Orientation m) = Orientation_as_any (Orientation_clear W m)"
| "object_clear W (Obj_Chip m) = Chip_as_any (Chip_clear W m)"
| "object_clear W (Obj_Chip_Radio m) = Chip_Radio_as_any (Chip_Radio_clear W m)"
| "object_clear W (Obj_Chip_Bluetooth m) = Chip_Bluetooth_as_any (Chip_Bluetooth_clear W m)"
| "object_clear W (Obj_Device m) = Device_as_any (Device_clear W m)"
| "object_clear W (Obj_Scene m) = Scene_as_any (Scene_clear W m)"
| "object_clear W (Obj_VersionResponse m) = VersionResponse_as_any (VersionResponse_clear W m)"
| "object_clear W (Obj_SetLinkLossRequest m) = SetLinkLossRequest_as_any (SetLinkLossRequest_clear W m)"
| "object_clear W (Obj_UpdateDeviceRequest m) = UpdateDeviceRequest_as_any (UpdateDeviceRequest_clear W m)"
| "object_clear W (Obj_Updates m) = Updates_as_any (Updates_clear W m)"
| "object_clear W (Obj_GetDevicesResponse m) = GetDevicesResponse_as_any (GetDevicesResponse_clear W m)"
| "object_clear W (Obj_NetCatStream m) = NetCatStream_as_any (NetCatStream_clear W m)"
| "object_clear W (Obj_SetPacketCaptureRequest m) = SetPacketCaptureRequest_as_any (SetPacketCaptureRequest_clear W m)"
| "object_clear W (Obj_StartupInfo m) = StartupInfo_as_any (StartupInfo_clear W m)"
| "object_clear W (Obj_StartupInfo_Device m) = StartupInfo_Device_as_any (StartupInfo_Device_clear W m)"
| "object_clear W (Obj_ChipInfo m) = ChipInfo_as_any (ChipInfo_clear W m)"
| "object_clear W (Obj_Startup_Chip m) = Startup_Chip_as_any (Startup_Chip_clear W m)"
| "object_clear W (Obj_HCIPacket m) = HCIPacket_as_any (HCIPacket_clear W m)"
| "object_clear W (Obj_StreamPacketsRequest m) = StreamPacketsRequest_as_any (StreamPacketsRequest_clear W m)"
| "object_clear W (Obj_StreamPacketsResponse m) = StreamPacketsResponse_as_any (StreamPacketsResponse_clear W m)"

fun object_store :: "'u protobuf_rt \<Rightarrow> nat \<Rightarrow> 'u field_value \<Rightarrow> 'u message_object \<Rightarrow> 'u message_object" where
  "object_store W i v (Obj_Position m) = Position_as_any (acc_store (md_fields (Position_descriptor W m) ! i) v m)"
| "object_store W i v (Obj_Orientation m) = Orientation_as_any (acc_store (md_fields (Orientation_descriptor W m) ! i) v m)"
| "object_store W i v (Obj_Chip m) = Chip_as_any (acc_store (md_fields (Chip_descriptor W m) ! i) v m)"
| "object_store W i v (Obj_Chip_Radio m) = Chip_Radio_as_any (acc_store (md_fields (Chip_Radio_descriptor W m) ! i) v m)"
| "object_store W i v (Obj_Chip_Bluetooth m) = Chip_Bluetooth_as_any (acc_store (md_fields (Chip_Bluetooth_descriptor W m) ! i) v m)"
| "object_store W i v (Obj_Device m) = Device_as_any (acc_store (md_fields (Device_descriptor W m) ! i) v m)"
| "object_store W i v (Obj_Scene m) = Scene_as_any (acc_store (md_fields (Scene_descriptor W m) ! i) v m)"
| "object_store W i v (Obj_VersionResponse m) = VersionResponse_as_any (acc_store (md_fields (VersionResponse_descriptor W m) ! i) v m)"
| "object_store W i v (Obj_SetLinkLossRequest m) = SetLinkLossRequest_as_any (acc_store (md_fields (SetLinkLossRequest_descriptor W m) ! i) v m)"
| "object_store W i v (Obj_UpdateDeviceRequest m) = UpdateDeviceRequest_as_any (acc_store (md_fields (UpdateDeviceRequest_descriptor W m) ! i) v m)"
| "object_store W i v (Obj_Updates m) = Updates_as_any (acc_store (md_fields (Updates_descriptor W m) ! i) v m)"
| "object_store W i v (Obj_GetDevicesResponse m) = GetDevicesResponse_as_any (acc_store (md_fields (GetDevicesResponse_descriptor W m) ! i) v m)"
| "object_store W i v (Obj_NetCatStream m) = NetCatStream_as_any (acc_store (md_fields (NetCatStream_descriptor W m) ! i) v m)"
| "object_store W i v (Obj_SetPacketCaptureRequest m) = SetPacketCaptureRequest_as_any (acc_store (md_fields (SetPacketCaptureRequest_descriptor W m) ! i) v m)"
| "object_store W i v (Obj_StartupInfo m) = StartupInfo_as_any (acc_store (md_fields (StartupInfo_descriptor W m) ! i) v m)"
| "object_store W i v (Obj_StartupInfo_Device m) = StartupInfo_Device_as_any (acc_store (md_fields (StartupInfo_Device_descriptor W m) ! i) v m)"
| "object_store W i v (Obj_ChipInfo m) = ChipInfo_as_any (acc_store (md_fields (ChipInfo_descriptor W m) ! i) v m)"
| "object_store W i v (Obj_Startup_Chip m) = Startup_Chip_as_any (acc_store (md_fields (Startup_Chip_descriptor W m) ! i) v m)"
| "object_store W i v (Obj_HCIPacket m) = HCIPacket_as_any (acc_store (md_fields (HCIPacket_descriptor W m) ! i) v m)"
| "object_store W i v (Obj_StreamPacketsRequest m) = StreamPacketsRequest_as_any (acc_store (md_fields (StreamPacketsRequest_descriptor W m) ! i) v m)"
| "object_store W i v (Obj_StreamPacketsResponse m) = StreamPacketsResponse_as_any (acc_store (md_fields (StreamPacketsResponse_descriptor W m) ! i) v m)"

fun object_storable :: "'u protobuf_rt \<Rightarrow> nat \<Rightarrow> 'u field_value \<Rightarrow> 'u message_object \<Rightarrow> bool" where
  "object_storable W i v (Obj_Position m) = (i < length (md_fields (Position_descriptor W m)) \<and> storable (md_fields (Position_descriptor W m) ! i) v)"
| "object_storable W i v (Obj_Orientation m) = (i < length (md_fields (Orientation_descriptor W m)) \<and> storable (md_fields (Orientation_descriptor W m) ! i) v)"
| "object_storable W i v (Obj_Chip m) = (i < length (md_fields (Chip_descriptor W m)) \<and> storable (md_fields (Chip_descriptor W m) ! i) v)"
| "object_storable W i v (Obj_Chip_Radio m) = (i < length (md_fields (Chip_Radio_descriptor W m)) \<and> storable (md_fields (Chip_Radio_descriptor W m) ! i) v)"
| "object_storable W i v (Obj_Chip_Bluetooth m) = (i < length (md_fields (Chip_Bluetooth_descriptor W m)) \<and> storable (md_fields (Chip_Bluetooth_descriptor W m) ! i) v)"
| "object_storable W i v (Obj_Device m) = (i < length (md_fields (Device_descriptor W m)) \<and> storable (md_fields (Device_descriptor W m) ! i) v)"
| "object_storable W i v (Obj_Scene m) = (i < length (md_fields (Scene_descriptor W m)) \<and> storable (md_fields (Scene_descriptor W m) ! i) v)"
| "object_storable W i v (Obj_VersionResponse m) = (i < length (md_fields (VersionResponse_descriptor W m)) \<and> storable (md_fields (VersionResponse_descriptor W m) ! i) v)"
| "object_storable W i v (Obj_SetLinkLossRequest m) = (i < length (md_fields (SetLinkLossRequest_descriptor W m)) \<and> storable (md_fields (SetLinkLossRequest_descriptor W m) ! i) v)"
| "object_storable W i v (Obj_UpdateDeviceRequest m) = (i < length (md_fields (UpdateDeviceRequest_descriptor W m)) \<and> storable (md_fields (UpdateDeviceRequest_descriptor W m) ! i) v)"
| "object_storable W i v (Obj_Updates m) = (i < length (md_fields (Updates_descriptor W m)) \<and> storable (md_fields (Updates_descriptor W m) ! i) v)"
| "object_storable W i v (Obj_GetDevicesResponse m) = (i < length (md_fields (GetDevicesResponse_descriptor W m)) \<and> storable (md_fields (GetDevicesResponse_descriptor W m) ! i) v)"
| "object_storable W i v (Obj_NetCatStream m) = (i < length (md_fields (NetCatStream_descriptor W m)) \<and> storable (md_fields (NetCatStream_descriptor W m) ! i) v)"
| "object_storable W i v (Obj_SetPacketCaptureRequest m) = (i < length (md_fields (SetPacketCaptureRequest_descriptor W m)) \<and> storable (md_fields (SetPacketCaptureRequest_descriptor W m) ! i) v)"
| "object_storable W i v (Obj_StartupInfo m) = (i < length (md_fields (StartupInfo_descriptor W m)) \<and> storable (md_fields (StartupInfo_descriptor W m) ! i) v)"
| "object_storable W i v (Obj_StartupInfo_Device m) = (i < length (md_fields (StartupInfo_Device_descriptor W m)) \<and> storable (md_fields (StartupInfo_Device_descriptor W m) ! i) v)"
| "object_storable W i v (Obj_ChipInfo m) = (i < length (md_fields (ChipInfo_descriptor W m)) \<and> storable (md_fields (ChipInfo_descriptor W m) ! i) v)"
| "object_storable W i v (Obj_Startup_Chip m) = (i < length (md_fields (Startup_Chip_descriptor W m)) \<and> storable (md_fields (Startup_Chip_descriptor W m) ! i) v)"
| "object_storable W i v (Obj_HCIPacket m) = (i < length (md_fields (HCIPacket_descriptor W m)) \<and> storable (md_fields (HCIPacket_descriptor W m) ! i) v)"
| "object_storable W i v (Obj_StreamPacketsRequest m) = (i < length (md_fields (StreamPacketsRequest_descriptor W m)) \<and> storable (md_fields (StreamPacketsRequest_descriptor W m) ! i) v)"
| "object_storable W i v (Obj_StreamPacketsResponse m) = (i < length (md_fields (StreamPacketsResponse_descriptor W m)) \<and> storable (md_fields (StreamPacketsResponse_descriptor W m) ! i) v)"

fun object_unknown_fields :: "'u message_object \<Rightarrow> 'u" where
  "object_unknown_fields (Obj_Position m) = Position_get_unknown_fields m"
| "object_unknown_fields (Obj_Orientation m) = Orientation_get_unknown_fields m"
| "object_unknown_fields (Obj_Chip m) = Chip_get_unknown_fields m"
| "object_unknown_fields (Obj_Chip_Radio m) = Chip_Radio_get_unknown_fields m"
| "object_unknown_fields (Obj_Chip_Bluetooth m) = Chip_Bluetooth_get_unknown_fields m"
| "object_unknown_fields (Obj_Device m) = Device_get_unknown_fields m"
| "object_unknown_fields (Obj_Scene m) = Scene_get_unknown_fields m"
| "object_unknown_fields (Obj_VersionResponse m) = VersionResponse_get_unknown_fields m"
| "object_unknown_fields (Obj_SetLinkLossRequest m) = SetLinkLossRequest_get_unknown_fields m"
| "object_unknown_fields (Obj_UpdateDeviceRequest m) = UpdateDeviceRequest_get_unknown_fields m"
| "object_unknown_fields (Obj_Updates m) = Updates_get_unknown_fields m"
| "object_unknown_fields (Obj_GetDevicesResponse m) = GetDevicesResponse_get_unknown_fields m"
| "object_unknown_fields (Obj_NetCatStream m) = NetCatStream_get_unknown_fields m"
| "object_unknown_fields (Obj_SetPacketCaptureRequest m) = SetPacketCaptureRequest_get_unknown_fields m"
| "object_unknown_fields (Obj_StartupInfo m) = StartupInfo_get_unknown_fields m"
| "object_unknown_fields (Obj_StartupInfo_Device m) = StartupInfo_Device_get_unknown_fields m"
| "object_unknown_fields (Obj_ChipInfo m) = ChipInfo_get_unknown_fields m"
| "object_unknown_fields (Obj_Startup_Chip m) = Startup_Chip_get_unknown_fields m"
| "object_unknown_fields (Obj_HCIPacket m) = HCIPacket_get_unknown_fields m"
| "object_unknown_fields (Obj_StreamPacketsRequest m) = StreamPacketsRequest_get_unknown_fields m"
| "object_unknown_fields (Obj_StreamPacketsResponse m) = StreamPacketsResponse_get_unknown_fields m"

fun object_mut_unknown_fields :: "('u \<Rightarrow> 'u) \<Rightarrow> 'u message_object \<Rightarrow> 'u message_object" where
  "object_mut_unknown_fields g (Obj_Position m) = Position_as_any (Position_mut_unknown_fields g m)"
| "object_mut_unknown_fields g (Obj_Orientation m) = Orientation_as_any (Orientation_mut_unknown_fields g m)"
| "object_mut_unknown_fields g (Obj_Chip m) = Chip_as_any (Chip_mut_unknown_fields g m)"
| "object_mut_unknown_fields g (Obj_Chip_Radio m) = Chip_Radio_as_any (Chip_Radio_mut_unknown_fields g m)"
| "object_mut_unknown_fields g (Obj_Chip_Bluetooth m) = Chip_Bluetooth_as_any (Chip_Bluetooth_mut_unknown_fields g m)"
| "object_mut_unknown_fields g (Obj_Device m) = Device_as_any (Device_mut_unknown_fields g m)"
| "object_mut_unknown_fields g (Obj_Scene m) = Scene_as_any (Scene_mut_unknown_fields g m)"
| "object_mut_unknown_fields g (Obj_VersionResponse m) = VersionResponse_as_any (VersionResponse_mut_unknown_fields g m)"
| "object_mut_unknown_fields g (Obj_SetLinkLossRequest m) = SetLinkLossRequest_as_any (SetLinkLossRequest_mut_unknown_fields g m)"
| "object_mut_unknown_fields g (Obj_UpdateDeviceRequest m) = UpdateDeviceRequest_as_any (UpdateDeviceRequest_mut_unknown_fields g m)"
| "object_mut_unknown_fields g (Obj_Updates m) = Updates_as_any (Updates_mut_unknown_fields g m)"
| "object_mut_unknown_fields g (Obj_GetDevicesResponse m) = GetDevicesResponse_as_any (GetDevicesResponse_mut_unknown_fields g m)"
| "object_mut_unknown_fields g (Obj_NetCatStream m) = NetCatStream_as_any (NetCatStream_mut_unknown_fields g m)"
| "object_mut_unknown_fields g (Obj_SetPacketCaptureRequest m) = SetPacketCaptureRequest_as_any (SetPacketCaptureRequest_mut_unknown_fields g m)"
| "object_mut_unknown_fields g (Obj_StartupInfo m) = StartupInfo_as_any (StartupInfo_mut_unknown_fields g m)"
| "object_mut_unknown_fields g (Obj_StartupInfo_Device m) = StartupInfo_Device_as_any (StartupInfo_Device_mut_unknown_fields g m)"
| "object_mut_unknown_fields g (Obj_ChipInfo m) = ChipInfo_as_any (ChipInfo_mut_unknown_fields g m)"
| "object_mut_unknown_fields g (Obj_Startup_Chip m) = Startup_Chip_as_any (Startup_Chip_mut_unknown_fields g m)"
| "object_mut_unknown_fields g (Obj_HCIPacket m) = HCIPacket_as_any (HCIPacket_mut_unknown_fields g m)"
| "object_mut_unknown_fields g (Obj_StreamPacketsRequest m) = StreamPacketsRequest_as_any (StreamPacketsRequest_mut_unknown_fields g m)"
| "object_mut_unknown_fields g (Obj_StreamPacketsResponse m) = StreamPacketsResponse_as_any (StreamPacketsResponse_mut_unknown_fields g m)"

fun new_object :: "'u protobuf_rt \<Rightarrow> type_id \<Rightarrow> 'u message_object" where
  "new_object W TypeId_Position = Position_into_any (Position_Message_new W)"
| "new_object W TypeId_Orientation = Orientation_into_any (Orientation_Message_new W)"
| "new_object W TypeId_Chip = Chip_into_any (Chip_Message_new W)"
| "new_object W TypeId_Chip_Radio = Chip_Radio_into_any (Chip_Radio_Message_new W)"
| "new_object W TypeId_Chip_Bluetooth = Chip_Bluetooth_into_any (Chip_Bluetooth_Message_new W)"
| "new_object W TypeId_Device = Device_into_any (Device_Message_new W)"
| "new_object W TypeId_Scene = Scene_into_any (Scene_Message_new W)"
| "new_object W TypeId_VersionResponse = VersionResponse_into_any (VersionResponse_Message_new W)"
| "new_object W TypeId_SetLinkLossRequest = SetLinkLossRequest_into_any (SetLinkLossRequest_Message_new W)"
| "new_object W TypeId_UpdateDeviceRequest = UpdateDeviceRequest_into_any (UpdateDeviceRequest_Message_new W)"
| "new_object W TypeId_Updates = Updates_into_any (Updates_Message_new W)"
| "new_object W TypeId_GetDevicesResponse = GetDevicesResponse_into_any (GetDevicesResponse_Message_new W)"
| "new_object W TypeId_NetCatStream = NetCatStream_into_any (NetCatStream_Message_new W)"
| "new_object W TypeId_SetPacketCaptureRequest = SetPacketCaptureRequest_into_any (SetPacketCaptureRequest_Message_new W)"
| "new_object W TypeId_StartupInfo = StartupInfo_into_any (StartupInfo_Message_new W)"
| "new_object W TypeId_StartupInfo_Device = StartupInfo_Device_into_any (StartupInfo_Device_Message_new W)"
| "new_object W TypeId_ChipInfo = ChipInfo_into_any (ChipInfo_Message_new W)"
| "new_object W TypeId_Startup_Chip = Startup_Chip_into_any (Startup_Chip_Message_new W)"
| "new_object W TypeId_HCIPacket = HCIPacket_into_any (HCIPacket_Message_new W)"
| "new_object W TypeId_StreamPacketsRequest = StreamPacketsRequest_into_any (StreamPacketsRequest_Message_new W)"
| "new_object W TypeId_StreamPacketsResponse = StreamPacketsResponse_into_any (StreamPacketsResponse_Message_new W)"

fun type_name :: "type_id \<Rightarrow> string" where
  "type_name TypeId_Position = ''.netsim.model.Position''"
| "type_name TypeId_Orientation = ''.netsim.model.Orientation''"
| "type_name TypeId_Chip = ''.netsim.model.Chip''"
| "type_name TypeId_Chip_Radio = ''.netsim.model.Chip.Radio''"
| "type_name TypeId_Chip_Bluetooth = ''.netsim.model.Chip.Bluetooth''"
| "type_name TypeId_Device = ''.netsim.model.Device''"
| "type_name TypeId_Scene = ''.netsim.model.Scene''"
| "type_name TypeId_VersionResponse = ''.netsim.frontend.VersionResponse''"
| "type_name TypeId_SetLinkLossRequest = ''.netsim.frontend.SetLinkLossRequest''"
| "type_name TypeId_UpdateDeviceRequest = ''.netsim.frontend.UpdateDeviceRequest''"
| "type_name TypeId_Updates = ''.netsim.frontend.Updates''"
| "type_name TypeId_GetDevicesResponse = ''.netsim.frontend.GetDevicesResponse''"
| "type_name TypeId_NetCatStream = ''.netsim.frontend.NetCatStream''"
| "type_name TypeId_SetPacketCaptureRequest = ''.netsim.frontend.SetPacketCaptureRequest''"
| "type_name TypeId_StartupInfo = ''.netsim.startup.StartupInfo''"
| "type_name TypeId_StartupInfo_Device = ''.netsim.startup.StartupInfo.Device''"
| "type_name TypeId_ChipInfo = ''.netsim.startup.ChipInfo''"
| "type_name TypeId_Startup_Chip = ''.netsim.startup.Chip''"
| "type_name TypeId_HCIPacket = ''.netsim.packet.HCIPacket''"
| "type_name TypeId_StreamPacketsRequest = ''.netsim.packet.StreamPacketsRequest''"
| "type_name TypeId_StreamPacketsResponse = ''.netsim.packet.StreamPacketsResponse''"

fun object_wf :: "'u protobuf_rt \<Rightarrow> 'u message_object \<Rightarrow> bool" where
  "object_wf W (Obj_Position m) = Position_wf W m"
| "object_wf W (Obj_Orientation m) = Orientation_wf W m"
| "object_wf W (Obj_Chip m) = Chip_wf W m"
| "object_wf W (Obj_Chip_Radio m) = Chip_Radio_wf W m"
| "object_wf W (Obj_Chip_Bluetooth m) = Chip_Bluetooth_wf W m"
| "object_wf W (Obj_Device m) = Device_wf W m"
| "object_wf W (Obj_Scene m) = Scene_wf W m"
| "object_wf W (Obj_VersionResponse m) = VersionResponse_wf W m"
| "object_wf W (Obj_SetLinkLossRequest m) = SetLinkLossRequest_wf W m"
| "object_wf W (Obj_UpdateDeviceRequest m) = UpdateDeviceRequest_wf W m"
| "object_wf W (Obj_Updates m) = Updates_wf W m"
| "object_wf W (Obj_GetDevicesResponse m) = GetDevicesResponse_wf W m"
| "object_wf W (Obj_NetCatStream m) = NetCatStream_wf W m"
| "object_wf W (Obj_SetPacketCaptureRequest m) = SetPacketCaptureRequest_wf W m"
| "object_wf W (Obj_StartupInfo m) = StartupInfo_wf W m"
| "object_wf W (Obj_StartupInfo_Device m) = StartupInfo_Device_wf W m"
| "object_wf W (Obj_ChipInfo m) = ChipInfo_wf W m"
| "object_wf W (Obj_Startup_Chip m) = Startup_Chip_wf W m"
| "object_wf W (Obj_HCIPacket m) = HCIPacket_wf W m"
| "object_wf W (Obj_StreamPacketsRequest m) = StreamPacketsRequest_wf W m"
| "object_wf W (Obj_StreamPacketsResponse m) = StreamPacketsResponse_wf W m"

fun object_nan_free :: "'u message_object \<Rightarrow> bool" where
  "object_nan_free (Obj_Position m) = Position_nan_free m"
| "object_nan_free (Obj_Orientation m) = Orientation_nan_free m"
| "object_nan_free (Obj_Chip m) = Chip_nan_free m"
| "object_nan_free (Obj_Chip_Radio m) = Chip_Radio_nan_free m"
| "object_nan_free (Obj_Chip_Bluetooth m) = Chip_Bluetooth_nan_free m"
| "object_nan_free (Obj_Device m) = Device_nan_free m"
| "object_nan_free (Obj_Scene m) = Scene_nan_free m"
| "object_nan_free (Obj_VersionResponse m) = True"
| "object_nan_free (Obj_SetLinkLossRequest m) = SetLinkLossRequest_nan_free m"
| "object_nan_free (Obj_UpdateDeviceRequest m) = UpdateDeviceRequest_nan_free m"
| "object_nan_free (Obj_Updates m) = Updates_nan_free m"
| "object_nan_free (Obj_GetDevicesResponse m) = GetDevicesResponse_nan_free m"
| "object_nan_free (Obj_NetCatStream m) = True"
| "object_nan_free (Obj_SetPacketCaptureRequest m) = True"
| "object_nan_free (Obj_StartupInfo m) = True"
| "object_nan_free (Obj_StartupInfo_Device m) = True"
| "object_nan_free (Obj_ChipInfo m) = True"
| "object_nan_free (Obj_Startup_Chip m) = True"
| "object_nan_free (Obj_HCIPacket m) = True"
| "object_nan_free (Obj_StreamPacketsRequest m) = True"
| "object_nan_free (Obj_StreamPacketsResponse m) = True"

fun object_eq :: "'u crate_eq \<Rightarrow> 'u message_object \<Rightarrow> 'u message_object \<Rightarrow> bool" where
  "object_eq Q (Obj_Position m) b = (case downcast_Position b of None \<Rightarrow> False | Some n \<Rightarrow> Position_eq Q m n)"
| "object_eq Q (Obj_Orientation m) b = (case downcast_Orientation b of None \<Rightarrow> False | Some n \<Rightarrow> Orientation_eq Q m n)"
| "object_eq Q (Obj_Chip m) b = (case downcast_Chip b of None \<Rightarrow> False | Some n \<Rightarrow> Chip_eq Q m n)"
| "object_eq Q (Obj_Chip_Radio m) b = (case downcast_Chip_Radio b of None \<Rightarrow> False | Some n \<Rightarrow> Chip_Radio_eq Q m n)"
| "object_eq Q (Obj_Chip_Bluetooth m) b = (case downcast_Chip_Bluetooth b of None \<Rightarrow> False | Some n \<Rightarrow> Chip_Bluetooth_eq Q m n)"
| "object_eq Q (Obj_Device m) b = (case downcast_Device b of None \<Rightarrow> False | Some n \<Rightarrow> Device_eq Q m n)"
| "object_eq Q (Obj_Scene m) b = (case downcast_Scene b of None \<Rightarrow> False | Some n \<Rightarrow> Scene_eq Q m n)"
| "object_eq Q (Obj_VersionResponse m) b = (case downcast_VersionResponse b of None \<Rightarrow> False | Some n \<Rightarrow> VersionResponse_eq Q m n)"
| "object_eq Q (Obj_SetLinkLossRequest m) b = (case downcast_SetLinkLossRequest b of None \<Rightarrow> False | Some n \<Rightarrow> SetLinkLossRequest_eq Q m n)"
| "object_eq Q (Obj_UpdateDeviceRequest m) b = (case downcast_UpdateDeviceRequest b of None \<Rightarrow> False | Some n \<Rightarrow> UpdateDeviceRequest_eq Q m n)"
| "object_eq Q (Obj_Updates m) b = (case downcast_Updates b of None \<Rightarrow> False | Some n \<Rightarrow> Updates_eq Q m n)"
| "object_eq Q (Obj_GetDevicesResponse m) b = (case downcast_GetDevicesResponse b of None \<Rightarrow> False | Some n \<Rightarrow> GetDevicesResponse_eq Q m n)"
| "object_eq Q (Obj_NetCatStream m) b = (case downcast_NetCatStream b of None \<Rightarrow> False | Some n \<Rightarrow> NetCatStream_eq Q m n)"
| "object_eq Q (Obj_SetPacketCaptureRequest m) b = (case downcast_SetPacketCaptureRequest b of None \<Rightarrow> False | Some n \<Rightarrow> SetPacketCaptureRequest_eq Q m n)"
| "object_eq Q (Obj_StartupInfo m) b = (case downcast_StartupInfo b of None \<Rightarrow> False | Some n \<Rightarrow> StartupInfo_eq Q m n)"
| "object_eq Q (Obj_StartupInfo_Device m) b = (case downcast_StartupInfo_Device b of None \<Rightarrow> False | Some n \<Rightarrow> StartupInfo_Device_eq Q m n)"
| "object_eq Q (Obj_ChipInfo m) b = (case downcast_ChipInfo b of None \<Rightarrow> False | Some n \<Rightarrow> ChipInfo_eq Q m n)"
| "object_eq Q (Obj_Startup_Chip m) b = (case downcast_Startup_Chip b of None \<Rightarrow> False | Some n \<Rightarrow> Startup_Chip_eq Q m n)"
| "object_eq Q (Obj_HCIPacket m) b = (case downcast_HCIPacket b of None \<Rightarrow> False | Some n \<Rightarrow> HCIPacket_eq Q m n)"
| "object_eq Q (Obj_StreamPacketsRequest m) b = (case downcast_StreamPacketsRequest b of None \<Rightarrow> False | Some n \<Rightarrow> StreamPacketsRequest_eq Q m n)"
| "object_eq Q (Obj_StreamPacketsResponse m) b = (case downcast_StreamPacketsResponse b of None \<Rightarrow> False | Some n \<Rightarrow> StreamPacketsResponse_eq Q m n)"

fun object_write_to_bytes :: "'u protobuf_rt \<Rightarrow> 'u message_object \<Rightarrow> pb_error + bytes" where
  "object_write_to_bytes W (Obj_Position m) =
     write_to_bytes Position_is_initialized (Position_compute_size W) (Position_write_to_with_cached_sizes W) m"
| "object_write_to_bytes W (Obj_Orientation m) =
     write_to_bytes Orientation_is_initialized (Orientation_compute_size W) (Orientation_write_to_with_cached_sizes W) m"
| "object_write_to_bytes W (Obj_Chip m) =
     write_to_bytes Chip_is_initialized (Chip_compute_size W) (Chip_write_to_with_cached_sizes W) m"
| "object_write_to_bytes W (Obj_Chip_Radio m) =
     write_to_bytes Chip_Radio_is_initialized (Chip_Radio_compute_size W) (Chip_Radio_write_to_with_cached_sizes W) m"
| "object_write_to_bytes W (Obj_Chip_Bluetooth m) =
     write_to_bytes Chip_Bluetooth_is_initialized (Chip_Bluetooth_compute_size W) (Chip_Bluetooth_write_to_with_cached_sizes W) m"
| "object_write_to_bytes W (Obj_Device m) =
     write_to_bytes Device_is_initialized (Device_compute_size W) (Device_write_to_with_cached_sizes W) m"
| "object_write_to_bytes W (Obj_Scene m) =
     write_to_bytes Scene_is_initialized (Scene_compute_size W) (Scene_write_to_with_cached_sizes W) m"
| "object_write_to_bytes W (Obj_VersionResponse m) =
     write_to_bytes VersionResponse_is_initialized (VersionResponse_compute_size W) (VersionResponse_write_to_with_cached_sizes W) m"
| "object_write_to_bytes W (Obj_SetLinkLossRequest m) =
     write_to_bytes SetLinkLossRequest_is_initialized (SetLinkLossRequest_compute_size W) (SetLinkLossRequest_write_to_with_cached_sizes W) m"
| "object_write_to_bytes W (Obj_UpdateDeviceRequest m) =
     write_to_bytes UpdateDeviceRequest_is_initialized (UpdateDeviceRequest_compute_size W) (UpdateDeviceRequest_write_to_with_cached_sizes W) m"
| "object_write_to_bytes W (Obj_Updates m) =
     write_to_bytes Updates_is_initialized (Updates_compute_size W) (Updates_write_to_with_cached_sizes W) m"
| "object_write_to_bytes W (Obj_GetDevicesResponse m) =
     write_to_bytes GetDevicesResponse_is_initialized (GetDevicesResponse_compute_size W) (GetDevicesResponse_write_to_with_cached_sizes W) m"
| "object_write_to_bytes W (Obj_NetCatStream m) =
     write_to_bytes NetCatStream_is_initialized (NetCatStream_compute_size W) (NetCatStream_write_to_with_cached_sizes W) m"
| "object_write_to_bytes W (Obj_SetPacketCaptureRequest m) =
     write_to_bytes SetPacketCaptureRequest_is_initialized (SetPacketCaptureRequest_compute_size W) (SetPacketCaptureRequest_write_to_with_cached_sizes W) m"
| "object_write_to_bytes W (Obj_StartupInfo m) =
     write_to_bytes StartupInfo_is_initialized (StartupInfo_compute_size W) (StartupInfo_write_to_with_cached_sizes W) m"
| "object_write_to_bytes W (Obj_StartupInfo_Device m) =
     write_to_bytes StartupInfo_Device_is_initialized (StartupInfo_Device_compute_size W) (StartupInfo_Device_write_to_with_cached_sizes W) m"
| "object_write_to_bytes W (Obj_ChipInfo m) =
     write_to_bytes ChipInfo_is_initialized (ChipInfo_compute_size W) (ChipInfo_write_to_with_cached_sizes W) m"
| "object_write_to_bytes W (Obj_Startup_Chip m) =
     write_to_bytes Startup_Chip_is_initialized (Startup_Chip_compute_size W) (Startup_Chip_write_to_with_cached_sizes W) m"
| "object_write_to_bytes W (Obj_HCIPacket m) =
     write_to_bytes HCIPacket_is_initialized (HCIPacket_compute_size W) (HCIPacket_write_to_with_cached_sizes W) m"
| "object_write_to_bytes W (Obj_StreamPacketsRequest m) =
     write_to_bytes StreamPacketsRequest_is_initialized (StreamPacketsRequest_compute_size W) (StreamPacketsRequest_write_to_with_cached_sizes W) m"
| "object_write_to_bytes W (Obj_StreamPacketsResponse m) =
     write_to_bytes StreamPacketsResponse_is_initialized (StreamPacketsResponse_compute_size W) (StreamPacketsResponse_write_to_with_cached_sizes W) m"

fun object_parse_from_bytes :: "'u protobuf_rt \<Rightarrow> type_id \<Rightarrow> bytes \<Rightarrow> pb_error + 'u message_object" where
  "object_parse_from_bytes W TypeId_Position b = bindE (parse_from_bytes (Position_new W) Position_is_initialized (Position_merge_from W) b)
     (\<lambda>m. Ok (Position_as_any m))"
| "object_parse_from_bytes W TypeId_Orientation b = bindE (parse_from_bytes (Orientation_new W) Orientation_is_initialized (Orientation_merge_from W) b)
     (\<lambda>m. Ok (Orientation_as_any m))"
| "object_parse_from_bytes W TypeId_Chip b = bindE (parse_from_bytes (Chip_new W) Chip_is_initialized (Chip_merge_from W) b)
     (\<lambda>m. Ok (Chip_as_any m))"
| "object_parse_from_bytes W TypeId_Chip_Radio b = bindE (parse_from_bytes (Chip_Radio_new W) Chip_Radio_is_initialized (Chip_Radio_merge_from W) b)
     (\<lambda>m. Ok (Chip_Radio_as_any m))"
| "object_parse_from_bytes W TypeId_Chip_Bluetooth b = bindE (parse_from_bytes (Chip_Bluetooth_new W) Chip_Bluetooth_is_initialized (Chip_Bluetooth_merge_from W) b)
     (\<lambda>m. Ok (Chip_Bluetooth_as_any m))"
| "object_parse_from_bytes W TypeId_Device b = bindE (parse_from_bytes (Device_new W) Device_is_initialized (Device_merge_from W) b)
     (\<lambda>m. Ok (Device_as_any m))"
| "object_parse_from_bytes W TypeId_Scene b = bindE (parse_from_bytes (Scene_new W) Scene_is_initialized (Scene_merge_from W) b)
     (\<lambda>m. Ok (Scene_as_any m))"
| "object_parse_from_bytes W TypeId_VersionResponse b = bindE (parse_from_bytes (VersionResponse_new W) VersionResponse_is_initialized (VersionResponse_merge_from W) b)
     (\<lambda>m. Ok (VersionResponse_as_any m))"
| "object_parse_from_bytes W TypeId_SetLinkLossRequest b = bindE (parse_from_bytes (SetLinkLossRequest_new W) SetLinkLossRequest_is_initialized (SetLinkLossRequest_merge_from W) b)
     (\<lambda>m. Ok (SetLinkLossRequest_as_any m))"
| "object_parse_from_bytes W TypeId_UpdateDeviceRequest b = bindE (parse_from_bytes (UpdateDeviceRequest_new W) UpdateDeviceRequest_is_initialized (UpdateDeviceRequest_merge_from W) b)
     (\<lambda>m. Ok (UpdateDeviceRequest_as_any m))"
| "object_parse_from_bytes W TypeId_Updates b = bindE (parse_from_bytes (Updates_new W) Updates_is_initialized (Updates_merge_from W) b)
     (\<lambda>m. Ok (Updates_as_any m))"
| "object_parse_from_bytes W TypeId_GetDevicesResponse b = bindE (parse_from_bytes (GetDevicesResponse_new W) GetDevicesResponse_is_initialized (GetDevicesResponse_merge_from W) b)
     (\<lambda>m. Ok (GetDevicesResponse_as_any m))"
| "object_parse_from_bytes W TypeId_NetCatStream b = bindE (parse_from_bytes (NetCatStream_new W) NetCatStream_is_initialized (NetCatStream_merge_from W) b)
     (\<lambda>m. Ok (NetCatStream_as_any m))"
| "object_parse_from_bytes W TypeId_SetPacketCaptureRequest b = bindE (parse_from_bytes (SetPacketCaptureRequest_new W) SetPacketCaptureRequest_is_initialized (SetPacketCaptureRequest_merge_from W) b)
     (\<lambda>m. Ok (SetPacketCaptureRequest_as_any m))"
| "object_parse_from_bytes W TypeId_StartupInfo b = bindE (parse_from_bytes (StartupInfo_new W) StartupInfo_is_initialized (StartupInfo_merge_from W) b)
     (\<lambda>m. Ok (StartupInfo_as_any m))"
| "object_parse_from_bytes W TypeId_StartupInfo_Device b = bindE (parse_from_bytes (StartupInfo_Device_new W) StartupInfo_Device_is_initialized (StartupInfo_Device_merge_from W) b)
     (\<lambda>m. Ok (StartupInfo_Device_as_any m))"
| "object_parse_from_bytes W TypeId_ChipInfo b = bindE (parse_from_bytes (ChipInfo_new W) ChipInfo_is_initialized (ChipInfo_merge_from W) b)
     (\<lambda>m. Ok (ChipInfo_as_any m))"
| "object_parse_from_bytes W TypeId_Startup_Chip b = bindE (parse_from_bytes (Startup_Chip_new W) Startup_Chip_is_initialized (Startup_Chip_merge_from W) b)
     (\<lambda>m. Ok (Startup_Chip_as_any m))"
| "object_parse_from_bytes W TypeId_HCIPacket b = bindE (parse_from_bytes (HCIPacket_new W) HCIPacket_is_initialized (HCIPacket_merge_from W) b)
     (\<lambda>m. Ok (HCIPacket_as_any m))"
| "object_parse_from_bytes W TypeId_StreamPacketsRequest b = bindE (parse_from_bytes (StreamPacketsRequest_new W) StreamPacketsRequest_is_initialized (StreamPacketsRequest_merge_from W) b)
     (\<lambda>m. Ok (StreamPacketsRequest_as_any m))"
| "object_parse_from_bytes W TypeId_StreamPacketsResponse b = bindE (parse_from_bytes (StreamPacketsResponse_new W) StreamPacketsResponse_is_initialized (StreamPacketsResponse_merge_from W) b)
     (\<lambda>m. Ok (StreamPacketsResponse_as_any m))"

fun object_canon :: "'u message_object \<Rightarrow> 'u message_object" where
  "object_canon (Obj_Position m) = Obj_Position (Position_canon m)"
| "object_canon (Obj_Orientation m) = Obj_Orientation (Orientation_canon m)"
| "object_canon (Obj_Chip m) = Obj_Chip (Chip_canon m)"
| "object_canon (Obj_Chip_Radio m) = Obj_Chip_Radio (Chip_Radio_canon m)"
| "object_canon (Obj_Chip_Bluetooth m) = Obj_Chip_Bluetooth (Chip_Bluetooth_canon m)"
| "object_canon (Obj_Device m) = Obj_Device (Device_canon m)"
| "object_canon (Obj_Scene m) = Obj_Scene (Scene_canon m)"
| "object_canon (Obj_VersionResponse m) = Obj_VersionResponse (VersionResponse_canon m)"
| "object_canon (Obj_SetLinkLossRequest m) = Obj_SetLinkLossRequest (SetLinkLossRequest_canon m)"
| "object_canon (Obj_UpdateDeviceRequest m) = Obj_UpdateDeviceRequest (UpdateDeviceRequest_canon m)"
| "object_canon (Obj_Updates m) = Obj_Updates (Updates_canon m)"
| "object_canon (Obj_GetDevicesResponse m) = Obj_GetDevicesResponse (GetDevicesResponse_canon m)"
| "object_canon (Obj_NetCatStream m) = Obj_NetCatStream (NetCatStream_canon m)"
| "object_canon (Obj_SetPacketCaptureRequest m) = Obj_SetPacketCaptureRequest (SetPacketCaptureRequest_canon m)"
| "object_canon (Obj_StartupInfo m) = Obj_StartupInfo (StartupInfo_canon m)"
| "object_canon (Obj_StartupInfo_Device m) = Obj_StartupInfo_Device (StartupInfo_Device_canon m)"
| "object_canon (Obj_ChipInfo m) = Obj_ChipInfo (ChipInfo_canon m)"
| "object_canon (Obj_Startup_Chip m) = Obj_Startup_Chip (Startup_Chip_canon m)"
| "object_canon (Obj_HCIPacket m) = Obj_HCIPacket (HCIPacket_canon m)"
| "object_canon (Obj_StreamPacketsRequest m) = Obj_StreamPacketsRequest (StreamPacketsRequest_canon m)"
| "object_canon (Obj_StreamPacketsResponse m) = Obj_StreamPacketsResponse (StreamPacketsResponse_canon m)"

section \<open>Every object keeps to its own table\<close>

lemmas object_calls = Position_descriptor_def Orientation_descriptor_def Chip_descriptor_def Chip_Radio_descriptor_def Chip_Bluetooth_descriptor_def Device_descriptor_def Scene_descriptor_def VersionResponse_descriptor_def SetLinkLossRequest_descriptor_def UpdateDeviceRequest_descriptor_def Updates_descriptor_def GetDevicesResponse_descriptor_def NetCatStream_descriptor_def SetPacketCaptureRequest_descriptor_def StartupInfo_descriptor_def StartupInfo_Device_descriptor_def ChipInfo_descriptor_def Startup_Chip_descriptor_def HCIPacket_descriptor_def StreamPacketsRequest_descriptor_def StreamPacketsResponse_descriptor_def Position_as_any_def Orientation_as_any_def Chip_as_any_def Chip_Radio_as_any_def Chip_Bluetooth_as_any_def Device_as_any_def Scene_as_any_def VersionResponse_as_any_def SetLinkLossRequest_as_any_def UpdateDeviceRequest_as_any_def Updates_as_any_def GetDevicesResponse_as_any_def NetCatStream_as_any_def SetPacketCaptureRequest_as_any_def StartupInfo_as_any_def StartupInfo_Device_as_any_def ChipInfo_as_any_def Startup_Chip_as_any_def HCIPacket_as_any_def StreamPacketsRequest_as_any_def StreamPacketsResponse_as_any_def Position_into_any_def Orientation_into_any_def Chip_into_any_def Chip_Radio_into_any_def Chip_Bluetooth_into_any_def Device_into_any_def Scene_into_any_def VersionResponse_into_any_def SetLinkLossRequest_into_any_def UpdateDeviceRequest_into_any_def Updates_into_any_def GetDevicesResponse_into_any_def NetCatStream_into_any_def SetPacketCaptureRequest_into_any_def StartupInfo_into_any_def StartupInfo_Device_into_any_def ChipInfo_into_any_def Startup_Chip_into_any_def HCIPacket_into_any_def StreamPacketsRequest_into_any_def StreamPacketsResponse_into_any_def Position_Message_new_def Orientation_Message_new_def Chip_Message_new_def Chip_Radio_Message_new_def Chip_Bluetooth_Message_new_def Device_Message_new_def Scene_Message_new_def VersionResponse_Message_new_def SetLinkLossRequest_Message_new_def UpdateDeviceRequest_Message_new_def Updates_Message_new_def GetDevicesResponse_Message_new_def NetCatStream_Message_new_def SetPacketCaptureRequest_Message_new_def StartupInfo_Message_new_def StartupInfo_Device_Message_new_def ChipInfo_Message_new_def Startup_Chip_Message_new_def HCIPacket_Message_new_def StreamPacketsRequest_Message_new_def StreamPacketsResponse_Message_new_def Position_get_unknown_fields_def Orientation_get_unknown_fields_def Chip_get_unknown_fields_def Chip_Radio_get_unknown_fields_def Chip_Bluetooth_get_unknown_fields_def Device_get_unknown_fields_def Scene_get_unknown_fields_def VersionResponse_get_unknown_fields_def SetLinkLossRequest_get_unknown_fields_def UpdateDeviceRequest_get_unknown_fields_def Updates_get_unknown_fields_def GetDevicesResponse_get_unknown_fields_def NetCatStream_get_unknown_fields_def SetPacketCaptureRequest_get_unknown_fields_def StartupInfo_get_unknown_fields_def StartupInfo_Device_get_unknown_fields_def ChipInfo_get_unknown_fields_def Startup_Chip_get_unknown_fields_def HCIPacket_get_unknown_fields_def StreamPacketsRequest_get_unknown_fields_def StreamPacketsResponse_get_unknown_fields_def Position_mut_unknown_fields_def Orientation_mut_unknown_fields_def Chip_mut_unknown_fields_def Chip_Radio_mut_unknown_fields_def Chip_Bluetooth_mut_unknown_fields_def Device_mut_unknown_fields_def Scene_mut_unknown_fields_def VersionResponse_mut_unknown_fields_def SetLinkLossRequest_mut_unknown_fields_def UpdateDeviceRequest_mut_unknown_fields_def Updates_mut_unknown_fields_def GetDevicesResponse_mut_unknown_fields_def NetCatStream_mut_unknown_fields_def SetPacketCaptureRequest_mut_unknown_fields_def StartupInfo_mut_unknown_fields_def StartupInfo_Device_mut_unknown_fields_def ChipInfo_mut_unknown_fields_def Startup_Chip_mut_unknown_fields_def HCIPacket_mut_unknown_fields_def StreamPacketsRequest_mut_unknown_fields_def StreamPacketsResponse_mut_unknown_fields_def

lemmas all_merges = Position_merges Orientation_merges Chip_merges Chip_Radio_merges Chip_Bluetooth_merges Device_merges Scene_merges VersionResponse_merges SetLinkLossRequest_merges UpdateDeviceRequest_merges Updates_merges GetDevicesResponse_merges NetCatStream_merges SetPacketCaptureRequest_merges StartupInfo_merges StartupInfo_Device_merges ChipInfo_merges Startup_Chip_merges HCIPacket_merges StreamPacketsRequest_merges StreamPacketsResponse_merges
lemmas all_writes = Position_writes Orientation_writes Chip_writes Chip_Radio_writes Chip_Bluetooth_writes Device_writes Scene_writes VersionResponse_writes SetLinkLossRequest_writes UpdateDeviceRequest_writes Updates_writes GetDevicesResponse_writes NetCatStream_writes SetPacketCaptureRequest_writes StartupInfo_writes StartupInfo_Device_writes ChipInfo_writes Startup_Chip_writes HCIPacket_writes StreamPacketsRequest_writes StreamPacketsResponse_writes
lemmas all_sizes = Position_sizes Orientation_sizes Chip_sizes Chip_Radio_sizes Chip_Bluetooth_sizes Device_sizes Scene_sizes VersionResponse_sizes SetLinkLossRequest_sizes UpdateDeviceRequest_sizes Updates_sizes GetDevicesResponse_sizes NetCatStream_sizes SetPacketCaptureRequest_sizes StartupInfo_sizes StartupInfo_Device_sizes ChipInfo_sizes Startup_Chip_sizes HCIPacket_sizes StreamPacketsRequest_sizes StreamPacketsResponse_sizes
lemmas all_starts = Position_starts Orientation_starts Chip_starts Chip_Radio_starts Chip_Bluetooth_starts Device_starts Scene_starts VersionResponse_starts SetLinkLossRequest_starts UpdateDeviceRequest_starts Updates_starts GetDevicesResponse_starts NetCatStream_starts SetPacketCaptureRequest_starts StartupInfo_starts StartupInfo_Device_starts ChipInfo_starts Startup_Chip_starts HCIPacket_starts StreamPacketsRequest_starts StreamPacketsResponse_starts
lemmas all_stores = Position_stores Orientation_stores Chip_stores Chip_Radio_stores Chip_Bluetooth_stores Device_stores Scene_stores VersionResponse_stores SetLinkLossRequest_stores UpdateDeviceRequest_stores Updates_stores GetDevicesResponse_stores NetCatStream_stores SetPacketCaptureRequest_stores StartupInfo_stores StartupInfo_Device_stores ChipInfo_stores Startup_Chip_stores HCIPacket_stores StreamPacketsRequest_stores StreamPacketsResponse_stores

lemma by_table_rules:
  "merges_by_table W D merge \<Longrightarrow>
    bindE (merge m b) (\<lambda>m'. Ok (snapshot D m')) = dyn_merge W (layout D) (snapshot D m) b"
  "writes_by_table W D write \<Longrightarrow> write m = dyn_write W (layout D) (snapshot D m)"
  "sizes_by_table W D compute \<Longrightarrow> fst (compute m) = dyn_size W (layout D) (snapshot D m)"
  "starts_by_table W D new clear \<Longrightarrow> snapshot D new = (map default_value (layout D), uf_new W)"
  "starts_by_table W D new clear \<Longrightarrow> snapshot D (clear m) = (map default_value (layout D), uf_new W)"
  "stores_by_table D \<Longrightarrow> i < length (md_fields D) \<Longrightarrow> storable (md_fields D ! i) v \<Longrightarrow>
    snapshot D (acc_store (md_fields D ! i) v m) = ((fst (snapshot D m))[i := v], unknown_fields m)"
  by (simp_all add: merges_by_table_def writes_by_table_def sizes_by_table_def starts_by_table_def stores_by_table_def)

lemma bind_wrapped:
  "bindE (bindE r (\<lambda>m. Ok (wrp m))) (\<lambda>a. Ok (f a)) = bindE r (\<lambda>m. Ok (f (wrp m)))"
  by (cases r) simp_all

lemma fst_case_pair: "fst (case p of (n, m) \<Rightarrow> (n, f m)) = fst p"
  by (cases p) simp

lemma object_reads:
  "bindE (object_merge_from W a b) (\<lambda>a. Ok (object_values W a)) = dyn_merge W (object_layout W a) (object_values W a) b"
  by (cases a) (simp_all only: object_merge_from.simps object_values.simps object_layout.simps object_calls
      bind_wrapped all_merges [THEN by_table_rules(1)])

lemma object_writes:
  "object_write W a = dyn_write W (object_layout W a) (object_values W a)"
  by (cases a) (simp_all only: object_write.simps object_values.simps object_layout.simps object_calls
      all_writes [THEN by_table_rules(2)])

lemma object_sizes:
  "fst (object_compute_size W a) = dyn_size W (object_layout W a) (object_values W a)"
  by (cases a) (simp_all only: object_compute_size.simps object_values.simps object_layout.simps object_calls
      fst_case_pair all_sizes [THEN by_table_rules(3)])

lemma object_starts:
  "object_values W (object_clear W a) = (map default_value (object_layout W a), uf_new W)"
  "object_values W (new_object W (any_type_id a)) = (map default_value (object_layout W a), uf_new W)"
  by (cases a; simp only: object_clear.simps new_object.simps any_type_id.simps object_values.simps
      object_layout.simps object_calls all_starts [THEN by_table_rules(4)] all_starts [THEN by_table_rules(5)])+

lemma object_stores:
  "object_storable W i v a \<Longrightarrow>
    object_values W (object_store W i v a) = ((fst (object_values W a))[i := v], object_unknown_fields a)"
  by (cases a) (simp_all only: object_storable.simps object_store.simps object_values.simps
      object_unknown_fields.simps object_calls all_stores [THEN by_table_rules(6)])

section \<open>The descriptor names the type\<close>

lemma object_name: "object_descriptor_name W a = type_name (any_type_id a)"
  by (cases a) (simp_all add: object_calls full_name_def Position_descriptor_static_def Orientation_descriptor_static_def Chip_descriptor_static_def Chip_Radio_descriptor_static_def Chip_Bluetooth_descriptor_static_def Device_descriptor_static_def Scene_descriptor_static_def VersionResponse_descriptor_static_def SetLinkLossRequest_descriptor_static_def UpdateDeviceRequest_descriptor_static_def Updates_descriptor_static_def GetDevicesResponse_descriptor_static_def NetCatStream_descriptor_static_def SetPacketCaptureRequest_descriptor_static_def StartupInfo_descriptor_static_def StartupInfo_Device_descriptor_static_def ChipInfo_descriptor_static_def Startup_Chip_descriptor_static_def HCIPacket_descriptor_static_def StreamPacketsRequest_descriptor_static_def StreamPacketsResponse_descriptor_static_def
      model_decoded model_schema_def frontend_decoded frontend_schema_def startup_decoded startup_schema_def
      hci_packet_decoded hci_packet_schema_def packet_streamer_decoded packet_streamer_schema_def)

lemma type_name_inject: "type_name s = type_name t \<longleftrightarrow> s = t"
  by (cases s; cases t) simp_all

section \<open>Round trips and equality of all messages\<close>

definition object_bytes :: "'u protobuf_rt \<Rightarrow> 'u message_object \<Rightarrow> bytes" where
  "object_bytes W a = object_write W (snd (object_compute_size W a))"

lemma snd_case_pair: "snd (case p of (n, m) \<Rightarrow> (n, f m)) = f (snd p)"
  by (cases p) simp

lemmas object_bytes_simps = object_bytes_def object_compute_size.simps object_write.simps snd_case_pair object_calls

context message_equality
begin

lemmas all_round_trips = Position_eq.round_trip_equal Orientation_eq.round_trip_equal Chip_eq.round_trip_equal Chip_Radio_eq.round_trip_equal Chip_Bluetooth_eq.round_trip_equal Device_eq.round_trip_equal Scene_eq.round_trip_equal VersionResponse_eq.round_trip_equal SetLinkLossRequest_eq.round_trip_equal UpdateDeviceRequest_eq.round_trip_equal Updates_eq.round_trip_equal GetDevicesResponse_eq.round_trip_equal NetCatStream_eq.round_trip_equal SetPacketCaptureRequest_eq.round_trip_equal StartupInfo_eq.round_trip_equal StartupInfo_Device_eq.round_trip_equal ChipInfo_eq.round_trip_equal Startup_Chip_eq.round_trip_equal HCIPacket_eq.round_trip_equal StreamPacketsRequest_eq.round_trip_equal StreamPacketsResponse_eq.round_trip_equal
lemmas all_eq_iff_bytes = Position_eq.eq_iff_bytes Orientation_eq.eq_iff_bytes Chip_eq.eq_iff_bytes Chip_Radio_eq.eq_iff_bytes Chip_Bluetooth_eq.eq_iff_bytes Device_eq.eq_iff_bytes Scene_eq.eq_iff_bytes VersionResponse_eq.eq_iff_bytes SetLinkLossRequest_eq.eq_iff_bytes UpdateDeviceRequest_eq.eq_iff_bytes Updates_eq.eq_iff_bytes GetDevicesResponse_eq.eq_iff_bytes NetCatStream_eq.eq_iff_bytes SetPacketCaptureRequest_eq.eq_iff_bytes StartupInfo_eq.eq_iff_bytes StartupInfo_Device_eq.eq_iff_bytes ChipInfo_eq.eq_iff_bytes Startup_Chip_eq.eq_iff_bytes HCIPacket_eq.eq_iff_bytes StreamPacketsRequest_eq.eq_iff_bytes StreamPacketsResponse_eq.eq_iff_bytes

lemma object_write_to_bytes:
  "object_wf W a \<Longrightarrow> length (object_bytes W a) < 2 ^ 32 \<Longrightarrow> object_write_to_bytes W a = Inr (object_bytes W a)"
  by (cases a) (simp_all only: object_bytes_simps object_wf.simps object_write_to_bytes.simps all_round_trips)

lemma object_parse:
  "object_wf W a \<Longrightarrow> length (object_bytes W a) < 2 ^ 32 \<Longrightarrow>
    object_parse_from_bytes W (any_type_id a) (object_bytes W a) = Inr (object_canon a)"
  by (cases a) (simp_all only: object_bytes_simps object_wf.simps object_parse_from_bytes.simps any_type_id.simps
      object_canon.simps all_round_trips bindE.simps)

lemma object_rewrite:
  "object_wf W a \<Longrightarrow> length (object_bytes W a) < 2 ^ 32 \<Longrightarrow>
    object_write_to_bytes W (object_canon a) = Inr (object_bytes W a)"
  by (cases a) (simp_all only: object_bytes_simps object_wf.simps object_write_to_bytes.simps
      object_canon.simps all_round_trips)

lemma object_eq_canon:
  "object_wf W a \<Longrightarrow> length (object_bytes W a) < 2 ^ 32 \<Longrightarrow> object_eq Q a (object_canon a) \<longleftrightarrow> object_nan_free a"
  by (cases a) (simp_all only: object_bytes_simps object_wf.simps object_eq.simps object_nan_free.simps
      object_canon.simps all_round_trips downcast_Position_def downcast_Orientation_def downcast_Chip_def downcast_Chip_Radio_def downcast_Chip_Bluetooth_def downcast_Device_def downcast_Scene_def downcast_VersionResponse_def downcast_SetLinkLossRequest_def downcast_UpdateDeviceRequest_def downcast_Updates_def downcast_GetDevicesResponse_def downcast_NetCatStream_def downcast_SetPacketCaptureRequest_def downcast_StartupInfo_def downcast_StartupInfo_Device_def downcast_ChipInfo_def downcast_Startup_Chip_def downcast_HCIPacket_def downcast_StreamPacketsRequest_def downcast_StreamPacketsResponse_def message_object.case option.case)

lemma object_eq_iff_bytes:
  "any_type_id a = any_type_id b \<Longrightarrow> object_wf W a \<Longrightarrow> object_wf W b \<Longrightarrow> length (object_bytes W a) < 2 ^ 32 \<Longrightarrow>
    object_eq Q a b \<longleftrightarrow> object_nan_free a \<and> object_bytes W a = object_bytes W b"
  by (cases a; cases b) (simp_all only: object_bytes_simps object_wf.simps object_eq.simps object_nan_free.simps
      any_type_id.simps type_id.distinct all_eq_iff_bytes downcast_Position_def downcast_Orientation_def downcast_Chip_def downcast_Chip_Radio_def downcast_Chip_Bluetooth_def downcast_Device_def downcast_Scene_def downcast_VersionResponse_def downcast_SetLinkLossRequest_def downcast_UpdateDeviceRequest_def downcast_Updates_def downcast_GetDevicesResponse_def downcast_NetCatStream_def downcast_SetPacketCaptureRequest_def downcast_StartupInfo_def downcast_StartupInfo_Device_def downcast_ChipInfo_def downcast_Startup_Chip_def downcast_HCIPacket_def downcast_StreamPacketsRequest_def downcast_StreamPacketsResponse_def message_object.case option.case)

end

lemma object_canon_type [simp]: "any_type_id (object_canon a) = any_type_id a"
  by (cases a) simp_all

lemma object_merge_type:
  "object_merge_from W a b = Inr a' \<Longrightarrow> any_type_id a' = any_type_id a"
  by (cases a) (auto simp: object_calls bindE_Inr_iff)

lemma object_other_types:
  "any_type_id (object_clear W a) = any_type_id a"
  "any_type_id (snd (object_compute_size W a)) = any_type_id a"
  by (cases a; simp add: object_calls snd_case_pair)+

section \<open>Properties\<close>

text \<open>C11: Every \<^verbatim>\<open>dyn Message\<close> behaves as its own \<^verbatim>\<open>descriptor()\<close> says: reading into it, writing it and computing
  its size are one reader, one writer and one size function, driven by the table and the
  description that the descriptor names, whichever of the 21 types the object has.\<close>

theorem objects_obey_descriptor:
  "bindE (object_merge_from W a b) (\<lambda>a. Ok (object_values W a)) = dyn_merge W (object_layout W a) (object_values W a) b \<and>
    object_write W a = dyn_write W (object_layout W a) (object_values W a) \<and>
    fst (object_compute_size W a) = dyn_size W (object_layout W a) (object_values W a)"
  by (intro conjI) (rule object_reads object_writes object_sizes)+




text \<open>C12: Every message without unknown fields, of any of the 21 types, whose encoding is shorter than \<open>2 ^ 32\<close>
  bytes survives a round trip: it can be written, the bytes are read as an object of the same type, that
  object is written as the same bytes, and the code's own \<^verbatim>\<open>==\<close> says that it is the original, except if a
  float in it is a NaN.\<close>

theorem objects_round_trip:
  assumes "message_equality W Q" and "object_wf W a" and "length (object_bytes W a) < 2 ^ 32"
  shows "\<exists>b a'. object_write_to_bytes W a = Inr b \<and> object_parse_from_bytes W (any_type_id a) b = Inr a' \<and>
    any_type_id a' = any_type_id a \<and> object_write_to_bytes W a' = Inr b \<and>
    (object_eq Q a a' = object_nan_free a)"
  using message_equality.object_write_to_bytes [OF assms] message_equality.object_parse [OF assms]
    message_equality.object_rewrite [OF assms] message_equality.object_eq_canon [OF assms] object_canon_type
  by blast

text \<open>A radio that is on, with a range of minus zero, and the same radio with a range of zero.\<close>

definition sample_radio :: "f32 \<Rightarrow> bytes message_object" where
  "sample_radio r = Obj_Chip_Radio ((Chip_Radio_new std_wire)\<lparr>Chip_Radio_state := State_ON, Chip_Radio_range := r\<rparr>)"

lemma on_state_length: "length (tag (Suc 0) WireTypeVarint) + length (int32_bytes 1) = 2"
  by code_simp

lemma sample_radio_facts:
  "object_wf std_wire (sample_radio r)" "any_type_id (sample_radio r) = any_type_id (sample_radio s)"
  "f32_is_zero r \<Longrightarrow> length (object_bytes std_wire (sample_radio r)) < 2 ^ 32"
  "f32_is_zero r \<Longrightarrow> object_nan_free (sample_radio r)"
  using on_state_length
  by (simp_all add: sample_radio_def object_bytes_def object_calls Chip_Radio_wf_def Chip_Radio_new_def
      Chip_Radio_compute_size_def Chip_Radio_write_to_with_cached_sizes_def Chip_Radio_nan_free_def std_wire_def Let_def)

lemma objects_round_trip_witness:
  "\<exists>b a'. object_write_to_bytes std_wire (sample_radio 0x80000000) = Inr b \<and>
    object_parse_from_bytes std_wire TypeId_Chip_Radio b = Inr a' \<and> object_eq std_eq (sample_radio 0x80000000) a'"
  using objects_round_trip [OF std_equality.message_equality_axioms sample_radio_facts(1,3), of "0x80000000"]
    sample_radio_facts(4) [of "0x80000000"]
  by (auto simp: f32_is_zero_def sample_radio_def)

text \<open>C30: For messages of one type without unknown fields and without NaN, the derived \<^verbatim>\<open>==\<close> is equality of the
  written bytes: the tests that compare requests by their bytes compare the requests.\<close>

theorem objects_equal_iff_bytes:
  assumes "message_equality W Q" and "any_type_id a = any_type_id b" and "object_wf W a" and "object_wf W b"
    and "length (object_bytes W a) < 2 ^ 32" and "object_nan_free a"
  shows "object_eq Q a b \<longleftrightarrow> object_bytes W a = object_bytes W b"
  using message_equality.object_eq_iff_bytes [OF assms(1-5)] assms(6) by simp

lemma objects_equal_iff_bytes_witness:
  "object_eq std_eq (sample_radio 0x80000000) (sample_radio 0) \<longleftrightarrow>
    object_bytes std_wire (sample_radio 0x80000000) = object_bytes std_wire (sample_radio 0)"
  using objects_equal_iff_bytes [OF std_equality.message_equality_axioms sample_radio_facts(2,1,1,3,4)]
  by (simp add: f32_is_zero_def)

end
