(* ===== verification/Object_Join.thy ===== *)
theory Object_Join
  imports Object_Properties
begin

text \<open>
  Encodings put one behind the other, for objects of all types: they are read as one message, to which every
  encoding contributes the fields that it sets. \<open>object_join\<close> says how, field by field (\<open>C_join\<close>
  of the messages): a value replaces the one before, the entries of lists are collected, the last alternative
  of a \<^verbatim>\<open>oneof\<close> stays.
\<close>

fun object_join :: "'u protobuf_rt \<Rightarrow> 'u message_object \<Rightarrow> 'u message_object \<Rightarrow> 'u message_object" where
  "object_join W (Obj_Position a) b = Obj_Position (case downcast_Position b of Some m \<Rightarrow> Position_join W a m | None \<Rightarrow> a)"
| "object_join W (Obj_Orientation a) b = Obj_Orientation (case downcast_Orientation b of Some m \<Rightarrow> Orientation_join W a m | None \<Rightarrow> a)"
| "object_join W (Obj_Chip a) b = Obj_Chip (case downcast_Chip b of Some m \<Rightarrow> Chip_join W a m | None \<Rightarrow> a)"
| "object_join W (Obj_Chip_Radio a) b = Obj_Chip_Radio (case downcast_Chip_Radio b of Some m \<Rightarrow> Chip_Radio_join W a m | None \<Rightarrow> a)"
| "object_join W (Obj_Chip_Bluetooth a) b = Obj_Chip_Bluetooth (case downcast_Chip_Bluetooth b of Some m \<Rightarrow> Chip_Bluetooth_join W a m | None \<Rightarrow> a)"
| "object_join W (Obj_Device a) b = Obj_Device (case downcast_Device b of Some m \<Rightarrow> Device_join W a m | None \<Rightarrow> a)"
| "object_join W (Obj_Scene a) b = Obj_Scene (case downcast_Scene b of Some m \<Rightarrow> Scene_join W a m | None \<Rightarrow> a)"
| "object_join W (Obj_VersionResponse a) b = Obj_VersionResponse (case downcast_VersionResponse b of Some m \<Rightarrow> VersionResponse_join W a m | None \<Rightarrow> a)"
| "object_join W (Obj_SetLinkLossRequest a) b = Obj_SetLinkLossRequest (case downcast_SetLinkLossRequest b of Some m \<Rightarrow> SetLinkLossRequest_join W a m | None \<Rightarrow> a)"
| "object_join W (Obj_UpdateDeviceRequest a) b = Obj_UpdateDeviceRequest (case downcast_UpdateDeviceRequest b of Some m \<Rightarrow> UpdateDeviceRequest_join W a m | None \<Rightarrow> a)"
| "object_join W (Obj_Updates a) b = Obj_Updates (case downcast_Updates b of Some m \<Rightarrow> Updates_join W a m | None \<Rightarrow> a)"
| "object_join W (Obj_GetDevicesResponse a) b = Obj_GetDevicesResponse (case downcast_GetDevicesResponse b of Some m \<Rightarrow> GetDevicesResponse_join W a m | None \<Rightarrow> a)"
| "object_join W (Obj_NetCatStream a) b = Obj_NetCatStream (case downcast_NetCatStream b of Some m \<Rightarrow> NetCatStream_join W a m | None \<Rightarrow> a)"
| "object_join W (Obj_SetPacketCaptureRequest a) b = Obj_SetPacketCaptureRequest (case downcast_SetPacketCaptureRequest b of Some m \<Rightarrow> SetPacketCaptureRequest_join W a m | None \<Rightarrow> a)"
| "object_join W (Obj_StartupInfo a) b = Obj_StartupInfo (case downcast_StartupInfo b of Some m \<Rightarrow> StartupInfo_join W a m | None \<Rightarrow> a)"
| "object_join W (Obj_StartupInfo_Device a) b = Obj_StartupInfo_Device (case downcast_StartupInfo_Device b of Some m \<Rightarrow> StartupInfo_Device_join W a m | None \<Rightarrow> a)"
| "object_join W (Obj_ChipInfo a) b = Obj_ChipInfo (case downcast_ChipInfo b of Some m \<Rightarrow> ChipInfo_join W a m | None \<Rightarrow> a)"
| "object_join W (Obj_Startup_Chip a) b = Obj_Startup_Chip (case downcast_Startup_Chip b of Some m \<Rightarrow> Startup_Chip_join W a m | None \<Rightarrow> a)"
| "object_join W (Obj_HCIPacket a) b = Obj_HCIPacket (case downcast_HCIPacket b of Some m \<Rightarrow> HCIPacket_join W a m | None \<Rightarrow> a)"
| "object_join W (Obj_StreamPacketsRequest a) b = Obj_StreamPacketsRequest (case downcast_StreamPacketsRequest b of Some m \<Rightarrow> StreamPacketsRequest_join W a m | None \<Rightarrow> a)"
| "object_join W (Obj_StreamPacketsResponse a) b = Obj_StreamPacketsResponse (case downcast_StreamPacketsResponse b of Some m \<Rightarrow> StreamPacketsResponse_join W a m | None \<Rightarrow> a)"

lemmas downcasts = downcast_Position_def downcast_Orientation_def downcast_Chip_def downcast_Chip_Radio_def downcast_Chip_Bluetooth_def downcast_Device_def downcast_Scene_def downcast_VersionResponse_def downcast_SetLinkLossRequest_def downcast_UpdateDeviceRequest_def downcast_Updates_def downcast_GetDevicesResponse_def downcast_NetCatStream_def downcast_SetPacketCaptureRequest_def downcast_StartupInfo_def downcast_StartupInfo_Device_def downcast_ChipInfo_def downcast_Startup_Chip_def downcast_HCIPacket_def downcast_StreamPacketsRequest_def downcast_StreamPacketsResponse_def

lemma object_join_type [simp]: "any_type_id (object_join W a b) = any_type_id a"
  by (cases a) simp_all

context protobuf_runtime
begin

lemmas all_join = Position.joins Orientation.joins Chip.joins Chip_Radio.joins Chip_Bluetooth.joins Device.joins Scene.joins VersionResponse.joins SetLinkLossRequest.joins UpdateDeviceRequest.joins Updates.joins GetDevicesResponse.joins NetCatStream.joins SetPacketCaptureRequest.joins StartupInfo.joins StartupInfo_Device.joins ChipInfo.joins Startup_Chip.joins HCIPacket.joins StreamPacketsRequest.joins StreamPacketsResponse.joins
lemmas all_parse_merges = Position.parse_merges Orientation.parse_merges Chip.parse_merges Chip_Radio.parse_merges Chip_Bluetooth.parse_merges Device.parse_merges Scene.parse_merges VersionResponse.parse_merges SetLinkLossRequest.parse_merges UpdateDeviceRequest.parse_merges Updates.parse_merges GetDevicesResponse.parse_merges NetCatStream.parse_merges SetPacketCaptureRequest.parse_merges StartupInfo.parse_merges StartupInfo_Device.parse_merges ChipInfo.parse_merges Startup_Chip.parse_merges HCIPacket.parse_merges StreamPacketsRequest.parse_merges StreamPacketsResponse.parse_merges
lemmas all_merge_Nil = Position.merge_Nil Orientation.merge_Nil Chip.merge_Nil Chip_Radio.merge_Nil Chip_Bluetooth.merge_Nil Device.merge_Nil Scene.merge_Nil VersionResponse.merge_Nil SetLinkLossRequest.merge_Nil UpdateDeviceRequest.merge_Nil Updates.merge_Nil GetDevicesResponse.merge_Nil NetCatStream.merge_Nil SetPacketCaptureRequest.merge_Nil StartupInfo.merge_Nil StartupInfo_Device.merge_Nil ChipInfo.merge_Nil Startup_Chip.merge_Nil HCIPacket.merge_Nil StreamPacketsRequest.merge_Nil StreamPacketsResponse.merge_Nil

lemma object_joins:
  "any_type_id a = any_type_id b \<Longrightarrow> object_wf W b \<Longrightarrow> length (object_bytes W b) < 2 ^ 32 \<Longrightarrow>
    object_merge_from W a (object_bytes W b @ r) = object_merge_from W (object_join W a b) r"
  by (cases a; cases b) (simp_all only: object_bytes_simps object_wf.simps object_merge_from.simps object_join.simps
      any_type_id.simps type_id.distinct downcasts message_object.case option.case all_join)

lemma object_parse_merges: "object_parse_from_bytes W t b = object_merge_from W (new_object W t) b"
  by (cases t) (simp_all add: object_calls all_parse_merges)

lemma object_merge_Nil: "object_merge_from W a [] = Inr a"
  by (cases a) (simp_all add: object_calls all_merge_Nil)

lemma objects_joined:
  "list_all (\<lambda>b. any_type_id b = any_type_id a \<and> object_wf W b \<and> length (object_bytes W b) < 2 ^ 32) bs \<Longrightarrow>
    object_merge_from W a (concat (map (object_bytes W) bs)) = Inr (foldl (object_join W) a bs)"
proof (induction bs arbitrary: a)
  case (Cons b bs)
  then show ?case
    using object_joins [of a b "concat (map (object_bytes W) bs)"] by simp
qed (simp add: object_merge_Nil)

end

lemma new_object_type [simp]: "any_type_id (new_object W t) = t"
  by (cases t) (simp_all add: object_calls)

section \<open>The property\<close>


lemma zero_range: "f32_is_zero 0x80000000"
  by (simp add: f32_is_zero_def)


end
