(* ===== verification/Pb_Join.thy ===== *)
theory Pb_Join
  imports Pb_Packet Pb_Frontend
begin

text \<open>
  The algebra of reading into a message that is there: \<open>C_join\<close> of a well-formed message is associative, a new message
  is neutral to it, it keeps messages well-formed, and of the message that was written only what is transmitted matters. The
  contract \<open>joined_message\<close> extends \<open>pb_message\<close> by these laws; a message with embedded messages keeps it because
  they do.
\<close>

section \<open>The contract\<close>

lemma join_scalar_laws [simp]:
  "join_scalar d a d = a" "join_scalar d (join_scalar d a b) c = join_scalar d a (join_scalar d b c)"
  by (simp_all add: join_scalar_def)

lemma join_scalar_utf8 [simp]: "utf8 a \<Longrightarrow> utf8 b \<Longrightarrow> utf8 (join_scalar d a b)"
  by (simp add: join_scalar_def)

lemma canon_f32_simps [simp]: "f32_is_zero (canon_f32 v) = f32_is_zero v" "canon_f32 0 = 0"
  by (auto simp: canon_f32_def f32_is_zero_def)

lemma join_float_laws [simp]:
  "join_float a 0 = a" "join_float (join_float a b) c = join_float a (join_float b c)"
  "canon_f32 (join_float a b) = join_float (canon_f32 a) b" "join_float a (canon_f32 b) = join_float a b"
  by (auto simp: join_float_def canon_f32_def f32_is_zero_def)

lemma join_absent [simp]: "join_optional W new join a None = a"
  by (simp add: join_optional_def)

lemma join_no_alternative [simp]: "join_oneof canon a None = a"
  by (simp add: join_oneof_def)

locale joined_message = pb_message +
  assumes wf_new: "wf new"
    and canon_new: "canon new = new"
    and join_unit: "join a new = a"
    and join_wf: "wf a \<Longrightarrow> wf b \<Longrightarrow> wf (join a b)"
    and join_canon: "wf b \<Longrightarrow> canon (join a b) = join (canon a) b"
    and join_canon_right: "wf b \<Longrightarrow> join a (canon b) = join a b"
    and join_assoc: "wf b \<Longrightarrow> wf c \<Longrightarrow> join (join a b) c = join a (join b c)"
begin

lemma wf_canon: "wf b \<Longrightarrow> wf (canon b)"
  using join_wf [OF wf_new, of b] by (simp add: join_new)

lemma canon_twice: "wf b \<Longrightarrow> canon (canon b) = canon b"
  using join_canon [of b new] by (simp add: join_new canon_new)

lemma optional_join:
  assumes "pred_option wf y"
  shows "pred_option wf x \<Longrightarrow> pred_option wf (join_optional W new join x y)"
    and "map_option canon (join_optional W new join x y) = join_optional W new join (map_option canon x) y"
    and "join_optional W new join x (map_option canon y) = join_optional W new join x y"
  using assms
  by (cases x; cases y; simp add: join_optional_def join_wf wf_new join_canon canon_new join_canon_right)+

lemma optional_join_assoc:
  assumes "pred_option wf y" and "pred_option wf z"
  shows "join_optional W new join (join_optional W new join x y) z = join_optional W new join x (join_optional W new join y z)"
  using assms
  by (cases x; cases y; cases z) (simp_all add: join_optional_def join_assoc join_new canon_new join_wf join_canon join_canon_right canon_twice)

lemma repeated_join:
  assumes "list_all wf ys"
  shows "list_all wf (map canon ys)" and "map (canon \<circ> canon) ys = map canon ys"
  using assms by (induction ys) (simp_all add: wf_canon canon_twice)

text \<open>Several messages read one after the other.\<close>

lemma joined_wf: "list_all wf bs \<Longrightarrow> wf a \<Longrightarrow> wf (foldl join a bs)"
  by (induction bs arbitrary: a) (simp_all add: join_wf)

lemma joined_canon: "list_all wf bs \<Longrightarrow> canon (foldl join a bs) = foldl join (canon a) bs"
  by (induction bs arbitrary: a) (simp_all add: join_canon)

lemma joined_split: "list_all wf bs \<Longrightarrow> foldl join a bs = join a (foldl join new bs)"
  by (induction bs rule: rev_induct) (simp_all add: join_unit join_assoc joined_wf wf_new)

end

section \<open>The messages keep the contract\<close>

sublocale protobuf_runtime < Position_jn: joined_message W "Position_new W" Position_is_initialized "Position_compute_size W"
    "Position_write_to_with_cached_sizes W" Position_get_cached_size "Position_merge_from W" "Position_wf W" Position_canon "Position_join W"
  by unfold_locales (simp_all add: Position_new_def Position_wf_def Position_canon_def Position_join_def ball_Un )

sublocale protobuf_runtime < Orientation_jn: joined_message W "Orientation_new W" Orientation_is_initialized "Orientation_compute_size W"
    "Orientation_write_to_with_cached_sizes W" Orientation_get_cached_size "Orientation_merge_from W" "Orientation_wf W" Orientation_canon "Orientation_join W"
  by unfold_locales (simp_all add: Orientation_new_def Orientation_wf_def Orientation_canon_def Orientation_join_def ball_Un )

sublocale protobuf_runtime < Chip_Radio_jn: joined_message W "Chip_Radio_new W" Chip_Radio_is_initialized "Chip_Radio_compute_size W"
    "Chip_Radio_write_to_with_cached_sizes W" Chip_Radio_get_cached_size "Chip_Radio_merge_from W" "Chip_Radio_wf W" Chip_Radio_canon "Chip_Radio_join W"
  by unfold_locales (simp_all add: Chip_Radio_new_def Chip_Radio_wf_def Chip_Radio_canon_def Chip_Radio_join_def ball_Un )

sublocale protobuf_runtime < Chip_Bluetooth_jn: joined_message W "Chip_Bluetooth_new W" Chip_Bluetooth_is_initialized "Chip_Bluetooth_compute_size W"
    "Chip_Bluetooth_write_to_with_cached_sizes W" Chip_Bluetooth_get_cached_size "Chip_Bluetooth_merge_from W" "Chip_Bluetooth_wf W" Chip_Bluetooth_canon "Chip_Bluetooth_join W"
  by unfold_locales (simp_all add: Chip_Bluetooth_new_def Chip_Bluetooth_wf_def Chip_Bluetooth_canon_def Chip_Bluetooth_join_def ball_Un Chip_Radio_jn.optional_join Chip_Radio_jn.optional_join_assoc)

context protobuf_runtime
begin

lemma Chip_oneof_chip_jn:
  "Chip_oneof_chip_wf W v \<Longrightarrow> Chip_oneof_chip_wf W (Chip_oneof_chip_canon v)"
  "Chip_oneof_chip_wf W v \<Longrightarrow> Chip_oneof_chip_canon (Chip_oneof_chip_canon v) = Chip_oneof_chip_canon v"
  by (cases v; simp add: Chip_Bluetooth_jn.wf_canon Chip_Bluetooth_jn.canon_twice Chip_Radio_jn.wf_canon Chip_Radio_jn.canon_twice)+

lemma Chip_oneof_chip_join:
  assumes "pred_option (Chip_oneof_chip_wf W) y"
  shows "pred_option (Chip_oneof_chip_wf W) x \<Longrightarrow> pred_option (Chip_oneof_chip_wf W) (join_oneof Chip_oneof_chip_canon x y)"
    and "map_option Chip_oneof_chip_canon (join_oneof Chip_oneof_chip_canon x y) = join_oneof Chip_oneof_chip_canon (map_option Chip_oneof_chip_canon x) y"
    and "join_oneof Chip_oneof_chip_canon x (map_option Chip_oneof_chip_canon y) = join_oneof Chip_oneof_chip_canon x y"
    and "pred_option (Chip_oneof_chip_wf W) z \<Longrightarrow>
      join_oneof Chip_oneof_chip_canon (join_oneof Chip_oneof_chip_canon x y) z = join_oneof Chip_oneof_chip_canon x (join_oneof Chip_oneof_chip_canon y z)"
  using assms by (cases x; cases y; cases z; simp add: join_oneof_def Chip_oneof_chip_jn)+

end

sublocale protobuf_runtime < Chip_jn: joined_message W "Chip_new W" Chip_is_initialized "Chip_compute_size W"
    "Chip_write_to_with_cached_sizes W" Chip_get_cached_size "Chip_merge_from W" "Chip_wf W" Chip_canon "Chip_join W"
  by unfold_locales (simp_all add: Chip_new_def Chip_wf_def Chip_canon_def Chip_join_def ball_Un Chip_oneof_chip_join)

sublocale protobuf_runtime < Device_jn: joined_message W "Device_new W" Device_is_initialized "Device_compute_size W"
    "Device_write_to_with_cached_sizes W" Device_get_cached_size "Device_merge_from W" "Device_wf W" Device_canon "Device_join W"
  by unfold_locales (simp_all add: Device_new_def Device_wf_def Device_canon_def Device_join_def ball_Un Position_jn.optional_join Position_jn.optional_join_assoc Orientation_jn.optional_join Orientation_jn.optional_join_assoc Chip_jn.repeated_join)

sublocale protobuf_runtime < Scene_jn: joined_message W "Scene_new W" Scene_is_initialized "Scene_compute_size W"
    "Scene_write_to_with_cached_sizes W" Scene_get_cached_size "Scene_merge_from W" "Scene_wf W" Scene_canon "Scene_join W"
  by unfold_locales (simp_all add: Scene_new_def Scene_wf_def Scene_canon_def Scene_join_def ball_Un Device_jn.repeated_join)

sublocale protobuf_runtime < VersionResponse_jn: joined_message W "VersionResponse_new W" VersionResponse_is_initialized "VersionResponse_compute_size W"
    "VersionResponse_write_to_with_cached_sizes W" VersionResponse_get_cached_size "VersionResponse_merge_from W" "VersionResponse_wf W" VersionResponse_canon "VersionResponse_join W"
  by unfold_locales (simp_all add: VersionResponse_new_def VersionResponse_wf_def VersionResponse_canon_def VersionResponse_join_def ball_Un )

sublocale protobuf_runtime < SetLinkLossRequest_jn: joined_message W "SetLinkLossRequest_new W" SetLinkLossRequest_is_initialized "SetLinkLossRequest_compute_size W"
    "SetLinkLossRequest_write_to_with_cached_sizes W" SetLinkLossRequest_get_cached_size "SetLinkLossRequest_merge_from W" "SetLinkLossRequest_wf W" SetLinkLossRequest_canon "SetLinkLossRequest_join W"
  by unfold_locales (simp_all add: SetLinkLossRequest_new_def SetLinkLossRequest_wf_def SetLinkLossRequest_canon_def SetLinkLossRequest_join_def ball_Un )

sublocale protobuf_runtime < UpdateDeviceRequest_jn: joined_message W "UpdateDeviceRequest_new W" UpdateDeviceRequest_is_initialized "UpdateDeviceRequest_compute_size W"
    "UpdateDeviceRequest_write_to_with_cached_sizes W" UpdateDeviceRequest_get_cached_size "UpdateDeviceRequest_merge_from W" "UpdateDeviceRequest_wf W" UpdateDeviceRequest_canon "UpdateDeviceRequest_join W"
  by unfold_locales (simp_all add: UpdateDeviceRequest_new_def UpdateDeviceRequest_wf_def UpdateDeviceRequest_canon_def UpdateDeviceRequest_join_def ball_Un Device_jn.optional_join Device_jn.optional_join_assoc)

sublocale protobuf_runtime < Updates_jn: joined_message W "Updates_new W" Updates_is_initialized "Updates_compute_size W"
    "Updates_write_to_with_cached_sizes W" Updates_get_cached_size "Updates_merge_from W" "Updates_wf W" Updates_canon "Updates_join W"
  by unfold_locales (simp_all add: Updates_new_def Updates_wf_def Updates_canon_def Updates_join_def ball_Un Device_jn.repeated_join)

sublocale protobuf_runtime < GetDevicesResponse_jn: joined_message W "GetDevicesResponse_new W" GetDevicesResponse_is_initialized "GetDevicesResponse_compute_size W"
    "GetDevicesResponse_write_to_with_cached_sizes W" GetDevicesResponse_get_cached_size "GetDevicesResponse_merge_from W" "GetDevicesResponse_wf W" GetDevicesResponse_canon "GetDevicesResponse_join W"
  by unfold_locales (simp_all add: GetDevicesResponse_new_def GetDevicesResponse_wf_def GetDevicesResponse_canon_def GetDevicesResponse_join_def ball_Un Device_jn.repeated_join)

sublocale protobuf_runtime < NetCatStream_jn: joined_message W "NetCatStream_new W" NetCatStream_is_initialized "NetCatStream_compute_size W"
    "NetCatStream_write_to_with_cached_sizes W" NetCatStream_get_cached_size "NetCatStream_merge_from W" "NetCatStream_wf W" NetCatStream_canon "NetCatStream_join W"
  by unfold_locales (simp_all add: NetCatStream_new_def NetCatStream_wf_def NetCatStream_canon_def NetCatStream_join_def ball_Un )

sublocale protobuf_runtime < SetPacketCaptureRequest_jn: joined_message W "SetPacketCaptureRequest_new W" SetPacketCaptureRequest_is_initialized "SetPacketCaptureRequest_compute_size W"
    "SetPacketCaptureRequest_write_to_with_cached_sizes W" SetPacketCaptureRequest_get_cached_size "SetPacketCaptureRequest_merge_from W" "SetPacketCaptureRequest_wf W" SetPacketCaptureRequest_canon "SetPacketCaptureRequest_join W"
  by unfold_locales (simp_all add: SetPacketCaptureRequest_new_def SetPacketCaptureRequest_wf_def SetPacketCaptureRequest_canon_def SetPacketCaptureRequest_join_def ball_Un )

sublocale protobuf_runtime < Startup_Chip_jn: joined_message W "Startup_Chip_new W" Startup_Chip_is_initialized "Startup_Chip_compute_size W"
    "Startup_Chip_write_to_with_cached_sizes W" Startup_Chip_get_cached_size "Startup_Chip_merge_from W" "Startup_Chip_wf W" Startup_Chip_canon "Startup_Chip_join W"
  by unfold_locales (simp_all add: Startup_Chip_new_def Startup_Chip_wf_def Startup_Chip_canon_def Startup_Chip_join_def ball_Un )

sublocale protobuf_runtime < StartupInfo_Device_jn: joined_message W "StartupInfo_Device_new W" StartupInfo_Device_is_initialized "StartupInfo_Device_compute_size W"
    "StartupInfo_Device_write_to_with_cached_sizes W" StartupInfo_Device_get_cached_size "StartupInfo_Device_merge_from W" "StartupInfo_Device_wf W" StartupInfo_Device_canon "StartupInfo_Device_join W"
  by unfold_locales (simp_all add: StartupInfo_Device_new_def StartupInfo_Device_wf_def StartupInfo_Device_canon_def StartupInfo_Device_join_def ball_Un Startup_Chip_jn.repeated_join)

sublocale protobuf_runtime < StartupInfo_jn: joined_message W "StartupInfo_new W" StartupInfo_is_initialized "StartupInfo_compute_size W"
    "StartupInfo_write_to_with_cached_sizes W" StartupInfo_get_cached_size "StartupInfo_merge_from W" "StartupInfo_wf W" StartupInfo_canon "StartupInfo_join W"
  by unfold_locales (simp_all add: StartupInfo_new_def StartupInfo_wf_def StartupInfo_canon_def StartupInfo_join_def ball_Un StartupInfo_Device_jn.repeated_join)

sublocale protobuf_runtime < ChipInfo_jn: joined_message W "ChipInfo_new W" ChipInfo_is_initialized "ChipInfo_compute_size W"
    "ChipInfo_write_to_with_cached_sizes W" ChipInfo_get_cached_size "ChipInfo_merge_from W" "ChipInfo_wf W" ChipInfo_canon "ChipInfo_join W"
  by unfold_locales (simp_all add: ChipInfo_new_def ChipInfo_wf_def ChipInfo_canon_def ChipInfo_join_def ball_Un Startup_Chip_jn.optional_join Startup_Chip_jn.optional_join_assoc)

sublocale protobuf_runtime < HCIPacket_jn: joined_message W "HCIPacket_new W" HCIPacket_is_initialized "HCIPacket_compute_size W"
    "HCIPacket_write_to_with_cached_sizes W" HCIPacket_get_cached_size "HCIPacket_merge_from W" "HCIPacket_wf W" HCIPacket_canon "HCIPacket_join W"
  by unfold_locales (simp_all add: HCIPacket_new_def HCIPacket_wf_def HCIPacket_canon_def HCIPacket_join_def ball_Un )

context protobuf_runtime
begin

lemma StreamPacketsRequest_oneof_request_type_jn:
  "StreamPacketsRequest_oneof_request_type_wf W v \<Longrightarrow> StreamPacketsRequest_oneof_request_type_wf W (StreamPacketsRequest_oneof_request_type_canon v)"
  "StreamPacketsRequest_oneof_request_type_wf W v \<Longrightarrow> StreamPacketsRequest_oneof_request_type_canon (StreamPacketsRequest_oneof_request_type_canon v) = StreamPacketsRequest_oneof_request_type_canon v"
  by (cases v; simp add: ChipInfo_jn.wf_canon ChipInfo_jn.canon_twice HCIPacket_jn.wf_canon HCIPacket_jn.canon_twice)+

lemma StreamPacketsRequest_oneof_request_type_join:
  assumes "pred_option (StreamPacketsRequest_oneof_request_type_wf W) y"
  shows "pred_option (StreamPacketsRequest_oneof_request_type_wf W) x \<Longrightarrow> pred_option (StreamPacketsRequest_oneof_request_type_wf W) (join_oneof StreamPacketsRequest_oneof_request_type_canon x y)"
    and "map_option StreamPacketsRequest_oneof_request_type_canon (join_oneof StreamPacketsRequest_oneof_request_type_canon x y) = join_oneof StreamPacketsRequest_oneof_request_type_canon (map_option StreamPacketsRequest_oneof_request_type_canon x) y"
    and "join_oneof StreamPacketsRequest_oneof_request_type_canon x (map_option StreamPacketsRequest_oneof_request_type_canon y) = join_oneof StreamPacketsRequest_oneof_request_type_canon x y"
    and "pred_option (StreamPacketsRequest_oneof_request_type_wf W) z \<Longrightarrow>
      join_oneof StreamPacketsRequest_oneof_request_type_canon (join_oneof StreamPacketsRequest_oneof_request_type_canon x y) z = join_oneof StreamPacketsRequest_oneof_request_type_canon x (join_oneof StreamPacketsRequest_oneof_request_type_canon y z)"
  using assms by (cases x; cases y; cases z; simp add: join_oneof_def StreamPacketsRequest_oneof_request_type_jn)+

end

sublocale protobuf_runtime < StreamPacketsRequest_jn: joined_message W "StreamPacketsRequest_new W" StreamPacketsRequest_is_initialized "StreamPacketsRequest_compute_size W"
    "StreamPacketsRequest_write_to_with_cached_sizes W" StreamPacketsRequest_get_cached_size "StreamPacketsRequest_merge_from W" "StreamPacketsRequest_wf W" StreamPacketsRequest_canon "StreamPacketsRequest_join W"
  by unfold_locales (simp_all add: StreamPacketsRequest_new_def StreamPacketsRequest_wf_def StreamPacketsRequest_canon_def StreamPacketsRequest_join_def ball_Un StreamPacketsRequest_oneof_request_type_join)

context protobuf_runtime
begin

lemma StreamPacketsResponse_oneof_response_type_jn:
  "StreamPacketsResponse_oneof_response_type_wf W v \<Longrightarrow> StreamPacketsResponse_oneof_response_type_wf W (StreamPacketsResponse_oneof_response_type_canon v)"
  "StreamPacketsResponse_oneof_response_type_wf W v \<Longrightarrow> StreamPacketsResponse_oneof_response_type_canon (StreamPacketsResponse_oneof_response_type_canon v) = StreamPacketsResponse_oneof_response_type_canon v"
  by (cases v; simp add: HCIPacket_jn.wf_canon HCIPacket_jn.canon_twice)+

lemma StreamPacketsResponse_oneof_response_type_join:
  assumes "pred_option (StreamPacketsResponse_oneof_response_type_wf W) y"
  shows "pred_option (StreamPacketsResponse_oneof_response_type_wf W) x \<Longrightarrow> pred_option (StreamPacketsResponse_oneof_response_type_wf W) (join_oneof StreamPacketsResponse_oneof_response_type_canon x y)"
    and "map_option StreamPacketsResponse_oneof_response_type_canon (join_oneof StreamPacketsResponse_oneof_response_type_canon x y) = join_oneof StreamPacketsResponse_oneof_response_type_canon (map_option StreamPacketsResponse_oneof_response_type_canon x) y"
    and "join_oneof StreamPacketsResponse_oneof_response_type_canon x (map_option StreamPacketsResponse_oneof_response_type_canon y) = join_oneof StreamPacketsResponse_oneof_response_type_canon x y"
    and "pred_option (StreamPacketsResponse_oneof_response_type_wf W) z \<Longrightarrow>
      join_oneof StreamPacketsResponse_oneof_response_type_canon (join_oneof StreamPacketsResponse_oneof_response_type_canon x y) z = join_oneof StreamPacketsResponse_oneof_response_type_canon x (join_oneof StreamPacketsResponse_oneof_response_type_canon y z)"
  using assms by (cases x; cases y; cases z; simp add: join_oneof_def StreamPacketsResponse_oneof_response_type_jn)+

end

sublocale protobuf_runtime < StreamPacketsResponse_jn: joined_message W "StreamPacketsResponse_new W" StreamPacketsResponse_is_initialized "StreamPacketsResponse_compute_size W"
    "StreamPacketsResponse_write_to_with_cached_sizes W" StreamPacketsResponse_get_cached_size "StreamPacketsResponse_merge_from W" "StreamPacketsResponse_wf W" StreamPacketsResponse_canon "StreamPacketsResponse_join W"
  by unfold_locales (simp_all add: StreamPacketsResponse_new_def StreamPacketsResponse_wf_def StreamPacketsResponse_canon_def StreamPacketsResponse_join_def ball_Un StreamPacketsResponse_oneof_response_type_join)

end
