(* ===== verification/Object_Compact.thy ===== *)
theory Object_Compact
  imports Object_Join Pb_Join
begin

text \<open>
  Compaction, for objects of all types: in a sequence of encodings, any run may be replaced by the one encoding of the
  message that the run is read as, because \<open>object_join\<close> is associative (\<open>joined_message\<close> for each type).
\<close>

lemma object_of_type:
  "any_type_id b = TypeId_Position \<longleftrightarrow> (\<exists>m. b = Obj_Position m)"
  "any_type_id b = TypeId_Orientation \<longleftrightarrow> (\<exists>m. b = Obj_Orientation m)"
  "any_type_id b = TypeId_Chip \<longleftrightarrow> (\<exists>m. b = Obj_Chip m)"
  "any_type_id b = TypeId_Chip_Radio \<longleftrightarrow> (\<exists>m. b = Obj_Chip_Radio m)"
  "any_type_id b = TypeId_Chip_Bluetooth \<longleftrightarrow> (\<exists>m. b = Obj_Chip_Bluetooth m)"
  "any_type_id b = TypeId_Device \<longleftrightarrow> (\<exists>m. b = Obj_Device m)"
  "any_type_id b = TypeId_Scene \<longleftrightarrow> (\<exists>m. b = Obj_Scene m)"
  "any_type_id b = TypeId_VersionResponse \<longleftrightarrow> (\<exists>m. b = Obj_VersionResponse m)"
  "any_type_id b = TypeId_SetLinkLossRequest \<longleftrightarrow> (\<exists>m. b = Obj_SetLinkLossRequest m)"
  "any_type_id b = TypeId_UpdateDeviceRequest \<longleftrightarrow> (\<exists>m. b = Obj_UpdateDeviceRequest m)"
  "any_type_id b = TypeId_Updates \<longleftrightarrow> (\<exists>m. b = Obj_Updates m)"
  "any_type_id b = TypeId_GetDevicesResponse \<longleftrightarrow> (\<exists>m. b = Obj_GetDevicesResponse m)"
  "any_type_id b = TypeId_NetCatStream \<longleftrightarrow> (\<exists>m. b = Obj_NetCatStream m)"
  "any_type_id b = TypeId_SetPacketCaptureRequest \<longleftrightarrow> (\<exists>m. b = Obj_SetPacketCaptureRequest m)"
  "any_type_id b = TypeId_StartupInfo \<longleftrightarrow> (\<exists>m. b = Obj_StartupInfo m)"
  "any_type_id b = TypeId_StartupInfo_Device \<longleftrightarrow> (\<exists>m. b = Obj_StartupInfo_Device m)"
  "any_type_id b = TypeId_ChipInfo \<longleftrightarrow> (\<exists>m. b = Obj_ChipInfo m)"
  "any_type_id b = TypeId_Startup_Chip \<longleftrightarrow> (\<exists>m. b = Obj_Startup_Chip m)"
  "any_type_id b = TypeId_HCIPacket \<longleftrightarrow> (\<exists>m. b = Obj_HCIPacket m)"
  "any_type_id b = TypeId_StreamPacketsRequest \<longleftrightarrow> (\<exists>m. b = Obj_StreamPacketsRequest m)"
  "any_type_id b = TypeId_StreamPacketsResponse \<longleftrightarrow> (\<exists>m. b = Obj_StreamPacketsResponse m)"
  by (cases b; simp)+

lemma object_join_same:
  "object_join W (Obj_Position a0) (Obj_Position b0) = Obj_Position (Position_join W a0 b0)"
  "object_join W (Obj_Orientation a1) (Obj_Orientation b1) = Obj_Orientation (Orientation_join W a1 b1)"
  "object_join W (Obj_Chip a2) (Obj_Chip b2) = Obj_Chip (Chip_join W a2 b2)"
  "object_join W (Obj_Chip_Radio a3) (Obj_Chip_Radio b3) = Obj_Chip_Radio (Chip_Radio_join W a3 b3)"
  "object_join W (Obj_Chip_Bluetooth a4) (Obj_Chip_Bluetooth b4) = Obj_Chip_Bluetooth (Chip_Bluetooth_join W a4 b4)"
  "object_join W (Obj_Device a5) (Obj_Device b5) = Obj_Device (Device_join W a5 b5)"
  "object_join W (Obj_Scene a6) (Obj_Scene b6) = Obj_Scene (Scene_join W a6 b6)"
  "object_join W (Obj_VersionResponse a7) (Obj_VersionResponse b7) = Obj_VersionResponse (VersionResponse_join W a7 b7)"
  "object_join W (Obj_SetLinkLossRequest a8) (Obj_SetLinkLossRequest b8) = Obj_SetLinkLossRequest (SetLinkLossRequest_join W a8 b8)"
  "object_join W (Obj_UpdateDeviceRequest a9) (Obj_UpdateDeviceRequest b9) = Obj_UpdateDeviceRequest (UpdateDeviceRequest_join W a9 b9)"
  "object_join W (Obj_Updates a10) (Obj_Updates b10) = Obj_Updates (Updates_join W a10 b10)"
  "object_join W (Obj_GetDevicesResponse a11) (Obj_GetDevicesResponse b11) = Obj_GetDevicesResponse (GetDevicesResponse_join W a11 b11)"
  "object_join W (Obj_NetCatStream a12) (Obj_NetCatStream b12) = Obj_NetCatStream (NetCatStream_join W a12 b12)"
  "object_join W (Obj_SetPacketCaptureRequest a13) (Obj_SetPacketCaptureRequest b13) = Obj_SetPacketCaptureRequest (SetPacketCaptureRequest_join W a13 b13)"
  "object_join W (Obj_StartupInfo a14) (Obj_StartupInfo b14) = Obj_StartupInfo (StartupInfo_join W a14 b14)"
  "object_join W (Obj_StartupInfo_Device a15) (Obj_StartupInfo_Device b15) = Obj_StartupInfo_Device (StartupInfo_Device_join W a15 b15)"
  "object_join W (Obj_ChipInfo a16) (Obj_ChipInfo b16) = Obj_ChipInfo (ChipInfo_join W a16 b16)"
  "object_join W (Obj_Startup_Chip a17) (Obj_Startup_Chip b17) = Obj_Startup_Chip (Startup_Chip_join W a17 b17)"
  "object_join W (Obj_HCIPacket a18) (Obj_HCIPacket b18) = Obj_HCIPacket (HCIPacket_join W a18 b18)"
  "object_join W (Obj_StreamPacketsRequest a19) (Obj_StreamPacketsRequest b19) = Obj_StreamPacketsRequest (StreamPacketsRequest_join W a19 b19)"
  "object_join W (Obj_StreamPacketsResponse a20) (Obj_StreamPacketsResponse b20) = Obj_StreamPacketsResponse (StreamPacketsResponse_join W a20 b20)"
  by (simp_all add: downcasts)

context protobuf_runtime
begin

lemmas all_join_wf = Position_jn.join_wf Orientation_jn.join_wf Chip_jn.join_wf Chip_Radio_jn.join_wf Chip_Bluetooth_jn.join_wf Device_jn.join_wf Scene_jn.join_wf VersionResponse_jn.join_wf SetLinkLossRequest_jn.join_wf UpdateDeviceRequest_jn.join_wf Updates_jn.join_wf GetDevicesResponse_jn.join_wf NetCatStream_jn.join_wf SetPacketCaptureRequest_jn.join_wf StartupInfo_jn.join_wf StartupInfo_Device_jn.join_wf ChipInfo_jn.join_wf Startup_Chip_jn.join_wf HCIPacket_jn.join_wf StreamPacketsRequest_jn.join_wf StreamPacketsResponse_jn.join_wf
lemmas all_join_assoc = Position_jn.join_assoc Orientation_jn.join_assoc Chip_jn.join_assoc Chip_Radio_jn.join_assoc Chip_Bluetooth_jn.join_assoc Device_jn.join_assoc Scene_jn.join_assoc VersionResponse_jn.join_assoc SetLinkLossRequest_jn.join_assoc UpdateDeviceRequest_jn.join_assoc Updates_jn.join_assoc GetDevicesResponse_jn.join_assoc NetCatStream_jn.join_assoc SetPacketCaptureRequest_jn.join_assoc StartupInfo_jn.join_assoc StartupInfo_Device_jn.join_assoc ChipInfo_jn.join_assoc Startup_Chip_jn.join_assoc HCIPacket_jn.join_assoc StreamPacketsRequest_jn.join_assoc StreamPacketsResponse_jn.join_assoc
lemmas all_join_unit = Position_jn.join_unit Orientation_jn.join_unit Chip_jn.join_unit Chip_Radio_jn.join_unit Chip_Bluetooth_jn.join_unit Device_jn.join_unit Scene_jn.join_unit VersionResponse_jn.join_unit SetLinkLossRequest_jn.join_unit UpdateDeviceRequest_jn.join_unit Updates_jn.join_unit GetDevicesResponse_jn.join_unit NetCatStream_jn.join_unit SetPacketCaptureRequest_jn.join_unit StartupInfo_jn.join_unit StartupInfo_Device_jn.join_unit ChipInfo_jn.join_unit Startup_Chip_jn.join_unit HCIPacket_jn.join_unit StreamPacketsRequest_jn.join_unit StreamPacketsResponse_jn.join_unit
lemmas all_wf_new = Position_jn.wf_new Orientation_jn.wf_new Chip_jn.wf_new Chip_Radio_jn.wf_new Chip_Bluetooth_jn.wf_new Device_jn.wf_new Scene_jn.wf_new VersionResponse_jn.wf_new SetLinkLossRequest_jn.wf_new UpdateDeviceRequest_jn.wf_new Updates_jn.wf_new GetDevicesResponse_jn.wf_new NetCatStream_jn.wf_new SetPacketCaptureRequest_jn.wf_new StartupInfo_jn.wf_new StartupInfo_Device_jn.wf_new ChipInfo_jn.wf_new Startup_Chip_jn.wf_new HCIPacket_jn.wf_new StreamPacketsRequest_jn.wf_new StreamPacketsResponse_jn.wf_new

lemmas object_join_facts = object_of_type object_join_same object_wf.simps any_type_id.simps

lemma object_wf_new: "object_wf W (new_object W t)"
  by (cases t) (simp_all add: object_calls all_wf_new)

lemma object_join_unit: "any_type_id a = t \<Longrightarrow> object_join W a (new_object W t) = a"
  by (cases t) (auto simp add: object_of_type object_join_same object_calls all_join_unit simp del: object_join.simps)

lemma object_join_wf: "any_type_id b = any_type_id a \<Longrightarrow> object_wf W a \<Longrightarrow> object_wf W b \<Longrightarrow> object_wf W (object_join W a b)"
  by (cases a) (auto simp only: object_join_facts all_join_wf)

lemma object_join_assoc:
  "any_type_id b = any_type_id a \<Longrightarrow> any_type_id c = any_type_id a \<Longrightarrow> object_wf W b \<Longrightarrow> object_wf W c \<Longrightarrow>
    object_join W (object_join W a b) c = object_join W a (object_join W b c)"
  by (cases a) (auto simp only: object_join_facts all_join_assoc)

text \<open>A list of well-formed objects of one type.\<close>

lemma joined_objects:
  assumes "list_all (\<lambda>b. any_type_id b = t \<and> object_wf W b) bs"
  shows "any_type_id (foldl (object_join W) (new_object W t) bs) = t"
    and "object_wf W (foldl (object_join W) (new_object W t) bs)"
    and "any_type_id a = t \<Longrightarrow> foldl (object_join W) a bs = object_join W a (foldl (object_join W) (new_object W t) bs)"
  using assms
proof (induction bs rule: rev_induct)
  case (snoc b bs)
  { case 1 with snoc(1) show ?case by simp }
  { case 2 with snoc(1,2) show ?case by (simp add: object_join_wf) }
  { case 3 with snoc show ?case by (simp add: object_join_assoc) }
qed (simp_all add: object_wf_new object_join_unit)

lemma objects_joined_rest:
  "list_all (\<lambda>b. any_type_id b = any_type_id a \<and> object_wf W b \<and> length (object_bytes W b) < 2 ^ 32) bs \<Longrightarrow>
    object_merge_from W a (concat (map (object_bytes W) bs) @ r) = object_merge_from W (foldl (object_join W) a bs) r"
proof (induction bs arbitrary: a)
  case (Cons b bs)
  then show ?case
    using object_joins [of a b "concat (map (object_bytes W) bs) @ r"] by simp
qed simp

lemma objects_read:
  assumes "list_all (\<lambda>b. any_type_id b = t \<and> object_wf W b \<and> length (object_bytes W b) < 2 ^ 32) bs"
  shows "object_parse_from_bytes W t (concat (map (object_bytes W) bs)) = Inr (foldl (object_join W) (new_object W t) bs)"
  unfolding object_parse_merges by (rule objects_joined) (simp only: new_object_type assms)

lemma objects_compacted:
  assumes good: "list_all (\<lambda>b. any_type_id b = t \<and> object_wf W b \<and> length (object_bytes W b) < 2 ^ 32) (xs @ ys)"
    and read: "object_parse_from_bytes W t (concat (map (object_bytes W) ys)) = Inr j"
    and small: "length (object_bytes W j) < 2 ^ 32"
  shows "object_parse_from_bytes W t (concat (map (object_bytes W) xs) @ object_bytes W j @ r) =
    object_parse_from_bytes W t (concat (map (object_bytes W) (xs @ ys)) @ r)"
proof -
  let ?x = "foldl (object_join W) (new_object W t) xs"
  have ys: "list_all (\<lambda>b. any_type_id b = t \<and> object_wf W b) ys" and xs: "list_all (\<lambda>b. any_type_id b = t \<and> object_wf W b) xs"
    using good unfolding list_all_iff by auto
  have good': "list_all (\<lambda>b. any_type_id b = any_type_id (new_object W t) \<and> object_wf W b \<and> length (object_bytes W b) < 2 ^ 32) bs"
    if "bs \<in> {xs, ys, xs @ ys}" for bs
    using good that unfolding new_object_type by auto
  have "Inr j = (Inr (foldl (object_join W) (new_object W t) ys) :: pb_error + _)"
    using read objects_read [of t ys] good by simp
  then have j: "j = foldl (object_join W) (new_object W t) ys"
    by blast
  have "foldl (object_join W) (new_object W t) (xs @ ys) = foldl (object_join W) ?x ys"
    by (rule foldl_append)
  also have "\<dots> = object_join W ?x j"
    unfolding j by (rule joined_objects(3) [OF ys joined_objects(1) [OF xs]])
  finally have joined: "object_join W ?x j = foldl (object_join W) (new_object W t) (xs @ ys)" ..
  have "object_merge_from W ?x (object_bytes W j @ r) = object_merge_from W (object_join W ?x j) r"
    using joined_objects(1) [OF xs] joined_objects(1,2) [OF ys] small by (intro object_joins) (simp_all add: j)
  moreover have "object_merge_from W (new_object W t) (concat (map (object_bytes W) bs) @ s) =
      object_merge_from W (foldl (object_join W) (new_object W t) bs) s" if "bs \<in> {xs, ys, xs @ ys}" for bs s
    by (rule objects_joined_rest) (rule good' [OF that])
  ultimately show ?thesis
    unfolding object_parse_merges by (simp only: insert_iff simp_thms joined)
qed

end

section \<open>The property\<close>

text \<open>C21: Compaction. When encodings of messages of one type are read as a message \<open>j\<close>, the encoding of \<open>j\<close> can take their
  place in any sequence: behind encodings \<open>xs\<close>, and in front of any bytes \<open>r\<close>, the reader gives the same answer. In
  particular what was read is written and read back as itself. The bound is that of the sizes, which are \<^verbatim>\<open>u32\<close>.\<close>

theorem objects_compact:
  assumes "protobuf_runtime W"
    and "list_all (\<lambda>b. any_type_id b = t \<and> object_wf W b \<and> length (object_bytes W b) < 2 ^ 32) (xs @ ys)"
    and "object_parse_from_bytes W t (concat (map (object_bytes W) ys)) = Inr j"
    and "length (object_bytes W j) < 2 ^ 32"
  shows "object_parse_from_bytes W t (concat (map (object_bytes W) xs) @ object_bytes W j @ r) =
    object_parse_from_bytes W t (concat (map (object_bytes W) (xs @ ys)) @ r)"
  using assms by (rule protobuf_runtime.objects_compacted)

text \<open>Two encodings of the same radio are one.\<close>

lemma sample_radio_joins:
  "f32_is_zero r \<Longrightarrow> object_join std_wire (new_object std_wire TypeId_Chip_Radio) (sample_radio r) = sample_radio 0"
  "f32_is_zero r \<Longrightarrow> object_join std_wire (sample_radio 0) (sample_radio r) = sample_radio 0"
  by (simp_all add: sample_radio_def object_calls downcasts Chip_Radio_join_def Chip_Radio_new_def join_float_def join_scalar_def)

lemma objects_compact_witness:
  "object_parse_from_bytes std_wire TypeId_Chip_Radio
     (object_bytes std_wire (sample_radio 0x80000000) @ object_bytes std_wire (sample_radio 0) @ []) =
   object_parse_from_bytes std_wire TypeId_Chip_Radio
     (object_bytes std_wire (sample_radio 0x80000000) @ object_bytes std_wire (sample_radio 0x80000000) @
       object_bytes std_wire (sample_radio 0x80000000))"
proof -
  let ?r = "sample_radio 0x80000000"
  have good: "any_type_id ?r = TypeId_Chip_Radio \<and> object_wf std_wire ?r \<and> length (object_bytes std_wire ?r) < 2 ^ 32"
    using sample_radio_facts(1) sample_radio_facts(3) [OF zero_range] by (simp add: sample_radio_def)
  then have "object_parse_from_bytes std_wire TypeId_Chip_Radio (concat (map (object_bytes std_wire) [?r, ?r])) = Inr (sample_radio 0)"
    using std.objects_read [of TypeId_Chip_Radio "[?r, ?r]"]
    by (simp add: sample_radio_joins zero_range del: new_object.simps object_parse_from_bytes.simps)
  with objects_compact [OF std.protobuf_runtime_axioms _ this sample_radio_facts(3), of "[?r]" "[]"] good
  show ?thesis
    by (simp add: f32_is_zero_def)
qed

end
