(* ===== verification/Pb_Checked.thy ===== *)
theory Pb_Checked
  imports Pb_Packet Pb_Frontend
begin

text \<open>
  \<open>compute_size\<close> as a debug build runs it: with overflow checks each addition of the generated code panics when its sum does
  not fit in 32 bits. The sizes that the crate returns are not the generated code's additions and stay as they are. The
  contract \<open>checked_message\<close> compares with the release build (\<open>C_compute_size\<close>, which wraps): the answers are the same, except
  that the debug build may panic when the encoding has \<open>2 ^ 32\<close> bytes or more.
\<close>

section \<open>Checked sums\<close>

definition overflow :: fault where
  "overflow = Panic ''attempt to add with overflow''"

definition add_u32 :: "u32 \<Rightarrow> u32 \<Rightarrow> u32 result" where
  "add_u32 a b = (if unat a + unat b < 2 ^ 32 then Ok (a + b) else Inl overflow)"

definition embedded_checked ::
    "'u protobuf_rt \<Rightarrow> ('m \<Rightarrow> (u32 \<times> 'm) result) \<Rightarrow> 'm \<Rightarrow> u32 \<Rightarrow> (u32 \<times> 'm) result" where
  "embedded_checked W cs v my_size =
     bindE (cs v) (\<lambda>(len, v).
     bindE (add_u32 1 (sz_varint32 W len)) (\<lambda>n.
     bindE (add_u32 n len) (\<lambda>n.
     bindE (add_u32 my_size n) (\<lambda>my_size. Ok (my_size, v)))))"

fun maybe_checked :: "('v \<Rightarrow> u32 \<Rightarrow> (u32 \<times> 'v) result) \<Rightarrow> 'v option \<Rightarrow> u32 \<Rightarrow> (u32 \<times> 'v option) result" where
  "maybe_checked g None my_size = Ok (my_size, None)"
| "maybe_checked g (Some v) my_size = bindE (g v my_size) (\<lambda>(my_size, v). Ok (my_size, Some v))"

fun each_checked :: "('v \<Rightarrow> u32 \<Rightarrow> (u32 \<times> 'v) result) \<Rightarrow> 'v list \<Rightarrow> u32 \<Rightarrow> (u32 \<times> 'v list) result" where
  "each_checked g [] my_size = Ok (my_size, [])"
| "each_checked g (v # vs) my_size =
     bindE (g v my_size) (\<lambda>(my_size, v). bindE (each_checked g vs my_size) (\<lambda>(my_size, vs). Ok (my_size, v # vs)))"

fun strings_checked :: "'u protobuf_rt \<Rightarrow> nat \<Rightarrow> string list \<Rightarrow> u32 \<Rightarrow> u32 result" where
  "strings_checked W f [] my_size = Ok my_size"
| "strings_checked W f (v # vs) my_size = bindE (add_u32 my_size (sz_string W f v)) (strings_checked W f vs)"

section \<open>Sums that count bytes\<close>

text \<open>
  A step adds the length of the bytes \<open>w\<close> to the size, or panics if size and length reach \<open>2 ^ 32\<close>; \<open>counts\<close> is
  for steps with a result, which may depend on the new size.
\<close>

definition adds :: "(u32 \<Rightarrow> u32 result) \<Rightarrow> bytes \<Rightarrow> bool" where
  "adds f w \<longleftrightarrow> (\<forall>k. f (of_nat k) = Ok (of_nat (k + length w)) \<or> f (of_nat k) = Inl overflow \<and> 2 ^ 32 \<le> k + length w)"

definition counts :: "(u32 \<Rightarrow> (u32 \<times> 'v) result) \<Rightarrow> bytes \<Rightarrow> (u32 \<Rightarrow> 'v) \<Rightarrow> bool" where
  "counts f w h \<longleftrightarrow>
     (\<forall>k. f (of_nat k) = Ok (of_nat (k + length w), h (of_nat (k + length w))) \<or>
       f (of_nat k) = Inl overflow \<and> 2 ^ 32 \<le> k + length w)"

lemma add_u32_of_nat:
  "add_u32 (of_nat k) (of_nat l) = Ok (of_nat (k + l)) \<or> add_u32 (of_nat k) (of_nat l) = Inl overflow \<and> 2 ^ 32 \<le> k + l"
proof -
  have "unat (of_nat k :: u32) \<le> k" and "unat (of_nat l :: u32) \<le> l"
    by (simp_all add: unat_of_nat)
  then show ?thesis
    by (auto simp: add_u32_def)
qed

lemma adds_add_u32: "n = of_nat (length w) \<Longrightarrow> adds (\<lambda>s. add_u32 s n) w"
  using add_u32_of_nat by (auto simp: adds_def)

lemma adds_if: "n = of_nat (length w) \<Longrightarrow> adds (\<lambda>s. if c then add_u32 s n else Ok s) (if c then w else [])"
  using adds_add_u32 [of n w] by (auto simp: adds_def)

lemma adds_bind: "adds f w \<Longrightarrow> counts g w' h \<Longrightarrow> counts (\<lambda>s. bindE (f s) g) (w @ w') h"
  unfolding adds_def counts_def length_append
proof
  fix k
  assume f: "\<forall>k. f (of_nat k) = Ok (of_nat (k + length w)) \<or> f (of_nat k) = Inl overflow \<and> 2 ^ 32 \<le> k + length w"
    and g: "\<forall>k. g (of_nat k) = Ok (of_nat (k + length w'), h (of_nat (k + length w'))) \<or>
      g (of_nat k) = Inl overflow \<and> 2 ^ 32 \<le> k + length w'"
  show "bindE (f (of_nat k)) g = Ok (of_nat (k + (length w + length w')), h (of_nat (k + (length w + length w')))) \<or>
      bindE (f (of_nat k)) g = Inl overflow \<and> 2 ^ 32 \<le> k + (length w + length w')"
    using f [rule_format, of k] g [rule_format, of "k + length w"] by (auto simp: add.assoc)
qed

lemma adds_chain: "adds f w \<Longrightarrow> adds g w' \<Longrightarrow> adds (\<lambda>s. bindE (f s) g) (w @ w')"
  unfolding adds_def length_append
proof
  fix k
  assume f: "\<forall>k. f (of_nat k) = Ok (of_nat (k + length w)) \<or> f (of_nat k) = Inl overflow \<and> 2 ^ 32 \<le> k + length w"
    and g: "\<forall>k. g (of_nat k) = Ok (of_nat (k + length w')) \<or> g (of_nat k) = Inl overflow \<and> 2 ^ 32 \<le> k + length w'"
  show "bindE (f (of_nat k)) g = Ok (of_nat (k + (length w + length w'))) \<or>
      bindE (f (of_nat k)) g = Inl overflow \<and> 2 ^ 32 \<le> k + (length w + length w')"
    using f [rule_format, of k] g [rule_format, of "k + length w"] by (auto simp: add.assoc)
qed

lemma counts_bind:
  assumes "counts f w (\<lambda>_. v)" and "counts (g v) w' h"
  shows "counts (\<lambda>s. bindE (f s) (\<lambda>(s, x). g x s)) (w @ w') h"
  unfolding counts_def length_append
proof
  fix k
  show "bindE (f (of_nat k)) (\<lambda>(s, x). g x s) =
        Ok (of_nat (k + (length w + length w')), h (of_nat (k + (length w + length w')))) \<or>
      bindE (f (of_nat k)) (\<lambda>(s, x). g x s) = Inl overflow \<and> 2 ^ 32 \<le> k + (length w + length w')"
    using assms(1) [unfolded counts_def, rule_format, of k] assms(2) [unfolded counts_def, rule_format, of "k + length w"]
    by (auto simp: add.assoc)
qed

lemma counts_end: "counts (\<lambda>s. Ok (s, h s)) [] h"
  by (simp add: counts_def)

lemma adds_end: "adds f w \<Longrightarrow> counts (\<lambda>s. bindE (f s) (\<lambda>s. Ok (s, h s))) w h"
  using adds_bind [OF _ counts_end] by fastforce

lemma counts_map: "counts f w (\<lambda>_. v) \<Longrightarrow> counts (\<lambda>s. bindE (f s) (\<lambda>(s, x). Ok (s, g x))) w (\<lambda>_. g v)"
  using counts_bind [OF _ counts_end, of f w v "\<lambda>x _. g x"] by simp

lemma snd_case_pair2:
  "snd (case p of (n, v) \<Rightarrow> (h n, g v)) = g (snd p)"
  "snd (case p of (n, v) \<Rightarrow> case q of (k, vs) \<Rightarrow> (h' n k, g' v vs)) = g' (snd p) (snd q)"
  by (simp_all add: case_prod_beta)

lemma checked_steps:
  "maybe_checked g None = (\<lambda>s. Ok (s, None))"
  "maybe_checked g (Some v) = (\<lambda>s. bindE (g v s) (\<lambda>(s, v). Ok (s, Some v)))"
  "each_checked g [] = (\<lambda>s. Ok (s, []))"
  "each_checked g (v # vs) = (\<lambda>s. bindE (g v s) (\<lambda>(s, v). bindE (each_checked g vs s) (\<lambda>(s, vs). Ok (s, v # vs))))"
  by (simp_all add: fun_eq_iff)

lemma counts_maybe:
  assumes "\<And>v. counts (g v) (w v) (\<lambda>_. k v)"
  shows "counts (maybe_checked g x) (case x of None \<Rightarrow> [] | Some v \<Rightarrow> w v) (\<lambda>_. map_option k x)"
  by (cases x) (simp_all add: checked_steps counts_end counts_map assms)

text \<open>The whole of \<open>compute_size\<close>, from a size of 0.\<close>

lemma counts_from_0:
  assumes "counts f w h" and "b = w" and "snd cs = h (fst cs)" and "fst cs = of_nat (length b)"
  shows "Let 0 f = Ok cs \<or> Let 0 f = Inl overflow \<and> 2 ^ 32 \<le> length b"
  using assms(1) [unfolded counts_def, rule_format, of 0] assms(2-4) by (cases cs) auto

context protobuf_runtime
begin

lemma adds_strings: "adds (strings_checked W f vs) (concat (map (os_string W f) vs))"
proof (induction vs)
  case (Cons v vs)
  then show ?case
    using adds_chain [OF adds_add_u32 Cons] by (simp add: size_laws fun_eq_iff)
qed (simp add: adds_def)

lemma adds_unknown: "adds (\<lambda>s. add_u32 s (uf_size W u)) (os_unknown W u)"
  by (rule adds_add_u32) (rule size_laws)

end

section \<open>The contract\<close>

locale checked_message = pb_message +
  fixes checked :: "'a \<Rightarrow> (u32 \<times> 'a) result"
  assumes checked_size: "checked m = Ok (compute_size m) \<or> checked m = Inl overflow \<and> 2 ^ 32 \<le> length (wr (snd (compute_size m)))"
begin

lemma counts_embedded:
  assumes "small_field f"
  shows "counts (embedded_checked W checked v) (os_message W f cached wr (snd (embedded_size W compute_size v)))
    (\<lambda>_. snd (embedded_size W compute_size v))"
  unfolding counts_def
proof
  fix k
  let ?w = "os_message W f cached wr (snd (embedded_size W compute_size v))"
  define b where "b = length (wr (snd (compute_size v)))"
  define n where "n = length (os_varint32 W (fst (compute_size v)))"
  have len: "fst (compute_size v) = of_nat b" and var: "sz_varint32 W (fst (compute_size v)) = of_nat n"
    by (simp_all add: b_def n_def size_exact size_laws)
  have w: "length ?w = 1 + n + b"
    using assms by (simp add: embedded_size_def os_message_def case_prod_beta size_cached tag_length b_def n_def)
  have "b \<le> 1 + n + b" and v: "snd (embedded_size W compute_size v) = snd (compute_size v)"
    by (simp_all add: w embedded_size_def case_prod_beta)
  then show "embedded_checked W checked v (of_nat k) =
        Ok (of_nat (k + length ?w), snd (embedded_size W compute_size v)) \<or>
      embedded_checked W checked v (of_nat k) = Inl overflow \<and> 2 ^ 32 \<le> k + length ?w"
    using checked_size [of v, folded b_def] add_u32_of_nat [of 1 n] add_u32_of_nat [of "1 + n" b]
      add_u32_of_nat [of k "1 + n + b"]
    unfolding w unfolding v embedded_checked_def by (cases "compute_size v") (use len var in auto)
qed

lemma counts_optional:
  assumes "small_field f"
  shows "counts (maybe_checked (embedded_checked W checked) v) (os_optional W f cached wr (snd (optional_size W compute_size v)))
    (\<lambda>_. snd (optional_size W compute_size v))"
  by (cases v) (simp_all add: checked_steps snd_case_pair2 counts_end counts_map counts_embedded assms)

lemma counts_repeated:
  assumes "small_field f"
  shows "counts (each_checked (embedded_checked W checked) vs) (os_repeated W f cached wr (snd (repeated_size W compute_size vs)))
    (\<lambda>_. snd (repeated_size W compute_size vs))"
proof (induction vs)
  case (Cons v vs)
  then show ?case
    using counts_bind [OF counts_embedded [OF assms, of v] counts_map [OF Cons], of "(#)"]
    by (simp add: checked_steps snd_case_pair2)
qed (simp add: checked_steps counts_end)

end

section \<open>The generated functions\<close>

definition Position_checked_size :: "'u protobuf_rt \<Rightarrow> 'u Position \<Rightarrow> (u32 \<times> 'u Position) result" where
  "Position_checked_size W m =
     (let my_size = 0 in
      bindE (if \<not> f32_is_zero (Position_x m) then add_u32 my_size 5 else Ok my_size) (\<lambda>my_size.
      bindE (if \<not> f32_is_zero (Position_y m) then add_u32 my_size 5 else Ok my_size) (\<lambda>my_size.
      bindE (if \<not> f32_is_zero (Position_z m) then add_u32 my_size 5 else Ok my_size) (\<lambda>my_size.
      bindE (add_u32 my_size (uf_size W (unknown_fields m))) (\<lambda>my_size.
      Ok (my_size, m\<lparr>cached_size := my_size\<rparr>))))))"

definition Orientation_checked_size :: "'u protobuf_rt \<Rightarrow> 'u Orientation \<Rightarrow> (u32 \<times> 'u Orientation) result" where
  "Orientation_checked_size W m =
     (let my_size = 0 in
      bindE (if \<not> f32_is_zero (Orientation_yaw m) then add_u32 my_size 5 else Ok my_size) (\<lambda>my_size.
      bindE (if \<not> f32_is_zero (Orientation_pitch m) then add_u32 my_size 5 else Ok my_size) (\<lambda>my_size.
      bindE (if \<not> f32_is_zero (Orientation_roll m) then add_u32 my_size 5 else Ok my_size) (\<lambda>my_size.
      bindE (add_u32 my_size (uf_size W (unknown_fields m))) (\<lambda>my_size.
      Ok (my_size, m\<lparr>cached_size := my_size\<rparr>))))))"

definition Chip_Radio_checked_size :: "'u protobuf_rt \<Rightarrow> 'u Chip_Radio \<Rightarrow> (u32 \<times> 'u Chip_Radio) result" where
  "Chip_Radio_checked_size W m =
     (let my_size = 0 in
      bindE (if Chip_Radio_state m \<noteq> State_UNKNOWN then add_u32 my_size (sz_enum W 1 (State_value (Chip_Radio_state m))) else Ok my_size) (\<lambda>my_size.
      bindE (if \<not> f32_is_zero (Chip_Radio_range m) then add_u32 my_size 5 else Ok my_size) (\<lambda>my_size.
      bindE (if Chip_Radio_tx_count m \<noteq> 0 then add_u32 my_size (sz_int32 W 3 (Chip_Radio_tx_count m)) else Ok my_size) (\<lambda>my_size.
      bindE (if Chip_Radio_rx_count m \<noteq> 0 then add_u32 my_size (sz_int32 W 4 (Chip_Radio_rx_count m)) else Ok my_size) (\<lambda>my_size.
      bindE (add_u32 my_size (uf_size W (unknown_fields m))) (\<lambda>my_size.
      Ok (my_size, m\<lparr>cached_size := my_size\<rparr>)))))))"

definition Chip_Bluetooth_checked_size :: "'u protobuf_rt \<Rightarrow> 'u Chip_Bluetooth \<Rightarrow> (u32 \<times> 'u Chip_Bluetooth) result" where
  "Chip_Bluetooth_checked_size W m =
     (let my_size = 0 in
      bindE (maybe_checked (embedded_checked W (Chip_Radio_checked_size W)) (Chip_Bluetooth_low_energy m) my_size) (\<lambda>(my_size, low_energy).
      bindE (maybe_checked (embedded_checked W (Chip_Radio_checked_size W)) (Chip_Bluetooth_classic m) my_size) (\<lambda>(my_size, classic).
      bindE (add_u32 my_size (uf_size W (unknown_fields m))) (\<lambda>my_size.
      Ok (my_size, m\<lparr>Chip_Bluetooth_low_energy := low_energy, Chip_Bluetooth_classic := classic, cached_size := my_size\<rparr>)))))"

fun Chip_oneof_chip_checked :: "'u protobuf_rt \<Rightarrow> 'u Chip_oneof_chip \<Rightarrow> u32 \<Rightarrow> (u32 \<times> 'u Chip_oneof_chip) result" where
  "Chip_oneof_chip_checked W (Chip_oneof_chip_bt v) my_size =
     bindE (embedded_checked W (Chip_Bluetooth_checked_size W) v my_size) (\<lambda>(my_size, v). Ok (my_size, Chip_oneof_chip_bt v))"
| "Chip_oneof_chip_checked W (Chip_oneof_chip_uwb v) my_size =
     bindE (embedded_checked W (Chip_Radio_checked_size W) v my_size) (\<lambda>(my_size, v). Ok (my_size, Chip_oneof_chip_uwb v))"
| "Chip_oneof_chip_checked W (Chip_oneof_chip_wifi v) my_size =
     bindE (embedded_checked W (Chip_Radio_checked_size W) v my_size) (\<lambda>(my_size, v). Ok (my_size, Chip_oneof_chip_wifi v))"

definition Chip_checked_size :: "'u protobuf_rt \<Rightarrow> 'u Chip \<Rightarrow> (u32 \<times> 'u Chip) result" where
  "Chip_checked_size W m =
     (let my_size = 0 in
      bindE (if Chip_chip_id m \<noteq> [] then add_u32 my_size (sz_string W 1 (Chip_chip_id m)) else Ok my_size) (\<lambda>my_size.
      bindE (if Chip_manufacturer m \<noteq> [] then add_u32 my_size (sz_string W 2 (Chip_manufacturer m)) else Ok my_size) (\<lambda>my_size.
      bindE (if Chip_model m \<noteq> [] then add_u32 my_size (sz_string W 3 (Chip_model m)) else Ok my_size) (\<lambda>my_size.
      bindE (if Chip_capture m \<noteq> State_UNKNOWN then add_u32 my_size (sz_enum W 4 (State_value (Chip_capture m))) else Ok my_size) (\<lambda>my_size.
      bindE (maybe_checked (Chip_oneof_chip_checked W) (Chip_chip m) my_size) (\<lambda>(my_size, chip).
      bindE (add_u32 my_size (uf_size W (unknown_fields m))) (\<lambda>my_size.
      Ok (my_size, m\<lparr>Chip_chip := chip, cached_size := my_size\<rparr>))))))))"

definition Device_checked_size :: "'u protobuf_rt \<Rightarrow> 'u Device \<Rightarrow> (u32 \<times> 'u Device) result" where
  "Device_checked_size W m =
     (let my_size = 0 in
      bindE (if Device_device_serial m \<noteq> [] then add_u32 my_size (sz_string W 1 (Device_device_serial m)) else Ok my_size) (\<lambda>my_size.
      bindE (if Device_name m \<noteq> [] then add_u32 my_size (sz_string W 2 (Device_name m)) else Ok my_size) (\<lambda>my_size.
      bindE (if Device_visible m then add_u32 my_size 2 else Ok my_size) (\<lambda>my_size.
      bindE (maybe_checked (embedded_checked W (Position_checked_size W)) (Device_position m) my_size) (\<lambda>(my_size, position).
      bindE (maybe_checked (embedded_checked W (Orientation_checked_size W)) (Device_orientation m) my_size) (\<lambda>(my_size, orientation).
      bindE (each_checked (embedded_checked W (Chip_checked_size W)) (Device_chips m) my_size) (\<lambda>(my_size, chips).
      bindE (add_u32 my_size (uf_size W (unknown_fields m))) (\<lambda>my_size.
      Ok (my_size, m\<lparr>Device_position := position, Device_orientation := orientation, Device_chips := chips, cached_size := my_size\<rparr>)))))))))"

definition Scene_checked_size :: "'u protobuf_rt \<Rightarrow> 'u Scene \<Rightarrow> (u32 \<times> 'u Scene) result" where
  "Scene_checked_size W m =
     (let my_size = 0 in
      bindE (each_checked (embedded_checked W (Device_checked_size W)) (Scene_devices m) my_size) (\<lambda>(my_size, devices).
      bindE (add_u32 my_size (uf_size W (unknown_fields m))) (\<lambda>my_size.
      Ok (my_size, m\<lparr>Scene_devices := devices, cached_size := my_size\<rparr>))))"

definition VersionResponse_checked_size :: "'u protobuf_rt \<Rightarrow> 'u VersionResponse \<Rightarrow> (u32 \<times> 'u VersionResponse) result" where
  "VersionResponse_checked_size W m =
     (let my_size = 0 in
      bindE (if VersionResponse_version m \<noteq> [] then add_u32 my_size (sz_string W 1 (VersionResponse_version m)) else Ok my_size) (\<lambda>my_size.
      bindE (add_u32 my_size (uf_size W (unknown_fields m))) (\<lambda>my_size.
      Ok (my_size, m\<lparr>cached_size := my_size\<rparr>))))"

definition SetLinkLossRequest_checked_size :: "'u protobuf_rt \<Rightarrow> 'u SetLinkLossRequest \<Rightarrow> (u32 \<times> 'u SetLinkLossRequest) result" where
  "SetLinkLossRequest_checked_size W m =
     (let my_size = 0 in
      bindE (if SetLinkLossRequest_device_serial m \<noteq> [] then add_u32 my_size (sz_string W 1 (SetLinkLossRequest_device_serial m)) else Ok my_size) (\<lambda>my_size.
      bindE (if SetLinkLossRequest_other_device m \<noteq> [] then add_u32 my_size (sz_string W 2 (SetLinkLossRequest_other_device m)) else Ok my_size) (\<lambda>my_size.
      bindE (if SetLinkLossRequest_radio m \<noteq> PhyKind_NONE then add_u32 my_size (sz_enum W 3 (PhyKind_value (SetLinkLossRequest_radio m))) else Ok my_size) (\<lambda>my_size.
      bindE (if \<not> f32_is_zero (SetLinkLossRequest_link_loss m) then add_u32 my_size 5 else Ok my_size) (\<lambda>my_size.
      bindE (add_u32 my_size (uf_size W (unknown_fields m))) (\<lambda>my_size.
      Ok (my_size, m\<lparr>cached_size := my_size\<rparr>)))))))"

definition UpdateDeviceRequest_checked_size :: "'u protobuf_rt \<Rightarrow> 'u UpdateDeviceRequest \<Rightarrow> (u32 \<times> 'u UpdateDeviceRequest) result" where
  "UpdateDeviceRequest_checked_size W m =
     (let my_size = 0 in
      bindE (maybe_checked (embedded_checked W (Device_checked_size W)) (UpdateDeviceRequest_device m) my_size) (\<lambda>(my_size, device).
      bindE (add_u32 my_size (uf_size W (unknown_fields m))) (\<lambda>my_size.
      Ok (my_size, m\<lparr>UpdateDeviceRequest_device := device, cached_size := my_size\<rparr>))))"

definition Updates_checked_size :: "'u protobuf_rt \<Rightarrow> 'u Updates \<Rightarrow> (u32 \<times> 'u Updates) result" where
  "Updates_checked_size W m =
     (let my_size = 0 in
      bindE (each_checked (embedded_checked W (Device_checked_size W)) (Updates_devices m) my_size) (\<lambda>(my_size, devices).
      bindE (add_u32 my_size (uf_size W (unknown_fields m))) (\<lambda>my_size.
      Ok (my_size, m\<lparr>Updates_devices := devices, cached_size := my_size\<rparr>))))"

definition GetDevicesResponse_checked_size :: "'u protobuf_rt \<Rightarrow> 'u GetDevicesResponse \<Rightarrow> (u32 \<times> 'u GetDevicesResponse) result" where
  "GetDevicesResponse_checked_size W m =
     (let my_size = 0 in
      bindE (each_checked (embedded_checked W (Device_checked_size W)) (GetDevicesResponse_devices m) my_size) (\<lambda>(my_size, devices).
      bindE (add_u32 my_size (uf_size W (unknown_fields m))) (\<lambda>my_size.
      Ok (my_size, m\<lparr>GetDevicesResponse_devices := devices, cached_size := my_size\<rparr>))))"

definition NetCatStream_checked_size :: "'u protobuf_rt \<Rightarrow> 'u NetCatStream \<Rightarrow> (u32 \<times> 'u NetCatStream) result" where
  "NetCatStream_checked_size W m =
     (let my_size = 0 in
      bindE (strings_checked W 1 (NetCatStream_result m) my_size) (\<lambda>my_size.
      bindE (add_u32 my_size (uf_size W (unknown_fields m))) (\<lambda>my_size.
      Ok (my_size, m\<lparr>cached_size := my_size\<rparr>))))"

definition SetPacketCaptureRequest_checked_size :: "'u protobuf_rt \<Rightarrow> 'u SetPacketCaptureRequest \<Rightarrow> (u32 \<times> 'u SetPacketCaptureRequest) result" where
  "SetPacketCaptureRequest_checked_size W m =
     (let my_size = 0 in
      bindE (if SetPacketCaptureRequest_capture m then add_u32 my_size 2 else Ok my_size) (\<lambda>my_size.
      bindE (if SetPacketCaptureRequest_device_serial m \<noteq> [] then add_u32 my_size (sz_string W 2 (SetPacketCaptureRequest_device_serial m)) else Ok my_size) (\<lambda>my_size.
      bindE (add_u32 my_size (uf_size W (unknown_fields m))) (\<lambda>my_size.
      Ok (my_size, m\<lparr>cached_size := my_size\<rparr>)))))"

definition Startup_Chip_checked_size :: "'u protobuf_rt \<Rightarrow> 'u Startup_Chip \<Rightarrow> (u32 \<times> 'u Startup_Chip) result" where
  "Startup_Chip_checked_size W m =
     (let my_size = 0 in
      bindE (if Startup_Chip_kind m \<noteq> Chip_ChipKind_UNSPECIFIED then add_u32 my_size (sz_enum W 1 (Chip_ChipKind_value (Startup_Chip_kind m))) else Ok my_size) (\<lambda>my_size.
      bindE (if Startup_Chip_id m \<noteq> [] then add_u32 my_size (sz_string W 2 (Startup_Chip_id m)) else Ok my_size) (\<lambda>my_size.
      bindE (if Startup_Chip_manufacturer m \<noteq> [] then add_u32 my_size (sz_string W 3 (Startup_Chip_manufacturer m)) else Ok my_size) (\<lambda>my_size.
      bindE (if Startup_Chip_model m \<noteq> [] then add_u32 my_size (sz_string W 4 (Startup_Chip_model m)) else Ok my_size) (\<lambda>my_size.
      bindE (if Startup_Chip_fd_in m \<noteq> 0 then add_u32 my_size (sz_int32 W 5 (Startup_Chip_fd_in m)) else Ok my_size) (\<lambda>my_size.
      bindE (if Startup_Chip_fd_out m \<noteq> 0 then add_u32 my_size (sz_int32 W 6 (Startup_Chip_fd_out m)) else Ok my_size) (\<lambda>my_size.
      bindE (if Startup_Chip_loopback m then add_u32 my_size 2 else Ok my_size) (\<lambda>my_size.
      bindE (add_u32 my_size (uf_size W (unknown_fields m))) (\<lambda>my_size.
      Ok (my_size, m\<lparr>cached_size := my_size\<rparr>))))))))))"

definition StartupInfo_Device_checked_size :: "'u protobuf_rt \<Rightarrow> 'u StartupInfo_Device \<Rightarrow> (u32 \<times> 'u StartupInfo_Device) result" where
  "StartupInfo_Device_checked_size W m =
     (let my_size = 0 in
      bindE (if StartupInfo_Device_serial m \<noteq> [] then add_u32 my_size (sz_string W 1 (StartupInfo_Device_serial m)) else Ok my_size) (\<lambda>my_size.
      bindE (each_checked (embedded_checked W (Startup_Chip_checked_size W)) (StartupInfo_Device_chips m) my_size) (\<lambda>(my_size, chips).
      bindE (add_u32 my_size (uf_size W (unknown_fields m))) (\<lambda>my_size.
      Ok (my_size, m\<lparr>StartupInfo_Device_chips := chips, cached_size := my_size\<rparr>)))))"

definition StartupInfo_checked_size :: "'u protobuf_rt \<Rightarrow> 'u StartupInfo \<Rightarrow> (u32 \<times> 'u StartupInfo) result" where
  "StartupInfo_checked_size W m =
     (let my_size = 0 in
      bindE (each_checked (embedded_checked W (StartupInfo_Device_checked_size W)) (StartupInfo_devices m) my_size) (\<lambda>(my_size, devices).
      bindE (add_u32 my_size (uf_size W (unknown_fields m))) (\<lambda>my_size.
      Ok (my_size, m\<lparr>StartupInfo_devices := devices, cached_size := my_size\<rparr>))))"

definition ChipInfo_checked_size :: "'u protobuf_rt \<Rightarrow> 'u ChipInfo \<Rightarrow> (u32 \<times> 'u ChipInfo) result" where
  "ChipInfo_checked_size W m =
     (let my_size = 0 in
      bindE (if ChipInfo_serial m \<noteq> [] then add_u32 my_size (sz_string W 1 (ChipInfo_serial m)) else Ok my_size) (\<lambda>my_size.
      bindE (maybe_checked (embedded_checked W (Startup_Chip_checked_size W)) (ChipInfo_chip m) my_size) (\<lambda>(my_size, chip).
      bindE (add_u32 my_size (uf_size W (unknown_fields m))) (\<lambda>my_size.
      Ok (my_size, m\<lparr>ChipInfo_chip := chip, cached_size := my_size\<rparr>)))))"

definition HCIPacket_checked_size :: "'u protobuf_rt \<Rightarrow> 'u HCIPacket \<Rightarrow> (u32 \<times> 'u HCIPacket) result" where
  "HCIPacket_checked_size W m =
     (let my_size = 0 in
      bindE (if HCIPacket_field_type m \<noteq> HCIPacket_PacketType_PACKET_TYPE_UNSPECIFIED then add_u32 my_size (sz_enum W 1 (HCIPacket_PacketType_value (HCIPacket_field_type m))) else Ok my_size) (\<lambda>my_size.
      bindE (if HCIPacket_packet m \<noteq> [] then add_u32 my_size (sz_bytes W 2 (HCIPacket_packet m)) else Ok my_size) (\<lambda>my_size.
      bindE (add_u32 my_size (uf_size W (unknown_fields m))) (\<lambda>my_size.
      Ok (my_size, m\<lparr>cached_size := my_size\<rparr>)))))"

fun StreamPacketsRequest_oneof_request_type_checked :: "'u protobuf_rt \<Rightarrow> 'u StreamPacketsRequest_oneof_request_type \<Rightarrow> u32 \<Rightarrow> (u32 \<times> 'u StreamPacketsRequest_oneof_request_type) result" where
  "StreamPacketsRequest_oneof_request_type_checked W (StreamPacketsRequest_oneof_request_type_initial_info v) my_size =
     bindE (embedded_checked W (ChipInfo_checked_size W) v my_size) (\<lambda>(my_size, v). Ok (my_size, StreamPacketsRequest_oneof_request_type_initial_info v))"
| "StreamPacketsRequest_oneof_request_type_checked W (StreamPacketsRequest_oneof_request_type_hci_packet v) my_size =
     bindE (embedded_checked W (HCIPacket_checked_size W) v my_size) (\<lambda>(my_size, v). Ok (my_size, StreamPacketsRequest_oneof_request_type_hci_packet v))"
| "StreamPacketsRequest_oneof_request_type_checked W (StreamPacketsRequest_oneof_request_type_packet v) my_size =
     bindE (add_u32 my_size (sz_bytes W 3 v)) (\<lambda>my_size. Ok (my_size, StreamPacketsRequest_oneof_request_type_packet v))"

definition StreamPacketsRequest_checked_size :: "'u protobuf_rt \<Rightarrow> 'u StreamPacketsRequest \<Rightarrow> (u32 \<times> 'u StreamPacketsRequest) result" where
  "StreamPacketsRequest_checked_size W m =
     (let my_size = 0 in
      bindE (maybe_checked (StreamPacketsRequest_oneof_request_type_checked W) (StreamPacketsRequest_request_type m) my_size) (\<lambda>(my_size, request_type).
      bindE (add_u32 my_size (uf_size W (unknown_fields m))) (\<lambda>my_size.
      Ok (my_size, m\<lparr>StreamPacketsRequest_request_type := request_type, cached_size := my_size\<rparr>))))"

fun StreamPacketsResponse_oneof_response_type_checked :: "'u protobuf_rt \<Rightarrow> 'u StreamPacketsResponse_oneof_response_type \<Rightarrow> u32 \<Rightarrow> (u32 \<times> 'u StreamPacketsResponse_oneof_response_type) result" where
  "StreamPacketsResponse_oneof_response_type_checked W (StreamPacketsResponse_oneof_response_type_error v) my_size =
     bindE (add_u32 my_size (sz_string W 1 v)) (\<lambda>my_size. Ok (my_size, StreamPacketsResponse_oneof_response_type_error v))"
| "StreamPacketsResponse_oneof_response_type_checked W (StreamPacketsResponse_oneof_response_type_hci_packet v) my_size =
     bindE (embedded_checked W (HCIPacket_checked_size W) v my_size) (\<lambda>(my_size, v). Ok (my_size, StreamPacketsResponse_oneof_response_type_hci_packet v))"
| "StreamPacketsResponse_oneof_response_type_checked W (StreamPacketsResponse_oneof_response_type_packet v) my_size =
     bindE (add_u32 my_size (sz_bytes W 3 v)) (\<lambda>my_size. Ok (my_size, StreamPacketsResponse_oneof_response_type_packet v))"

definition StreamPacketsResponse_checked_size :: "'u protobuf_rt \<Rightarrow> 'u StreamPacketsResponse \<Rightarrow> (u32 \<times> 'u StreamPacketsResponse) result" where
  "StreamPacketsResponse_checked_size W m =
     (let my_size = 0 in
      bindE (maybe_checked (StreamPacketsResponse_oneof_response_type_checked W) (StreamPacketsResponse_response_type m) my_size) (\<lambda>(my_size, response_type).
      bindE (add_u32 my_size (uf_size W (unknown_fields m))) (\<lambda>my_size.
      Ok (my_size, m\<lparr>StreamPacketsResponse_response_type := response_type, cached_size := my_size\<rparr>))))"

section \<open>Debug and release builds\<close>

context protobuf_runtime
begin

lemma Position_checked:
  "Position_checked_size W m = Ok (Position_compute_size W m) \<or>
    Position_checked_size W m = Inl overflow \<and> 2 ^ 32 \<le> length (Position_write_to_with_cached_sizes W (snd (Position_compute_size W m)))"
proof -
  have w: "Position_write_to_with_cached_sizes W (snd (Position_compute_size W m)) =
    (if \<not> f32_is_zero (Position_x m) then os_float W 1 (Position_x m) else []) @
    (if \<not> f32_is_zero (Position_y m) then os_float W 2 (Position_y m) else []) @
    (if \<not> f32_is_zero (Position_z m) then os_float W 3 (Position_z m) else []) @
    os_unknown W (unknown_fields m)"
    by (simp add: Position_sized Position_write_to_with_cached_sizes_def snd_case_pair2)
  have s: "snd (Position_compute_size W m) = m\<lparr>cached_size := fst (Position_compute_size W m)\<rparr>"
    by (rule Position_sized)
  show ?thesis
    unfolding Position_checked_size_def
    by (rule counts_from_0 [OF _ w, where h = "\<lambda>my_size. m\<lparr>cached_size := my_size\<rparr>"],
        (rule adds_bind counts_bind adds_end adds_if adds_strings adds_unknown
         | simp add: size_laws small_field_def)+)
      (rule s Position_size_exact)+
qed

end

sublocale protobuf_runtime < Position_ck: checked_message W "Position_new W" Position_is_initialized "Position_compute_size W"
    "Position_write_to_with_cached_sizes W" Position_get_cached_size "Position_merge_from W" "Position_wf W" Position_canon "Position_join W" "Position_checked_size W"
  by unfold_locales (rule Position_checked)

context protobuf_runtime
begin

lemma Orientation_checked:
  "Orientation_checked_size W m = Ok (Orientation_compute_size W m) \<or>
    Orientation_checked_size W m = Inl overflow \<and> 2 ^ 32 \<le> length (Orientation_write_to_with_cached_sizes W (snd (Orientation_compute_size W m)))"
proof -
  have w: "Orientation_write_to_with_cached_sizes W (snd (Orientation_compute_size W m)) =
    (if \<not> f32_is_zero (Orientation_yaw m) then os_float W 1 (Orientation_yaw m) else []) @
    (if \<not> f32_is_zero (Orientation_pitch m) then os_float W 2 (Orientation_pitch m) else []) @
    (if \<not> f32_is_zero (Orientation_roll m) then os_float W 3 (Orientation_roll m) else []) @
    os_unknown W (unknown_fields m)"
    by (simp add: Orientation_sized Orientation_write_to_with_cached_sizes_def snd_case_pair2)
  have s: "snd (Orientation_compute_size W m) = m\<lparr>cached_size := fst (Orientation_compute_size W m)\<rparr>"
    by (rule Orientation_sized)
  show ?thesis
    unfolding Orientation_checked_size_def
    by (rule counts_from_0 [OF _ w, where h = "\<lambda>my_size. m\<lparr>cached_size := my_size\<rparr>"],
        (rule adds_bind counts_bind adds_end adds_if adds_strings adds_unknown
         | simp add: size_laws small_field_def)+)
      (rule s Orientation_size_exact)+
qed

end

sublocale protobuf_runtime < Orientation_ck: checked_message W "Orientation_new W" Orientation_is_initialized "Orientation_compute_size W"
    "Orientation_write_to_with_cached_sizes W" Orientation_get_cached_size "Orientation_merge_from W" "Orientation_wf W" Orientation_canon "Orientation_join W" "Orientation_checked_size W"
  by unfold_locales (rule Orientation_checked)

context protobuf_runtime
begin

lemma Chip_Radio_checked:
  "Chip_Radio_checked_size W m = Ok (Chip_Radio_compute_size W m) \<or>
    Chip_Radio_checked_size W m = Inl overflow \<and> 2 ^ 32 \<le> length (Chip_Radio_write_to_with_cached_sizes W (snd (Chip_Radio_compute_size W m)))"
proof -
  have w: "Chip_Radio_write_to_with_cached_sizes W (snd (Chip_Radio_compute_size W m)) =
    (if Chip_Radio_state m \<noteq> State_UNKNOWN then os_enum W 1 (State_value (Chip_Radio_state m)) else []) @
    (if \<not> f32_is_zero (Chip_Radio_range m) then os_float W 2 (Chip_Radio_range m) else []) @
    (if Chip_Radio_tx_count m \<noteq> 0 then os_int32 W 3 (Chip_Radio_tx_count m) else []) @
    (if Chip_Radio_rx_count m \<noteq> 0 then os_int32 W 4 (Chip_Radio_rx_count m) else []) @
    os_unknown W (unknown_fields m)"
    by (simp add: Chip_Radio_sized Chip_Radio_write_to_with_cached_sizes_def snd_case_pair2)
  have s: "snd (Chip_Radio_compute_size W m) = m\<lparr>cached_size := fst (Chip_Radio_compute_size W m)\<rparr>"
    by (rule Chip_Radio_sized)
  show ?thesis
    unfolding Chip_Radio_checked_size_def
    by (rule counts_from_0 [OF _ w, where h = "\<lambda>my_size. m\<lparr>cached_size := my_size\<rparr>"],
        (rule adds_bind counts_bind adds_end adds_if adds_strings adds_unknown
         | simp add: size_laws small_field_def)+)
      (rule s Chip_Radio_size_exact)+
qed

end

sublocale protobuf_runtime < Chip_Radio_ck: checked_message W "Chip_Radio_new W" Chip_Radio_is_initialized "Chip_Radio_compute_size W"
    "Chip_Radio_write_to_with_cached_sizes W" Chip_Radio_get_cached_size "Chip_Radio_merge_from W" "Chip_Radio_wf W" Chip_Radio_canon "Chip_Radio_join W" "Chip_Radio_checked_size W"
  by unfold_locales (rule Chip_Radio_checked)

context protobuf_runtime
begin

lemma Chip_Bluetooth_checked:
  "Chip_Bluetooth_checked_size W m = Ok (Chip_Bluetooth_compute_size W m) \<or>
    Chip_Bluetooth_checked_size W m = Inl overflow \<and> 2 ^ 32 \<le> length (Chip_Bluetooth_write_to_with_cached_sizes W (snd (Chip_Bluetooth_compute_size W m)))"
proof -
  have w: "Chip_Bluetooth_write_to_with_cached_sizes W (snd (Chip_Bluetooth_compute_size W m)) =
    os_optional W 1 Chip_Radio_get_cached_size (Chip_Radio_write_to_with_cached_sizes W) (snd (optional_size W (Chip_Radio_compute_size W) (Chip_Bluetooth_low_energy m))) @
    os_optional W 2 Chip_Radio_get_cached_size (Chip_Radio_write_to_with_cached_sizes W) (snd (optional_size W (Chip_Radio_compute_size W) (Chip_Bluetooth_classic m))) @
    os_unknown W (unknown_fields m)"
    by (simp add: Chip_Bluetooth_sized Chip_Bluetooth_write_to_with_cached_sizes_def snd_case_pair2)
  have s: "snd (Chip_Bluetooth_compute_size W m) = m\<lparr>Chip_Bluetooth_low_energy := snd (optional_size W (Chip_Radio_compute_size W) (Chip_Bluetooth_low_energy m)), Chip_Bluetooth_classic := snd (optional_size W (Chip_Radio_compute_size W) (Chip_Bluetooth_classic m)), cached_size := fst (Chip_Bluetooth_compute_size W m)\<rparr>"
    by (rule Chip_Bluetooth_sized)
  show ?thesis
    unfolding Chip_Bluetooth_checked_size_def
    by (rule counts_from_0 [OF _ w, where h = "\<lambda>my_size. m\<lparr>Chip_Bluetooth_low_energy := snd (optional_size W (Chip_Radio_compute_size W) (Chip_Bluetooth_low_energy m)), Chip_Bluetooth_classic := snd (optional_size W (Chip_Radio_compute_size W) (Chip_Bluetooth_classic m)), cached_size := my_size\<rparr>"],
        (rule adds_bind counts_bind adds_end adds_if adds_strings adds_unknown Chip_Radio_ck.counts_optional
         | simp add: size_laws small_field_def)+)
      (rule s Chip_Bluetooth_size_exact)+
qed

end

sublocale protobuf_runtime < Chip_Bluetooth_ck: checked_message W "Chip_Bluetooth_new W" Chip_Bluetooth_is_initialized "Chip_Bluetooth_compute_size W"
    "Chip_Bluetooth_write_to_with_cached_sizes W" Chip_Bluetooth_get_cached_size "Chip_Bluetooth_merge_from W" "Chip_Bluetooth_wf W" Chip_Bluetooth_canon "Chip_Bluetooth_join W" "Chip_Bluetooth_checked_size W"
  by unfold_locales (rule Chip_Bluetooth_checked)

context protobuf_runtime
begin

lemma Chip_oneof_chip_steps:
  "Chip_oneof_chip_checked W (Chip_oneof_chip_bt u0) =
    (\<lambda>s. bindE (embedded_checked W (Chip_Bluetooth_checked_size W) u0 s) (\<lambda>(s, v). Ok (s, Chip_oneof_chip_bt v)))"
  "Chip_oneof_chip_checked W (Chip_oneof_chip_uwb u1) =
    (\<lambda>s. bindE (embedded_checked W (Chip_Radio_checked_size W) u1 s) (\<lambda>(s, v). Ok (s, Chip_oneof_chip_uwb v)))"
  "Chip_oneof_chip_checked W (Chip_oneof_chip_wifi u2) =
    (\<lambda>s. bindE (embedded_checked W (Chip_Radio_checked_size W) u2 s) (\<lambda>(s, v). Ok (s, Chip_oneof_chip_wifi v)))"
  by (simp_all add: fun_eq_iff)

lemma Chip_oneof_chip_counts:
  "counts (Chip_oneof_chip_checked W v) (Chip_oneof_chip_write W (snd (Chip_oneof_chip_size W v))) (\<lambda>_. snd (Chip_oneof_chip_size W v))"
  by (cases v)
    (simp_all add: Chip_oneof_chip_steps snd_case_pair2 counts_map adds_end adds_add_u32 size_laws small_field_def Chip_Bluetooth_ck.counts_embedded Chip_Radio_ck.counts_embedded)

lemma Chip_checked:
  "Chip_checked_size W m = Ok (Chip_compute_size W m) \<or>
    Chip_checked_size W m = Inl overflow \<and> 2 ^ 32 \<le> length (Chip_write_to_with_cached_sizes W (snd (Chip_compute_size W m)))"
proof -
  have w: "Chip_write_to_with_cached_sizes W (snd (Chip_compute_size W m)) =
    (if Chip_chip_id m \<noteq> [] then os_string W 1 (Chip_chip_id m) else []) @
    (if Chip_manufacturer m \<noteq> [] then os_string W 2 (Chip_manufacturer m) else []) @
    (if Chip_model m \<noteq> [] then os_string W 3 (Chip_model m) else []) @
    (if Chip_capture m \<noteq> State_UNKNOWN then os_enum W 4 (State_value (Chip_capture m)) else []) @
    (case Chip_chip m of None \<Rightarrow> [] | Some v \<Rightarrow> Chip_oneof_chip_write W (snd (Chip_oneof_chip_size W v))) @
    os_unknown W (unknown_fields m)"
    by (simp add: Chip_sized Chip_write_to_with_cached_sizes_def snd_case_pair2 case_prod_beta split: option.splits)
  have s: "snd (Chip_compute_size W m) = m\<lparr>Chip_chip := map_option (\<lambda>v. snd (Chip_oneof_chip_size W v)) (Chip_chip m), cached_size := fst (Chip_compute_size W m)\<rparr>"
    by (cases "Chip_chip m") (simp_all add: Chip_sized snd_case_pair2)
  show ?thesis
    unfolding Chip_checked_size_def
    by (rule counts_from_0 [OF _ w, where h = "\<lambda>my_size. m\<lparr>Chip_chip := map_option (\<lambda>v. snd (Chip_oneof_chip_size W v)) (Chip_chip m), cached_size := my_size\<rparr>"],
        (rule adds_bind counts_bind adds_end adds_if adds_strings adds_unknown counts_maybe [OF Chip_oneof_chip_counts]
         | simp add: size_laws small_field_def)+)
      (rule s Chip_size_exact)+
qed

end

sublocale protobuf_runtime < Chip_ck: checked_message W "Chip_new W" Chip_is_initialized "Chip_compute_size W"
    "Chip_write_to_with_cached_sizes W" Chip_get_cached_size "Chip_merge_from W" "Chip_wf W" Chip_canon "Chip_join W" "Chip_checked_size W"
  by unfold_locales (rule Chip_checked)

context protobuf_runtime
begin

lemma Device_checked:
  "Device_checked_size W m = Ok (Device_compute_size W m) \<or>
    Device_checked_size W m = Inl overflow \<and> 2 ^ 32 \<le> length (Device_write_to_with_cached_sizes W (snd (Device_compute_size W m)))"
proof -
  have w: "Device_write_to_with_cached_sizes W (snd (Device_compute_size W m)) =
    (if Device_device_serial m \<noteq> [] then os_string W 1 (Device_device_serial m) else []) @
    (if Device_name m \<noteq> [] then os_string W 2 (Device_name m) else []) @
    (if Device_visible m then os_bool W 3 (Device_visible m) else []) @
    os_optional W 4 Position_get_cached_size (Position_write_to_with_cached_sizes W) (snd (optional_size W (Position_compute_size W) (Device_position m))) @
    os_optional W 5 Orientation_get_cached_size (Orientation_write_to_with_cached_sizes W) (snd (optional_size W (Orientation_compute_size W) (Device_orientation m))) @
    os_repeated W 6 Chip_get_cached_size (Chip_write_to_with_cached_sizes W) (snd (repeated_size W (Chip_compute_size W) (Device_chips m))) @
    os_unknown W (unknown_fields m)"
    by (simp add: Device_sized Device_write_to_with_cached_sizes_def snd_case_pair2)
  have s: "snd (Device_compute_size W m) = m\<lparr>Device_position := snd (optional_size W (Position_compute_size W) (Device_position m)), Device_orientation := snd (optional_size W (Orientation_compute_size W) (Device_orientation m)), Device_chips := snd (repeated_size W (Chip_compute_size W) (Device_chips m)), cached_size := fst (Device_compute_size W m)\<rparr>"
    by (rule Device_sized)
  show ?thesis
    unfolding Device_checked_size_def
    by (rule counts_from_0 [OF _ w, where h = "\<lambda>my_size. m\<lparr>Device_position := snd (optional_size W (Position_compute_size W) (Device_position m)), Device_orientation := snd (optional_size W (Orientation_compute_size W) (Device_orientation m)), Device_chips := snd (repeated_size W (Chip_compute_size W) (Device_chips m)), cached_size := my_size\<rparr>"],
        (rule adds_bind counts_bind adds_end adds_if adds_strings adds_unknown Position_ck.counts_optional Orientation_ck.counts_optional Chip_ck.counts_repeated
         | simp add: size_laws small_field_def)+)
      (rule s Device_size_exact)+
qed

end

sublocale protobuf_runtime < Device_ck: checked_message W "Device_new W" Device_is_initialized "Device_compute_size W"
    "Device_write_to_with_cached_sizes W" Device_get_cached_size "Device_merge_from W" "Device_wf W" Device_canon "Device_join W" "Device_checked_size W"
  by unfold_locales (rule Device_checked)

context protobuf_runtime
begin

lemma Scene_checked:
  "Scene_checked_size W m = Ok (Scene_compute_size W m) \<or>
    Scene_checked_size W m = Inl overflow \<and> 2 ^ 32 \<le> length (Scene_write_to_with_cached_sizes W (snd (Scene_compute_size W m)))"
proof -
  have w: "Scene_write_to_with_cached_sizes W (snd (Scene_compute_size W m)) =
    os_repeated W 1 Device_get_cached_size (Device_write_to_with_cached_sizes W) (snd (repeated_size W (Device_compute_size W) (Scene_devices m))) @
    os_unknown W (unknown_fields m)"
    by (simp add: Scene_sized Scene_write_to_with_cached_sizes_def snd_case_pair2)
  have s: "snd (Scene_compute_size W m) = m\<lparr>Scene_devices := snd (repeated_size W (Device_compute_size W) (Scene_devices m)), cached_size := fst (Scene_compute_size W m)\<rparr>"
    by (rule Scene_sized)
  show ?thesis
    unfolding Scene_checked_size_def
    by (rule counts_from_0 [OF _ w, where h = "\<lambda>my_size. m\<lparr>Scene_devices := snd (repeated_size W (Device_compute_size W) (Scene_devices m)), cached_size := my_size\<rparr>"],
        (rule adds_bind counts_bind adds_end adds_if adds_strings adds_unknown Device_ck.counts_repeated
         | simp add: size_laws small_field_def)+)
      (rule s Scene_size_exact)+
qed

end

sublocale protobuf_runtime < Scene_ck: checked_message W "Scene_new W" Scene_is_initialized "Scene_compute_size W"
    "Scene_write_to_with_cached_sizes W" Scene_get_cached_size "Scene_merge_from W" "Scene_wf W" Scene_canon "Scene_join W" "Scene_checked_size W"
  by unfold_locales (rule Scene_checked)

context protobuf_runtime
begin

lemma VersionResponse_checked:
  "VersionResponse_checked_size W m = Ok (VersionResponse_compute_size W m) \<or>
    VersionResponse_checked_size W m = Inl overflow \<and> 2 ^ 32 \<le> length (VersionResponse_write_to_with_cached_sizes W (snd (VersionResponse_compute_size W m)))"
proof -
  have w: "VersionResponse_write_to_with_cached_sizes W (snd (VersionResponse_compute_size W m)) =
    (if VersionResponse_version m \<noteq> [] then os_string W 1 (VersionResponse_version m) else []) @
    os_unknown W (unknown_fields m)"
    by (simp add: VersionResponse_sized VersionResponse_write_to_with_cached_sizes_def snd_case_pair2)
  have s: "snd (VersionResponse_compute_size W m) = m\<lparr>cached_size := fst (VersionResponse_compute_size W m)\<rparr>"
    by (rule VersionResponse_sized)
  show ?thesis
    unfolding VersionResponse_checked_size_def
    by (rule counts_from_0 [OF _ w, where h = "\<lambda>my_size. m\<lparr>cached_size := my_size\<rparr>"],
        (rule adds_bind counts_bind adds_end adds_if adds_strings adds_unknown
         | simp add: size_laws small_field_def)+)
      (rule s VersionResponse_size_exact)+
qed

end

sublocale protobuf_runtime < VersionResponse_ck: checked_message W "VersionResponse_new W" VersionResponse_is_initialized "VersionResponse_compute_size W"
    "VersionResponse_write_to_with_cached_sizes W" VersionResponse_get_cached_size "VersionResponse_merge_from W" "VersionResponse_wf W" VersionResponse_canon "VersionResponse_join W" "VersionResponse_checked_size W"
  by unfold_locales (rule VersionResponse_checked)

context protobuf_runtime
begin

lemma SetLinkLossRequest_checked:
  "SetLinkLossRequest_checked_size W m = Ok (SetLinkLossRequest_compute_size W m) \<or>
    SetLinkLossRequest_checked_size W m = Inl overflow \<and> 2 ^ 32 \<le> length (SetLinkLossRequest_write_to_with_cached_sizes W (snd (SetLinkLossRequest_compute_size W m)))"
proof -
  have w: "SetLinkLossRequest_write_to_with_cached_sizes W (snd (SetLinkLossRequest_compute_size W m)) =
    (if SetLinkLossRequest_device_serial m \<noteq> [] then os_string W 1 (SetLinkLossRequest_device_serial m) else []) @
    (if SetLinkLossRequest_other_device m \<noteq> [] then os_string W 2 (SetLinkLossRequest_other_device m) else []) @
    (if SetLinkLossRequest_radio m \<noteq> PhyKind_NONE then os_enum W 3 (PhyKind_value (SetLinkLossRequest_radio m)) else []) @
    (if \<not> f32_is_zero (SetLinkLossRequest_link_loss m) then os_float W 4 (SetLinkLossRequest_link_loss m) else []) @
    os_unknown W (unknown_fields m)"
    by (simp add: SetLinkLossRequest_sized SetLinkLossRequest_write_to_with_cached_sizes_def snd_case_pair2)
  have s: "snd (SetLinkLossRequest_compute_size W m) = m\<lparr>cached_size := fst (SetLinkLossRequest_compute_size W m)\<rparr>"
    by (rule SetLinkLossRequest_sized)
  show ?thesis
    unfolding SetLinkLossRequest_checked_size_def
    by (rule counts_from_0 [OF _ w, where h = "\<lambda>my_size. m\<lparr>cached_size := my_size\<rparr>"],
        (rule adds_bind counts_bind adds_end adds_if adds_strings adds_unknown
         | simp add: size_laws small_field_def)+)
      (rule s SetLinkLossRequest_size_exact)+
qed

end

sublocale protobuf_runtime < SetLinkLossRequest_ck: checked_message W "SetLinkLossRequest_new W" SetLinkLossRequest_is_initialized "SetLinkLossRequest_compute_size W"
    "SetLinkLossRequest_write_to_with_cached_sizes W" SetLinkLossRequest_get_cached_size "SetLinkLossRequest_merge_from W" "SetLinkLossRequest_wf W" SetLinkLossRequest_canon "SetLinkLossRequest_join W" "SetLinkLossRequest_checked_size W"
  by unfold_locales (rule SetLinkLossRequest_checked)

context protobuf_runtime
begin

lemma UpdateDeviceRequest_checked:
  "UpdateDeviceRequest_checked_size W m = Ok (UpdateDeviceRequest_compute_size W m) \<or>
    UpdateDeviceRequest_checked_size W m = Inl overflow \<and> 2 ^ 32 \<le> length (UpdateDeviceRequest_write_to_with_cached_sizes W (snd (UpdateDeviceRequest_compute_size W m)))"
proof -
  have w: "UpdateDeviceRequest_write_to_with_cached_sizes W (snd (UpdateDeviceRequest_compute_size W m)) =
    os_optional W 2 Device_get_cached_size (Device_write_to_with_cached_sizes W) (snd (optional_size W (Device_compute_size W) (UpdateDeviceRequest_device m))) @
    os_unknown W (unknown_fields m)"
    by (simp add: UpdateDeviceRequest_sized UpdateDeviceRequest_write_to_with_cached_sizes_def snd_case_pair2)
  have s: "snd (UpdateDeviceRequest_compute_size W m) = m\<lparr>UpdateDeviceRequest_device := snd (optional_size W (Device_compute_size W) (UpdateDeviceRequest_device m)), cached_size := fst (UpdateDeviceRequest_compute_size W m)\<rparr>"
    by (rule UpdateDeviceRequest_sized)
  show ?thesis
    unfolding UpdateDeviceRequest_checked_size_def
    by (rule counts_from_0 [OF _ w, where h = "\<lambda>my_size. m\<lparr>UpdateDeviceRequest_device := snd (optional_size W (Device_compute_size W) (UpdateDeviceRequest_device m)), cached_size := my_size\<rparr>"],
        (rule adds_bind counts_bind adds_end adds_if adds_strings adds_unknown Device_ck.counts_optional
         | simp add: size_laws small_field_def)+)
      (rule s UpdateDeviceRequest_size_exact)+
qed

end

sublocale protobuf_runtime < UpdateDeviceRequest_ck: checked_message W "UpdateDeviceRequest_new W" UpdateDeviceRequest_is_initialized "UpdateDeviceRequest_compute_size W"
    "UpdateDeviceRequest_write_to_with_cached_sizes W" UpdateDeviceRequest_get_cached_size "UpdateDeviceRequest_merge_from W" "UpdateDeviceRequest_wf W" UpdateDeviceRequest_canon "UpdateDeviceRequest_join W" "UpdateDeviceRequest_checked_size W"
  by unfold_locales (rule UpdateDeviceRequest_checked)

context protobuf_runtime
begin

lemma Updates_checked:
  "Updates_checked_size W m = Ok (Updates_compute_size W m) \<or>
    Updates_checked_size W m = Inl overflow \<and> 2 ^ 32 \<le> length (Updates_write_to_with_cached_sizes W (snd (Updates_compute_size W m)))"
proof -
  have w: "Updates_write_to_with_cached_sizes W (snd (Updates_compute_size W m)) =
    os_repeated W 1 Device_get_cached_size (Device_write_to_with_cached_sizes W) (snd (repeated_size W (Device_compute_size W) (Updates_devices m))) @
    os_unknown W (unknown_fields m)"
    by (simp add: Updates_sized Updates_write_to_with_cached_sizes_def snd_case_pair2)
  have s: "snd (Updates_compute_size W m) = m\<lparr>Updates_devices := snd (repeated_size W (Device_compute_size W) (Updates_devices m)), cached_size := fst (Updates_compute_size W m)\<rparr>"
    by (rule Updates_sized)
  show ?thesis
    unfolding Updates_checked_size_def
    by (rule counts_from_0 [OF _ w, where h = "\<lambda>my_size. m\<lparr>Updates_devices := snd (repeated_size W (Device_compute_size W) (Updates_devices m)), cached_size := my_size\<rparr>"],
        (rule adds_bind counts_bind adds_end adds_if adds_strings adds_unknown Device_ck.counts_repeated
         | simp add: size_laws small_field_def)+)
      (rule s Updates_size_exact)+
qed

end

sublocale protobuf_runtime < Updates_ck: checked_message W "Updates_new W" Updates_is_initialized "Updates_compute_size W"
    "Updates_write_to_with_cached_sizes W" Updates_get_cached_size "Updates_merge_from W" "Updates_wf W" Updates_canon "Updates_join W" "Updates_checked_size W"
  by unfold_locales (rule Updates_checked)

context protobuf_runtime
begin

lemma GetDevicesResponse_checked:
  "GetDevicesResponse_checked_size W m = Ok (GetDevicesResponse_compute_size W m) \<or>
    GetDevicesResponse_checked_size W m = Inl overflow \<and> 2 ^ 32 \<le> length (GetDevicesResponse_write_to_with_cached_sizes W (snd (GetDevicesResponse_compute_size W m)))"
proof -
  have w: "GetDevicesResponse_write_to_with_cached_sizes W (snd (GetDevicesResponse_compute_size W m)) =
    os_repeated W 1 Device_get_cached_size (Device_write_to_with_cached_sizes W) (snd (repeated_size W (Device_compute_size W) (GetDevicesResponse_devices m))) @
    os_unknown W (unknown_fields m)"
    by (simp add: GetDevicesResponse_sized GetDevicesResponse_write_to_with_cached_sizes_def snd_case_pair2)
  have s: "snd (GetDevicesResponse_compute_size W m) = m\<lparr>GetDevicesResponse_devices := snd (repeated_size W (Device_compute_size W) (GetDevicesResponse_devices m)), cached_size := fst (GetDevicesResponse_compute_size W m)\<rparr>"
    by (rule GetDevicesResponse_sized)
  show ?thesis
    unfolding GetDevicesResponse_checked_size_def
    by (rule counts_from_0 [OF _ w, where h = "\<lambda>my_size. m\<lparr>GetDevicesResponse_devices := snd (repeated_size W (Device_compute_size W) (GetDevicesResponse_devices m)), cached_size := my_size\<rparr>"],
        (rule adds_bind counts_bind adds_end adds_if adds_strings adds_unknown Device_ck.counts_repeated
         | simp add: size_laws small_field_def)+)
      (rule s GetDevicesResponse_size_exact)+
qed

end

sublocale protobuf_runtime < GetDevicesResponse_ck: checked_message W "GetDevicesResponse_new W" GetDevicesResponse_is_initialized "GetDevicesResponse_compute_size W"
    "GetDevicesResponse_write_to_with_cached_sizes W" GetDevicesResponse_get_cached_size "GetDevicesResponse_merge_from W" "GetDevicesResponse_wf W" GetDevicesResponse_canon "GetDevicesResponse_join W" "GetDevicesResponse_checked_size W"
  by unfold_locales (rule GetDevicesResponse_checked)

context protobuf_runtime
begin

lemma NetCatStream_checked:
  "NetCatStream_checked_size W m = Ok (NetCatStream_compute_size W m) \<or>
    NetCatStream_checked_size W m = Inl overflow \<and> 2 ^ 32 \<le> length (NetCatStream_write_to_with_cached_sizes W (snd (NetCatStream_compute_size W m)))"
proof -
  have w: "NetCatStream_write_to_with_cached_sizes W (snd (NetCatStream_compute_size W m)) =
    concat (map (os_string W 1) (NetCatStream_result m)) @
    os_unknown W (unknown_fields m)"
    by (simp add: NetCatStream_sized NetCatStream_write_to_with_cached_sizes_def snd_case_pair2)
  have s: "snd (NetCatStream_compute_size W m) = m\<lparr>cached_size := fst (NetCatStream_compute_size W m)\<rparr>"
    by (rule NetCatStream_sized)
  show ?thesis
    unfolding NetCatStream_checked_size_def
    by (rule counts_from_0 [OF _ w, where h = "\<lambda>my_size. m\<lparr>cached_size := my_size\<rparr>"],
        (rule adds_bind counts_bind adds_end adds_if adds_strings adds_unknown
         | simp add: size_laws small_field_def)+)
      (rule s NetCatStream_size_exact)+
qed

end

sublocale protobuf_runtime < NetCatStream_ck: checked_message W "NetCatStream_new W" NetCatStream_is_initialized "NetCatStream_compute_size W"
    "NetCatStream_write_to_with_cached_sizes W" NetCatStream_get_cached_size "NetCatStream_merge_from W" "NetCatStream_wf W" NetCatStream_canon "NetCatStream_join W" "NetCatStream_checked_size W"
  by unfold_locales (rule NetCatStream_checked)

context protobuf_runtime
begin

lemma SetPacketCaptureRequest_checked:
  "SetPacketCaptureRequest_checked_size W m = Ok (SetPacketCaptureRequest_compute_size W m) \<or>
    SetPacketCaptureRequest_checked_size W m = Inl overflow \<and> 2 ^ 32 \<le> length (SetPacketCaptureRequest_write_to_with_cached_sizes W (snd (SetPacketCaptureRequest_compute_size W m)))"
proof -
  have w: "SetPacketCaptureRequest_write_to_with_cached_sizes W (snd (SetPacketCaptureRequest_compute_size W m)) =
    (if SetPacketCaptureRequest_capture m then os_bool W 1 (SetPacketCaptureRequest_capture m) else []) @
    (if SetPacketCaptureRequest_device_serial m \<noteq> [] then os_string W 2 (SetPacketCaptureRequest_device_serial m) else []) @
    os_unknown W (unknown_fields m)"
    by (simp add: SetPacketCaptureRequest_sized SetPacketCaptureRequest_write_to_with_cached_sizes_def snd_case_pair2)
  have s: "snd (SetPacketCaptureRequest_compute_size W m) = m\<lparr>cached_size := fst (SetPacketCaptureRequest_compute_size W m)\<rparr>"
    by (rule SetPacketCaptureRequest_sized)
  show ?thesis
    unfolding SetPacketCaptureRequest_checked_size_def
    by (rule counts_from_0 [OF _ w, where h = "\<lambda>my_size. m\<lparr>cached_size := my_size\<rparr>"],
        (rule adds_bind counts_bind adds_end adds_if adds_strings adds_unknown
         | simp add: size_laws small_field_def)+)
      (rule s SetPacketCaptureRequest_size_exact)+
qed

end

sublocale protobuf_runtime < SetPacketCaptureRequest_ck: checked_message W "SetPacketCaptureRequest_new W" SetPacketCaptureRequest_is_initialized "SetPacketCaptureRequest_compute_size W"
    "SetPacketCaptureRequest_write_to_with_cached_sizes W" SetPacketCaptureRequest_get_cached_size "SetPacketCaptureRequest_merge_from W" "SetPacketCaptureRequest_wf W" SetPacketCaptureRequest_canon "SetPacketCaptureRequest_join W" "SetPacketCaptureRequest_checked_size W"
  by unfold_locales (rule SetPacketCaptureRequest_checked)

context protobuf_runtime
begin

lemma Startup_Chip_checked:
  "Startup_Chip_checked_size W m = Ok (Startup_Chip_compute_size W m) \<or>
    Startup_Chip_checked_size W m = Inl overflow \<and> 2 ^ 32 \<le> length (Startup_Chip_write_to_with_cached_sizes W (snd (Startup_Chip_compute_size W m)))"
proof -
  have w: "Startup_Chip_write_to_with_cached_sizes W (snd (Startup_Chip_compute_size W m)) =
    (if Startup_Chip_kind m \<noteq> Chip_ChipKind_UNSPECIFIED then os_enum W 1 (Chip_ChipKind_value (Startup_Chip_kind m)) else []) @
    (if Startup_Chip_id m \<noteq> [] then os_string W 2 (Startup_Chip_id m) else []) @
    (if Startup_Chip_manufacturer m \<noteq> [] then os_string W 3 (Startup_Chip_manufacturer m) else []) @
    (if Startup_Chip_model m \<noteq> [] then os_string W 4 (Startup_Chip_model m) else []) @
    (if Startup_Chip_fd_in m \<noteq> 0 then os_int32 W 5 (Startup_Chip_fd_in m) else []) @
    (if Startup_Chip_fd_out m \<noteq> 0 then os_int32 W 6 (Startup_Chip_fd_out m) else []) @
    (if Startup_Chip_loopback m then os_bool W 7 (Startup_Chip_loopback m) else []) @
    os_unknown W (unknown_fields m)"
    by (simp add: Startup_Chip_sized Startup_Chip_write_to_with_cached_sizes_def snd_case_pair2)
  have s: "snd (Startup_Chip_compute_size W m) = m\<lparr>cached_size := fst (Startup_Chip_compute_size W m)\<rparr>"
    by (rule Startup_Chip_sized)
  show ?thesis
    unfolding Startup_Chip_checked_size_def
    by (rule counts_from_0 [OF _ w, where h = "\<lambda>my_size. m\<lparr>cached_size := my_size\<rparr>"],
        (rule adds_bind counts_bind adds_end adds_if adds_strings adds_unknown
         | simp add: size_laws small_field_def)+)
      (rule s Startup_Chip_size_exact)+
qed

end

sublocale protobuf_runtime < Startup_Chip_ck: checked_message W "Startup_Chip_new W" Startup_Chip_is_initialized "Startup_Chip_compute_size W"
    "Startup_Chip_write_to_with_cached_sizes W" Startup_Chip_get_cached_size "Startup_Chip_merge_from W" "Startup_Chip_wf W" Startup_Chip_canon "Startup_Chip_join W" "Startup_Chip_checked_size W"
  by unfold_locales (rule Startup_Chip_checked)

context protobuf_runtime
begin

lemma StartupInfo_Device_checked:
  "StartupInfo_Device_checked_size W m = Ok (StartupInfo_Device_compute_size W m) \<or>
    StartupInfo_Device_checked_size W m = Inl overflow \<and> 2 ^ 32 \<le> length (StartupInfo_Device_write_to_with_cached_sizes W (snd (StartupInfo_Device_compute_size W m)))"
proof -
  have w: "StartupInfo_Device_write_to_with_cached_sizes W (snd (StartupInfo_Device_compute_size W m)) =
    (if StartupInfo_Device_serial m \<noteq> [] then os_string W 1 (StartupInfo_Device_serial m) else []) @
    os_repeated W 2 Startup_Chip_get_cached_size (Startup_Chip_write_to_with_cached_sizes W) (snd (repeated_size W (Startup_Chip_compute_size W) (StartupInfo_Device_chips m))) @
    os_unknown W (unknown_fields m)"
    by (simp add: StartupInfo_Device_sized StartupInfo_Device_write_to_with_cached_sizes_def snd_case_pair2)
  have s: "snd (StartupInfo_Device_compute_size W m) = m\<lparr>StartupInfo_Device_chips := snd (repeated_size W (Startup_Chip_compute_size W) (StartupInfo_Device_chips m)), cached_size := fst (StartupInfo_Device_compute_size W m)\<rparr>"
    by (rule StartupInfo_Device_sized)
  show ?thesis
    unfolding StartupInfo_Device_checked_size_def
    by (rule counts_from_0 [OF _ w, where h = "\<lambda>my_size. m\<lparr>StartupInfo_Device_chips := snd (repeated_size W (Startup_Chip_compute_size W) (StartupInfo_Device_chips m)), cached_size := my_size\<rparr>"],
        (rule adds_bind counts_bind adds_end adds_if adds_strings adds_unknown Startup_Chip_ck.counts_repeated
         | simp add: size_laws small_field_def)+)
      (rule s StartupInfo_Device_size_exact)+
qed

end

sublocale protobuf_runtime < StartupInfo_Device_ck: checked_message W "StartupInfo_Device_new W" StartupInfo_Device_is_initialized "StartupInfo_Device_compute_size W"
    "StartupInfo_Device_write_to_with_cached_sizes W" StartupInfo_Device_get_cached_size "StartupInfo_Device_merge_from W" "StartupInfo_Device_wf W" StartupInfo_Device_canon "StartupInfo_Device_join W" "StartupInfo_Device_checked_size W"
  by unfold_locales (rule StartupInfo_Device_checked)

context protobuf_runtime
begin

lemma StartupInfo_checked:
  "StartupInfo_checked_size W m = Ok (StartupInfo_compute_size W m) \<or>
    StartupInfo_checked_size W m = Inl overflow \<and> 2 ^ 32 \<le> length (StartupInfo_write_to_with_cached_sizes W (snd (StartupInfo_compute_size W m)))"
proof -
  have w: "StartupInfo_write_to_with_cached_sizes W (snd (StartupInfo_compute_size W m)) =
    os_repeated W 1 StartupInfo_Device_get_cached_size (StartupInfo_Device_write_to_with_cached_sizes W) (snd (repeated_size W (StartupInfo_Device_compute_size W) (StartupInfo_devices m))) @
    os_unknown W (unknown_fields m)"
    by (simp add: StartupInfo_sized StartupInfo_write_to_with_cached_sizes_def snd_case_pair2)
  have s: "snd (StartupInfo_compute_size W m) = m\<lparr>StartupInfo_devices := snd (repeated_size W (StartupInfo_Device_compute_size W) (StartupInfo_devices m)), cached_size := fst (StartupInfo_compute_size W m)\<rparr>"
    by (rule StartupInfo_sized)
  show ?thesis
    unfolding StartupInfo_checked_size_def
    by (rule counts_from_0 [OF _ w, where h = "\<lambda>my_size. m\<lparr>StartupInfo_devices := snd (repeated_size W (StartupInfo_Device_compute_size W) (StartupInfo_devices m)), cached_size := my_size\<rparr>"],
        (rule adds_bind counts_bind adds_end adds_if adds_strings adds_unknown StartupInfo_Device_ck.counts_repeated
         | simp add: size_laws small_field_def)+)
      (rule s StartupInfo_size_exact)+
qed

end

sublocale protobuf_runtime < StartupInfo_ck: checked_message W "StartupInfo_new W" StartupInfo_is_initialized "StartupInfo_compute_size W"
    "StartupInfo_write_to_with_cached_sizes W" StartupInfo_get_cached_size "StartupInfo_merge_from W" "StartupInfo_wf W" StartupInfo_canon "StartupInfo_join W" "StartupInfo_checked_size W"
  by unfold_locales (rule StartupInfo_checked)

context protobuf_runtime
begin

lemma ChipInfo_checked:
  "ChipInfo_checked_size W m = Ok (ChipInfo_compute_size W m) \<or>
    ChipInfo_checked_size W m = Inl overflow \<and> 2 ^ 32 \<le> length (ChipInfo_write_to_with_cached_sizes W (snd (ChipInfo_compute_size W m)))"
proof -
  have w: "ChipInfo_write_to_with_cached_sizes W (snd (ChipInfo_compute_size W m)) =
    (if ChipInfo_serial m \<noteq> [] then os_string W 1 (ChipInfo_serial m) else []) @
    os_optional W 2 Startup_Chip_get_cached_size (Startup_Chip_write_to_with_cached_sizes W) (snd (optional_size W (Startup_Chip_compute_size W) (ChipInfo_chip m))) @
    os_unknown W (unknown_fields m)"
    by (simp add: ChipInfo_sized ChipInfo_write_to_with_cached_sizes_def snd_case_pair2)
  have s: "snd (ChipInfo_compute_size W m) = m\<lparr>ChipInfo_chip := snd (optional_size W (Startup_Chip_compute_size W) (ChipInfo_chip m)), cached_size := fst (ChipInfo_compute_size W m)\<rparr>"
    by (rule ChipInfo_sized)
  show ?thesis
    unfolding ChipInfo_checked_size_def
    by (rule counts_from_0 [OF _ w, where h = "\<lambda>my_size. m\<lparr>ChipInfo_chip := snd (optional_size W (Startup_Chip_compute_size W) (ChipInfo_chip m)), cached_size := my_size\<rparr>"],
        (rule adds_bind counts_bind adds_end adds_if adds_strings adds_unknown Startup_Chip_ck.counts_optional
         | simp add: size_laws small_field_def)+)
      (rule s ChipInfo_size_exact)+
qed

end

sublocale protobuf_runtime < ChipInfo_ck: checked_message W "ChipInfo_new W" ChipInfo_is_initialized "ChipInfo_compute_size W"
    "ChipInfo_write_to_with_cached_sizes W" ChipInfo_get_cached_size "ChipInfo_merge_from W" "ChipInfo_wf W" ChipInfo_canon "ChipInfo_join W" "ChipInfo_checked_size W"
  by unfold_locales (rule ChipInfo_checked)

context protobuf_runtime
begin

lemma HCIPacket_checked:
  "HCIPacket_checked_size W m = Ok (HCIPacket_compute_size W m) \<or>
    HCIPacket_checked_size W m = Inl overflow \<and> 2 ^ 32 \<le> length (HCIPacket_write_to_with_cached_sizes W (snd (HCIPacket_compute_size W m)))"
proof -
  have w: "HCIPacket_write_to_with_cached_sizes W (snd (HCIPacket_compute_size W m)) =
    (if HCIPacket_field_type m \<noteq> HCIPacket_PacketType_PACKET_TYPE_UNSPECIFIED then os_enum W 1 (HCIPacket_PacketType_value (HCIPacket_field_type m)) else []) @
    (if HCIPacket_packet m \<noteq> [] then os_bytes W 2 (HCIPacket_packet m) else []) @
    os_unknown W (unknown_fields m)"
    by (simp add: HCIPacket_sized HCIPacket_write_to_with_cached_sizes_def snd_case_pair2)
  have s: "snd (HCIPacket_compute_size W m) = m\<lparr>cached_size := fst (HCIPacket_compute_size W m)\<rparr>"
    by (rule HCIPacket_sized)
  show ?thesis
    unfolding HCIPacket_checked_size_def
    by (rule counts_from_0 [OF _ w, where h = "\<lambda>my_size. m\<lparr>cached_size := my_size\<rparr>"],
        (rule adds_bind counts_bind adds_end adds_if adds_strings adds_unknown
         | simp add: size_laws small_field_def)+)
      (rule s HCIPacket_size_exact)+
qed

end

sublocale protobuf_runtime < HCIPacket_ck: checked_message W "HCIPacket_new W" HCIPacket_is_initialized "HCIPacket_compute_size W"
    "HCIPacket_write_to_with_cached_sizes W" HCIPacket_get_cached_size "HCIPacket_merge_from W" "HCIPacket_wf W" HCIPacket_canon "HCIPacket_join W" "HCIPacket_checked_size W"
  by unfold_locales (rule HCIPacket_checked)

context protobuf_runtime
begin

lemma StreamPacketsRequest_oneof_request_type_steps:
  "StreamPacketsRequest_oneof_request_type_checked W (StreamPacketsRequest_oneof_request_type_initial_info u0) =
    (\<lambda>s. bindE (embedded_checked W (ChipInfo_checked_size W) u0 s) (\<lambda>(s, v). Ok (s, StreamPacketsRequest_oneof_request_type_initial_info v)))"
  "StreamPacketsRequest_oneof_request_type_checked W (StreamPacketsRequest_oneof_request_type_hci_packet u1) =
    (\<lambda>s. bindE (embedded_checked W (HCIPacket_checked_size W) u1 s) (\<lambda>(s, v). Ok (s, StreamPacketsRequest_oneof_request_type_hci_packet v)))"
  "StreamPacketsRequest_oneof_request_type_checked W (StreamPacketsRequest_oneof_request_type_packet u2) = (\<lambda>s. bindE (add_u32 s (sz_bytes W 3 u2)) (\<lambda>s. Ok (s, StreamPacketsRequest_oneof_request_type_packet u2)))"
  by (simp_all add: fun_eq_iff)

lemma StreamPacketsRequest_oneof_request_type_counts:
  "counts (StreamPacketsRequest_oneof_request_type_checked W v) (StreamPacketsRequest_oneof_request_type_write W (snd (StreamPacketsRequest_oneof_request_type_size W v))) (\<lambda>_. snd (StreamPacketsRequest_oneof_request_type_size W v))"
  by (cases v)
    (simp_all add: StreamPacketsRequest_oneof_request_type_steps snd_case_pair2 counts_map adds_end adds_add_u32 size_laws small_field_def ChipInfo_ck.counts_embedded HCIPacket_ck.counts_embedded)

lemma StreamPacketsRequest_checked:
  "StreamPacketsRequest_checked_size W m = Ok (StreamPacketsRequest_compute_size W m) \<or>
    StreamPacketsRequest_checked_size W m = Inl overflow \<and> 2 ^ 32 \<le> length (StreamPacketsRequest_write_to_with_cached_sizes W (snd (StreamPacketsRequest_compute_size W m)))"
proof -
  have w: "StreamPacketsRequest_write_to_with_cached_sizes W (snd (StreamPacketsRequest_compute_size W m)) =
    (case StreamPacketsRequest_request_type m of None \<Rightarrow> [] | Some v \<Rightarrow> StreamPacketsRequest_oneof_request_type_write W (snd (StreamPacketsRequest_oneof_request_type_size W v))) @
    os_unknown W (unknown_fields m)"
    by (simp add: StreamPacketsRequest_sized StreamPacketsRequest_write_to_with_cached_sizes_def snd_case_pair2 case_prod_beta split: option.splits)
  have s: "snd (StreamPacketsRequest_compute_size W m) = m\<lparr>StreamPacketsRequest_request_type := map_option (\<lambda>v. snd (StreamPacketsRequest_oneof_request_type_size W v)) (StreamPacketsRequest_request_type m), cached_size := fst (StreamPacketsRequest_compute_size W m)\<rparr>"
    by (cases "StreamPacketsRequest_request_type m") (simp_all add: StreamPacketsRequest_sized snd_case_pair2)
  show ?thesis
    unfolding StreamPacketsRequest_checked_size_def
    by (rule counts_from_0 [OF _ w, where h = "\<lambda>my_size. m\<lparr>StreamPacketsRequest_request_type := map_option (\<lambda>v. snd (StreamPacketsRequest_oneof_request_type_size W v)) (StreamPacketsRequest_request_type m), cached_size := my_size\<rparr>"],
        (rule adds_bind counts_bind adds_end adds_if adds_strings adds_unknown counts_maybe [OF StreamPacketsRequest_oneof_request_type_counts]
         | simp add: size_laws small_field_def)+)
      (rule s StreamPacketsRequest_size_exact)+
qed

end

sublocale protobuf_runtime < StreamPacketsRequest_ck: checked_message W "StreamPacketsRequest_new W" StreamPacketsRequest_is_initialized "StreamPacketsRequest_compute_size W"
    "StreamPacketsRequest_write_to_with_cached_sizes W" StreamPacketsRequest_get_cached_size "StreamPacketsRequest_merge_from W" "StreamPacketsRequest_wf W" StreamPacketsRequest_canon "StreamPacketsRequest_join W" "StreamPacketsRequest_checked_size W"
  by unfold_locales (rule StreamPacketsRequest_checked)

context protobuf_runtime
begin

lemma StreamPacketsResponse_oneof_response_type_steps:
  "StreamPacketsResponse_oneof_response_type_checked W (StreamPacketsResponse_oneof_response_type_error u0) = (\<lambda>s. bindE (add_u32 s (sz_string W 1 u0)) (\<lambda>s. Ok (s, StreamPacketsResponse_oneof_response_type_error u0)))"
  "StreamPacketsResponse_oneof_response_type_checked W (StreamPacketsResponse_oneof_response_type_hci_packet u1) =
    (\<lambda>s. bindE (embedded_checked W (HCIPacket_checked_size W) u1 s) (\<lambda>(s, v). Ok (s, StreamPacketsResponse_oneof_response_type_hci_packet v)))"
  "StreamPacketsResponse_oneof_response_type_checked W (StreamPacketsResponse_oneof_response_type_packet u2) = (\<lambda>s. bindE (add_u32 s (sz_bytes W 3 u2)) (\<lambda>s. Ok (s, StreamPacketsResponse_oneof_response_type_packet u2)))"
  by (simp_all add: fun_eq_iff)

lemma StreamPacketsResponse_oneof_response_type_counts:
  "counts (StreamPacketsResponse_oneof_response_type_checked W v) (StreamPacketsResponse_oneof_response_type_write W (snd (StreamPacketsResponse_oneof_response_type_size W v))) (\<lambda>_. snd (StreamPacketsResponse_oneof_response_type_size W v))"
  by (cases v)
    (simp_all add: StreamPacketsResponse_oneof_response_type_steps snd_case_pair2 counts_map adds_end adds_add_u32 size_laws small_field_def HCIPacket_ck.counts_embedded)

lemma StreamPacketsResponse_checked:
  "StreamPacketsResponse_checked_size W m = Ok (StreamPacketsResponse_compute_size W m) \<or>
    StreamPacketsResponse_checked_size W m = Inl overflow \<and> 2 ^ 32 \<le> length (StreamPacketsResponse_write_to_with_cached_sizes W (snd (StreamPacketsResponse_compute_size W m)))"
proof -
  have w: "StreamPacketsResponse_write_to_with_cached_sizes W (snd (StreamPacketsResponse_compute_size W m)) =
    (case StreamPacketsResponse_response_type m of None \<Rightarrow> [] | Some v \<Rightarrow> StreamPacketsResponse_oneof_response_type_write W (snd (StreamPacketsResponse_oneof_response_type_size W v))) @
    os_unknown W (unknown_fields m)"
    by (simp add: StreamPacketsResponse_sized StreamPacketsResponse_write_to_with_cached_sizes_def snd_case_pair2 case_prod_beta split: option.splits)
  have s: "snd (StreamPacketsResponse_compute_size W m) = m\<lparr>StreamPacketsResponse_response_type := map_option (\<lambda>v. snd (StreamPacketsResponse_oneof_response_type_size W v)) (StreamPacketsResponse_response_type m), cached_size := fst (StreamPacketsResponse_compute_size W m)\<rparr>"
    by (cases "StreamPacketsResponse_response_type m") (simp_all add: StreamPacketsResponse_sized snd_case_pair2)
  show ?thesis
    unfolding StreamPacketsResponse_checked_size_def
    by (rule counts_from_0 [OF _ w, where h = "\<lambda>my_size. m\<lparr>StreamPacketsResponse_response_type := map_option (\<lambda>v. snd (StreamPacketsResponse_oneof_response_type_size W v)) (StreamPacketsResponse_response_type m), cached_size := my_size\<rparr>"],
        (rule adds_bind counts_bind adds_end adds_if adds_strings adds_unknown counts_maybe [OF StreamPacketsResponse_oneof_response_type_counts]
         | simp add: size_laws small_field_def)+)
      (rule s StreamPacketsResponse_size_exact)+
qed

end

sublocale protobuf_runtime < StreamPacketsResponse_ck: checked_message W "StreamPacketsResponse_new W" StreamPacketsResponse_is_initialized "StreamPacketsResponse_compute_size W"
    "StreamPacketsResponse_write_to_with_cached_sizes W" StreamPacketsResponse_get_cached_size "StreamPacketsResponse_merge_from W" "StreamPacketsResponse_wf W" StreamPacketsResponse_canon "StreamPacketsResponse_join W" "StreamPacketsResponse_checked_size W"
  by unfold_locales (rule StreamPacketsResponse_checked)

end
