(* ===== verification/Object_Checked.thy ===== *)
theory Object_Checked
  imports Object_Join Pb_Checked
begin

text \<open>
  Debug builds and release builds, for objects of all types: \<open>object_checked_size\<close> is \<open>compute_size\<close> with overflow checks
  (\<open>C_checked_size\<close> of the object's type).
\<close>

fun object_checked_size :: "'u protobuf_rt \<Rightarrow> 'u message_object \<Rightarrow> (u32 \<times> 'u message_object) result" where
  "object_checked_size W (Obj_Position m) = bindE (Position_checked_size W m) (\<lambda>(n, m). Ok (n, Obj_Position m))"
| "object_checked_size W (Obj_Orientation m) = bindE (Orientation_checked_size W m) (\<lambda>(n, m). Ok (n, Obj_Orientation m))"
| "object_checked_size W (Obj_Chip m) = bindE (Chip_checked_size W m) (\<lambda>(n, m). Ok (n, Obj_Chip m))"
| "object_checked_size W (Obj_Chip_Radio m) = bindE (Chip_Radio_checked_size W m) (\<lambda>(n, m). Ok (n, Obj_Chip_Radio m))"
| "object_checked_size W (Obj_Chip_Bluetooth m) = bindE (Chip_Bluetooth_checked_size W m) (\<lambda>(n, m). Ok (n, Obj_Chip_Bluetooth m))"
| "object_checked_size W (Obj_Device m) = bindE (Device_checked_size W m) (\<lambda>(n, m). Ok (n, Obj_Device m))"
| "object_checked_size W (Obj_Scene m) = bindE (Scene_checked_size W m) (\<lambda>(n, m). Ok (n, Obj_Scene m))"
| "object_checked_size W (Obj_VersionResponse m) = bindE (VersionResponse_checked_size W m) (\<lambda>(n, m). Ok (n, Obj_VersionResponse m))"
| "object_checked_size W (Obj_SetLinkLossRequest m) = bindE (SetLinkLossRequest_checked_size W m) (\<lambda>(n, m). Ok (n, Obj_SetLinkLossRequest m))"
| "object_checked_size W (Obj_UpdateDeviceRequest m) = bindE (UpdateDeviceRequest_checked_size W m) (\<lambda>(n, m). Ok (n, Obj_UpdateDeviceRequest m))"
| "object_checked_size W (Obj_Updates m) = bindE (Updates_checked_size W m) (\<lambda>(n, m). Ok (n, Obj_Updates m))"
| "object_checked_size W (Obj_GetDevicesResponse m) = bindE (GetDevicesResponse_checked_size W m) (\<lambda>(n, m). Ok (n, Obj_GetDevicesResponse m))"
| "object_checked_size W (Obj_NetCatStream m) = bindE (NetCatStream_checked_size W m) (\<lambda>(n, m). Ok (n, Obj_NetCatStream m))"
| "object_checked_size W (Obj_SetPacketCaptureRequest m) = bindE (SetPacketCaptureRequest_checked_size W m) (\<lambda>(n, m). Ok (n, Obj_SetPacketCaptureRequest m))"
| "object_checked_size W (Obj_StartupInfo m) = bindE (StartupInfo_checked_size W m) (\<lambda>(n, m). Ok (n, Obj_StartupInfo m))"
| "object_checked_size W (Obj_StartupInfo_Device m) = bindE (StartupInfo_Device_checked_size W m) (\<lambda>(n, m). Ok (n, Obj_StartupInfo_Device m))"
| "object_checked_size W (Obj_ChipInfo m) = bindE (ChipInfo_checked_size W m) (\<lambda>(n, m). Ok (n, Obj_ChipInfo m))"
| "object_checked_size W (Obj_Startup_Chip m) = bindE (Startup_Chip_checked_size W m) (\<lambda>(n, m). Ok (n, Obj_Startup_Chip m))"
| "object_checked_size W (Obj_HCIPacket m) = bindE (HCIPacket_checked_size W m) (\<lambda>(n, m). Ok (n, Obj_HCIPacket m))"
| "object_checked_size W (Obj_StreamPacketsRequest m) = bindE (StreamPacketsRequest_checked_size W m) (\<lambda>(n, m). Ok (n, Obj_StreamPacketsRequest m))"
| "object_checked_size W (Obj_StreamPacketsResponse m) = bindE (StreamPacketsResponse_checked_size W m) (\<lambda>(n, m). Ok (n, Obj_StreamPacketsResponse m))"

context protobuf_runtime
begin

lemmas all_checked = Position_checked Orientation_checked Chip_checked Chip_Radio_checked Chip_Bluetooth_checked Device_checked Scene_checked VersionResponse_checked SetLinkLossRequest_checked UpdateDeviceRequest_checked Updates_checked GetDevicesResponse_checked NetCatStream_checked SetPacketCaptureRequest_checked StartupInfo_checked StartupInfo_Device_checked ChipInfo_checked Startup_Chip_checked HCIPacket_checked StreamPacketsRequest_checked StreamPacketsResponse_checked

lemma size_pair: "r = Ok p \<or> r = Inl e \<and> B \<Longrightarrow>
    bindE r (\<lambda>(n, m). Ok (n, C m)) = Ok (case p of (n, m) \<Rightarrow> (n, C m)) \<or> bindE r (\<lambda>(n, m). Ok (n, C m)) = Inl e \<and> B"
  by (cases p) auto

lemma object_checked:
  "object_checked_size W a = Ok (object_compute_size W a) \<or>
    object_checked_size W a = Inl overflow \<and> 2 ^ 32 \<le> length (object_bytes W a)"
  by (cases a) (simp_all only: object_checked_size.simps object_bytes_simps all_checked [THEN size_pair])

end
section \<open>Lines that do not fit\<close>

context protobuf_runtime
begin

lemma strings_overflow:
  "\<forall>v \<in> set vs. length (os_string W f v) < 2 ^ 32 \<Longrightarrow> k < 2 ^ 32 \<Longrightarrow>
    strings_checked W f vs (of_nat k) =
      (if k + length (concat (map (os_string W f) vs)) < 2 ^ 32 then Ok (of_nat (k + length (concat (map (os_string W f) vs))))
       else Inl overflow)"
proof (induction vs arbitrary: k)
  case (Cons v vs)
  have "unat (of_nat k :: u32) = k" and "unat (of_nat (length (os_string W f v)) :: u32) = length (os_string W f v)"
    using Cons.prems by (simp_all add: unat_of_nat take_bit_eq_mod)
  then have "add_u32 (of_nat k) (sz_string W f v) =
      (if k + length (os_string W f v) < 2 ^ 32 then Ok (of_nat (k + length (os_string W f v))) else Inl overflow)"
    by (simp add: add_u32_def size_laws)
  then show ?case
    using Cons.IH [of "k + length (os_string W f v)"] Cons.prems by (simp add: add.assoc)
qed simp

lemma lines_checked:
  assumes "\<forall>v \<in> set (NetCatStream_result m). length (os_string W 1 v) < 2 ^ 32" and "unknown_fields m = uf_new W"
  shows "NetCatStream_checked_size W m =
    (if (\<Sum>v \<leftarrow> NetCatStream_result m. length (os_string W 1 v)) < 2 ^ 32 then Ok (NetCatStream_compute_size W m) else Inl overflow)"
proof -
  define w where "w = concat (map (os_string W 1) (NetCatStream_result m))"
  have w: "(\<Sum>v \<leftarrow> NetCatStream_result m. length (os_string W 1 v)) = length w"
    by (simp add: w_def length_concat comp_def)
  have wr: "NetCatStream_write_to_with_cached_sizes W (snd (NetCatStream_compute_size W m)) = w"
    unfolding NetCatStream_write_to_with_cached_sizes_def NetCatStream_sized w_def using assms(2) by (simp add: unknown_none)
  have "strings_checked W 1 (NetCatStream_result m) 0 = (if length w < 2 ^ 32 then Ok (of_nat (length w)) else Inl overflow)"
    using strings_overflow [OF assms(1), of 0] by (simp add: w_def)
  then have "NetCatStream_checked_size W m = Inl overflow" if "\<not> length w < 2 ^ 32"
    using that unfolding NetCatStream_checked_size_def Let_def by simp
  then show ?thesis
    using NetCatStream_checked [of m] unfolding w wr by (cases "length w < 2 ^ 32") auto
qed

lemma lines_wrap:
  assumes "unknown_fields m = uf_new W"
  shows "unat (fst (NetCatStream_compute_size W m)) = (\<Sum>v \<leftarrow> NetCatStream_result m. length (os_string W 1 v)) mod 2 ^ 32"
proof -
  have "NetCatStream_write_to_with_cached_sizes W (snd (NetCatStream_compute_size W m)) = concat (map (os_string W 1) (NetCatStream_result m))"
    unfolding NetCatStream_write_to_with_cached_sizes_def NetCatStream_sized using assms by (simp add: unknown_none)
  then show ?thesis
    by (simp add: NetCatStream_size_exact unat_of_nat take_bit_eq_mod length_concat comp_def)
qed

end

section \<open>Properties\<close>

text \<open>C27: In a debug build the size of an object is the one of the release build as long as the encoding is shorter than \<open>2 ^ 32\<close>
  bytes; from there on the only other outcome is the panic of an addition. So what is shown below that bound
  holds of both builds.\<close>

theorem objects_size_checked:
  assumes "protobuf_runtime W"
  shows "if length (object_bytes W a) < 2 ^ 32 then object_checked_size W a = Ok (object_compute_size W a)
    else object_checked_size W a \<in> {Ok (object_compute_size W a), Inl overflow}"
  using protobuf_runtime.object_checked [OF assms, of a] by auto

text \<open>C28: Where the two builds differ: a \<open>NetCatStream\<close> each of whose lines fits. A debug build panics exactly if the encodings
  of the lines have \<open>2 ^ 32\<close> bytes or more together; a release build then stores a size that is too small.\<close>

theorem lines_overflow:
  assumes "protobuf_runtime W" and "\<forall>v \<in> set (NetCatStream_result m). length (os_string W 1 v) < 2 ^ 32"
    and "unknown_fields m = uf_new W" and "n = (\<Sum>v \<leftarrow> NetCatStream_result m. length (os_string W 1 v))"
  shows "NetCatStream_checked_size W m = (if n < 2 ^ 32 then Ok (NetCatStream_compute_size W m) else Inl overflow) \<and>
    unat (fst (NetCatStream_compute_size W m)) = n mod 2 ^ 32"
  using protobuf_runtime.lines_checked [OF assms(1-3)] protobuf_runtime.lines_wrap [OF assms(1,3)] by (simp only: assms(4))

section \<open>Witnesses\<close>

lemma objects_size_checked_witness:
  "object_checked_size std_wire (sample_radio 0x80000000) = Ok (object_compute_size std_wire (sample_radio 0x80000000))"
  using objects_size_checked [OF std.protobuf_runtime_axioms, of "sample_radio 0x80000000"] sample_radio_facts(3) [OF zero_range]
  by simp

lemma varint_length: "n < 128 ^ Suc k \<Longrightarrow> length (varint n) \<le> Suc k"
proof (induction k arbitrary: n)
  case (Suc k)
  then have "n div 128 < 128 ^ Suc k"
    by (simp add: less_mult_imp_div_less mult.commute)
  with Suc.IH show ?case
    by (subst varint.simps) simp
qed (simp add: varint_small)

lemma line_length:
  assumes "length s = 2 ^ 31"
  shows "length (os_string std_wire 1 s) < 2 ^ 32" and "2 ^ 31 \<le> length (os_string std_wire 1 s)"
proof -
  have tag: "length (tag 1 WireTypeLengthDelimited) = 1"
    by code_simp
  have "length (varint (length s)) \<le> 5"
    using varint_length [of "length s" 4] assms by simp
  moreover have "length (os_string std_wire 1 s) = 1 + length (varint (length s)) + length s"
    unfolding std_wire_def delimited_def as_bytes_def by (simp add: tag [simplified])
  ultimately show "length (os_string std_wire 1 s) < 2 ^ 32" and "2 ^ 31 \<le> length (os_string std_wire 1 s)"
    using assms by auto
qed

lemma lines_overflow_witness: "\<exists>m. NetCatStream_checked_size std_wire m = Inl overflow"
proof -
  obtain s :: string where s: "length s = 2 ^ 31"
    using Ex_list_of_length by blast
  let ?m = "\<lparr>unknown_fields = uf_new std_wire, cached_size = 0, NetCatStream_result = [s, s]\<rparr>"
  have "NetCatStream_checked_size std_wire ?m = Inl overflow"
    using lines_overflow [OF std.protobuf_runtime_axioms, of ?m, OF _ _ refl] line_length [OF s] by simp
  then show ?thesis ..
qed

end
