(* ===== verification/File_Access.thy ===== *)
theory File_Access
  imports Pb_Schema
begin

text \<open>
  \<^verbatim>\<open>file_descriptor_proto()\<close> of the five generated files: the description bytes are parsed at the first use, into a lazily
  filled static, and a failure to parse is a panic. The parser of the crate is the parameter \<open>parse_file\<close>; its contract
  \<open>description_parser\<close> is that it reads what the public format of descriptions says (\<open>decode_file\<close>). The cell
  \<^verbatim>\<open>LazyV2\<close> is the parameter \<open>get\<close>, now with an initialiser that may panic.
\<close>

section \<open>The parser and the static\<close>

locale description_parser =
  fixes parse_file :: "bytes \<Rightarrow> 'e + 'd"
    and view :: "'d \<Rightarrow> file_schema"
  assumes reads: "decode_file (of_bytes b) = Some s \<Longrightarrow> \<exists>d. parse_file b = Inr d \<and> view d = s"

type_synonym ('d, 'c) lazy_try = "(unit \<Rightarrow> 'd result) \<Rightarrow> 'c \<Rightarrow> 'd result \<times> 'c"

locale lazy_panicking =
  fixes get :: "('d, 'c) lazy_try"
    and content :: "'c \<Rightarrow> 'd option"
  assumes get_first: "content c = None \<Longrightarrow> f () = Ok v \<Longrightarrow> fst (get f c) = Ok v \<and> content (snd (get f c)) = Some v"
    and get_panic: "content c = None \<Longrightarrow> f () = Inl e \<Longrightarrow> fst (get f c) = Inl e"
    and get_later: "content c = Some v \<Longrightarrow> fst (get f c) = Ok v \<and> content (snd (get f c)) = Some v"
begin

primrec uses :: "(unit \<Rightarrow> 'd result) \<Rightarrow> nat \<Rightarrow> 'c \<Rightarrow> 'd result list" where
  "uses f 0 c = []"
| "uses f (Suc n) c = (case get f c of (v, c') \<Rightarrow> v # uses f n c')"

lemma uses_full: "content c = Some v \<Longrightarrow> uses f n c = replicate n (Ok v)"
proof (induction n arbitrary: c)
  case (Suc n)
  then show ?case
    using get_later [of c v f] by (cases "get f c") simp
qed simp

text \<open>With an initialiser that does not panic every use gives its value.\<close>

lemma uses_same: "content c = None \<Longrightarrow> f () = Ok v \<Longrightarrow> uses f n c = replicate n (Ok v)"
proof (cases n)
  case (Suc k)
  assume "content c = None" and "f () = Ok v"
  then show ?thesis
    using get_first [of c f v] uses_full [of "snd (get f c)" v f k] Suc by (cases "get f c") simp
qed simp

end

definition try_cell :: "('d, 'd option) lazy_try" where
  "try_cell f c = (case c of Some v \<Rightarrow> (Ok v, c) | None \<Rightarrow> (case f () of Inr v \<Rightarrow> (Ok v, Some v) | Inl e \<Rightarrow> (Inl e, None)))"

interpretation try_cell: lazy_panicking try_cell "\<lambda>c. c"
  by unfold_locales (simp_all add: try_cell_def)

section \<open>The five files\<close>

definition model_parse_descriptor_proto :: "(bytes \<Rightarrow> 'e + 'd) \<Rightarrow> 'd result" where
  "model_parse_descriptor_proto parse_file =
     (case parse_file model_file_descriptor_proto_data of
        Inr d \<Rightarrow> Ok d
      | Inl _ \<Rightarrow> Inl (Panic ''called `Result::unwrap()` on an `Err` value''))"

definition model_file_descriptor_proto :: "(bytes \<Rightarrow> 'e + 'd) \<Rightarrow> ('d, 'c) lazy_try \<Rightarrow> 'c \<Rightarrow> 'd result \<times> 'c" where
  "model_file_descriptor_proto parse_file get file_descriptor_proto_lazy =
     get (\<lambda>_. model_parse_descriptor_proto parse_file) file_descriptor_proto_lazy"

definition frontend_parse_descriptor_proto :: "(bytes \<Rightarrow> 'e + 'd) \<Rightarrow> 'd result" where
  "frontend_parse_descriptor_proto parse_file =
     (case parse_file frontend_file_descriptor_proto_data of
        Inr d \<Rightarrow> Ok d
      | Inl _ \<Rightarrow> Inl (Panic ''called `Result::unwrap()` on an `Err` value''))"

definition frontend_file_descriptor_proto :: "(bytes \<Rightarrow> 'e + 'd) \<Rightarrow> ('d, 'c) lazy_try \<Rightarrow> 'c \<Rightarrow> 'd result \<times> 'c" where
  "frontend_file_descriptor_proto parse_file get file_descriptor_proto_lazy =
     get (\<lambda>_. frontend_parse_descriptor_proto parse_file) file_descriptor_proto_lazy"

definition startup_parse_descriptor_proto :: "(bytes \<Rightarrow> 'e + 'd) \<Rightarrow> 'd result" where
  "startup_parse_descriptor_proto parse_file =
     (case parse_file startup_file_descriptor_proto_data of
        Inr d \<Rightarrow> Ok d
      | Inl _ \<Rightarrow> Inl (Panic ''called `Result::unwrap()` on an `Err` value''))"

definition startup_file_descriptor_proto :: "(bytes \<Rightarrow> 'e + 'd) \<Rightarrow> ('d, 'c) lazy_try \<Rightarrow> 'c \<Rightarrow> 'd result \<times> 'c" where
  "startup_file_descriptor_proto parse_file get file_descriptor_proto_lazy =
     get (\<lambda>_. startup_parse_descriptor_proto parse_file) file_descriptor_proto_lazy"

definition hci_packet_parse_descriptor_proto :: "(bytes \<Rightarrow> 'e + 'd) \<Rightarrow> 'd result" where
  "hci_packet_parse_descriptor_proto parse_file =
     (case parse_file hci_packet_file_descriptor_proto_data of
        Inr d \<Rightarrow> Ok d
      | Inl _ \<Rightarrow> Inl (Panic ''called `Result::unwrap()` on an `Err` value''))"

definition hci_packet_file_descriptor_proto :: "(bytes \<Rightarrow> 'e + 'd) \<Rightarrow> ('d, 'c) lazy_try \<Rightarrow> 'c \<Rightarrow> 'd result \<times> 'c" where
  "hci_packet_file_descriptor_proto parse_file get file_descriptor_proto_lazy =
     get (\<lambda>_. hci_packet_parse_descriptor_proto parse_file) file_descriptor_proto_lazy"

definition packet_streamer_parse_descriptor_proto :: "(bytes \<Rightarrow> 'e + 'd) \<Rightarrow> 'd result" where
  "packet_streamer_parse_descriptor_proto parse_file =
     (case parse_file packet_streamer_file_descriptor_proto_data of
        Inr d \<Rightarrow> Ok d
      | Inl _ \<Rightarrow> Inl (Panic ''called `Result::unwrap()` on an `Err` value''))"

definition packet_streamer_file_descriptor_proto :: "(bytes \<Rightarrow> 'e + 'd) \<Rightarrow> ('d, 'c) lazy_try \<Rightarrow> 'c \<Rightarrow> 'd result \<times> 'c" where
  "packet_streamer_file_descriptor_proto parse_file get file_descriptor_proto_lazy =
     get (\<lambda>_. packet_streamer_parse_descriptor_proto parse_file) file_descriptor_proto_lazy"

context description_parser
begin

lemma files_parsed:
  "\<exists>d. model_parse_descriptor_proto parse_file = Ok d \<and> view d = model_schema"
  "\<exists>d. frontend_parse_descriptor_proto parse_file = Ok d \<and> view d = frontend_schema"
  "\<exists>d. startup_parse_descriptor_proto parse_file = Ok d \<and> view d = startup_schema"
  "\<exists>d. hci_packet_parse_descriptor_proto parse_file = Ok d \<and> view d = hci_packet_schema"
  "\<exists>d. packet_streamer_parse_descriptor_proto parse_file = Ok d \<and> view d = packet_streamer_schema"
  using reads [OF model_decoded] reads [OF frontend_decoded] reads [OF startup_decoded] reads [OF hci_packet_decoded] reads [OF packet_streamer_decoded]
  by (auto simp: model_parse_descriptor_proto_def frontend_parse_descriptor_proto_def startup_parse_descriptor_proto_def hci_packet_parse_descriptor_proto_def packet_streamer_parse_descriptor_proto_def)

text \<open>A description that is there: the static is empty, or holds what the parser reads.\<close>

definition fresh :: "('c \<Rightarrow> 'd option) \<Rightarrow> file_schema \<Rightarrow> 'c \<Rightarrow> bool" where
  "fresh content s c \<longleftrightarrow> (case content c of None \<Rightarrow> True | Some d \<Rightarrow> view d = s)"

lemma description_read:
  assumes "lazy_panicking get content" and "fresh content s c" and "\<exists>d. f () = Ok d \<and> view d = s"
  shows "\<exists>d. fst (get f c) = Ok d \<and> view d = s \<and> fresh content s (snd (get f c))"
proof (cases "content c")
  case None
  with assms(3) lazy_panicking.get_first [OF assms(1) None] show ?thesis
    by (force simp: fresh_def)
next
  case (Some d)
  with assms(2) lazy_panicking.get_later [OF assms(1) Some, of f] show ?thesis
    by (auto simp: fresh_def)
qed

end

text \<open>A parser that does just this, for the decoder itself.\<close>

definition format_parser :: "bytes \<Rightarrow> unit + file_schema" where
  "format_parser b = (case decode_file (of_bytes b) of Some s \<Rightarrow> Inr s | None \<Rightarrow> Inl ())"

interpretation format: description_parser format_parser "\<lambda>s. s"
  by unfold_locales (simp add: format_parser_def)

section \<open>The property\<close>

text \<open>None of the five statics ever panics: whether it is used for the first time or not, \<^verbatim>\<open>file_descriptor_proto()\<close>
  gives the description of its file.\<close>

theorem descriptions_available:
  assumes "description_parser parse_file view" and "lazy_panicking get content"
  shows "description_parser.fresh view content model_schema c \<Longrightarrow>
      \<exists>d c'. model_file_descriptor_proto parse_file get c = (Ok d, c') \<and> view d = model_schema \<and>
        description_parser.fresh view content model_schema c'"
    and "description_parser.fresh view content frontend_schema c \<Longrightarrow>
      \<exists>d c'. frontend_file_descriptor_proto parse_file get c = (Ok d, c') \<and> view d = frontend_schema \<and>
        description_parser.fresh view content frontend_schema c'"
    and "description_parser.fresh view content startup_schema c \<Longrightarrow>
      \<exists>d c'. startup_file_descriptor_proto parse_file get c = (Ok d, c') \<and> view d = startup_schema \<and>
        description_parser.fresh view content startup_schema c'"
    and "description_parser.fresh view content hci_packet_schema c \<Longrightarrow>
      \<exists>d c'. hci_packet_file_descriptor_proto parse_file get c = (Ok d, c') \<and> view d = hci_packet_schema \<and>
        description_parser.fresh view content hci_packet_schema c'"
    and "description_parser.fresh view content packet_streamer_schema c \<Longrightarrow>
      \<exists>d c'. packet_streamer_file_descriptor_proto parse_file get c = (Ok d, c') \<and> view d = packet_streamer_schema \<and>
        description_parser.fresh view content packet_streamer_schema c'"
  unfolding model_file_descriptor_proto_def frontend_file_descriptor_proto_def startup_file_descriptor_proto_def hci_packet_file_descriptor_proto_def packet_streamer_file_descriptor_proto_def
  by (metis description_parser.description_read [OF assms(1,2)] description_parser.files_parsed [OF assms(1)] prod.collapse)+

end
