(* ===== verification/Pb_Enums.thy ===== *)
theory Pb_Enums
  imports Pb_Packet Pb_Frontend
begin

text \<open>
  The trait \<^verbatim>\<open>ProtobufEnum\<close> and its four implementations. \<open>protobuf_enum\<close> is what a user of the trait relies on;
  from it \<open>from_i32\<close> is the search for a number among \<open>values()\<close>, which is how a reader that only knows
  the trait decides between a value and an unknown field. The types are instances of \<open>enum\<close> with the values
  in the order of the code, so statements about all of them are evaluated.
\<close>

section \<open>The trait\<close>

locale protobuf_enum =
  fixes num :: "'e \<Rightarrow> i32"
    and from_i32 :: "i32 \<Rightarrow> 'e option"
    and vals :: "'e list"
    and start :: 'e
  assumes from_value: "from_i32 (num e) = Some e"
    and value_from: "from_i32 i = Some e \<Longrightarrow> num e = i"
    and values_all: "e \<in> set vals"
    and default_value: "num start = 0"
begin

lemma value_eq_iff: "num d = num e \<longleftrightarrow> d = e"
  using from_value by (metis option.inject)

lemma default_iff: "e = start \<longleftrightarrow> num e = 0"
  using value_eq_iff default_value by metis

lemma from_i32_search: "from_i32 i = find (\<lambda>e. num e = i) vals"
proof (cases "find (\<lambda>e. num e = i) vals")
  case None
  then have "num e \<noteq> i" for e
    using values_all by (auto simp: find_None_iff)
  with None show ?thesis
    using value_from by (cases "from_i32 i") auto
next
  case (Some e)
  then have "num e = i"
    by (auto simp: find_Some_iff)
  with Some show ?thesis
    using from_value [of e] by simp
qed

text \<open>A reader keeps a number as an unknown field exactly if no value of the enumeration has it.\<close>

lemma known_iff: "from_i32 i = None \<longleftrightarrow> i \<notin> num ` UNIV"
  using from_value value_from by (auto simp: image_iff) (metis not_None_eq)

end

section \<open>The four enumerations\<close>

instantiation PhyKind :: enum
begin

definition enum_PhyKind :: "PhyKind list" where
  "enum_PhyKind = PhyKind_values"

definition enum_all_PhyKind :: "(PhyKind \<Rightarrow> bool) \<Rightarrow> bool" where
  "enum_all_PhyKind P \<longleftrightarrow> list_all P PhyKind_values"

definition enum_ex_PhyKind :: "(PhyKind \<Rightarrow> bool) \<Rightarrow> bool" where
  "enum_ex_PhyKind P \<longleftrightarrow> list_ex P PhyKind_values"

instance
  by standard (use PhyKind_values_complete in \<open>auto simp: enum_PhyKind_def enum_all_PhyKind_def enum_ex_PhyKind_def list_all_iff list_ex_iff\<close>)

end

instantiation State :: enum
begin

definition enum_State :: "State list" where
  "enum_State = State_values"

definition enum_all_State :: "(State \<Rightarrow> bool) \<Rightarrow> bool" where
  "enum_all_State P \<longleftrightarrow> list_all P State_values"

definition enum_ex_State :: "(State \<Rightarrow> bool) \<Rightarrow> bool" where
  "enum_ex_State P \<longleftrightarrow> list_ex P State_values"

instance
  by standard (use State_values_complete in \<open>auto simp: enum_State_def enum_all_State_def enum_ex_State_def list_all_iff list_ex_iff\<close>)

end

instantiation Chip_ChipKind :: enum
begin

definition enum_Chip_ChipKind :: "Chip_ChipKind list" where
  "enum_Chip_ChipKind = Chip_ChipKind_values"

definition enum_all_Chip_ChipKind :: "(Chip_ChipKind \<Rightarrow> bool) \<Rightarrow> bool" where
  "enum_all_Chip_ChipKind P \<longleftrightarrow> list_all P Chip_ChipKind_values"

definition enum_ex_Chip_ChipKind :: "(Chip_ChipKind \<Rightarrow> bool) \<Rightarrow> bool" where
  "enum_ex_Chip_ChipKind P \<longleftrightarrow> list_ex P Chip_ChipKind_values"

instance
  by standard (use Chip_ChipKind_values_complete in \<open>auto simp: enum_Chip_ChipKind_def enum_all_Chip_ChipKind_def enum_ex_Chip_ChipKind_def list_all_iff list_ex_iff\<close>)

end

instantiation HCIPacket_PacketType :: enum
begin

definition enum_HCIPacket_PacketType :: "HCIPacket_PacketType list" where
  "enum_HCIPacket_PacketType = HCIPacket_PacketType_values"

definition enum_all_HCIPacket_PacketType :: "(HCIPacket_PacketType \<Rightarrow> bool) \<Rightarrow> bool" where
  "enum_all_HCIPacket_PacketType P \<longleftrightarrow> list_all P HCIPacket_PacketType_values"

definition enum_ex_HCIPacket_PacketType :: "(HCIPacket_PacketType \<Rightarrow> bool) \<Rightarrow> bool" where
  "enum_ex_HCIPacket_PacketType P \<longleftrightarrow> list_ex P HCIPacket_PacketType_values"

instance
  by standard (use HCIPacket_PacketType_values_complete in \<open>auto simp: enum_HCIPacket_PacketType_def enum_all_HCIPacket_PacketType_def enum_ex_HCIPacket_PacketType_def list_all_iff list_ex_iff\<close>)

end

interpretation PhyKind_enum: protobuf_enum PhyKind_value PhyKind_from_i32 PhyKind_values PhyKind_default
  by unfold_locales (use PhyKind_values_complete in \<open>simp_all add: PhyKind_value_from PhyKind_default_def\<close>)

interpretation State_enum: protobuf_enum State_value State_from_i32 State_values State_default
  by unfold_locales (use State_values_complete in \<open>simp_all add: State_value_from State_default_def\<close>)

interpretation Chip_ChipKind_enum: protobuf_enum Chip_ChipKind_value Chip_ChipKind_from_i32 Chip_ChipKind_values Chip_ChipKind_default
  by unfold_locales (use Chip_ChipKind_values_complete in \<open>simp_all add: Chip_ChipKind_value_from Chip_ChipKind_default_def\<close>)

interpretation HCIPacket_PacketType_enum: protobuf_enum HCIPacket_PacketType_value HCIPacket_PacketType_from_i32 HCIPacket_PacketType_values HCIPacket_PacketType_default
  by unfold_locales (use HCIPacket_PacketType_values_complete in \<open>simp_all add: HCIPacket_PacketType_value_from HCIPacket_PacketType_default_def\<close>)

text \<open>The numbers of each enumeration are those from 0 on, in the order of \<open>values()\<close>.\<close>

lemma PhyKind_consecutive: "map PhyKind_value enum_class.enum = map of_nat [0..<length PhyKind_values]"
  by code_simp

lemma State_consecutive: "map State_value enum_class.enum = map of_nat [0..<length State_values]"
  by code_simp

lemma Chip_ChipKind_consecutive: "map Chip_ChipKind_value enum_class.enum = map of_nat [0..<length Chip_ChipKind_values]"
  by code_simp

lemma HCIPacket_PacketType_consecutive: "map HCIPacket_PacketType_value enum_class.enum = map of_nat [0..<length HCIPacket_PacketType_values]"
  by code_simp

end
