(* ===== verification/Cli.thy ===== *)
theory Cli
  imports Pb_Wire F32
begin

text \<open>
  The command line client: \<^verbatim>\<open>rust/netsim-cli/src/args.rs\<close> (the commands and their request
  bytes), \<^verbatim>\<open>requests.rs\<close> (the remote method of a command), \<^verbatim>\<open>response.rs\<close> (what is printed),
  \<^verbatim>\<open>browser.rs\<close>, \<^verbatim>\<open>lib.rs\<close> (\<open>rust_main\<close>) and \<^verbatim>\<open>rust/frontend-client-cxx/src/lib.rs\<close> (\<open>send_grpc\<close>).

  The parser of the command line (clap) is outside the repository, so \<open>rust_main\<close> starts from
  the parsed command. The C++ client is the record \<open>FrontendClient\<close> of the answers it gives.
  A computation that prints is a pair of the text written to standard output and its outcome.
\<close>

section \<open>\<^verbatim>\<open>args.rs\<close>\<close>

datatype BtType = Ble | Classic
datatype UpDownStatus = Up | Down
datatype BoolState = BoolState_True | BoolState_False

record Radio =
  Radio_bt_type :: BtType
  Radio_status :: UpDownStatus
  Radio_device_serial :: string

record Move =
  Move_device_serial :: string
  Move_x :: f32
  Move_y :: f32
  Move_z :: "f32 option"

record Capture =
  Capture_state :: BoolState
  Capture_device_serial :: string

datatype Command =
    Command_Version
  | Command_Radio Radio
  | Command_Move Move
  | Command_Devices
  | Command_Capture Capture
  | Command_Reset
  | Command_Gui

text \<open>\<^verbatim>\<open>unwrap\<close> of the result of a protobuf operation.\<close>

fun unwrap_pb :: "pb_error + 'a \<Rightarrow> 'a result" where
  "unwrap_pb (Inl e) = Inl (Panic ''called `Result::unwrap()` on an `Err` value'')"
| "unwrap_pb (Inr x) = Ok x"

abbreviation UpdateDeviceRequest_write_to_bytes :: "'u protobuf_rt \<Rightarrow> 'u UpdateDeviceRequest \<Rightarrow> pb_error + bytes" where
  "UpdateDeviceRequest_write_to_bytes W \<equiv>
     write_to_bytes UpdateDeviceRequest_is_initialized (UpdateDeviceRequest_compute_size W)
       (UpdateDeviceRequest_write_to_with_cached_sizes W)"

abbreviation SetPacketCaptureRequest_write_to_bytes ::
    "'u protobuf_rt \<Rightarrow> 'u SetPacketCaptureRequest \<Rightarrow> pb_error + bytes" where
  "SetPacketCaptureRequest_write_to_bytes W \<equiv>
     write_to_bytes SetPacketCaptureRequest_is_initialized (SetPacketCaptureRequest_compute_size W)
       (SetPacketCaptureRequest_write_to_with_cached_sizes W)"

definition radio_bytes :: "'u protobuf_rt \<Rightarrow> Radio \<Rightarrow> bytes result" where
  "radio_bytes W cmd =
     (let result = UpdateDeviceRequest_new W
      in bindE (UpdateDeviceRequest_mut_device W (\<lambda>mutable_device.
           let mutable_device = Device_set_device_serial (Radio_device_serial cmd) mutable_device
           in Device_mut_chips (\<lambda>mutable_chips.
                let mutable_chips = mutable_chips @ [Chip_new W];
                    bt_chip = Chip_Bluetooth_new W;
                    chip_state = (case Radio_status cmd of Up \<Rightarrow> State_ON | Down \<Rightarrow> State_OFF);
                    bt_chip =
                      (if Radio_bt_type cmd = Ble
                       then Chip_Bluetooth_set_low_energy ((Chip_Radio_new W)\<lparr>Chip_Radio_state := chip_state\<rparr>) bt_chip
                       else Chip_Bluetooth_set_classic ((Chip_Radio_new W)\<lparr>Chip_Radio_state := chip_state\<rparr>) bt_chip)
                in mutable_chips[0 := Chip_set_bt bt_chip (mutable_chips ! 0)]) mutable_device) result)
         (\<lambda>result. unwrap_pb (UpdateDeviceRequest_write_to_bytes W result)))"

definition move_bytes :: "'u protobuf_rt \<Rightarrow> Move \<Rightarrow> bytes result" where
  "move_bytes W cmd =
     (let result = UpdateDeviceRequest_new W
      in bindE (UpdateDeviceRequest_mut_device W (\<lambda>mutable_device.
           let mutable_device = Device_set_device_serial (Move_device_serial cmd) mutable_device
           in Device_set_position
                ((Position_new W)\<lparr>Position_x := Move_x cmd, Position_y := Move_y cmd,
                  Position_z := (case Move_z cmd of Some z \<Rightarrow> z | None \<Rightarrow> 0)\<rparr>) mutable_device) result)
         (\<lambda>result. unwrap_pb (UpdateDeviceRequest_write_to_bytes W result)))"

definition capture_bytes :: "'u protobuf_rt \<Rightarrow> Capture \<Rightarrow> bytes result" where
  "capture_bytes W cmd =
     (let result = SetPacketCaptureRequest_new W;
          result = SetPacketCaptureRequest_set_device_serial (Capture_device_serial cmd) result;
          result = SetPacketCaptureRequest_set_capture (Capture_state cmd = BoolState_True) result
      in unwrap_pb (SetPacketCaptureRequest_write_to_bytes W result))"

fun get_request_bytes :: "'u protobuf_rt \<Rightarrow> Command \<Rightarrow> bytes result" where
  "get_request_bytes W Command_Version = Ok []"
| "get_request_bytes W (Command_Radio cmd) = radio_bytes W cmd"
| "get_request_bytes W (Command_Move cmd) = move_bytes W cmd"
| "get_request_bytes W Command_Devices = Ok []"
| "get_request_bytes W (Command_Capture cmd) = capture_bytes W cmd"
| "get_request_bytes W Command_Reset = Ok []"
| "get_request_bytes W Command_Gui =
     Inl (Panic ''not implemented: get_request_bytes is not implemented for Gui Command.'')"

section \<open>\<^verbatim>\<open>requests.rs\<close> and the client library\<close>

datatype GrpcMethod =
    GetVersion
  | UpdateDevice
  | GetDevices
  | SetPacketCapture
  | Reset

fun grpc_method :: "Command \<Rightarrow> GrpcMethod result" where
  "grpc_method Command_Version = Ok GetVersion"
| "grpc_method (Command_Radio _) = Ok UpdateDevice"
| "grpc_method (Command_Move _) = Ok UpdateDevice"
| "grpc_method Command_Devices = Ok GetDevices"
| "grpc_method (Command_Capture _) = Ok SetPacketCapture"
| "grpc_method Command_Reset = Ok Reset"
| "grpc_method Command_Gui = Inl (Panic ''No GrpcMethod for Ui Command.'')"

text \<open>
  What the tests of \<^verbatim>\<open>requests.rs\<close> expect of the requests, in terms of the words on the command line.
\<close>

definition get_expected_radio :: "'u protobuf_rt \<Rightarrow> string \<Rightarrow> string \<Rightarrow> string \<Rightarrow> bytes result" where
  "get_expected_radio W device_serial bt_type state =
     (let result = UpdateDeviceRequest_new W
      in bindE (UpdateDeviceRequest_mut_device W (\<lambda>mutable_device.
           let mutable_device = Device_set_device_serial device_serial mutable_device
           in Device_mut_chips (\<lambda>mutable_chips.
                let mutable_chips = mutable_chips @ [Chip_new W];
                    bt_chip = Chip_Bluetooth_new W;
                    chip_state = (if state = ''up'' then State_ON else State_OFF);
                    bt_chip =
                      (if bt_type = ''ble''
                       then Chip_Bluetooth_set_low_energy ((Chip_Radio_new W)\<lparr>Chip_Radio_state := chip_state\<rparr>) bt_chip
                       else Chip_Bluetooth_set_classic ((Chip_Radio_new W)\<lparr>Chip_Radio_state := chip_state\<rparr>) bt_chip)
                in mutable_chips[0 := Chip_set_bt bt_chip (mutable_chips ! 0)]) mutable_device) result)
         (\<lambda>result. unwrap_pb (UpdateDeviceRequest_write_to_bytes W result)))"

definition get_expected_move ::
    "'u protobuf_rt \<Rightarrow> string \<Rightarrow> f32 \<Rightarrow> f32 \<Rightarrow> f32 option \<Rightarrow> bytes result" where
  "get_expected_move W device_serial x y z =
     (let result = UpdateDeviceRequest_new W
      in bindE (UpdateDeviceRequest_mut_device W (\<lambda>mutable_device.
           let mutable_device = Device_set_device_serial device_serial mutable_device
           in Device_set_position
                ((Position_new W)\<lparr>Position_x := x, Position_y := y,
                  Position_z := (case z of Some z \<Rightarrow> z | None \<Rightarrow> 0)\<rparr>) mutable_device) result)
         (\<lambda>result. unwrap_pb (UpdateDeviceRequest_write_to_bytes W result)))"

definition get_expected_capture :: "'u protobuf_rt \<Rightarrow> string \<Rightarrow> bool \<Rightarrow> bytes result" where
  "get_expected_capture W device_serial set_capture =
     (let result = SetPacketCaptureRequest_new W;
          result = SetPacketCaptureRequest_set_device_serial device_serial result;
          result = SetPacketCaptureRequest_set_capture set_capture result
      in unwrap_pb (SetPacketCaptureRequest_write_to_bytes W result))"

text \<open>The words for the arguments, which \<^verbatim>\<open>clap\<close> derives from the names of the variants.\<close>

fun bt_type_word :: "BtType \<Rightarrow> string" where
  "bt_type_word Ble = ''ble''"
| "bt_type_word Classic = ''classic''"

fun status_word :: "UpDownStatus \<Rightarrow> string" where
  "status_word Up = ''up''"
| "status_word Down = ''down''"

text \<open>What \<^verbatim>\<open>is_ok\<close>, \<^verbatim>\<open>err\<close> and \<^verbatim>\<open>byte_str\<close> of a C++ \<^verbatim>\<open>ClientResult\<close> return.\<close>

record ClientResult =
  is_ok :: bool
  err :: string
  byte_str :: string

record FrontendClient =
  get_version :: ClientResult
  get_devices :: ClientResult

fun send_grpc :: "FrontendClient \<Rightarrow> GrpcMethod \<Rightarrow> bytes \<Rightarrow> ClientResult result" where
  "send_grpc client GetVersion request = Ok (get_version client)"
| "send_grpc client GetDevices request = Ok (get_devices client)"
| "send_grpc client _ request = Inl (Panic ''Grpc method is not implemented.'')"

section \<open>\<^verbatim>\<open>response.rs\<close>\<close>

type_synonym 'a printing = "string \<times> 'a result"

definition print :: "string \<Rightarrow> unit printing" where
  "print s = (s, Ok ())"

definition println :: "string \<Rightarrow> unit printing" where
  "println s = (s @ [CHR 0x0A], Ok ())"

definition panics :: "string \<Rightarrow> 'a printing" where
  "panics e = ([], Inl (Panic e))"

definition and_then :: "'a printing \<Rightarrow> ('a \<Rightarrow> 'b printing) \<Rightarrow> 'b printing" where
  "and_then p f = (case p of (s, Inl e) \<Rightarrow> (s, Inl e) | (s, Inr x) \<Rightarrow> (case f x of (t, r) \<Rightarrow> (s @ t, r)))"

fun for_each :: "('a \<Rightarrow> unit printing) \<Rightarrow> 'a list \<Rightarrow> unit printing" where
  "for_each f [] = ([], Ok ())"
| "for_each f (x # xs) = and_then (f x) (\<lambda>_. for_each f xs)"

text \<open>The \<^verbatim>\<open>{:.2}\<close> format of an \<^verbatim>\<open>f32\<close>: the exact value, to hundredths, ties to even.\<close>

definition hundredths :: "nat \<Rightarrow> int \<Rightarrow> nat" where
  "hundredths m e =
     (if 0 \<le> e then 100 * m * 2 ^ nat e
      else let d = 2 ^ nat (- e); q = 100 * m div d; r = 100 * m mod d
           in if d < 2 * r \<or> d = 2 * r \<and> odd q then q + 1 else q)"

fun format_2 :: "fp \<Rightarrow> string" where
  "format_2 NaN = ''NaN''"
| "format_2 (Infinite s) = (if s then ''-inf'' else ''inf'')"
| "format_2 (Finite s m e) =
     (let h = hundredths m e
      in (if s then ''-'' else '''') @ show_nat (h div 100) @ ''.'' @
         [digit_char (h mod 100 div 10), digit_char (h mod 10)])"

fun bt_state_to_string :: "State \<Rightarrow> string" where
  "bt_state_to_string State_ON = ''up''"
| "bt_state_to_string State_OFF = ''down''"
| "bt_state_to_string _ = ''unknown''"

definition TAB :: string where
  "TAB = [CHR 0x09]"

definition print_chip :: "'u protobuf_rt \<Rightarrow> 'u Chip \<Rightarrow> unit printing" where
  "print_chip W chip =
     (case Chip_chip chip of
        Some (Chip_oneof_chip_bt bt) \<Rightarrow>
          and_then (print (''ble: '' @
            bt_state_to_string (Chip_Radio_get_state (Chip_Bluetooth_get_low_energy W bt)) @ TAB)) (\<lambda>_.
          print (''classic: '' @
            bt_state_to_string (Chip_Radio_get_state (Chip_Bluetooth_get_classic W bt)) @ TAB))
      | _ \<Rightarrow> print ''Unknown: down/t'')"

definition print_device :: "'u protobuf_rt \<Rightarrow> 'u Device \<Rightarrow> unit printing" where
  "print_device W device =
     and_then (print (Device_device_serial device @ TAB)) (\<lambda>_.
     and_then (for_each (print_chip W) (Device_chips device)) (\<lambda>_.
       let pos = Device_get_position W device
       in println (''position ('' @ format_2 (fp_of_bits (Position_get_x pos)) @ '', '' @
            format_2 (fp_of_bits (Position_get_y pos)) @ '', '' @
            format_2 (fp_of_bits (Position_get_z pos)) @ '')'')))"

definition print_device_response :: "'u protobuf_rt \<Rightarrow> 'u GetDevicesResponse \<Rightarrow> unit printing" where
  "print_device_response W response =
     and_then (println ''List of devices attached'') (\<lambda>_.
       for_each (print_device W) (GetDevicesResponse_devices response))"

definition print_version_response :: "'u VersionResponse \<Rightarrow> unit printing" where
  "print_version_response response = println (''Netsim version: '' @ VersionResponse_version response)"

definition lift :: "'a result \<Rightarrow> 'a printing" where
  "lift r = ([], r)"

fun print_response :: "'u protobuf_rt \<Rightarrow> Command \<Rightarrow> bytes \<Rightarrow> unit printing" where
  "print_response W Command_Version response =
     and_then (lift (unwrap_pb (parse_from_bytes (VersionResponse_new W) VersionResponse_is_initialized
       (VersionResponse_merge_from W) response))) print_version_response"
| "print_response W (Command_Radio _) response = panics ''not yet implemented''"
| "print_response W (Command_Move _) response = panics ''not yet implemented''"
| "print_response W Command_Devices response =
     and_then (lift (unwrap_pb (parse_from_bytes (GetDevicesResponse_new W) GetDevicesResponse_is_initialized
       (GetDevicesResponse_merge_from W) response))) (print_device_response W)"
| "print_response W (Command_Capture _) response = panics ''not yet implemented''"
| "print_response W Command_Reset response = panics ''not yet implemented''"
| "print_response W Command_Gui response =
     panics ''not implemented: No Grpc Response for Gui Command.''"

section \<open>\<^verbatim>\<open>browser.rs\<close> and \<^verbatim>\<open>rust_main\<close>\<close>

datatype target_os = Linux | Macos | Windows | Other_os

text \<open>The \<^verbatim>\<open>{:?}\<close> format of the URL: printable ASCII, so quotation marks and backslashes are escaped.\<close>

definition debug_str :: "string \<Rightarrow> string" where
  "debug_str s =
     [CHR 0x22] @ concat (map (\<lambda>c. if c = CHR 0x22 \<or> c = CHR 0x5C then [CHR 0x5C, c] else [c]) s) @ [CHR 0x22]"

text \<open>The programs that \<^verbatim>\<open>open\<close> tries in order, with their leading arguments, and its last words.\<close>

fun open_handlers :: "target_os \<Rightarrow> string list list" where
  "open_handlers Linux = [[''xdg-open''], [''gnome-open''], [''kde-open'']]"
| "open_handlers Macos = [[''/usr/bin/open'']]"
| "open_handlers Windows = [[''cmd.exe'', ''/C'', ''start''], [''explorer'']]"
| "open_handlers Other_os = []"

fun open_message :: "target_os \<Rightarrow> string" where
  "open_message Linux = ''xdg-open, gnome-open, kde-open not working (linux). Open this url:''"
| "open_message Macos = ''/usr/bin/open not working (macos). Open this url:''"
| "open_message Windows =
     [CHR 0x27] @ ''start'' @ [CHR 0x27] @ '' and '' @ [CHR 0x27] @ ''explorer'' @ [CHR 0x27] @
     '' command not supported (windows). Open this url:''"
| "open_message Other_os = ''Unsupported OS. Open this url:''"

text \<open>\<open>runs\<close> says which command lines can be started; the result lists those that were tried.\<close>

fun try_handlers :: "(string list \<Rightarrow> bool) \<Rightarrow> string \<Rightarrow> string list list \<Rightarrow> string list list \<times> bool" where
  "try_handlers runs path [] = ([], False)"
| "try_handlers runs path (h # hs) =
     (if runs (h @ [path]) then ([h @ [path]], True)
      else case try_handlers runs path hs of (tried, ok) \<Rightarrow> ((h @ [path]) # tried, ok))"

definition open_browser :: "target_os \<Rightarrow> (string list \<Rightarrow> bool) \<Rightarrow> string \<Rightarrow> string list list \<times> string" where
  "open_browser os runs path =
     (case try_handlers runs path (open_handlers os) of
        (tried, ok) \<Rightarrow> (tried, if ok then [] else open_message os @ debug_str path @ [CHR 0x0A]))"

definition rust_main ::
    "'u protobuf_rt \<Rightarrow> target_os \<Rightarrow> (string list \<Rightarrow> bool) \<Rightarrow> FrontendClient \<Rightarrow> Command \<Rightarrow>
      string list list \<times> unit printing" where
  "rust_main W os runs client command =
     (if command = Command_Gui then
        (case open_browser os runs ''http://localhost:7681/'' of (tried, text) \<Rightarrow> (tried, (text, Ok ())))
      else
        ([], and_then (lift (grpc_method command)) (\<lambda>grpc_method.
         and_then (lift (get_request_bytes W command)) (\<lambda>request.
         and_then (lift (send_grpc client grpc_method request)) (\<lambda>client_result.
           if is_ok client_result then print_response W command (as_bytes (byte_str client_result))
           else println (''Grpc call error: '' @ err client_result))))))"

section \<open>The requests\<close>

definition radio_chip :: "'u protobuf_rt \<Rightarrow> Radio \<Rightarrow> 'u Chip_Bluetooth" where
  "radio_chip W cmd =
     (let radio = (Chip_Radio_new W)\<lparr>Chip_Radio_state :=
        (case Radio_status cmd of Up \<Rightarrow> State_ON | Down \<Rightarrow> State_OFF)\<rparr>
      in case Radio_bt_type cmd of
           Ble \<Rightarrow> (Chip_Bluetooth_new W)\<lparr>Chip_Bluetooth_low_energy := Some radio\<rparr>
         | Classic \<Rightarrow> (Chip_Bluetooth_new W)\<lparr>Chip_Bluetooth_classic := Some radio\<rparr>)"

text \<open>The messages the commands stand for.\<close>

definition radio_request :: "'u protobuf_rt \<Rightarrow> Radio \<Rightarrow> 'u UpdateDeviceRequest" where
  "radio_request W cmd = (UpdateDeviceRequest_new W)\<lparr>UpdateDeviceRequest_device :=
     Some ((Device_new W)\<lparr>Device_device_serial := Radio_device_serial cmd,
       Device_chips := [(Chip_new W)\<lparr>Chip_chip := Some (Chip_oneof_chip_bt (radio_chip W cmd))\<rparr>]\<rparr>)\<rparr>"

definition move_request :: "'u protobuf_rt \<Rightarrow> Move \<Rightarrow> 'u UpdateDeviceRequest" where
  "move_request W cmd = (UpdateDeviceRequest_new W)\<lparr>UpdateDeviceRequest_device :=
     Some ((Device_new W)\<lparr>Device_device_serial := Move_device_serial cmd,
       Device_position := Some ((Position_new W)\<lparr>Position_x := Move_x cmd, Position_y := Move_y cmd,
         Position_z := (case Move_z cmd of Some z \<Rightarrow> z | None \<Rightarrow> 0)\<rparr>)\<rparr>)\<rparr>"

definition capture_request :: "'u protobuf_rt \<Rightarrow> Capture \<Rightarrow> 'u SetPacketCaptureRequest" where
  "capture_request W cmd = (SetPacketCaptureRequest_new W)\<lparr>
     SetPacketCaptureRequest_capture := (Capture_state cmd = BoolState_True),
     SetPacketCaptureRequest_device_serial := Capture_device_serial cmd\<rparr>"

lemma unwrap_pb_Inr_iff [simp]: "unwrap_pb r = Inr x \<longleftrightarrow> r = Inr x"
  by (cases r) auto

lemma unwrap_pb_Panic: "unwrap_pb r = Inl e \<Longrightarrow> \<exists>m. e = Panic m"
  by (cases r) auto

lemma radio_bytes_eq:
  "radio_bytes W cmd = unwrap_pb (UpdateDeviceRequest_write_to_bytes W (radio_request W cmd))"
  by (simp add: radio_bytes_def UpdateDeviceRequest_device.mut_spec Let_def radio_request_def radio_chip_def
      UpdateDeviceRequest_get_device_def UpdateDeviceRequest_set_device_def UpdateDeviceRequest_new_def
      Device_set_device_serial_def Device_mut_chips_def Device_new_def Chip_set_bt_def
      Chip_Bluetooth_set_low_energy_def Chip_Bluetooth_set_classic_def split: BtType.splits)

lemma move_bytes_eq:
  "move_bytes W cmd = unwrap_pb (UpdateDeviceRequest_write_to_bytes W (move_request W cmd))"
  by (simp add: move_bytes_def UpdateDeviceRequest_device.mut_spec Let_def move_request_def
      UpdateDeviceRequest_get_device_def UpdateDeviceRequest_set_device_def UpdateDeviceRequest_new_def
      Device_set_device_serial_def Device_set_position_def Device_new_def)

lemma capture_bytes_eq:
  "capture_bytes W cmd = unwrap_pb (SetPacketCaptureRequest_write_to_bytes W (capture_request W cmd))"
  by (simp add: capture_bytes_def Let_def capture_request_def SetPacketCaptureRequest_set_device_serial_def
      SetPacketCaptureRequest_set_capture_def
      SetPacketCaptureRequest_new_def)

lemmas message_wf_defs = UpdateDeviceRequest_wf_def Device_wf_def Chip_wf_def Chip_Bluetooth_wf_def
  Chip_Radio_wf_def Position_wf_def SetPacketCaptureRequest_wf_def

lemmas message_new_defs = UpdateDeviceRequest_new_def Device_new_def Chip_new_def Chip_Bluetooth_new_def
  Chip_Radio_new_def Position_new_def SetPacketCaptureRequest_new_def

lemmas message_canon_defs = UpdateDeviceRequest_canon_def Device_canon_def Chip_canon_def
  Chip_Bluetooth_canon_def Chip_Radio_canon_def Position_canon_def SetPacketCaptureRequest_canon_def

lemma canon_f32_0 [simp]: "canon_f32 0 = 0"
  by (simp add: canon_f32_def)

lemma utf8_Nil [simp]: "utf8 []"
  by simp

lemma radio_request_wf: "utf8 (Radio_device_serial cmd) \<Longrightarrow> UpdateDeviceRequest_wf W (radio_request W cmd)"
  by (simp add: radio_request_def radio_chip_def Let_def message_wf_defs message_new_defs split: BtType.splits)

lemma radio_request_canon: "UpdateDeviceRequest_canon (radio_request W cmd) = radio_request W cmd"
  by (simp add: radio_request_def radio_chip_def Let_def message_canon_defs message_new_defs split: BtType.splits)

lemma move_request_wf: "utf8 (Move_device_serial cmd) \<Longrightarrow> UpdateDeviceRequest_wf W (move_request W cmd)"
  by (simp add: move_request_def message_wf_defs message_new_defs)

lemma capture_request_wf:
  "utf8 (Capture_device_serial cmd) \<Longrightarrow> SetPacketCaptureRequest_wf W (capture_request W cmd)"
  by (simp add: capture_request_def message_wf_defs message_new_defs)

lemma capture_request_canon: "SetPacketCaptureRequest_canon (capture_request W cmd) = capture_request W cmd"
  by (simp add: capture_request_def message_canon_defs message_new_defs)

section \<open>The printed text\<close>

lemma for_each_print:
  "(\<And>x. x \<in> set xs \<Longrightarrow> f x = (t x, Ok ())) \<Longrightarrow> for_each f xs = (concat (map t xs), Ok ())"
  by (induction xs) (simp_all add: and_then_def)

definition chip_text :: "'u protobuf_rt \<Rightarrow> 'u Chip \<Rightarrow> string" where
  "chip_text W chip =
     (case Chip_chip chip of
        Some (Chip_oneof_chip_bt bt) \<Rightarrow>
          ''ble: '' @ bt_state_to_string (case Chip_Bluetooth_low_energy bt of Some r \<Rightarrow> Chip_Radio_state r
             | None \<Rightarrow> State_UNKNOWN) @ TAB @
          ''classic: '' @ bt_state_to_string (case Chip_Bluetooth_classic bt of Some r \<Rightarrow> Chip_Radio_state r
             | None \<Rightarrow> State_UNKNOWN) @ TAB
      | _ \<Rightarrow> ''Unknown: down/t'')"

text \<open>A coordinate as it is shown: zero without a sign, since the wire format does not keep it.\<close>

definition shown :: "(('u Position) \<Rightarrow> f32) \<Rightarrow> 'u Device \<Rightarrow> string" where
  "shown get device =
     format_2 (fp_of_bits (case Device_position device of Some p \<Rightarrow> canon_f32 (get p) | None \<Rightarrow> 0))"

definition device_text :: "'u protobuf_rt \<Rightarrow> 'u Device \<Rightarrow> string" where
  "device_text W device =
     Device_device_serial device @ TAB @ concat (map (chip_text W) (Device_chips device)) @
     ''position ('' @ shown Position_x device @ '', '' @ shown Position_y device @ '', '' @
     shown Position_z device @ '')'' @ [CHR 0x0A]"

lemma radio_state_canon [simp]: "Chip_Radio_state (Chip_Radio_canon r) = Chip_Radio_state r"
  by (simp add: Chip_Radio_canon_def)

lemma chip_text_canon: "chip_text W (Chip_canon c) = chip_text W c"
proof (cases "Chip_chip c")
  case (Some v)
  then show ?thesis
    by (cases v)
      (simp_all add: chip_text_def Chip_canon_def Chip_Bluetooth_canon_def split: option.splits)
qed (simp add: chip_text_def Chip_canon_def)

lemma print_chip_text: "print_chip W c = (chip_text W c, Ok ())"
  by (auto simp: print_chip_def chip_text_def print_def and_then_def Chip_Radio_get_state_def
      Chip_Bluetooth_get_low_energy_def Chip_Bluetooth_get_classic_def Chip_Radio_new_def
      split: option.splits Chip_oneof_chip.splits)

lemma print_device_text: "print_device W (Device_canon d) = (device_text W d, Ok ())"
proof -
  have "for_each (print_chip W) cs = (concat (map (chip_text W) cs), Ok ())" for cs
    by (rule for_each_print) (rule print_chip_text)
  moreover have "chip_text W \<circ> Chip_canon = chip_text W"
    by (simp add: fun_eq_iff chip_text_canon)
  ultimately show ?thesis
    by (cases "Device_position d")
      (simp_all add: print_device_def device_text_def print_def println_def and_then_def shown_def
        Device_get_position_def Device_canon_def Position_canon_def Position_get_x_def Position_get_y_def
        Position_get_z_def Position_new_def Let_def)
qed

lemma print_devices_text:
  "print_device_response W (GetDevicesResponse_canon r) =
     (''List of devices attached'' @ [CHR 0x0A] @ concat (map (device_text W) (GetDevicesResponse_devices r)), Ok ())"
proof -
  have "for_each (print_device W) (map Device_canon ds) = (concat (map (device_text W) ds), Ok ())" for ds
    by (induction ds) (simp_all add: and_then_def print_device_text)
  then show ?thesis
    by (simp add: print_device_response_def println_def and_then_def GetDevicesResponse_canon_def)
qed

abbreviation GetDevicesResponse_write_to_bytes :: "'u protobuf_rt \<Rightarrow> 'u GetDevicesResponse \<Rightarrow> pb_error + bytes" where
  "GetDevicesResponse_write_to_bytes W \<equiv>
     write_to_bytes GetDevicesResponse_is_initialized (GetDevicesResponse_compute_size W)
       (GetDevicesResponse_write_to_with_cached_sizes W)"

abbreviation VersionResponse_write_to_bytes :: "'u protobuf_rt \<Rightarrow> 'u VersionResponse \<Rightarrow> pb_error + bytes" where
  "VersionResponse_write_to_bytes W \<equiv>
     write_to_bytes VersionResponse_is_initialized (VersionResponse_compute_size W)
       (VersionResponse_write_to_with_cached_sizes W)"

abbreviation UpdateDeviceRequest_parse :: "'u protobuf_rt \<Rightarrow> bytes \<Rightarrow> pb_error + 'u UpdateDeviceRequest" where
  "UpdateDeviceRequest_parse W \<equiv>
     parse_from_bytes (UpdateDeviceRequest_new W) UpdateDeviceRequest_is_initialized (UpdateDeviceRequest_merge_from W)"

abbreviation SetPacketCaptureRequest_parse ::
    "'u protobuf_rt \<Rightarrow> bytes \<Rightarrow> pb_error + 'u SetPacketCaptureRequest" where
  "SetPacketCaptureRequest_parse W \<equiv>
     parse_from_bytes (SetPacketCaptureRequest_new W) SetPacketCaptureRequest_is_initialized
       (SetPacketCaptureRequest_merge_from W)"

context protobuf_runtime
begin

lemma radio_parsed:
  "utf8 (Radio_device_serial cmd) \<Longrightarrow>
     length (UpdateDeviceRequest_write_to_with_cached_sizes W
       (snd (UpdateDeviceRequest_compute_size W (radio_request W cmd)))) < 2 ^ 32 \<Longrightarrow>
     \<exists>b. radio_bytes W cmd = Inr b \<and> UpdateDeviceRequest_parse W b = Inr (radio_request W cmd)"
  using UpdateDeviceRequest.round_trip [OF radio_request_wf]
  by (simp add: radio_bytes_eq radio_request_canon)

lemma move_parsed:
  "utf8 (Move_device_serial cmd) \<Longrightarrow>
     length (UpdateDeviceRequest_write_to_with_cached_sizes W
       (snd (UpdateDeviceRequest_compute_size W (move_request W cmd)))) < 2 ^ 32 \<Longrightarrow>
     \<exists>b. move_bytes W cmd = Inr b \<and> UpdateDeviceRequest_parse W b = Inr (UpdateDeviceRequest_canon (move_request W cmd))"
  using UpdateDeviceRequest.round_trip [OF move_request_wf]
  by (simp add: move_bytes_eq)

lemma capture_parsed:
  "utf8 (Capture_device_serial cmd) \<Longrightarrow>
     length (SetPacketCaptureRequest_write_to_with_cached_sizes W
       (snd (SetPacketCaptureRequest_compute_size W (capture_request W cmd)))) < 2 ^ 32 \<Longrightarrow>
     \<exists>b. capture_bytes W cmd = Inr b \<and> SetPacketCaptureRequest_parse W b = Inr (capture_request W cmd)"
  using SetPacketCaptureRequest.round_trip [OF capture_request_wf]
  by (simp add: capture_bytes_eq capture_request_canon)

lemmas UpdateDeviceRequest_fits = UpdateDeviceRequest.written_length
lemmas SetPacketCaptureRequest_fits = SetPacketCaptureRequest.written_length

lemma devices_answer:
  assumes "GetDevicesResponse_wf W r" and "GetDevicesResponse_write_to_bytes W r = Inr b"
  shows "print_response W Command_Devices b =
    (''List of devices attached'' @ [CHR 0x0A] @ concat (map (device_text W) (GetDevicesResponse_devices r)), Ok ())"
  using GetDevicesResponse.parse_written [OF assms] print_devices_text [of W r]
  by (simp add: lift_def and_then_def)

lemma version_answer:
  assumes "VersionResponse_wf W r" and "VersionResponse_write_to_bytes W r = Inr b"
  shows "print_response W Command_Version b =
    (''Netsim version: '' @ VersionResponse_version r @ [CHR 0x0A], Ok ())"
  using VersionResponse.parse_written [OF assms]
  by (simp add: lift_def and_then_def print_version_response_def println_def VersionResponse_canon_def)

end

lemmas message_eval = message_new_defs GetDevicesResponse_new_def VersionResponse_new_def
  UpdateDeviceRequest_is_initialized_def Device_is_initialized_def Chip_is_initialized_def
  Chip_Bluetooth_is_initialized_def Chip_Radio_is_initialized_def Position_is_initialized_def
  SetPacketCaptureRequest_is_initialized_def GetDevicesResponse_is_initialized_def VersionResponse_is_initialized_def
  UpdateDeviceRequest_compute_size_def UpdateDeviceRequest_write_to_with_cached_sizes_def
  Device_compute_size_def Device_write_to_with_cached_sizes_def
  Chip_compute_size_def Chip_write_to_with_cached_sizes_def
  Chip_Bluetooth_compute_size_def Chip_Bluetooth_write_to_with_cached_sizes_def
  Chip_Radio_compute_size_def Chip_Radio_write_to_with_cached_sizes_def
  Position_compute_size_def Position_write_to_with_cached_sizes_def
  SetPacketCaptureRequest_compute_size_def SetPacketCaptureRequest_write_to_with_cached_sizes_def
  GetDevicesResponse_compute_size_def GetDevicesResponse_write_to_with_cached_sizes_def
  VersionResponse_compute_size_def VersionResponse_write_to_with_cached_sizes_def
  UpdateDeviceRequest_get_cached_size_def Device_get_cached_size_def Chip_get_cached_size_def
  Chip_Bluetooth_get_cached_size_def Chip_Radio_get_cached_size_def Position_get_cached_size_def

section \<open>Examples\<close>

definition example_radio :: Radio where
  "example_radio = \<lparr>Radio_bt_type = Ble, Radio_status = Up, Radio_device_serial = ''1000''\<rparr>"

definition example_move :: Move where
  "example_move = \<lparr>Move_device_serial = ''1'', Move_x = 0x3F800000, Move_y = 0x40000000, Move_z = None\<rparr>"

definition example_capture :: Capture where
  "example_capture = \<lparr>Capture_state = BoolState_True, Capture_device_serial = ''10''\<rparr>"

lemma example_radio_bytes:
  "UpdateDeviceRequest_write_to_bytes std_wire (radio_request std_wire example_radio) =
     Inr [18, 14, 10, 4, 49, 48, 48, 48, 50, 6, 42, 4, 10, 2, 8, 1]"
  by (simp add: example_radio_def radio_request_def radio_chip_def message_eval wire_eval)

lemma example_radio_utf8: "utf8 (Radio_device_serial example_radio)"
  by code_simp

lemma example_move_bytes:
  "UpdateDeviceRequest_write_to_bytes std_wire (move_request std_wire example_move) =
     Inr [18, 15, 10, 1, 49, 34, 10, 13, 0, 0, 128, 63, 21, 0, 0, 0, 64]"
  by (simp add: example_move_def move_request_def message_eval wire_eval)

lemma example_move_utf8: "utf8 (Move_device_serial example_move)"
  by code_simp

lemma example_capture_bytes:
  "SetPacketCaptureRequest_write_to_bytes std_wire (capture_request std_wire example_capture) =
     Inr [8, 1, 18, 2, 49, 48]"
  by (simp add: example_capture_def capture_request_def message_eval wire_eval)

lemma example_capture_utf8: "utf8 (Capture_device_serial example_capture)"
  by code_simp

section \<open>Properties\<close>

text \<open>For every command with a request, not only for the command lines of the tests, the method and the
  bytes sent are those that the tests of \<open>requests.rs\<close> expect for the words of the command line.\<close>

theorem requests_as_expected:
  "grpc_method (Command_Radio r) = Ok UpdateDevice \<and>
   get_request_bytes W (Command_Radio r) =
     get_expected_radio W (Radio_device_serial r) (bt_type_word (Radio_bt_type r)) (status_word (Radio_status r)) \<and>
   grpc_method (Command_Move m) = Ok UpdateDevice \<and>
   get_request_bytes W (Command_Move m) =
     get_expected_move W (Move_device_serial m) (Move_x m) (Move_y m) (Move_z m) \<and>
   grpc_method (Command_Capture c) = Ok SetPacketCapture \<and>
   get_request_bytes W (Command_Capture c) =
     get_expected_capture W (Capture_device_serial c) (Capture_state c = BoolState_True)"
  by (cases "Radio_bt_type r"; cases "Radio_status r")
    (simp_all add: radio_bytes_def get_expected_radio_def move_bytes_def get_expected_move_def
      capture_bytes_def get_expected_capture_def Let_def)

text \<open>C17: \<open>radio\<close> makes a request without a panic when the request fits in 32 bits of size, and the
  server reads its bytes as the update the command stands for: the named device with one chip
  whose low-energy or classic radio, as the command says, has the new state, and nothing else.\<close>

theorem radio_request_parsed:
  assumes "protobuf_runtime W" and "utf8 (Radio_device_serial cmd)"
    and "length (UpdateDeviceRequest_write_to_with_cached_sizes W
      (snd (UpdateDeviceRequest_compute_size W (radio_request W cmd)))) < 2 ^ 32"
  shows "\<exists>b. get_request_bytes W (Command_Radio cmd) = Ok b \<and> UpdateDeviceRequest_parse W b = Inr (radio_request W cmd)"
  using protobuf_runtime.radio_parsed [OF assms] by simp

lemma radio_request_parsed_witness:
  "\<exists>b. get_request_bytes std_wire (Command_Radio example_radio) = Ok b \<and>
     UpdateDeviceRequest_parse std_wire b = Inr (radio_request std_wire example_radio)"
  by (rule radio_request_parsed [OF std.protobuf_runtime_axioms example_radio_utf8
    protobuf_runtime.UpdateDeviceRequest_fits [OF std.protobuf_runtime_axioms example_radio_bytes]])

text \<open>\<open>move\<close> makes a request without a panic when the request fits in 32 bits of size, and the
  server reads its bytes as an update of the position of the named device to the three
  coordinates, the height being 0 when it is not given, and of nothing else.\<close>

theorem move_request_parsed:
  assumes "protobuf_runtime W" and "utf8 (Move_device_serial cmd)"
    and "length (UpdateDeviceRequest_write_to_with_cached_sizes W
      (snd (UpdateDeviceRequest_compute_size W (move_request W cmd)))) < 2 ^ 32"
  shows "\<exists>b. get_request_bytes W (Command_Move cmd) = Ok b \<and> UpdateDeviceRequest_parse W b = Inr ((UpdateDeviceRequest_new W)\<lparr>UpdateDeviceRequest_device :=
     Some ((Device_new W)\<lparr>Device_device_serial := Move_device_serial cmd,
       Device_position := Some ((Position_new W)\<lparr>Position_x := canon_f32 (Move_x cmd),
         Position_y := canon_f32 (Move_y cmd),
         Position_z := canon_f32 (case Move_z cmd of Some z \<Rightarrow> z | None \<Rightarrow> 0)\<rparr>)\<rparr>)\<rparr>)"
  using protobuf_runtime.move_parsed [OF assms]
  by (simp add: move_request_def message_canon_defs message_new_defs)

lemma move_request_parsed_witness:
  "\<exists>b. get_request_bytes std_wire (Command_Move example_move) = Ok b \<and>
     UpdateDeviceRequest_parse std_wire b = Inr ((UpdateDeviceRequest_new std_wire)\<lparr>UpdateDeviceRequest_device :=
     Some ((Device_new std_wire)\<lparr>Device_device_serial := Move_device_serial example_move,
       Device_position := Some ((Position_new std_wire)\<lparr>Position_x := canon_f32 (Move_x example_move),
         Position_y := canon_f32 (Move_y example_move),
         Position_z := canon_f32 (case Move_z example_move of Some z \<Rightarrow> z | None \<Rightarrow> 0)\<rparr>)\<rparr>)\<rparr>)"
  by (rule move_request_parsed [OF std.protobuf_runtime_axioms example_move_utf8
    protobuf_runtime.UpdateDeviceRequest_fits [OF std.protobuf_runtime_axioms example_move_bytes]])

text \<open>\<open>capture\<close> makes a request without a panic when the request fits in 32 bits of size, and
  the server reads its bytes as the request to switch the capture of the named device on or off, as the command says.\<close>

theorem capture_request_parsed:
  assumes "protobuf_runtime W" and "utf8 (Capture_device_serial cmd)"
    and "length (SetPacketCaptureRequest_write_to_with_cached_sizes W
      (snd (SetPacketCaptureRequest_compute_size W (capture_request W cmd)))) < 2 ^ 32"
  shows "\<exists>b. get_request_bytes W (Command_Capture cmd) = Ok b \<and> SetPacketCaptureRequest_parse W b = Inr (capture_request W cmd)"
  using protobuf_runtime.capture_parsed [OF assms] by simp

lemma capture_request_parsed_witness:
  "\<exists>b. get_request_bytes std_wire (Command_Capture example_capture) = Ok b \<and>
     SetPacketCaptureRequest_parse std_wire b = Inr (capture_request std_wire example_capture)"
  by (rule capture_request_parsed [OF std.protobuf_runtime_axioms example_capture_utf8
    protobuf_runtime.SetPacketCaptureRequest_fits [OF std.protobuf_runtime_axioms example_capture_bytes]])

text \<open>C33: The commands that change the scene (\<open>radio\<close>, \<open>move\<close>, \<open>capture\<close>, \<open>reset\<close>) always end in a panic
  and print nothing, whatever the server would answer.\<close>

theorem scene_commands_panic:
  assumes "command \<notin> {Command_Version, Command_Devices, Command_Gui}"
  shows "\<exists>m. rust_main W os runs client command = ([], ([], Inl (Panic m)))"
proof -
  have req: "(\<exists>b. get_request_bytes W command = Inr b) \<or> (\<exists>m. get_request_bytes W command = Inl (Panic m))"
    using assms unwrap_pb_Panic
    by (cases command; cases "get_request_bytes W command")
      (auto simp: radio_bytes_eq move_bytes_eq capture_bytes_eq)
  have "\<exists>m. send_grpc client g r = Inl (Panic m)" if "g \<noteq> GetVersion" "g \<noteq> GetDevices" for g r
    using that by (cases g) auto
  moreover obtain g where g: "grpc_method command = Ok g" "g \<noteq> GetVersion" "g \<noteq> GetDevices" "command \<noteq> Command_Gui"
    using assms by (cases command) auto
  ultimately have send: "\<exists>m. send_grpc client g r = Inl (Panic m)" for r
    by simp
  from req show ?thesis
  proof (elim disjE exE)
    fix b
    assume b: "get_request_bytes W command = Inr b"
    obtain m where "send_grpc client g b = Inl (Panic m)"
      using send by blast
    with b g(1,4) show ?thesis
      by (intro exI [of _ m]) (simp add: rust_main_def and_then_def lift_def)
  next
    fix m
    assume "get_request_bytes W command = Inl (Panic m)"
    with g(1,4) show ?thesis
      by (intro exI [of _ m]) (simp add: rust_main_def and_then_def lift_def)
  qed
qed

lemma scene_commands_panic_witness:
  "\<exists>m. rust_main std_wire Linux (\<lambda>_. True)
     \<lparr>get_version = \<lparr>is_ok = True, err = [], byte_str = []\<rparr>, get_devices = \<lparr>is_ok = True, err = [], byte_str = []\<rparr>\<rparr>
     Command_Reset = ([], ([], Inl (Panic m)))"
  by (rule scene_commands_panic) simp

text \<open>C32: When the server answers \<open>devices\<close> with the bytes of a list of devices, the client prints the
  heading and one line for each device, in order, and returns.\<close>

theorem devices_printed:
  assumes "protobuf_runtime W" and "GetDevicesResponse_wf W r"
    and "GetDevicesResponse_write_to_bytes W r = Inr b"
    and "is_ok (get_devices client)" and "byte_str (get_devices client) = of_bytes b"
  shows "rust_main W os runs client Command_Devices =
     ([], (''List of devices attached'' @ [CHR 0x0A] @
       concat (map (device_text W) (GetDevicesResponse_devices r)), Ok ()))"
  using protobuf_runtime.devices_answer [OF assms(1-3)] assms(4,5)
  by (simp add: rust_main_def lift_def and_then_def del: print_response.simps)

definition example_devices :: "bytes GetDevicesResponse" where
  "example_devices = (GetDevicesResponse_new std_wire)\<lparr>GetDevicesResponse_devices :=
     [(Device_new std_wire)\<lparr>Device_device_serial := ''s1'',
       Device_chips := [(Chip_new std_wire)\<lparr>Chip_chip := Some (Chip_oneof_chip_bt
         ((Chip_Bluetooth_new std_wire)\<lparr>Chip_Bluetooth_low_energy :=
           Some ((Chip_Radio_new std_wire)\<lparr>Chip_Radio_state := State_ON\<rparr>)\<rparr>))\<rparr>]\<rparr>]\<rparr>"

definition example_client :: FrontendClient where
  "example_client =
     \<lparr>get_version = \<lparr>is_ok = True, err = [], byte_str = of_bytes [10, 1, 55]\<rparr>,
      get_devices = \<lparr>is_ok = True, err = [],
        byte_str = of_bytes [10, 12, 10, 2, 115, 49, 50, 6, 42, 4, 10, 2, 8, 1]\<rparr>\<rparr>"

lemma devices_printed_witness:
  "rust_main std_wire Linux (\<lambda>_. False) example_client Command_Devices =
     ([], (''List of devices attached'' @ [CHR 0x0A] @
       concat (map (device_text std_wire) (GetDevicesResponse_devices example_devices)), Ok ()))"
proof (rule devices_printed [OF std.protobuf_runtime_axioms])
  have "utf8 ''s1''"
    by code_simp
  then show "GetDevicesResponse_wf std_wire example_devices"
    by (simp add: example_devices_def message_wf_defs GetDevicesResponse_wf_def message_new_defs GetDevicesResponse_new_def)
  show "GetDevicesResponse_write_to_bytes std_wire example_devices =
      Inr [10, 12, 10, 2, 115, 49, 50, 6, 42, 4, 10, 2, 8, 1]"
    by (simp add: example_devices_def message_eval wire_eval)
qed (simp_all add: example_client_def)

text \<open>When the server answers \<open>version\<close>, the client prints the version it got.\<close>

theorem version_printed:
  assumes "protobuf_runtime W" and "VersionResponse_wf W r"
    and "VersionResponse_write_to_bytes W r = Inr b"
    and "is_ok (get_version client)" and "byte_str (get_version client) = of_bytes b"
  shows "rust_main W os runs client Command_Version =
     ([], (''Netsim version: '' @ VersionResponse_version r @ [CHR 0x0A], Ok ()))"
  using protobuf_runtime.version_answer [OF assms(1-3)] assms(4,5)
  by (simp add: rust_main_def lift_def and_then_def del: print_response.simps)

lemma version_printed_witness:
  "rust_main std_wire Linux (\<lambda>_. False) example_client Command_Version =
     ([], (''Netsim version: '' @
       VersionResponse_version ((VersionResponse_new std_wire)\<lparr>VersionResponse_version := ''7''\<rparr>) @ [CHR 0x0A], Ok ()))"
proof (rule version_printed [OF std.protobuf_runtime_axioms])
  have "utf8 ''7''"
    by code_simp
  then show "VersionResponse_wf std_wire ((VersionResponse_new std_wire)\<lparr>VersionResponse_version := ''7''\<rparr>)"
    by (simp add: VersionResponse_wf_def VersionResponse_new_def)
  show "VersionResponse_write_to_bytes std_wire ((VersionResponse_new std_wire)\<lparr>VersionResponse_version := ''7''\<rparr>) =
      Inr [10, 1, 55]"
    by (simp add: message_eval wire_eval)
qed (simp_all add: example_client_def)

text \<open>\<open>gui\<close> starts the programs that can open a browser in the order of the platform until one
  starts, and prints the address only if none does; it never talks to the server.\<close>

theorem gui_opens_first_handler:
  "let url = ''http://localhost:7681/''; calls = map (\<lambda>h. h @ [url]) (open_handlers os)
   in rust_main W os runs client Command_Gui =
     (takeWhile (\<lambda>c. \<not> runs c) calls @ take 1 (dropWhile (\<lambda>c. \<not> runs c) calls),
      (if \<exists>c \<in> set calls. runs c then [] else open_message os @ debug_str url @ [CHR 0x0A], Ok ()))"
proof -
  have "try_handlers runs url hs =
      (takeWhile (\<lambda>c. \<not> runs c) (map (\<lambda>h. h @ [url]) hs) @
         take 1 (dropWhile (\<lambda>c. \<not> runs c) (map (\<lambda>h. h @ [url]) hs)),
       \<exists>c \<in> set (map (\<lambda>h. h @ [url]) hs). runs c)" for hs url
    by (induction hs) auto
  then show ?thesis
    by (simp add: rust_main_def open_browser_def Let_def)
qed

text \<open>A finite number is printed with two decimals as the nearest number of hundredths.\<close>

theorem format_2_nearest:
  assumes "e < 0"
  shows "\<exists>h. format_2 (Finite s m e) = (if s then ''-'' else []) @ show_nat (h div 100) @ ''.'' @
       [digit_char (h mod 100 div 10), digit_char (h mod 10)] \<and>
     2 * abs (int h * 2 ^ nat (- e) - 100 * int m) \<le> 2 ^ nat (- e)"
proof -
  define d where "d = (2 :: nat) ^ nat (- e)"
  have d: "0 < d"
    by (simp add: d_def)
  define q r where "q = 100 * m div d" and "r = 100 * m mod d"
  have n: "100 * m = q * d + r" and r: "r < d"
    using d by (simp_all add: q_def r_def)
  define h where "h = (if d < 2 * r \<or> d = 2 * r \<and> odd q then q + 1 else q)"
  have h: "hundredths m e = h"
    using assms by (simp add: hundredths_def Let_def h_def q_def r_def d_def)
  have "int h * int d - 100 * int m = (if d < 2 * r \<or> d = 2 * r \<and> odd q then int d - int r else - int r)"
  proof -
    have "100 * int m = int q * int d + int r"
      using n by (metis of_nat_add of_nat_mult of_nat_numeral)
    then show ?thesis
      by (simp add: h_def algebra_simps)
  qed
  then have "2 * abs (int h * int d - 100 * int m) \<le> int d"
    using r by auto
  moreover have "format_2 (Finite s m e) = (if s then ''-'' else []) @ show_nat (h div 100) @ ''.'' @
      [digit_char (h mod 100 div 10), digit_char (h mod 10)]"
    by (simp add: h Let_def)
  ultimately show ?thesis
    by (intro exI [of _ h]) (simp add: d_def)
qed

lemma format_2_nearest_witness:
  "\<exists>h. format_2 (Finite True 5 (-3)) = (if True then ''-'' else []) @ show_nat (h div 100) @ ''.'' @
       [digit_char (h mod 100 div 10), digit_char (h mod 10)] \<and>
     2 * abs (int h * 2 ^ nat (- (-3)) - 100 * int 5) \<le> 2 ^ nat (- (-3))"
  by (rule format_2_nearest) simp

end
