(* ===== verification/Rust_Floats.thy ===== *)
theory Rust_Floats
  imports F32_Order Rust_Strings
begin

text \<open>
  \<^verbatim>\<open>f32::from_str\<close> of the standard library, by which the command line reads coordinates: the grammar of its
  documentation (a sign, \<open>inf\<close>, \<open>infinity\<close>, \<open>nan\<close> in any case, or digits with a point and an exponent), the
  exact value rounded once, and the bits of the result. The value read is shown to be within half a
  unit in the last place of the decimal number.
\<close>

section \<open>The bits of a number\<close>

lemma bitlen_numeral [simp]:
  "bitlen 1 = 1" "bitlen (Suc 0) = 1"
  "bitlen (numeral (num.Bit0 n)) = Suc (bitlen (numeral n))"
  "bitlen (numeral (num.Bit1 n)) = Suc (bitlen (numeral n))"
  by (subst bitlen.simps; simp)+

definition sign_bit :: "bool \<Rightarrow> nat" where
  "sign_bit s = (if s then 2147483648 else 0)"

definition last_place :: "nat \<Rightarrow> int \<Rightarrow> int" where
  "last_place m e = max (int (bitlen m) + e - 24) (-149)"

fun bits_of_fp :: "fp \<Rightarrow> f32" where
  "bits_of_fp NaN = 0x7FC00000"
| "bits_of_fp (Infinite s) = of_nat (sign_bit s + 2139095040)"
| "bits_of_fp (Finite s m e) =
     (if m = 0 then of_nat (sign_bit s)
      else let E = last_place m e;
               M = (if E \<le> e then m * 2 ^ nat (e - E) else m div 2 ^ nat (E - e))
           in if M < 8388608 then of_nat (sign_bit s + M)
              else of_nat (sign_bit s + nat (E + 150) * 8388608 + (M - 8388608)))"

section \<open>Decimal numbers\<close>

definition is_digit :: "char \<Rightarrow> bool" where
  "is_digit c \<longleftrightarrow> digit_val c \<noteq> None"

definition digits_value :: "string \<Rightarrow> nat" where
  "digits_value ds = foldl (\<lambda>n c. 10 * n + the (digit_val c)) 0 ds"

text \<open>The number \<open>m * 10 ^ e\<close>, rounded; for a negative \<open>e\<close> by a division with at least 26 bits of quotient.\<close>

definition decimal_rounded :: "bool \<Rightarrow> nat \<Rightarrow> int \<Rightarrow> fp" where
  "decimal_rounded s m e =
     (if m = 0 then Finite s 0 0
      else if 0 \<le> e then rounded s (m * 10 ^ nat e) 0 False
      else let d = 10 ^ nat (- e); k = bitlen d + 26; n = m * 2 ^ k
           in rounded s (n div d) (- int k) (n mod d \<noteq> 0))"

text \<open>\<^verbatim>\<open>Exp ::= 'e' Sign? Digit+\<close>, or nothing.\<close>

definition strip_sign :: "string \<Rightarrow> bool \<times> string" where
  "strip_sign s =
     (case strip_prefix (CHR ''-'') s of Some t \<Rightarrow> (True, t)
      | None \<Rightarrow> (case strip_prefix (CHR ''+'') s of Some t \<Rightarrow> (False, t) | None \<Rightarrow> (False, s)))"

definition exponent_of :: "string \<Rightarrow> int option" where
  "exponent_of s =
     (if s = [] then Some 0
      else case strip_prefix (CHR ''e'') s of None \<Rightarrow> None
      | Some t \<Rightarrow> (case strip_sign t of (neg, ds) \<Rightarrow>
          if ds = [] \<or> \<not> list_all is_digit ds then None
          else Some (if neg then - int (digits_value ds) else int (digits_value ds))))"

definition number_of :: "bool \<Rightarrow> string \<Rightarrow> fp option" where
  "number_of neg s =
     (let i = takeWhile is_digit s; r = dropWhile is_digit s;
          (f, r) = (case strip_prefix (CHR ''.'') r of
              Some t \<Rightarrow> (takeWhile is_digit t, dropWhile is_digit t) | None \<Rightarrow> ([], r))
      in if i = [] \<and> f = [] then None
         else map_option (\<lambda>e. decimal_rounded neg (digits_value (i @ f)) (e - int (length f))) (exponent_of r))"

definition fp_from_str :: "string \<Rightarrow> fp option" where
  "fp_from_str s =
     (case strip_sign s of (neg, t) \<Rightarrow>
        let l = to_ascii_lowercase t
        in if l = ''inf'' \<or> l = ''infinity'' then Some (Infinite neg)
           else if l = ''nan'' then Some NaN
           else number_of neg l)"

definition f32_from_str :: "string \<Rightarrow> f32 option" where
  "f32_from_str s = map_option bits_of_fp (fp_from_str s)"

section \<open>Reading back the bits\<close>

lemma bitlen_shift: "0 < m \<Longrightarrow> bitlen (m * 2 ^ k) = bitlen m + k"
proof (induction k)
  case (Suc k)
  then show ?case
    by (subst bitlen.simps) (simp add: algebra_simps)
qed simp

lemma fields_of_bits:
  assumes "k \<le> 254" and "r < 8388608"
  shows "fp_of_bits (of_nat (sign_bit s + k * 8388608 + r)) =
    (if k = 0 then Finite s r (-149) else Finite s (8388608 + r) (int k - 150))"
proof -
  define c where "c = (if s then 256 else 0) + k"
  define n where "n = sign_bit s + k * 8388608 + r"
  have n: "n = c * 8388608 + r"
    by (simp add: n_def c_def sign_bit_def)
  have u: "unat (of_nat n :: f32) = n"
    using assms by (intro unat_u32_of_nat) (simp add: n_def sign_bit_def)
  have d: "n div 8388608 = c" "n mod 8388608 = r"
    using assms(2) by (simp_all add: n)
  have c: "c mod 256 = k" "(2147483648 \<le> n) = s"
    using assms by (simp_all add: c_def n_def sign_bit_def)
  show ?thesis
    unfolding n_def [symmetric] fp_of_bits_def u d c Let_def using assms(1) by simp
qed

lemma bits_small: "M < 8388608 \<Longrightarrow> fp_of_bits (of_nat (sign_bit s + M)) = Finite s M (-149)"
  using fields_of_bits [of 0 M s] by simp

lemma bits_normal:
  assumes "8388608 \<le> M" and "M < 16777216" and "-149 \<le> E" and "E \<le> 104"
  shows "fp_of_bits (of_nat (sign_bit s + nat (E + 150) * 8388608 + (M - 8388608))) = Finite s M E"
  using fields_of_bits [of "nat (E + 150)" "M - 8388608" s] assms by auto

lemma powi_split: "b \<le> e \<Longrightarrow> (2 :: real) powi e = 2 ^ nat (e - b) * 2 powi b"
  by (simp flip: power_int_add power_int_of_nat)

text \<open>The bits of a number that rounding can give have its value.\<close>

lemma bits_of_fp_value:
  assumes "m \<le> 2 ^ 24" and "-149 \<le> e" and "m = 0 \<or> int (bitlen m) + e \<le> 128"
  obtains M E where "fp_of_bits (bits_of_fp (Finite s m e)) = Finite s M E"
    and "real M * 2 powi E = real m * 2 powi e"
proof (cases "m = 0")
  case True
  with bits_small [of 0 s] that [of 0 "-149"] show ?thesis
    by simp
next
  case False
  define E where "E = last_place m e"
  define M where "M = (if E \<le> e then m * 2 ^ nat (e - E) else m div 2 ^ nat (E - e))"
  have b: "int (bitlen m) + e \<le> 128" "0 < m"
    using False assms(3) by auto
  have E: "-149 \<le> E" "E = int (bitlen m) + e - 24 \<or> E = -149 \<and> int (bitlen m) + e \<le> -125"
    by (auto simp: E_def last_place_def max_def)
  have "real M * 2 powi E = real m * 2 powi e \<and> M < 16777216 \<and> E \<le> 104 \<and> (8388608 \<le> M \<or> E = -149)"
  proof (cases "E \<le> e")
    case True
    then have M: "M = m * 2 ^ nat (e - E)"
      by (simp add: M_def)
    have l: "int (bitlen M) = int (bitlen m) + e - E"
      unfolding M using True bitlen_shift [OF b(2)] by simp
    then have "bitlen M \<le> 24" "bitlen M = 24 \<or> E = -149" "E \<le> 104"
      using E b(1) by auto
    moreover have "M < 2 ^ 24" if "bitlen M \<le> 24"
      using less_bitlen [of M] power_increasing [OF that, of "2 :: nat"] by simp
    moreover have "2 ^ 23 \<le> M" if "bitlen M = 24"
      using that bitlen_le [of M 23] by (cases "M < 2 ^ 23") auto
    ultimately show ?thesis
      using powi_split [OF True] by (auto simp: M)
  next
    case False
    have "24 < bitlen m"
      using False E assms(2) by linarith
    then have m: "m = 2 ^ 24"
      using bitlen_le [of m 24] assms(1) by (cases "m = 2 ^ 24") auto
    have "bitlen m = 25"
      using bitlen_le [of m 25] \<open>24 < bitlen m\<close> by (simp add: m)
    then have e: "E = e + 1"
      using E False assms(2) by linarith
    show ?thesis
      using b(1) \<open>bitlen m = 25\<close> by (simp add: M_def e m power_int_add)
  qed
  then have M: "real M * 2 powi E = real m * 2 powi e" "M < 16777216" "E \<le> 104" "8388608 \<le> M \<or> E = -149"
    by blast+
  have bits: "bits_of_fp (Finite s m e) =
      (if M < 8388608 then of_nat (sign_bit s + M)
       else of_nat (sign_bit s + nat (E + 150) * 8388608 + (M - 8388608)))"
    using False by (simp add: E_def [symmetric] M_def [symmetric] Let_def)
  have "fp_of_bits (bits_of_fp (Finite s m e)) = Finite s M E"
  proof (cases "M < 8388608")
    case True
    with M(4) bits_small [OF True, of s] show ?thesis
      by (simp only: bits if_True) auto
  next
    case False
    then have "8388608 \<le> M"
      by simp
    from bits_normal [OF this M(2) E(1) M(3), of s] False show ?thesis
      unfolding bits by (simp only: if_False)
  qed
  then show ?thesis
    by (rule that [OF _ M(1)])
qed

section \<open>The number that is read\<close>

lemma decimal_nearest:
  assumes "0 < m" and "x = real m * 10 powi e"
  obtains q e' E where "spacing x E" and "real q * 2 powi e' = nearest x E"
    and "decimal_rounded s m e = (if 2 powi 128 \<le> nearest x E then Infinite s else Finite s q e')"
proof (cases "0 \<le> e")
  case True
  define n where "n = m * 10 ^ nat e"
  have x: "x = real n * 2 powi 0"
    using assms(2) True by (simp add: n_def flip: power_int_of_nat)
  have exact: "real n < real n + 1" "False = (real n \<noteq> real n)" "False \<Longrightarrow> 24 < bitlen n"
    by simp_all
  obtain E where E: "spacing x E"
    using spacing_exists [of n "real n" 0] unfolding x by auto
  obtain q e' where "real q * 2 powi e' = nearest x E"
    "rounded s n 0 False = (if 2 powi 128 \<le> nearest x E then Infinite s else Finite s q e')"
    using rounded_nearest [OF order_refl exact E [unfolded x]] unfolding x by blast
  with that [OF E] show ?thesis
    using assms(1) True by (simp add: decimal_rounded_def n_def)
next
  case False
  define d where "d = (10 :: nat) ^ nat (- e)"
  define k where "k = bitlen d + 26"
  define n where "n = m * 2 ^ k"
  have d: "0 < d" "d < 2 ^ bitlen d"
    using less_bitlen by (simp_all add: d_def)
  define t where "t = real n / real d"
  have "real n = real (n div d) * real d + real (n mod d)"
    by (metis div_mult_mod_eq of_nat_add of_nat_mult)
  then have q: "t = real (n div d) + real (n mod d) / real d"
    using d(1) by (simp add: t_def field_simps)
  have t: "real (n div d) \<le> t" "t < real (n div d) + 1"
    using d(1) by (simp_all add: q)
  have sticky: "(n mod d \<noteq> 0) = (t \<noteq> real (n div d))"
    using d(1) by (simp add: q)
  have "2 ^ 26 * d \<le> n"
  proof -
    have "2 ^ 26 * d \<le> 2 ^ 26 * 2 ^ bitlen d"
      using d(2) by simp
    also have "\<dots> = 2 ^ k"
      by (simp add: k_def power_add)
    also have "\<dots> \<le> n"
      using assms(1) by (simp add: n_def)
    finally show ?thesis .
  qed
  then have "2 ^ 26 \<le> n div d"
    using d(1) by (simp add: less_eq_div_iff_mult_less_eq)
  then have long: "24 < bitlen (n div d)"
    using bitlen_greater [of 26 "n div d"] by simp
  have x: "x = t * 2 powi (- int k)"
    using assms(2) False d(1)
    by (simp add: t_def n_def d_def power_int_minus field_simps power_int_def)
  obtain E where E: "spacing x E"
    using spacing_exists [OF t, of "- int k"] long unfolding x by fastforce
  obtain q e' where "real q * 2 powi e' = nearest x E"
    "rounded s (n div d) (- int k) (n mod d \<noteq> 0) = (if 2 powi 128 \<le> nearest x E then Infinite s else Finite s q e')"
    using rounded_nearest [OF t sticky long E [unfolded x]] unfolding x .
  with that [OF E] show ?thesis
    using assms(1) False by (simp add: decimal_rounded_def Let_def d_def k_def n_def)
qed

lemma rounded_FiniteD:
  assumes "rounded s m e sticky = Finite t q e'"
  shows "q \<le> 2 ^ 24 \<and> -149 \<le> e' \<and> (q = 0 \<or> int (bitlen q) + e' \<le> 128) \<and> t = s"
proof -
  define sh where "sh = nat (max (int (bitlen m) - 24) (-149 - e))"
  have "bitlen m \<le> 24 + sh"
    by (simp add: sh_def)
  then have "m < 2 ^ (24 + sh)"
    using less_bitlen [of m] by (meson less_le_trans one_le_numeral power_increasing)
  then have "m div 2 ^ sh < 2 ^ 24"
    by (simp add: power_add less_mult_imp_div_less)
  moreover have "-149 \<le> e + int sh"
    unfolding sh_def by linarith
  ultimately show ?thesis
    using assms unfolding rounded_def Let_def sh_def [symmetric] by (auto split: if_splits)
qed

lemma decimal_rounded_FiniteD:
  assumes "decimal_rounded s m e = Finite t q e'"
  shows "q \<le> 2 ^ 24 \<and> -149 \<le> e' \<and> (q = 0 \<or> int (bitlen q) + e' \<le> 128) \<and> t = s"
  using assms rounded_FiniteD by (auto simp: decimal_rounded_def Let_def split: if_splits)

text \<open>Within half a unit in the last place: a part in \<open>2 ^ 24\<close>, or half of the smallest number.\<close>

lemma nearest_relative:
  assumes "spacing x E" and "0 \<le> x"
  shows "abs (nearest x E - x) \<le> x / 2 ^ 24 + 1 / 2 ^ 150"
proof (cases "E = -149")
  case True
  with assms(2) show ?thesis
    using nearest_error [of x E] by (simp add: True power_int_minus)
next
  case False
  then have "2 powi (E + 23) \<le> x"
    using assms by (simp add: spacing_def)
  then have "2 powi E / 2 \<le> x / 2 ^ 24"
    by (simp add: power_int_add)
  then show ?thesis
    using nearest_error [of x E] by simp
qed

lemma decimal_read:
  assumes "x = real m * 10 powi e" and "x \<le> 2 powi 127"
  obtains M E where "fp_of_bits (bits_of_fp (decimal_rounded s m e)) = Finite s M E"
    and "abs (real M * 2 powi E - x) \<le> x / 2 ^ 24 + 1 / 2 ^ 150"
proof (cases "m = 0")
  case True
  then show ?thesis
    using assms bits_small [of 0 s] that [of 0 "-149"] by (simp add: decimal_rounded_def)
next
  case False
  then have pos: "0 < x"
    using assms(1) by simp
  obtain q e' E where E: "spacing x E" and q: "real q * 2 powi e' = nearest x E"
    "decimal_rounded s m e = (if 2 powi 128 \<le> nearest x E then Infinite s else Finite s q e')"
    using decimal_nearest [of m x e s] False assms(1) by blast
  have err: "abs (nearest x E - x) \<le> x / 2 ^ 24 + 1 / 2 ^ 150"
    using nearest_relative [OF E] pos by linarith
  have "nearest x E < 2 powi 128"
    using err assms(2) by (simp add: abs_le_iff)
  then have f: "decimal_rounded s m e = Finite s q e'"
    using q(2) by simp
  obtain M E' where M: "fp_of_bits (bits_of_fp (Finite s q e')) = Finite s M E'" "real M * 2 powi E' = real q * 2 powi e'"
    using bits_of_fp_value [of q e' s] decimal_rounded_FiniteD [OF f] by blast
  show ?thesis
    by (rule that [of M E']) (use M q(1) err f in simp_all)
qed

section \<open>The texts of decimal numbers\<close>

text \<open>Digits, a point and digits, of which one side may be empty; or digits only.\<close>

definition decimal_text :: "string \<Rightarrow> string option \<Rightarrow> string" where
  "decimal_text i f = i @ (case f of None \<Rightarrow> [] | Some f \<Rightarrow> CHR ''.'' # f)"

definition is_decimal :: "string \<Rightarrow> string option \<Rightarrow> bool" where
  "is_decimal i f \<longleftrightarrow> list_all is_digit i \<and> pred_option (list_all is_digit) f \<and>
     (i \<noteq> [] \<or> f \<noteq> None \<and> the f \<noteq> [])"

definition decimal_value :: "string \<Rightarrow> string option \<Rightarrow> real" where
  "decimal_value i f =
     (case f of None \<Rightarrow> real (digits_value i) | Some f \<Rightarrow> real (digits_value (i @ f)) * 10 powi (- int (length f)))"

lemma is_digit_code: "is_digit c \<longleftrightarrow> 48 \<le> (of_char c :: nat) \<and> (of_char c :: nat) \<le> 57"
  by (auto simp: is_digit_def digit_val_def Let_def)

lemma not_digits: "\<not> is_digit (CHR ''.'')" "\<not> is_digit (CHR ''-'')" "\<not> is_digit (CHR ''+'')"
    "\<not> is_digit (CHR ''i'')" "\<not> is_digit (CHR ''n'')"
  by (simp_all add: is_digit_code)

lemma digit_lower: "is_digit c \<Longrightarrow> ascii_lower_char c = c"
  by (auto simp: ascii_lower_char_def is_digit_code Let_def)

lemma takeWhile_all: "list_all P xs \<Longrightarrow> takeWhile P xs = xs \<and> dropWhile P xs = []"
  by (simp add: list_all_iff)

lemma takeWhile_stop: "list_all P xs \<Longrightarrow> \<not> P y \<Longrightarrow> takeWhile P (xs @ y # ys) = xs \<and> dropWhile P (xs @ y # ys) = y # ys"
  by (induction xs) auto

lemma decimal_number_of:
  assumes "is_decimal i f"
  shows "number_of neg (decimal_text i f) =
    Some (case f of None \<Rightarrow> decimal_rounded neg (digits_value i) 0
      | Some f \<Rightarrow> decimal_rounded neg (digits_value (i @ f)) (- int (length f)))"
proof (cases f)
  case None
  then have i: "takeWhile is_digit i = i" "dropWhile is_digit i = []" "i \<noteq> []"
    using assms takeWhile_all [of is_digit i] by (auto simp: is_decimal_def)
  then show ?thesis
    by (simp add: None number_of_def decimal_text_def exponent_of_def i)
next
  case (Some g)
  then have g: "takeWhile is_digit (i @ CHR ''.'' # g) = i" "dropWhile is_digit (i @ CHR ''.'' # g) = CHR ''.'' # g"
    "takeWhile is_digit g = g" "dropWhile is_digit g = []" "\<not> (i = [] \<and> g = [])"
    using assms takeWhile_stop [of is_digit i "CHR ''.''" g] takeWhile_all [of is_digit g] not_digits
    by (auto simp: is_decimal_def)
  show ?thesis
    using g(5) by (auto simp: Some number_of_def decimal_text_def exponent_of_def g(1-4) Let_def)
qed

lemma decimal_first:
  assumes "is_decimal i f"
  obtains c t where "decimal_text i f = c # t" and "is_digit c \<or> c = CHR ''.''"
  using assms by (cases i; cases f) (auto simp: decimal_text_def is_decimal_def)

lemma decimal_lower: "is_decimal i f \<Longrightarrow> to_ascii_lowercase (decimal_text i f) = decimal_text i f"
proof -
  have "map ascii_lower_char xs = xs" if "list_all is_digit xs" for xs
    using that by (induction xs) (simp_all add: digit_lower)
  moreover have "ascii_lower_char (CHR ''.'') = CHR ''.''"
    by (simp add: ascii_lower_char_def)
  ultimately show "is_decimal i f \<Longrightarrow> ?thesis"
    by (cases f) (auto simp: decimal_text_def is_decimal_def to_ascii_lowercase_def)
qed

lemma decimal_fp_from_str:
  assumes "is_decimal i f"
  shows "fp_from_str (decimal_text i f) = number_of False (decimal_text i f)"
    and "fp_from_str (CHR ''-'' # decimal_text i f) = number_of True (decimal_text i f)"
proof -
  obtain c t where c: "decimal_text i f = c # t" "is_digit c \<or> c = CHR ''.''"
    using decimal_first [OF assms] .
  then have n: "c \<noteq> CHR ''-''" "c \<noteq> CHR ''+''" "c \<noteq> CHR ''i''" "c \<noteq> CHR ''n''"
    using not_digits by auto
  have l: "to_ascii_lowercase (c # t) = c # t"
    using decimal_lower [OF assms] by (simp only: c(1))
  show "fp_from_str (decimal_text i f) = number_of False (decimal_text i f)"
    and "fp_from_str (CHR ''-'' # decimal_text i f) = number_of True (decimal_text i f)"
    using n by (simp_all add: fp_from_str_def strip_sign_def c(1) l Let_def)
qed

text \<open>What is read is as near to the decimal number as an \<^verbatim>\<open>f32\<close> can be.\<close>

lemma decimal_f32_read:
  assumes "is_decimal i f" and "decimal_value i f \<le> 2 powi 127"
  obtains v M E where "f32_from_str (decimal_text i f) = Some v" and "fp_of_bits v = Finite False M E"
    and "abs (real M * 2 powi E - decimal_value i f) \<le> decimal_value i f / 2 ^ 24 + 1 / 2 ^ 150"
proof -
  let ?m = "case f of None \<Rightarrow> digits_value i | Some f \<Rightarrow> digits_value (i @ f)"
  let ?e = "case f of None \<Rightarrow> 0 | Some f \<Rightarrow> - int (length f)"
  have v: "decimal_value i f = real ?m * 10 powi ?e"
    by (simp add: decimal_value_def split: option.splits)
  have n: "fp_from_str (decimal_text i f) = Some (decimal_rounded False ?m ?e)"
    using decimal_fp_from_str(1) [OF assms(1)] decimal_number_of [OF assms(1)] by (cases f) simp_all
  obtain M E where "fp_of_bits (bits_of_fp (decimal_rounded False ?m ?e)) = Finite False M E"
    "abs (real M * 2 powi E - decimal_value i f) \<le> decimal_value i f / 2 ^ 24 + 1 / 2 ^ 150"
    using decimal_read [OF v assms(2)] by blast
  then show ?thesis
    by (intro that [of "bits_of_fp (decimal_rounded False ?m ?e)" M E]) (simp_all add: f32_from_str_def n)
qed

lemma f32_from_decimal:
  "is_decimal i f \<Longrightarrow> f32_from_str (decimal_text i f) = Some (bits_of_fp
    (case f of None \<Rightarrow> decimal_rounded False (digits_value i) 0
      | Some f \<Rightarrow> decimal_rounded False (digits_value (i @ f)) (- int (length f))))"
  by (simp add: f32_from_str_def decimal_fp_from_str decimal_number_of split: option.split)

text \<open>Literals are read as the bits that the compiler gives them.\<close>

lemma f32_from_digits:
  assumes "list_all is_digit i" and "i \<noteq> []" and "decimal_rounded False (digits_value i) 0 = x" and "bits_of_fp x = v"
  shows "f32_from_str i = Some v"
  using f32_from_decimal [of i None] assms by (simp add: is_decimal_def decimal_text_def)

lemma f32_from_point:
  assumes "list_all is_digit i" and "list_all is_digit f" and "i \<noteq> []"
    and "decimal_rounded False (digits_value (i @ f)) (- int (length f)) = x" and "bits_of_fp x = v"
  shows "f32_from_str (i @ CHR ''.'' # f) = Some v"
  using f32_from_decimal [of i "Some f"] assms by (simp add: is_decimal_def decimal_text_def)

lemma literals_rounded:
  "decimal_rounded False 1 0 = Finite False 1 0" "decimal_rounded False (Suc 0) 0 = Finite False 1 0"
  "decimal_rounded False 2 0 = Finite False 2 0" "decimal_rounded False 3 0 = Finite False 3 0"
  "decimal_rounded False 12 (-1) = Finite False 10066330 (-23)" "decimal_rounded False 34 (-1) = Finite False 14260634 (-22)"
  "decimal_rounded False 56 (-1) = Finite False 11744051 (-21)" "decimal_rounded False 11 (-1) = Finite False 9227469 (-23)"
  by (simp_all add: decimal_rounded_def rounded_def Let_def)

lemma literals_bits:
  "bits_of_fp (Finite False 1 0) = 0x3F800000" "bits_of_fp (Finite False 2 0) = 0x40000000"
  "bits_of_fp (Finite False 3 0) = 0x40400000"
  "bits_of_fp (Finite False 10066330 (-23)) = 0x3F99999A" "bits_of_fp (Finite False 14260634 (-22)) = 0x4059999A"
  "bits_of_fp (Finite False 11744051 (-21)) = 0x40B33333" "bits_of_fp (Finite False 9227469 (-23)) = 0x3F8CCCCD"
  by (simp_all add: last_place_def sign_bit_def)

lemmas digit_eval = is_digit_code digits_value_def digit_val_def

lemma f32_literals:
  "f32_from_str ''1'' = Some 0x3F800000" "f32_from_str ''2'' = Some 0x40000000" "f32_from_str ''3'' = Some 0x40400000"
  "f32_from_str ''1.2'' = Some 0x3F99999A" "f32_from_str ''3.4'' = Some 0x4059999A"
  "f32_from_str ''5.6'' = Some 0x40B33333" "f32_from_str ''1.1'' = Some 0x3F8CCCCD"
proof -
  show "f32_from_str ''1'' = Some 0x3F800000"
    by (rule f32_from_digits [OF _ _ _ literals_bits(1)]) (simp_all add: digit_eval literals_rounded)
  show "f32_from_str ''2'' = Some 0x40000000"
    by (rule f32_from_digits [OF _ _ _ literals_bits(2)]) (simp_all add: digit_eval literals_rounded)
  show "f32_from_str ''3'' = Some 0x40400000"
    by (rule f32_from_digits [OF _ _ _ literals_bits(3)]) (simp_all add: digit_eval literals_rounded)
  have point: "decimal_rounded False (digits_value (i @ f)) (- int (length f)) = x \<Longrightarrow> bits_of_fp x = v \<Longrightarrow>
      list_all is_digit i \<Longrightarrow> list_all is_digit f \<Longrightarrow> i \<noteq> [] \<Longrightarrow> t = i @ CHR ''.'' # f \<Longrightarrow> f32_from_str t = Some v" for i f x v t
    using f32_from_point by blast
  show "f32_from_str ''1.2'' = Some 0x3F99999A"
    by (rule point [of "''1''" "''2''", OF _ literals_bits(4)]) (simp_all add: digit_eval literals_rounded)
  show "f32_from_str ''3.4'' = Some 0x4059999A"
    by (rule point [of "''3''" "''4''", OF _ literals_bits(5)]) (simp_all add: digit_eval literals_rounded)
  show "f32_from_str ''5.6'' = Some 0x40B33333"
    by (rule point [of "''5''" "''6''", OF _ literals_bits(6)]) (simp_all add: digit_eval literals_rounded)
  show "f32_from_str ''1.1'' = Some 0x3F8CCCCD"
    by (rule point [of "''1''" "''1''", OF _ literals_bits(7)]) (simp_all add: digit_eval literals_rounded)
qed

end
