(* ===== verification/Cli_Words.thy ===== *)
theory Cli_Words
  imports Cli Rust_Floats
begin

text \<open>
  From the words of a command line to the command: \<^verbatim>\<open>NetsimArgs\<close> of \<^verbatim>\<open>rust/netsim-cli/src/args.rs\<close> as \<^verbatim>\<open>clap\<close>
  parses it, the complete \<^verbatim>\<open>rust_main\<close>, and the tests of \<^verbatim>\<open>requests.rs\<close>, which start from command lines.

  \<^verbatim>\<open>clap\<close> is not part of the repository: \<open>parse_from\<close> is a parameter, and the locale \<open>netsim_clap\<close>
  states what the documentation of its derive macros says of the declarations in \<^verbatim>\<open>args.rs\<close>: a subcommand
  for each variant, positional arguments in the order of the fields, the lower case name of a variant as
  the only word for it (\<^verbatim>\<open>ValueEnum\<close> compares case, there are no aliases), \<^verbatim>\<open>FromStr\<close> for a float, and that an
  argument of type \<^verbatim>\<open>Option\<close> may be left out. A word that starts with a hyphen may be taken for
  an option, so the laws are about other words only. \<open>Inl\<close> is the usage error with which the process exits.
\<close>

section \<open>The declarations\<close>

fun bool_word :: "BoolState \<Rightarrow> string" where
  "bool_word BoolState_True = ''true''"
| "bool_word BoolState_False = ''false''"

definition value_enum :: "('a \<Rightarrow> string) \<Rightarrow> 'a list \<Rightarrow> string \<Rightarrow> 'a option" where
  "value_enum word variants w = find (\<lambda>v. word v = w) variants"

abbreviation BtType_from_str :: "string \<Rightarrow> BtType option" where
  "BtType_from_str \<equiv> value_enum bt_type_word [Ble, Classic]"

abbreviation UpDownStatus_from_str :: "string \<Rightarrow> UpDownStatus option" where
  "UpDownStatus_from_str \<equiv> value_enum status_word [Up, Down]"

abbreviation BoolState_from_str :: "string \<Rightarrow> BoolState option" where
  "BoolState_from_str \<equiv> value_enum bool_word [BoolState_True, BoolState_False]"

definition plain :: "string \<Rightarrow> bool" where
  "plain w \<longleftrightarrow> w \<noteq> [] \<and> hd w \<noteq> CHR ''-''"

text \<open>The arguments of the three subcommands that have some.\<close>

definition radio_args :: "string list \<Rightarrow> Radio option" where
  "radio_args ws =
     (case ws of [b, s, d] \<Rightarrow>
        Option.bind (BtType_from_str b) (\<lambda>t. Option.bind (UpDownStatus_from_str s) (\<lambda>u.
          Some \<lparr>Radio_bt_type = t, Radio_status = u, Radio_device_serial = d\<rparr>))
      | _ \<Rightarrow> None)"

definition move_args :: "string list \<Rightarrow> Move option" where
  "move_args ws =
     (case ws of d # x # y # zs \<Rightarrow>
        Option.bind (f32_from_str x) (\<lambda>x. Option.bind (f32_from_str y) (\<lambda>y.
          case zs of [] \<Rightarrow> Some \<lparr>Move_device_serial = d, Move_x = x, Move_y = y, Move_z = None\<rparr>
          | [z] \<Rightarrow> map_option (\<lambda>z. \<lparr>Move_device_serial = d, Move_x = x, Move_y = y, Move_z = Some z\<rparr>) (f32_from_str z)
          | _ \<Rightarrow> None))
      | _ \<Rightarrow> None)"

definition capture_args :: "string list \<Rightarrow> Capture option" where
  "capture_args ws =
     (case ws of [s, d] \<Rightarrow>
        map_option (\<lambda>s. \<lparr>Capture_state = s, Capture_device_serial = d\<rparr>) (BoolState_from_str s)
      | _ \<Rightarrow> None)"

definition command_of :: "string list \<Rightarrow> Command option" where
  "command_of ws =
     (case ws of [] \<Rightarrow> None
      | w # args \<Rightarrow>
          if w = ''radio'' then map_option Command_Radio (radio_args args)
          else if w = ''move'' then map_option Command_Move (move_args args)
          else if w = ''capture'' then map_option Command_Capture (capture_args args)
          else if args \<noteq> [] then None
          else if w = ''version'' then Some Command_Version
          else if w = ''devices'' then Some Command_Devices
          else if w = ''reset'' then Some Command_Reset
          else if w = ''gui'' then Some Command_Gui
          else None)"

locale netsim_clap =
  fixes parse_from :: "string list \<Rightarrow> string + Command"
  assumes accepted: "list_all plain ws \<Longrightarrow> command_of ws = Some c \<Longrightarrow> parse_from (program # ws) = Inr c"
    and refused: "list_all plain ws \<Longrightarrow> command_of ws = None \<Longrightarrow> \<exists>usage. parse_from (program # ws) = Inl usage"

text \<open>A parser that keeps the laws.\<close>

definition std_parse :: "string list \<Rightarrow> string + Command" where
  "std_parse args =
     (case args of [] \<Rightarrow> Inl ''usage''
      | program # ws \<Rightarrow> (case command_of ws of Some c \<Rightarrow> Inr c | None \<Rightarrow> Inl ''usage''))"

interpretation std_clap: netsim_clap std_parse
  by unfold_locales (simp_all add: std_parse_def)

section \<open>\<^verbatim>\<open>rust_main\<close> with its first line\<close>

text \<open>\<^verbatim>\<open>NetsimArgs::parse()\<close> exits the process when the words are no command; otherwise the program runs.\<close>

definition netsim_cli ::
    "(string list \<Rightarrow> string + Command) \<Rightarrow> 'u protobuf_rt \<Rightarrow> target_os \<Rightarrow> (string list \<Rightarrow> bool) \<Rightarrow> FrontendClient \<Rightarrow>
      string list \<Rightarrow> string + string list list \<times> unit printing" where
  "netsim_cli parse_from W os runs client args =
     (case parse_from args of Inl usage \<Rightarrow> Inl usage
      | Inr command \<Rightarrow> Inr (rust_main W os runs client command))"

section \<open>The tests of \<^verbatim>\<open>requests.rs\<close>\<close>

text \<open>A panic, the exit of the process and a failed assertion all make a test fail.\<close>

definition test_command ::
    "(string list \<Rightarrow> string + Command) \<Rightarrow> 'u protobuf_rt \<Rightarrow> string \<Rightarrow> GrpcMethod \<Rightarrow> bytes result \<Rightarrow> bool" where
  "test_command parse_from W command expected_grpc_method expected_request_byte_str =
     (case expected_request_byte_str of Inl e \<Rightarrow> False
      | Inr expected \<Rightarrow>
          (case parse_from (split_whitespace command) of Inl usage \<Rightarrow> False
           | Inr command \<Rightarrow>
               grpc_method command = Ok expected_grpc_method \<and> get_request_bytes W command = Ok expected))"

definition test_version_request :: "(string list \<Rightarrow> string + Command) \<Rightarrow> 'u protobuf_rt \<Rightarrow> bool" where
  "test_version_request P W = test_command P W ''netsim-cli version'' GetVersion (Ok [])"

definition test_radio_ble :: "(string list \<Rightarrow> string + Command) \<Rightarrow> 'u protobuf_rt \<Rightarrow> bool" where
  "test_radio_ble P W \<longleftrightarrow>
     test_command P W ''netsim-cli radio ble down 1000'' UpdateDevice (get_expected_radio W ''1000'' ''ble'' ''down'') \<and>
     test_command P W ''netsim-cli radio ble up 1000'' UpdateDevice (get_expected_radio W ''1000'' ''ble'' ''up'')"

definition test_radio_classic :: "(string list \<Rightarrow> string + Command) \<Rightarrow> 'u protobuf_rt \<Rightarrow> bool" where
  "test_radio_classic P W \<longleftrightarrow>
     test_command P W ''netsim-cli radio classic down 100'' UpdateDevice (get_expected_radio W ''100'' ''classic'' ''down'') \<and>
     test_command P W ''netsim-cli radio classic up 100'' UpdateDevice (get_expected_radio W ''100'' ''classic'' ''up'')"

text \<open>The literals \<^verbatim>\<open>1.0\<close>, \<^verbatim>\<open>2.0\<close>, \<^verbatim>\<open>3.0\<close>, \<^verbatim>\<open>1.2\<close>, \<^verbatim>\<open>3.4\<close>, \<^verbatim>\<open>5.6\<close>, \<^verbatim>\<open>1.1\<close> by their bits.\<close>

definition test_move_int :: "(string list \<Rightarrow> string + Command) \<Rightarrow> 'u protobuf_rt \<Rightarrow> bool" where
  "test_move_int P W = test_command P W ''netsim-cli move 1 1 2 3'' UpdateDevice
     (get_expected_move W ''1'' 0x3F800000 0x40000000 (Some 0x40400000))"

definition test_move_float :: "(string list \<Rightarrow> string + Command) \<Rightarrow> 'u protobuf_rt \<Rightarrow> bool" where
  "test_move_float P W = test_command P W ''netsim-cli move 1000 1.2 3.4 5.6'' UpdateDevice
     (get_expected_move W ''1000'' 0x3F99999A 0x4059999A (Some 0x40B33333))"

definition test_move_mixed :: "(string list \<Rightarrow> string + Command) \<Rightarrow> 'u protobuf_rt \<Rightarrow> bool" where
  "test_move_mixed P W = test_command P W ''netsim-cli move 1000 1.1 2 3.4'' UpdateDevice
     (get_expected_move W ''1000'' 0x3F8CCCCD 0x40000000 (Some 0x4059999A))"

definition test_move_no_z :: "(string list \<Rightarrow> string + Command) \<Rightarrow> 'u protobuf_rt \<Rightarrow> bool" where
  "test_move_no_z P W = test_command P W ''netsim-cli move 1000 1.2 3.4'' UpdateDevice
     (get_expected_move W ''1000'' 0x3F99999A 0x4059999A None)"

definition test_devices :: "(string list \<Rightarrow> string + Command) \<Rightarrow> 'u protobuf_rt \<Rightarrow> bool" where
  "test_devices P W = test_command P W ''netsim-cli devices'' GetDevices (Ok [])"

definition test_capture_mixed_case :: "(string list \<Rightarrow> string + Command) \<Rightarrow> 'u protobuf_rt \<Rightarrow> bool" where
  "test_capture_mixed_case P W \<longleftrightarrow>
     test_command P W ''netsim-cli capture True 10'' SetPacketCapture (get_expected_capture W ''10'' True) \<and>
     test_command P W ''netsim-cli capture False 1000'' SetPacketCapture (get_expected_capture W ''1000'' False)"

definition test_capture_uppercase :: "(string list \<Rightarrow> string + Command) \<Rightarrow> 'u protobuf_rt \<Rightarrow> bool" where
  "test_capture_uppercase P W \<longleftrightarrow>
     test_command P W ''netsim-cli capture TRUE 1000'' SetPacketCapture (get_expected_capture W ''1000'' True) \<and>
     test_command P W ''netsim-cli capture FALSE 1000'' SetPacketCapture (get_expected_capture W ''1000'' False)"

definition test_capture_lowercase :: "(string list \<Rightarrow> string + Command) \<Rightarrow> 'u protobuf_rt \<Rightarrow> bool" where
  "test_capture_lowercase P W \<longleftrightarrow>
     test_command P W ''netsim-cli capture true 1000'' SetPacketCapture (get_expected_capture W ''1000'' True) \<and>
     test_command P W ''netsim-cli capture false 1000'' SetPacketCapture (get_expected_capture W ''1000'' False)"

definition test_reset :: "(string list \<Rightarrow> string + Command) \<Rightarrow> 'u protobuf_rt \<Rightarrow> bool" where
  "test_reset P W = test_command P W ''netsim-cli reset'' Reset (Ok [])"

section \<open>The words of a command line\<close>

text \<open>On visible characters and spaces, splitting is splitting at the spaces.\<close>

fun space_words :: "string \<Rightarrow> string \<Rightarrow> string list" where
  "space_words cur [] = (if cur = [] then [] else [rev cur])"
| "space_words cur (c # s) =
     (if c = CHR '' '' then (if cur = [] then [] else [rev cur]) @ space_words [] s else space_words (c # cur) s)"

lemma split_at_spaces:
  "list_all (\<lambda>c. c = CHR '' '' \<or> visible [c]) s \<Longrightarrow> split_ws cur s = space_words cur s"
proof (induction s arbitrary: cur)
  case (Cons c s)
  show ?case
  proof (cases "c = CHR '' ''")
    case True
    then have "ws_len (c # s) = 1"
      by (intro ws_len_ascii_ws) (simp add: ws_ascii_def)
    with Cons True show ?thesis
      by (simp add: split_ws.simps)
  next
    case False
    with Cons.prems have "visible [c]"
      by simp
    then have "ws_len (c # s) = 0"
      by (intro ws_len_ascii_word) (auto simp: visible_def ws_ascii_def)
    with Cons False show ?thesis
      by (simp add: split_ws.simps)
  qed
qed (simp add: split_ws.simps)

lemma test_words:
  "split_whitespace ''netsim-cli version'' = [''netsim-cli'', ''version'']"
  "split_whitespace ''netsim-cli devices'' = [''netsim-cli'', ''devices'']"
  "split_whitespace ''netsim-cli reset'' = [''netsim-cli'', ''reset'']"
  "split_whitespace ''netsim-cli radio ble down 1000'' = [''netsim-cli'', ''radio'', ''ble'', ''down'', ''1000'']"
  "split_whitespace ''netsim-cli radio ble up 1000'' = [''netsim-cli'', ''radio'', ''ble'', ''up'', ''1000'']"
  "split_whitespace ''netsim-cli radio classic down 100'' = [''netsim-cli'', ''radio'', ''classic'', ''down'', ''100'']"
  "split_whitespace ''netsim-cli radio classic up 100'' = [''netsim-cli'', ''radio'', ''classic'', ''up'', ''100'']"
  "split_whitespace ''netsim-cli move 1 1 2 3'' = [''netsim-cli'', ''move'', ''1'', ''1'', ''2'', ''3'']"
  "split_whitespace ''netsim-cli move 1000 1.2 3.4 5.6'' = [''netsim-cli'', ''move'', ''1000'', ''1.2'', ''3.4'', ''5.6'']"
  "split_whitespace ''netsim-cli move 1000 1.1 2 3.4'' = [''netsim-cli'', ''move'', ''1000'', ''1.1'', ''2'', ''3.4'']"
  "split_whitespace ''netsim-cli move 1000 1.2 3.4'' = [''netsim-cli'', ''move'', ''1000'', ''1.2'', ''3.4'']"
  "split_whitespace ''netsim-cli capture True 10'' = [''netsim-cli'', ''capture'', ''True'', ''10'']"
  "split_whitespace ''netsim-cli capture TRUE 1000'' = [''netsim-cli'', ''capture'', ''TRUE'', ''1000'']"
  "split_whitespace ''netsim-cli capture true 1000'' = [''netsim-cli'', ''capture'', ''true'', ''1000'']"
  "split_whitespace ''netsim-cli capture false 1000'' = [''netsim-cli'', ''capture'', ''false'', ''1000'']"
  by (simp_all add: split_at_spaces visible_def)

lemma commands_of_tests:
  "command_of [''version''] = Some Command_Version"
  "command_of [''devices''] = Some Command_Devices"
  "command_of [''reset''] = Some Command_Reset"
  "command_of [''radio'', ''ble'', ''down'', d] = Some (Command_Radio \<lparr>Radio_bt_type = Ble, Radio_status = Down, Radio_device_serial = d\<rparr>)"
  "command_of [''radio'', ''ble'', ''up'', d] = Some (Command_Radio \<lparr>Radio_bt_type = Ble, Radio_status = Up, Radio_device_serial = d\<rparr>)"
  "command_of [''radio'', ''classic'', ''down'', d] = Some (Command_Radio \<lparr>Radio_bt_type = Classic, Radio_status = Down, Radio_device_serial = d\<rparr>)"
  "command_of [''radio'', ''classic'', ''up'', d] = Some (Command_Radio \<lparr>Radio_bt_type = Classic, Radio_status = Up, Radio_device_serial = d\<rparr>)"
  "command_of [''move'', d, x, y] = Option.bind (f32_from_str x) (\<lambda>x. map_option (\<lambda>y.
     Command_Move \<lparr>Move_device_serial = d, Move_x = x, Move_y = y, Move_z = None\<rparr>) (f32_from_str y))"
  "command_of [''move'', d, x, y, z] = Option.bind (f32_from_str x) (\<lambda>x. Option.bind (f32_from_str y) (\<lambda>y. map_option (\<lambda>z.
     Command_Move \<lparr>Move_device_serial = d, Move_x = x, Move_y = y, Move_z = Some z\<rparr>) (f32_from_str z)))"
  "command_of [''capture'', ''true'', d] = Some (Command_Capture \<lparr>Capture_state = BoolState_True, Capture_device_serial = d\<rparr>)"
  "command_of [''capture'', ''false'', d] = Some (Command_Capture \<lparr>Capture_state = BoolState_False, Capture_device_serial = d\<rparr>)"
  "command_of [''capture'', ''True'', d] = None"
  "command_of [''capture'', ''TRUE'', d] = None"
  by (auto simp: command_of_def radio_args_def move_args_def capture_args_def value_enum_def
      map_option_case split: Option.bind_split option.splits)

lemma test_command_passes:
  "parse_from (split_whitespace s) = Inr c \<Longrightarrow> grpc_method c = Ok g \<Longrightarrow> get_request_bytes W c = e \<Longrightarrow> \<exists>b. e = Inr b \<Longrightarrow>
    test_command parse_from W s g e"
  by (auto simp: test_command_def)

lemma expected_requests:
  "get_request_bytes W (Command_Radio r) =
     get_expected_radio W (Radio_device_serial r) (bt_type_word (Radio_bt_type r)) (status_word (Radio_status r))"
  "get_request_bytes W (Command_Move m) =
     get_expected_move W (Move_device_serial m) (Move_x m) (Move_y m) (Move_z m)"
  "get_request_bytes W (Command_Capture k) =
     get_expected_capture W (Capture_device_serial k) (Capture_state k = BoolState_True)"
  using requests_as_expected [of r W m k] by blast+

text \<open>The requests of the tests can be written.\<close>

lemma test_requests_written:
  "\<exists>b. radio_bytes std_wire \<lparr>Radio_bt_type = t, Radio_status = u, Radio_device_serial = ''1000''\<rparr> = Inr b"
  "\<exists>b. radio_bytes std_wire \<lparr>Radio_bt_type = t, Radio_status = u, Radio_device_serial = ''100''\<rparr> = Inr b"
  "\<exists>b. capture_bytes std_wire \<lparr>Capture_state = s, Capture_device_serial = ''1000''\<rparr> = Inr b"
  by (cases t; cases u; simp add: radio_bytes_eq radio_request_def radio_chip_def message_eval wire_eval;
      cases s; simp add: capture_bytes_eq capture_request_def message_eval wire_eval)+

lemma test_moves_written:
  "\<exists>b. move_bytes std_wire \<lparr>Move_device_serial = ''1'', Move_x = 0x3F800000, Move_y = 0x40000000, Move_z = Some 0x40400000\<rparr> = Inr b"
  "\<exists>b. move_bytes std_wire \<lparr>Move_device_serial = ''1000'', Move_x = 0x3F99999A, Move_y = 0x4059999A, Move_z = Some 0x40B33333\<rparr> = Inr b"
  "\<exists>b. move_bytes std_wire \<lparr>Move_device_serial = ''1000'', Move_x = 0x3F8CCCCD, Move_y = 0x40000000, Move_z = Some 0x4059999A\<rparr> = Inr b"
  "\<exists>b. move_bytes std_wire \<lparr>Move_device_serial = ''1000'', Move_x = 0x3F99999A, Move_y = 0x4059999A, Move_z = None\<rparr> = Inr b"
  by (simp_all add: move_bytes_eq move_request_def message_eval wire_eval)

lemmas test_defs = test_version_request_def test_radio_ble_def test_radio_classic_def test_move_int_def
  test_move_float_def test_move_mixed_def test_move_no_z_def test_devices_def test_capture_mixed_case_def
  test_capture_uppercase_def test_capture_lowercase_def test_reset_def

lemma plain_test_words:
  "list_all plain [''version'']" "list_all plain [''devices'']" "list_all plain [''reset'']"
  "list_all plain [''radio'', bt_type_word t, status_word u, ''1000'']"
  "list_all plain [''radio'', bt_type_word t, status_word u, ''100'']"
  "list_all plain [''move'', ''1'', ''1'', ''2'', ''3'']" "list_all plain [''move'', ''1000'', ''1.2'', ''3.4'', ''5.6'']"
  "list_all plain [''move'', ''1000'', ''1.1'', ''2'', ''3.4'']" "list_all plain [''move'', ''1000'', ''1.2'', ''3.4'']"
  "list_all plain [''capture'', bool_word s, ''1000'']" "list_all plain [''capture'', ''True'', ''10'']"
  "list_all plain [''capture'', ''TRUE'', ''1000'']"
  by (cases t; cases u; cases s; simp add: plain_def)+

lemma words_of_radio:
  "command_of [''radio'', bt_type_word t, status_word u, d] =
     Some (Command_Radio \<lparr>Radio_bt_type = t, Radio_status = u, Radio_device_serial = d\<rparr>)"
  by (cases t; cases u) (simp_all add: commands_of_tests)

lemma words_of_capture:
  "command_of [''capture'', bool_word v, d] = Some (Command_Capture \<lparr>Capture_state = v, Capture_device_serial = d\<rparr>)"
  by (cases v) (simp_all add: commands_of_tests)

context netsim_clap
begin

lemma test_passes:
  assumes "split_whitespace s = program # ws" "list_all plain ws" "command_of ws = Some c"
    and "grpc_method c = Ok g" "get_request_bytes W c = e" "\<exists>b. e = Inr b"
  shows "test_command parse_from W s g e"
  using assms by (auto simp: test_command_def accepted)

lemma unit_command_tests:
  "test_version_request parse_from W" "test_devices parse_from W" "test_reset parse_from W"
  unfolding test_defs
  using test_passes [OF test_words(1) plain_test_words(1) commands_of_tests(1), of GetVersion W]
    test_passes [OF test_words(2) plain_test_words(2) commands_of_tests(2), of GetDevices W]
    test_passes [OF test_words(3) plain_test_words(3) commands_of_tests(3), of Reset W]
  by simp_all

lemma radio_test_passes:
  assumes "split_whitespace s = [program, ''radio'', bt_type_word t, status_word u, d]" "d = ''1000'' \<or> d = ''100''"
  shows "test_command parse_from std_wire s UpdateDevice (get_expected_radio std_wire d (bt_type_word t) (status_word u))"
proof -
  let ?r = "\<lparr>Radio_bt_type = t, Radio_status = u, Radio_device_serial = d\<rparr>"
  have e: "get_expected_radio std_wire d (bt_type_word t) (status_word u) = radio_bytes std_wire ?r"
    using expected_requests(1) [of std_wire ?r] by simp
  have "\<exists>b. radio_bytes std_wire ?r = Inr b"
    using assms(2) test_requests_written(1,2) by blast
  moreover have "list_all plain [''radio'', bt_type_word t, status_word u, d]"
    using assms(2) plain_test_words(4,5) by blast
  ultimately show ?thesis
    unfolding e by (intro test_passes [OF assms(1) _ words_of_radio]) simp_all
qed

lemma radio_tests: "test_radio_ble parse_from std_wire" "test_radio_classic parse_from std_wire"
  unfolding test_defs
  using radio_test_passes [of _ _ Ble Down "''1000''"] radio_test_passes [of _ _ Ble Up "''1000''"]
    radio_test_passes [of _ _ Classic Down "''100''"] radio_test_passes [of _ _ Classic Up "''100''"]
  by (simp_all add: test_words)

lemma move_test_passes:
  assumes "split_whitespace s = program # ws" "list_all plain ws" "command_of ws = Some (Command_Move m)"
    "\<exists>b. move_bytes std_wire m = Inr b"
  shows "test_command parse_from std_wire s UpdateDevice
      (get_expected_move std_wire (Move_device_serial m) (Move_x m) (Move_y m) (Move_z m))"
  using assms(4) expected_requests(2) [of std_wire m] by (intro test_passes [OF assms(1-3)]) simp_all

lemma move_tests:
  "test_move_int parse_from std_wire" "test_move_float parse_from std_wire"
  "test_move_mixed parse_from std_wire" "test_move_no_z parse_from std_wire"
  unfolding test_defs
  using move_test_passes [OF test_words(8) plain_test_words(6) _ test_moves_written(1)]
    move_test_passes [OF test_words(9) plain_test_words(7) _ test_moves_written(2)]
    move_test_passes [OF test_words(10) plain_test_words(8) _ test_moves_written(3)]
    move_test_passes [OF test_words(11) plain_test_words(9) _ test_moves_written(4)]
  by (simp_all add: commands_of_tests f32_literals)

lemma capture_test_passes:
  assumes "split_whitespace s = [program, ''capture'', bool_word v, ''1000'']"
  shows "test_command parse_from std_wire s SetPacketCapture
      (get_expected_capture std_wire ''1000'' (v = BoolState_True))"
  using expected_requests(3) [of std_wire "\<lparr>Capture_state = v, Capture_device_serial = ''1000''\<rparr>"]
    test_requests_written(3) [of v]
  by (intro test_passes [OF assms plain_test_words(10) words_of_capture]) auto

lemma capture_tests:
  "test_capture_lowercase parse_from std_wire"
  "\<not> test_capture_mixed_case parse_from W" "\<not> test_capture_uppercase parse_from W"
proof -
  show "test_capture_lowercase parse_from std_wire"
    unfolding test_defs using capture_test_passes [of _ _ BoolState_True] capture_test_passes [of _ _ BoolState_False]
    by (simp add: test_words)
  obtain u u' where "parse_from (split_whitespace ''netsim-cli capture True 10'') = Inl u"
    "parse_from (split_whitespace ''netsim-cli capture TRUE 1000'') = Inl u'"
    unfolding test_words using refused [OF plain_test_words(11) commands_of_tests(12)]
      refused [OF plain_test_words(12) commands_of_tests(13)] by metis
  then show "\<not> test_capture_mixed_case parse_from W" "\<not> test_capture_uppercase parse_from W"
    unfolding test_defs by (auto simp: test_command_def split: sum.splits)
qed

end

section \<open>From a text to the position on the server\<close>

lemma decimal_plain:
  assumes "is_decimal i f"
  shows "plain (decimal_text i f)"
proof -
  obtain c t where "decimal_text i f = c # t" "is_digit c \<or> c = CHR ''.''"
    using decimal_first [OF assms] .
  then show ?thesis
    using not_digits(2) by (auto simp: plain_def)
qed

lemma canon_positive: "fp_of_bits v = Finite False M E \<Longrightarrow> canon_f32 v = v"
  by (auto simp: canon_f32_def f32_is_zero_def fp_of_bits_def Let_def)

abbreviation move_of :: "string \<Rightarrow> string \<Rightarrow> string \<Rightarrow> Move" where
  "move_of d x y \<equiv> \<lparr>Move_device_serial = d, Move_x = the (f32_from_str x), Move_y = the (f32_from_str y), Move_z = None\<rparr>"

section \<open>The properties\<close>

text \<open>C39: With any parser that keeps the documented laws, every test of \<^verbatim>\<open>requests.rs\<close> passes but two:
  \<^verbatim>\<open>test_capture_mixed_case\<close> and \<^verbatim>\<open>test_capture_uppercase\<close> fail, because the aliases they rely on are commented out in \<^verbatim>\<open>args.rs\<close>.\<close>

theorem request_tests_hold:
  assumes "netsim_clap parse_from"
  shows "test_version_request parse_from std_wire \<and> test_radio_ble parse_from std_wire \<and>
    test_radio_classic parse_from std_wire \<and> test_move_int parse_from std_wire \<and> test_move_float parse_from std_wire \<and>
    test_move_mixed parse_from std_wire \<and> test_move_no_z parse_from std_wire \<and> test_devices parse_from std_wire \<and>
    test_capture_lowercase parse_from std_wire \<and> test_reset parse_from std_wire \<and>
    \<not> test_capture_mixed_case parse_from std_wire \<and> \<not> test_capture_uppercase parse_from std_wire"
  using netsim_clap.unit_command_tests [OF assms] netsim_clap.radio_tests [OF assms]
    netsim_clap.move_tests [OF assms] netsim_clap.capture_tests [OF assms]
  by blast

lemma request_tests_hold_witness:
  "test_version_request std_parse std_wire \<and> test_radio_ble std_parse std_wire \<and>
    test_radio_classic std_parse std_wire \<and> test_move_int std_parse std_wire \<and> test_move_float std_parse std_wire \<and>
    test_move_mixed std_parse std_wire \<and> test_move_no_z std_parse std_wire \<and> test_devices std_parse std_wire \<and>
    test_capture_lowercase std_parse std_wire \<and> test_reset std_parse std_wire \<and>
    \<not> test_capture_mixed_case std_parse std_wire \<and> \<not> test_capture_uppercase std_parse std_wire"
  by (rule request_tests_hold [OF std_clap.netsim_clap_axioms])


lemma move_words_example:
  "is_decimal ''1'' (Some ''2'')" "decimal_value ''1'' (Some ''2'') \<le> 2 powi 127"
  "is_decimal ''3'' (Some ''4'')" "decimal_value ''3'' (Some ''4'') \<le> 2 powi 127"
  "decimal_text ''1'' (Some ''2'') = ''1.2''" "decimal_text ''3'' (Some ''4'') = ''3.4''"
  by (simp_all add: is_decimal_def decimal_value_def decimal_text_def digit_eval power_int_def)

lemma move_words_utf8: "utf8 ''1''"
  by code_simp

lemma move_words_fits:
  "length (UpdateDeviceRequest_write_to_with_cached_sizes std_wire (snd (UpdateDeviceRequest_compute_size std_wire
     (move_request std_wire (move_of ''1'' ''1.2'' ''3.4''))))) < 2 ^ 32"
  by (simp add: f32_literals move_request_def message_eval wire_eval)


end
