(* ===== verification/Build_Scripts.thy ===== *)
theory Build_Scripts
  imports Cli Rust_Paths
begin

text \<open>
  The build scripts of the protobuf crates, \<^verbatim>\<open>rust/backend-proto/build_cargo.rs\<close> and
  \<^verbatim>\<open>rust/frontend-proto/build_cargo.rs\<close>, which regenerate the message code with \<^verbatim>\<open>protoc_rust\<close>: what they ask
  of the compiler is a value \<open>Codegen\<close>, the compiler, the environment and the file system are the record \<open>build_env\<close>.
  The modules that the two \<^verbatim>\<open>lib.rs\<close> declare are here too, to be compared with the files that are generated.
  On Unix, as in \<open>Rust_Paths\<close>.
\<close>

section \<open>What the scripts use\<close>

text \<open>The builder \<^verbatim>\<open>protoc_rust::Codegen\<close> with the settings that are made on it.\<close>

record Codegen =
  codegen_out_dir :: string
  codegen_inputs :: "string list"
  codegen_includes :: "string list"
  codegen_serde_derive :: "bool option"

text \<open>A variable that is missing or no valid Unicode is \<open>None\<close>; \<open>Inl\<close> is an error of the system or of the compiler.\<close>

record build_env =
  env_var :: "string \<Rightarrow> string option"
  current_dir :: "string + string"
  canonicalize :: "string \<Rightarrow> string + string"
  run_protoc :: "Codegen \<Rightarrow> string + unit"

fun unwrap_result :: "'e + 'a \<Rightarrow> 'a result" where
  "unwrap_result (Inl e) = Inl (Panic ''called `Result::unwrap()` on an `Err` value'')"
| "unwrap_result (Inr x) = Ok x"

text \<open>\<^verbatim>\<open>to_str().unwrap()\<close> of a path.\<close>

definition path_str :: "string \<Rightarrow> string result" where
  "path_str p = (if utf8 p then Ok p else Inl (Panic ''called `Option::unwrap()` on a `None` value''))"

text \<open>
  \<^verbatim>\<open>{:?}\<close> of a path. Bytes that are not ASCII stand as they are, which is right of those that belong to
  printable characters.
\<close>

definition hex_digits :: string where
  "hex_digits = ''0123456789abcdef''"

definition debug_path :: "string \<Rightarrow> string" where
  "debug_path p =
     (let esc = (\<lambda>c. let n = of_char c :: nat in
        if n = 0 then [CHR 0x5C, CHR ''0'']
        else if n = 9 then [CHR 0x5C, CHR ''t'']
        else if n = 10 then [CHR 0x5C, CHR ''n'']
        else if n = 13 then [CHR 0x5C, CHR ''r'']
        else if n = 0x22 \<or> n = 0x5C then [CHR 0x5C, c]
        else if n < 32 \<or> n = 127 then
          [CHR 0x5C] @ ''u{'' @ (if n < 16 then [] else [hex_digits ! (n div 16)]) @ [hex_digits ! (n mod 16)] @ ''}''
        else [c])
      in [CHR 0x22] @ concat (map esc p) @ [CHR 0x22])"

section \<open>The scripts\<close>

fun paths_to_strs :: "string list \<Rightarrow> string list result" where
  "paths_to_strs [] = Ok []"
| "paths_to_strs (p # ps) = bindE (path_str p) (\<lambda>s. bindE (paths_to_strs ps) (\<lambda>ss. Ok (s # ss)))"

definition proto_root :: "build_env \<Rightarrow> string result" where
  "proto_root env =
     (case env_var env ''PLATFORM_SUBDIR'' of
        Some dir \<Rightarrow> Ok (path_push dir ''tools/netsim'')
      | None \<Rightarrow> bindE (unwrap_result (current_dir env)) (\<lambda>here.
          unwrap_result (canonicalize env (path_push here ''../..''))))"

definition run_codegen :: "build_env \<Rightarrow> Codegen \<Rightarrow> unit result" where
  "run_codegen env codegen = (case run_protoc env codegen of Inl e \<Rightarrow> Inl (Panic (''protoc: '' @ e)) | Inr _ \<Rightarrow> Ok ())"

definition backend_codegen :: "build_env \<Rightarrow> Codegen printing" where
  "backend_codegen env =
     and_then (lift (proto_root env)) (\<lambda>proto_root.
       let proto_out_dir = path_push proto_root ''rust/backend-proto/src'';
           proto_dir = path_push proto_root ''src/proto'';
           proto_input_files = [path_push proto_dir ''packet_streamer.proto'', path_push proto_dir ''hci_packet.proto'',
             path_push proto_dir ''startup.proto''];
           proto_include_dirs = [proto_dir]
       in and_then (println (''cargo:warning=proto_outdir='' @ debug_path proto_out_dir)) (\<lambda>_.
          and_then (lift (path_str proto_out_dir)) (\<lambda>out.
          and_then (lift (paths_to_strs proto_input_files)) (\<lambda>ins.
          and_then (lift (paths_to_strs proto_include_dirs)) (\<lambda>incs.
          lift (Ok \<lparr>codegen_out_dir = out, codegen_inputs = ins, codegen_includes = incs, codegen_serde_derive = Some True\<rparr>))))))"

definition backend_build :: "build_env \<Rightarrow> unit printing" where
  "backend_build env = and_then (backend_codegen env) (\<lambda>codegen. lift (run_codegen env codegen))"

definition frontend_codegen :: "build_env \<Rightarrow> Codegen printing" where
  "frontend_codegen env =
     and_then (lift (case env_var env ''OUT_DIR'' of
         Some dir \<Rightarrow> Ok dir | None \<Rightarrow> Inl (Panic ''called `Result::unwrap()` on an `Err` value''))) (\<lambda>out_dir.
     and_then (lift (proto_root env)) (\<lambda>proto_root.
       let proto_dir = path_push proto_root ''src/proto'';
           proto_input_files = [path_push proto_dir ''model.proto'', path_push proto_dir ''frontend.proto''];
           proto_include_dirs = [proto_dir];
           proto_out_dir = path_push proto_root ''rust/frontend-proto/src''
       in and_then (lift (path_str proto_out_dir)) (\<lambda>out.
          and_then (lift (paths_to_strs proto_input_files)) (\<lambda>ins.
          and_then (lift (paths_to_strs proto_include_dirs)) (\<lambda>incs.
          lift (Ok \<lparr>codegen_out_dir = out, codegen_inputs = ins, codegen_includes = incs, codegen_serde_derive = None\<rparr>))))))"

definition frontend_build :: "build_env \<Rightarrow> unit printing" where
  "frontend_build env = and_then (frontend_codegen env) (\<lambda>codegen. lift (run_codegen env codegen))"

text \<open>The scripts of the two crates with a \<^verbatim>\<open>cxx\<close> bridge, and the program of the crate \<^verbatim>\<open>model\<close>.\<close>

definition frontend_client_build :: "(string \<Rightarrow> unit result) \<Rightarrow> unit printing" where
  "frontend_client_build bridge =
     and_then (lift (bridge ''src/lib.rs'')) (\<lambda>built. println ''cargo:rerun-if-changed=src/lib.rs'')"

definition netsim_cxx_build :: "(string \<Rightarrow> unit result) \<Rightarrow> unit printing" where
  "netsim_cxx_build bridge =
     and_then (lift (bridge ''src/lib.rs'')) (\<lambda>built. println ''cargo:rerun-if-changed=src/lib.rs'')"

definition model_main :: "unit printing" where
  "model_main = println ''Hello, world!''"

section \<open>The modules of the crates\<close>

definition backend_modules :: "string list" where
  "backend_modules = [''hci_packet'', ''packet_streamer'', ''startup'']"

definition frontend_modules :: "string list" where
  "frontend_modules = [''frontend'', ''model'']"

text \<open>\<^verbatim>\<open>Path::file_stem\<close>: \<^verbatim>\<open>protoc\<close> writes the code of \<^verbatim>\<open>dir/stem.proto\<close> to \<^verbatim>\<open>stem.rs\<close>.\<close>

definition path_file_stem :: "string \<Rightarrow> string option" where
  "path_file_stem p =
     map_option (\<lambda>f. case path_extension p of None \<Rightarrow> f | Some e \<Rightarrow> take (length f - Suc (length e)) f) (path_file_name p)"

section \<open>What is generated\<close>

lemma file_stem_of_file:
  assumes "SLASH \<notin> set stem" "stem \<noteq> []"
  shows "path_file_stem (p @ SLASH # stem @ ''.proto'') = Some stem"
  using file_name_of_file [of stem "''proto''" p] extension_of_file [of stem "''proto''" p] assms
  by (simp add: path_file_stem_def)

lemma push_dir: "p \<noteq> [] \<Longrightarrow> last p \<noteq> SLASH \<Longrightarrow> path_push p (c # q) = (if c = SLASH then c # q else p @ SLASH # c # q)"
  by (simp add: path_push_def is_absolute_def)

lemma path_str_append:
  "utf8 p \<Longrightarrow> list_all (\<lambda>b. b \<le> 0x7F) (as_bytes q) \<Longrightarrow> path_str (p @ q) = Ok (p @ q)"
  using utf8_valid_ascii [of "as_bytes q"] by (simp add: path_str_def utf8_valid_append as_bytes_append list_all_iff)

lemma scripts_call:
  assumes "env_var env ''PLATFORM_SUBDIR'' = Some dir" and "utf8 dir" and "dir \<noteq> []" and "last dir \<noteq> SLASH"
  shows "backend_codegen env =
     (''cargo:warning=proto_outdir='' @ debug_path (dir @ ''/tools/netsim/rust/backend-proto/src'') @ [CHR 0x0A],
      Ok \<lparr>codegen_out_dir = dir @ ''/tools/netsim/rust/backend-proto/src'',
        codegen_inputs = [dir @ ''/tools/netsim/src/proto/packet_streamer.proto'', dir @ ''/tools/netsim/src/proto/hci_packet.proto'',
          dir @ ''/tools/netsim/src/proto/startup.proto''],
        codegen_includes = [dir @ ''/tools/netsim/src/proto''], codegen_serde_derive = Some True\<rparr>)"
    and "env_var env ''OUT_DIR'' = Some build \<Longrightarrow> frontend_codegen env =
     ([], Ok \<lparr>codegen_out_dir = dir @ ''/tools/netsim/rust/frontend-proto/src'',
        codegen_inputs = [dir @ ''/tools/netsim/src/proto/model.proto'', dir @ ''/tools/netsim/src/proto/frontend.proto''],
        codegen_includes = [dir @ ''/tools/netsim/src/proto''], codegen_serde_derive = None\<rparr>)"
  using assms(3,4)
  by (simp_all add: backend_codegen_def frontend_codegen_def proto_root_def assms(1) push_dir path_str_append [OF assms(2)]
      and_then_def lift_def println_def Let_def as_bytes_def)

lemma proto_file:
  assumes "SLASH \<notin> set stem" and "stem \<noteq> []"
  shows "path_file_stem (dir @ ''/tools/netsim/src/proto/'' @ stem @ ''.proto'') = Some stem"
    and "path_parent (dir @ ''/tools/netsim/src/proto/'' @ stem @ ''.proto'') = Some (dir @ ''/tools/netsim/src/proto'')"
  using file_stem_of_file [OF assms, of "dir @ ''/tools/netsim/src/proto''"]
    path_parent_file [of "stem @ ''.proto''" "dir @ ''/tools/netsim/src/proto''"] assms(1)
  by simp_all

lemmas proto_files = proto_file [of "''packet_streamer''", simplified] proto_file [of "''hci_packet''", simplified]
  proto_file [of "''startup''", simplified] proto_file [of "''model''", simplified] proto_file [of "''frontend''", simplified]

section \<open>The property\<close>

text \<open>With the root of the platform in the environment both scripts run the compiler once, fail exactly if it fails, and
  ask for the same modules that the two crates declare: the stems of the inputs are the modules of \<^verbatim>\<open>lib.rs\<close>, each
  once, the inputs lie in the one directory that is searched for imports, and the code is written beside \<^verbatim>\<open>lib.rs\<close>.\<close>

theorem scripts_generate_modules:
  assumes "env_var env ''PLATFORM_SUBDIR'' = Some dir" and "env_var env ''OUT_DIR'' = Some build"
    and "utf8 dir" and "dir \<noteq> []" and "last dir \<noteq> SLASH"
  shows "\<exists>printed b f. backend_build env = (printed, run_codegen env b) \<and> frontend_build env = ([], run_codegen env f) \<and>
    set (map path_file_stem (codegen_inputs b)) = Some ` set backend_modules \<and> distinct (codegen_inputs b) \<and>
    set (map path_file_stem (codegen_inputs f)) = Some ` set frontend_modules \<and> distinct (codegen_inputs f) \<and>
    list_all (\<lambda>p. map_option (\<lambda>d. [d]) (path_parent p) = Some (codegen_includes b)) (codegen_inputs b) \<and>
    list_all (\<lambda>p. map_option (\<lambda>d. [d]) (path_parent p) = Some (codegen_includes f)) (codegen_inputs f) \<and>
    codegen_out_dir b = dir @ ''/tools/netsim/rust/backend-proto/src'' \<and>
    codegen_out_dir f = dir @ ''/tools/netsim/rust/frontend-proto/src''"
proof -
  note calls = scripts_call(1) [OF assms(1,3-5)] scripts_call(2) [OF assms(1,3-5,2)]
  obtain b where b: "backend_build env = (fst (backend_codegen env), run_codegen env b)"
      "codegen_out_dir b = dir @ ''/tools/netsim/rust/backend-proto/src''"
      "codegen_inputs b = [dir @ ''/tools/netsim/src/proto/packet_streamer.proto'', dir @ ''/tools/netsim/src/proto/hci_packet.proto'',
        dir @ ''/tools/netsim/src/proto/startup.proto'']"
      "codegen_includes b = [dir @ ''/tools/netsim/src/proto'']"
    by (rule that [of "\<lparr>codegen_out_dir = _, codegen_inputs = _, codegen_includes = _, codegen_serde_derive = Some True\<rparr>"])
      (simp_all add: backend_build_def calls(1) and_then_def lift_def)
  obtain f where f: "frontend_build env = ([], run_codegen env f)"
      "codegen_out_dir f = dir @ ''/tools/netsim/rust/frontend-proto/src''"
      "codegen_inputs f = [dir @ ''/tools/netsim/src/proto/model.proto'', dir @ ''/tools/netsim/src/proto/frontend.proto'']"
      "codegen_includes f = [dir @ ''/tools/netsim/src/proto'']"
    by (rule that [of "\<lparr>codegen_out_dir = _, codegen_inputs = _, codegen_includes = _, codegen_serde_derive = None\<rparr>"])
      (simp_all add: frontend_build_def calls(2) and_then_def lift_def)
  show ?thesis
    by (intro exI conjI, rule b(1), rule f(1))
      (simp_all add: b(2-4) f(2-4) proto_files backend_modules_def frontend_modules_def insert_commute)
qed

definition example_env :: build_env where
  "example_env = \<lparr>env_var = (\<lambda>v. if v = ''PLATFORM_SUBDIR'' then Some ''/p'' else if v = ''OUT_DIR'' then Some ''/o'' else None),
     current_dir = Inl ''unused'', canonicalize = Inr, run_protoc = (\<lambda>_. Inr ())\<rparr>"

lemma example_env_vars:
  "env_var example_env ''PLATFORM_SUBDIR'' = Some ''/p''" "env_var example_env ''OUT_DIR'' = Some ''/o''" "utf8 ''/p''"
  by (simp_all add: example_env_def as_bytes_def)

lemma scripts_generate_modules_witness:
  "\<exists>printed b f. backend_build example_env = (printed, run_codegen example_env b) \<and>
    frontend_build example_env = ([], run_codegen example_env f) \<and>
    set (map path_file_stem (codegen_inputs b)) = Some ` set backend_modules \<and> distinct (codegen_inputs b) \<and>
    set (map path_file_stem (codegen_inputs f)) = Some ` set frontend_modules \<and> distinct (codegen_inputs f) \<and>
    list_all (\<lambda>p. map_option (\<lambda>d. [d]) (path_parent p) = Some (codegen_includes b)) (codegen_inputs b) \<and>
    list_all (\<lambda>p. map_option (\<lambda>d. [d]) (path_parent p) = Some (codegen_includes f)) (codegen_inputs f) \<and>
    codegen_out_dir b = ''/p/tools/netsim/rust/backend-proto/src'' \<and>
    codegen_out_dir f = ''/p/tools/netsim/rust/frontend-proto/src''"
  using scripts_generate_modules [OF example_env_vars] by simp

end
