(* ===== verification/Router_Tests.thy ===== *)
theory Router_Tests
  imports Http_Router
begin

text \<open>
  The test of \<^verbatim>\<open>rust/netsim-cxx/src/frontend_http_server/http_router.rs\<close>: a router with a plain route and
  the route \<^verbatim>\<open>/user/([0-9]+)\<close>, whose handler reads the group of the match. The locale \<open>regex_groups\<close>
  extends the contract of the \<^verbatim>\<open>regex\<close> crate by what its documentation says of this pattern and of
  \<^verbatim>\<open>Captures::get\<close>, and an engine with character classes and groups keeps it.
\<close>

section \<open>Groups of a match\<close>

definition is_num :: "char \<Rightarrow> bool" where
  "is_num c \<longleftrightarrow> 48 \<le> (of_char c :: nat) \<and> (of_char c :: nat) \<le> 57"

definition user_number :: "string \<Rightarrow> bool" where
  "user_number n \<longleftrightarrow> n \<noteq> [] \<and> list_all is_num n"

locale regex_groups = regex_engine R for R :: "('re, 'cap) regex_crate" +
  fixes cap_get :: "'cap \<Rightarrow> nat \<Rightarrow> string option"
  assumes user_regex: "\<exists>r. re_new R ''^/user/([0-9]+)$'' = Some r \<and>
    (\<forall>s. re_is_match R r s \<longleftrightarrow> (\<exists>n. s = ''/user/'' @ n \<and> user_number n)) \<and>
    (\<forall>n c. re_captures R r (''/user/'' @ n) = Some c \<longrightarrow> cap_get c 1 = Some n)"

section \<open>The test\<close>

definition test_handle_index :: "'cap handler" where
  "test_handle_index request captures = Ok (new_200 ''text/html'' (as_bytes ''Hello, world!''), [])"

definition test_handle_user :: "('cap \<Rightarrow> nat \<Rightarrow> string option) \<Rightarrow> 'cap handler" where
  "test_handle_user cap_get request captures =
     (case cap_get captures 1 of
        Some user_id \<Rightarrow> Ok (new_200 ''application/json'' (as_bytes (''Hello, '' @ user_id @ ''!'')), [])
      | None \<Rightarrow> Ok (new_404, []))"

definition test_request :: "string \<Rightarrow> HttpRequest" where
  "test_request target =
     \<lparr>req_method = ''GET'', uri = target, version = ''HTTP/1.1'', req_headers = HttpHeaders_new, body = []\<rparr>"

definition test_router ::
    "('re, 'cap) regex_crate \<Rightarrow> ('cap \<Rightarrow> nat \<Rightarrow> string option) \<Rightarrow> ('re, 'cap) Router result" where
  "test_router R cap_get =
     bindE (add_route R ''/'' test_handle_index Router_new) (\<lambda>router.
     add_route R ''/user/([0-9]+)'' (test_handle_user cap_get) router)"

text \<open>Whether a test passes: a panic makes it fail, and so does an assertion. What it prints is left out.\<close>

definition test_handle_request :: "('re, 'cap) regex_crate \<Rightarrow> ('cap \<Rightarrow> nat \<Rightarrow> string option) \<Rightarrow> bool" where
  "test_handle_request R cap_get =
     (case test_router R cap_get of Inl e \<Rightarrow> False
      | Inr router \<Rightarrow>
          (case handle_request R router (test_request ''/'') of Inl e \<Rightarrow> False
           | Inr (response, printed) \<Rightarrow>
               status_code response = 200 \<and>
               HttpHeaders_get (resp_headers response) ''Content-Type'' = Some ''text/html'' \<and>
               resp_body response = as_bytes ''Hello, world!'') \<and>
          (case handle_request R router (test_request ''/user/1920'') of Inl e \<Rightarrow> False
           | Inr (response, printed) \<Rightarrow>
               status_code response = 200 \<and>
               resp_body response = as_bytes ''Hello, 1920!'' \<and>
               HttpHeaders_get (resp_headers response) ''Content-Type'' = Some ''application/json''))"

context regex_groups
begin

lemma test_router_answers:
  obtains router where "test_router R cap_get = Ok router"
    and "handle_request R router (test_request ''/'') = Ok (new_200 ''text/html'' (as_bytes ''Hello, world!''), [])"
    and "\<And>n. user_number n \<Longrightarrow> handle_request R router (test_request (''/user/'' @ n)) =
      Ok (new_200 ''application/json'' (as_bytes (''Hello, '' @ n @ ''!'')), [])"
    and "\<And>t. t \<noteq> ''/'' \<Longrightarrow> \<nexists>n. t = ''/user/'' @ n \<and> user_number n \<Longrightarrow>
      handle_request R router (test_request t) = Ok (new_404, [''netsim: HttpRouter unknown uri '' @ t])"
proof -
  obtain q where q: "re_new R ''^/$'' = Some q" "\<And>s. re_is_match R q s \<longleftrightarrow> s = ''/''"
    using plain_regex [of "''/''"] by (auto simp: plain_pattern_def)
  obtain u where u: "re_new R ''^/user/([0-9]+)$'' = Some u"
      "\<And>s. re_is_match R u s \<longleftrightarrow> (\<exists>n. s = ''/user/'' @ n \<and> user_number n)"
      "\<And>n c. re_captures R u (''/user/'' @ n) = Some c \<Longrightarrow> cap_get c 1 = Some n"
    using user_regex by blast
  obtain c where c: "re_captures R q ''/'' = Some c"
    using captures_of_match q(2) by blast
  let ?router = "\<lparr>routes = [(q, test_handle_index), (u, test_handle_user cap_get)]\<rparr>"
  show ?thesis
  proof (rule that [of ?router])
    show "test_router R cap_get = Ok ?router"
      by (simp add: test_router_def add_route_def q(1) u(1) Router_new_def)
    show "handle_request R ?router (test_request ''/'') = Ok (new_200 ''text/html'' (as_bytes ''Hello, world!''), [])"
      by (simp add: handle_request_def test_request_def q(2) c test_handle_index_def)
    show "handle_request R ?router (test_request (''/user/'' @ n)) =
        Ok (new_200 ''application/json'' (as_bytes (''Hello, '' @ n @ ''!'')), [])" if n: "user_number n" for n
    proof -
      have match: "re_is_match R u (''/user/'' @ n)"
        using u(2) n by blast
      then obtain k where k: "re_captures R u (''/user/'' @ n) = Some k"
        using captures_of_match by blast
      then show ?thesis
        using u(3) [OF k] match by (simp add: handle_request_def test_request_def q(2) test_handle_user_def)
    qed
    show "handle_request R ?router (test_request t) = Ok (new_404, [''netsim: HttpRouter unknown uri '' @ t])"
      if "t \<noteq> ''/''" "\<nexists>n. t = ''/user/'' @ n \<and> user_number n" for t
      using that by (auto simp: handle_request_def test_request_def q(2) u(2))
  qed
qed

lemma test_handle_request_passes: "test_handle_request R cap_get"
proof -
  obtain router where r: "test_router R cap_get = Ok router"
      "handle_request R router (test_request ''/'') = Ok (new_200 ''text/html'' (as_bytes ''Hello, world!''), [])"
      "\<And>n. user_number n \<Longrightarrow> handle_request R router (test_request (''/user/'' @ n)) =
        Ok (new_200 ''application/json'' (as_bytes (''Hello, '' @ n @ ''!'')), [])"
    using test_router_answers by blast
  have "handle_request R router (test_request ''/user/1920'') =
      Ok (new_200 ''application/json'' (as_bytes ''Hello, 1920!''), [])"
    using r(3) [of "''1920''"] by (simp add: user_number_def is_num_def)
  then show ?thesis
    by (simp add: test_handle_request_def r(1,2) new_200_def HttpHeaders_get_def new_with_headers_def
        to_ascii_lowercase_def ascii_lower_char_def)
qed

end

section \<open>An engine with groups\<close>

text \<open>
  A pattern is a list of pieces: a set of characters, possibly repeated (as often as possible first), and the
  two ends of a group. A match gives the texts of the groups behind the whole text.
\<close>

datatype class_item = Literal char | NoLineFeed | Between char char
datatype piece = Piece class_item bool | GroupOpen | GroupClose

fun in_class :: "class_item \<Rightarrow> char \<Rightarrow> bool" where
  "in_class (Literal d) c = (c = d)"
| "in_class NoLineFeed c = (c \<noteq> LF)"
| "in_class (Between a b) c = ((of_char a :: nat) \<le> of_char c \<and> (of_char c :: nat) \<le> of_char b)"

fun parse_pieces :: "string \<Rightarrow> piece list" where
  "parse_pieces [] = []"
| "parse_pieces (c # s) =
     (if c = CHR ''('' then GroupOpen # parse_pieces s
      else if c = CHR '')'' then GroupClose # parse_pieces s
      else if c = CHR ''+'' then parse_pieces s
      else if c = CHR ''.'' then Piece NoLineFeed (starts_plus s) # parse_pieces s
      else if c = CHR ''['' then Piece (Between (s ! 0) (s ! 2)) (starts_plus (drop 4 s)) # parse_pieces (drop 4 s)
      else Piece (Literal c) (starts_plus s) # parse_pieces s)"

fun run_pieces :: "piece list \<Rightarrow> string \<Rightarrow> string \<Rightarrow> string list \<Rightarrow> string list option" where
  "run_pieces [] s cur gs = (if s = [] then Some gs else None)"
| "run_pieces (GroupOpen # ps) s cur gs = run_pieces ps s [] gs"
| "run_pieces (GroupClose # ps) s cur gs = run_pieces ps s [] (gs @ [rev cur])"
| "run_pieces (Piece k rep # ps) [] cur gs = None"
| "run_pieces (Piece k rep # ps) (c # s) cur gs =
     (if in_class k c then
        (case if rep then run_pieces (Piece k rep # ps) s (c # cur) gs else None of
           Some g \<Rightarrow> Some g | None \<Rightarrow> run_pieces ps s (c # cur) gs)
      else None)"

definition group_engine :: "(piece list, string list) regex_crate" where
  "group_engine =
     \<lparr>re_new = (\<lambda>p. if length p \<ge> 2 \<and> hd p = CHR ''^'' \<and> last p = CHR ''$''
                     then Some (parse_pieces (butlast (tl p))) else None),
      re_is_match = (\<lambda>r s. run_pieces r s [] [s] \<noteq> None),
      re_captures = (\<lambda>r s. run_pieces r s [] [s])\<rparr>"

definition group_get :: "string list \<Rightarrow> nat \<Rightarrow> string option" where
  "group_get gs k = (if k < length gs then Some (gs ! k) else None)"

lemma parse_pieces_plain: "plain_pattern t \<Longrightarrow> parse_pieces t = map (\<lambda>c. Piece (Literal c) False) t"
proof (induction t)
  case (Cons c t)
  then have "\<not> starts_plus t"
    by (cases t) (auto simp: starts_plus_def plain_pattern_def)
  with Cons show ?case
    by (simp add: plain_pattern_def)
qed simp

lemma run_literals:
  "run_pieces (map (\<lambda>c. Piece (Literal c) False) t @ ps) s cur gs =
     (if take (length t) s = t then run_pieces ps (drop (length t) s) (rev t @ cur) gs else None)"
proof (induction t arbitrary: s cur)
  case (Cons c t)
  then show ?case
    by (cases s) auto
qed simp

lemma run_repeated:
  "run_pieces [Piece k True, GroupClose] s cur gs =
     (if s \<noteq> [] \<and> list_all (in_class k) s then Some (gs @ [rev cur @ s]) else None)"
proof (induction s arbitrary: cur)
  case (Cons c s)
  then show ?case
    by (cases s) auto
qed simp

lemma literals_then_group:
  "run_pieces (map (\<lambda>c. Piece (Literal c) False) t @ [GroupOpen, Piece k True, GroupClose]) s [] [s] =
     (if \<exists>n. s = t @ n \<and> n \<noteq> [] \<and> list_all (in_class k) n then Some [s, drop (length t) s] else None)"
proof -
  have "(\<exists>n. s = t @ n \<and> n \<noteq> [] \<and> list_all (in_class k) n) \<longleftrightarrow>
      take (length t) s = t \<and> drop (length t) s \<noteq> [] \<and> list_all (in_class k) (drop (length t) s)"
    by (metis append_eq_conv_conj)
  then show ?thesis
    by (simp only: run_literals run_pieces.simps run_repeated) auto
qed

lemma group_patterns:
  "parse_pieces ''/(.+)'' = map (\<lambda>c. Piece (Literal c) False) ''/'' @ [GroupOpen, Piece NoLineFeed True, GroupClose]"
  "parse_pieces ''/user/([0-9]+)'' =
     map (\<lambda>c. Piece (Literal c) False) ''/user/'' @ [GroupOpen, Piece (Between (CHR ''0'') (CHR ''9'')) True, GroupClose]"
  by (simp_all add: starts_plus_def)

lemma is_num_between: "in_class (Between (CHR ''0'') (CHR ''9'')) c = is_num c"
  by (simp add: is_num_def)

interpretation grouped: regex_groups group_engine group_get
proof unfold_locales
  fix t
  assume "plain_pattern t"
  moreover have "run_pieces (map (\<lambda>c. Piece (Literal c) False) t) s [] [s] = (if s = t then Some [s] else None)" for s
    using run_literals [of t "[]" s "[]" "[s]"] by (cases "length s \<le> length t") auto
  ultimately show "\<exists>r. re_new group_engine (''^'' @ t @ ''$'') = Some r \<and> (\<forall>s. re_is_match group_engine r s \<longleftrightarrow> s = t)"
    by (simp add: group_engine_def parse_pieces_plain butlast_append)
next
  show "\<exists>r. re_new group_engine ''^/(.+)$'' = Some r \<and>
      (\<forall>s. re_is_match group_engine r s \<longleftrightarrow> (\<exists>t. s = CHR ''/'' # t \<and> t \<noteq> [] \<and> LF \<notin> set t))"
    using literals_then_group [of "''/''" NoLineFeed]
    by (auto simp: group_engine_def group_patterns(1) list_all_iff simp del: parse_pieces.simps run_pieces.simps)
  show "\<exists>r. re_new group_engine ''^/user/([0-9]+)$'' = Some r \<and>
      (\<forall>s. re_is_match group_engine r s \<longleftrightarrow> (\<exists>n. s = ''/user/'' @ n \<and> user_number n)) \<and>
      (\<forall>n c. re_captures group_engine r (''/user/'' @ n) = Some c \<longrightarrow> group_get c 1 = Some n)"
    using literals_then_group [of "''/user/''" "Between (CHR ''0'') (CHR ''9'')"]
    by (auto simp: group_engine_def group_patterns(2) user_number_def is_num_between [abs_def] group_get_def
        simp del: parse_pieces.simps in_class.simps run_pieces.simps split: if_splits)
qed (auto simp: group_engine_def)

section \<open>The property\<close>

text \<open>The test \<^verbatim>\<open>test_handle_request\<close> of the router passes with every engine that keeps the documented laws,
  and its router does so for every number: the target \<^verbatim>\<open>/user/\<close> followed by decimal digits is answered with exactly these digits,
  and a target that is neither that nor \<^verbatim>\<open>/\<close> is answered by 404 with one printed line.\<close>

theorem router_test_holds:
  assumes "regex_groups R cap_get"
  shows "test_handle_request R cap_get \<and>
    (\<exists>router. test_router R cap_get = Ok router \<and>
      (\<forall>t. handle_request R router (test_request t) =
        (if t = ''/'' then Ok (new_200 ''text/html'' (as_bytes ''Hello, world!''), [])
         else if take 6 t = ''/user/'' \<and> user_number (drop 6 t)
         then Ok (new_200 ''application/json'' (as_bytes (''Hello, '' @ drop 6 t @ ''!'')), [])
         else Ok (new_404, [''netsim: HttpRouter unknown uri '' @ t]))))"
proof -
  obtain router where r: "test_router R cap_get = Ok router"
    "handle_request R router (test_request ''/'') = Ok (new_200 ''text/html'' (as_bytes ''Hello, world!''), [])"
    and user: "\<And>n. user_number n \<Longrightarrow> handle_request R router (test_request (''/user/'' @ n)) =
      Ok (new_200 ''application/json'' (as_bytes (''Hello, '' @ n @ ''!'')), [])"
    and other: "\<And>t. t \<noteq> ''/'' \<Longrightarrow> \<nexists>n. t = ''/user/'' @ n \<and> user_number n \<Longrightarrow>
      handle_request R router (test_request t) = Ok (new_404, [''netsim: HttpRouter unknown uri '' @ t])"
    using regex_groups.test_router_answers [OF assms] by blast
  have user': "handle_request R router (test_request t) =
      Ok (new_200 ''application/json'' (as_bytes (''Hello, '' @ drop 6 t @ ''!'')), [])"
    if "take 6 t = ''/user/'' \<and> user_number (drop 6 t)" for t
    using user [of "drop 6 t"] append_take_drop_id [of 6 t] that by simp
  have other': "handle_request R router (test_request t) = Ok (new_404, [''netsim: HttpRouter unknown uri '' @ t])"
    if "t \<noteq> ''/''" "\<not> (take 6 t = ''/user/'' \<and> user_number (drop 6 t))" for t
  proof (rule other [OF that(1)])
    show "\<nexists>n. t = ''/user/'' @ n \<and> user_number n"
      using that(2) by auto
  qed
  show ?thesis
    by (intro conjI exI [of _ router] allI regex_groups.test_handle_request_passes [OF assms] r(1))
      (simp only: split: if_split, use r(2) user' other' in blast)
qed

lemma router_test_holds_witness:
  "test_handle_request group_engine group_get \<and>
    (\<exists>router. test_router group_engine group_get = Ok router \<and>
      (\<forall>t. handle_request group_engine router (test_request t) =
        (if t = ''/'' then Ok (new_200 ''text/html'' (as_bytes ''Hello, world!''), [])
         else if take 6 t = ''/user/'' \<and> user_number (drop 6 t)
         then Ok (new_200 ''application/json'' (as_bytes (''Hello, '' @ drop 6 t @ ''!'')), [])
         else Ok (new_404, [''netsim: HttpRouter unknown uri '' @ t]))))"
  by (rule router_test_holds [OF grouped.regex_groups_axioms])

end
