(* ===== verification/Position_Model.thy ===== *)
theory Position_Model
  imports F32_Order
begin

text \<open>
  \<^verbatim>\<open>rust/model/src/position.rs\<close>: positions in centimetres and their distance. The argument
  \<open>checks\<close> is the compiler's \<^verbatim>\<open>overflow-checks\<close> setting, on in debug builds and off in release
  builds, since the arithmetic on \<^verbatim>\<open>i32\<close> panics with it and wraps without it.
\<close>

type_synonym Centimeter = u32

record model_Position =
  pos_x :: Centimeter
  pos_y :: Centimeter
  pos_z :: Centimeter

definition model_Position_new :: "Centimeter \<Rightarrow> Centimeter \<Rightarrow> Centimeter \<Rightarrow> model_Position" where
  "model_Position_new x y z = \<lparr>pos_x = x, pos_y = y, pos_z = z\<rparr>"

definition model_Position_default :: model_Position where
  "model_Position_default = model_Position_new 0 0 0"

definition model_Position_eq :: "model_Position \<Rightarrow> model_Position \<Rightarrow> bool" where
  "model_Position_eq a b \<longleftrightarrow> pos_x a = pos_x b \<and> pos_y a = pos_y b \<and> pos_z a = pos_z b"

text \<open>\<^verbatim>\<open>i32\<close> arithmetic: the result as a word, and whether the exact result fits.\<close>

definition fits_i32 :: "int \<Rightarrow> bool" where
  "fits_i32 i \<longleftrightarrow> -2147483648 \<le> i \<and> i \<le> 2147483647"

definition i32_sub :: "bool \<Rightarrow> i32 \<Rightarrow> i32 \<Rightarrow> i32 result" where
  "i32_sub checks a b =
     (if checks \<and> \<not> fits_i32 (sint a - sint b)
      then Inl (Panic ''attempt to subtract with overflow'') else Ok (a - b))"

definition i32_add :: "bool \<Rightarrow> i32 \<Rightarrow> i32 \<Rightarrow> i32 result" where
  "i32_add checks a b =
     (if checks \<and> \<not> fits_i32 (sint a + sint b)
      then Inl (Panic ''attempt to add with overflow'') else Ok (a + b))"

definition i32_square :: "bool \<Rightarrow> i32 \<Rightarrow> i32 result" where
  "i32_square checks a =
     (if checks \<and> \<not> fits_i32 (sint a * sint a)
      then Inl (Panic ''attempt to multiply with overflow'') else Ok (a * a))"

definition distance :: "bool \<Rightarrow> model_Position \<Rightarrow> model_Position \<Rightarrow> Centimeter result" where
  "distance checks a b =
     bindE (i32_sub checks (pos_x a) (pos_x b)) (\<lambda>dx. bindE (i32_square checks dx) (\<lambda>dx2.
     bindE (i32_sub checks (pos_y a) (pos_y b)) (\<lambda>dy. bindE (i32_square checks dy) (\<lambda>dy2.
     bindE (i32_add checks dx2 dy2) (\<lambda>s.
     bindE (i32_sub checks (pos_z a) (pos_z b)) (\<lambda>dz. bindE (i32_square checks dz) (\<lambda>dz2.
     bindE (i32_add checks s dz2) (\<lambda>n.
     Ok (fp_to_u32 (fp_round (fp_sqrt (fp_of_int (sint n)))))))))))))"

text \<open>The squared distance that is meant.\<close>

definition coord_diff :: "Centimeter \<Rightarrow> Centimeter \<Rightarrow> int" where
  "coord_diff a b = int (unat a) - int (unat b)"

definition sq_dist :: "model_Position \<Rightarrow> model_Position \<Rightarrow> nat" where
  "sq_dist a b =
     nat ((coord_diff (pos_x a) (pos_x b))\<^sup>2 + (coord_diff (pos_y a) (pos_y b))\<^sup>2 +
       (coord_diff (pos_z a) (pos_z b))\<^sup>2)"

definition in_i32_range :: "model_Position \<Rightarrow> bool" where
  "in_i32_range a \<longleftrightarrow> unat (pos_x a) < 2 ^ 31 \<and> unat (pos_y a) < 2 ^ 31 \<and> unat (pos_z a) < 2 ^ 31"

section \<open>Arithmetic without overflow\<close>

lemma signed_fits: "fits_i32 i \<Longrightarrow> signed_take_bit 31 i = i"
  by (rule signed_take_bit_int_eq_self) (simp_all add: fits_i32_def)

lemma uint_of_small: "unat (a :: u32) < 2 ^ 31 \<Longrightarrow> 0 \<le> uint a \<and> uint a \<le> 2147483647"
  by (simp add: nat_less_iff flip: nat_uint_eq)

lemma sint_of_small: "unat (a :: u32) < 2 ^ 31 \<Longrightarrow> sint a = int (unat a)"
proof -
  assume "unat a < 2 ^ 31"
  then have "fits_i32 (uint a)"
    unfolding fits_i32_def using uint_of_small [of a] by (intro conjI; linarith)
  then show ?thesis
    by (simp add: sint_uint signed_fits)
qed

lemma sint_fits: "fits_i32 (sint (a :: i32))"
  using sint_ge [of a] sint_lt [of a] by (simp add: fits_i32_def)

lemma i32_sub_checked:
  "i32_sub True a b = Inr c \<longleftrightarrow> fits_i32 (sint a - sint b) \<and> c = a - b"
  by (auto simp: i32_sub_def)

lemma i32_add_checked:
  "i32_add True a b = Inr c \<longleftrightarrow> fits_i32 (sint a + sint b) \<and> c = a + b"
  by (auto simp: i32_add_def)

lemma i32_square_checked:
  "i32_square True a = Inr c \<longleftrightarrow> fits_i32 (sint a * sint a) \<and> c = a * a"
  by (auto simp: i32_square_def)

lemma sint_diff_fits: "fits_i32 (sint a - sint b) \<Longrightarrow> sint (a - b :: i32) = sint a - sint b"
  by (simp add: sint_word_diff signed_fits)

lemma sint_add_fits: "fits_i32 (sint a + sint b) \<Longrightarrow> sint (a + b :: i32) = sint a + sint b"
  by (simp add: sint_word_add signed_fits)

lemma sint_square_fits: "fits_i32 (sint a * sint a) \<Longrightarrow> sint (a * a :: i32) = sint a * sint a"
  by (simp add: sint_word_mult signed_fits)

lemma sint_coord_diff:
  "unat a < 2 ^ 31 \<Longrightarrow> unat b < 2 ^ 31 \<Longrightarrow> sint a - sint b = coord_diff a b \<and> fits_i32 (coord_diff a b)"
proof -
  assume *: "unat a < 2 ^ 31" "unat b < 2 ^ 31"
  have "coord_diff a b = uint a - uint b"
    by (simp add: coord_diff_def)
  moreover from this have "fits_i32 (coord_diff a b)"
    unfolding fits_i32_def using * [THEN uint_of_small] by (intro conjI; linarith)
  ultimately show ?thesis
    using * by (simp add: sint_of_small)
qed

lemma of_int_coord_diff: "of_int (coord_diff a b) = (a - b :: u32)"
  by (simp add: coord_diff_def)

lemma sq_dist_sum:
  "int (sq_dist a b) =
     coord_diff (pos_x a) (pos_x b) * coord_diff (pos_x a) (pos_x b) +
     coord_diff (pos_y a) (pos_y b) * coord_diff (pos_y a) (pos_y b) +
     coord_diff (pos_z a) (pos_z b) * coord_diff (pos_z a) (pos_z b)"
  by (simp add: sq_dist_def power2_eq_square)

lemma sq_dist_commute: "sq_dist a b = sq_dist b a"
  by (simp add: sq_dist_def coord_diff_def power2_commute)

definition root_cm :: "int \<Rightarrow> Centimeter" where
  "root_cm n = fp_to_u32 (fp_round (fp_sqrt (fp_of_int n)))"

lemma distance_unchecked:
  "distance False a b = Ok (root_cm (sint (of_nat (sq_dist a b) :: i32)))"
proof -
  have "(of_nat (sq_dist a b) :: i32) = of_int (int (sq_dist a b))"
    by simp
  also have "\<dots> = (pos_x a - pos_x b) * (pos_x a - pos_x b) + (pos_y a - pos_y b) * (pos_y a - pos_y b) +
      (pos_z a - pos_z b) * (pos_z a - pos_z b)"
    unfolding sq_dist_sum by (simp only: of_int_add of_int_mult of_int_coord_diff)
  finally show ?thesis
    by (simp add: distance_def i32_sub_def i32_square_def i32_add_def root_cm_def)
qed

text \<open>With overflow checks a result is the one without, and the exact squared distance fitted.\<close>

lemma distance_checked:
  assumes "distance True a b = Inr d"
  shows "distance False a b = Inr d"
  using assms
  by (auto simp: distance_def i32_sub_checked i32_square_checked i32_add_checked bindE_Inr_iff
      i32_sub_def i32_square_def i32_add_def split: if_splits)

lemma distance_checked_iff:
  assumes "in_i32_range a" and "in_i32_range b"
  shows "distance True a b =  Inr d \<longleftrightarrow> sq_dist a b < 2 ^ 31 \<and> d = root_cm (int (sq_dist a b))"
proof -
  define x y z where "x = coord_diff (pos_x a) (pos_x b)" and "y = coord_diff (pos_y a) (pos_y b)"
    and "z = coord_diff (pos_z a) (pos_z b)"
  have s: "sint (pos_x a) - sint (pos_x b) = x" "sint (pos_y a) - sint (pos_y b) = y"
      "sint (pos_z a) - sint (pos_z b) = z"
    and fit: "fits_i32 x" "fits_i32 y" "fits_i32 z"
    using assms sint_coord_diff unfolding x_def y_def z_def in_i32_range_def by blast+
  have w: "sint (pos_x a - pos_x b) = x" "sint (pos_y a - pos_y b) = y" "sint (pos_z a - pos_z b) = z"
    using s fit sint_diff_fits by metis+
  have n: "int (sq_dist a b) = x * x + y * y + z * z"
    by (simp add: sq_dist_sum x_def y_def z_def)
  have pos: "0 \<le> x * x" "0 \<le> y * y" "0 \<le> z * z"
    by simp_all
  show ?thesis
  proof
    assume "distance True a b = Inr d"
    then have f: "fits_i32 (x * x)" "fits_i32 (y * y)" "fits_i32 (z * z)"
      and g: "fits_i32 (sint ((pos_x a - pos_x b) * (pos_x a - pos_x b)) + sint ((pos_y a - pos_y b) * (pos_y a - pos_y b)))"
      and h: "fits_i32 (sint ((pos_x a - pos_x b) * (pos_x a - pos_x b) + (pos_y a - pos_y b) * (pos_y a - pos_y b)) +
          sint ((pos_z a - pos_z b) * (pos_z a - pos_z b)))"
      and d: "d = root_cm (sint ((pos_x a - pos_x b) * (pos_x a - pos_x b) + (pos_y a - pos_y b) * (pos_y a - pos_y b) +
          (pos_z a - pos_z b) * (pos_z a - pos_z b)))"
      by (auto simp: distance_def bindE_Inr_iff i32_sub_checked i32_square_checked i32_add_checked w root_cm_def)
    have sq: "sint ((pos_x a - pos_x b) * (pos_x a - pos_x b)) = x * x"
        "sint ((pos_y a - pos_y b) * (pos_y a - pos_y b)) = y * y"
        "sint ((pos_z a - pos_z b) * (pos_z a - pos_z b)) = z * z"
      using f by (simp_all add: sint_square_fits w)
    have "fits_i32 (x * x + y * y + z * z)" "d = root_cm (x * x + y * y + z * z)"
      using g h d by (simp_all add: sint_add_fits sq)
    then show "sq_dist a b < 2 ^ 31 \<and> d = root_cm (int (sq_dist a b))"
      unfolding n using n by (auto simp: fits_i32_def)
  next
    assume r: "sq_dist a b < 2 ^ 31 \<and> d = root_cm (int (sq_dist a b))"
    then have le: "x * x + y * y + z * z \<le> 2147483647"
      using n by auto
    then have f: "fits_i32 (x * x)" "fits_i32 (y * y)" "fits_i32 (z * z)" "fits_i32 (x * x + y * y)"
        "fits_i32 (x * x + y * y + z * z)"
      using pos unfolding fits_i32_def by linarith+
    have sq: "sint ((pos_x a - pos_x b) * (pos_x a - pos_x b)) = x * x"
        "sint ((pos_y a - pos_y b) * (pos_y a - pos_y b)) = y * y"
        "sint ((pos_z a - pos_z b) * (pos_z a - pos_z b)) = z * z"
      using f by (simp_all add: sint_square_fits w)
    show "distance True a b = Inr d"
      using f r by (simp add: distance_def i32_sub_def i32_square_def i32_add_def s fit w sq sint_add_fits root_cm_def n)
  qed
qed

lemma root_cm_negative: "n < 0 \<Longrightarrow> -(2 ^ 31) \<le> n \<Longrightarrow> root_cm n = 0 \<or> n = 0"
  by (auto simp: root_cm_def fp_of_int_def rounded_def Let_def)

section \<open>Properties\<close>





text \<open>Without overflow checks the distance is symmetric for all positions, and a result with checks
  is the result without them.\<close>

theorem distance_symmetric:
  "distance False a b = distance False b a \<and>
     (distance True a b = Ok d \<longrightarrow> distance False a b = Ok d)"
  using distance_checked [of a b d] by (simp add: distance_unchecked sq_dist_commute [of a b])

lemma distance_symmetric_witness:
  "distance False (model_Position_new 1 2 3) (model_Position_new 7 8 9) =
     distance False (model_Position_new 7 8 9) (model_Position_new 1 2 3)"
  using distance_symmetric [of "model_Position_new 1 2 3" "model_Position_new 7 8 9"] by blast

text \<open>Without overflow checks the squared distance wraps: positions a multiple of 65536 cm apart on
  one axis are at distance 0.\<close>

theorem distance_wraps:
  assumes "pos_y a = pos_y b" and "pos_z a = pos_z b"
    and "coord_diff (pos_x a) (pos_x b) = 65536 * k"
  shows "distance False a b = Ok 0"
proof -
  have "int (sq_dist a b) = 2 ^ 32 * (k * k)"
    using assms by (simp add: sq_dist_sum coord_diff_def)
  then have "(2 :: int) ^ LENGTH(32) dvd int (sq_dist a b)"
    by simp
  then have "(of_nat (sq_dist a b) :: i32) = 0"
    unfolding word_of_nat_eq_0_iff by (metis of_nat_dvd_iff of_nat_numeral of_nat_power)
  then show ?thesis
    by (simp add: distance_unchecked root_cm_def fp_of_int_def rounded_exact truncated_def)
qed

lemma distance_wraps_witness: "distance False (model_Position_new 65536 0 0) (model_Position_new 0 0 0) = Ok 0"
  by (rule distance_wraps [where k = 1]) (simp_all add: model_Position_new_def coord_diff_def)

end
