(* ===== verification/Repository_Tests.thy ===== *)
theory Repository_Tests
  imports Http_Response Position_Model Ranging
begin

text \<open>
  The unit tests of the repository as predicates of the model: an assertion that fails, a panic and
  an \<^verbatim>\<open>unwrap\<close> of an error all make a test \<open>False\<close>. The tests of the requests are in \<open>Cli_Words\<close>, the test of the router is in \<open>Router_Tests\<close>.
\<close>

section \<open>\<^verbatim>\<open>http_request.rs\<close>\<close>

definition test_parse :: bool where
  "test_parse =
     (let request =
        ''GET /index.html HTTP/1.1'' @ CRLF @
        ''Host: example.com'' @ CRLF @ ''Content-Length: 13'' @ CRLF @ CRLF @
        ''Hello World'' @ CRLF
      in case HttpRequest_parse (\<lambda>_. True) \<lparr>rd_data = as_bytes request, rd_err = None\<rparr> of
           Inl e \<Rightarrow> False
         | Inr (http_request, reader) \<Rightarrow>
             req_method http_request = ''GET'' \<and>
             uri http_request = ''/index.html'' \<and>
             version http_request = ''HTTP/1.1'' \<and>
             HttpHeaders_eq (req_headers http_request) [(''Host'', ''example.com''), (''Content-Length'', ''13'')] \<and>
             body http_request = as_bytes (''Hello World'' @ CRLF))"

definition test_parse_without_body :: bool where
  "test_parse_without_body =
     (let request = ''GET /index.html HTTP/1.1'' @ CRLF @ ''Host: example.com'' @ CRLF @ CRLF
      in case HttpRequest_parse (\<lambda>_. True) \<lparr>rd_data = as_bytes request, rd_err = None\<rparr> of
           Inl e \<Rightarrow> False
         | Inr (http_request, reader) \<Rightarrow>
             req_method http_request = ''GET'' \<and>
             uri http_request = ''/index.html'' \<and>
             version http_request = ''HTTP/1.1'' \<and>
             HttpHeaders_eq (req_headers http_request) [(''Host'', ''example.com'')] \<and>
             body http_request = [])"

definition test_parse_without_content_length :: bool where
  "test_parse_without_content_length =
     (let request =
        ''GET /index.html HTTP/1.1'' @ CRLF @ ''Host: example.com'' @ CRLF @ CRLF @
        ''Hello World'' @ CRLF
      in case HttpRequest_parse (\<lambda>_. True) \<lparr>rd_data = as_bytes request, rd_err = None\<rparr> of
           Inl e \<Rightarrow> False
         | Inr (http_request, reader) \<Rightarrow>
             req_method http_request = ''GET'' \<and>
             uri http_request = ''/index.html'' \<and>
             version http_request = ''HTTP/1.1'' \<and>
             HttpHeaders_eq (req_headers http_request) [(''Host'', ''example.com'')] \<and>
             body http_request = as_bytes (''Hello World'' @ CRLF))"

section \<open>\<^verbatim>\<open>http_response.rs\<close>\<close>

definition test_write_to :: bool where
  "test_write_to =
     (let response = new_200 ''text/plain'' (as_bytes ''Hello World'');
          stream = \<lparr>wr_out = [], wr_room = None, wr_err = []\<rparr>
      in case write_to response stream of
           (Inl e, stream) \<Rightarrow> False
         | (Inr _, stream) \<Rightarrow>
             wr_out stream = as_bytes (''HTTP/1.1 200'' @ CRLF @ ''Content-Type: text/plain'' @ CRLF @
               ''Content-Length: 11'' @ CRLF @ CRLF @ ''Hello World''))"

section \<open>\<^verbatim>\<open>position.rs\<close> and \<^verbatim>\<open>ranging.rs\<close>\<close>

definition distance_test :: "bool \<Rightarrow> bool" where
  "distance_test checks =
     (let a = model_Position_new 0 0 0;
          b = model_Position_new 0 3 4;
          c = model_Position_new 0 5 12
      in distance checks a b = Ok 5 \<and> distance checks a c = Ok 13)"

definition default_test :: bool where
  "default_test = model_Position_eq model_Position_default \<lparr>pos_x = 0, pos_y = 0, pos_z = 0\<rparr>"

definition zero_distance :: "(fp \<Rightarrow> fp) \<Rightarrow> bool" where
  "zero_distance log10 = (distance_to_rssi log10 (-120) 0 = Ok (-120))"

definition rssi_at_far :: "(fp \<Rightarrow> fp) \<Rightarrow> bool" where
  "rssi_at_far log10 =
     (case distance_to_rssi log10 0 0x3F800000 of
        Inl e \<Rightarrow> False
      | Inr rssi_at_1 \<Rightarrow> sint rssi_at_1 < -35 \<and> -55 < sint rssi_at_1)"

text \<open>
  \<^verbatim>\<open>#[derive(Serialize)]\<close> presents a struct to a serializer as its name and its fields in order. \<^verbatim>\<open>serde_json\<close>
  is another crate: \<open>to_json\<close> is a parameter, which prints a struct of numbers as an object without spaces.
\<close>

datatype serde_value = Serde_u32 u32 | Serde_struct string "(string \<times> serde_value) list"

definition model_Position_serialize :: "model_Position \<Rightarrow> serde_value" where
  "model_Position_serialize p =
     Serde_struct ''Position'' [(''x'', Serde_u32 (pos_x p)), (''y'', Serde_u32 (pos_y p)), (''z'', Serde_u32 (pos_z p))]"

fun json_members :: "(string \<times> u32) list \<Rightarrow> string" where
  "json_members [] = []"
| "json_members [(n, v)] = [CHR 0x22] @ n @ [CHR 0x22] @ '':'' @ show_nat (unat v)"
| "json_members ((n, v) # m # ms) = [CHR 0x22] @ n @ [CHR 0x22] @ '':'' @ show_nat (unat v) @ '','' @ json_members (m # ms)"

definition lower_name :: "string \<Rightarrow> bool" where
  "lower_name n \<longleftrightarrow> list_all (\<lambda>c. 97 \<le> (of_char c :: nat) \<and> (of_char c :: nat) \<le> 122) n"

locale serde_json =
  fixes to_json :: "serde_value \<Rightarrow> string + string"
  assumes flat: "list_all (\<lambda>(n, v). lower_name n) ms \<Longrightarrow>
    to_json (Serde_struct name (map (\<lambda>(n, v). (n, Serde_u32 v)) ms)) = Inr (''{'' @ json_members ms @ ''}'')"

definition position_to_json :: "(serde_value \<Rightarrow> string + string) \<Rightarrow> bool" where
  "position_to_json to_json =
     (case to_json (model_Position_serialize (model_Position_new 1 2 3)) of Inl e \<Rightarrow> False
      | Inr s \<Rightarrow> s = ''{\"x\":1,\"y\":2,\"z\":3}'')"

text \<open>A serializer that keeps the law; it is only meant for numbers and structs of numbers.\<close>

definition flat_json :: "serde_value \<Rightarrow> string + string" where
  "flat_json s =
     (case s of Serde_u32 v \<Rightarrow> Inr (show_nat (unat v))
      | Serde_struct name fs \<Rightarrow>
          if list_all (\<lambda>(n, s). lower_name n \<and> (case s of Serde_u32 v \<Rightarrow> True | _ \<Rightarrow> False)) fs
          then Inr (''{'' @ json_members (map (\<lambda>(n, s). (n, case s of Serde_u32 v \<Rightarrow> v | _ \<Rightarrow> 0)) fs) @ ''}'')
          else Inl ''not flat'')"

interpretation flat: serde_json flat_json
proof unfold_locales
  fix name and ms :: "(string \<times> u32) list"
  have "map ((\<lambda>(n, s). (n, case s of Serde_u32 v \<Rightarrow> v | _ \<Rightarrow> 0)) \<circ> (\<lambda>(n, v). (n, Serde_u32 v))) ms = ms"
    by (induction ms) auto
  moreover assume "list_all (\<lambda>(n, v). lower_name n) ms"
  ultimately show "flat_json (Serde_struct name (map (\<lambda>(n, v). (n, Serde_u32 v)) ms)) = Inr (''{'' @ json_members ms @ ''}'')"
    by (auto simp: flat_json_def list_all_iff)
qed

context serde_json
begin

lemma position_json:
  "to_json (model_Position_serialize p) = Inr (''{'' @ json_members [(''x'', pos_x p), (''y'', pos_y p), (''z'', pos_z p)] @ ''}'')"
  using flat [of "[(''x'', pos_x p), (''y'', pos_y p), (''z'', pos_z p)]" "''Position''"]
  by (simp add: model_Position_serialize_def lower_name_def)

end

section \<open>Results\<close>

text \<open>The request line of the tests with any headers and any bytes behind them.\<close>

lemma index_line: "token ''GET'' \<and> token ''/index.html'' \<and> token ''HTTP/1.1''"
  by code_simp

lemma host_header: "to_ascii_lowercase ''Host'' = ''host'' \<and> valid_header (''Host'', ''example.com'')"
  by code_simp

lemma index_parsed:
  assumes "\<forall>h \<in> set hs. valid_header h"
  shows "HttpRequest_parse alloc \<lparr>rd_data = as_bytes (''GET'' @ '' '' @ ''/index.html'' @ '' '' @ ''HTTP/1.1'' @ CRLF) @
       as_bytes (concat (map (\<lambda>(n, v). format_header n v) hs) @ CRLF) @ rest, rd_err = e\<rparr> =
    (case get_content_length \<lparr>headers = hs\<rparr> of
       None \<Rightarrow> Ok (\<lparr>req_method = ''GET'', uri = ''/index.html'', version = ''HTTP/1.1'', req_headers = \<lparr>headers = hs\<rparr>,
         body = []\<rparr>, \<lparr>rd_data = rest, rd_err = e\<rparr>)
     | Some len \<Rightarrow>
         bindE (vec_resize alloc len) (\<lambda>_.
         bindE (map_err (\<lambda>e. ''Failed to read body: '' @ e) (read_exact len \<lparr>rd_data = rest, rd_err = e\<rparr>)) (\<lambda>(b, r).
           Ok (\<lparr>req_method = ''GET'', uri = ''/index.html'', version = ''HTTP/1.1'', req_headers = \<lparr>headers = hs\<rparr>,
             body = b\<rparr>, r))))"
  using parse_request_line_ok [of "''GET''" "''/index.html''" "''HTTP/1.1''"] index_line
    parse_header_section_block [OF assms]
  by (simp add: HttpRequest_parse_def)

lemma no_length: "get_content_length \<lparr>headers = [(''Host'', ''example.com'')]\<rparr> = None"
  using host_header by (simp add: get_content_length_def HttpHeaders_get_def lower_content_names)

lemma length_13:
  "valid_header (''Content-Length'', ''13'')"
  "get_content_length \<lparr>headers = [(''Host'', ''example.com''), (''Content-Length'', ''13'')]\<rparr> = Some 13"
proof -
  have digits: "show_nat 13 = ''13''"
    by code_simp
  show "valid_header (''Content-Length'', ''13'')"
    using valid_content_length [of 13] by (simp only: digits)
  show "get_content_length \<lparr>headers = [(''Host'', ''example.com''), (''Content-Length'', ''13'')]\<rparr> = Some 13"
    using host_header parse_usize_show_nat [of 13]
    by (simp add: digits get_content_length_def HttpHeaders_get_def lower_content_names)
qed

lemma request_tests:
  "test_parse" "test_parse_without_body" "\<not> test_parse_without_content_length"
proof -
  let ?host = "[(''Host'', ''example.com'')]"
  have host: "\<forall>h \<in> set ?host. valid_header h" "\<forall>h \<in> set (?host @ [(''Content-Length'', ''13'')]). valid_header h"
    using host_header length_13(1) by simp_all
  show test_parse
    using index_parsed [OF host(2), of "\<lambda>_. True" "as_bytes (''Hello World'' @ CRLF)" None] length_13(2)
    by (simp add: test_parse_def format_header_def vec_resize_def read_exact_def HttpHeaders_eq_def)
  show test_parse_without_body
    using index_parsed [OF host(1), of "\<lambda>_. True" "[]" None] no_length
    by (simp add: test_parse_without_body_def format_header_def HttpHeaders_eq_def)
  show "\<not> test_parse_without_content_length"
    using index_parsed [OF host(1), of "\<lambda>_. True" "as_bytes (''Hello World'' @ CRLF)" None] no_length
    by (simp add: test_parse_without_content_length_def format_header_def)
qed

lemma response_test: "test_write_to"
proof -
  have "show_nat (length ''Hello World'') = ''11''" "show_nat 200 = ''200''"
    by code_simp+
  then show ?thesis
    by (simp add: test_write_to_def write_to_def write_all_def response_buffer_def new_200_def
        new_with_headers_def HttpHeaders_iter_def)
qed

text \<open>A root that is exact is found exactly.\<close>

lemma root_exact: "n * n < 2 ^ 31 \<Longrightarrow> root_cm (int (n * n)) = of_nat n"
proof -
  assume "n * n < 2 ^ 31"
  then obtain d where d: "root_cm (int (n * n)) = of_nat d" "abs (real d - sqrt (real (n * n))) < 51 / 100"
    using root_accurate [of "n * n"] unfolding root_cm_def by metis
  then have "abs (real d - real n) < 51 / 100"
    by simp
  then have "d = n"
    by linarith
  with d show ?thesis
    by simp
qed

lemma distance_tests: "distance_test checks"
  using root_exact [of 5] root_exact [of 13]
  by (cases checks) (simp_all add: distance_test_def distance_unchecked distance_checked_iff
      in_i32_range_def model_Position_new_def sq_dist_def coord_diff_def)

lemma ranging_test: "log10 (fp_of_bits 0x3F800000) = fp_of_int 0 \<Longrightarrow> rssi_at_far log10"
  using rssi_at_decades [of "0x3F800000" log10 0 0]
  by (simp add: rssi_at_far_def fp_of_bits_def Let_def)

lemma json_test: "serde_json to_json \<Longrightarrow> position_to_json to_json"
proof -
  assume "serde_json to_json"
  moreover have "show_nat 1 = ''1''" "show_nat 2 = ''2''" "show_nat 3 = ''3''"
    by code_simp+
  ultimately show ?thesis
    using serde_json.position_json [of to_json "model_Position_new 1 2 3"]
    by (simp add: position_to_json_def model_Position_new_def)
qed



end
